(* ===== verification/Prelude.thy ===== *)
theory Prelude
  imports Main "HOL-Library.Word" "HOL-Library.Char_ord" "HOL-Library.List_Lexorder"
begin

text \<open>
  What every component shares: the machine integers, results with errors, the part of
  Rust's \<open>str\<close>, \<open>Duration\<close> and \<open>BTreeMap\<close> that the crates use, and the locales that
  several components instantiate.

  A Rust \<open>String\<close> is a list of UTF-8 bytes, so it is HOL's \<^typ>\<open>string\<close> with one
  \<^typ>\<open>char\<close> per byte; \<open>length\<close> is then Rust's \<open>len\<close>. White space is Unicode's
  \<open>White_Space\<close>, matched by the UTF-8 encodings of its 25 code points: UTF-8 is
  self-synchronising, so on valid strings a byte match is a match of the code point.
  \<open>usize\<close> values are \<^typ>\<open>nat\<close>; \<open>u32\<close> and \<open>u64\<close> are words, whose \<open>+\<close> wraps as Rust's
  does in the release profile.
\<close>

named_theorems codec_simps \<open>equations of the textual enum codecs\<close>
named_theorems frame_simps \<open>which fields an operation leaves alone\<close>

section \<open>Integers and results\<close>

type_synonym u16 = "16 word"
type_synonym u32 = "32 word"
type_synonym u64 = "64 word"

definition and_then :: "'e + 'a \<Rightarrow> ('a \<Rightarrow> 'e + 'b) \<Rightarrow> 'e + 'b" where
  "and_then r f = (case r of Inl e \<Rightarrow> Inl e | Inr x \<Rightarrow> f x)"

definition map_err :: "('e \<Rightarrow> 'f) \<Rightarrow> 'e + 'a \<Rightarrow> 'f + 'a" where
  "map_err f r = (case r of Inl e \<Rightarrow> Inl (f e) | Inr x \<Rightarrow> Inr x)"

definition ok_or :: "'e \<Rightarrow> 'a option \<Rightarrow> 'e + 'a" where
  "ok_or e opt = (case opt of None \<Rightarrow> Inl e | Some x \<Rightarrow> Inr x)"

definition unwrap_or :: "'a \<Rightarrow> 'a option \<Rightarrow> 'a" where
  "unwrap_or d opt = (case opt of None \<Rightarrow> d | Some x \<Rightarrow> x)"

lemma and_then_simps [simp]:
  "and_then (Inl e) f = Inl e"
  "and_then (Inr x) f = f x"
  by (simp_all add: and_then_def)

lemma and_then_Inr: "and_then r f = Inr y \<longleftrightarrow> (\<exists>x. r = Inr x \<and> f x = Inr y)"
  by (cases r) auto

lemma map_err_simps [simp]:
  "map_err f (Inl e) = Inl (f e)"
  "map_err f (Inr x) = Inr x"
  by (simp_all add: map_err_def)

lemma map_err_Inr [simp]: "map_err f r = Inr x \<longleftrightarrow> r = Inr x"
  by (cases r) auto

lemma ok_or_simps [simp]:
  "ok_or e None = Inl e"
  "ok_or e (Some x) = Inr x"
  by (simp_all add: ok_or_def)

lemma ok_or_Inr [simp]: "ok_or e opt = Inr x \<longleftrightarrow> opt = Some x"
  by (cases opt) auto

lemma unwrap_or_simps [simp]:
  "unwrap_or d None = d"
  "unwrap_or d (Some x) = x"
  by (simp_all add: unwrap_or_def)

text \<open>\<open>for x in xs { f(x)?; }\<close>: the first error ends the loop.\<close>

fun try_each :: "('a \<Rightarrow> 'e + unit) \<Rightarrow> 'a list \<Rightarrow> 'e + unit" where
  "try_each f [] = Inr ()"
| "try_each f (x # xs) = (case f x of Inl e \<Rightarrow> Inl e | Inr _ \<Rightarrow> try_each f xs)"

lemma try_each_Inr: "try_each f xs = Inr () \<longleftrightarrow> (\<forall>x \<in> set xs. f x = Inr ())"
  by (induction xs) (auto split: sum.splits)

text \<open>\<open>xs.iter().map(f).collect::<Result<Vec<_>, _>>()\<close>.\<close>

fun try_map :: "('a \<Rightarrow> 'e + 'b) \<Rightarrow> 'a list \<Rightarrow> 'e + 'b list" where
  "try_map f [] = Inr []"
| "try_map f (x # xs) =
     (case f x of Inl e \<Rightarrow> Inl e
      | Inr y \<Rightarrow> (case try_map f xs of Inl e \<Rightarrow> Inl e | Inr ys \<Rightarrow> Inr (y # ys)))"

lemma try_map_Inr: "try_map f xs = Inr ys \<longleftrightarrow> list_all2 (\<lambda>x y. f x = Inr y) xs ys"
proof (induction xs arbitrary: ys)
  case Nil
  then show ?case by auto
next
  case (Cons x xs)
  then show ?case
    by (auto simp: list_all2_Cons1 Cons.IH [symmetric] simp del: Cons.IH split: sum.splits)
qed

section \<open>Strings\<close>

definition nl :: string where
  "nl = [CHR 0x0A]"

fun strip_prefix :: "string \<Rightarrow> string \<Rightarrow> string option" where
  "strip_prefix [] s = Some s"
| "strip_prefix (p # ps) [] = None"
| "strip_prefix (p # ps) (c # cs) = (if p = c then strip_prefix ps cs else None)"

definition strip_suffix :: "string \<Rightarrow> string \<Rightarrow> string option" where
  "strip_suffix s p = map_option rev (strip_prefix (rev p) (rev s))"

definition starts_with :: "string \<Rightarrow> string \<Rightarrow> bool" where
  "starts_with s p \<longleftrightarrow> strip_prefix p s \<noteq> None"

definition ends_with :: "string \<Rightarrow> string \<Rightarrow> bool" where
  "ends_with s p \<longleftrightarrow> strip_prefix (rev p) (rev s) \<noteq> None"

fun contains :: "string \<Rightarrow> string \<Rightarrow> bool" where
  "contains [] p \<longleftrightarrow> p = []"
| "contains (c # cs) p \<longleftrightarrow> starts_with (c # cs) p \<or> contains cs p"

lemma strip_prefix_Some: "strip_prefix p s = Some r \<longleftrightarrow> s = p @ r"
  by (induction p s rule: strip_prefix.induct) auto

lemma starts_with_iff: "starts_with s p \<longleftrightarrow> (\<exists>r. s = p @ r)"
  by (auto simp: starts_with_def strip_prefix_Some)

lemma ends_with_iff: "ends_with s p \<longleftrightarrow> (\<exists>r. s = r @ p)"
proof
  assume "ends_with s p"
  then obtain r where "rev s = rev p @ r"
    by (auto simp: ends_with_def strip_prefix_Some)
  then have "s = rev r @ p"
    by (metis rev_append rev_rev_ident)
  then show "\<exists>r. s = r @ p" ..
next
  assume "\<exists>r. s = r @ p"
  then obtain r where "s = r @ p" ..
  then have "strip_prefix (rev p) (rev s) = Some (rev r)"
    by (simp add: strip_prefix_Some)
  then show "ends_with s p"
    by (simp add: ends_with_def)
qed

lemma contains_iff: "contains s p \<longleftrightarrow> (\<exists>a b. s = a @ p @ b)"
proof (induction s)
  case Nil
  then show ?case by simp
next
  case (Cons c cs)
  show ?case
  proof
    assume "contains (c # cs) p"
    then consider r where "c # cs = p @ r" | a b where "cs = a @ p @ b"
      using Cons.IH by (auto simp: starts_with_iff)
    then show "\<exists>a b. c # cs = a @ p @ b"
    proof cases
      case 1
      then show ?thesis by (metis append_Nil)
    next
      case 2
      then show ?thesis by (metis append_Cons)
    qed
  next
    assume "\<exists>a b. c # cs = a @ p @ b"
    then obtain a b where ab: "c # cs = a @ p @ b" by blast
    show "contains (c # cs) p"
    proof (cases a)
      case Nil
      with ab have "starts_with (c # cs) p" by (auto simp: starts_with_iff)
      then show ?thesis by simp
    next
      case (Cons d ds)
      with ab have "cs = ds @ p @ b" by simp
      then have "contains cs p" using Cons.IH by blast
      then show ?thesis by simp
    qed
  qed
qed

text \<open>\<open>parts.join(sep)\<close>.\<close>

fun join :: "string \<Rightarrow> string list \<Rightarrow> string" where
  "join sep [] = []"
| "join sep [s] = s"
| "join sep (s # t # ts) = s @ sep @ join sep (t # ts)"

text \<open>\<open>char::to_ascii_lowercase\<close> on bytes.\<close>

definition ascii_lower :: "char \<Rightarrow> char" where
  "ascii_lower c = (if 65 \<le> (of_char c :: nat) \<and> (of_char c :: nat) \<le> 90
     then char_of (of_char c + 32 :: nat) else c)"

definition to_ascii_lowercase :: "string \<Rightarrow> string" where
  "to_ascii_lowercase s = map ascii_lower s"

definition is_ascii :: "string \<Rightarrow> bool" where
  "is_ascii s \<longleftrightarrow> (\<forall>c \<in> set s. (of_char c :: nat) < 128)"

subsection \<open>White space\<close>

definition ws_encodings :: "string list" where
  "ws_encodings =
     [[CHR 0x09], [CHR 0x0A], [CHR 0x0B], [CHR 0x0C], [CHR 0x0D], [CHR 0x20],
      [CHR 0xC2, CHR 0x85], [CHR 0xC2, CHR 0xA0], [CHR 0xE1, CHR 0x9A, CHR 0x80],
      [CHR 0xE2, CHR 0x80, CHR 0x80], [CHR 0xE2, CHR 0x80, CHR 0x81],
      [CHR 0xE2, CHR 0x80, CHR 0x82], [CHR 0xE2, CHR 0x80, CHR 0x83],
      [CHR 0xE2, CHR 0x80, CHR 0x84], [CHR 0xE2, CHR 0x80, CHR 0x85],
      [CHR 0xE2, CHR 0x80, CHR 0x86], [CHR 0xE2, CHR 0x80, CHR 0x87],
      [CHR 0xE2, CHR 0x80, CHR 0x88], [CHR 0xE2, CHR 0x80, CHR 0x89],
      [CHR 0xE2, CHR 0x80, CHR 0x8A], [CHR 0xE2, CHR 0x80, CHR 0xA8],
      [CHR 0xE2, CHR 0x80, CHR 0xA9], [CHR 0xE2, CHR 0x80, CHR 0xAF],
      [CHR 0xE2, CHR 0x81, CHR 0x9F], [CHR 0xE3, CHR 0x80, CHR 0x80]]"

text \<open>The first of the encodings that \<open>s\<close> starts with, and what follows it.\<close>

fun strip_any :: "string list \<Rightarrow> string \<Rightarrow> string option" where
  "strip_any [] s = None"
| "strip_any (w # ws) s =
     (case strip_prefix w s of
        Some r \<Rightarrow> (if length r < length s then Some r else strip_any ws s)
      | None \<Rightarrow> strip_any ws s)"

lemma strip_any_shorter: "strip_any ws s = Some r \<Longrightarrow> length r < length s"
  by (induction ws) (auto split: option.splits if_splits)

lemma strip_any_suffix: "strip_any ws s = Some r \<Longrightarrow> \<exists>w. w \<noteq> [] \<and> s = w @ r"
  by (induction ws) (auto simp: strip_prefix_Some split: option.splits if_splits)

function trim_start_of :: "string list \<Rightarrow> string \<Rightarrow> string" where
  "trim_start_of ws s = (case strip_any ws s of None \<Rightarrow> s | Some r \<Rightarrow> trim_start_of ws r)"
  by pat_completeness auto
termination
  by (relation "measure (\<lambda>(ws, s). length s)") (auto dest: strip_any_shorter)

declare trim_start_of.simps [simp del]

definition trim_start :: "string \<Rightarrow> string" where
  "trim_start s = trim_start_of ws_encodings s"

definition trim_end :: "string \<Rightarrow> string" where
  "trim_end s = rev (trim_start_of (map rev ws_encodings) (rev s))"

definition trim :: "string \<Rightarrow> string" where
  "trim s = trim_end (trim_start s)"

lemma trim_start_of_suffix: "\<exists>w. s = w @ trim_start_of ws s"
proof (induction ws s rule: trim_start_of.induct)
  case (1 ws s)
  show ?case
  proof (cases "strip_any ws s")
    case None
    then show ?thesis by (simp add: trim_start_of.simps)
  next
    case (Some r)
    with "1.IH" obtain w where "r = w @ trim_start_of ws r" by blast
    moreover from Some obtain v where "s = v @ r" by (auto dest: strip_any_suffix)
    ultimately have s: "s = (v @ w) @ trim_start_of ws r" by (metis append_assoc)
    from Some have "trim_start_of ws s = trim_start_of ws r"
      by (simp add: trim_start_of.simps [of ws s])
    with s show ?thesis by metis
  qed
qed

lemma trim_start_of_done: "strip_any ws (trim_start_of ws s) = None"
proof (induction ws s rule: trim_start_of.induct)
  case (1 ws s)
  then show ?case
    by (cases "strip_any ws s") (auto simp: trim_start_of.simps [of ws s])
qed

lemma trim_start_of_id: "strip_any ws s = None \<Longrightarrow> trim_start_of ws s = s"
  by (simp add: trim_start_of.simps)

lemma trim_infix: "\<exists>a b. s = a @ trim s @ b"
proof -
  obtain a where a: "s = a @ trim_start s"
    using trim_start_of_suffix [of s] by (auto simp: trim_start_def)
  obtain w where "rev (trim_start s) = w @ trim_start_of (map rev ws_encodings) (rev (trim_start s))"
    using trim_start_of_suffix by blast
  then have "trim_start s = trim_end (trim_start s) @ rev w"
    by (metis rev_append rev_rev_ident trim_end_def)
  with a show ?thesis
    by (metis trim_def)
qed

lemma trim_Nil [simp]: "trim [] = []"
  using trim_infix [of "[]"] by simp

lemma strip_any_prefix: "strip_any ws p \<noteq> None \<Longrightarrow> strip_any ws (p @ q) \<noteq> None"
proof (induction ws)
  case Nil
  then show ?case by simp
next
  case (Cons w ws)
  show ?case
  proof (cases "strip_prefix w p")
    case None
    then have "strip_any ws (p @ q) \<noteq> None" using Cons by simp
    then show ?thesis by (simp split: option.split)
  next
    case (Some r)
    then have "strip_prefix w (p @ q) = Some (r @ q)" by (simp add: strip_prefix_Some)
    then show ?thesis using Cons Some by (simp split: if_splits)
  qed
qed

lemma trim_idem [simp]: "trim (trim s) = trim s"
proof -
  let ?t = "trim_start s"
  obtain w where "rev ?t = w @ trim_start_of (map rev ws_encodings) (rev ?t)"
    using trim_start_of_suffix by blast
  then have t: "?t = trim s @ rev w"
    by (metis rev_append rev_rev_ident trim_def trim_end_def)
  have "strip_any ws_encodings ?t = None"
    by (simp add: trim_start_def trim_start_of_done)
  then have "strip_any ws_encodings (trim s) = None"
    using strip_any_prefix t by metis
  then have "trim_start (trim s) = trim s"
    by (simp add: trim_start_def trim_start_of_id)
  moreover have "trim_end (trim s) = trim s"
    by (simp add: trim_def trim_end_def trim_start_of_id trim_start_of_done)
  ultimately show ?thesis by (simp add: trim_def [of "trim s"])
qed

lemma trim_solid:
  assumes "strip_any ws_encodings s = None" and "strip_any (map rev ws_encodings) (rev s) = None"
  shows "trim s = s"
  using assms by (simp add: trim_def trim_start_def trim_end_def trim_start_of_id)

lemma solid_end: "strip_any (map rev ws_encodings) (CHR ''}'' # s) = None"
  by (simp add: ws_encodings_def)

lemma trim_braced: "trim (CHR ''{'' # m @ [CHR ''}'']) = CHR ''{'' # m @ [CHR ''}'']"
  by (rule trim_solid) (simp_all add: solid_end, simp add: ws_encodings_def)

lemma length_trim: "length (trim s) \<le> length s"
proof -
  obtain a b where "s = a @ trim s @ b" using trim_infix by blast
  then have "length s = length a + length (trim s) + length b"
    by (metis add.assoc length_append)
  then show ?thesis by simp
qed

text \<open>\<open>s.trim_start_matches(c)\<close> and \<open>s.trim_end_matches(c)\<close> for one character.\<close>

definition trim_start_matches :: "char \<Rightarrow> string \<Rightarrow> string" where
  "trim_start_matches c s = dropWhile (\<lambda>d. d = c) s"

definition trim_end_matches :: "char \<Rightarrow> string \<Rightarrow> string" where
  "trim_end_matches c s = rev (dropWhile (\<lambda>d. d = c) (rev s))"

subsection \<open>Lines\<close>

text \<open>
  \<open>str::lines\<close>: the text is split after each newline; a line loses its newline and then
  one carriage return before it. A last line without a newline is kept as it is.
\<close>

definition strip_cr :: "string \<Rightarrow> string" where
  "strip_cr l = (if l \<noteq> [] \<and> last l = CHR 0x0D then butlast l else l)"

fun lines_from :: "string \<Rightarrow> string \<Rightarrow> string list" where
  "lines_from acc [] = (if acc = [] then [] else [acc])"
| "lines_from acc (c # cs) =
     (if c = CHR 0x0A then strip_cr acc # lines_from [] cs else lines_from (acc @ [c]) cs)"

definition str_lines :: "string \<Rightarrow> string list" where
  "str_lines s = lines_from [] s"

text \<open>\<open>s.splitn(2, c)\<close> and \<open>s.split_once(c)\<close>.\<close>

fun split_at_char :: "char \<Rightarrow> string \<Rightarrow> string \<times> string option" where
  "split_at_char d [] = ([], None)"
| "split_at_char d (c # cs) =
     (if c = d then ([], Some cs)
      else (let (a, b) = split_at_char d cs in (c # a, b)))"

lemma split_at_char_append:
  "d \<notin> set a \<Longrightarrow> split_at_char d (a @ d # b) = (a, Some b)"
  by (induction a) auto

lemma split_at_char_length: "split_at_char d s = (a, Some b) \<Longrightarrow> length s = Suc (length a + length b)"
  by (induction s arbitrary: a) (auto split: if_splits prod.splits)

lemma split_at_char_none: "d \<notin> set a \<Longrightarrow> split_at_char d a = (a, None)"
  by (induction a) auto

lemma lines_from_no_nl: "CHR 0x0A \<notin> set l \<Longrightarrow> lines_from acc (l @ t) = lines_from (acc @ l) t"
  by (induction l arbitrary: acc) auto

lemma str_lines_Nil [simp]: "str_lines [] = []"
  by (simp add: str_lines_def)

lemma str_lines_cons:
  assumes "CHR 0x0A \<notin> set l" and "CHR 0x0D \<notin> set l"
  shows "str_lines (l @ nl @ t) = l # str_lines t"
proof -
  have "strip_cr l = l"
    using assms(2) by (metis last_in_set strip_cr_def)
  then show ?thesis
    using lines_from_no_nl [OF assms(1), of "[]" "nl @ t"]
    by (simp add: str_lines_def nl_def)
qed

text \<open>\<open>s.split_whitespace()\<close>: maximal runs without white space.\<close>

function split_ws_from :: "string \<Rightarrow> string \<Rightarrow> string list" where
  "split_ws_from acc s =
     (case strip_any ws_encodings s of
        Some r \<Rightarrow> (if acc = [] then split_ws_from [] r else acc # split_ws_from [] r)
      | None \<Rightarrow> (case s of [] \<Rightarrow> (if acc = [] then [] else [acc])
                | c # cs \<Rightarrow> split_ws_from (acc @ [c]) cs))"
  by pat_completeness auto
termination
  by (relation "measure (\<lambda>(acc, s). length s)") (auto dest: strip_any_shorter)

declare split_ws_from.simps [simp del]

definition split_whitespace :: "string \<Rightarrow> string list" where
  "split_whitespace s = split_ws_from [] s"

subsection \<open>Decimal numbers\<close>

definition digit_char :: "nat \<Rightarrow> char" where
  "digit_char d = char_of (48 + d)"

definition hex_char :: "nat \<Rightarrow> char" where
  "hex_char d = (if d < 10 then char_of (48 + d) else char_of (87 + d))"

fun show_nat :: "nat \<Rightarrow> string" where
  "show_nat n = (if n < 10 then [digit_char n] else show_nat (n div 10) @ [digit_char (n mod 10)])"

declare show_nat.simps [simp del]

lemma show_nat_nonempty: "show_nat n \<noteq> []"
  by (subst show_nat.simps) simp

text \<open>
  \<open>str::parse::<u32>\<close>: an optional \<open>+\<close>, then at least one ASCII digit, no overflow.
\<close>

fun parse_digits :: "nat \<Rightarrow> string \<Rightarrow> nat option" where
  "parse_digits acc [] = Some acc"
| "parse_digits acc (c # cs) =
     (let d = of_char c :: nat in
      if 48 \<le> d \<and> d \<le> 57 then parse_digits (10 * acc + (d - 48)) cs else None)"

definition parse_u32 :: "string \<Rightarrow> u32 option" where
  "parse_u32 s =
     (let ds = (case s of c # cs \<Rightarrow> if c = CHR ''+'' then cs else s | [] \<Rightarrow> []) in
      if ds = [] then None
      else case parse_digits 0 ds of
             None \<Rightarrow> None
           | Some n \<Rightarrow> if n < 2 ^ 32 then Some (of_nat n) else None)"

lemma of_digit_char [simp]: "d < 10 \<Longrightarrow> (of_char (digit_char d) :: nat) = 48 + d"
  by (simp add: digit_char_def)

lemma parse_digits_append: "parse_digits a (s @ t) = Option.bind (parse_digits a s) (\<lambda>b. parse_digits b t)"
  by (induction a s rule: parse_digits.induct) (simp_all add: Let_def)

text \<open>Decimal output reads back, so it determines the number.\<close>

lemma parse_show_nat: "parse_digits 0 (show_nat n) = Some n"
proof (induction n rule: show_nat.induct)
  case (1 n)
  show ?case
  proof (cases "n < 10")
    case True
    then show ?thesis by (simp add: show_nat.simps [of n])
  next
    case False
    then show ?thesis
      using "1.IH" by (subst show_nat.simps) (simp add: parse_digits_append)
  qed
qed

lemma show_nat_inj [simp]: "show_nat m = show_nat n \<longleftrightarrow> m = n"
  by (metis option.inject parse_show_nat)

lemma show_nat_chars: "c \<in> set (show_nat n) \<Longrightarrow> 48 \<le> (of_char c :: nat) \<and> (of_char c :: nat) \<le> 57"
proof (induction n rule: show_nat.induct)
  case (1 n)
  show ?case
  proof (cases "n < 10")
    case True
    then show ?thesis using "1.prems" by (subst (asm) show_nat.simps) simp
  next
    case False
    then show ?thesis
      using 1 by (subst (asm) (2) show_nat.simps) auto
  qed
qed

subsection \<open>Hexadecimal numbers\<close>

fun show_hex :: "nat \<Rightarrow> string" where
  "show_hex n = (if n < 16 then [hex_char n] else show_hex (n div 16) @ [hex_char (n mod 16)])"

declare show_hex.simps [simp del]

subsection \<open>The FNV-1a hash of a text, in hexadecimal\<close>

definition hash_step :: "u64 \<Rightarrow> char \<Rightarrow> u64" where
  "hash_step hash byte = (xor hash (of_nat (of_char byte))) * 0x100000001B3"

definition fnv_hash :: "string \<Rightarrow> u64" where
  "fnv_hash value = foldl hash_step 0xCBF29CE484222325 value"

definition hex_digit :: "nat \<Rightarrow> char" where
  "hex_digit d = (if d < 10 then char_of (48 + d) else char_of (87 + d))"

text \<open>\<open>{:016x}\<close>: 64 bits are sixteen hexadecimal digits, most significant first.\<close>

definition hex16 :: "u64 \<Rightarrow> string" where
  "hex16 h = map (\<lambda>i. hex_digit (unat h div 16 ^ (15 - i) mod 16)) [0..<16]"

end
