(* ===== verification/BTree.thy ===== *)
theory BTree
  imports Prelude
begin

text \<open>
  \<open>std::collections::BTreeMap\<close> as the list of its entries in key order, which is the order
  its iterators give them in. The locale \<open>ordered_map\<close> is the contract the components
  rely on; the interpretation \<open>bt\<close> discharges it for this representation.
\<close>

type_synonym ('k, 'v) btree = "('k \<times> 'v) list"

fun bt_insert :: "'k::linorder \<Rightarrow> 'v \<Rightarrow> ('k, 'v) btree \<Rightarrow> ('k, 'v) btree" where
  "bt_insert k v [] = [(k, v)]"
| "bt_insert k v ((k', v') # m) =
     (if k < k' then (k, v) # (k', v') # m
      else if k = k' then (k, v) # m
      else (k', v') # bt_insert k v m)"

definition bt_get :: "('k, 'v) btree \<Rightarrow> 'k \<Rightarrow> 'v option" where
  "bt_get m k = map_of m k"

text \<open>\<open>if let Some(v) = m.get_mut(&k) { *v = f(*v) }\<close>.\<close>

definition bt_adjust :: "'k \<Rightarrow> ('v \<Rightarrow> 'v) \<Rightarrow> ('k, 'v) btree \<Rightarrow> ('k, 'v) btree" where
  "bt_adjust k f m = map (\<lambda>(k', v). (k', if k' = k then f v else v)) m"

definition bt_keys :: "('k, 'v) btree \<Rightarrow> 'k list" where
  "bt_keys m = map fst m"

definition bt_values :: "('k, 'v) btree \<Rightarrow> 'v list" where
  "bt_values m = map snd m"

definition bt_ok :: "('k::linorder, 'v) btree \<Rightarrow> bool" where
  "bt_ok m \<longleftrightarrow> sorted_wrt (<) (map fst m)"

definition bt_of_list :: "('k::linorder \<times> 'v) list \<Rightarrow> ('k, 'v) btree" where
  "bt_of_list kvs = fold (\<lambda>(k, v). bt_insert k v) kvs []"

subsection \<open>The contract\<close>

locale ordered_map =
  fixes ins :: "'k::linorder \<Rightarrow> 'v \<Rightarrow> 'm \<Rightarrow> 'm"
    and get :: "'m \<Rightarrow> 'k \<Rightarrow> 'v option"
    and adj :: "'k \<Rightarrow> ('v \<Rightarrow> 'v) \<Rightarrow> 'm \<Rightarrow> 'm"
    and keys :: "'m \<Rightarrow> 'k list"
    and ok :: "'m \<Rightarrow> bool"
  assumes get_ins: "get (ins k v m) k' = (if k' = k then Some v else get m k')"
    and get_adj: "get (adj k f m) k' = (if k' = k then map_option f (get m k) else get m k')"
    and set_keys: "set (keys m) = {k. get m k \<noteq> None}"
    and keys_adj: "keys (adj k f m) = keys m"
    and ok_ins: "ok m \<Longrightarrow> ok (ins k v m)"
    and ok_adj: "ok m \<Longrightarrow> ok (adj k f m)"
    and ok_keys: "ok m \<Longrightarrow> sorted_wrt (<) (keys m)"
begin

lemma get_ins_same [simp]: "get (ins k v m) k = Some v"
  by (simp add: get_ins)

lemma get_ins_other [simp]: "k' \<noteq> k \<Longrightarrow> get (ins k v m) k' = get m k'"
  by (simp add: get_ins)

lemma get_adj_other [simp]: "k' \<noteq> k \<Longrightarrow> get (adj k f m) k' = get m k'"
  by (simp add: get_adj)

lemma keys_ins: "set (keys (ins k v m)) = insert k (set (keys m))"
  by (auto simp: set_keys get_ins)

lemma ok_distinct: "ok m \<Longrightarrow> distinct (keys m)"
  using ok_keys strict_sorted_iff by blast

lemma adj_absent: "get m k = None \<Longrightarrow> get (adj k f m) = get m"
  by (auto simp: fun_eq_iff get_adj)

lemma ok_fold_ins: "ok m \<Longrightarrow> ok (fold (\<lambda>(k, v). ins k v) kvs m)"
  by (induction kvs arbitrary: m) (auto simp: ok_ins)

lemma get_fold_ins:
  "get (fold (\<lambda>(k, v). ins k v) kvs m) k =
     (case map_of (rev kvs) k of Some v \<Rightarrow> Some v | None \<Rightarrow> get m k)"
  by (induction kvs arbitrary: m) (auto simp: get_ins map_add_def split: option.splits)

text \<open>Two maps with the same lookups list the same keys in the same order.\<close>

lemma keys_unique:
  assumes "ok m" and "ok m'" and "get m = get m'"
  shows "keys m = keys m'"
proof (rule strict_sorted_equal)
  show "sorted_wrt (<) (keys m)" "sorted_wrt (<) (keys m')"
    using assms ok_keys by blast+
  show "set (keys m) = set (keys m')"
    using assms(3) by (simp add: set_keys)
qed

end

subsection \<open>The representation meets it\<close>

lemma bt_get_insert: "bt_get (bt_insert k v m) k' = (if k' = k then Some v else bt_get m k')"
  by (induction k v m rule: bt_insert.induct) (auto simp: bt_get_def)

lemma bt_get_adjust:
  "bt_get (bt_adjust k f m) k' = (if k' = k then map_option f (bt_get m k) else bt_get m k')"
  by (induction m) (auto simp: bt_get_def bt_adjust_def)

lemma bt_keys_adjust: "bt_keys (bt_adjust k f m) = bt_keys m"
  by (simp add: bt_keys_def bt_adjust_def case_prod_beta)

lemma bt_set_keys: "set (bt_keys m) = {k. bt_get m k \<noteq> None}"
  by (auto simp: bt_keys_def bt_get_def map_of_eq_None_iff)

lemma bt_insert_keys: "set (map fst (bt_insert k v m)) = insert k (set (map fst m))"
  by (induction k v m rule: bt_insert.induct) auto

lemma bt_ok_insert: "bt_ok m \<Longrightarrow> bt_ok (bt_insert k v m)"
proof (induction k v m rule: bt_insert.induct)
  case (1 k v)
  then show ?case by (simp add: bt_ok_def)
next
  case (2 k v k' v' m)
  then show ?case
    using bt_insert_keys [of k v m] by (auto simp: bt_ok_def)
qed

lemma bt_ok_adjust: "bt_ok m \<Longrightarrow> bt_ok (bt_adjust k f m)"
  using bt_keys_adjust [of k f m] by (simp add: bt_ok_def bt_keys_def)

interpretation bt: ordered_map bt_insert bt_get bt_adjust bt_keys bt_ok
proof unfold_locales
  show "bt_ok m \<Longrightarrow> sorted_wrt (<) (bt_keys m)" for m :: "('a, 'b) btree"
    by (simp add: bt_ok_def bt_keys_def)
qed (simp_all add: bt_get_insert bt_get_adjust bt_keys_adjust bt_set_keys bt_ok_insert bt_ok_adjust)

lemma bt_ok_Nil [simp]: "bt_ok []"
  by (simp add: bt_ok_def)

lemma bt_get_Nil [simp]: "bt_get [] k = None"
  by (simp add: bt_get_def)

lemma bt_ok_of_list: "bt_ok (bt_of_list kvs)"
  by (simp add: bt_of_list_def bt.ok_fold_ins)

lemma bt_get_of_list: "bt_get (bt_of_list kvs) k = map_of (rev kvs) k"
  by (simp add: bt_of_list_def bt.get_fold_ins split: option.splits)

lemma bt_ok_Cons: "bt_ok ((k, v) # m) \<longleftrightarrow> bt_ok m \<and> (\<forall>k' \<in> set (map fst m). k < k')"
  by (auto simp: bt_ok_def)

lemma bt_ok_tl: "bt_ok (kv # m) \<Longrightarrow> bt_ok m"
  by (cases kv) (simp add: bt_ok_Cons)

text \<open>A map in key order is rebuilt by inserting its own entries.\<close>

lemma bt_insert_largest: "(\<forall>k' \<in> set (map fst m). k' < k) \<Longrightarrow> bt_insert k v m = m @ [(k, v)]"
  by (induction m) (auto simp: less_not_sym)

lemma bt_fold_sorted:
  "bt_ok (m @ kvs) \<Longrightarrow> fold (\<lambda>(k, v). bt_insert k v) kvs m = m @ kvs"
proof (induction kvs arbitrary: m)
  case Nil
  then show ?case by simp
next
  case (Cons kv kvs)
  obtain k v where kv: "kv = (k, v)" by (cases kv)
  have "\<forall>k' \<in> set (map fst m). k' < k"
    using Cons.prems by (auto simp: kv bt_ok_def sorted_wrt_append)
  then have "bt_insert k v m = m @ [kv]"
    by (simp add: bt_insert_largest kv)
  then show ?case
    using Cons.IH [of "m @ [kv]"] Cons.prems by (simp add: kv)
qed

lemma bt_of_list_sorted: "bt_ok kvs \<Longrightarrow> bt_of_list kvs = kvs"
  by (simp add: bt_of_list_def bt_fold_sorted)

text \<open>Values are listed in key order, so they are determined by keys and lookups.\<close>

lemma bt_entries: "bt_ok m \<Longrightarrow> map (\<lambda>k. (k, the (bt_get m k))) (bt_keys m) = m"
proof (induction m)
  case Nil
  then show ?case by (simp add: bt_keys_def)
next
  case (Cons kv m)
  obtain k v where kv: "kv = (k, v)" by (cases kv)
  have ok: "bt_ok m" and lt: "\<forall>k' \<in> set (bt_keys m). k < k'"
    using Cons.prems by (auto simp: kv bt_ok_Cons bt_keys_def)
  have "map (\<lambda>k'. (k', the (bt_get (kv # m) k'))) (bt_keys m)
      = map (\<lambda>k'. (k', the (bt_get m k'))) (bt_keys m)"
    using lt by (auto simp: kv bt_get_def)
  also have "\<dots> = m" by (rule Cons.IH [OF ok])
  finally show ?case by (simp add: kv bt_keys_def bt_get_def)
qed

lemma bt_eq_iff: "bt_ok m \<Longrightarrow> bt_ok m' \<Longrightarrow> m = m' \<longleftrightarrow> bt_get m = bt_get m'"
  using bt_entries [of m] bt_entries [of m'] bt.keys_unique [of m m'] by metis

text \<open>\<open>remove\<close>.\<close>

definition bt_remove :: "'k \<Rightarrow> ('k, 'v) btree \<Rightarrow> ('k, 'v) btree" where
  "bt_remove k m = filter (\<lambda>(k', _). k' \<noteq> k) m"

lemma bt_get_remove: "bt_get (bt_remove k m) k' = (if k' = k then None else bt_get m k')"
  by (induction m) (auto simp: bt_remove_def bt_get_def)

lemma bt_ok_remove: "bt_ok m \<Longrightarrow> bt_ok (bt_remove k m)"
proof -
  have "map fst (bt_remove k m) = filter (\<lambda>k'. k' \<noteq> k) (map fst m)"
    by (induction m) (auto simp: bt_remove_def)
  then show "bt_ok m \<Longrightarrow> ?thesis" by (simp add: bt_ok_def sorted_wrt_filter)
qed

end
