(* ===== verification/Json.thy ===== *)
theory Json
  imports BTree
begin

text \<open>
  \<open>serde_json::Value\<close>: its variants and the accessors the crates call. An object is a
  \<open>BTreeMap\<close> (the default of \<open>serde_json\<close>). A float is carried by its 64 bits and never
  computed with. The text codec (\<open>to_string\<close>, \<open>from_str\<close>) is third-party code: it is the
  parameter \<open>codec\<close> of the definitions that use it.
\<close>

datatype json_num = PosInt u64 | NegInt int | Float u64

datatype json =
    JNull
  | JBool bool
  | JNum json_num
  | JStr string
  | JArr "json list"
  | JObj "(string \<times> json) list"

record codec =
  to_text :: "json \<Rightarrow> string"
  from_text :: "string \<Rightarrow> string + json"

text \<open>The \<open>json!\<close> object literal: entries in source order.\<close>

definition jobj :: "(string \<times> json) list \<Rightarrow> json" where
  "jobj kvs = JObj (bt_of_list kvs)"

definition jnat :: "nat \<Rightarrow> json" where
  "jnat n = JNum (PosInt (of_nat n))"

definition ju32 :: "u32 \<Rightarrow> json" where
  "ju32 n = JNum (PosInt (ucast n))"

definition jopt :: "('a \<Rightarrow> json) \<Rightarrow> 'a option \<Rightarrow> json" where
  "jopt f opt = (case opt of None \<Rightarrow> JNull | Some x \<Rightarrow> f x)"

fun json_get :: "json \<Rightarrow> string \<Rightarrow> json option" where
  "json_get (JObj m) k = bt_get m k"
| "json_get _ k = None"

fun as_str :: "json \<Rightarrow> string option" where
  "as_str (JStr s) = Some s"
| "as_str _ = None"

fun as_bool :: "json \<Rightarrow> bool option" where
  "as_bool (JBool b) = Some b"
| "as_bool _ = None"

fun as_u64 :: "json \<Rightarrow> u64 option" where
  "as_u64 (JNum (PosInt n)) = Some n"
| "as_u64 _ = None"

fun as_array :: "json \<Rightarrow> json list option" where
  "as_array (JArr vs) = Some vs"
| "as_array _ = None"

fun as_object :: "json \<Rightarrow> (string, json) btree option" where
  "as_object (JObj m) = Some m"
| "as_object _ = None"

text \<open>\<open>value[key] = v\<close> on an object (\<open>IndexMut\<close>; only used on objects).\<close>

fun json_set :: "string \<Rightarrow> json \<Rightarrow> json \<Rightarrow> json" where
  "json_set k v (JObj m) = JObj (bt_insert k v m)"
| "json_set k v j = j"

definition get_str :: "json \<Rightarrow> string \<Rightarrow> string option" where
  "get_str v k = Option.bind (json_get v k) as_str"

definition get_u64 :: "json \<Rightarrow> string \<Rightarrow> u64 option" where
  "get_u64 v k = Option.bind (json_get v k) as_u64"

definition get_bool :: "json \<Rightarrow> string \<Rightarrow> bool option" where
  "get_bool v k = Option.bind (json_get v k) as_bool"

definition get_array :: "json \<Rightarrow> string \<Rightarrow> json list option" where
  "get_array v k = Option.bind (json_get v k) as_array"

lemma json_get_jobj [simp]: "json_get (jobj kvs) k = map_of (rev kvs) k"
  by (simp add: jobj_def bt_get_of_list)

lemma json_get_set [simp]:
  "json_get (json_set k v (JObj m)) k' = (if k' = k then Some v else json_get (JObj m) k')"
  by (simp add: bt.get_ins)

lemma json_get_set_jobj [simp]:
  "json_get (json_set k v (jobj kvs)) k' = (if k' = k then Some v else json_get (jobj kvs) k')"
  unfolding jobj_def by (rule json_get_set)

lemmas json_access = get_str_def get_u64_def get_bool_def get_array_def

end
