(* ===== verification/Machines.thy ===== *)
theory Machines
  imports Prelude
begin

text \<open>
  Components that consume inputs and emit outputs: a run over a list of inputs, and the
  locales in which an invariant of one step becomes an invariant of every run. Each
  component interprets them on its own step function.
\<close>

fun run_emit :: "('s \<Rightarrow> 'i \<Rightarrow> 's \<times> 'o list) \<Rightarrow> 's \<Rightarrow> 'i list \<Rightarrow> 's \<times> 'o list" where
  "run_emit step s [] = (s, [])"
| "run_emit step s (i # is) =
     (case step s i of (s', os) \<Rightarrow>
       (case run_emit step s' is of (s'', os') \<Rightarrow> (s'', os @ os')))"

lemma run_emit_append:
  "run_emit step s (is @ js) =
     (case run_emit step s is of (s', os) \<Rightarrow>
       (case run_emit step s' js of (s'', os') \<Rightarrow> (s'', os @ os')))"
  by (induction "is" arbitrary: s) (auto split: prod.splits)

lemma run_emit_from_step:
  "run_emit step s is = (s', os) \<Longrightarrow> e \<in> set os \<Longrightarrow>
   \<exists>s1 i s2 new. i \<in> set is \<and> step s1 i = (s2, new) \<and> e \<in> set new"
proof (induction "is" arbitrary: s s' os)
  case Nil
  then show ?case by simp
next
  case (Cons i "is")
  obtain s1 new where s1: "step s i = (s1, new)" by fastforce
  obtain s2 more where s2: "run_emit step s1 is = (s2, more)" by fastforce
  have "e \<in> set new \<or> e \<in> set more" using Cons.prems s1 s2 by auto
  then show ?case using Cons.IH [OF s2] s1 by auto
qed

text \<open>An invariant that relates the state to everything consumed and emitted so far.\<close>

locale emitting_machine =
  fixes step :: "'s \<Rightarrow> 'i \<Rightarrow> 's \<times> 'o list"
    and inv :: "'i list \<Rightarrow> 's \<Rightarrow> 'o list \<Rightarrow> bool"
  assumes step_keeps: "inv is s os \<Longrightarrow> step s i = (s', new) \<Longrightarrow> inv (is @ [i]) s' (os @ new)"
begin

lemma run_keeps:
  "inv is s os \<Longrightarrow> run_emit step s js = (s', new) \<Longrightarrow> inv (is @ js) s' (os @ new)"
proof (induction js arbitrary: "is" s os s' new)
  case Nil
  then show ?case by simp
next
  case (Cons j js)
  obtain s1 new1 where s1: "step s j = (s1, new1)" by fastforce
  obtain s2 new2 where s2: "run_emit step s1 js = (s2, new2)" by fastforce
  have "inv (is @ [j]) s1 (os @ new1)"
    using Cons.prems(1) s1 by (rule step_keeps)
  then have "inv ((is @ [j]) @ js) s2 ((os @ new1) @ new2)"
    using s2 by (rule Cons.IH)
  then show ?case
    using Cons.prems(2) s1 s2 by simp
qed

lemma run_from_start:
  "inv [] s0 [] \<Longrightarrow> run_emit step s0 is = (s, os) \<Longrightarrow> inv is s os"
  using run_keeps [of "[]" s0 "[]"] by simp

end

text \<open>A machine without outputs, as a fold; its invariant is kept by every run.\<close>

locale folding_machine =
  fixes step :: "'i \<Rightarrow> 's \<Rightarrow> 's"
    and inv :: "'s \<Rightarrow> bool"
  assumes keeps: "inv s \<Longrightarrow> inv (step i s)"
begin

lemma fold_keeps: "inv s \<Longrightarrow> inv (fold step is s)"
  by (induction "is" arbitrary: s) (auto simp: keeps)

end

text \<open>
  A loop that may leave with a result or go round again, and that a budget bounds: what holds
  round after round holds of the result.
\<close>

locale bounded_loop =
  fixes body :: "'s \<Rightarrow> 'r + 's"
    and loop :: "'s \<Rightarrow> 'r"
    and budget :: "'s \<Rightarrow> nat"
  assumes unfolds: "loop s = (case body s of Inl r \<Rightarrow> r | Inr s' \<Rightarrow> loop s')"
    and progress: "body s = Inr s' \<Longrightarrow> budget s' < budget s"
begin

lemma loop_result:
  assumes "I s"
    and "\<And>s s'. I s \<Longrightarrow> body s = Inr s' \<Longrightarrow> I s'"
    and "\<And>s r. I s \<Longrightarrow> body s = Inl r \<Longrightarrow> Q r"
  shows "Q (loop s)"
  using assms(1)
proof (induction "budget s" arbitrary: s rule: less_induct)
  case less
  show ?case
  proof (cases "body s")
    case (Inl r)
    then show ?thesis using assms(3) less.prems by (simp add: unfolds [of s])
  next
    case (Inr s')
    then have "Q (loop s')"
      using less.hyps progress assms(2) less.prems by blast
    then show ?thesis using Inr by (simp add: unfolds [of s])
  qed
qed

text \<open>Two such loops whose bodies agree up to a relation have related results.\<close>

lemma loop_related:
  assumes "R s t"
    and "\<And>t. loop2 t = (case body2 t of Inl r \<Rightarrow> r | Inr t' \<Rightarrow> loop2 t')"
    and "\<And>s t. R s t \<Longrightarrow> rel_sum Q R (body s) (body2 t)"
  shows "Q (loop s) (loop2 t)"
  using assms(1)
proof (induction "budget s" arbitrary: s t rule: less_induct)
  case less
  have rel: "rel_sum Q R (body s) (body2 t)" using assms(3) less.prems .
  show ?case
  proof (cases "body s")
    case (Inl r)
    then obtain r2 where "body2 t = Inl r2" "Q r r2" using rel by (cases "body2 t") auto
    then show ?thesis using Inl by (simp add: unfolds [of s] assms(2) [of t])
  next
    case (Inr s')
    then obtain t' where "body2 t = Inr t'" "R s' t'" using rel by (cases "body2 t") auto
    then show ?thesis using Inr less.hyps progress [OF Inr] by (simp add: unfolds [of s] assms(2) [of t])
  qed
qed

end

text \<open>Textual codecs of the enums: \<open>as_str\<close> and \<open>parse\<close>.\<close>

locale enum_codec =
  fixes as_str :: "'a \<Rightarrow> string"
    and parse :: "string \<Rightarrow> 'e + 'a"
  assumes parse_as_str: "parse (as_str x) = Inr x"
    and parse_sound: "parse s = Inr x \<Longrightarrow> s = as_str x"
begin

lemma as_str_inj: "as_str x = as_str y \<longleftrightarrow> x = y"
  by (metis parse_as_str sum.inject(2))

lemma parse_Inr_iff: "parse s = Inr x \<longleftrightarrow> s = as_str x"
  using parse_as_str parse_sound by metis

lemma parse_Inl_iff: "(\<exists>e. parse s = Inl e) \<longleftrightarrow> s \<notin> range as_str"
proof -
  have "(\<exists>e. parse s = Inl e) \<longleftrightarrow> (\<forall>x. parse s \<noteq> Inr x)"
    by (cases "parse s") auto
  also have "\<dots> \<longleftrightarrow> s \<notin> range as_str"
    unfolding parse_Inr_iff by blast
  finally show ?thesis .
qed

end

end
