(* ===== verification/ApiTypes.thy ===== *)
theory ApiTypes
  imports Json Machines
begin

text \<open>
  The message types of \<open>crates/api/src/types.rs\<close> and the reasoning effort of
  \<open>crates/api/src/lib.rs\<close>. Fields are prefixed by their struct, because HOL's record fields
  are global functions. Optional \<open>f64\<close> settings are carried as their 64 bits.
\<close>

section \<open>Reasoning effort\<close>

datatype reasoning_effort = Low | Medium | High

fun effort_as_str :: "reasoning_effort \<Rightarrow> string" where
  "effort_as_str Low = ''low''"
| "effort_as_str Medium = ''medium''"
| "effort_as_str High = ''high''"

definition effort_parse :: "string \<Rightarrow> string + reasoning_effort" where
  "effort_parse value =
     (if value = ''low'' then Inr Low
      else if value = ''medium'' then Inr Medium
      else if value = ''high'' then Inr High
      else Inl (''invalid reasoning effort `'' @ value @ ''`; expected low, medium, or high''))"

interpretation effort: enum_codec effort_as_str effort_parse
proof unfold_locales
  show "effort_parse (effort_as_str x) = Inr x" for x
    by (cases x) (simp_all add: effort_parse_def)
  show "effort_parse s = Inr x \<Longrightarrow> s = effort_as_str x" for s x
    by (auto simp: effort_parse_def split: if_splits)
qed

section \<open>Requests\<close>

datatype tool_result_content = TRText string | TRJson json

datatype input_block =
    IText string
  | IToolUse (use_id: string) (use_name: string) (use_input: json)
  | IToolResult (result_id: string) (result_content: "tool_result_content list") (result_is_error: bool)

record input_message =
  msg_role :: string
  msg_content :: "input_block list"

definition user_text :: "string \<Rightarrow> input_message" where
  "user_text text = \<lparr>msg_role = ''user'', msg_content = [IText text]\<rparr>"

definition assistant_text :: "string \<Rightarrow> input_message" where
  "assistant_text text = \<lparr>msg_role = ''assistant'', msg_content = [IText text]\<rparr>"

definition assistant_tool_use :: "(string \<times> string \<times> json) list \<Rightarrow> input_message" where
  "assistant_tool_use tool_uses =
     \<lparr>msg_role = ''assistant'', msg_content = map (\<lambda>(i, n, v). IToolUse i n v) tool_uses\<rparr>"

definition user_tool_result :: "string \<Rightarrow> string \<Rightarrow> bool \<Rightarrow> input_message" where
  "user_tool_result tool_use_id content is_error =
     \<lparr>msg_role = ''user'', msg_content = [IToolResult tool_use_id [TRText content] is_error]\<rparr>"

record tool_definition =
  td_name :: string
  td_description :: "string option"
  td_schema :: json

datatype tool_choice = ChoiceAuto | ChoiceAny | ChoiceTool string

record message_request =
  req_model :: string
  req_max_tokens :: u32
  req_messages :: "input_message list"
  req_system :: "string option"
  req_tools :: "tool_definition list option"
  req_tool_choice :: "tool_choice option"
  req_stream :: bool
  req_temperature :: "u64 option"
  req_top_p :: "u64 option"
  req_frequency_penalty :: "u64 option"
  req_presence_penalty :: "u64 option"
  req_stop :: "string list option"
  req_reasoning_effort :: "string option"

text \<open>The derived \<open>Default\<close>.\<close>

definition default_request :: message_request where
  "default_request =
     \<lparr>req_model = [], req_max_tokens = 0, req_messages = [], req_system = None, req_tools = None,
      req_tool_choice = None, req_stream = False, req_temperature = None, req_top_p = None,
      req_frequency_penalty = None, req_presence_penalty = None, req_stop = None,
      req_reasoning_effort = None\<rparr>"

definition with_streaming :: "message_request \<Rightarrow> message_request" where
  "with_streaming r = r\<lparr>req_stream := True\<rparr>"

section \<open>Responses and stream events\<close>

record usage =
  prompt_tokens :: u32
  completion_tokens :: u32

definition default_usage :: usage where
  "default_usage = \<lparr>prompt_tokens = 0, completion_tokens = 0\<rparr>"

definition usage_total :: "usage \<Rightarrow> u32" where
  "usage_total u = prompt_tokens u + completion_tokens u"

datatype output_block = OText string | OToolUse string string json

record message_response =
  resp_id :: string
  resp_kind :: string
  resp_role :: string
  resp_content :: "output_block list"
  resp_model :: string
  resp_stop_reason :: "string option"
  resp_stop_sequence :: "string option"
  resp_usage :: usage
  resp_request_id :: "string option"

datatype block_delta = TextDelta string | InputJsonDelta string

datatype stream_event =
    MessageStart message_response
  | MessageDelta "string option" "string option" usage
  | ContentBlockStart u32 output_block
  | ContentBlockDelta u32 block_delta
  | ContentBlockStop u32
  | MessageStop

end
