(* ===== verification/StreamState.thy ===== *)
theory StreamState
  imports ApiTypes
begin

text \<open>
  The stream state machine of \<open>crates/api/src/client.rs\<close> (\<open>StreamState\<close>,
  \<open>ToolCallState\<close>): it turns the chat-completion chunks of a provider into the runtime's
  stream events. The reference it is proved against is stated on the chunks themselves:
  the text, the argument fragments and the identity of each tool call.
\<close>

section \<open>Chunks\<close>

record delta_tool_call =
  dtc_index :: u32
  dtc_id :: "string option"
  dtc_name :: "string option"
  dtc_arguments :: "string option"

record chunk_choice =
  cc_content :: "string option"
  cc_tool_calls :: "delta_tool_call list"
  cc_finish_reason :: "string option"

record chat_chunk =
  ck_id :: string
  ck_model :: "string option"
  ck_choices :: "chunk_choice list"
  ck_usage :: "usage option"

section \<open>One tool call\<close>

record tool_call_state =
  tcs_index :: u32
  tcs_id :: "string option"
  tcs_name :: "string option"
  tcs_arguments :: string
  tcs_emitted_len :: nat
  tcs_started :: bool
  tcs_stopped :: bool

definition default_tool_call :: tool_call_state where
  "default_tool_call = \<lparr>tcs_index = 0, tcs_id = None, tcs_name = None, tcs_arguments = [],
     tcs_emitted_len = 0, tcs_started = False, tcs_stopped = False\<rparr>"

definition apply_delta :: "delta_tool_call \<Rightarrow> tool_call_state \<Rightarrow> tool_call_state" where
  "apply_delta tc s =
     s\<lparr>tcs_index := dtc_index tc,
       tcs_id := (case dtc_id tc of Some i \<Rightarrow> Some i | None \<Rightarrow> tcs_id s),
       tcs_name := (case dtc_name tc of Some n \<Rightarrow> Some n | None \<Rightarrow> tcs_name s),
       tcs_arguments := tcs_arguments s @ unwrap_or [] (dtc_arguments tc)\<rparr>"

definition block_index :: "tool_call_state \<Rightarrow> u32" where
  "block_index s = tcs_index s + 1"

definition fallback_id :: "u32 \<Rightarrow> string" where
  "fallback_id i = ''tool_call_'' @ show_nat (unat i)"

definition start_event :: "tool_call_state \<Rightarrow> stream_event option" where
  "start_event s =
     (case tcs_name s of
        None \<Rightarrow> None
      | Some name \<Rightarrow>
          Some (ContentBlockStart (block_index s)
            (OToolUse (unwrap_or (fallback_id (tcs_index s)) (tcs_id s)) name (jobj []))))"

definition delta_event :: "tool_call_state \<Rightarrow> tool_call_state \<times> stream_event list" where
  "delta_event s =
     (if length (tcs_arguments s) \<le> tcs_emitted_len s then (s, [])
      else (s\<lparr>tcs_emitted_len := length (tcs_arguments s)\<rparr>,
            [ContentBlockDelta (block_index s)
               (InputJsonDelta (drop (tcs_emitted_len s) (tcs_arguments s)))]))"

definition stop_if :: "bool \<Rightarrow> tool_call_state \<Rightarrow> tool_call_state \<times> stream_event list" where
  "stop_if c s =
     (if c \<and> \<not> tcs_stopped s then (s\<lparr>tcs_stopped := True\<rparr>, [ContentBlockStop (block_index s)])
      else (s, []))"

section \<open>The stream\<close>

record stream_state =
  ss_model :: string
  ss_message_started :: bool
  ss_text_started :: bool
  ss_text_finished :: bool
  ss_finished :: bool
  ss_stop_reason :: "string option"
  ss_usage :: "usage option"
  ss_tool_calls :: "(u32, tool_call_state) btree"

definition stream_new :: "string \<Rightarrow> stream_state" where
  "stream_new model = \<lparr>ss_model = model, ss_message_started = False, ss_text_started = False,
     ss_text_finished = False, ss_finished = False, ss_stop_reason = None, ss_usage = None,
     ss_tool_calls = []\<rparr>"

definition normalize_finish_reason :: "string \<Rightarrow> string" where
  "normalize_finish_reason value =
     (if value = ''stop'' then ''end_turn''
      else if value = ''tool_calls'' then ''tool_use'' else value)"

text \<open>The body of \<open>for tc in choice.delta.tool_calls\<close>.\<close>

definition ingest_tool_call ::
  "string option \<Rightarrow> (u32, tool_call_state) btree \<Rightarrow> delta_tool_call
    \<Rightarrow> (u32, tool_call_state) btree \<times> stream_event list" where
  "ingest_tool_call finish_reason m tc =
     (let s = apply_delta tc (unwrap_or default_tool_call (bt_get m (dtc_index tc)));
          put = (\<lambda>s'. bt_insert (dtc_index tc) s' m);
          continue = (\<lambda>s' evs.
            (let (s1, d) = delta_event s';
                 (s2, e) = stop_if (finish_reason = Some ''tool_calls'') s1
             in (put s2, evs @ d @ e)))
      in if \<not> tcs_started s
         then (case start_event s of
                 Some start \<Rightarrow> continue (s\<lparr>tcs_started := True\<rparr>) [start]
               | None \<Rightarrow> (put s, []))
         else continue s [])"

text \<open>A loop over \<open>tool_calls.values_mut()\<close> that may push events.\<close>

fun sweep :: "('v \<Rightarrow> 'v \<times> 'o list) \<Rightarrow> ('k, 'v) btree \<Rightarrow> ('k, 'v) btree \<times> 'o list" where
  "sweep f [] = ([], [])"
| "sweep f ((k, v) # m) =
     (case f v of (v', os) \<Rightarrow> (case sweep f m of (m', os') \<Rightarrow> ((k, v') # m', os @ os')))"

definition ingest_text :: "string option \<Rightarrow> stream_state \<Rightarrow> stream_state \<times> stream_event list" where
  "ingest_text content st =
     (case content of
        Some text \<Rightarrow>
          (if text = [] then (st, [])
           else (st\<lparr>ss_text_started := True\<rparr>,
                 (if ss_text_started st then [] else [ContentBlockStart 0 (OText [])])
                 @ [ContentBlockDelta 0 (TextDelta text)]))
      | None \<Rightarrow> (st, []))"

definition ingest_finish_reason ::
  "string option \<Rightarrow> stream_state \<Rightarrow> stream_state \<times> stream_event list" where
  "ingest_finish_reason finish_reason st =
     (case finish_reason of
        None \<Rightarrow> (st, [])
      | Some reason \<Rightarrow>
          (let st1 = st\<lparr>ss_stop_reason := Some (normalize_finish_reason reason)\<rparr> in
           if reason = ''tool_calls''
           then (let (m, evs) = sweep (\<lambda>s. stop_if (tcs_started s) s) (ss_tool_calls st1)
                 in (st1\<lparr>ss_tool_calls := m\<rparr>, evs))
           else (st1, [])))"

definition ingest_choice :: "stream_state \<Rightarrow> chunk_choice \<Rightarrow> stream_state \<times> stream_event list" where
  "ingest_choice st choice =
     (let (st1, e1) = ingest_text (cc_content choice) st;
          (m, e2) = run_emit (ingest_tool_call (cc_finish_reason choice)) (ss_tool_calls st1)
                      (cc_tool_calls choice);
          (st3, e3) = ingest_finish_reason (cc_finish_reason choice) (st1\<lparr>ss_tool_calls := m\<rparr>)
      in (st3, e1 @ e2 @ e3))"

definition start_message :: "stream_state \<Rightarrow> chat_chunk \<Rightarrow> stream_event" where
  "start_message st chunk =
     MessageStart \<lparr>resp_id = ck_id chunk, resp_kind = ''message'', resp_role = ''assistant'',
       resp_content = [], resp_model = unwrap_or (ss_model st) (ck_model chunk),
       resp_stop_reason = None, resp_stop_sequence = None, resp_usage = default_usage,
       resp_request_id = None\<rparr>"

definition ingest_chunk :: "stream_state \<Rightarrow> chat_chunk \<Rightarrow> stream_state \<times> stream_event list" where
  "ingest_chunk st chunk =
     (let e0 = (if ss_message_started st then [] else [start_message st chunk]);
          st0 = st\<lparr>ss_message_started := True\<rparr>;
          st1 = (case ck_usage chunk of Some u \<Rightarrow> st0\<lparr>ss_usage := Some u\<rparr> | None \<Rightarrow> st0);
          (st2, e2) = run_emit ingest_choice st1 (ck_choices chunk)
      in (st2, e0 @ e2))"

definition finish_tool_call :: "tool_call_state \<Rightarrow> tool_call_state \<times> stream_event list" where
  "finish_tool_call s =
     (let (s1, e1) =
        (if \<not> tcs_started s
         then (case start_event s of
                 Some start \<Rightarrow>
                   (let (s', d) = delta_event (s\<lparr>tcs_started := True\<rparr>) in (s', start # d))
               | None \<Rightarrow> (s, []))
         else (s, []));
          (s2, e2) = stop_if (tcs_started s1) s1
      in (s2, e1 @ e2))"

definition stream_finish :: "stream_state \<Rightarrow> stream_state \<times> stream_event list" where
  "stream_finish st =
     (if ss_finished st then (st, [])
      else
        (let st0 = st\<lparr>ss_finished := True\<rparr>;
             (st1, e1) = (if ss_text_started st0 \<and> \<not> ss_text_finished st0
                          then (st0\<lparr>ss_text_finished := True\<rparr>, [ContentBlockStop 0])
                          else (st0, []));
             (m, e2) = sweep finish_tool_call (ss_tool_calls st1);
             e3 = (if ss_message_started st1
                   then [MessageDelta (Some (unwrap_or ''end_turn'' (ss_stop_reason st1))) None
                           (unwrap_or default_usage (ss_usage st1)), MessageStop]
                   else [])
         in (st1\<lparr>ss_tool_calls := m\<rparr>, e1 @ e2 @ e3)))"

text \<open>A whole stream: every chunk, then the end of the body.\<close>

definition stream_events :: "string \<Rightarrow> chat_chunk list \<Rightarrow> stream_event list" where
  "stream_events model chunks =
     (case run_emit ingest_chunk (stream_new model) chunks of
        (st, es) \<Rightarrow> es @ snd (stream_finish st))"

end
