(* ===== verification/StreamSpec.thy ===== *)
theory StreamSpec
  imports StreamState
begin

text \<open>
  What a stream of chunks means, stated on the chunks, and the proof that the events of
  \<open>StreamState\<close> carry exactly that: argument fragments are neither lost, repeated nor
  reordered, each block opens once and closes once, and the message is framed.
\<close>

section \<open>The reference\<close>

definition all_choices :: "chat_chunk list \<Rightarrow> chunk_choice list" where
  "all_choices chunks = concat (map ck_choices chunks)"

definition choice_deltas :: "chunk_choice list \<Rightarrow> delta_tool_call list" where
  "choice_deltas cs = concat (map cc_tool_calls cs)"

definition choice_text :: "chunk_choice list \<Rightarrow> string" where
  "choice_text cs = concat (map (\<lambda>c. unwrap_or [] (cc_content c)) cs)"

definition tool_deltas :: "chat_chunk list \<Rightarrow> delta_tool_call list" where
  "tool_deltas chunks = choice_deltas (all_choices chunks)"

definition stream_text :: "chat_chunk list \<Rightarrow> string" where
  "stream_text chunks = choice_text (all_choices chunks)"

definition fragments :: "u32 \<Rightarrow> delta_tool_call list \<Rightarrow> string" where
  "fragments i ds =
     concat (map (\<lambda>d. unwrap_or [] (dtc_arguments d)) (filter (\<lambda>d. dtc_index d = i) ds))"

text \<open>
  The identity a call gets: its name is the first one seen, its id the last one seen by
  then, or the fallback. The first component is the id seen so far.
\<close>

definition ident_step ::
  "u32 \<Rightarrow> string option \<times> (string \<times> string) option \<Rightarrow> delta_tool_call
    \<Rightarrow> string option \<times> (string \<times> string) option" where
  "ident_step i st d =
     (if dtc_index d \<noteq> i then st
      else (let known = (case dtc_id d of Some x \<Rightarrow> Some x | None \<Rightarrow> fst st) in
            (known,
             case snd st of
               Some ident \<Rightarrow> Some ident
             | None \<Rightarrow> map_option (\<lambda>name. (unwrap_or (fallback_id i) known, name)) (dtc_name d))))"

definition ident_state :: "u32 \<Rightarrow> delta_tool_call list \<Rightarrow> string option \<times> (string \<times> string) option" where
  "ident_state i ds = foldl (ident_step i) (None, None) ds"

definition tool_identity :: "u32 \<Rightarrow> delta_tool_call list \<Rightarrow> (string \<times> string) option" where
  "tool_identity i ds = snd (ident_state i ds)"

section \<open>Reading an event list\<close>

definition json_delta_at :: "u32 \<Rightarrow> stream_event \<Rightarrow> string" where
  "json_delta_at k e =
     (case e of ContentBlockDelta k' (InputJsonDelta t) \<Rightarrow> if k' = k then t else [] | _ \<Rightarrow> [])"

definition json_deltas :: "u32 \<Rightarrow> stream_event list \<Rightarrow> string" where
  "json_deltas k es = concat (map (json_delta_at k) es)"

definition text_delta_of :: "stream_event \<Rightarrow> string" where
  "text_delta_of e = (case e of ContentBlockDelta _ (TextDelta t) \<Rightarrow> t | _ \<Rightarrow> [])"

definition text_deltas :: "stream_event list \<Rightarrow> string" where
  "text_deltas es = concat (map text_delta_of es)"

definition tool_start_at :: "u32 \<Rightarrow> stream_event \<Rightarrow> (string \<times> string) list" where
  "tool_start_at k e =
     (case e of ContentBlockStart k' (OToolUse i n _) \<Rightarrow> if k' = k then [(i, n)] else [] | _ \<Rightarrow> [])"

definition tool_starts :: "u32 \<Rightarrow> stream_event list \<Rightarrow> (string \<times> string) list" where
  "tool_starts k es = concat (map (tool_start_at k) es)"

text \<open>The life of the block with index \<open>k\<close>; \<open>None\<close> is a protocol violation.\<close>

datatype phase = Absent | Opened | Closed

definition phase_step :: "u32 \<Rightarrow> phase \<Rightarrow> stream_event \<Rightarrow> phase option" where
  "phase_step k p e =
     (case e of
        ContentBlockStart k' _ \<Rightarrow> if k' \<noteq> k then Some p else if p = Absent then Some Opened else None
      | ContentBlockDelta k' _ \<Rightarrow> if k' \<noteq> k then Some p else if p = Absent then None else Some p
      | ContentBlockStop k' \<Rightarrow> if k' \<noteq> k then Some p else if p = Opened then Some Closed else None
      | _ \<Rightarrow> Some p)"

definition phase_run :: "u32 \<Rightarrow> phase option \<Rightarrow> stream_event list \<Rightarrow> phase option" where
  "phase_run k p es = foldl (\<lambda>p e. Option.bind p (\<lambda>p. phase_step k p e)) p es"

definition block_phase :: "u32 \<Rightarrow> stream_event list \<Rightarrow> phase option" where
  "block_phase k es = phase_run k (Some Absent) es"

fun event_block :: "stream_event \<Rightarrow> u32 option" where
  "event_block (ContentBlockStart k _) = Some k"
| "event_block (ContentBlockDelta k _) = Some k"
| "event_block (ContentBlockStop k) = Some k"
| "event_block _ = None"

named_theorems reading \<open>event lists read piecewise\<close>

lemma reading_append [reading]:
  "json_deltas k (es @ fs) = json_deltas k es @ json_deltas k fs"
  "text_deltas (es @ fs) = text_deltas es @ text_deltas fs"
  "tool_starts k (es @ fs) = tool_starts k es @ tool_starts k fs"
  "phase_run k p (es @ fs) = phase_run k (phase_run k p es) fs"
  "block_phase k (es @ fs) = phase_run k (block_phase k es) fs"
  by (simp_all add: json_deltas_def text_deltas_def tool_starts_def phase_run_def block_phase_def)

lemma reading_Nil [reading]:
  "json_deltas k [] = []" "text_deltas [] = []" "tool_starts k [] = []" "phase_run k p [] = p"
  "block_phase k [] = Some Absent"
  by (simp_all add: json_deltas_def text_deltas_def tool_starts_def phase_run_def block_phase_def)

lemma reading_Cons [reading]:
  "json_deltas k (e # es) = json_delta_at k e @ json_deltas k es"
  "text_deltas (e # es) = text_delta_of e @ text_deltas es"
  "tool_starts k (e # es) = tool_start_at k e @ tool_starts k es"
  "phase_run k (Some p) (e # es) = phase_run k (phase_step k p e) es"
  by (simp_all add: json_deltas_def text_deltas_def tool_starts_def phase_run_def)

lemmas reading_events = json_delta_at_def text_delta_of_def tool_start_at_def phase_step_def

lemma foreign_events:
  assumes "\<forall>e \<in> set fs. event_block e \<noteq> Some k"
  shows "json_deltas k fs = []" and "tool_starts k fs = []" and "phase_run k p fs = p"
proof -
  have ev: "json_delta_at k e = [] \<and> tool_start_at k e = [] \<and> phase_step k q e = Some q"
    if "event_block e \<noteq> Some k" for e q
    using that by (cases e) (auto simp: reading_events split: block_delta.splits output_block.splits)
  show "json_deltas k fs = []" "tool_starts k fs = []"
    using assms ev by (auto simp: json_deltas_def tool_starts_def)
  show "phase_run k p fs = p"
    using assms
  proof (induction fs arbitrary: p)
    case Nil
    then show ?case by (simp add: reading)
  next
    case (Cons e fs)
    then have "Option.bind p (\<lambda>q. phase_step k q e) = p"
      using ev [of e] by (cases p) auto
    then show ?case
      using Cons by (simp add: phase_run_def)
  qed
qed

section \<open>The invariant of one tool call\<close>

definition phase_of :: "tool_call_state \<Rightarrow> phase" where
  "phase_of s = (if \<not> tcs_started s then Absent else if tcs_stopped s then Closed else Opened)"

definition slot :: "(u32, tool_call_state) btree \<Rightarrow> u32 \<Rightarrow> tool_call_state" where
  "slot m i = (case bt_get m i of Some s \<Rightarrow> s | None \<Rightarrow> default_tool_call\<lparr>tcs_index := i\<rparr>)"

definition slot_ok ::
  "delta_tool_call list \<Rightarrow> stream_event list \<Rightarrow> u32 \<Rightarrow> tool_call_state \<Rightarrow> bool" where
  "slot_ok ds es i s \<longleftrightarrow>
     tcs_index s = i \<and> tcs_id s = fst (ident_state i ds)
     \<and> (tcs_name s = None \<longleftrightarrow> tool_identity i ds = None)
     \<and> (tcs_started s \<longleftrightarrow> tool_identity i ds \<noteq> None) \<and> (tcs_stopped s \<longrightarrow> tcs_started s)
     \<and> tcs_arguments s = fragments i ds
     \<and> tcs_emitted_len s = (if tcs_started s then length (tcs_arguments s) else 0)
     \<and> json_deltas (i + 1) es = (if tcs_started s then fragments i ds else [])
     \<and> tool_starts (i + 1) es = (case tool_identity i ds of None \<Rightarrow> [] | Some x \<Rightarrow> [x])
     \<and> (i + 1 \<noteq> 0 \<longrightarrow> block_phase (i + 1) es = Some (phase_of s))"

definition tools_inv ::
  "delta_tool_call list \<Rightarrow> (u32, tool_call_state) btree \<Rightarrow> stream_event list \<Rightarrow> bool" where
  "tools_inv ds m es \<longleftrightarrow> bt_ok m \<and> (\<forall>i. slot_ok ds es i (slot m i))"

text \<open>What the body of the loop does to the call's own state.\<close>

definition slot_step ::
  "bool \<Rightarrow> delta_tool_call \<Rightarrow> tool_call_state \<Rightarrow> tool_call_state \<times> stream_event list" where
  "slot_step c tc s0 =
     (let s = apply_delta tc s0;
          continue = (\<lambda>s' evs. (let (s1, d) = delta_event s'; (s2, e) = stop_if c s1 in (s2, evs @ d @ e)))
      in if \<not> tcs_started s
         then (case start_event s of
                 Some start \<Rightarrow> continue (s\<lparr>tcs_started := True\<rparr>) [start]
               | None \<Rightarrow> (s, []))
         else continue s [])"

lemma apply_delta_slot:
  "apply_delta tc (unwrap_or default_tool_call (bt_get m (dtc_index tc)))
     = apply_delta tc (slot m (dtc_index tc))"
  by (cases "bt_get m (dtc_index tc)") (simp_all add: slot_def apply_delta_def default_tool_call_def split: option.split)

lemma ingest_slot:
  "ingest_tool_call fr m tc =
     (case slot_step (fr = Some ''tool_calls'') tc (slot m (dtc_index tc)) of
        (s, evs) \<Rightarrow> (bt_insert (dtc_index tc) s m, evs))"
  by (simp add: ingest_tool_call_def slot_step_def apply_delta_slot Let_def
      split: option.split prod.split)

lemma slot_insert: "slot (bt_insert k s m) i = (if i = k then s else slot m i)"
  by (simp add: slot_def bt.get_ins)

lemma apply_delta_fields [simp]:
  "tcs_index (apply_delta tc s) = dtc_index tc"
  "tcs_id (apply_delta tc s) = (case dtc_id tc of Some i \<Rightarrow> Some i | None \<Rightarrow> tcs_id s)"
  "tcs_name (apply_delta tc s) = (case dtc_name tc of Some n \<Rightarrow> Some n | None \<Rightarrow> tcs_name s)"
  "tcs_arguments (apply_delta tc s) = tcs_arguments s @ unwrap_or [] (dtc_arguments tc)"
  "tcs_emitted_len (apply_delta tc s) = tcs_emitted_len s"
  "tcs_started (apply_delta tc s) = tcs_started s"
  "tcs_stopped (apply_delta tc s) = tcs_stopped s"
  by (simp_all add: apply_delta_def)

lemma fragments_snoc:
  "fragments i (ds @ [d]) = fragments i ds @ (if dtc_index d = i then unwrap_or [] (dtc_arguments d) else [])"
  by (simp add: fragments_def)

lemma ident_snoc: "ident_state i (ds @ [d]) = ident_step i (ident_state i ds) d"
  by (simp add: ident_state_def)

lemma ident_other: "dtc_index d \<noteq> i \<Longrightarrow> ident_state i (ds @ [d]) = ident_state i ds"
  by (simp add: ident_snoc ident_step_def)

lemma slot_step_foreign:
  "slot_step c tc s = (s', new) \<Longrightarrow> e \<in> set new \<Longrightarrow> event_block e = Some (dtc_index tc + 1)"
  by (auto simp: slot_step_def Let_def start_event_def delta_event_def stop_if_def block_index_def
      split: if_splits option.splits)

lemma slot_ok_foreign:
  assumes "slot_ok ds es i s" and "dtc_index tc \<noteq> i"
    and "\<forall>e \<in> set new. event_block e = Some (dtc_index tc + 1)"
  shows "slot_ok (ds @ [tc]) (es @ new) i s"
proof -
  have "\<forall>e \<in> set new. event_block e \<noteq> Some (i + 1)"
    using assms(2,3) by auto
  then show ?thesis
    using assms(1) foreign_events [of new "i + 1"]
    by (auto simp: slot_ok_def reading fragments_snoc ident_other [OF assms(2)] tool_identity_def assms(2))
qed

text \<open>The three ways through the loop body: nameless yet, named just now, already open.\<close>

lemma slot_step_nameless:
  assumes "slot_ok ds es (dtc_index tc) s" and "tcs_name (apply_delta tc s) = None"
    and "slot_step c tc s = (s', new)"
  shows "slot_ok (ds @ [tc]) (es @ new) (dtc_index tc) s'"
proof -
  have n: "tcs_name s = None" "dtc_name tc = None"
    using assms(2) by (auto split: option.splits)
  then have ns: "\<not> tcs_started s" "tool_identity (dtc_index tc) ds = None"
    using assms(1) by (auto simp: slot_ok_def)
  then have "s' = apply_delta tc s" "new = []"
    using assms(2,3) by (auto simp: slot_step_def start_event_def)
  then show ?thesis
    using assms(1) n ns
    by (auto simp: slot_ok_def reading fragments_snoc ident_snoc ident_step_def tool_identity_def
        phase_of_def Let_def split: option.splits)
qed

lemma delta_event_emits:
  "tcs_emitted_len s \<le> length (tcs_arguments s) \<Longrightarrow>
   \<exists>d. delta_event s = (s\<lparr>tcs_emitted_len := length (tcs_arguments s)\<rparr>, d)
     \<and> (\<forall>k. json_deltas k d = (if k = block_index s then drop (tcs_emitted_len s) (tcs_arguments s) else []))
     \<and> (\<forall>k. tool_starts k d = [])
     \<and> (\<forall>k p. p \<noteq> Absent \<longrightarrow> phase_run k (Some p) d = Some p)"
  by (auto simp: delta_event_def reading reading_events)

lemma stop_if_emits:
  "\<exists>e. stop_if c s = (s\<lparr>tcs_stopped := c \<or> tcs_stopped s\<rparr>, e)
     \<and> (\<forall>k. json_deltas k e = []) \<and> (\<forall>k. tool_starts k e = [])
     \<and> phase_run (block_index s) (Some (if tcs_stopped s then Closed else Opened)) e
         = Some (if c \<or> tcs_stopped s then Closed else Opened)"
  by (auto simp: stop_if_def reading reading_events)

lemma continue_emits:
  assumes "tcs_emitted_len s \<le> length (tcs_arguments s)" and "tcs_started s"
    and "(let (s1, d) = delta_event s; (s2, e) = stop_if c s1 in (s2, evs @ d @ e)) = (s', new)"
  shows "\<exists>tl. new = evs @ tl
    \<and> s' = s\<lparr>tcs_emitted_len := length (tcs_arguments s), tcs_stopped := c \<or> tcs_stopped s\<rparr>
    \<and> json_deltas (block_index s) tl = drop (tcs_emitted_len s) (tcs_arguments s)
    \<and> tool_starts (block_index s) tl = []
    \<and> phase_run (block_index s) (Some (phase_of s)) tl = Some (phase_of s')"
proof -
  let ?s1 = "s\<lparr>tcs_emitted_len := length (tcs_arguments s)\<rparr>"
  obtain d where d: "delta_event s = (?s1, d)"
      "json_deltas (block_index s) d = drop (tcs_emitted_len s) (tcs_arguments s)"
      "tool_starts (block_index s) d = []"
      "\<And>p. p \<noteq> Absent \<Longrightarrow> phase_run (block_index s) (Some p) d = Some p"
    using delta_event_emits [OF assms(1)] by auto
  have b: "block_index ?s1 = block_index s" by (simp add: block_index_def)
  obtain e where e: "stop_if c ?s1 = (?s1\<lparr>tcs_stopped := c \<or> tcs_stopped s\<rparr>, e)"
      "json_deltas (block_index s) e = []" "tool_starts (block_index s) e = []"
      "phase_run (block_index s) (Some (if tcs_stopped s then Closed else Opened)) e
         = Some (if c \<or> tcs_stopped s then Closed else Opened)"
    using stop_if_emits [of c ?s1] by (auto simp: b)
  have new: "new = evs @ d @ e" "s' = ?s1\<lparr>tcs_stopped := c \<or> tcs_stopped s\<rparr>"
    using assms(3) by (simp_all add: d(1) e(1))
  show ?thesis
    by (rule exI [of _ "d @ e"]) (use assms(2) d e new in \<open>auto simp: reading phase_of_def\<close>)
qed

lemma slot_step_open:
  assumes ok: "slot_ok ds es (dtc_index tc) s" and st: "tcs_started s"
    and step: "slot_step c tc s = (s', new)"
  shows "slot_ok (ds @ [tc]) (es @ new) (dtc_index tc) s'"
proof -
  let ?a = "apply_delta tc s"
  have len: "tcs_emitted_len ?a \<le> length (tcs_arguments ?a)" and sa: "tcs_started ?a"
    using ok st by (simp_all add: slot_ok_def)
  have "(let (s1, d) = delta_event ?a; (s2, e) = stop_if c s1 in (s2, [] @ d @ e)) = (s', new)"
    using step sa by (simp add: slot_step_def Let_def)
  from continue_emits [OF len sa this]
  have new: "s' = ?a\<lparr>tcs_emitted_len := length (tcs_arguments ?a), tcs_stopped := c \<or> tcs_stopped ?a\<rparr>"
      "json_deltas (block_index ?a) new = drop (tcs_emitted_len ?a) (tcs_arguments ?a)"
      "tool_starts (block_index ?a) new = []"
      "phase_run (block_index ?a) (Some (phase_of ?a)) new = Some (phase_of s')"
    by auto
  have ph: "phase_of ?a = phase_of s" and bi: "block_index ?a = dtc_index tc + 1"
    by (simp_all add: phase_of_def block_index_def)
  show ?thesis
    using ok st new
    by (auto simp: slot_ok_def reading fragments_snoc ident_snoc ident_step_def tool_identity_def
        Let_def ph bi split: option.splits)
qed

lemma slot_step_named:
  assumes ok: "slot_ok ds es (dtc_index tc) s" and st: "\<not> tcs_started s"
    and nm: "tcs_name (apply_delta tc s) = Some name"
    and step: "slot_step c tc s = (s', new)"
  shows "slot_ok (ds @ [tc]) (es @ new) (dtc_index tc) s'"
proof -
  let ?a = "apply_delta tc s\<lparr>tcs_started := True\<rparr>"
  let ?start = "ContentBlockStart (dtc_index tc + 1)
     (OToolUse (unwrap_or (fallback_id (dtc_index tc)) (tcs_id ?a)) name (jobj []))"
  have none: "tcs_name s = None" "snd (ident_state (dtc_index tc) ds) = None" "dtc_name tc = Some name"
    using ok st nm by (auto simp: slot_ok_def tool_identity_def split: option.splits)
  have len: "tcs_emitted_len ?a \<le> length (tcs_arguments ?a)" and sa: "tcs_started ?a"
    using ok st by (simp_all add: slot_ok_def)
  have "(let (s1, d) = delta_event ?a; (s2, e) = stop_if c s1 in (s2, [?start] @ d @ e)) = (s', new)"
    using step st nm by (simp add: slot_step_def Let_def start_event_def block_index_def)
  from continue_emits [OF len sa this]
  obtain tl where new: "new = [?start] @ tl"
      "s' = ?a\<lparr>tcs_emitted_len := length (tcs_arguments ?a), tcs_stopped := c \<or> tcs_stopped ?a\<rparr>"
      "json_deltas (block_index ?a) tl = drop (tcs_emitted_len ?a) (tcs_arguments ?a)"
      "tool_starts (block_index ?a) tl = []"
      "phase_run (block_index ?a) (Some (phase_of ?a)) tl = Some (phase_of s')"
    by blast
  have ph: "phase_of ?a = Opened" and bi: "block_index ?a = dtc_index tc + 1"
    using ok st by (auto simp: phase_of_def block_index_def slot_ok_def)
  show ?thesis
    using ok st none new
    by (auto simp: slot_ok_def reading reading_events fragments_snoc ident_snoc ident_step_def
        tool_identity_def phase_of_def Let_def ph bi split: option.splits)
qed

lemma slot_step_ok:
  assumes "slot_ok ds es (dtc_index tc) s" and "slot_step c tc s = (s', new)"
  shows "slot_ok (ds @ [tc]) (es @ new) (dtc_index tc) s'"
  using slot_step_nameless [OF assms(1) _ assms(2)] slot_step_open [OF assms(1) _ assms(2)]
    slot_step_named [OF assms(1) _ _ assms(2)]
  by (cases "tcs_name (apply_delta tc s)") auto

lemma ingest_tool_call_inv:
  assumes "tools_inv ds m es" and "ingest_tool_call fr m tc = (m', new)"
  shows "tools_inv (ds @ [tc]) m' (es @ new)"
proof -
  let ?k = "dtc_index tc"
  obtain s' where s': "slot_step (fr = Some ''tool_calls'') tc (slot m ?k) = (s', new)"
    and m': "m' = bt_insert ?k s' m"
    using assms(2) by (auto simp: ingest_slot split: prod.splits)
  have ok: "bt_ok m" and slots: "\<And>i. slot_ok ds es i (slot m i)"
    using assms(1) by (auto simp: tools_inv_def)
  have "slot_ok (ds @ [tc]) (es @ new) i (slot m' i)" for i
  proof (cases "i = ?k")
    case True
    then show ?thesis
      using slot_step_ok [OF slots s'] by (simp add: m' slot_insert)
  next
    case False
    then show ?thesis
      using slot_ok_foreign [OF slots] slot_step_foreign [OF s'] by (simp add: m' slot_insert)
  qed
  then show ?thesis
    using ok by (simp add: tools_inv_def m' bt_ok_insert)
qed

interpretation tool_calls: emitting_machine "ingest_tool_call fr" "\<lambda>ds m es. tools_inv (ds0 @ ds) m (es0 @ es)"
  for fr ds0 es0
proof
  fix ds m es tc m' new
  assume "tools_inv (ds0 @ ds) m (es0 @ es)" and "ingest_tool_call fr m tc = (m', new)"
  then show "tools_inv (ds0 @ ds @ [tc]) m' (es0 @ es @ new)"
    using ingest_tool_call_inv [of "ds0 @ ds" m "es0 @ es" fr tc m' new] by simp
qed

lemma ingest_tool_calls_inv:
  assumes "tools_inv ds m es" and "run_emit (ingest_tool_call fr) m tcs = (m', new)"
  shows "tools_inv (ds @ tcs) m' (es @ new)"
  using tool_calls.run_keeps [of ds "[]" m es "[]" fr tcs m' new] assms by simp

section \<open>Sweeping over the calls\<close>

lemma sweep_append:
  "sweep f (m @ m') = (case sweep f m of (a, os) \<Rightarrow> (case sweep f m' of (b, os') \<Rightarrow> (a @ b, os @ os')))"
  by (induction f m rule: sweep.induct) (auto split: prod.splits)

lemma sweep_keys: "sweep f m = (m', os) \<Longrightarrow> map fst m' = map fst m"
  by (induction f m arbitrary: m' os rule: sweep.induct) (auto split: prod.splits)

lemma sweep_get: "sweep f m = (m', os) \<Longrightarrow> bt_get m' k = map_option (\<lambda>v. fst (f v)) (bt_get m k)"
  by (induction f m arbitrary: m' os rule: sweep.induct) (auto simp: bt_get_def split: prod.splits)

lemma sweep_events: "sweep f m = (m', os) \<Longrightarrow> e \<in> set os \<Longrightarrow> \<exists>k v. (k, v) \<in> set m \<and> e \<in> set (snd (f v))"
  by (induction f m arbitrary: m' os rule: sweep.induct) (auto split: prod.splits, fastforce+)

lemma slot_ok_reads:
  assumes "json_deltas (i + 1) es' = json_deltas (i + 1) es" and "tool_starts (i + 1) es' = tool_starts (i + 1) es"
    and "i + 1 \<noteq> 0 \<Longrightarrow> block_phase (i + 1) es' = block_phase (i + 1) es"
  shows "slot_ok ds es' i s \<longleftrightarrow> slot_ok ds es i s"
  using assms by (auto simp: slot_ok_def)

lemma slot_of_entry: "bt_ok m \<Longrightarrow> (i, s) \<in> set m \<Longrightarrow> slot m i = s"
  by (simp add: slot_def bt_get_def bt_ok_def strict_sorted_iff)

lemma sweep_inv:
  assumes inv: "tools_inv ds m es" and sw: "sweep f m = (m', evs)"
    and f: "\<And>i s s' new. slot_ok ds es i s \<Longrightarrow> f s = (s', new) \<Longrightarrow>
      slot_ok ds (es @ new) i s' \<and> (\<forall>e \<in> set new. event_block e = Some (i + 1))"
  shows "tools_inv ds m' (es @ evs)"
proof -
  have ok: "bt_ok m" and slots: "\<And>i. slot_ok ds es i (slot m i)"
    using inv by (auto simp: tools_inv_def)
  have foreign: "event_block e = Some (j + 1)" if "(j, v) \<in> set m" "e \<in> set (snd (f v))" for j v e
    using f [of j v "fst (f v)" "snd (f v)"] slots [of j] slot_of_entry [OF ok that(1)] that(2) by simp
  have away: "event_block e \<noteq> Some (i + 1)"
    if "sweep f mm = (aa, ee)" "set mm \<subseteq> set m" "i \<notin> fst ` set mm" "e \<in> set ee" for i mm aa ee e
  proof -
    note hyp = that
    obtain k v where kv: "(k, v) \<in> set mm" "e \<in> set (snd (f v))"
      using sweep_events [OF hyp(1) hyp(4)] by blast
    then have "event_block e = Some (k + 1)" using foreign that(2) by blast
    moreover have "k \<noteq> i" using kv(1) that(3) by force
    ultimately show ?thesis by simp
  qed
  have "slot_ok ds (es @ evs) i (slot m' i)" for i
  proof (cases "bt_get m i")
    case None
    then have "slot m' i = slot m i" by (simp add: slot_def sweep_get [OF sw])
    moreover have "i \<notin> set (map fst m)"
      using None by (auto simp: bt_get_def map_of_eq_None_iff)
    then have "\<forall>e \<in> set evs. event_block e \<noteq> Some (i + 1)"
      using away [OF sw, of i] by auto
    ultimately show ?thesis
      using slots [of i] foreign_events [of evs "i + 1"]
      by (simp add: slot_ok_reads [of i "es @ evs" es] reading)
  next
    case (Some s)
    then obtain m1 m2 where m: "m = m1 @ (i, s) # m2"
      by (metis bt_get_def map_of_SomeD split_list)
    obtain s' new where fs: "f s = (s', new)" by fastforce
    obtain a1 e1 a2 e2 where sws: "sweep f m1 = (a1, e1)" "sweep f m2 = (a2, e2)" by fastforce
    have evs: "evs = e1 @ new @ e2"
      using sw by (simp add: m sweep_append sws fs)
    have sub: "set m1 \<subseteq> set m" "set m2 \<subseteq> set m" by (auto simp: m)
    have "i \<notin> fst ` set (m1 @ m2)"
      using ok by (auto simp: m bt_ok_def sorted_wrt_append)
    then have nf: "\<forall>e \<in> set e1. event_block e \<noteq> Some (i + 1)" "\<forall>e \<in> set e2. event_block e \<noteq> Some (i + 1)"
      using away [OF sws(1) sub(1), of i] away [OF sws(2) sub(2), of i] by auto
    have "slot m i = s" and s': "slot m' i = s'"
      using Some by (simp_all add: slot_def sweep_get [OF sw] fs)
    then have "slot_ok ds (es @ new) i s'"
      using f [OF _ fs, of i] slots [of i] by simp
    then show ?thesis
      using foreign_events [OF nf(1)] foreign_events [OF nf(2)]
      by (simp add: slot_ok_reads [of i "es @ e1 @ new @ e2" "es @ new"] reading evs s')
  qed
  moreover have "bt_ok m'"
    using ok sweep_keys [OF sw] by (simp add: bt_ok_def)
  ultimately show ?thesis
    by (simp add: tools_inv_def)
qed

lemma stop_started_ok:
  assumes "slot_ok ds es i s" and "stop_if (tcs_started s) s = (s', new)"
  shows "slot_ok ds (es @ new) i s' \<and> (\<forall>e \<in> set new. event_block e = Some (i + 1))"
  using assms
  by (auto simp: slot_ok_def stop_if_def block_index_def phase_of_def reading reading_events split: if_splits)

lemma sweep_stop_inv:
  "tools_inv ds m es \<Longrightarrow> sweep (\<lambda>s. stop_if (tcs_started s) s) m = (m', evs) \<Longrightarrow> tools_inv ds m' (es @ evs)"
  by (rule sweep_inv) (auto dest: stop_started_ok)

text \<open>At the end of the stream a call that never got a name is dropped: the late start is dead code.\<close>

lemma finish_tool_call_slot:
  "slot_ok ds es i s \<Longrightarrow> finish_tool_call s = stop_if (tcs_started s) s"
  by (auto simp: finish_tool_call_def slot_ok_def start_event_def Let_def split: option.splits prod.splits)

lemma sweep_cong: "(\<And>k v. (k, v) \<in> set m \<Longrightarrow> f v = g v) \<Longrightarrow> sweep f m = sweep g m"
proof (induction m)
  case Nil
  then show ?case by simp
next
  case (Cons kv m)
  obtain k v where kv: "kv = (k, v)" by (cases kv)
  have "sweep f m = sweep g m" and "f v = g v"
    using Cons.IH Cons.prems by (auto simp: kv)
  then show ?case by (simp add: kv)
qed

lemma sweep_finish:
  assumes "tools_inv ds m es"
  shows "sweep finish_tool_call m = sweep (\<lambda>s. stop_if (tcs_started s) s) m"
proof (rule sweep_cong)
  fix k v assume "(k, v) \<in> set m"
  then have "slot_ok ds es k v"
    using assms slot_of_entry [of m k v] by (auto simp: tools_inv_def)
  then show "finish_tool_call v = stop_if (tcs_started v) v"
    by (rule finish_tool_call_slot)
qed

text \<open>After it every block that was opened is closed.\<close>

lemma sweep_stop_closed:
  assumes "sweep (\<lambda>s. stop_if (tcs_started s) s) m = (m', evs)"
  shows "tcs_started (slot m' i) \<Longrightarrow> tcs_stopped (slot m' i)"
  using sweep_get [OF assms, of i]
  by (auto simp: slot_def stop_if_def default_tool_call_def split: option.splits if_splits)

end
