(* ===== verification/StreamCorrect.thy ===== *)
theory StreamCorrect
  imports StreamSpec
begin

text \<open>
  The invariant of the whole stream state, kept by every choice and every chunk, and what
  it gives for the events of a complete stream.
\<close>

section \<open>Choices\<close>

definition last_reason :: "chunk_choice list \<Rightarrow> string option" where
  "last_reason cs =
     foldl (\<lambda>r c. case cc_finish_reason c of Some x \<Rightarrow> Some (normalize_finish_reason x) | None \<Rightarrow> r) None cs"

text \<open>No call uses the index whose block index would wrap to the text block's.\<close>

definition no_wrap :: "delta_tool_call list \<Rightarrow> bool" where
  "no_wrap ds \<longleftrightarrow> (\<forall>d \<in> set ds. dtc_index d + 1 \<noteq> 0)"

definition text_phase :: "stream_state \<Rightarrow> phase" where
  "text_phase st = (if ss_text_started st then Opened else Absent)"

definition core_inv :: "chunk_choice list \<Rightarrow> stream_state \<Rightarrow> stream_event list \<Rightarrow> bool" where
  "core_inv cs st es \<longleftrightarrow>
     tools_inv (choice_deltas cs) (ss_tool_calls st) es
     \<and> text_deltas es = choice_text cs \<and> (ss_text_started st \<longleftrightarrow> choice_text cs \<noteq> [])
     \<and> \<not> ss_text_finished st \<and> \<not> ss_finished st \<and> ss_stop_reason st = last_reason cs
     \<and> (no_wrap (choice_deltas cs) \<longrightarrow> block_phase 0 es = Some (text_phase st))"

lemma choice_snoc [simp]:
  "choice_deltas (cs @ [c]) = choice_deltas cs @ cc_tool_calls c"
  "choice_text (cs @ [c]) = choice_text cs @ unwrap_or [] (cc_content c)"
  "last_reason (cs @ [c]) =
     (case cc_finish_reason c of Some x \<Rightarrow> Some (normalize_finish_reason x) | None \<Rightarrow> last_reason cs)"
  by (simp_all add: choice_deltas_def choice_text_def last_reason_def split: option.split)

lemma no_wrap_append [simp]: "no_wrap (ds @ ds') \<longleftrightarrow> no_wrap ds \<and> no_wrap ds'"
  by (auto simp: no_wrap_def)

text \<open>Events that are not about tool blocks leave the calls' invariant alone.\<close>

definition tool_silent :: "stream_event \<Rightarrow> bool" where
  "tool_silent e \<longleftrightarrow> (event_block e = None \<or> event_block e = Some 0)
     \<and> (\<forall>k. json_delta_at k e = [] \<and> tool_start_at k e = [])"

lemma tools_inv_silent:
  assumes "tools_inv ds m es" and "\<forall>e \<in> set fs. tool_silent e"
  shows "tools_inv ds m (es @ fs)"
proof -
  have "slot_ok ds (es @ fs) i s \<longleftrightarrow> slot_ok ds es i s" for i s
  proof (rule slot_ok_reads)
    show "json_deltas (i + 1) (es @ fs) = json_deltas (i + 1) es"
      "tool_starts (i + 1) (es @ fs) = tool_starts (i + 1) es"
      using assms(2) by (auto simp: json_deltas_def tool_starts_def tool_silent_def)
    assume "i + 1 \<noteq> 0"
    then have "\<forall>e \<in> set fs. event_block e \<noteq> Some (i + 1)"
      using assms(2) by (auto simp: tool_silent_def)
    then show "block_phase (i + 1) (es @ fs) = block_phase (i + 1) es"
      by (simp add: reading foreign_events)
  qed
  then show ?thesis
    using assms(1) by (simp add: tools_inv_def)
qed

lemma ingest_text_spec:
  assumes "ingest_text content st = (st', new)" and "block_phase 0 es = Some (text_phase st)"
  shows "block_phase 0 (es @ new) = Some (text_phase st')"
  using assms
  by (auto simp: ingest_text_def text_phase_def reading reading_events split: option.splits if_splits)

lemma ingest_text_frame:
  assumes "ingest_text content st = (st', new)"
  shows "\<forall>e \<in> set new. tool_silent e" and "text_deltas new = unwrap_or [] content"
    and "ss_tool_calls st' = ss_tool_calls st" and "ss_text_finished st' = ss_text_finished st"
    and "ss_finished st' = ss_finished st" and "ss_stop_reason st' = ss_stop_reason st"
    and "ss_text_started st' \<longleftrightarrow> ss_text_started st \<or> unwrap_or [] content \<noteq> []"
  using assms
  by (auto simp: ingest_text_def tool_silent_def reading reading_events split: option.splits if_splits)

text \<open>Events of tool calls: their blocks are those of the calls, and they carry no text.\<close>

lemma ingest_tool_call_events:
  "ingest_tool_call fr m tc = (m', new) \<Longrightarrow> e \<in> set new \<Longrightarrow>
   event_block e = Some (dtc_index tc + 1) \<and> text_delta_of e = []"
  by (auto simp: ingest_tool_call_def Let_def start_event_def delta_event_def stop_if_def block_index_def
      text_delta_of_def split: if_splits option.splits)

lemma ingest_tool_calls_events:
  "run_emit (ingest_tool_call fr) m tcs = (m', new) \<Longrightarrow> e \<in> set new \<Longrightarrow>
   (\<exists>d \<in> set tcs. event_block e = Some (dtc_index d + 1)) \<and> text_delta_of e = []"
  by (blast dest: run_emit_from_step ingest_tool_call_events)

lemma text_deltas_none: "\<forall>e \<in> set es. text_delta_of e = [] \<Longrightarrow> text_deltas es = []"
  by (simp add: text_deltas_def)

lemma ident_exists: "tool_identity i ds \<noteq> None \<Longrightarrow> \<exists>d \<in> set ds. dtc_index d = i"
proof (induction ds rule: rev_induct)
  case Nil
  then show ?case by (simp add: tool_identity_def ident_state_def)
next
  case (snoc d ds)
  then show ?case
    by (cases "dtc_index d = i") (auto simp: tool_identity_def ident_other)
qed

lemma sweep_stop_events:
  assumes "tools_inv ds m es" and "sweep (\<lambda>s. stop_if (tcs_started s) s) m = (m', new)" and "e \<in> set new"
  shows "(\<exists>d \<in> set ds. event_block e = Some (dtc_index d + 1)) \<and> text_delta_of e = []"
proof -
  obtain k v where kv: "(k, v) \<in> set m" "e \<in> set (snd (stop_if (tcs_started v) v))"
    using sweep_events [OF assms(2,3)] by blast
  then have "slot_ok ds es k v"
    using assms(1) slot_of_entry [of m k v] by (auto simp: tools_inv_def)
  then have "tcs_started v \<Longrightarrow> \<exists>d \<in> set ds. k = dtc_index d" and "tcs_index v = k"
    using ident_exists by (auto simp: slot_ok_def eq_commute [of k])
  then show ?thesis
    using kv(2) by (auto simp: stop_if_def block_index_def text_delta_of_def split: if_splits)
qed

lemma ingest_finish_reason_spec:
  assumes "ingest_finish_reason fr st = (st', new)" and "tools_inv ds (ss_tool_calls st) es"
  shows "tools_inv ds (ss_tool_calls st') (es @ new)"
    and "\<forall>e \<in> set new. (\<exists>d \<in> set ds. event_block e = Some (dtc_index d + 1)) \<and> text_delta_of e = []"
    and "ss_text_started st' = ss_text_started st" and "ss_text_finished st' = ss_text_finished st"
    and "ss_finished st' = ss_finished st"
    and "ss_stop_reason st' = (case fr of Some x \<Rightarrow> Some (normalize_finish_reason x) | None \<Rightarrow> ss_stop_reason st)"
  using assms sweep_stop_inv [OF assms(2)] sweep_stop_events [OF assms(2)]
  by (auto simp: ingest_finish_reason_def Let_def split: option.splits if_splits prod.splits)

lemma no_wrap_phase:
  assumes "\<forall>e \<in> set new. \<exists>d \<in> set ds. event_block e = Some (dtc_index d + 1)" and "no_wrap ds"
  shows "phase_run 0 p new = p"
proof -
  have "\<forall>e \<in> set new. event_block e \<noteq> Some 0"
    using assms by (auto simp: no_wrap_def)
  then show ?thesis by (rule foreign_events(3))
qed

lemma ingest_choice_inv:
  assumes inv: "core_inv cs st es" and step: "ingest_choice st c = (st', new)"
  shows "core_inv (cs @ [c]) st' (es @ new)"
proof -
  obtain st1 e1 where t: "ingest_text (cc_content c) st = (st1, e1)" by fastforce
  obtain m e2 where r: "run_emit (ingest_tool_call (cc_finish_reason c)) (ss_tool_calls st1) (cc_tool_calls c) = (m, e2)"
    by fastforce
  let ?st2 = "st1\<lparr>ss_tool_calls := m\<rparr>"
  obtain e3 where f: "ingest_finish_reason (cc_finish_reason c) ?st2 = (st', e3)" and new: "new = e1 @ e2 @ e3"
    using step by (auto simp: ingest_choice_def t r split: prod.splits)
  let ?ds = "choice_deltas cs @ cc_tool_calls c"
  note tf = ingest_text_frame [OF t]
  have i1: "tools_inv (choice_deltas cs) (ss_tool_calls st1) (es @ e1)"
    using inv tf(1,3) tools_inv_silent by (simp add: core_inv_def)
  have i2: "tools_inv ?ds (ss_tool_calls ?st2) ((es @ e1) @ e2)"
    using ingest_tool_calls_inv [OF i1 r] by simp
  note ff = ingest_finish_reason_spec [OF f i2]
  have e2: "\<forall>e \<in> set e2. (\<exists>d \<in> set ?ds. event_block e = Some (dtc_index d + 1)) \<and> text_delta_of e = []"
    using ingest_tool_calls_events [OF r] by auto
  have text_eq: "text_deltas (es @ new) = choice_text (cs @ [c])"
    using inv tf(2) e2 ff(2) by (simp add: new reading core_inv_def text_deltas_none)
  have ph: "block_phase 0 (es @ new) = Some (text_phase st')" 
    if nw: "no_wrap (choice_deltas cs @ cc_tool_calls c)"
  proof -
    have "block_phase 0 (es @ e1) = Some (text_phase st1)"
      using inv nw ingest_text_spec [OF t] by (simp add: core_inv_def)
    moreover have "phase_run 0 p (e2 @ e3) = p" for p
      using e2 ff(2) nw by (intro no_wrap_phase [of _ ?ds]) auto
    moreover have "text_phase st' = text_phase st1"
      using ff(3) by (simp add: text_phase_def)
    ultimately show ?thesis by (simp add: new reading)
  qed
  show ?thesis
    using inv tf(4-7) ff text_eq ph
    by (auto simp: core_inv_def new split: option.splits)
qed

interpretation choices: emitting_machine ingest_choice core_inv
  by unfold_locales (rule ingest_choice_inv)

text \<open>What a choice never touches, and that all it emits belongs to some block.\<close>

definition header_inv :: "stream_state \<Rightarrow> chunk_choice list \<Rightarrow> stream_state \<Rightarrow> stream_event list \<Rightarrow> bool" where
  "header_inv st0 cs st es \<longleftrightarrow>
     ss_model st = ss_model st0 \<and> ss_message_started st = ss_message_started st0
     \<and> ss_usage st = ss_usage st0 \<and> (\<forall>e \<in> set es. event_block e \<noteq> None)"

lemma ingest_parts_header:
  "ingest_text content st = (st', new) \<Longrightarrow> header_inv st cs st' new"
  "ingest_finish_reason fr st = (st', new) \<Longrightarrow> header_inv st cs st' new"
proof -
  assume "ingest_text content st = (st', new)"
  then show "header_inv st cs st' new"
    by (auto simp: ingest_text_def header_inv_def split: option.splits if_splits)
next
  assume a: "ingest_finish_reason fr st = (st', new)"
  have "event_block e \<noteq> None" if "sweep (\<lambda>s. stop_if (tcs_started s) s) m = (m', evs)" "e \<in> set evs" for m m' evs e
    using sweep_events [OF that] by (auto simp: stop_if_def split: if_splits)
  then show "header_inv st cs st' new"
    using a by (auto simp: ingest_finish_reason_def header_inv_def Let_def split: option.splits if_splits prod.splits)
qed

interpretation headers: emitting_machine ingest_choice "header_inv st0" for st0
proof
  fix cs st es c st' new
  assume inv: "header_inv st0 cs st es" and step: "ingest_choice st c = (st', new)"
  obtain st1 e1 where t: "ingest_text (cc_content c) st = (st1, e1)" by fastforce
  obtain m e2 where r: "run_emit (ingest_tool_call (cc_finish_reason c)) (ss_tool_calls st1) (cc_tool_calls c) = (m, e2)"
    by fastforce
  obtain e3 where f: "ingest_finish_reason (cc_finish_reason c) (st1\<lparr>ss_tool_calls := m\<rparr>) = (st', e3)"
    and new: "new = e1 @ e2 @ e3"
    using step by (auto simp: ingest_choice_def t r split: prod.splits)
  show "header_inv st0 (cs @ [c]) st' (es @ new)"
    using inv ingest_parts_header(1) [OF t] ingest_parts_header(2) [OF f] ingest_tool_calls_events [OF r]
    by (fastforce simp: header_inv_def new)
qed

section \<open>Chunks\<close>

definition last_usage :: "chat_chunk list \<Rightarrow> usage option" where
  "last_usage chunks = foldl (\<lambda>u c. case ck_usage c of Some v \<Rightarrow> Some v | None \<Rightarrow> u) None chunks"

definition stream_opening :: "string \<Rightarrow> chat_chunk list \<Rightarrow> stream_event list \<Rightarrow> bool" where
  "stream_opening model chunks es \<longleftrightarrow>
     (if chunks = [] then es = []
      else \<exists>body. es = start_message (stream_new model) (hd chunks) # body
             \<and> (\<forall>e \<in> set body. event_block e \<noteq> None))"

definition chunk_inv :: "string \<Rightarrow> chat_chunk list \<Rightarrow> stream_state \<Rightarrow> stream_event list \<Rightarrow> bool" where
  "chunk_inv model chunks st es \<longleftrightarrow>
     core_inv (all_choices chunks) st es \<and> ss_model st = model
     \<and> (ss_message_started st \<longleftrightarrow> chunks \<noteq> []) \<and> ss_usage st = last_usage chunks
     \<and> stream_opening model chunks es"

lemma chunks_snoc [simp]:
  "all_choices (chunks @ [c]) = all_choices chunks @ ck_choices c"
  "last_usage (chunks @ [c]) = (case ck_usage c of Some v \<Rightarrow> Some v | None \<Rightarrow> last_usage chunks)"
  by (simp_all add: all_choices_def last_usage_def split: option.split)

lemma core_inv_silent:
  assumes "core_inv cs st es" and "\<forall>e \<in> set fs. tool_silent e \<and> event_block e = None"
  shows "core_inv cs (st\<lparr>ss_message_started := b, ss_usage := u\<rparr>) (es @ fs)"
proof -
  have "text_delta_of e = []" if "event_block e = None" for e
    using that by (cases e) (simp_all add: text_delta_of_def)
  then have "text_deltas fs = []"
    using assms(2) by (simp add: text_deltas_none)
  moreover have "phase_run 0 p fs = p" for p
    using assms(2) by (intro foreign_events(3)) simp
  ultimately show ?thesis
    using assms tools_inv_silent [of "choice_deltas cs" "ss_tool_calls st" es fs]
    by (simp add: core_inv_def reading text_phase_def)
qed

lemma ingest_chunk_inv:
  assumes inv: "chunk_inv model chunks st es" and step: "ingest_chunk st c = (st', new)"
  shows "chunk_inv model (chunks @ [c]) st' (es @ new)"
proof -
  let ?e0 = "if ss_message_started st then [] else [start_message st c]"
  let ?st1 = "st\<lparr>ss_message_started := True,
    ss_usage := (case ck_usage c of Some u \<Rightarrow> Some u | None \<Rightarrow> ss_usage st)\<rparr>"
  have same: "(case ck_usage c of Some u \<Rightarrow> st\<lparr>ss_message_started := True\<rparr>\<lparr>ss_usage := Some u\<rparr>
     | None \<Rightarrow> st\<lparr>ss_message_started := True\<rparr>) = ?st1"
    by (simp split: option.split)
  obtain e2 where run: "run_emit ingest_choice ?st1 (ck_choices c) = (st', e2)" and new: "new = ?e0 @ e2"
    using step by (auto simp: ingest_chunk_def Let_def same simp del: stream_state.update_convs split: prod.splits)
  have silent: "\<forall>e \<in> set ?e0. tool_silent e \<and> event_block e = None"
    by (simp add: start_message_def tool_silent_def reading_events)
  have "core_inv (all_choices chunks) ?st1 (es @ ?e0)"
    using inv silent by (intro core_inv_silent) (simp_all add: chunk_inv_def)
  then have core: "core_inv (all_choices (chunks @ [c])) st' (es @ new)"
    using choices.run_keeps [OF _ run] by (simp only: new chunks_snoc append_assoc [symmetric])
  have "header_inv ?st1 [] ?st1 []" by (simp add: header_inv_def)
  then have hd: "header_inv ?st1 (ck_choices c) st' e2"
    using headers.run_keeps [OF _ run] by fastforce
  have "stream_opening model (chunks @ [c]) (es @ new)"
    using inv hd
    by (auto simp: chunk_inv_def stream_opening_def header_inv_def new start_message_def stream_new_def)
  then show ?thesis
    using inv core hd by (auto simp: chunk_inv_def header_inv_def split: option.splits)
qed

interpretation chunks: emitting_machine ingest_chunk "chunk_inv model" for model
  by unfold_locales (rule ingest_chunk_inv)

lemma slot_ok_start: "slot_ok [] [] i (default_tool_call\<lparr>tcs_index := i\<rparr>)"
  by (simp add: slot_ok_def default_tool_call_def reading fragments_def ident_state_def
      tool_identity_def phase_of_def)

lemma chunk_inv_start: "chunk_inv model [] (stream_new model) []"
  by (simp add: chunk_inv_def core_inv_def tools_inv_def stream_new_def all_choices_def choice_deltas_def
      choice_text_def last_reason_def last_usage_def stream_opening_def reading slot_def slot_ok_start
      text_phase_def bt_ok_def bt_get_def)

section \<open>Whole streams\<close>

definition closing_text :: "chat_chunk list \<Rightarrow> stream_event list" where
  "closing_text chunks = (if stream_text chunks \<noteq> [] then [ContentBlockStop 0] else [])"

definition closing_message :: "chat_chunk list \<Rightarrow> stream_event list" where
  "closing_message chunks =
     (if chunks = [] then []
      else [MessageDelta (Some (unwrap_or ''end_turn'' (last_reason (all_choices chunks)))) None
              (unwrap_or default_usage (last_usage chunks)), MessageStop])"

lemma closing_reads:
  "tool_starts k (closing_text c) = []" "tool_starts k (closing_message c) = []"
  "json_deltas k (closing_text c) = []" "json_deltas k (closing_message c) = []"
  "text_deltas (closing_text c) = []" "text_deltas (closing_message c) = []"
  "phase_run k p (closing_message c) = p"
  "k \<noteq> 0 \<Longrightarrow> phase_run k p (closing_text c) = p"
  by (simp_all add: closing_text_def closing_message_def reading reading_events foreign_events)

lemma stream_events_split:
  obtains st es m e2 where
    "chunk_inv model chunks st es" and "sweep (\<lambda>s. stop_if (tcs_started s) s) (ss_tool_calls st) = (m, e2)"
    and "stream_events model chunks =
      es @ closing_text chunks @ e2 @ closing_message chunks"
proof -
  obtain st es where run: "run_emit ingest_chunk (stream_new model) chunks = (st, es)" by fastforce
  have inv: "chunk_inv model chunks st es"
    using chunks.run_from_start [OF chunk_inv_start run] .
  obtain m e2 where sw: "sweep (\<lambda>s. stop_if (tcs_started s) s) (ss_tool_calls st) = (m, e2)" by fastforce
  have "tools_inv (choice_deltas (all_choices chunks)) (ss_tool_calls st) es"
    using inv by (simp add: chunk_inv_def core_inv_def)
  then have "sweep finish_tool_call (ss_tool_calls st) = (m, e2)"
    using sw by (simp add: sweep_finish)
  then have "stream_events model chunks =
      es @ closing_text chunks @ e2 @ closing_message chunks"
    using inv by (auto simp: stream_events_def run stream_finish_def Let_def chunk_inv_def core_inv_def
        closing_text_def closing_message_def stream_text_def)
  with inv sw show thesis by (rule that)
qed

lemma tool_calls_of_stream:
  "tool_starts (i + 1) (stream_events model chunks)
     = (case tool_identity i (tool_deltas chunks) of None \<Rightarrow> [] | Some x \<Rightarrow> [x])
   \<and> json_deltas (i + 1) (stream_events model chunks)
     = (if tool_identity i (tool_deltas chunks) = None then [] else fragments i (tool_deltas chunks))"
proof -
  obtain st es m e2 where inv: "chunk_inv model chunks st es"
    and sw: "sweep (\<lambda>s. stop_if (tcs_started s) s) (ss_tool_calls st) = (m, e2)"
    and ev: "stream_events model chunks = es @ closing_text chunks @ e2 @ closing_message chunks"
    by (rule stream_events_split)
  have "tools_inv (tool_deltas chunks) m (es @ e2)"
    using inv sweep_stop_inv [OF _ sw] by (simp add: chunk_inv_def core_inv_def tool_deltas_def)
  then have "slot_ok (tool_deltas chunks) (es @ e2) i (slot m i)" by (simp add: tools_inv_def)
  then show ?thesis
    by (auto simp: slot_ok_def ev reading closing_reads)
qed

text \<open>
  C1: For every call index: when some delta of the index names the call, its block is started once, with
  the identity known at that delta, and its JSON deltas are together exactly the argument fragments of
  all deltas of the index, those before the name too, in their order. A call that no delta names starts
  no block and sends nothing, so its argument fragments are lost.
\<close>

theorem stream_tool_calls:
  "tool_starts (i + 1) (stream_events model chunks)
     = (case tool_identity i (tool_deltas chunks) of None \<Rightarrow> [] | Some x \<Rightarrow> [x])
   \<and> json_deltas (i + 1) (stream_events model chunks)
     = (if tool_identity i (tool_deltas chunks) = None then [] else fragments i (tool_deltas chunks))"
  by (rule tool_calls_of_stream)

lemma text_of_stream: "text_deltas (stream_events model chunks) = stream_text chunks"
proof -
  obtain st es m e2 where inv: "chunk_inv model chunks st es"
    and sw: "sweep (\<lambda>s. stop_if (tcs_started s) s) (ss_tool_calls st) = (m, e2)"
    and ev: "stream_events model chunks = es @ closing_text chunks @ e2 @ closing_message chunks"
    by (rule stream_events_split)
  have "text_deltas e2 = []"
    using inv sweep_stop_events [OF _ sw] by (auto simp: chunk_inv_def core_inv_def text_deltas_none)
  then show ?thesis
    using inv by (simp add: ev reading closing_reads chunk_inv_def core_inv_def stream_text_def)
qed

text \<open>The text fragments of the stream are exactly the content of the choices.\<close>

theorem stream_text_events: "text_deltas (stream_events model chunks) = stream_text chunks"
  by (rule text_of_stream)

lemma phase_of_call:
  assumes "i + 1 \<noteq> 0"
  shows "block_phase (i + 1) (stream_events model chunks)
    = Some (if tool_identity i (tool_deltas chunks) \<noteq> None then Closed else Absent)"
proof -
  obtain st es m e2 where inv: "chunk_inv model chunks st es"
    and sw: "sweep (\<lambda>s. stop_if (tcs_started s) s) (ss_tool_calls st) = (m, e2)"
    and ev: "stream_events model chunks = es @ closing_text chunks @ e2 @ closing_message chunks"
    by (rule stream_events_split)
  have "tools_inv (tool_deltas chunks) (ss_tool_calls st) es"
    using inv by (auto simp: chunk_inv_def core_inv_def tool_deltas_def)
  then have "slot_ok (tool_deltas chunks) (es @ e2) i (slot m i)"
    using sweep_stop_inv [OF _ sw] by (simp add: tools_inv_def)
  then have "block_phase (i + 1) (es @ e2) = Some (if tool_identity i (tool_deltas chunks) \<noteq> None then Closed else Absent)"
    using assms sweep_stop_closed [OF sw, of i] by (simp add: slot_ok_def phase_of_def)
  then show ?thesis
    using assms by (simp add: ev reading closing_reads)
qed

lemma blocks_of_stream:
  assumes "no_wrap (tool_deltas chunks)"
  shows "block_phase k (stream_events model chunks)
    = Some (if (if k = 0 then stream_text chunks \<noteq> [] else tool_identity (k - 1) (tool_deltas chunks) \<noteq> None)
            then Closed else Absent)"
proof (cases "k = 0")
  case True
  obtain st es m e2 where inv: "chunk_inv model chunks st es"
    and sw: "sweep (\<lambda>s. stop_if (tcs_started s) s) (ss_tool_calls st) = (m, e2)"
    and ev: "stream_events model chunks = es @ closing_text chunks @ e2 @ closing_message chunks"
    by (rule stream_events_split)
  have core: "tools_inv (tool_deltas chunks) (ss_tool_calls st) es"
      "block_phase 0 es = Some (if stream_text chunks \<noteq> [] then Opened else Absent)"
    using inv assms by (auto simp: chunk_inv_def core_inv_def tool_deltas_def stream_text_def text_phase_def)
  have "phase_run 0 p e2 = p" for p
    using sweep_stop_events [OF core(1) sw] assms by (intro no_wrap_phase) auto
  then show ?thesis
    using core(2) True by (simp add: ev reading closing_reads closing_text_def phase_step_def)
next
  case False
  then show ?thesis using phase_of_call [of "k - 1" model chunks] by simp
qed

text \<open>The reading does not ask that a delta comes before the stop, and one may not: when the provider
  names \<open>tool_calls\<close> as the reason before the arguments end, the rest follows the stop.\<close>

lemma delta_after_stop:
  "drop 3 (take 5 (stream_events ''m''
     [\<lparr>ck_id = ''c'', ck_model = None, ck_choices = [\<lparr>cc_content = None, cc_tool_calls =
         [\<lparr>dtc_index = 0, dtc_id = None, dtc_name = Some ''bash'', dtc_arguments = Some ''{''\<rparr>],
         cc_finish_reason = Some ''tool_calls''\<rparr>], ck_usage = None\<rparr>,
      \<lparr>ck_id = ''c'', ck_model = None, ck_choices = [\<lparr>cc_content = None, cc_tool_calls =
         [\<lparr>dtc_index = 0, dtc_id = None, dtc_name = None, dtc_arguments = Some ''}''\<rparr>],
         cc_finish_reason = None\<rparr>], ck_usage = None\<rparr>]))
   = [ContentBlockStop 1, ContentBlockDelta 1 (InputJsonDelta ''}'')]"
  by code_simp

text \<open>C2: every block that a stream opens is opened once and closed once, and nothing is sent on it before it is
  opened.\<close>

theorem stream_blocks_closed:
  assumes "no_wrap (tool_deltas chunks)"
  shows "block_phase k (stream_events model chunks)
    = Some (if (if k = 0 then stream_text chunks \<noteq> [] else tool_identity (k - 1) (tool_deltas chunks) \<noteq> None)
            then Closed else Absent)"
  using assms by (rule blocks_of_stream)

theorem stream_blocks_closed_witness:
  "block_phase 1 (stream_events ''m''
     [\<lparr>ck_id = ''c'', ck_model = None, ck_choices =
        [\<lparr>cc_content = None, cc_tool_calls =
           [\<lparr>dtc_index = 0, dtc_id = None, dtc_name = Some ''bash'', dtc_arguments = Some ''{}''\<rparr>],
           cc_finish_reason = None\<rparr>], ck_usage = None\<rparr>]) = Some Closed"
proof -
  let ?chunks = "[\<lparr>ck_id = ''c'', ck_model = None, ck_choices =
        [\<lparr>cc_content = None, cc_tool_calls =
           [\<lparr>dtc_index = 0, dtc_id = None, dtc_name = Some ''bash'', dtc_arguments = Some ''{}''\<rparr>],
           cc_finish_reason = None\<rparr>], ck_usage = None\<rparr>] :: chat_chunk list"
  have "no_wrap (tool_deltas ?chunks)" and "tool_identity 0 (tool_deltas ?chunks) \<noteq> None"
    by (simp_all add: no_wrap_def tool_deltas_def choice_deltas_def all_choices_def tool_identity_def
        ident_state_def ident_step_def)
  with stream_blocks_closed [of ?chunks 1 "''m''"] show ?thesis by simp
qed

lemma frame_of_stream:
  "if chunks = [] then stream_events model chunks = []
   else \<exists>body. stream_events model chunks
          = start_message (stream_new model) (hd chunks) # body @ closing_message chunks
        \<and> list_all (\<lambda>e. event_block e \<noteq> None) body"
proof -
  obtain st es m e2 where inv: "chunk_inv model chunks st es"
    and sw: "sweep (\<lambda>s. stop_if (tcs_started s) s) (ss_tool_calls st) = (m, e2)"
    and ev: "stream_events model chunks = es @ closing_text chunks @ e2 @ closing_message chunks"
    by (rule stream_events_split)
  have core: "tools_inv (tool_deltas chunks) (ss_tool_calls st) es" and op: "stream_opening model chunks es"
    using inv by (auto simp: chunk_inv_def core_inv_def tool_deltas_def)
  show ?thesis
  proof (cases "chunks = []")
    case True
    then show ?thesis
      by (simp add: stream_events_def stream_new_def stream_finish_def)
  next
    case False
    then obtain body where b: "es = start_message (stream_new model) (hd chunks) # body"
        "\<forall>e \<in> set body. event_block e \<noteq> None"
      using op by (auto simp: stream_opening_def)
    have "\<forall>e \<in> set (body @ closing_text chunks @ e2). event_block e \<noteq> None"
      using b(2) sweep_stop_events [OF core(1) sw] by (auto simp: closing_text_def)
    then show ?thesis
      using False b(1) by (auto simp: ev list_all_iff)
  qed
qed

text \<open>The message is framed: one start before every block, one delta and one stop after them.\<close>

theorem stream_message_framed:
  "if chunks = [] then stream_events model chunks = []
   else \<exists>body. stream_events model chunks
          = start_message (stream_new model) (hd chunks) # body @ closing_message chunks
        \<and> list_all (\<lambda>e. event_block e \<noteq> None) body"
  by (rule frame_of_stream)

end
