(* ===== verification/Utf8.thy ===== *)
theory Utf8
  imports Prelude
begin

text \<open>
  \<open>String::from_utf8_lossy\<close> of the standard library on byte lists: each maximal prefix of
  a well-formed UTF-8 sequence that is not completed becomes one U+FFFD.
\<close>

definition replacement :: string where
  "replacement = [CHR 0xEF, CHR 0xBF, CHR 0xBD]"

text \<open>The ranges of the bytes that may follow a leading byte; \<open>None\<close>: no leading byte.\<close>

definition continuation_ranges :: "nat \<Rightarrow> (nat \<times> nat) list option" where
  "continuation_ranges n =
     (if n < 0x80 then Some []
      else if 0xC2 \<le> n \<and> n \<le> 0xDF then Some [(0x80, 0xBF)]
      else if n = 0xE0 then Some [(0xA0, 0xBF), (0x80, 0xBF)]
      else if n = 0xED then Some [(0x80, 0x9F), (0x80, 0xBF)]
      else if 0xE1 \<le> n \<and> n \<le> 0xEF then Some [(0x80, 0xBF), (0x80, 0xBF)]
      else if n = 0xF0 then Some [(0x90, 0xBF), (0x80, 0xBF), (0x80, 0xBF)]
      else if 0xF1 \<le> n \<and> n \<le> 0xF3 then Some [(0x80, 0xBF), (0x80, 0xBF), (0x80, 0xBF)]
      else if n = 0xF4 then Some [(0x80, 0x8F), (0x80, 0xBF), (0x80, 0xBF)]
      else None)"

text \<open>The bytes taken, whether all ranges were met, and the rest.\<close>

fun take_continuation :: "(nat \<times> nat) list \<Rightarrow> string \<Rightarrow> string \<times> bool \<times> string" where
  "take_continuation [] s = ([], True, s)"
| "take_continuation (r # rs) [] = ([], False, [])"
| "take_continuation ((lo, hi) # rs) (c # cs) =
     (if lo \<le> (of_char c :: nat) \<and> (of_char c :: nat) \<le> hi
      then (case take_continuation rs cs of (t, full, rest) \<Rightarrow> (c # t, full, rest))
      else ([], False, c # cs))"

lemma take_continuation_length:
  "take_continuation rs s = (t, full, rest) \<Longrightarrow> length rest \<le> length s"
  by (induction rs s arbitrary: t full rest rule: take_continuation.induct)
    (auto split: if_splits prod.splits)

function utf8_lossy :: "string \<Rightarrow> string" where
  "utf8_lossy [] = []"
| "utf8_lossy (c # cs) =
     (case continuation_ranges (of_char c) of
        None \<Rightarrow> replacement @ utf8_lossy cs
      | Some rs \<Rightarrow>
          (case take_continuation rs cs of
             (t, full, rest) \<Rightarrow> (if full then c # t else replacement) @ utf8_lossy rest))"
  by pat_completeness auto
termination
  by (relation "measure length") (auto dest!: take_continuation_length [OF sym])

lemma utf8_lossy_ascii_append: "is_ascii s \<Longrightarrow> utf8_lossy (s @ t) = s @ utf8_lossy t"
  by (induction s) (auto simp: is_ascii_def continuation_ranges_def)

lemma utf8_lossy_ascii: "is_ascii s \<Longrightarrow> utf8_lossy s = s"
  using utf8_lossy_ascii_append [of s "[]"] by simp

text \<open>Valid UTF-8 is what the conversion leaves alone.\<close>

definition valid_utf8 :: "string \<Rightarrow> bool" where
  "valid_utf8 s \<longleftrightarrow> utf8_lossy s = s"

lemma valid_ascii: "is_ascii s \<Longrightarrow> valid_utf8 s"
  by (simp add: valid_utf8_def utf8_lossy_ascii)

text \<open>
  \<open>str::chars\<close> on a string that is valid UTF-8: the encodings of its characters, each a byte
  that is not a continuation byte and the continuation bytes after it.
\<close>

definition is_continuation :: "char \<Rightarrow> bool" where
  "is_continuation c \<longleftrightarrow> 128 \<le> (of_char c :: nat) \<and> (of_char c :: nat) < 192"

function str_chars :: "string \<Rightarrow> string list" where
  "str_chars [] = []"
| "str_chars (c # cs) = (c # takeWhile is_continuation cs) # str_chars (dropWhile is_continuation cs)"
  by pat_completeness auto
termination
  by (relation "measure length") (simp_all add: length_dropWhile_le less_Suc_eq_le)

lemma concat_str_chars [simp]: "concat (str_chars s) = s"
  by (induction s rule: str_chars.induct) simp_all

lemma str_chars_nonempty: "w \<in> set (str_chars s) \<Longrightarrow> w \<noteq> []"
  by (induction s rule: str_chars.induct) auto

definition char_count :: "string \<Rightarrow> nat" where
  "char_count s = length (str_chars s)"

text \<open>Two characters of the messages.\<close>

definition em_dash :: string where
  "em_dash = [CHR 0xE2, CHR 0x80, CHR 0x94]"

definition ellipsis :: string where
  "ellipsis = [CHR 0xE2, CHR 0x80, CHR 0xA6]"

end
