(* ===== verification/Sse.thy ===== *)
theory Sse
  imports Utf8 Machines
begin

text \<open>
  The server-sent-event parsers: \<open>crates/api/src/sse.rs\<close> (\<open>SseParser\<close>) and the framing half
  of \<open>OpenAiSseParser\<close> in \<open>crates/api/src/client.rs\<close>, which share the frame splitter and
  the push loop. The locale \<open>sse_parser\<close> proves framing facts once for any payload
  extraction; it is interpreted for both parsers.
\<close>

section \<open>Frames\<close>

text \<open>\<open>windows(n).position(|w| w == pat)\<close>: the first index where \<open>pat\<close> occurs.\<close>

fun find_sub :: "string \<Rightarrow> string \<Rightarrow> nat option" where
  "find_sub pat [] = (if pat = [] then Some 0 else None)"
| "find_sub pat (c # cs) =
     (if starts_with (c # cs) pat then Some 0 else map_option Suc (find_sub pat cs))"

definition lf2 :: string where
  "lf2 = [CHR 0x0A, CHR 0x0A]"

definition crlf2 :: string where
  "crlf2 = [CHR 0x0D, CHR 0x0A, CHR 0x0D, CHR 0x0A]"

definition frame_separator :: "string \<Rightarrow> (nat \<times> nat) option" where
  "frame_separator buffer =
     (case find_sub lf2 buffer of
        Some pos \<Rightarrow> Some (pos, 2)
      | None \<Rightarrow> (case find_sub crlf2 buffer of Some pos \<Rightarrow> Some (pos, 4) | None \<Rightarrow> None))"

text \<open>\<open>next_frame\<close>/\<open>next_sse_frame\<close>: the frame's text and the buffer after the drain.\<close>

definition next_frame :: "string \<Rightarrow> (string \<times> string) option" where
  "next_frame buffer =
     (case frame_separator buffer of
        None \<Rightarrow> None
      | Some (position, sep_len) \<Rightarrow>
          (let frame_bytes = take (position + sep_len) buffer;
               frame_len = length frame_bytes - sep_len
           in Some (utf8_lossy (take frame_len frame_bytes), drop (position + sep_len) buffer)))"

lemma find_sub_Some: "find_sub pat s = Some i \<Longrightarrow> i + length pat \<le> length s"
  by (induction s arbitrary: i)
    (auto simp: starts_with_iff dest!: arg_cong [of "_ # _" _ length] split: if_splits)

lemma frame_separator_Some:
  "frame_separator buffer = Some (p, n) \<Longrightarrow> 0 < n \<and> p + n \<le> length buffer"
  by (auto simp: frame_separator_def lf2_def crlf2_def dest!: find_sub_Some split: option.splits)

lemma next_frame_shorter: "next_frame buffer = Some (f, rest) \<Longrightarrow> length rest < length buffer"
  by (auto simp: next_frame_def Let_def dest!: frame_separator_Some split: option.splits)

text \<open>
  The \<open>while let Some(frame) = self.next_frame()\<close> loop of \<open>push\<close>: an extraction error
  leaves it at once, and the events collected so far are dropped with it.
\<close>

function push_loop :: "(string \<Rightarrow> 'e + 'p option) \<Rightarrow> string \<Rightarrow> 'p list \<Rightarrow> ('e + 'p list) \<times> string" where
  "push_loop payload_of buffer events =
     (case next_frame buffer of
        None \<Rightarrow> (Inr events, buffer)
      | Some (frame, rest) \<Rightarrow>
          (case payload_of frame of
             Inl e \<Rightarrow> (Inl e, rest)
           | Inr None \<Rightarrow> push_loop payload_of rest events
           | Inr (Some payload) \<Rightarrow> push_loop payload_of rest (events @ [payload])))"
  by pat_completeness auto
termination
  by (relation "measure (\<lambda>(f, b, es). length b)") (auto dest: next_frame_shorter)

declare push_loop.simps [simp del]

definition parser_push :: "(string \<Rightarrow> 'e + 'p option) \<Rightarrow> string \<Rightarrow> string \<Rightarrow> ('e + 'p list) \<times> string" where
  "parser_push payload_of buffer chunk = push_loop payload_of (buffer @ chunk) []"

text \<open>A body delivered in chunks, as the stream reader pushes it.\<close>

fun feed_chunks :: "(string \<Rightarrow> 'e + 'p option) \<Rightarrow> string \<Rightarrow> string list \<Rightarrow> ('e + 'p list) \<times> string" where
  "feed_chunks payload_of buffer [] = (Inr [], buffer)"
| "feed_chunks payload_of buffer (c # cs) =
     (case parser_push payload_of buffer c of
        (Inl e, buffer') \<Rightarrow> (Inl e, buffer')
      | (Inr events, buffer') \<Rightarrow>
          (case feed_chunks payload_of buffer' cs of
             (Inl e, buffer'') \<Rightarrow> (Inl e, buffer'')
           | (Inr more, buffer'') \<Rightarrow> (Inr (events @ more), buffer'')))"

section \<open>Framing does not depend on how the body is cut into chunks\<close>

lemma find_sub_None: "find_sub pat s = None \<longleftrightarrow> \<not> contains s pat"
  by (induction s) (auto split: if_splits)

lemma find_sub_append: "find_sub pat a = Some i \<Longrightarrow> find_sub pat (a @ b) = Some i"
proof (induction a arbitrary: i)
  case Nil
  then show ?case by (cases b) (auto simp: starts_with_def split: if_splits)
next
  case (Cons c a)
  show ?case
  proof (cases "starts_with (c # a) pat")
    case True
    then have "starts_with (c # a @ b) pat"
      by (auto simp: starts_with_iff) (metis append_Cons append_assoc)
    with True Cons.prems show ?thesis by simp
  next
    case False
    with Cons.prems obtain j where j: "find_sub pat a = Some j" and i: "i = Suc j" by auto
    have len: "j + length pat \<le> length a" using j by (rule find_sub_Some)
    have "\<not> starts_with (c # a @ b) pat"
    proof
      assume "starts_with (c # a @ b) pat"
      then obtain r where r: "(c # a) @ b = pat @ r" by (auto simp: starts_with_iff)
      have "pat = take (length pat) ((c # a) @ b)" using r by simp
      also have "\<dots> = take (length pat) (c # a)" using len by (simp del: append_Cons)
      finally have "c # a = pat @ drop (length pat) (c # a)"
        by (metis append_take_drop_id)
      then have "starts_with (c # a) pat" unfolding starts_with_iff ..
      with False show False by contradiction
    qed
    with Cons.IH [OF j] i show ?thesis by simp
  qed
qed

text \<open>
  A stream is \<open>uniform\<close> when it ends its frames in one way only, by blank lines of either
  kind. (A stream that mixes them is framed differently for different chunk boundaries.)
\<close>

definition uniform :: "string \<Rightarrow> bool" where
  "uniform s \<longleftrightarrow> \<not> contains s lf2 \<or> \<not> contains s crlf2"

lemma contains_mono: "contains s p \<Longrightarrow> contains (a @ s @ b) p"
  by (auto simp: contains_iff) (metis append_assoc)

lemma uniform_suffix: "uniform (a @ s) \<Longrightarrow> uniform s"
  using contains_mono [of s _ a "[]"] by (auto simp: uniform_def)

lemma frame_separator_append:
  assumes "uniform (a @ b)" and "frame_separator a = Some x"
  shows "frame_separator (a @ b) = Some x"
proof (cases "find_sub lf2 a")
  case (Some p)
  with assms(2) show ?thesis
    by (auto simp: frame_separator_def find_sub_append)
next
  case None
  with assms(2) obtain p where p: "find_sub crlf2 a = Some p" "x = (p, 4)"
    by (auto simp: frame_separator_def split: option.splits)
  from p(1) have "contains (a @ b) crlf2"
    using contains_mono [of a crlf2 "[]" b] find_sub_None [of crlf2 a] by auto
  with assms(1) have "find_sub lf2 (a @ b) = None"
    by (simp add: uniform_def find_sub_None)
  with p show ?thesis
    by (simp add: frame_separator_def find_sub_append)
qed

lemma next_frame_append:
  assumes "uniform (a @ b)" and "next_frame a = Some (f, r)"
  shows "next_frame (a @ b) = Some (f, r @ b)"
proof -
  from assms(2) obtain p n where pn: "frame_separator a = Some (p, n)"
    by (auto simp: next_frame_def split: option.splits)
  then have "p + n \<le> length a"
    using frame_separator_Some by blast
  with pn frame_separator_append [OF assms(1) pn] assms(2) show ?thesis
    by (auto simp: next_frame_def Let_def)
qed

lemma next_frame_suffix: "next_frame a = Some (f, r) \<Longrightarrow> \<exists>w. a = w @ r"
  by (auto simp: next_frame_def Let_def split: option.splits) (metis append_take_drop_id)

lemma push_loop_append:
  "uniform (buf @ b) \<Longrightarrow>
   push_loop payload_of (buf @ b) ev =
     (case push_loop payload_of buf ev of
        (Inl e, r) \<Rightarrow> (Inl e, r @ b)
      | (Inr ev', r) \<Rightarrow> push_loop payload_of (r @ b) ev')"
proof (induction payload_of buf ev rule: push_loop.induct)
  case (1 payload_of buf ev)
  show ?case
  proof (cases "next_frame buf")
    case None
    then show ?thesis by (simp add: push_loop.simps [of payload_of buf ev])
  next
    case (Some fr)
    obtain f r where fr: "fr = (f, r)" by (cases fr)
    have nf: "next_frame (buf @ b) = Some (f, r @ b)"
      using next_frame_append "1.prems" Some fr by blast
    have u: "uniform (r @ b)"
      using next_frame_suffix [of buf f r] Some fr "1.prems" uniform_suffix by fastforce
    show ?thesis
    proof (cases "payload_of f")
      case (Inl e)
      with Some fr nf show ?thesis
        by (simp add: push_loop.simps [of payload_of buf ev] push_loop.simps [of payload_of "buf @ b" ev])
    next
      case (Inr opt)
      with Some fr nf u "1.IH" show ?thesis
        by (cases opt)
          (simp_all add: push_loop.simps [of payload_of buf ev] push_loop.simps [of payload_of "buf @ b" ev])
    qed
  qed
qed

lemma push_loop_events:
  "push_loop payload_of buf (es @ ev) =
     (case push_loop payload_of buf ev of
        (Inl e, r) \<Rightarrow> (Inl e, r) | (Inr ev', r) \<Rightarrow> (Inr (es @ ev'), r))"
proof (induction payload_of buf ev rule: push_loop.induct)
  case (1 payload_of buf ev)
  show ?case
    by (simp add: push_loop.simps [of payload_of buf "es @ ev"] push_loop.simps [of payload_of buf ev]
        "1.IH" split: option.split sum.split prod.split)
qed

lemma push_loop_done:
  "push_loop payload_of buf ev = (Inr ev', r) \<Longrightarrow> next_frame r = None \<and> (\<exists>w. buf = w @ r)"
proof (induction payload_of buf ev rule: push_loop.induct)
  case (1 payload_of buf ev)
  show ?case
  proof (cases "next_frame buf")
    case None
    with "1.prems" show ?thesis by (auto simp: push_loop.simps [of payload_of buf ev])
  next
    case (Some fr)
    obtain f rest where fr: "fr = (f, rest)" by (cases fr)
    from Some fr obtain w where w: "buf = w @ rest" using next_frame_suffix by blast
    show ?thesis
    proof (cases "payload_of f")
      case (Inl e)
      with Some fr "1.prems" show ?thesis by (simp add: push_loop.simps [of payload_of buf ev])
    next
      case (Inr opt)
      then have "next_frame r = None \<and> (\<exists>w. rest = w @ r)"
        using Some fr "1.prems" "1.IH"
        by (cases opt) (auto simp: push_loop.simps [of payload_of buf ev])
      with w show ?thesis by (metis append_assoc)
    qed
  qed
qed

text \<open>
  Whatever the chunks, feeding them gives what one push of the whole body gives: the same
  error, or the same payloads and the same bytes left over.
\<close>

lemma feed_chunks_whole:
  assumes "uniform (buf @ concat cs)" and "next_frame buf = None"
  shows "case parser_push payload_of buf (concat cs) of
           (Inl e, r) \<Rightarrow> fst (feed_chunks payload_of buf cs) = Inl e
         | (Inr ps, r) \<Rightarrow> feed_chunks payload_of buf cs = (Inr ps, r)"
  using assms
proof (induction cs arbitrary: buf)
  case Nil
  then show ?case by (simp add: parser_push_def push_loop.simps)
next
  case (Cons c cs)
  have u: "uniform ((buf @ c) @ concat cs)" using Cons.prems(1) by simp
  obtain res r where push: "push_loop payload_of (buf @ c) [] = (res, r)" by fastforce
  show ?case
  proof (cases res)
    case (Inl e)
    with push u show ?thesis
      by (simp add: parser_push_def push_loop_append [of "buf @ c" "concat cs", simplified])
  next
    case (Inr ev)
    with push have nf: "next_frame r = None" and "\<exists>w. buf @ c = w @ r"
      using push_loop_done by blast+
    then have u': "uniform (r @ concat cs)" using u uniform_suffix by fastforce
    have whole: "push_loop payload_of (buf @ c @ concat cs) [] =
        (case push_loop payload_of (r @ concat cs) [] of
           (Inl e, r) \<Rightarrow> (Inl e, r) | (Inr ev', r) \<Rightarrow> (Inr (ev @ ev'), r))"
      using push_loop_append [OF u, of payload_of "[]"] push Inr
        push_loop_events [of payload_of "r @ concat cs" ev "[]"] by simp
    show ?thesis
      using Cons.IH [OF u' nf] push Inr
      by (auto simp: parser_push_def whole split: prod.splits sum.splits)
  qed
qed

section \<open>\<open>SseParser\<close>\<close>

fun data_lines :: "string list \<Rightarrow> string list" where
  "data_lines [] = []"
| "data_lines (line # ls) =
     (if starts_with line '':'' then data_lines ls
      else case strip_prefix ''data:'' line of
             Some data \<Rightarrow> trim_start data # data_lines ls
           | None \<Rightarrow> data_lines ls)"

definition extract_data_payload :: "string \<Rightarrow> 'e + string option" where
  "extract_data_payload frame =
     (let trimmed = trim frame in
      if trimmed = [] then Inr None
      else let ls = data_lines (str_lines trimmed) in
           if ls = [] then Inr None
           else let payload = join nl ls in
                if payload = ''[DONE]'' then Inr None else Inr (Some payload))"

definition sse_push :: "string \<Rightarrow> string \<Rightarrow> ('e + string list) \<times> string" where
  "sse_push buffer chunk = parser_push extract_data_payload buffer chunk"

definition sse_finish :: "string \<Rightarrow> ('e + string list) \<times> string" where
  "sse_finish buffer =
     (if buffer = [] then (Inr [], buffer)
      else let text = utf8_lossy buffer in
           (case extract_data_payload (trim text) of
              Inl e \<Rightarrow> (Inl e, [])
            | Inr (Some payload) \<Rightarrow> (Inr [payload], [])
            | Inr None \<Rightarrow> (Inr [], [])))"

section \<open>Encoded events come back\<close>

text \<open>
  The contract between a writer of events and a parser: frames are single lines, and the
  extraction recovers the payload from its frame. In the locale, any chunking of a body of
  such events yields the payloads, in order, with nothing left in the buffer.
\<close>

locale sse_codec =
  fixes frame_of :: "'p \<Rightarrow> string"
    and payload_of :: "string \<Rightarrow> 'e + 'q option"
    and wire :: "'p \<Rightarrow> bool"
    and decoded :: "'p \<Rightarrow> 'q list"
  assumes single_line: "wire p \<Longrightarrow> CHR 0x0A \<notin> set (frame_of p) \<and> CHR 0x0D \<notin> set (frame_of p)"
    and payload_frame:
      "wire p \<Longrightarrow> \<exists>opt. payload_of (utf8_lossy (frame_of p)) = Inr opt
         \<and> decoded p = (case opt of None \<Rightarrow> [] | Some q \<Rightarrow> [q])"
begin

lemma find_lf2_frame:
  "CHR 0x0A \<notin> set l \<Longrightarrow> find_sub lf2 (l @ lf2 @ t) = Some (length l)"
  by (induction l) (auto simp: lf2_def starts_with_def)

lemma next_frame_body: "wire p \<Longrightarrow> next_frame (frame_of p @ lf2 @ t) = Some (utf8_lossy (frame_of p), t)"
  using single_line [of p] by (simp add: next_frame_def frame_separator_def find_lf2_frame) (simp add: lf2_def)

lemma no_cr: "\<forall>p \<in> set ps. wire p \<Longrightarrow> CHR 0x0D \<notin> set (concat (map (\<lambda>p. frame_of p @ lf2) ps))"
  using single_line by (auto simp: lf2_def)

lemma uniform_body: "\<forall>p \<in> set ps. wire p \<Longrightarrow> uniform (concat (map (\<lambda>p. frame_of p @ lf2) ps))"
proof -
  let ?body = "concat (map (\<lambda>p. frame_of p @ lf2) ps)"
  assume "\<forall>p \<in> set ps. wire p"
  then have "CHR 0x0D \<notin> set ?body" by (rule no_cr)
  then have "?body \<noteq> a @ crlf2 @ b" for a b
    by (auto simp: crlf2_def simp del: set_concat)
  then show ?thesis
    by (simp add: uniform_def contains_iff)
qed

lemma push_body:
  "\<forall>p \<in> set ps. wire p \<Longrightarrow>
   push_loop payload_of (concat (map (\<lambda>p. frame_of p @ lf2) ps)) ev = (Inr (ev @ concat (map decoded ps)), [])"
proof (induction ps arbitrary: ev)
  case Nil
  then show ?case
    by (simp add: push_loop.simps next_frame_def frame_separator_def lf2_def crlf2_def)
next
  case (Cons p ps)
  from Cons.prems have w: "wire p" by simp
  then obtain opt where opt: "payload_of (utf8_lossy (frame_of p)) = Inr opt"
      "decoded p = (case opt of None \<Rightarrow> [] | Some q \<Rightarrow> [q])"
    using payload_frame by blast
  let ?rest = "concat (map (\<lambda>p. frame_of p @ lf2) ps)"
  have "push_loop payload_of (frame_of p @ lf2 @ ?rest) ev = push_loop payload_of ?rest (ev @ decoded p)"
    using opt
    by (simp add: push_loop.simps [of _ "frame_of p @ lf2 @ ?rest"] next_frame_body [OF w] split: option.splits)
  then show ?case
    using Cons.IH [of "ev @ decoded p"] Cons.prems by simp
qed

lemma feed_body:
  assumes "\<forall>p \<in> set ps. wire p"
    and "concat chunks = concat (map (\<lambda>p. frame_of p @ lf2) ps)"
  shows "feed_chunks payload_of [] chunks = (Inr (concat (map decoded ps)), [])"
  using feed_chunks_whole [of "[]" chunks payload_of] uniform_body [OF assms(1)] push_body [OF assms(1), of "[]"]
  by (simp add: assms(2) parser_push_def next_frame_def frame_separator_def lf2_def crlf2_def)

end

text \<open>
  The events of this protocol: \<open>data: \<close> and the text of a JSON object, or the
  \<open>[DONE]\<close> marker. A JSON object's compact text starts with a brace and has no line break.
\<close>

definition object_text :: "string \<Rightarrow> bool" where
  "object_text p \<longleftrightarrow>
     (\<exists>m. p = CHR ''{'' # m @ [CHR ''}'']) \<and> valid_utf8 p \<and> CHR 0x0A \<notin> set p \<and> CHR 0x0D \<notin> set p"

definition wire_text :: "string \<Rightarrow> bool" where
  "wire_text p \<longleftrightarrow> p = ''[DONE]'' \<or> object_text p"

definition data_frame :: "string \<Rightarrow> string" where
  "data_frame p = ''data: '' @ p"

lemma trim_data_object: "trim (''data: '' @ CHR ''{'' # m @ [CHR ''}'']) = ''data: '' @ CHR ''{'' # m @ [CHR ''}'']"
  by (rule trim_solid) (simp_all add: solid_end, simp add: ws_encodings_def)

lemma trim_start_object: "trim_start (CHR '' '' # CHR ''{'' # m) = CHR ''{'' # m"
  by (simp add: trim_start_def trim_start_of.simps ws_encodings_def)

lemma str_lines_single: "CHR 0x0A \<notin> set l \<Longrightarrow> l \<noteq> [] \<Longrightarrow> str_lines l = [l]"
  using lines_from_no_nl [of l "[]" "[]"] by (simp add: str_lines_def)

lemma payload_data_object:
  assumes "object_text p"
  shows "extract_data_payload (utf8_lossy (data_frame p)) = Inr (Some p)"
proof -
  obtain m where p: "p = CHR ''{'' # m @ [CHR ''}'']" and v: "valid_utf8 p" and n: "CHR 0x0A \<notin> set p"
    using assms by (auto simp: object_text_def)
  have "utf8_lossy (data_frame p) = ''data: '' @ p"
    using v utf8_lossy_ascii_append [of "''data: ''" p]
    by (simp add: data_frame_def valid_utf8_def is_ascii_def)
  moreover have "str_lines (''data: '' @ p) = [''data: '' @ p]"
    using n by (intro str_lines_single) auto
  ultimately show ?thesis
    using trim_data_object [of m] trim_start_object [of "m @ [CHR ''}'']"]
    by (simp add: extract_data_payload_def Let_def p starts_with_def)
qed

lemma payload_done: "extract_data_payload (utf8_lossy (data_frame ''[DONE]'')) = Inr None"
proof -
  have "utf8_lossy (data_frame ''[DONE]'') = ''data: [DONE]''" by code_simp
  moreover have "trim ''data: [DONE]'' = ''data: [DONE]''" by code_simp
  moreover have "data_lines (str_lines ''data: [DONE]'') = [''[DONE]'']" by code_simp
  ultimately show ?thesis by (simp add: extract_data_payload_def)
qed

interpretation sse: sse_codec data_frame extract_data_payload wire_text
  "\<lambda>p. if p = ''[DONE]'' then [] else [p]"
proof unfold_locales
  show "wire_text p \<Longrightarrow> CHR 0x0A \<notin> set (data_frame p) \<and> CHR 0x0D \<notin> set (data_frame p)" for p
    by (auto simp: wire_text_def object_text_def data_frame_def)
  show "wire_text p \<Longrightarrow> \<exists>opt. extract_data_payload (utf8_lossy (data_frame p)) = Inr opt
      \<and> (if p = ''[DONE]'' then [] else [p]) = (case opt of None \<Rightarrow> [] | Some q \<Rightarrow> [q])" for p
    using payload_data_object [of p] payload_done
    by (auto simp: wire_text_def object_text_def)
qed

end
