(* ===== verification/SseCorrect.thy ===== *)
theory SseCorrect
  imports Sse
begin

text \<open>
  What the event-stream parser of \<open>crates/api/src/sse.rs\<close> guarantees: the events do not
  depend on how the body is cut into chunks as long as it uses one kind of separator, a
  written body comes back, and mixing the separators breaks the first of these.
\<close>

abbreviation extraction :: "string \<Rightarrow> string + string option" where
  "extraction \<equiv> extract_data_payload"

lemma extract_never_fails: "\<exists>opt. extraction frame = Inr opt"
  by (simp add: extract_data_payload_def Let_def)

lemma push_loop_never_fails: "\<exists>ps r. push_loop extraction buffer ev = (Inr ps, r)"
proof (induction buffer arbitrary: ev rule: length_induct)
  case (1 buffer)
  show ?case
  proof (cases "next_frame buffer")
    case None
    then show ?thesis by (simp add: push_loop.simps)
  next
    case (Some fr)
    then obtain f r where fr: "next_frame buffer = Some (f, r)" by (cases fr) auto
    then have "length r < length buffer" by (rule next_frame_shorter)
    then have "\<exists>ps r'. push_loop extraction r ev' = (Inr ps, r')" for ev'
      using 1 by blast
    then show ?thesis
      using extract_never_fails [of f] by (auto simp: push_loop.simps [of _ buffer] fr split: option.split)
  qed
qed

text \<open>C3: the payloads and the rest of the buffer do not depend on the chunk boundaries.\<close>

theorem sse_chunk_invariance:
  assumes "uniform (buffer @ concat chunks)" and "next_frame buffer = None"
  shows "feed_chunks extraction buffer chunks = sse_push buffer (concat chunks)"
proof -
  obtain ps r where "parser_push extraction buffer (concat chunks) = (Inr ps, r)"
    using push_loop_never_fails [of "buffer @ concat chunks" "[]"] by (auto simp: parser_push_def)
  then show ?thesis
    using feed_chunks_whole [OF assms, of extraction]
    by (simp add: sse_push_def)
qed

theorem sse_chunk_invariance_witness:
  "feed_chunks extraction (''data:'') [''1'' @ nl, nl @ ''data'', '':2'' @ nl @ nl]
     = sse_push ''data:'' (''1'' @ nl @ nl @ ''data:2'' @ nl @ nl)"
proof -
  have "uniform (''data:'' @ concat [''1'' @ nl, nl @ ''data'', '':2'' @ nl @ nl])"
    "next_frame ''data:'' = None"
    by code_simp+
  from sse_chunk_invariance [OF this] show ?thesis by simp
qed

text \<open>
  C4: A body of events, each a \<open>data:\<close> line with a blank line after it, gives back exactly its payloads but the
  \<open>[DONE]\<close> markers, in order and with nothing left in the buffer, wherever the body is cut. Each payload is
  \<open>[DONE]\<close> or a JSON object on one line (\<open>wire_text\<close>): valid UTF-8 from an opening to a closing brace, without
  line feed or carriage return.
\<close>

theorem sse_body_round_trip:
  assumes "\<forall>p \<in> set ps. wire_text p" and "concat chunks = concat (map (\<lambda>p. data_frame p @ lf2) ps)"
  shows "feed_chunks extraction [] chunks
    = (Inr (filter (\<lambda>p. p \<noteq> ''[DONE]'') ps), [])"
proof -
  have "concat (map (\<lambda>p. if p = ''[DONE]'' then [] else [p]) ps) = filter (\<lambda>p. p \<noteq> ''[DONE]'') ps"
    by (induction ps) auto
  then show ?thesis
    using sse.feed_body [OF assms, where ?'a = string] by simp
qed

theorem sse_body_round_trip_witness:
  "feed_chunks extraction [] [''da'', ''ta: {}'' @ nl, nl @ ''data: [DONE]'' @ nl @ nl]
     = (Inr [''{}''], [])"
proof -
  have "object_text ''{}''"
    unfolding object_text_def by (intro conjI exI [of _ "[]"]) (simp, code_simp, simp, simp)
  then have "\<forall>p \<in> set [''{}'', ''[DONE]'']. wire_text p" by (simp add: wire_text_def)
  moreover have "concat [''da'', ''ta: {}'' @ nl, nl @ ''data: [DONE]'' @ nl @ nl]
      = concat (map (\<lambda>p. data_frame p @ lf2) [''{}'', ''[DONE]''])"
    by code_simp
  ultimately show ?thesis
    using sse_body_round_trip [of "[''{}'', ''[DONE]'']"] by (simp del: feed_chunks.simps concat.simps)
qed

text \<open>
  With both kinds of separator in one body the payloads depend on the chunk boundaries:
  the later \<open>\\n\\n\<close> is found before the earlier \<open>\\r\\n\\r\\n\<close>.
\<close>

theorem sse_mixed_separators:
  "sse_push [] (''data:1'' @ crlf2 @ ''data:2'' @ lf2) = (Inr [''1'' @ nl @ ''2''] :: string + string list, [])
   \<and> feed_chunks extraction [] [''data:1'' @ crlf2, ''data:2'' @ lf2] = (Inr [''1'', ''2''], [])"
  by code_simp

text \<open>An unterminated last event is delivered by the final drain, which empties the buffer.\<close>

theorem sse_finish_drains:
  assumes "object_text p"
  shows "sse_finish (data_frame p) = (Inr [p] :: string + string list, [])"
proof -
  obtain m where p: "p = CHR ''{'' # m @ [CHR ''}'']" and v: "valid_utf8 p"
    using assms by (auto simp: object_text_def)
  have "utf8_lossy (data_frame p) = ''data: '' @ p"
    using v utf8_lossy_ascii_append [of "''data: ''" p]
    by (simp add: data_frame_def valid_utf8_def is_ascii_def)
  then have "trim (utf8_lossy (data_frame p)) = utf8_lossy (data_frame p)"
    using trim_data_object [of m] by (simp add: p)
  moreover have "data_frame p \<noteq> []" by (simp add: data_frame_def)
  ultimately show ?thesis
    using payload_data_object [OF assms, where ?'a = string] by (simp add: sse_finish_def Let_def)
qed

theorem sse_finish_drains_witness: "sse_finish (data_frame ''{}'') = (Inr [''{}''] :: string + string list, [])"
proof -
  have "object_text ''{}''"
    unfolding object_text_def by (intro conjI exI [of _ "[]"]) (simp, code_simp, simp, simp)
  then show ?thesis by (rule sse_finish_drains)
qed

end
