(* ===== verification/Permissions.thy ===== *)
theory Permissions
  imports Machines
begin

text \<open>
  Permission modes and the policy of \<open>crates/runtime/src/lib.rs\<close>. The modes are ordered as
  Rust's derived \<open>Ord\<close> orders them. The prompter is a function of the request and the world,
  absent when the caller has none.
\<close>

section \<open>Modes\<close>

datatype permission_mode = ReadOnly | WorkspaceWrite | DangerFullAccess

fun mode_rank :: "permission_mode \<Rightarrow> nat" where
  "mode_rank ReadOnly = 0"
| "mode_rank WorkspaceWrite = 1"
| "mode_rank DangerFullAccess = 2"

lemma mode_rank_inj: "mode_rank a = mode_rank b \<Longrightarrow> a = b"
  by (cases a; cases b) simp_all

instantiation permission_mode :: linorder
begin

definition less_eq_permission_mode :: "permission_mode \<Rightarrow> permission_mode \<Rightarrow> bool" where
  "less_eq_permission_mode a b \<longleftrightarrow> mode_rank a \<le> mode_rank b"

definition less_permission_mode :: "permission_mode \<Rightarrow> permission_mode \<Rightarrow> bool" where
  "less_permission_mode a b \<longleftrightarrow> mode_rank a < mode_rank b"

instance
  by standard (auto simp: less_eq_permission_mode_def less_permission_mode_def mode_rank_inj)

end

lemma mode_bounds [simp]: "ReadOnly \<le> m" "m \<le> DangerFullAccess"
  by (cases m; simp add: less_eq_permission_mode_def)+

fun mode_as_str :: "permission_mode \<Rightarrow> string" where
  "mode_as_str ReadOnly = ''read-only''"
| "mode_as_str WorkspaceWrite = ''workspace-write''"
| "mode_as_str DangerFullAccess = ''danger-full-access''"

text \<open>A \<open>RuntimeError\<close> or \<open>ToolError\<close> is its message.\<close>

definition mode_parse :: "string \<Rightarrow> string + permission_mode" where
  "mode_parse value =
     (if value = ''read-only'' then Inr ReadOnly
      else if value = ''workspace-write'' then Inr WorkspaceWrite
      else if value = ''danger-full-access'' then Inr DangerFullAccess
      else Inl (''invalid permission mode `'' @ value
        @ ''`; expected read-only, workspace-write, or danger-full-access''))"

interpretation mode: enum_codec mode_as_str mode_parse
proof unfold_locales
  show "mode_parse (mode_as_str x) = Inr x" for x
    by (cases x) (simp_all add: mode_parse_def)
  show "mode_parse s = Inr x \<Longrightarrow> s = mode_as_str x" for s x
    by (auto simp: mode_parse_def split: if_splits)
qed

section \<open>The policy\<close>

record permission_request =
  pr_tool_name :: string
  pr_input :: string
  pr_current_mode :: permission_mode
  pr_required_mode :: permission_mode

datatype permission_outcome = Allow | Deny string

record permission_policy =
  pp_active_mode :: permission_mode
  pp_requirements :: "(string \<times> permission_mode) list"

definition policy_new :: "permission_mode \<Rightarrow> permission_policy" where
  "policy_new active_mode = \<lparr>pp_active_mode = active_mode, pp_requirements = []\<rparr>"

definition with_tool_requirement :: "string \<Rightarrow> permission_mode \<Rightarrow> permission_policy \<Rightarrow> permission_policy" where
  "with_tool_requirement tool_name required p =
     p\<lparr>pp_requirements := pp_requirements p @ [(tool_name, required)]\<rparr>"

definition required_mode_for :: "permission_policy \<Rightarrow> string \<Rightarrow> permission_mode" where
  "required_mode_for p tool_name =
     unwrap_or DangerFullAccess (map_option snd (find (\<lambda>(name, mode). name = tool_name) (pp_requirements p)))"

type_synonym 'w prompter = "permission_request \<Rightarrow> 'w \<Rightarrow> bool \<times> 'w"

definition authorize ::
  "permission_policy \<Rightarrow> string \<Rightarrow> string \<Rightarrow> 'w prompter option \<Rightarrow> 'w \<Rightarrow> permission_outcome \<times> 'w" where
  "authorize p tool_name input prompter w =
     (let required_mode = required_mode_for p tool_name;
          active = pp_active_mode p
      in if required_mode \<le> active then (Allow, w)
         else if active = WorkspaceWrite \<and> required_mode = DangerFullAccess then
           (let request = \<lparr>pr_tool_name = tool_name, pr_input = input, pr_current_mode = active,
                           pr_required_mode = required_mode\<rparr>;
                (approved, w') = (case prompter of Some decide \<Rightarrow> decide request w | None \<Rightarrow> (False, w))
            in if approved then (Allow, w')
               else (Deny (''tool `'' @ tool_name @ ''` requires approval to escalate from ''
                       @ mode_as_str active @ '' to '' @ mode_as_str required_mode), w'))
         else (Deny (''tool `'' @ tool_name @ ''` requires '' @ mode_as_str required_mode
                @ '' permission; current mode is '' @ mode_as_str active), w))"

section \<open>Properties\<close>

text \<open>
  The interface the conversation relies on: what an outcome may depend on. A policy allows a
  tool at once, asks about it, or refuses it.
\<close>

locale gatekeeper =
  fixes permits :: "'p \<Rightarrow> string \<Rightarrow> bool"
    and asks :: "'p \<Rightarrow> string \<Rightarrow> bool"
    and gate :: "'p \<Rightarrow> string \<Rightarrow> string \<Rightarrow> 'w prompter option \<Rightarrow> 'w \<Rightarrow> permission_outcome \<times> 'w"
  assumes gate_permits: "permits p t \<Longrightarrow> gate p t i q w = (Allow, w)"
    and gate_asks: "asks p t \<Longrightarrow> fst (gate p t i (Some d) w) = Allow \<longleftrightarrow> (\<exists>r. fst (d r w) \<and> pr_tool_name r = t \<and> pr_input r = i \<and> gate p t i (Some d) w = (Allow, snd (d r w)))"
    and gate_refuses: "\<not> permits p t \<Longrightarrow> q = None \<or> \<not> asks p t \<Longrightarrow> \<exists>reason. gate p t i q w = (Deny reason, w)"
begin

lemma allowed_without_prompter: "fst (gate p t i None w) = Allow \<longleftrightarrow> permits p t"
  by (metis fst_conv gate_permits gate_refuses permission_outcome.distinct(1))

lemma no_prompter_world: "snd (gate p t i None w) = w"
  by (metis gate_permits gate_refuses snd_conv)

end

definition policy_permits :: "permission_policy \<Rightarrow> string \<Rightarrow> bool" where
  "policy_permits p t \<longleftrightarrow> required_mode_for p t \<le> pp_active_mode p"

definition policy_asks :: "permission_policy \<Rightarrow> string \<Rightarrow> bool" where
  "policy_asks p t \<longleftrightarrow> pp_active_mode p = WorkspaceWrite \<and> required_mode_for p t = DangerFullAccess"

lemma asks_not_permits: "policy_asks p t \<Longrightarrow> \<not> policy_permits p t"
  by (simp add: policy_asks_def policy_permits_def less_eq_permission_mode_def)

interpretation policy: gatekeeper policy_permits policy_asks authorize
proof unfold_locales
  show "policy_permits p t \<Longrightarrow> authorize p t i q w = (Allow, w)" for p t i q w
    by (simp add: authorize_def policy_permits_def Let_def)
next
  fix p t i d and w :: 'w
  assume a: "policy_asks p t"
  let ?r = "\<lparr>pr_tool_name = t, pr_input = i, pr_current_mode = pp_active_mode p,
    pr_required_mode = required_mode_for p t\<rparr>"
  have "authorize p t i (Some d) w = (if fst (d ?r w) then (Allow, snd (d ?r w))
      else (Deny (''tool `'' @ t @ ''` requires approval to escalate from ''
              @ mode_as_str (pp_active_mode p) @ '' to '' @ mode_as_str (required_mode_for p t)), snd (d ?r w)))"
    using a asks_not_permits [OF a]
    by (auto simp: authorize_def policy_asks_def policy_permits_def Let_def split: prod.split)
  then show "fst (authorize p t i (Some d) w) = Allow \<longleftrightarrow> (\<exists>r. fst (d r w) \<and> pr_tool_name r = t \<and> pr_input r = i \<and> authorize p t i (Some d) w = (Allow, snd (d r w)))"
    by (auto intro!: exI [of _ ?r])
next
  show "\<not> policy_permits p t \<Longrightarrow> q = None \<or> \<not> policy_asks p t \<Longrightarrow> \<exists>reason. authorize p t i q w = (Deny reason, w)"
    for p t q i w
    by (auto simp: authorize_def policy_permits_def policy_asks_def Let_def)
qed

text \<open>In read-only mode the world is never touched, and only tools declared read-only pass.\<close>

theorem read_only_gate:
  assumes "pp_active_mode p = ReadOnly"
  shows "snd (authorize p t i prompter w) = w
    \<and> (fst (authorize p t i prompter w) = Allow
       \<longleftrightarrow> find (\<lambda>(name, mode). name = t) (pp_requirements p) = Some (t, ReadOnly))"
proof -
  have "required_mode_for p t \<le> ReadOnly \<longleftrightarrow> find (\<lambda>(name, mode). name = t) (pp_requirements p) = Some (t, ReadOnly)"
  proof (cases "find (\<lambda>(name, mode). name = t) (pp_requirements p)")
    case None
    then show ?thesis by (simp add: required_mode_for_def less_eq_permission_mode_def)
  next
    case (Some nm)
    then have "fst nm = t" by (auto simp: find_Some_iff)
    then show ?thesis
      using Some by (cases nm; cases "snd nm") (auto simp: required_mode_for_def less_eq_permission_mode_def)
  qed
  then show ?thesis
    using assms by (auto simp: authorize_def Let_def)
qed

theorem read_only_gate_witness:
  "fst (authorize (with_tool_requirement ''read_file'' ReadOnly (policy_new ReadOnly)) ''read_file'' ''{}'' None ()) = Allow"
proof -
  let ?p = "with_tool_requirement ''read_file'' ReadOnly (policy_new ReadOnly)"
  have "pp_active_mode ?p = ReadOnly" by (simp add: with_tool_requirement_def policy_new_def)
  from read_only_gate [OF this, of "''read_file''" "''{}''" None "()"] show ?thesis
    by (simp add: with_tool_requirement_def policy_new_def)
qed

end
