(* ===== verification/ApiError.thy ===== *)
theory ApiError
  imports Utf8
begin

text \<open>
  The error type of \<open>crates/api/src/error.rs\<close>: its classification and its display. What is
  third-party in it is carried as what the code reads of it: an HTTP error by its three
  predicates and its text, an I/O or JSON error by its text; the text of a status code is the
  parameter \<open>status_text\<close>. A \<open>Duration\<close> is its number of nanoseconds.
\<close>

type_synonym duration = nat

record http_error =
  he_connect :: bool
  he_timeout :: bool
  he_request :: bool
  he_text :: string

datatype api_error =
    MissingCredentials string "string list" "string option"
  | ContextWindowExceeded string u32 u32 u32 u32
  | HttpError http_error
  | IoError string
  | JsonError string string string string
  | ApiFailure (fail_status: u16) (fail_type: "string option") (fail_message: "string option")
      (fail_request_id: "string option") (fail_body: string) (fail_retryable: bool)
      (fail_action: "string option")
  | RetriesExhausted u32 api_error
  | InvalidSseFrame string
  | BackoffOverflow u32 duration
  | RequestBodySizeExceeded nat nat string

definition missing_credentials :: "string \<Rightarrow> string list \<Rightarrow> api_error" where
  "missing_credentials provider env_vars = MissingCredentials provider env_vars None"

definition missing_credentials_with_hint :: "string \<Rightarrow> string list \<Rightarrow> string \<Rightarrow> api_error" where
  "missing_credentials_with_hint provider env_vars hint = MissingCredentials provider env_vars (Some hint)"

section \<open>Classification\<close>

fun is_retryable :: "api_error \<Rightarrow> bool" where
  "is_retryable (HttpError e) \<longleftrightarrow> he_connect e \<or> he_timeout e \<or> he_request e"
| "is_retryable (ApiFailure _ _ _ _ _ retryable _) \<longleftrightarrow> retryable"
| "is_retryable (RetriesExhausted _ last_error) \<longleftrightarrow> is_retryable last_error"
| "is_retryable _ \<longleftrightarrow> False"

fun error_request_id :: "api_error \<Rightarrow> string option" where
  "error_request_id (ApiFailure _ _ _ request_id _ _ _) = request_id"
| "error_request_id (RetriesExhausted _ last_error) = error_request_id last_error"
| "error_request_id _ = None"

definition context_window_error_markers :: "string list" where
  "context_window_error_markers =
     [''maximum context length'', ''context window'', ''context length'', ''too many tokens'',
      ''prompt is too long'', ''input is too long'', ''request is too large'']"

definition looks_like_context_window_error :: "string \<Rightarrow> bool" where
  "looks_like_context_window_error text =
     list_ex (\<lambda>marker. contains (to_ascii_lowercase text) marker) context_window_error_markers"

fun is_context_window_failure :: "api_error \<Rightarrow> bool" where
  "is_context_window_failure (ContextWindowExceeded _ _ _ _ _) \<longleftrightarrow> True"
| "is_context_window_failure (ApiFailure status _ message _ body _ _) \<longleftrightarrow>
     (status = 400 \<or> status = 413 \<or> status = 422)
     \<and> ((case message of None \<Rightarrow> False | Some m \<Rightarrow> looks_like_context_window_error m)
        \<or> looks_like_context_window_error body)"
| "is_context_window_failure (RetriesExhausted _ last_error) \<longleftrightarrow> is_context_window_failure last_error"
| "is_context_window_failure _ \<longleftrightarrow> False"

fun safe_failure_class :: "api_error \<Rightarrow> string" where
  "safe_failure_class (RetriesExhausted n last_error) =
     (if is_context_window_failure (RetriesExhausted n last_error) then ''context_window''
      else safe_failure_class last_error)"
| "safe_failure_class (MissingCredentials _ _ _) = ''provider_auth''"
| "safe_failure_class (ApiFailure status ty message rid body r a) =
     (if status = 401 \<or> status = 403 then ''provider_auth''
      else if is_context_window_failure (ApiFailure status ty message rid body r a) then ''context_window''
      else if status = 429 then ''provider_rate_limit''
      else ''provider_error'')"
| "safe_failure_class (ContextWindowExceeded _ _ _ _ _) = ''context_window''"
| "safe_failure_class (HttpError _) = ''provider_transport''"
| "safe_failure_class (InvalidSseFrame _) = ''provider_transport''"
| "safe_failure_class (BackoffOverflow _ _) = ''provider_transport''"
| "safe_failure_class (IoError _) = ''runtime_io''"
| "safe_failure_class (JsonError _ _ _ _) = ''runtime_io''"
| "safe_failure_class (RequestBodySizeExceeded _ _ _) = ''request_size''"

definition suggested_action_for_status :: "u16 \<Rightarrow> string option" where
  "suggested_action_for_status status =
     (if status = 401 then Some ''Check API key is set correctly and has not expired''
      else if status = 403 then Some ''Verify API key has required permissions for this operation''
      else if status = 413 then Some ''Reduce prompt size or context window before retrying''
      else if status = 429 then Some ''Wait a moment before retrying; consider reducing request rate''
      else if status = 500 then Some (''Provider server error '' @ em_dash @ '' retry after a brief wait'')
      else if 502 \<le> status \<and> status \<le> 504
      then Some (''Provider gateway error '' @ em_dash @ '' retry after a brief wait'')
      else None)"

section \<open>The body snippet of a parse error\<close>

text \<open>The loop over \<open>char_indices\<close>: characters taken, and the byte where they end.\<close>

fun snippet_loop :: "nat \<Rightarrow> nat \<Rightarrow> nat \<Rightarrow> nat \<Rightarrow> string list \<Rightarrow> nat \<times> nat" where
  "snippet_loop max_chars taken byte_end offset [] = (taken, byte_end)"
| "snippet_loop max_chars taken byte_end offset (ch # chs) =
     (if max_chars \<le> taken then (taken, byte_end)
      else snippet_loop max_chars (taken + 1) (offset + length ch) (offset + length ch) chs)"

definition truncate_body_snippet :: "string \<Rightarrow> nat \<Rightarrow> string" where
  "truncate_body_snippet body max_chars =
     (let (taken, byte_end) = snippet_loop max_chars 0 0 0 (str_chars body) in
      if max_chars \<le> taken \<and> byte_end < length body then take byte_end body @ ellipsis
      else take byte_end body)"

definition json_deserialize :: "string \<Rightarrow> string \<Rightarrow> string \<Rightarrow> string \<Rightarrow> api_error" where
  "json_deserialize provider model body source =
     JsonError provider model (truncate_body_snippet body 200) source"

definition json_error_from :: "string \<Rightarrow> api_error" where
  "json_error_from source = JsonError ''unknown'' ''unknown'' [] source"

section \<open>Display\<close>

text \<open>
  \<open>Duration\<close>'s \<open>Debug\<close>: the largest unit with a nonzero integer part, and the fraction's
  digits up to the last nonzero one.
\<close>

fun fraction_digits :: "nat \<Rightarrow> nat \<Rightarrow> string" where
  "fraction_digits 0 fraction = []"
| "fraction_digits (Suc n) fraction =
     (if fraction = 0 then []
      else digit_char (fraction div 10 ^ n) # fraction_digits n (fraction mod 10 ^ n))"

definition fmt_decimal :: "nat \<Rightarrow> nat \<Rightarrow> nat \<Rightarrow> string \<Rightarrow> string" where
  "fmt_decimal integer fraction width unit =
     show_nat integer @ (if fraction = 0 then [] else CHR ''.'' # fraction_digits width fraction) @ unit"

definition duration_debug :: "duration \<Rightarrow> string" where
  "duration_debug d =
     (if 10 ^ 9 \<le> d then fmt_decimal (d div 10 ^ 9) (d mod 10 ^ 9) 9 ''s''
      else if 10 ^ 6 \<le> d then fmt_decimal (d div 10 ^ 6) (d mod 10 ^ 6) 6 ''ms''
      else if 10 ^ 3 \<le> d then fmt_decimal (d div 10 ^ 3) (d mod 10 ^ 3) 3 [CHR 0xC2, CHR 0xB5, CHR ''s'']
      else fmt_decimal d 0 0 ''ns'')"

definition show_u32 :: "u32 \<Rightarrow> string" where
  "show_u32 n = show_nat (unat n)"

definition trace_note :: "string option \<Rightarrow> string" where
  "trace_note request_id = (case request_id of Some i \<Rightarrow> '' [trace '' @ i @ '']'' | None \<Rightarrow> [])"

fun show_error :: "(u16 \<Rightarrow> string) \<Rightarrow> api_error \<Rightarrow> string" where
  "show_error status_text (MissingCredentials provider env_vars hint) =
     ''missing '' @ provider @ '' credentials; export '' @ join '' or '' env_vars
     @ '' before calling the '' @ provider @ '' API''
     @ (case hint of Some h \<Rightarrow> '' '' @ em_dash @ '' hint: '' @ h | None \<Rightarrow> [])"
| "show_error status_text (ContextWindowExceeded model i r t w) =
     ''context_window_blocked for '' @ model @ '': estimated input '' @ show_u32 i
     @ '' + requested output '' @ show_u32 r @ '' = '' @ show_u32 t @ '' tokens exceeds the ''
     @ show_u32 w @ ''-token context window; compact the session or reduce request size before retrying''"
| "show_error status_text (HttpError e) = ''http error: '' @ he_text e"
| "show_error status_text (IoError e) = ''io error: '' @ e"
| "show_error status_text (JsonError provider model body_snippet source) =
     ''failed to parse '' @ provider @ '' response for model '' @ model @ '': '' @ source
     @ ''; first 200 chars of body: '' @ body_snippet"
| "show_error status_text (ApiFailure status error_type message request_id body _ _) =
     (case (error_type, message) of
        (Some t, Some m) \<Rightarrow>
          ''api returned '' @ status_text status @ '' ('' @ t @ '')'' @ trace_note request_id @ '': '' @ m
      | _ \<Rightarrow> ''api returned '' @ status_text status @ trace_note request_id @ '': '' @ body)"
| "show_error status_text (RetriesExhausted attempts last_error) =
     ''api failed after '' @ show_u32 attempts @ '' attempts: '' @ show_error status_text last_error"
| "show_error status_text (InvalidSseFrame message) = ''invalid sse frame: '' @ message"
| "show_error status_text (BackoffOverflow attempt base_delay) =
     ''retry backoff overflowed on attempt '' @ show_u32 attempt @ '' with base delay ''
     @ duration_debug base_delay"
| "show_error status_text (RequestBodySizeExceeded estimated_bytes max_bytes provider) =
     ''request body size ('' @ show_nat estimated_bytes @ '' bytes) exceeds '' @ provider @ '' limit (''
     @ show_nat max_bytes @ '' bytes); reduce prompt length or context before retrying''"

section \<open>Properties\<close>

text \<open>Retries are transparent for the failure class, and the class is a context-window one exactly
  when the error is a context-window failure.\<close>

theorem failure_class_transparent:
  "safe_failure_class (RetriesExhausted n e) = safe_failure_class e
   \<and> (safe_failure_class e = ''context_window'') = is_context_window_failure e"
proof -
  have cw: "(safe_failure_class e = ''context_window'') = is_context_window_failure e" for e
    by (induction e rule: safe_failure_class.induct) (auto split: if_splits)
  show ?thesis
    using cw [of e] by (cases "is_context_window_failure e") simp_all
qed

lemma snippet_loop_taken:
  "taken \<le> max_chars \<Longrightarrow> snippet_loop max_chars taken offset offset chs
    = (min max_chars (taken + length chs), offset + length (concat (take (max_chars - taken) chs)))"
proof (induction chs arbitrary: taken offset)
  case Nil
  then show ?case by simp
next
  case (Cons ch chs)
  then show ?case
    by (cases "max_chars = taken") (auto simp: take_Cons' Suc_diff_le)
qed

lemma take_concat_prefix: "take (length (concat (take n xs))) (concat xs) = concat (take n xs)"
  by (metis append_eq_conv_conj append_take_drop_id concat_append)

text \<open>
  The snippet is the body when it has at most the allowed number of characters, and
  otherwise exactly that many characters and an ellipsis: no character is cut in two.
\<close>

theorem snippet_whole_characters:
  "truncate_body_snippet body max_chars =
     (if char_count body \<le> max_chars then body
      else concat (take max_chars (str_chars body)) @ ellipsis)"
proof -
  let ?cs = "str_chars body"
  have run: "snippet_loop max_chars 0 0 0 ?cs
      = (min max_chars (length ?cs), length (concat (take max_chars ?cs)))"
    using snippet_loop_taken [of 0 max_chars 0 ?cs] by simp
  have pre: "take (length (concat (take max_chars ?cs))) body = concat (take max_chars ?cs)"
    using take_concat_prefix [of max_chars ?cs] by simp
  show ?thesis
  proof (cases "length ?cs \<le> max_chars")
    case True
    then show ?thesis
      by (simp add: truncate_body_snippet_def run char_count_def)
  next
    case False
    have "body = concat (take max_chars ?cs) @ concat (drop max_chars ?cs)"
      by (metis append_take_drop_id concat_append concat_str_chars)
    moreover have "concat (drop max_chars ?cs) \<noteq> []"
      using False str_chars_nonempty [of _ body]
      by (metis concat_eq_Nil_conv drop_eq_Nil in_set_dropD last_in_set)
    ultimately have "length (concat (take max_chars ?cs)) < length body"
      by (metis length_append length_greater_0_conv less_add_same_cancel1)
    then show ?thesis
      using False pre by (simp add: truncate_body_snippet_def run char_count_def)
  qed
qed

end
