(* ===== verification/Conversation.thy ===== *)
theory Conversation
  imports Permissions ApiError ApiTypes
begin

text \<open>
  \<open>ConversationRuntime\<close> of \<open>crates/runtime/src/lib.rs\<close>. The API client, the tool executor and
  the prompter are functions on a world \<open>'w\<close>; a turn threads the session, the summary and the
  world through the loop. A stream is the finite list of events it delivers and the error it
  ends with, if any. The status callbacks depend only on timers and are modelled on their own.
\<close>

section \<open>State\<close>

record turn_summary =
  ts_assistant_text :: string
  ts_tool_results :: "(string \<times> string) list"
  ts_iterations :: nat
  ts_usage :: usage

definition default_summary :: turn_summary where
  "default_summary =
     \<lparr>ts_assistant_text = [], ts_tool_results = [], ts_iterations = 0, ts_usage = default_usage\<rparr>"

record 'w runtime_env =
  re_codec :: codec
  re_status_text :: "u16 \<Rightarrow> string"
  re_send :: "message_request \<Rightarrow> 'w \<Rightarrow> (api_error + message_response) \<times> 'w"
  re_stream :: "message_request \<Rightarrow> 'w \<Rightarrow> (api_error + stream_event list \<times> api_error option) \<times> 'w"
  re_definitions :: "'w \<Rightarrow> tool_definition list"
  re_permission_specs :: "'w \<Rightarrow> (string \<times> permission_mode) list"
  re_execute :: "string \<Rightarrow> json \<Rightarrow> 'w \<Rightarrow> (string + string) \<times> 'w"

record runtime =
  rt_model :: string
  rt_reasoning_effort :: reasoning_effort
  rt_system_prompt :: string
  rt_session :: "input_message list"
  rt_policy :: permission_policy
  rt_max_iterations :: nat
  rt_max_output_tokens :: u32

definition runtime_new ::
  "'w runtime_env \<Rightarrow> string \<Rightarrow> reasoning_effort \<Rightarrow> string \<Rightarrow> permission_mode \<Rightarrow> 'w \<Rightarrow> runtime" where
  "runtime_new env model effort system_prompt mode w =
     \<lparr>rt_model = model, rt_reasoning_effort = effort, rt_system_prompt = system_prompt,
      rt_session = [],
      rt_policy = foldl (\<lambda>policy (tool, m). with_tool_requirement tool m policy) (policy_new mode)
                    (re_permission_specs env w),
      rt_max_iterations = 128, rt_max_output_tokens = 4096\<rparr>"

definition with_session :: "input_message list \<Rightarrow> runtime \<Rightarrow> runtime" where
  "with_session session rt = rt\<lparr>rt_session := session\<rparr>"

definition with_max_output_tokens :: "u32 \<Rightarrow> runtime \<Rightarrow> runtime" where
  "with_max_output_tokens n rt = rt\<lparr>rt_max_output_tokens := n\<rparr>"

definition message_count :: "runtime \<Rightarrow> nat" where
  "message_count rt = length (rt_session rt)"

definition push_message :: "input_message \<Rightarrow> runtime \<Rightarrow> runtime" where
  "push_message m rt = rt\<lparr>rt_session := rt_session rt @ [m]\<rparr>"

text \<open>The literal \<open>0.2\<close>, by its bits.\<close>

definition f64_0_2 :: u64 where
  "f64_0_2 = 0x3FC999999999999A"

definition build_request :: "'w runtime_env \<Rightarrow> runtime \<Rightarrow> 'w \<Rightarrow> message_request" where
  "build_request env rt w =
     default_request\<lparr>req_model := rt_model rt, req_max_tokens := rt_max_output_tokens rt,
       req_messages := rt_session rt, req_system := Some (rt_system_prompt rt),
       req_tools := Some (re_definitions env w), req_tool_choice := None, req_stream := False,
       req_temperature := Some f64_0_2,
       req_reasoning_effort := Some (effort_as_str (rt_reasoning_effort rt))\<rparr>"

section \<open>Responses\<close>

type_synonym tool_use = "string \<times> string \<times> json"

definition append_line :: "string \<Rightarrow> string \<Rightarrow> string" where
  "append_line s t = (if s = [] then s else s @ nl) @ t"

text \<open>The loop over \<open>response.content\<close>.\<close>

definition read_block :: "string \<times> tool_use list \<Rightarrow> output_block \<Rightarrow> string \<times> tool_use list" where
  "read_block acc b =
     (case b of
        OText text \<Rightarrow> (append_line (fst acc) text, snd acc)
      | OToolUse i name input \<Rightarrow> (fst acc, snd acc @ [(i, name, input)]))"

definition read_content :: "output_block list \<Rightarrow> string \<times> tool_use list" where
  "read_content blocks = foldl read_block ([], []) blocks"

definition note_text :: "string \<Rightarrow> turn_summary \<Rightarrow> turn_summary" where
  "note_text content s =
     (if content = [] then s else s\<lparr>ts_assistant_text := append_line (ts_assistant_text s) content\<rparr>)"

definition add_usage :: "usage \<Rightarrow> turn_summary \<Rightarrow> turn_summary" where
  "add_usage u s =
     s\<lparr>ts_usage := \<lparr>prompt_tokens = prompt_tokens (ts_usage s) + prompt_tokens u,
        completion_tokens = completion_tokens (ts_usage s) + completion_tokens u\<rparr>\<rparr>"

definition assistant_message :: "string \<Rightarrow> tool_use list \<Rightarrow> input_message" where
  "assistant_message content tool_uses =
     \<lparr>msg_role = ''assistant'',
      msg_content = (if content = [] then [] else [IText content])
        @ map (\<lambda>(i, name, input). IToolUse i name input) tool_uses\<rparr>"

section \<open>Tool calls\<close>

text \<open>The body of the loop over the tool uses: permission, execution, and what is recorded.\<close>

definition run_tool ::
  "'w runtime_env \<Rightarrow> 'w prompter option \<Rightarrow> permission_policy \<Rightarrow> tool_use \<Rightarrow> 'w \<Rightarrow> string \<times> 'w" where
  "run_tool env prompter policy tu w =
     (case tu of (i, name, input) \<Rightarrow>
       (case authorize policy name (to_text (re_codec env) input) prompter w of
          (Allow, w') \<Rightarrow>
            (case re_execute env name input w' of
               (Inr output, w'') \<Rightarrow> (output, w'')
             | (Inl e, w'') \<Rightarrow> (''ERROR: '' @ e, w''))
        | (Deny reason, w') \<Rightarrow> (''ERROR: '' @ reason, w')))"

fun run_tools ::
  "'w runtime_env \<Rightarrow> 'w prompter option \<Rightarrow> tool_use list \<Rightarrow> runtime \<Rightarrow> turn_summary \<Rightarrow> 'w
    \<Rightarrow> runtime \<times> turn_summary \<times> 'w" where
  "run_tools env prompter [] rt s w = (rt, s, w)"
| "run_tools env prompter (tu # tus) rt s w =
     (case run_tool env prompter (rt_policy rt) tu w of
        (output, w') \<Rightarrow>
          run_tools env prompter tus
            (push_message (user_tool_result (fst tu) output False) rt)
            (s\<lparr>ts_tool_results := ts_tool_results s @ [(fst (snd tu), output)]\<rparr>) w')"

section \<open>A turn\<close>

definition too_many_iterations :: string where
  "too_many_iterations = ''conversation loop exceeded the maximum number of iterations''"

text \<open>The loop of \<open>run_turn_with_status\<close>, from the summary it has.\<close>

function turn_loop ::
  "'w runtime_env \<Rightarrow> 'w prompter option \<Rightarrow> runtime \<Rightarrow> turn_summary \<Rightarrow> 'w
    \<Rightarrow> (string + turn_summary) \<times> runtime \<times> 'w" where
  "turn_loop env prompter rt s0 w =
     (let s = s0\<lparr>ts_iterations := ts_iterations s0 + 1\<rparr> in
      if rt_max_iterations rt < ts_iterations s then (Inl too_many_iterations, rt, w)
      else
        (case re_send env (build_request env rt w) w of
           (Inl e, w1) \<Rightarrow> (Inl (show_error (re_status_text env) e), rt, w1)
         | (Inr response, w1) \<Rightarrow>
             (let (content, tool_uses) = read_content (resp_content response);
                  s1 = note_text content (add_usage (resp_usage response) s);
                  rt1 = push_message (assistant_message content tool_uses) rt
              in if tool_uses = [] then (Inr s1, rt1, w1)
                 else (case run_tools env prompter tool_uses rt1 s1 w1 of
                         (rt2, s2, w2) \<Rightarrow> turn_loop env prompter rt2 s2 w2))))"
  by pat_completeness auto

lemma run_tools_frame:
  "run_tools env prompter tus rt s w = (rt', s', w') \<Longrightarrow>
   ts_iterations s' = ts_iterations s \<and> rt_max_iterations rt' = rt_max_iterations rt
   \<and> rt_policy rt' = rt_policy rt \<and> ts_usage s' = ts_usage s
   \<and> ts_assistant_text s' = ts_assistant_text s"
  by (induction env prompter tus rt s w arbitrary: rt' s' w' rule: run_tools.induct)
    (auto simp: push_message_def split: prod.splits)

lemma summary_frame [simp]:
  "ts_iterations (note_text c s) = ts_iterations s" "ts_iterations (add_usage u s) = ts_iterations s"
  "rt_max_iterations (push_message m rt) = rt_max_iterations rt" "rt_policy (push_message m rt) = rt_policy rt"
  by (simp_all add: note_text_def add_usage_def push_message_def)

termination turn_loop
  by (relation "measure (\<lambda>(env, prompter, rt, s, w). Suc (rt_max_iterations rt) - ts_iterations s)")
    (auto dest!: run_tools_frame [OF sym] dest: run_tools_frame split: prod.splits)

declare turn_loop.simps [simp del]

definition run_turn ::
  "'w runtime_env \<Rightarrow> 'w prompter option \<Rightarrow> string \<Rightarrow> runtime \<Rightarrow> 'w
    \<Rightarrow> (string + turn_summary) \<times> runtime \<times> 'w" where
  "run_turn env prompter user_input rt w =
     turn_loop env prompter (push_message (user_text user_input) rt) default_summary w"

section \<open>A turn over a stream\<close>

record streaming_tool_use =
  stu_id :: string
  stu_name :: string
  stu_input_json :: string

definition parse_streaming_tool_input :: "codec \<Rightarrow> string \<Rightarrow> json" where
  "parse_streaming_tool_input cd input_json =
     (if trim input_json = [] then jobj []
      else case from_text cd input_json of
             Inr v \<Rightarrow> v
           | Inl e \<Rightarrow> jobj [(''raw'', JStr input_json)])"

record stream_reading =
  sr_content :: string
  sr_tool_uses :: "(u32, streaming_tool_use) btree"
  sr_usage :: usage

definition read_event :: "stream_reading \<Rightarrow> stream_event \<Rightarrow> stream_reading" where
  "read_event r event =
     (case event of
        ContentBlockStart index (OToolUse i name _) \<Rightarrow>
          r\<lparr>sr_tool_uses := bt_insert index \<lparr>stu_id = i, stu_name = name, stu_input_json = []\<rparr> (sr_tool_uses r)\<rparr>
      | ContentBlockDelta _ (TextDelta text) \<Rightarrow> r\<lparr>sr_content := sr_content r @ text\<rparr>
      | ContentBlockDelta index (InputJsonDelta partial_json) \<Rightarrow>
          r\<lparr>sr_tool_uses := bt_adjust index
               (\<lambda>tu. tu\<lparr>stu_input_json := stu_input_json tu @ partial_json\<rparr>) (sr_tool_uses r)\<rparr>
      | MessageDelta _ _ u \<Rightarrow>
          r\<lparr>sr_usage := \<lparr>prompt_tokens = prompt_tokens (sr_usage r) + prompt_tokens u,
              completion_tokens = completion_tokens (sr_usage r) + completion_tokens u\<rparr>\<rparr>
      | _ \<Rightarrow> r)"

text \<open>The inner loop over the stream; \<open>summary.usage\<close> is the one it starts with.\<close>

definition read_events :: "usage \<Rightarrow> stream_event list \<Rightarrow> stream_reading" where
  "read_events u events = foldl read_event \<lparr>sr_content = [], sr_tool_uses = [], sr_usage = u\<rparr> events"

definition streamed_tool_uses :: "codec \<Rightarrow> stream_reading \<Rightarrow> tool_use list" where
  "streamed_tool_uses cd r =
     map (\<lambda>tu. (stu_id tu, stu_name tu, parse_streaming_tool_input cd (stu_input_json tu)))
       (bt_values (sr_tool_uses r))"

text \<open>The second component of the result is the list of events given to \<open>on_event\<close>.\<close>

function stream_turn_loop ::
  "'w runtime_env \<Rightarrow> 'w prompter option \<Rightarrow> runtime \<Rightarrow> turn_summary \<Rightarrow> stream_event list \<Rightarrow> 'w
    \<Rightarrow> (string + turn_summary) \<times> stream_event list \<times> runtime \<times> 'w" where
  "stream_turn_loop env prompter rt s0 log w =
     (let s = s0\<lparr>ts_iterations := ts_iterations s0 + 1\<rparr> in
      if rt_max_iterations rt < ts_iterations s then (Inl too_many_iterations, log, rt, w)
      else
        (case re_stream env (build_request env rt w) w of
           (Inl e, w1) \<Rightarrow> (Inl (show_error (re_status_text env) e), log, rt, w1)
         | (Inr (events, Some e), w1) \<Rightarrow>
             (Inl (show_error (re_status_text env) e), log @ events, rt, w1)
         | (Inr (events, None), w1) \<Rightarrow>
             (let r = read_events (ts_usage s) events;
                  tool_uses = streamed_tool_uses (re_codec env) r;
                  s1 = note_text (sr_content r) (s\<lparr>ts_usage := sr_usage r\<rparr>);
                  rt1 = push_message (assistant_message (sr_content r) tool_uses) rt
              in if tool_uses = [] then (Inr s1, log @ events, rt1, w1)
                 else (case run_tools env prompter tool_uses rt1 s1 w1 of
                         (rt2, s2, w2) \<Rightarrow> stream_turn_loop env prompter rt2 s2 (log @ events) w2))))"
  by pat_completeness auto

termination stream_turn_loop
  by (relation "measure (\<lambda>(env, prompter, rt, s, log, w). Suc (rt_max_iterations rt) - ts_iterations s)")
    (auto dest!: run_tools_frame [OF sym] dest: run_tools_frame split: prod.splits)

declare stream_turn_loop.simps [simp del]

definition run_turn_streaming ::
  "'w runtime_env \<Rightarrow> 'w prompter option \<Rightarrow> string \<Rightarrow> runtime \<Rightarrow> 'w
    \<Rightarrow> (string + turn_summary) \<times> stream_event list \<times> runtime \<times> 'w" where
  "run_turn_streaming env prompter user_input rt w =
     stream_turn_loop env prompter (push_message (user_text user_input) rt) default_summary [] w"

section \<open>Status events\<close>

text \<open>
  \<open>wait_for_api_response\<close>: what the \<open>select!\<close> loop wakes up for, with the time elapsed. The
  notice is polled only until it was printed, the heartbeat only afterwards.
\<close>

datatype wake = ResponseReady nat | NoticeElapsed nat | HeartbeatTick nat

datatype status_event = ApiRequestStarted nat | ApiRequestWaiting nat nat | ApiRequestFinished nat nat

fun wait_loop :: "nat \<Rightarrow> bool \<Rightarrow> wake list \<Rightarrow> status_event list" where
  "wait_loop iteration printed [] = []"
| "wait_loop iteration printed (ResponseReady t # ws) =
     (if printed then [ApiRequestFinished iteration t] else [])"
| "wait_loop iteration printed (NoticeElapsed t # ws) =
     (if \<not> printed then ApiRequestWaiting iteration t # wait_loop iteration True ws
      else wait_loop iteration printed ws)"
| "wait_loop iteration printed (HeartbeatTick t # ws) =
     (if printed then ApiRequestWaiting iteration t # wait_loop iteration printed ws
      else wait_loop iteration printed ws)"

definition wait_for_api_response :: "nat \<Rightarrow> wake list \<Rightarrow> status_event list" where
  "wait_for_api_response iteration wakes = ApiRequestStarted iteration # wait_loop iteration False wakes"

section \<open>The system prompt\<close>

definition system_prompt_with_memory :: "permission_mode \<Rightarrow> string option \<Rightarrow> string" where
  "system_prompt_with_memory mode memory =
     join '' ''
      ([''You are Solarcido, a local terminal coding assistant.'',
        ''Operate like claw: inspect the repository, call tools for file and command work, and continue until the user'' @ [CHR 0x27] @ ''s task is complete.'',
        ''Prefer grep_search and glob_search before broad reads.'',
        ''Prefer edit_file for focused changes and write_file for new files or intentional full-file replacement.'',
        ''Run verification commands after behavior changes when practical.'',
        ''All tool calls must stay within the selected working directory.'',
        ''Current permission mode: '' @ mode_as_str mode @ ''.'']
       @ (case memory of
            Some m \<Rightarrow> if trim m = [] then [] else [''User memory:'' @ nl @ trim m]
          | None \<Rightarrow> []))"

definition default_system_prompt :: "permission_mode \<Rightarrow> string" where
  "default_system_prompt mode = system_prompt_with_memory mode None"

end
