(* ===== verification/ChatRequest.thy ===== *)
theory ChatRequest
  imports ApiTypes
begin

text \<open>
  The request builder of \<open>crates/api/src/client.rs\<close>: messages are translated to the chat
  wire format, orphaned tool messages are dropped, and the payload gets only the settings the
  request has. \<open>Value::to_string\<close> is the codec's \<open>to_text\<close>.
\<close>

section \<open>Messages\<close>

fun flatten_from :: "codec \<Rightarrow> bool \<Rightarrow> tool_result_content list \<Rightarrow> string" where
  "flatten_from cd first [] = []"
| "flatten_from cd first (b # bs) =
     (if first then [] else nl)
     @ (case b of TRText text \<Rightarrow> text | TRJson value \<Rightarrow> to_text cd value)
     @ flatten_from cd False bs"

definition flatten_tool_result_content :: "codec \<Rightarrow> tool_result_content list \<Rightarrow> string" where
  "flatten_tool_result_content cd content = flatten_from cd True content"

text \<open>The loop over an assistant message's blocks: its text and its tool calls.\<close>

definition tool_call_value :: "codec \<Rightarrow> string \<Rightarrow> string \<Rightarrow> json \<Rightarrow> json" where
  "tool_call_value cd i n input =
     jobj [(''id'', JStr i), (''type'', JStr ''function''),
           (''function'', jobj [(''name'', JStr n), (''arguments'', JStr (to_text cd input))])]"

fun assistant_parts :: "codec \<Rightarrow> input_block list \<Rightarrow> string \<times> json list" where
  "assistant_parts cd [] = ([], [])"
| "assistant_parts cd (b # bs) =
     (let (text, calls) = assistant_parts cd bs in
      case b of
        IText v \<Rightarrow> (v @ text, calls)
      | IToolUse i n input \<Rightarrow> (text, tool_call_value cd i n input # calls)
      | IToolResult _ _ _ \<Rightarrow> (text, calls))"

definition user_part :: "codec \<Rightarrow> input_block \<Rightarrow> json option" where
  "user_part cd b =
     (case b of
        IText text \<Rightarrow> Some (jobj [(''role'', JStr ''user''), (''content'', JStr text)])
      | IToolResult tid content _ \<Rightarrow>
          Some (jobj [(''role'', JStr ''tool''), (''tool_call_id'', JStr tid),
                      (''content'', JStr (flatten_tool_result_content cd content))])
      | IToolUse _ _ _ \<Rightarrow> None)"

definition translate_message :: "codec \<Rightarrow> input_message \<Rightarrow> json list" where
  "translate_message cd message =
     (if msg_role message = ''assistant'' then
        (let (text, tool_calls) = assistant_parts cd (msg_content message) in
         if text = [] \<and> tool_calls = [] then []
         else
           (let msg = jobj [(''role'', JStr ''assistant''),
                            (''content'', if text \<noteq> [] then JStr text else JNull)]
            in [if tool_calls \<noteq> [] then json_set ''tool_calls'' (JArr tool_calls) msg else msg]))
      else List.map_filter (user_part cd) (msg_content message))"

section \<open>Tool message pairing\<close>

definition role_of :: "json \<Rightarrow> string option" where
  "role_of m = get_str m ''role''"

definition preceding :: "json list \<Rightarrow> nat \<Rightarrow> json option" where
  "preceding messages i = find (\<lambda>m. role_of m \<noteq> Some ''tool'') (rev (take i messages))"

definition paired_with :: "string \<Rightarrow> json \<Rightarrow> bool" where
  "paired_with tool_call_id m =
     (case get_array m ''tool_calls'' of
        None \<Rightarrow> False
      | Some tool_calls \<Rightarrow> list_ex (\<lambda>tc. get_str tc ''id'' = Some tool_call_id) tool_calls)"

text \<open>Whether the loop inserts index \<open>i\<close> into \<open>drop_indices\<close>.\<close>

definition orphaned :: "json list \<Rightarrow> nat \<Rightarrow> bool" where
  "orphaned messages i =
     (let msg = messages ! i in
      if role_of msg \<noteq> Some ''tool'' then False
      else
        (let tool_call_id = unwrap_or [] (get_str msg ''tool_call_id'');
             prev = preceding messages i;
             preceding_role = unwrap_or [] (Option.bind prev role_of)
         in if preceding_role \<noteq> ''assistant'' then False
            else \<not> (case prev of None \<Rightarrow> False | Some m \<Rightarrow> paired_with tool_call_id m)))"

definition sanitize_tool_message_pairing :: "json list \<Rightarrow> json list" where
  "sanitize_tool_message_pairing messages =
     (let drop_indices = filter (orphaned messages) [0..<length messages] in
      if drop_indices = [] then messages
      else map snd (filter (\<lambda>(i, m). i \<notin> set drop_indices) (enumerate 0 messages)))"

section \<open>The payload\<close>

definition openai_tool_definition :: "tool_definition \<Rightarrow> json" where
  "openai_tool_definition tool =
     jobj [(''type'', JStr ''function''),
           (''function'', jobj [(''name'', JStr (td_name tool)),
                                (''description'', jopt JStr (td_description tool)),
                                (''parameters'', td_schema tool)])]"

fun openai_tool_choice :: "tool_choice \<Rightarrow> json" where
  "openai_tool_choice ChoiceAuto = JStr ''auto''"
| "openai_tool_choice ChoiceAny = JStr ''required''"
| "openai_tool_choice (ChoiceTool name) =
     jobj [(''type'', JStr ''function''), (''function'', jobj [(''name'', JStr name)])]"

text \<open>\<open>json!(x)\<close> of an \<open>f64\<close>: a number when it is finite, else null.\<close>

definition f64_finite :: "u64 \<Rightarrow> bool" where
  "f64_finite bits \<longleftrightarrow> unat bits div 2 ^ 52 mod 2 ^ 11 \<noteq> 2 ^ 11 - 1"

definition jf64 :: "u64 \<Rightarrow> json" where
  "jf64 bits = (if f64_finite bits then JNum (Float bits) else JNull)"

definition set_opt :: "string \<Rightarrow> ('a \<Rightarrow> json) \<Rightarrow> 'a option \<Rightarrow> json \<Rightarrow> json" where
  "set_opt key f opt payload = (case opt of None \<Rightarrow> payload | Some x \<Rightarrow> json_set key (f x) payload)"

definition chat_messages :: "codec \<Rightarrow> message_request \<Rightarrow> json list" where
  "chat_messages cd request =
     (case req_system request of
        Some system \<Rightarrow>
          (if system = [] then []
           else [jobj [(''role'', JStr ''system''), (''content'', JStr system)]])
      | None \<Rightarrow> [])
     @ concat (map (translate_message cd) (req_messages request))"

definition build_chat_completion_request :: "codec \<Rightarrow> message_request \<Rightarrow> json" where
  "build_chat_completion_request cd request =
     (let messages = sanitize_tool_message_pairing (chat_messages cd request);
          p0 = jobj [(''model'', JStr (req_model request)),
                     (''max_tokens'', ju32 (req_max_tokens request)),
                     (''messages'', JArr messages), (''stream'', JBool (req_stream request))];
          p1 = (if req_stream request
                then json_set ''stream_options'' (jobj [(''include_usage'', JBool True)]) p0 else p0);
          p2 = set_opt ''tools'' (\<lambda>tools. JArr (map openai_tool_definition tools)) (req_tools request) p1;
          p3 = set_opt ''tool_choice'' openai_tool_choice (req_tool_choice request) p2;
          p4 = set_opt ''temperature'' jf64 (req_temperature request) p3;
          p5 = set_opt ''top_p'' jf64 (req_top_p request) p4;
          p6 = set_opt ''frequency_penalty'' jf64 (req_frequency_penalty request) p5;
          p7 = set_opt ''presence_penalty'' jf64 (req_presence_penalty request) p6;
          p8 = (case req_stop request of
                  Some stop \<Rightarrow> if stop \<noteq> [] then json_set ''stop'' (JArr (map JStr stop)) p7 else p7
                | None \<Rightarrow> p7)
      in set_opt ''reasoning_effort'' JStr (req_reasoning_effort request) p8)"

section \<open>Pairing as one scan\<close>

text \<open>The reference: one pass that remembers the last message that is not a tool result.\<close>

definition keeps_tool :: "json option \<Rightarrow> json \<Rightarrow> bool" where
  "keeps_tool prev m \<longleftrightarrow>
     (case prev of
        None \<Rightarrow> True
      | Some p \<Rightarrow> role_of p \<noteq> Some ''assistant''
                  \<or> paired_with (unwrap_or [] (get_str m ''tool_call_id'')) p)"

fun pairing_scan :: "json option \<Rightarrow> json list \<Rightarrow> json list" where
  "pairing_scan prev [] = []"
| "pairing_scan prev (m # ms) =
     (if role_of m \<noteq> Some ''tool'' then m # pairing_scan (Some m) ms
      else if keeps_tool prev m then m # pairing_scan prev ms
      else pairing_scan prev ms)"

definition last_spoken :: "json option \<Rightarrow> json list \<Rightarrow> json option" where
  "last_spoken prev ms = foldl (\<lambda>p m. if role_of m \<noteq> Some ''tool'' then Some m else p) prev ms"

lemma preceding_last_spoken: "i \<le> length ms \<Longrightarrow> preceding ms i = last_spoken None (take i ms)"
proof (induction i)
  case 0
  then show ?case by (simp add: preceding_def last_spoken_def)
next
  case (Suc i)
  then have "take (Suc i) ms = take i ms @ [ms ! i]"
    by (simp add: take_Suc_conv_app_nth)
  with Suc show ?case by (simp add: preceding_def last_spoken_def)
qed

lemma orphaned_keeps:
  "i < length ms \<Longrightarrow>
   orphaned ms i \<longleftrightarrow> role_of (ms ! i) = Some ''tool'' \<and> \<not> keeps_tool (last_spoken None (take i ms)) (ms ! i)"
  by (auto simp: orphaned_def keeps_tool_def preceding_last_spoken Let_def unwrap_or_def
      split: option.splits)

text \<open>Dropping by index, generalised to any first index.\<close>

lemma pairing_scan_drops:
  assumes "\<And>i. i < length ms \<Longrightarrow>
      dropped (n + i) \<longleftrightarrow> role_of (ms ! i) = Some ''tool'' \<and> \<not> keeps_tool (last_spoken prev (take i ms)) (ms ! i)"
  shows "map snd (filter (\<lambda>(i, m). \<not> dropped i) (enumerate n ms)) = pairing_scan prev ms"
  using assms
proof (induction ms arbitrary: n prev)
  case Nil
  then show ?case by simp
next
  case (Cons m ms)
  let ?prev = "if role_of m \<noteq> Some ''tool'' then Some m else prev"
  have tail: "map snd (filter (\<lambda>(i, m). \<not> dropped i) (enumerate (Suc n) ms)) = pairing_scan ?prev ms"
  proof (rule Cons.IH)
    fix i assume "i < length ms"
    then show "dropped (Suc n + i) \<longleftrightarrow>
        role_of (ms ! i) = Some ''tool'' \<and> \<not> keeps_tool (last_spoken ?prev (take i ms)) (ms ! i)"
      using Cons.prems [of "Suc i"] by (simp add: last_spoken_def)
  qed
  have "dropped n \<longleftrightarrow> role_of m = Some ''tool'' \<and> \<not> keeps_tool prev m"
    using Cons.prems [of 0] by (simp add: last_spoken_def)
  with tail show ?case by auto
qed

lemma sanitize_scan: "sanitize_tool_message_pairing ms = pairing_scan None ms"
proof -
  have scan: "map snd (filter (\<lambda>(i, m). \<not> (i < length ms \<and> orphaned ms i)) (enumerate 0 ms)) = pairing_scan None ms"
    using pairing_scan_drops [of ms "\<lambda>i. i < length ms \<and> orphaned ms i" 0 None]
    by (simp add: orphaned_keeps)
  show ?thesis
  proof (cases "filter (orphaned ms) [0..<length ms] = []")
    case True
    then have "\<forall>i < length ms. \<not> orphaned ms i"
      by (auto simp: filter_empty_conv)
    then have "filter (\<lambda>(i, m). \<not> (i < length ms \<and> orphaned ms i)) (enumerate 0 ms) = enumerate 0 ms"
      by (intro filter_True) auto
    then show ?thesis
      using True scan by (simp add: sanitize_tool_message_pairing_def)
  next
    case False
    have "(\<lambda>(i, m). i \<notin> set (filter (orphaned ms) [0..<length ms]))
        = (\<lambda>(i, m :: json). \<not> (i < length ms \<and> orphaned ms i))"
      by (auto simp: fun_eq_iff)
    then show ?thesis
      using False scan by (simp add: sanitize_tool_message_pairing_def)
  qed
qed

lemma scan_idem: "pairing_scan prev (pairing_scan prev ms) = pairing_scan prev ms"
  by (induction prev ms rule: pairing_scan.induct) auto

lemma scan_spoken: "filter (\<lambda>m. role_of m \<noteq> Some ''tool'') (pairing_scan prev ms)
    = filter (\<lambda>m. role_of m \<noteq> Some ''tool'') ms"
  by (induction prev ms rule: pairing_scan.induct) auto

text \<open>Dropping by index is one left-to-right scan that remembers the last speaking message.\<close>

theorem sanitize_is_scan: "sanitize_tool_message_pairing messages = pairing_scan None messages"
  by (rule sanitize_scan)

lemma scan_pairs:
  "i < length (pairing_scan prev ms) \<Longrightarrow> role_of (pairing_scan prev ms ! i) = Some ''tool'' \<Longrightarrow>
   keeps_tool (last_spoken prev (take i (pairing_scan prev ms))) (pairing_scan prev ms ! i)"
proof (induction prev ms arbitrary: i rule: pairing_scan.induct)
  case (1 prev)
  then show ?case by simp
next
  case (2 prev m ms)
  show ?case
  proof (cases "role_of m \<noteq> Some ''tool'' \<or> keeps_tool prev m")
    case True
    then show ?thesis
      using 2 by (cases i) (auto simp: last_spoken_def split: if_splits)
  next
    case False
    then show ?thesis using "2.IH"(3) "2.prems" by simp
  qed
qed

text \<open>
  Sanitising is idempotent, keeps every message that is not a tool result in order, and
  leaves no orphaned tool result behind.
\<close>

theorem sanitize_pairs:
  "sanitize_tool_message_pairing (sanitize_tool_message_pairing messages) = sanitize_tool_message_pairing messages
   \<and> filter (\<lambda>m. role_of m \<noteq> Some ''tool'') (sanitize_tool_message_pairing messages)
       = filter (\<lambda>m. role_of m \<noteq> Some ''tool'') messages
   \<and> \<not> list_ex (orphaned (sanitize_tool_message_pairing messages))
         [0..<length (sanitize_tool_message_pairing messages)]"
  using scan_pairs [of _ None messages]
  by (auto simp: sanitize_scan scan_idem scan_spoken list_ex_iff orphaned_keeps)

section \<open>Reading the payload\<close>

fun is_object :: "json \<Rightarrow> bool" where
  "is_object (JObj m) \<longleftrightarrow> True"
| "is_object _ \<longleftrightarrow> False"

lemma is_object_simps [simp]:
  "is_object (jobj kvs)" "is_object (json_set k v p) = is_object p"
  "is_object (set_opt k f opt p) = is_object p"
  by (cases p; simp add: jobj_def set_opt_def split: option.split)+

lemma get_json_set: "is_object p \<Longrightarrow> json_get (json_set k v p) k' = (if k' = k then Some v else json_get p k')"
  by (cases p) auto

lemma get_set_opt:
  "is_object p \<Longrightarrow> k' \<noteq> k \<Longrightarrow> json_get (set_opt k f opt p) k' = json_get p k'"
  "is_object p \<Longrightarrow> json_get p k = None \<Longrightarrow> json_get (set_opt k f opt p) k = map_option f opt"
  by (simp_all add: set_opt_def get_json_set split: option.split)

text \<open>The payload has the sanitised messages, and each optional setting exactly when the request has it.\<close>

theorem payload_fields:
  "json_get (build_chat_completion_request cd r) ''messages''
     = Some (JArr (pairing_scan None (chat_messages cd r)))
   \<and> json_get (build_chat_completion_request cd r) ''model'' = Some (JStr (req_model r))
   \<and> json_get (build_chat_completion_request cd r) ''stream'' = Some (JBool (req_stream r))
   \<and> json_get (build_chat_completion_request cd r) ''stream_options''
     = (if req_stream r then Some (jobj [(''include_usage'', JBool True)]) else None)
   \<and> json_get (build_chat_completion_request cd r) ''tools''
     = map_option (\<lambda>ts. JArr (map openai_tool_definition ts)) (req_tools r)
   \<and> json_get (build_chat_completion_request cd r) ''tool_choice'' = map_option openai_tool_choice (req_tool_choice r)
   \<and> json_get (build_chat_completion_request cd r) ''temperature'' = map_option jf64 (req_temperature r)
   \<and> json_get (build_chat_completion_request cd r) ''stop''
     = (if req_stop r = None \<or> req_stop r = Some [] then None
        else map_option (\<lambda>stop. JArr (map JStr stop)) (req_stop r))
   \<and> json_get (build_chat_completion_request cd r) ''reasoning_effort''
     = map_option JStr (req_reasoning_effort r)"
  unfolding build_chat_completion_request_def Let_def
  by (intro conjI; simp add: get_set_opt get_json_set sanitize_scan split: option.split)

end
