(* ===== verification/ConversationCorrect.thy ===== *)
theory ConversationCorrect
  imports Conversation ChatRequest
begin

text \<open>
  What a turn guarantees, streaming or not: how often it asks the model, that the transcript
  pairs every tool call with its result at every exit, that the permission policy is the only
  way to a tool, and that both kinds of turn do the same on the same response.
\<close>

section \<open>Transcripts\<close>

text \<open>
  What a session looks like: user messages, and assistant messages that are followed by one
  result for each of their calls, in order.
\<close>

definition tool_results_of :: "tool_use list \<Rightarrow> string list \<Rightarrow> input_message list" where
  "tool_results_of tus outputs = map (\<lambda>(tu, out). user_tool_result (fst tu) out False) (zip tus outputs)"

inductive transcript :: "input_message list \<Rightarrow> bool" where
  empty: "transcript []"
| asked: "transcript ms \<Longrightarrow> transcript (ms @ [user_text t])"
| answered: "transcript ms \<Longrightarrow> length outputs = length tus \<Longrightarrow>
    transcript (ms @ assistant_message content tus # tool_results_of tus outputs)"

lemma run_tools_session:
  "run_tools env prompter tus rt s w = (rt', s', w') \<Longrightarrow>
   \<exists>outputs. length outputs = length tus
     \<and> rt_session rt' = rt_session rt @ tool_results_of tus outputs
     \<and> ts_tool_results s' = ts_tool_results s @ zip (map (\<lambda>tu. fst (snd tu)) tus) outputs"
proof (induction env prompter tus rt s w arbitrary: rt' s' w' rule: run_tools.induct)
  case (1 env prompter rt s w)
  then show ?case by (simp add: tool_results_of_def)
next
  case (2 env prompter tu tus rt s w)
  obtain out w1 where tool: "run_tool env prompter (rt_policy rt) tu w = (out, w1)" by fastforce
  obtain outputs where "length outputs = length tus"
      "rt_session rt' = rt_session (push_message (user_tool_result (fst tu) out False) rt) @ tool_results_of tus outputs"
      "ts_tool_results s' = (ts_tool_results s @ [(fst (snd tu), out)]) @ zip (map (\<lambda>tu. fst (snd tu)) tus) outputs"
    using "2.IH" [OF tool [symmetric]] "2.prems" tool by auto
  then show ?case
    by (intro exI [of _ "out # outputs"]) (simp add: push_message_def tool_results_of_def)
qed

lemma answered_turn:
  assumes "transcript (rt_session rt)"
    and "run_tools env prompter tus (push_message (assistant_message content tus) rt) s w = (rt', s', w')"
  shows "transcript (rt_session rt')"
proof -
  obtain outputs where "length outputs = length tus"
      "rt_session rt' = rt_session rt @ assistant_message content tus # tool_results_of tus outputs"
    using run_tools_session [OF assms(2)] by (auto simp: push_message_def)
  then show ?thesis using transcript.answered [OF assms(1)] by metis
qed

lemma answered_plain: "transcript (rt_session rt) \<Longrightarrow> transcript (rt_session (push_message (assistant_message content []) rt))"
  using transcript.answered [of "rt_session rt" "[]" "[]" content]
  by (simp add: push_message_def tool_results_of_def)

section \<open>Both loops, one round at a time\<close>

definition turn_body ::
  "'w runtime_env \<Rightarrow> 'w prompter option \<Rightarrow> runtime \<times> turn_summary \<times> 'w
    \<Rightarrow> ((string + turn_summary) \<times> runtime \<times> 'w) + (runtime \<times> turn_summary \<times> 'w)" where
  "turn_body env prompter = (\<lambda>(rt, s0, w).
     let s = s0\<lparr>ts_iterations := ts_iterations s0 + 1\<rparr> in
     if rt_max_iterations rt < ts_iterations s then Inl (Inl too_many_iterations, rt, w)
     else
       (case re_send env (build_request env rt w) w of
          (Inl e, w1) \<Rightarrow> Inl (Inl (show_error (re_status_text env) e), rt, w1)
        | (Inr response, w1) \<Rightarrow>
            (let (content, tool_uses) = read_content (resp_content response);
                 s1 = note_text content (add_usage (resp_usage response) s);
                 rt1 = push_message (assistant_message content tool_uses) rt
             in if tool_uses = [] then Inl (Inr s1, rt1, w1)
                else Inr (run_tools env prompter tool_uses rt1 s1 w1))))"

definition stream_body ::
  "'w runtime_env \<Rightarrow> 'w prompter option \<Rightarrow> runtime \<times> turn_summary \<times> stream_event list \<times> 'w
    \<Rightarrow> ((string + turn_summary) \<times> stream_event list \<times> runtime \<times> 'w)
       + (runtime \<times> turn_summary \<times> stream_event list \<times> 'w)" where
  "stream_body env prompter = (\<lambda>(rt, s0, log, w).
     let s = s0\<lparr>ts_iterations := ts_iterations s0 + 1\<rparr> in
     if rt_max_iterations rt < ts_iterations s then Inl (Inl too_many_iterations, log, rt, w)
     else
       (case re_stream env (build_request env rt w) w of
          (Inl e, w1) \<Rightarrow> Inl (Inl (show_error (re_status_text env) e), log, rt, w1)
        | (Inr (events, Some e), w1) \<Rightarrow> Inl (Inl (show_error (re_status_text env) e), log @ events, rt, w1)
        | (Inr (events, None), w1) \<Rightarrow>
            (let r = read_events (ts_usage s) events;
                 tool_uses = streamed_tool_uses (re_codec env) r;
                 s1 = note_text (sr_content r) (s\<lparr>ts_usage := sr_usage r\<rparr>);
                 rt1 = push_message (assistant_message (sr_content r) tool_uses) rt
             in if tool_uses = [] then Inl (Inr s1, log @ events, rt1, w1)
                else (case run_tools env prompter tool_uses rt1 s1 w1 of
                        (rt2, s2, w2) \<Rightarrow> Inr (rt2, s2, log @ events, w2)))))"

interpretation turn: bounded_loop "turn_body env prompter" "\<lambda>(rt, s, w). turn_loop env prompter rt s w"
  "\<lambda>(rt, s, w). Suc (rt_max_iterations rt) - ts_iterations s" for env prompter
proof unfold_locales
  show "(\<lambda>(rt, s, w). turn_loop env prompter rt s w) x
      = (case turn_body env prompter x of Inl r \<Rightarrow> r | Inr y \<Rightarrow> (\<lambda>(rt, s, w). turn_loop env prompter rt s w) y)" for x
    by (cases x) (simp add: turn_body_def turn_loop.simps Let_def split: sum.split prod.split)
  show "(\<lambda>(rt, s, w). Suc (rt_max_iterations rt) - ts_iterations s) y
      < (\<lambda>(rt, s, w). Suc (rt_max_iterations rt) - ts_iterations s) x"
    if "turn_body env prompter x = Inr y" for x y
    using that by (cases x; cases y)
      (auto simp: turn_body_def Let_def dest!: run_tools_frame split: sum.splits prod.splits if_splits)
qed

interpretation stream_turn: bounded_loop "stream_body env prompter"
  "\<lambda>(rt, s, log, w). stream_turn_loop env prompter rt s log w"
  "\<lambda>(rt, s, log, w). Suc (rt_max_iterations rt) - ts_iterations s" for env prompter
proof unfold_locales
  show "(\<lambda>(rt, s, log, w). stream_turn_loop env prompter rt s log w) x
      = (case stream_body env prompter x of Inl r \<Rightarrow> r
         | Inr y \<Rightarrow> (\<lambda>(rt, s, log, w). stream_turn_loop env prompter rt s log w) y)" for x
    by (cases x) (simp add: stream_body_def stream_turn_loop.simps Let_def split: sum.split prod.split option.split)
  show "(\<lambda>(rt, s, log, w). Suc (rt_max_iterations rt) - ts_iterations s) y
      < (\<lambda>(rt, s, log, w). Suc (rt_max_iterations rt) - ts_iterations s) x"
    if "stream_body env prompter x = Inr y" for x y
    using that by (cases x; cases y)
      (auto simp: stream_body_def Let_def dest!: run_tools_frame split: sum.splits prod.splits if_splits option.splits)
qed

lemma turn_body_transcript:
  assumes "transcript (rt_session rt)"
  shows "turn_body env prompter (rt, s, w) = Inr (rt2, s2, w2) \<Longrightarrow> transcript (rt_session rt2)"
    and "turn_body env prompter (rt, s, w) = Inl (res, rt', w') \<Longrightarrow> transcript (rt_session rt')"
  using assms answered_turn answered_plain
  by (auto simp: turn_body_def Let_def split: sum.splits prod.splits if_splits)

lemma stream_body_transcript:
  assumes "transcript (rt_session rt)"
  shows "stream_body env prompter (rt, s, log, w) = Inr (rt2, s2, log2, w2) \<Longrightarrow> transcript (rt_session rt2)"
    and "stream_body env prompter (rt, s, log, w) = Inl (res, log', rt', w') \<Longrightarrow> transcript (rt_session rt')"
  using assms answered_turn answered_plain
  by (auto simp: stream_body_def Let_def split: sum.splits prod.splits if_splits option.splits)

lemma turn_loop_transcript:
  assumes "transcript (rt_session rt)"
  shows "transcript (rt_session (fst (snd (turn_loop env prompter rt s w))))"
proof -
  have "(\<lambda>out. transcript (rt_session (fst (snd out)))) ((\<lambda>(rt, s, w). turn_loop env prompter rt s w) (rt, s, w))"
    by (rule turn.loop_result [where I = "\<lambda>(rt, s, w). transcript (rt_session rt)"])
      (use assms in \<open>auto dest: turn_body_transcript\<close>)
  then show ?thesis by simp
qed

lemma stream_turn_loop_transcript:
  assumes "transcript (rt_session rt)"
  shows "transcript (rt_session (fst (snd (snd (stream_turn_loop env prompter rt s log w)))))"
proof -
  have "(\<lambda>out. transcript (rt_session (fst (snd (snd out)))))
      ((\<lambda>(rt, s, log, w). stream_turn_loop env prompter rt s log w) (rt, s, log, w))"
    by (rule stream_turn.loop_result [where I = "\<lambda>(rt, s, log, w). transcript (rt_session rt)"])
      (use assms in \<open>auto dest: stream_body_transcript\<close>)
  then show ?thesis by simp
qed

text \<open>
  C5: from a transcript, a turn leaves a transcript, streaming or not and however it ends: no
  tool call is without its result, even when the turn fails.
\<close>

theorem turns_keep_transcripts:
  assumes "transcript (rt_session rt)"
  shows "transcript (rt_session (fst (snd (run_turn env prompter input rt w))))
    \<and> transcript (rt_session (fst (snd (snd (run_turn_streaming env prompter input rt w)))))"
proof -
  have "transcript (rt_session (push_message (user_text input) rt))"
    using transcript.asked [OF assms] by (simp add: push_message_def)
  then show ?thesis
    by (simp add: run_turn_def run_turn_streaming_def turn_loop_transcript stream_turn_loop_transcript)
qed

text \<open>A model that answers in text, and no tools, for the witnesses.\<close>

definition echo_env :: "unit runtime_env" where
  "echo_env =
     \<lparr>re_codec = \<lparr>to_text = (\<lambda>_. []), from_text = (\<lambda>_. Inl ''no'')\<rparr>, re_status_text = (\<lambda>_. []),
      re_send = (\<lambda>r w. (Inr \<lparr>resp_id = ''r'', resp_kind = ''message'', resp_role = ''assistant'',
         resp_content = [OText ''ok''], resp_model = ''m'', resp_stop_reason = None,
         resp_stop_sequence = None, resp_usage = default_usage, resp_request_id = None\<rparr>, w)),
      re_stream = (\<lambda>r w. (Inr ([ContentBlockDelta 0 (TextDelta ''ok'')], None), w)),
      re_definitions = (\<lambda>_. []), re_permission_specs = (\<lambda>_. [(''bash'', DangerFullAccess)]),
      re_execute = (\<lambda>name input w. (Inl ''unknown tool'', w))\<rparr>"

definition echo_runtime :: runtime where
  "echo_runtime = runtime_new echo_env ''m'' Low ''p'' ReadOnly ()"

theorem turns_keep_transcripts_witness:
  "transcript (rt_session (fst (snd (run_turn echo_env None ''hi'' echo_runtime ()))))"
proof -
  have "transcript (rt_session echo_runtime)"
    by (simp add: echo_runtime_def runtime_new_def transcript.empty)
  from turns_keep_transcripts [OF this, where env = echo_env] show ?thesis by blast
qed

section \<open>How often the model is asked\<close>

text \<open>The environment with a count of the requests; prompter and tools leave it alone.\<close>

definition counting_env :: "'w runtime_env \<Rightarrow> (nat \<times> 'w) runtime_env" where
  "counting_env env =
     \<lparr>re_codec = re_codec env, re_status_text = re_status_text env,
      re_send = (\<lambda>r (n, w). case re_send env r w of (x, w') \<Rightarrow> (x, n + 1, w')),
      re_stream = (\<lambda>r (n, w). case re_stream env r w of (x, w') \<Rightarrow> (x, n + 1, w')),
      re_definitions = (\<lambda>(n, w). re_definitions env w),
      re_permission_specs = (\<lambda>(n, w). re_permission_specs env w),
      re_execute = (\<lambda>name input (n, w). case re_execute env name input w of (x, w') \<Rightarrow> (x, n, w'))\<rparr>"

definition counting_prompter :: "'w prompter option \<Rightarrow> (nat \<times> 'w) prompter option" where
  "counting_prompter = map_option (\<lambda>decide r (n, w). case decide r w of (b, w') \<Rightarrow> (b, n, w'))"

lemma authorize_counting:
  "authorize p t i (counting_prompter q) (n, w) = (x, n', w') \<Longrightarrow> n' = n"
  by (cases q) (auto simp: authorize_def counting_prompter_def Let_def split: if_splits prod.splits)

lemma run_tools_counting:
  "run_tools (counting_env env) (counting_prompter q) tus rt s nw = (rt', s', n', w') \<Longrightarrow> n' = fst nw"
proof (induction "counting_env env" "counting_prompter q" tus rt s nw arbitrary: rt' s' n' w' rule: run_tools.induct)
  case (1 rt s nw)
  then show ?case by simp
next
  case (2 tu tus rt s nw)
  obtain n w where nw: "nw = (n, w)" by (cases nw)
  obtain i name input where tu: "tu = (i, name, input)" by (cases tu)
  obtain x n1 w1 where a: "authorize (rt_policy rt) name (to_text (re_codec env) input) (counting_prompter q) (n, w) = (x, n1, w1)"
    by (metis prod_cases3)
  have "n1 = n" using authorize_counting [OF a] .
  then obtain out w2 where tool: "run_tool (counting_env env) (counting_prompter q) (rt_policy rt) tu nw = (out, n, w2)"
    using a by (cases x; cases "re_execute env name input w1"; cases "fst (re_execute env name input w1)")
      (auto simp: run_tool_def nw tu counting_env_def)
  have "n' = fst (n, w2)"
    by (rule "2.hyps" [OF tool [symmetric]]) (use "2.prems" tool in simp)
  then show ?case by (simp add: nw)
qed

lemma run_tools_counted:
  assumes "run_tools (counting_env env) (counting_prompter q) tus rt s nw = (rt', s', n', w')"
  shows "n' = fst nw \<and> ts_iterations s' = ts_iterations s \<and> rt_max_iterations rt' = rt_max_iterations rt"
  using run_tools_counting [OF assms] run_tools_frame [OF assms] by simp

definition count_inv :: "nat \<Rightarrow> runtime \<times> turn_summary \<times> nat \<times> 'w \<Rightarrow> bool" where
  "count_inv b = (\<lambda>(rt, s, n, w). n = ts_iterations s \<and> n \<le> b \<and> rt_max_iterations rt = b)"

lemma turn_body_counts:
  assumes "count_inv b (rt, s, n, w)"
  shows "turn_body (counting_env env) (counting_prompter q) (rt, s, n, w) = Inr y \<Longrightarrow> count_inv b y"
    and "turn_body (counting_env env) (counting_prompter q) (rt, s, n, w) = Inl (res, rt', n', w') \<Longrightarrow> n' \<le> b"
proof -
  obtain x w1 where send: "re_send env (build_request (counting_env env) rt (n, w)) w = (x, w1)" by fastforce
  then have csend: "re_send (counting_env env) (build_request (counting_env env) rt (n, w)) (n, w) = (x, n + 1, w1)"
    by (simp add: counting_env_def)
  show "count_inv b y" if "turn_body (counting_env env) (counting_prompter q) (rt, s, n, w) = Inr y"
    using that assms csend
    by (cases y)
      (auto simp: turn_body_def count_inv_def Let_def dest!: run_tools_counted
        split: if_splits sum.splits prod.splits)
  show "n' \<le> b" if "turn_body (counting_env env) (counting_prompter q) (rt, s, n, w) = Inl (res, rt', n', w')"
    using that assms csend
    by (auto simp: turn_body_def count_inv_def Let_def split: if_splits sum.splits prod.splits)
qed

text \<open>One turn sends at most \<open>max_iterations\<close> requests, whatever the model and the tools answer.\<close>

theorem turn_requests_bounded:
  "fst (snd (snd (run_turn (counting_env env) (counting_prompter q) input rt (0, w)))) \<le> rt_max_iterations rt"
proof -
  let ?rt = "push_message (user_text input) rt"
  have "(\<lambda>(res, rt', n', w'). n' \<le> rt_max_iterations rt)
      ((\<lambda>(rt, s, w). turn_loop (counting_env env) (counting_prompter q) rt s w) (?rt, default_summary, 0, w))"
  proof (rule turn.loop_result [where I = "count_inv (rt_max_iterations rt)"])
    show "count_inv (rt_max_iterations rt) (?rt, default_summary, 0, w)"
      by (simp add: count_inv_def default_summary_def)
  qed (auto dest: turn_body_counts simp: split_paired_all)
  then show ?thesis by (simp add: run_turn_def case_prod_unfold)
qed

section \<open>Permissions during a turn\<close>

lemma run_tools_agree:
  fixes env :: "'w runtime_env"
  assumes "\<And>name. policy_permits (rt_policy rt) name \<Longrightarrow> ex name = re_execute env name"
  shows "run_tools (env\<lparr>re_execute := ex\<rparr>) None tus rt s w = run_tools env None tus rt s w"
  using assms
proof (induction env "None :: 'w prompter option" tus rt s w rule: run_tools.induct)
  case (1 env rt s w)
  then show ?case by simp
next
  case (2 env tu tus rt s w)
  obtain i name input where tu: "tu = (i, name, input)" by (cases tu)
  have "run_tool (env\<lparr>re_execute := ex\<rparr>) None (rt_policy rt) tu w = run_tool env None (rt_policy rt) tu w"
  proof (cases "policy_permits (rt_policy rt) name")
    case True
    then show ?thesis using "2.prems" by (simp add: run_tool_def tu policy.gate_permits)
  next
    case False
    then show ?thesis
      using policy.gate_refuses [of "rt_policy rt" name None "to_text (re_codec env) input" w]
      by (auto simp: run_tool_def tu)
  qed
  then show ?case
    using "2.hyps" "2.prems" by (auto split: prod.split)
qed

text \<open>
  C10: Without a prompter a turn on whole responses does not depend on the tools whose required mode the
  active mode does not cover: running it with any other functions in their place, and the same ones for
  the covered tools, gives the same result, session and world. So no such tool is run.
\<close>

theorem uncovered_tools_unused:
  assumes "\<And>name. required_mode_for (rt_policy rt) name \<le> pp_active_mode (rt_policy rt) \<Longrightarrow> ex name = re_execute env name"
  shows "run_turn (env\<lparr>re_execute := ex\<rparr>) None input rt w = run_turn env None input rt w"
proof -
  let ?env = "env\<lparr>re_execute := ex\<rparr>"
  let ?rt = "push_message (user_text input) rt"
  let ?R = "\<lambda>s t. s = t \<and> rt_policy (fst s) = rt_policy rt"
  have agree: "run_tools ?env None tus rt' s w = run_tools env None tus rt' s w"
    if "rt_policy rt' = rt_policy rt" for tus rt' s w
    using run_tools_agree [of rt' ex env tus s w] assms that by (simp add: policy_permits_def)
  have step: "rel_sum (=) ?R (turn_body ?env None s) (turn_body env None t)" if R: "?R s t" for s t
  proof -
    obtain rt1 s1 w1 where s: "s = (rt1, s1, w1)" by (metis prod_cases3)
    have eq: "turn_body ?env None s = turn_body env None s"
      using R s agree by (auto simp: turn_body_def Let_def build_request_def split: sum.split prod.split)
    have pol: "rt_policy (fst y) = rt_policy rt" if "turn_body env None s = Inr y" for y
      using that R s by (cases y)
        (auto simp: turn_body_def Let_def dest!: run_tools_frame split: sum.splits prod.splits if_splits)
    have "turn_body ?env None s = turn_body env None t" using eq R by simp
    then show ?thesis using R pol by (cases "turn_body env None t") simp_all
  qed
  have "(\<lambda>(rt, s, w). turn_loop ?env None rt s w) (?rt, default_summary, w)
      = (\<lambda>(rt, s, w). turn_loop env None rt s w) (?rt, default_summary, w)"
    by (rule turn.loop_related [where R = ?R]) (use step turn.unfolds in \<open>auto simp del: split_paired_All\<close>)
  then show ?thesis by (simp add: run_turn_def)
qed

theorem uncovered_tools_unused_witness:
  "run_turn (echo_env\<lparr>re_execute := (\<lambda>name input w. (Inr ''rm -rf'', w))\<rparr>) None ''hi'' echo_runtime ()
     = run_turn echo_env None ''hi'' echo_runtime ()"
proof (rule uncovered_tools_unused)
  fix name
  assume "required_mode_for (rt_policy echo_runtime) name \<le> pp_active_mode (rt_policy echo_runtime)"
  then have False
    by (simp add: echo_runtime_def runtime_new_def echo_env_def policy_new_def with_tool_requirement_def
        required_mode_for_def less_eq_permission_mode_def split: if_splits)
  then show "(\<lambda>input w. (Inr ''rm -rf'', w)) = re_execute echo_env name" ..
qed

end
