(* ===== verification/TurnStreams.thy ===== *)
theory TurnStreams
  imports ConversationCorrect StreamCorrect
begin

text \<open>
  The conversation against the client it talks to: a transcript reaches the provider whole,
  the turn reads off a stream exactly the text and the tool calls of its chunks, and a
  streamed turn is the turn on the whole response.
\<close>

section \<open>A transcript is sent as it is\<close>

lemma scan_append: "pairing_scan prev (a @ b) = pairing_scan prev a @ pairing_scan (last_spoken prev a) b"
  by (induction prev a rule: pairing_scan.induct) (auto simp: last_spoken_def)

lemma scan_paired_tools:
  "list_all (\<lambda>m. role_of m = Some ''tool'' \<and> keeps_tool prev m) ms \<Longrightarrow> pairing_scan prev ms = ms"
  by (induction ms) auto

lemma assistant_parts_message:
  "assistant_parts cd (msg_content (assistant_message content tus))
     = (content, map (\<lambda>(i, n, input). tool_call_value cd i n input) tus)"
proof -
  have "assistant_parts cd (map (\<lambda>(i, n, input). IToolUse i n input) tus)
      = ([], map (\<lambda>(i, n, input). tool_call_value cd i n input) tus)"
    by (induction tus) auto
  then show ?thesis by (simp add: assistant_message_def)
qed

lemma scan_answer:
  assumes "length outputs = length tus"
  shows "pairing_scan prev (concat (map (translate_message cd)
           (assistant_message content tus # tool_results_of tus outputs)))
    = concat (map (translate_message cd) (assistant_message content tus # tool_results_of tus outputs))"
proof -
  let ?calls = "map (\<lambda>(i, n, input). tool_call_value cd i n input) tus"
  have tools: "concat (map (translate_message cd) (tool_results_of tus outputs))
      = map (\<lambda>(tu, out). jobj [(''role'', JStr ''tool''), (''tool_call_id'', JStr (fst tu)), (''content'', JStr out)])
          (zip tus outputs)"
    unfolding tool_results_of_def using assms
    by (induction tus outputs rule: list_induct2')
      (auto simp: translate_message_def user_tool_result_def user_part_def map_filter_simps
        flatten_tool_result_content_def)
  show ?thesis
  proof (cases "tus = []")
    case True
    then show ?thesis
      by (simp add: tool_results_of_def translate_message_def assistant_parts_message assistant_message_def
          role_of_def json_access)
  next
    case False
    let ?m = "json_set ''tool_calls'' (JArr ?calls) (jobj [(''role'', JStr ''assistant''),
      (''content'', if content \<noteq> [] then JStr content else JNull)])"
    have t: "translate_message cd (assistant_message content tus) = [?m]"
      using False by (simp add: translate_message_def assistant_parts_message Let_def)
        (simp add: assistant_message_def)
    have role: "role_of ?m = Some ''assistant''"
      by (simp add: role_of_def json_access)
    have paired: "paired_with (fst tu) ?m" if "tu \<in> set tus" for tu
    proof -
      obtain i n v where tu: "tu = (i, n, v)" by (cases tu)
      have "get_str (tool_call_value cd i n v) ''id'' = Some i"
        by (simp add: tool_call_value_def json_access)
      moreover have "tool_call_value cd i n v \<in> set ?calls"
        using that by (force simp: tu)
      ultimately have "list_ex (\<lambda>tc. get_str tc ''id'' = Some i) ?calls"
        unfolding list_ex_iff by (rule bexI)
      then show ?thesis by (simp add: tu paired_with_def get_array_def)
    qed
    have "list_all (\<lambda>m. role_of m = Some ''tool'' \<and> keeps_tool (Some ?m) m)
        (concat (map (translate_message cd) (tool_results_of tus outputs)))"
      unfolding tools list_all_iff
      by (clarsimp simp: role_of_def keeps_tool_def json_access)
        (use paired in \<open>fastforce dest!: set_zip_leftD\<close>)
    then have "pairing_scan (Some ?m) (concat (map (translate_message cd) (tool_results_of tus outputs)))
        = concat (map (translate_message cd) (tool_results_of tus outputs))"
      by (rule scan_paired_tools)
    then show ?thesis
      using role by (simp add: t)
  qed
qed

lemma scan_transcript:
  "transcript ms \<Longrightarrow> pairing_scan prev (concat (map (translate_message cd) ms)) = concat (map (translate_message cd) ms)"
proof (induction arbitrary: prev rule: transcript.induct)
  case empty
  then show ?case by simp
next
  case (asked ms t)
  have "translate_message cd (user_text t) = [jobj [(''role'', JStr ''user''), (''content'', JStr t)]]"
    by (simp add: translate_message_def user_text_def user_part_def map_filter_simps)
  then show ?case
    using asked.IH by (simp add: scan_append role_of_def json_access)
next
  case (answered ms outputs tus content)
  then show ?case
    using scan_answer [of outputs tus _ cd content] by (simp add: scan_append)
qed

text \<open>
  C6: for a transcript the request has every message of the session, after the system prompt:
  the sanitiser drops nothing from a session the runtime built itself.
\<close>

theorem transcripts_sent_whole:
  assumes "transcript (rt_session rt)"
  shows "sanitize_tool_message_pairing (chat_messages cd (build_request env rt w))
    = chat_messages cd (build_request env rt w)"
proof -
  have "pairing_scan None (chat_messages cd (build_request env rt w)) = chat_messages cd (build_request env rt w)"
    using scan_transcript [OF assms]
    by (simp add: chat_messages_def build_request_def role_of_def json_access)
  then show ?thesis by (simp add: sanitize_scan)
qed

definition asked_session :: "input_message list" where
  "asked_session = [user_text ''ls'', assistant_message ''let me see'' [(''a'', ''bash'', JNull)]] @ tool_results_of [(''a'', ''bash'', JNull)] [''x'']"

lemma asked_transcript: "transcript asked_session"
  using transcript.answered [OF transcript.asked [OF transcript.empty], of "[''x'']" "[(''a'', ''bash'', JNull)]" "''ls''" "''let me see''"]
  by (simp add: asked_session_def)

theorem transcripts_sent_whole_witness:
  "sanitize_tool_message_pairing (chat_messages (re_codec echo_env)
      (build_request echo_env (echo_runtime\<lparr>rt_session := asked_session\<rparr>) ()))
    = chat_messages (re_codec echo_env) (build_request echo_env (echo_runtime\<lparr>rt_session := asked_session\<rparr>) ())"
  by (rule transcripts_sent_whole) (simp add: asked_transcript)

section \<open>What a turn reads off a stream\<close>

lemma read_events_snoc: "read_events u (es @ [e]) = read_event (read_events u es) e"
  by (simp add: read_events_def)

lemma read_events_text: "sr_content (read_events u es) = text_deltas es"
proof (induction es rule: rev_induct)
  case Nil
  then show ?case by (simp add: read_events_def reading)
next
  case (snoc e es)
  then show ?case
    by (auto simp: read_events_snoc read_event_def reading text_delta_of_def
        split: stream_event.splits block_delta.splits output_block.splits)
qed

lemma read_events_ok: "bt_ok (sr_tool_uses (read_events u es))"
proof (induction es rule: rev_induct)
  case Nil
  then show ?case by (simp add: read_events_def)
next
  case (snoc e es)
  then show ?case
    by (auto simp: read_events_snoc read_event_def bt_ok_insert bt_ok_adjust
        split: stream_event.splits block_delta.splits output_block.splits)
qed

lemma phase_snoc: "block_phase k (es @ [e]) = Option.bind (block_phase k es) (\<lambda>p. phase_step k p e)"
  by (simp add: reading phase_run_def)

text \<open>A block that keeps the protocol is read as its identity and all its fragments.\<close>

definition started_use :: "u32 \<Rightarrow> stream_event list \<Rightarrow> streaming_tool_use option" where
  "started_use k es =
     (case tool_starts k es of
        [] \<Rightarrow> None
      | (i, n) # _ \<Rightarrow> Some \<lparr>stu_id = i, stu_name = n, stu_input_json = json_deltas k es\<rparr>)"

lemma read_events_uses:
  "block_phase k es = Some p \<Longrightarrow>
   bt_get (sr_tool_uses (read_events u es)) k = started_use k es
   \<and> (p = Absent \<longrightarrow> json_deltas k es = [] \<and> tool_starts k es = [])"
proof (induction es arbitrary: p rule: rev_induct)
  case Nil
  then show ?case by (simp add: read_events_def started_use_def reading)
next
  case (snoc e es)
  obtain q where q: "block_phase k es = Some q" "phase_step k q e = Some p"
    using snoc.prems by (auto simp: phase_snoc bind_eq_Some_conv)
  then show ?case
    using snoc.IH [OF q(1)]
    by (cases e)
      (auto simp: read_events_snoc read_event_def started_use_def reading reading_events bt_get_insert bt_get_adjust
        split: block_delta.splits output_block.splits if_splits list.splits)
qed

text \<open>
  C8: Over the stream of any chunks a turn reads exactly their text. For every call index but u32::MAX it
  reads one tool use when a delta names the call, with the call's identity and all its argument
  fragments in order, and none when no delta names it. The block index of u32::MAX wraps onto the text
  block; when no call uses it, no tool use is read off the text block.
\<close>

theorem turn_reads_chunks:
  "sr_content (read_events u (stream_events model chunks)) = stream_text chunks
    \<and> (i + 1 \<noteq> 0 \<longrightarrow> bt_get (sr_tool_uses (read_events u (stream_events model chunks))) (i + 1)
      = map_option (\<lambda>(call, name). \<lparr>stu_id = call, stu_name = name, stu_input_json = fragments i (tool_deltas chunks)\<rparr>)
          (tool_identity i (tool_deltas chunks)))
    \<and> (no_wrap (tool_deltas chunks) \<longrightarrow> bt_get (sr_tool_uses (read_events u (stream_events model chunks))) 0 = None)"
proof (intro conjI impI)
  show "sr_content (read_events u (stream_events model chunks)) = stream_text chunks"
    by (simp add: read_events_text text_of_stream)
next
  assume "i + 1 \<noteq> 0"
  then show "bt_get (sr_tool_uses (read_events u (stream_events model chunks))) (i + 1)
      = map_option (\<lambda>(call, name). \<lparr>stu_id = call, stu_name = name, stu_input_json = fragments i (tool_deltas chunks)\<rparr>)
          (tool_identity i (tool_deltas chunks))"
    using phase_of_call [of i model chunks] tool_calls_of_stream [of i model chunks]
    by (auto simp: read_events_uses started_use_def split: option.split)
next
  assume nw: "no_wrap (tool_deltas chunks)"
  have "tool_identity (- 1) (tool_deltas chunks) = None"
  proof (rule ccontr)
    assume "tool_identity (- 1) (tool_deltas chunks) \<noteq> None"
    then obtain d where "d \<in> set (tool_deltas chunks)" "dtc_index d = - 1" using ident_exists by blast
    then show False using nw by (auto simp: no_wrap_def)
  qed
  then show "bt_get (sr_tool_uses (read_events u (stream_events model chunks))) 0 = None"
    using blocks_of_stream [OF nw, of 0 model] tool_calls_of_stream [of "- 1" model chunks]
    by (auto simp: read_events_uses started_use_def)
qed

theorem turn_reads_chunks_witness:
  "bt_get (sr_tool_uses (read_events default_usage (stream_events ''m''
     [\<lparr>ck_id = ''c'', ck_model = None, ck_choices =
        [\<lparr>cc_content = None, cc_tool_calls =
           [\<lparr>dtc_index = 0, dtc_id = Some ''a'', dtc_name = Some ''bash'', dtc_arguments = Some ''{}''\<rparr>],
           cc_finish_reason = None\<rparr>], ck_usage = None\<rparr>]))) 1
   = Some \<lparr>stu_id = ''a'', stu_name = ''bash'', stu_input_json = ''{}''\<rparr>"
proof -
  let ?chunks = "[\<lparr>ck_id = ''c'', ck_model = None, ck_choices =
        [\<lparr>cc_content = None, cc_tool_calls =
           [\<lparr>dtc_index = 0, dtc_id = Some ''a'', dtc_name = Some ''bash'', dtc_arguments = Some ''{}''\<rparr>],
           cc_finish_reason = None\<rparr>], ck_usage = None\<rparr>] :: chat_chunk list"
  have "tool_identity 0 (tool_deltas ?chunks) = Some (''a'', ''bash'')" "fragments 0 (tool_deltas ?chunks) = ''{}''"
    by code_simp+
  then show ?thesis
    using turn_reads_chunks [of default_usage "''m''" ?chunks 0] by simp
qed

section \<open>A streamed turn is the turn on the whole response\<close>

text \<open>The stream delivers what the response has: its text, its tool calls and its usage.\<close>

definition delivers :: "codec \<Rightarrow> stream_event list \<Rightarrow> message_response \<Rightarrow> bool" where
  "delivers cd es r \<longleftrightarrow>
     read_content (resp_content r)
       = (sr_content (read_events default_usage es), streamed_tool_uses cd (read_events default_usage es))
     \<and> sr_usage (read_events default_usage es) = resp_usage r"

definition same_replies :: "'w runtime_env \<Rightarrow> bool" where
  "same_replies env \<longleftrightarrow>
     (\<forall>q w. case re_send env q w of
        (Inl e, w') \<Rightarrow> re_stream env q w = (Inl e, w')
      | (Inr r, w') \<Rightarrow> (\<exists>es. re_stream env q w = (Inr (es, None), w') \<and> delivers (re_codec env) es r))"

lemma read_events_usage:
  "read_events u es = (read_events default_usage es)\<lparr>sr_usage :=
     \<lparr>prompt_tokens = prompt_tokens u + prompt_tokens (sr_usage (read_events default_usage es)),
      completion_tokens = completion_tokens u + completion_tokens (sr_usage (read_events default_usage es))\<rparr>\<rparr>"
proof (induction es rule: rev_induct)
  case Nil
  then show ?case by (simp add: read_events_def default_usage_def)
next
  case (snoc e es)
  show ?case
    unfolding read_events_snoc by (subst snoc.IH)
      (auto simp: read_event_def add.assoc split: stream_event.splits block_delta.splits output_block.splits)
qed

text \<open>
  C7: when streams deliver what the responses contain, a streamed turn has the same result,
  session and world as the turn that waits for whole responses.
\<close>

theorem streamed_turn_agrees:
  assumes "same_replies env"
  shows "(case run_turn_streaming env prompter input rt w of (res, log, rt', w') \<Rightarrow> (res, rt', w'))
    = run_turn env prompter input rt w"
proof -
  let ?Q = "\<lambda>a b. a = (case b of (res, log, rt', w') \<Rightarrow> (res, rt', w'))"
  let ?R = "\<lambda>a b. a = (case b of (rt, s, log, w) \<Rightarrow> (rt, s, w))"
  have step: "rel_sum ?Q ?R (turn_body env prompter a) (stream_body env prompter b)" if R: "?R a b" for a b
  proof -
    obtain rt1 s log w1 where b: "b = (rt1, s, log, w1)" by (metis prod_cases4)
    then have a: "a = (rt1, s, w1)" using R by simp
    let ?q = "build_request env rt1 w1"
    note replies = assms [unfolded same_replies_def, THEN spec, THEN spec, of ?q w1]
    show ?thesis
    proof (cases "re_send env ?q w1")
      case (Pair x w2)
      show ?thesis
      proof (cases x)
        case (Inl e)
        then have "re_stream env ?q w1 = (Inl e, w2)"
          using replies Pair by simp
        then show ?thesis using Pair Inl by (simp add: a b turn_body_def stream_body_def Let_def)
      next
        case (Inr r)
        have "\<exists>es. re_stream env ?q w1 = (Inr (es, None), w2) \<and> delivers (re_codec env) es r"
          using replies Pair Inr by simp
        then obtain es where es: "re_stream env ?q w1 = (Inr (es, None), w2)"
            and d: "delivers (re_codec env) es r" by blast
        let ?r = "read_events (ts_usage s) es"
        have c: "sr_content ?r = fst (read_content (resp_content r))"
          "streamed_tool_uses (re_codec env) ?r = snd (read_content (resp_content r))"
          "sr_usage ?r = \<lparr>prompt_tokens = prompt_tokens (ts_usage s) + prompt_tokens (resp_usage r),
             completion_tokens = completion_tokens (ts_usage s) + completion_tokens (resp_usage r)\<rparr>"
          using d by (subst read_events_usage, simp add: delivers_def streamed_tool_uses_def)+
        show ?thesis
          using Pair Inr es c
          by (auto simp: a b turn_body_def stream_body_def Let_def add_usage_def split: prod.split)
      qed
    qed
  qed
  have "?Q ((\<lambda>(rt, s, w). turn_loop env prompter rt s w) (push_message (user_text input) rt, default_summary, w))
      ((\<lambda>(rt, s, log, w). stream_turn_loop env prompter rt s log w)
        (push_message (user_text input) rt, default_summary, [], w))"
    by (rule turn.loop_related [where R = ?R, OF _ stream_turn.unfolds step]) simp_all
  then show ?thesis by (simp add: run_turn_def run_turn_streaming_def)
qed

theorem streamed_turn_agrees_witness:
  "(case run_turn_streaming echo_env None ''hi'' echo_runtime () of (res, log, rt', w') \<Rightarrow> (res, rt', w'))
    = run_turn echo_env None ''hi'' echo_runtime ()"
proof (rule streamed_turn_agrees)
  show "same_replies echo_env"
    by (simp add: same_replies_def echo_env_def delivers_def read_events_def read_event_def
        read_content_def read_block_def append_line_def streamed_tool_uses_def bt_values_def)
qed

end
