(* ===== verification/ApiClient.thy ===== *)
theory ApiClient
  imports ApiError ChatRequest StreamState Sse
begin

text \<open>
  \<open>SolarClient\<close> and \<open>SolarStream\<close> of \<open>crates/api/src/client.rs\<close>. The network, the clock and
  the typed decoders that serde derives are the fields of an environment; the world \<open>'w\<close> is
  what the network and the clock may change. A panic (adding two durations past the largest
  one) is \<^term>\<open>None\<close>.
\<close>

section \<open>The client\<close>

record solar_client =
  sc_api_key :: string
  sc_base_url :: string
  sc_max_retries :: u32
  sc_initial_backoff :: duration
  sc_max_backoff :: duration

definition default_base_url :: string where
  "default_base_url = ''https://api.upstage.ai/v1''"

definition solar_client_new :: "string \<Rightarrow> string \<Rightarrow> solar_client" where
  "solar_client_new api_key base_url =
     \<lparr>sc_api_key = api_key, sc_base_url = base_url, sc_max_retries = 8,
      sc_initial_backoff = 10 ^ 9, sc_max_backoff = 128 * 10 ^ 9\<rparr>"

definition with_retry_policy :: "u32 \<Rightarrow> duration \<Rightarrow> duration \<Rightarrow> solar_client \<Rightarrow> solar_client" where
  "with_retry_policy max_retries initial_backoff max_backoff c =
     c\<lparr>sc_max_retries := max_retries, sc_initial_backoff := initial_backoff, sc_max_backoff := max_backoff\<rparr>"

text \<open>\<open>std::env::var\<close>: absent, not Unicode, or a value.\<close>

datatype env_value = NotPresent | NotUnicode | EnvValue string

definition read_env_non_empty :: "(string \<Rightarrow> env_value) \<Rightarrow> string \<Rightarrow> string option" where
  "read_env_non_empty env key =
     (case env key of
        EnvValue value \<Rightarrow> if value = [] then None else Some value
      | NotPresent \<Rightarrow> None
      | NotUnicode \<Rightarrow> None)"

definition solar_client_from_env :: "(string \<Rightarrow> env_value) \<Rightarrow> api_error + solar_client" where
  "solar_client_from_env env =
     (case read_env_non_empty env ''UPSTAGE_API_KEY'' of
        None \<Rightarrow> Inl (missing_credentials ''Upstage'' [''UPSTAGE_API_KEY''])
      | Some api_key \<Rightarrow>
          Inr (solar_client_new api_key
            (case env ''UPSTAGE_BASE_URL'' of EnvValue v \<Rightarrow> v | _ \<Rightarrow> default_base_url)))"

section \<open>Backoff\<close>

definition duration_max :: duration where
  "duration_max = (2 ^ 64 - 1) * 10 ^ 9 + 999999999"

definition duration_checked_mul :: "duration \<Rightarrow> u32 \<Rightarrow> duration option" where
  "duration_checked_mul d m = (if d * unat m \<le> duration_max then Some (d * unat m) else None)"

definition saturating_sub_u32 :: "u32 \<Rightarrow> u32 \<Rightarrow> u32" where
  "saturating_sub_u32 a b = (if b \<le> a then a - b else 0)"

definition checked_shl_u32 :: "u32 \<Rightarrow> u32 \<Rightarrow> u32 option" where
  "checked_shl_u32 x n = (if n < 32 then Some (push_bit (unat n) x) else None)"

definition backoff :: "solar_client \<Rightarrow> u32 \<Rightarrow> api_error + duration" where
  "backoff c attempt =
     (case checked_shl_u32 1 (saturating_sub_u32 attempt 1) of
        None \<Rightarrow> Inl (BackoffOverflow attempt (sc_initial_backoff c))
      | Some multiplier \<Rightarrow>
          Inr (case duration_checked_mul (sc_initial_backoff c) multiplier of
                 None \<Rightarrow> sc_max_backoff c
               | Some d \<Rightarrow> min d (sc_max_backoff c)))"

text \<open>\<open>u64::try_from(n).unwrap_or(u64::MAX)\<close>.\<close>

definition u64_saturating :: "nat \<Rightarrow> u64" where
  "u64_saturating n = (if n < 2 ^ 64 then of_nat n else - 1)"

definition saturating_add_u64 :: "u64 \<Rightarrow> u64 \<Rightarrow> u64" where
  "saturating_add_u64 a b = u64_saturating (unat a + unat b)"

text \<open>
  The mixing of the clock and the counter: \<open>now\<close> is the time since the epoch, absent when the
  clock is before it. The counter is read and incremented only for a nonzero base.
\<close>

definition mix_bits :: "u64 \<Rightarrow> u64" where
  "mix_bits seed =
     (let m1 = (xor seed (drop_bit 30 seed)) * 0xBF58476D1CE4E5B9;
          m2 = (xor m1 (drop_bit 27 m1)) * 0x94D049BB133111EB
      in xor m2 (drop_bit 31 m2))"

definition jitter_for_base :: "duration option \<Rightarrow> u64 \<Rightarrow> duration \<Rightarrow> duration \<times> u64" where
  "jitter_for_base now counter base =
     (let base_nanos = u64_saturating base in
      if base_nanos = 0 then (0, counter)
      else
        (let raw = (case now of Some n \<Rightarrow> u64_saturating n | None \<Rightarrow> 0);
             mixed = mix_bits (raw + counter + 0x9E3779B97F4A7C15)
         in (unat (mixed mod saturating_add_u64 base_nanos 1), counter + 1)))"

definition jittered_backoff :: "solar_client \<Rightarrow> duration option \<Rightarrow> u64 \<Rightarrow> u32 \<Rightarrow> api_error + (duration \<times> u64) option" where
  "jittered_backoff c now counter attempt =
     (case backoff c attempt of
        Inl e \<Rightarrow> Inl e
      | Inr base \<Rightarrow>
          (let (jitter, counter') = jitter_for_base now counter base in
           Inr (if base + jitter \<le> duration_max then Some (base + jitter, counter') else None)))"

section \<open>Responses\<close>

text \<open>
  A header is its value as \<open>HeaderValue::to_str\<close> gives it (\<^term>\<open>None\<close> when it is not
  visible ASCII), the body is what \<open>text()\<close> gives.
\<close>

record http_response =
  hr_status :: u16
  hr_headers :: "(string \<times> string option) list"
  hr_body :: "http_error + string"

definition request_id_from_headers :: "(string \<times> string option) list \<Rightarrow> string option" where
  "request_id_from_headers headers =
     (case (case map_of headers ''request-id'' of
              Some v \<Rightarrow> Some v | None \<Rightarrow> map_of headers ''x-request-id'') of
        Some (Some s) \<Rightarrow> Some s
      | _ \<Rightarrow> None)"

definition status_success :: "u16 \<Rightarrow> bool" where
  "status_success status \<longleftrightarrow> 200 \<le> status \<and> status < 300"

definition retryable_status :: "u16 \<Rightarrow> bool" where
  "retryable_status s \<longleftrightarrow>
     s = 408 \<or> s = 409 \<or> s = 429 \<or> s = 500 \<or> s = 502 \<or> s = 503 \<or> s = 504"

record chat_response_message =
  cm_role :: string
  cm_content :: "string option"
  cm_tool_calls :: "(string \<times> string \<times> string) list"

record chat_response =
  cr_id :: string
  cr_model :: string
  cr_choices :: "(chat_response_message \<times> string option) list"
  cr_usage :: "usage option"

text \<open>The environment: the codec, the decoders derived by serde, and the effects.\<close>

record 'w client_env =
  ce_codec :: codec
  ce_chunk :: "string \<Rightarrow> string + chat_chunk"
  ce_response :: "string \<Rightarrow> string + chat_response"
  ce_envelope :: "string \<Rightarrow> (string option \<times> string option) option"
  ce_post :: "string \<Rightarrow> string \<Rightarrow> json \<Rightarrow> 'w \<Rightarrow> (http_error + http_response) \<times> 'w"
  ce_now :: "'w \<Rightarrow> duration option"
  ce_sleep :: "duration \<Rightarrow> 'w \<Rightarrow> 'w"

definition expect_success :: "'w client_env \<Rightarrow> http_response \<Rightarrow> api_error + http_response" where
  "expect_success env response =
     (let status = hr_status response in
      if status_success status then Inr response
      else
        (let body = (case hr_body response of Inl e \<Rightarrow> [] | Inr b \<Rightarrow> b);
             parsed = ce_envelope env body
         in Inl (ApiFailure status (Option.bind parsed fst) (Option.bind parsed snd)
                  (request_id_from_headers (hr_headers response)) body (retryable_status status)
                  (suggested_action_for_status status))))"

definition chat_completions_endpoint :: "string \<Rightarrow> string" where
  "chat_completions_endpoint base_url =
     (let trimmed = trim_end_matches (CHR ''/'') base_url in
      if ends_with trimmed ''/chat/completions'' then trimmed
      else trimmed @ ''/chat/completions'')"

definition max_request_body_bytes :: nat where
  "max_request_body_bytes = 104857600"

definition check_request_body_size :: "codec \<Rightarrow> message_request \<Rightarrow> api_error + unit" where
  "check_request_body_size cd request =
     (let size = length (to_text cd (build_chat_completion_request cd request)) in
      if max_request_body_bytes < size
      then Inl (RequestBodySizeExceeded size max_request_body_bytes ''Upstage'')
      else Inr ())"

definition send_raw ::
  "'w client_env \<Rightarrow> solar_client \<Rightarrow> message_request \<Rightarrow> 'w \<Rightarrow> (api_error + http_response) \<times> 'w" where
  "send_raw env c request w =
     (case check_request_body_size (ce_codec env) request of
        Inl e \<Rightarrow> (Inl e, w)
      | Inr _ \<Rightarrow>
          (case ce_post env (chat_completions_endpoint (sc_base_url c)) (sc_api_key c)
                  (build_chat_completion_request (ce_codec env) request) w of
             (r, w') \<Rightarrow> (map_err HttpError r, w')))"

section \<open>Retries\<close>

definition attempt ::
  "'w client_env \<Rightarrow> solar_client \<Rightarrow> message_request \<Rightarrow> 'w \<Rightarrow> (api_error + http_response) \<times> 'w" where
  "attempt env c request w =
     (case send_raw env c request w of
        (Inl e, w') \<Rightarrow> (Inl e, w')
      | (Inr response, w') \<Rightarrow> (expect_success env response, w'))"

lemma backoff_Inr_attempt: "backoff c a = Inr d \<Longrightarrow> a = 0 \<or> unat a \<le> 32"
proof -
  assume "backoff c a = Inr d"
  then have "saturating_sub_u32 a 1 < 32"
    by (auto simp: backoff_def checked_shl_u32_def split: option.splits if_splits)
  then show ?thesis
    by (auto simp: saturating_sub_u32_def word_less_nat_alt unat_sub word_le_nat_alt unat_gt_0 split: if_splits)
qed

lemma jittered_backoff_attempt: "jittered_backoff c now k a = Inr (Some d) \<Longrightarrow> a = 0 \<or> unat a \<le> 32"
  by (auto simp: jittered_backoff_def dest: backoff_Inr_attempt split: sum.splits prod.splits)

lemma retry_measure:
  "attempts + 1 = (0 :: u32) \<or> unat (attempts + 1) \<le> 32 \<Longrightarrow>
   (if attempts + 1 = - 1 then 34 else 33 - unat (attempts + 1))
     < (if attempts = - 1 then 34 else 33 - unat attempts)"
proof (cases "attempts = - 1")
  case True
  then show ?thesis by simp
next
  case False
  assume n: "attempts + 1 = 0 \<or> unat (attempts + 1) \<le> 32"
  from False have nz: "1 + attempts \<noteq> 0"
    by (metis add.commute add_eq_0_iff)
  then have u: "unat (attempts + 1) = Suc (unat attempts)"
    using unatSuc [of attempts] by (simp add: add.commute)
  with n nz have le: "Suc (unat attempts) \<le> 32"
    by (simp add: add.commute)
  have "attempts + 1 \<noteq> - 1"
  proof
    assume "attempts + 1 = - 1"
    then have "unat (attempts + 1) = unat (- 1 :: u32)" by (rule arg_cong)
    moreover have "unat (- 1 :: u32) = 4294967295"
      by (simp add: unsigned_minus_1_eq_mask mask_eq_exp_minus_1)
    ultimately show False using u le by simp
  qed
  then show ?thesis
    using False u le by simp
qed

text \<open>
  The loop of \<open>send_with_retry\<close>. The attempt counter is a \<open>u32\<close> that the loop increments
  before each attempt; the result carries the jitter counter on.
\<close>

function send_with_retry_from ::
  "'w client_env \<Rightarrow> solar_client \<Rightarrow> message_request \<Rightarrow> u32 \<Rightarrow> u64 \<Rightarrow> 'w
    \<Rightarrow> (api_error + http_response) option \<times> u64 \<times> 'w" where
  "send_with_retry_from env c request attempts counter w =
     (let n = attempts + 1 in
      case attempt env c request w of
        (Inr response, w') \<Rightarrow> (Some (Inr response), counter, w')
      | (Inl e, w') \<Rightarrow>
          if is_retryable e \<and> n \<le> sc_max_retries c + 1
          then if n > sc_max_retries c then (Some (Inl (RetriesExhausted n e)), counter, w')
               else (case jittered_backoff c (ce_now env w') counter n of
                       Inl e' \<Rightarrow> (Some (Inl e'), counter, w')
                     | Inr None \<Rightarrow> (None, counter, w')
                     | Inr (Some (delay, counter')) \<Rightarrow>
                         send_with_retry_from env c request n counter' (ce_sleep env delay w'))
          else (Some (Inl e), counter, w'))"
  by pat_completeness auto
termination
  by (relation "measure (\<lambda>(env, c, request, attempts, counter, w). if attempts = - 1 then 34 else 33 - unat attempts)")
    (auto dest!: jittered_backoff_attempt retry_measure)

declare send_with_retry_from.simps [simp del]

definition send_with_retry ::
  "'w client_env \<Rightarrow> solar_client \<Rightarrow> message_request \<Rightarrow> u64 \<Rightarrow> 'w
    \<Rightarrow> (api_error + http_response) option \<times> u64 \<times> 'w" where
  "send_with_retry env c request counter w = send_with_retry_from env c request 0 counter w"

section \<open>Whole responses\<close>

definition parse_tool_arguments :: "codec \<Rightarrow> string \<Rightarrow> json" where
  "parse_tool_arguments cd arguments =
     (case from_text cd arguments of Inr v \<Rightarrow> v | Inl e \<Rightarrow> jobj [(''raw'', JStr arguments)])"

definition normalize_response :: "codec \<Rightarrow> string \<Rightarrow> chat_response \<Rightarrow> api_error + message_response" where
  "normalize_response cd model response =
     (case cr_choices response of
        [] \<Rightarrow> Inl (InvalidSseFrame ''response missing choices'')
      | (message, finish_reason) # _ \<Rightarrow>
          Inr \<lparr>resp_id = cr_id response, resp_kind = ''message'', resp_role = cm_role message,
            resp_content =
              (case cm_content message of Some text \<Rightarrow> if text = [] then [] else [OText text] | None \<Rightarrow> [])
              @ map (\<lambda>(i, name, arguments). OToolUse i name (parse_tool_arguments cd arguments)) (cm_tool_calls message),
            resp_model = (if cr_model response = [] then model else cr_model response),
            resp_stop_reason = map_option normalize_finish_reason finish_reason,
            resp_stop_sequence = None,
            resp_usage = unwrap_or default_usage (cr_usage response),
            resp_request_id = None\<rparr>)"

text \<open>
  An embedded error object, in a body or in a stream event. \<open>c as u16\<close> keeps the low bits, and
  a status code is a number from 100 to 999.
\<close>

definition embedded_status :: "json \<Rightarrow> u16" where
  "embedded_status err_obj =
     (let code = unwrap_or 400 (map_option ucast (get_u64 err_obj ''code'')) :: u16 in
      if 100 \<le> code \<and> code \<le> 999 then code else 400)"

definition embedded_error :: "string \<Rightarrow> string option \<Rightarrow> string \<Rightarrow> json \<Rightarrow> api_error" where
  "embedded_error default_message request_id body err_obj =
     (let status = embedded_status err_obj in
      ApiFailure status (get_str err_obj ''type'')
        (Some (unwrap_or default_message (get_str err_obj ''message'')))
        request_id body False (suggested_action_for_status status))"

definition send_message ::
  "'w client_env \<Rightarrow> solar_client \<Rightarrow> message_request \<Rightarrow> u64 \<Rightarrow> 'w
    \<Rightarrow> (api_error + message_response) option \<times> u64 \<times> 'w" where
  "send_message env c request0 counter w =
     (let request = request0\<lparr>req_stream := False\<rparr> in
      case send_with_retry env c request counter w of
        (None, counter', w') \<Rightarrow> (None, counter', w')
      | (Some (Inl e), counter', w') \<Rightarrow> (Some (Inl e), counter', w')
      | (Some (Inr response), counter', w') \<Rightarrow>
          (Some (let request_id = request_id_from_headers (hr_headers response) in
             case hr_body response of
               Inl e \<Rightarrow> Inl (HttpError e)
             | Inr body \<Rightarrow>
                 (case (case from_text (ce_codec env) body of
                          Inr raw \<Rightarrow> json_get raw ''error'' | Inl _ \<Rightarrow> None) of
                    Some err_obj \<Rightarrow> Inl (embedded_error ''provider returned an error'' request_id body err_obj)
                  | None \<Rightarrow>
                      (case ce_response env body of
                         Inl e \<Rightarrow> Inl (json_deserialize ''Upstage'' (req_model request) body e)
                       | Inr payload \<Rightarrow>
                           map_sum id (\<lambda>normalized.
                               if resp_request_id normalized = None
                               then normalized\<lparr>resp_request_id := request_id\<rparr> else normalized)
                             (normalize_response (ce_codec env) (req_model request) payload)))),
           counter', w'))"

section \<open>Streams\<close>

text \<open>\<open>next_sse_frame\<close> is the same search as \<open>SseParser::next_frame\<close>.\<close>

definition next_sse_frame :: "string \<Rightarrow> (string \<times> string) option" where
  "next_sse_frame buffer =
     (case (case find_sub lf2 buffer of
              Some p \<Rightarrow> Some (p, 2)
            | None \<Rightarrow> (case find_sub crlf2 buffer of Some p \<Rightarrow> Some (p, 4) | None \<Rightarrow> None)) of
        None \<Rightarrow> None
      | Some (pos, sep_len) \<Rightarrow>
          (let frame = take (pos + sep_len) buffer;
               len = length frame - sep_len
           in Some (utf8_lossy (take len frame), drop (pos + sep_len) buffer)))"

definition parse_sse_frame ::
  "codec \<Rightarrow> (string \<Rightarrow> string + chat_chunk) \<Rightarrow> string \<Rightarrow> string \<Rightarrow> api_error + chat_chunk option" where
  "parse_sse_frame cd decode_chunk model frame =
     (let trimmed = trim frame in
      if trimmed = [] then Inr None
      else
        (let lns = data_lines (str_lines trimmed) in
         if lns = [] then Inr None
         else
           (let payload = join nl lns in
            if payload = ''[DONE]'' then Inr None
            else
              (case (case from_text cd payload of Inr raw \<Rightarrow> json_get raw ''error'' | Inl _ \<Rightarrow> None) of
                 Some err_obj \<Rightarrow>
                   Inl (embedded_error ''provider returned an error in stream'' None payload err_obj)
               | None \<Rightarrow>
                   (case decode_chunk payload of
                      Inr chunk \<Rightarrow> Inr (Some chunk)
                    | Inl e \<Rightarrow> Inl (json_deserialize ''Upstage'' model payload e))))))"

text \<open>\<open>OpenAiSseParser::push\<close>, with its buffer passed explicitly.\<close>

function chunk_push_loop ::
  "(string \<Rightarrow> api_error + chat_chunk option) \<Rightarrow> string \<Rightarrow> chat_chunk list \<Rightarrow> (api_error + chat_chunk list) \<times> string" where
  "chunk_push_loop parse buffer events =
     (case next_sse_frame buffer of
        None \<Rightarrow> (Inr events, buffer)
      | Some (frame, rest) \<Rightarrow>
          (case parse frame of
             Inl e \<Rightarrow> (Inl e, rest)
           | Inr None \<Rightarrow> chunk_push_loop parse rest events
           | Inr (Some event) \<Rightarrow> chunk_push_loop parse rest (events @ [event])))"
  by pat_completeness auto

lemma next_sse_frame_eq: "next_sse_frame = next_frame"
  by (rule ext) (auto simp: next_sse_frame_def next_frame_def frame_separator_def split: option.splits)

termination chunk_push_loop
  by (relation "measure (\<lambda>(f, b, es). length b)") (auto simp: next_sse_frame_eq dest: next_frame_shorter)

declare chunk_push_loop.simps [simp del]

definition openai_push ::
  "codec \<Rightarrow> (string \<Rightarrow> string + chat_chunk) \<Rightarrow> string \<Rightarrow> string \<Rightarrow> string \<Rightarrow> (api_error + chat_chunk list) \<times> string" where
  "openai_push cd decode_chunk model buffer chunk =
     chunk_push_loop (parse_sse_frame cd decode_chunk model) (buffer @ chunk) []"

lemma openai_push_eq:
  "openai_push cd dec model buffer chunk = parser_push (parse_sse_frame cd dec model) buffer chunk"
proof -
  have "chunk_push_loop f b es = push_loop f b es" for f b es
    by (induction f b es rule: push_loop.induct)
      (auto simp: chunk_push_loop.simps push_loop.simps next_sse_frame_eq split: option.splits sum.splits prod.splits)
  then show ?thesis by (simp add: openai_push_def parser_push_def)
qed

text \<open>
  The stream: what the response body still delivers, the parser's buffer, the pending events,
  whether the body has ended, and the state machine.
\<close>

record solar_stream =
  sl_request_id :: "string option"
  sl_model :: string
  sl_body :: "(http_error + string) list"
  sl_buffer :: string
  sl_pending :: "stream_event list"
  sl_done :: bool
  sl_state :: stream_state

definition open_stream :: "string \<Rightarrow> string option \<Rightarrow> (http_error + string) list \<Rightarrow> solar_stream" where
  "open_stream model request_id body =
     \<lparr>sl_request_id = request_id, sl_model = model, sl_body = body, sl_buffer = [], sl_pending = [],
      sl_done = False, sl_state = stream_new model\<rparr>"

definition stream_message ::
  "'w client_env \<Rightarrow> (http_response \<Rightarrow> (http_error + string) list) \<Rightarrow> solar_client \<Rightarrow> message_request \<Rightarrow> u64 \<Rightarrow> 'w
    \<Rightarrow> (api_error + solar_stream) option \<times> u64 \<times> 'w" where
  "stream_message env chunks_of c request counter w =
     (case send_with_retry env c (with_streaming request) counter w of
        (None, counter', w') \<Rightarrow> (None, counter', w')
      | (Some (Inl e), counter', w') \<Rightarrow> (Some (Inl e), counter', w')
      | (Some (Inr response), counter', w') \<Rightarrow>
          (Some (Inr (open_stream (req_model request) (request_id_from_headers (hr_headers response))
                       (chunks_of response))), counter', w'))"

function next_event ::
  "codec \<Rightarrow> (string \<Rightarrow> string + chat_chunk) \<Rightarrow> solar_stream \<Rightarrow> (api_error + stream_event option) \<times> solar_stream" where
  "next_event cd dec s =
     (case sl_pending s of
        event # pending \<Rightarrow> (Inr (Some event), s\<lparr>sl_pending := pending\<rparr>)
      | [] \<Rightarrow>
          if sl_done s then
            (case stream_finish (sl_state s) of
               (st, []) \<Rightarrow> (Inr None, s\<lparr>sl_state := st\<rparr>)
             | (st, event # pending) \<Rightarrow> (Inr (Some event), s\<lparr>sl_state := st, sl_pending := pending\<rparr>))
          else
            (case sl_body s of
               [] \<Rightarrow> next_event cd dec (s\<lparr>sl_done := True\<rparr>)
             | Inl e # rest \<Rightarrow> (Inl (HttpError e), s\<lparr>sl_body := rest\<rparr>)
             | Inr chunk # rest \<Rightarrow>
                 (case openai_push cd dec (sl_model s) (sl_buffer s) chunk of
                    (Inl e, buffer) \<Rightarrow> (Inl e, s\<lparr>sl_body := rest, sl_buffer := buffer\<rparr>)
                  | (Inr parsed, buffer) \<Rightarrow>
                      (case run_emit ingest_chunk (sl_state s) parsed of
                         (st, events) \<Rightarrow>
                           next_event cd dec
                             (s\<lparr>sl_body := rest, sl_buffer := buffer, sl_state := st, sl_pending := events\<rparr>)))))"
  by pat_completeness auto
termination
  by (relation "measure (\<lambda>(cd, dec, s). length (sl_body s) + (if sl_done s then 0 else 1))") auto

declare next_event.simps [simp del]

end
