(* ===== verification/ApiClientCorrect.thy ===== *)
theory ApiClientCorrect
  imports ApiClient StreamCorrect
begin

text \<open>
  What the client guarantees: how often it sends and how long it waits, which errors it
  returns, where it sends to, and that reading a stream event by event gives exactly the events
  of the state machine on the whole body.
\<close>

section \<open>Waiting\<close>

lemma checked_shl_one: "checked_shl_u32 1 n = (if unat n < 32 then Some (2 ^ unat n) else None)"
  by (simp add: checked_shl_u32_def word_less_nat_alt push_bit_eq_mult)

lemma unat_saturating_sub: "unat (saturating_sub_u32 a b) = unat a - unat b"
  by (simp add: saturating_sub_u32_def unat_sub word_le_nat_alt)

lemma unat_pow2: "n < 32 \<Longrightarrow> unat (2 ^ n :: u32) = 2 ^ n"
proof -
  assume "n < 32"
  then have "(2 :: nat) ^ n < 2 ^ LENGTH(32)" by (intro power_strict_increasing) simp_all
  then have "unat (of_nat (2 ^ n) :: u32) = 2 ^ n" by (simp add: unat_of_nat take_bit_nat_eq_self del: of_nat_power)
  then show ?thesis by simp
qed

text \<open>
  The delay before retry \<open>n\<close> doubles from the initial one up to the largest, and past
  attempt 32 it is the overflow error.
\<close>

theorem backoff_doubles:
  assumes "sc_max_backoff c \<le> duration_max"
  shows "backoff c n =
    (if unat n \<le> 32 then Inr (min (sc_initial_backoff c * 2 ^ (unat n - 1)) (sc_max_backoff c))
     else Inl (BackoffOverflow n (sc_initial_backoff c)))"
proof -
  have "unat n - 1 < 32 \<longleftrightarrow> unat n \<le> 32" by auto
  then show ?thesis
    using assms
    by (auto simp: backoff_def checked_shl_one unat_saturating_sub duration_checked_mul_def unat_pow2 min_def
        split: option.split)
qed

theorem backoff_doubles_witness:
  "backoff (solar_client_new ''k'' default_base_url) 4
    = Inr (min (10 ^ 9 * 2 ^ (unat (4 :: u32) - 1)) (128 * 10 ^ 9))"
proof -
  have "sc_max_backoff (solar_client_new ''k'' default_base_url) \<le> duration_max"
    by (simp add: solar_client_new_def duration_max_def)
  from backoff_doubles [OF this, of 4] show ?thesis
    by (simp add: solar_client_new_def)
qed

lemma unat_u64_saturating: "unat (u64_saturating n) = min n (2 ^ 64 - 1)"
  by (simp add: u64_saturating_def unat_of_nat unsigned_minus_1_eq_mask mask_eq_exp_minus_1 min_def)

lemma jitter_le: "fst (jitter_for_base now k base) \<le> base"
proof -
  let ?b = "u64_saturating base"
  let ?m = "saturating_add_u64 ?b 1"
  have b: "unat ?b = min base (2 ^ 64 - 1)" by (rule unat_u64_saturating)
  have m: "unat ?m = min (unat ?b + 1) (2 ^ 64 - 1)"
    by (simp add: saturating_add_u64_def unat_u64_saturating)
  have "unat (x mod ?m) \<le> base" for x :: u64
  proof -
    have "unat (x mod ?m) < unat ?m"
      using m by (simp add: unat_mod_distrib)
    then show ?thesis using m b by simp
  qed
  then show ?thesis
    by (simp add: jitter_for_base_def Let_def)
qed

lemma jittered_error: "jittered_backoff c now k n = Inl e \<Longrightarrow> e = BackoffOverflow n (sc_initial_backoff c)"
  by (auto simp: jittered_backoff_def backoff_def split: option.splits sum.splits prod.splits)

text \<open>A wait is at least the backoff and at most twice the largest backoff.\<close>

theorem jittered_bounds:
  "case jittered_backoff c now k n of
     Inr (Some (d, k')) \<Rightarrow> (\<exists>base. backoff c n = Inr base \<and> base \<le> d) \<and> d \<le> 2 * sc_max_backoff c
   | Inr None \<Rightarrow> True
   | Inl e \<Rightarrow> e = BackoffOverflow n (sc_initial_backoff c)"
proof (cases "backoff c n")
  case (Inl e)
  then show ?thesis
    by (auto simp: jittered_backoff_def backoff_def split: option.splits)
next
  case (Inr base)
  then have "base \<le> sc_max_backoff c"
    by (auto simp: backoff_def split: option.splits)
  moreover have "fst (jitter_for_base now k base) \<le> base" by (rule jitter_le)
  ultimately show ?thesis
    using Inr by (auto simp: jittered_backoff_def split: prod.split)
qed

section \<open>Sending\<close>

text \<open>The same environment with a count of the requests that reach the network.\<close>

definition counted :: "'w client_env \<Rightarrow> (nat \<times> 'w) client_env" where
  "counted env =
     \<lparr>ce_codec = ce_codec env, ce_chunk = ce_chunk env, ce_response = ce_response env,
      ce_envelope = ce_envelope env,
      ce_post = (\<lambda>url key body (n, w). case ce_post env url key body w of (r, w') \<Rightarrow> (r, n + 1, w')),
      ce_now = (\<lambda>(n, w). ce_now env w), ce_sleep = (\<lambda>d (n, w). (n, ce_sleep env d w))\<rparr>"

lemma attempt_counted: "attempt (counted env) c request (n, w) = (r, n', w') \<Longrightarrow> n' \<le> n + 1"
  by (auto simp: attempt_def send_raw_def counted_def split: sum.splits prod.splits)

lemma retry_next:
  assumes "jittered_backoff c now k (attempts + 1) = Inr (Some (d, k'))" and "unat attempts \<le> 32"
  shows "unat (attempts + 1) = unat attempts + 1" and "unat attempts + 1 \<le> 32"
proof -
  have "attempts \<noteq> - 1"
    using assms(2) by (auto simp: unsigned_minus_1_eq_mask mask_eq_exp_minus_1)
  then have "1 + attempts \<noteq> 0"
    by (metis add.commute add_eq_0_iff)
  then show u: "unat (attempts + 1) = unat attempts + 1" and "unat attempts + 1 \<le> 32"
    using unatSuc [of attempts] jittered_backoff_attempt [OF assms(1)] by (auto simp: add.commute)
qed

lemma retries_counted:
  assumes "send_with_retry_from (counted env) c request attempts k nw = (r, k', n', w')"
    and "unat attempts \<le> 32" and "attempts \<le> sc_max_retries c"
  shows "n' + unat attempts \<le> fst nw + min 33 (unat (sc_max_retries c) + 1)"
  using assms
proof (induction "counted env" c request attempts k nw arbitrary: r k' n' w' rule: send_with_retry_from.induct)
  case (1 c request attempts k nw)
  obtain n w where nw: "nw = (n, w)" by (cases nw)
  obtain x n1 w1 where at: "attempt (counted env) c request nw = (x, n1, w1)" by (metis prod_cases3)
  have n1: "n1 \<le> n + 1" using attempt_counted at nw by fast
  have stop: "n1 + unat attempts \<le> n + min 33 (unat (sc_max_retries c) + 1)"
    using n1 "1.prems"(2,3) by (simp add: word_le_nat_alt)
  show ?case
  proof (cases "\<exists>e d j. x = Inl e \<and> is_retryable e \<and> attempts + 1 \<le> sc_max_retries c + 1
      \<and> \<not> attempts + 1 > sc_max_retries c
      \<and> jittered_backoff c (ce_now (counted env) (n1, w1)) k (attempts + 1) = Inr (Some (d, j))")
    case True
    then obtain e d j where cont: "x = Inl e" "is_retryable e" "attempts + 1 \<le> sc_max_retries c + 1"
      "\<not> attempts + 1 > sc_max_retries c"
      "jittered_backoff c (ce_now (counted env) (n1, w1)) k (attempts + 1) = Inr (Some (d, j))" by blast
    note nxt = retry_next [OF cont(5) "1.prems"(2)]
    let ?w = "ce_sleep (counted env) d (n1, w1)"
    have fst: "fst ?w = n1" by (simp add: counted_def)
    have "send_with_retry_from (counted env) c request (attempts + 1) j ?w = (r, k', n', w')"
      using "1.prems"(1) at cont by (subst (asm) send_with_retry_from.simps) simp
    then have "n' + unat (attempts + 1) \<le> fst ?w + min 33 (unat (sc_max_retries c) + 1)"
      using "1.hyps" at cont nxt by simp
    then show ?thesis using fst n1 nxt nw by simp
  next
    case False
    then have "n' = n1"
      using "1.prems"(1) at
      by (subst (asm) send_with_retry_from.simps)
        (auto simp: Let_def split: sum.splits if_splits option.splits prod.splits)
    then show ?thesis using stop nw by simp
  qed
qed

text \<open>One call reaches the network at most \<open>max_retries + 1\<close> times, and never more than 33 times.\<close>

theorem retries_bounded:
  "fst (snd (snd (send_with_retry (counted env) c request k (0, w))))
     \<le> min 33 (unat (sc_max_retries c) + 1)"
proof -
  obtain r k' n' w' where "send_with_retry_from (counted env) c request 0 k (0, w) = (r, k', n', w')"
    by (metis prod_cases4)
  with retries_counted [OF this] show ?thesis
    by (simp add: send_with_retry_def)
qed

lemma retry_errors:
  assumes "send_with_retry_from env c request attempts k w = (Some (Inl e), k', w')"
    and "sc_max_retries c \<noteq> - 1" and "attempts \<le> sc_max_retries c"
  shows "\<not> is_retryable e \<or> (\<exists>e'. e = RetriesExhausted (sc_max_retries c + 1) e' \<and> is_retryable e')"
  using assms
proof (induction env c request attempts k w arbitrary: e k' w' rule: send_with_retry_from.induct)
  case (1 env c request attempts k w)
  let ?n = "attempts + 1"
  have bound: "?n \<le> sc_max_retries c + 1" and succ: "unat ?n = Suc (unat attempts)"
  proof -
    have "1 + sc_max_retries c \<noteq> 0" "1 + attempts \<noteq> 0"
      using "1.prems"(2,3) by (metis add.commute add_eq_0_iff word_order.extremum_unique)+
    then have "unat (1 + sc_max_retries c) = Suc (unat (sc_max_retries c))" "unat (1 + attempts) = Suc (unat attempts)"
      using unatSuc by auto
    then show "?n \<le> sc_max_retries c + 1" "unat ?n = Suc (unat attempts)"
      using "1.prems"(3) by (simp_all add: word_le_nat_alt add.commute)
  qed
  obtain x w1 where at: "attempt env c request w = (x, w1)" by fastforce
  show ?case
  proof (cases x)
    case (Inr r)
    then show ?thesis
      using "1.prems"(1) at by (subst (asm) send_with_retry_from.simps) simp
  next
    case (Inl e0)
    show ?thesis
    proof (cases "is_retryable e0")
      case False
      then show ?thesis
        using "1.prems"(1) at Inl by (subst (asm) send_with_retry_from.simps) simp
    next
      case True
      show ?thesis
      proof (cases "?n > sc_max_retries c")
        case exhausted: True
        then have "unat attempts = unat (sc_max_retries c)"
          using succ "1.prems"(3) by (simp add: word_le_nat_alt word_less_nat_alt)
        then have "attempts = sc_max_retries c" by (rule word_unat_eq_iff [THEN iffD2])
        then show ?thesis
          using "1.prems"(1) at Inl True exhausted by (subst (asm) send_with_retry_from.simps) auto
      next
        case False
        show ?thesis
        proof (cases "\<exists>d j. jittered_backoff c (ce_now env w1) k ?n = Inr (Some (d, j))")
          case True
          then obtain d j where jb: "jittered_backoff c (ce_now env w1) k ?n = Inr (Some (d, j))" by blast
          have "send_with_retry_from env c request ?n j (ce_sleep env d w1) = (Some (Inl e), k', w')"
            using "1.prems"(1) at Inl \<open>is_retryable e0\<close> False bound jb
            by (subst (asm) send_with_retry_from.simps) simp
          then show ?thesis
            using "1.IH" "1.prems"(2) at Inl \<open>is_retryable e0\<close> False bound jb by simp
        next
          case none: False
          have "e = BackoffOverflow ?n (sc_initial_backoff c)"
            using "1.prems"(1) at Inl \<open>is_retryable e0\<close> False bound none
              jittered_error [of c "ce_now env w1" k ?n]
            by (subst (asm) send_with_retry_from.simps) (auto simp: Let_def split: sum.splits option.splits)
          then show ?thesis by simp
        qed
      qed
    qed
  qed
qed

text \<open>
  A retryable error is never returned bare: it comes wrapped in the exhausted error, with
  the number of attempts that were made. (With \<open>u32::MAX\<close> retries the guard wraps to zero.)
\<close>

theorem retryable_errors_wrapped:
  assumes "send_with_retry env c request k w = (Some (Inl e), k', w')" and "sc_max_retries c \<noteq> - 1"
  shows "\<not> is_retryable e \<or> (\<exists>e'. e = RetriesExhausted (sc_max_retries c + 1) e' \<and> is_retryable e')"
  using retry_errors [of env c request 0 k w e k' w'] assms by (simp add: send_with_retry_def)

text \<open>A network that never connects, for the witnesses.\<close>

definition dead_network :: "unit client_env" where
  "dead_network =
     \<lparr>ce_codec = \<lparr>to_text = (\<lambda>_. []), from_text = (\<lambda>_. Inl ''no'')\<rparr>, ce_chunk = (\<lambda>_. Inl ''no''),
      ce_response = (\<lambda>_. Inl ''no''), ce_envelope = (\<lambda>_. None),
      ce_post = (\<lambda>_ _ _ w. (Inl \<lparr>he_connect = True, he_timeout = False, he_request = False, he_text = ''refused''\<rparr>, w)),
      ce_now = (\<lambda>_. None), ce_sleep = (\<lambda>_ w. w)\<rparr>"

theorem retryable_errors_wrapped_witness:
  "\<exists>e k w. send_with_retry dead_network (with_retry_policy 0 0 0 (solar_client_new ''k'' ''u'')) default_request 0 ()
      = (Some (Inl e), k, w) \<and> (\<not> is_retryable e \<or> (\<exists>e'. e = RetriesExhausted 1 e' \<and> is_retryable e'))"
proof -
  let ?c = "with_retry_policy 0 0 0 (solar_client_new ''k'' ''u'')"
  obtain e k w where run: "send_with_retry dead_network ?c default_request 0 () = (Some (Inl e), k, w)"
    by (simp add: send_with_retry_def send_with_retry_from.simps dead_network_def with_retry_policy_def
        attempt_def send_raw_def check_request_body_size_def)
  have "sc_max_retries ?c \<noteq> - 1" by (simp add: with_retry_policy_def)
  from retryable_errors_wrapped [OF run this] run show ?thesis by (simp add: with_retry_policy_def)
qed

section \<open>The endpoint\<close>

lemma trim_end_matches_id: "s = [] \<or> last s \<noteq> c \<Longrightarrow> trim_end_matches c s = s"
  by (cases s rule: rev_cases) (auto simp: trim_end_matches_def)

text \<open>The endpoint of a base URL ends with the chat route, and is its own endpoint.\<close>

theorem endpoint_idempotent:
  "ends_with (chat_completions_endpoint base) ''/chat/completions''
   \<and> chat_completions_endpoint (chat_completions_endpoint base) = chat_completions_endpoint base"
proof -
  have suffix: "ends_with (chat_completions_endpoint base) ''/chat/completions''"
    by (auto simp: chat_completions_endpoint_def Let_def ends_with_iff)
  then obtain r where r: "chat_completions_endpoint base = r @ ''/chat/completions''"
    by (auto simp: ends_with_iff)
  then have "last (chat_completions_endpoint base) \<noteq> CHR ''/''" by simp
  then have "trim_end_matches (CHR ''/'') (chat_completions_endpoint base) = chat_completions_endpoint base"
    by (intro trim_end_matches_id) simp
  then show ?thesis
    using suffix by (simp add: chat_completions_endpoint_def [of "chat_completions_endpoint base"])
qed

section \<open>Reading a stream\<close>

text \<open>At most \<open>n\<close> calls of \<open>next_event\<close>: the events, and how the stream ended if it did.\<close>

fun drain :: "codec \<Rightarrow> (string \<Rightarrow> string + chat_chunk) \<Rightarrow> nat \<Rightarrow> solar_stream
    \<Rightarrow> stream_event list \<times> (api_error + unit) option" where
  "drain cd dec 0 s = ([], None)"
| "drain cd dec (Suc n) s =
     (case next_event cd dec s of
        (Inl e, s') \<Rightarrow> ([], Some (Inl e))
      | (Inr None, s') \<Rightarrow> ([], Some (Inr ()))
      | (Inr (Some event), s') \<Rightarrow> (case drain cd dec n s' of (es, r) \<Rightarrow> (event # es, r)))"

lemma drain_same: "next_event cd dec s = next_event cd dec s' \<Longrightarrow> drain cd dec (Suc n) s = drain cd dec (Suc n) s'"
  by simp

lemma drain_pending:
  "sl_pending s = p \<Longrightarrow> drain cd dec n (s\<lparr>sl_pending := []\<rparr>) = (es, r) \<Longrightarrow>
   drain cd dec (length p + n) s = (p @ es, r)"
proof (induction p arbitrary: s)
  case Nil
  then have "s\<lparr>sl_pending := []\<rparr> = s" by simp
  with Nil show ?case by simp
next
  case (Cons e p)
  have "next_event cd dec s = (Inr (Some e), s\<lparr>sl_pending := p\<rparr>)"
    by (simp add: next_event.simps Cons.prems)
  moreover have "drain cd dec (length p + n) (s\<lparr>sl_pending := p\<rparr>) = (p @ es, r)"
    using Cons.IH [of "s\<lparr>sl_pending := p\<rparr>"] Cons.prems by simp
  ultimately show ?case by simp
qed

lemma drain_finished:
  assumes "sl_done s" and "sl_pending s = []" and "stream_finish (sl_state s) = (st, es)" and "ss_finished st"
  shows "drain cd dec (Suc (length es)) s = (es, Some (Inr ()))"
proof (cases es)
  case Nil
  then show ?thesis using assms by (simp add: next_event.simps)
next
  case (Cons e p)
  let ?s = "s\<lparr>sl_state := st, sl_pending := p\<rparr>"
  have "next_event cd dec (?s\<lparr>sl_pending := []\<rparr>) = (Inr None, ?s\<lparr>sl_pending := []\<rparr>)"
    using assms by (simp add: next_event.simps stream_finish_def)
  then have "drain cd dec 1 (?s\<lparr>sl_pending := []\<rparr>) = ([], Some (Inr ()))" by simp
  then have "drain cd dec (length p + 1) ?s = (p, Some (Inr ()))"
    using drain_pending [of ?s p cd dec 1 "[]" "Some (Inr ())"] by simp
  moreover have "next_event cd dec s = (Inr (Some e), ?s)"
    using assms Cons by (simp add: next_event.simps)
  ultimately show ?thesis using Cons by simp
qed

lemma stream_finish_finished: "ss_finished (fst (stream_finish st))"
  by (simp add: stream_finish_def Let_def split: prod.split)

lemma drain_body:
  assumes "sl_body s = map Inr cs" and "\<not> sl_done s" and "sl_pending s = []"
    and "feed_chunks (parse_sse_frame cd dec (sl_model s)) (sl_buffer s) cs = (Inr chunks, rest)"
    and "run_emit ingest_chunk (sl_state s) chunks = (st, es)"
  shows "drain cd dec (Suc (length es + length (snd (stream_finish st)))) s
    = (es @ snd (stream_finish st), Some (Inr ()))"
  using assms
proof (induction cs arbitrary: s chunks es)
  case Nil
  then have e: "es = []" "sl_state s = st" by auto
  let ?s = "s\<lparr>sl_done := True\<rparr>"
  have "next_event cd dec s = next_event cd dec ?s"
    using Nil.prems by (subst next_event.simps) simp
  then have "drain cd dec (Suc (length (snd (stream_finish st)))) s
      = drain cd dec (Suc (length (snd (stream_finish st)))) ?s"
    by (rule drain_same)
  then show ?case
    using drain_finished [of ?s "fst (stream_finish st)" "snd (stream_finish st)" cd dec]
      stream_finish_finished Nil.prems e by simp
next
  case (Cons c cs)
  obtain res buffer where push: "parser_push (parse_sse_frame cd dec (sl_model s)) (sl_buffer s) c = (res, buffer)"
    by fastforce
  obtain chs1 chs2 where res: "res = Inr chs1" and chunks: "chunks = chs1 @ chs2"
      and feed: "feed_chunks (parse_sse_frame cd dec (sl_model s)) buffer cs = (Inr chs2, rest)"
    using Cons.prems(4) push by (auto split: sum.splits prod.splits)
  obtain st1 es1 where run1: "run_emit ingest_chunk (sl_state s) chs1 = (st1, es1)" by fastforce
  obtain es2 where run2: "run_emit ingest_chunk st1 chs2 = (st, es2)" and es: "es = es1 @ es2"
    using Cons.prems(5) by (auto simp: chunks run_emit_append run1 split: prod.splits)
  let ?s = "s\<lparr>sl_body := map Inr cs, sl_buffer := buffer, sl_state := st1, sl_pending := es1\<rparr>"
  have step: "next_event cd dec s = next_event cd dec ?s"
    using Cons.prems push res run1 by (subst next_event.simps) (simp add: openai_push_eq)
  have "drain cd dec (Suc (length es2 + length (snd (stream_finish st)))) (?s\<lparr>sl_pending := []\<rparr>)
      = (es2 @ snd (stream_finish st), Some (Inr ()))"
    using Cons.IH [of "?s\<lparr>sl_pending := []\<rparr>" chs2 es2] Cons.prems feed run2 by simp
  from drain_pending [OF _ this]
  have "drain cd dec (length es1 + Suc (length es2 + length (snd (stream_finish st)))) ?s
      = (es1 @ es2 @ snd (stream_finish st), Some (Inr ()))"
    by simp
  then have "drain cd dec (Suc (length es1 + length es2 + length (snd (stream_finish st)))) ?s
      = (es @ snd (stream_finish st), Some (Inr ()))"
    by (simp add: es add.assoc del: drain.simps)
  then show ?case
    using drain_same [OF step] by (simp add: es del: drain.simps)
qed

text \<open>
  C12: reading a stream to its end, however the body was cut into chunks, delivers exactly the
  events of the state machine on the parsed chunks and then the end of the stream; it takes one
  call more than there are events.
\<close>

theorem stream_reads_events:
  assumes "feed_chunks (parse_sse_frame cd dec model) [] pieces = (Inr chunks, rest)"
  shows "drain cd dec (Suc (length (stream_events model chunks))) (open_stream model rid (map Inr pieces))
    = (stream_events model chunks, Some (Inr ()))"
proof -
  obtain st es where run: "run_emit ingest_chunk (stream_new model) chunks = (st, es)" by fastforce
  show ?thesis
    using drain_body [of "open_stream model rid (map Inr pieces)" pieces cd dec chunks rest st es] assms run
    by (simp add: open_stream_def stream_events_def)
qed

theorem stream_reads_events_witness:
  "drain (ce_codec dead_network)
     (\<lambda>_. Inr \<lparr>ck_id = ''c'', ck_model = None, ck_choices = [], ck_usage = None\<rparr>)
     (Suc (length (stream_events ''m'' [\<lparr>ck_id = ''c'', ck_model = None, ck_choices = [], ck_usage = None\<rparr>])))
     (open_stream ''m'' None (map Inr [''data: '', ''{}'' @ nl @ nl]))
   = (stream_events ''m'' [\<lparr>ck_id = ''c'', ck_model = None, ck_choices = [], ck_usage = None\<rparr>], Some (Inr ()))"
proof (rule stream_reads_events)
  let ?dec = "\<lambda>_. Inr \<lparr>ck_id = ''c'', ck_model = None, ck_choices = [], ck_usage = None\<rparr> :: string + chat_chunk"
  let ?parse = "parse_sse_frame (ce_codec dead_network) ?dec ''m''"
  have a: "next_frame ''data: '' = None" "next_frame (''data: {}'' @ nl @ nl) = Some (''data: {}'', [])" "next_frame [] = None"
    by code_simp+
  have t: "trim ''data: {}'' = ''data: {}''" "data_lines (str_lines ''data: {}'') = [''{}'']" by code_simp+
  have "?parse ''data: {}'' = Inr (Some \<lparr>ck_id = ''c'', ck_model = None, ck_choices = [], ck_usage = None\<rparr>)"
    by (simp add: parse_sse_frame_def t dead_network_def)
  then show "feed_chunks ?parse [] [''data: '', ''{}'' @ nl @ nl]
    = (Inr [\<lparr>ck_id = ''c'', ck_model = None, ck_choices = [], ck_usage = None\<rparr>], [])"
    using a by (simp add: parser_push_def push_loop.simps)
qed

end
