(* ===== verification/Usage.thy ===== *)
theory Usage
  imports Machines
begin

text \<open>
  The usage tracker of \<open>crates/runtime/src/usage.rs\<close>: token counters are \<open>u32\<close> and wrap. The
  cost estimates are floating-point formatting for display and are not modelled, except for
  which model has a price.
\<close>

record token_usage =
  tu_input :: u32
  tu_output :: u32
  tu_cache_creation :: u32
  tu_cache_read :: u32

definition no_tokens :: token_usage where
  "no_tokens = \<lparr>tu_input = 0, tu_output = 0, tu_cache_creation = 0, tu_cache_read = 0\<rparr>"

definition total_tokens :: "token_usage \<Rightarrow> u32" where
  "total_tokens u = tu_input u + tu_output u + tu_cache_creation u + tu_cache_read u"

definition has_pricing :: "string \<Rightarrow> bool" where
  "has_pricing model \<longleftrightarrow> contains (to_ascii_lowercase model) ''solar-pro''"

record usage_tracker =
  ut_latest_turn :: token_usage
  ut_cumulative :: token_usage
  ut_turns :: u32

definition tracker_new :: usage_tracker where
  "tracker_new = \<lparr>ut_latest_turn = no_tokens, ut_cumulative = no_tokens, ut_turns = 0\<rparr>"

definition record_usage :: "token_usage \<Rightarrow> usage_tracker \<Rightarrow> usage_tracker" where
  "record_usage usage t =
     (let c = ut_cumulative t in
      t\<lparr>ut_latest_turn := usage,
        ut_cumulative :=
          \<lparr>tu_input = tu_input c + tu_input usage, tu_output = tu_output c + tu_output usage,
           tu_cache_creation = tu_cache_creation c + tu_cache_creation usage,
           tu_cache_read = tu_cache_read c + tu_cache_read usage\<rparr>,
        ut_turns := ut_turns t + 1\<rparr>)"

definition counted_up_to :: "(token_usage \<Rightarrow> u32) \<Rightarrow> token_usage list \<Rightarrow> u32" where
  "counted_up_to f us = of_nat (sum_list (map (\<lambda>u. unat (f u)) us))"

lemma counted_up_to_snoc [simp]: "counted_up_to f (us @ [u]) = counted_up_to f us + f u"
  by (simp add: counted_up_to_def)

lemma fold_record:
  "fold record_usage us tracker_new =
     \<lparr>ut_latest_turn = (if us = [] then no_tokens else last us),
      ut_cumulative = \<lparr>tu_input = counted_up_to tu_input us, tu_output = counted_up_to tu_output us,
        tu_cache_creation = counted_up_to tu_cache_creation us, tu_cache_read = counted_up_to tu_cache_read us\<rparr>,
      ut_turns = of_nat (length us)\<rparr>"
proof (induction us rule: rev_induct)
  case Nil
  then show ?case by (simp add: tracker_new_def no_tokens_def counted_up_to_def)
next
  case (snoc u us)
  then show ?case by (simp add: record_usage_def Let_def add.commute)
qed

text \<open>
  After any sequence of records the tracker holds the last usage, the number of turns and
  the sums of all usages, each modulo \<open>2^32\<close>.
\<close>

theorem tracker_sums:
  "unat (tu_input (ut_cumulative (fold record_usage us tracker_new)))
     = sum_list (map (\<lambda>u. unat (tu_input u)) us) mod 2 ^ 32
   \<and> unat (total_tokens (ut_cumulative (fold record_usage us tracker_new)))
     = sum_list (map (\<lambda>u. unat (tu_input u) + unat (tu_output u) + unat (tu_cache_creation u)
         + unat (tu_cache_read u)) us) mod 2 ^ 32
   \<and> unat (ut_turns (fold record_usage us tracker_new)) = length us mod 2 ^ 32
   \<and> ut_latest_turn (fold record_usage us tracker_new) = (if us = [] then no_tokens else last us)"
proof -
  have "total_tokens (ut_cumulative (fold record_usage us tracker_new))
      = of_nat (sum_list (map (\<lambda>u. unat (tu_input u) + unat (tu_output u) + unat (tu_cache_creation u)
         + unat (tu_cache_read u)) us))"
    by (simp add: fold_record total_tokens_def counted_up_to_def sum_list_addf)
  then show ?thesis
    by (simp add: fold_record counted_up_to_def unat_of_nat take_bit_eq_mod)
qed

end
