(* ===== verification/Telemetry.thy ===== *)
theory Telemetry
  imports Json Usage
begin

text \<open>
  \<open>crates/telemetry/src/lib.rs\<close>: identities, events, sinks and the session tracer. A sink is
  a function on its own state; the in-memory sink is its list of records, the file sink the
  text of its file. The value of an event (\<open>to_value\<close>) is written out.
\<close>

record client_identity =
  ci_app_name :: string
  ci_app_version :: string
  ci_runtime :: string

definition identity_new :: "string \<Rightarrow> string \<Rightarrow> client_identity" where
  "identity_new app_name app_version =
     \<lparr>ci_app_name = app_name, ci_app_version = app_version, ci_runtime = ''rust''\<rparr>"

definition with_runtime :: "string \<Rightarrow> client_identity \<Rightarrow> client_identity" where
  "with_runtime r i = i\<lparr>ci_runtime := r\<rparr>"

definition user_agent :: "client_identity \<Rightarrow> string" where
  "user_agent i = ci_app_name i @ ''/'' @ ci_app_version i"

definition usage_add :: "token_usage \<Rightarrow> token_usage \<Rightarrow> token_usage" where
  "usage_add a b =
     \<lparr>tu_input = tu_input a + tu_input b, tu_output = tu_output a + tu_output b,
      tu_cache_creation = tu_cache_creation a + tu_cache_creation b,
      tu_cache_read = tu_cache_read a + tu_cache_read b\<rparr>"

datatype telemetry_event =
    SessionStart string string
  | TurnStart string nat
  | TurnEnd string nat token_usage
  | ToolCall string string
  | ToolResult string string bool
  | SessionEnd string token_usage

fun event_type_name :: "telemetry_event \<Rightarrow> string" where
  "event_type_name (SessionStart _ _) = ''session_start''"
| "event_type_name (TurnStart _ _) = ''turn_start''"
| "event_type_name (TurnEnd _ _ _) = ''turn_end''"
| "event_type_name (ToolCall _ _) = ''tool_call''"
| "event_type_name (ToolResult _ _ _) = ''tool_result''"
| "event_type_name (SessionEnd _ _) = ''session_end''"

definition usage_value :: "token_usage \<Rightarrow> json" where
  "usage_value u =
     jobj [(''input_tokens'', ju32 (tu_input u)), (''output_tokens'', ju32 (tu_output u)),
           (''cache_creation_input_tokens'', ju32 (tu_cache_creation u)),
           (''cache_read_input_tokens'', ju32 (tu_cache_read u))]"

text \<open>The enum is tagged by \<open>type\<close>, in snake case.\<close>

fun event_value :: "telemetry_event \<Rightarrow> (string \<times> json) list" where
  "event_value (SessionStart s model) =
     [(''type'', JStr ''session_start''), (''session_id'', JStr s), (''model'', JStr model)]"
| "event_value (TurnStart s turn) =
     [(''type'', JStr ''turn_start''), (''session_id'', JStr s), (''turn'', jnat turn)]"
| "event_value (TurnEnd s turn u) =
     [(''type'', JStr ''turn_end''), (''session_id'', JStr s), (''turn'', jnat turn), (''usage'', usage_value u)]"
| "event_value (ToolCall s tool) =
     [(''type'', JStr ''tool_call''), (''session_id'', JStr s), (''tool_name'', JStr tool)]"
| "event_value (ToolResult s tool ok) =
     [(''type'', JStr ''tool_result''), (''session_id'', JStr s), (''tool_name'', JStr tool), (''success'', JBool ok)]"
| "event_value (SessionEnd s u) =
     [(''type'', JStr ''session_end''), (''session_id'', JStr s), (''total_usage'', usage_value u)]"

record trace_record =
  tr_timestamp_ms :: u64
  tr_event :: string
  tr_payload :: "(string, json) btree"

section \<open>Sinks\<close>

definition memory_record :: "trace_record \<Rightarrow> trace_record list \<Rightarrow> trace_record list" where
  "memory_record r records = records @ [r]"

definition memory_drain :: "trace_record list \<Rightarrow> trace_record list \<times> trace_record list" where
  "memory_drain records = (records, [])"

text \<open>A flattened record: its own fields and then the payload's, as \<open>to_string\<close> writes them.\<close>

definition record_line :: "(trace_record \<Rightarrow> string) \<Rightarrow> trace_record \<Rightarrow> string" where
  "record_line to_string r = to_string r @ nl"

definition jsonl_record :: "(trace_record \<Rightarrow> string) \<Rightarrow> trace_record \<Rightarrow> string \<Rightarrow> string" where
  "jsonl_record to_string r file = file @ record_line to_string r"

section \<open>The tracer\<close>

record 's tracer =
  tc_session_id :: string
  tc_counter :: u64
  tc_sink :: 's

definition tracer_new :: "string \<Rightarrow> 's \<Rightarrow> 's tracer" where
  "tracer_new session_id sink = \<lparr>tc_session_id = session_id, tc_counter = 0, tc_sink = sink\<rparr>"

text \<open>\<open>as_millis() as u64\<close> of the time since the epoch, in nanoseconds, or zero before it.\<close>

definition timestamp_of :: "nat option \<Rightarrow> u64" where
  "timestamp_of now = (case now of Some n \<Rightarrow> of_nat (n div 10 ^ 6) | None \<Rightarrow> 0)"

definition trace_record_of :: "nat option \<Rightarrow> telemetry_event \<Rightarrow> trace_record" where
  "trace_record_of now event =
     \<lparr>tr_timestamp_ms = timestamp_of now, tr_event = event_type_name event,
      tr_payload = bt_of_list (event_value event)\<rparr>"

definition emit :: "(trace_record \<Rightarrow> 's \<Rightarrow> 's) \<Rightarrow> nat option \<times> telemetry_event \<Rightarrow> 's tracer \<Rightarrow> 's tracer" where
  "emit record_in = (\<lambda>(now, event) t.
     t\<lparr>tc_sink := record_in (trace_record_of now event) (tc_sink t), tc_counter := tc_counter t + 1\<rparr>)"

interpretation tracing: folding_machine "emit memory_record" "\<lambda>t. tc_counter t = of_nat (length (tc_sink t))"
  by unfold_locales (auto simp: emit_def memory_record_def)

text \<open>
  The tracer's counter is the number of records its sink holds, and each record carries
  the tag of its event twice, in the event name and in the payload.
\<close>

theorem tracer_records:
  "tc_counter (fold (emit memory_record) es (tracer_new s [])) = of_nat (length es)
   \<and> map tr_event (tc_sink (fold (emit memory_record) es (tracer_new s []))) = map (\<lambda>(now, e). event_type_name e) es
   \<and> list_all (\<lambda>r. bt_get (tr_payload r) ''type'' = Some (JStr (tr_event r)))
       (tc_sink (fold (emit memory_record) es (tracer_new s [])))"
proof -
  have sink: "tc_sink (fold (emit memory_record) es t) = tc_sink t @ map (\<lambda>(now, e). trace_record_of now e) es" for t
    by (induction es arbitrary: t) (auto simp: emit_def memory_record_def)
  have "tc_counter (fold (emit memory_record) es (tracer_new s []))
      = of_nat (length (tc_sink (fold (emit memory_record) es (tracer_new s []))))"
    by (rule tracing.fold_keeps) (simp add: tracer_new_def)
  moreover have "bt_get (tr_payload (trace_record_of now e)) ''type'' = Some (JStr (tr_event (trace_record_of now e)))"
    for now e
    by (cases e) (simp_all add: trace_record_of_def bt_get_of_list)
  ultimately show ?thesis
    by (auto simp: sink tracer_new_def list_all_iff trace_record_of_def)
qed

end
