(* ===== verification/Plugins.thy ===== *)
theory Plugins
  imports Json
begin

text \<open>
  \<open>crates/plugins/src/lib.rs\<close>: metadata, hooks, manifests and the registry. The manager of
  the source is a stub: its combined hooks do not look at the registered plugins.
\<close>

datatype plugin_kind = Builtin | Bundled | External

fun plugin_kind_text :: "plugin_kind \<Rightarrow> string" where
  "plugin_kind_text Builtin = ''builtin''"
| "plugin_kind_text Bundled = ''bundled''"
| "plugin_kind_text External = ''external''"

record plugin_metadata =
  pm_id :: string
  pm_name :: string
  pm_version :: string
  pm_description :: string
  pm_kind :: plugin_kind
  pm_source :: string
  pm_default_enabled :: bool
  pm_root :: "string option"

record plugin_hooks =
  ph_pre :: "string list"
  ph_post :: "string list"
  ph_post_failure :: "string list"

definition no_hooks :: plugin_hooks where
  "no_hooks = \<lparr>ph_pre = [], ph_post = [], ph_post_failure = []\<rparr>"

definition hooks_empty :: "plugin_hooks \<Rightarrow> bool" where
  "hooks_empty h \<longleftrightarrow> ph_pre h = [] \<and> ph_post h = [] \<and> ph_post_failure h = []"

definition merged_with :: "plugin_hooks \<Rightarrow> plugin_hooks \<Rightarrow> plugin_hooks" where
  "merged_with h other =
     h\<lparr>ph_pre := ph_pre h @ ph_pre other, ph_post := ph_post h @ ph_post other,
       ph_post_failure := ph_post_failure h @ ph_post_failure other\<rparr>"

record plugin_lifecycle =
  pl_init :: "string list"
  pl_shutdown :: "string list"

definition lifecycle_empty :: "plugin_lifecycle \<Rightarrow> bool" where
  "lifecycle_empty l \<longleftrightarrow> pl_init l = [] \<and> pl_shutdown l = []"

record plugin_manifest =
  mf_name :: string
  mf_version :: string
  mf_description :: string
  mf_hooks :: plugin_hooks
  mf_lifecycle :: plugin_lifecycle
  mf_tools :: "json list"

type_synonym plugin_registry = "plugin_metadata list"

definition register_plugin :: "plugin_metadata \<Rightarrow> plugin_registry \<Rightarrow> plugin_registry" where
  "register_plugin p plugins = plugins @ [p]"

definition combined_hooks :: "plugin_registry \<Rightarrow> plugin_hooks" where
  "combined_hooks plugins = foldl (\<lambda>acc p. acc) no_hooks (filter pm_default_enabled plugins)"

text \<open>
  Merging hooks keeps the order of both, is associative, and the default is its unit; an
  empty result means both were empty.
\<close>

theorem hooks_merge_monoid:
  "merged_with (merged_with a b) c = merged_with a (merged_with b c)
   \<and> merged_with a no_hooks = a \<and> merged_with no_hooks a = a
   \<and> hooks_empty (merged_with a b) = (hooks_empty a \<and> hooks_empty b)"
  by (auto simp: merged_with_def no_hooks_def hooks_empty_def)

text \<open>The manager's combined hooks are empty, whatever plugins are registered and enabled.\<close>

theorem combined_hooks_stub: "hooks_empty (combined_hooks (fold register_plugin ps plugins))"
proof -
  have "foldl (\<lambda>acc p. acc) h ps = h" for h :: plugin_hooks and ps :: "plugin_metadata list"
    by (induction ps) auto
  then show ?thesis by (simp add: combined_hooks_def hooks_empty_def no_hooks_def)
qed

end
