(* ===== verification/Commands.thy ===== *)
theory Commands
  imports Json
begin

text \<open>
  The slash command registry of \<open>crates/commands/src/lib.rs\<close>: the table of commands, the
  resolution of a name or alias, the parser of an input line and the help texts. Lowercasing
  outside ASCII is a table of the standard library, so \<open>to_lowercase\<close> is the parameter \<open>lower\<close>.
\<close>

record slash_command_spec =
  sp_name :: string
  sp_aliases :: "string list"
  sp_summary :: string
  sp_argument_hint :: "string option"
  sp_resume_supported :: bool

definition slash_spec :: "string \<Rightarrow> string list \<Rightarrow> string \<Rightarrow> string option \<Rightarrow> bool \<Rightarrow> slash_command_spec" where
  "slash_spec name aliases summary hint resume =
     \<lparr>sp_name = name, sp_aliases = aliases, sp_summary = summary, sp_argument_hint = hint,
      sp_resume_supported = resume\<rparr>"

definition slash_command_specs :: "slash_command_spec list" where
  "slash_command_specs =
     [slash_spec ''help'' [] ''Show available slash commands'' None True,
      slash_spec ''status'' [] ''Show current session status'' None True,
      slash_spec ''sandbox'' [] ''Show sandbox isolation status'' None True,
      slash_spec ''compact'' [] ''Compact local session history'' None True,
      slash_spec ''model'' [] ''Show or switch the active model'' (Some ''[model]'') False,
      slash_spec ''permissions'' [] ''Show or switch the active permission mode'' (Some ''[read-only|workspace-write|danger-full-access]'') False,
      slash_spec ''clear'' [] ''Clear terminal and reset session context'' None False,
      slash_spec ''cost'' [] ''Show cumulative token usage and cost estimate'' None True,
      slash_spec ''resume'' [] ''Resume a saved session'' (Some ''<session-path|session-id|latest>'') False,
      slash_spec ''config'' [] ''Show or edit config sections'' (Some ''[env|hooks|model|plugins]'') True,
      slash_spec ''mcp'' [] ''List or inspect MCP servers'' (Some ''[list|show <server>|help]'') True,
      slash_spec ''memory'' [] ''Show or edit in-context memory'' None True,
      slash_spec ''init'' [] ''Initialize Solarcido for this repository'' None False,
      slash_spec ''diff'' [] ''Show workspace git diff'' None True,
      slash_spec ''version'' [] ''Print solarcido version'' None True,
      slash_spec ''session'' [] ''Manage sessions'' (Some ''[list|switch <session-id>|fork [branch]|delete <session-id>]'') False,
      slash_spec ''plugin'' [''plugins'', ''marketplace''] ''Manage plugins'' (Some ''[list|install <path>|enable <name>|disable <name>|uninstall <id>|update <id>]'') False,
      slash_spec ''agents'' [] ''List or inspect sub-agents'' (Some ''[list|help]'') True,
      slash_spec ''skills'' [''skill''] ''Manage and invoke skills'' (Some ''[list|install <path>|help|<skill> [args]]'') False,
      slash_spec ''doctor'' [] ''Run diagnostics'' None True,
      slash_spec ''hooks'' [] ''List or run lifecycle hooks'' (Some ''[list|run <hook>]'') True,
      slash_spec ''exit'' [''quit''] ''Exit the REPL'' None False]"

definition spec_matches :: "string \<Rightarrow> slash_command_spec \<Rightarrow> bool" where
  "spec_matches name spec \<longleftrightarrow> sp_name spec = name \<or> list_ex (\<lambda>a. a = name) (sp_aliases spec)"

definition resolve_slash_command :: "string \<Rightarrow> slash_command_spec option" where
  "resolve_slash_command token =
     (let name = trim_start_matches (CHR ''/'') token in find (spec_matches name) slash_command_specs)"

record slash_command =
  sl_name :: string
  sl_args :: "string list"

definition slash_parse :: "(string \<Rightarrow> string) \<Rightarrow> string \<Rightarrow> slash_command option" where
  "slash_parse lower input =
     (let trimmed = trim input in
      if \<not> starts_with trimmed ''/'' then None
      else
        (let (first, rest) = split_at_char (CHR '' '') trimmed;
             name = lower (trim (trim_start_matches (CHR ''/'') first))
         in if name = [] then None
            else Some \<lparr>sl_name = name, sl_args = split_whitespace (unwrap_or [] rest)\<rparr>))"

text \<open>\<open>{hint:<30}\<close>; the hints are ASCII.\<close>

definition pad_right :: "nat \<Rightarrow> string \<Rightarrow> string" where
  "pad_right n s = s @ replicate (n - length s) (CHR '' '')"

definition help_line :: "slash_command_spec \<Rightarrow> string" where
  "help_line spec =
     (let hint = (case sp_argument_hint spec of None \<Rightarrow> [] | Some h \<Rightarrow> '' '' @ h);
          aliases = (if sp_aliases spec = [] then []
                     else '' (aliases: /'' @ join '', /'' (sp_aliases spec) @ '')'')
      in ''  /'' @ sp_name spec @ pad_right 30 hint @ '' '' @ sp_summary spec @ aliases @ nl)"

definition render_slash_command_help :: string where
  "render_slash_command_help = ''Slash commands:'' @ nl @ concat (map help_line slash_command_specs)"

definition render_slash_command_help_json :: json where
  "render_slash_command_help_json =
     jobj [(''commands'', JArr (map (\<lambda>spec. jobj
       [(''name'', JStr (sp_name spec)), (''aliases'', JArr (map JStr (sp_aliases spec))),
        (''summary'', JStr (sp_summary spec)), (''argument_hint'', jopt JStr (sp_argument_hint spec)),
        (''resume_supported'', JBool (sp_resume_supported spec))]) slash_command_specs))]"

definition validate_slash_command_input :: "(string \<Rightarrow> string) \<Rightarrow> string \<Rightarrow> bool" where
  "validate_slash_command_input lower input =
     (case slash_parse lower input of
        None \<Rightarrow> False
      | Some cmd \<Rightarrow> resolve_slash_command (''/'' @ sl_name cmd) \<noteq> None)"

definition resume_supported_slash_commands :: "string list" where
  "resume_supported_slash_commands = map sp_name (filter sp_resume_supported slash_command_specs)"

section \<open>The registry\<close>

definition spec_names :: "slash_command_spec \<Rightarrow> string list" where
  "spec_names spec = sp_name spec # sp_aliases spec"

lemma names_distinct: "distinct (concat (map spec_names slash_command_specs))"
  by code_simp

lemma find_unique:
  "distinct (concat (map spec_names specs)) \<Longrightarrow> spec \<in> set specs \<Longrightarrow> n \<in> set (spec_names spec) \<Longrightarrow>
   find (spec_matches n) specs = Some spec"
  by (induction specs) (auto simp: spec_names_def spec_matches_def list_ex_iff)

lemma names_slashless: "list_all (\<lambda>spec. list_all (\<lambda>n. n \<noteq> [] \<and> hd n \<noteq> CHR ''/'') (spec_names spec)) slash_command_specs"
  by code_simp

text \<open>Every name and every alias of the table resolves to its own entry, with any slashes before it.\<close>

theorem every_name_resolves:
  "list_all (\<lambda>spec. list_all (\<lambda>n. resolve_slash_command (replicate k (CHR ''/'') @ n) = Some spec) (spec_names spec))
     slash_command_specs"
proof -
  have "trim_start_matches (CHR ''/'') (replicate k (CHR ''/'') @ n) = n" if "n \<noteq> []" "hd n \<noteq> CHR ''/''" for n
  proof -
    have "dropWhile (\<lambda>d. d = CHR ''/'') (replicate k (CHR ''/'') @ n) = dropWhile (\<lambda>d. d = CHR ''/'') n"
      by (induction k) auto
    then show ?thesis using that by (cases n) (simp_all add: trim_start_matches_def)
  qed
  then show ?thesis
    using names_slashless find_unique [OF names_distinct]
    by (fastforce simp: list_all_iff resolve_slash_command_def)
qed

section \<open>Parsing\<close>

text \<open>Printable ASCII without the space.\<close>

definition plain_char :: "char \<Rightarrow> bool" where
  "plain_char c \<longleftrightarrow> 33 \<le> (of_char c :: nat) \<and> (of_char c :: nat) \<le> 126"

definition plain_word :: "string \<Rightarrow> bool" where
  "plain_word w \<longleftrightarrow> w \<noteq> [] \<and> list_all plain_char w"

lemma plain_neq: "plain_char c \<Longrightarrow> \<not> plain_char d \<Longrightarrow> c \<noteq> d"
  by auto

lemma plain_not_ws: "plain_char c \<Longrightarrow> w \<in> set ws_encodings \<Longrightarrow> hd w \<noteq> c \<and> last w \<noteq> c"
proof -
  assume c: "plain_char c" and "w \<in> set ws_encodings"
  moreover have "list_all (\<lambda>w. \<not> plain_char (hd w) \<and> \<not> plain_char (last w)) ws_encodings" by code_simp
  ultimately show ?thesis by (auto simp: list_all_iff)
qed

lemma strip_any_hd: "\<forall>w \<in> set ws. w \<noteq> [] \<and> hd w \<noteq> c \<Longrightarrow> strip_any ws (c # s) = None"
proof (induction ws)
  case Nil
  then show ?case by simp
next
  case (Cons w ws)
  then have "strip_prefix w (c # s) = None" by (cases w) auto
  then show ?case using Cons by simp
qed

lemma ws_nonempty: "\<forall>w \<in> set ws_encodings. w \<noteq> []"
  by (simp add: ws_encodings_def)

lemma strip_plain: "plain_char c \<Longrightarrow> strip_any ws_encodings (c # s) = None"
  by (rule strip_any_hd) (use ws_nonempty plain_not_ws in blast)

lemma strip_plain_rev: "plain_char c \<Longrightarrow> strip_any (map rev ws_encodings) (c # s) = None"
  by (rule strip_any_hd) (use ws_nonempty plain_not_ws in \<open>auto simp: hd_rev\<close>)

lemma trim_plain:
  assumes "plain_char c" and "plain_char (last (c # s))"
  shows "trim (c # s) = c # s"
proof -
  obtain t d where td: "c # s = t @ [d]" by (metis append_butlast_last_id list.distinct(1))
  then have "plain_char d" using assms(2) by simp
  then show ?thesis
    using strip_plain [OF assms(1), of s] strip_plain_rev [of d "rev t"] td
    by (simp add: trim_def trim_start_def trim_end_def trim_start_of_id)
qed

lemma split_ws_word:
  "list_all plain_char w \<Longrightarrow> split_ws_from acc (w @ t) = split_ws_from (acc @ w) t"
proof (induction w arbitrary: acc)
  case Nil
  then show ?case by simp
next
  case (Cons c w)
  then show ?case
    by (subst split_ws_from.simps) (simp add: strip_plain)
qed

lemma strip_space: "strip_any ws_encodings (CHR '' '' # t) = Some t"
  by (simp add: ws_encodings_def)

lemma split_ws_space: "split_ws_from acc (CHR '' '' # t) = (if acc = [] then [] else [acc]) @ split_ws_from [] t"
  by (subst split_ws_from.simps) (simp add: strip_space)

lemma split_ws_end: "split_ws_from acc [] = (if acc = [] then [] else [acc])"
  by (subst split_ws_from.simps) (simp add: ws_encodings_def)

lemma split_whitespace_join:
  "list_all plain_word ws \<Longrightarrow> split_whitespace (join '' '' ws) = ws"
proof (induction "'' ''" ws rule: join.induct)
  case 1
  then show ?case by (simp add: split_whitespace_def split_ws_end)
next
  case (2 s)
  then show ?case
    using split_ws_word [of s "[]" "[]"] by (simp add: split_whitespace_def plain_word_def split_ws_end)
next
  case (3 s t ts)
  then show ?case
    using split_ws_word [of s "[]" "CHR '' '' # join '' '' (t # ts)"]
    by (simp add: split_whitespace_def plain_word_def split_ws_space)
qed

lemma last_join: "list_all plain_word ws \<Longrightarrow> ws \<noteq> [] \<Longrightarrow> join '' '' ws \<noteq> [] \<and> plain_char (last (join '' '' ws))"
  by (induction ws rule: join.induct [of _ "'' ''"]) (auto simp: plain_word_def list_all_iff last_append)

text \<open>
  A command line written from a name and arguments, all printable words, parses back to
  them, the name lowercased.
\<close>

theorem slash_round_trip:
  assumes "plain_word name" and "hd name \<noteq> CHR ''/''" and "list_all plain_word args" and "lower name \<noteq> []"
  shows "slash_parse lower (''/'' @ join '' '' (name # args)) = Some \<lparr>sl_name = lower name, sl_args = args\<rparr>"
proof -
  have ends: "plain_char (last (join '' '' (name # args)))" "join '' '' (name # args) \<noteq> []"
    using last_join [of "name # args"] assms(1,3) by simp_all
  have "plain_char (CHR ''/'')" by code_simp
  then have trimmed: "trim (CHR ''/'' # join '' '' (name # args)) = CHR ''/'' # join '' '' (name # args)"
    using ends by (intro trim_plain) simp_all
  have nosp: "CHR '' '' \<notin> set name"
    using assms(1) by (auto simp: plain_word_def list_all_iff plain_char_def)
  have split: "split_at_char (CHR '' '') (CHR ''/'' # join '' '' (name # args))
      = (CHR ''/'' # name, if args = [] then None else Some (join '' '' args))"
  proof (cases args)
    case Nil
    then show ?thesis using nosp by (simp add: split_at_char_none)
  next
    case (Cons a as)
    then show ?thesis using nosp split_at_char_append [of "CHR '' ''" name] by simp
  qed
  obtain c n where n: "name = c # n" using assms(1) by (cases name) (auto simp: plain_word_def)
  have tn: "trim name = name"
    using assms(1) n last_in_set [of name] by (auto simp: plain_word_def list_all_iff intro!: trim_plain)
  have stripped: "trim_start_matches (CHR ''/'') (CHR ''/'' # name) = name"
    using assms(2) n by (simp add: trim_start_matches_def)
  have "split_whitespace (unwrap_or [] (if args = [] then None else Some (join '' '' args))) = args"
    using split_whitespace_join [OF assms(3)] by (simp add: split_whitespace_def split_ws_end)
  then show ?thesis
    using trimmed split stripped tn assms(4) by (simp add: slash_parse_def Let_def starts_with_def)
qed

theorem slash_round_trip_witness:
  "slash_parse to_ascii_lowercase ''/Model solar-pro'' = Some \<lparr>sl_name = ''model'', sl_args = [''solar-pro'']\<rparr>"
proof -
  have "plain_word ''Model''" "hd ''Model'' \<noteq> CHR ''/''" "list_all plain_word [''solar-pro'']"
    "to_ascii_lowercase ''Model'' \<noteq> []" "to_ascii_lowercase ''Model'' = ''model''"
    by code_simp+
  then show ?thesis
    using slash_round_trip [of "''Model''" "[''solar-pro'']" to_ascii_lowercase] by simp
qed

end
