(* ===== verification/FileSys.thy ===== *)
theory FileSys
  imports Utf8 BTree
begin

text \<open>
  What the crates use of \<open>std::path\<close> and \<open>std::fs\<close> on Unix. A path is its list of components,
  so redundant separators and inner dots are already gone; a location is the list of names from
  the root. The file system is a finite list of nodes, with symbolic links, and a queue of
  faults: each call takes the next entry and fails with it when there is one, so that every
  error branch of a caller can be reached. It is coarser than an operating system in four ways: a write
  succeeds or fails as a whole, creating a chain of directories is one call with one fault, a
  directory is made at the target of a last link that leads nowhere (where \<open>mkdir\<close> gives \<open>EEXIST\<close>),
  and error kinds that no caller tells apart are \<open>OtherIo\<close> with their text.
\<close>

section \<open>Paths\<close>

datatype component = RootDir | CurDir | ParentDir | Name string

type_synonym path = "component list"
type_synonym loc = "string list"

fun split_on :: "char \<Rightarrow> string \<Rightarrow> string \<Rightarrow> string list" where
  "split_on d acc [] = [acc]"
| "split_on d acc (c # cs) = (if c = d then acc # split_on d [] cs else split_on d (acc @ [c]) cs)"

lemma split_on_done: "d \<notin> set x \<Longrightarrow> split_on d acc x = [acc @ x]"
  by (induction x arbitrary: acc) auto

lemma split_on_first: "d \<notin> set x \<Longrightarrow> split_on d acc (x @ d # s) = (acc @ x) # split_on d [] s"
  by (induction x arbitrary: acc) auto

lemma split_on_join: "xs \<noteq> [] \<Longrightarrow> \<forall>x \<in> set xs. d \<notin> set x \<Longrightarrow> split_on d [] (join [d] xs) = xs"
proof (induction xs)
  case (Cons x xs)
  then show ?case by (cases xs) (simp_all add: split_on_done split_on_first)
qed simp

definition component_of :: "string \<Rightarrow> component" where
  "component_of s = (if s = ''..'' then ParentDir else if s = ''.'' then CurDir else Name s)"

definition parse_path :: "string \<Rightarrow> path" where
  "parse_path s =
     (let parts = filter (\<lambda>p. p \<noteq> []) (split_on (CHR ''/'') [] s);
          absolute = starts_with s ''/'';
          leading_dot = \<not> absolute \<and> parts \<noteq> [] \<and> hd parts = ''.'';
          names = map component_of (filter (\<lambda>p. p \<noteq> ''.'') parts)
      in (if absolute then [RootDir] else if leading_dot then [CurDir] else []) @ names)"

definition is_absolute :: "path \<Rightarrow> bool" where
  "is_absolute p \<longleftrightarrow> p \<noteq> [] \<and> hd p = RootDir"

definition path_join :: "path \<Rightarrow> path \<Rightarrow> path" where
  "path_join p q =
     (if is_absolute q then q
      else if p = [] then q
      else p @ filter (\<lambda>c. c \<noteq> CurDir) q)"

definition path_parent :: "path \<Rightarrow> path option" where
  "path_parent p = (if p = [] \<or> last p = RootDir then None else Some (butlast p))"

definition file_name :: "path \<Rightarrow> string option" where
  "file_name p = (if p = [] then None else case last p of Name n \<Rightarrow> Some n | _ \<Rightarrow> None)"

text \<open>The part of a name after its last dot, unless that dot is its first character.\<close>

definition name_extension :: "string \<Rightarrow> string option" where
  "name_extension n =
     (let tail = takeWhile (\<lambda>c. c \<noteq> CHR ''.'') (rev n) in
      if Suc (length tail) < length n then Some (rev tail) else None)"

definition path_extension :: "path \<Rightarrow> string option" where
  "path_extension p = Option.bind (file_name p) name_extension"

text \<open>\<open>file_stem\<close>, and \<open>with_file_name\<close> for a name without separators.\<close>

definition name_stem :: "string \<Rightarrow> string" where
  "name_stem n = (case name_extension n of None \<Rightarrow> n | Some e \<Rightarrow> take (length n - Suc (length e)) n)"

definition file_stem :: "path \<Rightarrow> string option" where
  "file_stem p = map_option name_stem (file_name p)"

definition with_file_name :: "path \<Rightarrow> string \<Rightarrow> path" where
  "with_file_name p n = path_join (if file_name p = None then p else butlast p) [Name n]"

fun strip_path_prefix :: "path \<Rightarrow> path \<Rightarrow> path option" where
  "strip_path_prefix [] p = Some p"
| "strip_path_prefix (b # bs) [] = None"
| "strip_path_prefix (b # bs) (c # cs) = (if b = c then strip_path_prefix bs cs else None)"

definition path_starts_with :: "path \<Rightarrow> path \<Rightarrow> bool" where
  "path_starts_with p base \<longleftrightarrow> strip_path_prefix base p \<noteq> None"

fun show_component :: "component \<Rightarrow> string" where
  "show_component RootDir = []"
| "show_component CurDir = ''.''"
| "show_component ParentDir = ''..''"
| "show_component (Name n) = n"

definition show_path :: "path \<Rightarrow> string" where
  "show_path p = (if p = [RootDir] then ''/'' else join ''/'' (map show_component p))"

definition path_of_loc :: "loc \<Rightarrow> path" where
  "path_of_loc l = RootDir # map Name l"

lemma strip_path_prefix_Some: "strip_path_prefix b p = Some r \<longleftrightarrow> p = b @ r"
  by (induction b p rule: strip_path_prefix.induct) auto

lemma path_starts_with_loc: "path_starts_with (path_of_loc l) (path_of_loc r) \<longleftrightarrow> (\<exists>t. l = r @ t)"
proof -
  have "(\<exists>t. map Name l = map Name r @ t) \<longleftrightarrow> (\<exists>t. l = r @ t)"
  proof
    assume "\<exists>t. map Name l = map Name r @ t"
    then obtain t where "map Name l = map Name r @ t" ..
    then have "take (length r) (map Name l) = map Name r" by simp
    then have "map Name (take (length r) l) = map Name r" by (simp add: take_map)
    then have "take (length r) l = r" by (simp add: inj_map_eq_map inj_def)
    then show "\<exists>t. l = r @ t" by (metis append_take_drop_id)
  qed auto
  then show ?thesis
    by (auto simp: path_starts_with_def path_of_loc_def strip_path_prefix_Some not_None_eq)
qed

section \<open>Nodes\<close>

datatype node = FileNode string | DirNode | LinkNode path

datatype io_error = NotFound | NotADirectory | IsADirectory | AlreadyExists | LinkLoop | InvalidUtf8 | OtherIo string

fun show_io_error :: "io_error \<Rightarrow> string" where
  "show_io_error NotFound = ''No such file or directory (os error 2)''"
| "show_io_error NotADirectory = ''Not a directory (os error 20)''"
| "show_io_error IsADirectory = ''Is a directory (os error 21)''"
| "show_io_error AlreadyExists = ''File exists (os error 17)''"
| "show_io_error LinkLoop = ''Too many levels of symbolic links (os error 40)''"
| "show_io_error InvalidUtf8 = ''stream did not contain valid UTF-8''"
| "show_io_error (OtherIo text) = text"

type_synonym nodes = "(loc \<times> node) list"

record fs =
  fs_nodes :: nodes
  fs_cwd :: loc
  fs_faults :: "io_error option list"

definition node_at :: "nodes \<Rightarrow> loc \<Rightarrow> node option" where
  "node_at ns l = (if l = [] then Some DirNode else map_of ns l)"

definition put_node :: "loc \<Rightarrow> node \<Rightarrow> nodes \<Rightarrow> nodes" where
  "put_node l n ns = filter (\<lambda>(k, _). k \<noteq> l) ns @ [(l, n)]"

lemma node_at_put: "l \<noteq> [] \<Longrightarrow> node_at (put_node l n ns) k = (if k = l then Some n else node_at ns k)"
proof -
  have "map_of (filter (\<lambda>(k, _). k \<noteq> l) ns) k = (if k = l then None else map_of ns k)"
    by (induction ns) auto
  then show "l \<noteq> [] \<Longrightarrow> ?thesis"
    by (auto simp: node_at_def put_node_def map_add_def split: option.split)
qed

text \<open>
  Walking a path from a directory, through at most \<open>links\<close> symbolic links. With \<open>allow\<close>, the
  last name may be missing: then the result is where it would be created.
\<close>

function walk :: "nat \<Rightarrow> bool \<Rightarrow> nodes \<Rightarrow> loc \<Rightarrow> path \<Rightarrow> io_error + loc" where
  "walk links allow ns cur [] = Inr cur"
| "walk links allow ns cur (c # cs) =
     (case c of
        RootDir \<Rightarrow> walk links allow ns [] cs
      | CurDir \<Rightarrow> walk links allow ns cur cs
      | ParentDir \<Rightarrow> walk links allow ns (butlast cur) cs
      | Name n \<Rightarrow>
          (case node_at ns (cur @ [n]) of
             None \<Rightarrow> if allow \<and> cs = [] then Inr (cur @ [n]) else Inl NotFound
           | Some DirNode \<Rightarrow> walk links allow ns (cur @ [n]) cs
           | Some (FileNode _) \<Rightarrow> if cs = [] then Inr (cur @ [n]) else Inl NotADirectory
           | Some (LinkNode target) \<Rightarrow>
               (case links of 0 \<Rightarrow> Inl LinkLoop | Suc l \<Rightarrow> walk l allow ns cur (target @ cs))))"
  by pat_completeness auto
termination
  by (relation "measures [\<lambda>(links, allow, ns, cur, p). links, \<lambda>(links, allow, ns, cur, p). length p]") auto

definition max_links :: nat where
  "max_links = 40"

definition locate :: "bool \<Rightarrow> fs \<Rightarrow> path \<Rightarrow> io_error + loc" where
  "locate allow s p = (if p = [] then Inl NotFound else walk max_links allow (fs_nodes s) (fs_cwd s) p)"

section \<open>Calls\<close>

text \<open>Every call first meets the next fault of the queue.\<close>

definition guarded :: "fs \<Rightarrow> (fs \<Rightarrow> (io_error + 'a) \<times> fs) \<Rightarrow> (io_error + 'a) \<times> fs" where
  "guarded s f =
     (case fs_faults s of
        [] \<Rightarrow> f s
      | Some e # q \<Rightarrow> (Inl e, s\<lparr>fs_faults := q\<rparr>)
      | None # q \<Rightarrow> f (s\<lparr>fs_faults := q\<rparr>))"

definition fs_canonicalize :: "path \<Rightarrow> fs \<Rightarrow> (io_error + loc) \<times> fs" where
  "fs_canonicalize p s = guarded s (\<lambda>s. (locate False s p, s))"

definition file_bytes :: "fs \<Rightarrow> path \<Rightarrow> io_error + string" where
  "file_bytes s p =
     and_then (locate False s p) (\<lambda>l.
       case node_at (fs_nodes s) l of
         Some (FileNode bytes) \<Rightarrow> Inr bytes
       | Some DirNode \<Rightarrow> Inl IsADirectory
       | _ \<Rightarrow> Inl NotFound)"

definition fs_read :: "path \<Rightarrow> fs \<Rightarrow> (io_error + string) \<times> fs" where
  "fs_read p s = guarded s (\<lambda>s. (file_bytes s p, s))"

definition fs_read_to_string :: "path \<Rightarrow> fs \<Rightarrow> (io_error + string) \<times> fs" where
  "fs_read_to_string p s =
     guarded s (\<lambda>s. (and_then (file_bytes s p) (\<lambda>bytes. if valid_utf8 bytes then Inr bytes else Inl InvalidUtf8), s))"

text \<open>The size of a file; a directory has some size of its own.\<close>

definition fs_metadata_len :: "path \<Rightarrow> fs \<Rightarrow> (io_error + nat) \<times> fs" where
  "fs_metadata_len p s =
     guarded s (\<lambda>s. (and_then (locate False s p) (\<lambda>l.
        case node_at (fs_nodes s) l of
          Some (FileNode bytes) \<Rightarrow> Inr (length bytes)
        | Some DirNode \<Rightarrow> Inr 4096
        | _ \<Rightarrow> Inl NotFound), s))"

definition fs_is_file :: "path \<Rightarrow> fs \<Rightarrow> bool" where
  "fs_is_file p s = (case file_bytes s p of Inr _ \<Rightarrow> True | Inl _ \<Rightarrow> False)"

text \<open>\<open>File::create\<close>: an empty file at the location, which writes then extend.\<close>

definition fs_create :: "path \<Rightarrow> fs \<Rightarrow> (io_error + loc) \<times> fs" where
  "fs_create p s =
     guarded s (\<lambda>s.
       case locate True s p of
         Inl e \<Rightarrow> (Inl e, s)
       | Inr l \<Rightarrow>
           (case node_at (fs_nodes s) l of
              Some DirNode \<Rightarrow> (Inl IsADirectory, s)
            | _ \<Rightarrow> (Inr l, s\<lparr>fs_nodes := put_node l (FileNode []) (fs_nodes s)\<rparr>)))"

definition fs_append :: "loc \<Rightarrow> string \<Rightarrow> fs \<Rightarrow> (io_error + unit) \<times> fs" where
  "fs_append l bytes s =
     guarded s (\<lambda>s.
       case node_at (fs_nodes s) l of
         Some (FileNode old) \<Rightarrow> (Inr (), s\<lparr>fs_nodes := put_node l (FileNode (old @ bytes)) (fs_nodes s)\<rparr>)
       | _ \<Rightarrow> (Inl NotFound, s))"

definition fs_write :: "path \<Rightarrow> string \<Rightarrow> fs \<Rightarrow> (io_error + unit) \<times> fs" where
  "fs_write p bytes s =
     (case fs_create p s of
        (Inl e, s') \<Rightarrow> (Inl e, s')
      | (Inr l, s') \<Rightarrow> fs_append l bytes s')"

function make_dirs :: "path \<Rightarrow> fs \<Rightarrow> (io_error + unit) \<times> fs" where
  "make_dirs p s =
     (if p = [] then (Inr (), s)
      else case locate True s p of
        Inr l \<Rightarrow>
          (case node_at (fs_nodes s) l of
             Some DirNode \<Rightarrow> (Inr (), s)
           | Some _ \<Rightarrow> (Inl AlreadyExists, s)
           | None \<Rightarrow> (Inr (), s\<lparr>fs_nodes := put_node l DirNode (fs_nodes s)\<rparr>))
      | Inl NotFound \<Rightarrow>
          (case make_dirs (butlast p) s of
             (Inl e, s') \<Rightarrow> (Inl e, s')
           | (Inr _, s') \<Rightarrow>
               (case locate True s' p of
                  Inl e \<Rightarrow> (Inl e, s')
                | Inr l \<Rightarrow>
                    (case node_at (fs_nodes s') l of
                       Some DirNode \<Rightarrow> (Inr (), s')
                     | Some _ \<Rightarrow> (Inl AlreadyExists, s')
                     | None \<Rightarrow> (Inr (), s'\<lparr>fs_nodes := put_node l DirNode (fs_nodes s')\<rparr>))))
      | Inl e \<Rightarrow> (Inl e, s))"
  by pat_completeness auto
termination
  by (relation "measure (\<lambda>(p, s). length p)") auto

declare make_dirs.simps [simp del]

definition fs_create_dir_all :: "path \<Rightarrow> fs \<Rightarrow> (io_error + unit) \<times> fs" where
  "fs_create_dir_all p s = guarded s (make_dirs p)"

text \<open>The names in a directory, in the order of the nodes.\<close>

definition fs_read_dir :: "path \<Rightarrow> fs \<Rightarrow> (io_error + string list) \<times> fs" where
  "fs_read_dir p s =
     guarded s (\<lambda>s. (and_then (locate False s p) (\<lambda>l.
        case node_at (fs_nodes s) l of
          Some DirNode \<Rightarrow> Inr (map (\<lambda>(k, _). last k) (filter (\<lambda>(k, _). k \<noteq> [] \<and> butlast k = l) (fs_nodes s)))
        | Some _ \<Rightarrow> Inl NotADirectory
        | None \<Rightarrow> Inl NotFound), s))"

text \<open>Taking one entry of a directory that was opened.\<close>

definition fs_dir_entry :: "string \<Rightarrow> fs \<Rightarrow> (io_error + string) \<times> fs" where
  "fs_dir_entry n s = guarded s (\<lambda>s. (Inr n, s))"

text \<open>\<open>rename\<close>: the last name of neither path is followed; a directory moves with what it holds.\<close>

definition entry_loc :: "fs \<Rightarrow> path \<Rightarrow> io_error + loc" where
  "entry_loc s p =
     (case file_name p of
        None \<Rightarrow> Inl NotFound
      | Some n \<Rightarrow> map_sum id (\<lambda>l. l @ [n]) (if butlast p = [] then Inr (fs_cwd s) else locate False s (butlast p)))"

definition move_nodes :: "loc \<Rightarrow> loc \<Rightarrow> nodes \<Rightarrow> nodes" where
  "move_nodes src dst ns =
     map (\<lambda>(k, n). (if take (length src) k = src then dst @ drop (length src) k else k, n))
       (filter (\<lambda>(k, _). k \<noteq> dst) ns)"

definition fs_rename :: "path \<Rightarrow> path \<Rightarrow> fs \<Rightarrow> (io_error + unit) \<times> fs" where
  "fs_rename p q s =
     guarded s (\<lambda>s.
       case (entry_loc s p, entry_loc s q) of
         (Inl e, _) \<Rightarrow> (Inl e, s)
       | (_, Inl e) \<Rightarrow> (Inl e, s)
       | (Inr src, Inr dst) \<Rightarrow>
           (case (node_at (fs_nodes s) src, node_at (fs_nodes s) dst) of
              (None, _) \<Rightarrow> (Inl NotFound, s)
            | (Some n, d) \<Rightarrow>
                if src = dst then (Inr (), s)
                else if n = DirNode \<and> take (length src) dst = src then (Inl (OtherIo ''Invalid argument (os error 22)''), s)
                else if n \<noteq> DirNode \<and> d = Some DirNode then (Inl IsADirectory, s)
                else if n = DirNode \<and> d \<noteq> None \<and> d \<noteq> Some DirNode then (Inl NotADirectory, s)
                else if n = DirNode \<and> list_ex (\<lambda>(k, _). k \<noteq> [] \<and> butlast k = dst) (fs_nodes s)
                then (Inl (OtherIo ''Directory not empty (os error 39)''), s)
                else (Inr (), s\<lparr>fs_nodes := move_nodes src dst (fs_nodes s)\<rparr>)))"

text \<open>\<open>remove_file\<close>: a link goes, not what it names.\<close>

definition fs_remove_file :: "path \<Rightarrow> fs \<Rightarrow> (io_error + unit) \<times> fs" where
  "fs_remove_file p s =
     guarded s (\<lambda>s.
       case entry_loc s p of
         Inl e \<Rightarrow> (Inl e, s)
       | Inr l \<Rightarrow>
           (case node_at (fs_nodes s) l of
              None \<Rightarrow> (Inl NotFound, s)
            | Some DirNode \<Rightarrow> (Inl IsADirectory, s)
            | Some _ \<Rightarrow> (Inr (), s\<lparr>fs_nodes := filter (\<lambda>(k, _). k \<noteq> l) (fs_nodes s)\<rparr>)))"

text \<open>\<open>OpenOptions::new().append(true).open\<close>: only a file that exists is opened.\<close>

definition fs_open_append :: "path \<Rightarrow> fs \<Rightarrow> (io_error + loc) \<times> fs" where
  "fs_open_append p s =
     guarded s (\<lambda>s. (and_then (locate False s p) (\<lambda>l.
        case node_at (fs_nodes s) l of
          Some (FileNode _) \<Rightarrow> Inr l
        | Some DirNode \<Rightarrow> Inl IsADirectory
        | _ \<Rightarrow> Inl NotFound), s))"

text \<open>\<open>Path::exists\<close> is a call of \<open>metadata\<close> whose error counts as no.\<close>

definition fs_exists :: "path \<Rightarrow> fs \<Rightarrow> bool \<times> fs" where
  "fs_exists p s = (case fs_metadata_len p s of (Inl _, s') \<Rightarrow> (False, s') | (Inr _, s') \<Rightarrow> (True, s'))"

text \<open>\<open>?\<close>: an error ends the function.\<close>

definition io_bind :: "('e + 'a) \<times> fs \<Rightarrow> ('a \<Rightarrow> fs \<Rightarrow> ('e + 'b) \<times> fs) \<Rightarrow> ('e + 'b) \<times> fs" where
  "io_bind r f = (case r of (Inl e, s) \<Rightarrow> (Inl e, s) | (Inr x, s) \<Rightarrow> f x s)"

text \<open>\<open>env::current_dir\<close>.\<close>

definition fs_current_dir :: "fs \<Rightarrow> (io_error + path) \<times> fs" where
  "fs_current_dir s = guarded s (\<lambda>s. (Inr (path_of_loc (fs_cwd s)), s))"

text \<open>\<open>canonicalize().unwrap_or_else(..)\<close>: the path itself when it cannot be resolved.\<close>

definition canonical_or :: "path \<Rightarrow> fs \<Rightarrow> path \<times> fs" where
  "canonical_or p s =
     (case fs_canonicalize p s of (Inr l, s') \<Rightarrow> (path_of_loc l, s') | (Inl _, s') \<Rightarrow> (p, s'))"

section \<open>Walking after a write\<close>

text \<open>A node that is no directory and no link can only be the end of a walk.\<close>

definition plain_node :: "node option \<Rightarrow> bool" where
  "plain_node n \<longleftrightarrow> (case n of None \<Rightarrow> True | Some (FileNode _) \<Rightarrow> True | _ \<Rightarrow> False)"

text \<open>The nodes after a file was written at one location.\<close>

definition wrote_file :: "nodes \<Rightarrow> loc \<Rightarrow> string \<Rightarrow> nodes \<Rightarrow> bool" where
  "wrote_file ns l c ns' \<longleftrightarrow>
     plain_node (node_at ns l) \<and> node_at ns' l = Some (FileNode c) \<and> (\<forall>k. k \<noteq> l \<longrightarrow> node_at ns' k = node_at ns k)"

lemma wrote_file_here: "wrote_file ns l c ns' \<Longrightarrow> l \<noteq> []"
  by (auto simp: wrote_file_def node_at_def plain_node_def)

lemma wrote_file_put: "plain_node (node_at ns l) \<Longrightarrow> wrote_file ns l c (put_node l (FileNode c) ns)"
proof -
  assume p: "plain_node (node_at ns l)"
  then have "l \<noteq> []" by (auto simp: plain_node_def node_at_def)
  with p show ?thesis by (simp add: wrote_file_def node_at_put)
qed

lemma walk_after_write:
  assumes "walk links False ns cur p = Inr r" and "wrote_file ns l c ns'"
  shows "walk links False ns' cur p = Inr r"
  using assms
proof (induction links False ns cur p rule: walk.induct)
  case (1 links ns cur)
  then show ?case by simp
next
  case (2 links ns cur c' cs)
  have same: "node_at ns' k = node_at ns k \<or> (k = l \<and> plain_node (node_at ns k) \<and> node_at ns' k = Some (FileNode c))" for k
    using "2.prems"(2) by (auto simp: wrote_file_def)
  show ?case
  proof (cases c')
    case (Name n)
    show ?thesis
      using same [of "cur @ [n]"] "2.prems" "2.hyps" Name
      by (auto simp: plain_node_def split: option.splits node.splits if_splits nat.splits)
  qed (use 2 in auto)
qed

lemma walk_created:
  assumes "walk links True ns cur p = Inr l" and "wrote_file ns l c ns'"
  shows "walk links False ns' cur p = Inr l"
  using assms
proof (induction links True ns cur p rule: walk.induct)
  case (1 links ns cur)
  then show ?case by simp
next
  case (2 links ns cur c' cs)
  have same: "node_at ns' k = node_at ns k \<or> (k = l \<and> plain_node (node_at ns k) \<and> node_at ns' k = Some (FileNode c))" for k
    using "2.prems"(2) by (auto simp: wrote_file_def)
  have here: "node_at ns' l = Some (FileNode c)" using "2.prems"(2) by (simp add: wrote_file_def)
  show ?case
  proof (cases c')
    case (Name n)
    show ?thesis
      using same [of "cur @ [n]"] here "2.prems" "2.hyps" Name
      by (auto simp: plain_node_def split: option.splits node.splits if_splits nat.splits)
  qed (use 2 in auto)
qed

section \<open>File systems without links\<close>

definition no_links :: "fs \<Rightarrow> bool" where
  "no_links s \<longleftrightarrow> (\<forall>l t. node_at (fs_nodes s) l \<noteq> Some (LinkNode t))"

lemma no_links_plain: "no_links s \<Longrightarrow> node_at (fs_nodes s) l \<noteq> Some DirNode \<Longrightarrow> plain_node (node_at (fs_nodes s) l)"
  by (auto simp: no_links_def plain_node_def split: option.split node.split)

lemma no_links_put: "no_links s \<Longrightarrow> n = DirNode \<or> n = FileNode c \<Longrightarrow> l \<noteq> [] \<Longrightarrow>
    no_links (s\<lparr>fs_nodes := put_node l n (fs_nodes s)\<rparr>)"
  by (auto simp: no_links_def node_at_put)

text \<open>Without links, walking to a last name ends at a location with that last name.\<close>

lemma walk_last:
  "no_links s \<Longrightarrow> walk links allow (fs_nodes s) cur (p @ [Name n]) = Inr l \<Longrightarrow> l \<noteq> [] \<and> last l = n"
proof (induction p arbitrary: cur)
  case Nil
  then show ?case
    by (auto simp: no_links_def split: option.splits node.splits if_splits nat.splits)
next
  case (Cons c p)
  then show ?case
    by (auto simp: no_links_def split: component.splits option.splits node.splits if_splits nat.splits)
qed

lemma locate_last: "no_links s \<Longrightarrow> locate allow s (p @ [Name n]) = Inr l \<Longrightarrow> last l = n"
  using walk_last by (auto simp: locate_def)

lemma wrote_file_no_links: "no_links s \<Longrightarrow> wrote_file (fs_nodes s) l c (fs_nodes s') \<Longrightarrow> no_links s'"
  by (simp add: no_links_def wrote_file_def) (metis node.distinct(3) option.inject)

lemma locate_created:
  "locate True s p = Inr l \<Longrightarrow> wrote_file (fs_nodes s) l c (fs_nodes s') \<Longrightarrow> fs_cwd s' = fs_cwd s \<Longrightarrow>
   locate False s' p = Inr l"
  unfolding locate_def by (cases "p = []") (simp, metis walk_created)

lemma locate_after_write:
  "locate False s p = Inr r \<Longrightarrow> wrote_file (fs_nodes s) l c (fs_nodes s') \<Longrightarrow> fs_cwd s' = fs_cwd s \<Longrightarrow>
   locate False s' p = Inr r"
  unfolding locate_def by (cases "p = []") (simp, metis walk_after_write)

lemma make_dirs_frame:
  "make_dirs p s = (r, s') \<Longrightarrow> no_links s \<Longrightarrow> no_links s' \<and> fs_faults s' = fs_faults s \<and> fs_cwd s' = fs_cwd s"
proof (induction p s arbitrary: r s' rule: make_dirs.induct)
  case (1 p s)
  have put: "no_links (s\<lparr>fs_nodes := put_node l DirNode (fs_nodes s)\<rparr>)"
    if "no_links s" "node_at (fs_nodes s) l = None" for s l
    using that by (intro no_links_put) (auto simp: node_at_def split: if_splits)
  show ?case
  proof (cases "p \<noteq> [] \<and> locate True s p = Inl NotFound")
    case False
    then show ?thesis
      using "1.prems" put
      by (subst (asm) make_dirs.simps) (auto split: sum.splits option.splits node.splits io_error.splits if_splits)
  next
    case True
    obtain r1 s1 where rec: "make_dirs (butlast p) s = (r1, s1)" by fastforce
    then have s1: "no_links s1 \<and> fs_faults s1 = fs_faults s \<and> fs_cwd s1 = fs_cwd s"
      using "1.IH" True "1.prems"(2) by simp
    then show ?thesis
      using "1.prems"(1) True rec put [of s1]
      by (subst (asm) make_dirs.simps) (auto split: sum.splits option.splits node.splits if_splits)
  qed
qed

lemma guarded_no_fault: "fs_faults s = [] \<Longrightarrow> guarded s f = f s"
  by (simp add: guarded_def)

text \<open>A successful write, without faults: one location gets the content, found again by the same path.\<close>

lemma fs_create_result:
  assumes "fs_create p s = (Inr l, s')" and "fs_faults s = []"
  shows "locate True s p = Inr l \<and> node_at (fs_nodes s) l \<noteq> Some DirNode
    \<and> s' = s\<lparr>fs_nodes := put_node l (FileNode []) (fs_nodes s)\<rparr>"
  using assms by (auto simp: fs_create_def guarded_no_fault split: sum.splits option.splits node.splits)

lemma fs_write_result:
  assumes "fs_write p c s = (Inr (), s')" and "fs_faults s = []" and "no_links s"
  shows "\<exists>l. locate True s p = Inr l \<and> wrote_file (fs_nodes s) l c (fs_nodes s')
    \<and> fs_faults s' = [] \<and> fs_cwd s' = fs_cwd s"
proof -
  obtain l s1 where cr: "fs_create p s = (Inr l, s1)" and ap: "fs_append l c s1 = (Inr (), s')"
    using assms(1) by (auto simp: fs_write_def split: sum.splits prod.splits)
  note c = fs_create_result [OF cr assms(2)]
  have pl: "plain_node (node_at (fs_nodes s) l)" using c no_links_plain [OF assms(3)] by blast
  then have ne: "l \<noteq> []" by (auto simp: plain_node_def node_at_def)
  have "s' = s1\<lparr>fs_nodes := put_node l (FileNode c) (fs_nodes s1)\<rparr>"
    using ap c assms(2) ne by (simp add: fs_append_def guarded_no_fault node_at_put)
  then show ?thesis
    using c pl ne assms(2) by (auto simp: wrote_file_def node_at_put)
qed

lemma fs_write_read:
  assumes "fs_write p c s = (Inr (), s')" and "fs_faults s = []" and "no_links s"
  shows "file_bytes s' p = Inr c" and "fs_faults s' = []"
proof -
  obtain l where l: "locate True s p = Inr l" "wrote_file (fs_nodes s) l c (fs_nodes s')"
      "fs_faults s' = []" "fs_cwd s' = fs_cwd s"
    using fs_write_result [OF assms] by blast
  have "locate False s' p = Inr l" using locate_created [OF l(1,2,4)] .
  then show "file_bytes s' p = Inr c"
    using l(2) by (simp add: file_bytes_def wrote_file_def)
  show "fs_faults s' = []" using l(3) .
qed

section \<open>Canonical locations\<close>

text \<open>Directories all the way down to the last name.\<close>

definition real_loc :: "nodes \<Rightarrow> loc \<Rightarrow> bool" where
  "real_loc ns l \<longleftrightarrow> (\<forall>k < length l. node_at ns (take k l) = Some DirNode)"

definition real_dir :: "nodes \<Rightarrow> loc \<Rightarrow> bool" where
  "real_dir ns l \<longleftrightarrow> real_loc ns l \<and> node_at ns l = Some DirNode"

lemma real_dir_Nil [simp]: "real_dir ns []"
  by (simp add: real_dir_def real_loc_def node_at_def)

lemma real_loc_snoc: "real_loc ns (l @ [n]) \<longleftrightarrow> real_dir ns l"
  by (auto simp: real_dir_def real_loc_def less_Suc_eq)

lemma real_dir_butlast: "real_dir ns l \<Longrightarrow> real_dir ns (butlast l)"
  by (cases l rule: rev_cases) (auto simp: real_loc_snoc real_dir_def)

lemma walk_real:
  "walk links allow ns cur p = Inr l \<Longrightarrow> real_dir ns cur \<Longrightarrow>
   real_loc ns l \<and> (\<forall>t. node_at ns l \<noteq> Some (LinkNode t)) \<and> (allow \<or> node_at ns l \<noteq> None)"
proof (induction links allow ns cur p rule: walk.induct)
  case (1 links allow ns cur)
  then show ?case by (auto simp: real_dir_def)
next
  case (2 links allow ns cur c cs)
  show ?case
  proof (cases c)
    case (Name n)
    show ?thesis
      using 2 Name by (auto simp: real_loc_snoc real_dir_def split: option.splits node.splits if_splits nat.splits)
  qed (use 2 in \<open>auto simp: real_dir_butlast\<close>)
qed

lemma walk_names:
  assumes "real_loc ns (cur @ l)" and "\<forall>t. node_at ns (cur @ l) \<noteq> Some (LinkNode t)"
    and "allow \<or> node_at ns (cur @ l) \<noteq> None"
  shows "walk links allow ns cur (map Name l) = Inr (cur @ l)"
  using assms
proof (induction l arbitrary: cur)
  case Nil
  then show ?case by simp
next
  case (Cons n l)
  show ?case
  proof (cases l)
    case Nil
    then show ?thesis using Cons.prems by (auto split: option.split node.split)
  next
    case (Cons m l')
    then have "node_at ns (cur @ [n]) = Some DirNode"
      using Cons.prems(1) unfolding real_loc_def by (auto dest!: spec [of _ "Suc (length cur)"])
    then show ?thesis using Cons.IH [of "cur @ [n]"] Cons.prems by simp
  qed
qed

lemma locate_real:
  "locate allow s p = Inr l \<Longrightarrow> real_dir (fs_nodes s) (fs_cwd s) \<Longrightarrow>
   real_loc (fs_nodes s) l \<and> (\<forall>t. node_at (fs_nodes s) l \<noteq> Some (LinkNode t)) \<and> (allow \<or> node_at (fs_nodes s) l \<noteq> None)"
  using walk_real by (auto simp: locate_def split: if_splits)

text \<open>A canonical path leads to its location, whatever the current directory.\<close>

lemma locate_canonical:
  assumes "real_loc (fs_nodes s) l" and "\<forall>t. node_at (fs_nodes s) l \<noteq> Some (LinkNode t)"
    and "allow \<or> node_at (fs_nodes s) l \<noteq> None"
  shows "locate allow s (path_of_loc l) = Inr l"
  using walk_names [of "fs_nodes s" "[]" l allow max_links] assms by (simp add: locate_def path_of_loc_def)

section \<open>What calls leave alone\<close>

definition same_files :: "fs \<Rightarrow> fs \<Rightarrow> bool" where
  "same_files s s' \<longleftrightarrow> fs_nodes s' = fs_nodes s \<and> fs_cwd s' = fs_cwd s"

lemma same_files_refl [simp]: "same_files s s"
  by (simp add: same_files_def)

lemma same_files_trans: "same_files s t \<Longrightarrow> same_files t u \<Longrightarrow> same_files s u"
  by (simp add: same_files_def)

lemma same_files_locate: "same_files s s' \<Longrightarrow> locate allow s' p = locate allow s p"
  by (simp add: same_files_def locate_def)

lemma same_files_bytes: "same_files s s' \<Longrightarrow> file_bytes s' p = file_bytes s p"
  by (simp add: file_bytes_def same_files_locate) (simp add: same_files_def)

lemma guarded_cases:
  assumes "guarded s f = (r, s')"
  obtains e where "r = Inl e" "same_files s s'"
  | s1 where "same_files s s1" "f s1 = (r, s')"
proof (cases "fs_faults s")
  case Nil
  then show ?thesis using assms that(2) [of s] by (simp add: guarded_def)
next
  case (Cons a q)
  then show ?thesis
    using assms that(1) that(2) [of "s\<lparr>fs_faults := q\<rparr>"]
    by (cases a) (auto simp: guarded_def same_files_def)
qed

lemma canonicalize_same:
  "fs_canonicalize p s = (r, s') \<Longrightarrow> same_files s s' \<and> (\<forall>l. r = Inr l \<longrightarrow> locate False s p = Inr l)"
  unfolding fs_canonicalize_def by (erule guarded_cases) (auto simp: same_files_locate)

lemma read_string_same:
  "fs_read_to_string p s = (r, s') \<Longrightarrow> same_files s s' \<and> (\<forall>c. r = Inr c \<longrightarrow> file_bytes s p = Inr c)"
  unfolding fs_read_to_string_def
  by (erule guarded_cases) (auto simp: same_files_bytes and_then_Inr split: if_splits)

lemma metadata_same: "fs_metadata_len p s = (r, s') \<Longrightarrow> same_files s s'"
  unfolding fs_metadata_len_def by (erule guarded_cases) auto

lemma io_bind_cases:
  assumes "io_bind m f = (r, s')"
  obtains e where "m = (Inl e, s')" "r = Inl e"
  | x s1 where "m = (Inr x, s1)" "f x s1 = (r, s')"
  using assms by (auto simp: io_bind_def split: prod.splits sum.splits)

lemma io_bind_same:
  assumes "io_bind m f = (r, s')" and "same_files s (snd m)"
    and "\<And>x s1 r s'. m = (Inr x, s1) \<Longrightarrow> f x s1 = (r, s') \<Longrightarrow> same_files s1 s'"
  shows "same_files s s'"
  using assms(1)
proof (cases rule: io_bind_cases)
  case (1 e)
  then show ?thesis using assms(2) by simp
next
  case (2 x s1)
  then show ?thesis using assms(2,3) same_files_trans by (metis snd_conv)
qed

text \<open>Only one location can change, and the directory stays.\<close>

definition changes_only :: "fs \<Rightarrow> fs \<Rightarrow> (loc \<Rightarrow> bool) \<Rightarrow> bool" where
  "changes_only s s' P \<longleftrightarrow>
     fs_cwd s' = fs_cwd s \<and> (\<forall>k. P k \<or> node_at (fs_nodes s') k = node_at (fs_nodes s) k)"

lemma same_changes_only: "same_files s s' \<Longrightarrow> changes_only s s' P"
  by (simp add: same_files_def changes_only_def)

lemma node_at_put_other: "k \<noteq> l \<Longrightarrow> node_at (put_node l n ns) k = node_at ns k"
proof -
  have "map_of (filter (\<lambda>(k, _). k \<noteq> l) ns) k = (if k = l then None else map_of ns k)"
    by (induction ns) auto
  then show "k \<noteq> l \<Longrightarrow> ?thesis"
    by (auto simp: node_at_def put_node_def map_add_def split: option.split)
qed

lemma put_changes_only: "P l \<Longrightarrow> changes_only s (s\<lparr>fs_nodes := put_node l n (fs_nodes s)\<rparr>) P"
  using node_at_put_other [of _ l n "fs_nodes s"] by (simp add: changes_only_def) metis

lemma changes_only_mono: "changes_only s s' P \<Longrightarrow> (\<And>k. P k \<Longrightarrow> Q k) \<Longrightarrow> changes_only s s' Q"
  by (auto simp: changes_only_def)

lemma changes_only_trans: "changes_only s t P \<Longrightarrow> changes_only t u P \<Longrightarrow> changes_only s u P"
  unfolding changes_only_def by metis

lemma create_changes:
  assumes "fs_create p s = (r, s')"
  shows "changes_only s s' (\<lambda>k. locate True s p = Inr k) \<and> (\<forall>l. r = Inr l \<longrightarrow> locate True s p = Inr l)"
  using assms unfolding fs_create_def
proof (cases rule: guarded_cases)
  case (1 e)
  then show ?thesis by (simp add: same_changes_only)
next
  case (2 s1)
  show ?thesis
  proof (cases "locate True s p")
    case (Inl e)
    then show ?thesis using 2 by (auto simp: same_files_locate same_changes_only)
  next
    case (Inr l)
    have "changes_only s (s1\<lparr>fs_nodes := put_node l (FileNode []) (fs_nodes s1)\<rparr>) (\<lambda>k. locate True s p = Inr k)"
      by (rule changes_only_trans [OF same_changes_only [OF 2(1)] put_changes_only]) (rule Inr)
    then show ?thesis
      using 2 Inr by (auto simp: same_files_locate same_changes_only split: option.splits node.splits)
  qed
qed

lemma append_changes: "fs_append l c s = (r, s') \<Longrightarrow> changes_only s s' (\<lambda>k. k = l)"
  unfolding fs_append_def
  by (erule guarded_cases)
    (auto simp: same_changes_only split: option.splits node.splits
      intro: changes_only_trans [OF same_changes_only put_changes_only])

text \<open>Writing to a canonical path changes at most its own location.\<close>

lemma write_changes:
  assumes "fs_write p c s = (r, s')"
  shows "changes_only s s' (\<lambda>k. locate True s p = Inr k)"
proof -
  obtain r1 s1 where cr: "fs_create p s = (r1, s1)" by fastforce
  show ?thesis
  proof (cases r1)
    case (Inl e)
    then show ?thesis using assms cr create_changes [OF cr] by (simp add: fs_write_def)
  next
    case (Inr l)
    then have ap: "fs_append l c s1 = (r, s')" using assms cr by (simp add: fs_write_def)
    show ?thesis
      using create_changes [OF cr] append_changes [OF ap] Inr
      unfolding changes_only_def by metis
  qed
qed

text \<open>Creating the directories to an existing location creates nothing.\<close>

lemma create_dir_all_existing:
  assumes "locate True s p = Inr l" and "node_at (fs_nodes s) l \<noteq> None"
  shows "same_files s (snd (fs_create_dir_all p s))"
proof -
  obtain r s' where run: "fs_create_dir_all p s = (r, s')" by fastforce
  then have "same_files s s'"
    unfolding fs_create_dir_all_def
  proof (cases rule: guarded_cases)
    case (2 s1)
    then have "locate True s1 p = Inr l" "node_at (fs_nodes s1) l \<noteq> None"
      using assms by (simp_all add: same_files_locate) (simp add: same_files_def)
    then show ?thesis
      using 2 by (subst (asm) make_dirs.simps) (auto split: if_splits option.splits node.splits)
  qed simp
  then show ?thesis using run by simp
qed

lemma walk_snoc:
  "no_links s \<Longrightarrow> walk links True (fs_nodes s) cur (p @ [Name n]) = Inr k \<Longrightarrow>
   walk links True (fs_nodes s) cur p = Inr l \<Longrightarrow> k = l @ [n]"
proof (induction p arbitrary: cur)
  case Nil
  then show ?case
    by (auto simp: no_links_def split: option.splits node.splits if_splits nat.splits)
next
  case (Cons c p)
  then show ?case
    by (auto simp: no_links_def split: component.splits option.splits node.splits if_splits nat.splits)
qed

lemma locate_child:
  "no_links s \<Longrightarrow> locate True s p = Inr l \<Longrightarrow> locate True s (p @ [Name n]) = Inr k \<Longrightarrow> k = l @ [n]"
  using walk_snoc by (auto simp: locate_def split: if_splits)

end
