(* ===== verification/SessionStore.thy ===== *)
theory SessionStore
  imports FileSys Conversation
begin

text \<open>
  Saved sessions, \<open>crates/runtime/src/session.rs\<close>: a line-delimited file of records, a pointer
  to the latest session, and the selectors that name a session. The clock is an argument. The
  encoding of one record is derived by serde: it is the pair \<open>enc\<close>, \<open>dec\<close> of a record codec.
\<close>

section \<open>Snapshots and records\<close>

record session_snapshot =
  snap_version :: u32
  snap_id :: string
  snap_model :: string
  snap_effort :: string
  snap_system_prompt :: string
  snap_created_at :: u64
  snap_updated_at :: u64
  snap_messages :: "input_message list"

definition session_version :: u32 where
  "session_version = 1"

definition snapshot_new ::
  "u64 \<Rightarrow> string \<Rightarrow> string \<Rightarrow> string \<Rightarrow> string \<Rightarrow> input_message list \<Rightarrow> session_snapshot" where
  "snapshot_new now i model effort system_prompt messages =
     \<lparr>snap_version = session_version, snap_id = i, snap_model = model, snap_effort = effort,
      snap_system_prompt = system_prompt, snap_created_at = now, snap_updated_at = now,
      snap_messages = messages\<rparr>"

definition runtime_snapshot :: "u64 \<Rightarrow> string \<Rightarrow> runtime \<Rightarrow> session_snapshot" where
  "runtime_snapshot now i rt =
     snapshot_new now i (rt_model rt) (effort_as_str (rt_reasoning_effort rt)) (rt_system_prompt rt) (rt_session rt)"

datatype session_record =
    Metadata u32 string string string string u64 u64
  | Message input_message

record session_summary =
  ssum_id :: string
  ssum_path :: path
  ssum_model :: string
  ssum_effort :: string
  ssum_created_at :: u64
  ssum_updated_at :: u64
  ssum_message_count :: nat

record record_codec =
  rc_enc :: "session_record \<Rightarrow> string + string"
  rc_dec :: "string \<Rightarrow> string + session_record"

text \<open>\<open>as_millis\<close> of the time since the epoch, saturated; zero before the epoch.\<close>

definition now_ms :: "nat option \<Rightarrow> u64" where
  "now_ms since_epoch =
     (case since_epoch of
        None \<Rightarrow> 0
      | Some nanos \<Rightarrow> (let ms = nanos div 10 ^ 6 in if ms < 2 ^ 64 then of_nat ms else - 1))"

definition new_session_id :: "u64 \<Rightarrow> string" where
  "new_session_id now = ''session-'' @ show_nat (unat now)"

section \<open>Writing\<close>

definition write_record :: "record_codec \<Rightarrow> loc \<Rightarrow> session_record \<Rightarrow> fs \<Rightarrow> (string + unit) \<times> fs" where
  "write_record rc file r s =
     (case rc_enc rc r of
        Inl e \<Rightarrow> (Inl (''failed to encode session: '' @ e), s)
      | Inr line \<Rightarrow>
          (case fs_append file (line @ nl) s of
             (Inl e, s') \<Rightarrow> (Inl (''failed to write session: '' @ show_io_error e), s')
           | (Inr _, s') \<Rightarrow> (Inr (), s')))"

fun write_records :: "record_codec \<Rightarrow> loc \<Rightarrow> session_record list \<Rightarrow> fs \<Rightarrow> (string + unit) \<times> fs" where
  "write_records rc file [] s = (Inr (), s)"
| "write_records rc file (r # rs) s =
     (case write_record rc file r s of
        (Inl e, s') \<Rightarrow> (Inl e, s')
      | (Inr _, s') \<Rightarrow> write_records rc file rs s')"

definition snapshot_metadata :: "u64 \<Rightarrow> session_snapshot \<Rightarrow> session_record" where
  "snapshot_metadata now snap =
     Metadata (snap_version snap) (snap_id snap) (snap_model snap) (snap_effort snap)
       (snap_system_prompt snap) (snap_created_at snap) now"

definition save_snapshot :: "record_codec \<Rightarrow> u64 \<Rightarrow> path \<Rightarrow> session_snapshot \<Rightarrow> fs \<Rightarrow> (string + unit) \<times> fs" where
  "save_snapshot rc now p snap s =
     (case (case path_parent p of
              None \<Rightarrow> (Inr (), s)
            | Some parent \<Rightarrow> fs_create_dir_all parent s) of
        (Inl e, s1) \<Rightarrow> (Inl (''failed to create session directory: '' @ show_io_error e), s1)
      | (Inr _, s1) \<Rightarrow>
          (case fs_create p s1 of
             (Inl e, s2) \<Rightarrow> (Inl (''failed to write session: '' @ show_io_error e), s2)
           | (Inr file, s2) \<Rightarrow>
               write_records rc file (snapshot_metadata now snap # map Message (snap_messages snap)) s2))"

section \<open>Reading\<close>

text \<open>The state of the loop over the lines: the last metadata, and the messages so far.\<close>

definition read_line ::
  "record_codec \<Rightarrow> (u32 \<times> string \<times> string \<times> string \<times> string \<times> u64 \<times> u64) option \<times> input_message list
    \<Rightarrow> string \<Rightarrow> string + (u32 \<times> string \<times> string \<times> string \<times> string \<times> u64 \<times> u64) option \<times> input_message list" where
  "read_line rc acc line =
     (if \<not> valid_utf8 line then Inl (''failed to read session: '' @ show_io_error InvalidUtf8)
      else if trim line = [] then Inr acc
      else case rc_dec rc line of
             Inl e \<Rightarrow> Inl (''invalid session record: '' @ e)
           | Inr (Metadata v i m r p c u) \<Rightarrow> Inr (Some (v, i, m, r, p, c, u), snd acc)
           | Inr (Message message) \<Rightarrow> Inr (fst acc, snd acc @ [message]))"

fun read_lines ::
  "record_codec \<Rightarrow> (u32 \<times> string \<times> string \<times> string \<times> string \<times> u64 \<times> u64) option \<times> input_message list
    \<Rightarrow> string list \<Rightarrow> string + (u32 \<times> string \<times> string \<times> string \<times> string \<times> u64 \<times> u64) option \<times> input_message list" where
  "read_lines rc acc [] = Inr acc"
| "read_lines rc acc (l # ls) =
     (case read_line rc acc l of Inl e \<Rightarrow> Inl e | Inr acc' \<Rightarrow> read_lines rc acc' ls)"

definition parse_snapshot :: "record_codec \<Rightarrow> string \<Rightarrow> string + session_snapshot" where
  "parse_snapshot rc text =
     (case read_lines rc (None, []) (str_lines text) of
        Inl e \<Rightarrow> Inl e
      | Inr (None, messages) \<Rightarrow> Inl ''session is missing metadata''
      | Inr (Some (v, i, m, r, p, c, u), messages) \<Rightarrow>
          if v \<noteq> session_version
          then Inl (''unsupported session version '' @ show_nat (unat v) @ ''; expected ''
                 @ show_nat (unat session_version))
          else Inr \<lparr>snap_version = v, snap_id = i, snap_model = m, snap_effort = r,
                 snap_system_prompt = p, snap_created_at = c, snap_updated_at = u,
                 snap_messages = messages\<rparr>)"

definition load_snapshot :: "record_codec \<Rightarrow> path \<Rightarrow> fs \<Rightarrow> (string + session_snapshot) \<times> fs" where
  "load_snapshot rc p s =
     (case fs_read p s of
        (Inl e, s') \<Rightarrow> (Inl (''failed to read session: '' @ show_io_error e), s')
      | (Inr text, s') \<Rightarrow> (parse_snapshot rc text, s'))"

section \<open>The store\<close>

text \<open>A store is its root directory.\<close>

definition store_for_workspace :: "path \<Rightarrow> path" where
  "store_for_workspace workspace = path_join (path_join workspace [Name ''.solarcido'']) [Name ''sessions'']"

definition path_for_id :: "path \<Rightarrow> string \<Rightarrow> path" where
  "path_for_id root i = path_join root (parse_path (i @ ''.jsonl''))"

definition store_save :: "record_codec \<Rightarrow> u64 \<Rightarrow> path \<Rightarrow> session_snapshot \<Rightarrow> fs \<Rightarrow> (string + path) \<times> fs" where
  "store_save rc now root snap s =
     (case fs_create_dir_all root s of
        (Inl e, s1) \<Rightarrow> (Inl (''failed to create session directory: '' @ show_io_error e), s1)
      | (Inr _, s1) \<Rightarrow>
          (let p = path_for_id root (snap_id snap) in
           case save_snapshot rc now p snap s1 of
             (Inl e, s2) \<Rightarrow> (Inl e, s2)
           | (Inr _, s2) \<Rightarrow>
               (case fs_write (path_join root [Name ''latest'']) (snap_id snap) s2 of
                  (Inl e, s3) \<Rightarrow> (Inl (''failed to update latest session pointer: '' @ show_io_error e), s3)
                | (Inr _, s3) \<Rightarrow> (Inr p, s3))))"

definition resolve_selector :: "path \<Rightarrow> string \<Rightarrow> fs \<Rightarrow> (string + path) \<times> fs" where
  "resolve_selector root selector s =
     (let p = parse_path selector in
      if is_absolute p \<or> ends_with selector ''.jsonl'' then (Inr p, s)
      else if selector = ''latest'' then
        (case fs_read_to_string (path_join root [Name ''latest'']) s of
           (Inl e, s') \<Rightarrow> (Inl (''failed to read latest session pointer: '' @ show_io_error e), s')
         | (Inr i, s') \<Rightarrow> (Inr (path_for_id root (trim i)), s'))
      else (Inr (path_for_id root selector), s))"

definition store_load :: "record_codec \<Rightarrow> path \<Rightarrow> string \<Rightarrow> fs \<Rightarrow> (string + session_snapshot) \<times> fs" where
  "store_load rc root selector s =
     (case resolve_selector root selector s of
        (Inl e, s') \<Rightarrow> (Inl e, s')
      | (Inr p, s') \<Rightarrow> load_snapshot rc p s')"

definition summarize :: "path \<Rightarrow> session_snapshot \<Rightarrow> session_summary" where
  "summarize p snap =
     \<lparr>ssum_id = snap_id snap, ssum_path = p, ssum_model = snap_model snap, ssum_effort = snap_effort snap,
      ssum_created_at = snap_created_at snap, ssum_updated_at = snap_updated_at snap,
      ssum_message_count = length (snap_messages snap)\<rparr>"

text \<open>The loop over the directory's entries: others than \<open>.jsonl\<close> are skipped.\<close>

fun load_entries :: "record_codec \<Rightarrow> path \<Rightarrow> string list \<Rightarrow> fs \<Rightarrow> (string + session_summary list) \<times> fs" where
  "load_entries rc root [] s = (Inr [], s)"
| "load_entries rc root (n # ns) s =
     (case fs_dir_entry n s of
        (Inl e, s1) \<Rightarrow> (Inl (''failed to read session: '' @ show_io_error e), s1)
      | (Inr _, s1) \<Rightarrow>
          (let p = path_join root [Name n] in
           if path_extension p \<noteq> Some ''jsonl'' then load_entries rc root ns s1
           else (case load_snapshot rc p s1 of
                   (Inl e, s2) \<Rightarrow> (Inl e, s2)
                 | (Inr snap, s2) \<Rightarrow>
                     (case load_entries rc root ns s2 of
                        (Inl e, s3) \<Rightarrow> (Inl e, s3)
                      | (Inr rest, s3) \<Rightarrow> (Inr (summarize p snap # rest), s3)))))"

text \<open>\<open>sort_by(|a, b| b.updated_at_ms.cmp(&a.updated_at_ms))\<close> is stable.\<close>

definition newest_first :: "session_summary list \<Rightarrow> session_summary list" where
  "newest_first xs = sort_key (\<lambda>x. 2 ^ 64 - unat (ssum_updated_at x)) xs"

definition store_list :: "record_codec \<Rightarrow> path \<Rightarrow> fs \<Rightarrow> (string + session_summary list) \<times> fs" where
  "store_list rc root s =
     (case fs_read_dir root s of
        (Inl NotFound, s') \<Rightarrow> (Inr [], s')
      | (Inl e, s') \<Rightarrow> (Inl (''failed to read session directory: '' @ show_io_error e), s')
      | (Inr names, s') \<Rightarrow>
          (case load_entries rc root names s' of
             (Inl e, s'') \<Rightarrow> (Inl e, s'')
           | (Inr sessions, s'') \<Rightarrow> (Inr (newest_first sessions), s'')))"

section \<open>Round trip of the text\<close>

text \<open>What serde promises of the record codec: single lines that decode to what was encoded.\<close>

definition enc_line :: "record_codec \<Rightarrow> session_record \<Rightarrow> string" where
  "enc_line rc r = (case rc_enc rc r of Inl _ \<Rightarrow> [] | Inr line \<Rightarrow> line)"

definition record_ok :: "record_codec \<Rightarrow> session_record \<Rightarrow> bool" where
  "record_ok rc r \<longleftrightarrow>
     rc_enc rc r = Inr (enc_line rc r) \<and>
     rc_dec rc (enc_line rc r) = Inr r \<and> trim (enc_line rc r) \<noteq> [] \<and> valid_utf8 (enc_line rc r)
     \<and> CHR 0x0A \<notin> set (enc_line rc r) \<and> CHR 0x0D \<notin> set (enc_line rc r)"

definition snapshot_records :: "u64 \<Rightarrow> session_snapshot \<Rightarrow> session_record list" where
  "snapshot_records now snap = snapshot_metadata now snap # map Message (snap_messages snap)"

definition snapshot_text :: "record_codec \<Rightarrow> u64 \<Rightarrow> session_snapshot \<Rightarrow> string" where
  "snapshot_text rc now snap = concat (map (\<lambda>r. enc_line rc r @ nl) (snapshot_records now snap))"

lemma str_lines_records:
  "list_all (record_ok rc) rs \<Longrightarrow> str_lines (concat (map (\<lambda>r. enc_line rc r @ nl) rs)) = map (enc_line rc) rs"
proof (induction rs)
  case Nil
  then show ?case by simp
next
  case (Cons r rs)
  then show ?case
    using str_lines_cons [of "enc_line rc r"] by (simp add: record_ok_def)
qed

lemma read_line_enc:
  "record_ok rc r \<Longrightarrow> read_line rc acc (enc_line rc r) =
     Inr (case r of Metadata v i m e p c u \<Rightarrow> (Some (v, i, m, e, p, c, u), snd acc)
          | Message message \<Rightarrow> (fst acc, snd acc @ [message]))"
  by (cases r) (simp_all add: read_line_def record_ok_def)

lemma read_messages:
  "list_all (record_ok rc) (map Message msgs) \<Longrightarrow>
   read_lines rc (meta, ms) (map (enc_line rc) (map Message msgs)) = Inr (meta, ms @ msgs)"
  by (induction msgs arbitrary: ms) (simp_all add: read_line_enc)

lemma parse_written:
  assumes ok: "list_all (record_ok rc) (snapshot_records now snap)" and version: "snap_version snap = session_version"
  shows "parse_snapshot rc (snapshot_text rc now snap) = Inr (snap\<lparr>snap_updated_at := now\<rparr>)"
proof -
  have head: "record_ok rc (snapshot_metadata now snap)"
      and rest: "list_all (record_ok rc) (map Message (snap_messages snap))"
    using ok by (simp_all add: snapshot_records_def)
  have "read_lines rc (None, []) (map (enc_line rc) (snapshot_records now snap))
      = Inr (Some (snap_version snap, snap_id snap, snap_model snap, snap_effort snap, snap_system_prompt snap,
          snap_created_at snap, now), snap_messages snap)"
    using read_messages [OF rest, of _ "[]"]
    by (simp add: snapshot_records_def read_line_enc [OF head]) (simp add: snapshot_metadata_def)
  then show ?thesis
    unfolding parse_snapshot_def snapshot_text_def str_lines_records [OF ok] using version by simp
qed

section \<open>Round trip through the file system\<close>

lemma write_records_result:
  assumes "list_all (record_ok rc) rs" and "fs_faults s = []"
    and "node_at (fs_nodes s) l = Some (FileNode old)" and "l \<noteq> []"
  shows "\<exists>ns. write_records rc l rs s = (Inr (), s\<lparr>fs_nodes := ns\<rparr>)
    \<and> node_at ns l = Some (FileNode (old @ concat (map (\<lambda>r. enc_line rc r @ nl) rs)))
    \<and> (\<forall>k. k \<noteq> l \<longrightarrow> node_at ns k = node_at (fs_nodes s) k)"
  using assms
proof (induction rs arbitrary: s old)
  case Nil
  then show ?case by (intro exI [of _ "fs_nodes s"]) simp
next
  case (Cons r rs)
  let ?s = "s\<lparr>fs_nodes := put_node l (FileNode (old @ enc_line rc r @ nl)) (fs_nodes s)\<rparr>"
  have w: "write_record rc l r s = (Inr (), ?s)"
    using Cons.prems by (simp add: write_record_def fs_append_def guarded_no_fault record_ok_def)
  obtain ns where "write_records rc l rs ?s = (Inr (), ?s\<lparr>fs_nodes := ns\<rparr>)"
      "node_at ns l = Some (FileNode ((old @ enc_line rc r @ nl) @ concat (map (\<lambda>r. enc_line rc r @ nl) rs)))"
      "\<forall>k. k \<noteq> l \<longrightarrow> node_at ns k = node_at (fs_nodes ?s) k"
    using Cons.IH [of ?s "old @ enc_line rc r @ nl"] Cons.prems by (auto simp: node_at_put)
  then show ?case
    using w Cons.prems(4) by (intro exI [of _ ns]) (simp add: node_at_put)
qed

lemma split_on_append:
  "d \<notin> set t \<Longrightarrow> split_on d acc (i @ t) = butlast (split_on d acc i) @ [last (split_on d acc i) @ t]"
proof (induction d acc i rule: split_on.induct)
  case (1 d acc)
  have "d \<notin> set t \<Longrightarrow> split_on d acc t = [acc @ t]" for acc
    by (induction t arbitrary: acc) auto
  then show ?case using 1 by simp
next
  case (2 d acc c cs)
  have "split_on d x y \<noteq> []" for x y
    by (induction d x y rule: split_on.induct) auto
  then show ?case using 2 by simp
qed

lemma parse_path_jsonl: "\<exists>pre n. parse_path (i @ ''.jsonl'') = pre @ [Name (n @ ''.jsonl'')]"
proof -
  let ?n = "last (split_on (CHR ''/'') [] i)"
  have parts: "split_on (CHR ''/'') [] (i @ ''.jsonl'') = butlast (split_on (CHR ''/'') [] i) @ [?n @ ''.jsonl'']"
    by (rule split_on_append) simp
  have len: "length (?n @ ''.jsonl'') \<noteq> length ''..''" "length (?n @ ''.jsonl'') \<noteq> length ''.''" by simp_all
  then have ne: "?n @ ''.jsonl'' \<noteq> ''..''" "?n @ ''.jsonl'' \<noteq> ''.''" by metis+
  then have "component_of (?n @ ''.jsonl'') = Name (?n @ ''.jsonl'')"
    by (simp add: component_of_def)
  then show ?thesis
    using ne unfolding parse_path_def Let_def parts by (simp add: Let_def)
qed

lemma path_for_id_jsonl: "\<exists>pre n. path_for_id root i = pre @ [Name (n @ ''.jsonl'')]"
proof -
  obtain pre n where p: "parse_path (i @ ''.jsonl'') = pre @ [Name (n @ ''.jsonl'')]"
    using parse_path_jsonl by blast
  show ?thesis
    unfolding path_for_id_def path_join_def p by auto
qed

lemma jsonl_not_latest: "n @ ''.jsonl'' \<noteq> ''latest''"
proof
  assume "n @ ''.jsonl'' = ''latest''"
  then have "last (n @ ''.jsonl'') = last ''latest''" by (rule arg_cong)
  then show False by simp
qed

text \<open>What a successful save leaves behind: the file of the snapshot, then the pointer.\<close>

lemma save_snapshot_result:
  assumes ok: "list_all (record_ok rc) (snapshot_records now snap)"
    and saved: "save_snapshot rc now p snap s = (Inr (), s')" and plain_fs: "fs_faults s = []" "no_links s"
  shows "\<exists>s1 l. locate True s1 p = Inr l \<and> no_links s1 \<and> fs_cwd s' = fs_cwd s1
    \<and> wrote_file (fs_nodes s1) l (snapshot_text rc now snap) (fs_nodes s')
    \<and> fs_faults s' = [] \<and> no_links s'"
proof -
  obtain r2 s2 where dd: "(case path_parent p of None \<Rightarrow> (Inr (), s) | Some parent \<Rightarrow> fs_create_dir_all parent s) = (r2, s2)"
    by fastforce
  then have d2: "(case path_parent p of None \<Rightarrow> (Inr (), s) | Some parent \<Rightarrow> fs_create_dir_all parent s) = (Inr (), s2)"
    using saved by (cases r2) (auto simp: save_snapshot_def)
  then obtain l s3 where cr: "fs_create p s2 = (Inr l, s3)" and wr: "write_records rc l (snapshot_records now snap) s3 = (Inr (), s')"
    using saved by (auto simp: save_snapshot_def snapshot_records_def split: sum.splits prod.splits)
  have f2: "no_links s2" "fs_faults s2 = []"
    using d2 plain_fs make_dirs_frame by (auto simp: fs_create_dir_all_def guarded_no_fault split: option.splits)+
  note c = fs_create_result [OF cr f2(2)]
  have plain: "plain_node (node_at (fs_nodes s2) l)" using c no_links_plain [OF f2(1)] by blast
  then have ne: "l \<noteq> []" by (auto simp: plain_node_def node_at_def)
  have start: "fs_faults s3 = []" "node_at (fs_nodes s3) l = Some (FileNode [])"
    using c f2(2) ne by (simp_all add: node_at_put)
  obtain ns where written: "write_records rc l (snapshot_records now snap) s3 = (Inr (), s3\<lparr>fs_nodes := ns\<rparr>)"
      and bytes: "node_at ns l = Some (FileNode (snapshot_text rc now snap))"
      and others: "\<forall>k. k \<noteq> l \<longrightarrow> node_at ns k = node_at (fs_nodes s3) k"
    using write_records_result [OF ok start ne] unfolding append_Nil snapshot_text_def by blast
  have n3: "fs_nodes s3 = put_node l (FileNode []) (fs_nodes s2)" using c by simp
  have same: "\<forall>k. k \<noteq> l \<longrightarrow> node_at ns k = node_at (fs_nodes s2) k"
    using others ne by (simp add: n3 node_at_put)
  have s': "s' = s3\<lparr>fs_nodes := ns\<rparr>" using written unfolding wr by simp
  then have n': "fs_nodes s' = ns" by simp
  have w: "wrote_file (fs_nodes s2) l (snapshot_text rc now snap) (fs_nodes s')"
    unfolding wrote_file_def n' using plain bytes same by blast
  moreover have "fs_faults s' = []" "fs_cwd s' = fs_cwd s2"
    using s' c f2(2) by simp_all
  ultimately show ?thesis
    using c f2(1) wrote_file_no_links [OF f2(1) w] by blast
qed

lemma store_save_result:
  assumes "list_all (record_ok rc) (snapshot_records now snap)" and "snap_version snap = session_version"
    and "fs_faults s = []" and "no_links s"
    and saved: "store_save rc now root snap s = (Inr p, s')"
  shows "p = path_for_id root (snap_id snap) \<and> fs_faults s' = []
    \<and> (\<exists>bytes. file_bytes s' p = Inr bytes \<and> parse_snapshot rc bytes = Inr (snap\<lparr>snap_updated_at := now\<rparr>))
    \<and> file_bytes s' (path_join root [Name ''latest'']) = Inr (snap_id snap)"
proof -
  let ?p = "path_for_id root (snap_id snap)"
  let ?latest = "path_join root [Name ''latest'']"
  obtain r1 s1 r4 s4 where d: "fs_create_dir_all root s = (r1, s1)" and sv: "save_snapshot rc now ?p snap s1 = (r4, s4)"
    by (metis surj_pair)
  then have d1: "fs_create_dir_all root s = (Inr (), s1)" and save: "save_snapshot rc now ?p snap s1 = (Inr (), s4)"
    using saved by (cases r1; cases r4; auto simp: store_save_def Let_def)+
  have wl: "fs_write ?latest (snap_id snap) s4 = (Inr (), s')" and p: "p = ?p"
    using saved d1 save by (auto simp: store_save_def Let_def split: sum.splits prod.splits)
  have f1: "no_links s1" "fs_faults s1 = []"
    using d1 make_dirs_frame [of root s] assms(3,4) by (auto simp: fs_create_dir_all_def guarded_no_fault)
  obtain s2 l where l: "locate True s2 ?p = Inr l" "no_links s2" "fs_cwd s4 = fs_cwd s2"
      "wrote_file (fs_nodes s2) l (snapshot_text rc now snap) (fs_nodes s4)" "fs_faults s4 = []" "no_links s4"
    using save_snapshot_result [OF assms(1) save f1(2,1)] by blast
  obtain l2 where l2: "locate True s4 ?latest = Inr l2" "wrote_file (fs_nodes s4) l2 (snap_id snap) (fs_nodes s')"
      "fs_faults s' = []" "fs_cwd s' = fs_cwd s4"
    using fs_write_result [OF wl l(5,6)] by blast
  obtain pre n where jn: "?p = pre @ [Name (n @ ''.jsonl'')]" using path_for_id_jsonl by blast
  have "?latest = (if root = [] then [] else root) @ [Name ''latest'']"
    by (simp add: path_join_def is_absolute_def)
  then obtain pre2 where ln: "?latest = pre2 @ [Name ''latest'']" by blast
  have diff: "l \<noteq> l2"
    using locate_last [OF l(2) l(1) [unfolded jn]] locate_last [OF l(6) l2(1) [unfolded ln]] jsonl_not_latest by metis
  have "locate False s' ?p = Inr l"
    using locate_after_write [OF locate_created [OF l(1,4,3)] l2(2,4)] .
  moreover have "node_at (fs_nodes s') l = Some (FileNode (snapshot_text rc now snap))"
    using l2(2) diff l(4) by (simp add: wrote_file_def)
  moreover have "locate False s' ?latest = Inr l2"
    using locate_created [OF l2(1,2,4)] .
  moreover have "node_at (fs_nodes s') l2 = Some (FileNode (snap_id snap))"
    using l2(2) by (simp add: wrote_file_def)
  ultimately show ?thesis
    using p l2(3) parse_written [OF assms(1,2)] by (simp add: file_bytes_def)
qed

text \<open>
  C11: On files without links and while no call to them fails, a session that was saved loads again, right
  after it, under its id and under the selector \<open>latest\<close>, equal to what was saved but for the time of the
  update. The codec reads back each record it wrote, as one line; the snapshot has the current version; and
  its id is valid UTF-8 without blanks at its ends, is not an absolute path, does not end in \<open>.jsonl\<close> and is
  not \<open>latest\<close>: a session with one of these ids is saved under a path that its id does not select.
\<close>

theorem session_round_trip:
  assumes "list_all (record_ok rc) (snapshot_records now snap)" and "snap_version snap = session_version"
    and "fs_faults s = []" and "no_links s"
    and "store_save rc now root snap s = (Inr p, s')"
    and "\<not> is_absolute (parse_path (snap_id snap))" and "\<not> ends_with (snap_id snap) ''.jsonl''"
    and "snap_id snap \<noteq> ''latest''" and "trim (snap_id snap) = snap_id snap" and "valid_utf8 (snap_id snap)"
  shows "fst (store_load rc root (snap_id snap) s') = Inr (snap\<lparr>snap_updated_at := now\<rparr>)
    \<and> fst (store_load rc root ''latest'' s') = Inr (snap\<lparr>snap_updated_at := now\<rparr>)"
proof -
  note r = store_save_result [OF assms(1-5)]
  have load: "fst (load_snapshot rc (path_for_id root (snap_id snap)) s') = Inr (snap\<lparr>snap_updated_at := now\<rparr>)"
    using r by (auto simp: load_snapshot_def fs_read_def guarded_no_fault)
  have "\<not> is_absolute (parse_path ''latest'')" "\<not> ends_with ''latest'' ''.jsonl''" by code_simp+
  then show ?thesis
    using load r assms(6-10)
    by (auto simp: store_load_def resolve_selector_def Let_def fs_read_to_string_def guarded_no_fault)
qed

text \<open>A codec that tells metadata of one snapshot from one message, and a store in an empty directory.\<close>

definition sample_snapshot :: session_snapshot where
  "sample_snapshot = snapshot_new 7 ''s1'' ''solar'' ''low'' ''be brief'' [user_text ''hi'']"

definition sample_codec :: record_codec where
  "sample_codec = \<lparr>rc_enc = (\<lambda>r. case r of Metadata _ _ _ _ _ _ _ \<Rightarrow> Inr ''meta'' | Message _ \<Rightarrow> Inr ''message''),
     rc_dec = (\<lambda>line. if line = ''meta'' then Inr (snapshot_metadata 9 sample_snapshot)
       else if line = ''message'' then Inr (Message (user_text ''hi'')) else Inl ''unknown'')\<rparr>"

definition sample_fs :: fs where
  "sample_fs = \<lparr>fs_nodes = [([''w''], DirNode)], fs_cwd = [''w''], fs_faults = []\<rparr>"

definition sample_save :: "(string + path) \<times> fs" where
  "sample_save = store_save sample_codec 9 (store_for_workspace [RootDir, Name ''w'']) sample_snapshot sample_fs"

theorem session_round_trip_witness:
  "fst sample_save = Inr (path_for_id (store_for_workspace [RootDir, Name ''w'']) ''s1'')
   \<and> fst (store_load sample_codec (store_for_workspace [RootDir, Name ''w'']) ''latest'' (snd sample_save))
     = Inr (sample_snapshot\<lparr>snap_updated_at := 9\<rparr>)"
proof -
  have saved: "fst sample_save = Inr (path_for_id (store_for_workspace [RootDir, Name ''w'']) ''s1'')" by code_simp
  then have save: "store_save sample_codec 9 (store_for_workspace [RootDir, Name ''w'']) sample_snapshot sample_fs
      = (Inr (path_for_id (store_for_workspace [RootDir, Name ''w'']) ''s1''), snd sample_save)"
    by (metis prod.collapse sample_save_def)
  have "list_all (record_ok sample_codec) (snapshot_records 9 sample_snapshot)" by code_simp
  moreover have "snap_version sample_snapshot = session_version" "fs_faults sample_fs = []" by code_simp+
  moreover have "no_links sample_fs"
    by (simp add: no_links_def sample_fs_def node_at_def)
  moreover have "\<not> is_absolute (parse_path (snap_id sample_snapshot))" "\<not> ends_with (snap_id sample_snapshot) ''.jsonl''"
      "snap_id sample_snapshot \<noteq> ''latest''" "trim (snap_id sample_snapshot) = snap_id sample_snapshot"
      "valid_utf8 (snap_id sample_snapshot)"
    by code_simp+
  ultimately show ?thesis
    using session_round_trip [OF _ _ _ _ save] saved by simp
qed

end
