(* ===== verification/Mcp.thy ===== *)
theory Mcp
  imports Json Machines Utf8
begin

text \<open>
  MCP server configuration and the connection manager of \<open>crates/runtime/src/mcp.rs\<close>, and the
  read-only adapter of \<open>crates/runtime/src/mcp_tool_adapter.rs\<close>. Errors are their messages.
\<close>

section \<open>Configuration\<close>

record mcp_stdio_config =
  stdio_command :: string
  stdio_args :: "string list"
  stdio_env :: "(string, string) btree"
  stdio_timeout_ms :: "u64 option"

record mcp_remote_config =
  remote_url :: string
  remote_headers :: "(string, string) btree"
  remote_headers_helper :: "string option"

datatype mcp_server_config =
    Stdio mcp_stdio_config
  | Http mcp_remote_config
  | SseServer mcp_remote_config
  | Ws mcp_remote_config
  | Sdk string

type_synonym mcp_config = "(string, mcp_server_config) btree"

definition mcp_config_is_empty :: "mcp_config \<Rightarrow> bool" where
  "mcp_config_is_empty c \<longleftrightarrow> c = []"

fun transport :: "mcp_server_config \<Rightarrow> string" where
  "transport (Stdio _) = ''stdio''"
| "transport (Http _) = ''http''"
| "transport (SseServer _) = ''sse''"
| "transport (Ws _) = ''ws''"
| "transport (Sdk _) = ''sdk''"

fun server_summary :: "mcp_server_config \<Rightarrow> string" where
  "server_summary (Stdio c) = ''stdio: '' @ join '' '' (stdio_command c # stdio_args c)"
| "server_summary (Http c) = transport (Http c) @ '': '' @ remote_url c"
| "server_summary (SseServer c) = transport (SseServer c) @ '': '' @ remote_url c"
| "server_summary (Ws c) = ''ws: '' @ remote_url c"
| "server_summary (Sdk name) = ''sdk: '' @ name"

definition validate_stdio :: "mcp_stdio_config \<Rightarrow> string + unit" where
  "validate_stdio c =
     (if trim (stdio_command c) = [] then Inl ''command must not be empty''
      else if stdio_timeout_ms c = Some 0 then Inl ''toolCallTimeoutMs must be greater than zero''
      else Inr ())"

definition validate_remote :: "mcp_remote_config \<Rightarrow> string + unit" where
  "validate_remote c = (if trim (remote_url c) = [] then Inl ''url must not be empty'' else Inr ())"

definition validate_sdk :: "string \<Rightarrow> string + unit" where
  "validate_sdk name = (if trim name = [] then Inl ''name must not be empty'' else Inr ())"

fun validate_server :: "mcp_server_config \<Rightarrow> string + unit" where
  "validate_server (Stdio c) = validate_stdio c"
| "validate_server (Http c) = validate_remote c"
| "validate_server (SseServer c) = validate_remote c"
| "validate_server (Ws c) = validate_remote c"
| "validate_server (Sdk name) = validate_sdk name"

definition validate_mcp_config :: "mcp_config \<Rightarrow> string + unit" where
  "validate_mcp_config servers =
     try_each (\<lambda>(server_name, server).
       if trim server_name = [] then Inl ''MCP server names must not be empty''
       else map_err (\<lambda>e. ''MCP server `'' @ server_name @ ''`: '' @ e) (validate_server server)) servers"

section \<open>The connection manager\<close>

datatype mcp_status = Disconnected | Connecting | Connected | AuthRequired | StatusError

fun mcp_status_text :: "mcp_status \<Rightarrow> string" where
  "mcp_status_text Disconnected = ''disconnected''"
| "mcp_status_text Connecting = ''connecting''"
| "mcp_status_text Connected = ''connected''"
| "mcp_status_text AuthRequired = ''auth_required''"
| "mcp_status_text StatusError = ''error''"

record mcp_resource =
  res_uri :: string
  res_name :: string
  res_description :: "string option"
  res_mime_type :: "string option"

record mcp_tool =
  mt_name :: string
  mt_description :: "string option"
  mt_input_schema :: "json option"

record mcp_server_state =
  srv_name :: string
  srv_config :: mcp_server_config
  srv_status :: mcp_status
  srv_tools :: "mcp_tool list"
  srv_resources :: "mcp_resource list"
  srv_info :: "string option"
  srv_error :: "string option"

type_synonym mcp_manager = "(string, mcp_server_state) btree"

definition register_server :: "string \<Rightarrow> mcp_server_config \<Rightarrow> mcp_manager \<Rightarrow> mcp_manager" where
  "register_server server_name config m =
     bt_insert server_name
       \<lparr>srv_name = server_name, srv_config = config, srv_status = Disconnected, srv_tools = [],
        srv_resources = [], srv_info = None, srv_error = None\<rparr> m"

definition manager_from_config :: "mcp_config \<Rightarrow> mcp_manager" where
  "manager_from_config config = fold (\<lambda>(server_name, server). register_server server_name server) config []"

definition list_servers :: "mcp_manager \<Rightarrow> mcp_server_state list" where
  "list_servers m = bt_values m"

definition get_server :: "mcp_manager \<Rightarrow> string \<Rightarrow> mcp_server_state option" where
  "get_server m server_name = bt_get m server_name"

definition unknown_server :: "string \<Rightarrow> string" where
  "unknown_server server_name = ''unknown MCP server `'' @ server_name @ ''`''"

text \<open>What the five setters share: \<open>get_mut\<close> or the error, then one assignment.\<close>

definition update_server ::
  "string \<Rightarrow> (mcp_server_state \<Rightarrow> mcp_server_state) \<Rightarrow> mcp_manager \<Rightarrow> (string + unit) \<times> mcp_manager" where
  "update_server server_name f m =
     (case bt_get m server_name of
        None \<Rightarrow> (Inl (unknown_server server_name), m)
      | Some _ \<Rightarrow> (Inr (), bt_adjust server_name f m))"

definition set_status :: "string \<Rightarrow> mcp_status \<Rightarrow> mcp_manager \<Rightarrow> (string + unit) \<times> mcp_manager" where
  "set_status server_name status = update_server server_name (\<lambda>s. s\<lparr>srv_status := status\<rparr>)"

definition set_server_info :: "string \<Rightarrow> string option \<Rightarrow> mcp_manager \<Rightarrow> (string + unit) \<times> mcp_manager" where
  "set_server_info server_name info = update_server server_name (\<lambda>s. s\<lparr>srv_info := info\<rparr>)"

definition set_tools :: "string \<Rightarrow> mcp_tool list \<Rightarrow> mcp_manager \<Rightarrow> (string + unit) \<times> mcp_manager" where
  "set_tools server_name tools = update_server server_name (\<lambda>s. s\<lparr>srv_tools := tools\<rparr>)"

definition set_resources :: "string \<Rightarrow> mcp_resource list \<Rightarrow> mcp_manager \<Rightarrow> (string + unit) \<times> mcp_manager" where
  "set_resources server_name resources = update_server server_name (\<lambda>s. s\<lparr>srv_resources := resources\<rparr>)"

definition set_error_message :: "string \<Rightarrow> string option \<Rightarrow> mcp_manager \<Rightarrow> (string + unit) \<times> mcp_manager" where
  "set_error_message server_name message = update_server server_name (\<lambda>s. s\<lparr>srv_error := message\<rparr>)"

text \<open>The two guards of every read: the server is known, and connected.\<close>

definition connected_server :: "mcp_manager \<Rightarrow> string \<Rightarrow> string + mcp_server_state" where
  "connected_server m server_name =
     (case bt_get m server_name of
        None \<Rightarrow> Inl (unknown_server server_name)
      | Some s \<Rightarrow>
          if srv_status s \<noteq> Connected
          then Inl (''server `'' @ server_name @ ''` is not connected (status: '' @ mcp_status_text (srv_status s) @ '')'')
          else Inr s)"

definition list_resources :: "mcp_manager \<Rightarrow> string \<Rightarrow> string + mcp_resource list" where
  "list_resources m server_name = map_sum id srv_resources (connected_server m server_name)"

definition read_resource :: "mcp_manager \<Rightarrow> string \<Rightarrow> string \<Rightarrow> string + mcp_resource" where
  "read_resource m server_name uri =
     and_then (connected_server m server_name) (\<lambda>s.
       ok_or (''resource `'' @ uri @ ''` not found on MCP server `'' @ server_name @ ''`'')
         (find (\<lambda>r. res_uri r = uri) (srv_resources s)))"

definition list_tools :: "mcp_manager \<Rightarrow> string \<Rightarrow> string + mcp_tool list" where
  "list_tools m server_name = map_sum id srv_tools (connected_server m server_name)"

section \<open>Names\<close>

definition mcp_name_char :: "string \<Rightarrow> bool" where
  "mcp_name_char ch \<longleftrightarrow>
     (case ch of
        [c] \<Rightarrow> (let n = of_char c :: nat in
                97 \<le> n \<and> n \<le> 122 \<or> 65 \<le> n \<and> n \<le> 90 \<or> 48 \<le> n \<and> n \<le> 57 \<or> c = CHR ''_'' \<or> c = CHR ''-'')
      | _ \<Rightarrow> False)"

fun collapse_from :: "bool \<Rightarrow> string \<Rightarrow> string" where
  "collapse_from last_was_underscore [] = []"
| "collapse_from last_was_underscore (ch # chs) =
     (if ch = CHR ''_''
      then (if last_was_underscore then [] else [ch]) @ collapse_from True chs
      else ch # collapse_from False chs)"

definition collapse_underscores :: "string \<Rightarrow> string" where
  "collapse_underscores value = collapse_from False value"

definition trim_matches :: "char \<Rightarrow> string \<Rightarrow> string" where
  "trim_matches c s = trim_end_matches c (trim_start_matches c s)"

definition normalize_name_for_mcp :: "string \<Rightarrow> string" where
  "normalize_name_for_mcp name =
     (let normalized = concat (map (\<lambda>ch. if mcp_name_char ch then ch else ''_'') (str_chars name)) in
      if starts_with name ''claude.ai '' then trim_matches (CHR ''_'') (collapse_underscores normalized)
      else normalized)"

definition mcp_tool_prefix :: "string \<Rightarrow> string" where
  "mcp_tool_prefix server_name = ''mcp__'' @ normalize_name_for_mcp server_name @ ''__''"

definition mcp_tool_name :: "string \<Rightarrow> string \<Rightarrow> string" where
  "mcp_tool_name server_name tool_name = mcp_tool_prefix server_name @ normalize_name_for_mcp tool_name"

section \<open>The configuration hash\<close>

definition stable_hex_hash :: "string \<Rightarrow> string" where
  "stable_hex_hash value = hex16 (fnv_hash value)"

definition rendered_config :: "string \<Rightarrow> mcp_server_config \<Rightarrow> string" where
  "rendered_config server_name config =
     (case config of
        Stdio c \<Rightarrow> server_name @ ''|stdio|'' @ stdio_command c @ ''|'' @ join '' '' (stdio_args c) @ ''|''
            @ (case stdio_timeout_ms c of None \<Rightarrow> [] | Some t \<Rightarrow> show_nat (unat t))
      | Http c \<Rightarrow> server_name @ ''|'' @ transport config @ ''|'' @ remote_url c
      | SseServer c \<Rightarrow> server_name @ ''|'' @ transport config @ ''|'' @ remote_url c
      | Ws c \<Rightarrow> server_name @ ''|ws|'' @ remote_url c
      | Sdk name \<Rightarrow> server_name @ ''|sdk|'' @ name)"

definition scoped_mcp_config_hash :: "string \<Rightarrow> mcp_server_config \<Rightarrow> string" where
  "scoped_mcp_config_hash server_name config = stable_hex_hash (rendered_config server_name config)"

section \<open>The adapter\<close>

record mcp_server_summary =
  sum_name :: string
  sum_transport :: string
  sum_summary :: string
  sum_status :: string

definition summary_of :: "mcp_server_state \<Rightarrow> mcp_server_summary" where
  "summary_of s = \<lparr>sum_name = srv_name s, sum_transport = transport (srv_config s),
     sum_summary = server_summary (srv_config s), sum_status = mcp_status_text (srv_status s)\<rparr>"

definition server_summaries :: "mcp_manager \<Rightarrow> mcp_server_summary list" where
  "server_summaries m = map summary_of (list_servers m)"

definition server_report :: "mcp_manager \<Rightarrow> string \<Rightarrow> string + mcp_server_state" where
  "server_report m server_name = ok_or (unknown_server server_name) (get_server m server_name)"

definition render_mcp_server_summary_text :: "mcp_manager \<Rightarrow> string" where
  "render_mcp_server_summary_text m =
     (let servers = server_summaries m in
      if servers = [] then ''No MCP servers configured.''
      else trim_end (''Configured MCP servers:'' @ nl
        @ concat (map (\<lambda>s. ''  '' @ sum_name s @ ''  transport='' @ sum_transport s @ ''  status=''
            @ sum_status s @ ''  '' @ sum_summary s @ nl) servers)))"

definition summary_json :: "mcp_server_summary \<Rightarrow> json" where
  "summary_json s = jobj [(''name'', JStr (sum_name s)), (''transport'', JStr (sum_transport s)),
     (''summary'', JStr (sum_summary s)), (''status'', JStr (sum_status s))]"

definition render_mcp_server_summary_json :: "mcp_manager \<Rightarrow> json" where
  "render_mcp_server_summary_json m =
     jobj [(''count'', jnat (length (server_summaries m))),
           (''servers'', JArr (map summary_json (server_summaries m)))]"

section \<open>Operations as inputs\<close>

text \<open>Every operation that changes the manager; each keeps the map sorted and its keys true.\<close>

datatype mcp_op =
    RegisterServer string mcp_server_config
  | SetStatus string mcp_status
  | SetServerInfo string "string option"
  | SetTools string "mcp_tool list"
  | SetResources string "mcp_resource list"
  | SetErrorMessage string "string option"

fun apply_mcp_op :: "mcp_op \<Rightarrow> mcp_manager \<Rightarrow> mcp_manager" where
  "apply_mcp_op (RegisterServer n c) m = register_server n c m"
| "apply_mcp_op (SetStatus n s) m = snd (set_status n s m)"
| "apply_mcp_op (SetServerInfo n i) m = snd (set_server_info n i m)"
| "apply_mcp_op (SetTools n t) m = snd (set_tools n t m)"
| "apply_mcp_op (SetResources n r) m = snd (set_resources n r m)"
| "apply_mcp_op (SetErrorMessage n e) m = snd (set_error_message n e m)"

fun op_server :: "mcp_op \<Rightarrow> string" where
  "op_server (RegisterServer n _) = n"
| "op_server (SetStatus n _) = n"
| "op_server (SetServerInfo n _) = n"
| "op_server (SetTools n _) = n"
| "op_server (SetResources n _) = n"
| "op_server (SetErrorMessage n _) = n"

definition manager_ok :: "mcp_manager \<Rightarrow> bool" where
  "manager_ok m \<longleftrightarrow> bt_ok m \<and> list_all (\<lambda>(k, s). srv_name s = k) m"

lemma manager_ok_get: "manager_ok m \<Longrightarrow> bt_get m k = Some s \<Longrightarrow> srv_name s = k"
  by (auto simp: manager_ok_def list_all_iff bt_get_def dest: map_of_SomeD)

lemma manager_ok_iff: "manager_ok m \<longleftrightarrow> bt_ok m \<and> (\<forall>k s. bt_get m k = Some s \<longrightarrow> srv_name s = k)"
proof -
  have "bt_ok m \<Longrightarrow> (k, s) \<in> set m \<longleftrightarrow> bt_get m k = Some s" for k s
    by (simp add: bt_get_def bt_ok_def strict_sorted_iff)
  moreover have "list_all (\<lambda>(k, s). srv_name s = k) m \<longleftrightarrow> (\<forall>k s. (k, s) \<in> set m \<longrightarrow> srv_name s = k)"
    by (auto simp: list_all_iff)
  ultimately show ?thesis by (auto simp: manager_ok_def)
qed

lemmas setter_defs = set_status_def set_server_info_def set_tools_def set_resources_def set_error_message_def

lemma update_server_get:
  "bt_get (snd (update_server n f m)) k = (if k = n then map_option f (bt_get m k) else bt_get m k)"
  by (simp add: update_server_def bt_get_adjust split: option.split)

lemma update_server_ok: "bt_ok m \<Longrightarrow> bt_ok (snd (update_server n f m))"
  by (simp add: update_server_def bt_ok_adjust split: option.split)

interpretation manager: folding_machine apply_mcp_op manager_ok
proof
  fix m op
  assume ok: "manager_ok m"
  have upd: "manager_ok (snd (update_server n f m))" if "\<And>s. srv_name (f s) = srv_name s" for n f
    using ok that by (auto simp: manager_ok_iff update_server_get update_server_ok split: if_splits)
  have reg: "manager_ok (register_server n c m)" for n c
    using ok by (auto simp: manager_ok_iff register_server_def bt_ok_insert bt_get_insert)
  show "manager_ok (apply_mcp_op op m)"
    by (cases op) (simp_all add: reg upd setter_defs)
qed

text \<open>
  Whatever the sequence of operations, every server is stored under its own name and the
  operations on other servers leave its state untouched.
\<close>

theorem manager_operations:
  "list_all (\<lambda>s. get_server (fold apply_mcp_op ops []) (srv_name s) = Some s) (list_servers (fold apply_mcp_op ops []))
   \<and> get_server (fold apply_mcp_op ops []) n
     = get_server (fold apply_mcp_op (filter (\<lambda>op. op_server op = n) ops) []) n"
proof
  let ?m = "fold apply_mcp_op ops []"
  have "manager_ok ?m" by (rule manager.fold_keeps) (simp add: manager_ok_def)
  then have ok: "bt_ok ?m" and names: "\<And>k s. (k, s) \<in> set ?m \<Longrightarrow> srv_name s = k"
    by (auto simp: manager_ok_def list_all_iff)
  then have "bt_get ?m (srv_name s) = Some s" if "(k, s) \<in> set ?m" for k s
    using that by (simp add: bt_get_def bt_ok_def strict_sorted_iff)
  then show "list_all (\<lambda>s. get_server ?m (srv_name s) = Some s) (list_servers ?m)"
    by (auto simp: list_servers_def bt_values_def get_server_def list_all_iff)
next
  have other: "bt_get (apply_mcp_op op m) n = bt_get m n" if "op_server op \<noteq> n" for op m
    using that by (cases op) (auto simp: setter_defs update_server_get register_server_def bt_get_insert)
  have same: "bt_get (apply_mcp_op op m) n = bt_get (apply_mcp_op op m') n" if "bt_get m n = bt_get m' n" for op m m'
    using that by (cases op) (auto simp: setter_defs update_server_get register_server_def bt_get_insert)
  have "bt_get (fold apply_mcp_op ops m) n = bt_get (fold apply_mcp_op (filter (\<lambda>op. op_server op = n) ops) m') n"
    if "bt_get m n = bt_get m' n" for m m'
    using that
  proof (induction ops arbitrary: m m')
    case Nil
    then show ?case by simp
  next
    case (Cons op ops)
    show ?case
    proof (cases "op_server op = n")
      case True
      then show ?thesis using Cons.IH [OF same [OF Cons.prems]] by simp
    next
      case False
      then show ?thesis using Cons.IH [of "apply_mcp_op op m" m'] other [OF False] Cons.prems by simp
    qed
  qed
  then show "get_server (fold apply_mcp_op ops []) n
     = get_server (fold apply_mcp_op (filter (\<lambda>op. op_server op = n) ops) []) n"
    by (simp add: get_server_def)
qed

text \<open>Resources and tools are given exactly for a known and connected server, as last set.\<close>

theorem manager_reads:
  "list_tools m n = Inr ts \<longleftrightarrow> (\<exists>s. get_server m n = Some s \<and> srv_status s = Connected \<and> srv_tools s = ts)"
  by (auto simp: list_tools_def connected_server_def get_server_def split: option.split)

definition mcp_name_ok :: "char \<Rightarrow> bool" where
  "mcp_name_ok c \<longleftrightarrow> mcp_name_char [c]"

lemma trim_matches_subset: "set (trim_matches c s) \<subseteq> set s"
  by (auto simp: trim_matches_def trim_end_matches_def trim_start_matches_def dest!: set_dropWhileD)

lemma collapse_subset: "set (collapse_from b s) \<subseteq> set s"
  by (induction b s rule: collapse_from.induct) auto

lemma mcp_name_char_single: "mcp_name_char ch \<Longrightarrow> \<exists>c. ch = [c] \<and> mcp_name_ok c"
  by (auto simp: mcp_name_ok_def mcp_name_char_def split: list.splits)

lemma normalized_chars:
  "set (concat (map (\<lambda>ch. if mcp_name_char ch then ch else ''_'') chs)) \<subseteq> {c. mcp_name_ok c}"
  by (induction chs) (auto simp: mcp_name_ok_def mcp_name_char_def split: list.splits)

lemma either_subset: "set a \<subseteq> set n \<Longrightarrow> set n \<subseteq> C \<Longrightarrow> set (if b then a else n) \<subseteq> C"
  by auto

text \<open>The full name of a tool has only letters, digits, underscores and hyphens, whatever the server and the tool are called.\<close>

theorem mcp_names_wellformed:
  "list_all mcp_name_ok (mcp_tool_name server tool)"
proof -
  have "set (normalize_name_for_mcp s) \<subseteq> {c. mcp_name_ok c}" for s
  proof -
    let ?n = "concat (map (\<lambda>ch. if mcp_name_char ch then ch else ''_'') (str_chars s))"
    have "set (trim_matches (CHR ''_'') (collapse_underscores ?n)) \<subseteq> set ?n"
      unfolding collapse_underscores_def by (rule order_trans [OF trim_matches_subset collapse_subset])
    then show ?thesis
      unfolding normalize_name_for_mcp_def Let_def by (rule either_subset [OF _ normalized_chars])
  qed
  then have "list_all mcp_name_ok (normalize_name_for_mcp s)" for s
    by (auto simp: list_all_iff)
  moreover have "list_all mcp_name_ok ''mcp__''" "list_all mcp_name_ok ''__''" by code_simp+
  ultimately show ?thesis
    by (simp only: mcp_tool_name_def mcp_tool_prefix_def list_all_append)
qed

text \<open>The scoped hash does not see a server's environment, headers or headers helper, nor
  where one argument ends and the next begins.\<close>

theorem scoped_hash_blind:
  "scoped_mcp_config_hash n (Stdio (c\<lparr>stdio_env := env, stdio_args := [''a'', ''b'']\<rparr>))
     = scoped_mcp_config_hash n (Stdio (c\<lparr>stdio_args := [''a b'']\<rparr>))
   \<and> scoped_mcp_config_hash n (Http (r\<lparr>remote_headers := h, remote_headers_helper := p\<rparr>))
     = scoped_mcp_config_hash n (Http r)"
  by (simp add: scoped_mcp_config_hash_def rendered_config_def)

end
