(* ===== verification/Config.thy ===== *)
theory Config
  imports FileSys Mcp Permissions ApiTypes
begin

text \<open>
  The user's configuration, \<open>crates/runtime/src/config.rs\<close>: the approval policy, the keys a user
  gets and sets, the validation of the configuration file and the store under the home directory.
  The parts serde derives (the value of an MCP collection, the JSON text) are the fields of a
  \<open>config_codec\<close>; the environment is a function from variables to their values.
\<close>

section \<open>Approval policy\<close>

datatype approval_policy = Never | OnFailure | OnRequest

fun approval_as_str :: "approval_policy \<Rightarrow> string" where
  "approval_as_str Never = ''never''"
| "approval_as_str OnFailure = ''on-failure''"
| "approval_as_str OnRequest = ''on-request''"

definition approval_parse :: "string \<Rightarrow> string + approval_policy" where
  "approval_parse value =
     (if value = ''never'' then Inr Never
      else if value = ''on-failure'' then Inr OnFailure
      else if value = ''on-request'' then Inr OnRequest
      else Inl (''invalid approvalPolicy `'' @ value @ ''`; expected never, on-failure, or on-request''))"

interpretation approval: enum_codec approval_as_str approval_parse
proof unfold_locales
  show "approval_parse (approval_as_str x) = Inr x" for x
    by (cases x) (simp_all add: approval_parse_def)
  show "approval_parse s = Inr x \<Longrightarrow> s = approval_as_str x" for s x
    by (auto simp: approval_parse_def split: if_splits)
qed

section \<open>The configuration\<close>

record config =
  cfg_model :: string
  cfg_effort :: reasoning_effort
  cfg_approval :: approval_policy
  cfg_sandbox :: permission_mode
  cfg_quiet :: bool
  cfg_mcp :: mcp_config

definition default_model :: string where
  "default_model = ''solar-pro3-260323''"

definition default_config :: config where
  "default_config =
     \<lparr>cfg_model = default_model, cfg_effort = Medium, cfg_approval = OnFailure,
      cfg_sandbox = WorkspaceWrite, cfg_quiet = False, cfg_mcp = []\<rparr>"

definition config_keys :: "string list" where
  "config_keys = [''model'', ''reasoningEffort'', ''approvalPolicy'', ''sandbox'', ''quiet'', ''mcp'']"

definition unknown_config_key :: "string \<Rightarrow> string" where
  "unknown_config_key key = ''unknown config key: '' @ key @ ''. Valid keys: '' @ join '', '' config_keys"

text \<open>What serde derives: MCP collections to and from values, and values to and from text.\<close>

record config_codec =
  cc_mcp_value :: "mcp_config \<Rightarrow> json"
  cc_mcp_parse :: "json \<Rightarrow> string + mcp_config"
  cc_pretty :: "json \<Rightarrow> string + string"
  cc_from_text :: "string \<Rightarrow> string + json"

text \<open>The derived \<open>Serialize\<close>: the fields under their renamed keys, the enums in kebab case.\<close>

definition config_value :: "config_codec \<Rightarrow> config \<Rightarrow> json" where
  "config_value cc c = jobj
     [(''model'', JStr (cfg_model c)), (''reasoningEffort'', JStr (effort_as_str (cfg_effort c))),
      (''approvalPolicy'', JStr (approval_as_str (cfg_approval c))),
      (''sandbox'', JStr (mode_as_str (cfg_sandbox c))), (''quiet'', JBool (cfg_quiet c)),
      (''mcp'', cc_mcp_value cc (cfg_mcp c))]"

definition get_config_value :: "config_codec \<Rightarrow> config \<Rightarrow> string option \<Rightarrow> string + json" where
  "get_config_value cc c key =
     (case key of
        None \<Rightarrow> Inr (config_value cc c)
      | Some k \<Rightarrow>
          if k = ''model'' then Inr (JStr (cfg_model c))
          else if k = ''reasoningEffort'' then Inr (JStr (effort_as_str (cfg_effort c)))
          else if k = ''approvalPolicy'' then Inr (JStr (approval_as_str (cfg_approval c)))
          else if k = ''sandbox'' then Inr (JStr (mode_as_str (cfg_sandbox c)))
          else if k = ''quiet'' then Inr (JBool (cfg_quiet c))
          else if k = ''mcp'' then Inr (cc_mcp_value cc (cfg_mcp c))
          else Inl (unknown_config_key k))"

definition set_config_value :: "config \<Rightarrow> string \<Rightarrow> string \<Rightarrow> string + config" where
  "set_config_value c key raw =
     (if key = ''model'' then
        (let model = trim raw in
         if model = [] then Inl ''model must not be empty'' else Inr (c\<lparr>cfg_model := model\<rparr>))
      else if key = ''reasoningEffort'' then
        and_then (effort_parse raw) (\<lambda>e. Inr (c\<lparr>cfg_effort := e\<rparr>))
      else if key = ''approvalPolicy'' then
        and_then (approval_parse raw) (\<lambda>a. Inr (c\<lparr>cfg_approval := a\<rparr>))
      else if key = ''sandbox'' then
        and_then (mode_parse raw) (\<lambda>mode.
          if mode = DangerFullAccess
          then Inl (''sandbox config supports read-only or workspace-write; use ''
                 @ ''--dangerously-skip-permissions for danger-full-access'')
          else Inr (c\<lparr>cfg_sandbox := mode\<rparr>))
      else if key = ''quiet'' then
        (if raw = ''true'' then Inr (c\<lparr>cfg_quiet := True\<rparr>)
         else if raw = ''false'' then Inr (c\<lparr>cfg_quiet := False\<rparr>)
         else Inl ''quiet must be true or false'')
      else if key = ''mcp'' then
        Inl (''mcp config is managed as JSON; edit ~/.solarcido/config.json directly to change servers'')
      else Inl (unknown_config_key key))"

section \<open>Validation of the file\<close>

definition check_key :: "path \<Rightarrow> string \<Rightarrow> string + unit" where
  "check_key p key =
     (if key = ''maxSteps'' then Inl ''maxSteps is no longer supported. Solarcido runs without a step limit.''
      else if key \<notin> set config_keys
      then Inl (''unknown config key in '' @ show_path p @ '': '' @ key @ ''. Valid keys: '' @ join '', '' config_keys)
      else Inr ())"

definition read_model :: "json \<Rightarrow> config \<Rightarrow> string + config" where
  "read_model v c =
     (case as_str v of
        Some s \<Rightarrow> if trim s = [] then Inl ''model must be a non-empty string'' else Inr (c\<lparr>cfg_model := s\<rparr>)
      | None \<Rightarrow> Inl ''model must be a non-empty string'')"

definition read_effort :: "json \<Rightarrow> config \<Rightarrow> string + config" where
  "read_effort v c =
     and_then (ok_or ''reasoningEffort must be low, medium, or high'' (as_str v)) (\<lambda>s.
     and_then (effort_parse s) (\<lambda>e. Inr (c\<lparr>cfg_effort := e\<rparr>)))"

definition read_approval :: "json \<Rightarrow> config \<Rightarrow> string + config" where
  "read_approval v c =
     and_then (ok_or ''approvalPolicy must be never, on-failure, or on-request'' (as_str v)) (\<lambda>s.
     and_then (approval_parse s) (\<lambda>a. Inr (c\<lparr>cfg_approval := a\<rparr>)))"

definition read_sandbox :: "json \<Rightarrow> config \<Rightarrow> string + config" where
  "read_sandbox v c =
     and_then (ok_or ''sandbox must be read-only or workspace-write'' (as_str v)) (\<lambda>s.
     and_then (mode_parse s) (\<lambda>mode.
       if mode = DangerFullAccess then Inl ''sandbox config supports read-only or workspace-write''
       else Inr (c\<lparr>cfg_sandbox := mode\<rparr>)))"

definition read_quiet :: "json \<Rightarrow> config \<Rightarrow> string + config" where
  "read_quiet v c =
     and_then (ok_or ''quiet must be a boolean'' (as_bool v)) (\<lambda>b. Inr (c\<lparr>cfg_quiet := b\<rparr>))"

definition read_mcp :: "config_codec \<Rightarrow> json \<Rightarrow> config \<Rightarrow> string + config" where
  "read_mcp cc v c =
     and_then (map_err (\<lambda>e. ''invalid mcp config: '' @ e) (cc_mcp_parse cc v)) (\<lambda>mcp.
     and_then (validate_mcp_config mcp) (\<lambda>_. Inr (c\<lparr>cfg_mcp := mcp\<rparr>)))"

text \<open>\<open>if let Some(value) = object.get(key)\<close>: an absent key leaves the configuration.\<close>

definition read_key ::
  "(string, json) btree \<Rightarrow> string \<Rightarrow> (json \<Rightarrow> config \<Rightarrow> string + config) \<Rightarrow> config \<Rightarrow> string + config" where
  "read_key m k f c = (case bt_get m k of None \<Rightarrow> Inr c | Some v \<Rightarrow> f v c)"

definition validate_config_value :: "config_codec \<Rightarrow> json \<Rightarrow> path \<Rightarrow> string + config" where
  "validate_config_value cc value p =
     (case as_object value of
        None \<Rightarrow> Inl (''config at '' @ show_path p @ '' must be a JSON object'')
      | Some m \<Rightarrow>
          and_then (try_each (check_key p) (bt_keys m)) (\<lambda>_.
          and_then (read_key m ''model'' read_model default_config) (\<lambda>c.
          and_then (read_key m ''reasoningEffort'' read_effort c) (\<lambda>c.
          and_then (read_key m ''approvalPolicy'' read_approval c) (\<lambda>c.
          and_then (read_key m ''sandbox'' read_sandbox c) (\<lambda>c.
          and_then (read_key m ''quiet'' read_quiet c) (\<lambda>c.
          read_key m ''mcp'' (read_mcp cc) c)))))))"

section \<open>The store\<close>

text \<open>A store is its home directory.\<close>

definition config_path :: "path \<Rightarrow> path" where
  "config_path home = path_join home [Name ''config.json'']"

definition memory_path :: "path \<Rightarrow> path" where
  "memory_path home = path_join home [Name ''memory.md'']"

definition load_config :: "config_codec \<Rightarrow> path \<Rightarrow> fs \<Rightarrow> (string + config) \<times> fs" where
  "load_config cc home s =
     (let p = config_path home in
      case fs_read_to_string p s of
        (Inl NotFound, s') \<Rightarrow> (Inr default_config, s')
      | (Inl e, s') \<Rightarrow> (Inl (''could not read config at '' @ show_path p @ '': '' @ show_io_error e), s')
      | (Inr raw, s') \<Rightarrow>
          (and_then (map_err (\<lambda>e. ''invalid JSON in '' @ show_path p @ '': '' @ e) (cc_from_text cc raw))
             (\<lambda>value. validate_config_value cc value p), s'))"

definition save_config :: "config_codec \<Rightarrow> path \<Rightarrow> config \<Rightarrow> fs \<Rightarrow> (string + unit) \<times> fs" where
  "save_config cc home c s =
     (case fs_create_dir_all home s of
        (Inl e, s1) \<Rightarrow> (Inl (''failed to create Solarcido home '' @ show_path home @ '': '' @ show_io_error e), s1)
      | (Inr _, s1) \<Rightarrow>
          (case cc_pretty cc (config_value cc c) of
             Inl e \<Rightarrow> (Inl (''failed to encode config: '' @ e), s1)
           | Inr encoded \<Rightarrow>
               (case fs_write (config_path home) (encoded @ nl) s1 of
                  (Inl e, s2) \<Rightarrow> (Inl (''failed to write config: '' @ show_io_error e), s2)
                | (Inr _, s2) \<Rightarrow> (Inr (), s2))))"

definition load_memory :: "path \<Rightarrow> fs \<Rightarrow> (string + string option) \<times> fs" where
  "load_memory home s =
     (case fs_read_to_string (memory_path home) s of
        (Inr memory, s') \<Rightarrow> (Inr (if trim memory = [] then None else Some (trim memory)), s')
      | (Inl NotFound, s') \<Rightarrow> (Inr None, s')
      | (Inl e, s') \<Rightarrow> (Inl (''failed to read memory: '' @ show_io_error e), s'))"

definition resolve_solarcido_home :: "(string \<Rightarrow> string option) \<Rightarrow> string + path" where
  "resolve_solarcido_home env =
     (case env ''SOLARCIDO_HOME'' of
        Some home \<Rightarrow> Inr (parse_path home)
      | None \<Rightarrow>
          and_then (ok_or ''could not determine home directory; set SOLARCIDO_HOME''
              (case env ''HOME'' of Some h \<Rightarrow> Some h | None \<Rightarrow> env ''USERPROFILE''))
            (\<lambda>user_home. Inr (path_join (parse_path user_home) [Name ''.solarcido''])))"

section \<open>Valid configurations\<close>

text \<open>What every configuration read from a file satisfies.\<close>

definition config_valid :: "config \<Rightarrow> bool" where
  "config_valid c \<longleftrightarrow>
     trim (cfg_model c) \<noteq> [] \<and> cfg_sandbox c \<noteq> DangerFullAccess \<and> validate_mcp_config (cfg_mcp c) = Inr ()"

lemma default_config_valid: "config_valid default_config"
  unfolding config_valid_def by code_simp

lemma readers_valid:
  "read_model v c = Inr c' \<Longrightarrow> config_valid c \<Longrightarrow> config_valid c'"
  "read_effort v c = Inr c' \<Longrightarrow> config_valid c \<Longrightarrow> config_valid c'"
  "read_approval v c = Inr c' \<Longrightarrow> config_valid c \<Longrightarrow> config_valid c'"
  "read_sandbox v c = Inr c' \<Longrightarrow> config_valid c \<Longrightarrow> config_valid c'"
  "read_quiet v c = Inr c' \<Longrightarrow> config_valid c \<Longrightarrow> config_valid c'"
  "read_mcp cc v c = Inr c' \<Longrightarrow> config_valid c \<Longrightarrow> config_valid c'"
  by (auto simp: read_model_def read_effort_def read_approval_def read_sandbox_def read_quiet_def read_mcp_def
      config_valid_def and_then_Inr split: option.splits if_splits)

lemma read_keys_valid:
  "read_key m k read_model c = Inr c' \<Longrightarrow> config_valid c \<Longrightarrow> config_valid c'"
  "read_key m k read_effort c = Inr c' \<Longrightarrow> config_valid c \<Longrightarrow> config_valid c'"
  "read_key m k read_approval c = Inr c' \<Longrightarrow> config_valid c \<Longrightarrow> config_valid c'"
  "read_key m k read_sandbox c = Inr c' \<Longrightarrow> config_valid c \<Longrightarrow> config_valid c'"
  "read_key m k read_quiet c = Inr c' \<Longrightarrow> config_valid c \<Longrightarrow> config_valid c'"
  "read_key m k (read_mcp cc) c = Inr c' \<Longrightarrow> config_valid c \<Longrightarrow> config_valid c'"
  by (auto simp: read_key_def readers_valid split: option.splits)

lemma validated_valid:
  assumes "validate_config_value cc value p = Inr c"
  shows "config_valid c"
proof -
  obtain m c1 c2 c3 c4 c5 where model: "read_key m ''model'' read_model default_config = Inr c1"
      and effort: "read_key m ''reasoningEffort'' read_effort c1 = Inr c2"
      and approval: "read_key m ''approvalPolicy'' read_approval c2 = Inr c3"
      and sandbox: "read_key m ''sandbox'' read_sandbox c3 = Inr c4"
      and quiet: "read_key m ''quiet'' read_quiet c4 = Inr c5"
      and mcp: "read_key m ''mcp'' (read_mcp cc) c5 = Inr c"
    using assms by (auto simp: validate_config_value_def and_then_Inr split: option.splits)
  have "config_valid c3"
    using read_keys_valid(3) [OF approval read_keys_valid(2) [OF effort read_keys_valid(1) [OF model default_config_valid]]] .
  then show ?thesis
    using read_keys_valid(6) [OF mcp read_keys_valid(5) [OF quiet read_keys_valid(4) [OF sandbox]]] by blast
qed

text \<open>
  Whatever the home directory holds, loading gives an error or a configuration with a nonblank
  model, a sandbox below full access and valid MCP servers; a key that is not a configuration key
  is an error.
\<close>

theorem loaded_config_valid:
  "case fst (load_config cc home s) of Inl _ \<Rightarrow> True | Inr c \<Rightarrow> config_valid c"
proof -
  have "fst (load_config cc home s) = Inr c \<Longrightarrow> config_valid c" for c
    using default_config_valid
    by (auto simp: load_config_def Let_def and_then_Inr split: sum.splits prod.splits io_error.splits
        intro: validated_valid)
  then show ?thesis by (simp split: sum.split)
qed

text \<open>
  A value accepted for a key is read back under that key (a model trimmed), the other keys keep
  their values, and a valid configuration stays valid.
\<close>

theorem config_set_get:
  assumes "set_config_value c key raw = Inr c'"
  shows "get_config_value cc c' (Some key) =
      Inr (if key = ''quiet'' then JBool (raw = ''true'') else JStr (if key = ''model'' then trim raw else raw))
    \<and> (\<forall>k. k = key \<or> get_config_value cc c' (Some k) = get_config_value cc c (Some k))
    \<and> (config_valid c \<longrightarrow> config_valid c')"
proof -
  consider (model) "key = ''model''" "trim raw \<noteq> []" "c' = c\<lparr>cfg_model := trim raw\<rparr>"
    | (effort) e where "key = ''reasoningEffort''" "raw = effort_as_str e" "c' = c\<lparr>cfg_effort := e\<rparr>"
    | (approval) a where "key = ''approvalPolicy''" "raw = approval_as_str a" "c' = c\<lparr>cfg_approval := a\<rparr>"
    | (sandbox) m where "key = ''sandbox''" "raw = mode_as_str m" "m \<noteq> DangerFullAccess" "c' = c\<lparr>cfg_sandbox := m\<rparr>"
    | (quiet) "key = ''quiet''" "raw = ''true'' \<or> raw = ''false''" "c' = c\<lparr>cfg_quiet := (raw = ''true'')\<rparr>"
    using assms
    by (auto simp: set_config_value_def and_then_Inr Let_def effort.parse_Inr_iff approval.parse_Inr_iff
        mode.parse_Inr_iff split: if_splits)
  then show ?thesis
    by cases (simp_all add: get_config_value_def config_valid_def)
qed

section \<open>Saving and loading\<close>

text \<open>What serde promises for one configuration: its text parses to its value, its MCP value to its MCP part.\<close>

definition config_codec_ok :: "config_codec \<Rightarrow> config \<Rightarrow> bool" where
  "config_codec_ok cc c \<longleftrightarrow>
     (case cc_pretty cc (config_value cc c) of
        Inl _ \<Rightarrow> False
      | Inr encoded \<Rightarrow> valid_utf8 (encoded @ nl) \<and> cc_from_text cc (encoded @ nl) = Inr (config_value cc c))
     \<and> cc_mcp_parse cc (cc_mcp_value cc (cfg_mcp c)) = Inr (cfg_mcp c)"

text \<open>The first rule of validation a configuration breaks, if any.\<close>

definition config_verdict :: "config \<Rightarrow> string + config" where
  "config_verdict c =
     (if trim (cfg_model c) = [] then Inl ''model must be a non-empty string''
      else if cfg_sandbox c = DangerFullAccess then Inl ''sandbox config supports read-only or workspace-write''
      else and_then (validate_mcp_config (cfg_mcp c)) (\<lambda>_. Inr c))"

lemma config_verdict_valid: "config_valid c \<longleftrightarrow> config_verdict c = Inr c"
  by (auto simp: config_valid_def config_verdict_def and_then_Inr)

lemma config_value_keys: "try_each (check_key p) (bt_keys (bt_of_list [(''model'', a1), (''reasoningEffort'', a2),
    (''approvalPolicy'', a3), (''sandbox'', a4), (''quiet'', a5), (''mcp'', a6)])) = Inr ()"
proof -
  have "set (bt_keys (bt_of_list [(''model'', a1), (''reasoningEffort'', a2), (''approvalPolicy'', a3),
      (''sandbox'', a4), (''quiet'', a5), (''mcp'', a6)])) \<subseteq> set config_keys"
    by (auto simp: bt_set_keys bt_get_of_list config_keys_def split: if_splits)
  moreover have "''maxSteps'' \<notin> set config_keys" by code_simp
  ultimately show ?thesis
    by (auto simp: try_each_Inr check_key_def)
qed

lemma validate_config_value_own:
  assumes "cc_mcp_parse cc (cc_mcp_value cc (cfg_mcp c)) = Inr (cfg_mcp c)"
  shows "validate_config_value cc (config_value cc c) p = config_verdict c"
proof -
  show ?thesis
    using assms
    by (cases c) (simp add: validate_config_value_def config_value_def jobj_def config_value_keys read_key_def
        bt_get_of_list read_model_def read_effort_def read_approval_def read_sandbox_def read_quiet_def
        read_mcp_def config_verdict_def effort.parse_as_str approval.parse_as_str mode.parse_as_str
        default_config_def)
qed

text \<open>
  A saved configuration loads back unchanged when it is valid; when it is not, because its model
  is blank, its sandbox is full access or an MCP server is malformed, loading fails with that error.
\<close>

theorem config_round_trip:
  assumes codec: "config_codec_ok cc c" and plain_fs: "fs_faults s = []" "no_links s"
    and saved: "save_config cc home c s = (Inr (), s')"
  shows "fst (load_config cc home s') = config_verdict c"
proof -
  obtain encoded where enc: "cc_pretty cc (config_value cc c) = Inr encoded" "valid_utf8 (encoded @ nl)"
      "cc_from_text cc (encoded @ nl) = Inr (config_value cc c)"
    using codec by (auto simp: config_codec_ok_def split: sum.splits)
  obtain s1 where d: "fs_create_dir_all home s = (Inr (), s1)"
      and w: "fs_write (config_path home) (encoded @ nl) s1 = (Inr (), s')"
    using saved enc(1) by (auto simp: save_config_def split: sum.splits prod.splits)
  have f1: "no_links s1" "fs_faults s1 = []"
    using d make_dirs_frame [of home s] plain_fs by (auto simp: fs_create_dir_all_def guarded_no_fault)
  have "file_bytes s' (config_path home) = Inr (encoded @ nl)" "fs_faults s' = []"
    using fs_write_read [OF w f1(2,1)] by simp_all
  then have "fst (load_config cc home s') = validate_config_value cc (config_value cc c) (config_path home)"
    using enc by (simp add: load_config_def Let_def fs_read_to_string_def guarded_no_fault)
  then show ?thesis
    using codec by (simp add: validate_config_value_own config_codec_ok_def)
qed

text \<open>A codec for one configuration with full access, and an empty home directory.\<close>

definition sample_config :: config where
  "sample_config = default_config\<lparr>cfg_sandbox := DangerFullAccess\<rparr>"

definition sample_cc :: config_codec where
  "sample_cc = \<lparr>cc_mcp_value = (\<lambda>_. JNull), cc_mcp_parse = (\<lambda>_. Inr []), cc_pretty = (\<lambda>_. Inr ''{}''),
     cc_from_text = (\<lambda>_. Inr (jobj
       [(''model'', JStr default_model), (''reasoningEffort'', JStr ''medium''), (''approvalPolicy'', JStr ''on-failure''),
        (''sandbox'', JStr ''danger-full-access''), (''quiet'', JBool False), (''mcp'', JNull)]))\<rparr>"

theorem config_set_get_witness:
  "get_config_value sample_cc (default_config\<lparr>cfg_model := ''solar-pro''\<rparr>) (Some ''model'') = Inr (JStr ''solar-pro'')"
proof -
  have "set_config_value default_config ''model'' '' solar-pro '' = Inr (default_config\<lparr>cfg_model := ''solar-pro''\<rparr>)"
    by code_simp
  moreover have "trim '' solar-pro '' = ''solar-pro''" by code_simp
  ultimately show ?thesis using config_set_get [of default_config "''model''" "'' solar-pro ''" _ sample_cc] by simp
qed

definition sample_home :: fs where
  "sample_home = \<lparr>fs_nodes = [], fs_cwd = [], fs_faults = []\<rparr>"

theorem config_round_trip_witness:
  "fst (save_config sample_cc [RootDir, Name ''h''] sample_config sample_home) = Inr ()
   \<and> fst (load_config sample_cc [RootDir, Name ''h''] (snd (save_config sample_cc [RootDir, Name ''h''] sample_config sample_home)))
     = Inl ''sandbox config supports read-only or workspace-write''"
proof -
  let ?r = "save_config sample_cc [RootDir, Name ''h''] sample_config sample_home"
  have ok: "fst ?r = Inr ()" by code_simp
  then have saved: "?r = (Inr (), snd ?r)" by (metis prod.collapse)
  have "config_codec_ok sample_cc sample_config" "fs_faults sample_home = []" by code_simp+
  moreover have "no_links sample_home" by (simp add: no_links_def sample_home_def node_at_def)
  moreover have "config_verdict sample_config = Inl ''sandbox config supports read-only or workspace-write''"
    by code_simp
  ultimately show ?thesis using config_round_trip [OF _ _ _ saved] ok by simp
qed

end
