(* ===== verification/TextEdit.thy ===== *)
theory TextEdit
  imports Prelude
begin

text \<open>
  The substring operations of \<open>str\<close> the tools use: \<open>split_once\<close>, \<open>split\<close>, \<open>matches().count()\<close>,
  \<open>replace\<close> and \<open>replacen(_, _, 1)\<close>, for nonempty patterns, from left to right and without overlaps.
\<close>

fun split_once :: "string \<Rightarrow> string \<Rightarrow> (string \<times> string) option" where
  "split_once d [] = (if d = [] then Some ([], []) else None)"
| "split_once d (c # cs) =
     (case strip_prefix d (c # cs) of
        Some r \<Rightarrow> Some ([], r)
      | None \<Rightarrow> map_option (\<lambda>(a, b). (c # a, b)) (split_once d cs))"

lemma split_once_Some: "split_once d s = Some (a, b) \<Longrightarrow> s = a @ d @ b"
proof (induction d s arbitrary: a rule: split_once.induct)
  case (1 d)
  then show ?case by (simp split: if_splits)
next
  case (2 d c cs)
  then show ?case
    by (auto simp: strip_prefix_Some simp del: strip_prefix.simps split: option.splits)
qed

lemma split_once_None: "split_once d s = None \<longleftrightarrow> \<not> contains s d"
proof (induction d s rule: split_once.induct)
  case (1 d)
  then show ?case by (cases d) (auto simp: starts_with_iff)
next
  case (2 d c cs)
  then show ?case
    by (auto simp: starts_with_def simp del: strip_prefix.simps split: option.splits)
qed

text \<open>The text before the first match holds no match, even one that would end inside the match.\<close>

lemma split_once_first: "split_once d s = Some (a, b) \<Longrightarrow> d \<noteq> [] \<Longrightarrow> contains (a @ butlast d) d \<Longrightarrow> False"
proof (induction d s arbitrary: a rule: split_once.induct)
  case (1 d)
  then show ?case by (simp split: if_splits)
next
  case (2 d c cs)
  show ?case
  proof (cases "strip_prefix d (c # cs)")
    case (Some r)
    then have "a = []" using "2.prems"(1) by (simp del: strip_prefix.simps)
    then obtain x y where "butlast d = x @ d @ y" using "2.prems"(3) by (auto simp: contains_iff)
    then have "length (butlast d) = length x + length d + length y" by (metis add.assoc length_append)
    then have "length d - 1 = length x + length d + length y" by simp
    then show False using "2.prems"(2) by (cases d) simp_all
  next
    case None
    then obtain a' where a': "split_once d cs = Some (a', b)" "a = c # a'"
      using "2.prems"(1) by (auto simp del: strip_prefix.simps)
    have "\<not> contains (a' @ butlast d) d" using "2.IH" [OF None a'(1) "2.prems"(2)] by blast
    then have "starts_with (c # a' @ butlast d) d" using "2.prems"(3) a'(2) by simp
    then obtain r where "c # a' @ butlast d = d @ r" by (auto simp: starts_with_iff)
    moreover have "d = butlast d @ [last d]" using "2.prems"(2) by simp
    moreover have "c # cs = c # a' @ d @ b" using split_once_Some [OF a'(1)] by simp
    ultimately have "c # cs = d @ r @ [last d] @ b"
      by (metis append.assoc append_Cons)
    then have "strip_prefix d (c # cs) \<noteq> None" by (simp add: strip_prefix_Some del: strip_prefix.simps)
    then show False using None by simp
  qed
qed

function split_str :: "string \<Rightarrow> string \<Rightarrow> string list" where
  "split_str d s =
     (if d = [] then [s]
      else case split_once d s of None \<Rightarrow> [s] | Some (a, b) \<Rightarrow> a # split_str d b)"
  by pat_completeness auto
termination
proof (relation "measure (\<lambda>(d, s). length s)")
  fix d s p and a b :: string
  assume "d \<noteq> []" "split_once d s = Some p" "(a, b) = p"
  then show "((d, b), d, s) \<in> measure (\<lambda>(d, s). length s)"
    using split_once_Some [of d s a b] by (cases d) auto
qed simp

declare split_str.simps [simp del]

definition match_count :: "string \<Rightarrow> string \<Rightarrow> nat" where
  "match_count s d = length (split_str d s) - 1"

definition replace_str :: "string \<Rightarrow> string \<Rightarrow> string \<Rightarrow> string" where
  "replace_str s d new = join new (split_str d s)"

definition replace_first :: "string \<Rightarrow> string \<Rightarrow> string \<Rightarrow> string" where
  "replace_first s d new = (case split_once d s of None \<Rightarrow> s | Some (a, b) \<Rightarrow> a @ new @ b)"

lemma split_str_nonempty: "split_str d s \<noteq> []"
  by (subst split_str.simps) (auto split: option.split)

lemma join_Cons: "ts \<noteq> [] \<Longrightarrow> join d (t # ts) = t @ d @ join d ts"
  by (cases ts) simp_all

lemma join_split_str: "join d (split_str d s) = s"
proof (induction d s rule: split_str.induct)
  case (1 d s)
  show ?case
  proof (cases "d = [] \<or> split_once d s = None")
    case True
    then show ?thesis by (subst split_str.simps) auto
  next
    case False
    then obtain a b where ab: "split_once d s = Some (a, b)" by auto
    then have "split_str d s = a # split_str d b" using False by (subst split_str.simps) simp
    moreover have "join d (split_str d b) = b" using "1.IH" False ab by blast
    ultimately show ?thesis using split_once_Some [OF ab] by (simp add: join_Cons split_str_nonempty)
  qed
qed

lemma split_str_parts: "d \<noteq> [] \<Longrightarrow> p \<in> set (split_str d s) \<Longrightarrow> \<not> contains p d"
proof (induction d s rule: split_str.induct)
  case (1 d s)
  show ?case
  proof (cases "split_once d s")
    case None
    then have "p = s" using "1.prems" by (subst (asm) split_str.simps) simp
    then show ?thesis using None split_once_None by blast
  next
    case (Some ab)
    then obtain a b where ab: "split_once d s = Some (a, b)" by (cases ab) simp
    then have "p = a \<or> p \<in> set (split_str d b)" using "1.prems" by (subst (asm) split_str.simps) simp
    then show ?thesis
    proof
      assume "p = a"
      have "contains a d \<Longrightarrow> contains (a @ butlast d) d"
        unfolding contains_iff by (metis append.assoc)
      then show ?thesis
        using split_once_first [OF ab "1.prems"(1)] \<open>p = a\<close> by blast
    qed (use "1.IH" "1.prems"(1) ab in blast)
  qed
qed

lemma match_count_zero: "d \<noteq> [] \<Longrightarrow> match_count s d = 0 \<longleftrightarrow> \<not> contains s d"
proof -
  assume d: "d \<noteq> []"
  have "match_count s d = 0 \<longleftrightarrow> split_once d s = None"
  proof (cases "split_once d s")
    case None
    then show ?thesis by (simp add: match_count_def split_str.simps [of d s])
  next
    case (Some ab)
    then show ?thesis
      using d split_str_nonempty by (cases ab) (simp add: match_count_def split_str.simps [of d s])
  qed
  then show ?thesis by (simp add: split_once_None)
qed

text \<open>A text with exactly one match splits around it in one way, and no other occurrence is left on the right.\<close>

lemma match_count_one:
  assumes "d \<noteq> []" and "match_count s d = 1"
  shows "\<exists>a b. s = a @ d @ b \<and> replace_first s d new = a @ new @ b \<and> \<not> contains a d \<and> \<not> contains b d"
proof -
  have "contains s d" using match_count_zero [OF assms(1), of s] assms(2) by simp
  then obtain a b where ab: "split_once d s = Some (a, b)"
    using split_once_None [of d s] by (cases "split_once d s") auto
  then have sp: "split_str d s = a # split_str d b" using assms(1) by (simp add: split_str.simps [of d s])
  then have "match_count b d = 0" using assms(2) by (simp add: match_count_def)
  then have "\<not> contains b d" using match_count_zero [OF assms(1)] by blast
  moreover have "\<not> contains a d" using split_str_parts [OF assms(1), of a s] sp by simp
  ultimately show ?thesis
    using ab split_once_Some [OF ab] by (auto simp: replace_first_def)
qed

text \<open>\<open>trim_matches\<close> for a class of characters.\<close>

definition trim_both :: "(char \<Rightarrow> bool) \<Rightarrow> string \<Rightarrow> string" where
  "trim_both P s = rev (dropWhile P (rev (dropWhile P s)))"

text \<open>What follows the first occurrence of a text.\<close>

definition after_first :: "string \<Rightarrow> string \<Rightarrow> string option" where
  "after_first p s = map_option snd (split_once p s)"

text \<open>\<open>find_map\<close> over a list.\<close>

fun find_map :: "('a \<Rightarrow> 'b option) \<Rightarrow> 'a list \<Rightarrow> 'b option" where
  "find_map f [] = None"
| "find_map f (x # xs) = (case f x of Some y \<Rightarrow> Some y | None \<Rightarrow> find_map f xs)"

end
