(* ===== verification/Tools.thy ===== *)
theory Tools
  imports FileSys TextEdit Json Permissions ApiTypes
begin

text \<open>
  The workspace tools, \<open>crates/tools/src/lib.rs\<close>: resolution of paths against the workspace, the
  tool specifications and the tools. A \<open>WorkspaceTools\<close> is its working directory; the file system
  is the state. The shell, the \<open>glob\<close>, \<open>regex\<close> and \<open>walkdir\<close> crates and the JSON printer
  are the fields of a \<open>tool_env\<close>.
\<close>

section \<open>The environment\<close>

text \<open>
  A started command: what \<open>try_wait\<close> says at a poll, the time in milliseconds that passed beyond
  the sleeps before it, the effect on the files up to it, and the output once it has ended (the
  exit code if there is one).
\<close>

record shell_process =
  proc_ended :: "nat \<Rightarrow> string + bool"
  proc_delay :: "nat \<Rightarrow> nat"
  proc_effect :: "nat \<Rightarrow> fs \<Rightarrow> fs"
  proc_output :: "string + int option \<times> string \<times> string"

record glob_pattern =
  gp_matches_path :: "path \<Rightarrow> bool"
  gp_matches :: "string \<Rightarrow> bool"

record tool_env =
  te_text :: "json \<Rightarrow> string"
  te_spawn :: "path \<Rightarrow> string \<Rightarrow> fs \<Rightarrow> string + shell_process"
  te_glob :: "string \<Rightarrow> fs \<Rightarrow> string + (string + path) list"
  te_pattern :: "string \<Rightarrow> string + glob_pattern"
  te_regex :: "string \<Rightarrow> bool \<Rightarrow> string + (string \<Rightarrow> bool)"
  te_walk :: "path \<Rightarrow> fs \<Rightarrow> path list"
  te_lower :: "string \<Rightarrow> string"

text \<open>\<open>map_err\<close> on a call of the file system.\<close>

definition io_err :: "(io_error \<Rightarrow> string) \<Rightarrow> (io_error + 'a) \<times> fs \<Rightarrow> (string + 'a) \<times> fs" where
  "io_err f r = (map_err f (fst r), snd r)"

definition string_arg :: "json \<Rightarrow> string \<Rightarrow> string + string" where
  "string_arg input key = ok_or (key @ '' must be a string'') (get_str input key)"

section \<open>Paths in the workspace\<close>

definition resolve_candidate :: "path \<Rightarrow> string \<Rightarrow> path" where
  "resolve_candidate cwd p =
     (let raw = parse_path p in if is_absolute raw then raw else path_join cwd raw)"

definition ensure_inside :: "path \<Rightarrow> path \<Rightarrow> fs \<Rightarrow> (string + unit) \<times> fs" where
  "ensure_inside cwd p s =
     io_bind (io_err (\<lambda>e. show_path cwd @ '': '' @ show_io_error e) (fs_canonicalize cwd s)) (\<lambda>root s.
       if path_starts_with p (path_of_loc root) then (Inr (), s)
       else (Inl (''path '' @ show_path p @ '' escapes workspace '' @ show_path (path_of_loc root)), s))"

definition resolve_existing :: "path \<Rightarrow> string \<Rightarrow> fs \<Rightarrow> (string + path) \<times> fs" where
  "resolve_existing cwd p s =
     io_bind (io_err (\<lambda>e. p @ '': '' @ show_io_error e) (fs_canonicalize (resolve_candidate cwd p) s)) (\<lambda>l s.
     io_bind (ensure_inside cwd (path_of_loc l) s) (\<lambda>_ s.
       (Inr (path_of_loc l), s)))"

definition resolve_allow_missing :: "path \<Rightarrow> string \<Rightarrow> fs \<Rightarrow> (string + path) \<times> fs" where
  "resolve_allow_missing cwd p s =
     (let candidate = resolve_candidate cwd p;
          parent = unwrap_or cwd (path_parent candidate)
      in io_bind (io_err (\<lambda>e. show_path parent @ '': '' @ show_io_error e) (fs_canonicalize parent s)) (\<lambda>l s.
         io_bind (ensure_inside cwd (path_of_loc l) s) (\<lambda>_ s.
           (case file_name candidate of
              None \<Rightarrow> (Inl ''path must include a file name'', s)
            | Some n \<Rightarrow> (Inr (path_join (path_of_loc l) [Name n]), s)))))"

text \<open>\<open>to_string_lossy().replace('\\', "/")\<close>.\<close>

definition relative :: "path \<Rightarrow> path \<Rightarrow> string" where
  "relative cwd p =
     concat (map (\<lambda>c. if c = CHR 0x5C then ''/'' else [c])
       (utf8_lossy (show_path (unwrap_or p (strip_path_prefix cwd p)))))"

section \<open>Specifications\<close>

record tool_spec =
  spec_name :: string
  spec_description :: string
  spec_schema :: json
  spec_permission :: permission_mode

text \<open>The shape all the schemas share.\<close>

definition object_schema :: "(string \<times> json) list \<Rightarrow> json list \<Rightarrow> json" where
  "object_schema properties required =
     jobj [(''type'', JStr ''object''), (''properties'', jobj properties), (''required'', JArr required),
       (''additionalProperties'', JBool False)]"

definition bash_spec :: tool_spec where
  "bash_spec = \<lparr>spec_name = ''bash'',
     spec_description = ''Execute a shell command in the current workspace.'',
     spec_schema = object_schema [(''command'', jobj [(''type'', JStr ''string'')]),
      (''timeout'', jobj [(''type'', JStr ''integer''), (''minimum'', jnat 1)]),
      (''description'', jobj [(''type'', JStr ''string'')])]
       [JStr ''command''],
     spec_permission = DangerFullAccess\<rparr>"

definition read_file_spec :: tool_spec where
  "read_file_spec = \<lparr>spec_name = ''read_file'',
     spec_description = ''Read a text file from the workspace.'',
     spec_schema = object_schema [(''path'', jobj [(''type'', JStr ''string'')]),
      (''offset'', jobj [(''type'', JStr ''integer''), (''minimum'', jnat 0)]),
      (''limit'', jobj [(''type'', JStr ''integer''), (''minimum'', jnat 1)])]
       [JStr ''path''],
     spec_permission = ReadOnly\<rparr>"

definition write_file_spec :: tool_spec where
  "write_file_spec = \<lparr>spec_name = ''write_file'',
     spec_description = ''Write a text file in the workspace.'',
     spec_schema = object_schema [(''path'', jobj [(''type'', JStr ''string'')]),
      (''content'', jobj [(''type'', JStr ''string'')])]
       [JStr ''path'', JStr ''content''],
     spec_permission = WorkspaceWrite\<rparr>"

definition edit_file_spec :: tool_spec where
  "edit_file_spec = \<lparr>spec_name = ''edit_file'',
     spec_description = ''Replace text in a workspace file.'',
     spec_schema = object_schema [(''path'', jobj [(''type'', JStr ''string'')]),
      (''old_string'', jobj [(''type'', JStr ''string'')]),
      (''new_string'', jobj [(''type'', JStr ''string'')]),
      (''replace_all'', jobj [(''type'', JStr ''boolean'')])]
       [JStr ''path'', JStr ''old_string'', JStr ''new_string''],
     spec_permission = WorkspaceWrite\<rparr>"

definition glob_search_spec :: tool_spec where
  "glob_search_spec = \<lparr>spec_name = ''glob_search'',
     spec_description = ''Find files by glob pattern.'',
     spec_schema = object_schema [(''pattern'', jobj [(''type'', JStr ''string'')]),
      (''path'', jobj [(''type'', JStr ''string'')])]
       [JStr ''pattern''],
     spec_permission = ReadOnly\<rparr>"

definition grep_search_spec :: tool_spec where
  "grep_search_spec = \<lparr>spec_name = ''grep_search'',
     spec_description = ''Search file contents with a regex pattern.'',
     spec_schema = object_schema [(''pattern'', jobj [(''type'', JStr ''string'')]),
      (''path'', jobj [(''type'', JStr ''string'')]),
      (''glob'', jobj [(''type'', JStr ''string'')]),
      (''output_mode'', jobj [(''type'', JStr ''string''), (''enum'', JArr [JStr ''files_with_matches'', JStr ''content'', JStr ''count''])]),
      (''head_limit'', jobj [(''type'', JStr ''integer''), (''minimum'', jnat 1)]),
      (''offset'', jobj [(''type'', JStr ''integer''), (''minimum'', jnat 0)]),
      (''-i'', jobj [(''type'', JStr ''boolean'')]),
      (''-n'', jobj [(''type'', JStr ''boolean'')])]
       [JStr ''pattern''],
     spec_permission = ReadOnly\<rparr>"

definition sleep_spec :: tool_spec where
  "sleep_spec = \<lparr>spec_name = ''Sleep'',
     spec_description = ''Pause execution for a specified duration in milliseconds.'',
     spec_schema = object_schema [(''duration_ms'', jobj [(''type'', JStr ''integer''), (''minimum'', jnat 1)])]
       [JStr ''duration_ms''],
     spec_permission = ReadOnly\<rparr>"

definition structured_output_spec :: tool_spec where
  "structured_output_spec = \<lparr>spec_name = ''StructuredOutput'',
     spec_description = ''Return a structured JSON object to the model.'',
     spec_schema = object_schema [(''data'', jobj [(''type'', JStr ''object'')])]
       [JStr ''data''],
     spec_permission = ReadOnly\<rparr>"

definition send_user_message_spec :: tool_spec where
  "send_user_message_spec = \<lparr>spec_name = ''SendUserMessage'',
     spec_description = ''Send a user-facing message or status update.'',
     spec_schema = object_schema [(''message'', jobj [(''type'', JStr ''string'')]),
      (''status'', jobj [(''type'', JStr ''string''), (''enum'', JArr [JStr ''info'', JStr ''warning'', JStr ''error'', JStr ''success''])])]
       [JStr ''message''],
     spec_permission = ReadOnly\<rparr>"

definition tool_search_spec :: tool_spec where
  "tool_search_spec = \<lparr>spec_name = ''ToolSearch'',
     spec_description = ''Search available tools by name or description keyword.'',
     spec_schema = object_schema [(''query'', jobj [(''type'', JStr ''string'')])]
       [JStr ''query''],
     spec_permission = ReadOnly\<rparr>"

definition todo_write_spec :: tool_spec where
  "todo_write_spec = \<lparr>spec_name = ''TodoWrite'',
     spec_description = ''Create or update a structured task list for the current session.'',
     spec_schema = object_schema [(''todos'', jobj [(''type'', JStr ''array''), (''items'', jobj [(''type'', JStr ''object''), (''properties'', jobj [(''content'', jobj [(''type'', JStr ''string'')]), (''status'', jobj [(''type'', JStr ''string''), (''enum'', JArr [JStr ''pending'', JStr ''in_progress'', JStr ''completed'', JStr ''cancelled''])]), (''priority'', jobj [(''type'', JStr ''string''), (''enum'', JArr [JStr ''high'', JStr ''medium'', JStr ''low''])])]), (''required'', JArr [JStr ''content'', JStr ''status''])])])]
       [JStr ''todos''],
     spec_permission = ReadOnly\<rparr>"

definition tool_specs :: "tool_spec list" where
  "tool_specs =
     [bash_spec, read_file_spec, write_file_spec, edit_file_spec, glob_search_spec, grep_search_spec,
      sleep_spec, structured_output_spec, send_user_message_spec, tool_search_spec, todo_write_spec]"

definition tool_definitions :: "tool_definition list" where
  "tool_definitions =
     map (\<lambda>spec. \<lparr>td_name = spec_name spec, td_description = Some (spec_description spec), td_schema = spec_schema spec\<rparr>)
       tool_specs"

definition permission_specs :: "(string \<times> permission_mode) list" where
  "permission_specs = map (\<lambda>spec. (spec_name spec, spec_permission spec)) tool_specs"

section \<open>The shell\<close>

datatype poll_result = PollEnded nat | PollTimeout nat | PollFailed string nat

text \<open>
  The polling loop. \<open>thread::sleep\<close> sleeps at least its 25 ms, so the elapsed time at a poll is 25
  ms for each poll before it and what was lost elsewhere.
\<close>

function poll_process :: "shell_process \<Rightarrow> nat \<Rightarrow> nat \<Rightarrow> poll_result" where
  "poll_process p timeout i =
     (case proc_ended p i of
        Inl e \<Rightarrow> PollFailed e i
      | Inr True \<Rightarrow> PollEnded i
      | Inr False \<Rightarrow>
          if timeout \<le> 25 * i + proc_delay p i then PollTimeout i else poll_process p timeout (Suc i))"
  by pat_completeness auto
termination
  by (relation "measure (\<lambda>(p, timeout, i). timeout - i)") auto

declare poll_process.simps [simp del]

definition jint :: "int \<Rightarrow> json" where
  "jint i = JNum (if 0 \<le> i then PosInt (of_int i) else NegInt i)"

definition bash :: "tool_env \<Rightarrow> path \<Rightarrow> json \<Rightarrow> fs \<Rightarrow> (string + string) \<times> fs" where
  "bash env cwd input s =
     io_bind (string_arg input ''command'', s) (\<lambda>command s.
       let timeout_ms = unwrap_or 60000 (get_u64 input ''timeout'') in
       case te_spawn env cwd command s of
         Inl e \<Rightarrow> (Inl e, s)
       | Inr p \<Rightarrow>
           (case poll_process p (unat timeout_ms) 0 of
              PollFailed e i \<Rightarrow> (Inl e, proc_effect p i s)
            | PollTimeout i \<Rightarrow>
                (Inl (''command timed out after '' @ show_nat (unat timeout_ms) @ '' ms''), proc_effect p i s)
            | PollEnded i \<Rightarrow>
                (case proc_output p of
                   Inl e \<Rightarrow> (Inl e, proc_effect p i s)
                 | Inr (code, out, err) \<Rightarrow>
                     (Inr (te_text env (jobj
                        [(''exit_code'', jint (unwrap_or 1 code)), (''stdout'', JStr (utf8_lossy out)),
                         (''stderr'', JStr (utf8_lossy err))])), proc_effect p i s))))"

section \<open>Files\<close>

definition max_read_bytes :: nat where
  "max_read_bytes = 10 * 1024 * 1024"

definition max_write_bytes :: nat where
  "max_write_bytes = 10 * 1024 * 1024"

text \<open>\<open>usize\<close> is 64 bits; the line count of a file fits it.\<close>

definition window_end :: "u64 \<Rightarrow> u64 option \<Rightarrow> nat \<Rightarrow> nat" where
  "window_end offset limit count =
     (case limit of
        None \<Rightarrow> count
      | Some l \<Rightarrow> min (min (unat offset + unat l) (2 ^ 64 - 1)) count)"

text \<open>\<open>lines[offset..end].join("\n")\<close> and the line count reported for it.\<close>

definition select_lines :: "u64 \<Rightarrow> u64 option \<Rightarrow> string list \<Rightarrow> string \<times> nat" where
  "select_lines offset limit ls =
     (let e = window_end offset limit (length ls) in
      (if unat offset \<le> length ls then join nl (take (e - unat offset) (drop (unat offset) ls)) else [],
       e - min (unat offset) e))"

definition read_file :: "tool_env \<Rightarrow> path \<Rightarrow> json \<Rightarrow> fs \<Rightarrow> (string + string) \<times> fs" where
  "read_file env cwd input s =
     io_bind (string_arg input ''path'', s) (\<lambda>p s.
       let offset = unwrap_or 0 (get_u64 input ''offset'');
           limit = get_u64 input ''limit''
       in io_bind (resolve_existing cwd p s) (\<lambda>resolved s.
          io_bind (io_err show_io_error (fs_metadata_len resolved s)) (\<lambda>len s.
            if max_read_bytes < len
            then (Inl (''file is too large ('' @ show_nat len @ '' bytes, max '' @ show_nat max_read_bytes @ '' bytes)''), s)
            else io_bind (io_err show_io_error (fs_read_to_string resolved s)) (\<lambda>content s.
              let ls = str_lines content;
                  (selected, num) = select_lines offset limit ls
              in (Inr (te_text env (jobj
                    [(''type'', JStr ''text''),
                     (''file'', jobj
                       [(''filePath'', JStr (relative cwd resolved)), (''content'', JStr selected),
                        (''numLines'', jnat num), (''startLine'', JNum (PosInt (offset + 1))),
                        (''totalLines'', jnat (length ls))])])), s)))))"

text \<open>\<open>read_to_string(..).ok()\<close>.\<close>

definition try_read :: "path \<Rightarrow> fs \<Rightarrow> string option \<times> fs" where
  "try_read p s = (case fs_read_to_string p s of (Inl _, s') \<Rightarrow> (None, s') | (Inr c, s') \<Rightarrow> (Some c, s'))"

definition write_resolved :: "tool_env \<Rightarrow> path \<Rightarrow> string \<Rightarrow> path \<Rightarrow> fs \<Rightarrow> (string + string) \<times> fs" where
  "write_resolved env cwd content resolved s =
     (let (original, s) = try_read resolved s
      in io_bind (case path_parent resolved of
                    None \<Rightarrow> (Inr (), s)
                  | Some parent \<Rightarrow> io_err show_io_error (fs_create_dir_all parent s)) (\<lambda>_ s.
         io_bind (io_err show_io_error (fs_write resolved content s)) (\<lambda>_ s.
           (Inr (te_text env (jobj
              [(''type'', JStr (if original \<noteq> None then ''update'' else ''create'')),
               (''filePath'', JStr (relative cwd resolved)),
               (''originalFile'', jopt JStr original)])), s))))"

definition write_file :: "tool_env \<Rightarrow> path \<Rightarrow> json \<Rightarrow> fs \<Rightarrow> (string + string) \<times> fs" where
  "write_file env cwd input s =
     io_bind (string_arg input ''path'', s) (\<lambda>p s.
     io_bind (string_arg input ''content'', s) (\<lambda>content s.
       if max_write_bytes < length content
       then (Inl (''content is too large ('' @ show_nat (length content) @ '' bytes, max ''
              @ show_nat max_write_bytes @ '' bytes)''), s)
       else io_bind (resolve_allow_missing cwd p s) (\<lambda>resolved s.
            write_resolved env cwd content resolved s)))"

text \<open>The new text of a file and the number of replacements reported.\<close>

definition edit_text :: "string \<Rightarrow> string \<Rightarrow> bool \<Rightarrow> string \<Rightarrow> string + string \<times> nat" where
  "edit_text old new all original =
     (let matches = match_count original old in
      if matches = 0 then Inl ''old_string not found in file''
      else if matches > 1 \<and> \<not> all
      then Inl (''old_string appears '' @ show_nat matches
             @ '' times; set replace_all true or provide more context'')
      else Inr (if all then replace_str original old new else replace_first original old new,
             if all then matches else 1))"

definition edit_resolved ::
  "tool_env \<Rightarrow> path \<Rightarrow> string \<Rightarrow> string \<Rightarrow> bool \<Rightarrow> path \<Rightarrow> fs \<Rightarrow> (string + string) \<times> fs" where
  "edit_resolved env cwd old new replace_all resolved s =
     io_bind (io_err show_io_error (fs_read_to_string resolved s)) (\<lambda>original s.
     io_bind (edit_text old new replace_all original, s) (\<lambda>(updated, count) s.
     io_bind (io_err show_io_error (fs_write resolved updated s)) (\<lambda>_ s.
       (Inr (te_text env (jobj
          [(''filePath'', JStr (relative cwd resolved)), (''oldString'', JStr old),
           (''newString'', JStr new), (''replaceAll'', JBool replace_all),
           (''replacements'', jnat count)])), s))))"

definition edit_file :: "tool_env \<Rightarrow> path \<Rightarrow> json \<Rightarrow> fs \<Rightarrow> (string + string) \<times> fs" where
  "edit_file env cwd input s =
     io_bind (string_arg input ''path'', s) (\<lambda>p s.
     io_bind (string_arg input ''old_string'', s) (\<lambda>old s.
     io_bind (string_arg input ''new_string'', s) (\<lambda>new s.
       let replace_all = unwrap_or False (get_bool input ''replace_all'') in
       if old = [] then (Inl ''old_string must not be empty'', s)
       else io_bind (resolve_existing cwd p s) (\<lambda>resolved s.
            edit_resolved env cwd old new replace_all resolved s))))"

section \<open>Searching\<close>

text \<open>The base of a search: the directory itself, or an existing path in it.\<close>

definition search_base :: "path \<Rightarrow> json \<Rightarrow> fs \<Rightarrow> (string + path) \<times> fs" where
  "search_base cwd input s =
     (case get_str input ''path'' of None \<Rightarrow> (Inr cwd, s) | Some p \<Rightarrow> resolve_existing cwd p s)"

text \<open>\<open>base.join(pattern)\<close> as text: the dots and stars of the pattern stay.\<close>

definition join_text :: "path \<Rightarrow> string \<Rightarrow> string" where
  "join_text base pattern =
     (if starts_with pattern ''/'' then pattern
      else if base = [] \<or> ends_with (show_path base) ''/'' then show_path base @ pattern
      else show_path base @ ''/'' @ pattern)"

fun glob_entries :: "path \<Rightarrow> (string + path) list \<Rightarrow> fs \<Rightarrow> (string + string list) \<times> fs" where
  "glob_entries cwd [] s = (Inr [], s)"
| "glob_entries cwd (Inl e # es) s = (Inl e, s)"
| "glob_entries cwd (Inr p # es) s =
     (if fs_is_file p s then
        io_bind (ensure_inside cwd p s) (\<lambda>_ s.
        io_bind (glob_entries cwd es s) (\<lambda>rest s. (Inr (relative cwd p # rest), s)))
      else glob_entries cwd es s)"

definition glob_search :: "tool_env \<Rightarrow> path \<Rightarrow> json \<Rightarrow> fs \<Rightarrow> (string + string) \<times> fs" where
  "glob_search env cwd input s =
     io_bind (string_arg input ''pattern'', s) (\<lambda>pattern s.
     io_bind (search_base cwd input s) (\<lambda>base s.
     io_bind (te_glob env (utf8_lossy (join_text base pattern)) s, s) (\<lambda>entries s.
     io_bind (glob_entries cwd entries s) (\<lambda>files s.
       let sorted_files = sort files;
           shown = take 100 sorted_files
       in (Inr (te_text env (jobj
             [(''numFiles'', jnat (length shown)), (''filenames'', JArr (map JStr shown)),
              (''truncated'', JBool (100 < length sorted_files))])), s)))))"

text \<open>The matching lines of one file, and their rendering.\<close>

record grep_state =
  gs_filenames :: "string list"
  gs_content :: "string list"
  gs_count :: nat

record grep_options =
  go_filter :: "glob_pattern option"
  go_mode :: string
  go_limit :: nat
  go_numbers :: bool
  go_regex :: "string \<Rightarrow> bool"

definition grep_line :: "path \<Rightarrow> grep_options \<Rightarrow> path \<Rightarrow> nat \<times> string \<Rightarrow> grep_state \<times> bool \<Rightarrow> grep_state \<times> bool" where
  "grep_line cwd opts floc = (\<lambda>(index, line) (gs, matched).
     if go_regex opts line then
       (let gs = gs\<lparr>gs_count := gs_count gs + 1\<rparr>;
            prefix = (if go_numbers opts then relative cwd floc @ '':'' @ show_nat (index + 1) @ '':''
                      else relative cwd floc @ '':'')
        in (if go_mode opts = ''content'' \<and> length (gs_content gs) < go_limit opts
            then gs\<lparr>gs_content := gs_content gs @ [prefix @ line]\<rparr> else gs, True))
     else (gs, matched))"

definition grep_skips :: "path \<Rightarrow> grep_options \<Rightarrow> path \<Rightarrow> bool" where
  "grep_skips cwd opts floc \<longleftrightarrow>
     (case go_filter opts of
        None \<Rightarrow> False
      | Some g \<Rightarrow> \<not> gp_matches_path g floc \<and> \<not> gp_matches g (relative cwd floc))"

fun grep_files :: "path \<Rightarrow> grep_options \<Rightarrow> path list \<Rightarrow> grep_state \<Rightarrow> fs \<Rightarrow> grep_state \<times> fs" where
  "grep_files cwd opts [] gs s = (gs, s)"
| "grep_files cwd opts (f # fs) gs s =
     (if grep_skips cwd opts f then grep_files cwd opts fs gs s
      else case fs_read_to_string f s of
        (Inl _, s) \<Rightarrow> grep_files cwd opts fs gs s
      | (Inr text, s) \<Rightarrow>
          (let (gs, matched) = fold (grep_line cwd opts f) (enumerate 0 (str_lines text)) (gs, False);
               gs = (if matched then gs\<lparr>gs_filenames := gs_filenames gs @ [relative cwd f]\<rparr> else gs)
           in if go_limit opts \<le> length (gs_filenames gs) \<and> go_mode opts \<noteq> ''content'' then (gs, s)
              else grep_files cwd opts fs gs s))"

definition grep_search :: "tool_env \<Rightarrow> path \<Rightarrow> json \<Rightarrow> fs \<Rightarrow> (string + string) \<times> fs" where
  "grep_search env cwd input s =
     io_bind (string_arg input ''pattern'', s) (\<lambda>pattern s.
     io_bind (search_base cwd input s) (\<lambda>base s.
     io_bind (case get_str input ''glob'' of
                None \<Rightarrow> Inr None
              | Some g \<Rightarrow> and_then (te_pattern env g) (\<lambda>p. Inr (Some p)), s) (\<lambda>glob_filter s.
       let output_mode = unwrap_or ''files_with_matches'' (get_str input ''output_mode'');
           head_limit = unat (unwrap_or 100 (get_u64 input ''head_limit''));
           case_insensitive = unwrap_or False (get_bool input ''-i'');
           line_numbers = unwrap_or True (get_bool input ''-n'')
       in io_bind (te_regex env pattern case_insensitive, s) (\<lambda>regex s.
          let files = (if fs_is_file base s then [base] else te_walk env base s);
              opts = \<lparr>go_filter = glob_filter, go_mode = output_mode, go_limit = head_limit,
                      go_numbers = line_numbers, go_regex = regex\<rparr>;
              (gs, s) = grep_files cwd opts files \<lparr>gs_filenames = [], gs_content = [], gs_count = 0\<rparr> s;
              shown = take head_limit (gs_filenames gs)
          in (Inr (te_text env (jobj
                [(''mode'', JStr output_mode), (''numFiles'', jnat (length shown)),
                 (''filenames'', JArr (map JStr shown)),
                 (''content'', if output_mode = ''content'' then JStr (join nl (gs_content gs)) else JNull),
                 (''numMatches'', if output_mode = ''count'' then jnat (gs_count gs) else JNull)])), s)))))"

section \<open>The other tools\<close>

definition max_sleep_ms :: u64 where
  "max_sleep_ms = 120000"

definition sleep :: "tool_env \<Rightarrow> json \<Rightarrow> string + string" where
  "sleep env input =
     and_then (ok_or ''duration_ms must be a positive integer'' (get_u64 input ''duration_ms'')) (\<lambda>duration_ms.
       if max_sleep_ms < duration_ms
       then Inl (''duration_ms must not exceed '' @ show_nat (unat max_sleep_ms) @ '' ms'')
       else Inr (te_text env (jobj [(''slept_ms'', JNum (PosInt duration_ms))])))"

definition structured_output :: "tool_env \<Rightarrow> json \<Rightarrow> string + string" where
  "structured_output env input =
     and_then (ok_or ''data is required'' (json_get input ''data'')) (\<lambda>data.
       Inr (te_text env (jobj [(''type'', JStr ''structured_output''), (''data'', data)])))"

definition send_user_message :: "tool_env \<Rightarrow> json \<Rightarrow> string + string" where
  "send_user_message env input =
     and_then (string_arg input ''message'') (\<lambda>message.
       let status = unwrap_or ''info'' (get_str input ''status'') in
       Inr (te_text env (jobj
         [(''type'', JStr ''user_message''), (''message'', JStr message), (''status'', JStr status)])))"

definition tool_search :: "tool_env \<Rightarrow> json \<Rightarrow> string + string" where
  "tool_search env input =
     and_then (string_arg input ''query'') (\<lambda>raw.
       let query = te_lower env raw;
           found = map (\<lambda>spec. jobj [(''name'', JStr (spec_name spec)), (''description'', JStr (spec_description spec))])
             (filter (\<lambda>spec. contains (te_lower env (spec_name spec)) query
                \<or> contains (te_lower env (spec_description spec)) query) tool_specs)
       in Inr (te_text env (jobj
            [(''query'', JStr query), (''numResults'', jnat (length found)), (''tools'', JArr found)])))"

definition todo_write :: "tool_env \<Rightarrow> json \<Rightarrow> string + string" where
  "todo_write env input =
     and_then (ok_or ''todos must be an array'' (get_array input ''todos'')) (\<lambda>todos.
       Inr (te_text env (jobj
         [(''type'', JStr ''todo_update''), (''count'', jnat (length todos)), (''todos'', JArr todos)])))"

definition execute :: "tool_env \<Rightarrow> path \<Rightarrow> string \<Rightarrow> json \<Rightarrow> fs \<Rightarrow> (string + string) \<times> fs" where
  "execute env cwd tool_name input s =
     (if tool_name = ''bash'' then bash env cwd input s
      else if tool_name = ''read_file'' then read_file env cwd input s
      else if tool_name = ''write_file'' then write_file env cwd input s
      else if tool_name = ''edit_file'' then edit_file env cwd input s
      else if tool_name = ''glob_search'' then glob_search env cwd input s
      else if tool_name = ''grep_search'' then grep_search env cwd input s
      else if tool_name = ''Sleep'' then (sleep env input, s)
      else if tool_name = ''StructuredOutput'' then (structured_output env input, s)
      else if tool_name = ''SendUserMessage'' then (send_user_message env input, s)
      else if tool_name = ''ToolSearch'' then (tool_search env input, s)
      else if tool_name = ''TodoWrite'' then (todo_write env input, s)
      else (Inl (''unsupported tool: '' @ tool_name), s))"

section \<open>What the tools touch\<close>

lemma io_err_same:
  "same_files s (snd (io_err f (fs_canonicalize p s)))"
  "same_files s (snd (io_err f (fs_read_to_string p s)))"
  "same_files s (snd (io_err f (fs_metadata_len p s)))"
  using canonicalize_same [of p s] read_string_same [of p s] metadata_same [of p s]
  by (metis io_err_def prod.collapse snd_conv)+

text \<open>Success of the check places the path under the canonical root.\<close>

lemma ensure_inside_spec:
  assumes "ensure_inside cwd p s = (r, s')"
  shows "same_files s s' \<and> (r = Inr () \<longrightarrow> (\<exists>root t. locate False s cwd = Inr root \<and> p = path_of_loc root @ t))"
  using assms unfolding ensure_inside_def
proof (cases rule: io_bind_cases)
  case (1 e)
  then show ?thesis using io_err_same(1) by (metis Inl_Inr_False snd_conv)
next
  case (2 root s1)
  then have "fs_canonicalize cwd s = (Inr root, s1)"
    by (cases "fs_canonicalize cwd s") (auto simp: io_err_def)
  then show ?thesis
    using 2 canonicalize_same [of cwd s]
    by (auto simp: path_starts_with_def strip_path_prefix_Some not_None_eq split: if_splits)
qed

lemma resolve_existing_spec:
  assumes "resolve_existing cwd p s = (r, s')"
  shows "same_files s s' \<and> (\<forall>q. r = Inr q \<longrightarrow> (\<exists>root t. locate False s cwd = Inr root
    \<and> q = path_of_loc (root @ t) \<and> locate False s (resolve_candidate cwd p) = Inr (root @ t)))"
  using assms unfolding resolve_existing_def
proof (cases rule: io_bind_cases)
  case (1 e)
  then show ?thesis using io_err_same(1) by (metis Inl_Inr_False snd_conv)
next
  case (2 l s1)
  then have can: "same_files s s1" "locate False s (resolve_candidate cwd p) = Inr l"
    using canonicalize_same [of "resolve_candidate cwd p" s]
    by (cases "fs_canonicalize (resolve_candidate cwd p) s"; auto simp: io_err_def)+
  from 2(2) show ?thesis
  proof (cases rule: io_bind_cases)
    case (1 e)
    then show ?thesis using ensure_inside_spec can same_files_trans by (metis Inl_Inr_False)
  next
    case (2 x s2)
    then obtain root where "same_files s s2" "locate False s cwd = Inr root" "path_starts_with (path_of_loc l) (path_of_loc root)"
      using ensure_inside_spec [of cwd "path_of_loc l" s1 "Inr ()" s2] can same_files_trans
      by (auto simp: same_files_locate path_starts_with_def strip_path_prefix_Some)
    then show ?thesis using 2 can path_starts_with_loc by auto
  qed
qed

lemma resolve_allow_missing_spec:
  assumes "resolve_allow_missing cwd p s = (r, s')"
  shows "same_files s s' \<and> (\<forall>q. r = Inr q \<longrightarrow> (\<exists>root t n p. locate False s cwd = Inr root
    \<and> q = path_of_loc (root @ t) @ [Name n] \<and> locate False s p = Inr (root @ t)))"
proof -
  let ?parent = "unwrap_or cwd (path_parent (resolve_candidate cwd p))"
  from assms show ?thesis unfolding resolve_allow_missing_def Let_def
  proof (cases rule: io_bind_cases)
    case (1 e)
    then show ?thesis using io_err_same(1) by (metis Inl_Inr_False snd_conv)
  next
    case (2 l s1)
    then have can: "same_files s s1" "locate False s ?parent = Inr l"
      using canonicalize_same [of ?parent s] by (cases "fs_canonicalize ?parent s"; auto simp: io_err_def)+
    from 2(2) show ?thesis
    proof (cases rule: io_bind_cases)
      case (1 e)
      then show ?thesis using ensure_inside_spec can same_files_trans by (metis Inl_Inr_False)
    next
      case (2 x s2)
      then obtain root where root: "same_files s s2" "locate False s cwd = Inr root" "path_starts_with (path_of_loc l) (path_of_loc root)"
        using ensure_inside_spec [of cwd "path_of_loc l" s1 "Inr ()" s2] can same_files_trans
        by (auto simp: same_files_locate path_starts_with_def strip_path_prefix_Some)
      then obtain t where "l = root @ t" using path_starts_with_loc by auto
      then show ?thesis
        using 2 can root by (auto simp: path_join_def is_absolute_def path_of_loc_def split: option.splits)
    qed
  qed
qed

lemma resolve_existing_same: "same_files s (snd (resolve_existing cwd p s))"
  using resolve_existing_spec by (metis prod.collapse)

lemma search_base_same: "same_files s (snd (search_base cwd input s))"
  by (simp add: search_base_def resolve_existing_same split: option.split)

lemma read_file_same: "read_file env cwd input s = (r, s') \<Longrightarrow> same_files s s'"
  unfolding read_file_def Let_def
  by (erule io_bind_same, simp,
      erule io_bind_same, simp add: resolve_existing_same,
      erule io_bind_same, simp add: io_err_same,
      simp split: if_splits,
      erule io_bind_same, simp add: io_err_same,
      auto split: prod.splits)

lemma glob_entries_same: "glob_entries cwd es s = (r, s') \<Longrightarrow> same_files s s'"
proof (induction cwd es s arbitrary: r s' rule: glob_entries.induct)
  case (3 cwd p es s)
  show ?case
  proof (cases "fs_is_file p s")
    case True
    then have "io_bind (ensure_inside cwd p s) (\<lambda>_ s. io_bind (glob_entries cwd es s)
        (\<lambda>rest s. (Inr (relative cwd p # rest), s))) = (r, s')"
      using "3.prems" by simp
    then show ?thesis
    proof (rule io_bind_same)
      show "same_files s (snd (ensure_inside cwd p s))"
        using ensure_inside_spec by (metis prod.collapse)
    next
      fix x s1 r s'
      assume a: "ensure_inside cwd p s = (Inr x, s1)"
        and b: "io_bind (glob_entries cwd es s1) (\<lambda>rest s. (Inr (relative cwd p # rest), s)) = (r, s')"
      from b show "same_files s1 s'"
        by (rule io_bind_same) (use "3.IH"(1) [OF True] in \<open>auto simp: prod_eq_iff\<close>)
    qed
  qed (use 3 in simp)
qed simp_all

lemma grep_files_same: "grep_files cwd opts fs gs s = (gs', s') \<Longrightarrow> same_files s s'"
proof (induction fs arbitrary: gs s)
  case Nil
  then show ?case by simp
next
  case (Cons f fs)
  obtain r1 s1 where rd: "fs_read_to_string f s = (r1, s1)" by fastforce
  have "same_files s s1" using read_string_same [OF rd] by simp
  then show ?case
    using Cons.prems Cons.IH rd
    by (auto simp: Let_def split: if_splits sum.splits prod.splits intro: same_files_trans)
qed

lemma glob_search_same: "glob_search env cwd input s = (r, s') \<Longrightarrow> same_files s s'"
  unfolding glob_search_def Let_def
  by (erule io_bind_same, simp,
      erule io_bind_same, simp add: search_base_same,
      erule io_bind_same, simp,
      erule io_bind_same) (use glob_entries_same in \<open>auto simp: prod_eq_iff\<close>)

lemma grep_search_same: "grep_search env cwd input s = (r, s') \<Longrightarrow> same_files s s'"
  unfolding grep_search_def Let_def
  by (erule io_bind_same, simp,
      erule io_bind_same, simp add: search_base_same,
      erule io_bind_same, simp,
      erule io_bind_same, simp)
    (auto split: prod.splits dest: grep_files_same)

text \<open>An existing path is written at its own location, so inside the workspace.\<close>

lemma edit_resolved_cases:
  assumes "edit_resolved env cwd old new all q s = (r, s')"
  shows "same_files s s' \<or> (\<exists>c s2. same_files s s2 \<and> s' = snd (fs_write q c s2))"
  using assms unfolding edit_resolved_def
proof (cases rule: io_bind_cases)
  case (1 e)
  then show ?thesis using io_err_same(2) by (metis snd_conv)
next
  case (2 original s2)
  then have s2: "same_files s s2" using io_err_same(2) by (metis snd_conv)
  from 2(2) show ?thesis
  proof (cases rule: io_bind_cases)
    case (1 e)
    then show ?thesis using s2 by auto
  next
    case (2 uc s3)
    then have "s' = snd (fs_write q (fst uc) s2)"
      by (auto simp: io_bind_def io_err_def split: prod.splits sum.splits)
    then show ?thesis using s2 by blast
  qed
qed

lemma edit_file_cases:
  "edit_file env cwd input s = (r, s') \<Longrightarrow> same_files s s' \<or> (\<exists>p q s1 c s2. resolve_existing cwd p s = (Inr q, s1)
     \<and> same_files s1 s2 \<and> s' = snd (fs_write q c s2))"
proof -
  assume a: "edit_file env cwd input s = (r, s')"
  then consider "s' = s" | p q s1 old new all where "resolve_existing cwd p s = (Inr q, s1)"
      "edit_resolved env cwd old new all q s1 = (r, s')" | p e where "resolve_existing cwd p s = (Inl e, s')"
    unfolding edit_file_def Let_def by (auto elim!: io_bind_cases split: if_splits)
  then show ?thesis
  proof cases
    case 2
    then have "same_files s s1" using resolve_existing_same by (metis snd_conv)
    then show ?thesis using edit_resolved_cases [OF 2(2)] 2(1) same_files_trans by blast
  next
    case 3
    then show ?thesis using resolve_existing_same by (metis snd_conv)
  qed simp
qed

lemma edit_file_changes:
  assumes "edit_file env cwd input s = (r, s')" and "real_dir (fs_nodes s) (fs_cwd s)" and root: "locate False s cwd = Inr root"
  shows "changes_only s s' (\<lambda>k. \<exists>t. k = root @ t)"
  using edit_file_cases [OF assms(1)]
proof (elim disjE exE conjE)
  assume "same_files s s'"
  then show ?thesis by (rule same_changes_only)
next
  fix p q s1 c s2
  assume res: "resolve_existing cwd p s = (Inr q, s1)" and s12: "same_files s1 s2" and wr: "s' = snd (fs_write q c s2)"
  obtain t where q: "q = path_of_loc (root @ t)" "locate False s (resolve_candidate cwd p) = Inr (root @ t)" "same_files s s1"
    using resolve_existing_spec [OF res] root by auto
  have same: "same_files s s2" using q(3) s12 by (rule same_files_trans)
  have "locate True s q = Inr (root @ t)"
    using locate_real [OF q(2) assms(2)] unfolding q(1) by (intro locate_canonical) auto
  then have loc2: "locate True s2 q = Inr (root @ t)" using same by (simp add: same_files_locate)
  have "changes_only s2 s' (\<lambda>k. locate True s2 q = Inr k)"
    using write_changes wr by (metis prod.collapse)
  then have "changes_only s2 s' (\<lambda>k. \<exists>t. k = root @ t)"
    by (rule changes_only_mono) (use loc2 in auto)
  then show ?thesis using changes_only_trans [OF same_changes_only [OF same]] by blast
qed

lemma write_resolved_cases:
  assumes "write_resolved env cwd c q s = (r, s')" and "path_parent q = Some (path_of_loc l)"
    and "locate True s (path_of_loc l) = Inr l" and "node_at (fs_nodes s) l \<noteq> None"
  shows "same_files s s' \<or> (\<exists>s2. same_files s s2 \<and> s' = snd (fs_write q c s2))"
proof -
  obtain original s1 where rd: "try_read q s = (original, s1)" by fastforce
  obtain r0 where "fs_read_to_string q s = (r0, s1)"
    using rd by (auto simp: try_read_def split: prod.splits sum.splits)
  then have s1: "same_files s s1" using read_string_same by blast
  have dirs: "same_files s1 (snd (fs_create_dir_all (path_of_loc l) s1))"
  proof (rule create_dir_all_existing)
    show "locate True s1 (path_of_loc l) = Inr l" using assms(3) s1 by (simp add: same_files_locate)
    show "node_at (fs_nodes s1) l \<noteq> None" using assms(4) s1 by (simp add: same_files_def)
  qed
  have "io_bind (io_err show_io_error (fs_create_dir_all (path_of_loc l) s1)) (\<lambda>_ s.
         io_bind (io_err show_io_error (fs_write q c s)) (\<lambda>_ s.
           (Inr (te_text env (jobj
              [(''type'', JStr (if original \<noteq> None then ''update'' else ''create'')),
               (''filePath'', JStr (relative cwd q)), (''originalFile'', jopt JStr original)])), s))) = (r, s')"
    using assms(1,2) rd by (simp add: write_resolved_def)
  then show ?thesis
  proof (cases rule: io_bind_cases)
    case (1 e)
    then show ?thesis using dirs s1 same_files_trans by (metis io_err_def snd_conv)
  next
    case (2 x s2)
    then have "same_files s s2" using dirs s1 same_files_trans by (metis io_err_def snd_conv)
    moreover have "s' = snd (fs_write q c s2)"
      using 2(2) by (auto simp: io_bind_def io_err_def split: prod.splits sum.splits)
    ultimately show ?thesis by blast
  qed
qed

text \<open>A new path is written under its canonical parent; without links the last name leads nowhere else.\<close>

lemma write_file_changes:
  assumes run: "write_file env cwd input s = (r, s')" and wf: "real_dir (fs_nodes s) (fs_cwd s)" "no_links s"
    and root: "locate False s cwd = Inr root"
  shows "changes_only s s' (\<lambda>k. \<exists>t. k = root @ t)"
proof -
  consider (none) "s' = s" | (write_it) p q s1 c where "resolve_allow_missing cwd p s = (Inr q, s1)"
      "write_resolved env cwd c q s1 = (r, s')" | (bad) p e where "resolve_allow_missing cwd p s = (Inl e, s')"
    using run unfolding write_file_def by (auto elim!: io_bind_cases split: if_splits)
  then show ?thesis
  proof cases
    case none
    then show ?thesis by (simp add: same_changes_only)
  next
    case bad
    then show ?thesis using resolve_allow_missing_spec same_changes_only by blast
  next
    case write_it
    then obtain t n p' where q: "q = path_of_loc (root @ t) @ [Name n]" "locate False s p' = Inr (root @ t)" "same_files s s1"
      using resolve_allow_missing_spec [OF write_it(1)] root by auto
    note real = locate_real [OF q(2) wf(1)]
    have par: "path_parent q = Some (path_of_loc (root @ t))" by (simp add: q(1) path_parent_def)
    have loc: "locate True s (path_of_loc (root @ t)) = Inr (root @ t)" by (rule locate_canonical) (use real in auto)
    have "locate True s1 (path_of_loc (root @ t)) = Inr (root @ t)" "node_at (fs_nodes s1) (root @ t) \<noteq> None"
      using loc real q(3) by (simp_all add: same_files_locate) (simp add: same_files_def)
    then consider "same_files s1 s'" | s2 where "same_files s1 s2" "s' = snd (fs_write q c s2)"
      using write_resolved_cases [OF write_it(2) par] by blast
    then show ?thesis
    proof cases
      case 1
      then show ?thesis using same_files_trans [OF q(3)] by (blast intro: same_changes_only)
    next
      case 2
      have same: "same_files s s2" using q(3) 2(1) by (rule same_files_trans)
      have "k = root @ t @ [n]" if "locate True s q = Inr k" for k
        using locate_child [OF wf(2) loc that [unfolded q(1)]] by simp
      then have at: "locate True s2 q = Inr k \<Longrightarrow> k = root @ t @ [n]" for k
        using same_files_locate [OF same] by simp
      have "changes_only s2 s' (\<lambda>k. locate True s2 q = Inr k)"
        using write_changes 2(2) by (metis prod.collapse)
      then have "changes_only s2 s' (\<lambda>k. \<exists>t. k = root @ t)"
        by (rule changes_only_mono) (use at in blast)
      then show ?thesis using changes_only_trans [OF same_changes_only [OF same]] by blast
    qed
  qed
qed

text \<open>
  C9: no tool but the shell changes a node outside the canonical workspace, whatever the input,
  with faults and with symbolic links; for \<open>write_file\<close> the file system has no links.
\<close>

theorem tools_contained:
  assumes "tool_name \<noteq> ''bash''" and "tool_name = ''write_file'' \<Longrightarrow> no_links s"
    and "real_dir (fs_nodes s) (fs_cwd s)" and "locate False s cwd = Inr root"
    and "execute env cwd tool_name input s = (r, s')"
  shows "changes_only s s' (\<lambda>k. \<exists>t. k = root @ t)"
  using assms
  by (auto simp: execute_def same_changes_only write_file_changes edit_file_changes
      dest: read_file_same glob_search_same grep_search_same split: if_splits)

text \<open>The tools declared read-only leave the files as they are.\<close>

theorem read_only_tools_pure:
  "list_all (\<lambda>(name, mode). same_files s (snd (execute env cwd name input s)))
     (filter (\<lambda>(name, mode). mode = ReadOnly) permission_specs)"
proof -
  have names: "map fst (filter (\<lambda>(name, mode). mode = ReadOnly) permission_specs) =
      [''read_file'', ''glob_search'', ''grep_search'', ''Sleep'', ''StructuredOutput'', ''SendUserMessage'',
       ''ToolSearch'', ''TodoWrite'']"
    by code_simp
  have "list_all (\<lambda>name. same_files s (snd (execute env cwd name input s)))
      (map fst (filter (\<lambda>(name, mode). mode = ReadOnly) permission_specs))"
    unfolding names
    using read_file_same [of env cwd input s] glob_search_same [of env cwd input s] grep_search_same [of env cwd input s]
    by (simp add: execute_def) (metis prod.collapse)
  then show ?thesis by (simp add: list_all_length split_def)
qed

section \<open>Witnesses and escapes\<close>

text \<open>A workspace with one file, a secret beside it, and a link from the workspace to the secret.\<close>

definition sample_env :: tool_env where
  "sample_env = \<lparr>te_text = (\<lambda>_. ''ok''), te_spawn = (\<lambda>_ _ _. Inl ''no shell''),
     te_glob = (\<lambda>_ _. Inr []), te_pattern = (\<lambda>_. Inl ''bad pattern''), te_regex = (\<lambda>p _. Inr (\<lambda>line. contains line p)),
     te_walk = (\<lambda>_ _. []), te_lower = to_ascii_lowercase\<rparr>"

definition sample_tree :: fs where
  "sample_tree = \<lparr>fs_nodes = [([''w''], DirNode), ([''w'', ''a''], FileNode ''one two''), ([''etc''], DirNode),
      ([''etc'', ''key''], FileNode ''secret''), ([''w'', ''link''], LinkNode [RootDir, Name ''etc'', Name ''key''])],
     fs_cwd = [''w''], fs_faults = []\<rparr>"

definition edit_input :: json where
  "edit_input = jobj [(''path'', JStr ''a''), (''old_string'', JStr ''two''), (''new_string'', JStr ''2'')]"

theorem tools_contained_witness:
  "changes_only sample_tree (snd (execute sample_env [RootDir, Name ''w''] ''edit_file'' edit_input sample_tree))
      (\<lambda>k. \<exists>t. k = [''w''] @ t)
   \<and> file_bytes (snd (execute sample_env [RootDir, Name ''w''] ''edit_file'' edit_input sample_tree))
      [RootDir, Name ''w'', Name ''a''] = Inr ''one 2''"
proof -
  have "real_loc (fs_nodes sample_tree) (fs_cwd sample_tree)"
    by (simp add: real_loc_def sample_tree_def node_at_def)
  moreover have "node_at (fs_nodes sample_tree) (fs_cwd sample_tree) = Some DirNode" by code_simp
  ultimately have "real_dir (fs_nodes sample_tree) (fs_cwd sample_tree)" by (simp add: real_dir_def)
  moreover have "locate False sample_tree [RootDir, Name ''w''] = Inr [''w'']" by code_simp
  moreover have "file_bytes (snd (execute sample_env [RootDir, Name ''w''] ''edit_file'' edit_input sample_tree))
      [RootDir, Name ''w'', Name ''a''] = Inr ''one 2''" by code_simp
  ultimately show ?thesis
    using tools_contained [of "''edit_file''" sample_tree "[RootDir, Name ''w'']" "[''w'']"] by (simp add: prod_eq_iff)
qed

text \<open>
  With a symbolic link in the workspace, \<open>write_file\<close> overwrites the file outside that the link
  names: only the parent of a new path is made canonical, and the write follows the last name.
\<close>

theorem write_file_escapes:
  "fst (write_file sample_env [RootDir, Name ''w''] (jobj [(''path'', JStr ''link''), (''content'', JStr ''new'')]) sample_tree)
     = Inr ''ok''
   \<and> file_bytes sample_tree [RootDir, Name ''etc'', Name ''key''] = Inr ''secret''
   \<and> file_bytes (snd (write_file sample_env [RootDir, Name ''w'']
        (jobj [(''path'', JStr ''link''), (''content'', JStr ''new'')]) sample_tree))
      [RootDir, Name ''etc'', Name ''key''] = Inr ''new''"
proof -
  have "write_file sample_env [RootDir, Name ''w''] (jobj [(''path'', JStr ''link''), (''content'', JStr ''new'')]) sample_tree
      = io_bind (resolve_allow_missing [RootDir, Name ''w''] ''link'' sample_tree)
          (write_resolved sample_env [RootDir, Name ''w''] ''new'')"
    by (simp add: write_file_def string_arg_def json_access io_bind_def max_write_bytes_def)
  moreover have "fst (io_bind (resolve_allow_missing [RootDir, Name ''w''] ''link'' sample_tree)
        (write_resolved sample_env [RootDir, Name ''w''] ''new'')) = Inr ''ok''"
    "file_bytes sample_tree [RootDir, Name ''etc'', Name ''key''] = Inr ''secret''"
    "file_bytes (snd (io_bind (resolve_allow_missing [RootDir, Name ''w''] ''link'' sample_tree)
        (write_resolved sample_env [RootDir, Name ''w''] ''new''))) [RootDir, Name ''etc'', Name ''key''] = Inr ''new''"
    by code_simp+
  ultimately show ?thesis by simp
qed

text \<open>
  A glob whose entries climb out of the workspace with \<open>..\<close> is listed: the check compares the
  components of the entry, which is not canonical, with the canonical root.
\<close>

theorem glob_lists_outside:
  "fst (glob_search (sample_env\<lparr>te_glob := (\<lambda>_ _. Inr [Inr [RootDir, Name ''w'', ParentDir, Name ''etc'', Name ''key'']]),
        te_text := (\<lambda>v. case json_get v ''filenames'' of Some (JArr (JStr f # _)) \<Rightarrow> f | _ \<Rightarrow> [])\<rparr>)
      [RootDir, Name ''w''] (jobj [(''pattern'', JStr ''../etc/*'')]) sample_tree) = Inr ''../etc/key''
   \<and> locate False sample_tree [RootDir, Name ''w'', ParentDir, Name ''etc'', Name ''key''] = Inr [''etc'', ''key'']"
  by (intro conjI) code_simp+

section \<open>What the tools compute\<close>

text \<open>
  An edit is refused when the text is absent, or occurs more than once and \<open>replace_all\<close> is not
  set; a single replacement happens at the only match, and \<open>replace_all\<close> replaces every match and
  reports their number.
\<close>

theorem edit_text_exact:
  assumes "old \<noteq> []"
  shows "case edit_text old new all original of
      Inl e \<Rightarrow> \<not> contains original old \<or> (\<not> all \<and> 1 < match_count original old)
    | Inr (updated, n) \<Rightarrow>
        (if all then \<exists>parts. original = join old parts \<and> updated = join new parts \<and> length parts = Suc n
           \<and> list_all (\<lambda>p. \<not> contains p old) parts
         else n = 1 \<and> (\<exists>a b. original = a @ old @ b \<and> updated = a @ new @ b
           \<and> \<not> contains a old \<and> \<not> contains b old))"
proof -
  have parts: "\<exists>parts. original = join old parts \<and> replace_str original old new = join new parts
      \<and> length parts = Suc (match_count original old) \<and> list_all (\<lambda>p. \<not> contains p old) parts"
    using join_split_str [of old original] split_str_parts [OF assms] split_str_nonempty [of old original]
    by (intro exI [of _ "split_str old original"]) (auto simp: replace_str_def match_count_def list_all_iff)
  have one: "match_count original old \<noteq> 0 \<Longrightarrow> \<not> 1 < match_count original old \<Longrightarrow>
      \<exists>a b. original = a @ old @ b \<and> replace_first original old new = a @ new @ b \<and> \<not> contains a old \<and> \<not> contains b old"
    using match_count_one [OF assms, of original new] by (metis One_nat_def less_one linorder_neqE_nat)
  show ?thesis
    using parts one match_count_zero [OF assms, of original]
    by (auto simp: edit_text_def Let_def)
qed

theorem edit_text_exact_witness: "edit_text ''two'' ''2'' True ''one two two'' = Inr (''one 2 2'', 2)"
proof -
  have "edit_text ''two'' ''2'' True ''one two two'' = Inr (''one 2 2'', 2)" by code_simp
  then show ?thesis using edit_text_exact [of "''two''" "''2''" True "''one two two''"] by simp
qed

text \<open>
  The lines read are exactly those from the offset on, at most the limit many, for every offset
  and limit of 64 bits: also past the end of the file and where their sum overflows.
\<close>

theorem select_lines_window:
  assumes "length ls < 2 ^ 64"
  shows "select_lines offset limit ls =
      (join nl (case limit of None \<Rightarrow> drop (unat offset) ls | Some l \<Rightarrow> take (unat l) (drop (unat offset) ls)),
       length (case limit of None \<Rightarrow> drop (unat offset) ls | Some l \<Rightarrow> take (unat l) (drop (unat offset) ls)))"
proof (cases limit)
  case None
  then show ?thesis by (auto simp: select_lines_def window_end_def Let_def)
next
  case (Some l)
  have e: "window_end offset limit (length ls) = min (unat offset + unat l) (length ls)"
    using assms by (simp add: window_end_def Some)
  show ?thesis
    unfolding select_lines_def e Let_def unfolding Some by (auto simp: min_def)
qed

theorem select_lines_window_witness:
  "select_lines 1 (Some 0xFFFFFFFFFFFFFFFF) [''a'', ''b'', ''c''] = (''b'' @ nl @ ''c'', 2)"
  using select_lines_window [of "[''a'', ''b'', ''c'']" 1 "Some 0xFFFFFFFFFFFFFFFF"] by simp

definition poll_index :: "poll_result \<Rightarrow> nat" where
  "poll_index r = (case r of PollEnded k \<Rightarrow> k | PollTimeout k \<Rightarrow> k | PollFailed _ k \<Rightarrow> k)"

lemma poll_process_from:
  "i \<le> poll_index (poll_process p timeout i)
   \<and> (\<forall>j. i \<le> j \<and> j < poll_index (poll_process p timeout i) \<longrightarrow>
        proc_ended p j = Inr False \<and> 25 * j + proc_delay p j < timeout)
   \<and> (case poll_process p timeout i of
        PollEnded k \<Rightarrow> proc_ended p k = Inr True
      | PollTimeout k \<Rightarrow> proc_ended p k = Inr False \<and> timeout \<le> 25 * k + proc_delay p k
      | PollFailed e k \<Rightarrow> proc_ended p k = Inl e)"
proof (induction p timeout i rule: poll_process.induct)
  case (1 p timeout i)
  show ?case
  proof (cases "proc_ended p i = Inr False \<and> 25 * i + proc_delay p i < timeout")
    case True
    then have rec: "poll_process p timeout i = poll_process p timeout (Suc i)"
      by (simp add: poll_process.simps [of p timeout i])
    have "Suc i \<le> poll_index (poll_process p timeout (Suc i))"
        "\<forall>j. Suc i \<le> j \<and> j < poll_index (poll_process p timeout (Suc i)) \<longrightarrow>
           proc_ended p j = Inr False \<and> 25 * j + proc_delay p j < timeout"
      using "1.IH" [of False] True by simp_all
    moreover from this have "\<forall>j. i \<le> j \<and> j < poll_index (poll_process p timeout (Suc i)) \<longrightarrow>
           proc_ended p j = Inr False \<and> 25 * j + proc_delay p j < timeout"
      using True by (metis Suc_leI le_neq_implies_less)
    ultimately show ?thesis
      using "1.IH" [of False] True unfolding rec by (auto dest: Suc_leD)
  next
    case False
    then show ?thesis
      by (cases "proc_ended p i") (auto simp: poll_process.simps [of p timeout i] poll_index_def split: bool.splits)
  qed
qed

text \<open>
  The poll that ends the wait for a command is the first that sees it ended, or the first at
  which the timeout has passed; every earlier poll saw it running, within the timeout.
\<close>

theorem poll_process_stops:
  "let r = poll_process p timeout 0; k = poll_index r in
     (\<forall>j. k \<le> j \<or> (proc_ended p j = Inr False \<and> 25 * j + proc_delay p j < timeout))
     \<and> 25 * k < timeout + 25
     \<and> (case r of
          PollEnded _ \<Rightarrow> proc_ended p k = Inr True
        | PollTimeout _ \<Rightarrow> proc_ended p k = Inr False \<and> timeout \<le> 25 * k + proc_delay p k
        | PollFailed e _ \<Rightarrow> proc_ended p k = Inl e)"
proof -
  let ?r = "poll_process p timeout 0"
  let ?k = "poll_index ?r"
  have before: "proc_ended p j = Inr False \<and> 25 * j + proc_delay p j < timeout" if "j < ?k" for j
    using poll_process_from [of 0 p timeout] that by simp
  have bound: "25 * ?k < timeout + 25"
  proof (cases ?k)
    case (Suc j)
    then show ?thesis using before [of j] by simp
  qed simp
  have outcome: "case ?r of PollEnded _ \<Rightarrow> proc_ended p ?k = Inr True
        | PollTimeout _ \<Rightarrow> proc_ended p ?k = Inr False \<and> timeout \<le> 25 * ?k + proc_delay p ?k
        | PollFailed e _ \<Rightarrow> proc_ended p ?k = Inl e"
    using poll_process_from [of 0 p timeout] by (cases ?r) (simp_all add: poll_index_def)
  show ?thesis unfolding Let_def using before bound outcome by (meson not_less)
qed

end
