(* ===== verification/RefJson.thy ===== *)
theory RefJson
  imports BTree
begin

text \<open>
  The JSON values of the reference runtime, \<open>claw-rust/crates/runtime/src/json.rs\<close>: rendering and
  the recursive descent parser. A Rust \<open>char\<close> is its scalar value, so the texts are lists of
  natural numbers; their order is the order of Rust strings. The parser's position is the list
  of characters that are left. The recursion of the parser is bounded by fuel, of which twice
  the length of the text is enough.
\<close>

type_synonym i64 = "64 word"
type_synonym uchars = "nat list"

definition uni :: "string \<Rightarrow> uchars" where
  "uni s = map of_char s"

datatype json_value =
    Null
  | Bool bool
  | Number i64
  | String uchars
  | Array "json_value list"
  | Object "(uchars, json_value) btree"

section \<open>Rendering\<close>

definition hex_nibble :: "nat \<Rightarrow> nat" where
  "hex_nibble n = (if n < 10 then 48 + n else 87 + n)"

definition push_unicode_escape :: "nat \<Rightarrow> uchars" where
  "push_unicode_escape control =
     uni [CHR 0x5C, CHR ''u''] @ map (\<lambda>shift. hex_nibble (control div 2 ^ shift mod 16)) [12, 8, 4, 0]"

text \<open>\<open>char::is_control\<close>: the general category Cc.\<close>

definition is_control :: "nat \<Rightarrow> bool" where
  "is_control c \<longleftrightarrow> c < 32 \<or> (127 \<le> c \<and> c < 160)"

definition render_char :: "nat \<Rightarrow> uchars" where
  "render_char c =
     (if c = 34 then [92, 34]
      else if c = 92 then [92, 92]
      else if c = 10 then [92, 110]
      else if c = 13 then [92, 114]
      else if c = 9 then [92, 116]
      else if c = 8 then [92, 98]
      else if c = 12 then [92, 102]
      else if is_control c then push_unicode_escape c
      else [c])"

definition render_string :: "uchars \<Rightarrow> uchars" where
  "render_string value = [34] @ concat (map render_char value) @ [34]"

definition show_i64 :: "i64 \<Rightarrow> string" where
  "show_i64 w = (if sint w < 0 then ''-'' @ show_nat (nat (- sint w)) else show_nat (nat (sint w)))"

fun join_uchars :: "uchars list \<Rightarrow> uchars" where
  "join_uchars [] = []"
| "join_uchars [s] = s"
| "join_uchars (s # ss) = s @ [44] @ join_uchars ss"

fun render :: "json_value \<Rightarrow> uchars" where
  "render Null = uni ''null''"
| "render (Bool b) = uni (if b then ''true'' else ''false'')"
| "render (Number n) = uni (show_i64 n)"
| "render (String s) = render_string s"
| "render (Array vs) = [91] @ join_uchars (map render vs) @ [93]"
| "render (Object kvs) = [123] @ join_uchars (map (\<lambda>(k, v). render_string k @ [58] @ render v) kvs) @ [125]"

section \<open>Parsing\<close>

datatype json_error = OutOfFuel | JsonError uchars

type_synonym 'a parsed = "json_error + 'a \<times> uchars"

definition skip_whitespace :: "uchars \<Rightarrow> uchars" where
  "skip_whitespace s = dropWhile (\<lambda>c. c = 32 \<or> c = 10 \<or> c = 13 \<or> c = 9) s"

definition expect :: "nat \<Rightarrow> uchars \<Rightarrow> unit parsed" where
  "expect c s =
     (case s of
        [] \<Rightarrow> Inl (JsonError (uni ''expected '' @ [39, c, 39] @ uni '', found end of input''))
      | d # r \<Rightarrow> if d = c then Inr ((), r)
          else Inl (JsonError (uni ''expected '' @ [39, c, 39] @ uni '', found '' @ [39, d, 39])))"

fun parse_literal :: "uchars \<Rightarrow> uchars \<Rightarrow> json_value \<Rightarrow> uchars \<Rightarrow> json_value parsed" where
  "parse_literal whole [] value s = Inr (value, s)"
| "parse_literal whole (e # es) value [] = Inl (JsonError (uni ''invalid literal: expected '' @ whole))"
| "parse_literal whole (e # es) value (c # s) =
     (if c = e then parse_literal whole es value s
      else Inl (JsonError (uni ''invalid literal: expected '' @ whole)))"

definition hex_digit_value :: "nat \<Rightarrow> nat option" where
  "hex_digit_value c =
     (if 48 \<le> c \<and> c \<le> 57 then Some (c - 48)
      else if 97 \<le> c \<and> c \<le> 102 then Some (c - 87)
      else if 65 \<le> c \<and> c \<le> 70 then Some (c - 55)
      else None)"

text \<open>\<open>char::from_u32\<close>: no surrogates.\<close>

definition is_scalar :: "nat \<Rightarrow> bool" where
  "is_scalar n \<longleftrightarrow> n < 0xD800 \<or> (0xE000 \<le> n \<and> n < 0x110000)"

fun unicode_digits :: "nat \<Rightarrow> nat \<Rightarrow> uchars \<Rightarrow> nat parsed" where
  "unicode_digits 0 value s = (if is_scalar value then Inr (value, s) else Inl (JsonError (uni ''invalid unicode scalar value'')))"
| "unicode_digits (Suc n) value [] = Inl (JsonError (uni ''unexpected end of input in unicode escape''))"
| "unicode_digits (Suc n) value (c # s) =
     (case hex_digit_value c of
        None \<Rightarrow> Inl (JsonError (uni ''invalid unicode escape''))
      | Some d \<Rightarrow> unicode_digits n (16 * value + d) s)"

definition parse_unicode_escape :: "uchars \<Rightarrow> nat parsed" where
  "parse_unicode_escape s = unicode_digits 4 0 s"

definition parse_escape :: "uchars \<Rightarrow> nat parsed" where
  "parse_escape s =
     (case s of
        [] \<Rightarrow> Inl (JsonError (uni ''unexpected end of input in escape sequence''))
      | c # r \<Rightarrow>
          if c = 34 then Inr (34, r)
          else if c = 92 then Inr (92, r)
          else if c = 47 then Inr (47, r)
          else if c = 98 then Inr (8, r)
          else if c = 102 then Inr (12, r)
          else if c = 110 then Inr (10, r)
          else if c = 114 then Inr (13, r)
          else if c = 116 then Inr (9, r)
          else if c = 117 then parse_unicode_escape r
          else Inl (JsonError (uni ''invalid escape sequence: '' @ [c])))"

lemma unicode_digits_shorter: "unicode_digits n v s = Inr (x, r) \<Longrightarrow> length r \<le> length s"
  by (induction n v s rule: unicode_digits.induct) (auto split: if_splits option.splits)

lemma parse_escape_shorter: "parse_escape s = Inr (x, r) \<Longrightarrow> length r < length s"
  using unicode_digits_shorter
  by (fastforce simp: parse_escape_def parse_unicode_escape_def split: list.splits if_splits)

text \<open>The loop of \<open>parse_string\<close> after the opening quote.\<close>

function string_loop :: "uchars \<Rightarrow> uchars \<Rightarrow> uchars parsed" where
  "string_loop value [] = Inl (JsonError (uni ''unterminated string''))"
| "string_loop value (c # s) =
     (if c = 34 then Inr (value, s)
      else if c = 92 then
        (case parse_escape s of
           Inl e \<Rightarrow> Inl e
         | Inr (x, r) \<Rightarrow> string_loop (value @ [x]) r)
      else string_loop (value @ [c]) s)"
  by pat_completeness auto
termination
  by (relation "measure (\<lambda>(value, s). length s)") (auto dest: parse_escape_shorter)

definition parse_string :: "uchars \<Rightarrow> uchars parsed" where
  "parse_string s = and_then (expect 34 s) (\<lambda>(_, r). string_loop [] r)"

definition is_digit :: "nat \<Rightarrow> bool" where
  "is_digit c \<longleftrightarrow> 48 \<le> c \<and> c \<le> 57"

definition digits_value :: "uchars \<Rightarrow> nat" where
  "digits_value ds = foldl (\<lambda>n d. 10 * n + (d - 48)) 0 ds"

text \<open>\<open>str::parse::<i64>\<close> on an optional sign and digits.\<close>

definition parse_number :: "uchars \<Rightarrow> i64 parsed" where
  "parse_number s =
     (let negative = (s \<noteq> [] \<and> hd s = 45);
          s1 = (if negative then tl s else s);
          digits = takeWhile is_digit s1;
          rest = dropWhile is_digit s1;
          n = (if negative then - int (digits_value digits) else int (digits_value digits))
      in if digits = [] then Inl (JsonError (uni ''invalid number''))
         else if - (2 ^ 63) \<le> n \<and> n < 2 ^ 63 then Inr (word_of_int n, rest)
         else Inl (JsonError (uni ''number out of range'')))"

fun parse_value :: "nat \<Rightarrow> uchars \<Rightarrow> json_value parsed"
and array_loop :: "nat \<Rightarrow> json_value list \<Rightarrow> uchars \<Rightarrow> json_value parsed"
and object_loop :: "nat \<Rightarrow> (uchars, json_value) btree \<Rightarrow> uchars \<Rightarrow> json_value parsed" where
  "parse_value 0 s = Inl OutOfFuel"
| "parse_value (Suc n) s =
     (let s = skip_whitespace s in
      case s of
        [] \<Rightarrow> Inl (JsonError (uni ''unexpected end of input''))
      | c # r \<Rightarrow>
          if c = 110 then parse_literal (uni ''null'') (uni ''null'') Null s
          else if c = 116 then parse_literal (uni ''true'') (uni ''true'') (Bool True) s
          else if c = 102 then parse_literal (uni ''false'') (uni ''false'') (Bool False) s
          else if c = 34 then and_then (parse_string s) (\<lambda>(v, t). Inr (String v, t))
          else if c = 91 then array_loop n [] r
          else if c = 123 then object_loop n [] r
          else if c = 45 \<or> is_digit c then and_then (parse_number s) (\<lambda>(v, t). Inr (Number v, t))
          else Inl (JsonError (uni ''unexpected character: '' @ [c])))"
| "array_loop 0 vs s = Inl OutOfFuel"
| "array_loop (Suc n) vs s =
     (let s = skip_whitespace s in
      if s \<noteq> [] \<and> hd s = 93 then Inr (Array vs, tl s)
      else and_then (parse_value n s) (\<lambda>(v, t).
        let t = skip_whitespace t in
        if t \<noteq> [] \<and> hd t = 93 then Inr (Array (vs @ [v]), tl t)
        else and_then (expect 44 t) (\<lambda>(_, u). array_loop n (vs @ [v]) u)))"
| "object_loop 0 kvs s = Inl OutOfFuel"
| "object_loop (Suc n) kvs s =
     (let s = skip_whitespace s in
      if s \<noteq> [] \<and> hd s = 125 then Inr (Object kvs, tl s)
      else and_then (parse_string s) (\<lambda>(k, t).
           and_then (expect 58 (skip_whitespace t)) (\<lambda>(_, t).
           and_then (parse_value n t) (\<lambda>(v, t).
             let t = skip_whitespace t; kvs = bt_insert k v kvs in
             if t \<noteq> [] \<and> hd t = 125 then Inr (Object kvs, tl t)
             else and_then (expect 44 t) (\<lambda>(_, u). object_loop n kvs u)))))"

definition json_parse :: "uchars \<Rightarrow> json_error + json_value" where
  "json_parse source =
     and_then (parse_value (2 * length source + 2) source) (\<lambda>(value, rest).
       if skip_whitespace rest = [] then Inr value
       else Inl (JsonError (uni ''unexpected trailing content'')))"

end
