(* ===== verification/RefJsonCorrect.thy ===== *)
theory RefJsonCorrect
  imports RefJson
begin

text \<open>
  Properties of the JSON parser: rendering round trips, the fuel is enough for every text, and
  what is accepted is well formed.
\<close>

section \<open>Round trip\<close>

subsection \<open>Strings\<close>

lemma hex_nibble_value: "n < 16 \<Longrightarrow> hex_digit_value (hex_nibble n) = Some n"
  by (auto simp: hex_digit_value_def hex_nibble_def)

lemma escaped_control: "is_control c \<Longrightarrow> parse_escape (tl (push_unicode_escape c) @ t) = Inr (c, t)"
proof -
  assume "is_control c"
  then have c: "c < 160" by (auto simp: is_control_def)
  then have "is_scalar c" by (simp add: is_scalar_def)
  have small: "c div 4096 = 0" "c div 256 = 0" using c by (intro div_less, simp)+
  have "c div 16 mod 16 = c div 16" using c by (intro mod_less) (simp add: div_less_iff_less_mult)
  then have "tl (push_unicode_escape c) = [117, hex_nibble 0, hex_nibble 0, hex_nibble (c div 16), hex_nibble (c mod 16)]"
    using small by (simp add: push_unicode_escape_def uni_def)
  moreover have "parse_unicode_escape u = unicode_digits (Suc (Suc (Suc (Suc 0)))) 0 u" for u
    by (simp add: parse_unicode_escape_def eval_nat_numeral)
  moreover have "c div 16 < 16" "c mod 16 < 16" using c by (simp_all add: div_less_iff_less_mult)
  moreover have "16 * (c div 16) + c mod 16 = c" by (rule mult_div_mod_eq)
  ultimately show ?thesis
    using \<open>is_scalar c\<close> by (simp add: parse_escape_def hex_nibble_value)
qed

lemma string_loop_char: "string_loop acc (render_char c @ t) = string_loop (acc @ [c]) t"
proof (cases "is_control c \<and> c \<notin> {34, 92, 10, 13, 9, 8, 12}")
  case True
  then have r: "render_char c = 92 # tl (push_unicode_escape c)"
    by (auto simp: render_char_def push_unicode_escape_def uni_def)
  show ?thesis
    using True by (simp add: r escaped_control)
next
  case False
  then show ?thesis
    by (auto simp: render_char_def parse_escape_def)
qed

lemma string_loop_rendered: "string_loop acc (concat (map render_char cs) @ 34 # t) = Inr (acc @ cs, t)"
  by (induction cs arbitrary: acc) (simp_all add: string_loop_char)

lemma parse_string_rendered: "parse_string (render_string cs @ t) = Inr (cs, t)"
  using string_loop_rendered [of "[]" cs t] by (simp add: parse_string_def render_string_def expect_def)

subsection \<open>Numbers\<close>

lemma digits_value_snoc: "digits_value (ds @ [d]) = 10 * digits_value ds + (d - 48)"
  by (simp add: digits_value_def)

lemma uni_digit: "d < 10 \<Longrightarrow> uni [digit_char d] = [48 + d]"
  by (simp add: uni_def digit_char_def)

lemma uni_append [simp]: "uni (s @ t) = uni s @ uni t"
  by (simp add: uni_def)

lemma show_nat_digits: "list_all is_digit (uni (show_nat n)) \<and> digits_value (uni (show_nat n)) = n \<and> uni (show_nat n) \<noteq> []"
proof (induction n rule: show_nat.induct)
  case (1 n)
  show ?case
  proof (cases "n < 10")
    case True
    then show ?thesis
      by (simp add: show_nat.simps [of n] uni_digit is_digit_def digits_value_def)
  next
    case False
    then have "uni (show_nat n) = uni (show_nat (n div 10)) @ [48 + n mod 10]"
      by (simp add: show_nat.simps [of n] uni_digit)
    then show ?thesis
      using "1.IH" False by (simp add: digits_value_snoc is_digit_def)
  qed
qed

lemma digits_span:
  "list_all is_digit ds \<Longrightarrow> t = [] \<or> \<not> is_digit (hd t) \<Longrightarrow> takeWhile is_digit (ds @ t) = ds \<and> dropWhile is_digit (ds @ t) = t"
  by (induction ds) (cases t; auto)+

lemma parse_number_shown:
  assumes "t = [] \<or> \<not> is_digit (hd t)"
  shows "parse_number (uni (show_i64 w) @ t) = Inr (w, t)"
proof -
  have range: "- (2 ^ 63) \<le> sint w" "sint w < 2 ^ 63"
    using sint_ge [of w] sint_lt [of w] by simp_all
  note span = digits_span [OF _ assms]
  note shown = show_nat_digits [of "nat (- sint w)"] show_nat_digits [of "nat (sint w)"]
  show ?thesis
  proof (cases "sint w < 0")
    case True
    then have "uni (show_i64 w) = 45 # uni (show_nat (nat (- sint w)))"
      by (simp add: show_i64_def uni_def)
    then show ?thesis
      using True range shown span [of "uni (show_nat (nat (- sint w)))"] by (simp add: parse_number_def Let_def)
  next
    case False
    have "uni (show_i64 w) = uni (show_nat (nat (sint w)))" using False by (simp add: show_i64_def)
    moreover have "is_digit (hd (uni (show_nat (nat (sint w)))))"
      using shown(2) by (cases "uni (show_nat (nat (sint w)))") auto
    then have "hd (uni (show_nat (nat (sint w)))) \<noteq> 45" by (auto simp: is_digit_def)
    ultimately show ?thesis
      using False range shown span [of "uni (show_nat (nat (sint w)))"] by (simp add: parse_number_def Let_def)
  qed
qed

subsection \<open>Values\<close>

text \<open>The invariant of \<open>BTreeMap\<close> in every object.\<close>

fun json_ok :: "json_value \<Rightarrow> bool" where
  "json_ok (Array vs) \<longleftrightarrow> list_all json_ok vs"
| "json_ok (Object kvs) \<longleftrightarrow> bt_ok kvs \<and> list_all (\<lambda>(k, v). json_ok v) kvs"
| "json_ok _ \<longleftrightarrow> True"

text \<open>The first character of a rendered value: no space and no closing bracket.\<close>

definition opens_value :: "nat \<Rightarrow> bool" where
  "opens_value c \<longleftrightarrow> c \<notin> {32, 10, 13, 9, 93, 125, 44, 58}"

lemma show_i64_head: "\<exists>c r. uni (show_i64 w) = c # r \<and> (c = 45 \<or> is_digit c)"
proof (cases "sint w < 0")
  case False
  then have "uni (show_i64 w) = uni (show_nat (nat (sint w)))" by (simp add: show_i64_def)
  then show ?thesis
    using show_nat_digits [of "nat (sint w)"] by (cases "uni (show_nat (nat (sint w)))") auto
qed (simp add: show_i64_def uni_def)

lemma render_head: "\<exists>c r. render v = c # r \<and> opens_value c"
proof (cases v)
  case (Number n)
  then show ?thesis using show_i64_head [of n] by (auto simp: opens_value_def is_digit_def)
qed (auto simp: opens_value_def uni_def render_string_def)

lemma skip_opens [simp]: "opens_value c \<Longrightarrow> skip_whitespace (c # t) = c # t"
  by (simp add: opens_value_def skip_whitespace_def)

lemma skip_marks [simp]:
  "skip_whitespace (93 # t) = 93 # t" "skip_whitespace (125 # t) = 125 # t"
  "skip_whitespace (44 # t) = 44 # t" "skip_whitespace (58 # t) = 58 # t" "skip_whitespace (34 # t) = 34 # t"
  by (simp_all add: skip_whitespace_def)

lemma expect_same [simp]: "expect c (c # t) = Inr ((), t)"
  by (simp add: expect_def)

lemma parse_array_items:
  assumes "\<And>v n t. v \<in> set vs \<Longrightarrow> 2 * length (render v) \<le> n \<Longrightarrow> t \<noteq> [] \<Longrightarrow> \<not> is_digit (hd t) \<Longrightarrow>
      parse_value n (render v @ t) = Inr (v, t)"
    and "2 * length (join_uchars (map render vs)) + 1 \<le> n"
  shows "array_loop n acc (join_uchars (map render vs) @ 93 # t) = Inr (Array (acc @ vs), t)"
  using assms
proof (induction vs arbitrary: n acc)
  case Nil
  then show ?case by (cases n) simp_all
next
  case (Cons v vs)
  obtain m where n: "n = Suc m" using Cons.prems(2) by (cases n) auto
  obtain c r where head: "render v = c # r" "opens_value c" using render_head by blast
  let ?rest = "case vs of [] \<Rightarrow> 93 # t | _ \<Rightarrow> 44 # join_uchars (map render vs) @ 93 # t"
  have whole: "join_uchars (map render (v # vs)) @ 93 # t = render v @ ?rest"
    by (cases vs) simp_all
  have fuel: "2 * length (render v) \<le> m"
    using Cons.prems(2) n by (cases vs) simp_all
  have first: "parse_value m (render v @ ?rest) = Inr (v, ?rest)"
    by (rule Cons.prems(1)) (use fuel in \<open>auto simp: is_digit_def split: list.split\<close>)
  have start: "c \<noteq> 93" using head(2) by (simp add: opens_value_def)
  show ?case
  proof (cases vs)
    case Nil
    then show ?thesis using first start head unfolding whole n by (simp add: Let_def)
  next
    case (Cons v' vs')
    have "array_loop m (acc @ [v]) (join_uchars (map render vs) @ 93 # t) = Inr (Array ((acc @ [v]) @ vs), t)"
      by (rule Cons.IH) (use Cons.prems n Cons in auto)
    then show ?thesis using first start head Cons unfolding whole n by (simp add: Let_def)
  qed
qed

lemma parse_object_entries:
  assumes "\<And>k v n t. (k, v) \<in> set kvs \<Longrightarrow> 2 * length (render v) \<le> n \<Longrightarrow> t \<noteq> [] \<Longrightarrow> \<not> is_digit (hd t) \<Longrightarrow>
      parse_value n (render v @ t) = Inr (v, t)"
    and "2 * length (join_uchars (map (\<lambda>(k, v). render_string k @ [58] @ render v) kvs)) + 1 \<le> n"
  shows "object_loop n acc (join_uchars (map (\<lambda>(k, v). render_string k @ [58] @ render v) kvs) @ 125 # t)
    = Inr (Object (fold (\<lambda>(k, v). bt_insert k v) kvs acc), t)"
  using assms
proof (induction kvs arbitrary: n acc)
  case Nil
  then show ?case by (cases n) simp_all
next
  case (Cons kv kvs)
  obtain k v where kv: "kv = (k, v)" by fastforce
  obtain m where n: "n = Suc m" using Cons.prems(2) by (cases n) auto
  let ?entry = "\<lambda>(k, v). render_string k @ [58] @ render v"
  let ?rest = "case kvs of [] \<Rightarrow> 125 # t | _ \<Rightarrow> 44 # join_uchars (map ?entry kvs) @ 125 # t"
  have whole: "join_uchars (map ?entry (kv # kvs)) @ 125 # t = render_string k @ 58 # render v @ ?rest"
    by (cases kvs) (simp_all add: kv)
  have fuel: "2 * length (render v) \<le> m"
    using Cons.prems(2) n kv by (cases kvs) simp_all
  have first: "parse_value m (render v @ ?rest) = Inr (v, ?rest)"
    by (rule Cons.prems(1)) (use fuel kv in \<open>auto simp: is_digit_def split: list.split\<close>)
  have quoted: "render_string k @ u = 34 # concat (map render_char k) @ 34 # u" for u
    by (simp add: render_string_def)
  have key: "parse_string (34 # concat (map render_char k) @ 34 # u) = Inr (k, u)" for u
    using parse_string_rendered [of k u] by (simp add: quoted)
  show ?case
  proof (cases kvs)
    case Nil
    then show ?thesis using first key unfolding whole n quoted by (simp add: Let_def kv)
  next
    case (Cons kv' kvs')
    have "object_loop m (bt_insert k v acc) (join_uchars (map ?entry kvs) @ 125 # t)
        = Inr (Object (fold (\<lambda>(k, v). bt_insert k v) kvs (bt_insert k v acc)), t)"
      by (rule Cons.IH) (use Cons.prems n kv Cons in auto)
    then show ?thesis using first key Cons unfolding whole n quoted by (simp add: Let_def kv)
  qed
qed

lemma parse_literals:
  "parse_literal w (uni ''null'') v (uni ''null'' @ t) = Inr (v, t)"
  "parse_literal w (uni ''true'') v (uni ''true'' @ t) = Inr (v, t)"
  "parse_literal w (uni ''false'') v (uni ''false'' @ t) = Inr (v, t)"
  by (simp_all add: uni_def)

lemma parse_rendered:
  "json_ok v \<Longrightarrow> 2 * length (render v) \<le> n \<Longrightarrow> t = [] \<or> \<not> is_digit (hd t) \<Longrightarrow>
   parse_value n (render v @ t) = Inr (v, t)"
proof (induction v arbitrary: n t)
  case Null
  then obtain m where "n = Suc m" by (cases n) (auto simp: uni_def)
  then show ?case using parse_literals(1) by (simp add: uni_def skip_whitespace_def)
next
  case (Bool b)
  then obtain m where "n = Suc m" by (cases n) (auto simp: uni_def split: if_splits)
  then show ?case using parse_literals(2,3) by (cases b) (simp_all add: uni_def skip_whitespace_def)
next
  case (Number w)
  obtain c r where c: "uni (show_i64 w) = c # r" "c = 45 \<or> is_digit c" using show_i64_head by blast
  obtain m where "n = Suc m" using Number c by (cases n) auto
  moreover have "opens_value c" using c(2) by (auto simp: opens_value_def is_digit_def)
  ultimately show ?case
    using parse_number_shown [of t w] Number c by (auto simp: is_digit_def)
next
  case (String cs)
  then obtain m where "n = Suc m" by (cases n) (auto simp: render_string_def)
  then show ?case
    using parse_string_rendered [of cs t] by (simp add: render_string_def)
next
  case (Array vs)
  then obtain m where n: "n = Suc m" by (cases n) auto
  have "array_loop m [] (join_uchars (map render vs) @ 93 # t) = Inr (Array ([] @ vs), t)"
    by (rule parse_array_items) (use Array n in \<open>auto simp: list_all_iff\<close>)
  then show ?case using n by (simp add: opens_value_def is_digit_def)
next
  case (Object kvs)
  then obtain m where n: "n = Suc m" by (cases n) auto
  have "object_loop m [] (join_uchars (map (\<lambda>(k, v). render_string k @ [58] @ render v) kvs) @ 125 # t)
      = Inr (Object (fold (\<lambda>(k, v). bt_insert k v) kvs []), t)"
    by (rule parse_object_entries) (use Object n in \<open>auto simp: list_all_iff\<close>)
  moreover have "fold (\<lambda>(k, v). bt_insert k v) kvs [] = kvs"
    using bt_of_list_sorted [of kvs] Object.prems(1) by (simp add: bt_of_list_def)
  ultimately show ?case using n by (simp add: opens_value_def is_digit_def)
qed

text \<open>
  C15: Every value whose objects are maps is parsed back from its rendering: strings with any
  characters, numbers of 64 bits, nested to any depth.
\<close>

theorem json_round_trip:
  assumes "json_ok v"
  shows "json_parse (render v) = Inr v"
proof -
  have "parse_value (2 * length (render v) + 2) (render v @ []) = Inr (v, [])"
    using assms by (intro parse_rendered) simp_all
  then show ?thesis by (simp add: json_parse_def skip_whitespace_def)
qed

theorem json_round_trip_witness:
  "json_parse (render (Array [Object [(uni ''k'', String [34, 7, 128512])], Number (- 12)]))
     = Inr (Array [Object [(uni ''k'', String [34, 7, 128512])], Number (- 12)])"
  by (rule json_round_trip) (simp add: bt_ok_def)

section \<open>Totality and results\<close>

lemma skip_shorter: "length (skip_whitespace s) \<le> length s"
  by (simp add: skip_whitespace_def length_dropWhile_le)

lemma expect_shorter: "expect c s = Inr (u, r) \<Longrightarrow> length s = Suc (length r)"
  by (auto simp: expect_def split: list.splits if_splits)

lemma string_loop_shorter: "string_loop v s = Inr (x, r) \<Longrightarrow> length r < length s"
proof (induction v s rule: string_loop.induct)
  case (2 v c s)
  show ?case
  proof (cases "c \<noteq> 34 \<and> c = 92")
    case True
    then obtain y u where u: "parse_escape s = Inr (y, u)" "string_loop (v @ [y]) u = Inr (x, r)"
      using "2.prems" by (auto split: sum.splits)
    then have "length r < length u" using "2.IH"(1) True by blast
    then show ?thesis using parse_escape_shorter [OF u(1)] by simp
  next
    case False
    then show ?thesis using 2 by (fastforce split: if_splits)
  qed
qed simp

lemma parse_string_shorter: "parse_string s = Inr (x, r) \<Longrightarrow> length r < length s"
  by (auto simp: parse_string_def and_then_Inr dest!: expect_shorter string_loop_shorter)

lemma parse_literal_shorter: "parse_literal w es v s = Inr (x, r) \<Longrightarrow> length s = length es + length r"
  by (induction w es v s rule: parse_literal.induct) (auto split: if_splits)

lemma parse_number_shorter: "parse_number s = Inr (x, r) \<Longrightarrow> length r < length s"
proof -
  assume a: "parse_number s = Inr (x, r)"
  let ?s = "if s \<noteq> [] \<and> hd s = 45 then tl s else s"
  have "takeWhile is_digit ?s \<noteq> []" "r = dropWhile is_digit ?s"
    using a by (auto simp: parse_number_def Let_def split: if_splits)
  moreover have "length ?s = length (takeWhile is_digit ?s) + length (dropWhile is_digit ?s)"
    by (metis length_append takeWhile_dropWhile_id)
  ultimately have "length r < length ?s" by simp
  then show ?thesis by (auto split: if_splits)
qed

lemma parse_shorter:
  "parse_value n s = Inr (v, r) \<Longrightarrow> length r < length s"
  "array_loop n vs s = Inr (v, r) \<Longrightarrow> length r < length s"
  "object_loop n kvs s = Inr (v, r) \<Longrightarrow> length r < length s"
proof (induction n s and n vs s and n kvs s arbitrary: v r and v r and v r rule: parse_value_array_loop_object_loop.induct)
  case (2 n s)
  show ?case
  proof (cases "skip_whitespace s")
    case Nil
    then show ?thesis using "2.prems" by simp
  next
    case (Cons c t)
    have "length r < length (c # t)"
      using "2.prems" Cons "2.IH" [OF refl Cons]
      by (auto simp: and_then_Inr uni_def Let_def split: if_splits dest!: parse_literal_shorter parse_string_shorter parse_number_shorter)
    then show ?thesis using skip_shorter [of s] Cons by simp
  qed
next
  case (4 n vs s)
  let ?s = "skip_whitespace s"
  show ?case
  proof (cases "?s \<noteq> [] \<and> hd ?s = 93")
    case True
    then show ?thesis using "4.prems" skip_shorter [of s] by (cases ?s) (auto simp: Let_def)
  next
    case False
    then obtain x t where x: "parse_value n ?s = Inr (x, t)"
      using "4.prems" by (auto simp: Let_def and_then_Inr)
    have t: "length t < length ?s" using "4.IH"(1) [OF refl False x] .
    let ?t = "skip_whitespace t"
    show ?thesis
    proof (cases "?t \<noteq> [] \<and> hd ?t = 93")
      case True
      then show ?thesis using "4.prems" False x t skip_shorter [of s] skip_shorter [of t]
        by (cases ?t) (auto simp: Let_def)
    next
      case nb: False
      then obtain u where u: "expect 44 ?t = Inr ((), u)" "array_loop n (vs @ [x]) u = Inr (v, r)"
        using "4.prems" False x by (auto simp: Let_def and_then_Inr)
      have "length r < length u" using "4.IH"(2) [OF refl False refl nb u(2)] .
      then show ?thesis using expect_shorter [OF u(1)] t skip_shorter [of s] skip_shorter [of t] by simp
    qed
  qed
next
  case (6 n kvs s)
  let ?s = "skip_whitespace s"
  show ?case
  proof (cases "?s \<noteq> [] \<and> hd ?s = 125")
    case True
    then show ?thesis using "6.prems" skip_shorter [of s] by (cases ?s) (auto simp: Let_def)
  next
    case False
    then obtain k s1 s2 x t where k: "parse_string ?s = Inr (k, s1)" "expect 58 (skip_whitespace s1) = Inr ((), s2)"
        and x: "parse_value n s2 = Inr (x, t)"
      using "6.prems" by (auto simp: Let_def and_then_Inr)
    have t: "length t < length s2" using "6.IH"(1) [OF refl False x] .
    have s2: "length s2 < length s"
      using parse_string_shorter [OF k(1)] expect_shorter [OF k(2)] skip_shorter [of s] skip_shorter [of s1] by simp
    let ?t = "skip_whitespace t"
    show ?thesis
    proof (cases "?t \<noteq> [] \<and> hd ?t = 125")
      case True
      then show ?thesis using "6.prems" False k x t s2 skip_shorter [of t]
        by (cases ?t) (auto simp: Let_def)
    next
      case nb: False
      then obtain u where u: "expect 44 ?t = Inr ((), u)" "object_loop n (bt_insert k x kvs) u = Inr (v, r)"
        using "6.prems" False k x by (auto simp: Let_def and_then_Inr)
      have "length r < length u" using "6.IH"(2) [OF refl False refl refl nb u(2)] .
      then show ?thesis using expect_shorter [OF u(1)] t s2 skip_shorter [of t] by simp
    qed
  qed
qed simp_all

lemma no_fuel_error:
  "parse_literal w es v s \<noteq> Inl OutOfFuel" "expect c s \<noteq> Inl OutOfFuel" "unicode_digits n d s \<noteq> Inl OutOfFuel"
  "parse_escape s \<noteq> Inl OutOfFuel" "parse_number s \<noteq> Inl OutOfFuel"
proof -
  show "parse_literal w es v s \<noteq> Inl OutOfFuel"
    by (induction w es v s rule: parse_literal.induct) auto
  show "expect c s \<noteq> Inl OutOfFuel" by (simp add: expect_def split: list.split)
  show d: "unicode_digits n d s \<noteq> Inl OutOfFuel" for n d s
    by (induction n d s rule: unicode_digits.induct) (auto split: option.split)
  show "parse_escape s \<noteq> Inl OutOfFuel"
    using d by (simp add: parse_escape_def parse_unicode_escape_def split: list.split)
  show "parse_number s \<noteq> Inl OutOfFuel" by (simp add: parse_number_def Let_def)
qed

lemma string_no_fuel_error: "parse_string s \<noteq> Inl OutOfFuel"
proof -
  have "string_loop v t \<noteq> Inl OutOfFuel" for v t
  proof (induction v t rule: string_loop.induct)
    case (2 v c s)
    then show ?case using no_fuel_error(4) [of s] by (auto split: sum.split)
  qed simp
  then show ?thesis
    using no_fuel_error(2) [of 34 s] by (cases "expect 34 s") (auto simp: parse_string_def)
qed

lemma and_then_error: "and_then r f = Inl e \<Longrightarrow> r = Inl e \<or> (\<exists>x. r = Inr x \<and> f x = Inl e)"
  by (cases r) auto

lemma fuel_enough:
  "2 * length s + 1 \<le> n \<Longrightarrow> parse_value n s \<noteq> Inl OutOfFuel"
  "2 * length s + 2 \<le> n \<Longrightarrow> array_loop n vs s \<noteq> Inl OutOfFuel"
  "2 * length s + 2 \<le> n \<Longrightarrow> object_loop n kvs s \<noteq> Inl OutOfFuel"
proof (induction n s and n vs s and n kvs s rule: parse_value_array_loop_object_loop.induct)
  case (2 n s)
  show ?case
  proof (cases "skip_whitespace s")
    case (Cons c t)
    then have "2 * length t + 2 \<le> n" using skip_shorter [of s] "2.prems" by simp
    then show ?thesis
      using Cons "2.IH" [OF refl Cons]
      by (auto simp: Let_def uni_def no_fuel_error string_no_fuel_error dest!: and_then_error)
  qed simp
next
  case (4 n vs s)
  let ?s = "skip_whitespace s"
  show ?case
  proof
    assume bad: "array_loop (Suc n) vs s = Inl OutOfFuel"
    then have nb: "\<not> (?s \<noteq> [] \<and> hd ?s = 93)" by (auto simp: Let_def)
    have "parse_value n ?s \<noteq> Inl OutOfFuel"
      by (rule "4.IH"(1) [OF refl nb]) (use skip_shorter [of s] "4.prems" in simp)
    then obtain x t where x: "parse_value n ?s = Inr (x, t)" and nb2: "\<not> (skip_whitespace t \<noteq> [] \<and> hd (skip_whitespace t) = 93)"
        and rest: "and_then (expect 44 (skip_whitespace t)) (\<lambda>(_, u). array_loop n (vs @ [x]) u) = Inl OutOfFuel"
      using bad nb by (auto simp: Let_def dest!: and_then_error split: if_splits)
    then obtain u where u: "expect 44 (skip_whitespace t) = Inr ((), u)" "array_loop n (vs @ [x]) u = Inl OutOfFuel"
      using no_fuel_error(2) and_then_error [OF rest] by auto
    have "length u < length s"
      using expect_shorter [OF u(1)] parse_shorter(1) [OF x] skip_shorter [of s] skip_shorter [of t] by simp
    then show False using "4.IH"(2) [OF refl nb refl nb2] u(2) "4.prems" by simp
  qed
next
  case (6 n kvs s)
  let ?s = "skip_whitespace s"
  show ?case
  proof
    assume bad: "object_loop (Suc n) kvs s = Inl OutOfFuel"
    then have nb: "\<not> (?s \<noteq> [] \<and> hd ?s = 125)" by (auto simp: Let_def)
    obtain k s1 s2 where k: "parse_string ?s = Inr (k, s1)" "expect 58 (skip_whitespace s1) = Inr ((), s2)"
        and bad2: "and_then (parse_value n s2) (\<lambda>(v, t). let t = skip_whitespace t; kvs = bt_insert k v kvs in
             if t \<noteq> [] \<and> hd t = 125 then Inr (Object kvs, tl t)
             else and_then (expect 44 t) (\<lambda>(_, u). object_loop n kvs u)) = Inl OutOfFuel"
      using bad nb no_fuel_error(2) string_no_fuel_error
      by (auto simp: Let_def dest!: and_then_error split: if_splits)
    have s2: "length s2 < length s"
      using parse_string_shorter [OF k(1)] expect_shorter [OF k(2)] skip_shorter [of s] skip_shorter [of s1] by simp
    have "parse_value n s2 \<noteq> Inl OutOfFuel"
      by (rule "6.IH"(1) [OF refl nb]) (use s2 "6.prems" in simp)
    then obtain x t where x: "parse_value n s2 = Inr (x, t)" and nb2: "\<not> (skip_whitespace t \<noteq> [] \<and> hd (skip_whitespace t) = 125)"
        and rest: "and_then (expect 44 (skip_whitespace t)) (\<lambda>(_, u). object_loop n (bt_insert k x kvs) u) = Inl OutOfFuel"
      using and_then_error [OF bad2] by (auto simp: Let_def split: if_splits)
    then obtain u where u: "expect 44 (skip_whitespace t) = Inr ((), u)" "object_loop n (bt_insert k x kvs) u = Inl OutOfFuel"
      using no_fuel_error(2) and_then_error [OF rest] by auto
    have "length u < length s"
      using expect_shorter [OF u(1)] parse_shorter(1) [OF x] s2 skip_shorter [of t] by simp
    then show False using "6.IH"(2) [OF refl nb refl refl nb2] u(2) "6.prems" by simp
  qed
qed simp_all

lemma json_ok_insert: "json_ok (Object kvs) \<Longrightarrow> json_ok v \<Longrightarrow> json_ok (Object (bt_insert k v kvs))"
proof -
  assume ok: "json_ok (Object kvs)" "json_ok v"
  have "list_all (\<lambda>(k, v). json_ok v) kvs \<Longrightarrow> list_all (\<lambda>(k, v). json_ok v) (bt_insert k v kvs)"
    using ok(2) by (induction k v kvs rule: bt_insert.induct) (auto split: if_splits)
  moreover have "bt_ok (bt_insert k v kvs)" using ok(1) by (intro bt_ok_insert) simp
  ultimately show ?thesis using ok by simp
qed

lemma parsed_ok:
  "parse_value n s = Inr (v, r) \<Longrightarrow> json_ok v"
  "array_loop n vs s = Inr (v, r) \<Longrightarrow> list_all json_ok vs \<Longrightarrow> json_ok v"
  "object_loop n kvs s = Inr (v, r) \<Longrightarrow> json_ok (Object kvs) \<Longrightarrow> json_ok v"
proof (induction n s and n vs s and n kvs s arbitrary: v r and v r and v r rule: parse_value_array_loop_object_loop.induct)
  case (2 n s)
  have lit: "parse_literal w es x t = Inr (v, r) \<Longrightarrow> v = x" for w es x t
    by (induction w es x t rule: parse_literal.induct) (auto split: if_splits)
  show ?case
  proof (cases "skip_whitespace s")
    case (Cons c t)
    then show ?thesis
      using "2.prems" "2.IH" [OF refl Cons]
      by (auto simp: Let_def and_then_Inr split: if_splits dest!: lit)
  qed (use "2.prems" in simp)
next
  case (4 n vs s)
  let ?s = "skip_whitespace s"
  show ?case
  proof (cases "?s \<noteq> [] \<and> hd ?s = 93")
    case True
    then show ?thesis using "4.prems" by (auto simp: Let_def)
  next
    case False
    then obtain x t where x: "parse_value n ?s = Inr (x, t)" using "4.prems"(1) by (auto simp: Let_def and_then_Inr)
    have ok: "list_all json_ok (vs @ [x])" using "4.IH"(1) [OF refl False x] "4.prems"(2) by simp
    show ?thesis
    proof (cases "skip_whitespace t \<noteq> [] \<and> hd (skip_whitespace t) = 93")
      case True
      then show ?thesis using "4.prems"(1) False x ok by (auto simp: Let_def)
    next
      case nb: False
      then obtain u where u: "array_loop n (vs @ [x]) u = Inr (v, r)"
        using "4.prems"(1) False x by (auto simp: Let_def and_then_Inr)
      show ?thesis using "4.IH"(2) [OF refl False refl nb u ok] .
    qed
  qed
next
  case (6 n kvs s)
  let ?s = "skip_whitespace s"
  show ?case
  proof (cases "?s \<noteq> [] \<and> hd ?s = 125")
    case True
    then show ?thesis using "6.prems" by (auto simp: Let_def)
  next
    case False
    then obtain k s1 s2 x t where k: "parse_string ?s = Inr (k, s1)" "expect 58 (skip_whitespace s1) = Inr ((), s2)"
        and x: "parse_value n s2 = Inr (x, t)"
      using "6.prems"(1) by (auto simp: Let_def and_then_Inr)
    have ok: "json_ok (Object (bt_insert k x kvs))"
      using "6.IH"(1) [OF refl False x] "6.prems"(2) by (intro json_ok_insert)
    show ?thesis
    proof (cases "skip_whitespace t \<noteq> [] \<and> hd (skip_whitespace t) = 125")
      case True
      then show ?thesis using "6.prems"(1) False k x ok by (auto simp: Let_def)
    next
      case nb: False
      then obtain u where u: "object_loop n (bt_insert k x kvs) u = Inr (v, r)"
        using "6.prems"(1) False k x by (auto simp: Let_def and_then_Inr)
      show ?thesis using "6.IH"(2) [OF refl False refl refl nb u ok] .
    qed
  qed
qed simp_all

text \<open>
  C16: The parser always answers, on every text, and what it accepts is a well-formed value: the
  fuel the model starts with is never used up.
\<close>

theorem json_parse_total:
  "case json_parse source of Inl OutOfFuel \<Rightarrow> False | Inl (JsonError message) \<Rightarrow> True | Inr v \<Rightarrow> json_ok v"
proof (cases "parse_value (2 * length source + 2) source")
  case (Inl e)
  then show ?thesis
    using fuel_enough(1) [of source "2 * length source + 2"] by (cases e) (auto simp: json_parse_def)
next
  case (Inr p)
  then show ?thesis
    using parsed_ok(1) [of "2 * length source + 2" source] by (cases p) (simp add: json_parse_def del: parse_value.simps)
qed

lemmas parse_numerals =
  parse_value.simps(2) [of "pred_numeral k" for k, folded numeral_eq_Suc]
  array_loop.simps(2) [of "pred_numeral k" for k, folded numeral_eq_Suc]
  unicode_digits.simps(3) [of "pred_numeral k" for k, folded numeral_eq_Suc]

lemmas parsing_defs = json_parse_def uni_def skip_whitespace_def expect_def parse_string_def parse_escape_def
  parse_unicode_escape_def parse_number_def

text \<open>
  The parser accepts more than JSON, a comma before a closing bracket and leading zeros, and
  less, since it refuses the escaped surrogate pair of a character beyond the basic plane.
\<close>

theorem json_parse_dialect:
  "json_parse (uni ''[1,]'') = Inr (Array [Number 1])
   \<and> json_parse (uni ''-007'') = Inr (Number (- 7))
   \<and> json_parse ([34] @ uni [CHR 0x5C] @ uni ''ud83d'' @ uni [CHR 0x5C] @ uni ''ude00'' @ [34])
     = Inl (JsonError (uni ''invalid unicode scalar value''))"
proof (intro conjI)
  show "json_parse (uni ''[1,]'') = Inr (Array [Number 1])"
    by (simp add: parse_numerals parsing_defs is_digit_def digits_value_def)
  show "json_parse (uni ''-007'') = Inr (Number (- 7))"
    by (simp add: parse_numerals parsing_defs is_digit_def digits_value_def)
  show "json_parse ([34] @ uni [CHR 0x5C] @ uni ''ud83d'' @ uni [CHR 0x5C] @ uni ''ude00'' @ [34])
     = Inl (JsonError (uni ''invalid unicode scalar value''))"
    by (simp add: parse_numerals parsing_defs is_scalar_def hex_digit_value_def)
qed

end
