(* ===== verification/Registry.thy ===== *)
theory Registry
  imports BTree
begin

text \<open>
  The shape the in-memory registries of the reference runtime share: a hash map from generated
  ids to entries, and a counter. The model of \<open>HashMap\<close> lists by key; nothing below depends on
  the order of a listing. A lock is held for the whole of each operation, so operations are
  atomic steps. The clock's readings are arguments.
\<close>

section \<open>Ids\<close>

text \<open>\<open>{:08x}\<close>: at least eight digits.\<close>

definition hex8 :: "nat \<Rightarrow> string" where
  "hex8 n = replicate (8 - length (show_hex n)) (CHR ''0'') @ show_hex n"

definition entry_id :: "string \<Rightarrow> u64 \<Rightarrow> u64 \<Rightarrow> string" where
  "entry_id prefix ts counter = prefix @ ''_'' @ hex8 (unat ts) @ ''_'' @ show_nat (unat counter)"

text \<open>The counter is what follows the last underscore.\<close>

lemma entry_id_counter: "entry_id p ts n = entry_id p' ts' n' \<Longrightarrow> n = n'"
proof -
  assume eq: "entry_id p ts n = entry_id p' ts' n'"
  have tail: "takeWhile (\<lambda>c. c \<noteq> CHR ''_'') (rev (entry_id p ts n)) = rev (show_nat (unat n))" for p ts n
  proof -
    have "CHR ''_'' \<notin> set (show_nat (unat n))" using show_nat_chars by fastforce
    then show ?thesis by (auto simp: entry_id_def takeWhile_append)
  qed
  have "show_nat (unat n) = show_nat (unat n')"
    using tail [of p ts n] tail [of p' ts' n'] eq by simp
  then have "unat n = unat n'" by simp
  then show ?thesis by (rule word_unat_eq_iff [THEN iffD2])
qed

section \<open>Registries\<close>

record 'a registry =
  reg_entries :: "(string, 'a) btree"
  reg_counter :: u64

definition registry_new :: "'a registry" where
  "registry_new = \<lparr>reg_entries = [], reg_counter = 0\<rparr>"

definition registry_get :: "'a registry \<Rightarrow> string \<Rightarrow> 'a option" where
  "registry_get r i = bt_get (reg_entries r) i"

definition registry_len :: "'a registry \<Rightarrow> nat" where
  "registry_len r = length (reg_entries r)"

text \<open>\<open>get_mut(id).ok_or_else(..)?\<close> and then a change of the entry, or an error that leaves it.\<close>

definition registry_change ::
  "string \<Rightarrow> ('a \<Rightarrow> string + 'a) \<Rightarrow> string \<Rightarrow> 'a registry \<Rightarrow> (string + 'a) \<times> 'a registry" where
  "registry_change missing f i r =
     (case bt_get (reg_entries r) i of
        None \<Rightarrow> (Inl (missing @ i), r)
      | Some x \<Rightarrow>
          (case f x of
             Inl e \<Rightarrow> (Inl e, r)
           | Inr y \<Rightarrow> (Inr y, r\<lparr>reg_entries := bt_adjust i (\<lambda>_. y) (reg_entries r)\<rparr>)))"

definition registry_remove :: "string \<Rightarrow> 'a registry \<Rightarrow> 'a option \<times> 'a registry" where
  "registry_remove i r = (bt_get (reg_entries r) i, r\<lparr>reg_entries := bt_remove i (reg_entries r)\<rparr>)"

text \<open>Counts up, makes the entry for the new id and inserts it.\<close>

definition registry_create :: "string \<Rightarrow> u64 \<Rightarrow> (string \<Rightarrow> 'a) \<Rightarrow> 'a registry \<Rightarrow> 'a \<times> 'a registry" where
  "registry_create prefix ts mk r =
     (let counter = reg_counter r + 1; i = entry_id prefix ts counter in
      (mk i, \<lparr>reg_entries = bt_insert i (mk i) (reg_entries r), reg_counter = counter\<rparr>))"

section \<open>The invariant\<close>

text \<open>Every entry is stored under its own id, and that id was given out by an earlier count.\<close>

definition registry_ok :: "string \<Rightarrow> ('a \<Rightarrow> string) \<Rightarrow> 'a registry \<Rightarrow> bool" where
  "registry_ok prefix key r \<longleftrightarrow>
     bt_ok (reg_entries r)
     \<and> (\<forall>i x. bt_get (reg_entries r) i = Some x \<longrightarrow> key x = i
          \<and> (\<exists>ts n. i = entry_id prefix ts n \<and> n \<le> reg_counter r))"

lemma registry_new_ok: "registry_ok prefix key registry_new"
  by (simp add: registry_ok_def registry_new_def)

lemma registry_change_ok:
  assumes "registry_ok prefix key r" and "\<And>x y. f x = Inr y \<Longrightarrow> key y = key x"
  shows "registry_ok prefix key (snd (registry_change missing f i r)) \<and> reg_counter (snd (registry_change missing f i r)) = reg_counter r"
  using assms
  by (auto simp: registry_change_def registry_ok_def bt_ok_adjust bt_get_adjust split: option.split sum.split)

lemma registry_remove_ok:
  "registry_ok prefix key r \<Longrightarrow> registry_ok prefix key (snd (registry_remove i r))
   \<and> reg_counter (snd (registry_remove i r)) = reg_counter r"
  by (auto simp: registry_remove_def registry_ok_def bt_ok_remove bt_get_remove split: if_splits)

lemma counter_grows: "(n :: u64) \<noteq> - 1 \<Longrightarrow> n < n + 1"
proof -
  assume "n \<noteq> - 1"
  then have "n + 1 \<noteq> 0" using eq_neg_iff_add_eq_0 [of n 1] by simp
  then show "n < n + 1" using unatSuc [of n] by (simp add: word_less_nat_alt add.commute)
qed

text \<open>A new id is fresh as long as the counter has not come round.\<close>

lemma registry_create_fresh:
  assumes ok: "registry_ok prefix key r" and room: "reg_counter r \<noteq> - 1"
  shows "bt_get (reg_entries r) (entry_id prefix ts (reg_counter r + 1)) = None"
proof (rule ccontr)
  assume "bt_get (reg_entries r) (entry_id prefix ts (reg_counter r + 1)) \<noteq> None"
  then obtain x where "bt_get (reg_entries r) (entry_id prefix ts (reg_counter r + 1)) = Some x" by blast
  then obtain ts' n where "entry_id prefix ts (reg_counter r + 1) = entry_id prefix ts' n" "n \<le> reg_counter r"
    using ok unfolding registry_ok_def by blast
  then have "reg_counter r + 1 \<le> reg_counter r" using entry_id_counter by blast
  then show False using counter_grows [OF room] by simp
qed

lemma registry_create_ok:
  assumes ok: "registry_ok prefix key r" and room: "reg_counter r \<noteq> - 1" and key: "\<And>i. key (mk i) = i"
  shows "registry_ok prefix key (snd (registry_create prefix ts mk r))"
  unfolding registry_ok_def
proof (intro conjI allI impI)
  let ?n = "reg_counter r + 1"
  let ?r = "snd (registry_create prefix ts mk r)"
  have new: "reg_entries ?r = bt_insert (entry_id prefix ts ?n) (mk (entry_id prefix ts ?n)) (reg_entries r)"
      "reg_counter ?r = ?n"
    by (simp_all add: registry_create_def Let_def)
  show "bt_ok (reg_entries ?r)" using ok by (simp add: new registry_ok_def bt_ok_insert)
  fix i x
  assume got: "bt_get (reg_entries ?r) i = Some x"
  show "key x = i" "\<exists>ts n. i = entry_id prefix ts n \<and> n \<le> reg_counter ?r"
  proof -
    have "key x = i \<and> (\<exists>ts n. i = entry_id prefix ts n \<and> n \<le> ?n)"
    proof (cases "i = entry_id prefix ts ?n")
      case True
      then show ?thesis using got key by (auto simp: new bt_get_insert)
    next
      case False
      then have "bt_get (reg_entries r) i = Some x" using got unfolding new bt_get_insert by simp
      then obtain ts' n where "key x = i" "i = entry_id prefix ts' n" "n \<le> reg_counter r"
        using ok unfolding registry_ok_def by blast
      then show ?thesis using counter_grows [OF room] by (meson less_imp_le order_trans)
    qed
    then show "key x = i" "\<exists>ts n. i = entry_id prefix ts n \<and> n \<le> reg_counter ?r" by (simp_all add: new)
  qed
qed

section \<open>The contract of a registry\<close>

text \<open>
  What the operations of a registry promise: each keeps the invariant while the counter has room,
  and counts up by one exactly when it creates an entry, whose id is then fresh.
\<close>

locale id_registry =
  fixes prefix :: string
    and key :: "'a \<Rightarrow> string"
    and step :: "'op \<Rightarrow> 'a registry \<Rightarrow> 'a registry"
    and creates :: "'op \<Rightarrow> bool"
  assumes step_ok: "registry_ok prefix key r \<Longrightarrow> creates op \<Longrightarrow> reg_counter r \<noteq> - 1 \<Longrightarrow> registry_ok prefix key (step op r)"
    and quiet_ok: "registry_ok prefix key r \<Longrightarrow> \<not> creates op \<Longrightarrow> registry_ok prefix key (step op r)"
    and counts: "reg_counter (step op r) = reg_counter r + (if creates op then 1 else 0)"
begin

lemma run_ok:
  "length (filter creates ops) < 2 ^ 64 \<Longrightarrow>
   registry_ok prefix key (fold step ops registry_new)
   \<and> unat (reg_counter (fold step ops registry_new)) = length (filter creates ops)"
proof (induction ops rule: rev_induct)
  case Nil
  then show ?case by (simp add: registry_new_ok) (simp add: registry_new_def)
next
  case (snoc op ops)
  let ?r = "fold step ops registry_new"
  have ih: "registry_ok prefix key ?r" "unat (reg_counter ?r) = length (filter creates ops)"
    using snoc by (auto split: if_splits)
  show ?case
  proof (cases "creates op")
    case True
    then have "unat (reg_counter ?r) + 1 < 2 ^ 64" using ih snoc.prems by simp
    moreover have "unat (- 1 :: u64) = 2 ^ 64 - 1" by (simp add: unsigned_minus_1_eq_mask mask_eq_exp_minus_1)
    ultimately have "unat (reg_counter ?r + 1) = unat (reg_counter ?r) + 1" "reg_counter ?r \<noteq> - 1"
      by (auto simp: unat_add_lem [of _ 1, THEN iffD1])
    then show ?thesis using ih True step_ok [OF ih(1) True] counts by simp
  next
    case False
    then show ?thesis using ih quiet_ok [OF ih(1) False] counts by simp
  qed
qed

end

end
