(* ===== verification/RefTasks.thy ===== *)
theory RefTasks
  imports Registry
begin

text \<open>
  Task packets and the in-memory registries of tasks, teams and crons of the reference runtime:
  \<open>claw-rust/crates/runtime/src/task_packet.rs\<close>, \<open>task_registry.rs\<close> and \<open>team_cron_registry.rs\<close>.
  Each operation takes the readings of the clock it makes, in order.
\<close>

section \<open>Task packets\<close>

datatype task_scope = WorkspaceScope | ModuleScope | SingleFileScope | CustomScope

fun show_scope :: "task_scope \<Rightarrow> string" where
  "show_scope WorkspaceScope = ''workspace''"
| "show_scope ModuleScope = ''module''"
| "show_scope SingleFileScope = ''single-file''"
| "show_scope CustomScope = ''custom''"

record task_packet =
  tp_objective :: string
  tp_scope :: task_scope
  tp_scope_path :: "string option"
  tp_repo :: string
  tp_worktree :: "string option"
  tp_branch_policy :: string
  tp_acceptance_tests :: "string list"
  tp_commit_policy :: string
  tp_reporting_contract :: string
  tp_escalation_policy :: string

definition validate_required :: "string \<Rightarrow> string \<Rightarrow> string list \<Rightarrow> string list" where
  "validate_required field value errors =
     (if trim value = [] then errors @ [field @ '' must not be empty''] else errors)"

definition validate_scope_requirements :: "task_packet \<Rightarrow> string list \<Rightarrow> string list" where
  "validate_scope_requirements packet errors =
     (let needs_scope_path = (tp_scope packet \<in> {ModuleScope, SingleFileScope, CustomScope}) in
      if needs_scope_path \<and> (case tp_scope_path packet of None \<Rightarrow> True | Some p \<Rightarrow> trim p = [])
      then errors @ [''scope_path is required for scope '' @ [CHR 0x27] @ show_scope (tp_scope packet) @ [CHR 0x27]]
      else errors)"

definition validate_test :: "nat \<times> string \<Rightarrow> string list \<Rightarrow> string list" where
  "validate_test = (\<lambda>(index, test) errors.
     if trim test = [] then errors @ [''acceptance_tests contains an empty value at index '' @ show_nat index] else errors)"

definition validate_packet :: "task_packet \<Rightarrow> string list + task_packet" where
  "validate_packet packet =
     (let errors = validate_required ''objective'' (tp_objective packet) [];
          errors = validate_required ''repo'' (tp_repo packet) errors;
          errors = validate_required ''branch_policy'' (tp_branch_policy packet) errors;
          errors = validate_required ''commit_policy'' (tp_commit_policy packet) errors;
          errors = validate_required ''reporting_contract'' (tp_reporting_contract packet) errors;
          errors = validate_required ''escalation_policy'' (tp_escalation_policy packet) errors;
          errors = validate_scope_requirements packet errors;
          errors = fold validate_test (enumerate 0 (tp_acceptance_tests packet)) errors
      in if errors = [] then Inr packet else Inl errors)"

section \<open>Tasks\<close>

datatype task_status = TaskCreated | TaskRunning | TaskCompleted | TaskFailed | TaskStopped

fun show_task_status :: "task_status \<Rightarrow> string" where
  "show_task_status TaskCreated = ''created''"
| "show_task_status TaskRunning = ''running''"
| "show_task_status TaskCompleted = ''completed''"
| "show_task_status TaskFailed = ''failed''"
| "show_task_status TaskStopped = ''stopped''"

record task_message =
  tm_role :: string
  tm_content :: string
  tm_timestamp :: u64

record task =
  task_id :: string
  task_prompt :: string
  task_description :: "string option"
  task_task_packet :: "task_packet option"
  task_status :: task_status
  task_created_at :: u64
  task_updated_at :: u64
  task_messages :: "task_message list"
  task_output :: string
  task_team_id :: "string option"

type_synonym task_registry = "task registry"

definition create_task ::
  "u64 \<Rightarrow> string \<Rightarrow> string option \<Rightarrow> task_packet option \<Rightarrow> task_registry \<Rightarrow> task \<times> task_registry" where
  "create_task ts prompt description packet r =
     registry_create ''task'' ts (\<lambda>i.
       \<lparr>task_id = i, task_prompt = prompt, task_description = description, task_task_packet = packet,
        task_status = TaskCreated, task_created_at = ts, task_updated_at = ts, task_messages = [],
        task_output = [], task_team_id = None\<rparr>) r"

definition task_create :: "u64 \<Rightarrow> string \<Rightarrow> string option \<Rightarrow> task_registry \<Rightarrow> task \<times> task_registry" where
  "task_create ts prompt description r = create_task ts prompt description None r"

definition task_create_from_packet ::
  "u64 \<Rightarrow> task_packet \<Rightarrow> task_registry \<Rightarrow> (string list + task) \<times> task_registry" where
  "task_create_from_packet ts packet r =
     (case validate_packet packet of
        Inl errors \<Rightarrow> (Inl errors, r)
      | Inr packet \<Rightarrow>
          (let description = (case tp_scope_path packet of
                 Some p \<Rightarrow> Some p
               | None \<Rightarrow> Some (show_scope (tp_scope packet)));
               (task, r') = create_task ts (tp_objective packet) description (Some packet) r
           in (Inr task, r')))"

definition task_list :: "task_status option \<Rightarrow> task_registry \<Rightarrow> task list" where
  "task_list status_filter r =
     filter (\<lambda>t. case status_filter of None \<Rightarrow> True | Some st \<Rightarrow> task_status t = st) (bt_values (reg_entries r))"

definition task_missing :: string where
  "task_missing = ''task not found: ''"

definition task_stop :: "u64 \<Rightarrow> string \<Rightarrow> task_registry \<Rightarrow> (string + task) \<times> task_registry" where
  "task_stop now i r =
     registry_change task_missing (\<lambda>t.
       if task_status t \<in> {TaskCompleted, TaskFailed, TaskStopped}
       then Inl (''task '' @ i @ '' is already in terminal state: '' @ show_task_status (task_status t))
       else Inr (t\<lparr>task_status := TaskStopped, task_updated_at := now\<rparr>)) i r"

definition task_update :: "u64 \<Rightarrow> u64 \<Rightarrow> string \<Rightarrow> string \<Rightarrow> task_registry \<Rightarrow> (string + task) \<times> task_registry" where
  "task_update now now' i message r =
     registry_change task_missing (\<lambda>t. Inr (t
       \<lparr>task_messages := task_messages t @ [\<lparr>tm_role = ''user'', tm_content = message, tm_timestamp = now\<rparr>],
        task_updated_at := now'\<rparr>)) i r"

definition task_get_output :: "string \<Rightarrow> task_registry \<Rightarrow> string + string" where
  "task_get_output i r =
     (case registry_get r i of None \<Rightarrow> Inl (task_missing @ i) | Some t \<Rightarrow> Inr (task_output t))"

definition task_append_output :: "u64 \<Rightarrow> string \<Rightarrow> string \<Rightarrow> task_registry \<Rightarrow> (string + task) \<times> task_registry" where
  "task_append_output now i text r =
     registry_change task_missing (\<lambda>t. Inr (t\<lparr>task_output := task_output t @ text, task_updated_at := now\<rparr>)) i r"

definition task_set_status :: "u64 \<Rightarrow> string \<Rightarrow> task_status \<Rightarrow> task_registry \<Rightarrow> (string + task) \<times> task_registry" where
  "task_set_status now i status r =
     registry_change task_missing (\<lambda>t. Inr (t\<lparr>task_status := status, task_updated_at := now\<rparr>)) i r"

definition task_assign_team :: "u64 \<Rightarrow> string \<Rightarrow> string \<Rightarrow> task_registry \<Rightarrow> (string + task) \<times> task_registry" where
  "task_assign_team now i team_id r =
     registry_change task_missing (\<lambda>t. Inr (t\<lparr>task_team_id := Some team_id, task_updated_at := now\<rparr>)) i r"

section \<open>Teams\<close>

datatype team_status = TeamCreated | TeamRunning | TeamCompleted | TeamDeleted

record team =
  team_id :: string
  team_name :: string
  team_task_ids :: "string list"
  team_status :: team_status
  team_created_at :: u64
  team_updated_at :: u64

type_synonym team_registry = "team registry"

definition team_create :: "u64 \<Rightarrow> string \<Rightarrow> string list \<Rightarrow> team_registry \<Rightarrow> team \<times> team_registry" where
  "team_create ts name task_ids r =
     registry_create ''team'' ts (\<lambda>i.
       \<lparr>team_id = i, team_name = name, team_task_ids = task_ids, team_status = TeamCreated,
        team_created_at = ts, team_updated_at = ts\<rparr>) r"

definition team_list :: "team_registry \<Rightarrow> team list" where
  "team_list r = bt_values (reg_entries r)"

definition team_delete :: "u64 \<Rightarrow> string \<Rightarrow> team_registry \<Rightarrow> (string + team) \<times> team_registry" where
  "team_delete now i r =
     registry_change ''team not found: '' (\<lambda>t. Inr (t\<lparr>team_status := TeamDeleted, team_updated_at := now\<rparr>)) i r"

section \<open>Crons\<close>

record cron_entry =
  cron_id :: string
  cron_schedule :: string
  cron_prompt :: string
  cron_description :: "string option"
  cron_enabled :: bool
  cron_created_at :: u64
  cron_updated_at :: u64
  cron_last_run_at :: "u64 option"
  cron_run_count :: u64

type_synonym cron_registry = "cron_entry registry"

definition cron_missing :: string where
  "cron_missing = ''cron not found: ''"

definition cron_create :: "u64 \<Rightarrow> string \<Rightarrow> string \<Rightarrow> string option \<Rightarrow> cron_registry \<Rightarrow> cron_entry \<times> cron_registry" where
  "cron_create ts schedule prompt description r =
     registry_create ''cron'' ts (\<lambda>i.
       \<lparr>cron_id = i, cron_schedule = schedule, cron_prompt = prompt, cron_description = description,
        cron_enabled = True, cron_created_at = ts, cron_updated_at = ts, cron_last_run_at = None,
        cron_run_count = 0\<rparr>) r"

definition cron_list :: "bool \<Rightarrow> cron_registry \<Rightarrow> cron_entry list" where
  "cron_list enabled_only r = filter (\<lambda>e. \<not> enabled_only \<or> cron_enabled e) (bt_values (reg_entries r))"

definition cron_delete :: "string \<Rightarrow> cron_registry \<Rightarrow> (string + cron_entry) \<times> cron_registry" where
  "cron_delete i r =
     (case registry_remove i r of
        (None, r') \<Rightarrow> (Inl (cron_missing @ i), r')
      | (Some e, r') \<Rightarrow> (Inr e, r'))"

definition cron_disable :: "u64 \<Rightarrow> string \<Rightarrow> cron_registry \<Rightarrow> (string + cron_entry) \<times> cron_registry" where
  "cron_disable now i r =
     registry_change cron_missing (\<lambda>e. Inr (e\<lparr>cron_enabled := False, cron_updated_at := now\<rparr>)) i r"

definition cron_record_run :: "u64 \<Rightarrow> u64 \<Rightarrow> string \<Rightarrow> cron_registry \<Rightarrow> (string + cron_entry) \<times> cron_registry" where
  "cron_record_run now now' i r =
     registry_change cron_missing (\<lambda>e. Inr (e
       \<lparr>cron_last_run_at := Some now, cron_run_count := cron_run_count e + 1, cron_updated_at := now'\<rparr>)) i r"

section \<open>Operations as steps\<close>

datatype task_op =
    TaskCreate u64 string "string option"
  | TaskCreateFromPacket u64 task_packet
  | TaskStop u64 string
  | TaskUpdate u64 u64 string string
  | TaskAppendOutput u64 string string
  | TaskSetStatus u64 string task_status
  | TaskAssignTeam u64 string string
  | TaskRemove string

fun task_step :: "task_op \<Rightarrow> task_registry \<Rightarrow> task_registry" where
  "task_step (TaskCreate ts prompt d) r = snd (task_create ts prompt d r)"
| "task_step (TaskCreateFromPacket ts p) r = snd (task_create_from_packet ts p r)"
| "task_step (TaskStop now i) r = snd (task_stop now i r)"
| "task_step (TaskUpdate now now' i m) r = snd (task_update now now' i m r)"
| "task_step (TaskAppendOutput now i text) r = snd (task_append_output now i text r)"
| "task_step (TaskSetStatus now i st) r = snd (task_set_status now i st r)"
| "task_step (TaskAssignTeam now i team) r = snd (task_assign_team now i team r)"
| "task_step (TaskRemove i) r = snd (registry_remove i r)"

fun task_creates :: "task_op \<Rightarrow> bool" where
  "task_creates (TaskCreate _ _ _) \<longleftrightarrow> True"
| "task_creates (TaskCreateFromPacket _ p) \<longleftrightarrow> (case validate_packet p of Inl _ \<Rightarrow> False | Inr _ \<Rightarrow> True)"
| "task_creates _ \<longleftrightarrow> False"

lemma create_counts: "reg_counter (snd (registry_create prefix ts mk r)) = reg_counter r + 1"
  by (simp add: registry_create_def Let_def)

lemma registry_change_counter: "reg_counter (snd (registry_change missing f i r)) = reg_counter r"
  by (simp add: registry_change_def split: option.split sum.split)

lemma registry_remove_counter: "reg_counter (snd (registry_remove i r)) = reg_counter r"
  by (simp add: registry_remove_def)

lemmas counter_facts = create_counts registry_change_counter registry_remove_counter

lemmas task_defs = task_create_def task_create_from_packet_def create_task_def task_stop_def task_update_def
  task_append_output_def task_set_status_def task_assign_team_def

interpretation tasks: id_registry "''task''" task_id task_step task_creates
proof unfold_locales
  fix r :: task_registry and op
  assume ok: "registry_ok ''task'' task_id r"
  note change = registry_change_ok [OF ok, THEN conjunct1]
  show "registry_ok ''task'' task_id (task_step op r)" if "task_creates op" "reg_counter r \<noteq> - 1"
    using that(1)
    by (cases op rule: task_creates.cases)
      (auto simp: task_defs Let_def split_def intro!: registry_create_ok [OF ok that(2)] split: sum.splits)
  show "registry_ok ''task'' task_id (task_step op r)" if "\<not> task_creates op"
    using that ok
    by (cases op rule: task_creates.cases)
      (auto simp: task_defs registry_remove_ok intro!: change split: if_splits sum.splits)
next
  show "reg_counter (task_step op r) = reg_counter r + (if task_creates op then 1 else 0)" for op and r :: task_registry
    by (cases op rule: task_creates.cases)
      (auto simp: task_defs counter_facts Let_def split_def split: sum.split)
qed

datatype team_op = TeamCreate u64 string "string list" | TeamDelete u64 string | TeamRemove string

fun team_step :: "team_op \<Rightarrow> team_registry \<Rightarrow> team_registry" where
  "team_step (TeamCreate ts name ids) r = snd (team_create ts name ids r)"
| "team_step (TeamDelete now i) r = snd (team_delete now i r)"
| "team_step (TeamRemove i) r = snd (registry_remove i r)"

fun team_creates :: "team_op \<Rightarrow> bool" where
  "team_creates (TeamCreate _ _ _) \<longleftrightarrow> True"
| "team_creates _ \<longleftrightarrow> False"

interpretation teams: id_registry "''team''" team_id team_step team_creates
proof unfold_locales
  fix r :: team_registry and op
  assume ok: "registry_ok ''team'' team_id r"
  show "registry_ok ''team'' team_id (team_step op r)" if "team_creates op" "reg_counter r \<noteq> - 1"
    using that(1) by (cases op) (auto simp: team_create_def intro!: registry_create_ok [OF ok that(2)])
  show "registry_ok ''team'' team_id (team_step op r)" if "\<not> team_creates op"
    using that ok
    by (cases op) (auto simp: team_delete_def registry_remove_ok intro!: registry_change_ok [OF ok, THEN conjunct1])
next
  show "reg_counter (team_step op r) = reg_counter r + (if team_creates op then 1 else 0)" for op and r :: team_registry
    by (cases op) (simp_all add: team_create_def team_delete_def counter_facts)
qed

datatype cron_op =
    CronCreate u64 string string "string option"
  | CronDelete string
  | CronDisable u64 string
  | CronRun u64 u64 string

fun cron_step :: "cron_op \<Rightarrow> cron_registry \<Rightarrow> cron_registry" where
  "cron_step (CronCreate ts sched prompt d) r = snd (cron_create ts sched prompt d r)"
| "cron_step (CronDelete i) r = snd (cron_delete i r)"
| "cron_step (CronDisable now i) r = snd (cron_disable now i r)"
| "cron_step (CronRun now now' i) r = snd (cron_record_run now now' i r)"

fun cron_creates :: "cron_op \<Rightarrow> bool" where
  "cron_creates (CronCreate _ _ _ _) \<longleftrightarrow> True"
| "cron_creates _ \<longleftrightarrow> False"

lemma cron_delete_registry: "snd (cron_delete i r) = snd (registry_remove i r)"
  by (simp add: cron_delete_def split: prod.split option.split)

lemmas cron_defs = cron_create_def cron_delete_registry cron_disable_def cron_record_run_def

interpretation crons: id_registry "''cron''" cron_id cron_step cron_creates
proof unfold_locales
  fix r :: cron_registry and op
  assume ok: "registry_ok ''cron'' cron_id r"
  show "registry_ok ''cron'' cron_id (cron_step op r)" if "cron_creates op" "reg_counter r \<noteq> - 1"
    using that(1) by (cases op) (auto simp: cron_defs intro!: registry_create_ok [OF ok that(2)])
  show "registry_ok ''cron'' cron_id (cron_step op r)" if "\<not> cron_creates op"
    using that ok
    by (cases op) (auto simp: cron_defs registry_remove_ok intro!: registry_change_ok [OF ok, THEN conjunct1])
next
  show "reg_counter (cron_step op r) = reg_counter r + (if cron_creates op then 1 else 0)" for op and r :: cron_registry
    by (cases op) (simp_all add: cron_defs counter_facts)
qed

section \<open>Properties\<close>

text \<open>
  However the registries are used, every entry is found under its own id, no two entries
  share an id, and the id of the next task is not in use, up to \<open>2^64 - 1\<close> creations.
\<close>

theorem registry_ids:
  assumes "length ops < 2 ^ 64 - 1"
  shows "list_all (\<lambda>t. registry_get (fold task_step ops registry_new) (task_id t) = Some t)
      (task_list None (fold task_step ops registry_new))
    \<and> distinct (map task_id (task_list None (fold task_step ops registry_new)))
    \<and> registry_get (fold task_step ops registry_new)
        (task_id (fst (task_create ts prompt d (fold task_step ops registry_new)))) = None"
proof -
  let ?r = "fold task_step ops registry_new :: task_registry"
  have few: "length (filter task_creates ops) < 2 ^ 64 - 1" using assms length_filter_le le_less_trans by blast
  then have ok: "registry_ok ''task'' task_id ?r" and n: "unat (reg_counter ?r) = length (filter task_creates ops)"
    using tasks.run_ok [of ops] by simp_all
  have own: "task_id t = i" if "(i, t) \<in> set (reg_entries ?r)" for i t
    using that ok by (auto simp: registry_ok_def bt_get_def bt_ok_def strict_sorted_iff)
  then have keys: "map task_id (bt_values (reg_entries ?r)) = bt_keys (reg_entries ?r)"
    by (auto simp: bt_values_def bt_keys_def)
  have "distinct (bt_keys (reg_entries ?r))"
    using ok by (simp add: registry_ok_def bt_ok_def bt_keys_def strict_sorted_iff)
  moreover have "list_all (\<lambda>t. registry_get ?r (task_id t) = Some t) (bt_values (reg_entries ?r))"
    using own ok by (auto simp: list_all_iff bt_values_def registry_get_def registry_ok_def bt_get_def bt_ok_def strict_sorted_iff)
  moreover have "reg_counter ?r \<noteq> - 1"
    using few n by (auto simp: unsigned_minus_1_eq_mask mask_eq_exp_minus_1)
  then have "registry_get ?r (task_id (fst (task_create ts prompt d ?r))) = None"
    using registry_create_fresh [OF ok]
    by (simp add: registry_get_def task_create_def create_task_def registry_create_def Let_def)
  ultimately show ?thesis using keys by (simp add: task_list_def)
qed

theorem registry_ids_witness:
  "length (task_list None (fold task_step [TaskCreate 5 ''a'' None, TaskCreate 5 ''a'' None] registry_new)) = 2
   \<and> distinct (map task_id (task_list None (fold task_step [TaskCreate 5 ''a'' None, TaskCreate 5 ''a'' None] registry_new)))"
proof -
  have "length (task_list None (fold task_step [TaskCreate 5 ''a'' None, TaskCreate 5 ''a'' None] registry_new)) = 2"
    by code_simp
  moreover have "length [TaskCreate 5 ''a'' None, TaskCreate 5 ''a'' None] < 2 ^ 64 - 1" by simp
  ultimately show ?thesis using registry_ids [of "[TaskCreate 5 ''a'' None, TaskCreate 5 ''a'' None]"] by blast
qed

text \<open>
  A packet passes exactly when its required texts are not blank, its scope has a path where
  it needs one, and no acceptance test is blank; then it is unchanged.
\<close>

theorem validate_packet_iff:
  "validate_packet p = Inr q \<longleftrightarrow>
     q = p
     \<and> list_all (\<lambda>s. trim s \<noteq> []) [tp_objective p, tp_repo p, tp_branch_policy p, tp_commit_policy p,
          tp_reporting_contract p, tp_escalation_policy p]
     \<and> (tp_scope p = WorkspaceScope \<or> (case tp_scope_path p of None \<Rightarrow> False | Some s \<Rightarrow> trim s \<noteq> []))
     \<and> list_all (\<lambda>s. trim s \<noteq> []) (tp_acceptance_tests p)"
proof -
  have tests: "fold validate_test (enumerate n ts) errors = [] \<longleftrightarrow> errors = [] \<and> list_all (\<lambda>s. trim s \<noteq> []) ts" for n ts errors
    by (induction ts arbitrary: n errors) (auto simp: validate_test_def)
  show ?thesis
    by (cases "tp_scope p"; cases "tp_scope_path p")
      (auto simp: validate_packet_def Let_def tests validate_scope_requirements_def validate_required_def)
qed

definition terminal :: "task \<Rightarrow> bool" where
  "terminal t \<longleftrightarrow> task_status t \<in> {TaskCompleted, TaskFailed, TaskStopped}"

text \<open>The operations that force a status or remove the task.\<close>

fun overrides :: "string \<Rightarrow> task_op \<Rightarrow> bool" where
  "overrides i (TaskSetStatus _ j _) \<longleftrightarrow> j = i"
| "overrides i (TaskRemove j) \<longleftrightarrow> j = i"
| "overrides i _ \<longleftrightarrow> False"

lemma change_get: "registry_get (snd (registry_change missing f j r)) i =
    (if i = j then map_option (\<lambda>x. case f x of Inl _ \<Rightarrow> x | Inr y \<Rightarrow> y) (registry_get r i) else registry_get r i)"
  by (auto simp: registry_change_def registry_get_def bt_get_adjust split: option.split sum.split)

lemma remove_get: "registry_get (snd (registry_remove j r)) i = (if i = j then None else registry_get r i)"
  by (simp add: registry_remove_def registry_get_def bt_get_remove)

lemma create_get:
  assumes "registry_ok prefix key r" and "reg_counter r \<noteq> - 1" and "registry_get r i = Some x"
  shows "registry_get (snd (registry_create prefix ts mk r)) i = Some x"
  using registry_create_fresh [OF assms(1,2), of ts] assms(3)
  by (auto simp: registry_create_def registry_get_def Let_def bt_get_insert)

lemma terminal_step:
  assumes ok: "registry_ok ''task'' task_id r" and room: "reg_counter r \<noteq> - 1"
    and t: "registry_get r i = Some t" "terminal t" and op: "\<not> overrides i op"
  shows "\<exists>t'. registry_get (task_step op r) i = Some t' \<and> task_status t' = task_status t"
proof (cases "task_creates op")
  case True
  then have "registry_get (task_step op r) i = Some t"
    by (cases op rule: task_creates.cases)
      (auto simp: task_defs Let_def split_def create_get [OF ok room t(1)] split: sum.splits)
  then show ?thesis by blast
next
  case False
  then show ?thesis
    using t op
    by (cases op rule: task_creates.cases)
      (auto simp: task_defs change_get remove_get terminal_def
        split: sum.splits if_splits)
qed

text \<open>
  A task that has completed, failed or was stopped keeps that status, whatever happens
  besides forcing its status or removing it; stopping it again is refused.
\<close>

theorem terminal_tasks_stay:
  assumes "length (pre @ ops) < 2 ^ 64 - 1"
    and "registry_get (fold task_step pre registry_new) i = Some t" and "terminal t"
    and "\<not> list_ex (overrides i) ops"
  shows "map_option task_status (registry_get (fold task_step (pre @ ops) registry_new) i) = Some (task_status t)
    \<and> isl (fst (task_stop now i (fold task_step (pre @ ops) registry_new)))"
proof -
  have "\<exists>t'. registry_get (fold task_step (pre @ ops) registry_new) i = Some t' \<and> task_status t' = task_status t"
    using assms(1,4)
  proof (induction ops rule: rev_induct)
    case Nil
    then show ?case using assms(2) by simp
  next
    case (snoc op ops)
    let ?r = "fold task_step (pre @ ops) registry_new :: task_registry"
    have few: "length (filter task_creates (pre @ ops)) < 2 ^ 64 - 1"
      using snoc.prems(1) length_filter_le [of task_creates "pre @ ops"] by simp
    then have ok: "registry_ok ''task'' task_id ?r" and "reg_counter ?r \<noteq> - 1"
      using tasks.run_ok [of "pre @ ops"] by (auto simp: unsigned_minus_1_eq_mask mask_eq_exp_minus_1)
    moreover obtain t' where "registry_get ?r i = Some t'" "task_status t' = task_status t"
      using snoc by auto
    ultimately show ?case
      using terminal_step [of ?r i t' op] assms(3) snoc.prems(2) by (auto simp: terminal_def)
  qed
  then show ?thesis
    using assms(3) by (auto simp: task_stop_def registry_change_def registry_get_def terminal_def)
qed

theorem terminal_tasks_stay_witness:
  "isl (fst (task_stop 9 ''task_00000005_1'' (fold task_step
      ([TaskCreate 5 ''a'' None, TaskStop 6 ''task_00000005_1''] @ [TaskUpdate 7 7 ''task_00000005_1'' ''go on'']) registry_new)))"
proof -
  let ?pre = "[TaskCreate 5 ''a'' None, TaskStop 6 ''task_00000005_1'']"
  let ?ops = "[TaskUpdate 7 7 ''task_00000005_1'' ''go on'']"
  have "map_option task_status (registry_get (fold task_step ?pre registry_new) ''task_00000005_1'') = Some TaskStopped"
    by code_simp
  then obtain t where "registry_get (fold task_step ?pre registry_new) ''task_00000005_1'' = Some t" "terminal t"
    by (auto simp: terminal_def)
  moreover have "length (?pre @ ?ops) < 2 ^ 64 - 1" "\<not> list_ex (overrides ''task_00000005_1'') ?ops" by simp_all
  ultimately show ?thesis using terminal_tasks_stay by blast
qed

end
