(* ===== verification/RefLanes.thy ===== *)
theory RefLanes
  imports FileSys "HOL-Library.Multiset"
begin

text \<open>
  Coordination of work lanes in the reference runtime: the green contract, branch lock
  collisions, the policy engine with lane completion, and the checks against a stale branch or
  base commit (\<open>green_contract.rs\<close>, \<open>branch_lock.rs\<close>, \<open>policy_engine.rs\<close>, \<open>stale_branch.rs\<close> and
  \<open>stale_base.rs\<close> of \<open>claw-rust/crates/runtime/src\<close>, \<open>lane_completion.rs\<close> of the tools crate).
  A call of git is a function of the directory and the arguments: nothing when it cannot be
  spawned, else whether it succeeded and its output. Durations are nanoseconds.
\<close>

section \<open>The green contract\<close>

datatype green_level = TargetedTests | Package | Workspace | MergeReady

fun green_rank :: "green_level \<Rightarrow> nat" where
  "green_rank TargetedTests = 0"
| "green_rank Package = 1"
| "green_rank Workspace = 2"
| "green_rank MergeReady = 3"

instantiation green_level :: linorder
begin

definition less_eq_green_level :: "green_level \<Rightarrow> green_level \<Rightarrow> bool" where
  "less_eq_green_level a b \<longleftrightarrow> green_rank a \<le> green_rank b"

definition less_green_level :: "green_level \<Rightarrow> green_level \<Rightarrow> bool" where
  "less_green_level a b \<longleftrightarrow> green_rank a < green_rank b"

instance
proof
  fix a b :: green_level
  show "a \<le> b \<Longrightarrow> b \<le> a \<Longrightarrow> a = b"
    by (cases a; cases b) (simp_all add: less_eq_green_level_def)
qed (auto simp: less_eq_green_level_def less_green_level_def)

end

fun green_as_str :: "green_level \<Rightarrow> string" where
  "green_as_str TargetedTests = ''targeted_tests''"
| "green_as_str Package = ''package''"
| "green_as_str Workspace = ''workspace''"
| "green_as_str MergeReady = ''merge_ready''"

datatype green_outcome = Satisfied green_level green_level | Unsatisfied green_level "green_level option"

text \<open>A contract is its required level.\<close>

definition green_evaluate :: "green_level \<Rightarrow> green_level option \<Rightarrow> green_outcome" where
  "green_evaluate required_level observed_level =
     (case observed_level of
        Some level \<Rightarrow>
          if required_level \<le> level then Satisfied required_level level
          else Unsatisfied required_level observed_level
      | None \<Rightarrow> Unsatisfied required_level observed_level)"

definition green_is_satisfied_by :: "green_level \<Rightarrow> green_level \<Rightarrow> bool" where
  "green_is_satisfied_by required_level observed_level \<longleftrightarrow> required_level \<le> observed_level"

fun green_is_satisfied :: "green_outcome \<Rightarrow> bool" where
  "green_is_satisfied (Satisfied _ _) \<longleftrightarrow> True"
| "green_is_satisfied (Unsatisfied _ _) \<longleftrightarrow> False"

section \<open>Branch locks\<close>

record lock_intent =
  li_lane_id :: string
  li_branch :: string
  li_worktree :: "string option"
  li_modules :: "string list"

type_synonym collision_key = "string \<times> string \<times> string list"

text \<open>A collision: the branch, the module and the ids of the two lanes.\<close>

definition modules_overlap :: "string \<Rightarrow> string \<Rightarrow> bool" where
  "modules_overlap left right \<longleftrightarrow>
     left = right \<or> starts_with left (right @ ''/'') \<or> starts_with right (left @ ''/'')"

definition shared_scope :: "string \<Rightarrow> string \<Rightarrow> string" where
  "shared_scope left right = (if starts_with left (right @ ''/'') \<or> left = right then right else left)"

text \<open>\<open>sort\<close> and then \<open>dedup\<close>, which drops an element equal to the one before it.\<close>

fun dedup :: "'a list \<Rightarrow> 'a list" where
  "dedup (x # y # ys) = (if x = y then dedup (y # ys) else x # dedup (y # ys))"
| "dedup xs = xs"

definition overlapping_modules :: "string list \<Rightarrow> string list \<Rightarrow> string list" where
  "overlapping_modules left right =
     dedup (sort (concat (map (\<lambda>l. map (shared_scope l) (filter (modules_overlap l) right)) left)))"

text \<open>The order \<open>branch\<close>, then \<open>module\<close>, then \<open>lane_ids\<close>.\<close>

definition collision_le :: "collision_key \<Rightarrow> collision_key \<Rightarrow> bool" where
  "collision_le a b \<longleftrightarrow>
     fst a < fst b \<or> (fst a = fst b \<and> (fst (snd a) < fst (snd b)
       \<or> (fst (snd a) = fst (snd b) \<and> snd (snd a) \<le> snd (snd b))))"

fun insert_collision :: "collision_key \<Rightarrow> collision_key list \<Rightarrow> collision_key list" where
  "insert_collision c [] = [c]"
| "insert_collision c (d # ds) = (if collision_le c d then c # d # ds else d # insert_collision c ds)"

text \<open>Any stable sort by that order; this one inserts from the right.\<close>

definition sort_collisions :: "collision_key list \<Rightarrow> collision_key list" where
  "sort_collisions cs = foldr insert_collision cs []"

fun collect_collisions :: "lock_intent list \<Rightarrow> collision_key list" where
  "collect_collisions [] = []"
| "collect_collisions (left # rest) =
     concat (map (\<lambda>right.
       if li_branch left \<noteq> li_branch right then []
       else map (\<lambda>m. (li_branch left, m, [li_lane_id left, li_lane_id right]))
              (overlapping_modules (li_modules left) (li_modules right))) rest)
     @ collect_collisions rest"

definition detect_branch_lock_collisions :: "lock_intent list \<Rightarrow> collision_key list" where
  "detect_branch_lock_collisions intents = dedup (sort_collisions (collect_collisions intents))"

section \<open>The policy engine\<close>

datatype lane_blocker = NoBlocker | StartupBlocker | ExternalBlocker
datatype review_status = ReviewPending | ReviewApproved | ReviewRejected
datatype diff_scope = Full | Scoped

record lane_context =
  lc_lane_id :: string
  lc_green_level :: "8 word"
  lc_branch_freshness :: nat
  lc_blocker :: lane_blocker
  lc_review_status :: review_status
  lc_diff_scope :: diff_scope
  lc_completed :: bool
  lc_reconciled :: bool

definition lane_context_reconciled :: "string \<Rightarrow> lane_context" where
  "lane_context_reconciled lane_id =
     \<lparr>lc_lane_id = lane_id, lc_green_level = 0, lc_branch_freshness = 0, lc_blocker = NoBlocker,
      lc_review_status = ReviewPending, lc_diff_scope = Full, lc_completed = True, lc_reconciled = True\<rparr>"

datatype policy_condition =
    CondAnd "policy_condition list"
  | CondOr "policy_condition list"
  | GreenAt "8 word"
  | StaleBranch
  | StartupBlocked
  | LaneCompleted
  | LaneReconciled
  | ReviewPassed
  | ScopedDiff
  | TimedOut nat

definition stale_branch_threshold :: nat where
  "stale_branch_threshold = 60 * 60 * 10 ^ 9"

fun cond_matches :: "lane_context \<Rightarrow> policy_condition \<Rightarrow> bool" where
  "cond_matches c (CondAnd conditions) \<longleftrightarrow> list_all (cond_matches c) conditions"
| "cond_matches c (CondOr conditions) \<longleftrightarrow> list_ex (cond_matches c) conditions"
| "cond_matches c (GreenAt level) \<longleftrightarrow> level \<le> lc_green_level c"
| "cond_matches c StaleBranch \<longleftrightarrow> stale_branch_threshold \<le> lc_branch_freshness c"
| "cond_matches c StartupBlocked \<longleftrightarrow> lc_blocker c = StartupBlocker"
| "cond_matches c LaneCompleted \<longleftrightarrow> lc_completed c"
| "cond_matches c LaneReconciled \<longleftrightarrow> lc_reconciled c"
| "cond_matches c ReviewPassed \<longleftrightarrow> lc_review_status c = ReviewApproved"
| "cond_matches c ScopedDiff \<longleftrightarrow> lc_diff_scope c = Scoped"
| "cond_matches c (TimedOut duration) \<longleftrightarrow> duration \<le> lc_branch_freshness c"

datatype reconcile_reason = AlreadyMerged | Superseded | EmptyDiff | ManualClose

datatype policy_action =
    MergeToDev
  | MergeForward
  | RecoverOnce
  | Escalate string
  | CloseoutLane
  | CleanupSession
  | ActReconcile reconcile_reason
  | ActNotify string
  | ActBlock string
  | Chain "policy_action list"

fun flatten_action :: "policy_action \<Rightarrow> policy_action list" where
  "flatten_action (Chain chained) = concat (map flatten_action chained)"
| "flatten_action a = [a]"

record policy_rule =
  rule_name :: string
  rule_condition :: policy_condition
  rule_action :: policy_action
  rule_priority :: u32

text \<open>An engine is its rules, sorted by priority with a stable sort.\<close>

definition engine_new :: "policy_rule list \<Rightarrow> policy_rule list" where
  "engine_new rules = sort_key rule_priority rules"

definition engine_evaluate :: "policy_rule list \<Rightarrow> lane_context \<Rightarrow> policy_action list" where
  "engine_evaluate rules c =
     foldl (\<lambda>actions rule. if cond_matches c (rule_condition rule) then actions @ flatten_action (rule_action rule) else actions)
       [] rules"

text \<open>What \<open>detect_lane_completion\<close> reads of an agent's output.\<close>

record agent_output =
  ao_agent_id :: string
  ao_status :: string
  ao_blocked :: bool
  ao_error :: "string option"

definition detect_lane_completion :: "agent_output \<Rightarrow> bool \<Rightarrow> bool \<Rightarrow> lane_context option" where
  "detect_lane_completion output test_green has_pushed =
     (if ao_error output \<noteq> None then None
      else if to_ascii_lowercase (ao_status output) \<noteq> ''completed'' \<and> to_ascii_lowercase (ao_status output) \<noteq> ''finished''
      then None
      else if ao_blocked output then None
      else if \<not> test_green then None
      else if \<not> has_pushed then None
      else Some \<lparr>lc_lane_id = ao_agent_id output, lc_green_level = 3, lc_branch_freshness = 0,
        lc_blocker = NoBlocker, lc_review_status = ReviewApproved, lc_diff_scope = Scoped,
        lc_completed = True, lc_reconciled = False\<rparr>)"

definition evaluate_completed_lane :: "lane_context \<Rightarrow> policy_action list" where
  "evaluate_completed_lane c =
     engine_evaluate (engine_new
       [\<lparr>rule_name = ''closeout-completed-lane'', rule_condition = CondAnd [LaneCompleted, GreenAt 3],
         rule_action = CloseoutLane, rule_priority = 10\<rparr>,
        \<lparr>rule_name = ''cleanup-completed-session'', rule_condition = LaneCompleted,
         rule_action = CleanupSession, rule_priority = 5\<rparr>]) c"

section \<open>Branch freshness\<close>

type_synonym git = "path \<Rightarrow> string list \<Rightarrow> (bool \<times> string) option"

datatype branch_freshness =
    Fresh
  | Stale nat "string list"
  | Diverged nat nat "string list"

datatype stale_policy = AutoRebase | AutoMergeForward | WarnOnly | PolicyBlock

datatype stale_action = Noop | Warn string | StaleBlock string | Rebase | StaleMergeForward

definition parse_usize :: "string \<Rightarrow> nat option" where
  "parse_usize s =
     (let ds = (case s of c # cs \<Rightarrow> if c = CHR ''+'' then cs else s | [] \<Rightarrow> []) in
      if ds = [] then None
      else case parse_digits 0 ds of None \<Rightarrow> None | Some n \<Rightarrow> if n < 2 ^ 64 then Some n else None)"

definition rev_list_count :: "git \<Rightarrow> string \<Rightarrow> string \<Rightarrow> path \<Rightarrow> nat" where
  "rev_list_count git a b repo =
     (case git repo [''rev-list'', ''--count'', b @ ''..'' @ a] of
        Some (True, out) \<Rightarrow> unwrap_or 0 (parse_usize (trim (utf8_lossy out)))
      | _ \<Rightarrow> 0)"

definition missing_fix_subjects :: "git \<Rightarrow> string \<Rightarrow> string \<Rightarrow> path \<Rightarrow> string list" where
  "missing_fix_subjects git a b repo =
     (case git repo [''log'', ''--format=%s'', b @ ''..'' @ a] of
        Some (True, out) \<Rightarrow> filter (\<lambda>l. l \<noteq> []) (str_lines (utf8_lossy out))
      | _ \<Rightarrow> [])"

definition check_freshness_in :: "git \<Rightarrow> string \<Rightarrow> string \<Rightarrow> path \<Rightarrow> branch_freshness" where
  "check_freshness_in git branch main_ref repo =
     (let behind = rev_list_count git main_ref branch repo;
          ahead = rev_list_count git branch main_ref repo
      in if behind = 0 then Fresh
         else if 0 < ahead then Diverged ahead behind (missing_fix_subjects git main_ref branch repo)
         else Stale behind (missing_fix_subjects git main_ref branch repo))"

definition format_missing_fixes :: "string list \<Rightarrow> string" where
  "format_missing_fixes missing_fixes = (if missing_fixes = [] then ''(none)'' else join ''; '' missing_fixes)"

definition apply_stale_policy :: "branch_freshness \<Rightarrow> stale_policy \<Rightarrow> stale_action" where
  "apply_stale_policy freshness policy =
     (case freshness of
        Fresh \<Rightarrow> Noop
      | Stale commits_behind missing_fixes \<Rightarrow>
          (case policy of
             WarnOnly \<Rightarrow> Warn (''Branch is '' @ show_nat commits_behind @ '' commit(s) behind main. Missing fixes: ''
               @ format_missing_fixes missing_fixes)
           | PolicyBlock \<Rightarrow> StaleBlock (''Branch is '' @ show_nat commits_behind
               @ '' commit(s) behind main and must be updated before proceeding.'')
           | AutoRebase \<Rightarrow> Rebase
           | AutoMergeForward \<Rightarrow> StaleMergeForward)
      | Diverged ahead behind missing_fixes \<Rightarrow>
          (case policy of
             WarnOnly \<Rightarrow> Warn (''Branch has diverged: '' @ show_nat ahead @ '' commit(s) ahead, '' @ show_nat behind
               @ '' commit(s) behind main. Missing fixes: '' @ format_missing_fixes missing_fixes)
           | PolicyBlock \<Rightarrow> StaleBlock (''Branch has diverged ('' @ show_nat ahead @ '' ahead, '' @ show_nat behind
               @ '' behind) and must be reconciled before proceeding. Missing fixes: ''
               @ format_missing_fixes missing_fixes)
           | AutoRebase \<Rightarrow> Rebase
           | AutoMergeForward \<Rightarrow> StaleMergeForward))"

section \<open>The expected base\<close>

datatype base_state = Matches | BaseDiverged string string | NoExpectedBase | NotAGitRepo
datatype base_source = FromFlag string | FromFile string

definition read_claw_base_file :: "path \<Rightarrow> fs \<Rightarrow> string option \<times> fs" where
  "read_claw_base_file cwd s =
     (case fs_read_to_string (path_join cwd [Name ''.claw-base'']) s of
        (Inl _, s') \<Rightarrow> (None, s')
      | (Inr content, s') \<Rightarrow> (if trim content = [] then None else Some (trim content), s'))"

definition resolve_expected_base :: "string option \<Rightarrow> path \<Rightarrow> fs \<Rightarrow> base_source option \<times> fs" where
  "resolve_expected_base flag_value cwd s =
     (let from_file = (case read_claw_base_file cwd s of (r, s') \<Rightarrow> (map_option FromFile r, s')) in
      case flag_value of
        Some value \<Rightarrow> if trim value \<noteq> [] then (Some (FromFlag (trim value)), s) else from_file
      | None \<Rightarrow> from_file)"

definition resolve_rev :: "git \<Rightarrow> path \<Rightarrow> string \<Rightarrow> string option" where
  "resolve_rev git cwd revision =
     (case git cwd [''rev-parse'', revision] of
        Some (True, out) \<Rightarrow> if valid_utf8 out \<and> trim out \<noteq> [] then Some (trim out) else None
      | _ \<Rightarrow> None)"

definition check_base_commit :: "git \<Rightarrow> path \<Rightarrow> base_source option \<Rightarrow> base_state" where
  "check_base_commit git cwd expected_base =
     (case expected_base of
        None \<Rightarrow> NoExpectedBase
      | Some source \<Rightarrow>
          (let expected_raw = (case source of FromFlag v \<Rightarrow> v | FromFile v \<Rightarrow> v) in
           case resolve_rev git cwd ''HEAD'' of
             None \<Rightarrow> NotAGitRepo
           | Some head_sha \<Rightarrow>
               (case resolve_rev git cwd expected_raw of
                  None \<Rightarrow>
                    if starts_with head_sha expected_raw \<or> starts_with expected_raw head_sha then Matches
                    else BaseDiverged expected_raw head_sha
                | Some expected_sha \<Rightarrow>
                    if head_sha = expected_sha then Matches else BaseDiverged expected_sha head_sha)))"

definition format_stale_base_warning :: "base_state \<Rightarrow> string option" where
  "format_stale_base_warning state =
     (case state of
        BaseDiverged expected actual \<Rightarrow> Some (''warning: worktree HEAD ('' @ actual
          @ '') does not match expected base commit ('' @ expected @ ''). Session may run against a stale codebase.'')
      | NotAGitRepo \<Rightarrow> Some (''warning: stale-base check skipped '' @ [CHR 0xE2, CHR 0x80, CHR 0x94]
          @ '' not inside a git repository.'')
      | Matches \<Rightarrow> None
      | NoExpectedBase \<Rightarrow> None)"


section \<open>Collisions\<close>

lemma set_dedup [simp]: "set (dedup xs) = set xs"
  by (induction xs rule: dedup.induct) auto

lemma dedup_hd: "x # ys = xs \<Longrightarrow> \<exists>zs. dedup xs = x # zs"
  by (induction xs arbitrary: x ys rule: dedup.induct) auto

lemma sorted_wrt_dedup:
  assumes "\<And>x y. le x y \<Longrightarrow> le y x \<Longrightarrow> x = y" "\<And>x y z. le x y \<Longrightarrow> le y z \<Longrightarrow> le x z"
  shows "sorted_wrt le xs \<Longrightarrow> sorted_wrt (\<lambda>x y. le x y \<and> x \<noteq> y) (dedup xs)"
proof (induction xs rule: dedup.induct)
  case (1 x y ys)
  show ?case
  proof (cases "x = y")
    case True
    then show ?thesis using 1 by simp
  next
    case False
    have "le x z \<and> x \<noteq> z" if "z \<in> set (y # ys)" for z
    proof -
      have "le x z" "le x y" "z = y \<or> le y z" using 1(3) that by auto
      then show ?thesis using False assms(1) [of x y] by auto
    qed
    then show ?thesis using 1 False by simp
  qed
qed simp_all

lemma collision_le_total: "\<not> collision_le a b \<Longrightarrow> collision_le b a"
  by (auto simp: collision_le_def)

lemma collision_le_trans: "collision_le a b \<Longrightarrow> collision_le b c \<Longrightarrow> collision_le a c"
  by (auto simp: collision_le_def)

lemma collision_le_antisym: "collision_le a b \<Longrightarrow> collision_le b a \<Longrightarrow> a = b"
  by (cases a; cases b) (auto simp: collision_le_def)

lemma set_insert_collision [simp]: "set (insert_collision c cs) = insert c (set cs)"
  by (induction cs) auto

lemma insert_collision_sorted:
  "sorted_wrt collision_le cs \<Longrightarrow> sorted_wrt collision_le (insert_collision c cs)"
  by (induction cs) (auto dest: collision_le_total intro: collision_le_trans)

lemma sort_collisions_set [simp]: "set (sort_collisions cs) = set cs"
  by (induction cs) (simp_all add: sort_collisions_def)

lemma sort_collisions_sorted: "sorted_wrt collision_le (sort_collisions cs)"
  by (induction cs) (simp_all add: sort_collisions_def insert_collision_sorted)

lemma set_overlapping_modules:
  "m \<in> set (overlapping_modules left right) \<longleftrightarrow>
    (\<exists>l\<in>set left. \<exists>r\<in>set right. modules_overlap l r \<and> m = shared_scope l r)"
  by (auto simp: overlapping_modules_def)

text \<open>Two lanes collide on a module.\<close>

definition lanes_collide :: "lock_intent \<Rightarrow> lock_intent \<Rightarrow> string \<Rightarrow> bool" where
  "lanes_collide left right m \<longleftrightarrow> li_branch left = li_branch right \<and>
     (\<exists>l\<in>set (li_modules left). \<exists>r\<in>set (li_modules right). modules_overlap l r \<and> m = shared_scope l r)"

lemma ex_pair_Cons:
  "(\<exists>i j. i < j \<and> j < length (x # xs) \<and> P ((x # xs) ! i) ((x # xs) ! j)) \<longleftrightarrow>
    (\<exists>y\<in>set xs. P x y) \<or> (\<exists>i j. i < j \<and> j < length xs \<and> P (xs ! i) (xs ! j))"
  (is "?L \<longleftrightarrow> ?R")
proof
  assume ?L
  then obtain i j where ij: "i < j" "j < length (x # xs)" "P ((x # xs) ! i) ((x # xs) ! j)" by blast
  obtain j' where j: "j = Suc j'" using ij(1) by (cases j) auto
  show ?R
  proof (cases i)
    case 0
    then have "P x (xs ! j')" "xs ! j' \<in> set xs" using ij j by simp_all
    then show ?thesis by blast
  next
    case (Suc i')
    then show ?thesis using ij j by auto
  qed
next
  assume ?R
  then show ?L
  proof
    assume "\<exists>y\<in>set xs. P x y"
    then obtain k where "k < length xs" "P x (xs ! k)" by (auto simp: in_set_conv_nth)
    then show ?L by (intro exI [of _ 0] exI [of _ "Suc k"]) simp
  next
    assume "\<exists>i j. i < j \<and> j < length xs \<and> P (xs ! i) (xs ! j)"
    then obtain i j where "i < j" "j < length xs" "P (xs ! i) (xs ! j)" by blast
    then show ?L by (intro exI [of _ "Suc i"] exI [of _ "Suc j"]) simp
  qed
qed

lemma set_concat_skip:
  "x \<in> set (concat (map (\<lambda>r. if P r then [] else map (f r) (g r)) rs)) \<longleftrightarrow>
    (\<exists>r\<in>set rs. \<not> P r \<and> (\<exists>m\<in>set (g r). x = f r m))"
  by (induction rs) auto

lemma set_collect_collisions:
  "(b, m, ids) \<in> set (collect_collisions intents) \<longleftrightarrow>
    (\<exists>i j. i < j \<and> j < length intents \<and> lanes_collide (intents ! i) (intents ! j) m
      \<and> b = li_branch (intents ! i) \<and> ids = [li_lane_id (intents ! i), li_lane_id (intents ! j)])"
proof (induction intents)
  case (Cons x xs)
  have "(b, m, ids) \<in> set (collect_collisions (x # xs)) \<longleftrightarrow>
    (\<exists>y\<in>set xs. lanes_collide x y m \<and> b = li_branch x \<and> ids = [li_lane_id x, li_lane_id y])
     \<or> (b, m, ids) \<in> set (collect_collisions xs)"
    unfolding collect_collisions.simps set_append Un_iff set_concat_skip lanes_collide_def
    by (rule arg_cong2 [of _ _ _ _ "(\<or>)"], rule bex_cong, rule refl)
      (auto simp: Bex_def set_overlapping_modules)
  then show ?case unfolding Cons
    by (simp only: ex_pair_Cons [of x xs "\<lambda>u v. lanes_collide u v m \<and> b = li_branch u
      \<and> ids = [li_lane_id u, li_lane_id v]"])
qed simp

text \<open>The detector reports exactly the collisions of two different intents on one branch with
  overlapping modules, the outer module of each overlap, strictly sorted and so without duplicates.\<close>

theorem collisions_exact:
  "set (detect_branch_lock_collisions intents) =
    {(li_branch (intents ! i), m, [li_lane_id (intents ! i), li_lane_id (intents ! j)]) | i j m.
      i < j \<and> j < length intents \<and> lanes_collide (intents ! i) (intents ! j) m}
   \<and> sorted_wrt (\<lambda>a b. collision_le a b \<and> a \<noteq> b) (detect_branch_lock_collisions intents)"
proof
  have "c \<in> set (detect_branch_lock_collisions intents) \<longleftrightarrow> c \<in>
    {(li_branch (intents ! i), m, [li_lane_id (intents ! i), li_lane_id (intents ! j)]) | i j m.
      i < j \<and> j < length intents \<and> lanes_collide (intents ! i) (intents ! j) m}" for c
  proof (cases c)
    case (fields b m ids)
    show ?thesis
      unfolding fields detect_branch_lock_collisions_def set_dedup sort_collisions_set set_collect_collisions
        mem_Collect_eq prod.inject by blast
  qed
  then show "set (detect_branch_lock_collisions intents) =
    {(li_branch (intents ! i), m, [li_lane_id (intents ! i), li_lane_id (intents ! j)]) | i j m.
      i < j \<and> j < length intents \<and> lanes_collide (intents ! i) (intents ! j) m}" by (rule set_eqI)
  show "sorted_wrt (\<lambda>a b. collision_le a b \<and> a \<noteq> b) (detect_branch_lock_collisions intents)"
    unfolding detect_branch_lock_collisions_def
    by (rule sorted_wrt_dedup [OF collision_le_antisym collision_le_trans sort_collisions_sorted])
qed

section \<open>The policy engine's actions\<close>

fun is_chain :: "policy_action \<Rightarrow> bool" where
  "is_chain (Chain _) \<longleftrightarrow> True"
| "is_chain _ \<longleftrightarrow> False"

lemma flatten_no_chain: "b \<in> set (flatten_action a) \<Longrightarrow> \<not> is_chain b"
  by (induction a rule: flatten_action.induct) auto

lemma engine_evaluate_eq:
  "engine_evaluate rules c =
    concat (map (\<lambda>r. flatten_action (rule_action r)) (filter (\<lambda>r. cond_matches c (rule_condition r)) rules))"
  unfolding engine_evaluate_def by (induction rules rule: rev_induct) simp_all

lemma engine_evaluate_append:
  "engine_evaluate (rules @ rules') c = engine_evaluate rules c @ engine_evaluate rules' c"
  by (simp add: engine_evaluate_eq)

lemma engine_evaluate_Cons:
  "engine_evaluate (r # rules) c =
    (if cond_matches c (rule_condition r) then flatten_action (rule_action r) else []) @ engine_evaluate rules c"
  by (simp add: engine_evaluate_eq)

lemma engine_new_snoc:
  "engine_new (rules @ [r]) =
    engine_new (filter (\<lambda>q. rule_priority q \<le> rule_priority r) rules) @ [r]
    @ engine_new (filter (\<lambda>q. \<not> rule_priority q \<le> rule_priority r) rules)"
  (is "_ = ?s")
  unfolding engine_new_def
proof (rule properties_for_sort_key)
  show "mset (sort_key rule_priority (filter (\<lambda>q. rule_priority q \<le> rule_priority r) rules) @ [r]
      @ sort_key rule_priority (filter (\<lambda>q. \<not> rule_priority q \<le> rule_priority r) rules)) = mset (rules @ [r])"
    by simp
next
  fix k
  have stable: "filter (\<lambda>q. rule_priority k = rule_priority q) (sort_key rule_priority rs) =
    filter (\<lambda>q. rule_priority k = rule_priority q) rs" for rs
    using sort_key_stable [of rule_priority "rule_priority k" rs] by (simp add: eq_commute)
  have "filter (\<lambda>q. rule_priority k = rule_priority q \<and> rule_priority q \<le> rule_priority r) rules
      = (if rule_priority k \<le> rule_priority r then filter (\<lambda>q. rule_priority k = rule_priority q) rules else [])"
    "filter (\<lambda>q. rule_priority k = rule_priority q \<and> \<not> rule_priority q \<le> rule_priority r) rules
      = (if rule_priority k \<le> rule_priority r then [] else filter (\<lambda>q. rule_priority k = rule_priority q) rules)"
    by (auto simp: filter_empty_conv intro: filter_cong)
  then have "filter (\<lambda>q. rule_priority k = rule_priority q \<and> rule_priority q \<le> rule_priority r) rules
      @ (if rule_priority k = rule_priority r then [r] else [])
      @ filter (\<lambda>q. rule_priority k = rule_priority q \<and> \<not> rule_priority q \<le> rule_priority r) rules
    = filter (\<lambda>q. rule_priority k = rule_priority q) rules @ (if rule_priority k = rule_priority r then [r] else [])"
    by simp
  then show "filter (\<lambda>q. rule_priority k = rule_priority q)
      (sort_key rule_priority (filter (\<lambda>q. rule_priority q \<le> rule_priority r) rules) @ [r]
       @ sort_key rule_priority (filter (\<lambda>q. \<not> rule_priority q \<le> rule_priority r) rules))
    = filter (\<lambda>q. rule_priority k = rule_priority q) (rules @ [r])"
    unfolding filter_append stable
    by (cases "rule_priority k = rule_priority r") (simp_all add: conj_commute)
next
  show "sorted (map rule_priority (sort_key rule_priority (filter (\<lambda>q. rule_priority q \<le> rule_priority r) rules)
      @ [r] @ sort_key rule_priority (filter (\<lambda>q. \<not> rule_priority q \<le> rule_priority r) rules)))"
    by (auto simp: sorted_append)
qed

text \<open>Adding a rule to an engine changes no other rule's actions and puts its own before those
  of every rule of higher priority number and behind those of the rules with an equal or lower one;
  a rule whose condition does not hold adds nothing, and no chain is left unflattened.\<close>

theorem engine_priority:
  "engine_evaluate (engine_new (rules @ [r])) c =
      engine_evaluate (engine_new (filter (\<lambda>q. rule_priority q \<le> rule_priority r) rules)) c
      @ (if cond_matches c (rule_condition r) then flatten_action (rule_action r) else [])
      @ engine_evaluate (engine_new (filter (\<lambda>q. \<not> rule_priority q \<le> rule_priority r) rules)) c
    \<and> list_all (\<lambda>a. \<not> is_chain a) (engine_evaluate (engine_new rules) c)"
  by (simp_all add: engine_new_snoc engine_evaluate_append engine_evaluate_Cons)
    (auto simp: engine_evaluate_eq list_all_iff dest: flatten_no_chain)

text \<open>A lane counts as completed exactly for an agent output without error or blocker, with
  status completed or finished, green tests and a push; the engine then cleans the session up and
  closes the lane out, in this order.\<close>

theorem completed_lane_closed:
  "map_option evaluate_completed_lane (detect_lane_completion agent test_green has_pushed) =
    (if ao_error agent = None \<and> \<not> ao_blocked agent \<and> test_green \<and> has_pushed
        \<and> to_ascii_lowercase (ao_status agent) \<in> {''completed'', ''finished''}
     then Some [CleanupSession, CloseoutLane] else None)"
  by (auto simp: detect_lane_completion_def evaluate_completed_lane_def engine_new_def engine_evaluate_def)

section \<open>Freshness\<close>

text \<open>A branch is fresh whenever git does not answer the count of its missing commits with a
  number, so a failing git is taken for an up-to-date branch and every policy lets it pass.\<close>

theorem freshness_fails_open:
  "(case git repo [''rev-list'', ''--count'', branch @ ''..'' @ main_ref] of
      Some (True, out) \<Rightarrow> parse_usize (trim (utf8_lossy out)) \<in> {None, Some 0}
    | _ \<Rightarrow> True)
   \<longleftrightarrow> check_freshness_in git branch main_ref repo = Fresh"
  by (auto simp: check_freshness_in_def rev_list_count_def Let_def unwrap_or_def
      split: option.splits prod.splits bool.splits if_splits)

end
