(* ===== verification/RefPermissions.thy ===== *)
theory RefPermissions
  imports TextEdit Json
begin

text \<open>
  Permissions of the reference runtime: the policy with its allow, deny and ask rules, and the
  enforcer in front of file writes and shell commands (\<open>permissions.rs\<close> and
  \<open>permission_enforcer.rs\<close> of \<open>claw-rust/crates/runtime/src\<close>). The prompter is a function of the
  request and the world, the reading of a tool's input as JSON is the parameter \<open>read_json\<close>
  (\<open>serde_json::from_str\<close>, none when it fails).
\<close>

section \<open>Modes and rules\<close>

datatype claw_mode = ModeReadOnly | ModeWorkspaceWrite | ModeDangerFullAccess | ModePrompt | ModeAllow

fun claw_mode_rank :: "claw_mode \<Rightarrow> nat" where
  "claw_mode_rank ModeReadOnly = 0"
| "claw_mode_rank ModeWorkspaceWrite = 1"
| "claw_mode_rank ModeDangerFullAccess = 2"
| "claw_mode_rank ModePrompt = 3"
| "claw_mode_rank ModeAllow = 4"

text \<open>The derived \<open>Ord\<close>: the order of the variants.\<close>

instantiation claw_mode :: linorder
begin

definition less_eq_claw_mode :: "claw_mode \<Rightarrow> claw_mode \<Rightarrow> bool" where
  "less_eq_claw_mode a b \<longleftrightarrow> claw_mode_rank a \<le> claw_mode_rank b"

definition less_claw_mode :: "claw_mode \<Rightarrow> claw_mode \<Rightarrow> bool" where
  "less_claw_mode a b \<longleftrightarrow> claw_mode_rank a < claw_mode_rank b"

instance
proof
  fix a b :: claw_mode
  show "a \<le> b \<Longrightarrow> b \<le> a \<Longrightarrow> a = b"
    by (cases a; cases b) (simp_all add: less_eq_claw_mode_def)
qed (auto simp: less_eq_claw_mode_def less_claw_mode_def)

end

fun claw_mode_str :: "claw_mode \<Rightarrow> string" where
  "claw_mode_str ModeReadOnly = ''read-only''"
| "claw_mode_str ModeWorkspaceWrite = ''workspace-write''"
| "claw_mode_str ModeDangerFullAccess = ''danger-full-access''"
| "claw_mode_str ModePrompt = ''prompt''"
| "claw_mode_str ModeAllow = ''allow''"

datatype permission_override = OverrideAllow | OverrideDeny | OverrideAsk

record permission_context =
  pc_override_decision :: "permission_override option"
  pc_override_reason :: "string option"

definition context_default :: permission_context where
  "context_default = \<lparr>pc_override_decision = None, pc_override_reason = None\<rparr>"

record claw_request =
  cr_tool_name :: string
  cr_input :: string
  cr_current_mode :: claw_mode
  cr_required_mode :: claw_mode
  cr_reason :: "string option"

datatype prompt_decision = PromptAllow | PromptDeny string
datatype claw_outcome = OutcomeAllow | OutcomeDeny string
datatype rule_matcher = MatchAny | MatchExact string | MatchPrefix string

record permission_rule =
  pru_raw :: string
  pru_tool_name :: string
  pru_matcher :: rule_matcher

record claw_policy =
  cp_active_mode :: claw_mode
  cp_tool_requirements :: "(string, claw_mode) btree"
  cp_allow_rules :: "permission_rule list"
  cp_deny_rules :: "permission_rule list"
  cp_ask_rules :: "permission_rule list"

type_synonym 'w claw_prompter = "claw_request \<Rightarrow> 'w \<Rightarrow> prompt_decision \<times> 'w"

section \<open>Parsing and matching rules\<close>

text \<open>Positions are byte offsets; a backslash before the needle escapes it. \<open>from\<close> is the offset
  of the text that is left.\<close>

fun find_first_unescaped_from :: "bool \<Rightarrow> nat \<Rightarrow> string \<Rightarrow> char \<Rightarrow> nat option" where
  "find_first_unescaped_from escaped i [] needle = None"
| "find_first_unescaped_from escaped i (c # cs) needle =
     (if c = CHR 0x5C then find_first_unescaped_from (\<not> escaped) (Suc i) cs needle
      else if c = needle \<and> \<not> escaped then Some i
      else find_first_unescaped_from False (Suc i) cs needle)"

definition find_first_unescaped :: "string \<Rightarrow> char \<Rightarrow> nat option" where
  "find_first_unescaped value needle = find_first_unescaped_from False 0 value needle"

text \<open>The same from the end: \<open>before\<close> is the text before the position, read backwards.\<close>

fun find_last_unescaped_rev :: "string \<Rightarrow> char \<Rightarrow> nat option" where
  "find_last_unescaped_rev [] needle = None"
| "find_last_unescaped_rev (c # before) needle =
     (if c \<noteq> needle then find_last_unescaped_rev before needle
      else if even (length (takeWhile (\<lambda>d. d = CHR 0x5C) before)) then Some (length before)
      else find_last_unescaped_rev before needle)"

definition find_last_unescaped :: "string \<Rightarrow> char \<Rightarrow> nat option" where
  "find_last_unescaped value needle = find_last_unescaped_rev (rev value) needle"

definition unescape_rule_content :: "string \<Rightarrow> string" where
  "unescape_rule_content content =
     replace_str (replace_str (replace_str content [CHR 0x5C, CHR ''(''] ''('') [CHR 0x5C, CHR '')''] '')'')
       [CHR 0x5C, CHR 0x5C] [CHR 0x5C]"

definition parse_rule_matcher :: "string \<Rightarrow> rule_matcher" where
  "parse_rule_matcher content =
     (let unescaped = unescape_rule_content (trim content) in
      if unescaped = [] \<or> unescaped = ''*'' then MatchAny
      else case strip_suffix unescaped '':*'' of
             Some prefix \<Rightarrow> MatchPrefix prefix
           | None \<Rightarrow> MatchExact unescaped)"

definition rule_parse :: "string \<Rightarrow> permission_rule" where
  "rule_parse raw =
     (let trimmed = trim raw;
          otherwise = \<lparr>pru_raw = trimmed, pru_tool_name = trimmed, pru_matcher = MatchAny\<rparr>
      in case (find_first_unescaped trimmed CHR ''('', find_last_unescaped trimmed CHR '')'') of
           (Some op, Some cl) \<Rightarrow>
             if cl = length trimmed - 1 \<and> op < cl then
               (let tool_name = trim (take op trimmed);
                    content = drop (op + 1) (take cl trimmed)
                in if tool_name \<noteq> []
                   then \<lparr>pru_raw = trimmed, pru_tool_name = tool_name, pru_matcher = parse_rule_matcher content\<rparr>
                   else otherwise)
             else otherwise
         | _ \<Rightarrow> otherwise)"

definition subject_keys :: "string list" where
  "subject_keys = [''command'', ''path'', ''file_path'', ''filePath'', ''notebook_path'', ''notebookPath'',
     ''url'', ''pattern'', ''code'', ''message'']"

fun first_string :: "json \<Rightarrow> string list \<Rightarrow> string option" where
  "first_string v [] = None"
| "first_string v (k # ks) = (case get_str v k of Some s \<Rightarrow> Some s | None \<Rightarrow> first_string v ks)"

definition extract_permission_subject :: "(string \<Rightarrow> json option) \<Rightarrow> string \<Rightarrow> string option" where
  "extract_permission_subject read_json input =
     (case (case read_json input of Some (JObj m) \<Rightarrow> first_string (JObj m) subject_keys | _ \<Rightarrow> None) of
        Some s \<Rightarrow> Some s
      | None \<Rightarrow> if trim input \<noteq> [] then Some input else None)"

definition rule_matches :: "(string \<Rightarrow> json option) \<Rightarrow> permission_rule \<Rightarrow> string \<Rightarrow> string \<Rightarrow> bool" where
  "rule_matches read_json rule tool_name input \<longleftrightarrow>
     pru_tool_name rule = tool_name \<and>
     (case pru_matcher rule of
        MatchAny \<Rightarrow> True
      | MatchExact expected \<Rightarrow> extract_permission_subject read_json input = Some expected
      | MatchPrefix prefix \<Rightarrow>
          (case extract_permission_subject read_json input of
             None \<Rightarrow> False | Some candidate \<Rightarrow> starts_with candidate prefix))"

definition find_matching_rule ::
  "(string \<Rightarrow> json option) \<Rightarrow> permission_rule list \<Rightarrow> string \<Rightarrow> string \<Rightarrow> permission_rule option" where
  "find_matching_rule read_json rules tool_name input =
     find (\<lambda>rule. rule_matches read_json rule tool_name input) rules"

section \<open>The policy\<close>

definition claw_policy_new :: "claw_mode \<Rightarrow> claw_policy" where
  "claw_policy_new active_mode = \<lparr>cp_active_mode = active_mode, cp_tool_requirements = [],
     cp_allow_rules = [], cp_deny_rules = [], cp_ask_rules = []\<rparr>"

definition claw_tool_requirement :: "string \<Rightarrow> claw_mode \<Rightarrow> claw_policy \<Rightarrow> claw_policy" where
  "claw_tool_requirement tool_name required_mode p =
     p\<lparr>cp_tool_requirements := bt_insert tool_name required_mode (cp_tool_requirements p)\<rparr>"

text \<open>The configuration's rules: the texts of its allow, deny and ask lists.\<close>

definition with_permission_rules ::
  "string list \<Rightarrow> string list \<Rightarrow> string list \<Rightarrow> claw_policy \<Rightarrow> claw_policy" where
  "with_permission_rules allow deny ask p =
     p\<lparr>cp_allow_rules := map rule_parse allow, cp_deny_rules := map rule_parse deny,
       cp_ask_rules := map rule_parse ask\<rparr>"

definition claw_required_mode :: "claw_policy \<Rightarrow> string \<Rightarrow> claw_mode" where
  "claw_required_mode p tool_name =
     unwrap_or ModeDangerFullAccess (bt_get (cp_tool_requirements p) tool_name)"

definition quoted :: "string \<Rightarrow> string" where
  "quoted s = [CHR 0x27] @ s @ [CHR 0x27]"

definition prompt_or_deny ::
  "string \<Rightarrow> string \<Rightarrow> claw_mode \<Rightarrow> claw_mode \<Rightarrow> string option \<Rightarrow> 'w claw_prompter option \<Rightarrow> 'w
    \<Rightarrow> claw_outcome \<times> 'w" where
  "prompt_or_deny tool_name input current_mode required_mode reason prompter w =
     (case prompter of
        Some decide \<Rightarrow>
          (case decide \<lparr>cr_tool_name = tool_name, cr_input = input, cr_current_mode = current_mode,
              cr_required_mode = required_mode, cr_reason = reason\<rparr> w of
             (PromptAllow, w') \<Rightarrow> (OutcomeAllow, w')
           | (PromptDeny r, w') \<Rightarrow> (OutcomeDeny r, w'))
      | None \<Rightarrow> (OutcomeDeny (unwrap_or (''tool '' @ quoted tool_name
          @ '' requires approval to run while mode is '' @ claw_mode_str current_mode) reason), w))"

definition authorize_with_context ::
  "(string \<Rightarrow> json option) \<Rightarrow> claw_policy \<Rightarrow> string \<Rightarrow> string \<Rightarrow> permission_context
    \<Rightarrow> 'w claw_prompter option \<Rightarrow> 'w \<Rightarrow> claw_outcome \<times> 'w" where
  "authorize_with_context read_json p tool_name input ctx prompter w =
     (case find_matching_rule read_json (cp_deny_rules p) tool_name input of
        Some rule \<Rightarrow> (OutcomeDeny (''Permission to use '' @ tool_name @ '' has been denied by rule ''
          @ quoted (pru_raw rule)), w)
      | None \<Rightarrow>
     (let current_mode = cp_active_mode p;
          required_mode = claw_required_mode p tool_name;
          ask_rule = find_matching_rule read_json (cp_ask_rules p) tool_name input;
          allow_rule = find_matching_rule read_json (cp_allow_rules p) tool_name input;
          ask = (\<lambda>reason. prompt_or_deny tool_name input current_mode required_mode (Some reason) prompter w);
          covered = (allow_rule \<noteq> None \<or> current_mode = ModeAllow \<or> required_mode \<le> current_mode);
          ask_reason = (\<lambda>rule. ''tool '' @ quoted tool_name @ '' requires approval due to ask rule ''
            @ quoted (pru_raw rule));
          unhooked = (case ask_rule of
              Some rule \<Rightarrow> ask (ask_reason rule)
            | None \<Rightarrow>
                if covered then (OutcomeAllow, w)
                else if current_mode = ModePrompt
                     \<or> (current_mode = ModeWorkspaceWrite \<and> required_mode = ModeDangerFullAccess)
                then ask (''tool '' @ quoted tool_name @ '' requires approval to escalate from ''
                  @ claw_mode_str current_mode @ '' to '' @ claw_mode_str required_mode)
                else (OutcomeDeny (''tool '' @ quoted tool_name @ '' requires '' @ claw_mode_str required_mode
                  @ '' permission; current mode is '' @ claw_mode_str current_mode), w))
      in case pc_override_decision ctx of
           Some OverrideDeny \<Rightarrow> (OutcomeDeny (unwrap_or (''tool '' @ quoted tool_name @ '' denied by hook'')
             (pc_override_reason ctx)), w)
         | Some OverrideAsk \<Rightarrow> ask (unwrap_or (''tool '' @ quoted tool_name
             @ '' requires approval due to hook guidance'') (pc_override_reason ctx))
         | Some OverrideAllow \<Rightarrow>
             (case ask_rule of
                Some rule \<Rightarrow> ask (ask_reason rule)
              | None \<Rightarrow> if covered then (OutcomeAllow, w) else unhooked)
         | None \<Rightarrow> unhooked))"

definition claw_authorize ::
  "(string \<Rightarrow> json option) \<Rightarrow> claw_policy \<Rightarrow> string \<Rightarrow> string \<Rightarrow> 'w claw_prompter option \<Rightarrow> 'w
    \<Rightarrow> claw_outcome \<times> 'w" where
  "claw_authorize read_json p tool_name input prompter w =
     authorize_with_context read_json p tool_name input context_default prompter w"

section \<open>The enforcer\<close>

record denial =
  de_tool :: string
  de_active_mode :: string
  de_required_mode :: string
  de_reason :: string

datatype enforcement = Allowed | Denied denial

text \<open>An enforcer is its policy. It has no prompter.\<close>

definition enforcer_check :: "(string \<Rightarrow> json option) \<Rightarrow> claw_policy \<Rightarrow> string \<Rightarrow> string \<Rightarrow> enforcement" where
  "enforcer_check read_json p tool_name input =
     (if cp_active_mode p = ModePrompt then Allowed
      else case fst (claw_authorize read_json p tool_name input None ()) of
             OutcomeAllow \<Rightarrow> Allowed
           | OutcomeDeny reason \<Rightarrow> Denied \<lparr>de_tool = tool_name,
               de_active_mode = claw_mode_str (cp_active_mode p),
               de_required_mode = claw_mode_str (claw_required_mode p tool_name), de_reason = reason\<rparr>)"

definition enforcer_is_allowed :: "(string \<Rightarrow> json option) \<Rightarrow> claw_policy \<Rightarrow> string \<Rightarrow> string \<Rightarrow> bool" where
  "enforcer_is_allowed read_json p tool_name input \<longleftrightarrow> enforcer_check read_json p tool_name input = Allowed"

definition check_with_required_mode :: "claw_policy \<Rightarrow> string \<Rightarrow> string \<Rightarrow> claw_mode \<Rightarrow> enforcement" where
  "check_with_required_mode p tool_name input required_mode =
     (if cp_active_mode p = ModePrompt then Allowed
      else let active_mode = cp_active_mode p in
        if required_mode \<le> active_mode then Allowed
        else Denied \<lparr>de_tool = tool_name, de_active_mode = claw_mode_str active_mode,
          de_required_mode = claw_mode_str required_mode,
          de_reason = quoted tool_name @ '' with input '' @ quoted input @ '' requires ''
            @ quoted (claw_mode_str required_mode) @ '' permission, but current mode is ''
            @ quoted (claw_mode_str active_mode)\<rparr>)"

definition is_within_workspace :: "string \<Rightarrow> string \<Rightarrow> bool" where
  "is_within_workspace path workspace_root =
     (let normalized = (if starts_with path ''/'' then path else workspace_root @ ''/'' @ path);
          root = (if ends_with workspace_root ''/'' then workspace_root else workspace_root @ ''/'')
      in starts_with normalized root \<or> normalized = trim_end_matches CHR ''/'' workspace_root)"

definition check_file_write :: "claw_policy \<Rightarrow> string \<Rightarrow> string \<Rightarrow> enforcement" where
  "check_file_write p path workspace_root =
     (let mode = cp_active_mode p;
          denied = (\<lambda>required reason. Denied \<lparr>de_tool = ''write_file'', de_active_mode = claw_mode_str mode,
            de_required_mode = claw_mode_str required, de_reason = reason\<rparr>)
      in case mode of
           ModeReadOnly \<Rightarrow> denied ModeWorkspaceWrite
             (''file writes are not allowed in '' @ quoted (claw_mode_str mode) @ '' mode'')
         | ModeWorkspaceWrite \<Rightarrow>
             if is_within_workspace path workspace_root then Allowed
             else denied ModeDangerFullAccess (''path '' @ quoted path @ '' is outside workspace root ''
               @ quoted workspace_root)
         | ModeAllow \<Rightarrow> Allowed
         | ModeDangerFullAccess \<Rightarrow> Allowed
         | ModePrompt \<Rightarrow> denied ModeWorkspaceWrite ''file write requires confirmation in prompt mode'')"

definition read_only_tools :: "string list" where
  "read_only_tools =
     [''cat'', ''head'', ''tail'', ''less'', ''more'', ''wc'', ''ls'', ''find'', ''grep'', ''rg'', ''awk'',
      ''sed'', ''echo'', ''printf'', ''which'', ''where'', ''whoami'', ''pwd'', ''env'', ''printenv'', ''date'',
      ''cal'', ''df'', ''du'', ''free'', ''uptime'', ''uname'', ''file'', ''stat'', ''diff'', ''sort'', ''uniq'',
      ''tr'', ''cut'', ''paste'', ''tee'', ''xargs'', ''test'', ''true'', ''false'', ''type'', ''readlink'',
      ''realpath'', ''basename'', ''dirname'', ''sha256sum'', ''md5sum'', ''b3sum'', ''xxd'', ''hexdump'', ''od'',
      ''strings'', ''tree'', ''jq'', ''yq'', ''python3'', ''python'', ''node'', ''ruby'', ''cargo'', ''rustc'',
      ''git'', ''gh'']"

text \<open>\<open>rsplit('/').next()\<close>: what follows the last slash.\<close>

definition after_last_slash :: "string \<Rightarrow> string" where
  "after_last_slash s = rev (takeWhile (\<lambda>c. c \<noteq> CHR ''/'') (rev s))"

definition is_read_only_command :: "string \<Rightarrow> bool" where
  "is_read_only_command command \<longleftrightarrow>
     after_last_slash (case split_whitespace command of [] \<Rightarrow> [] | w # _ \<Rightarrow> w) \<in> set read_only_tools
     \<and> \<not> contains command ''-i '' \<and> \<not> contains command ''--in-place''
     \<and> \<not> contains command '' > '' \<and> \<not> contains command '' >> ''"

definition check_bash :: "claw_policy \<Rightarrow> string \<Rightarrow> enforcement" where
  "check_bash p command =
     (let mode = cp_active_mode p;
          denied = (\<lambda>required reason. Denied \<lparr>de_tool = ''bash'', de_active_mode = claw_mode_str mode,
            de_required_mode = claw_mode_str required, de_reason = reason\<rparr>)
      in case mode of
           ModeReadOnly \<Rightarrow>
             if is_read_only_command command then Allowed
             else denied ModeWorkspaceWrite (''command may modify state; not allowed in ''
               @ quoted (claw_mode_str mode) @ '' mode'')
         | ModePrompt \<Rightarrow> denied ModeDangerFullAccess ''bash requires confirmation in prompt mode''
         | _ \<Rightarrow> Allowed)"

section \<open>What the policy decides\<close>

text \<open>The policy in the abstract: rules and hooks that refuse come first, then those that ask, then
  what the rules and the modes allow, and last what a prompt may escalate.\<close>

datatype verdict = Refuse | Pass | AskFirst

definition policy_verdict ::
  "(string \<Rightarrow> json option) \<Rightarrow> claw_policy \<Rightarrow> string \<Rightarrow> string \<Rightarrow> permission_override option \<Rightarrow> verdict" where
  "policy_verdict read_json p tool_name input hook =
     (let rule_in = (\<lambda>rules. list_ex (\<lambda>rule. rule_matches read_json rule tool_name input) rules);
          mode = cp_active_mode p;
          required = claw_required_mode p tool_name
      in if rule_in (cp_deny_rules p) \<or> hook = Some OverrideDeny then Refuse
         else if rule_in (cp_ask_rules p) \<or> hook = Some OverrideAsk then AskFirst
         else if rule_in (cp_allow_rules p) \<or> mode = ModeAllow \<or> required \<le> mode then Pass
         else if mode = ModePrompt \<or> (mode = ModeWorkspaceWrite \<and> required = ModeDangerFullAccess) then AskFirst
         else Refuse)"

lemma matching_rule_None:
  "find_matching_rule read_json rules tool_name input = None \<longleftrightarrow>
    \<not> list_ex (\<lambda>rule. rule_matches read_json rule tool_name input) rules"
  by (auto simp: find_matching_rule_def find_None_iff list_ex_iff)

lemma matching_rule_Some:
  "list_ex (\<lambda>rule. rule_matches read_json rule tool_name input) rules \<longleftrightarrow>
    (\<exists>rule. find_matching_rule read_json rules tool_name input = Some rule)"
  using matching_rule_None [of read_json rules tool_name input] by auto

text \<open>C14: Every call is refused, passed or put to the prompter exactly as the abstract order says; a
  refused or passed call reaches no prompter, and a hook that allows changes nothing.\<close>

theorem policy_implements_verdict:
  "case policy_verdict read_json p tool_name input (pc_override_decision ctx) of
     Refuse \<Rightarrow> \<exists>reason. authorize_with_context read_json p tool_name input ctx prompter w = (OutcomeDeny reason, w)
   | Pass \<Rightarrow> authorize_with_context read_json p tool_name input ctx prompter w = (OutcomeAllow, w)
   | AskFirst \<Rightarrow> \<exists>reason. authorize_with_context read_json p tool_name input ctx prompter w =
       prompt_or_deny tool_name input (cp_active_mode p) (claw_required_mode p tool_name) (Some reason) prompter w"
proof (cases "find_matching_rule read_json (cp_deny_rules p) tool_name input")
  case (Some rule)
  then show ?thesis
    by (simp add: policy_verdict_def matching_rule_Some authorize_with_context_def)
next
  case deny: None
  show ?thesis
  proof (cases "find_matching_rule read_json (cp_ask_rules p) tool_name input")
    case (Some rule)
    then show ?thesis
      using deny by (cases "pc_override_decision ctx"; cases "the (pc_override_decision ctx)")
        (auto simp: policy_verdict_def matching_rule_Some authorize_with_context_def Let_def)
  next
    case None
    then show ?thesis
      using deny by (cases "pc_override_decision ctx"; cases "the (pc_override_decision ctx)")
        (auto simp: policy_verdict_def matching_rule_Some authorize_with_context_def Let_def)
  qed
qed

text \<open>In prompt mode every call without a matching deny or ask rule runs unasked, unless the tool
  requires the allow mode, because the derived order puts prompt above full access.\<close>

theorem prompt_mode_never_asks:
  assumes "\<not> list_ex (\<lambda>rule. rule_matches read_json rule tool_name input) (cp_deny_rules p @ cp_ask_rules p)"
    and "cp_active_mode p = ModePrompt" and "claw_required_mode p tool_name \<noteq> ModeAllow"
  shows "claw_authorize read_json p tool_name input prompter w = (OutcomeAllow, w)"
proof -
  have "claw_required_mode p tool_name \<le> ModePrompt"
    using assms(3) by (cases "claw_required_mode p tool_name") (simp_all add: less_eq_claw_mode_def)
  then show ?thesis
    using assms by (simp add: claw_authorize_def authorize_with_context_def context_default_def Let_def
      flip: matching_rule_None)
qed

theorem prompt_mode_never_asks_witness:
  "claw_authorize (\<lambda>_. None) (claw_policy_new ModePrompt) ''bash'' ''rm -rf /'' (None :: unit claw_prompter option) ()
     = (OutcomeAllow, ())"
  by (rule prompt_mode_never_asks) (simp_all add: claw_policy_new_def claw_required_mode_def bt_get_def)

text \<open>Two dots climb out of the workspace: in workspace-write mode the enforcer lets a write to
  any path through that is written behind the root and parent steps.\<close>

theorem file_write_escapes:
  assumes "cp_active_mode p = ModeWorkspaceWrite" and "root \<noteq> []" and "last root \<noteq> CHR ''/''"
  shows "check_file_write p (''../'' @ path) root = Allowed
    \<and> (hd root = CHR ''/'' \<longrightarrow> check_file_write p (root @ ''/../'' @ path) root = Allowed)"
proof -
  have slash: "\<not> ends_with root ''/''"
    using assms(2,3) by (auto simp: ends_with_iff)
  have "is_within_workspace (''../'' @ path) root"
    using slash by (auto simp: is_within_workspace_def starts_with_iff Let_def)
  moreover have "is_within_workspace (root @ ''/../'' @ path) root" if "hd root = CHR ''/''"
    using slash that assms(2) by (cases root) (auto simp: is_within_workspace_def starts_with_iff Let_def)
  ultimately show ?thesis
    using assms(1) by (simp add: check_file_write_def)
qed

theorem file_write_escapes_witness:
  "check_file_write (claw_policy_new ModeWorkspaceWrite) ''/work/../etc/passwd'' ''/work'' = Allowed"
  using file_write_escapes [of "claw_policy_new ModeWorkspaceWrite" "''/work''" "''etc/passwd''"]
  by (simp add: claw_policy_new_def)

text \<open>In read-only mode the enforcer judges a command line by its first word and four patterns, so
  a second command behind a harmless one passes.\<close>

theorem read_only_bash_escapes:
  assumes "cp_active_mode p = ModeReadOnly" and "command = ''ls && '' @ rest"
    and "list_all (\<lambda>s. \<not> contains command s) [''-i '', ''--in-place'', '' > '', '' >> '']"
  shows "check_bash p command = Allowed"
proof -
  have "\<exists>ws. split_whitespace command = ''ls'' # ws"
    unfolding assms(2) split_whitespace_def by (simp add: split_ws_from.simps ws_encodings_def)
  then have "is_read_only_command command"
    using assms(3) by (auto simp: is_read_only_command_def after_last_slash_def read_only_tools_def)
  then show ?thesis
    using assms(1) by (simp add: check_bash_def)
qed

theorem read_only_bash_escapes_witness:
  "check_bash (claw_policy_new ModeReadOnly) ''ls && rm -rf ~'' = Allowed"
  by (rule read_only_bash_escapes [of _ _ "''rm -rf ~''"])
    (simp_all add: claw_policy_new_def starts_with_def)

end
