(* ===== verification/RefBash.thy ===== *)
theory RefBash
  imports RefPermissions Utf8
begin

text \<open>
  Validation of shell commands in the reference runtime: \<open>bash_validation.rs\<close> of
  \<open>claw-rust/crates/runtime/src\<close>. A call can panic (a slice off a character boundary) and the
  recursion through \<open>sudo\<close> may not end, so a result is \<open>Returns\<close>, \<open>Panics\<close> or, when the fuel is
  used up, \<open>OutOfFuel\<close>; the theorem \<open>read_only_fuel\<close> shows that the fuel of \<open>validate_mode\<close> runs out
  only for a recursion that never ends.
\<close>

datatype validation = VAllow | VBlock string | VWarn string

datatype command_intent = IntentReadOnly | IntentWrite | Destructive | Network | ProcessManagement
  | PackageManagement | SystemAdmin | UnknownIntent

datatype 'a run = Returns 'a | Panics | OutOfFuel

fun run_bind :: "'a run \<Rightarrow> ('a \<Rightarrow> 'b run) \<Rightarrow> 'b run" where
  "run_bind (Returns x) f = f x"
| "run_bind Panics f = Panics"
| "run_bind OutOfFuel f = OutOfFuel"

lemma run_bind_Returns: "run_bind r f = Returns y \<longleftrightarrow> (\<exists>x. r = Returns x \<and> f x = Returns y)"
  by (cases r) auto

section \<open>The first command of a command line\<close>

definition is_ascii_whitespace :: "char \<Rightarrow> bool" where
  "is_ascii_whitespace c \<longleftrightarrow> c \<in> {CHR 0x20, CHR 0x09, CHR 0x0A, CHR 0x0C, CHR 0x0D}"

fun find_whitespace :: "nat \<Rightarrow> string \<Rightarrow> nat option" where
  "find_whitespace i [] = None"
| "find_whitespace i (c # cs) =
     (if strip_any ws_encodings (c # cs) \<noteq> None then Some i else find_whitespace (Suc i) cs)"

text \<open>From the byte after the opening quote, at offset \<open>i\<close>; \<open>prev\<close> is the byte before it.\<close>

fun quoted_end :: "char \<Rightarrow> char \<Rightarrow> nat \<Rightarrow> string \<Rightarrow> nat option" where
  "quoted_end quote prev i [] = None"
| "quoted_end quote prev i (c # cs) =
     (if c = quote \<and> prev \<noteq> CHR 0x5C then
        (let w = takeWhile (\<lambda>d. \<not> is_ascii_whitespace d) cs
         in if length w < length cs then Some (i + 1 + length w) else None)
      else quoted_end quote c (Suc i) cs)"

definition find_end_of_value :: "string \<Rightarrow> nat option" where
  "find_end_of_value value =
     (case trim_start value of
        [] \<Rightarrow> None
      | c # cs \<Rightarrow> if c = CHR 0x22 \<or> c = CHR 0x27 then quoted_end c c 1 cs else find_whitespace 0 (c # cs))"

definition env_name_char :: "char \<Rightarrow> bool" where
  "env_name_char c \<longleftrightarrow> (let n = of_char c :: nat in
     (48 \<le> n \<and> n \<le> 57) \<or> (65 \<le> n \<and> n \<le> 90) \<or> (97 \<le> n \<and> n \<le> 122)) \<or> c = CHR ''_''"

text \<open>The slice \<open>after_eq[space..]\<close> panics unless \<open>space\<close> is a character boundary; the offset is one
  of the trimmed value.\<close>

definition slice_from :: "nat \<Rightarrow> string \<Rightarrow> string option" where
  "slice_from i s = (if length s < i \<or> (i < length s \<and> is_continuation (s ! i)) then None else Some (drop i s))"

lemma split_at_char_Some: "split_at_char d s = (a, Some b) \<Longrightarrow> s = a @ d # b"
  by (induction s arbitrary: a) (auto split: if_splits prod.splits)

lemma skipped_shorter:
  assumes "split_at_char d (trim_start s) = (a, Some b)" and "slice_from i b = Some rest"
  shows "length rest < length s"
proof -
  obtain w where "s = w @ trim_start s"
    using trim_start_of_suffix [of s ws_encodings] by (auto simp: trim_start_def)
  then have "length (trim_start s) \<le> length s" by (metis le_add2 length_append)
  moreover have "length b < length (trim_start s)"
    using split_at_char_Some [OF assms(1)] by simp
  moreover have "length rest \<le> length b"
    using assms(2) by (auto simp: slice_from_def split: if_splits)
  ultimately show ?thesis by simp
qed

function skip_assignments :: "string \<Rightarrow> string option" where
  "skip_assignments remaining =
     (case split_at_char CHR ''='' (trim_start remaining) of
        (before_eq, Some after_eq) \<Rightarrow>
          if before_eq \<noteq> [] \<and> list_all env_name_char before_eq then
            (case find_end_of_value after_eq of
               None \<Rightarrow> Some []
             | Some space \<Rightarrow>
                 (case slice_from space after_eq of
                    None \<Rightarrow> None
                  | Some rest \<Rightarrow> skip_assignments rest))
          else Some remaining
      | (_, None) \<Rightarrow> Some remaining)"
  by pat_completeness auto
termination
  by (relation "measure length") (auto dest: skipped_shorter [OF sym])

declare skip_assignments.simps [simp del]

definition first_word :: "string \<Rightarrow> string" where
  "first_word s = (case split_whitespace s of [] \<Rightarrow> [] | w # _ \<Rightarrow> w)"

definition extract_first_command :: "string \<Rightarrow> string option" where
  "extract_first_command command = map_option first_word (skip_assignments (trim command))"

text \<open>\<open>command.find(part)\<close> finds the first occurrence of the text, not of the word.\<close>

definition extract_sudo_inner :: "string \<Rightarrow> string" where
  "extract_sudo_inner command =
     (case dropWhile (\<lambda>p. p \<noteq> ''sudo'') (split_whitespace command) of
        [] \<Rightarrow> []
      | _ # rest \<Rightarrow>
          (case find (\<lambda>p. \<not> starts_with p ''-'') rest of
             None \<Rightarrow> []
           | Some part \<Rightarrow>
               (case split_once part command of
                  Some (before, _) \<Rightarrow> drop (length before) command
                | None \<Rightarrow> command)))"

section \<open>Command lists\<close>

definition write_commands :: "string list" where
  "write_commands =
     [''cp'', ''mv'', ''rm'', ''mkdir'', ''rmdir'', ''touch'', ''chmod'', ''chown'', ''chgrp'', ''ln'',
     ''install'', ''tee'', ''truncate'', ''shred'', ''mkfifo'', ''mknod'', ''dd'']"

definition state_modifying_commands :: "string list" where
  "state_modifying_commands =
     [''apt'', ''apt-get'', ''yum'', ''dnf'', ''pacman'', ''brew'', ''pip'', ''pip3'', ''npm'',
     ''yarn'', ''pnpm'', ''bun'', ''cargo'', ''gem'', ''go'', ''rustup'', ''docker'', ''systemctl'',
     ''service'', ''mount'', ''umount'', ''kill'', ''pkill'', ''killall'', ''reboot'', ''shutdown'',
     ''halt'', ''poweroff'', ''useradd'', ''userdel'', ''usermod'', ''groupadd'', ''groupdel'',
     ''crontab'', ''at'']"

definition write_redirections :: "string list" where
  "write_redirections =
     [''>'', ''>>'', ''>&'']"

definition git_read_only_subcommands :: "string list" where
  "git_read_only_subcommands =
     [''status'', ''log'', ''diff'', ''show'', ''branch'', ''tag'', ''stash'', ''remote'', ''fetch'',
     ''ls-files'', ''ls-tree'', ''cat-file'', ''rev-parse'', ''describe'', ''shortlog'', ''blame'',
     ''bisect'', ''reflog'', ''config'']"

definition always_destructive_commands :: "string list" where
  "always_destructive_commands =
     [''shred'', ''wipefs'']"

definition semantic_read_only_commands :: "string list" where
  "semantic_read_only_commands =
     [''ls'', ''cat'', ''head'', ''tail'', ''less'', ''more'', ''wc'', ''sort'', ''uniq'', ''grep'',
     ''egrep'', ''fgrep'', ''find'', ''which'', ''whereis'', ''whatis'', ''man'', ''info'', ''file'',
     ''stat'', ''du'', ''df'', ''free'', ''uptime'', ''uname'', ''hostname'', ''whoami'', ''id'',
     ''groups'', ''env'', ''printenv'', ''echo'', ''printf'', ''date'', ''cal'', ''bc'', ''expr'',
     ''test'', ''true'', ''false'', ''pwd'', ''tree'', ''diff'', ''cmp'', ''md5sum'', ''sha256sum'',
     ''sha1sum'', ''xxd'', ''od'', ''hexdump'', ''strings'', ''readlink'', ''realpath'', ''basename'',
     ''dirname'', ''seq'', ''yes'', ''tput'', ''column'', ''jq'', ''yq'', ''xargs'', ''tr'', ''cut'',
     ''paste'', ''awk'', ''sed'']"

definition network_commands :: "string list" where
  "network_commands =
     [''curl'', ''wget'', ''ssh'', ''scp'', ''rsync'', ''ftp'', ''sftp'', ''nc'', ''ncat'', ''telnet'',
     ''ping'', ''traceroute'', ''dig'', ''nslookup'', ''host'', ''whois'', ''ifconfig'', ''ip'',
     ''netstat'', ''ss'', ''nmap'']"

definition process_commands :: "string list" where
  "process_commands =
     [''kill'', ''pkill'', ''killall'', ''ps'', ''top'', ''htop'', ''bg'', ''fg'', ''jobs'', ''nohup'',
     ''disown'', ''wait'', ''nice'', ''renice'']"

definition package_commands :: "string list" where
  "package_commands =
     [''apt'', ''apt-get'', ''yum'', ''dnf'', ''pacman'', ''brew'', ''pip'', ''pip3'', ''npm'',
     ''yarn'', ''pnpm'', ''bun'', ''cargo'', ''gem'', ''go'', ''rustup'', ''snap'', ''flatpak'']"

definition system_admin_commands :: "string list" where
  "system_admin_commands =
     [''sudo'', ''su'', ''chroot'', ''mount'', ''umount'', ''fdisk'', ''parted'', ''lsblk'', ''blkid'',
     ''systemctl'', ''service'', ''journalctl'', ''dmesg'', ''modprobe'', ''insmod'', ''rmmod'',
     ''iptables'', ''ufw'', ''firewall-cmd'', ''sysctl'', ''crontab'', ''at'', ''useradd'',
     ''userdel'', ''usermod'', ''groupadd'', ''groupdel'', ''passwd'', ''visudo'']"


section \<open>Validation\<close>

definition git_subcommand :: "string \<Rightarrow> string option" where
  "git_subcommand command = find (\<lambda>p. \<not> starts_with p ''-'') (drop 1 (split_whitespace command))"

definition validate_git_read_only :: "string \<Rightarrow> validation" where
  "validate_git_read_only command =
     (case git_subcommand command of
        Some sub \<Rightarrow>
          if sub \<in> set git_read_only_subcommands then VAllow
          else VBlock (''Git subcommand '' @ quoted sub
            @ '' modifies repository state and is not allowed in read-only mode'')
      | None \<Rightarrow> VAllow)"

fun validate_read_only :: "nat \<Rightarrow> string \<Rightarrow> claw_mode \<Rightarrow> validation run" where
  "validate_read_only 0 command mode = OutOfFuel"
| "validate_read_only (Suc fuel) command mode =
     (if mode \<noteq> ModeReadOnly then Returns VAllow
      else case extract_first_command command of
        None \<Rightarrow> Panics
      | Some first_command \<Rightarrow>
          if first_command \<in> set write_commands then
            Returns (VBlock (''Command '' @ quoted first_command
              @ '' modifies the filesystem and is not allowed in read-only mode''))
          else if first_command \<in> set state_modifying_commands then
            Returns (VBlock (''Command '' @ quoted first_command
              @ '' modifies system state and is not allowed in read-only mode''))
          else
            run_bind
              (if first_command = ''sudo'' \<and> extract_sudo_inner command \<noteq> []
               then validate_read_only fuel (extract_sudo_inner command) mode else Returns VAllow)
              (\<lambda>inner_result.
                 if inner_result \<noteq> VAllow then Returns inner_result
                 else case find (contains command) write_redirections of
                   Some redir \<Rightarrow> Returns (VBlock (''Command contains write redirection '' @ quoted redir
                     @ '' which is not allowed in read-only mode''))
                 | None \<Rightarrow>
                     if first_command = ''git'' then Returns (validate_git_read_only command)
                     else Returns VAllow))"

definition destructive_patterns :: "(string \<times> string) list" where
  "destructive_patterns =
     [(''rm -rf /'', ''Recursive forced deletion at root '' @ em_dash @ '' this will destroy the system''),
      (''rm -rf ~'', ''Recursive forced deletion of home directory''),
      (''rm -rf *'', ''Recursive forced deletion of all files in current directory''),
      (''rm -rf .'', ''Recursive forced deletion of current directory''),
      (''mkfs'', ''Filesystem creation will destroy existing data on the device''),
      (''dd if='', ''Direct disk write '' @ em_dash @ '' can overwrite partitions or devices''),
      (''> /dev/sd'', ''Writing to raw disk device''),
      (''chmod -R 777'', ''Recursively setting world-writable permissions''),
      (''chmod -R 000'', ''Recursively removing all permissions''),
      ('':(){ :|:& };:'', ''Fork bomb '' @ em_dash @ '' will crash the system'')]"

definition check_destructive :: "string \<Rightarrow> validation run" where
  "check_destructive command =
     (case find (\<lambda>(pattern, warning). contains command pattern) destructive_patterns of
        Some (_, warning) \<Rightarrow> Returns (VWarn (''Destructive command detected: '' @ warning))
      | None \<Rightarrow>
          (case extract_first_command command of
             None \<Rightarrow> Panics
           | Some first_command \<Rightarrow>
               if first_command \<in> set always_destructive_commands then
                 Returns (VWarn (''Command '' @ quoted first_command
                   @ '' is inherently destructive and may cause data loss''))
               else if contains command ''rm '' \<and> contains command ''-r'' \<and> contains command ''-f'' then
                 Returns (VWarn (''Recursive forced deletion detected '' @ em_dash
                   @ '' verify the target path is correct''))
               else Returns VAllow))"

definition system_paths :: "string list" where
  "system_paths = [''/etc/'', ''/usr/'', ''/var/'', ''/boot/'', ''/sys/'', ''/proc/'', ''/dev/'', ''/sbin/'', ''/lib/'', ''/opt/'']"

definition command_targets_outside_workspace :: "string \<Rightarrow> bool option" where
  "command_targets_outside_workspace command =
     map_option (\<lambda>first_command.
       (first_command \<in> set write_commands \<or> first_command \<in> set state_modifying_commands)
       \<and> list_ex (contains command) system_paths) (extract_first_command command)"

text \<open>The recursion of the read-only check gets one call more than the command has bytes.\<close>

definition validate_mode :: "string \<Rightarrow> claw_mode \<Rightarrow> validation run" where
  "validate_mode command mode =
     (case mode of
        ModeReadOnly \<Rightarrow> validate_read_only (Suc (length command)) command mode
      | ModeWorkspaceWrite \<Rightarrow>
          (case command_targets_outside_workspace command of
             None \<Rightarrow> Panics
           | Some outside \<Rightarrow>
               if outside then Returns (VWarn (''Command appears to target files outside the workspace ''
                 @ em_dash @ '' requires elevated permission''))
               else Returns VAllow)
      | _ \<Rightarrow> Returns VAllow)"

definition validate_sed :: "string \<Rightarrow> claw_mode \<Rightarrow> validation run" where
  "validate_sed command mode =
     (case extract_first_command command of
        None \<Rightarrow> Panics
      | Some first_command \<Rightarrow>
          if first_command \<noteq> ''sed'' then Returns VAllow
          else if mode = ModeReadOnly \<and> contains command '' -i'' then
            Returns (VBlock ''sed -i (in-place editing) is not allowed in read-only mode'')
          else Returns VAllow)"

definition validate_paths :: "string \<Rightarrow> string \<Rightarrow> validation" where
  "validate_paths command workspace =
     (if contains command ''../'' \<and> \<not> contains command workspace then
        VWarn (''Command contains directory traversal pattern '' @ quoted ''../'' @ '' '' @ em_dash
          @ '' verify the target path resolves within the workspace'')
      else if contains command ''~/'' \<or> contains command ''$HOME'' then
        VWarn (''Command references home directory '' @ em_dash
          @ '' verify it stays within the workspace scope'')
      else VAllow)"

definition classify_git_command :: "string \<Rightarrow> command_intent" where
  "classify_git_command command =
     (case git_subcommand command of
        Some sub \<Rightarrow> if sub \<in> set git_read_only_subcommands then IntentReadOnly else IntentWrite
      | None \<Rightarrow> IntentWrite)"

definition classify_by_first_command :: "string \<Rightarrow> string \<Rightarrow> command_intent" where
  "classify_by_first_command first_command command =
     (if first_command \<in> set semantic_read_only_commands then
        if first_command = ''sed'' \<and> contains command '' -i'' then IntentWrite else IntentReadOnly
      else if first_command \<in> set always_destructive_commands \<or> first_command = ''rm'' then Destructive
      else if first_command \<in> set write_commands then IntentWrite
      else if first_command \<in> set network_commands then Network
      else if first_command \<in> set process_commands then ProcessManagement
      else if first_command \<in> set package_commands then PackageManagement
      else if first_command \<in> set system_admin_commands then SystemAdmin
      else if first_command = ''git'' then classify_git_command command
      else UnknownIntent)"

definition classify_command :: "string \<Rightarrow> command_intent option" where
  "classify_command command =
     map_option (\<lambda>first_command. classify_by_first_command first_command command) (extract_first_command command)"

text \<open>The workspace is its path as text.\<close>

definition validate_command :: "string \<Rightarrow> claw_mode \<Rightarrow> string \<Rightarrow> validation run" where
  "validate_command command mode workspace =
     run_bind (validate_mode command mode) (\<lambda>r1. if r1 \<noteq> VAllow then Returns r1
     else run_bind (validate_sed command mode) (\<lambda>r2. if r2 \<noteq> VAllow then Returns r2
     else run_bind (check_destructive command) (\<lambda>r3. if r3 \<noteq> VAllow then Returns r3
     else Returns (validate_paths command workspace))))"

section \<open>Termination of the read-only check\<close>

lemma sudo_inner_suffix: "\<exists>a. command = a @ extract_sudo_inner command"
  by (auto simp: extract_sudo_inner_def split: list.splits option.splits prod.splits)
    (metis append_take_drop_id)+

definition recurses :: "string \<Rightarrow> claw_mode \<Rightarrow> bool" where
  "recurses command mode \<longleftrightarrow> mode = ModeReadOnly \<and> extract_first_command command = Some ''sudo''
     \<and> extract_sudo_inner command \<noteq> []"

lemma read_only_recurses:
  "recurses command mode \<Longrightarrow> validate_read_only (Suc fuel) command mode =
     run_bind (validate_read_only fuel (extract_sudo_inner command) mode)
       (\<lambda>r. if r \<noteq> VAllow then Returns r
         else case find (contains command) write_redirections of
           Some redir \<Rightarrow> Returns (VBlock (''Command contains write redirection '' @ quoted redir
             @ '' which is not allowed in read-only mode''))
         | None \<Rightarrow> Returns VAllow)"
  by (simp add: recurses_def write_commands_def state_modifying_commands_def)

lemma read_only_direct:
  assumes "\<not> recurses command mode"
  shows "validate_read_only (Suc fuel) command mode = validate_read_only (Suc fuel') command mode"
    and "validate_read_only (Suc fuel) command mode \<noteq> OutOfFuel"
proof -
  have inner: "mode = ModeReadOnly \<Longrightarrow> extract_first_command command = Some ''sudo'' \<Longrightarrow> extract_sudo_inner command = []"
    using assms by (simp add: recurses_def)
  show "validate_read_only (Suc fuel) command mode = validate_read_only (Suc fuel') command mode"
    unfolding validate_read_only.simps
    by (intro if_cong refl option.case_cong arg_cong2 [of _ _ _ _ run_bind]) (auto dest: inner)
  show "validate_read_only (Suc fuel) command mode \<noteq> OutOfFuel"
    unfolding validate_read_only.simps
    by (cases "extract_first_command command"; cases "find (contains command) write_redirections") (auto dest: inner)
qed

lemma read_only_mono:
  "validate_read_only fuel command mode \<noteq> OutOfFuel \<Longrightarrow> fuel \<le> fuel' \<Longrightarrow>
    validate_read_only fuel' command mode = validate_read_only fuel command mode"
proof (induction fuel arbitrary: command fuel')
  case (Suc fuel)
  then obtain k where k: "fuel' = Suc k" "fuel \<le> k" by (cases fuel') auto
  show ?case
  proof (cases "recurses command mode")
    case True
    then have "validate_read_only fuel (extract_sudo_inner command) mode \<noteq> OutOfFuel"
      using Suc.prems(1) by (auto simp: read_only_recurses simp del: validate_read_only.simps)
    from Suc.IH [OF this k(2)] True show ?thesis
      unfolding k by (simp add: read_only_recurses del: validate_read_only.simps)
  next
    case False
    then show ?thesis unfolding k by (rule read_only_direct)
  qed
qed simp

lemma read_only_fixed:
  assumes "recurses command ModeReadOnly" and "extract_sudo_inner command = command"
  shows "validate_read_only fuel command ModeReadOnly = OutOfFuel"
proof (induction fuel)
  case (Suc fuel)
  then show ?case
    unfolding read_only_recurses [OF assms(1)] assms(2) by simp
qed simp

lemma read_only_enough:
  "validate_read_only (Suc (length command + k)) command mode = validate_read_only (Suc (length command)) command mode"
proof (induction "length command" arbitrary: command k rule: less_induct)
  case less
  let ?inner = "extract_sudo_inner command"
  obtain a where a: "command = a @ ?inner" using sudo_inner_suffix by blast
  show ?case
  proof (cases "recurses command mode")
    case False
    then show ?thesis by (rule read_only_direct)
  next
    case rec: True
    then have mode: "mode = ModeReadOnly" by (simp add: recurses_def)
    show ?thesis
    proof (cases "a = []")
      case True
      then have "?inner = command" using a by simp
      then show ?thesis
        using read_only_fixed rec unfolding mode by metis
    next
      case False
      then obtain d where d: "length command = Suc (length ?inner + d)"
        by (metis a add.commute add_Suc_right length_Cons length_append neq_Nil_conv)
      then have lt: "length ?inner < length command" by simp
      have "validate_read_only (length command + k) ?inner mode = validate_read_only (length command) ?inner mode"
        using less [OF lt, of "d + k"] less [OF lt, of d] d by (simp add: add.assoc del: validate_read_only.simps)
      then show ?thesis
        by (simp only: read_only_recurses [OF rec])
    qed
  qed
qed

text \<open>The recursion of the read-only check through sudo either gives its result within one call more
  than the command has bytes, or it gives none with any fuel.\<close>

theorem read_only_fuel:
  "validate_read_only fuel command mode \<in> {OutOfFuel, validate_read_only (Suc (length command)) command mode}"
proof (cases "fuel \<le> Suc (length command)")
  case True
  then show ?thesis using read_only_mono by (metis insert_iff)
next
  case False
  then have "fuel = Suc (length command + (fuel - Suc (length command)))" by simp
  then show ?thesis using read_only_enough by (metis insert_iff)
qed

text \<open>The check never returns for sudo behind sudo: the search for the inner command finds the
  outer one again, as it looks for the text of the word and not for the word.\<close>

theorem sudo_sudo_diverges:
  "validate_read_only fuel ''sudo sudo id'' ModeReadOnly = OutOfFuel"
proof (rule read_only_fixed)
  show "recurses ''sudo sudo id'' ModeReadOnly" by code_simp
  show "extract_sudo_inner ''sudo sudo id'' = ''sudo sudo id''" by code_simp
qed

text \<open>The value behind an equals sign is measured after trimming and cut before it, so a blank
  before a character of several bytes panics.\<close>

theorem assignment_panics:
  "validate_command (''A= '' @ [CHR 0xC3, CHR 0xA9] @ '' id'') ModeReadOnly workspace = Panics"
proof -
  have "extract_first_command (''A= '' @ [CHR 0xC3, CHR 0xA9] @ '' id'') = None" by code_simp
  then show ?thesis by (simp add: validate_command_def validate_mode_def)
qed

section \<open>What an accepted command is\<close>

lemma find_None_all: "find P xs = None \<longleftrightarrow> list_all (\<lambda>x. \<not> P x) xs"
  by (auto simp: find_None_iff list_all_iff)

lemma contains_infix: "contains s (a @ p @ b) \<Longrightarrow> contains s p"
  unfolding contains_iff by (metis append.assoc)

lemma read_only_allow:
  "validate_read_only fuel command ModeReadOnly = Returns VAllow \<Longrightarrow>
    \<exists>first_command. extract_first_command command = Some first_command
      \<and> first_command \<notin> set (write_commands @ state_modifying_commands) \<and> \<not> contains command ''>''
      \<and> (first_command = ''git'' \<longrightarrow> (case git_subcommand command of None \<Rightarrow> True
          | Some sub \<Rightarrow> sub \<in> set git_read_only_subcommands))
      \<and> (first_command = ''sudo'' \<and> extract_sudo_inner command \<noteq> [] \<longrightarrow>
          (\<exists>f. validate_read_only f (extract_sudo_inner command) ModeReadOnly = Returns VAllow))"
  by (cases fuel) (auto simp: run_bind_Returns find_None_all write_redirections_def validate_git_read_only_def
      split: option.splits if_splits)

text \<open>
  The check of the text is no check of what the command does. An option with a value hides the command
  behind sudo, sed is looked for in the first place only, and a path that names the workspace may leave it
  again by parent steps.
\<close>

lemma accepted_escapes:
  "validate_command ''sudo -u root rm x'' ModeReadOnly ''/ws'' = Returns VAllow"
  "validate_command ''sudo sed -i s/a/b/ x'' ModeReadOnly ''/ws'' = Returns VAllow"
  "validate_command ''cat /ws/../../etc/passwd'' ModeReadOnly ''/ws'' = Returns VAllow"
  by code_simp+

text \<open>
  C13: What the text of an accepted command cannot be. In read-only mode its first word, as the code finds
  it, is no listed writing or state-modifying command; the text has no \<open>>\<close>; if that word is git, the first
  word without a leading dash after the first word of the text, if any, is a read-only subcommand; if it is
  sed, the text has no blank followed by \<open>-i\<close>; if it is sudo, the text from the first occurrence of the first word
  after sudo without a leading dash, if any, passes the read-only check too. In every mode the text has no listed destructive pattern, neither
  \<open>~/\<close> nor \<open>$HOME\<close>, and \<open>../\<close> only if it also has the path of the workspace. Nothing is said of later commands
  of a line, of the values of sudo's options, of sed behind sudo, or of where a path with \<open>../\<close> leads
  (\<open>chained_command_accepted\<close>, \<open>accepted_escapes\<close>).
\<close>

theorem accepted_command:
  assumes "validate_command command mode workspace = Returns VAllow"
  shows "(mode = ModeReadOnly \<longrightarrow> (\<exists>first_command. extract_first_command command = Some first_command
        \<and> first_command \<notin> set (write_commands @ state_modifying_commands) \<and> \<not> contains command ''>''
        \<and> (first_command = ''git'' \<longrightarrow> (case git_subcommand command of None \<Rightarrow> True
            | Some sub \<Rightarrow> sub \<in> set git_read_only_subcommands))
        \<and> (first_command = ''sed'' \<longrightarrow> \<not> contains command '' -i'')
        \<and> (first_command = ''sudo'' \<and> extract_sudo_inner command \<noteq> [] \<longrightarrow>
            (\<exists>f. validate_read_only f (extract_sudo_inner command) ModeReadOnly = Returns VAllow))))
    \<and> list_all (\<lambda>(pattern, warning). \<not> contains command pattern) destructive_patterns
    \<and> \<not> contains command ''~/'' \<and> \<not> contains command ''$HOME''
    \<and> (contains command ''../'' \<longrightarrow> contains command workspace)"
proof -
  have mode: "validate_mode command mode = Returns VAllow" and sed: "validate_sed command mode = Returns VAllow"
    and destr: "check_destructive command = Returns VAllow" and paths: "validate_paths command workspace = VAllow"
    using assms by (auto simp: validate_command_def run_bind_Returns split: if_splits)
  have "list_all (\<lambda>(pattern, warning). \<not> contains command pattern) destructive_patterns"
    using destr by (auto simp: check_destructive_def find_None_all [symmetric] case_prod_unfold split: option.splits)
  moreover have "\<exists>first_command. extract_first_command command = Some first_command
        \<and> first_command \<notin> set (write_commands @ state_modifying_commands) \<and> \<not> contains command ''>''
        \<and> (first_command = ''git'' \<longrightarrow> (case git_subcommand command of None \<Rightarrow> True
            | Some sub \<Rightarrow> sub \<in> set git_read_only_subcommands))
        \<and> (first_command = ''sed'' \<longrightarrow> \<not> contains command '' -i'')
        \<and> (first_command = ''sudo'' \<and> extract_sudo_inner command \<noteq> [] \<longrightarrow>
            (\<exists>f. validate_read_only f (extract_sudo_inner command) ModeReadOnly = Returns VAllow))"
    if "mode = ModeReadOnly"
    using that mode sed read_only_allow [of "Suc (length command)" command]
    by (auto simp: validate_mode_def validate_sed_def simp del: validate_read_only.simps split: if_splits)
  moreover have "\<not> contains command ''~/'' \<and> \<not> contains command ''$HOME''
      \<and> (contains command ''../'' \<longrightarrow> contains command workspace)"
    using paths by (auto simp: validate_paths_def split: if_splits)
  ultimately show ?thesis by (intro conjI impI) simp_all
qed

theorem accepted_command_witness:
  "\<not> contains ''git log'' ''>'' \<and> list_all (\<lambda>(pattern, warning). \<not> contains ''git log'' pattern) destructive_patterns"
proof -
  have "validate_command ''git log'' ModeReadOnly ''/work'' = Returns VAllow" by code_simp
  from accepted_command [OF this] show ?thesis by blast
qed

text \<open>Only the first command is judged: a command line that deletes a file behind a semicolon passes
  every check in read-only mode.\<close>

theorem chained_command_accepted:
  "validate_command ''true; rm notes'' ModeReadOnly workspace = Returns VAllow"
proof -
  have "validate_mode ''true; rm notes'' ModeReadOnly = Returns VAllow"
    "validate_sed ''true; rm notes'' ModeReadOnly = Returns VAllow"
    "check_destructive ''true; rm notes'' = Returns VAllow"
    "\<not> contains ''true; rm notes'' ''../'' \<and> \<not> contains ''true; rm notes'' ''~/'' \<and> \<not> contains ''true; rm notes'' ''$HOME''"
    by code_simp+
  then show ?thesis by (simp add: validate_command_def validate_paths_def)
qed

end
