(* ===== verification/RefScreen.thy ===== *)
theory RefScreen
  imports FileSys TextEdit
begin

text \<open>
  What \<open>claw-rust/crates/runtime/src/worker_boot.rs\<close> reads off a worker's screen: prompts for trust
  and tool permission, readiness, running cues and prompts that went to the wrong place.
\<close>

section \<open>Text helpers\<close>

text \<open>\<open>trim_end_matches\<close> for a text.\<close>

function trim_end_text :: "string \<Rightarrow> string \<Rightarrow> string" where
  "trim_end_text p s =
     (if p \<noteq> [] \<and> ends_with s p then trim_end_text p (take (length s - length p) s) else s)"
  by pat_completeness auto
termination
  by (relation "measure (\<lambda>(p, s). length s)") (auto simp: ends_with_iff)

declare trim_end_text.simps [simp del]

definition quote_mark :: "char \<Rightarrow> bool" where
  "quote_mark c \<longleftrightarrow> c \<in> {CHR ''?'', CHR '':'', CHR 0x22, CHR 0x27}"

definition extract_quoted_value :: "string \<Rightarrow> string option" where
  "extract_quoted_value s =
     (case after_first [CHR 0x22] s of
        None \<Rightarrow> None
      | Some rest \<Rightarrow> map_option fst (split_once [CHR 0x22] rest))"

definition extract_between :: "string \<Rightarrow> string \<Rightarrow> string \<Rightarrow> string option" where
  "extract_between s prefix suffix =
     (case after_first prefix s of
        None \<Rightarrow> None
      | Some rest \<Rightarrow>
          (case split_once suffix rest of
             None \<Rightarrow> None
           | Some (v, _) \<Rightarrow> if trim v \<noteq> [] then Some (trim v) else None))"

text \<open>The prefix is found in the lower-cased text, the value taken from the text itself.\<close>

definition extract_after :: "string \<Rightarrow> string \<Rightarrow> string option" where
  "extract_after s prefix =
     (case split_once prefix (to_ascii_lowercase s) of
        None \<Rightarrow> None
      | Some (before, _) \<Rightarrow>
          (case split_whitespace (drop (length before + length prefix) s) of
             [] \<Rightarrow> None
           | w # _ \<Rightarrow> if trim_both quote_mark w \<noteq> [] then Some (trim_both quote_mark w) else None))"

definition normalize_tool_token :: "string \<Rightarrow> string" where
  "normalize_tool_token token = trim_both quote_mark token"

definition extract_server_from_qualified_tool :: "string \<Rightarrow> string option" where
  "extract_server_from_qualified_tool tool =
     (case strip_prefix ''mcp__'' tool of
        None \<Rightarrow> None
      | Some rest \<Rightarrow>
          (case split_once ''__'' rest of
             None \<Rightarrow> None
           | Some (server, _) \<Rightarrow> if server \<noteq> [] then Some server else None))"

text \<open>At most 48 characters, and then an ellipsis.\<close>

definition prompt_preview :: "string \<Rightarrow> string" where
  "prompt_preview prompt =
     (let trimmed = trim prompt in
      if char_count trimmed \<le> 48 then trimmed
      else trim_end (concat (take 48 (str_chars trimmed))) @ [CHR 0xE2, CHR 0x80, CHR 0xA6])"

section \<open>Tool permission prompts\<close>

datatype allow_scope = SessionOnly | SessionOrAlways | ScopeUnknown

record tool_prompt =
  tpo_server_name :: "string option"
  tpo_tool_name :: "string option"
  tpo_allow_scope :: allow_scope
  tpo_prompt_preview :: string

definition tool_prompt_message :: "tool_prompt \<Rightarrow> string" where
  "tool_prompt_message p =
     (case (tpo_server_name p, tpo_tool_name p) of
        (Some server, Some tool) \<Rightarrow> ''worker boot blocked on tool permission prompt for '' @ server @ ''.'' @ tool
      | (Some server, None) \<Rightarrow> ''worker boot blocked on tool permission prompt for '' @ server
      | (None, Some tool) \<Rightarrow> ''worker boot blocked on tool permission prompt for '' @ tool
      | (None, None) \<Rightarrow> ''worker boot blocked on tool permission prompt'')"

definition detect_tool_permission_allow_scope :: "string \<Rightarrow> allow_scope" where
  "detect_tool_permission_allow_scope lowered =
     (if list_ex (contains lowered)
           [''always allow'', ''allow always'', ''allow this tool always'', ''allow for all sessions'']
      then SessionOrAlways
      else if list_ex (contains lowered)
           [''allow once'', ''allow for this session'', ''allow this session'', ''yes, allow'']
      then SessionOnly
      else ScopeUnknown)"

definition tool_prompt_line :: "string \<Rightarrow> bool" where
  "tool_prompt_line l \<longleftrightarrow> (let s = to_ascii_lowercase l in
     contains s ''allow'' \<and> contains s ''tool'' \<and> (contains s ''run'' \<or> contains s ''server''))"

definition detect_tool_permission_prompt :: "string \<Rightarrow> string \<Rightarrow> tool_prompt option" where
  "detect_tool_permission_prompt screen_text lowered =
     (let looks_like_prompt = contains lowered ''allow the'' \<and> contains lowered ''server''
            \<and> contains lowered ''tool'' \<and> contains lowered ''run'';
          looks_like_tool_gate = contains lowered ''allow tool'' \<and> contains lowered ''run''
      in if \<not> looks_like_prompt \<and> \<not> looks_like_tool_gate then None
         else let
           prompt_line = trim (unwrap_or screen_text (find tool_prompt_line (rev (str_lines screen_text))));
           tool_name = (case extract_quoted_value prompt_line of
               Some v \<Rightarrow> Some v
             | None \<Rightarrow> map_option normalize_tool_token (extract_after prompt_line ''tool ''));
           server_name = (case extract_between prompt_line ''the '' '' server'' of
               Some server \<Rightarrow> Some (trim_end_text '' MCP'' server)
             | None \<Rightarrow> Option.bind tool_name extract_server_from_qualified_tool)
         in Some \<lparr>tpo_server_name = server_name, tpo_tool_name = tool_name,
              tpo_allow_scope = detect_tool_permission_allow_scope lowered,
              tpo_prompt_preview = prompt_preview prompt_line\<rparr>)"

section \<open>Trust, readiness and running\<close>

definition detect_trust_prompt :: "string \<Rightarrow> bool" where
  "detect_trust_prompt lowered \<longleftrightarrow> list_ex (contains lowered)
     [''do you trust the files in this folder'', ''trust the files in this folder'', ''trust this folder'',
      ''allow and continue'', ''yes, proceed'']"

definition is_shell_prompt :: "string \<Rightarrow> bool" where
  "is_shell_prompt trimmed \<longleftrightarrow> list_ex (\<lambda>p. ends_with trimmed p \<or> starts_with trimmed p) [''$'', ''%'', ''#'']"

text \<open>The prompt characters beside the greater-than sign: U+203A, U+276F, and the bar U+2502.\<close>

definition angle :: string where "angle = [CHR 0xE2, CHR 0x80, CHR 0xBA]"
definition heavy_angle :: string where "heavy_angle = [CHR 0xE2, CHR 0x9D, CHR 0xAF]"
definition box_bar :: string where "box_bar = [CHR 0xE2, CHR 0x94, CHR 0x82]"

definition detect_ready_for_prompt :: "string \<Rightarrow> string \<Rightarrow> bool" where
  "detect_ready_for_prompt screen_text lowered \<longleftrightarrow>
     (if list_ex (contains lowered)
           [''ready for input'', ''ready for your input'', ''ready for prompt'', ''send a message'']
      then True
      else case find (\<lambda>l. trim l \<noteq> []) (rev (str_lines screen_text)) of
        None \<Rightarrow> False
      | Some last_non_empty \<Rightarrow>
          (let trimmed = trim last_non_empty in
           if is_shell_prompt trimmed then False
           else list_ex (\<lambda>p. trimmed = p \<or> starts_with trimmed (p @ '' '') \<or> contains trimmed (box_bar @ '' '' @ p))
                  [''>'', angle, heavy_angle]))"

definition detect_running_cue :: "string \<Rightarrow> bool" where
  "detect_running_cue lowered \<longleftrightarrow> list_ex (contains lowered)
     [''thinking'', ''working'', ''running tests'', ''inspecting'', ''analyzing'']"

section \<open>Prompts in the wrong place\<close>

datatype prompt_target = TargetShell | WrongTarget | WrongTask | TargetUnknown

record task_receipt =
  rec_repo :: string
  rec_task_kind :: string
  rec_source_surface :: string
  rec_expected_artifacts :: "string list"
  rec_objective_preview :: string

record delivery_observation =
  do_target :: prompt_target
  do_observed_cwd :: "string option"
  do_observed_prompt_preview :: "string option"

definition detect_prompt_echo :: "string \<Rightarrow> string option" where
  "detect_prompt_echo screen_text =
     find_map (\<lambda>line.
       case strip_prefix angle (trim_start line) of
         None \<Rightarrow> None
       | Some rest \<Rightarrow> if trim rest \<noteq> [] then Some (trim rest) else None) (str_lines screen_text)"

definition task_receipt_visible :: "string \<Rightarrow> task_receipt \<Rightarrow> bool" where
  "task_receipt_visible lowered_screen_text receipt \<longleftrightarrow>
     list_all (\<lambda>token. contains lowered_screen_text (to_ascii_lowercase token))
       ([rec_repo receipt, rec_task_kind receipt, rec_source_surface receipt, rec_objective_preview receipt]
        @ rec_expected_artifacts receipt)"

definition is_shell_prompt_token :: "string \<Rightarrow> bool" where
  "is_shell_prompt_token token \<longleftrightarrow> token \<in> {''$'', ''%'', ''#'', ''>'', angle, heavy_angle}"

definition looks_like_cwd_label :: "string \<Rightarrow> bool" where
  "looks_like_cwd_label candidate \<longleftrightarrow>
     starts_with candidate ''/'' \<or> starts_with candidate ''~'' \<or> starts_with candidate ''.''
     \<or> contains candidate ''/''"

text \<open>The word before the first prompt token of a line, when it looks like a directory.\<close>

definition line_shell_cwd :: "string \<Rightarrow> string option" where
  "line_shell_cwd line =
     (let tokens = split_whitespace line;
          before = takeWhile (\<lambda>t. \<not> is_shell_prompt_token t) tokens
      in if length before < length tokens \<and> before \<noteq> [] \<and> looks_like_cwd_label (last before)
         then Some (last before) else None)"

definition detect_observed_shell_cwd :: "string \<Rightarrow> string option" where
  "detect_observed_shell_cwd screen_text = find_map line_shell_cwd (str_lines screen_text)"

text \<open>A path that cannot be made canonical stays as it is written.\<close>

definition normalize_path_text :: "string \<Rightarrow> fs \<Rightarrow> string \<times> fs" where
  "normalize_path_text p s =
     (case fs_canonicalize (parse_path p) s of
        (Inr l, s') \<Rightarrow> (show_path (path_of_loc l), s')
      | (Inl _, s') \<Rightarrow> (p, s'))"

definition path_matches_allowlist :: "string \<Rightarrow> string \<Rightarrow> fs \<Rightarrow> bool \<times> fs" where
  "path_matches_allowlist cwd trusted_root s =
     (let (cwd, s1) = normalize_path_text cwd s;
          (trusted_root, s2) = normalize_path_text trusted_root s1
      in (path_starts_with (parse_path cwd) (parse_path trusted_root), s2))"

definition cwd_matches_observed_target :: "string \<Rightarrow> string \<Rightarrow> fs \<Rightarrow> bool \<times> fs" where
  "cwd_matches_observed_target expected_cwd observed_cwd s =
     (let (expected, s') = normalize_path_text expected_cwd s;
          expected_base = unwrap_or expected (file_name (parse_path expected));
          observed_base = unwrap_or (trim_both (\<lambda>c. c = CHR '':'') observed_cwd) (file_name (parse_path observed_cwd))
      in (ends_with expected observed_cwd \<or> ends_with observed_cwd expected \<or> expected_base = observed_base, s'))"

definition shell_errors :: "string list" where
  "shell_errors = [''command not found'', ''syntax error near unexpected token'', ''parse error near'',
     ''no such file or directory'', ''unknown command'']"

definition prompt_snippet :: "string \<Rightarrow> string" where
  "prompt_snippet prompt =
     (case find (\<lambda>l. trim l \<noteq> []) (str_lines prompt) of
        None \<Rightarrow> [] | Some line \<Rightarrow> to_ascii_lowercase (trim line))"

definition detect_prompt_misdelivery ::
  "string \<Rightarrow> string \<Rightarrow> string option \<Rightarrow> string \<Rightarrow> task_receipt option \<Rightarrow> fs
    \<Rightarrow> delivery_observation option \<times> fs" where
  "detect_prompt_misdelivery screen_text lowered prompt expected_cwd expected_receipt s =
     (case prompt of
        None \<Rightarrow> (None, s)
      | Some prompt \<Rightarrow>
     (let snippet = prompt_snippet prompt in
      if snippet = [] then (None, s)
      else let
        prompt_visible = contains lowered snippet;
        observed_prompt_preview = detect_prompt_echo screen_text;
        observed = detect_observed_shell_cwd screen_text;
        wrong_task = (case expected_receipt of
            None \<Rightarrow> False
          | Some receipt \<Rightarrow>
              (prompt_visible \<or>
                (case observed_prompt_preview of None \<Rightarrow> False
                 | Some preview \<Rightarrow> \<not> contains (to_ascii_lowercase preview) snippet))
              \<and> \<not> task_receipt_visible lowered receipt)
      in if wrong_task then
           (Some \<lparr>do_target = WrongTask, do_observed_cwd = observed,
             do_observed_prompt_preview = observed_prompt_preview\<rparr>, s)
         else let
           (wrong_cwd, s') = (case observed of
               None \<Rightarrow> (None, s)
             | Some cwd \<Rightarrow>
                 if prompt_visible then
                   (let (matching, s1) = cwd_matches_observed_target expected_cwd cwd s
                    in (if matching then None else Some cwd, s1))
                 else (None, s))
         in case wrong_cwd of
              Some cwd \<Rightarrow> (Some \<lparr>do_target = WrongTarget, do_observed_cwd = Some cwd,
                do_observed_prompt_preview = observed_prompt_preview\<rparr>, s')
            | None \<Rightarrow>
                (if list_ex (contains lowered) shell_errors \<and> prompt_visible
                 then Some \<lparr>do_target = TargetShell, do_observed_cwd = None,
                   do_observed_prompt_preview = observed_prompt_preview\<rparr>
                 else None, s')))"

definition misdelivery_detail :: "prompt_target \<Rightarrow> string" where
  "misdelivery_detail target =
     (case target of
        TargetShell \<Rightarrow> ''shell misdelivery detected''
      | WrongTarget \<Rightarrow> ''prompt landed in wrong target''
      | WrongTask \<Rightarrow> ''prompt receipt mismatched expected task context''
      | TargetUnknown \<Rightarrow> ''prompt delivery failure detected'')"

end
