(* ===== verification/RefWorker.thy ===== *)
theory RefWorker
  imports RefScreen Registry
begin

text \<open>
  The boot state machine of a worker and its registry:
  \<open>claw-rust/crates/runtime/src/worker_boot.rs\<close>. Every event also writes a state file under the
  worker's directory, so operations pass a world, the file system and the readings the clock has
  left. The serialiser of the state file is the parameter \<open>snapshot_json\<close>.
\<close>

section \<open>Data\<close>

datatype worker_status = Spawning | TrustRequired | ToolPermissionRequired | ReadyForPrompt | Running
  | Finished | WorkerFailed

fun show_worker_status :: "worker_status \<Rightarrow> string" where
  "show_worker_status Spawning = ''spawning''"
| "show_worker_status TrustRequired = ''trust_required''"
| "show_worker_status ToolPermissionRequired = ''tool_permission_required''"
| "show_worker_status ReadyForPrompt = ''ready_for_prompt''"
| "show_worker_status Running = ''running''"
| "show_worker_status Finished = ''finished''"
| "show_worker_status WorkerFailed = ''failed''"

fun debug_worker_status :: "worker_status \<Rightarrow> string" where
  "debug_worker_status Spawning = ''Spawning''"
| "debug_worker_status TrustRequired = ''TrustRequired''"
| "debug_worker_status ToolPermissionRequired = ''ToolPermissionRequired''"
| "debug_worker_status ReadyForPrompt = ''ReadyForPrompt''"
| "debug_worker_status Running = ''Running''"
| "debug_worker_status Finished = ''Finished''"
| "debug_worker_status WorkerFailed = ''Failed''"

datatype failure_kind = TrustGate | ToolPermissionGate | PromptDeliveryFailure | Protocol | Provider
  | NoEvidenceFailure

record worker_failure =
  wf_kind :: failure_kind
  wf_message :: string
  wf_created_at :: u64

datatype worker_event_kind = EvSpawning | EvTrustRequired | EvToolPermissionRequired | EvTrustResolved
  | EvReadyForPrompt | EvPromptMisdelivery | EvPromptReplayArmed | EvRunning | EvRestarted | EvFinished
  | EvFailed | EvStartupNoEvidence

datatype trust_resolution = AutoAllowlisted | ManualApproval

datatype startup_classification = ClTrustRequired | ClToolPermissionRequired | ClPromptMisdelivery
  | ClPromptAcceptanceTimeout | ClTransportDead | ClWorkerCrashed | ClUnknown

fun debug_classification :: "startup_classification \<Rightarrow> string" where
  "debug_classification ClTrustRequired = ''TrustRequired''"
| "debug_classification ClToolPermissionRequired = ''ToolPermissionRequired''"
| "debug_classification ClPromptMisdelivery = ''PromptMisdelivery''"
| "debug_classification ClPromptAcceptanceTimeout = ''PromptAcceptanceTimeout''"
| "debug_classification ClTransportDead = ''TransportDead''"
| "debug_classification ClWorkerCrashed = ''WorkerCrashed''"
| "debug_classification ClUnknown = ''Unknown''"

record startup_evidence =
  se_last_lifecycle_state :: worker_status
  se_pane_command :: string
  se_prompt_sent_at :: "u64 option"
  se_prompt_acceptance_state :: bool
  se_trust_prompt_detected :: bool
  se_tool_permission_prompt_detected :: bool
  se_tool_permission_prompt_age_seconds :: "u64 option"
  se_tool_permission_allow_scope :: "allow_scope option"
  se_transport_healthy :: bool
  se_mcp_healthy :: bool
  se_elapsed_seconds :: u64

datatype worker_payload =
    TrustPrompt string "trust_resolution option"
  | ToolPermissionPrompt "string option" "string option" u64 allow_scope string
  | PromptDelivery string prompt_target "string option" "string option" "task_receipt option" bool
  | StartupNoEvidence startup_evidence startup_classification

record worker_event =
  we_seq :: u64
  we_kind :: worker_event_kind
  we_status :: worker_status
  we_detail :: "string option"
  we_payload :: "worker_payload option"
  we_timestamp :: u64

record worker =
  w_worker_id :: string
  w_cwd :: string
  w_status :: worker_status
  w_trust_auto_resolve :: bool
  w_trust_gate_cleared :: bool
  w_auto_recover :: bool
  w_delivery_attempts :: u32
  w_prompt_in_flight :: bool
  w_last_prompt :: "string option"
  w_expected_receipt :: "task_receipt option"
  w_replay_prompt :: "string option"
  w_last_error :: "worker_failure option"
  w_created_at :: u64
  w_updated_at :: u64
  w_events :: "worker_event list"

type_synonym worker_registry = "worker registry"

text \<open>The world: files and the clock. A clock that cannot be read gives 0.\<close>

record worker_world =
  ww_fs :: fs
  ww_clock :: "u64 list"

definition now_secs :: "worker_world \<Rightarrow> u64 \<times> worker_world" where
  "now_secs w = (case ww_clock w of [] \<Rightarrow> (0, w) | t # ts \<Rightarrow> (t, w\<lparr>ww_clock := ts\<rparr>))"

definition saturating_sub :: "u64 \<Rightarrow> u64 \<Rightarrow> u64" where
  "saturating_sub a b = (if a < b then 0 else a - b)"

section \<open>Events and the state file\<close>

record state_snapshot =
  ss_worker_id :: string
  ss_status :: worker_status
  ss_is_ready :: bool
  ss_trust_gate_cleared :: bool
  ss_prompt_in_flight :: bool
  ss_last_event :: "worker_event option"
  ss_updated_at :: u64
  ss_seconds_since_update :: u64

type_synonym snapshot_codec = "state_snapshot \<Rightarrow> string option"

definition on_fs :: "(fs \<Rightarrow> 'a \<times> fs) \<Rightarrow> worker_world \<Rightarrow> 'a \<times> worker_world" where
  "on_fs f w = (case f (ww_fs w) of (x, s) \<Rightarrow> (x, w\<lparr>ww_fs := s\<rparr>))"

definition emit_state_file :: "snapshot_codec \<Rightarrow> worker \<Rightarrow> worker_world \<Rightarrow> worker_world" where
  "emit_state_file snapshot_json worker w =
     (let state_dir = path_join (parse_path (w_cwd worker)) [Name ''.claw''];
          state_path = path_join state_dir [Name ''worker-state.json''];
          tmp_path = path_join state_dir [Name ''worker-state.json.tmp'']
      in case on_fs (fs_create_dir_all state_dir) w of
           (Inl _, w1) \<Rightarrow> w1
         | (Inr _, w1) \<Rightarrow>
             (let (now, w2) = now_secs w1;
                  snapshot = \<lparr>ss_worker_id = w_worker_id worker, ss_status = w_status worker,
                    ss_is_ready = (w_status worker = ReadyForPrompt),
                    ss_trust_gate_cleared = w_trust_gate_cleared worker,
                    ss_prompt_in_flight = w_prompt_in_flight worker,
                    ss_last_event = (if w_events worker = [] then None else Some (last (w_events worker))),
                    ss_updated_at = w_updated_at worker,
                    ss_seconds_since_update = saturating_sub now (w_updated_at worker)\<rparr>
              in case snapshot_json snapshot of
                   None \<Rightarrow> w2
                 | Some json \<Rightarrow>
                     (let (_, w3) = on_fs (fs_write tmp_path json) w2;
                          (_, w4) = on_fs (fs_rename tmp_path state_path) w3
                      in w4)))"

definition push_event ::
  "snapshot_codec \<Rightarrow> worker_event_kind \<Rightarrow> worker_status \<Rightarrow> string \<Rightarrow> worker_payload option
    \<Rightarrow> worker \<times> worker_world \<Rightarrow> worker \<times> worker_world" where
  "push_event snapshot_json kind status detail payload st =
     (let (worker, w) = st;
          (timestamp, w1) = now_secs w;
          seq = of_nat (length (w_events worker)) + 1;
          worker' = worker\<lparr>w_updated_at := timestamp, w_status := status,
            w_events := w_events worker @ [\<lparr>we_seq = seq, we_kind = kind, we_status = status,
              we_detail = Some detail, we_payload = payload, we_timestamp = timestamp\<rparr>]\<rparr>
      in (worker', emit_state_file snapshot_json worker' w1))"

section \<open>Creating and finding\<close>

fun any_allowlisted :: "string \<Rightarrow> string list \<Rightarrow> fs \<Rightarrow> bool \<times> fs" where
  "any_allowlisted cwd [] s = (False, s)"
| "any_allowlisted cwd (root # roots) s =
     (let (matching, s') = path_matches_allowlist cwd root s
      in if matching then (True, s') else any_allowlisted cwd roots s')"

definition new_worker :: "string \<Rightarrow> string \<Rightarrow> bool \<Rightarrow> bool \<Rightarrow> u64 \<Rightarrow> worker" where
  "new_worker i cwd trust_auto_resolve auto_recover ts =
     \<lparr>w_worker_id = i, w_cwd = cwd, w_status = Spawning, w_trust_auto_resolve = trust_auto_resolve,
      w_trust_gate_cleared = False, w_auto_recover = auto_recover, w_delivery_attempts = 0,
      w_prompt_in_flight = False, w_last_prompt = None, w_expected_receipt = None, w_replay_prompt = None,
      w_last_error = None, w_created_at = ts, w_updated_at = ts, w_events = []\<rparr>"

definition worker_create ::
  "snapshot_codec \<Rightarrow> string \<Rightarrow> string list \<Rightarrow> bool \<Rightarrow> worker_registry \<Rightarrow> worker_world
    \<Rightarrow> worker \<times> worker_registry \<times> worker_world" where
  "worker_create snapshot_json cwd trusted_roots auto_recover r w =
     (let (ts, w1) = now_secs w;
          (trust_auto_resolve, w2) = on_fs (any_allowlisted cwd trusted_roots) w1;
          created = (\<lambda>i. push_event snapshot_json EvSpawning Spawning ''worker created'' None
            (new_worker i cwd trust_auto_resolve auto_recover ts, w2));
          (worker, r') = registry_create ''worker'' ts (\<lambda>i. fst (created i)) r
      in (worker, r', snd (created (w_worker_id worker))))"

text \<open>\<open>get_mut(worker_id).ok_or_else(..)?\<close> and then the change of the worker.\<close>

definition change_worker ::
  "(worker \<times> worker_world \<Rightarrow> (string + worker) \<times> worker_world) \<Rightarrow> string \<Rightarrow> worker_registry \<Rightarrow> worker_world
    \<Rightarrow> (string + worker) \<times> worker_registry \<times> worker_world" where
  "change_worker f i r w =
     (case registry_get r i of
        None \<Rightarrow> (Inl (''worker not found: '' @ i), r, w)
      | Some worker \<Rightarrow>
          (case f (worker, w) of
             (Inl e, w') \<Rightarrow> (Inl e, r, w')
           | (Inr worker', w') \<Rightarrow>
               (Inr worker', r\<lparr>reg_entries := bt_adjust i (\<lambda>_. worker') (reg_entries r)\<rparr>, w')))"

definition succeed :: "worker \<times> worker_world \<Rightarrow> (string + worker) \<times> worker_world" where
  "succeed st = (Inr (fst st), snd st)"

section \<open>Observing the screen\<close>

definition set_error :: "failure_kind \<Rightarrow> string \<Rightarrow> worker \<times> worker_world \<Rightarrow> worker \<times> worker_world" where
  "set_error kind message st =
     (let (worker, w) = st; (now, w1) = now_secs w
      in (worker\<lparr>w_last_error := Some \<lparr>wf_kind = kind, wf_message = message, wf_created_at = now\<rparr>\<rparr>, w1))"

definition change :: "(worker \<Rightarrow> worker) \<Rightarrow> worker \<times> worker_world \<Rightarrow> worker \<times> worker_world" where
  "change f st = (f (fst st), snd st)"

definition observe_tool_prompt ::
  "snapshot_codec \<Rightarrow> tool_prompt \<Rightarrow> worker \<times> worker_world \<Rightarrow> worker \<times> worker_world" where
  "observe_tool_prompt snapshot_json tool_prompt st =
     push_event snapshot_json EvToolPermissionRequired ToolPermissionRequired ''tool permission prompt detected''
       (Some (ToolPermissionPrompt (tpo_server_name tool_prompt) (tpo_tool_name tool_prompt) 0
          (tpo_allow_scope tool_prompt) (tpo_prompt_preview tool_prompt)))
       (set_error ToolPermissionGate (tool_prompt_message tool_prompt)
          (change (\<lambda>worker. worker\<lparr>w_status := ToolPermissionRequired\<rparr>) st))"

definition observe_trust_prompt :: "snapshot_codec \<Rightarrow> worker \<times> worker_world \<Rightarrow> worker \<times> worker_world" where
  "observe_trust_prompt snapshot_json st =
     (let st1 = push_event snapshot_json EvTrustRequired TrustRequired ''trust prompt detected''
            (Some (TrustPrompt (w_cwd (fst st)) None))
            (set_error TrustGate ''worker boot blocked on trust prompt''
              (change (\<lambda>worker. worker\<lparr>w_status := TrustRequired\<rparr>) st))
      in if w_trust_auto_resolve (fst st1) then
           push_event snapshot_json EvTrustResolved Spawning ''allowlisted repo auto-resolved trust prompt''
             (Some (TrustPrompt (w_cwd (fst st1)) (Some AutoAllowlisted)))
             (change (\<lambda>worker. worker\<lparr>w_trust_gate_cleared := True, w_last_error := None, w_status := Spawning\<rparr>) st1)
         else st1)"

definition misdelivery_message :: "prompt_target \<Rightarrow> string \<Rightarrow> string \<Rightarrow> string" where
  "misdelivery_message target cwd preview =
     (case target of
        TargetShell \<Rightarrow> ''worker prompt landed in shell instead of coding agent: '' @ preview
      | WrongTarget \<Rightarrow> ''worker prompt landed in the wrong target instead of '' @ cwd @ '': '' @ preview
      | WrongTask \<Rightarrow> ''worker prompt receipt mismatched the expected task context for '' @ cwd @ '': '' @ preview
      | TargetUnknown \<Rightarrow> ''worker prompt delivery failed before reaching coding agent: '' @ preview)"

definition observe_misdelivery ::
  "snapshot_codec \<Rightarrow> delivery_observation \<Rightarrow> worker \<times> worker_world \<Rightarrow> worker \<times> worker_world" where
  "observe_misdelivery snapshot_json observation st =
     (let preview = prompt_preview (unwrap_or [] (w_last_prompt (fst st)));
          payload = (\<lambda>armed. Some (PromptDelivery preview (do_target observation) (do_observed_cwd observation)
            (do_observed_prompt_preview observation) (w_expected_receipt (fst st)) armed));
          st1 = push_event snapshot_json EvPromptMisdelivery WorkerFailed
            (misdelivery_detail (do_target observation)) (payload False)
            (change (\<lambda>worker. worker\<lparr>w_prompt_in_flight := False\<rparr>)
              (set_error PromptDeliveryFailure
                (misdelivery_message (do_target observation) (w_cwd (fst st)) preview) st))
      in if w_auto_recover (fst st1) then
           push_event snapshot_json EvPromptReplayArmed ReadyForPrompt
             ''prompt replay armed after prompt misdelivery'' (payload True)
             (change (\<lambda>worker. worker\<lparr>w_replay_prompt := w_last_prompt worker, w_status := ReadyForPrompt\<rparr>) st1)
         else change (\<lambda>worker. worker\<lparr>w_status := WorkerFailed\<rparr>) st1)"

definition misdelivery_is_relevant :: "worker \<Rightarrow> bool" where
  "misdelivery_is_relevant worker \<longleftrightarrow> w_prompt_in_flight worker \<and> w_last_prompt worker \<noteq> None"

definition observe_running :: "string \<Rightarrow> worker \<Rightarrow> worker" where
  "observe_running lowered worker =
     (if detect_running_cue lowered \<and> w_prompt_in_flight worker
      then worker\<lparr>w_prompt_in_flight := False, w_status := Running, w_last_error := None\<rparr> else worker)"

definition observe_ready ::
  "snapshot_codec \<Rightarrow> string \<Rightarrow> string \<Rightarrow> worker \<times> worker_world \<Rightarrow> worker \<times> worker_world" where
  "observe_ready snapshot_json screen_text lowered st =
     (if detect_ready_for_prompt screen_text lowered \<and> w_status (fst st) \<noteq> ReadyForPrompt then
        push_event snapshot_json EvReadyForPrompt ReadyForPrompt ''worker is ready for prompt delivery'' None
          (change (\<lambda>worker. worker\<lparr>w_status := ReadyForPrompt, w_prompt_in_flight := False,
             w_last_error := (if map_option wf_kind (w_last_error worker) = Some TrustGate then None
               else w_last_error worker)\<rparr>) st)
      else st)"

definition observe :: "snapshot_codec \<Rightarrow> string \<Rightarrow> worker \<times> worker_world \<Rightarrow> worker \<times> worker_world" where
  "observe snapshot_json screen_text st =
     (let lowered = to_ascii_lowercase screen_text in
      case detect_tool_permission_prompt screen_text lowered of
        Some tool_prompt \<Rightarrow> observe_tool_prompt snapshot_json tool_prompt st
      | None \<Rightarrow>
     (let at_gate = \<not> w_trust_gate_cleared (fst st) \<and> detect_trust_prompt lowered;
          st1 = (if at_gate then observe_trust_prompt snapshot_json st else st)
      in if at_gate \<and> \<not> w_trust_auto_resolve (fst st) then st1
         else let
           worker = fst st1;
           (observation, w2) = (if misdelivery_is_relevant worker
             then on_fs (detect_prompt_misdelivery screen_text lowered (w_last_prompt worker) (w_cwd worker)
               (w_expected_receipt worker)) (snd st1)
             else (None, snd st1))
         in case observation of
              Some obs \<Rightarrow> observe_misdelivery snapshot_json obs (worker, w2)
            | None \<Rightarrow> observe_ready snapshot_json screen_text lowered
                (change (observe_running lowered) (worker, w2))))"

definition worker_observe where
  "worker_observe snapshot_json i screen_text r w =
     change_worker (\<lambda>st. succeed (observe snapshot_json screen_text st)) i r w"

section \<open>Control\<close>

definition resolve_trust ::
  "snapshot_codec \<Rightarrow> string \<Rightarrow> worker \<times> worker_world \<Rightarrow> (string + worker) \<times> worker_world" where
  "resolve_trust snapshot_json i st =
     (if w_status (fst st) \<noteq> TrustRequired
      then (Inl (''worker '' @ i @ '' is not waiting on trust; current status: ''
        @ show_worker_status (w_status (fst st))), snd st)
      else succeed (push_event snapshot_json EvTrustResolved Spawning ''trust prompt resolved manually''
        (Some (TrustPrompt (w_cwd (fst st)) (Some ManualApproval)))
        (change (\<lambda>worker. worker\<lparr>w_trust_gate_cleared := True, w_last_error := None, w_status := Spawning\<rparr>) st)))"

definition worker_resolve_trust where
  "worker_resolve_trust snapshot_json i r w = change_worker (resolve_trust snapshot_json i) i r w"

definition next_prompt :: "string option \<Rightarrow> worker \<Rightarrow> string option" where
  "next_prompt prompt worker =
     (case prompt of
        Some p \<Rightarrow> if trim p \<noteq> [] then Some (trim p) else w_replay_prompt worker
      | None \<Rightarrow> w_replay_prompt worker)"

definition send_prompt ::
  "snapshot_codec \<Rightarrow> string \<Rightarrow> string option \<Rightarrow> task_receipt option \<Rightarrow> worker \<times> worker_world
    \<Rightarrow> (string + worker) \<times> worker_world" where
  "send_prompt snapshot_json i prompt task_receipt st =
     (if w_status (fst st) \<noteq> ReadyForPrompt
      then (Inl (''worker '' @ i @ '' is not ready for prompt delivery; current status: ''
        @ show_worker_status (w_status (fst st))), snd st)
      else case next_prompt prompt (fst st) of
        None \<Rightarrow> (Inl (''worker '' @ i @ '' has no prompt to send or replay''), snd st)
      | Some p \<Rightarrow>
          succeed (push_event snapshot_json EvRunning Running (''prompt dispatched to worker: '' @ prompt_preview p) None
            (change (\<lambda>worker. worker\<lparr>w_delivery_attempts := w_delivery_attempts worker + 1,
               w_prompt_in_flight := True, w_last_prompt := Some p, w_expected_receipt := task_receipt,
               w_replay_prompt := None, w_last_error := None, w_status := Running\<rparr>) st)))"

definition worker_send_prompt where
  "worker_send_prompt snapshot_json i prompt task_receipt r w =
     change_worker (send_prompt snapshot_json i prompt task_receipt) i r w"

record ready_snapshot =
  rs_worker_id :: string
  rs_status :: worker_status
  rs_ready :: bool
  rs_blocked :: bool
  rs_replay_prompt_ready :: bool
  rs_last_error :: "worker_failure option"

definition worker_await_ready :: "string \<Rightarrow> worker_registry \<Rightarrow> string + ready_snapshot" where
  "worker_await_ready i r =
     (case registry_get r i of
        None \<Rightarrow> Inl (''worker not found: '' @ i)
      | Some worker \<Rightarrow> Inr \<lparr>rs_worker_id = w_worker_id worker, rs_status = w_status worker,
          rs_ready = (w_status worker = ReadyForPrompt),
          rs_blocked = (w_status worker \<in> {TrustRequired, ToolPermissionRequired, WorkerFailed}),
          rs_replay_prompt_ready = (w_replay_prompt worker \<noteq> None), rs_last_error = w_last_error worker\<rparr>)"

definition restart :: "snapshot_codec \<Rightarrow> worker \<times> worker_world \<Rightarrow> worker \<times> worker_world" where
  "restart snapshot_json st =
     push_event snapshot_json EvRestarted Spawning ''worker restarted'' None
       (change (\<lambda>worker. worker\<lparr>w_status := Spawning, w_trust_gate_cleared := False, w_last_prompt := None,
          w_replay_prompt := None, w_last_error := None, w_delivery_attempts := 0,
          w_prompt_in_flight := False\<rparr>) st)"

definition worker_restart where
  "worker_restart snapshot_json i r w = change_worker (\<lambda>st. succeed (restart snapshot_json st)) i r w"

definition terminate :: "snapshot_codec \<Rightarrow> worker \<times> worker_world \<Rightarrow> worker \<times> worker_world" where
  "terminate snapshot_json st =
     push_event snapshot_json EvFinished Finished ''worker terminated by control plane'' None
       (change (\<lambda>worker. worker\<lparr>w_status := Finished, w_prompt_in_flight := False\<rparr>) st)"

definition worker_terminate where
  "worker_terminate snapshot_json i r w = change_worker (\<lambda>st. succeed (terminate snapshot_json st)) i r w"

definition observe_completion ::
  "snapshot_codec \<Rightarrow> string \<Rightarrow> u64 \<Rightarrow> worker \<times> worker_world \<Rightarrow> worker \<times> worker_world" where
  "observe_completion snapshot_json finish_reason tokens_output st =
     (let q = (\<lambda>s. [CHR 0x27] @ s @ [CHR 0x27]); dash = [CHR 0xE2, CHR 0x80, CHR 0x94] in
      if (finish_reason = ''unknown'' \<and> tokens_output = 0) \<or> finish_reason = ''error'' then
        push_event snapshot_json EvFailed WorkerFailed ''provider failure classified'' None
          (change (\<lambda>worker. worker\<lparr>w_status := WorkerFailed, w_prompt_in_flight := False\<rparr>)
            (set_error Provider
              (if finish_reason = ''unknown'' \<and> tokens_output = 0
               then ''session completed with finish='' @ q ''unknown'' @ '' and zero output '' @ dash
                 @ '' provider degraded or context exhausted''
               else ''session failed with finish='' @ q finish_reason @ '' '' @ dash @ '' provider error'') st))
      else
        push_event snapshot_json EvFinished Finished
          (''session completed: finish='' @ q finish_reason @ '', tokens='' @ show_nat (unat tokens_output)) None
          (change (\<lambda>worker. worker\<lparr>w_status := Finished, w_prompt_in_flight := False, w_last_error := None\<rparr>) st))"

definition worker_observe_completion where
  "worker_observe_completion snapshot_json i finish_reason tokens_output r w =
     change_worker (\<lambda>st. succeed (observe_completion snapshot_json finish_reason tokens_output st)) i r w"

section \<open>Startup timeouts\<close>

definition classify_startup_failure :: "startup_evidence \<Rightarrow> startup_classification" where
  "classify_startup_failure e =
     (if \<not> se_transport_healthy e then ClTransportDead
      else if se_trust_prompt_detected e \<and> se_last_lifecycle_state e = TrustRequired then ClTrustRequired
      else if se_tool_permission_prompt_detected e \<and> se_last_lifecycle_state e = ToolPermissionRequired
      then ClToolPermissionRequired
      else if se_prompt_sent_at e \<noteq> None \<and> \<not> se_prompt_acceptance_state e \<and> se_last_lifecycle_state e = Running
      then ClPromptAcceptanceTimeout
      else if se_prompt_sent_at e \<noteq> None \<and> \<not> se_prompt_acceptance_state e \<and> 30 < se_elapsed_seconds e
      then ClPromptMisdelivery
      else if \<not> se_mcp_healthy e \<and> se_transport_healthy e then ClWorkerCrashed
      else ClUnknown)"

definition startup_evidence_of :: "worker \<Rightarrow> string \<Rightarrow> bool \<Rightarrow> bool \<Rightarrow> u64 \<Rightarrow> startup_evidence" where
  "startup_evidence_of worker pane_command transport_healthy mcp_healthy now =
     (let latest = find (\<lambda>e. we_kind e = EvToolPermissionRequired) (rev (w_events worker)) in
      \<lparr>se_last_lifecycle_state = w_status worker, se_pane_command = pane_command,
       se_prompt_sent_at = (if 0 < w_delivery_attempts worker then Some (w_updated_at worker) else None),
       se_prompt_acceptance_state = (w_status worker = Running \<and> \<not> w_prompt_in_flight worker),
       se_trust_prompt_detected = list_ex (\<lambda>e. we_kind e = EvTrustRequired) (w_events worker),
       se_tool_permission_prompt_detected = list_ex (\<lambda>e. we_kind e = EvToolPermissionRequired) (w_events worker),
       se_tool_permission_prompt_age_seconds = map_option (\<lambda>e. saturating_sub now (we_timestamp e)) latest,
       se_tool_permission_allow_scope =
         (case Option.bind latest we_payload of
            Some (ToolPermissionPrompt _ _ _ scope _) \<Rightarrow> Some scope | _ \<Rightarrow> None),
       se_transport_healthy = transport_healthy, se_mcp_healthy = mcp_healthy,
       se_elapsed_seconds = saturating_sub now (w_created_at worker)\<rparr>)"

definition show_bool :: "bool \<Rightarrow> string" where
  "show_bool b = (if b then ''true'' else ''false'')"

definition observe_startup_timeout ::
  "snapshot_codec \<Rightarrow> string \<Rightarrow> bool \<Rightarrow> bool \<Rightarrow> worker \<times> worker_world \<Rightarrow> worker \<times> worker_world" where
  "observe_startup_timeout snapshot_json pane_command transport_healthy mcp_healthy st =
     (let (worker, w) = st;
          (now, w1) = now_secs w;
          evidence = startup_evidence_of worker pane_command transport_healthy mcp_healthy now;
          classification = classify_startup_failure evidence
      in push_event snapshot_json EvStartupNoEvidence WorkerFailed
           (''startup timeout with evidence: last_state='' @ debug_worker_status (se_last_lifecycle_state evidence)
             @ '', trust_detected='' @ show_bool (se_trust_prompt_detected evidence)
             @ '', prompt_accepted='' @ show_bool (se_prompt_acceptance_state evidence))
           (Some (StartupNoEvidence evidence classification))
           (worker\<lparr>w_last_error := Some \<lparr>wf_kind = NoEvidenceFailure,
              wf_message = ''worker startup stalled after '' @ show_nat (unat (se_elapsed_seconds evidence))
                @ ''s '' @ [CHR 0xE2, CHR 0x80, CHR 0x94] @ '' classified as '' @ debug_classification classification,
              wf_created_at = now\<rparr>, w_status := WorkerFailed, w_prompt_in_flight := False\<rparr>, w1))"

definition worker_observe_startup_timeout where
  "worker_observe_startup_timeout snapshot_json i pane_command transport_healthy mcp_healthy r w =
     change_worker (\<lambda>st. succeed (observe_startup_timeout snapshot_json pane_command transport_healthy mcp_healthy st)) i r w"

end
