(* ===== verification/RefWorkerCorrect.thy ===== *)
theory RefWorkerCorrect
  imports RefWorker
begin

text \<open>
  What holds of every worker the operations can reach, and what the trust gate, the delivery of
  prompts and their replay promise.
\<close>

section \<open>What the building blocks change\<close>

definition pushed :: "worker_event_kind \<Rightarrow> worker_status \<Rightarrow> string \<Rightarrow> worker_payload option \<Rightarrow> worker \<times> worker_world \<Rightarrow> worker_event" where
  "pushed kind status detail payload st =
     \<lparr>we_seq = of_nat (length (w_events (fst st))) + 1, we_kind = kind, we_status = status,
      we_detail = Some detail, we_payload = payload, we_timestamp = fst (now_secs (snd st))\<rparr>"

lemma fst_push_event [simp]:
  "fst (push_event sj kind status detail payload st) =
     (fst st)\<lparr>w_updated_at := fst (now_secs (snd st)), w_status := status,
       w_events := w_events (fst st) @ [pushed kind status detail payload st]\<rparr>"
  by (cases st) (simp add: push_event_def pushed_def Let_def case_prod_unfold)

lemma pushed_simps [simp]:
  "we_kind (pushed kind status detail payload st) = kind"
  "we_status (pushed kind status detail payload st) = status"
  "we_payload (pushed kind status detail payload st) = payload"
  "we_seq (pushed kind status detail payload st) = of_nat (length (w_events (fst st))) + 1"
  by (simp_all add: pushed_def)

lemma fst_change [simp]: "fst (change f st) = f (fst st)"
  by (simp add: change_def)

lemma fst_set_error [simp]:
  "fst (set_error kind message st) =
     (fst st)\<lparr>w_last_error := Some \<lparr>wf_kind = kind, wf_message = message, wf_created_at = fst (now_secs (snd st))\<rparr>\<rparr>"
  by (cases st) (simp add: set_error_def case_prod_unfold Let_def)

lemma succeed_Inr [simp]: "succeed st = (Inr worker, w) \<longleftrightarrow> st = (worker, w)"
  by (cases st) (simp add: succeed_def)

lemma observe_running_fields [simp]:
  "w_events (observe_running l wk) = w_events wk" "w_trust_gate_cleared (observe_running l wk) = w_trust_gate_cleared wk"
  "w_replay_prompt (observe_running l wk) = w_replay_prompt wk" "w_last_prompt (observe_running l wk) = w_last_prompt wk"
  "w_trust_auto_resolve (observe_running l wk) = w_trust_auto_resolve wk" "w_auto_recover (observe_running l wk) = w_auto_recover wk"
  by (simp_all add: observe_running_def)

section \<open>Steps and reachable workers\<close>

text \<open>The operations on one worker; one that fails leaves it as it was.\<close>

datatype worker_op =
    OpObserve string
  | OpResolveTrust
  | OpSendPrompt "string option" "task_receipt option"
  | OpRestart
  | OpTerminate
  | OpCompletion string u64
  | OpStartupTimeout string bool bool

fun worker_step :: "snapshot_codec \<Rightarrow> worker_op \<Rightarrow> worker \<times> worker_world \<Rightarrow> (string + worker) \<times> worker_world" where
  "worker_step sj (OpObserve screen_text) st = succeed (observe sj screen_text st)"
| "worker_step sj OpResolveTrust st = resolve_trust sj (w_worker_id (fst st)) st"
| "worker_step sj (OpSendPrompt prompt receipt) st = send_prompt sj (w_worker_id (fst st)) prompt receipt st"
| "worker_step sj OpRestart st = succeed (restart sj st)"
| "worker_step sj OpTerminate st = succeed (terminate sj st)"
| "worker_step sj (OpCompletion finish_reason tokens) st = succeed (observe_completion sj finish_reason tokens st)"
| "worker_step sj (OpStartupTimeout pane transport mcp) st = succeed (observe_startup_timeout sj pane transport mcp st)"

text \<open>Between two steps the files and the clock may change in any way.\<close>

inductive reachable :: "snapshot_codec \<Rightarrow> worker \<Rightarrow> bool" for sj where
  created: "reachable sj (fst (push_event sj EvSpawning Spawning ''worker created'' None
     (new_worker i cwd trust_auto_resolve auto_recover ts, w)))"
| step: "reachable sj worker \<Longrightarrow> worker_step sj op (worker, w) = (Inr worker', w') \<Longrightarrow> reachable sj worker'"

inductive_cases worker_reachableE: "reachable sj worker"

section \<open>The invariant\<close>

definition error_kind :: "worker \<Rightarrow> failure_kind option" where
  "error_kind worker = map_option wf_kind (w_last_error worker)"

lemma error_kind_simps [simp]:
  "error_kind (wk\<lparr>w_updated_at := u\<rparr>) = error_kind wk"
  "error_kind (wk\<lparr>w_status := s\<rparr>) = error_kind wk"
  "error_kind (wk\<lparr>w_events := es\<rparr>) = error_kind wk"
  "error_kind (wk\<lparr>w_prompt_in_flight := b\<rparr>) = error_kind wk"
  "error_kind (wk\<lparr>w_replay_prompt := r\<rparr>) = error_kind wk"
  "error_kind (wk\<lparr>w_last_error := e\<rparr>) = map_option wf_kind e"
  by (simp_all add: error_kind_def)

text \<open>The trust gate is open exactly when trust was resolved since the last start.\<close>

definition since_restart :: "worker_event list \<Rightarrow> worker_event list" where
  "since_restart events = takeWhile (\<lambda>e. we_kind e \<noteq> EvRestarted) (rev events)"

lemma since_restart_snoc [simp]:
  "since_restart (events @ [e]) = (if we_kind e = EvRestarted then [] else e # since_restart events)"
  by (simp add: since_restart_def)

definition manual_trust :: "worker_event \<Rightarrow> bool" where
  "manual_trust e \<longleftrightarrow> we_kind e = EvTrustResolved
     \<and> (case we_payload e of Some (TrustPrompt _ (Some ManualApproval)) \<Rightarrow> True | _ \<Rightarrow> False)"

definition events_numbered :: "worker_event list \<Rightarrow> bool" where
  "events_numbered events \<longleftrightarrow> map we_seq events = map (\<lambda>n. of_nat n + 1) [0..<length events]"

definition worker_ok :: "worker \<Rightarrow> bool" where
  "worker_ok worker \<longleftrightarrow>
     w_events worker \<noteq> [] \<and> events_numbered (w_events worker)
     \<and> (w_status worker = we_status (last (w_events worker)) \<or> w_status worker = Running)
     \<and> (w_prompt_in_flight worker \<longrightarrow> w_last_prompt worker \<noteq> None
          \<and> w_status worker \<notin> {ReadyForPrompt, Finished, WorkerFailed})
     \<and> (w_replay_prompt worker \<noteq> None \<longrightarrow> w_replay_prompt worker = w_last_prompt worker \<and> \<not> w_prompt_in_flight worker)
     \<and> (w_status worker = WorkerFailed \<longrightarrow>
          error_kind worker \<in> {Some PromptDeliveryFailure, Some Provider, Some NoEvidenceFailure})
     \<and> (w_status worker = TrustRequired \<longrightarrow> error_kind worker = Some TrustGate \<and> \<not> w_trust_gate_cleared worker)
     \<and> (w_status worker = ToolPermissionRequired \<longrightarrow> error_kind worker = Some ToolPermissionGate)
     \<and> (w_trust_gate_cleared worker \<longleftrightarrow>
          list_ex (\<lambda>e. we_kind e = EvTrustResolved) (since_restart (w_events worker)))"

lemma events_numbered_snoc [simp]:
  "events_numbered (events @ [e]) \<longleftrightarrow> events_numbered events \<and> we_seq e = of_nat (length events) + 1"
  by (auto simp: events_numbered_def)

lemma worker_okD:
  assumes "worker_ok worker"
  shows "w_events worker \<noteq> []" "events_numbered (w_events worker)"
    "w_prompt_in_flight worker \<Longrightarrow> w_last_prompt worker \<noteq> None"
    "w_prompt_in_flight worker \<Longrightarrow> w_status worker \<notin> {ReadyForPrompt, Finished, WorkerFailed}"
    "w_replay_prompt worker \<noteq> None \<Longrightarrow> w_replay_prompt worker = w_last_prompt worker"
    "w_replay_prompt worker \<noteq> None \<Longrightarrow> \<not> w_prompt_in_flight worker"
    "w_trust_gate_cleared worker \<longleftrightarrow>
      list_ex (\<lambda>e. we_kind e = EvTrustResolved) (since_restart (w_events worker))"
  using assms by (auto simp: worker_ok_def)

text \<open>Pushing an event onto a worker that is in order but for its status.\<close>

lemma push_ok:
  assumes "events_numbered (w_events (fst st))"
    and "w_prompt_in_flight (fst st) \<Longrightarrow> w_last_prompt (fst st) \<noteq> None \<and> status \<notin> {ReadyForPrompt, Finished, WorkerFailed}"
    and "w_replay_prompt (fst st) \<noteq> None \<Longrightarrow> w_replay_prompt (fst st) = w_last_prompt (fst st) \<and> \<not> w_prompt_in_flight (fst st)"
    and "status = WorkerFailed \<Longrightarrow> error_kind (fst st) \<in> {Some PromptDeliveryFailure, Some Provider, Some NoEvidenceFailure}"
    and "status = TrustRequired \<Longrightarrow> error_kind (fst st) = Some TrustGate \<and> \<not> w_trust_gate_cleared (fst st)"
    and "status = ToolPermissionRequired \<Longrightarrow> error_kind (fst st) = Some ToolPermissionGate"
    and "w_trust_gate_cleared (fst st) \<longleftrightarrow> kind \<noteq> EvRestarted \<and> (kind = EvTrustResolved
      \<or> list_ex (\<lambda>e. we_kind e = EvTrustResolved) (since_restart (w_events (fst st))))"
  shows "worker_ok (fst (push_event sj kind status detail payload st))"
  unfolding worker_ok_def using assms by simp

lemma created_ok:
  "worker_ok (fst (push_event sj EvSpawning Spawning d None (new_worker i cwd t a ts, w)))"
  by (rule push_ok) (simp_all add: new_worker_def events_numbered_def since_restart_def)

lemma observe_tool_prompt_ok:
  assumes "worker_ok (fst st)"
  shows "worker_ok (fst (observe_tool_prompt sj tp st))"
  unfolding observe_tool_prompt_def by (rule push_ok) (use worker_okD [OF assms] in simp_all)

lemma observe_trust_prompt_ok:
  assumes "worker_ok (fst st)" and "\<not> w_trust_gate_cleared (fst st)"
  shows "worker_ok (fst (observe_trust_prompt sj st))"
proof -
  let ?st1 = "push_event sj EvTrustRequired TrustRequired ''trust prompt detected''
            (Some (TrustPrompt (w_cwd (fst st)) None))
            (set_error TrustGate ''worker boot blocked on trust prompt''
              (change (\<lambda>worker. worker\<lparr>w_status := TrustRequired\<rparr>) st))"
  have ok: "worker_ok (fst ?st1)"
    by (rule push_ok) (use worker_okD [OF assms(1)] assms(2) in simp_all)
  have "worker_ok (fst (push_event sj k Spawning d pl (change (\<lambda>worker.
      worker\<lparr>w_trust_gate_cleared := True, w_last_error := None, w_status := Spawning\<rparr>) ?st1)))"
    if "k = EvTrustResolved" for k d pl
    by (rule push_ok) (use worker_okD(1-6) [OF ok] that in simp_all)
  with ok show ?thesis by (auto simp: observe_trust_prompt_def Let_def simp del: fst_push_event)
qed

lemma observe_misdelivery_ok:
  assumes "worker_ok (fst st)"
  shows "worker_ok (fst (observe_misdelivery sj obs st))"
proof -
  have failed: "worker_ok (fst (push_event sj EvPromptMisdelivery WorkerFailed d pl
      (change (\<lambda>worker. worker\<lparr>w_prompt_in_flight := False\<rparr>) (set_error PromptDeliveryFailure m st))))" for d pl m
    by (rule push_ok) (use worker_okD [OF assms] in simp_all)
  have armed: "worker_ok (fst (push_event sj EvPromptReplayArmed ReadyForPrompt d pl
      (change (\<lambda>worker. worker\<lparr>w_replay_prompt := w_last_prompt worker, w_status := ReadyForPrompt\<rparr>) st')))"
    if "worker_ok (fst st')" "\<not> w_prompt_in_flight (fst st')" for st' d pl
    by (rule push_ok) (use worker_okD [OF that(1)] that(2) in simp_all)
  have same: "worker_ok (fst (change (\<lambda>worker. worker\<lparr>w_status := WorkerFailed\<rparr>) st'))"
    if "worker_ok (fst st')" "w_status (fst st') = WorkerFailed" for st'
    using that by (cases "fst st'") simp
  show ?thesis
    unfolding observe_misdelivery_def Let_def
    by (split if_split, intro conjI impI armed same failed) simp_all
qed

lemma observe_running_ok: "worker_ok wk \<Longrightarrow> worker_ok (observe_running l wk)"
  by (auto simp: worker_ok_def observe_running_def error_kind_def)

lemma observe_ready_ok:
  assumes "worker_ok (fst st)"
  shows "worker_ok (fst (observe_ready sj s l st))"
proof -
  have "worker_ok (fst (push_event sj EvReadyForPrompt ReadyForPrompt d None
    (change (\<lambda>worker. worker\<lparr>w_status := ReadyForPrompt, w_prompt_in_flight := False,
             w_last_error := (if map_option wf_kind (w_last_error worker) = Some TrustGate then None
               else w_last_error worker)\<rparr>) st)))" for d
    by (rule push_ok) (use worker_okD [OF assms] in simp_all)
  with assms show ?thesis by (simp add: observe_ready_def del: fst_push_event)
qed

lemma observe_ok:
  assumes "worker_ok (fst st)"
  shows "worker_ok (fst (observe sj screen_text st))"
  using assms
  by (auto simp: observe_def Let_def observe_tool_prompt_ok observe_trust_prompt_ok observe_misdelivery_ok
      observe_ready_ok observe_running_ok split: option.split prod.split)

lemma worker_step_ok:
  assumes "worker_ok worker" and "worker_step sj op (worker, w) = (Inr worker', w')"
  shows "worker_ok worker'"
proof (cases op)
  case (OpObserve screen_text)
  then show ?thesis using assms observe_ok [of "(worker, w)" sj screen_text] by (metis fst_conv succeed_Inr worker_step.simps(1))
next
  case OpResolveTrust
  then have "worker' = fst (push_event sj EvTrustResolved Spawning ''trust prompt resolved manually''
        (Some (TrustPrompt (w_cwd worker) (Some ManualApproval)))
        (change (\<lambda>worker. worker\<lparr>w_trust_gate_cleared := True, w_last_error := None, w_status := Spawning\<rparr>) (worker, w)))"
    using assms(2) by (auto simp: resolve_trust_def succeed_def split: if_splits)
  then show ?thesis using assms(1) unfolding \<open>worker' = _\<close>
    by (intro push_ok) (use worker_okD [OF assms(1)] in simp_all)
next
  case (OpSendPrompt prompt receipt)
  then obtain p where "w_status worker = ReadyForPrompt" "worker' = fst (push_event sj EvRunning Running
      (''prompt dispatched to worker: '' @ prompt_preview p) None
      (change (\<lambda>worker. worker\<lparr>w_delivery_attempts := w_delivery_attempts worker + 1,
               w_prompt_in_flight := True, w_last_prompt := Some p, w_expected_receipt := receipt,
               w_replay_prompt := None, w_last_error := None, w_status := Running\<rparr>) (worker, w)))"
    using assms(2) by (auto simp: send_prompt_def succeed_def split: if_splits option.splits)
  then show ?thesis using assms(1) by (auto simp: worker_ok_def error_kind_def)
next
  case OpRestart
  then have "worker' = fst (restart sj (worker, w))" using assms(2) by (metis fst_conv succeed_Inr worker_step.simps(4))
  then show ?thesis using assms(1) by (auto simp: restart_def worker_ok_def error_kind_def)
next
  case OpTerminate
  then have "worker' = fst (terminate sj (worker, w))" using assms(2) by (metis fst_conv succeed_Inr worker_step.simps(5))
  then show ?thesis using assms(1) by (auto simp: terminate_def worker_ok_def error_kind_def)
next
  case (OpCompletion finish_reason tokens)
  then have "worker' = fst (observe_completion sj finish_reason tokens (worker, w))"
    using assms(2) by (metis fst_conv succeed_Inr worker_step.simps(6))
  then show ?thesis using assms(1) by (auto simp: observe_completion_def Let_def worker_ok_def error_kind_def)
next
  case (OpStartupTimeout pane transport mcp)
  then have "worker' = fst (observe_startup_timeout sj pane transport mcp (worker, w))"
    using assms(2) by (metis fst_conv succeed_Inr worker_step.simps(7))
  then show ?thesis using assms(1)
    by (auto simp: observe_startup_timeout_def Let_def worker_ok_def error_kind_def case_prod_unfold)
qed

text \<open>C17: Whatever the operations, the screens and the world between them, a worker's events are
  numbered from one, its status is that of the last event or running, a prompt in flight is known
  and never coexists with a ready, finished or failed status, an armed replay is the last prompt, a
  failed or blocked worker has an error of the matching kind, and the trust gate is open exactly
  when trust was resolved since the last start.\<close>

theorem worker_invariant:
  assumes "reachable sj worker"
  shows "worker_ok worker"
  using assms
proof (induction rule: reachable.induct)
  case (created i cwd t a ts w)
  show ?case by (rule created_ok)
next
  case (step worker op w worker' w')
  show ?case using worker_step_ok [OF step.IH step.hyps(2)] .
qed

text \<open>A world without files, for the examples.\<close>

definition empty_world :: worker_world where
  "empty_world = \<lparr>ww_fs = \<lparr>fs_nodes = [], fs_cwd = [], fs_faults = []\<rparr>, ww_clock = []\<rparr>"

theorem worker_invariant_witness:
  "worker_ok (fst (push_event (\<lambda>_. None) EvSpawning Spawning ''worker created'' None
     (new_worker ''worker_1'' ''/work'' False True 5, empty_world)))"
  by (rule worker_invariant [OF reachable.created])

section \<open>The trust gate\<close>

definition trusted :: "worker \<Rightarrow> bool" where
  "trusted worker \<longleftrightarrow> w_trust_auto_resolve worker
     \<or> list_all (\<lambda>e. we_kind e = EvTrustResolved \<longrightarrow> manual_trust e) (w_events worker)"

lemma push_trusted:
  "trusted (fst st) \<Longrightarrow> kind \<noteq> EvTrustResolved \<or> w_trust_auto_resolve (fst st)
      \<or> (\<exists>cwd. payload = Some (TrustPrompt cwd (Some ManualApproval)))
    \<Longrightarrow> trusted (fst (push_event sj kind status detail payload st))"
  by (auto simp: trusted_def manual_trust_def)

lemma change_trusted:
  "trusted (fst st) \<Longrightarrow> w_events (f (fst st)) = w_events (fst st)
    \<Longrightarrow> w_trust_auto_resolve (f (fst st)) = w_trust_auto_resolve (fst st) \<Longrightarrow> trusted (fst (change f st))"
  by (simp add: trusted_def)

lemma set_error_trusted: "trusted (fst st) \<Longrightarrow> trusted (fst (set_error kind message st))"
  by (simp add: trusted_def)

lemmas trusted_intros = push_trusted change_trusted set_error_trusted

lemma observe_trusted:
  assumes "trusted (fst st)"
  shows "trusted (fst (observe sj screen_text st))"
proof -
  have tool: "trusted (fst (observe_tool_prompt sj tp st))" for tp
    unfolding observe_tool_prompt_def by (intro trusted_intros) (use assms in simp_all)
  have trust: "trusted (fst (observe_trust_prompt sj st))"
    unfolding observe_trust_prompt_def Let_def
    by (split if_split, intro conjI impI trusted_intros) (use assms in simp_all)
  have misdelivery: "trusted (fst (observe_misdelivery sj obs st'))" if "trusted (fst st')" for obs st'
    unfolding observe_misdelivery_def Let_def
    by (split if_split, intro conjI impI trusted_intros) (use that in simp_all)
  have ready: "trusted (fst (observe_ready sj t l (change (observe_running l) st')))" if "trusted (fst st')" for t l st'
    unfolding observe_ready_def
    by (split if_split, intro conjI impI trusted_intros) (use that in simp_all)
  show ?thesis
    unfolding observe_def Let_def
    using assms tool trust by (auto intro!: misdelivery ready split: option.split prod.split)
qed

lemma step_trusted:
  assumes "trusted worker" and "worker_step sj op (worker, w) = (Inr worker', w')"
  shows "trusted worker'"
proof (cases op)
  case (OpObserve screen_text)
  then show ?thesis using assms observe_trusted [of "(worker, w)" sj screen_text] by (metis fst_conv succeed_Inr worker_step.simps(1))
next
  case OpResolveTrust
  then show ?thesis using assms
    by (auto simp: resolve_trust_def succeed_def trusted_def manual_trust_def split: if_splits)
next
  case (OpSendPrompt prompt receipt)
  then show ?thesis using assms
    by (auto simp: send_prompt_def succeed_def trusted_def split: if_splits option.splits)
next
  case (OpStartupTimeout pane transport mcp)
  then show ?thesis using assms
    by (auto simp: succeed_def observe_startup_timeout_def Let_def case_prod_unfold trusted_def)
qed (use assms in \<open>auto simp: succeed_def restart_def terminate_def observe_completion_def Let_def trusted_def split: if_splits\<close>)

text \<open>C18: The trust gate of a worker outside the trusted roots is only ever opened by a manual approval
  after its last start.\<close>

theorem trust_needs_approval:
  assumes "reachable sj worker" and "\<not> w_trust_auto_resolve worker" and "w_trust_gate_cleared worker"
  shows "list_ex manual_trust (since_restart (w_events worker))"
proof -
  have "trusted worker" using assms(1)
  proof (induction rule: reachable.induct)
    case (created i cwd t a ts w)
    show ?case by (intro push_trusted) (simp_all add: trusted_def new_worker_def)
  next
    case (step worker op w worker' w')
    show ?case using step_trusted [OF step.IH step.hyps(2)] .
  qed
  then have all: "\<forall>e \<in> set (w_events worker). we_kind e = EvTrustResolved \<longrightarrow> manual_trust e"
    using assms(2) by (simp add: trusted_def list_all_iff)
  have "list_ex (\<lambda>e. we_kind e = EvTrustResolved) (since_restart (w_events worker))"
    using worker_invariant [OF assms(1)] assms(3) by (simp add: worker_ok_def)
  moreover have "set (since_restart (w_events worker)) \<subseteq> set (w_events worker)"
    unfolding since_restart_def using set_takeWhileD by fastforce
  ultimately show ?thesis using all by (auto simp: list_ex_iff)
qed

theorem trust_needs_approval_witness:
  "\<exists>worker. reachable (\<lambda>_. None) worker \<and> list_ex manual_trust (since_restart (w_events worker))"
proof -
  let ?sj = "\<lambda>_. None :: string option"
  let ?w0 = "fst (push_event ?sj EvSpawning Spawning ''worker created'' None
     (new_worker ''worker_1'' ''/work'' False True 5, empty_world))"
  let ?st1 = "observe ?sj ''trust this folder'' (?w0, empty_world)"
  have screen: "detect_tool_permission_prompt ''trust this folder'' ''trust this folder'' = None"
    "detect_trust_prompt ''trust this folder''" "to_ascii_lowercase ''trust this folder'' = ''trust this folder''"
    by code_simp+
  have blocked: "w_status (fst ?st1) = TrustRequired" "\<not> w_trust_auto_resolve (fst ?st1)"
    using screen by (simp_all add: observe_def new_worker_def observe_trust_prompt_def Let_def)
  then obtain worker w where resolved: "resolve_trust ?sj (w_worker_id (fst ?st1)) ?st1 = (Inr worker, w)"
    by (auto simp: resolve_trust_def succeed_def)
  then have "\<not> w_trust_auto_resolve worker" "w_trust_gate_cleared worker"
    using blocked by (auto simp: resolve_trust_def succeed_def)
  moreover have "reachable ?sj worker"
  proof (rule reachable.step [of _ "fst ?st1" OpResolveTrust "snd ?st1"])
    show "reachable ?sj (fst ?st1)"
      by (rule reachable.step [OF reachable.created, of _ "OpObserve ''trust this folder''" _ _ _ _ _ _ empty_world _ "snd ?st1"])
        (simp del: fst_push_event)
  qed (use resolved in simp)
  ultimately show ?thesis using trust_needs_approval [of ?sj worker] by blast
qed

section \<open>Prompts\<close>

text \<open>
  C19: For a worker that recovers by itself, has its trust gate cleared and a prompt in flight: when the
  screen shows no tool-permission prompt and shows that the prompt went to the wrong place, the worker
  becomes ready with nothing in flight, and sending without a new prompt then delivers the same prompt
  again, after which it is not armed for another replay. (A tool-permission prompt on the screen comes
  first: the worker then waits for it.)
\<close>

theorem misdelivered_prompt_replayed:
  assumes "w_auto_recover worker" and "w_trust_gate_cleared worker"
    and "w_prompt_in_flight worker" and "w_last_prompt worker = Some p"
    and "detect_tool_permission_prompt screen_text (to_ascii_lowercase screen_text) = None"
    and "fst (detect_prompt_misdelivery screen_text (to_ascii_lowercase screen_text) (Some p) (w_cwd worker)
      (w_expected_receipt worker) (ww_fs w)) = Some obs"
  shows "let (worker1, w1) = observe sj screen_text (worker, w) in
    w_status worker1 = ReadyForPrompt \<and> \<not> w_prompt_in_flight worker1 \<and>
    (\<exists>worker2 w2. send_prompt sj i None receipt (worker1, w1) = (Inr worker2, w2)
      \<and> w_last_prompt worker2 = Some p \<and> w_prompt_in_flight worker2 \<and> w_status worker2 = Running
      \<and> w_replay_prompt worker2 = None)"
proof -
  obtain s' where "detect_prompt_misdelivery screen_text (to_ascii_lowercase screen_text) (Some p) (w_cwd worker)
      (w_expected_receipt worker) (ww_fs w) = (Some obs, s')"
    using assms(6) by (metis prod.collapse)
  then have obs: "observe sj screen_text (worker, w) = observe_misdelivery sj obs (worker, w\<lparr>ww_fs := s'\<rparr>)"
    using assms by (simp add: observe_def misdelivery_is_relevant_def on_fs_def)
  obtain worker1 w1 where st1: "observe sj screen_text (worker, w) = (worker1, w1)" by fastforce
  have "worker1 = fst (observe_misdelivery sj obs (worker, w\<lparr>ww_fs := s'\<rparr>))"
    using obs st1 by (metis fst_conv)
  then have "w_status worker1 = ReadyForPrompt" "\<not> w_prompt_in_flight worker1" "w_replay_prompt worker1 = Some p"
    using assms(1,4) by (simp_all add: observe_misdelivery_def Let_def)
  moreover from this have "\<exists>worker2 w2. send_prompt sj i None receipt (worker1, w1) = (Inr worker2, w2)
      \<and> w_last_prompt worker2 = Some p \<and> w_prompt_in_flight worker2 \<and> w_status worker2 = Running
      \<and> w_replay_prompt worker2 = None"
    by (simp add: send_prompt_def next_prompt_def succeed_def)
  ultimately show ?thesis by (simp add: st1)
qed

theorem misdelivered_prompt_replayed_witness:
  "w_status (fst (observe (\<lambda>_. None) ''bash: fix it: command not found''
     ((new_worker ''worker_1'' ''/work'' True True 5)
        \<lparr>w_trust_gate_cleared := True, w_prompt_in_flight := True, w_last_prompt := Some ''fix it''\<rparr>, empty_world)))
   = ReadyForPrompt"
proof -
  let ?screen = "''bash: fix it: command not found''"
  let ?worker = "(new_worker ''worker_1'' ''/work'' True True 5)
        \<lparr>w_trust_gate_cleared := True, w_prompt_in_flight := True, w_last_prompt := Some ''fix it''\<rparr>"
  have none: "detect_tool_permission_prompt ?screen (to_ascii_lowercase ?screen) = None" by code_simp
  have obs: "fst (detect_prompt_misdelivery ?screen (to_ascii_lowercase ?screen) (Some ''fix it'') ''/work'' None
      (ww_fs empty_world)) = Some \<lparr>do_target = TargetShell, do_observed_cwd = None, do_observed_prompt_preview = None\<rparr>"
    by code_simp
  have "let (worker1, w1) = observe (\<lambda>_. None) ?screen (?worker, empty_world) in
    w_status worker1 = ReadyForPrompt \<and> \<not> w_prompt_in_flight worker1 \<and>
    (\<exists>worker2 w2. send_prompt (\<lambda>_. None) ''worker_1'' None None (worker1, w1) = (Inr worker2, w2)
      \<and> w_last_prompt worker2 = Some ''fix it'' \<and> w_prompt_in_flight worker2 \<and> w_status worker2 = Running
      \<and> w_replay_prompt worker2 = None)"
    by (rule misdelivered_prompt_replayed [OF _ _ _ _ none]) (use obs in \<open>simp_all add: new_worker_def\<close>)
  then show ?thesis by (simp add: Let_def case_prod_unfold)
qed

text \<open>Finished is not final: a worker that was terminated becomes ready again when its screen still
  says so, and takes the next prompt.\<close>

theorem terminated_worker_revives:
  "let st = observe sj ''ready for input'' (terminate sj st0) in
    w_status (fst st) = ReadyForPrompt
    \<and> (\<exists>worker w. send_prompt sj i (Some ''go on'') None st = (Inr worker, w) \<and> w_status worker = Running)"
proof -
  have screen: "detect_tool_permission_prompt ''ready for input'' ''ready for input'' = None"
    "\<not> detect_trust_prompt ''ready for input''" "detect_ready_for_prompt ''ready for input'' ''ready for input''"
    "to_ascii_lowercase ''ready for input'' = ''ready for input''" "trim ''go on'' = ''go on''"
    by code_simp+
  have idle: "\<not> w_prompt_in_flight (fst (terminate sj st0))" by (simp add: terminate_def)
  have "w_status (fst (observe sj ''ready for input'' (terminate sj st0))) = ReadyForPrompt"
    using idle screen
    by (simp add: observe_def misdelivery_is_relevant_def observe_ready_def observe_running_def Let_def)
  then show ?thesis
    using screen by (simp add: Let_def send_prompt_def next_prompt_def succeed_def)
qed

section \<open>The registry\<close>

datatype worker_registry_op =
    WorkerCreate string "string list" bool worker_world
  | WorkerChange string worker_op worker_world

fun worker_registry_step :: "snapshot_codec \<Rightarrow> worker_registry_op \<Rightarrow> worker_registry \<Rightarrow> worker_registry" where
  "worker_registry_step sj (WorkerCreate cwd roots auto_recover w) r =
     fst (snd (worker_create sj cwd roots auto_recover r w))"
| "worker_registry_step sj (WorkerChange i op w) r = fst (snd (change_worker (worker_step sj op) i r w))"

fun worker_creates :: "worker_registry_op \<Rightarrow> bool" where
  "worker_creates (WorkerCreate _ _ _ _) \<longleftrightarrow> True"
| "worker_creates (WorkerChange _ _ _) \<longleftrightarrow> False"

lemma observe_parts_id:
  "w_worker_id (fst (observe_tool_prompt sj tp st)) = w_worker_id (fst st)"
  "w_worker_id (fst (observe_trust_prompt sj st)) = w_worker_id (fst st)"
  "w_worker_id (fst (observe_misdelivery sj obs st)) = w_worker_id (fst st)"
  "w_worker_id (observe_running l wk) = w_worker_id wk"
  "w_worker_id (fst (observe_ready sj t l st)) = w_worker_id (fst st)"
  by (simp_all add: observe_tool_prompt_def observe_trust_prompt_def observe_misdelivery_def
      observe_running_def observe_ready_def Let_def)

lemma observe_id: "w_worker_id (fst (observe sj screen_text st)) = w_worker_id (fst st)"
  by (simp add: observe_def Let_def observe_parts_id split: option.split prod.split)

lemma step_id: "worker_step sj op (worker, w) = (Inr worker', w') \<Longrightarrow> w_worker_id worker' = w_worker_id worker"
proof (cases op)
  case (OpObserve screen_text)
  assume "worker_step sj op (worker, w) = (Inr worker', w')"
  then show ?thesis using OpObserve observe_id [of sj screen_text "(worker, w)"] by simp
qed (auto simp: resolve_trust_def send_prompt_def succeed_def restart_def terminate_def observe_completion_def
    observe_startup_timeout_def Let_def case_prod_unfold split: if_splits option.splits)

lemma change_worker_registry:
  "fst (snd (change_worker (worker_step sj op) i r w)) =
     snd (registry_change ''worker not found: '' (\<lambda>worker. fst (worker_step sj op (worker, w))) i r)"
  by (auto simp: change_worker_def registry_change_def registry_get_def split: option.split sum.split prod.split)

lemma worker_create_registry:
  "\<exists>ts t w'. fst (snd (worker_create sj cwd roots auto_recover r w)) =
     snd (registry_create ''worker'' ts (\<lambda>i. fst (push_event sj EvSpawning Spawning ''worker created'' None
       (new_worker i cwd t auto_recover ts, w'))) r)"
  unfolding worker_create_def Let_def case_prod_unfold fst_conv snd_conv by blast

interpretation workers: id_registry "''worker''" w_worker_id "worker_registry_step sj" worker_creates for sj
proof unfold_locales
  fix r :: worker_registry and op
  assume ok: "registry_ok ''worker'' w_worker_id r"
  show "registry_ok ''worker'' w_worker_id (worker_registry_step sj op r)" if "worker_creates op" "reg_counter r \<noteq> - 1"
  proof (cases op)
    case (WorkerCreate cwd roots auto_recover w)
    obtain ts t w' where "fst (snd (worker_create sj cwd roots auto_recover r w)) =
     snd (registry_create ''worker'' ts (\<lambda>i. fst (push_event sj EvSpawning Spawning ''worker created'' None
       (new_worker i cwd t auto_recover ts, w'))) r)" using worker_create_registry by blast
    then show ?thesis
      using WorkerCreate by (simp add: registry_create_ok [OF ok that(2)] new_worker_def)
  qed (use that in simp)
  show "registry_ok ''worker'' w_worker_id (worker_registry_step sj op r)" if "\<not> worker_creates op"
  proof (cases op)
    case (WorkerChange i wop w)
    then show ?thesis
      using registry_change_ok [OF ok, of "\<lambda>worker. fst (worker_step sj wop (worker, w))" "''worker not found: ''" i] step_id
      by (simp add: change_worker_registry) (metis prod.collapse)
  qed (use that in simp)
next
  fix op and r :: worker_registry
  show "reg_counter (worker_registry_step sj op r) = reg_counter r + (if worker_creates op then 1 else 0)"
  proof (cases op)
    case (WorkerCreate cwd roots auto_recover w)
    obtain ts t w' where "fst (snd (worker_create sj cwd roots auto_recover r w)) =
     snd (registry_create ''worker'' ts (\<lambda>i. fst (push_event sj EvSpawning Spawning ''worker created'' None
       (new_worker i cwd t auto_recover ts, w'))) r)" using worker_create_registry by blast
    then show ?thesis using WorkerCreate by (simp add: registry_create_def Let_def)
  next
    case (WorkerChange i wop w)
    then show ?thesis
      by (simp add: change_worker_registry) (simp add: registry_change_def split: option.split sum.split)
  qed
qed

lemma all_workers_ok:
  "registry_get (fold (worker_registry_step sj) ops registry_new) i = Some worker \<Longrightarrow> worker_ok worker"
proof (induction ops arbitrary: i worker rule: rev_induct)
  case Nil
  then show ?case by (simp add: registry_get_def registry_new_def)
next
  case (snoc op ops)
  let ?r = "fold (worker_registry_step sj) ops registry_new"
  show ?case
  proof (cases op)
    case (WorkerCreate cwd roots auto_recover w)
    obtain ts t w' where "fst (snd (worker_create sj cwd roots auto_recover ?r w)) =
     snd (registry_create ''worker'' ts (\<lambda>i. fst (push_event sj EvSpawning Spawning ''worker created'' None
       (new_worker i cwd t auto_recover ts, w'))) ?r)" using worker_create_registry by blast
    then show ?thesis
      using snoc WorkerCreate created_ok
      by (auto simp: registry_get_def registry_create_def Let_def bt_get_insert simp del: fst_push_event split: if_splits)
  next
    case (WorkerChange j wop w)
    then show ?thesis
      using snoc worker_step_ok [where sj = sj and op = wop and w = w]
      by (auto simp: change_worker_registry registry_change_def registry_get_def bt_get_adjust
          simp del: worker_step.simps split: option.splits sum.splits if_splits)
        (metis prod.collapse)
  qed
qed

text \<open>However the registry is used, up to \<open>2^64 - 1\<close> creations, every worker in it is found under its
  own id and is in order.\<close>

theorem registered_workers_ok:
  assumes "length ops < 2 ^ 64"
    and "registry_get (fold (worker_registry_step sj) ops registry_new) i = Some worker"
  shows "w_worker_id worker = i \<and> worker_ok worker"
proof -
  have "length (filter worker_creates ops) < 2 ^ 64"
    using assms(1) length_filter_le [of worker_creates ops] by linarith
  then have "registry_ok ''worker'' w_worker_id (fold (worker_registry_step sj) ops registry_new)"
    using workers.run_ok by blast
  then show ?thesis
    using assms(2) all_workers_ok by (auto simp: registry_ok_def registry_get_def)
qed

theorem registered_workers_ok_witness:
  "\<exists>worker. registry_get (fold (worker_registry_step (\<lambda>_. None)) [WorkerCreate ''/work'' [] True empty_world] registry_new)
     ''worker_00000000_1'' = Some worker \<and> w_worker_id worker = ''worker_00000000_1'' \<and> worker_ok worker"
proof -
  let ?ops = "[WorkerCreate ''/work'' [] True empty_world]"
  have "registry_get (fold (worker_registry_step (\<lambda>_. None)) ?ops registry_new) ''worker_00000000_1'' \<noteq> None"
    by code_simp
  then obtain worker where "registry_get (fold (worker_registry_step (\<lambda>_. None)) ?ops registry_new) ''worker_00000000_1'' = Some worker"
    by blast
  with registered_workers_ok [OF _ this] show ?thesis by auto
qed

end
