(* ===== verification/RefRecovery.thy ===== *)
theory RefRecovery
  imports RefWorker
begin

text \<open>
  Recovery recipes: \<open>claw-rust/crates/runtime/src/recovery_recipes.rs\<close>. The table of attempts is a
  map, absent entries count 0.
\<close>

section \<open>Scenarios and recipes\<close>

datatype failure_scenario = TrustPromptUnresolved | PromptMisdelivery | StaleBranchScenario
  | CompileRedCrossCrate | McpHandshakeFailure | PartialPluginStartup | ProviderFailure

definition all_scenarios :: "failure_scenario list" where
  "all_scenarios = [TrustPromptUnresolved, PromptMisdelivery, StaleBranchScenario, CompileRedCrossCrate,
     McpHandshakeFailure, PartialPluginStartup, ProviderFailure]"

fun from_worker_failure_kind :: "failure_kind \<Rightarrow> failure_scenario" where
  "from_worker_failure_kind TrustGate = TrustPromptUnresolved"
| "from_worker_failure_kind ToolPermissionGate = TrustPromptUnresolved"
| "from_worker_failure_kind PromptDeliveryFailure = PromptMisdelivery"
| "from_worker_failure_kind Protocol = McpHandshakeFailure"
| "from_worker_failure_kind Provider = ProviderFailure"
| "from_worker_failure_kind NoEvidenceFailure = ProviderFailure"

fun show_scenario :: "failure_scenario \<Rightarrow> string" where
  "show_scenario TrustPromptUnresolved = ''trust_prompt_unresolved''"
| "show_scenario PromptMisdelivery = ''prompt_misdelivery''"
| "show_scenario StaleBranchScenario = ''stale_branch''"
| "show_scenario CompileRedCrossCrate = ''compile_red_cross_crate''"
| "show_scenario McpHandshakeFailure = ''mcp_handshake_failure''"
| "show_scenario PartialPluginStartup = ''partial_plugin_startup''"
| "show_scenario ProviderFailure = ''provider_failure''"

datatype recovery_step =
    AcceptTrustPrompt
  | RedirectPromptToAgent
  | RebaseBranch
  | CleanBuild
  | RetryMcpHandshake u64
  | RestartPlugin string
  | RestartWorker
  | EscalateToHuman string

datatype escalation_policy = AlertHuman | LogAndContinue | EscalationAbort

record recovery_recipe =
  rr_scenario :: failure_scenario
  rr_steps :: "recovery_step list"
  rr_max_attempts :: u32
  rr_escalation_policy :: escalation_policy

datatype recovery_result =
    Recovered u32
  | PartialRecovery "recovery_step list" "recovery_step list"
  | EscalationRequired string

datatype recovery_event =
    RecoveryAttempted failure_scenario recovery_recipe recovery_result
  | RecoverySucceeded
  | RecoveryFailed
  | Escalated

record recovery_context =
  rc_attempts :: "failure_scenario \<rightharpoonup> u32"
  rc_events :: "recovery_event list"
  rc_fail_at_step :: "nat option"

definition recovery_context_new :: recovery_context where
  "recovery_context_new = \<lparr>rc_attempts = Map.empty, rc_events = [], rc_fail_at_step = None\<rparr>"

definition with_fail_at_step :: "nat \<Rightarrow> recovery_context \<Rightarrow> recovery_context" where
  "with_fail_at_step index ctx = ctx\<lparr>rc_fail_at_step := Some index\<rparr>"

definition attempt_count :: "recovery_context \<Rightarrow> failure_scenario \<Rightarrow> u32" where
  "attempt_count ctx scenario = unwrap_or 0 (rc_attempts ctx scenario)"

definition recipe_for :: "failure_scenario \<Rightarrow> recovery_recipe" where
  "recipe_for scenario =
     (let recipe = (\<lambda>steps policy. \<lparr>rr_scenario = scenario, rr_steps = steps, rr_max_attempts = 1,
        rr_escalation_policy = policy\<rparr>)
      in case scenario of
           TrustPromptUnresolved \<Rightarrow> recipe [AcceptTrustPrompt] AlertHuman
         | PromptMisdelivery \<Rightarrow> recipe [RedirectPromptToAgent] AlertHuman
         | StaleBranchScenario \<Rightarrow> recipe [RebaseBranch, CleanBuild] AlertHuman
         | CompileRedCrossCrate \<Rightarrow> recipe [CleanBuild] AlertHuman
         | McpHandshakeFailure \<Rightarrow> recipe [RetryMcpHandshake 5000] EscalationAbort
         | PartialPluginStartup \<Rightarrow> recipe [RestartPlugin ''stalled'', RetryMcpHandshake 3000] LogAndContinue
         | ProviderFailure \<Rightarrow> recipe [RestartWorker] AlertHuman)"

section \<open>Attempts\<close>

text \<open>The loop over the steps: those executed, and whether it stopped at the failing index.\<close>

fun execute_steps :: "nat option \<Rightarrow> nat \<Rightarrow> recovery_step list \<Rightarrow> recovery_step list \<Rightarrow> recovery_step list \<times> bool" where
  "execute_steps fail_index i executed [] = (executed, False)"
| "execute_steps fail_index i executed (s # ss) =
     (if fail_index = Some i then (executed, True) else execute_steps fail_index (Suc i) (executed @ [s]) ss)"

definition attempt_recovery :: "failure_scenario \<Rightarrow> recovery_context \<Rightarrow> recovery_result \<times> recovery_context" where
  "attempt_recovery scenario ctx =
     (let recipe = recipe_for scenario;
          count = attempt_count ctx scenario
      in if rr_max_attempts recipe \<le> count then
           (let result = EscalationRequired (''max recovery attempts ('' @ show_nat (unat (rr_max_attempts recipe))
                  @ '') exceeded for '' @ show_scenario scenario)
            in (result, ctx\<lparr>rc_attempts := (rc_attempts ctx)(scenario \<mapsto> count),
                  rc_events := rc_events ctx @ [RecoveryAttempted scenario recipe result, Escalated]\<rparr>))
         else
           (let (executed, failed) = execute_steps (rc_fail_at_step ctx) 0 [] (rr_steps recipe);
                result = (if failed then
                    (if executed = [] then EscalationRequired (''recovery failed at first step for '' @ show_scenario scenario)
                     else PartialRecovery executed (drop (length executed) (rr_steps recipe)))
                  else Recovered (of_nat (length (rr_steps recipe))));
                final = (case result of Recovered _ \<Rightarrow> RecoverySucceeded | PartialRecovery _ _ \<Rightarrow> RecoveryFailed
                  | EscalationRequired _ \<Rightarrow> Escalated)
            in (result, ctx\<lparr>rc_attempts := (rc_attempts ctx)(scenario \<mapsto> count + 1),
                  rc_events := rc_events ctx @ [RecoveryAttempted scenario recipe result, final]\<rparr>)))"

section \<open>One attempt before escalation\<close>

fun attempt_all :: "failure_scenario list \<Rightarrow> recovery_context \<Rightarrow> recovery_result list \<times> recovery_context" where
  "attempt_all [] ctx = ([], ctx)"
| "attempt_all (s # ss) ctx =
     (let (result, ctx1) = attempt_recovery s ctx; (results, ctx2) = attempt_all ss ctx1 in (result # results, ctx2))"

text \<open>What one attempt at the steps gives, with the simulated failure at \<open>fail_at\<close>.\<close>

definition first_attempt :: "nat option \<Rightarrow> failure_scenario \<Rightarrow> recovery_result" where
  "first_attempt fail_at s =
     (let steps = rr_steps (recipe_for s) in
      case fail_at of
        None \<Rightarrow> Recovered (of_nat (length steps))
      | Some 0 \<Rightarrow> EscalationRequired (''recovery failed at first step for '' @ show_scenario s)
      | Some k \<Rightarrow> if k < length steps then PartialRecovery (take k steps) (drop k steps)
                 else Recovered (of_nat (length steps)))"

lemma execute_steps_eq:
  "execute_steps f i ex ss =
    (case f of Some k \<Rightarrow> if i \<le> k \<and> k < i + length ss then (ex @ take (k - i) ss, True) else (ex @ ss, False)
     | None \<Rightarrow> (ex @ ss, False))"
proof (induction ss arbitrary: i ex)
  case (Cons s ss)
  show ?case
  proof (cases f)
    case (Some k)
    then show ?thesis using Cons [of "Suc i" "ex @ [s]"] by (auto simp: take_Cons')
  qed (use Cons in simp)
qed (auto split: option.split)

lemma recipe_max [simp]: "rr_max_attempts (recipe_for s) = 1"
  by (cases s) (simp_all add: recipe_for_def)

lemma recipe_steps [simp]: "rr_steps (recipe_for s) \<noteq> []"
  by (cases s) (simp_all add: recipe_for_def)

lemma first_attempt_eq:
  "first_attempt fail_at s = (let (executed, failed) = execute_steps fail_at 0 [] (rr_steps (recipe_for s)) in
      if failed then
        (if executed = [] then EscalationRequired (''recovery failed at first step for '' @ show_scenario s)
         else PartialRecovery executed (drop (length executed) (rr_steps (recipe_for s))))
      else Recovered (of_nat (length (rr_steps (recipe_for s)))))"
  using recipe_steps [of s]
  by (auto simp: first_attempt_def execute_steps_eq min_def Let_def split: option.split nat.split)

definition exceeded :: "failure_scenario \<Rightarrow> recovery_result" where
  "exceeded s = EscalationRequired (''max recovery attempts (1) exceeded for '' @ show_scenario s)"

lemma attempt_recovery_eq:
  "fst (attempt_recovery s ctx) = (if 1 \<le> attempt_count ctx s then exceeded s else first_attempt (rc_fail_at_step ctx) s)"
  "attempt_count (snd (attempt_recovery s ctx)) t =
     (if t = s then (if 1 \<le> attempt_count ctx s then attempt_count ctx s else attempt_count ctx s + 1) else attempt_count ctx t)"
  "rc_fail_at_step (snd (attempt_recovery s ctx)) = rc_fail_at_step ctx"
  "\<exists>e \<in> {RecoverySucceeded, RecoveryFailed, Escalated}.
     rc_events (snd (attempt_recovery s ctx)) = rc_events ctx @ [RecoveryAttempted s (recipe_for s) (fst (attempt_recovery s ctx)), e]"
proof -
  have one: "show_nat (unat (1 :: u32)) = ''1''" by code_simp
  show "fst (attempt_recovery s ctx) = (if 1 \<le> attempt_count ctx s then exceeded s else first_attempt (rc_fail_at_step ctx) s)"
    using one by (simp add: attempt_recovery_def Let_def exceeded_def first_attempt_eq case_prod_unfold)
  show "attempt_count (snd (attempt_recovery s ctx)) t =
     (if t = s then (if 1 \<le> attempt_count ctx s then attempt_count ctx s else attempt_count ctx s + 1) else attempt_count ctx t)"
    "rc_fail_at_step (snd (attempt_recovery s ctx)) = rc_fail_at_step ctx"
    "\<exists>e \<in> {RecoverySucceeded, RecoveryFailed, Escalated}.
     rc_events (snd (attempt_recovery s ctx)) = rc_events ctx @ [RecoveryAttempted s (recipe_for s) (fst (attempt_recovery s ctx)), e]"
    by (simp_all add: attempt_recovery_def Let_def attempt_count_def case_prod_unfold)
qed

lemma attempt_count_0: "\<not> 1 \<le> (n :: u32) \<longleftrightarrow> n = 0"
  by (simp add: not_le)

definition is_attempt :: "recovery_event \<Rightarrow> bool" where
  "is_attempt e \<longleftrightarrow> (case e of RecoveryAttempted _ _ _ \<Rightarrow> True | _ \<Rightarrow> False)"

lemma attempt_all_from:
  "let (results, ctx') = attempt_all ss ctx in
    results = map (\<lambda>i. if ss ! i \<in> set (take i ss) \<or> 1 \<le> attempt_count ctx (ss ! i) then exceeded (ss ! i)
      else first_attempt (rc_fail_at_step ctx) (ss ! i)) [0..<length ss]
    \<and> filter is_attempt (rc_events ctx') = filter is_attempt (rc_events ctx)
        @ map2 (\<lambda>s x. RecoveryAttempted s (recipe_for s) x) ss results"
proof (induction ss arbitrary: ctx)
  case (Cons s ss)
  obtain r ctx1 where first: "attempt_recovery s ctx = (r, ctx1)" by fastforce
  obtain rs ctx2 where rest: "attempt_all ss ctx1 = (rs, ctx2)" by fastforce
  note eq = attempt_recovery_eq [of s ctx, unfolded first fst_conv snd_conv]
  have count: "1 \<le> attempt_count ctx1 t \<longleftrightarrow> t = s \<or> 1 \<le> attempt_count ctx t" for t
    using eq(2) [of t] attempt_count_0 [of "attempt_count ctx s"] by auto
  have rs: "rs = map (\<lambda>i. if ss ! i \<in> set (take i ss) \<or> 1 \<le> attempt_count ctx1 (ss ! i) then exceeded (ss ! i)
      else first_attempt (rc_fail_at_step ctx) (ss ! i)) [0..<length ss]"
    and log: "filter is_attempt (rc_events ctx2) = filter is_attempt (rc_events ctx1)
        @ map2 (\<lambda>s x. RecoveryAttempted s (recipe_for s) x) ss rs"
    using Cons [of ctx1] rest eq(3) by simp_all
  have "r # rs = map (\<lambda>i. if (s # ss) ! i \<in> set (take i (s # ss)) \<or> 1 \<le> attempt_count ctx ((s # ss) ! i)
      then exceeded ((s # ss) ! i) else first_attempt (rc_fail_at_step ctx) ((s # ss) ! i)) [0..<length (s # ss)]"
    using eq(1) unfolding rs count length_Cons map_upt_Suc by auto
  moreover have "filter is_attempt (rc_events ctx1) = filter is_attempt (rc_events ctx) @ [RecoveryAttempted s (recipe_for s) r]"
    using eq(4) by (auto simp: is_attempt_def)
  then have "filter is_attempt (rc_events ctx2) = filter is_attempt (rc_events ctx)
      @ map2 (\<lambda>s x. RecoveryAttempted s (recipe_for s) x) (s # ss) (r # rs)"
    using log by simp
  moreover have "attempt_all (s # ss) ctx = (r # rs, ctx2)" by (simp add: first rest)
  ultimately show ?case by (simp only: prod.case simp_thms Let_def)
qed simp

text \<open>In any sequence of attempts each scenario is recovered automatically once: its first attempt
  runs the recipe's steps up to the failing one, every later attempt escalates, and each attempt is
  logged with its result.\<close>

theorem one_attempt_per_scenario:
  "let (results, ctx) = attempt_all ss (recovery_context_new\<lparr>rc_fail_at_step := fail_at\<rparr>) in
    results = map (\<lambda>i. if ss ! i \<in> set (take i ss) then exceeded (ss ! i) else first_attempt fail_at (ss ! i)) [0..<length ss]
    \<and> filter is_attempt (rc_events ctx) = map2 (\<lambda>s x. RecoveryAttempted s (recipe_for s) x) ss results"
  using attempt_all_from [of ss "recovery_context_new\<lparr>rc_fail_at_step := fail_at\<rparr>"]
  by (simp add: recovery_context_new_def attempt_count_def case_prod_unfold Let_def)

end
