(* ===== verification/RefLifecycle.thy ===== *)
theory RefLifecycle
  imports RefLanes
begin

text \<open>
  Lifecycles of the reference runtime: the phases of an MCP server
  (\<open>mcp_lifecycle_hardened.rs\<close>) and the health of a plugin's servers (\<open>plugin_lifecycle.rs\<close>), both
  of \<open>claw-rust/crates/runtime/src\<close>. Clock readings and measured durations are arguments.
\<close>

section \<open>Phases\<close>

datatype mcp_phase = ConfigLoad | ServerRegistration | SpawnConnect | InitializeHandshake | ToolDiscovery
  | ResourceDiscovery | PhaseReady | Invocation | ErrorSurfacing | PhaseShutdown | Cleanup

definition all_phases :: "mcp_phase list" where
  "all_phases = [ConfigLoad, ServerRegistration, SpawnConnect, InitializeHandshake, ToolDiscovery,
     ResourceDiscovery, PhaseReady, Invocation, ErrorSurfacing, PhaseShutdown, Cleanup]"

fun phase_rank :: "mcp_phase \<Rightarrow> nat" where
  "phase_rank ConfigLoad = 0"
| "phase_rank ServerRegistration = 1"
| "phase_rank SpawnConnect = 2"
| "phase_rank InitializeHandshake = 3"
| "phase_rank ToolDiscovery = 4"
| "phase_rank ResourceDiscovery = 5"
| "phase_rank PhaseReady = 6"
| "phase_rank Invocation = 7"
| "phase_rank ErrorSurfacing = 8"
| "phase_rank PhaseShutdown = 9"
| "phase_rank Cleanup = 10"

text \<open>The order of the variants, for the maps keyed by phases.\<close>

instantiation mcp_phase :: linorder
begin

definition less_eq_mcp_phase :: "mcp_phase \<Rightarrow> mcp_phase \<Rightarrow> bool" where
  "less_eq_mcp_phase a b \<longleftrightarrow> phase_rank a \<le> phase_rank b"

definition less_mcp_phase :: "mcp_phase \<Rightarrow> mcp_phase \<Rightarrow> bool" where
  "less_mcp_phase a b \<longleftrightarrow> phase_rank a < phase_rank b"

instance
proof
  fix a b :: mcp_phase
  show "a \<le> b \<Longrightarrow> b \<le> a \<Longrightarrow> a = b"
    by (cases a; cases b) (simp_all add: less_eq_mcp_phase_def)
qed (auto simp: less_eq_mcp_phase_def less_mcp_phase_def)

end

fun show_phase :: "mcp_phase \<Rightarrow> string" where
  "show_phase ConfigLoad = ''config_load''"
| "show_phase ServerRegistration = ''server_registration''"
| "show_phase SpawnConnect = ''spawn_connect''"
| "show_phase InitializeHandshake = ''initialize_handshake''"
| "show_phase ToolDiscovery = ''tool_discovery''"
| "show_phase ResourceDiscovery = ''resource_discovery''"
| "show_phase PhaseReady = ''ready''"
| "show_phase Invocation = ''invocation''"
| "show_phase ErrorSurfacing = ''error_surfacing''"
| "show_phase PhaseShutdown = ''shutdown''"
| "show_phase Cleanup = ''cleanup''"

record mcp_error =
  me_phase :: mcp_phase
  me_server_name :: "string option"
  me_message :: string
  me_context :: "(string, string) btree"
  me_recoverable :: bool
  me_timestamp :: u64

datatype phase_result =
    PhaseSuccess mcp_phase nat
  | PhaseFailure mcp_phase mcp_error
  | PhaseTimeout mcp_phase nat mcp_error

fun result_phase :: "phase_result \<Rightarrow> mcp_phase" where
  "result_phase (PhaseSuccess phase _) = phase"
| "result_phase (PhaseFailure phase _) = phase"
| "result_phase (PhaseTimeout phase _ _) = phase"

record lifecycle =
  ls_current_phase :: "mcp_phase option"
  ls_phase_errors :: "(mcp_phase, mcp_error list) btree"
  ls_phase_timestamps :: "(mcp_phase, u64) btree"
  ls_phase_results :: "phase_result list"

definition lifecycle_new :: lifecycle where
  "lifecycle_new = \<lparr>ls_current_phase = None, ls_phase_errors = [], ls_phase_timestamps = [], ls_phase_results = []\<rparr>"

definition errors_for_phase :: "lifecycle \<Rightarrow> mcp_phase \<Rightarrow> mcp_error list" where
  "errors_for_phase st phase = unwrap_or [] (bt_get (ls_phase_errors st) phase)"

definition phase_timestamp :: "lifecycle \<Rightarrow> mcp_phase \<Rightarrow> u64 option" where
  "phase_timestamp st phase = bt_get (ls_phase_timestamps st) phase"

definition record_phase :: "u64 \<Rightarrow> mcp_phase \<Rightarrow> lifecycle \<Rightarrow> lifecycle" where
  "record_phase now phase st =
     st\<lparr>ls_current_phase := Some phase, ls_phase_timestamps := bt_insert phase now (ls_phase_timestamps st)\<rparr>"

definition record_error :: "mcp_error \<Rightarrow> lifecycle \<Rightarrow> lifecycle" where
  "record_error e st =
     st\<lparr>ls_phase_errors := bt_insert (me_phase e) (errors_for_phase st (me_phase e) @ [e]) (ls_phase_errors st)\<rparr>"

definition record_result :: "phase_result \<Rightarrow> lifecycle \<Rightarrow> lifecycle" where
  "record_result result st = st\<lparr>ls_phase_results := ls_phase_results st @ [result]\<rparr>"

definition can_resume_after_error :: "lifecycle \<Rightarrow> bool" where
  "can_resume_after_error st \<longleftrightarrow>
     ls_phase_results st \<noteq> [] \<and>
     (case last (ls_phase_results st) of
        PhaseFailure _ e \<Rightarrow> me_recoverable e
      | PhaseTimeout _ _ e \<Rightarrow> me_recoverable e
      | PhaseSuccess _ _ \<Rightarrow> False)"

section \<open>The validator\<close>

definition direct_transitions :: "(mcp_phase \<times> mcp_phase) list" where
  "direct_transitions =
     [(ConfigLoad, ServerRegistration),
      (ServerRegistration, SpawnConnect),
      (SpawnConnect, InitializeHandshake),
      (InitializeHandshake, ToolDiscovery),
      (ToolDiscovery, ResourceDiscovery),
      (ToolDiscovery, PhaseReady),
      (ResourceDiscovery, PhaseReady),
      (PhaseReady, Invocation),
      (Invocation, PhaseReady),
      (ErrorSurfacing, PhaseReady),
      (ErrorSurfacing, PhaseShutdown),
      (PhaseShutdown, Cleanup)]"

definition validate_phase_transition :: "mcp_phase \<Rightarrow> mcp_phase \<Rightarrow> bool" where
  "validate_phase_transition src dst \<longleftrightarrow>
     (if (src, dst) \<in> set direct_transitions then True
      else if dst = PhaseShutdown then src \<noteq> Cleanup
      else if dst = ErrorSurfacing then src \<noteq> Cleanup \<and> src \<noteq> PhaseShutdown
      else False)"

definition record_failure :: "u64 \<Rightarrow> mcp_error \<Rightarrow> lifecycle \<Rightarrow> phase_result \<times> lifecycle" where
  "record_failure now e st =
     (let result = PhaseFailure (me_phase e) e
      in (result, record_result result (record_phase now ErrorSurfacing (record_error e st))))"

definition refusal :: "u64 \<Rightarrow> mcp_phase \<Rightarrow> string \<Rightarrow> (string \<times> string) list \<Rightarrow> mcp_error" where
  "refusal now phase message context_entries =
     \<lparr>me_phase = phase, me_server_name = None, me_message = message, me_context = bt_of_list context_entries,
      me_recoverable = False, me_timestamp = now\<rparr>"

text \<open>\<open>now1\<close> dates an error, \<open>now2\<close> the phase; \<open>elapsed\<close> is the measured duration.\<close>

definition run_phase :: "u64 \<Rightarrow> u64 \<Rightarrow> nat \<Rightarrow> mcp_phase \<Rightarrow> lifecycle \<Rightarrow> phase_result \<times> lifecycle" where
  "run_phase now1 now2 elapsed phase st =
     (let success = (let st1 = record_phase now2 phase st; result = PhaseSuccess phase elapsed
            in (result, record_result result st1))
      in case ls_current_phase st of
           Some current \<Rightarrow>
             if current = ErrorSurfacing \<and> phase = PhaseReady \<and> \<not> can_resume_after_error st then
               record_failure now2 (refusal now1 phase
                 ''cannot return to ready after a non-recoverable MCP lifecycle failure''
                 [(''from'', show_phase current), (''to'', show_phase phase)]) st
             else if \<not> validate_phase_transition current phase then
               record_failure now2 (refusal now1 phase
                 (''invalid MCP lifecycle transition from '' @ show_phase current @ '' to '' @ show_phase phase)
                 [(''from'', show_phase current), (''to'', show_phase phase)]) st
             else success
         | None \<Rightarrow>
             if phase \<noteq> ConfigLoad then
               record_failure now2 (refusal now1 phase (''invalid initial MCP lifecycle phase '' @ show_phase phase)
                 [(''phase'', show_phase phase)]) st
             else success)"

definition record_timeout ::
  "u64 \<Rightarrow> u64 \<Rightarrow> mcp_phase \<Rightarrow> nat \<Rightarrow> string option \<Rightarrow> (string, string) btree \<Rightarrow> lifecycle \<Rightarrow> phase_result \<times> lifecycle" where
  "record_timeout now1 now2 phase waited server_name ctx st =
     (let waited_ms = show_nat (waited div 10 ^ 6);
          e = \<lparr>me_phase = phase, me_server_name = server_name,
            me_message = ''MCP lifecycle phase '' @ show_phase phase @ '' timed out after '' @ waited_ms @ '' ms'',
            me_context = bt_insert ''waited_ms'' waited_ms ctx, me_recoverable = True, me_timestamp = now1\<rparr>;
          result = PhaseTimeout phase waited e
      in (result, record_result result (record_phase now2 ErrorSurfacing (record_error e st))))"

section \<open>Degraded reports\<close>

definition dedupe_sorted :: "string list \<Rightarrow> string list" where
  "dedupe_sorted values = dedup (sort values)"

record failed_server =
  mfs_server_name :: string
  mfs_phase :: mcp_phase
  mfs_error :: mcp_error

record degraded_report =
  dr_working_servers :: "string list"
  dr_failed_servers :: "failed_server list"
  dr_available_tools :: "string list"
  dr_missing_tools :: "string list"

definition degraded_report_new ::
  "string list \<Rightarrow> failed_server list \<Rightarrow> string list \<Rightarrow> string list \<Rightarrow> degraded_report" where
  "degraded_report_new working_servers failed_servers available_tools expected_tools =
     (let available_tools = dedupe_sorted available_tools in
      \<lparr>dr_working_servers = dedupe_sorted working_servers, dr_failed_servers = failed_servers,
       dr_available_tools = available_tools,
       dr_missing_tools = filter (\<lambda>tool. tool \<notin> set available_tools) (dedupe_sorted expected_tools)\<rparr>)"

section \<open>Plugins\<close>

datatype server_status = ServerHealthy | ServerDegraded | ServerFailed

record server_health =
  sh_server_name :: string
  sh_status :: server_status
  sh_capabilities :: "string list"
  sh_last_error :: "string option"

datatype plugin_state = Unconfigured | Validated | Starting | PluginHealthy
  | PluginDegraded "string list" "server_health list" | PluginFailed string | ShuttingDown | PluginStopped

definition state_from_servers :: "server_health list \<Rightarrow> plugin_state" where
  "state_from_servers servers =
     (if servers = [] then PluginFailed ''no servers available''
      else let
        healthy_servers = map sh_server_name (filter (\<lambda>s. sh_status s \<noteq> ServerFailed) servers);
        failed_servers = filter (\<lambda>s. sh_status s = ServerFailed) servers;
        has_degraded_server = list_ex (\<lambda>s. sh_status s = ServerDegraded) servers
      in if failed_servers = [] \<and> \<not> has_degraded_server then PluginHealthy
         else if healthy_servers = [] then
           PluginFailed (''all '' @ show_nat (length failed_servers) @ '' servers failed'')
         else PluginDegraded healthy_servers failed_servers)"

record plugin_healthcheck =
  ph_plugin_name :: string
  ph_state :: plugin_state
  ph_servers :: "server_health list"
  ph_last_check :: u64

definition healthcheck_new :: "u64 \<Rightarrow> string \<Rightarrow> server_health list \<Rightarrow> plugin_healthcheck" where
  "healthcheck_new now plugin_name servers =
     \<lparr>ph_plugin_name = plugin_name, ph_state = state_from_servers servers, ph_servers = servers, ph_last_check = now\<rparr>"

record degraded_mode =
  dm_available_tools :: "string list"
  dm_unavailable_tools :: "string list"
  dm_reason :: string

text \<open>Of the discovery, the names of the tools it found.\<close>

definition degraded_mode_of :: "plugin_healthcheck \<Rightarrow> string list \<Rightarrow> degraded_mode option" where
  "degraded_mode_of check tool_names =
     (case ph_state check of
        PluginDegraded healthy_servers failed_servers \<Rightarrow>
          Some \<lparr>dm_available_tools = tool_names,
            dm_unavailable_tools = concat (map sh_capabilities failed_servers),
            dm_reason = show_nat (length healthy_servers) @ '' servers healthy, ''
              @ show_nat (length failed_servers) @ '' servers failed''\<rparr>
      | _ \<Rightarrow> None)"

section \<open>What the validator guarantees\<close>

datatype lifecycle_op =
    RunPhase u64 u64 nat mcp_phase
  | Fail u64 mcp_error
  | TimeOut u64 u64 mcp_phase nat "string option" "(string, string) btree"

fun lifecycle_step :: "lifecycle_op \<Rightarrow> lifecycle \<Rightarrow> lifecycle" where
  "lifecycle_step (RunPhase now1 now2 elapsed phase) st = snd (run_phase now1 now2 elapsed phase st)"
| "lifecycle_step (Fail now e) st = snd (record_failure now e st)"
| "lifecycle_step (TimeOut now1 now2 phase waited server ctx) st = snd (record_timeout now1 now2 phase waited server ctx st)"

lemmas lifecycle_defs = run_phase_def record_failure_def record_timeout_def record_phase_def record_error_def
  record_result_def refusal_def Let_def

fun failed_result :: "phase_result \<Rightarrow> bool" where
  "failed_result (PhaseSuccess _ _) \<longleftrightarrow> False"
| "failed_result _ \<longleftrightarrow> True"

fun recoverable_result :: "phase_result \<Rightarrow> bool" where
  "recoverable_result (PhaseSuccess _ _) \<longleftrightarrow> False"
| "recoverable_result (PhaseFailure _ e) \<longleftrightarrow> me_recoverable e"
| "recoverable_result (PhaseTimeout _ _ e) \<longleftrightarrow> me_recoverable e"

text \<open>Where a lifecycle stands after its results: the last phase that ran, or error surfacing.\<close>

definition phase_after :: "phase_result list \<Rightarrow> mcp_phase option" where
  "phase_after results = (if results = [] then None
     else Some (if failed_result (last results) then ErrorSurfacing else result_phase (last results)))"

text \<open>A phase that ran was the first one, or a valid step from where the results before it ended,
  and ready was reached from error surfacing only right after a recoverable failure.\<close>

fun results_ok :: "phase_result list \<Rightarrow> phase_result list \<Rightarrow> bool" where
  "results_ok past [] \<longleftrightarrow> True"
| "results_ok past (r # rs) \<longleftrightarrow>
     (failed_result r \<or>
       (case phase_after past of
          None \<Rightarrow> result_phase r = ConfigLoad
        | Some p \<Rightarrow> validate_phase_transition p (result_phase r)
            \<and> (p = ErrorSurfacing \<and> result_phase r = PhaseReady \<longrightarrow> recoverable_result (last past))))
     \<and> results_ok (past @ [r]) rs"

lemma results_ok_append: "results_ok past (rs @ rs') \<longleftrightarrow> results_ok past rs \<and> results_ok (past @ rs) rs'"
  by (induction rs arbitrary: past) auto

definition lifecycle_ok :: "lifecycle \<Rightarrow> bool" where
  "lifecycle_ok st \<longleftrightarrow> ls_current_phase st = phase_after (ls_phase_results st) \<and> results_ok [] (ls_phase_results st)"

lemma can_resume_iff:
  "can_resume_after_error st \<longleftrightarrow> ls_phase_results st \<noteq> [] \<and> recoverable_result (last (ls_phase_results st))"
  by (auto simp: can_resume_after_error_def split: phase_result.split)

lemma failed_step_ok:
  assumes "lifecycle_ok st" and "failed_result r"
    and "ls_phase_results st' = ls_phase_results st @ [r]" and "ls_current_phase st' = Some ErrorSurfacing"
  shows "lifecycle_ok st'"
  using assms by (simp add: lifecycle_ok_def results_ok_append phase_after_def)

lemma run_phase_cases:
  "(\<exists>r. failed_result r \<and> \<not> recoverable_result r
      \<and> ls_phase_results (snd (run_phase now1 now2 elapsed phase st)) = ls_phase_results st @ [r]
      \<and> ls_current_phase (snd (run_phase now1 now2 elapsed phase st)) = Some ErrorSurfacing)
   \<or> (ls_phase_results (snd (run_phase now1 now2 elapsed phase st)) = ls_phase_results st @ [PhaseSuccess phase elapsed]
      \<and> ls_current_phase (snd (run_phase now1 now2 elapsed phase st)) = Some phase
      \<and> (case ls_current_phase st of None \<Rightarrow> phase = ConfigLoad
         | Some p \<Rightarrow> validate_phase_transition p phase
            \<and> (p = ErrorSurfacing \<and> phase = PhaseReady \<longrightarrow> can_resume_after_error st)))"
  by (auto simp: lifecycle_defs split: option.split)

lemma lifecycle_step_ok:
  assumes "lifecycle_ok st"
  shows "lifecycle_ok (lifecycle_step op st)"
proof (cases op)
  case (RunPhase now1 now2 elapsed phase)
  then show ?thesis
    using run_phase_cases [of now1 now2 elapsed phase st] assms
    by (auto simp: lifecycle_ok_def results_ok_append phase_after_def can_resume_iff split: option.splits)
next
  case (Fail now e)
  show ?thesis
    by (rule failed_step_ok [OF assms, of "PhaseFailure (me_phase e) e"]) (simp_all add: Fail lifecycle_defs)
next
  case (TimeOut now1 now2 phase waited server ctx)
  show ?thesis
    by (rule failed_step_ok [OF assms, of "fst (record_timeout now1 now2 phase waited server ctx st)"])
      (simp_all add: TimeOut lifecycle_defs)
qed

text \<open>However phases are run and failures recorded, every phase that succeeds is the configuration
  first or a valid step from where the lifecycle stood, and ready follows error surfacing only right
  after a recoverable failure.\<close>

theorem lifecycle_results_valid:
  "results_ok [] (ls_phase_results (fold lifecycle_step ops lifecycle_new))
   \<and> ls_current_phase (fold lifecycle_step ops lifecycle_new)
       = phase_after (ls_phase_results (fold lifecycle_step ops lifecycle_new))"
proof -
  have "lifecycle_ok (fold lifecycle_step ops lifecycle_new)"
    by (induction ops rule: rev_induct)
      (simp_all add: lifecycle_step_ok, simp add: lifecycle_ok_def lifecycle_new_def phase_after_def)
  then show ?thesis by (simp add: lifecycle_ok_def)
qed

text \<open>After a failure that is not recoverable, running phases alone never leads back.\<close>

definition wound_down :: "lifecycle \<Rightarrow> bool" where
  "wound_down st \<longleftrightarrow> \<not> can_resume_after_error st
     \<and> ls_current_phase st \<in> {Some ErrorSurfacing, Some PhaseShutdown, Some Cleanup}"

lemma run_wound_down:
  assumes "wound_down st"
  shows "wound_down (snd (run_phase now1 now2 elapsed phase st))"
proof -
  have "validate_phase_transition p phase \<Longrightarrow> p \<in> {ErrorSurfacing, PhaseShutdown, Cleanup} \<Longrightarrow>
      phase \<in> {PhaseReady, ErrorSurfacing, PhaseShutdown, Cleanup} \<and> (phase = PhaseReady \<longrightarrow> p = ErrorSurfacing)" for p
    by (cases p; cases phase) (simp_all add: validate_phase_transition_def direct_transitions_def)
  then show ?thesis
    using run_phase_cases [of now1 now2 elapsed phase st] assms
    by (auto simp: wound_down_def can_resume_iff split: option.splits)
qed

text \<open>After a failure that is not recoverable no sequence of phases reaches the ready or invocation
  phase, or any other but error surfacing, shutdown and cleanup.\<close>

theorem no_return_after_failure:
  assumes "\<not> me_recoverable e"
    and "st = fold (\<lambda>(now1, now2, elapsed, phase) st. snd (run_phase now1 now2 elapsed phase st)) phases
      (snd (record_failure now e st0))"
  shows "ls_current_phase st \<in> {Some ErrorSurfacing, Some PhaseShutdown, Some Cleanup}"
proof -
  have "wound_down (snd (record_failure now e st0))"
    using assms(1) by (simp add: wound_down_def can_resume_iff lifecycle_defs)
  then have "wound_down st"
    unfolding assms(2)
    by (induction phases arbitrary: st0 rule: rev_induct) (auto simp: run_wound_down)
  then show ?thesis by (simp add: wound_down_def)
qed

theorem no_return_after_failure_witness:
  "ls_current_phase (fold (\<lambda>(now1, now2, elapsed, phase) st. snd (run_phase now1 now2 elapsed phase st))
     [(1, 2, 3, PhaseReady)] (snd (record_failure 7 (refusal 6 SpawnConnect ''gone'' []) lifecycle_new)))
   \<in> {Some ErrorSurfacing, Some PhaseShutdown, Some Cleanup}"
  by (rule no_return_after_failure [OF _ refl]) (simp add: refusal_def)

text \<open>A recoverable failure skips the startup: a timeout recorded at any moment, even before the
  configuration is loaded, lets the lifecycle run the ready phase at once.\<close>

theorem timeout_skips_startup:
  "fst (run_phase now3 now4 elapsed PhaseReady
     (snd (record_timeout now1 now2 phase waited server ctx st))) = PhaseSuccess PhaseReady elapsed"
  by (simp add: lifecycle_defs can_resume_after_error_def validate_phase_transition_def direct_transitions_def)

section \<open>What the health of servers says of the plugin\<close>

text \<open>A plugin is healthy when it has servers and all are healthy, failed when it has none or all
  failed, and otherwise degraded; then the servers that still answer and the failed ones are a
  partition of its servers.\<close>

theorem plugin_state_of_servers:
  "(state_from_servers servers = PluginHealthy \<longleftrightarrow> servers \<noteq> [] \<and> list_all (\<lambda>s. sh_status s = ServerHealthy) servers)
   \<and> ((\<exists>reason. state_from_servers servers = PluginFailed reason) \<longleftrightarrow> list_all (\<lambda>s. sh_status s = ServerFailed) servers)
   \<and> (\<forall>up down. state_from_servers servers = PluginDegraded up down \<longrightarrow>
        length up + length down = length servers \<and> up \<noteq> []
        \<and> set up \<union> sh_server_name ` set down = sh_server_name ` set servers)"
proof -
  let ?up = "filter (\<lambda>s. sh_status s \<noteq> ServerFailed) servers"
  let ?down = "filter (\<lambda>s. sh_status s = ServerFailed) servers"
  have healthy: "sh_status s = ServerHealthy \<longleftrightarrow> sh_status s \<noteq> ServerFailed \<and> sh_status s \<noteq> ServerDegraded" for s
    by (cases "sh_status s") simp_all
  have lengths: "length ?up + length ?down = length servers"
    using sum_length_filter_compl [of "\<lambda>s. sh_status s = ServerFailed" servers] by simp
  have up: "?up = [] \<longleftrightarrow> list_all (\<lambda>s. sh_status s = ServerFailed) servers"
    by (auto simp: filter_empty_conv list_all_iff)
  have down: "?down = [] \<and> \<not> list_ex (\<lambda>s. sh_status s = ServerDegraded) servers
      \<longleftrightarrow> list_all (\<lambda>s. sh_status s = ServerHealthy) servers"
    by (auto simp: filter_empty_conv list_all_iff list_ex_iff healthy)
  have disjoint: "list_all (\<lambda>s. sh_status s = ServerHealthy) servers \<Longrightarrow>
      list_all (\<lambda>s. sh_status s = ServerFailed) servers \<Longrightarrow> servers = []"
    by (cases servers) auto
  have state: "state_from_servers servers =
     (if servers = [] then PluginFailed ''no servers available''
      else if list_all (\<lambda>s. sh_status s = ServerHealthy) servers then PluginHealthy
      else if list_all (\<lambda>s. sh_status s = ServerFailed) servers
      then PluginFailed (''all '' @ show_nat (length ?down) @ '' servers failed'')
      else PluginDegraded (map sh_server_name ?up) ?down)"
    unfolding state_from_servers_def Let_def down map_is_Nil_conv up ..
  show ?thesis
    unfolding state using lengths disjoint up by (auto simp: image_def)
qed

end
