(* ===== verification/RefSummary.thy ===== *)
theory RefSummary
  imports Utf8
begin

text \<open>
  Compression of summaries to a budget: \<open>claw-rust/crates/runtime/src/summary_compression.rs\<close>.
  \<open>usize\<close> values are natural numbers.
\<close>

section \<open>Budgets and results\<close>

record summary_budget =
  sb_max_chars :: nat
  sb_max_lines :: nat
  sb_max_line_chars :: nat

definition budget_default :: summary_budget where
  "budget_default = \<lparr>sb_max_chars = 1200, sb_max_lines = 24, sb_max_line_chars = 160\<rparr>"

record compressed =
  co_summary :: string
  co_original_chars :: nat
  co_compressed_chars :: nat
  co_original_lines :: nat
  co_compressed_lines :: nat
  co_removed_duplicate_lines :: nat
  co_omitted_lines :: nat
  co_truncated :: bool

section \<open>Normalising lines\<close>

definition take_chars :: "nat \<Rightarrow> string \<Rightarrow> string" where
  "take_chars n s = concat (take n (str_chars s))"

definition truncate_line :: "string \<Rightarrow> nat \<Rightarrow> string" where
  "truncate_line line max_chars =
     (if max_chars = 0 \<or> char_count line \<le> max_chars then line
      else if max_chars = 1 then ellipsis
      else take_chars (max_chars - 1) line @ ellipsis)"

definition collapse_inline_whitespace :: "string \<Rightarrow> string" where
  "collapse_inline_whitespace line = join '' '' (split_whitespace line)"

text \<open>The loop over the raw lines with the keys seen; the result has the lines and the number of
  duplicates.\<close>

fun normalize_from :: "nat \<Rightarrow> string list \<Rightarrow> string list \<Rightarrow> string list \<times> nat" where
  "normalize_from max_line_chars seen [] = ([], 0)"
| "normalize_from max_line_chars seen (raw_line # rest) =
     (let normalized = collapse_inline_whitespace raw_line in
      if normalized = [] then normalize_from max_line_chars seen rest
      else let
        truncated = truncate_line normalized max_line_chars;
        key = to_ascii_lowercase truncated
      in if key \<in> set seen then
           (let (ls, removed) = normalize_from max_line_chars seen rest in (ls, removed + 1))
         else
           (let (ls, removed) = normalize_from max_line_chars (key # seen) rest in (truncated # ls, removed)))"

definition normalize_lines :: "string \<Rightarrow> nat \<Rightarrow> string list \<times> nat" where
  "normalize_lines summary max_line_chars = normalize_from max_line_chars [] (str_lines summary)"

section \<open>Selecting lines\<close>

definition core_details :: "string list" where
  "core_details = [''- Scope:'', ''- Current work:'', ''- Pending work:'', ''- Key files referenced:'',
     ''- Tools mentioned:'', ''- Recent user requests:'', ''- Previously compacted context:'',
     ''- Newly compacted context:'']"

definition line_priority :: "string \<Rightarrow> nat" where
  "line_priority line =
     (if line = ''Summary:'' \<or> line = ''Conversation summary:'' \<or> list_ex (starts_with line) core_details then 0
      else if ends_with line '':'' then 1
      else if starts_with line ''- '' \<or> starts_with line ''  - '' then 2
      else 3)"

definition joined_char_count :: "string list \<Rightarrow> nat" where
  "joined_char_count ls = sum_list (map char_count ls) + (length ls - 1)"

definition fits :: "summary_budget \<Rightarrow> string list \<Rightarrow> bool" where
  "fits budget ls \<longleftrightarrow> length ls \<le> sb_max_lines budget \<and> joined_char_count ls \<le> sb_max_chars budget"

text \<open>The set of selected indexes is their ascending list.\<close>

definition try_select :: "string list \<Rightarrow> summary_budget \<Rightarrow> nat \<Rightarrow> nat \<Rightarrow> nat list \<Rightarrow> nat list" where
  "try_select ls budget priority index selected =
     (if index \<in> set selected \<or> line_priority (ls ! index) \<noteq> priority then selected
      else if fits budget (map ((!) ls) selected @ [ls ! index]) then insort index selected
      else selected)"

definition select_line_indexes :: "string list \<Rightarrow> summary_budget \<Rightarrow> nat list" where
  "select_line_indexes ls budget =
     fold (\<lambda>priority. fold (try_select ls budget priority) [0..<length ls]) [0..<4] []"

definition omission_notice :: "nat \<Rightarrow> string" where
  "omission_notice omitted_lines = ''- '' @ ellipsis @ '' '' @ show_nat omitted_lines @ '' additional line(s) omitted.''"

definition push_line_with_budget :: "string list \<Rightarrow> string \<Rightarrow> summary_budget \<Rightarrow> string list" where
  "push_line_with_budget ls line budget = (if fits budget (ls @ [line]) then ls @ [line] else ls)"

definition compress_summary :: "string \<Rightarrow> summary_budget \<Rightarrow> compressed" where
  "compress_summary summary budget =
     (let original_chars = char_count summary;
          original_lines = length (str_lines summary);
          (ls, removed) = normalize_lines summary (sb_max_line_chars budget)
      in if ls = [] \<or> sb_max_chars budget = 0 \<or> sb_max_lines budget = 0 then
           \<lparr>co_summary = [], co_original_chars = original_chars, co_compressed_chars = 0,
            co_original_lines = original_lines, co_compressed_lines = 0, co_removed_duplicate_lines = removed,
            co_omitted_lines = length ls, co_truncated = (0 < original_chars)\<rparr>
         else let
           selected = map ((!) ls) (select_line_indexes ls budget);
           kept = (if selected = [] then [truncate_line (ls ! 0) (sb_max_chars budget)] else selected);
           omitted = length ls - length kept;
           out_lines = (if 0 < omitted then push_line_with_budget kept (omission_notice omitted) budget else kept);
           compressed_summary = join nl out_lines
         in \<lparr>co_summary = compressed_summary, co_original_chars = original_chars,
              co_compressed_chars = char_count compressed_summary, co_original_lines = original_lines,
              co_compressed_lines = length out_lines, co_removed_duplicate_lines = removed,
              co_omitted_lines = omitted, co_truncated = (compressed_summary \<noteq> trim summary)\<rparr>)"

definition compress_summary_text :: "string \<Rightarrow> string" where
  "compress_summary_text summary = co_summary (compress_summary summary budget_default)"

section \<open>Counting characters\<close>

lemma str_chars_count:
  "length (str_chars s) = (case s of [] \<Rightarrow> 0 | c # cs \<Rightarrow> 1 + length (filter (\<lambda>c. \<not> is_continuation c) cs))"
proof (induction s rule: str_chars.induct)
  case (2 c cs)
  define d where "d = dropWhile is_continuation cs"
  have "filter (\<lambda>c. \<not> is_continuation c) cs = filter (\<lambda>c. \<not> is_continuation c) d"
    unfolding d_def by (induction cs) auto
  moreover have "\<not> is_continuation a" if "d = a # l" for a l
    using that hd_dropWhile [of is_continuation cs] by (simp add: d_def)
  ultimately show ?case
    using 2 unfolding d_def [symmetric] str_chars.simps by (cases d) auto
qed simp

lemma char_count_eq:
  "char_count s = length (filter (\<lambda>c. \<not> is_continuation c) s)
     + (case s of [] \<Rightarrow> 0 | c # _ \<Rightarrow> if is_continuation c then 1 else 0)"
  unfolding char_count_def str_chars_count by (cases s) simp_all

lemma char_count_append: "char_count (s @ t) \<le> char_count s + char_count t"
proof (cases s)
  case (Cons c cs)
  then show ?thesis by (simp add: char_count_eq)
qed (simp add: char_count_eq)

lemma char_count_word: "w \<in> set (str_chars s) \<Longrightarrow> char_count w = 1"
proof (induction s rule: str_chars.induct)
  case (2 c cs)
  have "filter (\<lambda>c. \<not> is_continuation c) (takeWhile is_continuation cs) = []"
    by (induction cs) auto
  then have "char_count (c # takeWhile is_continuation cs) = 1"
    by (simp add: char_count_eq)
  then show ?case using 2 by auto
qed simp

lemma char_count_concat: "(\<And>w. w \<in> set ws \<Longrightarrow> char_count w = 1) \<Longrightarrow> char_count (concat ws) \<le> length ws"
proof (induction ws)
  case (Cons w ws)
  have "char_count (concat ws) \<le> length ws" using Cons by simp
  then show ?case using char_count_append [of w "concat ws"] Cons.prems [of w] by simp
qed (simp add: char_count_def)

lemma char_count_take: "char_count (take_chars n s) \<le> n"
proof -
  have "char_count (take_chars n s) \<le> length (take n (str_chars s))"
    unfolding take_chars_def by (rule char_count_concat) (meson char_count_word in_set_takeD)
  then show ?thesis by simp
qed

lemma char_count_ellipsis [simp]: "char_count ellipsis = 1"
  by code_simp

lemma truncate_line_bound: "0 < n \<Longrightarrow> char_count (truncate_line s n) \<le> n"
  using char_count_append [of "take_chars (n - 1) s" ellipsis] char_count_take [of "n - 1" s]
  by (auto simp: truncate_line_def)

lemma char_count_nl [simp]: "char_count nl = 1"
  by code_simp

lemma char_count_join: "char_count (join nl ls) \<le> joined_char_count ls"
proof (induction ls rule: induct_list012)
  case (3 s t ts)
  then show ?case
    using char_count_append [of s "nl @ join nl (t # ts)"] char_count_append [of nl "join nl (t # ts)"]
    by (simp add: joined_char_count_def)
qed (simp_all add: joined_char_count_def char_count_def)

section \<open>The budget is kept\<close>

definition selection_ok :: "string list \<Rightarrow> summary_budget \<Rightarrow> nat list \<Rightarrow> bool" where
  "selection_ok ls budget selected \<longleftrightarrow>
     sorted selected \<and> distinct selected \<and> set selected \<subseteq> {..<length ls} \<and> fits budget (map ((!) ls) selected)"

lemma insort_count:
  "sum_list (map f (insort i xs)) = f i + sum_list (map (f :: nat \<Rightarrow> nat) xs)"
  by (induction xs) auto

lemma fits_insort: "fits budget (map ((!) ls) (insort i selected)) \<longleftrightarrow> fits budget (map ((!) ls) selected @ [ls ! i])"
  using insort_count [of "\<lambda>j. char_count (ls ! j)" i selected]
  by (simp add: fits_def joined_char_count_def comp_def ac_simps)

lemma try_select_ok:
  "selection_ok ls budget selected \<Longrightarrow> i < length ls \<Longrightarrow> selection_ok ls budget (try_select ls budget p i selected)"
  by (auto simp: try_select_def selection_ok_def fits_insort sorted_insort distinct_insort set_insort_key)

lemma fold_select_ok:
  "selection_ok ls budget selected \<Longrightarrow> set is \<subseteq> {..<length ls} \<Longrightarrow>
    selection_ok ls budget (fold (try_select ls budget p) is selected)"
  by (induction "is" arbitrary: selected) (auto intro: try_select_ok)

lemma select_line_indexes_ok: "selection_ok ls budget (select_line_indexes ls budget)"
proof -
  have "selection_ok ls budget selected \<Longrightarrow>
    selection_ok ls budget (fold (\<lambda>p. fold (try_select ls budget p) [0..<length ls]) ps selected)" for ps selected
  proof (induction ps arbitrary: selected)
    case (Cons p ps)
    have "set [0..<length ls] \<subseteq> {..<length ls}" by auto
    from Cons.IH [OF fold_select_ok [OF Cons.prems this]] show ?case by simp
  qed simp
  then show ?thesis
    unfolding select_line_indexes_def by (simp add: selection_ok_def fits_def joined_char_count_def)
qed

text \<open>Within the budget: a compressed summary never has more lines or more characters than the budget
  allows, whatever the text and the budget.\<close>

theorem compressed_within_budget:
  "char_count (co_summary (compress_summary summary budget)) \<le> sb_max_chars budget
   \<and> co_compressed_lines (compress_summary summary budget) \<le> sb_max_lines budget"
proof -
  obtain ls removed where norm: "normalize_lines summary (sb_max_line_chars budget) = (ls, removed)" by fastforce
  show ?thesis
  proof (cases "ls = [] \<or> sb_max_chars budget = 0 \<or> sb_max_lines budget = 0")
    case True
    then show ?thesis by (auto simp: compress_summary_def norm Let_def char_count_def)
  next
    case False
    define selected where "selected = map ((!) ls) (select_line_indexes ls budget)"
    define kept where "kept = (if selected = [] then [truncate_line (ls ! 0) (sb_max_chars budget)] else selected)"
    define out_lines where "out_lines = (if 0 < length ls - length kept
      then push_line_with_budget kept (omission_notice (length ls - length kept)) budget else kept)"
    have "fits budget selected"
      using select_line_indexes_ok [of ls budget] by (simp add: selected_def selection_ok_def)
    moreover have "fits budget [truncate_line (ls ! 0) (sb_max_chars budget)]"
      using False truncate_line_bound [of "sb_max_chars budget" "ls ! 0"] by (simp add: fits_def joined_char_count_def)
    ultimately have "fits budget kept" by (simp add: kept_def)
    then have out: "fits budget out_lines" by (simp add: out_lines_def push_line_with_budget_def)
    have "co_summary (compress_summary summary budget) = join nl out_lines"
      "co_compressed_lines (compress_summary summary budget) = length out_lines"
      using False unfolding compress_summary_def norm selected_def kept_def out_lines_def Let_def by simp_all
    then show ?thesis
      using out char_count_join [of out_lines] by (auto simp: fits_def)
  qed
qed

section \<open>Nothing is dropped without need\<close>

lemma joined_subset:
  assumes "distinct xs" "set xs \<subseteq> {..<length ls}"
  shows "fits budget ls \<Longrightarrow> fits budget (map ((!) ls) xs)"
proof -
  have "length xs \<le> length ls"
    using assms card_mono [of "{..<length ls}" "set xs"] by (simp add: distinct_card)
  moreover have "sum_list (map char_count (map ((!) ls) xs)) \<le> sum_list (map char_count ls)"
  proof -
    have "sum_list (map char_count (map ((!) ls) xs)) = (\<Sum>i\<in>set xs. char_count (ls ! i))"
      using assms(1) by (simp add: comp_def sum_list_distinct_conv_sum_set)
    also have "\<dots> \<le> (\<Sum>i\<in>{..<length ls}. char_count (ls ! i))"
      using assms(2) by (intro sum_mono2) auto
    also have "\<dots> = sum_list (map char_count ls)"
      by (simp add: sum_list_sum_nth atLeast0LessThan)
    finally show ?thesis .
  qed
  ultimately show "fits budget ls \<Longrightarrow> fits budget (map ((!) ls) xs)"
    by (auto simp: fits_def joined_char_count_def)
qed

lemma try_select_all:
  assumes "fits budget ls" "selection_ok ls budget selected" "i < length ls"
  shows "set (try_select ls budget p i selected) =
    (if line_priority (ls ! i) = p then insert i (set selected) else set selected)"
proof (cases "i \<in> set selected")
  case False
  have "fits budget (map ((!) ls) (selected @ [i]))"
    using assms False by (intro joined_subset) (auto simp: selection_ok_def)
  then show ?thesis using False by (simp add: try_select_def set_insort_key)
qed (auto simp: try_select_def)

lemma fold_select_all:
  assumes "fits budget ls"
  shows "selection_ok ls budget selected \<Longrightarrow> set is \<subseteq> {..<length ls} \<Longrightarrow>
    set (fold (try_select ls budget p) is selected) = set selected \<union> {i \<in> set is. line_priority (ls ! i) = p}"
proof (induction "is" arbitrary: selected)
  case (Cons i "is")
  have "selection_ok ls budget (try_select ls budget p i selected)"
    using Cons.prems by (simp add: try_select_ok)
  then have "set (fold (try_select ls budget p) is (try_select ls budget p i selected)) =
      set (try_select ls budget p i selected) \<union> {i \<in> set is. line_priority (ls ! i) = p}"
    using Cons by simp
  then show ?case using Cons.prems assms by (auto simp: try_select_all)
qed simp

lemma line_priority_cases: "line_priority l \<in> set [0..<4]"
  by (auto simp: line_priority_def)

lemma select_all:
  assumes "fits budget ls"
  shows "select_line_indexes ls budget = [0..<length ls]"
proof -
  have "selection_ok ls budget selected \<Longrightarrow>
    set (fold (\<lambda>p. fold (try_select ls budget p) [0..<length ls]) ps selected) =
      set selected \<union> {i. i < length ls \<and> line_priority (ls ! i) \<in> set ps}" for ps selected
  proof (induction ps arbitrary: selected)
    case (Cons p ps)
    have "selection_ok ls budget (fold (try_select ls budget p) [0..<length ls] selected)"
      using Cons.prems by (intro fold_select_ok) auto
    from Cons.IH [OF this] show ?case
      using fold_select_all [OF assms Cons.prems, of "[0..<length ls]" p] by (auto simp: subset_iff)
  qed simp
  moreover have "selection_ok ls budget []" by (simp add: selection_ok_def fits_def joined_char_count_def)
  ultimately have "set (select_line_indexes ls budget) =
      set [] \<union> {i. i < length ls \<and> line_priority (ls ! i) \<in> set [0..<4]}"
    unfolding select_line_indexes_def by blast
  then have same: "set (select_line_indexes ls budget) = {i. i < length ls}"
    using line_priority_cases by (simp only: set_empty2 list.set Un_empty_left simp_thms)
  have "sorted (select_line_indexes ls budget)" "distinct (select_line_indexes ls budget)"
    using select_line_indexes_ok [of ls budget] by (simp_all add: selection_ok_def)
  then show ?thesis
    using same by (intro sorted_distinct_set_unique) (auto simp: atLeast0LessThan lessThan_def)
qed

text \<open>Nothing is dropped without need: when the normalised lines fit the budget, the summary is
  exactly these lines and none is reported as omitted.\<close>

theorem fitting_summary_kept:
  assumes "normalize_lines summary (sb_max_line_chars budget) = (ls, removed)" and "fits budget ls" and "ls \<noteq> []"
    and "sb_max_chars budget \<noteq> 0"
  shows "co_summary (compress_summary summary budget) = join nl ls
    \<and> co_omitted_lines (compress_summary summary budget) = 0
    \<and> co_removed_duplicate_lines (compress_summary summary budget) = removed"
proof -
  have "sb_max_lines budget \<noteq> 0" using assms(2,3) by (cases ls) (auto simp: fits_def)
  then show ?thesis
    using assms by (simp add: compress_summary_def select_all map_nth Let_def)
qed

theorem fitting_summary_kept_witness:
  "co_summary (compress_summary (''a  b'' @ nl @ ''A b'' @ nl @ ''c'') budget_default) = ''a b'' @ nl @ ''c''"
proof -
  have n: "normalize_lines (''a  b'' @ nl @ ''A b'' @ nl @ ''c'') (sb_max_line_chars budget_default) = ([''a b'', ''c''], 1)"
    by code_simp
  have "co_summary (compress_summary (''a  b'' @ nl @ ''A b'' @ nl @ ''c'') budget_default) = join nl [''a b'', ''c'']"
    by (rule fitting_summary_kept [OF n, THEN conjunct1])
      (simp_all add: fits_def budget_default_def joined_char_count_def char_count_eq is_continuation_def)
  then show ?thesis by simp
qed

end
