(* ===== verification/RefUtf8.thy ===== *)
theory RefUtf8
  imports RefJson Utf8
begin

text \<open>
  A Rust \<open>String\<close> seen two ways: as its UTF-8 bytes, as in most of the development, and as its
  scalar values, as the JSON reader of the reference runtime walks it. \<open>bytes_of\<close> encodes,
  \<open>chars_of\<close> is \<open>str::chars\<close>.
\<close>

definition encode_scalar :: "nat \<Rightarrow> string" where
  "encode_scalar n =
     (if n < 128 then [char_of n]
      else if n < 2048 then [char_of (192 + n div 64), char_of (128 + n mod 64)]
      else if n < 65536 then
        [char_of (224 + n div 4096), char_of (128 + n div 64 mod 64), char_of (128 + n mod 64)]
      else [char_of (240 + n div 262144), char_of (128 + n div 4096 mod 64), char_of (128 + n div 64 mod 64),
            char_of (128 + n mod 64)])"

definition bytes_of :: "uchars \<Rightarrow> string" where
  "bytes_of u = concat (map encode_scalar u)"

definition lead_bits :: "nat \<Rightarrow> nat" where
  "lead_bits b = (if b < 128 then b else if b < 224 then b mod 32 else if b < 240 then b mod 16 else b mod 8)"

fun decode_word :: "string \<Rightarrow> nat" where
  "decode_word [] = 0"
| "decode_word (c # cs) = foldl (\<lambda>v d. 64 * v + of_char d mod 64) (lead_bits (of_char c)) cs"

definition chars_of :: "string \<Rightarrow> uchars" where
  "chars_of s = map decode_word (str_chars s)"

text \<open>What the type \<open>String\<close> guarantees: the bytes of some scalar values.\<close>

definition rust_string :: "string \<Rightarrow> bool" where
  "rust_string s \<longleftrightarrow> list_all is_scalar (chars_of s) \<and> bytes_of (chars_of s) = s"

section \<open>Encoding and decoding\<close>

lemma scalar_bound: "is_scalar n \<Longrightarrow> n < 1114112"
  by (auto simp: is_scalar_def)

lemma lead_bits_simps:
  "q < 32 \<Longrightarrow> lead_bits (192 + q) = q" "q < 16 \<Longrightarrow> lead_bits (224 + q) = q" "q < 8 \<Longrightarrow> lead_bits (240 + q) = q"
  using mod_mult_self3 [of 6 32 q] mod_mult_self3 [of 14 16 q] mod_mult_self3 [of 30 8 q]
  by (simp_all add: lead_bits_def)

lemma continuation_bits: "r < 64 \<Longrightarrow> (128 + r) mod 64 = (r :: nat)"
  using mod_mult_self3 [of 2 64 r] by simp

lemma decode_encode: "is_scalar n \<Longrightarrow> decode_word (encode_scalar n) = n"
proof -
  assume "is_scalar n"
  then have b: "n < 1114112" by (rule scalar_bound)
  have step: "64 * (k div 64) + k mod 64 = k" for k :: nat by simp
  have div1: "n div 4096 = n div 64 div 64" by (simp flip: div_mult2_eq)
  have div2: "n div 262144 = n div 64 div 64 div 64" by (simp flip: div_mult2_eq)
  consider "n < 128" | "128 \<le> n" "n < 2048" | "2048 \<le> n" "n < 65536" | "65536 \<le> n" by linarith
  then show ?thesis
  proof cases
    case 1
    then show ?thesis by (simp add: encode_scalar_def lead_bits_def)
  next
    case 2
    then have q: "n div 64 < 32" by linarith
    then have "lead_bits (of_char (char_of (192 + n div 64) :: char)) = n div 64" by (simp add: lead_bits_simps)
    then show ?thesis using 2 step [of n] by (simp add: encode_scalar_def continuation_bits)
  next
    case 3
    then have q: "n div 4096 < 16" by linarith
    then have "lead_bits (of_char (char_of (224 + n div 4096) :: char)) = n div 4096" by (simp add: lead_bits_simps)
    then show ?thesis
      using 3 step [of n] step [of "n div 64"] by (simp add: encode_scalar_def continuation_bits div1)
  next
    case 4
    then have q: "n div 262144 < 8" using b by linarith
    then have "lead_bits (of_char (char_of (240 + n div 262144) :: char)) = n div 262144" by (simp add: lead_bits_simps)
    moreover have "(128 + x mod 64) mod 256 mod 64 = x mod 64" for x :: nat
      using continuation_bits [of "x mod 64"] by simp
    moreover have "262144 * (n div 64 div 64 div 64) + 4096 * (n div 64 div 64 mod 64) + 64 * (n div 64 mod 64)
        + n mod 64 = n"
      using step [of n] step [of "n div 64"] step [of "n div 64 div 64"] by linarith
    ultimately show ?thesis
      using 4 by (simp add: encode_scalar_def continuation_bits div1 div2)
  qed
qed

lemma encode_shape:
  assumes "is_scalar n"
  obtains c cs where "encode_scalar n = c # cs" "\<not> is_continuation c" "list_all is_continuation cs"
proof -
  have b: "n < 1114112" using assms by (rule scalar_bound)
  have "n < 2048 \<Longrightarrow> n div 64 < 32" "n < 65536 \<Longrightarrow> n div 4096 < 16" "n div 262144 < 8" using b by linarith+
  then show ?thesis
    by (cases "n < 128"; cases "n < 2048"; cases "n < 65536")
      (auto simp: encode_scalar_def is_continuation_def intro!: that)
qed

lemma str_chars_bytes_of: "list_all is_scalar u \<Longrightarrow> str_chars (bytes_of u) = map encode_scalar u"
proof (induction u)
  case (Cons n u)
  obtain c cs where n: "encode_scalar n = c # cs" "\<not> is_continuation c" "list_all is_continuation cs"
    using encode_shape Cons.prems by (metis list.pred_inject(2))
  have stop: "bytes_of u = [] \<or> \<not> is_continuation (hd (bytes_of u))"
  proof (cases u)
    case (Cons m v)
    then obtain d ds where "encode_scalar m = d # ds" "\<not> is_continuation d"
      using encode_shape \<open>list_all is_scalar (n # u)\<close> by (metis list.pred_inject(2))
    then show ?thesis using Cons by (simp add: bytes_of_def)
  qed (simp add: bytes_of_def)
  have "takeWhile is_continuation (cs @ bytes_of u) = cs" "dropWhile is_continuation (cs @ bytes_of u) = bytes_of u"
    using n(3) stop by (cases "bytes_of u"; auto simp: list_all_iff takeWhile_append dropWhile_append)+
  moreover have "bytes_of (n # u) = c # cs @ bytes_of u" using n(1) by (simp add: bytes_of_def)
  ultimately show ?case using Cons n(1) by simp
qed (simp add: bytes_of_def)

lemma chars_of_bytes_of [simp]: "list_all is_scalar u \<Longrightarrow> chars_of (bytes_of u) = u"
  unfolding chars_of_def by (simp add: str_chars_bytes_of) (simp add: map_idI decode_encode list_all_iff)

lemma rust_string_bytes_of: "list_all is_scalar u \<Longrightarrow> rust_string (bytes_of u)"
  by (simp add: rust_string_def)

lemma rust_stringD: "rust_string s \<Longrightarrow> bytes_of (chars_of s) = s" "rust_string s \<Longrightarrow> list_all is_scalar (chars_of s)"
  by (simp_all add: rust_string_def)

lemma bytes_of_append [simp]: "bytes_of (u @ v) = bytes_of u @ bytes_of v"
  by (simp add: bytes_of_def)

text \<open>A byte below 128 stands for itself.\<close>

lemma ascii_byte_iff: "(of_char c :: nat) < 128 \<Longrightarrow> list_all is_scalar u \<Longrightarrow> c \<in> set (bytes_of u) \<longleftrightarrow> of_char c \<in> set u"
proof (induction u)
  case (Cons n u)
  have "c \<in> set (encode_scalar n) \<longleftrightarrow> of_char c = n"
  proof -
    have b: "n < 1114112" using Cons.prems by (simp add: scalar_bound)
    have small: "n < 2048 \<Longrightarrow> n div 64 < 32" "n < 65536 \<Longrightarrow> n div 4096 < 16" "n div 262144 < 8" using b by linarith+
    have high: "m < 256 \<Longrightarrow> 128 \<le> m \<Longrightarrow> c \<noteq> char_of m" for m :: nat using Cons.prems(1) by auto
    show ?thesis
      using Cons.prems(1) small
      by (cases "n < 128"; cases "n < 2048"; cases "n < 65536") (auto simp: encode_scalar_def high)
  qed
  then show ?case using Cons by (auto simp: bytes_of_def)
qed (simp add: bytes_of_def)

lemma bytes_of_uni: "is_ascii s \<Longrightarrow> bytes_of (uni s) = s"
  by (induction s) (auto simp: bytes_of_def uni_def encode_scalar_def is_ascii_def)

lemma scalar_uni: "is_ascii s \<Longrightarrow> list_all is_scalar (uni s)"
  by (induction s) (auto simp: uni_def is_ascii_def is_scalar_def)

text \<open>The bytes of a string are valid UTF-8.\<close>

lemma lossy_encoded: "is_scalar n \<Longrightarrow> utf8_lossy (encode_scalar n @ t) = encode_scalar n @ utf8_lossy t"
proof -
  assume s: "is_scalar n"
  then have b: "n < 1114112" by (rule scalar_bound)
  have step: "k = 64 * (k div 64) + k mod 64" for k :: nat by simp
  have div1: "n div 4096 = n div 64 div 64" by (simp flip: div_mult2_eq)
  have div2: "n div 262144 = n div 64 div 64 div 64" by (simp flip: div_mult2_eq)
  define a where "a = n div 64" define r where "r = n mod 64"
  define c where "c = a div 64" define q where "q = a mod 64"
  define e where "e = c div 64" define p where "p = c mod 64"
  have n: "n = 64 * a + r" "r < 64" using step [of n] by (simp_all add: a_def r_def)
  have a: "a = 64 * c + q" "q < 64" using step [of a] by (simp_all add: c_def q_def)
  have c: "c = 64 * e + p" "p < 64" using step [of c] by (simp_all add: e_def p_def)
  have enc: "encode_scalar n =
     (if n < 128 then [char_of n] else if n < 2048 then [char_of (192 + a), char_of (128 + r)]
      else if n < 65536 then [char_of (224 + c), char_of (128 + q), char_of (128 + r)]
      else [char_of (240 + e), char_of (128 + p), char_of (128 + q), char_of (128 + r)])"
    by (simp add: encode_scalar_def div1 div2 flip: a_def r_def c_def q_def e_def p_def)
  consider "n < 128" | "128 \<le> n" "n < 2048" | "2048 \<le> n" "n < 65536" | "65536 \<le> n" by linarith
  then show ?thesis
  proof cases
    case 1
    then show ?thesis by (simp add: enc continuation_ranges_def)
  next
    case 2
    then have "2 \<le> a" "a < 32" using n by linarith+
    then show ?thesis using 2 n(2) by (simp add: enc continuation_ranges_def)
  next
    case 3
    have "c < 16" "c = 0 \<Longrightarrow> 32 \<le> q" using 3 n a by linarith+
    moreover have "c = 13 \<Longrightarrow> q < 32" using s n a 3 by (auto simp: is_scalar_def)
    ultimately show ?thesis
      using 3 n(2) a(2) by (cases "c = 13"; cases "c = 0") (simp_all add: enc continuation_ranges_def)
  next
    case 4
    have "e \<le> 4" "e = 0 \<Longrightarrow> 16 \<le> p" "e = 4 \<Longrightarrow> p < 16" using 4 n a c b by linarith+
    then show ?thesis
      using 4 n(2) a(2) c(2) by (cases "e = 0"; cases "e = 4") (simp_all add: enc continuation_ranges_def)
  qed
qed

lemma valid_bytes_of: "list_all is_scalar u \<Longrightarrow> valid_utf8 (bytes_of u)"
  unfolding valid_utf8_def by (induction u) (simp_all add: bytes_of_def lossy_encoded)

lemma rust_string_valid: "rust_string s \<Longrightarrow> valid_utf8 s"
  using valid_bytes_of rust_stringD by metis

lemma rust_string_append: "rust_string s \<Longrightarrow> rust_string t \<Longrightarrow> rust_string (s @ t)"
  using rust_string_bytes_of [of "chars_of s @ chars_of t"] by (simp add: rust_string_def)

lemma rust_string_ascii: "is_ascii s \<Longrightarrow> rust_string s"
  using rust_string_bytes_of [OF scalar_uni] bytes_of_uni by metis

end
