(* ===== verification/RefSession.thy ===== *)
theory RefSession
  imports RefUtf8 FileSys
begin

text \<open>
  The sessions of the reference runtime, \<open>claw-rust/crates/runtime/src/session.rs\<close>: the data, the
  clock and the ids, the changes in memory, and the two JSON forms, one value for the whole session
  and one record per line. Persistence is in \<open>RefSessionFile\<close>. A text is its UTF-8 bytes; the JSON
  layer works on scalar values, so texts cross it through \<open>chars_of\<close> and \<open>bytes_of\<close>.
\<close>

section \<open>Data\<close>

datatype claw_role = RoleSystem | RoleUser | RoleAssistant | RoleTool

datatype claw_block =
    TextBlock string
  | ToolUseBlock string string string
  | ToolResultBlock string string string bool

record token_usage =
  tu_input_tokens :: u32
  tu_output_tokens :: u32
  tu_cache_creation_input_tokens :: u32
  tu_cache_read_input_tokens :: u32

record claw_message =
  cm_role :: claw_role
  cm_blocks :: "claw_block list"
  cm_usage :: "token_usage option"

record session_compaction =
  sc_count :: u32
  sc_removed_message_count :: nat
  sc_summary :: string

record session_fork =
  sf_parent_session_id :: string
  sf_branch_name :: "string option"

record prompt_entry =
  pe_timestamp_ms :: u64
  pe_text :: string

text \<open>The workspace root is the text of its path, the persistence path its components.\<close>

record claw_session =
  cs_version :: u32
  cs_session_id :: string
  cs_created_at_ms :: u64
  cs_updated_at_ms :: u64
  cs_messages :: "claw_message list"
  cs_compaction :: "session_compaction option"
  cs_fork :: "session_fork option"
  cs_workspace_root :: "string option"
  cs_prompt_history :: "prompt_entry list"
  cs_last_health_check_ms :: "u64 option"
  cs_model :: "string option"
  cs_persistence :: "path option"

text \<open>\<open>PartialEq\<close>: neither the model nor the persistence path is compared.\<close>

definition session_eq :: "claw_session \<Rightarrow> claw_session \<Rightarrow> bool" where
  "session_eq s t \<longleftrightarrow>
     cs_version s = cs_version t \<and> cs_session_id s = cs_session_id t
     \<and> cs_created_at_ms s = cs_created_at_ms t \<and> cs_updated_at_ms s = cs_updated_at_ms t
     \<and> cs_messages s = cs_messages t \<and> cs_compaction s = cs_compaction t \<and> cs_fork s = cs_fork t
     \<and> map_option parse_path (cs_workspace_root s) = map_option parse_path (cs_workspace_root t)
     \<and> cs_prompt_history s = cs_prompt_history t \<and> cs_last_health_check_ms s = cs_last_health_check_ms t"

datatype session_error = SessionIo io_error | SessionJson json_error | SessionFormat string

fun show_json_error :: "json_error \<Rightarrow> string" where
  "show_json_error OutOfFuel = []"
| "show_json_error (JsonError message) = bytes_of message"

fun show_session_error :: "session_error \<Rightarrow> string" where
  "show_session_error (SessionIo e) = show_io_error e"
| "show_session_error (SessionJson e) = show_json_error e"
| "show_session_error (SessionFormat e) = e"

section \<open>Time and ids\<close>

text \<open>The world: the files, the readings of the clock (none before the epoch), and the two
  process-wide atomics, which no other thread touches.\<close>

record session_world =
  sw_fs :: fs
  sw_clock :: "nat option list"
  sw_last_timestamp_ms :: u64
  sw_id_counter :: u64

definition wall_clock_ms :: "nat option \<Rightarrow> u64" where
  "wall_clock_ms reading =
     (case reading of None \<Rightarrow> 0 | Some n \<Rightarrow> if n < 2 ^ 64 then of_nat n else - 1)"

definition saturating_succ :: "u64 \<Rightarrow> u64" where
  "saturating_succ n = (if n = - 1 then n else n + 1)"

definition current_time_millis :: "session_world \<Rightarrow> u64 \<times> session_world" where
  "current_time_millis w =
     (let wall_clock = (case sw_clock w of [] \<Rightarrow> 0 | r # _ \<Rightarrow> wall_clock_ms r);
          previous = sw_last_timestamp_ms w;
          candidate = (if wall_clock \<le> previous then saturating_succ previous else wall_clock)
      in (candidate, w\<lparr>sw_clock := tl (sw_clock w), sw_last_timestamp_ms := candidate\<rparr>))"

definition fetch_counter :: "session_world \<Rightarrow> u64 \<times> session_world" where
  "fetch_counter w = (sw_id_counter w, w\<lparr>sw_id_counter := sw_id_counter w + 1\<rparr>)"

definition generate_session_id :: "session_world \<Rightarrow> string \<times> session_world" where
  "generate_session_id w =
     (let (millis, w1) = current_time_millis w; (counter, w2) = fetch_counter w1
      in (''session-'' @ show_nat (unat millis) @ ''-'' @ show_nat (unat counter), w2))"

section \<open>Changes in memory\<close>

definition session_version :: u32 where
  "session_version = 1"

definition session_new :: "session_world \<Rightarrow> claw_session \<times> session_world" where
  "session_new w =
     (let (now, w1) = current_time_millis w; (i, w2) = generate_session_id w1
      in (\<lparr>cs_version = session_version, cs_session_id = i, cs_created_at_ms = now, cs_updated_at_ms = now,
           cs_messages = [], cs_compaction = None, cs_fork = None, cs_workspace_root = None,
           cs_prompt_history = [], cs_last_health_check_ms = None, cs_model = None, cs_persistence = None\<rparr>, w2))"

definition with_persistence_path :: "path \<Rightarrow> claw_session \<Rightarrow> claw_session" where
  "with_persistence_path p s = s\<lparr>cs_persistence := Some p\<rparr>"

definition with_workspace_root :: "string \<Rightarrow> claw_session \<Rightarrow> claw_session" where
  "with_workspace_root root s = s\<lparr>cs_workspace_root := Some root\<rparr>"

definition touch :: "claw_session \<Rightarrow> session_world \<Rightarrow> claw_session \<times> session_world" where
  "touch s w = (let (now, w1) = current_time_millis w in (s\<lparr>cs_updated_at_ms := now\<rparr>, w1))"

definition record_compaction :: "string \<Rightarrow> nat \<Rightarrow> claw_session \<Rightarrow> session_world \<Rightarrow> claw_session \<times> session_world" where
  "record_compaction summary removed_message_count s w =
     (let (s1, w1) = touch s w;
          count = (case cs_compaction s1 of None \<Rightarrow> 1 | Some c \<Rightarrow> sc_count c + 1)
      in (s1\<lparr>cs_compaction := Some \<lparr>sc_count = count, sc_removed_message_count = removed_message_count,
            sc_summary = summary\<rparr>\<rparr>, w1))"

definition normalize_optional_string :: "string option \<Rightarrow> string option" where
  "normalize_optional_string v =
     (case v of None \<Rightarrow> None | Some s \<Rightarrow> if trim s = [] then None else Some (trim s))"

definition session_forked :: "string option \<Rightarrow> claw_session \<Rightarrow> session_world \<Rightarrow> claw_session \<times> session_world" where
  "session_forked branch_name s w =
     (let (now, w1) = current_time_millis w; (i, w2) = generate_session_id w1
      in (\<lparr>cs_version = cs_version s, cs_session_id = i, cs_created_at_ms = now, cs_updated_at_ms = now,
           cs_messages = cs_messages s, cs_compaction = cs_compaction s,
           cs_fork = Some \<lparr>sf_parent_session_id = cs_session_id s,
             sf_branch_name = normalize_optional_string branch_name\<rparr>,
           cs_workspace_root = cs_workspace_root s, cs_prompt_history = cs_prompt_history s,
           cs_last_health_check_ms = cs_last_health_check_ms s, cs_model = cs_model s, cs_persistence = None\<rparr>, w2))"

definition user_text :: "string \<Rightarrow> claw_message" where
  "user_text t = \<lparr>cm_role = RoleUser, cm_blocks = [TextBlock t], cm_usage = None\<rparr>"

definition assistant :: "claw_block list \<Rightarrow> claw_message" where
  "assistant blocks = \<lparr>cm_role = RoleAssistant, cm_blocks = blocks, cm_usage = None\<rparr>"

definition assistant_with_usage :: "claw_block list \<Rightarrow> token_usage option \<Rightarrow> claw_message" where
  "assistant_with_usage blocks usage = \<lparr>cm_role = RoleAssistant, cm_blocks = blocks, cm_usage = usage\<rparr>"

definition tool_result :: "string \<Rightarrow> string \<Rightarrow> string \<Rightarrow> bool \<Rightarrow> claw_message" where
  "tool_result tool_use_id tool_name result is_error =
     \<lparr>cm_role = RoleTool, cm_blocks = [ToolResultBlock tool_use_id tool_name result is_error], cm_usage = None\<rparr>"

section \<open>Writing JSON\<close>

definition json_text :: "string \<Rightarrow> json_value" where
  "json_text s = String (chars_of s)"

text \<open>Entries inserted one after the other into a new map.\<close>

definition json_object :: "(string \<times> json_value) list \<Rightarrow> json_value" where
  "json_object entries = Object (bt_of_list (map (\<lambda>(k, v). (uni k, v)) entries))"

definition optional_entry :: "string \<Rightarrow> json_value option \<Rightarrow> (string \<times> json_value) list" where
  "optional_entry k v = (case v of None \<Rightarrow> [] | Some v \<Rightarrow> [(k, v)])"

definition json_u32 :: "u32 \<Rightarrow> json_value" where
  "json_u32 n = Number (ucast n)"

definition i64_from_u64 :: "u64 \<Rightarrow> string \<Rightarrow> session_error + json_value" where
  "i64_from_u64 n key =
     (if unat n < 2 ^ 63 then Inr (Number n) else Inl (SessionFormat (key @ '' out of range for JSON number'')))"

definition i64_from_usize :: "nat \<Rightarrow> string \<Rightarrow> session_error + json_value" where
  "i64_from_usize n key =
     (if n < 2 ^ 63 then Inr (Number (of_nat n)) else Inl (SessionFormat (key @ '' out of range for JSON number'')))"

fun role_text :: "claw_role \<Rightarrow> string" where
  "role_text RoleSystem = ''system''"
| "role_text RoleUser = ''user''"
| "role_text RoleAssistant = ''assistant''"
| "role_text RoleTool = ''tool''"

fun block_to_json :: "claw_block \<Rightarrow> json_value" where
  "block_to_json (TextBlock t) = json_object [(''type'', json_text ''text''), (''text'', json_text t)]"
| "block_to_json (ToolUseBlock i name input) =
     json_object [(''type'', json_text ''tool_use''), (''id'', json_text i), (''name'', json_text name),
       (''input'', json_text input)]"
| "block_to_json (ToolResultBlock i name result is_error) =
     json_object [(''type'', json_text ''tool_result''), (''tool_use_id'', json_text i),
       (''tool_name'', json_text name), (''output'', json_text result), (''is_error'', Bool is_error)]"

definition usage_to_json :: "token_usage \<Rightarrow> json_value" where
  "usage_to_json u =
     json_object [(''input_tokens'', json_u32 (tu_input_tokens u)), (''output_tokens'', json_u32 (tu_output_tokens u)),
       (''cache_creation_input_tokens'', json_u32 (tu_cache_creation_input_tokens u)),
       (''cache_read_input_tokens'', json_u32 (tu_cache_read_input_tokens u))]"

definition message_to_json :: "claw_message \<Rightarrow> json_value" where
  "message_to_json m =
     json_object ([(''role'', json_text (role_text (cm_role m))), (''blocks'', Array (map block_to_json (cm_blocks m)))]
       @ optional_entry ''usage'' (map_option usage_to_json (cm_usage m)))"

definition compaction_entries :: "session_compaction \<Rightarrow> session_error + (string \<times> json_value) list" where
  "compaction_entries c =
     and_then (i64_from_usize (sc_removed_message_count c) ''removed_message_count'') (\<lambda>removed.
       Inr [(''count'', json_u32 (sc_count c)), (''removed_message_count'', removed),
         (''summary'', json_text (sc_summary c))])"

definition compaction_to_json :: "session_compaction \<Rightarrow> session_error + json_value" where
  "compaction_to_json c = and_then (compaction_entries c) (\<lambda>entries. Inr (json_object entries))"

definition compaction_record :: "session_compaction \<Rightarrow> session_error + json_value" where
  "compaction_record c =
     and_then (compaction_entries c) (\<lambda>entries. Inr (json_object ((''type'', json_text ''compaction'') # entries)))"

definition fork_to_json :: "session_fork \<Rightarrow> json_value" where
  "fork_to_json f =
     json_object ((''parent_session_id'', json_text (sf_parent_session_id f))
       # optional_entry ''branch_name'' (map_option json_text (sf_branch_name f)))"

definition prompt_entry_record :: "prompt_entry \<Rightarrow> json_value" where
  "prompt_entry_record e =
     json_object [(''type'', json_text ''prompt_history''),
       (''timestamp_ms'', Number (if unat (pe_timestamp_ms e) < 2 ^ 63 then pe_timestamp_ms e else 2 ^ 63 - 1)),
       (''text'', json_text (pe_text e))]"

definition workspace_root_to_string :: "string \<Rightarrow> session_error + string" where
  "workspace_root_to_string p =
     (if valid_utf8 p then Inr p
      else Inl (SessionFormat (''workspace_root is not valid UTF-8: '' @ utf8_lossy p)))"

definition root_entry :: "claw_session \<Rightarrow> session_error + (string \<times> json_value) list" where
  "root_entry s =
     (case cs_workspace_root s of
        None \<Rightarrow> Inr []
      | Some root \<Rightarrow> and_then (workspace_root_to_string root) (\<lambda>t. Inr [(''workspace_root'', json_text t)]))"

definition message_record :: "claw_message \<Rightarrow> json_value" where
  "message_record m = json_object [(''type'', json_text ''message''), (''message'', message_to_json m)]"

text \<open>The version, the id and the two times, which open both forms.\<close>

definition identity_entries :: "claw_session \<Rightarrow> session_error + (string \<times> json_value) list" where
  "identity_entries s =
     and_then (i64_from_u64 (cs_created_at_ms s) ''created_at_ms'') (\<lambda>created.
     and_then (i64_from_u64 (cs_updated_at_ms s) ''updated_at_ms'') (\<lambda>updated.
       Inr [(''version'', json_u32 (cs_version s)), (''session_id'', json_text (cs_session_id s)),
         (''created_at_ms'', created), (''updated_at_ms'', updated)]))"

definition session_to_json :: "claw_session \<Rightarrow> session_error + json_value" where
  "session_to_json s =
     and_then (identity_entries s) (\<lambda>entries.
     and_then (case cs_compaction s of None \<Rightarrow> Inr [] | Some c \<Rightarrow>
         and_then (compaction_to_json c) (\<lambda>v. Inr [(''compaction'', v)])) (\<lambda>compaction.
     and_then (root_entry s) (\<lambda>root.
       Inr (json_object (entries @ [(''messages'', Array (map message_to_json (cs_messages s)))] @ compaction
         @ optional_entry ''fork'' (map_option fork_to_json (cs_fork s)) @ root
         @ (if cs_prompt_history s = [] then []
            else [(''prompt_history'', Array (map prompt_entry_record (cs_prompt_history s)))]))))))"

definition meta_record :: "claw_session \<Rightarrow> session_error + json_value" where
  "meta_record s =
     and_then (identity_entries s) (\<lambda>entries.
     and_then (root_entry s) (\<lambda>root.
       Inr (json_object ((''type'', json_text ''session_meta'') # entries
         @ optional_entry ''fork'' (map_option fork_to_json (cs_fork s)) @ root
         @ optional_entry ''model'' (map_option json_text (cs_model s))))))"

text \<open>A record is a line of the file.\<close>

definition render_line :: "json_value \<Rightarrow> string" where
  "render_line v = bytes_of (render v)"

definition render_jsonl_snapshot :: "claw_session \<Rightarrow> session_error + string" where
  "render_jsonl_snapshot s =
     and_then (meta_record s) (\<lambda>meta.
     and_then (case cs_compaction s of None \<Rightarrow> Inr [] | Some c \<Rightarrow>
         and_then (compaction_record c) (\<lambda>v. Inr [v])) (\<lambda>compaction.
       Inr (join nl (map render_line (meta # compaction @ map prompt_entry_record (cs_prompt_history s)
         @ map message_record (cs_messages s))) @ nl)))"

section \<open>Reading JSON\<close>

type_synonym json_map = "(uchars, json_value) btree"

definition as_object :: "json_value \<Rightarrow> json_map option" where
  "as_object v = (case v of Object m \<Rightarrow> Some m | _ \<Rightarrow> None)"

definition as_array :: "json_value \<Rightarrow> json_value list option" where
  "as_array v = (case v of Array vs \<Rightarrow> Some vs | _ \<Rightarrow> None)"

definition as_str :: "json_value \<Rightarrow> string option" where
  "as_str v = (case v of String u \<Rightarrow> Some (bytes_of u) | _ \<Rightarrow> None)"

definition as_bool :: "json_value \<Rightarrow> bool option" where
  "as_bool v = (case v of Bool b \<Rightarrow> Some b | _ \<Rightarrow> None)"

definition as_i64 :: "json_value \<Rightarrow> i64 option" where
  "as_i64 v = (case v of Number n \<Rightarrow> Some n | _ \<Rightarrow> None)"

definition field :: "json_map \<Rightarrow> string \<Rightarrow> json_value option" where
  "field m key = bt_get m (uni key)"

definition str_field :: "json_map \<Rightarrow> string \<Rightarrow> string option" where
  "str_field m key = Option.bind (field m key) as_str"

definition missing :: "string \<Rightarrow> session_error" where
  "missing key = SessionFormat (''missing '' @ key)"

definition out_of_range :: "string \<Rightarrow> session_error" where
  "out_of_range key = SessionFormat (key @ '' out of range'')"

definition required_string :: "json_map \<Rightarrow> string \<Rightarrow> session_error + string" where
  "required_string m key = ok_or (missing key) (str_field m key)"

definition u32_of_i64 :: "string \<Rightarrow> i64 \<Rightarrow> session_error + u32" where
  "u32_of_i64 key n = (if 0 \<le> sint n \<and> sint n < 2 ^ 32 then Inr (ucast n) else Inl (out_of_range key))"

definition required_i64 :: "json_map \<Rightarrow> string \<Rightarrow> session_error + i64" where
  "required_i64 m key = ok_or (missing key) (Option.bind (field m key) as_i64)"

definition required_u32 :: "json_map \<Rightarrow> string \<Rightarrow> session_error + u32" where
  "required_u32 m key = and_then (required_i64 m key) (u32_of_i64 key)"

definition required_u64_from_value :: "json_value \<Rightarrow> string \<Rightarrow> session_error + u64" where
  "required_u64_from_value v key =
     and_then (ok_or (missing key) (as_i64 v)) (\<lambda>n. if 0 \<le> sint n then Inr n else Inl (out_of_range key))"

definition required_u64 :: "json_map \<Rightarrow> string \<Rightarrow> session_error + u64" where
  "required_u64 m key = and_then (ok_or (missing key) (field m key)) (\<lambda>v. required_u64_from_value v key)"

definition required_usize :: "json_map \<Rightarrow> string \<Rightarrow> session_error + nat" where
  "required_usize m key =
     and_then (required_i64 m key) (\<lambda>n. if 0 \<le> sint n then Inr (unat n) else Inl (out_of_range key))"

definition object_or :: "string \<Rightarrow> json_value \<Rightarrow> session_error + json_map" where
  "object_or what v = ok_or (SessionFormat (what @ '' must be an object'')) (as_object v)"

text \<open>\<open>object.get(key).map(f).transpose()?\<close>.\<close>

definition optional_field :: "json_map \<Rightarrow> string \<Rightarrow> (json_value \<Rightarrow> session_error + 'a) \<Rightarrow> session_error + 'a option" where
  "optional_field m key f =
     (case field m key of None \<Rightarrow> Inr None | Some v \<Rightarrow> and_then (f v) (\<lambda>x. Inr (Some x)))"

definition usage_from_json :: "json_value \<Rightarrow> session_error + token_usage" where
  "usage_from_json v =
     and_then (object_or ''usage'' v) (\<lambda>m.
     and_then (required_u32 m ''input_tokens'') (\<lambda>i.
     and_then (required_u32 m ''output_tokens'') (\<lambda>out.
     and_then (required_u32 m ''cache_creation_input_tokens'') (\<lambda>creation.
     and_then (required_u32 m ''cache_read_input_tokens'') (\<lambda>read.
       Inr \<lparr>tu_input_tokens = i, tu_output_tokens = out, tu_cache_creation_input_tokens = creation,
         tu_cache_read_input_tokens = read\<rparr>)))))"

definition block_from_json :: "json_value \<Rightarrow> session_error + claw_block" where
  "block_from_json v =
     and_then (object_or ''block'' v) (\<lambda>m.
     and_then (ok_or (missing ''block type'') (str_field m ''type'')) (\<lambda>t.
       if t = ''text'' then and_then (required_string m ''text'') (\<lambda>x. Inr (TextBlock x))
       else if t = ''tool_use'' then
         and_then (required_string m ''id'') (\<lambda>i.
         and_then (required_string m ''name'') (\<lambda>name.
         and_then (required_string m ''input'') (\<lambda>input. Inr (ToolUseBlock i name input))))
       else if t = ''tool_result'' then
         and_then (required_string m ''tool_use_id'') (\<lambda>i.
         and_then (required_string m ''tool_name'') (\<lambda>name.
         and_then (required_string m ''output'') (\<lambda>result.
         and_then (ok_or (missing ''is_error'') (Option.bind (field m ''is_error'') as_bool)) (\<lambda>is_error.
           Inr (ToolResultBlock i name result is_error)))))
       else Inl (SessionFormat (''unsupported block type: '' @ t))))"

definition role_from_text :: "string \<Rightarrow> session_error + claw_role" where
  "role_from_text t =
     (if t = ''system'' then Inr RoleSystem
      else if t = ''user'' then Inr RoleUser
      else if t = ''assistant'' then Inr RoleAssistant
      else if t = ''tool'' then Inr RoleTool
      else Inl (SessionFormat (''unsupported message role: '' @ t)))"

definition message_from_json :: "json_value \<Rightarrow> session_error + claw_message" where
  "message_from_json v =
     and_then (object_or ''message'' v) (\<lambda>m.
     and_then (ok_or (missing ''role'') (str_field m ''role'')) (\<lambda>t.
     and_then (role_from_text t) (\<lambda>role.
     and_then (ok_or (missing ''blocks'') (Option.bind (field m ''blocks'') as_array)) (\<lambda>values.
     and_then (try_map block_from_json values) (\<lambda>blocks.
     and_then (optional_field m ''usage'' usage_from_json) (\<lambda>usage.
       Inr \<lparr>cm_role = role, cm_blocks = blocks, cm_usage = usage\<rparr>))))))"

definition compaction_from_json :: "json_value \<Rightarrow> session_error + session_compaction" where
  "compaction_from_json v =
     and_then (object_or ''compaction'' v) (\<lambda>m.
     and_then (required_u32 m ''count'') (\<lambda>count.
     and_then (required_usize m ''removed_message_count'') (\<lambda>removed.
     and_then (required_string m ''summary'') (\<lambda>summary.
       Inr \<lparr>sc_count = count, sc_removed_message_count = removed, sc_summary = summary\<rparr>))))"

definition fork_from_json :: "json_value \<Rightarrow> session_error + session_fork" where
  "fork_from_json v =
     and_then (object_or ''fork metadata'' v) (\<lambda>m.
     and_then (required_string m ''parent_session_id'') (\<lambda>parent.
       Inr \<lparr>sf_parent_session_id = parent, sf_branch_name = str_field m ''branch_name''\<rparr>))"

definition prompt_entry_from_json :: "json_value \<Rightarrow> prompt_entry option" where
  "prompt_entry_from_json v =
     Option.bind (as_object v) (\<lambda>m.
     Option.bind (Option.bind (field m ''timestamp_ms'') as_i64) (\<lambda>n.
       if sint n < 0 then None
       else map_option (\<lambda>t. \<lparr>pe_timestamp_ms = n, pe_text = t\<rparr>) (str_field m ''text'')))"

definition session_from_json :: "json_value \<Rightarrow> session_world \<Rightarrow> (session_error + claw_session) \<times> session_world" where
  "session_from_json v w =
     (case
       and_then (object_or ''session'' v) (\<lambda>m.
       and_then (required_i64 m ''version'') (\<lambda>n.
       and_then (u32_of_i64 ''version'' n) (\<lambda>version.
       and_then (ok_or (missing ''messages'') (Option.bind (field m ''messages'') as_array)) (\<lambda>values.
       and_then (try_map message_from_json values) (\<lambda>messages. Inr (m, version, messages))))))
      of Inl e \<Rightarrow> (Inl e, w)
       | Inr (m, version, messages) \<Rightarrow>
      (let (now, w1) = current_time_millis w;
           (session_id, w2) = (case str_field m ''session_id'' of
              Some i \<Rightarrow> (i, w1) | None \<Rightarrow> generate_session_id w1)
       in (and_then (optional_field m ''created_at_ms'' (\<lambda>v. required_u64_from_value v ''created_at_ms'')) (\<lambda>created.
           and_then (optional_field m ''updated_at_ms'' (\<lambda>v. required_u64_from_value v ''updated_at_ms'')) (\<lambda>updated.
           and_then (optional_field m ''compaction'' compaction_from_json) (\<lambda>compaction.
           and_then (optional_field m ''fork'' fork_from_json) (\<lambda>fork.
             Inr \<lparr>cs_version = version, cs_session_id = session_id, cs_created_at_ms = unwrap_or now created,
               cs_updated_at_ms = unwrap_or (unwrap_or now created) updated, cs_messages = messages,
               cs_compaction = compaction, cs_fork = fork, cs_workspace_root = str_field m ''workspace_root'',
               cs_prompt_history = (case Option.bind (field m ''prompt_history'') as_array of
                   None \<Rightarrow> [] | Some entries \<Rightarrow> List.map_filter prompt_entry_from_json entries),
               cs_last_health_check_ms = None, cs_model = str_field m ''model'', cs_persistence = None\<rparr>)))), w2)))"

section \<open>Reading records\<close>

text \<open>What the loop over the lines has gathered.\<close>

record jsonl_state =
  js_version :: u32
  js_session_id :: "string option"
  js_created_at_ms :: "u64 option"
  js_updated_at_ms :: "u64 option"
  js_messages :: "claw_message list"
  js_compaction :: "session_compaction option"
  js_fork :: "session_fork option"
  js_workspace_root :: "string option"
  js_model :: "string option"
  js_prompt_history :: "prompt_entry list"

definition jsonl_start :: jsonl_state where
  "jsonl_start = \<lparr>js_version = session_version, js_session_id = None, js_created_at_ms = None,
     js_updated_at_ms = None, js_messages = [], js_compaction = None, js_fork = None,
     js_workspace_root = None, js_model = None, js_prompt_history = []\<rparr>"

definition jsonl_error :: "string \<Rightarrow> nat \<Rightarrow> string \<Rightarrow> session_error" where
  "jsonl_error before line_number after =
     SessionFormat (before @ '' at line '' @ show_nat (line_number + 1) @ after)"

definition read_record :: "nat \<Rightarrow> json_value \<Rightarrow> jsonl_state \<Rightarrow> session_error + jsonl_state" where
  "read_record line_number v st =
     and_then (ok_or (jsonl_error ''JSONL record'' line_number '' must be an object'') (as_object v)) (\<lambda>m.
     and_then (ok_or (jsonl_error ''JSONL record'' line_number '' missing type'') (str_field m ''type'')) (\<lambda>t.
       if t = ''session_meta'' then
         and_then (required_u32 m ''version'') (\<lambda>version.
         and_then (required_string m ''session_id'') (\<lambda>session_id.
         and_then (required_u64 m ''created_at_ms'') (\<lambda>created.
         and_then (required_u64 m ''updated_at_ms'') (\<lambda>updated.
         and_then (optional_field m ''fork'' fork_from_json) (\<lambda>fork.
           Inr (st\<lparr>js_version := version, js_session_id := Some session_id, js_created_at_ms := Some created,
             js_updated_at_ms := Some updated, js_fork := fork,
             js_workspace_root := str_field m ''workspace_root'', js_model := str_field m ''model''\<rparr>))))))
       else if t = ''message'' then
         and_then (ok_or (jsonl_error ''JSONL record'' line_number '' missing message'') (field m ''message'')) (\<lambda>mv.
         and_then (message_from_json mv) (\<lambda>message. Inr (st\<lparr>js_messages := js_messages st @ [message]\<rparr>)))
       else if t = ''compaction'' then
         and_then (compaction_from_json v) (\<lambda>compaction. Inr (st\<lparr>js_compaction := Some compaction\<rparr>))
       else if t = ''prompt_history'' then
         Inr (case prompt_entry_from_json v of None \<Rightarrow> st
           | Some entry \<Rightarrow> st\<lparr>js_prompt_history := js_prompt_history st @ [entry]\<rparr>)
       else Inl (jsonl_error ''unsupported JSONL record type'' line_number ('': '' @ t))))"

fun read_lines :: "nat \<Rightarrow> string list \<Rightarrow> jsonl_state \<Rightarrow> session_error + jsonl_state" where
  "read_lines line_number [] st = Inr st"
| "read_lines line_number (raw_line # rest) st =
     (let line = trim raw_line in
      if line = [] then read_lines (Suc line_number) rest st
      else
        (case json_parse (chars_of line) of
           Inl e \<Rightarrow> Inl (jsonl_error ''invalid JSONL record'' line_number ('': '' @ show_json_error e))
         | Inr v \<Rightarrow>
             (case read_record line_number v st of
                Inl e \<Rightarrow> Inl e | Inr st' \<Rightarrow> read_lines (Suc line_number) rest st')))"

definition session_from_jsonl :: "string \<Rightarrow> session_world \<Rightarrow> (session_error + claw_session) \<times> session_world" where
  "session_from_jsonl contents w =
     (case read_lines 0 (str_lines contents) jsonl_start of
        Inl e \<Rightarrow> (Inl e, w)
      | Inr st \<Rightarrow>
     (let (now, w1) = current_time_millis w;
          (session_id, w2) = (case js_session_id st of Some i \<Rightarrow> (i, w1) | None \<Rightarrow> generate_session_id w1)
      in (Inr \<lparr>cs_version = js_version st, cs_session_id = session_id,
            cs_created_at_ms = unwrap_or now (js_created_at_ms st),
            cs_updated_at_ms = unwrap_or (unwrap_or now (js_created_at_ms st)) (js_updated_at_ms st),
            cs_messages = js_messages st, cs_compaction = js_compaction st, cs_fork = js_fork st,
            cs_workspace_root = js_workspace_root st, cs_prompt_history = js_prompt_history st,
            cs_last_health_check_ms = None, cs_model = js_model st, cs_persistence = None\<rparr>, w2)))"

end
