(* ===== verification/RefSessionFile.thy ===== *)
theory RefSessionFile
  imports RefSession
begin

text \<open>
  How the sessions of \<open>claw-rust/crates/runtime/src/session.rs\<close> reach the disk: a snapshot written
  beside the file and renamed over it, rotation of large files, removal of the oldest rotated files,
  and single records appended after each message. The times of last modification, by which rotated
  files are sorted, are a parameter.
\<close>

definition rotate_after_bytes :: nat where
  "rotate_after_bytes = 256 * 1024"

definition max_rotated_files :: nat where
  "max_rotated_files = 3"

definition on_files :: "(fs \<Rightarrow> 'a \<times> fs) \<Rightarrow> session_world \<Rightarrow> 'a \<times> session_world" where
  "on_files f w = (case f (sw_fs w) of (x, s) \<Rightarrow> (x, w\<lparr>sw_fs := s\<rparr>))"

text \<open>\<open>?\<close> on a call of the file system.\<close>

definition try_fs ::
  "(fs \<Rightarrow> (io_error + 'a) \<times> fs) \<Rightarrow> ('a \<Rightarrow> session_world \<Rightarrow> (session_error + 'b) \<times> session_world)
    \<Rightarrow> session_world \<Rightarrow> (session_error + 'b) \<times> session_world" where
  "try_fs f k w =
     (case on_files f w of (Inl e, w1) \<Rightarrow> (Inl (SessionIo e), w1) | (Inr x, w1) \<Rightarrow> k x w1)"

definition try_step ::
  "(session_world \<Rightarrow> ('e + 'a) \<times> session_world) \<Rightarrow> ('a \<Rightarrow> session_world \<Rightarrow> ('e + 'b) \<times> session_world)
    \<Rightarrow> session_world \<Rightarrow> ('e + 'b) \<times> session_world" where
  "try_step f k w = (case f w of (Inl e, w1) \<Rightarrow> (Inl e, w1) | (Inr x, w1) \<Rightarrow> k x w1)"

definition done_with :: "'a \<Rightarrow> session_world \<Rightarrow> ('e + 'a) \<times> session_world" where
  "done_with x w = (Inr x, w)"

section \<open>Names\<close>

text \<open>\<open>and_then(to_str).unwrap_or("session")\<close>.\<close>

definition name_or_session :: "string option \<Rightarrow> string" where
  "name_or_session n = (case n of None \<Rightarrow> ''session'' | Some n \<Rightarrow> if valid_utf8 n then n else ''session'')"

definition temporary_path_for :: "path \<Rightarrow> session_world \<Rightarrow> path \<times> session_world" where
  "temporary_path_for p w =
     (let (millis, w1) = current_time_millis w; (counter, w2) = fetch_counter w1
      in (with_file_name p (name_or_session (file_name p) @ ''.tmp-'' @ show_nat (unat millis) @ ''-''
            @ show_nat (unat counter)), w2))"

definition rotated_log_path :: "path \<Rightarrow> session_world \<Rightarrow> path \<times> session_world" where
  "rotated_log_path p w =
     (let (millis, w1) = current_time_millis w
      in (with_file_name p (name_or_session (file_stem p) @ ''.rot-'' @ show_nat (unat millis) @ ''.jsonl''), w1))"

section \<open>Whole files\<close>

definition rotate_session_file_if_needed :: "path \<Rightarrow> session_world \<Rightarrow> (session_error + unit) \<times> session_world" where
  "rotate_session_file_if_needed p w =
     (case on_files (fs_metadata_len p) w of
        (Inl _, w1) \<Rightarrow> (Inr (), w1)
      | (Inr len, w1) \<Rightarrow>
          if len < rotate_after_bytes then (Inr (), w1)
          else (let (rotated, w2) = rotated_log_path p w1
                in try_fs (fs_rename p rotated) done_with w2))"

definition write_atomic :: "path \<Rightarrow> string \<Rightarrow> session_world \<Rightarrow> (session_error + unit) \<times> session_world" where
  "write_atomic p contents =
     try_step (case path_parent p of None \<Rightarrow> done_with () | Some parent \<Rightarrow> try_fs (fs_create_dir_all parent) done_with)
       (\<lambda>_ w. let (temp, w1) = temporary_path_for p w
         in try_fs (fs_write temp contents) (\<lambda>_. try_fs (fs_rename temp p) done_with) w1)"

fun entries_of :: "string list \<Rightarrow> fs \<Rightarrow> string list \<times> fs" where
  "entries_of [] s = ([], s)"
| "entries_of (n # ns) s =
     (case fs_dir_entry n s of
        (Inl _, s') \<Rightarrow> entries_of ns s'
      | (Inr m, s') \<Rightarrow> (let (ms, s'') = entries_of ns s' in (m # ms, s'')))"

definition rotated_name :: "string \<Rightarrow> string \<Rightarrow> bool" where
  "rotated_name prefix n \<longleftrightarrow> valid_utf8 n \<and> starts_with n prefix
     \<and> (case path_extension (parse_path n) of None \<Rightarrow> False | Some ext \<Rightarrow> to_ascii_lowercase ext = ''jsonl'')"

fun remove_files :: "path list \<Rightarrow> fs \<Rightarrow> (io_error + unit) \<times> fs" where
  "remove_files [] s = (Inr (), s)"
| "remove_files (p # ps) s =
     (case fs_remove_file p s of (Inl e, s') \<Rightarrow> (Inl e, s') | (Inr _, s') \<Rightarrow> remove_files ps s')"

definition cleanup_rotated_logs ::
  "(fs \<Rightarrow> path \<Rightarrow> nat) \<Rightarrow> path \<Rightarrow> session_world \<Rightarrow> (session_error + unit) \<times> session_world" where
  "cleanup_rotated_logs modified p =
     (case path_parent p of
        None \<Rightarrow> done_with ()
      | Some parent \<Rightarrow>
          (let prefix = name_or_session (file_stem p) @ ''.rot-''
           in try_fs (fs_read_dir parent) (\<lambda>names w.
                let (present, w1) = on_files (entries_of names) w;
                    rotated = map (\<lambda>n. path_join parent [Name n]) (filter (rotated_name prefix) present);
                    sorted = sort_key (modified (sw_fs w1)) rotated
                in try_fs (remove_files (take (length sorted - max_rotated_files) sorted)) done_with w1)))"

definition save_to_path ::
  "(fs \<Rightarrow> path \<Rightarrow> nat) \<Rightarrow> path \<Rightarrow> claw_session \<Rightarrow> session_world \<Rightarrow> (session_error + unit) \<times> session_world" where
  "save_to_path modified p s w =
     (case render_jsonl_snapshot s of
        Inl e \<Rightarrow> (Inl e, w)
      | Inr snapshot \<Rightarrow>
          try_step (rotate_session_file_if_needed p) (\<lambda>_.
          try_step (write_atomic p snapshot) (\<lambda>_. cleanup_rotated_logs modified p)) w)"

definition load_from_path :: "path \<Rightarrow> session_world \<Rightarrow> (session_error + claw_session) \<times> session_world" where
  "load_from_path p =
     try_fs (fs_read_to_string p) (\<lambda>contents.
       let has_messages = (\<lambda>v. case as_object v of None \<Rightarrow> False | Some m \<Rightarrow> field m ''messages'' \<noteq> None);
           whole = (case json_parse (chars_of contents) of
               Inl _ \<Rightarrow> None
             | Inr v \<Rightarrow> if has_messages v then Some v else None)
       in try_step (case whole of Some v \<Rightarrow> session_from_json v | None \<Rightarrow> session_from_jsonl contents)
            (\<lambda>s. done_with (with_persistence_path p s)))"

section \<open>Appended records\<close>

text \<open>\<open>writeln!\<close> writes the record and then the newline.\<close>

definition append_line :: "loc \<Rightarrow> json_value \<Rightarrow> session_world \<Rightarrow> (session_error + unit) \<times> session_world" where
  "append_line l v = try_fs (fs_append l (render_line v)) (\<lambda>_. try_fs (fs_append l nl) done_with)"

definition append_persisted ::
  "(fs \<Rightarrow> path \<Rightarrow> nat) \<Rightarrow> json_value \<Rightarrow> claw_session \<Rightarrow> session_world \<Rightarrow> (session_error + unit) \<times> session_world" where
  "append_persisted modified v s w =
     (case cs_persistence s of
        None \<Rightarrow> (Inr (), w)
      | Some p \<Rightarrow>
          (let (present, w1) = on_files (fs_exists p) w in
           if \<not> present then save_to_path modified p s w1
           else try_fs (fs_metadata_len p) (\<lambda>len.
             if len = 0 then save_to_path modified p s
             else try_fs (fs_open_append p) (\<lambda>l. append_line l v)) w1))"

definition push_message ::
  "(fs \<Rightarrow> path \<Rightarrow> nat) \<Rightarrow> claw_message \<Rightarrow> claw_session \<Rightarrow> session_world
    \<Rightarrow> (session_error + unit) \<times> claw_session \<times> session_world" where
  "push_message modified m s w =
     (let (s1, w1) = touch s w;
          s2 = s1\<lparr>cs_messages := cs_messages s1 @ [m]\<rparr>
      in case append_persisted modified (message_record m) s2 w1 of
           (Inl e, w2) \<Rightarrow> (Inl e, s2\<lparr>cs_messages := butlast (cs_messages s2)\<rparr>, w2)
         | (Inr _, w2) \<Rightarrow> (Inr (), s2, w2))"

definition push_user_text where
  "push_user_text modified t = push_message modified (user_text t)"

definition push_prompt_entry ::
  "(fs \<Rightarrow> path \<Rightarrow> nat) \<Rightarrow> string \<Rightarrow> claw_session \<Rightarrow> session_world
    \<Rightarrow> (session_error + unit) \<times> claw_session \<times> session_world" where
  "push_prompt_entry modified t s w =
     (let (timestamp_ms, w1) = current_time_millis w;
          entry = \<lparr>pe_timestamp_ms = timestamp_ms, pe_text = t\<rparr>;
          s1 = s\<lparr>cs_prompt_history := cs_prompt_history s @ [entry]\<rparr>;
          (r, w2) = append_persisted modified (prompt_entry_record entry) s1 w1
      in (r, s1, w2))"

end
