(* ===== verification/RefSessionCorrect.thy ===== *)
theory RefSessionCorrect
  imports RefSessionFile RefJsonCorrect
begin

text \<open>
  What the session codec and the session files guarantee: each piece is read back as it was written,
  so a snapshot loads as the session it was made of, a record appended to a file adds exactly its
  message, and a record torn by a failing write makes the file unreadable.
\<close>

section \<open>A value on a line\<close>

text \<open>All texts of a value are sequences of scalar values.\<close>

fun json_scalar :: "json_value \<Rightarrow> bool" where
  "json_scalar (String u) \<longleftrightarrow> list_all is_scalar u"
| "json_scalar (Array vs) \<longleftrightarrow> list_all json_scalar vs"
| "json_scalar (Object kvs) \<longleftrightarrow> list_all (\<lambda>(k, v). list_all is_scalar k \<and> json_scalar v) kvs"
| "json_scalar _ \<longleftrightarrow> True"

text \<open>A character that may stand in a line: a scalar value that is no line break.\<close>

definition line_char :: "nat \<Rightarrow> bool" where
  "line_char c \<longleftrightarrow> is_scalar c \<and> c \<noteq> 10 \<and> c \<noteq> 13"

lemma line_char_ascii: "32 \<le> c \<Longrightarrow> c < 128 \<Longrightarrow> line_char c"
  by (simp add: line_char_def is_scalar_def)

lemma hex_nibble_range: "n < 16 \<Longrightarrow> 32 \<le> hex_nibble n \<and> hex_nibble n < 128"
  by (auto simp: hex_nibble_def)

lemma render_char_line: "is_scalar c \<Longrightarrow> list_all line_char (render_char c)"
  using hex_nibble_range
  by (auto simp: render_char_def push_unicode_escape_def uni_def is_control_def line_char_ascii)
    (auto simp: line_char_def)

lemma render_string_line: "list_all is_scalar u \<Longrightarrow> list_all line_char (render_string u)"
proof -
  assume "list_all is_scalar u"
  then have "list_all line_char (concat (map render_char u))"
    by (induction u) (simp_all add: render_char_line)
  then show ?thesis by (simp add: render_string_def line_char_ascii)
qed

lemma join_line: "list_all (list_all line_char) us \<Longrightarrow> list_all line_char (join_uchars us)"
  by (induction us rule: join_uchars.induct) (simp_all add: line_char_ascii)

lemma show_i64_line: "list_all line_char (uni (show_i64 n))"
proof -
  have "list_all line_char (uni (show_nat m))" for m
    using show_nat_digits [of m] by (auto simp: list_all_iff is_digit_def line_char_ascii)
  moreover have "uni (CHR ''-'' # s) = 45 # uni s" for s by (simp add: uni_def)
  ultimately show ?thesis by (simp add: show_i64_def line_char_ascii)
qed

lemma render_line_chars: "json_scalar v \<Longrightarrow> list_all line_char (render v)"
proof (induction v)
  case (Bool b)
  then show ?case by (simp add: uni_def line_char_ascii)
next
  case (Array vs)
  then have "list_all (list_all line_char) (map render vs)" by (auto simp: list_all_iff)
  then show ?case by (simp add: join_line line_char_ascii)
next
  case (Object kvs)
  then have "list_all (list_all line_char) (map (\<lambda>(k, v). render_string k @ [58] @ render v) kvs)"
    by (fastforce simp: list_all_iff line_char_ascii render_string_line [unfolded list_all_iff])
  then show ?case by (simp add: join_line line_char_ascii)
qed (simp_all add: uni_def line_char_ascii render_string_line show_i64_line [unfolded uni_def])

lemma scalar_render: "json_scalar v \<Longrightarrow> list_all is_scalar (render v)"
  using render_line_chars [of v] by (simp add: list_all_iff line_char_def)

lemma parse_line: "json_ok v \<Longrightarrow> json_scalar v \<Longrightarrow> json_parse (chars_of (render_line v)) = Inr v"
  by (simp add: render_line_def scalar_render json_round_trip)

lemma line_no_breaks:
  "json_scalar v \<Longrightarrow> CHR 0x0A \<notin> set (render_line v) \<and> CHR 0x0D \<notin> set (render_line v)"
  using render_line_chars [of v] ascii_byte_iff [of "CHR 0x0A"] ascii_byte_iff [of "CHR 0x0D"] scalar_render [of v]
  by (auto simp: render_line_def list_all_iff line_char_def)

lemma line_braced: "\<exists>m. render_line (Object kvs) = CHR ''{'' # m @ [CHR ''}'']"
proof -
  have "char_of (123 :: nat) = CHR ''{''" "char_of (125 :: nat) = CHR ''}''" by code_simp+
  then show ?thesis by (simp add: render_line_def bytes_of_def encode_scalar_def)
qed

lemma trim_line: "trim (render_line (Object kvs)) = render_line (Object kvs)"
  using line_braced [of kvs] by (auto simp: trim_braced)

lemma line_nonempty: "render_line (Object kvs) \<noteq> []"
  using line_braced [of kvs] by auto

lemma str_lines_rendered:
  "json_scalar v \<Longrightarrow> str_lines (render_line v @ nl @ t) = render_line v # str_lines t"
  using line_no_breaks [of v] by (intro str_lines_cons) simp_all

section \<open>Objects and their fields\<close>

lemma uni_eq [simp]: "uni s = uni t \<longleftrightarrow> s = t"
  unfolding uni_def by (rule inj_map_eq_map) (simp add: inj_def)

definition obj_map :: "(string \<times> json_value) list \<Rightarrow> json_map" where
  "obj_map es = bt_of_list (map (\<lambda>(k, v). (uni k, v)) es)"

lemma json_object_map: "json_object es = Object (obj_map es)"
  by (simp add: json_object_def obj_map_def)

lemma as_object_json [simp]: "as_object (json_object es) = Some (obj_map es)"
  by (simp add: as_object_def json_object_map)

lemma field_obj_map [simp]: "field (obj_map es) k = map_of (rev es) k"
proof -
  have "map_of (map (\<lambda>(k, v). (uni k, v)) xs) (uni k) = map_of xs k" for xs :: "(string \<times> json_value) list"
    by (induction xs) auto
  from this [of "rev es"] show ?thesis by (simp add: field_def obj_map_def bt_get_of_list rev_map)
qed

lemma map_of_optional [simp]: "map_of (optional_entry k v) key = (if key = k then v else None)"
  "rev (optional_entry k v) = optional_entry k v"
  by (simp_all add: optional_entry_def split: option.split)

text \<open>A value that survives its line.\<close>

definition json_good :: "json_value \<Rightarrow> bool" where
  "json_good v \<longleftrightarrow> json_ok v \<and> json_scalar v"

lemma bt_of_list_all: "list_all P kvs \<Longrightarrow> list_all P (bt_of_list kvs)"
proof -
  have ins: "P (k, v) \<Longrightarrow> list_all P m \<Longrightarrow> list_all P (bt_insert k v m)" for k v m
    by (induction k v m rule: bt_insert.induct) auto
  have "list_all P kvs \<Longrightarrow> list_all P m \<Longrightarrow> list_all P (fold (\<lambda>(k, v). bt_insert k v) kvs m)" for m
    by (induction kvs arbitrary: m) (auto simp: ins)
  then show "list_all P kvs \<Longrightarrow> ?thesis" by (simp add: bt_of_list_def)
qed

lemma json_object_good:
  "list_all (\<lambda>(k, v). is_ascii k \<and> json_good v) es \<Longrightarrow> json_good (json_object es)"
proof -
  assume ok: "list_all (\<lambda>(k, v). is_ascii k \<and> json_good v) es"
  have "list_all (\<lambda>(k, v). json_ok v \<and> list_all is_scalar k \<and> json_scalar v) (bt_of_list (map (\<lambda>(k, v). (uni k, v)) es))"
    by (rule bt_of_list_all) (use ok scalar_uni in \<open>auto simp: list_all_iff json_good_def\<close>)
  then show ?thesis by (auto simp: json_good_def json_object_def bt_ok_of_list list_all_iff)
qed

lemma json_good_simps [simp]:
  "rust_string s \<Longrightarrow> json_good (json_text s)" "json_good (Bool b)" "json_good (json_u32 n)" "json_good (Number i)"
  "json_good (Array vs) \<longleftrightarrow> list_all json_good vs"
  by (auto simp: json_good_def json_text_def json_u32_def rust_string_def list_all_iff)

lemma as_str_text [simp]: "rust_string s \<Longrightarrow> as_str (json_text s) = Some s"
  by (simp add: as_str_def json_text_def rust_string_def)

lemma as_simps [simp]:
  "as_array (Array vs) = Some vs" "as_bool (Bool b) = Some b" "as_i64 (Number n) = Some n" "as_i64 (json_u32 u) = Some (ucast u)"
  by (simp_all add: as_array_def as_bool_def as_i64_def json_u32_def)

lemma uint_below: "unat n < 2 ^ k \<Longrightarrow> uint n < 2 ^ k"
proof -
  assume "unat n < 2 ^ k"
  then have "int (unat n) < int (2 ^ k)" by (simp only: of_nat_less_iff)
  then show ?thesis by simp
qed

lemma sint_small: "unat (n :: i64) < 2 ^ 63 \<Longrightarrow> sint n = uint n"
proof -
  assume "unat n < 2 ^ 63"
  then have "uint n < 2 ^ 63" by (rule uint_below)
  then have "signed_take_bit 63 (uint n) = uint n"
    using uint_ge_0 [of n] by (intro signed_take_bit_int_eq_self) (linarith, simp)
  then show ?thesis by (simp add: sint_uint)
qed

lemma u32_back [simp]: "u32_of_i64 key (ucast (n :: u32)) = Inr n"
proof -
  have "unat n < 2 ^ LENGTH(32)" by (rule unsigned_less)
  then have n: "unat n < 2 ^ 32" by simp
  then have u: "unat (ucast n :: i64) = unat n" by (simp add: unsigned_ucast_eq take_bit_nat_eq_self)
  have "unat (ucast n :: i64) < 2 ^ 32" using n u by metis
  then have "uint (ucast n :: i64) < 2 ^ 32" by (rule uint_below)
  moreover have "sint (ucast n :: i64) = uint (ucast n :: i64)" by (rule sint_small) (use n u in simp)
  moreover have "ucast (ucast n :: i64) = n"
    by (rule ucast_up_ucast_id) (simp add: is_up)
  ultimately show ?thesis by (simp add: u32_of_i64_def)
qed

section \<open>Reading back each piece\<close>

lemmas required_defs = required_string_def str_field_def required_u32_def required_i64_def required_u64_def
  required_u64_from_value_def required_usize_def object_or_def

lemmas reading_defs = required_defs optional_field_def role_from_text_def

fun block_ok :: "claw_block \<Rightarrow> bool" where
  "block_ok (TextBlock t) \<longleftrightarrow> rust_string t"
| "block_ok (ToolUseBlock i name input) \<longleftrightarrow> rust_string i \<and> rust_string name \<and> rust_string input"
| "block_ok (ToolResultBlock i name result e) \<longleftrightarrow> rust_string i \<and> rust_string name \<and> rust_string result"

lemma ascii_texts [simp]:
  "rust_string ''text''" "rust_string ''tool_use''" "rust_string ''tool_result''" "rust_string ''message''"
  "rust_string ''session_meta''" "rust_string ''compaction''" "rust_string ''prompt_history''"
  "rust_string (role_text r)"
  by (cases r; simp add: rust_string_ascii is_ascii_def)+

lemma block_back: "block_ok b \<Longrightarrow> block_from_json (block_to_json b) = Inr b"
  by (cases b) (simp_all add: block_from_json_def reading_defs)

lemma block_good: "block_ok b \<Longrightarrow> json_good (block_to_json b)"
  by (cases b) (simp_all add: json_object_good is_ascii_def)

lemma usage_back: "usage_from_json (usage_to_json u) = Inr u"
  by (simp add: usage_from_json_def usage_to_json_def reading_defs)

lemma usage_good: "json_good (usage_to_json u)"
  by (simp add: usage_to_json_def json_object_good is_ascii_def)

definition message_ok :: "claw_message \<Rightarrow> bool" where
  "message_ok m \<longleftrightarrow> list_all block_ok (cm_blocks m)"

lemma role_back: "role_from_text (role_text r) = Inr r"
  by (cases r) (simp_all add: role_from_text_def)

lemma try_map_map: "(\<And>x. x \<in> set xs \<Longrightarrow> f (g x) = Inr x) \<Longrightarrow> try_map f (map g xs) = Inr xs"
  by (induction xs) auto

lemma message_back: "message_ok m \<Longrightarrow> message_from_json (message_to_json m) = Inr m"
proof -
  assume ok: "message_ok m"
  have blocks: "try_map block_from_json (map block_to_json (cm_blocks m)) = Inr (cm_blocks m)"
    by (rule try_map_map) (use ok in \<open>auto simp: message_ok_def list_all_iff block_back\<close>)
  show ?thesis
    by (cases "cm_usage m")
      (simp_all add: message_from_json_def message_to_json_def object_or_def str_field_def role_back blocks
        optional_field_def usage_back map_add_def)
qed

lemma message_good: "message_ok m \<Longrightarrow> json_good (message_to_json m)"
  unfolding message_to_json_def
  by (rule json_object_good)
    (auto simp: optional_entry_def usage_good message_ok_def list_all_iff block_good is_ascii_def split: option.split)

definition compaction_ok :: "session_compaction \<Rightarrow> bool" where
  "compaction_ok c \<longleftrightarrow> rust_string (sc_summary c) \<and> sc_removed_message_count c < 2 ^ 63"

lemma unat_small: "n < 2 ^ 63 \<Longrightarrow> unat (of_nat n :: i64) = n"
  by (simp add: unat_of_nat take_bit_nat_eq_self)

lemma compaction_back:
  assumes "compaction_ok c"
  obtains v where "compaction_record c = Inr v" "compaction_from_json v = Inr c" "json_good v"
    "\<exists>m. v = Object m \<and> str_field m ''type'' = Some ''compaction''"
proof -
  let ?n = "of_nat (sc_removed_message_count c) :: i64"
  have n: "unat ?n = sc_removed_message_count c" "sc_removed_message_count c < 2 ^ 63"
    using assms unat_small by (simp_all add: compaction_ok_def)
  then have "0 \<le> sint ?n" using sint_small [of ?n] by simp
  let ?v = "json_object [(''type'', json_text ''compaction''), (''count'', json_u32 (sc_count c)),
    (''removed_message_count'', Number ?n), (''summary'', json_text (sc_summary c))]"
  show ?thesis
  proof (rule that)
    show "compaction_record c = Inr ?v"
      using n(2) by (simp add: compaction_record_def compaction_entries_def i64_from_usize_def)
    show "compaction_from_json ?v = Inr c"
      using assms n \<open>0 \<le> sint ?n\<close> by (simp add: compaction_from_json_def required_defs compaction_ok_def)
    show "json_good ?v" using assms by (simp add: json_object_good compaction_ok_def is_ascii_def)
    show "\<exists>m. ?v = Object m \<and> str_field m ''type'' = Some ''compaction''"
      by (simp add: json_object_map str_field_def)
  qed
qed

definition fork_ok :: "session_fork \<Rightarrow> bool" where
  "fork_ok f \<longleftrightarrow> rust_string (sf_parent_session_id f) \<and> pred_option rust_string (sf_branch_name f)"

lemma fork_back: "fork_ok f \<Longrightarrow> fork_from_json (fork_to_json f) = Inr f"
  by (cases "sf_branch_name f")
    (simp_all add: fork_ok_def fork_from_json_def fork_to_json_def required_defs map_add_def)

lemma fork_good: "fork_ok f \<Longrightarrow> json_good (fork_to_json f)"
  unfolding fork_to_json_def
  by (rule json_object_good) (auto simp: fork_ok_def optional_entry_def is_ascii_def split: option.split)

definition prompt_ok :: "prompt_entry \<Rightarrow> bool" where
  "prompt_ok e \<longleftrightarrow> rust_string (pe_text e) \<and> unat (pe_timestamp_ms e) < 2 ^ 63"

lemma prompt_back: "prompt_ok e \<Longrightarrow> prompt_entry_from_json (prompt_entry_record e) = Some e"
  using sint_small [of "pe_timestamp_ms e"]
  by (simp add: prompt_ok_def prompt_entry_from_json_def prompt_entry_record_def str_field_def)

lemma prompt_good: "prompt_ok e \<Longrightarrow> json_good (prompt_entry_record e)"
  by (simp add: prompt_ok_def prompt_entry_record_def json_object_good is_ascii_def)

section \<open>Snapshots\<close>

definition session_ok :: "claw_session \<Rightarrow> bool" where
  "session_ok s \<longleftrightarrow>
     rust_string (cs_session_id s) \<and> unat (cs_created_at_ms s) < 2 ^ 63 \<and> unat (cs_updated_at_ms s) < 2 ^ 63
     \<and> list_all message_ok (cs_messages s) \<and> pred_option compaction_ok (cs_compaction s)
     \<and> pred_option fork_ok (cs_fork s) \<and> pred_option rust_string (cs_workspace_root s)
     \<and> list_all prompt_ok (cs_prompt_history s) \<and> pred_option rust_string (cs_model s)"

lemma identity_entries_ok:
  "session_ok s \<Longrightarrow> identity_entries s = Inr [(''version'', json_u32 (cs_version s)), (''session_id'', json_text (cs_session_id s)),
      (''created_at_ms'', Number (cs_created_at_ms s)), (''updated_at_ms'', Number (cs_updated_at_ms s))]"
  by (simp add: identity_entries_def i64_from_u64_def session_ok_def)

lemma root_entry_ok:
  "session_ok s \<Longrightarrow> root_entry s = Inr (optional_entry ''workspace_root'' (map_option json_text (cs_workspace_root s)))"
  by (auto simp: root_entry_def workspace_root_to_string_def session_ok_def optional_entry_def rust_string_valid
      split: option.split)

lemma bind_text [simp]: "pred_option rust_string t \<Longrightarrow> Option.bind (map_option json_text t) as_str = t"
  by (cases t) simp_all

lemma meta_back:
  assumes "session_ok s"
  obtains v m where "meta_record s = Inr v" "v = Object m" "json_good v" "field m ''messages'' = None"
    "\<And>n st. read_record n v st = Inr (st\<lparr>js_version := cs_version s, js_session_id := Some (cs_session_id s),
       js_created_at_ms := Some (cs_created_at_ms s), js_updated_at_ms := Some (cs_updated_at_ms s),
       js_fork := cs_fork s, js_workspace_root := cs_workspace_root s, js_model := cs_model s\<rparr>)"
proof -
  let ?es = "(''type'', json_text ''session_meta'') # (''version'', json_u32 (cs_version s))
    # (''session_id'', json_text (cs_session_id s)) # (''created_at_ms'', Number (cs_created_at_ms s))
    # (''updated_at_ms'', Number (cs_updated_at_ms s)) # optional_entry ''fork'' (map_option fork_to_json (cs_fork s))
    @ optional_entry ''workspace_root'' (map_option json_text (cs_workspace_root s))
    @ optional_entry ''model'' (map_option json_text (cs_model s))"
  have times: "0 \<le> sint (cs_created_at_ms s)" "0 \<le> sint (cs_updated_at_ms s)"
    using assms sint_small by (simp_all add: session_ok_def)
  define m where "m = obj_map ?es"
  have fixed: "field m ''type'' = Some (json_text ''session_meta'')" "field m ''version'' = Some (json_u32 (cs_version s))"
    "field m ''session_id'' = Some (json_text (cs_session_id s))"
    "field m ''created_at_ms'' = Some (Number (cs_created_at_ms s))"
    "field m ''updated_at_ms'' = Some (Number (cs_updated_at_ms s))"
    and optional: "field m ''fork'' = map_option fork_to_json (cs_fork s)"
    "field m ''workspace_root'' = map_option json_text (cs_workspace_root s)"
    "field m ''model'' = map_option json_text (cs_model s)" "field m ''messages'' = None"
    unfolding m_def by (cases "cs_fork s"; cases "cs_workspace_root s"; cases "cs_model s"; simp add: optional_entry_def)+
  show ?thesis
  proof (rule that)
    show "meta_record s = Inr (Object m)"
      using assms by (simp add: meta_record_def identity_entries_ok root_entry_ok m_def json_object_map)
    show "Object m = Object m" ..
    have "json_good (json_object ?es)"
      using assms
      by (intro json_object_good)
        (auto simp: session_ok_def is_ascii_def fork_good optional_entry_def split: option.split)
    then show "json_good (Object m)" by (simp add: m_def json_object_map)
    show "field m ''messages'' = None" by (rule optional(4))
    show "read_record n (Object m) st = Inr (st\<lparr>js_version := cs_version s, js_session_id := Some (cs_session_id s),
       js_created_at_ms := Some (cs_created_at_ms s), js_updated_at_ms := Some (cs_updated_at_ms s),
       js_fork := cs_fork s, js_workspace_root := cs_workspace_root s, js_model := cs_model s\<rparr>)" for n st
      using assms times
      by (cases "cs_fork s")
        (simp_all add: read_record_def reading_defs as_object_def fixed optional fork_back session_ok_def)
  qed
qed

lemma read_line_step:
  "json_good (Object m) \<Longrightarrow> read_record n (Object m) st = Inr st' \<Longrightarrow>
   read_lines n (render_line (Object m) # rest) st = read_lines (Suc n) rest st'"
  by (simp add: trim_line line_nonempty parse_line json_good_def)

lemma message_record_good: "message_ok m \<Longrightarrow> json_good (message_record m)"
  by (simp add: message_record_def json_object_good message_good is_ascii_def)

lemma read_message_record:
  "message_ok m \<Longrightarrow> read_record n (message_record m) st = Inr (st\<lparr>js_messages := js_messages st @ [m]\<rparr>)"
  by (simp add: read_record_def message_record_def str_field_def message_back)

lemma read_message_records:
  "list_all message_ok ms \<Longrightarrow>
   read_lines n (map (\<lambda>m. render_line (message_record m)) ms @ rest) st
     = read_lines (n + length ms) rest (st\<lparr>js_messages := js_messages st @ ms\<rparr>)"
proof (induction ms arbitrary: n st)
  case (Cons m ms)
  then have m: "message_ok m" "message_record m = Object (obj_map [(''type'', json_text ''message''), (''message'', message_to_json m)])"
    by (simp_all add: message_record_def json_object_map)
  show ?case
    using Cons read_line_step [OF message_record_good [OF m(1), unfolded m(2)] read_message_record [OF m(1), unfolded m(2)]] m(2)
    by simp
qed simp

lemma read_prompts:
  "list_all prompt_ok es \<Longrightarrow>
   read_lines n (map (\<lambda>e. render_line (prompt_entry_record e)) es @ rest) st
     = read_lines (n + length es) rest (st\<lparr>js_prompt_history := js_prompt_history st @ es\<rparr>)"
proof (induction es arbitrary: n st)
  case (Cons e es)
  then have e: "prompt_ok e" by simp
  obtain m where m: "prompt_entry_record e = Object m" by (simp add: prompt_entry_record_def json_object_map)
  have "read_record k (prompt_entry_record e) st = Inr (st\<lparr>js_prompt_history := js_prompt_history st @ [e]\<rparr>)" for k st
    using prompt_back [OF e] by (simp add: read_record_def prompt_entry_record_def str_field_def)
  then show ?case
    using Cons read_line_step [OF prompt_good [OF e, unfolded m]] m by simp
qed simp

lemma rust_string_nl: "rust_string nl"
  by (rule rust_string_ascii) (simp add: is_ascii_def nl_def)

lemma rust_string_join: "list_all rust_string xs \<Longrightarrow> rust_string (join nl xs)"
proof (induction xs)
  case Nil
  show ?case by (simp, rule rust_string_ascii) (simp add: is_ascii_def)
next
  case (Cons x xs)
  then show ?case by (cases xs) (simp_all add: rust_string_append rust_string_nl)
qed

lemma lines_of_records:
  "list_all json_scalar vs \<Longrightarrow> vs \<noteq> [] \<Longrightarrow> str_lines (join nl (map render_line vs) @ nl @ t) = map render_line vs @ str_lines t"
proof (induction vs)
  case (Cons v vs)
  then show ?case by (cases vs) (simp_all add: str_lines_rendered)
qed simp

definition snapshot_state :: "claw_session \<Rightarrow> jsonl_state" where
  "snapshot_state s = \<lparr>js_version = cs_version s, js_session_id = Some (cs_session_id s),
     js_created_at_ms = Some (cs_created_at_ms s), js_updated_at_ms = Some (cs_updated_at_ms s),
     js_messages = cs_messages s, js_compaction = cs_compaction s, js_fork = cs_fork s,
     js_workspace_root = cs_workspace_root s, js_model = cs_model s, js_prompt_history = cs_prompt_history s\<rparr>"

lemma snapshot_lines:
  assumes "session_ok s"
  obtains snapshot k where "render_jsonl_snapshot s = Inr snapshot"
    "\<And>t. read_lines 0 (str_lines (snapshot @ t)) jsonl_start = read_lines k (str_lines t) (snapshot_state s)"
    "\<exists>m r. snapshot = render_line (Object m) @ nl @ r \<and> json_good (Object m) \<and> field m ''messages'' = None \<and> rust_string r"
proof -
  obtain v m where meta: "meta_record s = Inr v" "v = Object m" "json_good v" "field m ''messages'' = None"
    "\<And>n st. read_record n v st = Inr (st\<lparr>js_version := cs_version s, js_session_id := Some (cs_session_id s),
       js_created_at_ms := Some (cs_created_at_ms s), js_updated_at_ms := Some (cs_updated_at_ms s),
       js_fork := cs_fork s, js_workspace_root := cs_workspace_root s, js_model := cs_model s\<rparr>)"
    by (rule meta_back [OF assms]) blast
  obtain cv where comp: "(case cs_compaction s of None \<Rightarrow> Inr [] | Some c \<Rightarrow> and_then (compaction_record c) (\<lambda>v. Inr [v]))
       = (Inr cv :: session_error + json_value list)" "list_all json_good cv"
     "\<And>n rest st. js_compaction st = None \<Longrightarrow> read_lines n (map render_line cv @ rest) st
       = read_lines (n + length cv) rest (st\<lparr>js_compaction := cs_compaction s\<rparr>)"
  proof (cases "cs_compaction s")
    case None
    show ?thesis
    proof (rule that [of "[]"])
      fix n rest and st :: jsonl_state
      assume "js_compaction st = None"
      then have "st\<lparr>js_compaction := cs_compaction s\<rparr> = st" using None by (cases st) simp
      then show "read_lines n (map render_line [] @ rest) st
        = read_lines (n + length []) rest (st\<lparr>js_compaction := cs_compaction s\<rparr>)"
        by simp
    qed (use None in simp_all)
  next
    case (Some c)
    then have "compaction_ok c" using assms by (simp add: session_ok_def)
    then obtain w where w: "compaction_record c = Inr w" "compaction_from_json w = Inr c" "json_good w"
        "\<exists>m. w = Object m \<and> str_field m ''type'' = Some ''compaction''"
      by (rule compaction_back)
    then obtain o' where o': "w = Object o'" "str_field o' ''type'' = Some ''compaction''" by blast
    have "read_record n w st = Inr (st\<lparr>js_compaction := Some c\<rparr>)" for n st
      using w(2) o' by (simp add: read_record_def as_object_def)
    then show ?thesis
      using Some w o' read_line_step by (intro that [of "[w]"]) simp_all
  qed
  have parts: "list_all message_ok (cs_messages s)" "list_all prompt_ok (cs_prompt_history s)"
    using assms by (simp_all add: session_ok_def)
  define vs where "vs = v # cv @ map prompt_entry_record (cs_prompt_history s) @ map message_record (cs_messages s)"
  have good: "list_all json_good vs"
    using meta(3) comp(2) parts by (auto simp: vs_def list_all_iff prompt_good message_record_good)
  then have scalar: "list_all json_scalar vs" by (simp add: list_all_iff json_good_def)
  show ?thesis
  proof (rule that)
    show "render_jsonl_snapshot s = Inr (join nl (map render_line vs) @ nl)"
      by (simp add: render_jsonl_snapshot_def meta(1) comp(1) vs_def)
    define ws where "ws = cv @ map prompt_entry_record (cs_prompt_history s) @ map message_record (cs_messages s)"
    have ws: "list_all rust_string (map render_line ws)"
      using scalar rust_string_bytes_of [OF scalar_render] by (auto simp: list_all_iff render_line_def vs_def ws_def)
    have "join nl (map render_line vs) @ nl = render_line v @ nl @ (if ws = [] then [] else join nl (map render_line ws) @ nl)"
      by (cases ws) (simp_all add: vs_def ws_def)
    moreover have "rust_string (if ws = [] then [] else join nl (map render_line ws) @ nl)"
      using rust_string_join [of "[]"] rust_string_join [OF ws] by (simp add: rust_string_append rust_string_nl)
    ultimately show "\<exists>m r. join nl (map render_line vs) @ nl = render_line (Object m) @ nl @ r
        \<and> json_good (Object m) \<and> field m ''messages'' = None \<and> rust_string r"
      using meta(2,3,4) by blast
    fix t
    have "str_lines ((join nl (map render_line vs) @ nl) @ t) = map render_line vs @ str_lines t"
      using lines_of_records [OF scalar] by (simp add: vs_def)
    moreover have "read_lines 0 (map render_line vs @ str_lines t) jsonl_start
       = read_lines (1 + length cv + length (cs_prompt_history s) + length (cs_messages s)) (str_lines t) (snapshot_state s)"
      using read_line_step [OF meta(3) [unfolded meta(2)] meta(5) [unfolded meta(2)]] parts
      by (simp add: vs_def meta(2) comp(3) jsonl_start_def snapshot_state_def o_def
          read_prompts [simplified comp_def] read_message_records del: read_lines.simps)
    ultimately show "read_lines 0 (str_lines ((join nl (map render_line vs) @ nl) @ t)) jsonl_start
       = read_lines (1 + length cv + length (cs_prompt_history s) + length (cs_messages s)) (str_lines t) (snapshot_state s)"
      by simp
  qed
qed

lemma chars_of_append: "rust_string s \<Longrightarrow> rust_string t \<Longrightarrow> chars_of (s @ t) = chars_of s @ chars_of t"
  using chars_of_bytes_of [of "chars_of s @ chars_of t"] by (simp add: rust_string_def)

lemma rust_line: "json_scalar v \<Longrightarrow> rust_string (render_line v)"
  unfolding render_line_def by (rule rust_string_bytes_of) (rule scalar_render)

text \<open>After a value, more text that is not white space is refused; so a file of records is not taken
  for a session in one value.\<close>

lemma parse_trailing:
  assumes "json_ok v" and "t = [] \<or> \<not> is_digit (hd t)"
  shows "json_parse (render v @ t) = (if skip_whitespace t = [] then Inr v else Inl (JsonError (uni ''unexpected trailing content'')))"
proof -
  have "parse_value (2 * length (render v @ t) + 2) (render v @ t) = Inr (v, t)"
    using assms by (intro parse_rendered) simp_all
  then show ?thesis by (simp add: json_parse_def)
qed

lemma records_are_not_one_value:
  assumes "json_good (Object m)" and "field m ''messages'' = None" and "rust_string r"
  shows "json_parse (chars_of (render_line (Object m) @ nl @ r)) = Inr v \<Longrightarrow> v = Object m"
proof -
  have "chars_of (render_line (Object m) @ nl @ r) = render (Object m) @ chars_of (nl @ r)"
    using assms chars_of_append [OF rust_line, of "Object m" "nl @ r"]
    by (simp add: json_good_def rust_string_append rust_string_nl render_line_def scalar_render del: render.simps)
  moreover have "chars_of nl = [10]" by code_simp
  ultimately show "json_parse (chars_of (render_line (Object m) @ nl @ r)) = Inr v \<Longrightarrow> v = Object m"
    using assms parse_trailing [of "Object m" "10 # chars_of r"]
    by (simp add: json_good_def chars_of_append rust_string_nl is_digit_def split: if_splits del: render.simps)
qed

section \<open>Loading what was written\<close>

definition loaded :: "claw_session \<Rightarrow> claw_message list \<Rightarrow> claw_session" where
  "loaded s ms = s\<lparr>cs_messages := cs_messages s @ ms, cs_last_health_check_ms := None, cs_persistence := None\<rparr>"

definition record_lines :: "claw_message list \<Rightarrow> string" where
  "record_lines ms = concat (map (\<lambda>m. render_line (message_record m) @ nl) ms)"

lemma message_record_object: "\<exists>m'. message_record m = Object m'"
  by (simp add: message_record_def json_object_map)

lemma str_lines_record_lines:
  "list_all message_ok ms \<Longrightarrow> str_lines (record_lines ms @ t) = map (\<lambda>m. render_line (message_record m)) ms @ str_lines t"
  using message_record_good
  by (induction ms) (simp_all add: record_lines_def str_lines_rendered json_good_def)

lemma rust_record_lines: "list_all message_ok ms \<Longrightarrow> rust_string (record_lines ms)"
proof (induction ms)
  case Nil
  show ?case by (simp add: record_lines_def rust_string_ascii is_ascii_def)
next
  case (Cons m ms)
  then show ?case
    using message_record_good [of m] rust_line [of "message_record m"]
    by (simp add: record_lines_def json_good_def rust_string_append rust_string_nl)
qed

lemma snapshot_then_records:
  assumes "session_ok s" and "render_jsonl_snapshot s = Inr snapshot" and "list_all message_ok ms"
  shows "fst (session_from_jsonl (snapshot @ record_lines ms) w) = Inr (loaded s ms)"
proof -
  obtain k where start: "read_lines 0 (str_lines (snapshot @ t)) jsonl_start = read_lines k (str_lines t) (snapshot_state s)" for t
    using snapshot_lines [OF assms(1)] assms(2) by (metis sum.inject(2))
  have "read_lines k (str_lines (record_lines ms)) (snapshot_state s)
      = Inr ((snapshot_state s)\<lparr>js_messages := cs_messages s @ ms\<rparr>)"
    using read_message_records [OF assms(3), of k "[]"] str_lines_record_lines [OF assms(3), of "[]"]
    by (simp add: snapshot_state_def)
  then show ?thesis
    by (simp add: session_from_jsonl_def start case_prod_unfold Let_def snapshot_state_def loaded_def)
qed

text \<open>
  C20: A snapshot reads back as the session it was rendered from, for every session whose texts are
  strings and whose numbers fit into JSON: everything returns but the time of the last health check
  and the persistence path, which are not part of the file.
\<close>

theorem snapshot_round_trip:
  assumes "session_ok s"
  shows "\<exists>snapshot. render_jsonl_snapshot s = Inr snapshot
    \<and> fst (session_from_jsonl snapshot w) = Inr (s\<lparr>cs_last_health_check_ms := None, cs_persistence := None\<rparr>)"
proof -
  obtain snapshot where r: "render_jsonl_snapshot s = Inr snapshot" using snapshot_lines [OF assms] by metis
  show ?thesis
    using r snapshot_then_records [OF assms r, of "[]" w] by (simp add: record_lines_def loaded_def)
qed

lemma sample_texts:
  "rust_string (bytes_of [104, 233, 128512, 10])" "rust_string ''s-1''" "rust_string ''/work''" "rust_string ''ls''"
  by (rule rust_string_bytes_of rust_string_ascii; simp add: is_scalar_def is_ascii_def)+

definition sample_session :: claw_session where
  "sample_session = \<lparr>cs_version = 1, cs_session_id = ''s-1'', cs_created_at_ms = 5, cs_updated_at_ms = 7,
     cs_messages = [user_text (bytes_of [104, 233, 128512, 10]), tool_result ''s-1'' ''ls'' ''/work'' True],
     cs_compaction = Some \<lparr>sc_count = 2, sc_removed_message_count = 3, sc_summary = ''ls''\<rparr>,
     cs_fork = Some \<lparr>sf_parent_session_id = ''s-1'', sf_branch_name = None\<rparr>, cs_workspace_root = Some ''/work'',
     cs_prompt_history = [\<lparr>pe_timestamp_ms = 6, pe_text = ''ls''\<rparr>], cs_last_health_check_ms = Some 9,
     cs_model = Some ''ls'', cs_persistence = None\<rparr>"

lemma sample_session_ok: "session_ok sample_session"
  by (simp add: sample_session_def session_ok_def sample_texts message_ok_def user_text_def tool_result_def
      compaction_ok_def fork_ok_def prompt_ok_def)

theorem snapshot_round_trip_witness:
  "\<exists>snapshot. render_jsonl_snapshot sample_session = Inr snapshot
    \<and> fst (session_from_jsonl snapshot \<lparr>sw_fs = \<lparr>fs_nodes = [], fs_cwd = [], fs_faults = []\<rparr>, sw_clock = [],
        sw_last_timestamp_ms = 0, sw_id_counter = 0\<rparr>)
      = Inr (sample_session\<lparr>cs_last_health_check_ms := None, cs_persistence := None\<rparr>)"
  by (rule snapshot_round_trip) (rule sample_session_ok)

section \<open>The file as a log\<close>

lemma guarded_None: "fs_faults s = None # q \<Longrightarrow> guarded s f = f (s\<lparr>fs_faults := q\<rparr>)"
  by (simp add: guarded_def)

lemma with_faults [simp]:
  "locate allow (s\<lparr>fs_faults := q\<rparr>) p = locate allow s p" "file_bytes (s\<lparr>fs_faults := q\<rparr>) p = file_bytes s p"
  by (simp_all add: locate_def file_bytes_def)

lemma file_bytes_Inr:
  "file_bytes s p = Inr bytes \<longleftrightarrow> (\<exists>l. locate False s p = Inr l \<and> node_at (fs_nodes s) l = Some (FileNode bytes))"
proof (cases "locate False s p")
  case (Inr l)
  then show ?thesis
    by (cases "node_at (fs_nodes s) l") (auto simp: file_bytes_def split: node.splits)
qed (simp add: file_bytes_def)

lemma append_at:
  assumes "locate False s p = Inr l" and "node_at (fs_nodes s) l = Some (FileNode old)"
    and "fs_faults s = [] \<and> q = [] \<or> fs_faults s = None # q"
  shows "\<exists>s'. fs_append l b s = (Inr (), s') \<and> locate False s' p = Inr l
    \<and> node_at (fs_nodes s') l = Some (FileNode (old @ b)) \<and> fs_faults s' = q"
proof -
  let ?s' = "s\<lparr>fs_nodes := put_node l (FileNode (old @ b)) (fs_nodes s), fs_faults := q\<rparr>"
  have "wrote_file (fs_nodes s) l (old @ b) (fs_nodes ?s')"
    using assms(2) wrote_file_put [of "fs_nodes s" l "old @ b"] by (simp add: plain_node_def)
  then have "locate False ?s' p = Inr l \<and> node_at (fs_nodes ?s') l = Some (FileNode (old @ b))"
    using locate_after_write [OF assms(1), of l "old @ b" ?s'] by (simp add: wrote_file_def)
  moreover have "fs_append l b s = (Inr (), ?s')"
    using assms(2,3) by (auto simp: fs_append_def guarded_no_fault guarded_None)
  ultimately show ?thesis by (intro exI [of _ ?s']) simp
qed

text \<open>With a file that is not empty, the record is written to its end, by the calls that are left
  after three.\<close>

lemma append_persisted_opens:
  assumes "cs_persistence s = Some p" and "locate False (sw_fs w) p = Inr l"
    and "node_at (fs_nodes (sw_fs w)) l = Some (FileNode old)" and "old \<noteq> []"
    and "fs_faults (sw_fs w) = [] \<and> q = [] \<or> fs_faults (sw_fs w) = None # None # None # q"
  shows "append_persisted modified v s w = append_line l v (w\<lparr>sw_fs := (sw_fs w)\<lparr>fs_faults := q\<rparr>\<rparr>)"
proof -
  have "w\<lparr>sw_fs := (sw_fs w)\<lparr>fs_faults := []\<rparr>\<rparr> = w" if "fs_faults (sw_fs w) = []"
    using that by (cases w; cases "sw_fs w") simp
  then have "fs_faults (sw_fs w) = [] \<Longrightarrow> append_line l v (w\<lparr>sw_fs := (sw_fs w)\<lparr>fs_faults := []\<rparr>\<rparr>) = append_line l v w"
    by metis
  then show ?thesis
    using assms
    by (elim disjE)
      (simp_all add: append_persisted_def on_files_def fs_exists_def fs_metadata_len_def guarded_no_fault guarded_None
        try_fs_def fs_open_append_def)
qed

definition log_holds :: "path \<Rightarrow> string \<Rightarrow> session_world \<Rightarrow> bool" where
  "log_holds p text w \<longleftrightarrow> file_bytes (sw_fs w) p = Inr text \<and> text \<noteq> [] \<and> fs_faults (sw_fs w) = []"

lemma append_line_log:
  assumes "locate False (sw_fs w) p = Inr l" and "node_at (fs_nodes (sw_fs w)) l = Some (FileNode old)"
    and "fs_faults (sw_fs w) = []"
  obtains w' where "append_line l v w = (Inr (), w')" "file_bytes (sw_fs w') p = Inr (old @ render_line v @ nl)"
    "fs_faults (sw_fs w') = []"
proof -
  obtain s1 where s1: "fs_append l (render_line v) (sw_fs w) = (Inr (), s1)" "locate False s1 p = Inr l"
      "node_at (fs_nodes s1) l = Some (FileNode (old @ render_line v))" "fs_faults s1 = []"
    using append_at [OF assms(1,2), of "[]"] assms(3) by blast
  obtain s2 where s2: "fs_append l nl s1 = (Inr (), s2)" "locate False s2 p = Inr l"
      "node_at (fs_nodes s2) l = Some (FileNode ((old @ render_line v) @ nl))" "fs_faults s2 = []"
    using append_at [OF s1(2,3), of "[]"] s1(4) by blast
  show ?thesis
    by (rule that [of "w\<lparr>sw_fs := s2\<rparr>"])
      (use s1 s2 in \<open>simp_all add: append_line_def try_fs_def on_files_def done_with_def file_bytes_Inr\<close>)
qed

lemma touch_frame [simp]:
  "sw_fs (snd (current_time_millis w)) = sw_fs w" "sw_fs (snd (touch s w)) = sw_fs w"
  "cs_messages (fst (touch s w)) = cs_messages s" "cs_persistence (fst (touch s w)) = cs_persistence s"
  by (simp_all add: current_time_millis_def touch_def Let_def case_prod_unfold)

lemma push_message_log:
  assumes "cs_persistence s = Some p" and "log_holds p old w"
  shows "\<exists>s' w'. push_message modified m s w = (Inr (), s', w') \<and> cs_messages s' = cs_messages s @ [m]
    \<and> cs_persistence s' = Some p \<and> log_holds p (old @ render_line (message_record m) @ nl) w'"
proof -
  let ?s2 = "(fst (touch s w))\<lparr>cs_messages := cs_messages s @ [m]\<rparr>" and ?w1 = "snd (touch s w)"
  obtain l where l: "locate False (sw_fs ?w1) p = Inr l" "node_at (fs_nodes (sw_fs ?w1)) l = Some (FileNode old)"
    using assms(2) by (auto simp: log_holds_def file_bytes_Inr)
  have quiet: "fs_faults (sw_fs ?w1) = []" "old \<noteq> []" using assms(2) by (simp_all add: log_holds_def)
  have "append_persisted modified (message_record m) ?s2 ?w1
      = append_line l (message_record m) (?w1\<lparr>sw_fs := (sw_fs ?w1)\<lparr>fs_faults := []\<rparr>\<rparr>)"
    using append_persisted_opens [OF _ l quiet(2), of ?s2 "[]"] quiet(1) assms(1) by simp
  moreover obtain w' where "append_line l (message_record m) (?w1\<lparr>sw_fs := (sw_fs ?w1)\<lparr>fs_faults := []\<rparr>\<rparr>) = (Inr (), w')"
      "file_bytes (sw_fs w') p = Inr (old @ render_line (message_record m) @ nl)" "fs_faults (sw_fs w') = []"
    by (rule append_line_log [of "?w1\<lparr>sw_fs := (sw_fs ?w1)\<lparr>fs_faults := []\<rparr>\<rparr>" p l old]) (use l in auto)
  ultimately show ?thesis
    using assms(1) by (simp add: push_message_def case_prod_unfold Let_def log_holds_def nl_def)
qed

fun push_messages ::
  "(fs \<Rightarrow> path \<Rightarrow> nat) \<Rightarrow> claw_message list \<Rightarrow> claw_session \<Rightarrow> session_world
    \<Rightarrow> (session_error + unit) \<times> claw_session \<times> session_world" where
  "push_messages modified [] s w = (Inr (), s, w)"
| "push_messages modified (m # ms) s w =
     (case push_message modified m s w of
        (Inl e, s', w') \<Rightarrow> (Inl e, s', w')
      | (Inr _, s', w') \<Rightarrow> push_messages modified ms s' w')"

lemma push_messages_log:
  "cs_persistence s = Some p \<Longrightarrow> log_holds p old w \<Longrightarrow>
   \<exists>s' w'. push_messages modified ms s w = (Inr (), s', w') \<and> cs_messages s' = cs_messages s @ ms
     \<and> log_holds p (old @ record_lines ms) w'"
proof (induction ms arbitrary: s w old)
  case Nil
  then show ?case by (simp add: record_lines_def)
next
  case (Cons m ms)
  obtain s1 w1 where s1: "push_message modified m s w = (Inr (), s1, w1)" "cs_messages s1 = cs_messages s @ [m]"
      "cs_persistence s1 = Some p" "log_holds p (old @ render_line (message_record m) @ nl) w1"
    using push_message_log [OF Cons.prems] by blast
  then show ?case using Cons.IH [OF s1(3,4)] by (simp add: record_lines_def)
qed

lemma load_log:
  assumes "log_holds p text w" and "valid_utf8 text"
    and "\<And>v. json_parse (chars_of text) = Inr v \<Longrightarrow> \<exists>m. v = Object m \<and> field m ''messages'' = None"
    and "fst (session_from_jsonl text w) = r"
  shows "fst (load_from_path p w) = (case r of Inl e \<Rightarrow> Inl e | Inr s \<Rightarrow> Inr (with_persistence_path p s))"
proof -
  have read: "fs_read_to_string p (sw_fs w) = (Inr text, sw_fs w)"
    using assms(1,2) by (simp add: fs_read_to_string_def log_holds_def guarded_no_fault)
  have "(case json_parse (chars_of text) of Inl _ \<Rightarrow> None
      | Inr v \<Rightarrow> if (case as_object v of None \<Rightarrow> False | Some m \<Rightarrow> field m ''messages'' \<noteq> None) then Some v else None) = None"
    using assms(3) by (auto simp: as_object_def split: sum.split)
  moreover obtain w2 where "session_from_jsonl text w = (r, w2)" using assms(4) by (metis prod.collapse)
  ultimately show ?thesis
    using read
    by (cases r) (simp_all add: load_from_path_def try_fs_def on_files_def try_step_def done_with_def)
qed

lemma log_text:
  assumes "session_ok s" and "render_jsonl_snapshot s = Inr snapshot" and "rust_string t"
  shows "valid_utf8 (snapshot @ t) \<and> snapshot \<noteq> []
    \<and> (\<forall>v. json_parse (chars_of (snapshot @ t)) = Inr v \<longrightarrow> (\<exists>m. v = Object m \<and> field m ''messages'' = None))"
proof -
  obtain m r where snap: "snapshot = render_line (Object m) @ nl @ r" "json_good (Object m)" "field m ''messages'' = None"
      "rust_string r"
    using snapshot_lines [OF assms(1)] assms(2) by (metis sum.inject(2))
  have "rust_string (render_line (Object m))" using snap(2) rust_line by (simp add: json_good_def)
  then have "rust_string (snapshot @ t)" using snap assms(3) by (simp add: rust_string_append rust_string_nl)
  moreover have "json_parse (chars_of (snapshot @ t)) = Inr v \<Longrightarrow> v = Object m" for v
    using records_are_not_one_value [OF snap(2,3), of "r @ t" v] snap assms(3) by (simp add: rust_string_append)
  ultimately show ?thesis using snap by (auto simp: rust_string_valid nl_def)
qed

text \<open>
  C21: While no call to the file system fails, every message pushed to a persisted session is on disk: for
  a well-formed session whose file holds its snapshot, any pushes of well-formed messages succeed and
  loading the file gives the session with all of them in order. The other fields are those of the
  snapshot; so the time of the last update is not the pushed one. (With a failing call a push can fail and
  leave a file that no longer loads.)
\<close>

theorem pushed_messages_load:
  assumes "session_ok s" and "cs_persistence s = Some p" and "render_jsonl_snapshot s = Inr snapshot"
    and "file_bytes (sw_fs w) p = Inr snapshot" and "fs_faults (sw_fs w) = []" and "list_all message_ok ms"
  shows "let (r, s', w') = push_messages modified ms s w in
    r = Inr () \<and> cs_messages s' = cs_messages s @ ms
    \<and> fst (load_from_path p w') = Inr (with_persistence_path p (loaded s ms))"
proof -
  note contents = log_text [OF assms(1,3) rust_record_lines [OF assms(6)]]
  have "log_holds p snapshot w" using assms(4,5) contents by (simp add: log_holds_def)
  then obtain s' w' where run: "push_messages modified ms s w = (Inr (), s', w')" "cs_messages s' = cs_messages s @ ms"
      "log_holds p (snapshot @ record_lines ms) w'"
    using push_messages_log [OF assms(2)] by blast
  have "fst (load_from_path p w') = Inr (with_persistence_path p (loaded s ms))"
    using load_log [OF run(3) _ _ snapshot_then_records [OF assms(1,3,6)]] contents by simp
  then show ?thesis using run by simp
qed

definition sample_world :: "string \<Rightarrow> session_world" where
  "sample_world text = \<lparr>sw_fs = \<lparr>fs_nodes = [([''s.jsonl''], FileNode text)], fs_cwd = [], fs_faults = []\<rparr>,
     sw_clock = [Some 11], sw_last_timestamp_ms = 0, sw_id_counter = 0\<rparr>"

lemma sample_file: "file_bytes (sw_fs (sample_world text)) [RootDir, Name ''s.jsonl''] = Inr text"
  by (simp add: sample_world_def file_bytes_Inr locate_def max_links_def node_at_def)

definition sample_persisted :: claw_session where
  "sample_persisted = with_persistence_path [RootDir, Name ''s.jsonl''] sample_session"

lemma sample_persisted:
  "session_ok sample_persisted" "cs_persistence sample_persisted = Some [RootDir, Name ''s.jsonl'']"
  "map cm_role (cs_messages sample_persisted) = [RoleUser, RoleTool]"
  "message_ok (user_text ''ls'')" "message_ok (user_text ''/work'')"
  using sample_session_ok
  by (simp_all add: sample_persisted_def with_persistence_path_def session_ok_def message_ok_def sample_texts)
    (simp_all add: sample_session_def user_text_def tool_result_def sample_texts)

lemma sample_snapshot: "\<exists>snapshot. render_jsonl_snapshot sample_persisted = Inr snapshot"
  using snapshot_lines [OF sample_persisted(1)] by metis

theorem pushed_messages_load_witness:
  "\<exists>snapshot s' w'. render_jsonl_snapshot sample_persisted = Inr snapshot
    \<and> push_messages (\<lambda>_ _. 0) [user_text ''ls'', user_text ''/work''] sample_persisted (sample_world snapshot) = (Inr (), s', w')
    \<and> map cm_role (cs_messages s') = [RoleUser, RoleTool, RoleUser, RoleUser]"
proof -
  let ?ms = "[user_text ''ls'', user_text ''/work'']"
  obtain snapshot where snap: "render_jsonl_snapshot sample_persisted = Inr snapshot" using sample_snapshot by blast
  have ok: "fs_faults (sw_fs (sample_world snapshot)) = []" "list_all message_ok ?ms"
    by (simp_all add: sample_world_def sample_persisted)
  obtain r s' w' where run: "push_messages (\<lambda>_ _. 0) ?ms sample_persisted (sample_world snapshot) = (r, s', w')"
    by (metis prod_cases3)
  have "r = Inr ()" "cs_messages s' = cs_messages sample_persisted @ ?ms"
    using pushed_messages_load [OF sample_persisted(1,2) snap sample_file ok, of "\<lambda>_ _. 0"] run by simp_all
  moreover have "map cm_role (cs_messages sample_persisted @ ?ms) = [RoleUser, RoleTool, RoleUser, RoleUser]"
    by (simp add: sample_persisted user_text_def)
  ultimately show ?thesis using run snap by metis
qed

lemma chars_of_rendered: "json_scalar v \<Longrightarrow> chars_of (render_line v) = render v"
  by (simp add: render_line_def scalar_render)

text \<open>Two records on one line are no record.\<close>

lemma torn_line:
  assumes "json_good (Object m1)" and "json_good (Object m2)"
  shows "isl (read_lines n ((render_line (Object m1) @ render_line (Object m2)) # rest) st)"
proof -
  let ?line = "render_line (Object m1) @ render_line (Object m2)"
  obtain a b where ab: "render_line (Object m1) = CHR ''{'' # a @ [CHR ''}'']" "render_line (Object m2) = CHR ''{'' # b @ [CHR ''}'']"
    using line_braced by metis
  then have "?line = CHR ''{'' # (a @ ''}{'' @ b) @ [CHR ''}'']" by simp
  then have "trim ?line = ?line" using trim_braced by metis
  moreover have "chars_of ?line = render (Object m1) @ render (Object m2)"
    using assms by (simp add: chars_of_append rust_line chars_of_rendered json_good_def del: render.simps)
  moreover have "json_parse (render (Object m1) @ render (Object m2)) = Inl (JsonError (uni ''unexpected trailing content''))"
    using parse_trailing [of "Object m1" "render (Object m2)"] assms
    by (simp add: json_good_def is_digit_def skip_whitespace_def)
  ultimately show ?thesis using ab(1) by simp
qed

section \<open>The session as one value\<close>

lemma prompts_back: "list_all prompt_ok es \<Longrightarrow> List.map_filter prompt_entry_from_json (map prompt_entry_record es) = es"
  by (induction es) (simp_all add: map_filter_simps prompt_back)

text \<open>
  The value of the whole session reads back as the session, but without its model.
\<close>

theorem json_form_drops_model:
  assumes "session_ok s"
  shows "\<exists>v. session_to_json s = Inr v
    \<and> fst (session_from_json v w)
        = Inr (s\<lparr>cs_model := None, cs_last_health_check_ms := None, cs_persistence := None\<rparr>)"
proof -
  obtain cv where comp: "(case cs_compaction s of None \<Rightarrow> Inr [] | Some c \<Rightarrow> and_then (compaction_to_json c) (\<lambda>v. Inr [(''compaction'', v)]))
      = (Inr (optional_entry ''compaction'' cv) :: session_error + _)"
      "(case cv of None \<Rightarrow> Inr None | Some v \<Rightarrow> and_then (compaction_from_json v) (\<lambda>x. Inr (Some x))) = (Inr (cs_compaction s) :: session_error + _)"
  proof (cases "cs_compaction s")
    case None
    then show ?thesis by (intro that [of None]) (simp_all add: optional_entry_def)
  next
    case (Some c)
    let ?n = "of_nat (sc_removed_message_count c) :: i64"
    have c: "compaction_ok c" using assms Some by (simp add: session_ok_def)
    then have n: "unat ?n = sc_removed_message_count c" "sc_removed_message_count c < 2 ^ 63" "0 \<le> sint ?n"
      using unat_small sint_small [of ?n] by (simp_all add: compaction_ok_def)
    let ?v = "json_object [(''count'', json_u32 (sc_count c)), (''removed_message_count'', Number ?n), (''summary'', json_text (sc_summary c))]"
    have "compaction_to_json c = Inr ?v" "compaction_from_json ?v = Inr c"
      using n c by (simp_all add: compaction_to_json_def compaction_entries_def i64_from_usize_def
          compaction_from_json_def required_defs compaction_ok_def)
    then show ?thesis using Some by (intro that [of "Some ?v"]) (simp_all add: optional_entry_def)
  qed
  let ?es = "[(''version'', json_u32 (cs_version s)), (''session_id'', json_text (cs_session_id s)),
      (''created_at_ms'', Number (cs_created_at_ms s)), (''updated_at_ms'', Number (cs_updated_at_ms s)),
      (''messages'', Array (map message_to_json (cs_messages s)))] @ optional_entry ''compaction'' cv
    @ optional_entry ''fork'' (map_option fork_to_json (cs_fork s))
    @ optional_entry ''workspace_root'' (map_option json_text (cs_workspace_root s))
    @ (if cs_prompt_history s = [] then [] else [(''prompt_history'', Array (map prompt_entry_record (cs_prompt_history s)))])"
  define m where "m = obj_map ?es"
  have fixed: "field m ''version'' = Some (json_u32 (cs_version s))" "field m ''session_id'' = Some (json_text (cs_session_id s))"
    "field m ''created_at_ms'' = Some (Number (cs_created_at_ms s))" "field m ''updated_at_ms'' = Some (Number (cs_updated_at_ms s))"
    "field m ''messages'' = Some (Array (map message_to_json (cs_messages s)))" "field m ''compaction'' = cv"
    "field m ''fork'' = map_option fork_to_json (cs_fork s)"
    "field m ''workspace_root'' = map_option json_text (cs_workspace_root s)" "field m ''model'' = None"
    "field m ''prompt_history'' = (if cs_prompt_history s = [] then None else Some (Array (map prompt_entry_record (cs_prompt_history s))))"
    unfolding m_def
    by (cases cv; cases "cs_fork s"; cases "cs_workspace_root s"; cases "cs_prompt_history s = []"; simp add: optional_entry_def)+
  have "session_to_json s = Inr (Object m)"
    using assms by (simp add: session_to_json_def identity_entries_ok comp(1) root_entry_ok m_def flip: json_object_map)
  moreover have "try_map message_from_json (map message_to_json (cs_messages s)) = Inr (cs_messages s)"
    by (rule try_map_map) (use assms message_back in \<open>auto simp: session_ok_def list_all_iff\<close>)
  moreover have "0 \<le> sint (cs_created_at_ms s)" "0 \<le> sint (cs_updated_at_ms s)"
    using assms sint_small by (simp_all add: session_ok_def)
  moreover have "(case field m ''fork'' of None \<Rightarrow> Inr None | Some v \<Rightarrow> and_then (fork_from_json v) (\<lambda>x. Inr (Some x)))
      = (Inr (cs_fork s) :: session_error + _)"
    using assms by (cases "cs_fork s") (simp_all add: fixed fork_back session_ok_def)
  ultimately show ?thesis
    using assms comp(2)
    by (intro exI [of _ "Object m"])
      (simp add: session_from_json_def object_or_def as_object_def required_i64_def required_u64_from_value_def
        str_field_def optional_field_def fixed prompts_back session_ok_def case_prod_unfold Let_def)
qed

text \<open>
  C22: A torn append ruins the file: when the record of a message is written but its newline is not,
  the push fails and takes the message back in memory, and the next push, which succeeds, puts its
  record on the same line; then the file does not load any more.
\<close>

theorem torn_append_ruins_file:
  assumes "session_ok s" and "cs_persistence s = Some p" and "render_jsonl_snapshot s = Inr snapshot"
    and "file_bytes (sw_fs w) p = Inr snapshot" and "fs_faults (sw_fs w) = [None, None, None, None, Some e]"
    and "message_ok m1" and "message_ok m2"
  shows "let (r1, s1, w1) = push_message modified m1 s w; (r2, s2, w2) = push_message modified m2 s1 w1 in
    r1 = Inl (SessionIo e) \<and> r2 = Inr () \<and> cs_messages s2 = cs_messages s @ [m2]
    \<and> isl (fst (load_from_path p w2))"
proof -
  let ?v1 = "message_record m1" and ?v2 = "message_record m2"
  let ?t1 = "(fst (touch s w))\<lparr>cs_messages := cs_messages s @ [m1]\<rparr>" and ?w1 = "snd (touch s w)"
  let ?q = "?w1\<lparr>sw_fs := (sw_fs ?w1)\<lparr>fs_faults := [None, Some e]\<rparr>\<rparr>"
  note contents = log_text [OF assms(1,3), of "render_line ?v1 @ render_line ?v2 @ nl"]
  have good: "json_good ?v1" "json_good ?v2" using assms(6,7) by (simp_all add: message_record_good)
  have start: "snapshot \<noteq> []" using log_text [OF assms(1,3), of "[]"] by (simp add: rust_string_ascii is_ascii_def)
  obtain l where l: "locate False (sw_fs ?w1) p = Inr l" "node_at (fs_nodes (sw_fs ?w1)) l = Some (FileNode snapshot)"
    using assms(4) by (auto simp: file_bytes_Inr)
  have "append_persisted modified ?v1 ?t1 ?w1 = append_line l ?v1 ?q"
    using append_persisted_opens [OF _ l start, of ?t1 "[None, Some e]"] assms(2,5) by simp
  moreover obtain s1 where s1: "fs_append l (render_line ?v1) (sw_fs ?q) = (Inr (), s1)" "locate False s1 p = Inr l"
      "node_at (fs_nodes s1) l = Some (FileNode (snapshot @ render_line ?v1))" "fs_faults s1 = [Some e]"
    using append_at [of "sw_fs ?q" p l snapshot "[Some e]" "render_line ?v1"] l by auto
  ultimately have "push_message modified m1 s w
      = (Inl (SessionIo e), (fst (touch s w))\<lparr>cs_messages := cs_messages s\<rparr>, ?w1\<lparr>sw_fs := s1\<lparr>fs_faults := []\<rparr>\<rparr>)"
    by (simp add: push_message_def case_prod_unfold Let_def append_line_def try_fs_def on_files_def fs_append_def guarded_def)
  moreover define sa wa where "sa = (fst (touch s w))\<lparr>cs_messages := cs_messages s\<rparr>" and "wa = ?w1\<lparr>sw_fs := s1\<lparr>fs_faults := []\<rparr>\<rparr>"
  moreover have "log_holds p (snapshot @ render_line ?v1) wa" "cs_persistence sa = Some p" "cs_messages sa = cs_messages s"
    using s1 start assms(2) by (simp_all add: wa_def sa_def log_holds_def file_bytes_Inr)
  then obtain s2 w2 where push2: "push_message modified m2 sa wa = (Inr (), s2, w2)" "cs_messages s2 = cs_messages s @ [m2]"
      "log_holds p (snapshot @ render_line ?v1 @ render_line ?v2 @ nl) w2"
    using push_message_log by (metis append.assoc)
  moreover have "isl (fst (load_from_path p w2))"
  proof -
    obtain k where k: "read_lines 0 (str_lines (snapshot @ t)) jsonl_start = read_lines k (str_lines t) (snapshot_state s)" for t
      using snapshot_lines [OF assms(1)] assms(3) by (metis sum.inject(2))
    obtain o1 o2 where o: "?v1 = Object o1" "?v2 = Object o2" using message_record_object by metis
    have breaks: "CHR 0x0A \<notin> set (render_line ?v1 @ render_line ?v2)" "CHR 0x0D \<notin> set (render_line ?v1 @ render_line ?v2)"
      using line_no_breaks [of ?v1] line_no_breaks [of ?v2] good by (simp_all add: json_good_def)
    have "str_lines (render_line ?v1 @ render_line ?v2 @ nl) = [render_line ?v1 @ render_line ?v2]"
      using str_lines_cons [OF breaks, of "[]"] by simp
    then have "isl (read_lines 0 (str_lines (snapshot @ render_line ?v1 @ render_line ?v2 @ nl)) jsonl_start)"
      using torn_line [OF good [unfolded o], of k "[]" "snapshot_state s"] by (simp only: k o)
    then have "isl (fst (session_from_jsonl (snapshot @ render_line ?v1 @ render_line ?v2 @ nl) w2))"
      by (auto simp: session_from_jsonl_def isl_def)
    moreover have "rust_string (render_line ?v1 @ render_line ?v2 @ nl)"
      using good by (simp add: json_good_def rust_line rust_string_append rust_string_nl)
    ultimately show ?thesis using load_log [OF push2(3) _ _ refl] contents by (auto simp: isl_def)
  qed
  ultimately show ?thesis by simp
qed

theorem torn_append_ruins_file_witness:
  "\<exists>snapshot s1 w1 s2 w2. render_jsonl_snapshot sample_persisted = Inr snapshot
    \<and> push_message (\<lambda>_ _. 0) (user_text ''ls'') sample_persisted
        ((sample_world snapshot)\<lparr>sw_fs := (sw_fs (sample_world snapshot))\<lparr>fs_faults := [None, None, None, None, Some NotFound]\<rparr>\<rparr>)
        = (Inl (SessionIo NotFound), s1, w1)
    \<and> push_message (\<lambda>_ _. 0) (user_text ''/work'') s1 w1 = (Inr (), s2, w2)
    \<and> isl (fst (load_from_path [RootDir, Name ''s.jsonl''] w2))"
proof -
  obtain snapshot where snap: "render_jsonl_snapshot sample_persisted = Inr snapshot" using sample_snapshot by blast
  let ?w = "(sample_world snapshot)\<lparr>sw_fs := (sw_fs (sample_world snapshot))\<lparr>fs_faults := [None, None, None, None, Some NotFound]\<rparr>\<rparr>"
  obtain r1 s1 w1 where run1: "push_message (\<lambda>_ _. 0) (user_text ''ls'') sample_persisted ?w = (r1, s1, w1)"
    by (metis prod_cases3)
  obtain r2 s2 w2 where run2: "push_message (\<lambda>_ _. 0) (user_text ''/work'') s1 w1 = (r2, s2, w2)" by (metis prod_cases3)
  have "file_bytes (sw_fs ?w) [RootDir, Name ''s.jsonl''] = Inr snapshot" by (simp add: sample_file)
  then have "r1 = Inl (SessionIo NotFound) \<and> r2 = Inr () \<and> isl (fst (load_from_path [RootDir, Name ''s.jsonl''] w2))"
    using torn_append_ruins_file [OF sample_persisted(1,2) snap, of ?w NotFound, OF _ _ sample_persisted(4,5), of "\<lambda>_ _. 0"]
      run1 run2 by simp
  then show ?thesis using snap run1 run2 by metis
qed

end
