(* ===== verification/RefCompact.thy ===== *)
theory RefCompact
  imports RefSession RefSummary TextEdit
begin

text \<open>
  Compaction of a session, \<open>claw-rust/crates/runtime/src/compact.rs\<close>: when a session is too large,
  its older messages give way to one system message with their summary. The boundary is moved back
  so that a tool result keeps the message that called the tool; a second compaction merges its
  summary with the one it finds. Taking a message past the end is a panic, the value \<open>None\<close>.
\<close>

section \<open>Texts\<close>

definition continuation_preamble :: string where
  "continuation_preamble = ''This session is being continued from a previous conversation that ran out of context. The summary below covers the earlier portion of the conversation.'' @ nl @ nl"

definition recent_messages_note :: string where
  "recent_messages_note = ''Recent messages are preserved verbatim.''"

definition direct_resume_instruction :: string where
  "direct_resume_instruction = ''Continue the conversation from where it left off without asking the user any further questions. Resume directly '' @ [CHR 0xE2, CHR 0x80, CHR 0x94] @ '' do not acknowledge the summary, do not recap what was happening, and do not preface with continuation text.''"

definition opening_tag :: "string \<Rightarrow> string" where
  "opening_tag tag = ''<'' @ tag @ ''>''"

definition closing_tag :: "string \<Rightarrow> string" where
  "closing_tag tag = ''</'' @ tag @ ''>''"

definition extract_tag_block :: "string \<Rightarrow> string \<Rightarrow> string option" where
  "extract_tag_block content tag =
     (case after_first (opening_tag tag) content of
        None \<Rightarrow> None
      | Some rest \<Rightarrow> map_option fst (split_once (closing_tag tag) rest))"

text \<open>The end tag is looked for from the start of the text, not after the start tag.\<close>

definition strip_tag_block :: "string \<Rightarrow> string \<Rightarrow> string" where
  "strip_tag_block content tag =
     (case (split_once (opening_tag tag) content, split_once (closing_tag tag) content) of
        (Some (before, _), Some (_, after)) \<Rightarrow> before @ after
      | _ \<Rightarrow> content)"

fun collapse_from :: "bool \<Rightarrow> string list \<Rightarrow> string" where
  "collapse_from last_blank [] = []"
| "collapse_from last_blank (line # rest) =
     (let is_blank = (trim line = []) in
      if is_blank \<and> last_blank then collapse_from last_blank rest
      else line @ nl @ collapse_from is_blank rest)"

definition collapse_blank_lines :: "string \<Rightarrow> string" where
  "collapse_blank_lines content = collapse_from False (str_lines content)"

definition format_compact_summary :: "string \<Rightarrow> string" where
  "format_compact_summary summary =
     (let without_analysis = strip_tag_block summary ''analysis'';
          formatted = (case extract_tag_block without_analysis ''summary'' of
              None \<Rightarrow> without_analysis
            | Some content \<Rightarrow> replace_str without_analysis
                (opening_tag ''summary'' @ content @ closing_tag ''summary'')
                (''Summary:'' @ nl @ trim content))
      in trim (collapse_blank_lines formatted))"

definition get_compact_continuation_message :: "string \<Rightarrow> bool \<Rightarrow> bool \<Rightarrow> string" where
  "get_compact_continuation_message summary suppress_follow_up_questions recent_messages_preserved =
     continuation_preamble @ format_compact_summary summary
     @ (if recent_messages_preserved then nl @ nl @ recent_messages_note else [])
     @ (if suppress_follow_up_questions then nl @ direct_resume_instruction else [])"

definition truncate_summary :: "string \<Rightarrow> nat \<Rightarrow> string" where
  "truncate_summary content max_chars =
     (if char_count content \<le> max_chars then content else take_chars max_chars content @ ellipsis)"

section \<open>Reading messages\<close>

fun block_text :: "claw_block \<Rightarrow> string option" where
  "block_text (TextBlock t) = (if trim t \<noteq> [] then Some t else None)"
| "block_text _ = None"

definition first_text_block :: "claw_message \<Rightarrow> string option" where
  "first_text_block m = find_map block_text (cm_blocks m)"

definition extract_existing_compacted_summary :: "claw_message \<Rightarrow> string option" where
  "extract_existing_compacted_summary m =
     (if cm_role m \<noteq> RoleSystem then None
      else case first_text_block m of
        None \<Rightarrow> None
      | Some t \<Rightarrow>
          (case strip_prefix continuation_preamble t of
             None \<Rightarrow> None
           | Some summary \<Rightarrow>
               (let cut = (\<lambda>mark s. case split_once mark s of None \<Rightarrow> s | Some (before, _) \<Rightarrow> before)
                in Some (trim (cut (nl @ direct_resume_instruction)
                     (cut (nl @ nl @ recent_messages_note) summary))))))"

definition existing_summary :: "claw_session \<Rightarrow> string option" where
  "existing_summary s =
     (case cs_messages s of [] \<Rightarrow> None | m # _ \<Rightarrow> extract_existing_compacted_summary m)"

definition compacted_summary_prefix_len :: "claw_session \<Rightarrow> nat" where
  "compacted_summary_prefix_len s = (if existing_summary s = None then 0 else 1)"

fun estimate_block_tokens :: "claw_block \<Rightarrow> nat" where
  "estimate_block_tokens (TextBlock t) = length t div 4 + 1"
| "estimate_block_tokens (ToolUseBlock _ name input) = (length name + length input) div 4 + 1"
| "estimate_block_tokens (ToolResultBlock _ tool_name result _) = (length tool_name + length result) div 4 + 1"

definition estimate_message_tokens :: "claw_message \<Rightarrow> nat" where
  "estimate_message_tokens m = sum_list (map estimate_block_tokens (cm_blocks m))"

definition estimate_session_tokens :: "claw_session \<Rightarrow> nat" where
  "estimate_session_tokens s = sum_list (map estimate_message_tokens (cs_messages s))"

record compaction_config =
  cc_preserve_recent_messages :: nat
  cc_max_estimated_tokens :: nat

definition compaction_config_default :: compaction_config where
  "compaction_config_default = \<lparr>cc_preserve_recent_messages = 4, cc_max_estimated_tokens = 10000\<rparr>"

definition should_compact :: "claw_session \<Rightarrow> compaction_config \<Rightarrow> bool" where
  "should_compact s config \<longleftrightarrow>
     (let compactable = drop (compacted_summary_prefix_len s) (cs_messages s)
      in cc_preserve_recent_messages config < length compactable
         \<and> cc_max_estimated_tokens config \<le> sum_list (map estimate_message_tokens compactable))"

section \<open>Summarising\<close>

fun summarize_raw :: "claw_block \<Rightarrow> string" where
  "summarize_raw (TextBlock t) = t"
| "summarize_raw (ToolUseBlock _ name input) = ''tool_use '' @ name @ ''('' @ input @ '')''"
| "summarize_raw (ToolResultBlock _ tool_name result is_error) =
     ''tool_result '' @ tool_name @ '': '' @ (if is_error then ''error '' else []) @ result"

definition summarize_block :: "claw_block \<Rightarrow> string" where
  "summarize_block b = truncate_summary (summarize_raw b) 160"

definition collect_recent_role_summaries :: "claw_message list \<Rightarrow> claw_role \<Rightarrow> nat \<Rightarrow> string list" where
  "collect_recent_role_summaries messages role limit =
     rev (map (\<lambda>t. truncate_summary t 160)
       (take limit (List.map_filter first_text_block (rev (filter (\<lambda>m. cm_role m = role) messages)))))"

definition pending_words :: "string list" where
  "pending_words = [''todo'', ''next'', ''pending'', ''follow up'', ''remaining'']"

definition infer_pending_work :: "claw_message list \<Rightarrow> string list" where
  "infer_pending_work messages =
     rev (map (\<lambda>t. truncate_summary t 160)
       (take 3 (filter (\<lambda>t. list_ex (contains (to_ascii_lowercase t)) pending_words)
         (List.map_filter first_text_block (rev messages)))))"

definition has_interesting_extension :: "string \<Rightarrow> bool" where
  "has_interesting_extension candidate \<longleftrightarrow>
     (case path_extension (parse_path candidate) of
        None \<Rightarrow> False
      | Some ext \<Rightarrow> valid_utf8 ext \<and> to_ascii_lowercase ext \<in> {''rs'', ''ts'', ''tsx'', ''js'', ''json'', ''md''})"

definition file_marks :: "char list" where
  "file_marks = '',.:;)('' @ [CHR 0x22, CHR 0x27, CHR 0x60]"

definition extract_file_candidates :: "string \<Rightarrow> string list" where
  "extract_file_candidates content =
     filter (\<lambda>candidate. CHR ''/'' \<in> set candidate \<and> has_interesting_extension candidate)
       (map (trim_both (\<lambda>c. c \<in> set file_marks)) (split_whitespace content))"

fun block_content :: "claw_block \<Rightarrow> string" where
  "block_content (TextBlock t) = t"
| "block_content (ToolUseBlock _ _ input) = input"
| "block_content (ToolResultBlock _ _ result _) = result"

definition collect_key_files :: "claw_message list \<Rightarrow> string list" where
  "collect_key_files messages =
     take 8 (remdups_adj (sort (concat (map (\<lambda>b. extract_file_candidates (block_content b))
       (concat (map cm_blocks messages))))))"

definition infer_current_work :: "claw_message list \<Rightarrow> string option" where
  "infer_current_work messages =
     map_option (\<lambda>t. truncate_summary t 200)
       (find (\<lambda>t. trim t \<noteq> []) (List.map_filter first_text_block (rev messages)))"

fun block_tool :: "claw_block \<Rightarrow> string option" where
  "block_tool (TextBlock _) = None"
| "block_tool (ToolUseBlock _ name _) = Some name"
| "block_tool (ToolResultBlock _ tool_name _ _) = Some tool_name"

definition tool_names :: "claw_message list \<Rightarrow> string list" where
  "tool_names messages = remdups_adj (sort (List.map_filter block_tool (concat (map cm_blocks messages))))"

definition scope_line :: "claw_message list \<Rightarrow> string" where
  "scope_line messages =
     (let count = (\<lambda>role. show_nat (length (filter (\<lambda>m. cm_role m = role) messages)))
      in ''- Scope: '' @ show_nat (length messages) @ '' earlier messages compacted (user='' @ count RoleUser
         @ '', assistant='' @ count RoleAssistant @ '', tool='' @ count RoleTool @ '').'')"

definition titled :: "string \<Rightarrow> string list \<Rightarrow> string list" where
  "titled title items = (if items = [] then [] else title # map (\<lambda>i. ''  - '' @ i) items)"

definition timeline_line :: "claw_message \<Rightarrow> string" where
  "timeline_line m = ''  - '' @ role_text (cm_role m) @ '': '' @ join '' | '' (map summarize_block (cm_blocks m))"

definition summarize_messages :: "claw_message list \<Rightarrow> string" where
  "summarize_messages messages =
     join nl ([''<summary>'', ''Conversation summary:'', scope_line messages]
       @ (let names = tool_names messages in
          if names = [] then [] else [''- Tools mentioned: '' @ join '', '' names @ ''.''])
       @ titled ''- Recent user requests:'' (collect_recent_role_summaries messages RoleUser 3)
       @ titled ''- Pending work:'' (infer_pending_work messages)
       @ (let files = collect_key_files messages in
          if files = [] then [] else [''- Key files referenced: '' @ join '', '' files @ ''.''])
       @ (case infer_current_work messages of None \<Rightarrow> [] | Some w \<Rightarrow> [''- Current work: '' @ w])
       @ [''- Key timeline:''] @ map timeline_line messages @ [''</summary>''])"

section \<open>Merging summaries\<close>

fun highlights_from :: "bool \<Rightarrow> string list \<Rightarrow> string list" where
  "highlights_from in_timeline [] = []"
| "highlights_from in_timeline (line # rest) =
     (let trimmed = trim_end line in
      if trimmed = [] \<or> trimmed = ''Summary:'' \<or> trimmed = ''Conversation summary:''
      then highlights_from in_timeline rest
      else if trimmed = ''- Key timeline:'' then highlights_from True rest
      else if in_timeline then highlights_from in_timeline rest
      else trimmed # highlights_from in_timeline rest)"

definition extract_summary_highlights :: "string \<Rightarrow> string list" where
  "extract_summary_highlights summary = highlights_from False (str_lines (format_compact_summary summary))"

fun timeline_from :: "bool \<Rightarrow> string list \<Rightarrow> string list" where
  "timeline_from in_timeline [] = []"
| "timeline_from in_timeline (line # rest) =
     (let trimmed = trim_end line in
      if trimmed = ''- Key timeline:'' then timeline_from True rest
      else if \<not> in_timeline then timeline_from in_timeline rest
      else if trimmed = [] then []
      else trimmed # timeline_from in_timeline rest)"

definition extract_summary_timeline :: "string \<Rightarrow> string list" where
  "extract_summary_timeline summary = timeline_from False (str_lines (format_compact_summary summary))"

definition indented :: "string \<Rightarrow> string list \<Rightarrow> string list" where
  "indented title items = (if items = [] then [] else title # map (\<lambda>i. ''  '' @ i) items)"

definition merge_compact_summaries :: "string option \<Rightarrow> string \<Rightarrow> string" where
  "merge_compact_summaries existing new_summary =
     (case existing of
        None \<Rightarrow> new_summary
      | Some previous \<Rightarrow>
          (let new_formatted_summary = format_compact_summary new_summary
           in join nl ([''<summary>'', ''Conversation summary:'']
             @ indented ''- Previously compacted context:'' (extract_summary_highlights previous)
             @ indented ''- Newly compacted context:'' (extract_summary_highlights new_formatted_summary)
             @ indented ''- Key timeline:'' (extract_summary_timeline new_formatted_summary)
             @ [''</summary>''])))"

section \<open>Compacting\<close>

definition starts_with_tool_result :: "claw_message \<Rightarrow> bool" where
  "starts_with_tool_result m \<longleftrightarrow> (case cm_blocks m of ToolResultBlock _ _ _ _ # _ \<Rightarrow> True | _ \<Rightarrow> False)"

definition has_tool_use :: "claw_message \<Rightarrow> bool" where
  "has_tool_use m \<longleftrightarrow> list_ex (\<lambda>b. case b of ToolUseBlock _ _ _ \<Rightarrow> True | _ \<Rightarrow> False) (cm_blocks m)"

text \<open>The loop that moves the boundary back; \<open>None\<close> when it looks past the end.\<close>

fun keep_from :: "claw_message list \<Rightarrow> nat \<Rightarrow> nat \<Rightarrow> nat option" where
  "keep_from messages prefix 0 = Some 0"
| "keep_from messages prefix (Suc k) =
     (if Suc k \<le> prefix then Some (Suc k)
      else if length messages \<le> Suc k then None
      else if \<not> starts_with_tool_result (messages ! Suc k) then Some (Suc k)
      else if has_tool_use (messages ! k) then Some k
      else keep_from messages prefix k)"

record compaction_outcome =
  co_new_summary :: string
  co_formatted_summary :: string
  co_compacted_session :: claw_session
  co_removed_message_count :: nat

definition compact_session ::
  "claw_session \<Rightarrow> compaction_config \<Rightarrow> session_world \<Rightarrow> (compaction_outcome \<times> session_world) option" where
  "compact_session s config w =
     (if \<not> should_compact s config then
        Some (\<lparr>co_new_summary = [], co_formatted_summary = [], co_compacted_session = s,
          co_removed_message_count = 0\<rparr>, w)
      else let
        messages = cs_messages s;
        existing = existing_summary s;
        prefix = compacted_summary_prefix_len s
      in case keep_from messages prefix (length messages - cc_preserve_recent_messages config) of
           None \<Rightarrow> None
         | Some k \<Rightarrow>
             (let removed = take (k - prefix) (drop prefix messages);
                  preserved = drop k messages;
                  summary = merge_compact_summaries existing (summarize_messages removed);
                  continuation = get_compact_continuation_message summary True (preserved \<noteq> []);
                  head = \<lparr>cm_role = RoleSystem, cm_blocks = [TextBlock continuation], cm_usage = None\<rparr>;
                  (compacted, w') = record_compaction summary (length removed)
                    (s\<lparr>cs_messages := head # preserved\<rparr>) w
              in Some (\<lparr>co_new_summary = summary, co_formatted_summary = format_compact_summary summary,
                   co_compacted_session = compacted, co_removed_message_count = length removed\<rparr>, w')))"

end
