(* ===== verification/RefCompactCorrect.thy ===== *)
theory RefCompactCorrect
  imports RefCompact
begin

text \<open>
  Compaction keeps the end of the session and never parts a tool result from its call; the summary
  it leaves is found again, and compacting twice removes nothing more.
\<close>

section \<open>The boundary\<close>

lemma keep_from_bounds:
  "keep_from ms p n = Some k \<Longrightarrow> k \<le> n \<and> (p \<le> n \<longrightarrow> p \<le> k)"
  by (induction ms p n rule: keep_from.induct) (auto split: if_splits)

lemma keep_from_inside: "n < length ms \<Longrightarrow> \<exists>k. keep_from ms p n = Some k"
  by (induction ms p n rule: keep_from.induct) auto

lemma keep_from_end: "p < length ms \<Longrightarrow> keep_from ms p (length ms) = None"
  by (cases "length ms") auto

text \<open>Every message that starts with a tool result follows, over such messages only, one that calls
  a tool.\<close>

fun results_paired :: "bool \<Rightarrow> claw_message list \<Rightarrow> bool" where
  "results_paired called [] \<longleftrightarrow> True"
| "results_paired called (m # ms) \<longleftrightarrow>
     (starts_with_tool_result m \<longrightarrow> called)
     \<and> results_paired (has_tool_use m \<or> starts_with_tool_result m \<and> called) ms"

definition well_paired :: "claw_message list \<Rightarrow> bool" where
  "well_paired ms \<longleftrightarrow> results_paired False ms
     \<and> list_all (\<lambda>m. has_tool_use m \<longrightarrow> cm_role m = RoleAssistant \<and> \<not> starts_with_tool_result m) ms"

lemma results_paired_more: "results_paired c ms \<Longrightarrow> c \<longrightarrow> d \<Longrightarrow> results_paired d ms"
  by (induction c ms arbitrary: d rule: results_paired.induct) auto

lemma results_paired_drop: "results_paired c ms \<Longrightarrow> \<exists>d. results_paired d (drop k ms)"
proof (induction k arbitrary: c ms)
  case (Suc k)
  then show ?case by (cases ms) auto
qed auto

lemma results_paired_fresh:
  "results_paired c ms \<Longrightarrow> ms = [] \<or> \<not> starts_with_tool_result (hd ms) \<Longrightarrow> results_paired False ms"
  by (cases ms) auto

lemma keep_from_paired:
  assumes "well_paired ms" and "results_paired False (drop p ms)"
  shows "keep_from ms p n = Some k \<Longrightarrow> p \<le> n \<Longrightarrow> n < length ms \<Longrightarrow> results_paired False (drop k ms)"
proof (induction n)
  case 0
  then show ?case using assms(1) by (simp add: well_paired_def)
next
  case (Suc n)
  have paired: "\<exists>d. results_paired d (drop j ms)" for j
    using results_paired_drop assms(1) unfolding well_paired_def by metis
  show ?case
  proof (cases "Suc n \<le> p")
    case True
    then have "k = Suc n" using Suc.prems(1) by simp
    then show ?thesis using True Suc.prems(2) assms(2) by simp
  next
    case False
    consider "\<not> starts_with_tool_result (ms ! Suc n)" "k = Suc n"
      | "has_tool_use (ms ! n)" "k = n" | "keep_from ms p n = Some k"
      using Suc.prems(1) False unfolding keep_from.simps(2) by (metis option.inject option.distinct(1))
    then show ?thesis
    proof cases
      case 1
      then show ?thesis
        using paired [of "Suc n"] results_paired_fresh Suc.prems(3) by (metis hd_drop_conv_nth)
    next
      case 2
      then have "\<not> starts_with_tool_result (ms ! n)"
        using assms(1) Suc.prems(3) by (auto simp: well_paired_def list_all_length)
      then show ?thesis
        using 2 paired [of n] results_paired_fresh Suc.prems(3) by (metis Suc_lessD hd_drop_conv_nth)
    next
      case 3
      then show ?thesis using Suc False by simp
    qed
  qed
qed

section \<open>The summary message\<close>

definition summary_message :: "string \<Rightarrow> bool \<Rightarrow> claw_message" where
  "summary_message summary preserved = \<lparr>cm_role = RoleSystem,
     cm_blocks = [TextBlock (get_compact_continuation_message summary True preserved)], cm_usage = None\<rparr>"

lemma preamble_starts: "\<exists>r. continuation_preamble = CHR ''T'' # r"
  by (simp add: continuation_preamble_def)

lemma instruction_ends: "\<exists>r. direct_resume_instruction = r @ ''.''"
  by (intro exI [of _ "butlast direct_resume_instruction"]) (simp add: direct_resume_instruction_def)

lemma trim_continuation: "trim (get_compact_continuation_message summary True preserved) \<noteq> []"
proof -
  obtain r where r: "continuation_preamble = CHR ''T'' # r" using preamble_starts by blast
  obtain q where q: "direct_resume_instruction = q @ ''.''" using instruction_ends by blast
  obtain m where "get_compact_continuation_message summary True preserved = CHR ''T'' # m @ ''.''"
    by (simp add: get_compact_continuation_message_def r q)
  moreover have "trim (CHR ''T'' # m @ ''.'') = CHR ''T'' # m @ ''.''" for m
    by (rule trim_solid) (simp_all add: ws_encodings_def)
  ultimately show ?thesis by simp
qed

lemma strip_prefix_append [simp]: "strip_prefix p (p @ s) = Some s"
  by (induction p) simp_all

lemma summary_recognised: "extract_existing_compacted_summary (summary_message summary preserved) \<noteq> None"
  using trim_continuation [of summary preserved]
  by (simp add: extract_existing_compacted_summary_def summary_message_def first_text_block_def
      get_compact_continuation_message_def Let_def)

lemma summary_message_plain [simp]:
  "\<not> has_tool_use (summary_message summary preserved)" "\<not> starts_with_tool_result (summary_message summary preserved)"
  "cm_role (summary_message summary preserved) = RoleSystem"
  by (simp_all add: summary_message_def has_tool_use_def starts_with_tool_result_def)

lemma record_compaction_messages [simp]:
  "cs_messages (fst (record_compaction summary n s w)) = cs_messages s"
  by (simp add: record_compaction_def touch_def current_time_millis_def Let_def case_prod_unfold)

text \<open>What compaction does to the messages.\<close>

lemma compact_session_messages:
  assumes "0 < cc_preserve_recent_messages config" and "should_compact s config"
  obtains r w' k summary where "compact_session s config w = Some (r, w')"
    "keep_from (cs_messages s) (compacted_summary_prefix_len s)
       (length (cs_messages s) - cc_preserve_recent_messages config) = Some k"
    "compacted_summary_prefix_len s \<le> k" "k \<le> length (cs_messages s) - cc_preserve_recent_messages config"
    "cs_messages (co_compacted_session r) = summary_message summary (drop k (cs_messages s) \<noteq> []) # drop k (cs_messages s)"
    "co_removed_message_count r = k - compacted_summary_prefix_len s"
proof -
  let ?ms = "cs_messages s" and ?p = "compacted_summary_prefix_len s"
  let ?n = "length ?ms - cc_preserve_recent_messages config"
  have n: "cc_preserve_recent_messages config < length ?ms - ?p" using assms(2) by (simp add: should_compact_def Let_def)
  then have "?p \<le> ?n" "?n < length ?ms" using assms(1) by linarith+
  then obtain k where k: "keep_from ?ms ?p ?n = Some k" "k \<le> ?n" "?p \<le> k"
    using keep_from_inside keep_from_bounds by metis
  let ?summary = "merge_compact_summaries (existing_summary s) (summarize_messages (take (k - ?p) (drop ?p ?ms)))"
  have "min (length ?ms - ?p) (k - ?p) = k - ?p" using k(2) by simp
  then show ?thesis
    using that [of _ _ k ?summary] k assms(2)
    by (simp add: compact_session_def Let_def case_prod_unfold summary_message_def)
qed

section \<open>What compaction keeps\<close>

lemma well_paired_tail:
  assumes "well_paired ms" and "ms = [] \<or> \<not> has_tool_use (hd ms)"
  shows "results_paired False (tl ms)"
  using assms by (cases ms) (auto simp: well_paired_def)

lemma compacted_paired:
  "well_paired ms \<Longrightarrow> results_paired False (drop k ms) \<Longrightarrow> well_paired (summary_message summary b # drop k ms)"
  by (auto simp: well_paired_def list_all_iff dest: in_set_dropD)

lemma existing_head:
  "existing_summary s \<noteq> None \<Longrightarrow> cs_messages s \<noteq> [] \<and> cm_role (hd (cs_messages s)) = RoleSystem"
  by (auto simp: existing_summary_def extract_existing_compacted_summary_def split: list.splits if_splits)

lemma compact_session_keeps:
  assumes "well_paired (cs_messages s)" and "0 < cc_preserve_recent_messages config"
  shows "\<exists>r w' k ms. compact_session s config w = Some (r, w') \<and> well_paired (cs_messages (co_compacted_session r))
    \<and> cs_messages (co_compacted_session r) = ms @ drop k (cs_messages s) \<and> length ms \<le> 1
    \<and> (k = 0 \<or> k + cc_preserve_recent_messages config \<le> length (cs_messages s))"
proof (cases "should_compact s config")
  case False
  then show ?thesis using assms(1) by (auto simp: compact_session_def intro!: exI [of _ "[]"] exI [of _ 0])
next
  case True
  let ?ms = "cs_messages s" and ?p = "compacted_summary_prefix_len s"
  obtain r w' k summary where c: "compact_session s config w = Some (r, w')"
    "keep_from ?ms ?p (length ?ms - cc_preserve_recent_messages config) = Some k"
    "?p \<le> k" "k \<le> length ?ms - cc_preserve_recent_messages config"
    "cs_messages (co_compacted_session r) = summary_message summary (drop k ?ms \<noteq> []) # drop k ?ms"
    using compact_session_messages [OF assms(2) True, of w] by metis
  have size: "cc_preserve_recent_messages config < length ?ms - ?p" using True by (simp add: should_compact_def Let_def)
  have "results_paired False (drop ?p ?ms)"
  proof (cases "existing_summary s")
    case None
    then show ?thesis using assms(1) by (simp add: compacted_summary_prefix_len_def well_paired_def)
  next
    case (Some x)
    then have "\<not> has_tool_use (hd ?ms)"
      using existing_head [of s] assms(1) by (cases ?ms) (auto simp: well_paired_def)
    then show ?thesis
      using Some well_paired_tail [OF assms(1)] by (simp add: compacted_summary_prefix_len_def drop_Suc)
  qed
  then have "results_paired False (drop k ?ms)"
    using keep_from_paired [OF assms(1) _ c(2)] size assms(2) by linarith
  then show ?thesis
    using c size compacted_paired [OF assms(1)] by (intro exI [of _ r] exI [of _ w'] exI [of _ k]) (auto intro!: exI [of _ "[_]"])
qed

text \<open>
  C23: Compaction never parts a tool result from its call. When each tool result of a session follows its
  call and at least one recent message is to be preserved, compacting returns, and it leaves at most the
  summary and an end of the session with at least the messages to be preserved, in which each tool result
  still follows its call. (With none to be preserved the code panics: \<open>compaction_panics\<close>.)
\<close>

theorem compaction_keeps_pairs:
  assumes "well_paired (cs_messages s)" and "0 < cc_preserve_recent_messages config"
  shows "\<exists>r w' k ms. compact_session s config w = Some (r, w') \<and> well_paired (cs_messages (co_compacted_session r))
    \<and> cs_messages (co_compacted_session r) = ms @ drop k (cs_messages s) \<and> length ms \<le> 1
    \<and> (k = 0 \<or> k + cc_preserve_recent_messages config \<le> length (cs_messages s))"
  using compact_session_keeps [OF assms] .

lemma keep_from_again:
  "keep_from ms p j = Some k \<Longrightarrow> j < length ms \<Longrightarrow> keep_from (x # drop k ms) 1 (j - k + 1) = Some 1"
proof (induction j)
  case 0
  then show ?case by simp
next
  case (Suc i)
  show ?case
  proof (cases "k = Suc i")
    case False
    then have k: "k \<le> i" using keep_from_bounds [OF Suc.prems(1)] by simp
    then have shape: "Suc i - k + 1 = Suc (i - k + 1)" "(x # drop k ms) ! Suc (i - k + 1) = ms ! Suc i"
        "(x # drop k ms) ! (i - k + 1) = ms ! i" "Suc (i - k + 1) < length (x # drop k ms)"
      using Suc.prems(2) by (auto simp: Suc_diff_le)
    have step: "starts_with_tool_result (ms ! Suc i)" "if has_tool_use (ms ! i) then k = i else keep_from ms p i = Some k"
      using Suc.prems(1) False unfolding keep_from.simps(2) by (metis option.inject option.distinct(1))+
    show ?thesis
    proof (cases "has_tool_use (ms ! i)")
      case True
      then show ?thesis using shape step by (simp add: not_le del: nth_Cons_Suc)
    next
      case neg: False
      then have "keep_from (x # drop k ms) 1 (i - k + 1) = Some 1" using Suc step(2) by simp
      then show ?thesis using shape step(1) neg by (simp add: not_le del: nth_Cons_Suc)
    qed
  qed simp
qed

text \<open>
  Compaction is done after one go: compacting the compacted session again with the same limits,
  at any later time, removes no message.
\<close>

theorem recompaction_removes_nothing:
  assumes "compact_session s config w = Some (r, w1)" and "0 < cc_preserve_recent_messages config"
  shows "\<exists>r2 w3. compact_session (co_compacted_session r) config w2 = Some (r2, w3) \<and> co_removed_message_count r2 = 0"
proof (cases "should_compact s config \<and> should_compact (co_compacted_session r) config")
  case False
  then show ?thesis using assms(1) by (auto simp: compact_session_def)
next
  case True
  let ?s = "co_compacted_session r" and ?ms = "cs_messages s"
  obtain k summary where c: "keep_from ?ms (compacted_summary_prefix_len s) (length ?ms - cc_preserve_recent_messages config) = Some k"
    "k \<le> length ?ms - cc_preserve_recent_messages config"
    "cs_messages ?s = summary_message summary (drop k ?ms \<noteq> []) # drop k ?ms"
    using compact_session_messages [of config s w] assms True by (metis option.inject prod.inject)
  have prefix: "compacted_summary_prefix_len ?s = 1"
    using summary_recognised by (simp add: compacted_summary_prefix_len_def existing_summary_def c(3))
  have size: "cc_preserve_recent_messages config < length ?ms - compacted_summary_prefix_len s"
    using True by (simp add: should_compact_def Let_def)
  then have "length (cs_messages ?s) - cc_preserve_recent_messages config
      = length ?ms - cc_preserve_recent_messages config - k + 1"
    using c(2) by (simp add: c(3))
  then have again: "keep_from (cs_messages ?s) 1 (length (cs_messages ?s) - cc_preserve_recent_messages config) = Some 1"
    using keep_from_again [OF c(1)] size assms(2) by (simp add: c(3))
  show ?thesis
    using compact_session_messages [OF assms(2), of ?s w2] True again prefix by (metis diff_self_eq_0 option.inject)
qed

text \<open>Without messages to preserve, compaction looks past the end.\<close>

lemma compaction_panics:
  "cc_preserve_recent_messages config = 0 \<Longrightarrow> should_compact s config \<Longrightarrow> compact_session s config w = None"
  using keep_from_end [of "compacted_summary_prefix_len s" "cs_messages s"]
  by (simp add: compact_session_def should_compact_def Let_def)

section \<open>The summary found again\<close>

lemma split_once_found:
  assumes "\<not> contains a d" and "d \<noteq> []" and "\<forall>k. 0 < k \<and> k < length d \<longrightarrow> drop k d \<noteq> take (length d - k) d"
  shows "split_once d (a @ d @ b) = Some (a, b)"
proof -
  have "contains (a @ d @ b) d" by (auto simp: contains_iff)
  then obtain a' b' where s: "split_once d (a @ d @ b) = Some (a', b')"
    using split_once_None [of d "a @ d @ b"] by (cases "split_once d (a @ d @ b)") auto
  then have eq: "a @ d @ b = a' @ d @ b'" by (rule split_once_Some)
  have "\<not> length a < length a'"
  proof
    assume less: "length a < length a'"
    then obtain c where c: "a' = a @ c" using eq by (metis append_eq_append_conv_if append_eq_conv_conj less_imp_le)
    then have dd: "d @ b = c @ d @ b'" and "c \<noteq> []" using eq less by auto
    have "take (length d) (c @ d @ b') = d" using dd by (metis append_eq_conv_conj)
    moreover have "length d \<le> length (c @ butlast d)" using \<open>c \<noteq> []\<close> by (cases c) simp_all
    moreover have "c @ d @ b' = (c @ butlast d) @ [last d] @ b'" using assms(2) by simp
    ultimately have "d = take (length d) (c @ butlast d)" by (metis take_append append_Nil2 diff_is_0_eq take_0)
    then have "contains (a' @ butlast d) d"
      unfolding c contains_iff by (metis append.assoc append_take_drop_id)
    then show False using split_once_first [OF s assms(2)] by blast
  qed
  moreover have "\<not> length a' < length a"
  proof
    assume less: "length a' < length a"
    then obtain c where c: "a = a' @ c" using eq by (metis append_eq_append_conv_if append_eq_conv_conj less_imp_le)
    then have dd: "c @ d @ b = d @ b'" and "c \<noteq> []" using eq less by auto
    show False
    proof (cases "length d \<le> length c")
      case True
      then have "take (length d) c = d" using dd by (metis append_eq_conv_conj take_append diff_is_0_eq take_0 append_Nil2)
      then have "contains a d" unfolding c contains_iff by (metis append_take_drop_id)
      then show False using assms(1) by blast
    next
      case False
      then obtain e where e: "d = c @ e"
        using dd by (metis append_eq_append_conv_if append_take_drop_id nat_le_linear)
      then have "d @ b = e @ b'" using dd by simp
      then have "e = take (length e) d" using e by (metis append_eq_conv_conj length_append le_add2 take_append diff_is_0_eq take_0 append_Nil2)
      then have "drop (length c) d = take (length d - length c) d" using e by simp
      moreover have "0 < length c" "length c < length d" using \<open>c \<noteq> []\<close> False by simp_all
      ultimately show False using assms(3) by blast
    qed
  qed
  ultimately have "a = a'" using eq by (metis append_eq_append_conv linorder_neqE_nat)
  then show ?thesis using s eq by simp
qed

lemma note_borderless:
  "0 < k \<and> k < length (nl @ nl @ recent_messages_note) \<longrightarrow>
   drop k (nl @ nl @ recent_messages_note) \<noteq> take (length (nl @ nl @ recent_messages_note) - k) (nl @ nl @ recent_messages_note)"
proof -
  have "list_all (\<lambda>k. drop k (nl @ nl @ recent_messages_note)
      \<noteq> take (length (nl @ nl @ recent_messages_note) - k) (nl @ nl @ recent_messages_note))
    [1..<length (nl @ nl @ recent_messages_note)]"
    by code_simp
  then show ?thesis by (auto simp: list_all_iff)
qed

lemma trim_formatted [simp]: "trim (format_compact_summary summary) = format_compact_summary summary"
  by (simp add: format_compact_summary_def Let_def)

text \<open>
  The next compaction reads back exactly the formatted summary that this one left before the
  preserved messages, unless the summary itself quotes one of the two fixed sentences at the start
  of a line.
\<close>

theorem summary_found_again:
  assumes "\<not> contains (format_compact_summary summary) (nl @ nl @ recent_messages_note)"
    and "\<not> contains (format_compact_summary summary) (nl @ direct_resume_instruction)"
  shows "extract_existing_compacted_summary (summary_message summary True) = Some (format_compact_summary summary)"
proof -
  have "split_once (nl @ nl @ recent_messages_note)
      (format_compact_summary summary @ (nl @ nl @ recent_messages_note) @ nl @ direct_resume_instruction)
    = Some (format_compact_summary summary, nl @ direct_resume_instruction)"
    by (rule split_once_found [OF assms(1)]) (use note_borderless in \<open>simp_all add: nl_def\<close>)
  moreover have "split_once (nl @ direct_resume_instruction) (format_compact_summary summary) = None"
    using assms(2) split_once_None by blast
  ultimately show ?thesis
    using trim_continuation [of summary True]
    by (simp add: extract_existing_compacted_summary_def summary_message_def first_text_block_def
        get_compact_continuation_message_def Let_def)
qed

theorem summary_found_again_witness:
  "extract_existing_compacted_summary (summary_message ''<summary>- Scope: all</summary>'' True)
     = Some (''Summary:'' @ nl @ ''- Scope: all'')"
proof -
  have f: "format_compact_summary ''<summary>- Scope: all</summary>'' = ''Summary:'' @ nl @ ''- Scope: all''" by code_simp
  have n: "\<not> contains (''Summary:'' @ nl @ ''- Scope: all'') (nl @ nl @ recent_messages_note)"
    "\<not> contains (''Summary:'' @ nl @ ''- Scope: all'') (nl @ direct_resume_instruction)"
    by code_simp+
  show ?thesis using summary_found_again [of "''<summary>- Scope: all</summary>''"] n by (simp only: f simp_thms)
qed

section \<open>Examples\<close>

definition sample_tool_turn :: "claw_message list" where
  "sample_tool_turn = [user_text ''go'', assistant [ToolUseBlock ''1'' ''ls'' ''{}''],
     tool_result ''1'' ''ls'' ''a.rs'' False, user_text ''next'']"

definition sample_tool_session :: claw_session where
  "sample_tool_session = \<lparr>cs_version = 1, cs_session_id = ''s'', cs_created_at_ms = 5, cs_updated_at_ms = 7,
     cs_messages = sample_tool_turn, cs_compaction = None, cs_fork = None, cs_workspace_root = None,
     cs_prompt_history = [], cs_last_health_check_ms = None, cs_model = None, cs_persistence = None\<rparr>"

definition sample_config :: compaction_config where
  "sample_config = \<lparr>cc_preserve_recent_messages = 2, cc_max_estimated_tokens = 1\<rparr>"

definition still_world :: session_world where
  "still_world = \<lparr>sw_fs = \<lparr>fs_nodes = [], fs_cwd = [], fs_faults = []\<rparr>, sw_clock = [], sw_last_timestamp_ms = 0,
     sw_id_counter = 0\<rparr>"

text \<open>Two messages are to be kept, but the boundary would part the call from its result: three stay.\<close>

theorem compaction_keeps_pairs_witness:
  "map_option (\<lambda>(r, _). map cm_role (cs_messages (co_compacted_session r)))
     (compact_session sample_tool_session sample_config still_world) = Some [RoleSystem, RoleAssistant, RoleTool, RoleUser]"
proof -
  have ok: "well_paired (cs_messages sample_tool_session)" "0 < cc_preserve_recent_messages sample_config" by code_simp+
  obtain r w' where c: "compact_session sample_tool_session sample_config still_world = Some (r, w')"
    using compaction_keeps_pairs [OF ok, of still_world] by blast
  have sc: "should_compact sample_tool_session sample_config" by code_simp
  have k: "keep_from (cs_messages sample_tool_session) (compacted_summary_prefix_len sample_tool_session)
      (length (cs_messages sample_tool_session) - cc_preserve_recent_messages sample_config) = Some 1"
    by code_simp
  obtain summary b where "cs_messages (co_compacted_session r) = summary_message summary b # drop 1 (cs_messages sample_tool_session)"
    using compact_session_messages [OF ok(2) sc, of still_world] c k by (metis option.inject prod.inject)
  moreover have "map cm_role (drop 1 (cs_messages sample_tool_session)) = [RoleAssistant, RoleTool, RoleUser]"
    by code_simp
  ultimately show ?thesis by (simp add: c drop_map del: drop_Suc_Cons)
qed

theorem recompaction_removes_nothing_witness:
  "\<exists>r w1 r2 w3. compact_session sample_tool_session sample_config still_world = Some (r, w1)
    \<and> compact_session (co_compacted_session r) sample_config still_world = Some (r2, w3) \<and> co_removed_message_count r2 = 0"
proof -
  have ok: "0 < cc_preserve_recent_messages sample_config" "should_compact sample_tool_session sample_config" by code_simp+
  obtain r w1 where c: "compact_session sample_tool_session sample_config still_world = Some (r, w1)"
    using compact_session_messages [OF ok, of still_world] by metis
  then show ?thesis using recompaction_removes_nothing [OF c ok(1)] by blast
qed

end
