(* ===== verification/RefHooks.thy ===== *)
theory RefHooks
  imports RefPermissions Utf8
begin

text \<open>
  The hooks around tool calls, \<open>claw-rust/crates/runtime/src/hooks.rs\<close>: a list of shell commands per
  event, run one after the other until one denies, fails or is cancelled; what a command prints is
  read as JSON or taken as its message. The process itself and \<open>serde_json\<close>'s text form are
  parameters; the loop that waits for the process is modelled over what its polls see.
\<close>

section \<open>Events and results\<close>

datatype hook_event = PreToolUse | PostToolUse | PostToolUseFailure

fun hook_event_str :: "hook_event \<Rightarrow> string" where
  "hook_event_str PreToolUse = ''PreToolUse''"
| "hook_event_str PostToolUse = ''PostToolUse''"
| "hook_event_str PostToolUseFailure = ''PostToolUseFailure''"

text \<open>Each with its event, tool and command.\<close>

datatype hook_progress =
    HookStarted hook_event string string
  | HookCompleted hook_event string string
  | HookCancelled hook_event string string

record hook_result =
  hr_denied :: bool
  hr_failed :: bool
  hr_cancelled :: bool
  hr_messages :: "string list"
  hr_permission_override :: "permission_override option"
  hr_permission_reason :: "string option"
  hr_updated_input :: "string option"

definition hook_allow :: "string list \<Rightarrow> hook_result" where
  "hook_allow messages = \<lparr>hr_denied = False, hr_failed = False, hr_cancelled = False, hr_messages = messages,
     hr_permission_override = None, hr_permission_reason = None, hr_updated_input = None\<rparr>"

record hook_config =
  hc_pre_tool_use :: "string list"
  hc_post_tool_use :: "string list"
  hc_post_tool_use_failure :: "string list"

record parsed_hook_output =
  ph_messages :: "string list"
  ph_deny :: bool
  ph_permission_override :: "permission_override option"
  ph_permission_reason :: "string option"
  ph_updated_input :: "string option"

definition parsed_default :: parsed_hook_output where
  "parsed_default = \<lparr>ph_messages = [], ph_deny = False, ph_permission_override = None,
     ph_permission_reason = None, ph_updated_input = None\<rparr>"

datatype hook_command_outcome =
    HookAllow parsed_hook_output
  | HookDeny parsed_hook_output
  | HookFailed parsed_hook_output
  | HookCommandCancelled string

definition with_fallback_message :: "string \<Rightarrow> parsed_hook_output \<Rightarrow> parsed_hook_output" where
  "with_fallback_message fallback p = (if ph_messages p = [] then p\<lparr>ph_messages := [fallback]\<rparr> else p)"

definition primary_message :: "parsed_hook_output \<Rightarrow> string option" where
  "primary_message p = (case ph_messages p of [] \<Rightarrow> None | m # _ \<Rightarrow> Some m)"

definition or_else :: "'a option \<Rightarrow> 'a option \<Rightarrow> 'a option" where
  "or_else x y = (case x of None \<Rightarrow> y | Some _ \<Rightarrow> x)"

definition merge_parsed_hook_output :: "hook_result \<Rightarrow> parsed_hook_output \<Rightarrow> hook_result" where
  "merge_parsed_hook_output target p =
     target\<lparr>hr_messages := hr_messages target @ ph_messages p,
       hr_permission_override := or_else (ph_permission_override p) (hr_permission_override target),
       hr_permission_reason := or_else (ph_permission_reason p) (hr_permission_reason target),
       hr_updated_input := or_else (ph_updated_input p) (hr_updated_input target)\<rparr>"

section \<open>Reading what a hook prints\<close>

definition preview_limit :: nat where
  "preview_limit = 160"

text \<open>\<open>{:x}\<close> of the number of a control character.\<close>

definition show_hex_byte :: "nat \<Rightarrow> string" where
  "show_hex_byte n = (if n < 16 then [hex_char n] else [hex_char (n div 16), hex_char (n mod 16)])"

text \<open>\<open>char::is_control\<close>: the number of a control character, from its encoding.\<close>

definition control_number :: "string \<Rightarrow> nat option" where
  "control_number w =
     (case w of
        [c] \<Rightarrow> if of_char c < (32 :: nat) \<or> of_char c = (127 :: nat) then Some (of_char c) else None
      | [c, d] \<Rightarrow> if of_char c = (194 :: nat) \<and> 128 \<le> (of_char d :: nat) \<and> of_char d < (160 :: nat)
          then Some (of_char d) else None
      | _ \<Rightarrow> None)"

definition preview_char :: "string \<Rightarrow> string" where
  "preview_char w =
     (if w = nl then [CHR 0x5C, CHR ''n'']
      else if w = [CHR 0x0D] then [CHR 0x5C, CHR ''r'']
      else if w = [CHR 0x09] then [CHR 0x5C, CHR ''t'']
      else case control_number w of
             Some n \<Rightarrow> [CHR 0x5C, CHR ''u'', CHR ''{''] @ show_hex_byte n @ ''}''
           | None \<Rightarrow> w)"

definition bounded_hook_preview :: "string \<Rightarrow> string option" where
  "bounded_hook_preview value =
     (let trimmed = trim value; cs = str_chars trimmed
      in if trimmed = [] then None
         else Some (concat (map preview_char (take preview_limit cs))
           @ (if preview_limit < length cs then ellipsis else [])))"

fun json_type_name :: "json \<Rightarrow> string" where
  "json_type_name JNull = ''null''"
| "json_type_name (JBool _) = ''boolean''"
| "json_type_name (JNum _) = ''number''"
| "json_type_name (JStr _) = ''string''"
| "json_type_name (JArr _) = ''array''"
| "json_type_name (JObj _) = ''object''"

definition looks_like_json_attempt :: "string \<Rightarrow> bool" where
  "looks_like_json_attempt value =
     (case trim_start value of [] \<Rightarrow> False | c # _ \<Rightarrow> c = CHR ''{'' \<or> c = CHR ''['')"

definition format_invalid_hook_output ::
  "hook_event \<Rightarrow> string \<Rightarrow> string \<Rightarrow> string \<Rightarrow> string \<Rightarrow> string \<Rightarrow> string" where
  "format_invalid_hook_output event tool_name command detail stdout stderr =
     (let preview = (\<lambda>s. unwrap_or ''<empty>'' (bounded_hook_preview s))
      in ''hook_invalid_json: phase='' @ hook_event_str event @ '' tool='' @ tool_name @ '' command=''
         @ preview command @ '' detail='' @ detail @ '' stdout_preview='' @ preview stdout
         @ '' stderr_preview='' @ preview stderr)"

definition override_of :: "string \<Rightarrow> permission_override option" where
  "override_of decision =
     (if decision = ''allow'' then Some OverrideAllow
      else if decision = ''deny'' then Some OverrideDeny
      else if decision = ''ask'' then Some OverrideAsk
      else None)"

text \<open>The entries of an object the output may be: the two messages, the refusal, and the part for
  the event.\<close>

definition message_at :: "json \<Rightarrow> string \<Rightarrow> string list" where
  "message_at v key = (case get_str v key of None \<Rightarrow> [] | Some m \<Rightarrow> [m])"

definition read_hook_object :: "codec \<Rightarrow> json \<Rightarrow> parsed_hook_output" where
  "read_hook_object codec root =
     (let parsed = parsed_default\<lparr>ph_messages := message_at root ''systemMessage'' @ message_at root ''reason'',
            ph_deny := (get_bool root ''continue'' = Some False \<or> get_str root ''decision'' = Some ''block'')\<rparr>
      in case json_get root ''hookSpecificOutput'' of
           Some (JObj m) \<Rightarrow>
             (let specific = JObj m
              in parsed\<lparr>ph_messages := ph_messages parsed @ message_at specific ''additionalContext'',
                   ph_permission_override := Option.bind (get_str specific ''permissionDecision'') override_of,
                   ph_permission_reason := get_str specific ''permissionDecisionReason'',
                   ph_updated_input := map_option (to_text codec) (json_get specific ''updatedInput'')\<rparr>)
         | _ \<Rightarrow> parsed)"

definition parse_hook_output ::
  "codec \<Rightarrow> hook_event \<Rightarrow> string \<Rightarrow> string \<Rightarrow> string \<Rightarrow> string \<Rightarrow> parsed_hook_output" where
  "parse_hook_output codec event tool_name command stdout stderr =
     (let invalid = (\<lambda>detail. parsed_default\<lparr>ph_messages :=
            [format_invalid_hook_output event tool_name command detail stdout stderr]\<rparr>)
      in if stdout = [] then parsed_default
         else case from_text codec stdout of
                Inr (JObj m) \<Rightarrow> with_fallback_message stdout (read_hook_object codec (JObj m))
              | Inr v \<Rightarrow> invalid (''expected top-level JSON object, got '' @ json_type_name v)
              | Inl e \<Rightarrow> if looks_like_json_attempt stdout then invalid e
                         else parsed_default\<lparr>ph_messages := [stdout]\<rparr>)"

section \<open>What a hook is told\<close>

definition parse_tool_input :: "codec \<Rightarrow> string \<Rightarrow> json" where
  "parse_tool_input codec tool_input =
     (case from_text codec tool_input of Inr v \<Rightarrow> v | Inl _ \<Rightarrow> jobj [(''raw'', JStr tool_input)])"

definition hook_payload :: "codec \<Rightarrow> hook_event \<Rightarrow> string \<Rightarrow> string \<Rightarrow> string option \<Rightarrow> bool \<Rightarrow> json" where
  "hook_payload codec event tool_name tool_input tool_output is_error =
     (let input = parse_tool_input codec tool_input
      in case event of
           PostToolUseFailure \<Rightarrow>
             jobj [(''hook_event_name'', JStr (hook_event_str event)), (''tool_name'', JStr tool_name),
               (''tool_input'', input), (''tool_input_json'', JStr tool_input),
               (''tool_error'', jopt JStr tool_output), (''tool_result_is_error'', JBool True)]
         | _ \<Rightarrow>
             jobj [(''hook_event_name'', JStr (hook_event_str event)), (''tool_name'', JStr tool_name),
               (''tool_input'', input), (''tool_input_json'', JStr tool_input),
               (''tool_output'', jopt JStr tool_output), (''tool_result_is_error'', JBool is_error)])"

section \<open>Waiting for a hook\<close>

record process_output =
  po_code :: "int option"
  po_stdout :: string
  po_stderr :: string

datatype command_execution = HookFinished process_output | HookKilled

text \<open>What each round of the loop sees: the abort signal, then what \<open>try_wait\<close> says.\<close>

datatype wait_poll = PollAborted | PollFailed string | PollExited | PollRunning

record child_process =
  ch_spawn_error :: "string option"
  ch_stdin_error :: "string option"
  ch_polls :: "wait_poll list"
  ch_output :: "string + process_output"

text \<open>\<open>None\<close>: the loop never ends, as the process runs on when the polls are over.\<close>

fun wait_for_child :: "(string + process_output) \<Rightarrow> wait_poll list \<Rightarrow> (string + command_execution) option" where
  "wait_for_child out [] = None"
| "wait_for_child out (PollAborted # polls) = Some (Inr HookKilled)"
| "wait_for_child out (PollFailed e # polls) = Some (Inl e)"
| "wait_for_child out (PollExited # polls) = Some (case out of Inl e \<Rightarrow> Inl e | Inr x \<Rightarrow> Inr (HookFinished x))"
| "wait_for_child out (PollRunning # polls) = wait_for_child out polls"

definition output_with_stdin :: "child_process \<Rightarrow> (string + command_execution) option" where
  "output_with_stdin child =
     (case ch_spawn_error child of
        Some e \<Rightarrow> Some (Inl e)
      | None \<Rightarrow>
          (case ch_stdin_error child of
             Some e \<Rightarrow> Some (Inl e)
           | None \<Rightarrow> wait_for_child (ch_output child) (ch_polls child)))"

section \<open>Running hooks\<close>

text \<open>What a command is started with: the variables of its environment and its input.\<close>

record hook_call =
  hk_command :: string
  hk_env :: "(string \<times> string) list"
  hk_payload :: string

definition show_int :: "int \<Rightarrow> string" where
  "show_int n = (if n < 0 then ''-'' @ show_nat (nat (- n)) else show_nat (nat n))"

definition format_hook_failure :: "string \<Rightarrow> int \<Rightarrow> string option \<Rightarrow> string \<Rightarrow> string" where
  "format_hook_failure command code stdout stderr =
     ''Hook `'' @ command @ ''` exited with status '' @ show_int code
     @ (case stdout of
          Some (c # cs) \<Rightarrow> '': '' @ c # cs
        | _ \<Rightarrow> if stderr \<noteq> [] then '': '' @ stderr else [])"

definition hook_finished ::
  "codec \<Rightarrow> hook_event \<Rightarrow> string \<Rightarrow> string \<Rightarrow> process_output \<Rightarrow> hook_command_outcome" where
  "hook_finished codec event tool_name command result =
     (let stdout = trim (utf8_lossy (po_stdout result));
          stderr = trim (utf8_lossy (po_stderr result));
          parsed = parse_hook_output codec event tool_name command stdout stderr
      in case po_code result of
           None \<Rightarrow> HookFailed (with_fallback_message (hook_event_str event @ '' hook `'' @ command
             @ ''` terminated by signal while handling `'' @ tool_name @ ''`'') parsed)
         | Some code \<Rightarrow>
             if code = 0 then (if ph_deny parsed then HookDeny parsed else HookAllow parsed)
             else if code = 2 then HookDeny (with_fallback_message
               (hook_event_str event @ '' hook denied tool `'' @ tool_name @ ''`'') parsed)
             else HookFailed (with_fallback_message
               (format_hook_failure command code (primary_message parsed) stderr) parsed))"

definition hook_environment :: "hook_event \<Rightarrow> string \<Rightarrow> string \<Rightarrow> string option \<Rightarrow> bool \<Rightarrow> (string \<times> string) list" where
  "hook_environment event tool_name tool_input tool_output is_error =
     [(''HOOK_EVENT'', hook_event_str event), (''HOOK_TOOL_NAME'', tool_name), (''HOOK_TOOL_INPUT'', tool_input),
      (''HOOK_TOOL_IS_ERROR'', if is_error then ''1'' else ''0'')]
     @ (case tool_output of None \<Rightarrow> [] | Some s \<Rightarrow> [(''HOOK_TOOL_OUTPUT'', s)])"

text \<open>\<open>start\<close> is the operating system: what becomes of a command started now.\<close>

definition run_command ::
  "codec \<Rightarrow> (hook_call \<Rightarrow> 'w \<Rightarrow> (string + command_execution) \<times> 'w) \<Rightarrow> hook_event \<Rightarrow> string \<Rightarrow> string
    \<Rightarrow> string option \<Rightarrow> bool \<Rightarrow> string \<Rightarrow> string \<Rightarrow> 'w \<Rightarrow> hook_command_outcome \<times> 'w" where
  "run_command codec start event tool_name tool_input tool_output is_error payload command w =
     (case start \<lparr>hk_command = command,
             hk_env = hook_environment event tool_name tool_input tool_output is_error,
             hk_payload = payload\<rparr> w of
        (Inr (HookFinished result), w1) \<Rightarrow> (hook_finished codec event tool_name command result, w1)
      | (Inr HookKilled, w1) \<Rightarrow>
          (HookCommandCancelled (hook_event_str event @ '' hook `'' @ command @ ''` cancelled while handling `''
             @ tool_name @ ''`''), w1)
      | (Inl e, w1) \<Rightarrow>
          (HookFailed (parsed_default\<lparr>ph_messages := [hook_event_str event @ '' hook `'' @ command
             @ ''` failed to start for `'' @ tool_name @ ''`: '' @ e]\<rparr>), w1))"

type_synonym 'w hook_reporter = "hook_progress \<Rightarrow> 'w \<Rightarrow> 'w"

definition report :: "'w hook_reporter option \<Rightarrow> hook_progress \<Rightarrow> 'w \<Rightarrow> 'w" where
  "report reporter p w = (case reporter of None \<Rightarrow> w | Some r \<Rightarrow> r p w)"

text \<open>The loop over the commands, \<open>run\<close> being one of them.\<close>

fun run_each ::
  "(string \<Rightarrow> 'w \<Rightarrow> hook_command_outcome \<times> 'w) \<Rightarrow> hook_event \<Rightarrow> string \<Rightarrow> 'w hook_reporter option
    \<Rightarrow> string list \<Rightarrow> hook_result \<Rightarrow> 'w \<Rightarrow> hook_result \<times> 'w" where
  "run_each run event tool_name reporter [] result w = (result, w)"
| "run_each run event tool_name reporter (command # commands) result w =
     (let (outcome, w1) = run command (report reporter (HookStarted event tool_name command) w);
          completed = report reporter (HookCompleted event tool_name command) w1
      in case outcome of
           HookAllow p \<Rightarrow>
             run_each run event tool_name reporter commands (merge_parsed_hook_output result p) completed
         | HookDeny p \<Rightarrow> ((merge_parsed_hook_output result p)\<lparr>hr_denied := True\<rparr>, completed)
         | HookFailed p \<Rightarrow> ((merge_parsed_hook_output result p)\<lparr>hr_failed := True\<rparr>, completed)
         | HookCommandCancelled message \<Rightarrow>
             (result\<lparr>hr_cancelled := True, hr_messages := hr_messages result @ [message]\<rparr>,
              report reporter (HookCancelled event tool_name command) w1))"

text \<open>What the runner works with: the JSON codec, the operating system, the abort signal as another
  thread leaves it, and the reporter.\<close>

record 'w hook_env =
  he_codec :: codec
  he_start :: "hook_call \<Rightarrow> 'w \<Rightarrow> (string + command_execution) \<times> 'w"
  he_aborted :: "('w \<Rightarrow> bool) option"
  he_reporter :: "'w hook_reporter option"

definition run_commands ::
  "'w hook_env \<Rightarrow> hook_event \<Rightarrow> string list \<Rightarrow> string \<Rightarrow> string \<Rightarrow> string option \<Rightarrow> bool \<Rightarrow> 'w
    \<Rightarrow> hook_result \<times> 'w" where
  "run_commands env event commands tool_name tool_input tool_output is_error w =
     (if commands = [] then (hook_allow [], w)
      else if (case he_aborted env of None \<Rightarrow> False | Some aborted \<Rightarrow> aborted w) then
        ((hook_allow [hook_event_str event @ '' hook cancelled before execution''])\<lparr>hr_cancelled := True\<rparr>, w)
      else
        let payload = to_text (he_codec env)
              (hook_payload (he_codec env) event tool_name tool_input tool_output is_error)
        in run_each (run_command (he_codec env) (he_start env) event tool_name tool_input tool_output is_error payload)
             event tool_name (he_reporter env) commands (hook_allow []) w)"

definition run_pre_tool_use :: "'w hook_env \<Rightarrow> hook_config \<Rightarrow> string \<Rightarrow> string \<Rightarrow> 'w \<Rightarrow> hook_result \<times> 'w" where
  "run_pre_tool_use env config tool_name tool_input =
     run_commands env PreToolUse (hc_pre_tool_use config) tool_name tool_input None False"

definition run_post_tool_use ::
  "'w hook_env \<Rightarrow> hook_config \<Rightarrow> string \<Rightarrow> string \<Rightarrow> string \<Rightarrow> bool \<Rightarrow> 'w \<Rightarrow> hook_result \<times> 'w" where
  "run_post_tool_use env config tool_name tool_input tool_output is_error =
     run_commands env PostToolUse (hc_post_tool_use config) tool_name tool_input (Some tool_output) is_error"

definition run_post_tool_use_failure ::
  "'w hook_env \<Rightarrow> hook_config \<Rightarrow> string \<Rightarrow> string \<Rightarrow> string \<Rightarrow> 'w \<Rightarrow> hook_result \<times> 'w" where
  "run_post_tool_use_failure env config tool_name tool_input tool_error =
     run_commands env PostToolUseFailure (hc_post_tool_use_failure config) tool_name tool_input
       (Some tool_error) True"

end
