(* ===== verification/RefUsage.thy ===== *)
theory RefUsage
  imports RefSession
begin

text \<open>
  Usage tracking of the reference runtime, \<open>claw-rust/crates/runtime/src/usage.rs\<close>: the counters are
  \<open>u32\<close> and wrap. Costs are floating point and not modelled; which price list a model gets is.
\<close>

datatype model_pricing = HaikuPricing | OpusPricing | SonnetPricing

definition pricing_for_model :: "string \<Rightarrow> model_pricing option" where
  "pricing_for_model model =
     (let normalized = to_ascii_lowercase model
      in if contains normalized ''haiku'' then Some HaikuPricing
         else if contains normalized ''opus'' then Some OpusPricing
         else if contains normalized ''sonnet'' then Some SonnetPricing
         else None)"

definition zero_usage :: token_usage where
  "zero_usage = \<lparr>tu_input_tokens = 0, tu_output_tokens = 0, tu_cache_creation_input_tokens = 0,
     tu_cache_read_input_tokens = 0\<rparr>"

definition total_tokens :: "token_usage \<Rightarrow> u32" where
  "total_tokens u = tu_input_tokens u + tu_output_tokens u + tu_cache_creation_input_tokens u
     + tu_cache_read_input_tokens u"

text \<open>The two lines of a summary; \<open>cost\<close> writes the prices of the counts, with the price list.\<close>

record cost_text =
  ct_total :: string
  ct_input :: string
  ct_output :: string
  ct_cache_write :: string
  ct_cache_read :: string

definition summary_lines_for_model ::
  "(model_pricing \<Rightarrow> token_usage \<Rightarrow> cost_text) \<Rightarrow> token_usage \<Rightarrow> string \<Rightarrow> string option \<Rightarrow> string list" where
  "summary_lines_for_model cost u label model =
     (let pricing = Option.bind model pricing_for_model;
          c = cost (unwrap_or SonnetPricing pricing) u;
          n = (\<lambda>k. show_nat (unat (k :: u32)));
          model_suffix = (case model of None \<Rightarrow> [] | Some name \<Rightarrow> '' model='' @ name);
          pricing_suffix = (if pricing \<noteq> None then [] else if model \<noteq> None then '' pricing=estimated-default'' else [])
      in [label @ '': total_tokens='' @ n (total_tokens u) @ '' input='' @ n (tu_input_tokens u)
            @ '' output='' @ n (tu_output_tokens u) @ '' cache_write='' @ n (tu_cache_creation_input_tokens u)
            @ '' cache_read='' @ n (tu_cache_read_input_tokens u) @ '' estimated_cost='' @ ct_total c
            @ model_suffix @ pricing_suffix,
          ''  cost breakdown: input='' @ ct_input c @ '' output='' @ ct_output c @ '' cache_write=''
            @ ct_cache_write c @ '' cache_read='' @ ct_cache_read c])"

definition summary_lines ::
  "(model_pricing \<Rightarrow> token_usage \<Rightarrow> cost_text) \<Rightarrow> token_usage \<Rightarrow> string \<Rightarrow> string list" where
  "summary_lines cost u label = summary_lines_for_model cost u label None"

section \<open>The tracker\<close>

record usage_tracker =
  ut_latest_turn :: token_usage
  ut_cumulative :: token_usage
  ut_turns :: u32

definition tracker_new :: usage_tracker where
  "tracker_new = \<lparr>ut_latest_turn = zero_usage, ut_cumulative = zero_usage, ut_turns = 0\<rparr>"

definition usage_plus :: "token_usage \<Rightarrow> token_usage \<Rightarrow> token_usage" where
  "usage_plus a b =
     \<lparr>tu_input_tokens = tu_input_tokens a + tu_input_tokens b,
      tu_output_tokens = tu_output_tokens a + tu_output_tokens b,
      tu_cache_creation_input_tokens = tu_cache_creation_input_tokens a + tu_cache_creation_input_tokens b,
      tu_cache_read_input_tokens = tu_cache_read_input_tokens a + tu_cache_read_input_tokens b\<rparr>"

definition record_usage :: "token_usage \<Rightarrow> usage_tracker \<Rightarrow> usage_tracker" where
  "record_usage usage t =
     \<lparr>ut_latest_turn = usage, ut_cumulative = usage_plus (ut_cumulative t) usage, ut_turns = ut_turns t + 1\<rparr>"

definition record_message :: "claw_message \<Rightarrow> usage_tracker \<Rightarrow> usage_tracker" where
  "record_message m t = (case cm_usage m of None \<Rightarrow> t | Some usage \<Rightarrow> record_usage usage t)"

definition tracker_from_session :: "claw_session \<Rightarrow> usage_tracker" where
  "tracker_from_session s = fold record_message (cs_messages s) tracker_new"

text \<open>Reading a session up is recording its messages one after the other.\<close>

lemma from_session_append:
  "fold record_message ms (tracker_from_session s) = tracker_from_session (s\<lparr>cs_messages := cs_messages s @ ms\<rparr>)"
  by (simp add: tracker_from_session_def)

end
