(* ===== verification/RefConversation.thy ===== *)
theory RefConversation
  imports RefSessionFile RefCompact RefHooks RefUsage
begin

text \<open>
  The conversation runtime of the reference program, \<open>claw-rust/crates/runtime/src/conversation.rs\<close>:
  a turn asks the model, runs the tools it calls between their hooks and under the permission policy,
  and goes on until an answer calls no tool. The model, the tools, the prompter and the tracer are
  parameters that act on the whole world; the session reaches its file after each message.
\<close>

section \<open>Data\<close>

record api_request =
  rq_system_prompt :: "string list"
  rq_messages :: "claw_message list"

record prompt_cache_event =
  pce_unexpected :: bool
  pce_reason :: string
  pce_previous_cache_read_input_tokens :: u32
  pce_current_cache_read_input_tokens :: u32
  pce_token_drop :: u32

datatype assistant_event =
    TextDelta string
  | ToolUse string string string
  | UsageEvent token_usage
  | PromptCache prompt_cache_event
  | MessageStop

text \<open>A removed number of messages is the event of an automatic compaction.\<close>

record turn_summary =
  su_assistant_messages :: "claw_message list"
  su_tool_results :: "claw_message list"
  su_prompt_cache_events :: "prompt_cache_event list"
  su_iterations :: nat
  su_usage :: token_usage
  su_auto_compaction :: "nat option"

record runtime =
  cv_session :: claw_session
  cv_permission_policy :: claw_policy
  cv_system_prompt :: "string list"
  cv_max_iterations :: nat
  cv_usage_tracker :: usage_tracker
  cv_hook_config :: hook_config
  cv_auto_compaction_threshold :: u32

text \<open>The world is that of the sessions and whatever else the parameters act on.\<close>

type_synonym 'w world = "session_world \<times> 'w"

type_synonym 'w turn_tracer = "string \<Rightarrow> (string, json) btree \<Rightarrow> 'w world \<Rightarrow> 'w world"

record 'w turn_env =
  te_modified :: "fs \<Rightarrow> path \<Rightarrow> nat"
  te_stream :: "api_request \<Rightarrow> 'w world \<Rightarrow> (string + assistant_event list) \<times> 'w world"
  te_execute :: "string \<Rightarrow> string \<Rightarrow> 'w world \<Rightarrow> (string + string) \<times> 'w world"
  te_prompter :: "'w world claw_prompter option"
  te_hooks :: "'w world hook_env"
  te_tracer :: "'w turn_tracer option"

section \<open>Construction\<close>

definition default_threshold :: u32 where
  "default_threshold = 100000"

definition parse_auto_compaction_threshold :: "string option \<Rightarrow> u32" where
  "parse_auto_compaction_threshold v =
     (case Option.bind v (\<lambda>raw. parse_u32 (trim raw)) of
        None \<Rightarrow> default_threshold
      | Some threshold \<Rightarrow> if 0 < threshold then threshold else default_threshold)"

text \<open>\<open>usize::MAX\<close>, and the runtime made from a session, the hooks of the configuration and the
  variable of the environment that sets the threshold.\<close>

definition usize_max :: nat where
  "usize_max = 2 ^ 64 - 1"

definition new_with_features ::
  "claw_session \<Rightarrow> claw_policy \<Rightarrow> string list \<Rightarrow> hook_config \<Rightarrow> string option \<Rightarrow> runtime" where
  "new_with_features session policy system_prompt hooks threshold_var =
     \<lparr>cv_session = session, cv_permission_policy = policy, cv_system_prompt = system_prompt,
      cv_max_iterations = usize_max, cv_usage_tracker = tracker_from_session session, cv_hook_config = hooks,
      cv_auto_compaction_threshold = parse_auto_compaction_threshold threshold_var\<rparr>"

definition with_max_iterations :: "nat \<Rightarrow> runtime \<Rightarrow> runtime" where
  "with_max_iterations n rt = rt\<lparr>cv_max_iterations := n\<rparr>"

definition with_auto_compaction_threshold :: "u32 \<Rightarrow> runtime \<Rightarrow> runtime" where
  "with_auto_compaction_threshold threshold rt = rt\<lparr>cv_auto_compaction_threshold := threshold\<rparr>"

section \<open>Trace records\<close>

definition trace :: "'w turn_env \<Rightarrow> string \<Rightarrow> (string \<times> json) list \<Rightarrow> 'w world \<Rightarrow> 'w world" where
  "trace env name attributes w =
     (case te_tracer env of None \<Rightarrow> w | Some tracer \<Rightarrow> tracer name (bt_of_list attributes) w)"

definition record_turn_started :: "'w turn_env \<Rightarrow> string \<Rightarrow> 'w world \<Rightarrow> 'w world" where
  "record_turn_started env user_input = trace env ''turn_started'' [(''user_input'', JStr user_input)]"

definition record_assistant_iteration :: "'w turn_env \<Rightarrow> nat \<Rightarrow> claw_message \<Rightarrow> nat \<Rightarrow> 'w world \<Rightarrow> 'w world" where
  "record_assistant_iteration env iteration message pending =
     trace env ''assistant_iteration_completed'' [(''iteration'', jnat iteration),
       (''assistant_blocks'', jnat (length (cm_blocks message))), (''pending_tool_use_count'', jnat pending)]"

definition record_tool_started :: "'w turn_env \<Rightarrow> nat \<Rightarrow> string \<Rightarrow> 'w world \<Rightarrow> 'w world" where
  "record_tool_started env iteration tool_name =
     trace env ''tool_execution_started'' [(''iteration'', jnat iteration), (''tool_name'', JStr tool_name)]"

definition record_tool_finished :: "'w turn_env \<Rightarrow> nat \<Rightarrow> claw_message \<Rightarrow> 'w world \<Rightarrow> 'w world" where
  "record_tool_finished env iteration m w =
     (case cm_blocks m of
        ToolResultBlock _ tool_name _ is_error # _ \<Rightarrow>
          trace env ''tool_execution_finished'' [(''iteration'', jnat iteration),
            (''tool_name'', JStr tool_name), (''is_error'', JBool is_error)] w
      | _ \<Rightarrow> w)"

definition record_turn_completed :: "'w turn_env \<Rightarrow> turn_summary \<Rightarrow> 'w world \<Rightarrow> 'w world" where
  "record_turn_completed env summary =
     trace env ''turn_completed'' [(''iterations'', jnat (su_iterations summary)),
       (''assistant_messages'', jnat (length (su_assistant_messages summary))),
       (''tool_results'', jnat (length (su_tool_results summary))),
       (''prompt_cache_events'', jnat (length (su_prompt_cache_events summary)))]"

definition record_turn_failed :: "'w turn_env \<Rightarrow> nat \<Rightarrow> string \<Rightarrow> 'w world \<Rightarrow> 'w world" where
  "record_turn_failed env iteration e =
     trace env ''turn_failed'' [(''iteration'', jnat iteration), (''error'', JStr e)]"

section \<open>The assistant's message\<close>

record assembly =
  ab_text :: string
  ab_blocks :: "claw_block list"
  ab_cache_events :: "prompt_cache_event list"
  ab_finished :: bool
  ab_usage :: "token_usage option"

definition flush_text_block :: "assembly \<Rightarrow> assembly" where
  "flush_text_block a =
     (if ab_text a = [] then a else a\<lparr>ab_blocks := ab_blocks a @ [TextBlock (ab_text a)], ab_text := []\<rparr>)"

fun take_event :: "assistant_event \<Rightarrow> assembly \<Rightarrow> assembly" where
  "take_event (TextDelta delta) a = a\<lparr>ab_text := ab_text a @ delta\<rparr>"
| "take_event (ToolUse i name input) a =
     (let a = flush_text_block a in a\<lparr>ab_blocks := ab_blocks a @ [ToolUseBlock i name input]\<rparr>)"
| "take_event (UsageEvent value) a = a\<lparr>ab_usage := Some value\<rparr>"
| "take_event (PromptCache event) a = a\<lparr>ab_cache_events := ab_cache_events a @ [event]\<rparr>"
| "take_event MessageStop a = a\<lparr>ab_finished := True\<rparr>"

definition empty_assembly :: assembly where
  "empty_assembly = \<lparr>ab_text = [], ab_blocks = [], ab_cache_events = [], ab_finished = False, ab_usage = None\<rparr>"

definition build_assistant_message ::
  "assistant_event list \<Rightarrow> string + claw_message \<times> token_usage option \<times> prompt_cache_event list" where
  "build_assistant_message events =
     (let a = flush_text_block (fold take_event events empty_assembly)
      in if \<not> ab_finished a then Inl ''assistant stream ended without a message stop event''
         else if ab_blocks a = [] then Inl ''assistant stream produced no content''
         else Inr (assistant_with_usage (ab_blocks a) (ab_usage a), ab_usage a, ab_cache_events a))"

fun block_call :: "claw_block \<Rightarrow> (string \<times> string \<times> string) option" where
  "block_call (ToolUseBlock i name input) = Some (i, name, input)"
| "block_call _ = None"

definition pending_tool_uses :: "claw_message \<Rightarrow> (string \<times> string \<times> string) list" where
  "pending_tool_uses m = List.map_filter block_call (cm_blocks m)"

section \<open>One tool call\<close>

definition format_hook_message :: "hook_result \<Rightarrow> string \<Rightarrow> string" where
  "format_hook_message result fallback =
     (if hr_messages result = [] then fallback else join nl (hr_messages result))"

definition merge_hook_feedback :: "string list \<Rightarrow> string \<Rightarrow> bool \<Rightarrow> string" where
  "merge_hook_feedback messages result is_error =
     (if messages = [] then result
      else let label = (if is_error then ''Hook feedback (error)'' else ''Hook feedback'')
           in join (nl @ nl) ((if trim result = [] then [] else [result])
                @ [label @ '':'' @ nl @ join nl messages]))"

definition stopped_by_hook :: "hook_result \<Rightarrow> bool" where
  "stopped_by_hook r \<longleftrightarrow> hr_denied r \<or> hr_failed r \<or> hr_cancelled r"

definition read_json_of :: "codec \<Rightarrow> string \<Rightarrow> json option" where
  "read_json_of codec s = (case from_text codec s of Inl _ \<Rightarrow> None | Inr v \<Rightarrow> Some v)"

definition permission_outcome ::
  "'w turn_env \<Rightarrow> claw_policy \<Rightarrow> string \<Rightarrow> string \<Rightarrow> hook_result \<Rightarrow> 'w world \<Rightarrow> claw_outcome \<times> 'w world" where
  "permission_outcome env policy tool_name effective_input pre w =
     (let deny = (\<lambda>what. (OutcomeDeny (format_hook_message pre (what @ '' tool `'' @ tool_name @ ''`'')), w))
      in if hr_cancelled pre then deny ''PreToolUse hook cancelled''
         else if hr_failed pre then deny ''PreToolUse hook failed for''
         else if hr_denied pre then deny ''PreToolUse hook denied''
         else authorize_with_context (read_json_of (he_codec (te_hooks env))) policy tool_name effective_input
                \<lparr>pc_override_decision = hr_permission_override pre, pc_override_reason = hr_permission_reason pre\<rparr>
                (te_prompter env) w)"

definition execute_tool ::
  "'w turn_env \<Rightarrow> hook_config \<Rightarrow> string \<Rightarrow> string \<Rightarrow> string list \<Rightarrow> 'w world \<Rightarrow> (string \<times> bool) \<times> 'w world" where
  "execute_tool env hooks tool_name effective_input pre_messages w =
     (let (r, w1) = te_execute env tool_name effective_input w;
          (raw, failed) = (case r of Inr x \<Rightarrow> (x, False) | Inl e \<Rightarrow> (e, True));
          result = merge_hook_feedback pre_messages raw False;
          (post, w2) = (if failed
             then run_post_tool_use_failure (te_hooks env) hooks tool_name effective_input result w1
             else run_post_tool_use (te_hooks env) hooks tool_name effective_input result False w1)
      in ((merge_hook_feedback (hr_messages post) result (stopped_by_hook post), failed \<or> stopped_by_hook post), w2))"

definition run_tool_call ::
  "'w turn_env \<Rightarrow> runtime \<Rightarrow> nat \<Rightarrow> string \<times> string \<times> string \<Rightarrow> 'w world \<Rightarrow> claw_message \<times> 'w world" where
  "run_tool_call env rt iteration call w =
     (case call of (i, tool_name, input) \<Rightarrow>
     (let (pre, w1) = run_pre_tool_use (te_hooks env) (cv_hook_config rt) tool_name input w;
          effective_input = unwrap_or input (hr_updated_input pre);
          (outcome, w2) = permission_outcome env (cv_permission_policy rt) tool_name effective_input pre w1
      in case outcome of
           OutcomeAllow \<Rightarrow>
             (let ((result, is_error), w3) = execute_tool env (cv_hook_config rt) tool_name effective_input
                    (hr_messages pre) (record_tool_started env iteration tool_name w2)
              in (tool_result i tool_name result is_error, w3))
         | OutcomeDeny reason \<Rightarrow>
             (tool_result i tool_name (merge_hook_feedback (hr_messages pre) reason True) True, w2)))"

section \<open>The turn\<close>

definition push ::
  "'w turn_env \<Rightarrow> claw_message \<Rightarrow> runtime \<Rightarrow> 'w world \<Rightarrow> (string + unit) \<times> runtime \<times> 'w world" where
  "push env m rt w =
     (case push_message (te_modified env) m (cv_session rt) (fst w) of
        (r, s, sw) \<Rightarrow> (map_err show_session_error r, rt\<lparr>cv_session := s\<rparr>, (sw, snd w)))"

fun answer_calls ::
  "'w turn_env \<Rightarrow> nat \<Rightarrow> (string \<times> string \<times> string) list \<Rightarrow> runtime \<Rightarrow> 'w world
    \<Rightarrow> (string + claw_message list) \<times> runtime \<times> 'w world" where
  "answer_calls env iteration [] rt w = (Inr [], rt, w)"
| "answer_calls env iteration (call # calls) rt w =
     (let (m, w1) = run_tool_call env rt iteration call w
      in case push env m rt w1 of
           (Inl e, rt1, w2) \<Rightarrow> (Inl e, rt1, w2)
         | (Inr _, rt1, w2) \<Rightarrow>
             (case answer_calls env iteration calls rt1 (record_tool_finished env iteration m w2) of
                (Inl e, rt2, w3) \<Rightarrow> (Inl e, rt2, w3)
              | (Inr ms, rt2, w3) \<Rightarrow> (Inr (m # ms), rt2, w3)))"

record turn_progress =
  tp_assistant_messages :: "claw_message list"
  tp_tool_results :: "claw_message list"
  tp_prompt_cache_events :: "prompt_cache_event list"
  tp_iterations :: nat

definition no_progress :: turn_progress where
  "no_progress = \<lparr>tp_assistant_messages = [], tp_tool_results = [], tp_prompt_cache_events = [], tp_iterations = 0\<rparr>"

definition too_many_iterations :: string where
  "too_many_iterations = ''conversation loop exceeded the maximum number of iterations''"

text \<open>One round of the loop: it goes on, or leaves the loop or the turn.\<close>

datatype 'w round =
    GoOn runtime turn_progress "'w world"
  | Leave "string + turn_progress" runtime "'w world"

definition track_usage :: "token_usage option \<Rightarrow> runtime \<Rightarrow> runtime" where
  "track_usage usage rt =
     (case usage of None \<Rightarrow> rt | Some u \<Rightarrow> rt\<lparr>cv_usage_tracker := record_usage u (cv_usage_tracker rt)\<rparr>)"

definition take_message ::
  "'w turn_env \<Rightarrow> runtime \<Rightarrow> turn_progress \<Rightarrow> claw_message \<Rightarrow> token_usage option \<Rightarrow> prompt_cache_event list
    \<Rightarrow> 'w world \<Rightarrow> 'w round" where
  "take_message env rt p message usage cache_events w =
     (let n = Suc (tp_iterations p);
          pending = pending_tool_uses message;
          p1 = p\<lparr>tp_assistant_messages := tp_assistant_messages p @ [message],
                 tp_prompt_cache_events := tp_prompt_cache_events p @ cache_events,
                 tp_iterations := n\<rparr>
      in case push env message (track_usage usage rt) (record_assistant_iteration env n message (length pending) w) of
           (Inl e, rt1, w1) \<Rightarrow> Leave (Inl e) rt1 w1
         | (Inr _, rt1, w1) \<Rightarrow>
             if pending = [] then Leave (Inr p1) rt1 w1
             else (case answer_calls env n pending rt1 w1 of
                     (Inl e, rt2, w2) \<Rightarrow> Leave (Inl e) rt2 w2
                   | (Inr results, rt2, w2) \<Rightarrow>
                       GoOn rt2 (p1\<lparr>tp_tool_results := tp_tool_results p1 @ results\<rparr>) w2))"

definition turn_round :: "'w turn_env \<Rightarrow> runtime \<Rightarrow> turn_progress \<Rightarrow> 'w world \<Rightarrow> 'w round" where
  "turn_round env rt p w =
     (let n = Suc (tp_iterations p);
          give_up = (\<lambda>e w. Leave (Inl e) rt (record_turn_failed env n e w))
      in if cv_max_iterations rt < n then give_up too_many_iterations w
         else case te_stream env \<lparr>rq_system_prompt = cv_system_prompt rt, rq_messages = cs_messages (cv_session rt)\<rparr> w of
                (Inl e, w1) \<Rightarrow> give_up e w1
              | (Inr events, w1) \<Rightarrow>
                  (case build_assistant_message events of
                     Inl e \<Rightarrow> give_up e w1
                   | Inr (message, usage, cache_events) \<Rightarrow> take_message env rt p message usage cache_events w1))"

lemma push_keeps:
  "push env m rt w = (r, rt', w') \<Longrightarrow> \<exists>s. rt' = rt\<lparr>cv_session := s\<rparr>"
  by (auto simp: push_def split: prod.splits)

lemma answer_calls_keeps:
  "answer_calls env n calls rt w = (r, rt', w') \<Longrightarrow> \<exists>s. rt' = rt\<lparr>cv_session := s\<rparr>"
proof (induction env n calls rt w arbitrary: r rt' w' rule: answer_calls.induct)
  case (1 env n rt w)
  then show ?case by (auto intro: exI [of _ "cv_session rt"])
next
  case (2 env n call calls rt w)
  then show ?case
    by (fastforce dest: push_keeps split: prod.splits sum.splits)
qed

lemma turn_round_goes_on:
  "turn_round env rt p w = GoOn rt' p' w' \<Longrightarrow>
     cv_max_iterations rt' = cv_max_iterations rt \<and> tp_iterations p' = Suc (tp_iterations p)
     \<and> tp_iterations p < cv_max_iterations rt"
  by (auto simp: turn_round_def take_message_def track_usage_def Let_def
      split: if_splits prod.splits sum.splits option.splits
      dest!: push_keeps answer_calls_keeps)

function turn_loop ::
  "'w turn_env \<Rightarrow> runtime \<Rightarrow> turn_progress \<Rightarrow> 'w world \<Rightarrow> (string + turn_progress) \<times> runtime \<times> 'w world" where
  "turn_loop env rt p w =
     (case turn_round env rt p w of
        GoOn rt' p' w' \<Rightarrow> turn_loop env rt' p' w'
      | Leave r rt' w' \<Rightarrow> (r, rt', w'))"
  by pat_completeness auto
termination
  by (relation "measure (\<lambda>(env, rt, p, w). cv_max_iterations rt - tp_iterations p)")
    (auto dest: turn_round_goes_on)

declare turn_loop.simps [simp del]

text \<open>The health probe runs a tool, without hooks and without asking the policy.\<close>

definition probe_input :: string where
  "probe_input = ''{'' @ [CHR 0x22] @ ''pattern'' @ [CHR 0x22] @ '': '' @ [CHR 0x22] @ ''*.health-check-probe-''
     @ [CHR 0x22] @ ''}''"

definition run_session_health_probe :: "'w turn_env \<Rightarrow> runtime \<Rightarrow> 'w world \<Rightarrow> (string + unit) \<times> 'w world" where
  "run_session_health_probe env rt w =
     (if cs_messages (cv_session rt) = [] \<and> cs_compaction (cv_session rt) \<noteq> None then (Inr (), w)
      else case te_execute env ''glob_search'' probe_input w of
             (Inr _, w1) \<Rightarrow> (Inr (), w1)
           | (Inl e, w1) \<Rightarrow> (Inl (''Tool executor probe failed: '' @ e), w1))"

text \<open>\<open>None\<close>: compacting panics.\<close>

definition maybe_auto_compact :: "runtime \<Rightarrow> 'w world \<Rightarrow> (nat option \<times> runtime \<times> 'w world) option" where
  "maybe_auto_compact rt w =
     (if tu_input_tokens (ut_cumulative (cv_usage_tracker rt)) < cv_auto_compaction_threshold rt then Some (None, rt, w)
      else case compact_session (cv_session rt) (compaction_config_default\<lparr>cc_max_estimated_tokens := 0\<rparr>) (fst w) of
             None \<Rightarrow> None
           | Some (r, sw) \<Rightarrow>
               if co_removed_message_count r = 0 then Some (None, rt, (sw, snd w))
               else Some (Some (co_removed_message_count r), rt\<lparr>cv_session := co_compacted_session r\<rparr>, (sw, snd w)))"

definition probe_failed :: "string \<Rightarrow> string" where
  "probe_failed e = ''Session health probe failed after compaction: '' @ e
     @ ''. The session may be in an inconsistent state. Consider starting a fresh session with /session new.''"

definition finish_turn ::
  "'w turn_env \<Rightarrow> turn_progress \<Rightarrow> runtime \<Rightarrow> 'w world \<Rightarrow> ((string + turn_summary) \<times> runtime \<times> 'w world) option" where
  "finish_turn env p rt w =
     (case maybe_auto_compact rt w of
        None \<Rightarrow> None
      | Some (compaction, rt1, w1) \<Rightarrow>
          (let summary = \<lparr>su_assistant_messages = tp_assistant_messages p, su_tool_results = tp_tool_results p,
                 su_prompt_cache_events = tp_prompt_cache_events p, su_iterations = tp_iterations p,
                 su_usage = ut_cumulative (cv_usage_tracker rt1), su_auto_compaction = compaction\<rparr>
           in Some (Inr summary, rt1, record_turn_completed env summary w1)))"

definition run_turn ::
  "'w turn_env \<Rightarrow> string \<Rightarrow> runtime \<Rightarrow> 'w world \<Rightarrow> ((string + turn_summary) \<times> runtime \<times> 'w world) option" where
  "run_turn env user_input rt w =
     (let (probe, w1) = (if cs_compaction (cv_session rt) \<noteq> None then run_session_health_probe env rt w else (Inr (), w))
      in case probe of
           Inl e \<Rightarrow> Some (Inl (probe_failed e), rt, w1)
         | Inr _ \<Rightarrow>
             (case push env (user_text user_input) rt (record_turn_started env user_input w1) of
                (Inl e, rt1, w2) \<Rightarrow> Some (Inl e, rt1, w2)
              | (Inr _, rt1, w2) \<Rightarrow>
                  (case turn_loop env rt1 no_progress w2 of
                     (Inl e, rt2, w3) \<Rightarrow> Some (Inl e, rt2, w3)
                   | (Inr p, rt2, w3) \<Rightarrow> finish_turn env p rt2 w3)))"

text \<open>The other operations on a runtime.\<close>

definition runtime_compact ::
  "runtime \<Rightarrow> compaction_config \<Rightarrow> session_world \<Rightarrow> (compaction_outcome \<times> session_world) option" where
  "runtime_compact rt config = compact_session (cv_session rt) config"

definition estimated_tokens :: "runtime \<Rightarrow> nat" where
  "estimated_tokens rt = estimate_session_tokens (cv_session rt)"

definition fork_session :: "string option \<Rightarrow> runtime \<Rightarrow> session_world \<Rightarrow> claw_session \<times> session_world" where
  "fork_session branch_name rt = session_forked branch_name (cv_session rt)"

section \<open>A table of tools\<close>

type_synonym 'w tool_table = "(string, string \<Rightarrow> 'w \<Rightarrow> (string + string) \<times> 'w) btree"

definition register_tool ::
  "string \<Rightarrow> (string \<Rightarrow> 'w \<Rightarrow> (string + string) \<times> 'w) \<Rightarrow> 'w tool_table \<Rightarrow> 'w tool_table" where
  "register_tool tool_name handler handlers = bt_insert tool_name handler handlers"

definition static_execute :: "'w tool_table \<Rightarrow> string \<Rightarrow> string \<Rightarrow> 'w \<Rightarrow> (string + string) \<times> 'w" where
  "static_execute handlers tool_name input w =
     (case bt_get handlers tool_name of
        None \<Rightarrow> (Inl (''unknown tool: '' @ tool_name), w)
      | Some handler \<Rightarrow> handler input w)"

end
