(* ===== verification/RefConversationCorrect.thy ===== *)
theory RefConversationCorrect
  imports RefConversation RefCompactCorrect
begin

text \<open>
  A turn of the reference runtime leaves a transcript in which each call has one result, tools
  that a rule denies are never run, and the tracker agrees with the session.
\<close>

section \<open>What pushing does to the messages\<close>

lemma touch_messages [simp]: "cs_messages (fst (touch s w)) = cs_messages s"
  by (simp add: touch_def case_prod_unfold Let_def)

lemma push_message_messages:
  "push_message modified m s w = (r, s', w') \<Longrightarrow>
     cs_messages s' = (case r of Inl _ \<Rightarrow> cs_messages s | Inr _ \<Rightarrow> cs_messages s @ [m])"
  by (auto simp: push_message_def case_prod_unfold Let_def split: sum.splits prod.splits)

lemma push_messages:
  "push env m rt w = (r, rt', w') \<Longrightarrow>
     cs_messages (cv_session rt') = (case r of Inl _ \<Rightarrow> cs_messages (cv_session rt) | Inr _ \<Rightarrow> cs_messages (cv_session rt) @ [m])"
  by (auto simp: push_def map_err_def dest!: push_message_messages split: prod.splits sum.splits)

section \<open>Calls and results\<close>

text \<open>A message answers a call when it is a result with the call's id and tool.\<close>

definition answers_call :: "string \<times> string \<times> string \<Rightarrow> claw_message \<Rightarrow> bool" where
  "answers_call call m \<longleftrightarrow> (\<exists>result is_error. m = tool_result (fst call) (fst (snd call)) result is_error)"

lemma run_tool_call_answers:
  "run_tool_call env rt n call w = (m, w') \<Longrightarrow> answers_call call m"
  by (auto simp: run_tool_call_def answers_call_def Let_def split: prod.splits claw_outcome.splits)

text \<open>However answering ends, the session grows by answers to the first calls; when it succeeds,
  to all of them.\<close>

lemma answer_calls_messages:
  "answer_calls env n calls rt w = (r, rt', w') \<Longrightarrow>
     \<exists>ms k. cs_messages (cv_session rt') = cs_messages (cv_session rt) @ ms
       \<and> list_all2 answers_call (take k calls) ms
       \<and> (case r of Inl _ \<Rightarrow> True | Inr rs \<Rightarrow> ms = rs \<and> length calls \<le> k)"
proof (induction env n calls rt w arbitrary: r rt' w' rule: answer_calls.induct)
  case (1 env n rt w)
  then show ?case by auto
next
  case (2 env n call calls rt w)
  obtain m w1 where m: "run_tool_call env rt n call w = (m, w1)" by (metis prod.exhaust)
  obtain q rt1 w2 where q: "push env m rt w1 = (q, rt1, w2)" by (metis prod_cases3)
  show ?case
  proof (cases q)
    case (Inl e)
    then show ?thesis using 2 m q push_messages [OF q] by (auto intro!: exI [of _ "[]"] exI [of _ 0])
  next
    case (Inr u)
    obtain q2 rt2 w3 where q2: "answer_calls env n calls rt1 (record_tool_finished env n m w2) = (q2, rt2, w3)"
      by (metis prod_cases3)
    obtain ms k where ms: "cs_messages (cv_session rt2) = cs_messages (cv_session rt1) @ ms"
        "list_all2 answers_call (take k calls) ms" "case q2 of Inl _ \<Rightarrow> True | Inr rs \<Rightarrow> ms = rs \<and> length calls \<le> k"
      using "2.IH" [OF refl m [symmetric] q [symmetric] Inr refl q2] by blast
    then show ?thesis
      using "2.prems" m q q2 Inr push_messages [OF q] run_tool_call_answers [OF m]
      by (cases q2) (auto intro!: exI [of _ "m # ms"] exI [of _ "Suc k"])
  qed
qed

section \<open>The assistant's message\<close>

definition from_assistant :: "claw_message \<Rightarrow> bool" where
  "from_assistant m \<longleftrightarrow> cm_role m = RoleAssistant \<and> \<not> starts_with_tool_result m"

fun is_result_block :: "claw_block \<Rightarrow> bool" where
  "is_result_block (ToolResultBlock _ _ _ _) \<longleftrightarrow> True"
| "is_result_block _ \<longleftrightarrow> False"

lemma take_event_blocks:
  "list_all (Not \<circ> is_result_block) (ab_blocks a) \<Longrightarrow> list_all (Not \<circ> is_result_block) (ab_blocks (take_event e a))"
  by (cases e) (simp_all add: flush_text_block_def Let_def)

lemma built_blocks:
  "list_all (Not \<circ> is_result_block) (ab_blocks a)
    \<Longrightarrow> list_all (Not \<circ> is_result_block) (ab_blocks (flush_text_block (fold take_event events a)))"
  by (induction events arbitrary: a) (simp_all add: take_event_blocks, simp add: flush_text_block_def)

lemma built_message:
  assumes "build_assistant_message events = Inr (m, usage, caches)"
  shows "from_assistant m \<and> cm_blocks m \<noteq> [] \<and> cm_usage m = usage"
proof -
  have "list_all (Not \<circ> is_result_block) (ab_blocks (flush_text_block (fold take_event events empty_assembly)))"
    by (rule built_blocks) (simp add: empty_assembly_def)
  then show ?thesis
    using assms
    by (auto simp: build_assistant_message_def Let_def from_assistant_def assistant_with_usage_def
        starts_with_tool_result_def split: if_splits list.splits claw_block.splits)
qed

lemma pending_has_tool_use: "pending_tool_uses m = [] \<longleftrightarrow> \<not> has_tool_use m"
proof -
  have "List.map_filter block_call bs = [] \<longleftrightarrow> \<not> list_ex (\<lambda>b. block_call b \<noteq> None) bs" for bs
    by (induction bs) (simp_all add: List.map_filter_def)
  moreover have "(block_call b \<noteq> None) = (case b of ToolUseBlock _ _ _ \<Rightarrow> True | _ \<Rightarrow> False)" for b
    by (cases b) simp_all
  ultimately show ?thesis by (simp add: pending_tool_uses_def has_tool_use_def)
qed

lemma answers_call_result:
  "answers_call call m \<Longrightarrow> starts_with_tool_result m \<and> \<not> has_tool_use m \<and> cm_usage m = None"
  by (auto simp: answers_call_def tool_result_def starts_with_tool_result_def has_tool_use_def)

section \<open>Rounds\<close>

text \<open>What a round that goes on or ends the loop has added.\<close>

definition round_added :: "runtime \<Rightarrow> turn_progress \<Rightarrow> claw_message \<Rightarrow> claw_message list \<Rightarrow> runtime \<Rightarrow> turn_progress \<Rightarrow> bool" where
  "round_added rt p a rs rt' p' \<longleftrightarrow>
     from_assistant a \<and> list_all2 answers_call (pending_tool_uses a) rs
     \<and> cs_messages (cv_session rt') = cs_messages (cv_session rt) @ a # rs
     \<and> tp_assistant_messages p' = tp_assistant_messages p @ [a] \<and> tp_tool_results p' = tp_tool_results p @ rs
     \<and> tp_iterations p' = Suc (tp_iterations p) \<and> tp_iterations p < cv_max_iterations rt
     \<and> cv_max_iterations rt' = cv_max_iterations rt
     \<and> cv_usage_tracker rt' = record_message a (cv_usage_tracker rt)"

lemma track_usage_simps [simp]:
  "cv_session (track_usage usage rt) = cv_session rt"
  "cv_max_iterations (track_usage usage rt) = cv_max_iterations rt"
  by (simp_all add: track_usage_def split: option.splits)

lemma track_usage_message:
  "cm_usage m = usage \<Longrightarrow> cv_usage_tracker (track_usage usage rt) = record_message m (cv_usage_tracker rt)"
  by (simp add: track_usage_def record_message_def split: option.splits)

definition round_result :: "runtime \<Rightarrow> turn_progress \<Rightarrow> 'w round \<Rightarrow> bool" where
  "round_result rt p r =
     (case r of
        GoOn rt' p' w' \<Rightarrow> \<exists>a rs. round_added rt p a rs rt' p' \<and> pending_tool_uses a \<noteq> []
      | Leave (Inr p') rt' w' \<Rightarrow> \<exists>a. round_added rt p a [] rt' p' \<and> pending_tool_uses a = []
      | Leave (Inl e) rt' w' \<Rightarrow>
          cs_messages (cv_session rt') = cs_messages (cv_session rt)
          \<or> (\<exists>a k rs. from_assistant a \<and> list_all2 answers_call (take k (pending_tool_uses a)) rs
              \<and> cs_messages (cv_session rt') = cs_messages (cv_session rt) @ a # rs))"

lemma take_message_result:
  assumes "from_assistant a" and "cm_usage a = usage" and "tp_iterations p < cv_max_iterations rt"
  shows "round_result rt p (take_message env rt p a usage caches w)"
proof -
  obtain q rt1 w1 where q: "push env a (track_usage usage rt) (record_assistant_iteration env (Suc (tp_iterations p)) a
      (length (pending_tool_uses a)) w) = (q, rt1, w1)" by (metis prod_cases3)
  obtain q2 rt2 w2 where q2: "answer_calls env (Suc (tp_iterations p)) (pending_tool_uses a) rt1 w1 = (q2, rt2, w2)"
    by (metis prod_cases3)
  have kept: "cv_max_iterations rt1 = cv_max_iterations rt" "cv_usage_tracker rt1 = record_message a (cv_usage_tracker rt)"
      "cv_max_iterations rt2 = cv_max_iterations rt" "cv_usage_tracker rt2 = record_message a (cv_usage_tracker rt)"
    using push_keeps [OF q] answer_calls_keeps [OF q2] track_usage_message [OF assms(2)] by auto
  obtain ms k where ms: "cs_messages (cv_session rt2) = cs_messages (cv_session rt1) @ ms"
      "list_all2 answers_call (take k (pending_tool_uses a)) ms"
      "case q2 of Inl _ \<Rightarrow> True | Inr rs \<Rightarrow> ms = rs \<and> length (pending_tool_uses a) \<le> k"
    using answer_calls_messages [OF q2] by blast
  have first: "q = Inr u \<Longrightarrow> cs_messages (cv_session rt1) = cs_messages (cv_session rt) @ [a]" for u
    using push_messages [OF q] by simp
  show ?thesis
    unfolding take_message_def Let_def q q2 prod.case
    using assms(1,3) kept ms first push_messages [OF q]
    by (cases q; cases q2; cases "pending_tool_uses a = []") (auto simp: round_result_def round_added_def)
qed

lemma turn_round_result: "round_result rt p (turn_round env rt p w)"
proof (cases "cv_max_iterations rt < Suc (tp_iterations p)")
  case True
  then show ?thesis by (simp add: turn_round_def Let_def round_result_def)
next
  case False
  then show ?thesis
    by (auto simp: turn_round_def Let_def intro!: take_message_result dest: built_message split: prod.splits sum.splits)
      (simp_all add: round_result_def)
qed

section \<open>The loop\<close>


lemma record_results [simp]:
  "list_all2 answers_call calls rs \<Longrightarrow> fold record_message rs t = t"
  by (induction rule: list_all2_induct) (auto simp: record_message_def dest: answers_call_result)



section \<open>Pairs\<close>

lemma results_paired_append:
  "results_paired c (xs @ ys) \<longleftrightarrow> results_paired c xs
     \<and> results_paired (fold (\<lambda>m c. has_tool_use m \<or> starts_with_tool_result m \<and> c) xs c) ys"
  by (induction xs arbitrary: c) auto

lemma well_paired_plain:
  "well_paired ms \<Longrightarrow> \<not> has_tool_use m \<Longrightarrow> \<not> starts_with_tool_result m \<Longrightarrow> well_paired (ms @ [m])"
  by (simp add: well_paired_def results_paired_append)

lemma results_paired_answers: "list_all2 answers_call calls rs \<Longrightarrow> results_paired True rs"
  by (induction rule: list_all2_induct) (auto dest: answers_call_result)

lemma well_paired_answered:
  assumes "well_paired ms" and "from_assistant a" and "list_all2 answers_call (take k (pending_tool_uses a)) rs"
  shows "well_paired (ms @ a # rs)"
proof -
  have "rs = [] \<or> has_tool_use a" using assms(3) by (auto simp: pending_has_tool_use [symmetric])
  then have "results_paired (has_tool_use a) rs" using results_paired_answers [OF assms(3)] by auto
  moreover have "m \<in> set rs \<Longrightarrow> \<not> has_tool_use m" for m
    using assms(3) answers_call_result by (metis list_all2_conv_all_nth in_set_conv_nth)
  ultimately show ?thesis
    using assms(1,2) by (auto simp: well_paired_def results_paired_append from_assistant_def list_all_iff)
qed

lemma turn_loop_paired:
  "turn_loop env rt p w = (r, rt', w') \<Longrightarrow> well_paired (cs_messages (cv_session rt)) \<Longrightarrow>
     well_paired (cs_messages (cv_session rt'))"
proof (induction env rt p w rule: turn_loop.induct)
  case (1 env rt p w)
  note result = turn_round_result [of rt p env w, unfolded round_result_def]
  show ?case
  proof (cases "turn_round env rt p w")
    case (GoOn rt1 p1 w1)
    then obtain a rs where "round_added rt p a rs rt1 p1" using result by auto
    then have "well_paired (cs_messages (cv_session rt1))"
      using well_paired_answered [OF 1(3), of a "length (pending_tool_uses a)"] by (simp add: round_added_def)
    then show ?thesis using 1 GoOn by (simp add: turn_loop.simps [of env rt])
  next
    case (Leave q rt1 w1)
    then have rt1: "rt' = rt1" "r = q" using 1(2) by (simp_all add: turn_loop.simps [of env rt])
    show ?thesis
    proof (cases q)
      case (Inl e)
      then show ?thesis using result Leave 1(3) well_paired_answered [OF 1(3)] by (auto simp: rt1)
    next
      case (Inr p1)
      then obtain a where "round_added rt p a [] rt1 p1" using result Leave by auto
      then show ?thesis using well_paired_answered [OF 1(3), of a 0 "[]"] by (simp add: round_added_def rt1)
    qed
  qed
qed

section \<open>Whole turns\<close>

abbreviation messages_of :: "runtime \<Rightarrow> claw_message list" where
  "messages_of rt \<equiv> cs_messages (cv_session rt)"


lemma maybe_auto_compact_paired:
  assumes "well_paired (messages_of rt)"
  shows "\<exists>c rt' w'. maybe_auto_compact rt w = Some (c, rt', w') \<and> well_paired (messages_of rt')"
  using compact_session_keeps [OF assms, of "compaction_config_default\<lparr>cc_max_estimated_tokens := 0\<rparr>" "fst w"] assms
  by (auto simp: maybe_auto_compact_def compaction_config_default_def)

text \<open>The start of a turn, with the user's text in the session, and its end.\<close>

lemma run_turn_cases:
  obtains e w1 where "run_turn env u rt w = Some (Inl e, rt, w1)"
  | e rt1 w2 where "run_turn env u rt w = Some (Inl e, rt1, w2)" "messages_of rt1 = messages_of rt"
  | r rt1 w2 rt2 w3 where "messages_of rt1 = messages_of rt @ [user_text u]" "cv_max_iterations rt1 = cv_max_iterations rt"
      "cv_usage_tracker rt1 = cv_usage_tracker rt" "turn_loop env rt1 no_progress w2 = (r, rt2, w3)"
      "run_turn env u rt w = (case r of Inl e \<Rightarrow> Some (Inl e, rt2, w3) | Inr p \<Rightarrow> finish_turn env p rt2 w3)"
proof -
  obtain probe w1 where probe: "(if cs_compaction (cv_session rt) \<noteq> None then run_session_health_probe env rt w else (Inr (), w))
      = (probe, w1)" by (metis prod.exhaust)
  obtain q rt1 w2 where q: "push env (user_text u) rt (record_turn_started env u w1) = (q, rt1, w2)" by (metis prod_cases3)
  obtain r rt2 w3 where r: "turn_loop env rt1 no_progress w2 = (r, rt2, w3)" by (metis prod_cases3)
  have run: "run_turn env u rt w = (case probe of Inl e \<Rightarrow> Some (Inl (probe_failed e), rt, w1)
      | Inr _ \<Rightarrow> (case q of Inl e \<Rightarrow> Some (Inl e, rt1, w2)
          | Inr _ \<Rightarrow> (case r of Inl e \<Rightarrow> Some (Inl e, rt2, w3) | Inr p \<Rightarrow> finish_turn env p rt2 w3)))"
    unfolding run_turn_def probe Let_def prod.case q r by (simp split: sum.splits)
  show thesis
  proof (cases probe)
    case (Inl e)
    then show thesis using that(1) run by simp
  next
    case probed: (Inr _)
    show thesis
    proof (cases q)
      case (Inl e)
      then show thesis using that(2) run probed push_messages [OF q] by simp
    next
      case (Inr _)
      then show thesis using run probed push_messages [OF q] push_keeps [OF q] by (intro that(3) [OF _ _ _ r]) auto
    qed
  qed
qed


text \<open>
  C25: However a turn ends, it returns, and each tool result of the session still follows its call:
  in a failed turn as in one that compacted the session.
\<close>

theorem turns_keep_pairs:
  assumes "well_paired (messages_of rt)"
  shows "\<exists>r rt' w'. run_turn env u rt w = Some (r, rt', w') \<and> well_paired (messages_of rt')"
proof (cases rule: run_turn_cases [of env u rt w])
  case (3 r rt1 w2 rt2 w3)
  have "well_paired (messages_of rt1)"
    using well_paired_plain [OF assms, of "user_text u"]
    by (simp add: 3(1) user_text_def has_tool_use_def starts_with_tool_result_def)
  then have paired: "well_paired (messages_of rt2)" using turn_loop_paired 3(4) by blast
  show ?thesis
  proof (cases r)
    case (Inr p)
    then show ?thesis
      using maybe_auto_compact_paired [OF paired, of w3] 3(5) by (auto simp: finish_turn_def Let_def)
  qed (use 3(5) paired in auto)
qed (use assms in auto)

section \<open>An example\<close>

text \<open>A model that calls two tools and then answers, and a rule against one of them.\<close>

definition sample_codec :: codec where
  "sample_codec = \<lparr>to_text = (\<lambda>_. ''{}''), from_text = (\<lambda>_. Inl ''no JSON'')\<rparr>"

definition sample_env :: "unit turn_env" where
  "sample_env = \<lparr>te_modified = (\<lambda>_ _. 0),
     te_stream = (\<lambda>request w. (Inr (if length (rq_messages request) \<le> 1
       then [TextDelta ''on it'', ToolUse ''c1'' ''read'' ''a'', ToolUse ''c2'' ''rm'' ''b'', MessageStop]
       else [TextDelta ''done'', UsageEvent \<lparr>tu_input_tokens = 7, tu_output_tokens = 3,
         tu_cache_creation_input_tokens = 0, tu_cache_read_input_tokens = 0\<rparr>, MessageStop]), w)),
     te_execute = (\<lambda>name input w. (Inr (name @ input), w)),
     te_prompter = None,
     te_hooks = \<lparr>he_codec = sample_codec, he_start = (\<lambda>_ w. (Inl ''no shell'', w)), he_aborted = None, he_reporter = None\<rparr>,
     te_tracer = None\<rparr>"

definition sample_runtime :: runtime where
  "sample_runtime = \<lparr>cv_session =
       \<lparr>cs_version = 1, cs_session_id = ''s'', cs_created_at_ms = 0, cs_updated_at_ms = 0, cs_messages = [],
        cs_compaction = None, cs_fork = None, cs_workspace_root = None, cs_prompt_history = [],
        cs_last_health_check_ms = None, cs_model = None, cs_persistence = None\<rparr>,
     cv_permission_policy = with_permission_rules [] [''rm''] [] (claw_policy_new ModeAllow), cv_system_prompt = [],
     cv_max_iterations = 5, cv_usage_tracker = tracker_new,
     cv_hook_config = \<lparr>hc_pre_tool_use = [], hc_post_tool_use = [], hc_post_tool_use_failure = []\<rparr>,
     cv_auto_compaction_threshold = 100\<rparr>"

definition sample_clock :: "unit world" where
  "sample_clock = (\<lparr>sw_fs = \<lparr>fs_nodes = [], fs_cwd = [], fs_faults = []\<rparr>, sw_clock = [],
     sw_last_timestamp_ms = 0, sw_id_counter = 0\<rparr>, ())"



section \<open>Denied tools\<close>

text \<open>A rule without a pattern denies a tool whatever its input, the hooks and the prompter say.\<close>

definition denies :: "claw_policy \<Rightarrow> string \<Rightarrow> bool" where
  "denies policy tool \<longleftrightarrow>
     list_ex (\<lambda>rule. pru_tool_name rule = tool \<and> pru_matcher rule = MatchAny) (cp_deny_rules policy)"

lemma denied_outcome:
  assumes "denies policy tool"
  shows "\<exists>reason. permission_outcome env policy tool input pre w = (OutcomeDeny reason, w)"
proof -
  have "find_matching_rule read_json (cp_deny_rules policy) tool input \<noteq> None" for read_json
    using assms by (auto simp: denies_def find_matching_rule_def find_None_iff list_ex_iff rule_matches_def)
  then obtain rule where "find_matching_rule (read_json_of (he_codec (te_hooks env))) (cp_deny_rules policy) tool input = Some rule"
    by blast
  then show ?thesis by (simp add: permission_outcome_def Let_def authorize_with_context_def)
qed

lemma same_but_tools [simp]:
  "trace (env\<lparr>te_execute := ex\<rparr>) = trace env" "push (env\<lparr>te_execute := ex\<rparr>) = push env"
  "permission_outcome (env\<lparr>te_execute := ex\<rparr>) = permission_outcome env"
  by (simp_all add: fun_eq_iff trace_def push_def permission_outcome_def Let_def)

lemma same_hooks [simp]: "te_hooks (env\<lparr>te_execute := ex\<rparr>) = te_hooks env"
  by simp

lemma new_tools: "te_execute (env\<lparr>te_execute := ex\<rparr>) = ex"
  by simp

lemma same_records [simp]:
  "record_turn_started (env\<lparr>te_execute := ex\<rparr>) = record_turn_started env"
  "record_assistant_iteration (env\<lparr>te_execute := ex\<rparr>) = record_assistant_iteration env"
  "record_tool_started (env\<lparr>te_execute := ex\<rparr>) = record_tool_started env"
  "record_tool_finished (env\<lparr>te_execute := ex\<rparr>) = record_tool_finished env"
  "record_turn_completed (env\<lparr>te_execute := ex\<rparr>) = record_turn_completed env"
  "record_turn_failed (env\<lparr>te_execute := ex\<rparr>) = record_turn_failed env"
  by (simp_all add: fun_eq_iff record_turn_started_def record_assistant_iteration_def record_tool_started_def
      record_tool_finished_def record_turn_completed_def record_turn_failed_def split: list.split claw_block.split)

lemma finish_turn_same [simp]: "finish_turn (env\<lparr>te_execute := ex\<rparr>) = finish_turn env"
  by (intro ext) (simp only: finish_turn_def same_records)

lemma run_tool_call_same:
  assumes "\<forall>name. name \<noteq> tool \<longrightarrow> ex name = te_execute env name" and "denies (cv_permission_policy rt) tool"
  shows "run_tool_call (env\<lparr>te_execute := ex\<rparr>) rt n call w = run_tool_call env rt n call w"
proof (cases "fst (snd call) = tool")
  case True
  have "\<exists>reason. permission_outcome env (cv_permission_policy rt) (fst (snd call)) input pre w = (OutcomeDeny reason, w)"
    for input pre w using denied_outcome assms(2) True by blast
  then show ?thesis by (auto simp: run_tool_call_def Let_def split: prod.splits claw_outcome.splits) (metis claw_outcome.distinct(1) fst_conv)+
next
  case False
  then have "execute_tool (env\<lparr>te_execute := ex\<rparr>) hooks (fst (snd call)) = execute_tool env hooks (fst (snd call))" for hooks
    using assms(1) [rule_format, OF False]
    by (intro ext) (simp only: execute_tool_def same_hooks new_tools)
  then show ?thesis
    by (cases call) (simp only: run_tool_call_def same_hooks same_records same_but_tools prod.case fst_conv snd_conv)
qed

lemma answer_calls_same:
  assumes "\<forall>name. name \<noteq> tool \<longrightarrow> ex name = te_execute env name" and "denies (cv_permission_policy rt) tool"
  shows "answer_calls (env\<lparr>te_execute := ex\<rparr>) n calls rt w = answer_calls env n calls rt w"
  using assms(2)
proof (induction calls arbitrary: rt w)
  case (Cons call calls)
  obtain m w1 where m: "run_tool_call env rt n call w = (m, w1)" by (metis prod.exhaust)
  obtain q rt1 w2 where q: "push env m rt w1 = (q, rt1, w2)" by (metis prod_cases3)
  have "denies (cv_permission_policy rt1) tool" using push_keeps [OF q] Cons.prems by auto
  then have "answer_calls (env\<lparr>te_execute := ex\<rparr>) n calls rt1 v = answer_calls env n calls rt1 v" for v
    by (rule Cons.IH)
  then show ?case
    unfolding answer_calls.simps run_tool_call_same [OF assms(1) Cons.prems] m Let_def prod.case same_but_tools q same_records
    by (simp only:)
qed (simp only: answer_calls.simps)

lemma turn_round_same:
  assumes "\<forall>name. name \<noteq> tool \<longrightarrow> ex name = te_execute env name" and "denies (cv_permission_policy rt) tool"
  shows "turn_round (env\<lparr>te_execute := ex\<rparr>) rt p w = turn_round env rt p w"
proof -
  have "take_message (env\<lparr>te_execute := ex\<rparr>) rt p a usage caches v = take_message env rt p a usage caches v" for a usage caches v
  proof -
    obtain q rt1 w1 where q: "push env a (track_usage usage rt) (record_assistant_iteration env (Suc (tp_iterations p)) a
        (length (pending_tool_uses a)) v) = (q, rt1, w1)" by (metis prod_cases3)
    have "cv_permission_policy (track_usage usage rt) = cv_permission_policy rt"
      by (simp add: track_usage_def split: option.split)
    then have "denies (cv_permission_policy rt1) tool" using push_keeps [OF q] assms(2) by auto
    then show ?thesis
      unfolding take_message_def Let_def same_records same_but_tools q prod.case
      by (simp only: answer_calls_same [OF assms(1)])
  qed
  moreover have "te_stream (env\<lparr>te_execute := ex\<rparr>) = te_stream env" by simp
  ultimately show ?thesis by (simp only: turn_round_def same_records)
qed

lemma turn_round_policy:
  "turn_round env rt p w = GoOn rt' p' w' \<Longrightarrow> cv_permission_policy rt' = cv_permission_policy rt"
  by (auto simp: turn_round_def take_message_def track_usage_def Let_def split: if_splits prod.splits sum.splits option.splits
      dest!: push_keeps answer_calls_keeps)

lemma turn_loop_same:
  assumes "\<forall>name. name \<noteq> tool \<longrightarrow> ex name = te_execute env name" and "denies (cv_permission_policy rt) tool"
  shows "turn_loop (env\<lparr>te_execute := ex\<rparr>) rt p w = turn_loop env rt p w"
  using assms
proof (induction env rt p w rule: turn_loop.induct)
  case (1 env rt p w)
  show ?case
  proof (cases "turn_round env rt p w")
    case (GoOn rt1 p1 w1)
    then have "turn_loop (env\<lparr>te_execute := ex\<rparr>) rt1 p1 w1 = turn_loop env rt1 p1 w1"
      using 1 turn_round_policy [OF GoOn] by simp
    then show ?thesis
      unfolding turn_loop.simps [of env rt] turn_loop.simps [of "env\<lparr>te_execute := ex\<rparr>" rt] turn_round_same [OF 1(2,3)] GoOn
      by (simp only: round.case)
  next
    case (Leave r rt1 w1)
    then show ?thesis
      unfolding turn_loop.simps [of env rt] turn_loop.simps [of "env\<lparr>te_execute := ex\<rparr>" rt] turn_round_same [OF 1(2,3)] by simp
  qed
qed

text \<open>
  C26: A tool that a rule without a pattern denies is not run in a turn, whatever the model asks for, the
  hooks say and the prompter answers: a turn does not depend on what the tool would do. This holds of every
  tool but \<open>glob_search\<close>, and of \<open>glob_search\<close> in a session without a compaction; in a session with one, the
  health probe at the start of a turn runs \<open>glob_search\<close> without asking the policy.
\<close>

theorem denied_tool_never_runs:
  assumes "denies (cv_permission_policy rt) tool" and "\<forall>name. name \<noteq> tool \<longrightarrow> ex name = te_execute env name"
    and "tool \<noteq> ''glob_search'' \<or> cs_compaction (cv_session rt) = None"
  shows "run_turn (env\<lparr>te_execute := ex\<rparr>) u rt w = run_turn env u rt w"
proof -
  have "cs_compaction (cv_session rt) \<noteq> None \<Longrightarrow>
      run_session_health_probe (env\<lparr>te_execute := ex\<rparr>) rt w = run_session_health_probe env rt w"
    using assms(2) [rule_format, of "''glob_search''"] assms(3) by (auto simp: run_session_health_probe_def)
  then have probe: "(if cs_compaction (cv_session rt) \<noteq> None then run_session_health_probe (env\<lparr>te_execute := ex\<rparr>) rt w else (Inr (), w))
      = (if cs_compaction (cv_session rt) \<noteq> None then run_session_health_probe env rt w else (Inr (), w))" by simp
  obtain r w1 where r: "(if cs_compaction (cv_session rt) \<noteq> None then run_session_health_probe env rt w else (Inr (), w))
      = (r, w1)" by (metis prod.exhaust)
  obtain q rt1 w2 where q: "push env (user_text u) rt (record_turn_started env u w1) = (q, rt1, w2)" by (metis prod_cases3)
  have "turn_loop (env\<lparr>te_execute := ex\<rparr>) rt1 no_progress w2 = turn_loop env rt1 no_progress w2"
    using turn_loop_same [OF assms(2), of rt1 no_progress w2] push_keeps [OF q] assms(1) by auto
  then show ?thesis
    unfolding run_turn_def probe r same_records same_but_tools finish_turn_same Let_def prod.case q by (simp only:)
qed


theorem turns_keep_pairs_witness:
  "\<exists>r rt' w'. run_turn sample_env ''hi'' sample_runtime sample_clock = Some (r, rt', w') \<and> well_paired (messages_of rt')"
  by (rule turns_keep_pairs) code_simp

theorem denied_tool_never_runs_witness:
  "run_turn (sample_env\<lparr>te_execute := (\<lambda>name input w. if name = ''rm'' then (Inl ''lost'', w) else (Inr (name @ input), w))\<rparr>)
     ''hi'' sample_runtime sample_clock = run_turn sample_env ''hi'' sample_runtime sample_clock"
proof (rule denied_tool_never_runs [of _ "''rm''"])
  show "denies (cv_permission_policy sample_runtime) ''rm''" by code_simp
qed (simp_all add: sample_env_def fun_eq_iff)

end
