(* ===== verification/RefHooksCorrect.thy ===== *)
theory RefHooksCorrect
  imports RefHooks
begin

text \<open>
  What the hooks of an event amount to: the commands run in order until one does not allow, and the
  result is read off their outcomes. The wait for a hook ends with its first poll that sees anything.
\<close>

section \<open>Outcomes\<close>

fun outcome_output :: "hook_command_outcome \<Rightarrow> parsed_hook_output" where
  "outcome_output (HookAllow p) = p"
| "outcome_output (HookDeny p) = p"
| "outcome_output (HookFailed p) = p"
| "outcome_output (HookCommandCancelled message) = parsed_default\<lparr>ph_messages := [message]\<rparr>"

fun allows :: "hook_command_outcome \<Rightarrow> bool" where
  "allows (HookAllow p) \<longleftrightarrow> True"
| "allows _ \<longleftrightarrow> False"

fun is_deny :: "hook_command_outcome \<Rightarrow> bool" where
  "is_deny (HookDeny p) \<longleftrightarrow> True"
| "is_deny _ \<longleftrightarrow> False"

fun is_failed :: "hook_command_outcome \<Rightarrow> bool" where
  "is_failed (HookFailed p) \<longleftrightarrow> True"
| "is_failed _ \<longleftrightarrow> False"

fun is_cancelled :: "hook_command_outcome \<Rightarrow> bool" where
  "is_cancelled (HookCommandCancelled m) \<longleftrightarrow> True"
| "is_cancelled _ \<longleftrightarrow> False"

definition after_outcome :: "hook_event \<Rightarrow> string \<Rightarrow> string \<Rightarrow> hook_command_outcome \<Rightarrow> hook_progress" where
  "after_outcome event tool command out =
     (if is_cancelled out then HookCancelled event tool command else HookCompleted event tool command)"

text \<open>Commands run one after the other, each reported before and after, up to the first that does
  not allow.\<close>

inductive hooks_ran ::
  "(string \<Rightarrow> 'w \<Rightarrow> hook_command_outcome \<times> 'w) \<Rightarrow> hook_event \<Rightarrow> string \<Rightarrow> 'w hook_reporter option
    \<Rightarrow> string list \<Rightarrow> 'w \<Rightarrow> hook_command_outcome list \<Rightarrow> 'w \<Rightarrow> bool"
  for run event tool reporter where
  all_ran: "hooks_ran run event tool reporter [] w [] w"
| allowed: "run c (report reporter (HookStarted event tool c) w) = (HookAllow p, w1)
    \<Longrightarrow> hooks_ran run event tool reporter cs (report reporter (HookCompleted event tool c) w1) os w2
    \<Longrightarrow> hooks_ran run event tool reporter (c # cs) w (HookAllow p # os) w2"
| stopped: "run c (report reporter (HookStarted event tool c) w) = (out, w1) \<Longrightarrow> \<not> allows out
    \<Longrightarrow> hooks_ran run event tool reporter (c # cs) w [out] (report reporter (after_outcome event tool c out) w1)"

inductive_cases hooks_ran_Cons: "hooks_ran run event tool reporter (c # cs) w os w'"

text \<open>The last of the decisions that were made.\<close>

definition last_made :: "'a option list \<Rightarrow> 'a option" where
  "last_made xs = fold or_else xs None"

lemma fold_or_else: "fold or_else xs y = or_else (last_made xs) y"
proof (induction xs rule: rev_induct)
  case (snoc x xs)
  then show ?case by (cases x) (simp_all add: last_made_def or_else_def)
qed (simp add: last_made_def or_else_def)

definition adds_up :: "hook_result \<Rightarrow> hook_command_outcome list \<Rightarrow> hook_result \<Rightarrow> bool" where
  "adds_up r0 os r \<longleftrightarrow>
     hr_messages r = hr_messages r0 @ concat (map (ph_messages \<circ> outcome_output) os)
     \<and> hr_permission_override r = fold or_else (map (ph_permission_override \<circ> outcome_output) os) (hr_permission_override r0)
     \<and> hr_permission_reason r = fold or_else (map (ph_permission_reason \<circ> outcome_output) os) (hr_permission_reason r0)
     \<and> hr_updated_input r = fold or_else (map (ph_updated_input \<circ> outcome_output) os) (hr_updated_input r0)
     \<and> hr_denied r = (hr_denied r0 \<or> list_ex is_deny os) \<and> hr_failed r = (hr_failed r0 \<or> list_ex is_failed os)
     \<and> hr_cancelled r = (hr_cancelled r0 \<or> list_ex is_cancelled os)"

lemma run_each_adds_up:
  "run_each run event tool reporter cs r0 w = (r, w') \<Longrightarrow>
     \<exists>os. hooks_ran run event tool reporter cs w os w' \<and> adds_up r0 os r"
proof (induction run event tool reporter cs r0 w rule: run_each.induct)
  case (1 run event tool reporter r0 w)
  then show ?case by (auto simp: adds_up_def intro!: all_ran exI [of _ "[]"])
next
  case (2 run event tool reporter c cs r0 w)
  obtain out w1 where out: "run c (report reporter (HookStarted event tool c) w) = (out, w1)" by (metis prod.exhaust)
  have stop: "\<not> allows out \<Longrightarrow> w' = report reporter (after_outcome event tool c out) w1 \<Longrightarrow> adds_up r0 [out] r
      \<Longrightarrow> \<exists>os. hooks_ran run event tool reporter (c # cs) w os w' \<and> adds_up r0 os r"
    using hooks_ran.stopped [where run = run and c = c] out by blast
  show ?case
  proof (cases out)
    case (HookAllow p)
    then have "run_each run event tool reporter cs (merge_parsed_hook_output r0 p)
        (report reporter (HookCompleted event tool c) w1) = (r, w')"
      using 2(2) out by (simp add: Let_def)
    then obtain os where "hooks_ran run event tool reporter cs (report reporter (HookCompleted event tool c) w1) os w'"
        "adds_up (merge_parsed_hook_output r0 p) os r"
      using 2(1) [OF out [symmetric] refl refl] HookAllow by blast
    then show ?thesis
      using out HookAllow
      by (intro exI [of _ "HookAllow p # os"]) (auto intro: allowed simp: adds_up_def merge_parsed_hook_output_def)
  next
    case (HookDeny p)
    then show ?thesis
      using 2(2) out by (intro stop) (auto simp: merge_parsed_hook_output_def Let_def adds_up_def after_outcome_def)
  next
    case (HookFailed p)
    then show ?thesis
      using 2(2) out by (intro stop) (auto simp: merge_parsed_hook_output_def Let_def adds_up_def after_outcome_def)
  next
    case (HookCommandCancelled m)
    then show ?thesis
      using 2(2) out by (intro stop) (auto simp: parsed_default_def or_else_def Let_def adds_up_def after_outcome_def)
  qed
qed

lemma hooks_ran_outcomes:
  "hooks_ran run event tool reporter cs w os w' \<Longrightarrow>
     length os \<le> length cs \<and> list_all allows (butlast os) \<and> (list_all allows os \<longrightarrow> length os = length cs)"
  by (induction rule: hooks_ran.induct) (auto simp: list_all_iff dest: in_set_butlastD)

lemma allows_iff: "allows out \<longleftrightarrow> \<not> is_deny out \<and> \<not> is_failed out \<and> \<not> is_cancelled out"
  by (cases out) simp_all

lemma or_else_None [simp]: "or_else x None = x"
  by (cases x) (simp_all add: or_else_def)

text \<open>The abort signal is raised before the first hook.\<close>

definition aborted_before :: "'w hook_env \<Rightarrow> 'w \<Rightarrow> bool" where
  "aborted_before env w \<longleftrightarrow> (case he_aborted env of None \<Rightarrow> False | Some aborted \<Rightarrow> aborted w)"

lemma hooks_run_add_up:
  assumes "run_commands env event commands tool input result is_error w = (r, w')"
    and "\<not> (commands \<noteq> [] \<and> aborted_before env w)"
  shows "\<exists>os. hooks_ran (run_command (he_codec env) (he_start env) event tool input result is_error
        (to_text (he_codec env) (hook_payload (he_codec env) event tool input result is_error)))
        event tool (he_reporter env) commands w os w'
    \<and> list_all allows (butlast os)
    \<and> hr_messages r = concat (map (ph_messages \<circ> outcome_output) os)
    \<and> hr_permission_override r = last_made (map (ph_permission_override \<circ> outcome_output) os)
    \<and> hr_permission_reason r = last_made (map (ph_permission_reason \<circ> outcome_output) os)
    \<and> hr_updated_input r = last_made (map (ph_updated_input \<circ> outcome_output) os)
    \<and> hr_denied r = list_ex is_deny os \<and> hr_failed r = list_ex is_failed os \<and> hr_cancelled r = list_ex is_cancelled os
    \<and> (hr_denied r \<or> hr_failed r \<or> hr_cancelled r \<or> length os = length commands)"
proof (cases "commands = []")
  case True
  then show ?thesis
    using assms by (auto simp: run_commands_def hook_allow_def last_made_def intro!: all_ran exI [of _ "[]"])
next
  case False
  let ?run = "run_command (he_codec env) (he_start env) event tool input result is_error
        (to_text (he_codec env) (hook_payload (he_codec env) event tool input result is_error))"
  have each: "run_each ?run event tool (he_reporter env) commands (hook_allow []) w = (r, w')"
    using assms False by (simp add: run_commands_def aborted_before_def Let_def split: option.splits)
  obtain os where os: "hooks_ran ?run event tool (he_reporter env) commands w os w'" "adds_up (hook_allow []) os r"
    using run_each_adds_up [OF each] by blast
  moreover have "\<not> list_ex is_deny os \<Longrightarrow> \<not> list_ex is_failed os \<Longrightarrow> \<not> list_ex is_cancelled os \<Longrightarrow> list_all allows os"
    by (auto simp: allows_iff list_ex_iff list_all_iff)
  ultimately show ?thesis
    using hooks_ran_outcomes [OF os(1)]
    by (intro exI [of _ os]) (auto simp: adds_up_def hook_allow_def fold_or_else)
qed

text \<open>
  C27: When there are hooks for an event and the abort signal is already raised, none of them runs and the
  result only is cancelled, with one message that says so. Otherwise the hooks run in order and stop at
  the first that denies, fails or is cancelled. The result has all their messages in order, the last
  permission decision, reason and input that any of them gave, and the flag of the one that stopped the
  others; without a flag every hook ran and allowed. (So a later hook's decision replaces an earlier
  hook's denial.)
\<close>

theorem hooks_add_up:
  assumes "run_commands env event commands tool input result is_error w = (r, w')"
  shows "if commands \<noteq> [] \<and> aborted_before env w
    then w' = w \<and> hr_cancelled r \<and> \<not> hr_denied r \<and> \<not> hr_failed r
      \<and> hr_messages r = [hook_event_str event @ '' hook cancelled before execution'']
      \<and> hr_permission_override r = None \<and> hr_permission_reason r = None \<and> hr_updated_input r = None
    else \<exists>os. hooks_ran (run_command (he_codec env) (he_start env) event tool input result is_error
        (to_text (he_codec env) (hook_payload (he_codec env) event tool input result is_error)))
        event tool (he_reporter env) commands w os w'
    \<and> list_all allows (butlast os)
    \<and> hr_messages r = concat (map (ph_messages \<circ> outcome_output) os)
    \<and> hr_permission_override r = last_made (map (ph_permission_override \<circ> outcome_output) os)
    \<and> hr_permission_reason r = last_made (map (ph_permission_reason \<circ> outcome_output) os)
    \<and> hr_updated_input r = last_made (map (ph_updated_input \<circ> outcome_output) os)
    \<and> hr_denied r = list_ex is_deny os \<and> hr_failed r = list_ex is_failed os \<and> hr_cancelled r = list_ex is_cancelled os
    \<and> (hr_denied r \<or> hr_failed r \<or> hr_cancelled r \<or> length os = length commands)"
proof (cases "commands \<noteq> [] \<and> aborted_before env w")
  case True
  then show ?thesis
    using assms by (auto simp: run_commands_def aborted_before_def hook_allow_def)
next
  case False
  then show ?thesis
    using hooks_run_add_up [OF assms] unfolding if_not_P [OF False] by blast
qed

text \<open>Two hooks that both exit well: the first prints a denial, the second an approval.\<close>

definition two_hooks :: "unit hook_env" where
  "two_hooks = \<lparr>
     he_codec = \<lparr>to_text = (\<lambda>_. ''{}''), from_text = (\<lambda>s. Inr (JObj [(''hookSpecificOutput'',
       JObj [(''permissionDecision'', JStr s)])]))\<rparr>,
     he_start = (\<lambda>call w. (Inr (HookFinished \<lparr>po_code = Some 0, po_stdout = hk_command call, po_stderr = []\<rparr>), w)),
     he_aborted = None, he_reporter = None\<rparr>"

lemma two_hooks_text: "trim (utf8_lossy ''deny'') = ''deny''" "trim (utf8_lossy ''allow'') = ''allow''" "trim (utf8_lossy []) = []"
  by code_simp+

lemma two_hooks_run:
  "fst (run_commands two_hooks PreToolUse [''deny'', ''allow''] ''bash'' ''rm'' None False ())
   = (hook_allow [''deny'', ''allow''])\<lparr>hr_permission_override := Some OverrideAllow\<rparr>"
  by (simp add: run_commands_def two_hooks_def Let_def run_command_def hook_finished_def two_hooks_text
      parse_hook_output_def read_hook_object_def bt_get_def parsed_default_def message_at_def
      get_str_def get_bool_def with_fallback_message_def override_of_def merge_parsed_hook_output_def or_else_def
      report_def hook_allow_def del: utf8_lossy.simps)

lemma two_hooks_abort: "\<not> aborted_before two_hooks ()"
  by (simp add: two_hooks_def aborted_before_def)

lemma later_hook_wins:
  "hr_permission_override (fst (run_commands two_hooks PreToolUse [''deny'', ''allow''] ''bash'' ''rm'' None False ()))
   = Some OverrideAllow"
  by (simp add: two_hooks_run)

theorem hooks_add_up_witness:
  "\<exists>r os. run_commands two_hooks PreToolUse [''deny'', ''allow''] ''bash'' ''rm'' None False () = (r, ())
     \<and> length os = 2 \<and> hr_permission_override r = last_made (map (ph_permission_override \<circ> outcome_output) os)"
proof -
  obtain r where r: "run_commands two_hooks PreToolUse [''deny'', ''allow''] ''bash'' ''rm'' None False () = (r, ())"
    by (cases "run_commands two_hooks PreToolUse [''deny'', ''allow''] ''bash'' ''rm'' None False ()") simp
  have flags: "\<not> hr_denied r" "\<not> hr_failed r" "\<not> hr_cancelled r"
    using two_hooks_run r by (simp_all add: hook_allow_def)
  obtain os where "hr_denied r \<or> hr_failed r \<or> hr_cancelled r \<or> length os = length [''deny'', ''allow'']"
      and decision: "hr_permission_override r = last_made (map (ph_permission_override \<circ> outcome_output) os)"
    using hooks_add_up [OF r] two_hooks_abort by auto
  then have "length os = 2" using flags by simp
  then show ?thesis using r decision by blast
qed

section \<open>The wait\<close>

text \<open>The loop ends with its first poll that sees anything: an abort kills the hook, even when it
  has ended since the last poll.\<close>

lemma wait_ends:
  "wait_for_child out polls = None \<longleftrightarrow> set polls \<subseteq> {PollRunning}"
  by (induction out polls rule: wait_for_child.induct) auto

lemma wait_first:
  "set before \<subseteq> {PollRunning} \<Longrightarrow> wait_for_child out (before @ poll # polls) = wait_for_child out (poll # polls)"
  by (induction before) auto

end
