(* ===== verification/RefSse.thy ===== *)
theory RefSse
  imports Machines FileSys
begin

text \<open>
  The incremental reader of server-sent events of the reference runtime,
  \<open>claw-rust/crates/runtime/src/sse.rs\<close>. Unlike the parser of the API client it reads line by line and
  keeps the fields of an unfinished event in its state.
\<close>

section \<open>The parser\<close>

record sse_event =
  se_event :: "string option"
  se_data :: string
  se_id :: "string option"
  se_retry :: "u64 option"

record sse_parser =
  sp_buffer :: string
  sp_event_name :: "string option"
  sp_data_lines :: "string list"
  sp_id :: "string option"
  sp_retry :: "u64 option"

definition sse_parser_new :: sse_parser where
  "sse_parser_new = \<lparr>sp_buffer = [], sp_event_name = None, sp_data_lines = [], sp_id = None, sp_retry = None\<rparr>"

text \<open>\<open>str::parse::<u64>\<close>.\<close>

definition parse_u64 :: "string \<Rightarrow> u64 option" where
  "parse_u64 s =
     (let t = (case strip_prefix ''+'' s of None \<Rightarrow> s | Some r \<Rightarrow> r)
      in if t = [] then None
         else case parse_digits 0 t of None \<Rightarrow> None | Some n \<Rightarrow> if n < 2 ^ 64 then Some (of_nat n) else None)"

definition take_sse_event :: "sse_parser \<Rightarrow> sse_event option \<times> sse_parser" where
  "take_sse_event p =
     (if sp_data_lines p = [] \<and> sp_event_name p = None \<and> sp_id p = None \<and> sp_retry p = None then (None, p)
      else (Some \<lparr>se_event = sp_event_name p, se_data = join nl (sp_data_lines p), se_id = sp_id p,
              se_retry = sp_retry p\<rparr>,
            p\<lparr>sp_event_name := None, sp_data_lines := [], sp_id := None, sp_retry := None\<rparr>))"

definition events_of :: "sse_event option \<Rightarrow> sse_event list" where
  "events_of e = (case e of None \<Rightarrow> [] | Some e \<Rightarrow> [e])"

definition set_field :: "string \<Rightarrow> string \<Rightarrow> sse_parser \<Rightarrow> sse_parser" where
  "set_field field value p =
     (if field = ''event'' then p\<lparr>sp_event_name := Some value\<rparr>
      else if field = ''data'' then p\<lparr>sp_data_lines := sp_data_lines p @ [value]\<rparr>
      else if field = ''id'' then p\<lparr>sp_id := Some value\<rparr>
      else if field = ''retry'' then p\<lparr>sp_retry := parse_u64 value\<rparr>
      else p)"

definition split_field :: "string \<Rightarrow> string \<times> string" where
  "split_field line =
     (case split_at_char (CHR '':'') line of
        (field, None) \<Rightarrow> (field, [])
      | (field, Some value) \<Rightarrow> (field, case strip_prefix '' '' value of None \<Rightarrow> value | Some v \<Rightarrow> v))"

definition process_line :: "string \<Rightarrow> sse_parser \<Rightarrow> sse_event list \<times> sse_parser" where
  "process_line line p =
     (if line = [] then (case take_sse_event p of (e, p') \<Rightarrow> (events_of e, p'))
      else if starts_with line '':'' then ([], p)
      else (let (field, value) = split_field line in ([], set_field field value p)))"

definition drop_cr :: "string \<Rightarrow> string" where
  "drop_cr line = (if line \<noteq> [] \<and> last line = CHR 0x0D then butlast line else line)"

text \<open>The loop over the buffer, whose unfinished end stays in the state.\<close>

function drain_lines :: "string \<Rightarrow> sse_parser \<Rightarrow> sse_event list \<times> sse_parser" where
  "drain_lines buffer p =
     (case split_at_char (CHR 0x0A) buffer of
        (line, None) \<Rightarrow> ([], p\<lparr>sp_buffer := buffer\<rparr>)
      | (line, Some rest) \<Rightarrow>
          (let (events, p1) = process_line (drop_cr line) p; (es2, p2) = drain_lines rest p1
           in (events @ es2, p2)))"
  by pat_completeness auto
termination
  by (relation "measure (length \<circ> fst)") (auto dest: split_at_char_length [OF sym])

declare drain_lines.simps [simp del]

definition push_chunk :: "string \<Rightarrow> sse_parser \<Rightarrow> sse_event list \<times> sse_parser" where
  "push_chunk chunk p = drain_lines (sp_buffer p @ chunk) p"

definition sse_finish :: "sse_parser \<Rightarrow> sse_event list \<times> sse_parser" where
  "sse_finish p =
     (let (events, p1) = (if sp_buffer p = [] then ([], p)
            else process_line (trim_end_matches (CHR 0x0D) (sp_buffer p)) (p\<lparr>sp_buffer := []\<rparr>));
          (e, p2) = take_sse_event p1
      in (events @ events_of e, p2))"

section \<open>Chunks\<close>

lemma process_line_buffer [simp]: "process_line line (p\<lparr>sp_buffer := b\<rparr>) =
    (case process_line line p of (es, p') \<Rightarrow> (es, p'\<lparr>sp_buffer := b\<rparr>))"
  by (auto simp: process_line_def take_sse_event_def set_field_def split: prod.splits)

lemma drain_lines_line: "CHR 0x0A \<notin> set l \<Longrightarrow> drain_lines (l @ CHR 0x0A # rest) p =
    (case process_line (drop_cr l) p of (es, p1) \<Rightarrow> case drain_lines rest p1 of (es2, p2) \<Rightarrow> (es @ es2, p2))"
  by (subst drain_lines.simps) (simp add: split_at_char_append split: prod.splits)

lemma drain_lines_rest: "CHR 0x0A \<notin> set l \<Longrightarrow> drain_lines l p = ([], p\<lparr>sp_buffer := l\<rparr>)"
  by (subst drain_lines.simps) (simp add: split_at_char_none)

lemma drain_induct [case_names Rest Line]:
  assumes "\<And>l p. CHR 0x0A \<notin> set l \<Longrightarrow> P l p"
    and "\<And>l rest p. CHR 0x0A \<notin> set l \<Longrightarrow> (\<And>p1. P rest p1) \<Longrightarrow> P (l @ CHR 0x0A # rest) p"
  shows "P s p"
proof (induction s arbitrary: p rule: length_induct)
  case (1 s)
  show ?case
  proof (cases "CHR 0x0A \<in> set s")
    case True
    then obtain l rest where s: "s = l @ CHR 0x0A # rest" "CHR 0x0A \<notin> set l" by (metis split_list_first)
    then show ?thesis using assms(2) 1 by simp
  qed (use assms(1) in simp)
qed

lemma drain_lines_over: "drain_lines s (p\<lparr>sp_buffer := b\<rparr>) = drain_lines s p"
  by (induction s p rule: drain_induct) (simp_all add: drain_lines_line drain_lines_rest split: prod.splits)

lemma drain_lines_append:
  "drain_lines (a @ b) p =
     (case drain_lines a p of (es, p1) \<Rightarrow> case drain_lines (sp_buffer p1 @ b) p1 of (es2, p2) \<Rightarrow> (es @ es2, p2))"
  by (induction a p rule: drain_induct)
    (simp_all add: drain_lines_line drain_lines_rest drain_lines_over split: prod.splits)

definition feed :: "sse_parser \<Rightarrow> string \<Rightarrow> sse_parser \<times> sse_event list" where
  "feed p chunk = prod.swap (push_chunk chunk p)"

lemma drain_nothing: "drain_lines (sp_buffer p) p = (es, p') \<Longrightarrow> CHR 0x0A \<notin> set (sp_buffer p) \<Longrightarrow> es = [] \<and> p' = p"
  by (simp add: drain_lines_rest)

lemma drain_leaves: "CHR 0x0A \<notin> set (sp_buffer (snd (drain_lines s p)))"
  by (induction s p rule: drain_induct) (simp_all add: drain_lines_line drain_lines_rest case_prod_unfold)

lemma feed_all:
  "CHR 0x0A \<notin> set (sp_buffer p) \<Longrightarrow> run_emit feed p chunks = feed p (concat chunks)"
proof (induction chunks arbitrary: p)
  case Nil
  then show ?case by (simp add: feed_def push_chunk_def drain_lines_rest)
next
  case (Cons c cs)
  obtain es p1 where p1: "drain_lines (sp_buffer p @ c) p = (es, p1)" by fastforce
  then have "run_emit feed p1 cs = feed p1 (concat cs)"
    using Cons.IH drain_leaves [of "sp_buffer p @ c" p] by simp
  moreover have "feed p c = (p1, es)" using p1 by (simp add: feed_def push_chunk_def)
  moreover have "feed p (c @ s) = (case feed p1 s of (p2, es2) \<Rightarrow> (p2, es @ es2))" for s
    using p1 drain_lines_append [of "sp_buffer p @ c" s p] by (simp add: feed_def push_chunk_def split: prod.splits)
  ultimately show ?case by simp
qed

section \<open>Written events\<close>

definition field_line :: "string \<Rightarrow> string option \<Rightarrow> string" where
  "field_line name value = (case value of None \<Rightarrow> [] | Some v \<Rightarrow> name @ '': '' @ v @ nl)"

definition write_sse_event :: "sse_event \<Rightarrow> string" where
  "write_sse_event e =
     field_line ''event'' (se_event e)
     @ concat (map (\<lambda>l. field_line ''data'' (Some l)) (split_on (CHR 0x0A) [] (se_data e)))
     @ field_line ''id'' (se_id e) @ field_line ''retry'' (map_option (\<lambda>n. show_nat (unat n)) (se_retry e)) @ nl"

definition one_line :: "string \<Rightarrow> bool" where
  "one_line s \<longleftrightarrow> CHR 0x0A \<notin> set s \<and> CHR 0x0D \<notin> set s"

definition writable :: "sse_event \<Rightarrow> bool" where
  "writable e \<longleftrightarrow> pred_option one_line (se_event e) \<and> pred_option one_line (se_id e) \<and> CHR 0x0D \<notin> set (se_data e)"

lemma split_field_written: "CHR '':'' \<notin> set name \<Longrightarrow> split_field (name @ '': '' @ v) = (name, v)"
  using split_at_char_append [of "CHR '':''" name "CHR '' '' # v"] by (simp add: split_field_def)

lemma drop_cr_written: "one_line v \<Longrightarrow> drop_cr (name @ '': '' @ v) = name @ '': '' @ v"
  by (cases "v = []") (auto simp: drop_cr_def one_line_def dest: last_in_set)

lemma drain_field:
  assumes "name \<in> {''event'', ''data'', ''id'', ''retry''}" and "one_line v"
  shows "drain_lines (field_line name (Some v) @ rest) p = drain_lines rest (set_field name v p)"
proof -
  have "CHR 0x0A \<notin> set (name @ '': '' @ v)" "CHR '':'' \<notin> set name" "\<not> starts_with (name @ '': '' @ v) '':''"
    using assms by (auto simp: one_line_def starts_with_def)
  moreover have "field_line name (Some v) @ rest = (name @ '': '' @ v) @ CHR 0x0A # rest"
    by (simp add: field_line_def nl_def)
  ultimately show ?thesis
    using split_field_written [of name v] drop_cr_written [OF assms(2), of name]
      drain_lines_line [of "name @ '': '' @ v" rest p]
    by (simp add: process_line_def nl_def)
qed

lemma drain_optional:
  assumes "name \<in> {''event'', ''data'', ''id'', ''retry''}" and "pred_option one_line v"
  shows "drain_lines (field_line name v @ rest) p = drain_lines rest (case v of None \<Rightarrow> p | Some v \<Rightarrow> set_field name v p)"
proof (cases v)
  case (Some x)
  then show ?thesis using drain_field [OF assms(1), of x] assms(2) by simp
qed (simp add: field_line_def)

lemma drain_data:
  "list_all one_line ls \<Longrightarrow> drain_lines (concat (map (\<lambda>l. field_line ''data'' (Some l)) ls) @ rest) p
     = drain_lines rest (p\<lparr>sp_data_lines := sp_data_lines p @ ls\<rparr>)"
  by (induction ls arbitrary: p) (simp_all add: drain_field set_field_def)

lemma split_on_lines:
  "split_on d acc s \<noteq> [] \<and> join [d] (split_on d acc s) = acc @ s
     \<and> (d \<notin> set acc \<longrightarrow> (\<forall>l \<in> set (split_on d acc s). d \<notin> set l \<and> set l \<subseteq> set (acc @ s)))"
proof (induction s arbitrary: acc)
  case (Cons c cs)
  have "join [d] (acc # split_on d [] cs) = acc @ [d] @ join [d] (split_on d [] cs)"
    using Cons [of "[]"] by (cases "split_on d [] cs") simp_all
  then show ?case using Cons [of "[]"] Cons [of "acc @ [c]"] by auto
qed simp

lemma parse_u64_shown: "parse_u64 (show_nat (unat n)) = Some n"
proof -
  obtain c cs where c: "show_nat (unat n) = c # cs" using show_nat_nonempty by (metis neq_Nil_conv)
  then have "c \<noteq> CHR ''+''" using show_nat_chars [of c "unat n"] by auto
  moreover have "unat n < 2 ^ 64" using unsigned_less [of n] by simp
  ultimately show ?thesis
    using parse_show_nat [of "unat n"] by (simp add: parse_u64_def c)
qed

lemma drain_written:
  assumes "writable e"
  shows "drain_lines (write_sse_event e @ rest) sse_parser_new = (case drain_lines rest sse_parser_new of (es, p) \<Rightarrow> (e # es, p))"
proof -
  let ?lines = "split_on (CHR 0x0A) [] (se_data e)"
  have data: "list_all one_line ?lines" "?lines \<noteq> []" "join nl ?lines = se_data e"
    using assms split_on_lines [of "CHR 0x0A" "[]" "se_data e"] by (auto simp: writable_def one_line_def list_all_iff nl_def)
  have digits: "one_line (show_nat k)" for k
    using show_nat_chars [of _ k] by (fastforce simp: one_line_def)
  have retry: "pred_option one_line (map_option (\<lambda>n. show_nat (unat n)) (se_retry e))"
    by (cases "se_retry e") (simp_all add: digits)
  let ?q = "\<lparr>sp_buffer = [], sp_event_name = se_event e, sp_data_lines = ?lines, sp_id = se_id e, sp_retry = se_retry e\<rparr>"
  have "drain_lines (write_sse_event e @ rest) sse_parser_new = drain_lines (nl @ rest) ?q"
    using assms data(1) retry
    by (simp add: write_sse_event_def drain_optional drain_data writable_def)
      (simp add: sse_parser_new_def set_field_def parse_u64_shown split: option.split)
  also have "\<dots> = (case drain_lines rest sse_parser_new of (es, p) \<Rightarrow> (e # es, p))"
    using drain_lines_line [of "[]" rest ?q] data(2,3)
    by (cases e) (simp add: nl_def process_line_def drop_cr_def take_sse_event_def events_of_def sse_parser_new_def)
  finally show ?thesis .
qed

text \<open>
  C29: Events written in the wire format come back: whatever the chunks the text arrives in, the
  parser emits exactly the events, in order, with their names, data of any number of lines, ids and
  retry times, and nothing is left over. (No name or id has a line break and no text a carriage
  return.)
\<close>

theorem events_read_back:
  assumes "list_all writable es" and "concat chunks = concat (map write_sse_event es)"
  shows "run_emit feed sse_parser_new chunks = (sse_parser_new, es)"
proof -
  have "list_all writable es \<Longrightarrow> drain_lines (concat (map write_sse_event es)) sse_parser_new = (es, sse_parser_new)" for es
  proof (induction es)
    case Nil
    then show ?case by (simp add: drain_lines_rest) (simp add: sse_parser_new_def)
  qed (simp add: drain_written)
  then have "feed sse_parser_new (concat chunks) = (sse_parser_new, es)"
    using assms by (simp add: feed_def push_chunk_def) (simp add: sse_parser_new_def)
  then show ?thesis using feed_all by (simp add: sse_parser_new_def)
qed

theorem events_read_back_witness:
  "run_emit feed sse_parser_new [''data: a'', nl @ ''data: b'' @ nl @ ''retr'', ''y: 30'' @ nl @ nl]
   = (sse_parser_new, [\<lparr>se_event = None, se_data = ''a'' @ nl @ ''b'', se_id = None, se_retry = Some 30\<rparr>])"
proof (rule events_read_back)
  show "list_all writable [\<lparr>se_event = None, se_data = ''a'' @ nl @ ''b'', se_id = None, se_retry = Some 30\<rparr>]"
    by (simp add: writable_def nl_def)
  show "concat [''data: a'', nl @ ''data: b'' @ nl @ ''retr'', ''y: 30'' @ nl @ nl]
      = concat (map write_sse_event [\<lparr>se_event = None, se_data = ''a'' @ nl @ ''b'', se_id = None, se_retry = Some 30\<rparr>])"
    by code_simp
qed

end
