(* ===== verification/RefTrust.thy ===== *)
theory RefTrust
  imports FileSys TextEdit
begin

text \<open>
  Trust in directories, \<open>claw-rust/crates/runtime/src/trust_resolver.rs\<close>: the configuration with its
  allowed patterns and denied roots, the matching of patterns, and the decision with its events. The
  denied roots are compared canonically on the file system, the allowed patterns as texts.
\<close>

section \<open>Data\<close>

datatype trust_policy = AutoTrust | RequireApproval | DenyTrust

datatype trust_resolution = AutoAllowlisted | ManualApproval

text \<open>The last carries the reason.\<close>

datatype trust_event =
    TrustRequired string "string option" "string option"
  | TrustResolved string trust_policy trust_resolution
  | TrustDenied string string

record allowlist_entry =
  ae_pattern :: string
  ae_worktree_pattern :: "string option"
  ae_description :: "string option"

definition entry_new :: "string \<Rightarrow> allowlist_entry" where
  "entry_new pattern = \<lparr>ae_pattern = pattern, ae_worktree_pattern = None, ae_description = None\<rparr>"

definition with_worktree_pattern :: "string \<Rightarrow> allowlist_entry \<Rightarrow> allowlist_entry" where
  "with_worktree_pattern pattern e = e\<lparr>ae_worktree_pattern := Some pattern\<rparr>"

definition with_description :: "string \<Rightarrow> allowlist_entry \<Rightarrow> allowlist_entry" where
  "with_description desc e = e\<lparr>ae_description := Some desc\<rparr>"

record trust_config =
  tr_allowlisted :: "allowlist_entry list"
  tr_denied :: "path list"
  tr_emit_events :: bool

definition trust_config_default :: trust_config where
  "trust_config_default = \<lparr>tr_allowlisted = [], tr_denied = [], tr_emit_events = True\<rparr>"

definition with_allowlisted_entry :: "allowlist_entry \<Rightarrow> trust_config \<Rightarrow> trust_config" where
  "with_allowlisted_entry e config = config\<lparr>tr_allowlisted := tr_allowlisted config @ [e]\<rparr>"

definition with_allowlisted :: "string \<Rightarrow> trust_config \<Rightarrow> trust_config" where
  "with_allowlisted pattern = with_allowlisted_entry (entry_new pattern)"

definition with_denied :: "string \<Rightarrow> trust_config \<Rightarrow> trust_config" where
  "with_denied root config = config\<lparr>tr_denied := tr_denied config @ [parse_path root]\<rparr>"

datatype trust_decision = NotRequired | Required trust_policy "trust_event list"

fun decision_policy :: "trust_decision \<Rightarrow> trust_policy option" where
  "decision_policy NotRequired = None"
| "decision_policy (Required policy _) = Some policy"

fun decision_events :: "trust_decision \<Rightarrow> trust_event list" where
  "decision_events NotRequired = []"
| "decision_events (Required _ events) = events"

section \<open>Patterns\<close>

text \<open>Pattern and text are lists of characters; a star tries every number of them.\<close>

fun glob_match :: "string list \<Rightarrow> string list \<Rightarrow> bool" where
  "glob_match [] s \<longleftrightarrow> s = []"
| "glob_match (c # p) s \<longleftrightarrow>
     (if c = ''*'' then p = [] \<or> list_ex (\<lambda>skip. glob_match p (drop skip s)) [0..<Suc (length s)]
      else if c = ''?'' then (case s of [] \<Rightarrow> False | _ # s' \<Rightarrow> glob_match p s')
      else (case s of [] \<Rightarrow> False | d # s' \<Rightarrow> d = c \<and> glob_match p s'))"

definition glob_matches :: "string \<Rightarrow> string \<Rightarrow> bool" where
  "glob_matches pattern path \<longleftrightarrow> glob_match (str_chars pattern) (str_chars path)"

text \<open>\<open>trim_end_matches\<close> with a text: it goes as often as it ends the text.\<close>

function trim_end_text :: "string \<Rightarrow> string \<Rightarrow> string" where
  "trim_end_text p s = (if p \<noteq> [] \<and> s \<noteq> [] \<and> ends_with s p then trim_end_text p (take (length s - length p) s) else s)"
  by pat_completeness auto
termination
  by (relation "measure (\<lambda>(p, s). length s)") auto

declare trim_end_text.simps [simp del]

definition bounded_rest :: "string option \<Rightarrow> (string \<Rightarrow> bool) \<Rightarrow> bool option" where
  "bounded_rest rest ok = map_option (\<lambda>r. r = [] \<or> ok r) rest"

definition prefix_verdict :: "string \<Rightarrow> string \<Rightarrow> bool option" where
  "prefix_verdict p s =
     (if \<not> contains p ''*'' \<and> \<not> contains p ''?'' then bounded_rest (strip_prefix p s) (\<lambda>r. starts_with r ''/'') else None)"

definition star_verdict :: "string \<Rightarrow> string \<Rightarrow> bool option" where
  "star_verdict p s =
     (if ends_with p ''/*'' then bounded_rest (strip_prefix (trim_end_text ''/*'' p) s) (\<lambda>r. starts_with r ''/'')
      else if ends_with p ''*'' \<and> \<not> contains p ''/*/'' then
        bounded_rest (strip_prefix (trim_end_matches (CHR ''*'') p) s) (\<lambda>r. \<not> starts_with r ''/'')
      else None)"

text \<open>The checks in their order; the first two may decide either way.\<close>

definition pattern_matches :: "string \<Rightarrow> string \<Rightarrow> bool" where
  "pattern_matches pattern path =
     (let pattern = trim pattern; path = trim path;
          p = replace_str pattern ''//'' ''/''; s = replace_str path ''//'' ''/'';
          components = split_on (CHR ''/'') [] s
      in if pattern = path then True
         else case prefix_verdict p s of
                Some verdict \<Rightarrow> verdict
              | None \<Rightarrow>
                  (case star_verdict p s of
                     Some verdict \<Rightarrow> verdict
                   | None \<Rightarrow>
                       if p \<in> set components \<or> list_ex (\<lambda>component. contains component p) components then True
                       else if contains pattern ''?'' \<or> contains pattern ''/*/'' \<or> starts_with pattern ''*/''
                       then glob_matches p s else False))"

definition entry_matches :: "string \<Rightarrow> string option \<Rightarrow> allowlist_entry \<Rightarrow> bool" where
  "entry_matches cwd worktree e \<longleftrightarrow> pattern_matches (ae_pattern e) cwd \<and>
     (case ae_worktree_pattern e of
        None \<Rightarrow> True
      | Some pattern \<Rightarrow> (case worktree of None \<Rightarrow> False | Some wt \<Rightarrow> pattern_matches pattern wt))"

definition is_allowlisted :: "trust_config \<Rightarrow> string \<Rightarrow> string option \<Rightarrow> allowlist_entry option" where
  "is_allowlisted config cwd worktree = find (entry_matches cwd worktree) (tr_allowlisted config)"

section \<open>Screens and paths\<close>

definition trust_prompt_cues :: "string list" where
  "trust_prompt_cues = [''do you trust the files in this folder'', ''trust the files in this folder'',
     ''trust this folder'', ''allow and continue'', ''yes, proceed'']"

definition detect_trust_prompt :: "string \<Rightarrow> bool" where
  "detect_trust_prompt screen_text \<longleftrightarrow> list_ex (contains (to_ascii_lowercase screen_text)) trust_prompt_cues"

definition manual_approval_cues :: "string list" where
  "manual_approval_cues = [''yes, i trust'', ''i trust this'', ''trusted manually'', ''approval granted'']"

definition detect_manual_approval :: "string \<Rightarrow> bool" where
  "detect_manual_approval screen_text \<longleftrightarrow> list_ex (contains (to_ascii_lowercase screen_text)) manual_approval_cues"

definition normalize_path :: "path \<Rightarrow> fs \<Rightarrow> path \<times> fs" where
  "normalize_path p s =
     (case fs_canonicalize p s of (Inr l, s') \<Rightarrow> (path_of_loc l, s') | (Inl _, s') \<Rightarrow> (p, s'))"

definition path_matches :: "string \<Rightarrow> path \<Rightarrow> fs \<Rightarrow> bool \<times> fs" where
  "path_matches candidate root s =
     (let (candidate, s1) = normalize_path (parse_path candidate) s; (root, s2) = normalize_path root s1
      in (candidate = root \<or> path_starts_with candidate root, s2))"

definition path_matches_trusted_root :: "string \<Rightarrow> string \<Rightarrow> fs \<Rightarrow> bool \<times> fs" where
  "path_matches_trusted_root cwd trusted_root s =
     (let (root, s1) = normalize_path (parse_path trusted_root) s in path_matches cwd root s1)"

fun find_denied :: "string \<Rightarrow> path list \<Rightarrow> fs \<Rightarrow> path option \<times> fs" where
  "find_denied cwd [] s = (None, s)"
| "find_denied cwd (root # roots) s =
     (let (matching, s1) = path_matches cwd root s
      in if matching then (Some root, s1) else find_denied cwd roots s1)"

definition fs_is_dir :: "path \<Rightarrow> fs \<Rightarrow> bool \<times> fs" where
  "fs_is_dir p s =
     (case guarded s (\<lambda>s. (map_err id (and_then (locate False s p) (\<lambda>l. Inr (node_at (fs_nodes s) l = Some DirNode))), s)) of
        (Inl _, s') \<Rightarrow> (False, s')
      | (Inr d, s') \<Rightarrow> (d, s'))"

text \<open>Up from the directory to the first with a \<open>.git\<close>; \<open>fallback\<close> is the name it came from.\<close>

definition lossy_name :: "path \<Rightarrow> string option" where
  "lossy_name p = map_option utf8_lossy (file_name p)"

function repo_name_from :: "string option \<Rightarrow> path \<Rightarrow> fs \<Rightarrow> string option \<times> fs" where
  "repo_name_from fallback p s =
     (let (found, s1) = fs_is_dir (path_join p [Name ''.git'']) s
      in if found then (lossy_name p, s1)
         else case path_parent p of None \<Rightarrow> (fallback, s1) | Some parent \<Rightarrow> repo_name_from fallback parent s1)"
  by pat_completeness auto
termination
  by (relation "measure (\<lambda>(fallback, p, s). length p)") (auto simp: path_parent_def split: if_splits)

declare repo_name_from.simps [simp del]

definition extract_repo_name :: "string \<Rightarrow> fs \<Rightarrow> string option \<times> fs" where
  "extract_repo_name cwd = repo_name_from (lossy_name (parse_path cwd)) (parse_path cwd)"

section \<open>The decision\<close>

definition resolve :: "trust_config \<Rightarrow> string \<Rightarrow> string option \<Rightarrow> string \<Rightarrow> fs \<Rightarrow> trust_decision \<times> fs" where
  "resolve config cwd worktree screen_text s =
     (if \<not> detect_trust_prompt screen_text then (NotRequired, s)
      else let (repo, s1) = extract_repo_name cwd s;
               required = TrustRequired cwd repo worktree;
               (denied, s2) = find_denied cwd (tr_denied config) s1
           in (case denied of
                 Some root \<Rightarrow> Required DenyTrust [required,
                   TrustDenied cwd (''cwd matches denied trust root: '' @ utf8_lossy (show_path root))]
               | None \<Rightarrow>
                   if is_allowlisted config cwd worktree \<noteq> None then
                     Required AutoTrust [required, TrustResolved cwd AutoTrust AutoAllowlisted]
                   else if detect_manual_approval screen_text then
                     Required RequireApproval [required, TrustResolved cwd RequireApproval ManualApproval]
                   else Required RequireApproval [required], s2))"

definition trusts :: "trust_config \<Rightarrow> string \<Rightarrow> string option \<Rightarrow> fs \<Rightarrow> bool \<times> fs" where
  "trusts config cwd worktree s =
     (let (denied, s1) = find_denied cwd (tr_denied config) s
      in (denied = None \<and> is_allowlisted config cwd worktree \<noteq> None, s1))"

section \<open>Globs\<close>

text \<open>What a glob means: a star stands for any characters, a question mark for one.\<close>

inductive globbed :: "string list \<Rightarrow> string list \<Rightarrow> bool" where
  glob_end: "globbed [] []"
| glob_star: "globbed p s \<Longrightarrow> globbed (''*'' # p) (w @ s)"
| glob_any: "globbed p s \<Longrightarrow> globbed (''?'' # p) (c # s)"
| glob_char: "c \<noteq> ''*'' \<Longrightarrow> c \<noteq> ''?'' \<Longrightarrow> globbed p s \<Longrightarrow> globbed (c # p) (c # s)"

inductive_simps globbed_Nil: "globbed [] s"
inductive_simps globbed_star: "globbed (''*'' # p) s"
inductive_simps globbed_any: "globbed (''?'' # p) s"
inductive_simps globbed_Cons: "globbed (c # p) s"

lemma globbed_everything: "globbed [''*''] s"
  using glob_star [OF glob_end, of s] by simp

text \<open>
  The backtracking matcher decides exactly the meaning of the glob.
\<close>

theorem glob_matches_exact:
  "glob_matches pattern path \<longleftrightarrow> globbed (str_chars pattern) (str_chars path)"
proof -
  have "glob_match p s \<longleftrightarrow> globbed p s" for p s
  proof (induction p arbitrary: s)
    case Nil
    then show ?case by (simp add: globbed_Nil)
  next
    case (Cons c p)
    consider "c = ''*''" | "c = ''?''" | "c \<noteq> ''*''" "c \<noteq> ''?''" by blast
    then show ?case
    proof cases
      case 1
      have "list_ex (\<lambda>k. glob_match p (drop k s)) [0..<Suc (length s)] \<longleftrightarrow> (\<exists>k \<le> length s. globbed p (drop k s))"
        unfolding list_ex_iff Cons set_upt by (auto simp: less_Suc_eq_le)
      also have "\<dots> \<longleftrightarrow> (\<exists>w t. s = w @ t \<and> globbed p t)"
        by (metis append_eq_conv_conj append_take_drop_id le_add1 length_append)
      also have "\<dots> \<longleftrightarrow> globbed (''*'' # p) s" by (auto simp: globbed_star)
      finally have "list_ex (\<lambda>k. glob_match p (drop k s)) [0..<Suc (length s)] \<longleftrightarrow> globbed (''*'' # p) s" .
      moreover have "p = [] \<Longrightarrow> globbed (''*'' # p) s" using globbed_everything by simp
      ultimately show ?thesis unfolding 1 glob_match.simps(2) if_P [OF refl] by blast
    next
      case 2
      then show ?thesis using Cons by (cases s) (simp_all add: globbed_any)
    next
      case 3
      then show ?thesis using Cons by (cases s) (auto simp: globbed_Cons [of c])
    qed
  qed
  then show ?thesis by (simp add: glob_matches_def)
qed

section \<open>The decision\<close>

lemma no_faults_guarded: "fs_faults s = [] \<Longrightarrow> guarded s f = f s"
  by (simp add: guarded_def)

lemma path_matches_same: "fs_faults s = [] \<Longrightarrow> snd (path_matches cwd root s) = s"
  by (auto simp: path_matches_def normalize_path_def fs_canonicalize_def no_faults_guarded Let_def
      split: prod.splits sum.splits)

lemma find_denied_same:
  "fs_faults s = [] \<Longrightarrow> find_denied cwd roots s = (find (\<lambda>root. fst (path_matches cwd root s)) roots, s)"
  by (induction roots) (auto simp: Let_def path_matches_same case_prod_unfold)

lemma fs_is_dir_same: "fs_faults s = [] \<Longrightarrow> snd (fs_is_dir p s) = s"
  by (auto simp: fs_is_dir_def no_faults_guarded map_err_def split: prod.splits sum.splits)

lemma repo_name_same: "fs_faults s = [] \<Longrightarrow> snd (repo_name_from fallback p s) = s"
proof (induction fallback p s rule: repo_name_from.induct)
  case (1 fallback p s)
  obtain found s1 where f: "fs_is_dir (path_join p [Name ''.git'']) s = (found, s1)" by fastforce
  then have "s1 = s" using fs_is_dir_same [OF 1(2), of "path_join p [Name ''.git'']"] by simp
  then show ?case
    using 1 f by (subst repo_name_from.simps) (auto split: option.split)
qed

text \<open>
  C28: On files without faults and with a screen that asks for trust, a directory is trusted without asking
  exactly when \<open>trusts\<close> holds of it (an allowed pattern matches and no denied root contains it) and refused
  exactly when a denied root contains it; the events are the question and then the answer that goes with
  the policy. With any other screen no decision is required: nothing is refused, trusted or recorded.
\<close>

theorem trust_decided:
  assumes "fs_faults s = []"
  shows "if detect_trust_prompt screen then
    (decision_policy (fst (resolve config cwd worktree screen s)) = Some AutoTrust
      \<longleftrightarrow> fst (trusts config cwd worktree s))
    \<and> (decision_policy (fst (resolve config cwd worktree screen s)) = Some DenyTrust
      \<longleftrightarrow> list_ex (\<lambda>root. fst (path_matches cwd root s)) (tr_denied config))
    \<and> (\<exists>repo answer. decision_events (fst (resolve config cwd worktree screen s)) = TrustRequired cwd repo worktree # answer
      \<and> (case the (decision_policy (fst (resolve config cwd worktree screen s))) of
           AutoTrust \<Rightarrow> answer = [TrustResolved cwd AutoTrust AutoAllowlisted]
         | DenyTrust \<Rightarrow> \<exists>reason. answer = [TrustDenied cwd reason]
         | RequireApproval \<Rightarrow> answer = (if detect_manual_approval screen then [TrustResolved cwd RequireApproval ManualApproval] else [])))
    else decision_policy (fst (resolve config cwd worktree screen s)) = None
      \<and> decision_events (fst (resolve config cwd worktree screen s)) = []"
proof -
  obtain repo s1 where "extract_repo_name cwd s = (repo, s1)" by fastforce
  moreover from this have "s1 = s"
    using repo_name_same [OF assms(1)] unfolding extract_repo_name_def by (metis snd_conv)
  ultimately have "extract_repo_name cwd s = (repo, s)" by simp
  moreover have "list_ex f xs \<longleftrightarrow> find f xs \<noteq> None" for f and xs :: "path list"
    by (auto simp: find_None_iff list_ex_iff)
  ultimately show ?thesis
    by (cases "detect_trust_prompt screen"; cases "find (\<lambda>root. fst (path_matches cwd root s)) (tr_denied config)";
        cases "is_allowlisted config cwd worktree"; cases "detect_manual_approval screen")
      (simp_all add: resolve_def trusts_def find_denied_same [OF assms(1)] Let_def)
qed

text \<open>Allowed patterns are compared as texts, so the path of a directory outside an allowed one can
  match it; and any text within a name matches too.\<close>

definition bare_files :: fs where
  "bare_files = \<lparr>fs_nodes = [], fs_cwd = [], fs_faults = []\<rparr>"

lemma trust_escapes:
  "fst (trusts (with_allowlisted ''/w'' trust_config_default) ''/w/../etc'' None bare_files)"
  "fst (trusts (with_allowlisted ''a'' trust_config_default) ''/etc/passwd'' None bare_files)"
  by code_simp+

theorem trust_decided_witness:
  "decision_policy (fst (resolve (with_denied ''/w'' (with_allowlisted ''/w'' trust_config_default)) ''/w/x'' None
     ''Trust this folder?'' bare_files)) = Some DenyTrust"
proof -
  have screen: "detect_trust_prompt ''Trust this folder?''" by code_simp
  have faults: "fs_faults bare_files = []" by (simp add: bare_files_def)
  have "list_ex (\<lambda>root. fst (path_matches ''/w/x'' root bare_files))
      (tr_denied (with_denied ''/w'' (with_allowlisted ''/w'' trust_config_default)))" by code_simp
  then show ?thesis
    using trust_decided [OF faults, of "''Trust this folder?''" "with_denied ''/w'' (with_allowlisted ''/w'' trust_config_default)" "''/w/x''" None]
    unfolding if_P [OF screen] by blast
qed

end
