(* ===== verification/RefFiles.thy ===== *)
theory RefFiles
  imports FileSys TextEdit
begin

text \<open>
  The file tools of the reference runtime, \<open>runtime/src/file_ops.rs\<close>: reading, writing and editing
  files, the same within a workspace, and the searches by glob and by regular expression. The crates
  \<open>glob\<close>, \<open>regex\<close> and \<open>walkdir\<close>, the times of files and the clock are the fields of a \<open>file_env\<close>. An
  error made here is \<open>OtherIo\<close> with its text. The arguments that the code adds to an index are words.
\<close>

section \<open>The environment\<close>

record compiled_regex =
  cx_is_match :: "string \<Rightarrow> bool"
  cx_count :: "string \<Rightarrow> nat"

record compiled_pattern =
  cp_matches :: "string \<Rightarrow> bool"
  cp_matches_path :: "path \<Rightarrow> bool"

text \<open>A glob gives entries and unreadable ones, a walk its entries with whether each is a file.\<close>

record file_env =
  fe_glob :: "string \<Rightarrow> fs \<Rightarrow> string + (string + path) list"
  fe_pattern :: "string \<Rightarrow> string + compiled_pattern"
  fe_regex :: "string \<Rightarrow> bool \<Rightarrow> bool \<Rightarrow> string + compiled_regex"
  fe_walk :: "path \<Rightarrow> fs \<Rightarrow> (string + path \<times> bool) list"
  fe_modified :: "path \<Rightarrow> fs \<Rightarrow> nat option"
  fe_elapsed :: nat

section \<open>Results\<close>

record text_file_payload =
  tf_file_path :: string
  tf_content :: string
  tf_num_lines :: nat
  tf_start_line :: nat
  tf_total_lines :: nat

record read_file_output =
  rf_kind :: string
  rf_file :: text_file_payload

record patch_hunk =
  ph_old_start :: nat
  ph_old_lines :: nat
  ph_new_start :: nat
  ph_new_lines :: nat
  ph_lines :: "string list"

text \<open>\<open>git_diff\<close> is always absent, \<open>user_modified\<close> always false; they have no fields.\<close>

record write_file_output =
  wf_kind :: string
  wf_file_path :: string
  wf_content :: string
  wf_structured_patch :: "patch_hunk list"
  wf_original_file :: "string option"

record edit_file_output =
  ef_file_path :: string
  ef_old_string :: string
  ef_new_string :: string
  ef_original_file :: string
  ef_structured_patch :: "patch_hunk list"
  ef_replace_all :: bool

record glob_search_output =
  go_duration_ms :: nat
  go_num_files :: nat
  go_filenames :: "string list"
  go_truncated :: bool

record grep_search_input =
  gi_pattern :: string
  gi_path :: "string option"
  gi_glob :: "string option"
  gi_output_mode :: "string option"
  gi_before :: "u64 option"
  gi_after :: "u64 option"
  gi_context_short :: "u64 option"
  gi_context :: "u64 option"
  gi_line_numbers :: "bool option"
  gi_case_insensitive :: "bool option"
  gi_file_type :: "string option"
  gi_head_limit :: "nat option"
  gi_offset :: "nat option"
  gi_multiline :: "bool option"

record grep_search_output =
  gr_mode :: "string option"
  gr_num_files :: nat
  gr_filenames :: "string list"
  gr_content :: "string option"
  gr_num_lines :: "nat option"
  gr_num_matches :: "nat option"
  gr_applied_limit :: "nat option"
  gr_applied_offset :: "nat option"

section \<open>Paths\<close>

definition max_read_size :: nat where
  "max_read_size = 10 * 1024 * 1024"

definition max_write_size :: nat where
  "max_write_size = 10 * 1024 * 1024"

definition candidate_path :: "string \<Rightarrow> fs \<Rightarrow> (io_error + path) \<times> fs" where
  "candidate_path p s =
     (if is_absolute (parse_path p) then (Inr (parse_path p), s)
      else io_bind (fs_current_dir s) (\<lambda>d s. (Inr (path_join d (parse_path p)), s)))"

definition normalize_path :: "string \<Rightarrow> fs \<Rightarrow> (io_error + path) \<times> fs" where
  "normalize_path p s =
     io_bind (candidate_path p s) (\<lambda>candidate s.
     io_bind (fs_canonicalize candidate s) (\<lambda>l s. (Inr (path_of_loc l), s)))"

definition normalize_path_allow_missing :: "string \<Rightarrow> fs \<Rightarrow> (io_error + path) \<times> fs" where
  "normalize_path_allow_missing p s =
     io_bind (candidate_path p s) (\<lambda>candidate s.
       case fs_canonicalize candidate s of
         (Inr l, s) \<Rightarrow> (Inr (path_of_loc l), s)
       | (Inl _, s) \<Rightarrow>
           (case path_parent candidate of
              None \<Rightarrow> (Inr candidate, s)
            | Some parent \<Rightarrow>
                (let (canonical_parent, s) = canonical_or parent s
                 in case file_name candidate of
                      None \<Rightarrow> (Inr candidate, s)
                    | Some name \<Rightarrow> (Inr (path_join canonical_parent [Name name]), s))))"

definition validate_workspace_boundary :: "path \<Rightarrow> path \<Rightarrow> io_error + unit" where
  "validate_workspace_boundary resolved workspace_root =
     (if path_starts_with resolved workspace_root then Inr ()
      else Inl (OtherIo (''path '' @ utf8_lossy (show_path resolved) @ '' escapes workspace boundary ''
             @ utf8_lossy (show_path workspace_root))))"

section \<open>Reading, writing, editing\<close>

definition is_binary_file :: "path \<Rightarrow> fs \<Rightarrow> (io_error + bool) \<times> fs" where
  "is_binary_file p s = io_bind (fs_read p s) (\<lambda>bytes s. (Inr (CHR 0x00 \<in> set (take 8192 bytes)), s))"

text \<open>The additions saturate, which a number of lines bounds.\<close>

definition window :: "nat option \<Rightarrow> nat option \<Rightarrow> nat \<Rightarrow> nat \<times> nat" where
  "window offset limit count =
     (let start = min (unwrap_or 0 offset) count
      in (start, case limit of None \<Rightarrow> count | Some l \<Rightarrow> min (start + l) count))"

definition file_payload :: "path \<Rightarrow> nat option \<Rightarrow> nat option \<Rightarrow> string \<Rightarrow> read_file_output" where
  "file_payload p offset limit content =
     (let ls = str_lines content; (start, end_index) = window offset limit (length ls)
      in \<lparr>rf_kind = ''text'',
          rf_file = \<lparr>tf_file_path = utf8_lossy (show_path p),
            tf_content = join nl (take (end_index - start) (drop start ls)), tf_num_lines = end_index - start,
            tf_start_line = start + 1, tf_total_lines = length ls\<rparr>\<rparr>)"

definition read_file :: "string \<Rightarrow> nat option \<Rightarrow> nat option \<Rightarrow> fs \<Rightarrow> (io_error + read_file_output) \<times> fs" where
  "read_file p offset limit s =
     io_bind (normalize_path p s) (\<lambda>absolute_path s.
     io_bind (fs_metadata_len absolute_path s) (\<lambda>len s.
       if max_read_size < len
       then (Inl (OtherIo (''file is too large ('' @ show_nat len @ '' bytes, max '' @ show_nat max_read_size @ '' bytes)'')), s)
       else io_bind (is_binary_file absolute_path s) (\<lambda>binary s.
         if binary then (Inl (OtherIo ''file appears to be binary''), s)
         else io_bind (fs_read_to_string absolute_path s) (\<lambda>content s.
           (Inr (file_payload absolute_path offset limit content), s)))))"

definition make_patch :: "string \<Rightarrow> string \<Rightarrow> patch_hunk list" where
  "make_patch original updated =
     [\<lparr>ph_old_start = 1, ph_old_lines = length (str_lines original), ph_new_start = 1,
       ph_new_lines = length (str_lines updated),
       ph_lines = map (\<lambda>line. ''-'' @ line) (str_lines original) @ map (\<lambda>line. ''+'' @ line) (str_lines updated)\<rparr>]"

definition write_absolute :: "path \<Rightarrow> string \<Rightarrow> fs \<Rightarrow> (io_error + write_file_output) \<times> fs" where
  "write_absolute absolute_path content s =
     (let (original_file, s) = (case fs_read_to_string absolute_path s of (Inl _, s') \<Rightarrow> (None, s') | (Inr c, s') \<Rightarrow> (Some c, s'))
      in io_bind (case path_parent absolute_path of None \<Rightarrow> (Inr (), s) | Some parent \<Rightarrow> fs_create_dir_all parent s) (\<lambda>_ s.
         io_bind (fs_write absolute_path content s) (\<lambda>_ s.
           (Inr \<lparr>wf_kind = (if original_file \<noteq> None then ''update'' else ''create''),
              wf_file_path = utf8_lossy (show_path absolute_path), wf_content = content,
              wf_structured_patch = make_patch (unwrap_or [] original_file) content,
              wf_original_file = original_file\<rparr>, s))))"

definition write_file :: "string \<Rightarrow> string \<Rightarrow> fs \<Rightarrow> (io_error + write_file_output) \<times> fs" where
  "write_file p content s =
     (if max_write_size < length content
      then (Inl (OtherIo (''content is too large ('' @ show_nat (length content) @ '' bytes, max ''
             @ show_nat max_write_size @ '' bytes)'')), s)
      else io_bind (normalize_path_allow_missing p s) (\<lambda>absolute_path s. write_absolute absolute_path content s))"

text \<open>\<open>replace\<close> and \<open>replacen(.., 1)\<close>; an empty text is found before every character and at the end.\<close>

definition replaced :: "bool \<Rightarrow> string \<Rightarrow> string \<Rightarrow> string \<Rightarrow> string" where
  "replaced every old new original =
     (if \<not> every then replace_first original old new
      else if old = [] then concat (map (\<lambda>c. new @ c) (str_chars original)) @ new
      else replace_str original old new)"

definition edit_file :: "string \<Rightarrow> string \<Rightarrow> string \<Rightarrow> bool \<Rightarrow> fs \<Rightarrow> (io_error + edit_file_output) \<times> fs" where
  "edit_file p old new replace_all s =
     io_bind (normalize_path p s) (\<lambda>absolute_path s.
     io_bind (fs_read_to_string absolute_path s) (\<lambda>original s.
       if old = new then (Inl (OtherIo ''old_string and new_string must differ''), s)
       else if \<not> contains original old then (Inl (OtherIo ''old_string not found in file''), s)
       else let updated = replaced replace_all old new original
            in io_bind (fs_write absolute_path updated s) (\<lambda>_ s.
              (Inr \<lparr>ef_file_path = utf8_lossy (show_path absolute_path), ef_old_string = old, ef_new_string = new,
                 ef_original_file = original, ef_structured_patch = make_patch original updated,
                 ef_replace_all = replace_all\<rparr>, s))))"

section \<open>In a workspace\<close>

definition check_boundary :: "path \<Rightarrow> path \<Rightarrow> fs \<Rightarrow> (io_error + unit) \<times> fs" where
  "check_boundary workspace_root absolute_path s =
     (let (canonical_root, s) = canonical_or workspace_root s
      in (validate_workspace_boundary absolute_path canonical_root, s))"

definition read_file_in_workspace ::
  "string \<Rightarrow> nat option \<Rightarrow> nat option \<Rightarrow> path \<Rightarrow> fs \<Rightarrow> (io_error + read_file_output) \<times> fs" where
  "read_file_in_workspace p offset limit workspace_root s =
     io_bind (normalize_path p s) (\<lambda>absolute_path s.
     io_bind (check_boundary workspace_root absolute_path s) (\<lambda>_ s. read_file p offset limit s))"

definition write_file_in_workspace :: "string \<Rightarrow> string \<Rightarrow> path \<Rightarrow> fs \<Rightarrow> (io_error + write_file_output) \<times> fs" where
  "write_file_in_workspace p content workspace_root s =
     io_bind (normalize_path_allow_missing p s) (\<lambda>absolute_path s.
     io_bind (check_boundary workspace_root absolute_path s) (\<lambda>_ s. write_file p content s))"

definition edit_file_in_workspace ::
  "string \<Rightarrow> string \<Rightarrow> string \<Rightarrow> bool \<Rightarrow> path \<Rightarrow> fs \<Rightarrow> (io_error + edit_file_output) \<times> fs" where
  "edit_file_in_workspace p old new replace_all workspace_root s =
     io_bind (normalize_path p s) (\<lambda>absolute_path s.
     io_bind (check_boundary workspace_root absolute_path s) (\<lambda>_ s. edit_file p old new replace_all s))"

text \<open>\<open>symlink_metadata\<close> does not follow the last name.\<close>

definition fs_is_symlink :: "path \<Rightarrow> fs \<Rightarrow> (io_error + bool) \<times> fs" where
  "fs_is_symlink p s =
     guarded s (\<lambda>s. (and_then (if file_name p = None then locate False s p else entry_loc s p) (\<lambda>l.
        case node_at (fs_nodes s) l of
          None \<Rightarrow> Inl NotFound | Some (LinkNode _) \<Rightarrow> Inr True | Some _ \<Rightarrow> Inr False), s))"

definition is_symlink_escape :: "path \<Rightarrow> path \<Rightarrow> fs \<Rightarrow> (io_error + bool) \<times> fs" where
  "is_symlink_escape p workspace_root s =
     io_bind (fs_is_symlink p s) (\<lambda>link s.
       if \<not> link then (Inr False, s)
       else io_bind (fs_canonicalize p s) (\<lambda>l s.
         let (canonical_root, s) = canonical_or workspace_root s
         in (Inr (\<not> path_starts_with (path_of_loc l) canonical_root), s)))"

section \<open>Searching by name\<close>

lemma split_on_length: "x \<in> set (split_on d acc s) \<Longrightarrow> length x \<le> length acc + length s"
  by (induction d acc s rule: split_on.induct) (auto split: if_splits)

function expand_braces :: "string \<Rightarrow> string list" where
  "expand_braces pattern =
     (case split_at_char (CHR ''{'') pattern of
        (_, None) \<Rightarrow> [pattern]
      | (prefix, Some rest) \<Rightarrow>
          (case split_at_char (CHR ''}'') rest of
             (_, None) \<Rightarrow> [pattern]
           | (alternatives, Some suffix) \<Rightarrow>
               concat (map (\<lambda>alt. expand_braces (prefix @ alt @ suffix)) (split_on (CHR '','') [] alternatives))))"
  by pat_completeness auto
termination
  by (relation "measure length") (auto dest!: split_at_char_length [OF sym] split_on_length)

declare expand_braces.simps [simp del]

definition search_pattern :: "path \<Rightarrow> string \<Rightarrow> string" where
  "search_pattern base_dir pattern =
     (if is_absolute (parse_path pattern) then pattern
      else utf8_lossy (show_path base_dir @ (if ends_with (show_path base_dir) ''/'' then [] else ''/'') @ pattern))"

text \<open>The base of a search; the current directory is asked for even when a path is given.\<close>

definition search_base :: "string option \<Rightarrow> fs \<Rightarrow> (io_error + path) \<times> fs" where
  "search_base p s =
     io_bind (case p of None \<Rightarrow> (Inr None, s) | Some p \<Rightarrow> io_bind (normalize_path p s) (\<lambda>l s. (Inr (Some l), s))) (\<lambda>given s.
     io_bind (fs_current_dir s) (\<lambda>cwd s. (Inr (unwrap_or cwd given), s)))"

text \<open>The files the patterns give, without repetitions; those without a time come first, then the newest.\<close>

definition found_files :: "(string + path) list list \<Rightarrow> fs \<Rightarrow> path list" where
  "found_files entries s =
     rev (remdups (rev (filter (\<lambda>p. fs_is_file p s) (concat (map (concat \<circ> map (case_sum (\<lambda>_. []) (\<lambda>p. [p]))) entries)))))"

definition newest_first :: "(path \<Rightarrow> nat option) \<Rightarrow> path list \<Rightarrow> path list" where
  "newest_first modified ps =
     filter (\<lambda>p. modified p = None) ps @ sort_key (\<lambda>p. - int (the (modified p))) (filter (\<lambda>p. modified p \<noteq> None) ps)"

definition glob_search :: "file_env \<Rightarrow> string \<Rightarrow> string option \<Rightarrow> fs \<Rightarrow> (io_error + glob_search_output) \<times> fs" where
  "glob_search env pattern p s =
     io_bind (search_base p s) (\<lambda>base_dir s.
     io_bind (map_err OtherIo (try_map (\<lambda>pat. fe_glob env pat s) (expand_braces (search_pattern base_dir pattern))), s) (\<lambda>entries s.
       let matches = newest_first (\<lambda>p. fe_modified env p s) (found_files entries s);
           filenames = map (\<lambda>p. utf8_lossy (show_path p)) (take 100 matches)
       in (Inr \<lparr>go_duration_ms = fe_elapsed env, go_num_files = length filenames, go_filenames = filenames,
             go_truncated = 100 < length matches\<rparr>, s)))"

section \<open>Searching by content\<close>

definition collect_search_files :: "file_env \<Rightarrow> path \<Rightarrow> fs \<Rightarrow> io_error + path list" where
  "collect_search_files env base_path s =
     (if fs_is_file base_path s then Inr [base_path]
      else and_then (map_err OtherIo (try_map id (fe_walk env base_path s))) (\<lambda>entries.
        Inr (map fst (filter snd entries))))"

definition matches_optional_filters :: "path \<Rightarrow> compiled_pattern option \<Rightarrow> string option \<Rightarrow> bool" where
  "matches_optional_filters p glob_filter file_type \<longleftrightarrow>
     (case glob_filter of None \<Rightarrow> True | Some g \<Rightarrow> cp_matches g (utf8_lossy (show_path p)) \<or> cp_matches_path g p)
     \<and> (case file_type of
          None \<Rightarrow> True
        | Some t \<Rightarrow> (case path_extension p of None \<Rightarrow> False | Some ext \<Rightarrow> valid_utf8 ext \<and> ext = t))"

definition apply_limit :: "'a list \<Rightarrow> nat option \<Rightarrow> nat option \<Rightarrow> 'a list \<times> nat option \<times> nat option" where
  "apply_limit items limit offset =
     (let offset_value = unwrap_or 0 offset; items = drop offset_value items; explicit_limit = unwrap_or 250 limit;
          applied_offset = (if offset_value > 0 then Some offset_value else None)
      in if explicit_limit = 0 then (items, None, applied_offset)
         else (take explicit_limit items, if explicit_limit < length items then Some explicit_limit else None, applied_offset))"

text \<open>The lines shown for a match: from \<open>before\<close> of them above to \<open>after\<close> below, where the sum of the
  words wraps.\<close>

definition context_range :: "u64 \<Rightarrow> u64 \<Rightarrow> nat \<Rightarrow> nat \<Rightarrow> nat list" where
  "context_range before after count index = [index - unat before ..< min (unat (of_nat index + after + 1)) count]"

record grep_found =
  gf_filenames :: "string list"
  gf_content_lines :: "string list"
  gf_total_matches :: nat

definition context_lines :: "grep_search_input \<Rightarrow> path \<Rightarrow> string list \<Rightarrow> nat \<Rightarrow> string list" where
  "context_lines input p ls index =
     (let context = unwrap_or 0 (case gi_context input of None \<Rightarrow> gi_context_short input | Some c \<Rightarrow> Some c);
          name = utf8_lossy (show_path p)
      in map (\<lambda>current. (if unwrap_or True (gi_line_numbers input) then name @ '':'' @ show_nat (current + 1) @ '':''
                         else name @ '':'') @ ls ! current)
           (context_range (unwrap_or context (gi_before input)) (unwrap_or context (gi_after input)) (length ls) index))"

definition grep_text :: "grep_search_input \<Rightarrow> string \<Rightarrow> compiled_regex \<Rightarrow> path \<Rightarrow> string \<Rightarrow> grep_found \<Rightarrow> grep_found" where
  "grep_text input output_mode regex p contents found =
     (let name = utf8_lossy (show_path p) in
      if output_mode = ''count'' then
        (let count = cx_count regex contents
         in if 0 < count then found\<lparr>gf_filenames := gf_filenames found @ [name], gf_total_matches := gf_total_matches found + count\<rparr>
            else found)
      else
        (let ls = str_lines contents;
             matched = filter (\<lambda>i. cx_is_match regex (ls ! i)) [0..<length ls];
             found = found\<lparr>gf_total_matches := gf_total_matches found + length matched\<rparr>
         in if matched = [] then found
            else found\<lparr>gf_filenames := gf_filenames found @ [name],
                   gf_content_lines := gf_content_lines found @
                     (if output_mode = ''content'' then concat (map (context_lines input p ls) matched) else [])\<rparr>))"

fun grep_files :: "grep_search_input \<Rightarrow> string \<Rightarrow> compiled_regex \<Rightarrow> compiled_pattern option \<Rightarrow> path list \<Rightarrow> grep_found \<Rightarrow> fs
    \<Rightarrow> grep_found \<times> fs" where
  "grep_files input output_mode regex glob_filter [] found s = (found, s)"
| "grep_files input output_mode regex glob_filter (p # ps) found s =
     (if \<not> matches_optional_filters p glob_filter (gi_file_type input)
      then grep_files input output_mode regex glob_filter ps found s
      else case fs_read_to_string p s of
             (Inl _, s) \<Rightarrow> grep_files input output_mode regex glob_filter ps found s
           | (Inr contents, s) \<Rightarrow>
               grep_files input output_mode regex glob_filter ps (grep_text input output_mode regex p contents found) s)"

definition grep_output :: "grep_search_input \<Rightarrow> string \<Rightarrow> grep_found \<Rightarrow> grep_search_output" where
  "grep_output input output_mode found =
     (let (filenames, limit, offset) = apply_limit (gf_filenames found) (gi_head_limit input) (gi_offset input)
      in if output_mode = ''content'' then
           (let (ls, limit, offset) = apply_limit (gf_content_lines found) (gi_head_limit input) (gi_offset input)
            in \<lparr>gr_mode = Some output_mode, gr_num_files = length filenames, gr_filenames = filenames,
                gr_content = Some (join nl ls), gr_num_lines = Some (length ls), gr_num_matches = None,
                gr_applied_limit = limit, gr_applied_offset = offset\<rparr>)
         else \<lparr>gr_mode = Some output_mode, gr_num_files = length filenames, gr_filenames = filenames,
                gr_content = None, gr_num_lines = None,
                gr_num_matches = (if output_mode = ''count'' then Some (gf_total_matches found) else None),
                gr_applied_limit = limit, gr_applied_offset = offset\<rparr>)"

definition grep_search :: "file_env \<Rightarrow> grep_search_input \<Rightarrow> fs \<Rightarrow> (io_error + grep_search_output) \<times> fs" where
  "grep_search env input s =
     io_bind (search_base (gi_path input) s) (\<lambda>base_path s.
     io_bind (map_err OtherIo (fe_regex env (gi_pattern input) (unwrap_or False (gi_case_insensitive input))
                (unwrap_or False (gi_multiline input))), s) (\<lambda>regex s.
     io_bind (case gi_glob input of
                None \<Rightarrow> Inr None | Some g \<Rightarrow> and_then (map_err OtherIo (fe_pattern env g)) (\<lambda>p. Inr (Some p)), s) (\<lambda>glob_filter s.
     io_bind (collect_search_files env base_path s, s) (\<lambda>files s.
       let output_mode = unwrap_or ''files_with_matches'' (gi_output_mode input);
           (found, s) = grep_files input output_mode regex glob_filter files
             \<lparr>gf_filenames = [], gf_content_lines = [], gf_total_matches = 0\<rparr> s
       in (Inr (grep_output input output_mode found), s)))))"

end
