(* ===== verification/RefFilesCorrect.thy ===== *)
theory RefFilesCorrect
  imports RefFiles
begin

text \<open>
  The file tools of the reference runtime: brace patterns expand to the product of their
  alternatives, and what the workspace functions may touch.
\<close>

section \<open>Braces\<close>

text \<open>A pattern without nested groups, what it stands for, and how it is written.\<close>

datatype segment = Literal string | Group "string list"

fun writable_segment :: "segment \<Rightarrow> bool" where
  "writable_segment (Literal l) \<longleftrightarrow> CHR ''{'' \<notin> set l"
| "writable_segment (Group alts) \<longleftrightarrow>
     alts \<noteq> [] \<and> list_all (\<lambda>a. set a \<inter> {CHR ''{'', CHR ''}'', CHR '',''} = {}) alts"

fun write_segment :: "segment \<Rightarrow> string" where
  "write_segment (Literal l) = l"
| "write_segment (Group alts) = ''{'' @ join '','' alts @ ''}''"

definition write_pattern :: "segment list \<Rightarrow> string" where
  "write_pattern segs = concat (map write_segment segs)"

fun expansions :: "segment list \<Rightarrow> string list" where
  "expansions [] = [[]]"
| "expansions (Literal l # segs) = map ((@) l) (expansions segs)"
| "expansions (Group alts # segs) = concat (map (\<lambda>a. map ((@) a) (expansions segs)) alts)"

lemma set_join: "set (join d xs) \<subseteq> set d \<union> (\<Union>x \<in> set xs. set x)"
  by (induction d xs rule: join.induct) auto

lemma expand_plain: "CHR ''{'' \<notin> set s \<Longrightarrow> expand_braces s = [s]"
  by (subst expand_braces.simps) (simp add: split_at_char_none)

lemma expand_group:
  assumes "CHR ''{'' \<notin> set pre" and "writable_segment (Group alts)"
  shows "expand_braces (pre @ write_segment (Group alts) @ suffix)
    = concat (map (\<lambda>a. expand_braces (pre @ a @ suffix)) alts)"
proof -
  have alts: "alts \<noteq> []" "\<forall>x \<in> set alts. CHR '','' \<notin> set x" "CHR ''}'' \<notin> set (join '','' alts)"
    using assms(2) set_join [of "'',''" alts] by (auto simp: list_all_iff)
  then show ?thesis
    using assms(1) by (subst expand_braces.simps) (simp add: split_at_char_append split_on_join)
qed

lemma expand_from:
  "CHR ''{'' \<notin> set pre \<Longrightarrow> list_all writable_segment segs \<Longrightarrow>
   expand_braces (pre @ write_pattern segs) = map ((@) pre) (expansions segs)"
proof (induction segs arbitrary: pre rule: expansions.induct)
  case 1
  then show ?case by (simp add: write_pattern_def expand_plain)
next
  case (2 l segs)
  then show ?case using 2(1) [of "pre @ l"] by (simp add: write_pattern_def comp_def)
next
  case (3 alts segs)
  have "expand_braces (pre @ a @ write_pattern segs) = map ((@) pre) (map ((@) a) (expansions segs))" if "a \<in> set alts" for a
    using 3 that by (simp add: list_all_iff comp_def flip: append_assoc)
  then show ?case
    using expand_group [OF 3(2), of alts "write_pattern segs"] 3(3)
    by (simp add: write_pattern_def map_concat comp_def cong: map_cong)
qed

text \<open>
  A glob pattern whose groups are not nested expands to one pattern for each choice of an
  alternative in every group, in the order of the choices; characters outside groups are kept.
\<close>

theorem braces_expanded:
  assumes "list_all writable_segment segs"
  shows "expand_braces (write_pattern segs) = expansions segs"
  using expand_from [of "[]" segs] assms by (simp add: map_idI)

theorem braces_expanded_witness:
  "expand_braces ''src/{a,b}.{rs,ts}'' = [''src/a.rs'', ''src/a.ts'', ''src/b.rs'', ''src/b.ts'']"
  using braces_expanded [of "[Literal ''src/'', Group [''a'', ''b''], Literal ''.'', Group [''rs'', ''ts'']]"]
  by (simp add: write_pattern_def)

text \<open>Nested groups are not left alone: the first closing brace ends the outer group.\<close>

lemma nested_braces_mangled: "expand_braces ''{a,{b,c}}'' = [''a}'', ''b'', ''c}'']"
  by code_simp

text \<open>The context after a match: with the largest number not even the match is shown.\<close>

lemma context_overflow: "context_range 0 (- 1) count index = []"
  by (cases "index < 2 ^ 64") (simp_all add: context_range_def unat_of_nat take_bit_nat_eq_self)

section \<open>The workspace\<close>

text \<open>The path a text stands for in the current directory.\<close>

definition candidate_of :: "string \<Rightarrow> fs \<Rightarrow> path" where
  "candidate_of p s =
     (if is_absolute (parse_path p) then parse_path p else path_join (path_of_loc (fs_cwd s)) (parse_path p))"

lemma same_files_candidate: "same_files s s' \<Longrightarrow> candidate_of p s' = candidate_of p s"
  by (simp add: same_files_def candidate_of_def)

lemma candidate_path_spec:
  "candidate_path p s = (r, s') \<Longrightarrow> same_files s s' \<and> (\<forall>q. r = Inr q \<longrightarrow> q = candidate_of p s)"
proof (cases "is_absolute (parse_path p)")
  case False
  assume "candidate_path p s = (r, s')"
  then have "io_bind (guarded s (\<lambda>s. (Inr (path_of_loc (fs_cwd s)), s))) (\<lambda>d s. (Inr (path_join d (parse_path p)), s)) = (r, s')"
    using False by (simp add: candidate_path_def fs_current_dir_def)
  then show ?thesis
    using False by (cases rule: io_bind_cases; elim guarded_cases) (auto simp: candidate_of_def same_files_def)
qed (auto simp: candidate_path_def candidate_of_def)

lemma normalize_path_spec:
  assumes "normalize_path p s = (r, s')"
  shows "same_files s s' \<and> (\<forall>q. r = Inr q \<longrightarrow> (\<exists>l. q = path_of_loc l \<and> locate False s (candidate_of p s) = Inr l))"
  using assms unfolding normalize_path_def
proof (cases rule: io_bind_cases)
  case (1 e)
  then show ?thesis using candidate_path_spec by blast
next
  case (2 c s1)
  then have c: "same_files s s1" "c = candidate_of p s" using candidate_path_spec by blast+
  from 2(2) show ?thesis
  proof (cases rule: io_bind_cases)
    case (1 e)
    then show ?thesis using canonicalize_same c same_files_trans by blast
  next
    case (2 l s2)
    then show ?thesis
      using canonicalize_same [OF 2(1)] c by (auto simp: same_files_locate intro: same_files_trans)
  qed
qed

text \<open>Every prefix of a canonical path is canonical, so even a root that was not resolved is its own location.\<close>

lemma canonical_prefix:
  assumes "locate False s p = Inr l" and "real_dir (fs_nodes s) (fs_cwd s)"
    and "path_starts_with (path_of_loc l) root" and "root \<noteq> []"
  shows "\<exists>r t. l = r @ t \<and> locate False s root = Inr r"
proof -
  note real = locate_real [OF assms(1,2)]
  obtain q where q: "path_of_loc l = root @ q"
    using assms(3) by (auto simp: path_starts_with_def strip_path_prefix_Some not_None_eq)
  then obtain names where names: "root = RootDir # names" "map Name l = names @ q"
    using assms(4) by (cases root) (auto simp: path_of_loc_def)
  define r where "r = take (length names) l"
  have "names = map Name r" using arg_cong [OF names(2), of "take (length names)"] by (simp add: r_def take_map)
  then have root: "root = path_of_loc r" using names(1) by (simp add: path_of_loc_def)
  have l: "l = r @ drop (length names) l" by (simp add: r_def)
  have "real_loc (fs_nodes s) r"
    using real by (auto simp: real_loc_def r_def min_def)
  moreover have "node_at (fs_nodes s) r = Some DirNode" if "length names < length l"
    using real that by (auto simp: real_loc_def r_def)
  moreover have "r = l" if "\<not> length names < length l" using that by (simp add: r_def)
  ultimately have "locate False s root = Inr r"
    unfolding root using real by (intro locate_canonical) force+
  then show ?thesis using l by blast
qed

lemma check_boundary_spec:
  assumes "check_boundary root (path_of_loc l) s = (r, s')" and "locate False s root = Inr rl"
    and "locate False s p = Inr l" and "real_dir (fs_nodes s) (fs_cwd s)"
  shows "same_files s s' \<and> (r = Inr () \<longrightarrow> (\<exists>t. l = rl @ t))"
proof -
  obtain c s1 where can: "fs_canonicalize root s = (c, s1)" by fastforce
  note same = canonicalize_same [OF can]
  show ?thesis
  proof (cases c)
    case (Inr k)
    then have "k = rl" using same assms(2) by auto
    then show ?thesis
      using assms(1) can Inr same path_starts_with_loc
      by (auto simp: check_boundary_def canonical_or_def validate_workspace_boundary_def split: if_splits)
  next
    case (Inl e)
    have "root \<noteq> []" using assms(2) by (auto simp: locate_def)
    then have "\<exists>t. l = rl @ t" if "path_starts_with (path_of_loc l) root"
      using canonical_prefix [OF assms(3,4) that] assms(2) by auto
    then show ?thesis
      using assms(1) can Inl same
      by (auto simp: check_boundary_def canonical_or_def validate_workspace_boundary_def split: if_splits)
  qed
qed

text \<open>What a resolved path, its check and the operation on it do together.\<close>

lemma in_workspace_spec:
  assumes "io_bind (normalize_path p s) (\<lambda>absolute_path s. io_bind (check_boundary root absolute_path s) (\<lambda>_ s. f s)) = (r, s')"
    and "locate False s root = Inr rl" and "real_dir (fs_nodes s) (fs_cwd s)"
  shows "same_files s s' \<and> (\<exists>e. r = Inl e) \<or>
    (\<exists>s2 t. same_files s s2 \<and> locate False s (candidate_of p s) = Inr (rl @ t) \<and> f s2 = (r, s'))"
  using assms(1)
proof (cases rule: io_bind_cases)
  case (1 e)
  then show ?thesis using normalize_path_spec by blast
next
  case (2 q s1)
  then obtain l where l: "same_files s s1" "q = path_of_loc l" "locate False s (candidate_of p s) = Inr l"
    using normalize_path_spec [OF 2(1)] by auto
  have root1: "locate False s1 root = Inr rl" "locate False s1 (candidate_of p s) = Inr l" "real_dir (fs_nodes s1) (fs_cwd s1)"
    using assms(2,3) l(1,3) by (simp_all add: same_files_locate) (simp add: same_files_def)
  from 2(2) show ?thesis
  proof (cases rule: io_bind_cases)
    case (1 e)
    then show ?thesis
      using check_boundary_spec [OF 1(1) [unfolded l(2)] root1(1,2,3)] same_files_trans [OF l(1)] by blast
  next
    case (2 x s2)
    then have "same_files s1 s2" "\<exists>t. l = rl @ t"
      using check_boundary_spec [OF 2(1) [unfolded l(2)] root1] by simp_all
    then show ?thesis using 2(2) l same_files_trans by blast
  qed
qed

lemma io_bind_last: "io_bind m (\<lambda>x s. (f x, s)) = (r, s') \<Longrightarrow> s' = snd m"
  by (auto simp: io_bind_def split: prod.splits sum.splits)

lemma edit_file_writes:
  assumes "edit_file p old new all s = (r, s')"
  shows "same_files s s' \<or> (\<exists>l s1 c. same_files s s1 \<and> locate False s (candidate_of p s) = Inr l
    \<and> s' = snd (fs_write (path_of_loc l) c s1))"
  using assms unfolding edit_file_def
proof (cases rule: io_bind_cases)
  case (1 e)
  then show ?thesis using normalize_path_spec by blast
next
  case (2 q s1)
  then obtain l where l: "same_files s s1" "q = path_of_loc l" "locate False s (candidate_of p s) = Inr l"
    using normalize_path_spec [OF 2(1)] by auto
  from 2(2) show ?thesis
  proof (cases rule: io_bind_cases)
    case (1 e)
    then show ?thesis using read_string_same l(1) same_files_trans by blast
  next
    case (2 c s2)
    then have s2: "same_files s s2" using read_string_same l(1) same_files_trans by blast
    show ?thesis
    proof (cases "old = new \<or> \<not> contains c old")
      case True
      then show ?thesis using 2(2) s2 by (auto split: if_splits)
    next
      case False
      then have "s' = snd (fs_write q (replaced all old new c) s2)"
        using 2(2) unfolding Let_def by (auto dest: io_bind_last)
      then show ?thesis using s2 l by blast
    qed
  qed
qed

lemma read_file_reads:
  assumes "read_file p offset limit s = (r, s')"
  shows "same_files s s' \<and> (\<forall>out. r = Inr out \<longrightarrow> (\<exists>l c. locate False s (candidate_of p s) = Inr l
    \<and> file_bytes s (path_of_loc l) = Inr c \<and> out = file_payload (path_of_loc l) offset limit c))"
  using assms unfolding read_file_def
proof (cases rule: io_bind_cases)
  case (1 e)
  then show ?thesis using normalize_path_spec by blast
next
  case (2 q s1)
  then obtain l where l: "same_files s s1" "q = path_of_loc l" "locate False s (candidate_of p s) = Inr l"
    using normalize_path_spec [OF 2(1)] by auto
  from 2(2) show ?thesis
  proof (cases rule: io_bind_cases)
    case (1 e)
    then show ?thesis using metadata_same l(1) same_files_trans by blast
  next
    case (2 n s2)
    then have s2: "same_files s s2" using metadata_same l(1) same_files_trans by blast
    show ?thesis
    proof (cases "max_read_size < n")
      case True
      then show ?thesis using 2(2) s2 by auto
    next
      case False
      have binary: "same_files s2 s3" if "is_binary_file q s2 = (x, s3)" for x s3
        using that unfolding is_binary_file_def fs_read_def
        by (elim io_bind_cases guarded_cases) auto
      from 2(2) False have "io_bind (is_binary_file q s2) (\<lambda>binary s.
         if binary then (Inl (OtherIo ''file appears to be binary''), s)
         else io_bind (fs_read_to_string q s) (\<lambda>content s. (Inr (file_payload q offset limit content), s))) = (r, s')"
        by simp
      then show ?thesis
      proof (cases rule: io_bind_cases)
        case (1 e)
        then show ?thesis using binary s2 same_files_trans by blast
      next
        case (2 b s3)
        then have s3: "same_files s s3" using binary s2 same_files_trans by blast
        show ?thesis
          using 2(2) s3 l read_string_same [of q s3] same_files_bytes [OF s3, of q]
          by (auto split: if_splits elim!: io_bind_cases intro: same_files_trans)
      qed
    qed
  qed
qed

text \<open>
  C30: Within a workspace, editing changes no file outside the canonical root and reading returns only
  the content of a file under it: whatever the path, through any links, and whichever call fails.
\<close>

theorem workspace_confined:
  assumes "locate False s root = Inr rl" and "real_dir (fs_nodes s) (fs_cwd s)"
  shows "changes_only s (snd (edit_file_in_workspace p old new replace_all root s)) (\<lambda>k. \<exists>t. k = rl @ t)
    \<and> same_files s (snd (read_file_in_workspace p offset limit root s))
    \<and> (case fst (read_file_in_workspace p offset limit root s) of
         Inl _ \<Rightarrow> True
       | Inr out \<Rightarrow> \<exists>t c. node_at (fs_nodes s) (rl @ t) = Some (FileNode c)
                      \<and> out = file_payload (path_of_loc (rl @ t)) offset limit c)"
proof (intro conjI)
  obtain r s' where run: "edit_file_in_workspace p old new replace_all root s = (r, s')" by fastforce
  note spec = in_workspace_spec [OF run [unfolded edit_file_in_workspace_def] assms]
  have "changes_only s s' (\<lambda>k. \<exists>t. k = rl @ t)" if s2: "same_files s s2" "locate False s (candidate_of p s) = Inr (rl @ t)"
      "edit_file p old new replace_all s2 = (r, s')" for s2 t
  proof -
    have loc: "locate False s2 (candidate_of p s2) = Inr (rl @ t)"
      using s2(1,2) by (simp add: same_files_locate same_files_candidate)
    show ?thesis
      using edit_file_writes [OF s2(3)]
    proof (elim disjE exE conjE)
      assume "same_files s2 s'"
      then show ?thesis using s2(1) same_files_trans same_changes_only by blast
    next
      fix l s1 c
      assume w: "same_files s2 s1" "locate False s2 (candidate_of p s2) = Inr l" "s' = snd (fs_write (path_of_loc l) c s1)"
      have same: "same_files s s1" using s2(1) w(1) by (rule same_files_trans)
      have "locate True s (path_of_loc (rl @ t)) = Inr (rl @ t)"
        using locate_real [OF s2(2) assms(2)] by (intro locate_canonical) auto
      then have "changes_only s1 s' (\<lambda>k. \<exists>t. k = rl @ t)"
        using write_changes [of "path_of_loc l" c s1] w(2,3) loc same_files_locate [OF same]
        by (cases "fs_write (path_of_loc l) c s1") (auto intro: changes_only_mono)
      then show ?thesis using same_changes_only [OF same] changes_only_trans by blast
    qed
  qed
  then show "changes_only s (snd (edit_file_in_workspace p old new replace_all root s)) (\<lambda>k. \<exists>t. k = rl @ t)"
    using spec run same_changes_only by fastforce
next
  obtain r s' where run: "read_file_in_workspace p offset limit root s = (r, s')" by fastforce
  have main: "same_files s s' \<and> (\<forall>out. r = Inr out \<longrightarrow> (\<exists>t c. node_at (fs_nodes s) (rl @ t) = Some (FileNode c)
      \<and> out = file_payload (path_of_loc (rl @ t)) offset limit c))"
    using in_workspace_spec [OF run [unfolded read_file_in_workspace_def] assms]
  proof (elim disjE exE conjE)
    fix s2 t
    assume s2: "same_files s s2" "locate False s (candidate_of p s) = Inr (rl @ t)" "read_file p offset limit s2 = (r, s')"
    have loc: "locate False s2 (candidate_of p s2) = Inr (rl @ t)"
      using s2(1,2) by (simp add: same_files_locate same_files_candidate)
    have "locate False s (path_of_loc (rl @ t)) = Inr (rl @ t)"
      using locate_real [OF s2(2) assms(2)] by (intro locate_canonical) auto
    then have "node_at (fs_nodes s) (rl @ t) = Some (FileNode c)" if "file_bytes s (path_of_loc (rl @ t)) = Inr c" for c
      using that by (auto simp: file_bytes_def split: option.splits node.splits)
    then show ?thesis
      using read_file_reads [OF s2(3)] loc s2(1) same_files_trans same_files_bytes [OF s2(1)] by fastforce
  qed auto
  then show "same_files s (snd (read_file_in_workspace p offset limit root s))" using run by simp
  show "case fst (read_file_in_workspace p offset limit root s) of Inl _ \<Rightarrow> True
    | Inr out \<Rightarrow> \<exists>t c. node_at (fs_nodes s) (rl @ t) = Some (FileNode c)
        \<and> out = file_payload (path_of_loc (rl @ t)) offset limit c"
    using main run by (auto split: sum.split)
qed

text \<open>Without links and parent steps a path is its own location.\<close>

lemma walk_own:
  "no_links s \<Longrightarrow> walk links allow (fs_nodes s) cur (map Name l) = Inr k \<Longrightarrow> k = cur @ l"
proof (induction l arbitrary: cur)
  case (Cons n l)
  then show ?case
    by (auto simp: no_links_def split: option.splits node.splits if_splits nat.splits) fastforce
qed simp

lemma locate_own: "no_links s \<Longrightarrow> locate allow s (path_of_loc l) = Inr k \<Longrightarrow> k = l"
  using walk_own [of s max_links allow "[]" l k] by (simp add: locate_def path_of_loc_def)

lemma parse_path_names:
  assumes "ParentDir \<notin> set (parse_path p)"
  shows "\<exists>names. parse_path p \<in> {RootDir # map Name names, CurDir # map Name names, map Name names}"
proof -
  let ?cs = "map component_of (filter (\<lambda>x. x \<noteq> ''.'') (filter (\<lambda>x. x \<noteq> []) (split_on (CHR ''/'') [] p)))"
  have p: "parse_path p \<in> {RootDir # ?cs, CurDir # ?cs, ?cs}"
    by (auto simp: parse_path_def Let_def)
  then have "\<forall>c \<in> set ?cs. c \<noteq> ParentDir" using assms by (metis empty_iff insert_iff list.set_intros(2))
  then have "\<forall>c \<in> set ?cs. \<exists>n. c = Name n" by (auto simp: component_of_def split: if_splits)
  then obtain names where "?cs = map Name names"
    using ex_map_conv [of ?cs Name] by blast
  then show ?thesis using p by auto
qed

lemma candidate_names:
  assumes "ParentDir \<notin> set (parse_path p)"
  shows "\<exists>c. candidate_of p s = path_of_loc c"
proof -
  obtain names where "parse_path p \<in> {RootDir # map Name names, CurDir # map Name names, map Name names}"
    using parse_path_names [OF assms] by blast
  moreover have "filter (\<lambda>c. c \<noteq> CurDir) (map Name names) = map Name names" for names :: "string list"
    by (induction names) auto
  moreover have "path_of_loc d @ map Name names = path_of_loc (d @ names)" for d names
    by (simp add: path_of_loc_def)
  moreover have "\<not> is_absolute (map Name names)" by (cases names) (auto simp: is_absolute_def)
  ultimately show ?thesis
    by (auto simp: candidate_of_def path_join_def is_absolute_def path_of_loc_def simp flip: map_append)
qed

lemma normalize_own:
  assumes "normalize_path_allow_missing p s = (r, s')" and "no_links s" and c: "candidate_of p s = path_of_loc c"
  shows "same_files s s' \<and> (\<forall>q. r = Inr q \<longrightarrow> q = path_of_loc c)"
  using assms(1) unfolding normalize_path_allow_missing_def
proof (cases rule: io_bind_cases)
  case (1 e)
  then show ?thesis using candidate_path_spec by blast
next
  case (2 q s1)
  then have q: "same_files s s1" "q = path_of_loc c" using candidate_path_spec c by fastforce+
  obtain x s2 where can: "fs_canonicalize (path_of_loc c) s1 = (x, s2)" by fastforce
  note own = canonicalize_same [OF can]
  have s2: "same_files s s2" using own q(1) same_files_trans by blast
  have links: "no_links s1" "no_links s2" using assms(2) q(1) s2 by (simp_all add: no_links_def same_files_def)
  show ?thesis
  proof (cases x)
    case (Inr l)
    then show ?thesis using 2(2) can own s2 locate_own [OF links(1)] unfolding q(2) by fastforce
  next
    case (Inl e)
    show ?thesis
    proof (cases c rule: rev_cases)
      case Nil
      then show ?thesis using 2(2) can Inl s2 unfolding q(2) by (auto simp: path_of_loc_def path_parent_def)
    next
      case (snoc d n)
      obtain y s3 where par: "fs_canonicalize (path_of_loc d) s2 = (y, s3)" by fastforce
      note p = canonicalize_same [OF par]
      have "canonical_or (path_of_loc d) s2 = (path_of_loc d, s3)"
        using par p locate_own [OF links(2)] by (cases y) (auto simp: canonical_or_def)
      moreover have "path_join (path_of_loc d) [Name n] = path_of_loc c"
        by (simp add: snoc path_join_def is_absolute_def path_of_loc_def)
      moreover have "path_parent (path_of_loc c) = Some (path_of_loc d)" "file_name (path_of_loc c) = Some n"
        by (simp_all add: snoc path_parent_def file_name_def path_of_loc_def)
      ultimately show ?thesis
        using 2(2) can Inl s2 p same_files_trans unfolding q(2) by fastforce
    qed
  qed
qed

lemma make_dirs_under:
  assumes "no_links s" and "locate True s (path_of_loc r) = Inr r" and "node_at (fs_nodes s) r \<noteq> None"
    and "make_dirs (path_of_loc (r @ u)) s = (x, s')"
  shows "changes_only s s' (\<lambda>k. \<exists>t. k = r @ t)"
  using assms(4)
proof (induction u arbitrary: x s' rule: rev_induct)
  case Nil
  then show ?case
    using assms(2,3) by (subst (asm) make_dirs.simps) (auto simp: same_changes_only split: if_splits option.splits node.splits)
next
  case (snoc n u)
  let ?p = "path_of_loc (r @ u @ [n])"
  have p: "?p \<noteq> []" "butlast ?p = path_of_loc (r @ u)" by (simp_all add: path_of_loc_def butlast_append)
  obtain y s1 where rec: "make_dirs (path_of_loc (r @ u)) s = (y, s1)" by fastforce
  have s1: "changes_only s s1 (\<lambda>k. \<exists>t. k = r @ t)" "no_links s1"
    using snoc.IH [OF rec] make_dirs_frame [OF rec assms(1)] by simp_all
  have put: "changes_only s (s2\<lparr>fs_nodes := put_node l DirNode (fs_nodes s2)\<rparr>) (\<lambda>k. \<exists>t. k = r @ t)"
    if "locate True s2 ?p = Inr l" "no_links s2" "changes_only s s2 (\<lambda>k. \<exists>t. k = r @ t)" for s2 l
    using changes_only_trans [OF that(3) put_changes_only [of "\<lambda>k. \<exists>t. k = r @ t" l s2 DirNode]] locate_own [OF that(2,1)] by auto
  show ?case
    using snoc.prems p rec s1 put [of s] put [of s1] assms(1) same_changes_only [of s s]
    by (subst (asm) make_dirs.simps)
      (auto split: sum.splits option.splits node.splits io_error.splits if_splits prod.splits)
qed

lemma boundary_own:
  assumes "check_boundary root (path_of_loc c) s = (Inr (), s')" and "locate False s root = Inr rl" and "no_links s"
  shows "same_files s s' \<and> (\<exists>t. c = rl @ t)"
proof -
  obtain x s1 where can: "fs_canonicalize root s = (x, s1)" by fastforce
  note same = canonicalize_same [OF can]
  show ?thesis
  proof (cases x)
    case (Inr k)
    then show ?thesis
      using assms(1,2) can same path_starts_with_loc
      by (auto simp: check_boundary_def canonical_or_def validate_workspace_boundary_def split: if_splits)
  next
    case (Inl e)
    then have st: "path_starts_with (path_of_loc c) root" "s' = s1"
      using assms(1) can by (auto simp: check_boundary_def canonical_or_def validate_workspace_boundary_def split: if_splits)
    obtain q where "path_of_loc c = root @ q"
      using st(1) by (auto simp: path_starts_with_def strip_path_prefix_Some not_None_eq)
    moreover have "root \<noteq> []" using assms(2) by (auto simp: locate_def)
    ultimately obtain names where names: "root = RootDir # names" "map Name c = names @ q"
      by (cases root) (auto simp: path_of_loc_def)
    define r where "r = take (length names) c"
    have "names = map Name r" using arg_cong [OF names(2), of "take (length names)"] by (simp add: r_def take_map)
    then have "rl = r" using locate_own [OF assms(3), of False r] assms(2) names(1) by (simp add: path_of_loc_def)
    then show ?thesis using st(2) same by (metis append_take_drop_id r_def)
  qed
qed

lemma write_absolute_under:
  assumes "write_absolute (path_of_loc (rl @ t)) content s = (r, s')" and "no_links s"
    and root: "locate True s (path_of_loc rl) = Inr rl" "node_at (fs_nodes s) rl \<noteq> None" "real_dir (fs_nodes s) (butlast rl)"
  shows "changes_only s s' (\<lambda>k. \<exists>t. k = rl @ t)"
proof -
  let ?P = "\<lambda>k. \<exists>t. k = rl @ t"
  let ?p = "path_of_loc (rl @ t)"
  obtain x s1 where rd: "fs_read_to_string ?p s = (x, s1)" by fastforce
  have s1: "same_files s s1" using read_string_same [OF rd] by simp
  define m where "m = (case path_parent ?p of None \<Rightarrow> (Inr (), s1) | Some parent \<Rightarrow> fs_create_dir_all parent s1)"
  have m: "changes_only s (snd m) ?P \<and> no_links (snd m)"
  proof (cases "rl @ t" rule: rev_cases)
    case Nil
    then show ?thesis
      using s1 assms(2) by (auto simp: m_def path_of_loc_def path_parent_def same_changes_only no_links_def same_files_def)
  next
    case (snoc d n)
    have "path_parent ?p = Some (path_of_loc d)" by (simp add: snoc path_parent_def path_of_loc_def)
    then have md: "guarded s1 (make_dirs (path_of_loc d)) = (fst m, snd m)" by (simp add: m_def fs_create_dir_all_def)
    then show ?thesis
    proof (cases rule: guarded_cases)
      case (1 e)
      then have "same_files s (snd m)" using s1 same_files_trans by blast
      then show ?thesis using assms(2) by (simp add: same_changes_only no_links_def same_files_def)
    next
      case (2 s2)
      have same: "same_files s s2" using s1 2(1) by (rule same_files_trans)
      have s2: "no_links s2" "locate True s2 (path_of_loc rl) = Inr rl" "node_at (fs_nodes s2) rl \<noteq> None"
        using assms(2) root same by (simp_all add: same_files_locate) (simp_all add: no_links_def same_files_def)
      have "changes_only s2 (snd m) ?P"
      proof (cases t rule: rev_cases)
        case Nil
        have "real_dir (fs_nodes s2) d" using root(3) same snoc Nil by (simp add: same_files_def)
        then have "locate True s2 (path_of_loc d) = Inr d" "node_at (fs_nodes s2) d = Some DirNode"
          by (auto intro!: locate_canonical simp: real_dir_def)
        then have "snd m = s2"
          using 2(2) by (subst (asm) make_dirs.simps) (auto split: if_splits)
        then show ?thesis by (simp add: same_changes_only)
      next
        case (snoc u n')
        then have "d = rl @ u" using \<open>rl @ t = d @ [n]\<close> by simp
        then show ?thesis using make_dirs_under [OF s2, of u] 2(2) by (metis prod.collapse)
      qed
      then show ?thesis
        using make_dirs_frame [OF 2(2) s2(1)] same_changes_only [OF same] changes_only_trans by blast
    qed
  qed
  have "s' = snd m \<or> s' = snd (fs_write ?p content (snd m))"
    using assms(1) rd unfolding write_absolute_def m_def [symmetric]
    by (auto simp: io_bind_def m_def split: sum.splits prod.splits)
  then show ?thesis
  proof
    assume s': "s' = snd (fs_write ?p content (snd m))"
    have "changes_only (snd m) s' ?P"
      using write_changes [of ?p content "snd m"] locate_own [of "snd m" True "rl @ t"] m s'
      by (cases "fs_write ?p content (snd m)") (auto intro: changes_only_mono)
    then show ?thesis using m changes_only_trans by blast
  qed (use m in simp)
qed

lemma write_file_under:
  assumes "write_file p content s = (r, s')" and "no_links s" and "candidate_of p s = path_of_loc (rl @ t)"
    and root: "locate True s (path_of_loc rl) = Inr rl" "node_at (fs_nodes s) rl \<noteq> None" "real_dir (fs_nodes s) (butlast rl)"
  shows "changes_only s s' (\<lambda>k. \<exists>t. k = rl @ t)"
proof (cases "max_write_size < length content")
  case True
  then show ?thesis using assms(1) by (auto simp: write_file_def same_changes_only)
next
  case False
  then have "io_bind (normalize_path_allow_missing p s) (\<lambda>absolute_path s. write_absolute absolute_path content s) = (r, s')"
    using assms(1) by (simp add: write_file_def)
  then show ?thesis
  proof (cases rule: io_bind_cases)
    case (1 e)
    then show ?thesis using normalize_own [OF 1(1) assms(2,3)] by (simp add: same_changes_only)
  next
    case (2 q s1)
    then have s1: "same_files s s1" "q = path_of_loc (rl @ t)" using normalize_own [OF 2(1) assms(2,3)] by simp_all
    have "no_links s1" "locate True s1 (path_of_loc rl) = Inr rl" "node_at (fs_nodes s1) rl \<noteq> None"
        "real_dir (fs_nodes s1) (butlast rl)"
      using assms(2) root s1(1) by (simp_all add: same_files_locate) (simp_all add: no_links_def same_files_def)
    then show ?thesis
      using write_absolute_under 2(2) s1 same_changes_only [OF s1(1)] changes_only_trans by blast
  qed
qed

text \<open>
  C31: On files without links a path without \<open>..\<close> is written within the workspace only: no other
  location changes, whether the file and its directories exist or not, and whichever call fails.
\<close>

theorem workspace_write_confined:
  assumes "no_links s" and "ParentDir \<notin> set (parse_path p)"
    and "locate False s root = Inr rl" and "real_dir (fs_nodes s) (fs_cwd s)"
  shows "changes_only s (snd (write_file_in_workspace p content root s)) (\<lambda>k. \<exists>t. k = rl @ t)"
proof -
  obtain c where c: "candidate_of p s = path_of_loc c" using candidate_names [OF assms(2)] by blast
  have root: "real_loc (fs_nodes s) rl" "node_at (fs_nodes s) rl \<noteq> None"
    using locate_real [OF assms(3,4)] by auto
  have par: "real_dir (fs_nodes s) (butlast rl)"
    using root by (cases rl rule: rev_cases) (auto simp: real_loc_snoc)
  have loc: "locate True s (path_of_loc rl) = Inr rl"
    using root assms(1) by (intro locate_canonical) (auto simp: no_links_def)
  obtain r s' where run: "write_file_in_workspace p content root s = (r, s')" by fastforce
  from run have "changes_only s s' (\<lambda>k. \<exists>t. k = rl @ t)"
    unfolding write_file_in_workspace_def
  proof (cases rule: io_bind_cases)
    case (1 e)
    then show ?thesis using normalize_own [OF 1(1) assms(1) c] by (simp add: same_changes_only)
  next
    case (2 q s1)
    then have q: "same_files s s1" "q = path_of_loc c" using normalize_own [OF 2(1) assms(1) c] by simp_all
    have links: "no_links s1" "locate False s1 root = Inr rl"
      using assms(1,3) q(1) by (simp_all add: same_files_locate) (simp add: no_links_def same_files_def)
    obtain b s2 where chk: "check_boundary root (path_of_loc c) s1 = (b, s2)" by fastforce
    have s12: "same_files s1 s2"
      using chk canonicalize_same [of root s1]
      by (auto simp: check_boundary_def canonical_or_def split: prod.splits sum.splits)
    have s2: "same_files s s2" using q(1) s12 by (rule same_files_trans)
    show ?thesis
    proof (cases b)
      case (Inl e)
      then show ?thesis using 2(2) q(2) chk s2 by (simp add: io_bind_def same_changes_only)
    next
      case (Inr u)
      then obtain t where t: "c = rl @ t" using boundary_own [OF _ links(2,1)] chk by fastforce
      have wr: "write_file p content s2 = (r, s')" using 2(2) q(2) chk Inr by (simp add: io_bind_def)
      have "changes_only s2 s' (\<lambda>k. \<exists>t. k = rl @ t)"
      proof (rule write_file_under [OF wr])
        show "candidate_of p s2 = path_of_loc (rl @ t)" using c t s2 by (simp add: same_files_candidate)
      qed (use assms(1) loc root par s2 in \<open>simp_all add: same_files_locate\<close>, simp_all add: no_links_def same_files_def)
      then show ?thesis using same_changes_only [OF s2] changes_only_trans by blast
    qed
  qed
  then show ?thesis using run by simp
qed

text \<open>A workspace with a file and a link to a file outside that does not exist yet.\<close>

definition sample_workspace :: fs where
  "sample_workspace = \<lparr>fs_nodes = [([''w''], DirNode), ([''w'', ''a''], FileNode ''one''),
     ([''w'', ''later''], LinkNode [RootDir, Name ''etc'', Name ''made'']),
     ([''etc''], DirNode), ([''etc'', ''key''], FileNode ''secret'')], fs_cwd = [''w''], fs_faults = []\<rparr>"

theorem workspace_confined_witness:
  "changes_only sample_workspace
     (snd (edit_file_in_workspace ''a'' ''one'' ''two'' False [RootDir, Name ''w''] sample_workspace)) (\<lambda>k. \<exists>t. k = [''w''] @ t)
   \<and> file_bytes (snd (edit_file_in_workspace ''a'' ''one'' ''two'' False [RootDir, Name ''w''] sample_workspace))
       [RootDir, Name ''w'', Name ''a''] = Inr ''two''"
proof
  have "locate False sample_workspace [RootDir, Name ''w''] = Inr [''w'']" by code_simp
  moreover have "real_dir (fs_nodes sample_workspace) (fs_cwd sample_workspace)"
    by (simp add: real_dir_def real_loc_def sample_workspace_def node_at_def)
  ultimately show "changes_only sample_workspace
     (snd (edit_file_in_workspace ''a'' ''one'' ''two'' False [RootDir, Name ''w''] sample_workspace)) (\<lambda>k. \<exists>t. k = [''w''] @ t)"
    using workspace_confined [THEN conjunct1] by blast
qed code_simp

definition plain_workspace :: fs where
  "plain_workspace = \<lparr>fs_nodes = [([''w''], DirNode), ([''etc''], DirNode)], fs_cwd = [''w''], fs_faults = []\<rparr>"

theorem workspace_write_confined_witness:
  "changes_only plain_workspace
     (snd (write_file_in_workspace ''new/a'' ''x'' [RootDir, Name ''w''] plain_workspace)) (\<lambda>k. \<exists>t. k = [''w''] @ t)"
proof (rule workspace_write_confined)
  show "no_links plain_workspace" by (simp add: no_links_def plain_workspace_def node_at_def)
  show "ParentDir \<notin> set (parse_path ''new/a'')" by code_simp
  show "locate False plain_workspace [RootDir, Name ''w''] = Inr [''w'']" by code_simp
  show "real_dir (fs_nodes plain_workspace) (fs_cwd plain_workspace)"
    by (simp add: real_dir_def real_loc_def plain_workspace_def node_at_def)
qed

text \<open>
  Writing is not confined in the same way. A parent that does not exist is compared as it is written,
  with its \<open>..\<close>; and a link to a missing file is taken for a new file in the workspace.
\<close>

lemma write_leaves_workspace:
  "file_bytes (snd (write_absolute (parse_path ''/w/new/../../etc/key'') ''x'' sample_workspace))
     [RootDir, Name ''etc'', Name ''key''] = Inr ''x''"
  "normalize_path_allow_missing ''new/../../etc/key'' sample_workspace
     = (Inr (parse_path ''/w/new/../../etc/key''), sample_workspace)"
  "fst (check_boundary [RootDir, Name ''w''] (parse_path ''/w/new/../../etc/key'') sample_workspace) = Inr ()"
  by code_simp+

lemma write_follows_link:
  "file_bytes (snd (write_absolute [RootDir, Name ''w'', Name ''later''] ''x'' sample_workspace))
     [RootDir, Name ''etc'', Name ''made''] = Inr ''x''"
  "normalize_path_allow_missing ''later'' sample_workspace = (Inr [RootDir, Name ''w'', Name ''later''], sample_workspace)"
  "fst (check_boundary [RootDir, Name ''w''] [RootDir, Name ''w'', Name ''later''] sample_workspace) = Inr ()"
  by code_simp+

text \<open>A root that is the empty path bounds nothing.\<close>

lemma empty_root_bounds_nothing:
  "normalize_path ''/etc/key'' sample_workspace = (Inr [RootDir, Name ''etc'', Name ''key''], sample_workspace)"
  "fst (check_boundary [] [RootDir, Name ''etc'', Name ''key''] sample_workspace) = Inr ()"
  by code_simp+

end
