(* ===== verification/RefConfigCheck.thy ===== *)
theory RefConfigCheck
  imports RefUtf8 FileSys
begin

text \<open>
  The check of configuration files, \<open>runtime/src/config_validate.rs\<close>: the known fields and their
  types, the line of a key, suggestions by edit distance, and the diagnostics. Keys and the source
  are lists of characters, as the JSON reader gives them; paths and messages are bytes.
\<close>

section \<open>Diagnostics\<close>

datatype diagnostic_kind =
    UnknownKey "uchars option"
  | WrongType string string
  | Deprecated string

record config_diagnostic =
  cd_path :: string
  cd_field :: uchars
  cd_line :: "nat option"
  cd_kind :: diagnostic_kind

definition show_diagnostic :: "config_diagnostic \<Rightarrow> string" where
  "show_diagnostic d =
     (let location = (case cd_line d of None \<Rightarrow> [] | Some line \<Rightarrow> '' (line '' @ show_nat line @ '')'');
          quoted = (\<lambda>s. [CHR 0x22] @ s @ [CHR 0x22])
      in case cd_kind d of
        UnknownKey None \<Rightarrow> cd_path d @ '': unknown key '' @ quoted (bytes_of (cd_field d)) @ location
      | UnknownKey (Some hint) \<Rightarrow>
          cd_path d @ '': unknown key '' @ quoted (bytes_of (cd_field d)) @ location @ ''. Did you mean ''
            @ quoted (bytes_of hint) @ ''?''
      | WrongType expected got \<Rightarrow>
          cd_path d @ '': field '' @ quoted (bytes_of (cd_field d)) @ '' must be '' @ expected @ '', got '' @ got @ location
      | Deprecated instead \<Rightarrow>
          cd_path d @ '': field '' @ quoted (bytes_of (cd_field d)) @ '' is deprecated'' @ location @ ''. Use ''
            @ quoted instead @ '' instead'')"

record validation_result =
  vr_errors :: "config_diagnostic list"
  vr_warnings :: "config_diagnostic list"

definition validation_is_ok :: "validation_result \<Rightarrow> bool" where
  "validation_is_ok r \<longleftrightarrow> vr_errors r = []"

definition validation_merge :: "validation_result \<Rightarrow> validation_result \<Rightarrow> validation_result" where
  "validation_merge r other =
     \<lparr>vr_errors = vr_errors r @ vr_errors other, vr_warnings = vr_warnings r @ vr_warnings other\<rparr>"

section \<open>The known fields\<close>

datatype field_type = StringField | BoolField | ObjectField | StringArrayField | NumberField

fun field_label :: "field_type \<Rightarrow> string" where
  "field_label StringField = ''a string''"
| "field_label BoolField = ''a boolean''"
| "field_label ObjectField = ''an object''"
| "field_label StringArrayField = ''an array of strings''"
| "field_label NumberField = ''a number''"

definition is_string_value :: "json_value \<Rightarrow> bool" where
  "is_string_value v = (case v of String _ \<Rightarrow> True | _ \<Rightarrow> False)"

fun field_matches :: "field_type \<Rightarrow> json_value \<Rightarrow> bool" where
  "field_matches StringField v = is_string_value v"
| "field_matches BoolField v = (case v of Bool _ \<Rightarrow> True | _ \<Rightarrow> False)"
| "field_matches ObjectField v = (case v of Object _ \<Rightarrow> True | _ \<Rightarrow> False)"
| "field_matches StringArrayField v = (case v of Array vs \<Rightarrow> list_all is_string_value vs | _ \<Rightarrow> False)"
| "field_matches NumberField v = (case v of Number _ \<Rightarrow> True | _ \<Rightarrow> False)"

fun json_type_label :: "json_value \<Rightarrow> string" where
  "json_type_label Null = ''null''"
| "json_type_label (Bool _) = ''a boolean''"
| "json_type_label (Number _) = ''a number''"
| "json_type_label (String _) = ''a string''"
| "json_type_label (Array _) = ''an array''"
| "json_type_label (Object _) = ''an object''"

text \<open>A \<open>FieldSpec\<close> is the name and the type, a \<open>DeprecatedField\<close> the name and its replacement.\<close>

type_synonym field_specs = "(string \<times> field_type) list"

definition top_level_fields :: field_specs where
  "top_level_fields =
     [(''$schema'', StringField), (''model'', StringField), (''hooks'', ObjectField), (''permissions'', ObjectField),
      (''permissionMode'', StringField), (''mcpServers'', ObjectField), (''oauth'', ObjectField),
      (''enabledPlugins'', ObjectField), (''plugins'', ObjectField), (''sandbox'', ObjectField), (''env'', ObjectField),
      (''aliases'', ObjectField), (''providerFallbacks'', ObjectField), (''trustedRoots'', StringArrayField)]"

definition hooks_fields :: field_specs where
  "hooks_fields =
     [(''PreToolUse'', StringArrayField), (''PostToolUse'', StringArrayField), (''PostToolUseFailure'', StringArrayField)]"

definition permissions_fields :: field_specs where
  "permissions_fields =
     [(''defaultMode'', StringField), (''allow'', StringArrayField), (''deny'', StringArrayField), (''ask'', StringArrayField)]"

definition plugins_fields :: field_specs where
  "plugins_fields =
     [(''enabled'', ObjectField), (''externalDirectories'', StringArrayField), (''installRoot'', StringField),
      (''registryPath'', StringField), (''bundledRoot'', StringField), (''maxOutputTokens'', NumberField)]"

definition sandbox_fields :: field_specs where
  "sandbox_fields =
     [(''enabled'', BoolField), (''namespaceRestrictions'', BoolField), (''networkIsolation'', BoolField),
      (''filesystemMode'', StringField), (''allowedMounts'', StringArrayField)]"

definition oauth_fields :: field_specs where
  "oauth_fields =
     [(''clientId'', StringField), (''authorizeUrl'', StringField), (''tokenUrl'', StringField),
      (''callbackPort'', NumberField), (''manualRedirectUrl'', StringField), (''scopes'', StringArrayField)]"

definition deprecated_fields :: "(string \<times> string) list" where
  "deprecated_fields = [(''permissionMode'', ''permissions.defaultMode''), (''enabledPlugins'', ''plugins.enabled'')]"

section \<open>The line of a key\<close>

text \<open>A key is followed by blanks and a colon.\<close>

definition is_ascii_blank :: "nat \<Rightarrow> bool" where
  "is_ascii_blank c \<longleftrightarrow> c \<in> {32, 9, 10, 12, 13}"

definition colon_follows :: "uchars \<Rightarrow> bool" where
  "colon_follows s = (case dropWhile is_ascii_blank s of [] \<Rightarrow> False | c # _ \<Rightarrow> c = 58)"

text \<open>The search for the quoted key, from left to right; after a match that is no key it goes on
  behind it, so \<open>skip\<close> characters are passed. \<open>lines\<close> counts the line breaks passed.\<close>

fun find_key_from :: "uchars \<Rightarrow> nat \<Rightarrow> nat \<Rightarrow> uchars \<Rightarrow> nat option" where
  "find_key_from needle skip lines [] = None"
| "find_key_from needle skip lines (c # cs) =
     (let lines' = (if c = 10 then Suc lines else lines) in
      if skip = 0 \<and> take (length needle) (c # cs) = needle then
        (if colon_follows (drop (length needle) (c # cs)) then Some (Suc lines)
         else find_key_from needle (length needle - 1) lines' cs)
      else find_key_from needle (skip - 1) lines' cs)"

definition find_key_line :: "uchars \<Rightarrow> uchars \<Rightarrow> nat option" where
  "find_key_line source key = find_key_from ([34] @ key @ [34]) 0 0 source"

section \<open>Suggestions\<close>

text \<open>The next row of the table, from the one before it: \<open>left\<close> is the entry to the left.\<close>

fun next_entries :: "nat \<Rightarrow> nat \<Rightarrow> nat list \<Rightarrow> uchars \<Rightarrow> nat list" where
  "next_entries c left (diagonal # upper # row) (r # rs) =
     (let entry = min (min (upper + 1) (left + 1)) (diagonal + (if c = r then 0 else 1))
      in entry # next_entries c entry (upper # row) rs)"
| "next_entries c left row rs = []"

fun edit_rows :: "nat \<Rightarrow> uchars \<Rightarrow> uchars \<Rightarrow> nat list \<Rightarrow> nat list" where
  "edit_rows i right [] previous = previous"
| "edit_rows i right (c # cs) previous = edit_rows (Suc i) right cs (Suc i # next_entries c (Suc i) previous right)"

text \<open>\<open>len\<close> is the length in bytes.\<close>

definition simple_edit_distance :: "uchars \<Rightarrow> uchars \<Rightarrow> nat" where
  "simple_edit_distance left right =
     (if left = [] then length (bytes_of right)
      else if right = [] then length (bytes_of left)
      else edit_rows 0 right left [0..<Suc (length right)] ! length right)"

definition lower_uchars :: "uchars \<Rightarrow> uchars" where
  "lower_uchars s = map (\<lambda>c. if 65 \<le> c \<and> c \<le> 90 then c + 32 else c) s"

text \<open>\<open>min_by_key\<close>: the first of the smallest.\<close>

fun min_by_distance :: "(nat \<times> string) list \<Rightarrow> (nat \<times> string) option" where
  "min_by_distance [] = None"
| "min_by_distance ((d, name) # rest) =
     (case min_by_distance rest of
        None \<Rightarrow> Some (d, name)
      | Some (d', name') \<Rightarrow> Some (if d \<le> d' then (d, name) else (d', name')))"

definition suggest_field :: "uchars \<Rightarrow> string list \<Rightarrow> uchars option" where
  "suggest_field input candidates =
     map_option (\<lambda>(_, name). uni name)
       (min_by_distance (filter (\<lambda>(distance, _). distance \<le> 3)
         (map (\<lambda>candidate. (simple_edit_distance (lower_uchars input) (lower_uchars (uni candidate)), candidate)) candidates)))"

section \<open>Validation\<close>

definition field_diagnostic :: "string \<Rightarrow> uchars \<Rightarrow> string \<Rightarrow> uchars \<Rightarrow> diagnostic_kind \<Rightarrow> config_diagnostic" where
  "field_diagnostic prefix source path_display key kind =
     \<lparr>cd_path = path_display, cd_field = (if prefix = [] then key else uni prefix @ uni ''.'' @ key),
      cd_line = find_key_line source key, cd_kind = kind\<rparr>"

definition check_key :: "field_specs \<Rightarrow> uchars \<Rightarrow> json_value \<Rightarrow> diagnostic_kind option" where
  "check_key known_fields key value =
     (case find (\<lambda>(name, _). uni name = key) known_fields of
        Some (name, expected) \<Rightarrow>
          (if field_matches expected value then None
           else Some (WrongType (field_label expected) (json_type_label value)))
      | None \<Rightarrow>
          if list_ex (\<lambda>(name, _). uni name = key) deprecated_fields then None
          else Some (UnknownKey (suggest_field key (map fst known_fields))))"

definition validate_object_keys ::
  "(uchars, json_value) btree \<Rightarrow> field_specs \<Rightarrow> string \<Rightarrow> uchars \<Rightarrow> string \<Rightarrow> validation_result" where
  "validate_object_keys object known_fields prefix source path_display =
     \<lparr>vr_errors = concat (map (\<lambda>(key, value).
        case check_key known_fields key value of
          None \<Rightarrow> [] | Some kind \<Rightarrow> [field_diagnostic prefix source path_display key kind]) object),
      vr_warnings = []\<rparr>"

definition nested_fields :: "(string \<times> field_specs) list" where
  "nested_fields =
     [(''hooks'', hooks_fields), (''permissions'', permissions_fields), (''plugins'', plugins_fields),
      (''sandbox'', sandbox_fields), (''oauth'', oauth_fields)]"

text \<open>An object below the top level, when it is one.\<close>

definition validate_nested ::
  "(uchars, json_value) btree \<Rightarrow> uchars \<Rightarrow> string \<Rightarrow> string \<times> field_specs \<Rightarrow> validation_result \<Rightarrow> validation_result" where
  "validate_nested object source path_display = (\<lambda>(name, known) result.
     case bt_get object (uni name) of
       Some (Object nested) \<Rightarrow> validation_merge result (validate_object_keys nested known name source path_display)
     | _ \<Rightarrow> result)"

definition deprecation_warnings :: "(uchars, json_value) btree \<Rightarrow> uchars \<Rightarrow> string \<Rightarrow> config_diagnostic list" where
  "deprecation_warnings object source path_display =
     map (\<lambda>(name, instead). \<lparr>cd_path = path_display, cd_field = uni name, cd_line = find_key_line source (uni name),
            cd_kind = Deprecated instead\<rparr>)
       (filter (\<lambda>(name, _). bt_get object (uni name) \<noteq> None) deprecated_fields)"

definition validate_config_file :: "(uchars, json_value) btree \<Rightarrow> uchars \<Rightarrow> path \<Rightarrow> validation_result" where
  "validate_config_file object source file_path =
     (let path_display = utf8_lossy (show_path file_path);
          result = validate_object_keys object top_level_fields [] source path_display;
          result = result\<lparr>vr_warnings := vr_warnings result @ deprecation_warnings object source path_display\<rparr>
      in fold (validate_nested object source path_display) nested_fields result)"

text \<open>The error is the text of a \<open>ConfigError::Parse\<close>.\<close>

definition check_unsupported_format :: "path \<Rightarrow> string + unit" where
  "check_unsupported_format file_path =
     (case path_extension file_path of
        Some ext \<Rightarrow>
          if valid_utf8 ext \<and> to_ascii_lowercase ext = ''toml''
          then Inl (utf8_lossy (show_path file_path) @ '': TOML config files are not supported. Use JSON (settings.json) instead'')
          else Inr ()
      | None \<Rightarrow> Inr ())"

definition format_diagnostics :: "validation_result \<Rightarrow> string" where
  "format_diagnostics result =
     join nl (map (\<lambda>d. ''warning: '' @ show_diagnostic d) (vr_warnings result)
            @ map (\<lambda>d. ''error: '' @ show_diagnostic d) (vr_errors result))"

section \<open>The edit distance\<close>

text \<open>An alignment of two texts with its number of insertions, deletions and replacements.\<close>

inductive aligned :: "nat \<Rightarrow> uchars \<Rightarrow> uchars \<Rightarrow> bool" where
  aligned_end: "aligned 0 [] []"
| aligned_keep: "aligned n xs ys \<Longrightarrow> aligned n (xs @ [c]) (ys @ [c])"
| aligned_replace: "aligned n xs ys \<Longrightarrow> aligned (Suc n) (xs @ [c]) (ys @ [d])"
| aligned_insert: "aligned n xs ys \<Longrightarrow> aligned (Suc n) xs (ys @ [d])"
| aligned_delete: "aligned n xs ys \<Longrightarrow> aligned (Suc n) (xs @ [c]) ys"

text \<open>The distance by the recursion that the table unrolls, on reversed texts.\<close>

fun rev_distance :: "uchars \<Rightarrow> uchars \<Rightarrow> nat" where
  "rev_distance [] ys = length ys"
| "rev_distance xs [] = length xs"
| "rev_distance (x # xs) (y # ys) =
     min (min (rev_distance xs (y # ys) + 1) (rev_distance (x # xs) ys + 1)) (rev_distance xs ys + (if x = y then 0 else 1))"

abbreviation prefix_distance :: "uchars \<Rightarrow> uchars \<Rightarrow> nat" where
  "prefix_distance xs ys \<equiv> rev_distance (rev xs) (rev ys)"

lemma rev_distance_Nil [simp]: "rev_distance xs [] = length xs"
  by (cases xs) simp_all

lemma aligned_rev_distance: "aligned (rev_distance xs ys) (rev xs) (rev ys)"
proof (induction xs ys rule: rev_distance.induct)
  case (1 ys)
  show ?case by (induction ys) (auto intro: aligned.intros)
next
  case (2 x xs)
  have "aligned (length zs) (rev zs) []" for zs by (induction zs) (auto intro: aligned.intros)
  from this [of "x # xs"] show ?case by simp
next
  case (3 x xs y ys)
  have "aligned (rev_distance xs ys + (if x = y then 0 else 1)) (rev (x # xs)) (rev (y # ys))"
    using 3(3) by (auto intro: aligned.intros)
  moreover have "aligned (rev_distance xs (y # ys) + 1) (rev (x # xs)) (rev (y # ys))"
      "aligned (rev_distance (x # xs) ys + 1) (rev (x # xs)) (rev (y # ys))"
    using 3(1,2) by (auto intro: aligned.intros)
  ultimately show ?case unfolding rev_distance.simps by (auto simp: min_def)
qed

lemma rev_distance_steps:
  "rev_distance (x # xs) ys \<le> Suc (rev_distance xs ys)"
  "rev_distance xs (y # ys) \<le> Suc (rev_distance xs ys)"
  by (cases ys; simp) (cases xs; simp)

lemma rev_distance_least: "aligned n xs ys \<Longrightarrow> prefix_distance xs ys \<le> n"
proof (induction rule: aligned.induct)
  case (aligned_insert n xs ys d)
  then show ?case using rev_distance_steps(2) [of "rev xs" d "rev ys"] by simp
next
  case (aligned_delete n xs ys c)
  then show ?case using rev_distance_steps(1) [of c "rev xs" "rev ys"] by simp
qed auto

text \<open>The entries of a row are the distances of the prefixes.\<close>

lemma next_entries_distances:
  "next_entries c (prefix_distance (xs @ [c]) ys) (map (\<lambda>j. prefix_distance xs (ys @ take j rs)) [0..<Suc (length rs)]) rs
   = map (\<lambda>j. prefix_distance (xs @ [c]) (ys @ take (Suc j) rs)) [0..<length rs]"
proof (induction rs arbitrary: ys)
  case (Cons r rs)
  have "next_entries c (prefix_distance (xs @ [c]) (ys @ [r]))
      (map (\<lambda>j. prefix_distance xs (ys @ take j (r # rs))) [Suc 0..<Suc (Suc (length rs))]) rs
    = map (\<lambda>j. prefix_distance (xs @ [c]) (ys @ take (Suc j) (r # rs))) [Suc 0..<Suc (length rs)]"
    using Cons [of "ys @ [r]"] by (simp add: map_Suc_upt [symmetric] comp_def del: upt_Suc)
  then show ?case by (simp add: upt_conv_Cons Let_def min.commute del: upt_Suc)
qed simp

lemma edit_rows_distances:
  "edit_rows (length xs) right cs (map (\<lambda>j. prefix_distance xs (take j right)) [0..<Suc (length right)])
   = map (\<lambda>j. prefix_distance (xs @ cs) (take j right)) [0..<Suc (length right)]"
proof (induction cs arbitrary: xs)
  case (Cons c cs)
  have "Suc (length xs) # next_entries c (Suc (length xs)) (map (\<lambda>j. prefix_distance xs (take j right)) [0..<Suc (length right)]) right
      = map (\<lambda>j. prefix_distance (xs @ [c]) (take j right)) [0..<Suc (length right)]"
    using next_entries_distances [of c xs "[]" right] by (simp add: upt_conv_Cons map_Suc_upt [symmetric] comp_def del: upt_Suc)
  then show ?case using Cons [of "xs @ [c]"] by (simp del: upt_Suc)
qed simp

text \<open>
  C34: The edit distance behind the suggestions is the least number of insertions, deletions and
  replacements of characters that turn one nonempty text into the other.
\<close>

theorem edit_distance_least:
  assumes "left \<noteq> []" and "right \<noteq> []"
  shows "aligned (simple_edit_distance left right) left right
    \<and> (\<forall>n. aligned n left right \<longrightarrow> simple_edit_distance left right \<le> n)"
proof -
  have row: "map (\<lambda>j. prefix_distance [] (take j right)) [0..<Suc (length right)] = [0..<Suc (length right)]"
    by (rule nth_equalityI) (auto simp del: upt_Suc)
  have "simple_edit_distance left right = prefix_distance left right"
    using assms edit_rows_distances [of "[]" right left] unfolding row
    by (simp add: simple_edit_distance_def del: upt_Suc)
  then show ?thesis
    using aligned_rev_distance [of "rev left" "rev right"] rev_distance_least by simp
qed

theorem edit_distance_least_witness:
  "aligned 2 (uni ''modle'') (uni ''model'') \<and> \<not> aligned 1 (uni ''modle'') (uni ''model'')"
proof -
  have "simple_edit_distance (uni ''modle'') (uni ''model'') = 2" by code_simp
  moreover have "uni ''modle'' \<noteq> []" "uni ''model'' \<noteq> []" by (simp_all add: uni_def)
  ultimately show ?thesis using edit_distance_least [of "uni ''modle''" "uni ''model''"] by fastforce
qed

section \<open>What is reported\<close>

lemma merge_errors: "vr_errors (fold (validate_nested object source path) nested r)
  = vr_errors r @ concat (map (\<lambda>(name, known). case bt_get object (uni name) of
      Some (Object inner) \<Rightarrow> vr_errors (validate_object_keys inner known name source path) | _ \<Rightarrow> []) nested)"
  by (induction nested arbitrary: r) (auto simp: validate_nested_def validation_merge_def split: option.split json_value.split)

text \<open>A file passes exactly when every key at the top and in the known objects is known there with its
  type, or is deprecated.\<close>

lemma keys_pass: "vr_errors (validate_object_keys object known prefix source path) = [] \<longleftrightarrow>
    (\<forall>(key, value) \<in> set object. check_key known key value = None)"
  by (auto simp: validate_object_keys_def split: option.splits)

lemma nested_pass: "(case v of Some (Object inner) \<Rightarrow> vr_errors (validate_object_keys inner known name source path) | _ \<Rightarrow> []) = [] \<longleftrightarrow>
    (\<forall>inner. v = Some (Object inner) \<longrightarrow> (\<forall>(key, value) \<in> set inner. check_key known key value = None))"
  by (simp add: keys_pass split: option.split json_value.split)

lemma validation_passes:
  "validation_is_ok (validate_config_file object source file_path) \<longleftrightarrow>
     (\<forall>(key, value) \<in> set object. check_key top_level_fields key value = None) \<and>
     (\<forall>(name, known) \<in> set nested_fields. \<forall>inner. bt_get object (uni name) = Some (Object inner) \<longrightarrow>
        (\<forall>(key, value) \<in> set inner. check_key known key value = None))"
  by (simp add: validation_is_ok_def validate_config_file_def Let_def merge_errors keys_pass case_prod_beta nested_pass)

text \<open>A deprecated name is passed over below the top level too, where it means nothing.\<close>

lemma nested_deprecated_unreported:
  "format_diagnostics (validate_config_file [(uni ''sandbox'', Object [(uni ''permissionMode'', Null)])] [] [RootDir]) = []"
  by code_simp

text \<open>The line is that of the first key of this name, wherever it stands.\<close>

lemma line_of_another_key:
  "map cd_line (vr_errors (validate_config_file
     [(uni ''model'', Bool True), (uni ''sandbox'', Object [])]
     (uni ''{''  @ [10] @ uni ([CHR 0x22] @ ''env'' @ [CHR 0x22] @ '':{'' @ [CHR 0x22] @ ''model'' @ [CHR 0x22] @ '':1},'') @ [10]
        @ uni ([CHR 0x22] @ ''model'' @ [CHR 0x22] @ '':true}'')) [RootDir])) = [Some 2]"
  by code_simp

end
