(* ===== verification/RefSandbox.thy ===== *)
theory RefSandbox
  imports FileSys
begin

text \<open>
  The sandbox of the reference runtime, \<open>runtime/src/sandbox.rs\<close>: requests and their status, the
  marks of a container, and the command that is run in place of one. The target is Linux. The
  environment of the process and the run of \<open>unshare\<close> are the fields of a \<open>sandbox_env\<close>; the state is
  the file system and the answer \<open>OnceLock\<close> keeps.
\<close>

section \<open>Data\<close>

datatype isolation_mode = IsolationOff | WorkspaceOnly | AllowList

fun isolation_as_str :: "isolation_mode \<Rightarrow> string" where
  "isolation_as_str IsolationOff = ''off''"
| "isolation_as_str WorkspaceOnly = ''workspace-only''"
| "isolation_as_str AllowList = ''allow-list''"

record sandbox_config =
  sc_enabled :: "bool option"
  sc_namespace_restrictions :: "bool option"
  sc_network_isolation :: "bool option"
  sc_filesystem_mode :: "isolation_mode option"
  sc_allowed_mounts :: "string list"

definition sandbox_config_default :: sandbox_config where
  "sandbox_config_default = \<lparr>sc_enabled = None, sc_namespace_restrictions = None, sc_network_isolation = None,
     sc_filesystem_mode = None, sc_allowed_mounts = []\<rparr>"

record sandbox_request =
  sr_enabled :: bool
  sr_namespace_restrictions :: bool
  sr_network_isolation :: bool
  sr_filesystem_mode :: isolation_mode
  sr_allowed_mounts :: "string list"

record container_environment =
  ce_in_container :: bool
  ce_markers :: "string list"

record sandbox_status =
  ss_enabled :: bool
  ss_requested :: sandbox_request
  ss_supported :: bool
  ss_active :: bool
  ss_namespace_supported :: bool
  ss_namespace_active :: bool
  ss_network_supported :: bool
  ss_network_active :: bool
  ss_filesystem_mode :: isolation_mode
  ss_filesystem_active :: bool
  ss_allowed_mounts :: "string list"
  ss_in_container :: bool
  ss_container_markers :: "string list"
  ss_fallback_reason :: "string option"

record detection_inputs =
  di_env_pairs :: "(string \<times> string) list"
  di_dockerenv_exists :: bool
  di_containerenv_exists :: bool
  di_proc_1_cgroup :: "string option"

record linux_sandbox_command =
  lc_program :: string
  lc_args :: "string list"
  lc_env :: "(string \<times> string) list"

record sandbox_env =
  sb_vars :: "(string \<times> string) list"
  sb_unshare_succeeds :: bool

record sandbox_world =
  sw_fs :: fs
  sw_unshare :: "bool option"

section \<open>Requests and containers\<close>

definition resolve_request ::
  "sandbox_config \<Rightarrow> bool option \<Rightarrow> bool option \<Rightarrow> bool option \<Rightarrow> isolation_mode option \<Rightarrow> string list option
    \<Rightarrow> sandbox_request" where
  "resolve_request c enabled namespace network mode mounts =
     \<lparr>sr_enabled = unwrap_or (unwrap_or True (sc_enabled c)) enabled,
      sr_namespace_restrictions = unwrap_or (unwrap_or True (sc_namespace_restrictions c)) namespace,
      sr_network_isolation = unwrap_or (unwrap_or False (sc_network_isolation c)) network,
      sr_filesystem_mode = unwrap_or (unwrap_or WorkspaceOnly (sc_filesystem_mode c)) mode,
      sr_allowed_mounts = unwrap_or (sc_allowed_mounts c) mounts\<rparr>"

definition env_marker :: "string \<times> string \<Rightarrow> string list" where
  "env_marker = (\<lambda>(key, value).
     if to_ascii_lowercase key \<in> {''container'', ''docker'', ''podman'', ''kubernetes_service_host''} \<and> value \<noteq> []
     then [''env:'' @ key @ ''='' @ value] else [])"

definition cgroup_markers :: "string \<Rightarrow> string list" where
  "cgroup_markers cgroup =
     map (\<lambda>needle. ''/proc/1/cgroup:'' @ needle)
       (filter (contains cgroup) [''docker'', ''containerd'', ''kubepods'', ''podman'', ''libpod''])"

definition detect_container_environment_from :: "detection_inputs \<Rightarrow> container_environment" where
  "detect_container_environment_from inputs =
     (let markers = (if di_dockerenv_exists inputs then [''/.dockerenv''] else [])
            @ (if di_containerenv_exists inputs then [''/run/.containerenv''] else [])
            @ concat (map env_marker (di_env_pairs inputs))
            @ (case di_proc_1_cgroup inputs of None \<Rightarrow> [] | Some cgroup \<Rightarrow> cgroup_markers cgroup);
          markers = remdups_adj (sort markers)
      in \<lparr>ce_in_container = markers \<noteq> [], ce_markers = markers\<rparr>)"

definition detect_container_environment :: "sandbox_env \<Rightarrow> fs \<Rightarrow> container_environment \<times> fs" where
  "detect_container_environment env s =
     (let (cgroup, s1) = fs_read_to_string [RootDir, Name ''proc'', Name ''1'', Name ''cgroup''] s;
          (dockerenv, s2) = fs_exists [RootDir, Name ''.dockerenv''] s1;
          (containerenv, s3) = fs_exists [RootDir, Name ''run'', Name ''.containerenv''] s2
      in (detect_container_environment_from
            \<lparr>di_env_pairs = sb_vars env, di_dockerenv_exists = dockerenv, di_containerenv_exists = containerenv,
             di_proc_1_cgroup = (case cgroup of Inl _ \<Rightarrow> None | Inr c \<Rightarrow> Some c)\<rparr>, s3))"

section \<open>Support\<close>

fun any_exists :: "path list \<Rightarrow> fs \<Rightarrow> bool \<times> fs" where
  "any_exists [] s = (False, s)"
| "any_exists (p # ps) s = (let (found, s1) = fs_exists p s in if found then (True, s1) else any_exists ps s1)"

definition command_exists :: "sandbox_env \<Rightarrow> string \<Rightarrow> fs \<Rightarrow> bool \<times> fs" where
  "command_exists env command s =
     (case map_of (sb_vars env) ''PATH'' of
        None \<Rightarrow> (False, s)
      | Some paths \<Rightarrow>
          any_exists (map (\<lambda>p. path_join (parse_path p) (parse_path command)) (split_on (CHR '':'') [] paths)) s)"

definition unshare_user_namespace_works :: "sandbox_env \<Rightarrow> sandbox_world \<Rightarrow> bool \<times> sandbox_world" where
  "unshare_user_namespace_works env w =
     (case sw_unshare w of
        Some works \<Rightarrow> (works, w)
      | None \<Rightarrow>
          (let (found, s) = command_exists env ''unshare'' (sw_fs w);
               works = found \<and> sb_unshare_succeeds env
           in (works, w\<lparr>sw_fs := s, sw_unshare := Some works\<rparr>)))"

section \<open>Status\<close>

definition normalize_mounts :: "string list \<Rightarrow> path \<Rightarrow> string list" where
  "normalize_mounts mounts cwd =
     map (\<lambda>mount. utf8_lossy (if starts_with mount ''/'' then mount
        else if cwd = [] then mount
        else show_path cwd @ (if ends_with (show_path cwd) ''/'' then [] else ''/'') @ mount)) mounts"

definition fallback_reasons :: "sandbox_request \<Rightarrow> bool \<Rightarrow> string list" where
  "fallback_reasons request supported =
     (if sr_enabled request \<and> sr_namespace_restrictions request \<and> \<not> supported
      then [''namespace isolation unavailable (requires Linux with `unshare`)''] else [])
     @ (if sr_enabled request \<and> sr_network_isolation request \<and> \<not> supported
        then [''network isolation unavailable (requires Linux with `unshare`)''] else [])
     @ (if sr_enabled request \<and> sr_filesystem_mode request = AllowList \<and> sr_allowed_mounts request = []
        then [''filesystem allow-list requested without configured mounts''] else [])"

definition status_for :: "sandbox_request \<Rightarrow> bool \<Rightarrow> container_environment \<Rightarrow> path \<Rightarrow> sandbox_status" where
  "status_for request supported container cwd =
     \<lparr>ss_enabled = sr_enabled request, ss_requested = request, ss_supported = supported,
      ss_active = (sr_enabled request \<and> (sr_namespace_restrictions request \<longrightarrow> supported)
        \<and> (sr_network_isolation request \<longrightarrow> supported)),
      ss_namespace_supported = supported,
      ss_namespace_active = (sr_enabled request \<and> sr_namespace_restrictions request \<and> supported),
      ss_network_supported = supported,
      ss_network_active = (sr_enabled request \<and> sr_network_isolation request \<and> supported),
      ss_filesystem_mode = sr_filesystem_mode request,
      ss_filesystem_active = (sr_enabled request \<and> sr_filesystem_mode request \<noteq> IsolationOff),
      ss_allowed_mounts = normalize_mounts (sr_allowed_mounts request) cwd,
      ss_in_container = ce_in_container container, ss_container_markers = ce_markers container,
      ss_fallback_reason = (let reasons = fallback_reasons request supported in
        if reasons = [] then None else Some (join ''; '' reasons))\<rparr>"

definition resolve_sandbox_status_for_request ::
  "sandbox_env \<Rightarrow> sandbox_request \<Rightarrow> path \<Rightarrow> sandbox_world \<Rightarrow> sandbox_status \<times> sandbox_world" where
  "resolve_sandbox_status_for_request env request cwd w =
     (let (container, s) = detect_container_environment env (sw_fs w);
          (supported, w) = unshare_user_namespace_works env (w\<lparr>sw_fs := s\<rparr>)
      in (status_for request supported container cwd, w))"

definition resolve_sandbox_status ::
  "sandbox_env \<Rightarrow> sandbox_config \<Rightarrow> path \<Rightarrow> sandbox_world \<Rightarrow> sandbox_status \<times> sandbox_world" where
  "resolve_sandbox_status env c = resolve_sandbox_status_for_request env (resolve_request c None None None None None)"

section \<open>The command\<close>

definition build_linux_sandbox_command ::
  "sandbox_env \<Rightarrow> string \<Rightarrow> path \<Rightarrow> sandbox_status \<Rightarrow> linux_sandbox_command option" where
  "build_linux_sandbox_command env command cwd status =
     (if \<not> ss_enabled status \<or> \<not> ss_namespace_active status \<and> \<not> ss_network_active status then None
      else Some
        \<lparr>lc_program = ''unshare'',
         lc_args = [''--user'', ''--map-root-user'', ''--mount'', ''--ipc'', ''--pid'', ''--uts'', ''--fork'']
           @ (if ss_network_active status then [''--net''] else []) @ [''sh'', ''-lc'', command],
         lc_env =
           [(''HOME'', utf8_lossy (show_path (path_join cwd [Name ''.sandbox-home'']))),
            (''TMPDIR'', utf8_lossy (show_path (path_join cwd [Name ''.sandbox-tmp'']))),
            (''CLAWD_SANDBOX_FILESYSTEM_MODE'', isolation_as_str (ss_filesystem_mode status)),
            (''CLAWD_SANDBOX_ALLOWED_MOUNTS'', join '':'' (ss_allowed_mounts status))]
           @ (case map_of (sb_vars env) ''PATH'' of
                Some p \<Rightarrow> if valid_utf8 p then [(''PATH'', p)] else [] | None \<Rightarrow> [])\<rparr>)"

section \<open>What a status promises\<close>

text \<open>
  An active sandbox has every isolation that was asked for, or no isolation was asked for; a
  command is then wrapped exactly when one was, with a network of its own exactly when that was
  asked for, and runs the command as it is given. A sandbox that is enabled and not active says why.
\<close>

theorem active_sandbox_isolates:
  assumes "resolve_sandbox_status_for_request env request cwd w = (status, w')"
  shows "(ss_active status \<longrightarrow>
      ss_namespace_active status = sr_namespace_restrictions request \<and> ss_network_active status = sr_network_isolation request
      \<and> (case build_linux_sandbox_command env command cwd status of
           None \<Rightarrow> \<not> sr_namespace_restrictions request \<and> \<not> sr_network_isolation request
         | Some wrapped \<Rightarrow> (sr_namespace_restrictions request \<or> sr_network_isolation request)
             \<and> (''--net'' \<in> set (butlast (lc_args wrapped)) \<longleftrightarrow> sr_network_isolation request)
             \<and> last (lc_args wrapped) = command))
    \<and> (sr_enabled request \<and> \<not> ss_active status \<longrightarrow> ss_fallback_reason status \<noteq> None)"
proof -
  obtain supported container where "status = status_for request supported container cwd"
    using assms by (auto simp: resolve_sandbox_status_for_request_def split: prod.splits)
  then show ?thesis
    by (cases supported) (auto simp: status_for_def build_linux_sandbox_command_def fallback_reasons_def butlast_append)
qed

definition bare_sandbox_world :: sandbox_world where
  "bare_sandbox_world = \<lparr>sw_fs = \<lparr>fs_nodes = [], fs_cwd = [], fs_faults = []\<rparr>, sw_unshare = Some False\<rparr>"

theorem active_sandbox_isolates_witness:
  "ss_fallback_reason (fst (resolve_sandbox_status_for_request \<lparr>sb_vars = [], sb_unshare_succeeds = True\<rparr>
     (resolve_request sandbox_config_default None None None None None) [RootDir] bare_sandbox_world)) \<noteq> None"
proof -
  let ?run = "resolve_sandbox_status_for_request \<lparr>sb_vars = [], sb_unshare_succeeds = True\<rparr>
     (resolve_request sandbox_config_default None None None None None) [RootDir] bare_sandbox_world"
  have "sr_enabled (resolve_request sandbox_config_default None None None None None) \<and> \<not> ss_active (fst ?run)" by code_simp
  then show ?thesis using active_sandbox_isolates [of _ _ _ _ "fst ?run" "snd ?run"] by simp
qed

text \<open>The file system mode and the mounts change nothing but two variables the command may read.\<close>

lemma filesystem_mode_unenforced:
  assumes "build_linux_sandbox_command env command cwd status = Some wrapped"
  shows "\<exists>wrapped'. build_linux_sandbox_command env command cwd (status\<lparr>ss_filesystem_mode := mode, ss_allowed_mounts := mounts\<rparr>) = Some wrapped'
    \<and> lc_args wrapped' = lc_args wrapped \<and> lc_program wrapped' = lc_program wrapped"
  using assms by (auto simp: build_linux_sandbox_command_def split: if_splits)

end
