(* ===== verification/RefOauth.thy ===== *)
theory RefOauth
  imports FileSys TextEdit Json
begin

text \<open>
  Signing in, \<open>claw-rust/crates/runtime/src/oauth.rs\<close>: requests and their URLs, the callback, the two
  text encodings, and the file of credentials. The digest, the random bytes, \<open>serde_json\<close>'s text form
  and the texts of its errors are parameters.
\<close>

section \<open>Encodings\<close>

definition b64_table :: string where
  "b64_table = ''ABCDEFGHIJKLMNOPQRSTUVWXYZabcdefghijklmnopqrstuvwxyz0123456789-_''"

text \<open>The sextet of a 24-bit block above \<open>k\<close> bits.\<close>

definition b64_char :: "nat \<Rightarrow> nat \<Rightarrow> char" where
  "b64_char block k = b64_table ! (block div 2 ^ k mod 64)"

definition block_of :: "char \<Rightarrow> char \<Rightarrow> char \<Rightarrow> nat" where
  "block_of a b c = of_char a * 2 ^ 16 + of_char b * 2 ^ 8 + of_char c"

fun base64url_encode :: "string \<Rightarrow> string" where
  "base64url_encode (a # b # c # rest) =
     (let block = block_of a b c
      in b64_char block 18 # b64_char block 12 # b64_char block 6 # b64_char block 0 # base64url_encode rest)"
| "base64url_encode [a, b] =
     (let block = block_of a b (CHR 0x00) in [b64_char block 18, b64_char block 12, b64_char block 6])"
| "base64url_encode [a] = (let block = block_of a (CHR 0x00) (CHR 0x00) in [b64_char block 18, b64_char block 12])"
| "base64url_encode [] = []"

definition unreserved :: "char \<Rightarrow> bool" where
  "unreserved c \<longleftrightarrow> (let n = of_char c :: nat in
     65 \<le> n \<and> n \<le> 90 \<or> 97 \<le> n \<and> n \<le> 122 \<or> 48 \<le> n \<and> n \<le> 57 \<or> c \<in> {CHR ''-'', CHR ''_'', CHR ''.'', CHR ''~''})"

definition upper_hex :: "nat \<Rightarrow> char" where
  "upper_hex d = (if d < 10 then char_of (48 + d) else char_of (55 + d))"

definition percent_byte :: "char \<Rightarrow> string" where
  "percent_byte c =
     (if unreserved c then [c] else [CHR ''%'', upper_hex (of_char c div 16), upper_hex (of_char c mod 16)])"

definition percent_encode :: "string \<Rightarrow> string" where
  "percent_encode value = concat (map percent_byte value)"

definition decode_hex :: "char \<Rightarrow> string + nat" where
  "decode_hex c =
     (let n = of_char c in
      if 48 \<le> n \<and> n \<le> 57 then Inr (n - 48)
      else if 97 \<le> n \<and> n \<le> 102 then Inr (n - 87)
      else if 65 \<le> n \<and> n \<le> 70 then Inr (n - 55)
      else Inl (''invalid percent byte: '' @ show_nat n))"

fun decode_bytes :: "string \<Rightarrow> string + string" where
  "decode_bytes [] = Inr []"
| "decode_bytes (c # rest) =
     (if c = CHR ''%'' \<and> 2 \<le> length rest then
        and_then (decode_hex (rest ! 0)) (\<lambda>hi. and_then (decode_hex (rest ! 1)) (\<lambda>lo.
          and_then (decode_bytes (drop 2 rest)) (\<lambda>cs. Inr (char_of (16 * hi + lo) # cs))))
      else and_then (decode_bytes rest) (\<lambda>cs. Inr ((if c = CHR ''+'' then CHR '' '' else c) # cs)))"

text \<open>Where a text stops being UTF-8: the index and the length of the bad sequence, none when the
  text ends within it; and the message of \<open>FromUtf8Error\<close>.\<close>

function utf8_fault :: "nat \<Rightarrow> string \<Rightarrow> (nat \<times> nat option) option" where
  "utf8_fault i [] = None"
| "utf8_fault i (c # cs) =
     (case continuation_ranges (of_char c) of
        None \<Rightarrow> Some (i, Some 1)
      | Some rs \<Rightarrow>
          (case take_continuation rs cs of
             (t, full, rest) \<Rightarrow>
               if full then utf8_fault (i + Suc (length t)) rest
               else Some (i, if rest = [] then None else Some (Suc (length t)))))"
  by pat_completeness auto
termination
  by (relation "measure (\<lambda>(i, s). length s)") (auto dest!: take_continuation_length [OF sym])

definition utf8_error_text :: "string \<Rightarrow> string" where
  "utf8_error_text s =
     (case utf8_fault 0 s of
        None \<Rightarrow> []
      | Some (i, None) \<Rightarrow> ''incomplete utf-8 byte sequence from index '' @ show_nat i
      | Some (i, Some n) \<Rightarrow> ''invalid utf-8 sequence of '' @ show_nat n @ '' bytes from index '' @ show_nat i)"

definition percent_decode :: "string \<Rightarrow> string + string" where
  "percent_decode value =
     and_then (decode_bytes value) (\<lambda>bytes. if valid_utf8 bytes then Inr bytes else Inl (utf8_error_text bytes))"

section \<open>Requests\<close>

record oauth_config =
  oc_client_id :: string
  oc_authorize_url :: string
  oc_token_url :: string
  oc_callback_port :: "u16 option"
  oc_manual_redirect_url :: "string option"
  oc_scopes :: "string list"

record oauth_token_set =
  ot_access_token :: string
  ot_refresh_token :: "string option"
  ot_expires_at :: "u64 option"
  ot_scopes :: "string list"

record pkce_pair =
  pk_verifier :: string
  pk_challenge :: string

record authorization_request =
  ar_authorize_url :: string
  ar_client_id :: string
  ar_redirect_uri :: string
  ar_scopes :: "string list"
  ar_state :: string
  ar_code_challenge :: string
  ar_extra_params :: "(string, string) btree"

record token_exchange_request =
  te_grant_type :: string
  te_code :: string
  te_redirect_uri :: string
  te_client_id :: string
  te_code_verifier :: string
  te_state :: string

record refresh_request =
  rr_grant_type :: string
  rr_refresh_token :: string
  rr_client_id :: string
  rr_scopes :: "string list"

record callback_params =
  cb_code :: "string option"
  cb_state :: "string option"
  cb_error :: "string option"
  cb_error_description :: "string option"

definition authorization_from_config :: "oauth_config \<Rightarrow> string \<Rightarrow> string \<Rightarrow> pkce_pair \<Rightarrow> authorization_request" where
  "authorization_from_config config redirect_uri state pkce =
     \<lparr>ar_authorize_url = oc_authorize_url config, ar_client_id = oc_client_id config, ar_redirect_uri = redirect_uri,
      ar_scopes = oc_scopes config, ar_state = state, ar_code_challenge = pk_challenge pkce, ar_extra_params = []\<rparr>"

definition with_extra_param :: "string \<Rightarrow> string \<Rightarrow> authorization_request \<Rightarrow> authorization_request" where
  "with_extra_param key value r = r\<lparr>ar_extra_params := bt_insert key value (ar_extra_params r)\<rparr>"

definition url_params :: "authorization_request \<Rightarrow> (string \<times> string) list" where
  "url_params r =
     [(''response_type'', ''code''), (''client_id'', ar_client_id r), (''redirect_uri'', ar_redirect_uri r),
      (''scope'', join '' '' (ar_scopes r)), (''state'', ar_state r), (''code_challenge'', ar_code_challenge r),
      (''code_challenge_method'', ''S256'')] @ ar_extra_params r"

definition query_text :: "(string \<times> string) list \<Rightarrow> string" where
  "query_text params = join ''&'' (map (\<lambda>(k, v). percent_encode k @ ''='' @ percent_encode v) params)"

definition build_url :: "authorization_request \<Rightarrow> string" where
  "build_url r = ar_authorize_url r @ (if contains (ar_authorize_url r) ''?'' then ''&'' else ''?'')
     @ query_text (url_params r)"

definition exchange_from_config :: "oauth_config \<Rightarrow> string \<Rightarrow> string \<Rightarrow> string \<Rightarrow> string \<Rightarrow> token_exchange_request" where
  "exchange_from_config config code state verifier redirect_uri =
     \<lparr>te_grant_type = ''authorization_code'', te_code = code, te_redirect_uri = redirect_uri,
      te_client_id = oc_client_id config, te_code_verifier = verifier, te_state = state\<rparr>"

definition exchange_form_params :: "token_exchange_request \<Rightarrow> (string, string) btree" where
  "exchange_form_params r =
     bt_of_list [(''grant_type'', te_grant_type r), (''code'', te_code r), (''redirect_uri'', te_redirect_uri r),
       (''client_id'', te_client_id r), (''code_verifier'', te_code_verifier r), (''state'', te_state r)]"

definition refresh_from_config :: "oauth_config \<Rightarrow> string \<Rightarrow> string list option \<Rightarrow> refresh_request" where
  "refresh_from_config config refresh_token scopes =
     \<lparr>rr_grant_type = ''refresh_token'', rr_refresh_token = refresh_token, rr_client_id = oc_client_id config,
      rr_scopes = unwrap_or (oc_scopes config) scopes\<rparr>"

definition refresh_form_params :: "refresh_request \<Rightarrow> (string, string) btree" where
  "refresh_form_params r =
     bt_of_list [(''grant_type'', rr_grant_type r), (''refresh_token'', rr_refresh_token r),
       (''client_id'', rr_client_id r), (''scope'', join '' '' (rr_scopes r))]"

text \<open>The random bytes as they were read from the device, and the digest.\<close>

definition random_token :: "io_error + string \<Rightarrow> io_error + string" where
  "random_token bytes = map_sum id base64url_encode bytes"

definition code_challenge_s256 :: "(string \<Rightarrow> string) \<Rightarrow> string \<Rightarrow> string" where
  "code_challenge_s256 sha256 verifier = base64url_encode (sha256 verifier)"

definition generate_pkce_pair :: "(string \<Rightarrow> string) \<Rightarrow> io_error + string \<Rightarrow> io_error + pkce_pair" where
  "generate_pkce_pair sha256 bytes =
     and_then (random_token bytes) (\<lambda>verifier.
       Inr \<lparr>pk_verifier = verifier, pk_challenge = code_challenge_s256 sha256 verifier\<rparr>)"

definition loopback_redirect_uri :: "u16 \<Rightarrow> string" where
  "loopback_redirect_uri port = ''http://localhost:'' @ show_nat (unat port) @ ''/callback''"

section \<open>The callback\<close>

definition split_pair :: "char \<Rightarrow> string \<Rightarrow> string \<times> string" where
  "split_pair d s = (case split_at_char d s of (a, None) \<Rightarrow> (a, []) | (a, Some b) \<Rightarrow> (a, b))"

fun read_pairs :: "string list \<Rightarrow> (string, string) btree \<Rightarrow> string + (string, string) btree" where
  "read_pairs [] params = Inr params"
| "read_pairs (pair # pairs) params =
     (let (key, value) = split_pair (CHR ''='') pair
      in and_then (percent_decode key) (\<lambda>k. and_then (percent_decode value) (\<lambda>v.
           read_pairs pairs (bt_insert k v params))))"

definition query_params :: "string \<Rightarrow> string + (string, string) btree" where
  "query_params query = read_pairs (filter (\<lambda>pair. pair \<noteq> []) (split_on (CHR ''&'') [] query)) []"

definition parse_oauth_callback_query :: "string \<Rightarrow> string + callback_params" where
  "parse_oauth_callback_query query =
     and_then (query_params query) (\<lambda>params.
       Inr \<lparr>cb_code = bt_get params ''code'', cb_state = bt_get params ''state'', cb_error = bt_get params ''error'',
         cb_error_description = bt_get params ''error_description''\<rparr>)"

definition parse_oauth_callback_request_target :: "string \<Rightarrow> string + callback_params" where
  "parse_oauth_callback_request_target target =
     (let (path, query) = split_pair (CHR ''?'') target
      in if path \<noteq> ''/callback'' then Inl (''unexpected callback path: '' @ path)
         else parse_oauth_callback_query query)"

section \<open>Credentials\<close>

text \<open>The stored form, in camel case; the three optional fields have defaults. \<open>wrong\<close> is the text of
  \<open>serde_json\<close>'s error for a value of another shape.\<close>

definition stored_value :: "oauth_token_set \<Rightarrow> json" where
  "stored_value t =
     jobj [(''accessToken'', JStr (ot_access_token t)), (''refreshToken'', jopt JStr (ot_refresh_token t)),
       (''expiresAt'', jopt (\<lambda>n. JNum (PosInt n)) (ot_expires_at t)), (''scopes'', JArr (map JStr (ot_scopes t)))]"

definition optional_value :: "(json \<Rightarrow> 'a option) \<Rightarrow> json option \<Rightarrow> 'a option option" where
  "optional_value f v =
     (case v of None \<Rightarrow> Some None | Some v \<Rightarrow> if v = JNull then Some None else map_option Some (f v))"

fun all_some :: "'a option list \<Rightarrow> 'a list option" where
  "all_some [] = Some []"
| "all_some (x # xs) = Option.bind x (\<lambda>y. map_option ((#) y) (all_some xs))"

definition stored_from_value :: "json \<Rightarrow> oauth_token_set option" where
  "stored_from_value v =
     Option.bind (get_str v ''accessToken'') (\<lambda>access.
     Option.bind (optional_value as_str (json_get v ''refreshToken'')) (\<lambda>refresh.
     Option.bind (optional_value as_u64 (json_get v ''expiresAt'')) (\<lambda>expires.
     Option.bind (case json_get v ''scopes'' of None \<Rightarrow> Some [] | Some x \<Rightarrow>
         Option.bind (as_array x) (\<lambda>xs. all_some (map as_str xs))) (\<lambda>scopes.
       Some \<lparr>ot_access_token = access, ot_refresh_token = refresh, ot_expires_at = expires, ot_scopes = scopes\<rparr>))))"

record home_env =
  he_claw_config_home :: "string option"
  he_home :: "string option"
  he_userprofile :: "string option"

definition home_not_set :: io_error where
  "home_not_set = OtherIo (''HOME is not set (on Windows, set USERPROFILE or HOME, or use CLAW_CONFIG_HOME ''
     @ ''to point directly at the config directory)'')"

definition credentials_home_dir :: "home_env \<Rightarrow> io_error + path" where
  "credentials_home_dir env =
     (case he_claw_config_home env of
        Some p \<Rightarrow> Inr (parse_path p)
      | None \<Rightarrow>
          (case (he_home env, he_userprofile env) of
             (Some h, _) \<Rightarrow> Inr (path_join (parse_path h) [Name ''.claw''])
           | (None, Some h) \<Rightarrow> Inr (path_join (parse_path h) [Name ''.claw''])
           | (None, None) \<Rightarrow> Inl home_not_set))"

definition credentials_path :: "home_env \<Rightarrow> io_error + path" where
  "credentials_path env = map_sum id (\<lambda>d. path_join d [Name ''credentials.json'']) (credentials_home_dir env)"

definition read_credentials_root ::
  "codec \<Rightarrow> path \<Rightarrow> fs \<Rightarrow> (io_error + (string, json) btree) \<times> fs" where
  "read_credentials_root codec p s =
     (case fs_read_to_string p s of
        (Inr contents, s1) \<Rightarrow>
          (if trim contents = [] then Inr []
           else case from_text codec contents of
                  Inl e \<Rightarrow> Inl (OtherIo e)
                | Inr v \<Rightarrow> ok_or (OtherIo ''credentials file must contain a JSON object'') (as_object v), s1)
      | (Inl NotFound, s1) \<Rightarrow> (Inr [], s1)
      | (Inl e, s1) \<Rightarrow> (Inl e, s1))"

definition with_extension :: "path \<Rightarrow> string \<Rightarrow> path" where
  "with_extension p ext =
     (case file_stem p of None \<Rightarrow> p | Some stem \<Rightarrow> with_file_name p (stem @ ''.'' @ ext))"

text \<open>The codec prints prettily here.\<close>

definition write_credentials_root ::
  "codec \<Rightarrow> path \<Rightarrow> (string, json) btree \<Rightarrow> fs \<Rightarrow> (io_error + unit) \<times> fs" where
  "write_credentials_root codec p root s =
     (case (case path_parent p of None \<Rightarrow> (Inr (), s) | Some parent \<Rightarrow> fs_create_dir_all parent s) of
        (Inl e, s1) \<Rightarrow> (Inl e, s1)
      | (Inr _, s1) \<Rightarrow>
          (let temp = with_extension p ''json.tmp''
           in case fs_write temp (to_text codec (JObj root) @ nl) s1 of
                (Inl e, s2) \<Rightarrow> (Inl e, s2)
              | (Inr _, s2) \<Rightarrow> fs_rename temp p s2))"

definition load_oauth_credentials ::
  "codec \<Rightarrow> (json \<Rightarrow> string) \<Rightarrow> home_env \<Rightarrow> fs \<Rightarrow> (io_error + oauth_token_set option) \<times> fs" where
  "load_oauth_credentials codec wrong env s =
     (case credentials_path env of
        Inl e \<Rightarrow> (Inl e, s)
      | Inr p \<Rightarrow>
          (case read_credentials_root codec p s of
             (Inl e, s1) \<Rightarrow> (Inl e, s1)
           | (Inr root, s1) \<Rightarrow>
               (case bt_get root ''oauth'' of
                  None \<Rightarrow> Inr None
                | Some v \<Rightarrow> if v = JNull then Inr None
                            else map_sum OtherIo Some (ok_or (wrong v) (stored_from_value v)), s1)))"

definition change_credentials ::
  "codec \<Rightarrow> ((string, json) btree \<Rightarrow> (string, json) btree) \<Rightarrow> home_env \<Rightarrow> fs \<Rightarrow> (io_error + unit) \<times> fs" where
  "change_credentials codec f env s =
     (case credentials_path env of
        Inl e \<Rightarrow> (Inl e, s)
      | Inr p \<Rightarrow>
          (case read_credentials_root codec p s of
             (Inl e, s1) \<Rightarrow> (Inl e, s1)
           | (Inr root, s1) \<Rightarrow> write_credentials_root codec p (f root) s1))"

definition save_oauth_credentials ::
  "codec \<Rightarrow> oauth_token_set \<Rightarrow> home_env \<Rightarrow> fs \<Rightarrow> (io_error + unit) \<times> fs" where
  "save_oauth_credentials codec t = change_credentials codec (bt_insert ''oauth'' (stored_value t))"

definition clear_oauth_credentials :: "codec \<Rightarrow> home_env \<Rightarrow> fs \<Rightarrow> (io_error + unit) \<times> fs" where
  "clear_oauth_credentials codec = change_credentials codec (bt_remove ''oauth'')"

section \<open>The encodings lose nothing\<close>

text \<open>A decoder for comparison.\<close>

definition b64_value :: "char \<Rightarrow> nat" where
  "b64_value c = length (takeWhile (\<lambda>d. d \<noteq> c) b64_table)"

fun base64url_decode :: "string \<Rightarrow> string" where
  "base64url_decode (w # x # y # z # rest) =
     (let n = b64_value w * 2 ^ 18 + b64_value x * 2 ^ 12 + b64_value y * 2 ^ 6 + b64_value z
      in char_of (n div 2 ^ 16) # char_of (n div 2 ^ 8 mod 256) # char_of (n mod 256) # base64url_decode rest)"
| "base64url_decode [w, x, y] =
     (let n = b64_value w * 2 ^ 18 + b64_value x * 2 ^ 12 + b64_value y * 2 ^ 6
      in [char_of (n div 2 ^ 16), char_of (n div 2 ^ 8 mod 256)])"
| "base64url_decode [w, x] = (let n = b64_value w * 2 ^ 18 + b64_value x * 2 ^ 12 in [char_of (n div 2 ^ 16)])"
| "base64url_decode _ = []"

lemma b64_sextets: "list_all (\<lambda>i. b64_value (b64_table ! i) = i \<and> b64_table ! i \<in> set b64_table) [0..<64]"
  by code_simp

lemma b64_value_char: "b64_value (b64_char n k) = n div 2 ^ k mod 64" "b64_char n k \<in> set b64_table"
  using b64_sextets by (simp_all add: b64_char_def list_all_iff)

lemma sextets_block:
  "n div 262144 * 262144 + n div 4096 mod 64 * 4096 + n div 64 mod 64 * 64 + n mod 64 = (n :: nat)"
proof -
  have "n div 4096 * 64 + n div 64 mod 64 = n div 64" "n div 262144 * 64 + n div 4096 mod 64 = n div 4096"
    using div_mult_mod_eq [of "n div 64" 64] div_mult_mod_eq [of "n div 4096" 64] by (simp_all add: div_mult2_eq [symmetric])
  moreover have "n div 64 * 64 + n mod 64 = n" by (rule div_mult_mod_eq)
  ultimately show ?thesis by linarith
qed

lemma bytes_of_block:
  assumes "a < (256 :: nat)" and "b < (256 :: nat)" and "c < (256 :: nat)"
  shows "a * 65536 + b * 256 + c < 16777216" "(a * 65536 + b * 256 + c) div 65536 = a"
    "(a * 65536 + b * 256 + c) div 256 = a * 256 + b"
proof -
  show "a * 65536 + b * 256 + c < 16777216" using assms by linarith
  show "(a * 65536 + b * 256 + c) div 65536 = a"
    by (rule div_nat_eqI, unfold mult_Suc_right) (use assms in linarith)+
  show "(a * 65536 + b * 256 + c) div 256 = a * 256 + b"
    by (rule div_nat_eqI) (use assms in \<open>simp_all add: algebra_simps\<close>)
qed

lemma block_chars:
  "block_of a b c div 262144 mod 64 = block_of a b c div 262144"
  "char_of (block_of a b c div 65536) = a" "char_of (block_of a b c div 256) = b" "char_of (block_of a b c) = c"
proof -
  note bytes = bytes_of_block [of "of_char a" "of_char b" "of_char c", simplified]
  have mod: "char_of k = char_of (k mod 256)" for k :: nat by simp
  show "block_of a b c div 262144 mod 64 = block_of a b c div 262144"
    using bytes(1) by (simp add: block_of_def less_mult_imp_div_less)
  show "char_of (block_of a b c div 65536) = a" using bytes(2) by (simp add: block_of_def)
  have "(of_char a * 256 + of_char b) mod 256 = (of_char b :: nat)" by (simp add: mod_mult_self3)
  then show "char_of (block_of a b c div 256) = b"
    using bytes(3) mod [of "of_char a * 256 + of_char b"] by (simp add: block_of_def)
  have "(of_char a * 65536 + of_char b * 256 + of_char c) mod 256 = (of_char c :: nat)"
    using mod_mult_self3 [of "of_char a * 256 + of_char b" "256 :: nat" "of_char c"] by (simp add: algebra_simps)
  then show "char_of (block_of a b c) = c"
    using mod [of "block_of a b c"] by (simp add: block_of_def)
qed

lemma short_blocks: "block_of a b (CHR 0x00) mod 64 = 0" "block_of a (CHR 0x00) (CHR 0x00) div 64 mod 64 = 0"
proof -
  have "block_of a b (CHR 0x00) = 64 * (of_char a * 1024 + of_char b * 4)" by (simp add: block_of_def)
  then show "block_of a b (CHR 0x00) mod 64 = 0" by (metis mod_mult_self1_is_0)
  have "block_of a (CHR 0x00) (CHR 0x00) = 64 * (64 * (of_char a * 16))" by (simp add: block_of_def)
  then have "block_of a (CHR 0x00) (CHR 0x00) div 64 = 64 * (of_char a * 16)"
    by (simp only: nonzero_mult_div_cancel_left numeral_neq_zero)
  then show "block_of a (CHR 0x00) (CHR 0x00) div 64 mod 64 = 0" by (metis mod_mult_self1_is_0)
qed

lemma three_more: "(14 + 4 * n) div 3 = 4 + (2 + 4 * n) div (3 :: nat)"
  by presburger

text \<open>
  The URL form of base 64 loses nothing: its decoder gives the bytes back; it uses only letters,
  digits, minus and underscore, and takes four characters for three bytes, rounded up.
\<close>

theorem base64url_decodes:
  "base64url_decode (base64url_encode s) = s \<and> set (base64url_encode s) \<subseteq> set b64_table
    \<and> length (base64url_encode s) = (2 + 4 * length s) div 3"
proof (induction s rule: base64url_encode.induct)
  case (1 a b c rest)
  then show ?case
    using block_chars [of a b c] sextets_block [of "block_of a b c"] three_more [of "length rest"]
    by (simp add: Let_def b64_value_char)
next
  case (2 a b)
  then show ?case
    using block_chars [of a b "CHR 0x00"] sextets_block [of "block_of a b (CHR 0x00)"] short_blocks(1)
    by (simp add: Let_def b64_value_char)
next
  case (3 a)
  then show ?case
    using block_chars [of a "CHR 0x00" "CHR 0x00"] sextets_block [of "block_of a (CHR 0x00) (CHR 0x00)"]
      short_blocks(1) [of a "CHR 0x00"] short_blocks(2)
    by (simp add: Let_def b64_value_char)
qed simp

section \<open>Queries\<close>

lemma unreserved_plain: "unreserved c \<Longrightarrow> c \<notin> {CHR ''%'', CHR ''+'', CHR ''&'', CHR ''='', CHR ''?''}"
proof -
  have "list_all (\<lambda>c. \<not> unreserved c) [CHR ''%'', CHR ''+'', CHR ''&'', CHR ''='', CHR ''?'']" by (simp add: unreserved_def)
  then show "unreserved c \<Longrightarrow> ?thesis" by auto
qed

lemma upper_hex_code: "d < 16 \<Longrightarrow> of_char (upper_hex d) = (if d < 10 then 48 + d else 55 + d)"
  by (simp add: upper_hex_def of_char_of)

lemma upper_hex_digit:
  assumes "d < 16"
  shows "decode_hex (upper_hex d) = Inr d" "upper_hex d \<notin> {CHR ''&'', CHR ''='', CHR ''?''}"
proof -
  show "decode_hex (upper_hex d) = Inr d" using assms by (auto simp: decode_hex_def upper_hex_code)
  have "of_char (upper_hex d) \<noteq> (of_char c :: nat)" if "c \<in> {CHR ''&'', CHR ''='', CHR ''?''}" for c
    using assms that by (auto simp: upper_hex_code)
  then show "upper_hex d \<notin> {CHR ''&'', CHR ''='', CHR ''?''}" by blast
qed

lemma percent_byte_plain: "set (percent_byte c) \<inter> {CHR ''&'', CHR ''='', CHR ''?''} = {}"
  using unreserved_plain [of c] upper_hex_digit(2) [of "of_char c div 16"] upper_hex_digit(2) [of "of_char c mod 16"]
  by (auto simp: percent_byte_def div_less_iff_less_mult)

lemma percent_encode_plain: "d \<in> {CHR ''&'', CHR ''='', CHR ''?''} \<Longrightarrow> d \<notin> set (percent_encode s)"
  using percent_byte_plain by (auto simp: percent_encode_def)

lemma decode_percent_byte: "decode_bytes (percent_byte c @ rest) = and_then (decode_bytes rest) (\<lambda>cs. Inr (c # cs))"
proof (cases "unreserved c")
  case True
  then show ?thesis using unreserved_plain [of c] by (simp add: percent_byte_def)
next
  case False
  have "of_char c div 16 < (16 :: nat)" by (simp add: div_less_iff_less_mult)
  then show ?thesis using False upper_hex_digit(1) [of "of_char c div 16"] upper_hex_digit(1) [of "of_char c mod 16"]
    by (cases "decode_bytes rest") (simp_all add: percent_byte_def and_then_def)
qed

lemma percent_decode_encode: "valid_utf8 s \<Longrightarrow> percent_decode (percent_encode s) = Inr s"
proof -
  have "decode_bytes (percent_encode s) = Inr s" for s
    by (induction s) (simp_all add: percent_encode_def decode_percent_byte and_then_def)
  then show "valid_utf8 s \<Longrightarrow> ?thesis" by (simp add: percent_decode_def and_then_def)
qed

lemma read_pairs_written:
  "list_all (\<lambda>(k, v). valid_utf8 k \<and> valid_utf8 v) params \<Longrightarrow>
     read_pairs (map (\<lambda>(k, v). percent_encode k @ ''='' @ percent_encode v) params) m
     = Inr (fold (\<lambda>(k, v). bt_insert k v) params m)"
proof (induction params arbitrary: m)
  case (Cons p params)
  obtain k v where p: "p = (k, v)" by fastforce
  have "split_pair (CHR ''='') (percent_encode k @ CHR ''='' # percent_encode v) = (percent_encode k, percent_encode v)"
    using percent_encode_plain [of "CHR ''=''" k] by (simp add: split_pair_def split_at_char_append)
  then show ?case using Cons p by (simp add: percent_decode_encode)
qed simp

text \<open>
  A query is read back as it was written: the parameters of an authorization URL, whatever the
  characters in them, are decoded to the same names and values, a later one replacing an earlier of
  its name.
\<close>

theorem query_read_back:
  assumes "list_all (\<lambda>(k, v). valid_utf8 k \<and> valid_utf8 v) params"
  shows "query_params (query_text params) = Inr (bt_of_list params)"
proof (cases "params = []")
  case True
  then show ?thesis by (simp add: query_params_def query_text_def bt_of_list_def)
next
  case False
  let ?pairs = "map (\<lambda>(k, v). percent_encode k @ ''='' @ percent_encode v) params"
  have "split_on (CHR ''&'') [] (query_text params) = ?pairs"
    unfolding query_text_def using False percent_encode_plain [of "CHR ''&''"] by (intro split_on_join) auto
  moreover have "filter (\<lambda>pair. pair \<noteq> []) ?pairs = ?pairs" by (auto intro!: filter_True)
  ultimately show ?thesis using read_pairs_written [OF assms] by (simp add: query_params_def bt_of_list_def)
qed

theorem query_read_back_witness:
  "query_params (query_text [(''scope'', ''a b&c=d''), (''state'', ''100%'')])
   = Inr (bt_of_list [(''scope'', ''a b&c=d''), (''state'', ''100%'')])"
  by (rule query_read_back) code_simp

end
