(* ===== verification/RefConfig.thy ===== *)
theory RefConfig
  imports RefConfigCheck RefSandbox RefHooks RefOauth
begin

text \<open>
  The configuration of the reference runtime, \<open>runtime/src/config.rs\<close>: the files that are looked
  for, how they are read, checked and merged, and the settings parsed from the result. The state is
  the file system. Warnings are part of the result of a load; the code prints them.
\<close>

section \<open>Data\<close>

type_synonym json_map = "(uchars, json_value) btree"

datatype config_source = UserSource | ProjectSource | LocalSource

datatype resolved_permission_mode = ReadOnlyMode | WorkspaceWriteMode | DangerFullAccessMode

record config_entry =
  en_source :: config_source
  en_path :: path

datatype config_error = ConfigIo io_error | ConfigParse string

fun show_config_error :: "config_error \<Rightarrow> string" where
  "show_config_error (ConfigIo e) = show_io_error e"
| "show_config_error (ConfigParse e) = e"

record plugin_config =
  pl_enabled_plugins :: "(string, bool) btree"
  pl_external_directories :: "string list"
  pl_install_root :: "string option"
  pl_registry_path :: "string option"
  pl_bundled_root :: "string option"
  pl_max_output_tokens :: "u32 option"

definition plugin_config_default :: plugin_config where
  "plugin_config_default = \<lparr>pl_enabled_plugins = [], pl_external_directories = [], pl_install_root = None,
     pl_registry_path = None, pl_bundled_root = None, pl_max_output_tokens = None\<rparr>"

record fallback_config =
  fc_primary :: "string option"
  fc_fallbacks :: "string list"

record rule_config =
  rc_allow :: "string list"
  rc_deny :: "string list"
  rc_ask :: "string list"

record mcp_oauth_config =
  mo_client_id :: "string option"
  mo_callback_port :: "u16 option"
  mo_metadata_url :: "string option"
  mo_xaa :: "bool option"

record mcp_stdio_config =
  ms_command :: string
  ms_args :: "string list"
  ms_env :: "(string, string) btree"
  ms_tool_call_timeout_ms :: "u64 option"

record mcp_remote_config =
  mr_url :: string
  mr_headers :: "(string, string) btree"
  mr_headers_helper :: "string option"
  mr_oauth :: "mcp_oauth_config option"

record mcp_websocket_config =
  mw_url :: string
  mw_headers :: "(string, string) btree"
  mw_headers_helper :: "string option"

text \<open>An SDK server is its name, a managed proxy its URL and id.\<close>

datatype claw_mcp_server =
    StdioServer mcp_stdio_config
  | SseServer mcp_remote_config
  | HttpServer mcp_remote_config
  | WsServer mcp_websocket_config
  | SdkServer string
  | ManagedProxyServer string string

datatype mcp_transport = StdioTransport | SseTransport | HttpTransport | WsTransport | SdkTransport | ManagedProxyTransport

fun server_transport :: "claw_mcp_server \<Rightarrow> mcp_transport" where
  "server_transport (StdioServer _) = StdioTransport"
| "server_transport (SseServer _) = SseTransport"
| "server_transport (HttpServer _) = HttpTransport"
| "server_transport (WsServer _) = WsTransport"
| "server_transport (SdkServer _) = SdkTransport"
| "server_transport (ManagedProxyServer _ _) = ManagedProxyTransport"

record scoped_mcp_server =
  sm_scope :: config_source
  sm_config :: claw_mcp_server

record feature_config =
  fe_hooks :: hook_config
  fe_plugins :: plugin_config
  fe_mcp :: "(string, scoped_mcp_server) btree"
  fe_oauth :: "oauth_config option"
  fe_model :: "string option"
  fe_aliases :: "(string, string) btree"
  fe_permission_mode :: "resolved_permission_mode option"
  fe_permission_rules :: rule_config
  fe_sandbox :: sandbox_config
  fe_provider_fallbacks :: fallback_config
  fe_trusted_roots :: "string list"

record runtime_config =
  rc_merged :: json_map
  rc_loaded_entries :: "config_entry list"
  rc_feature_config :: feature_config
  rc_warnings :: "config_diagnostic list"

section \<open>Fields\<close>

definition get_field :: "json_map \<Rightarrow> string \<Rightarrow> json_value option" where
  "get_field m key = bt_get m (uni key)"

definition parse_fail :: "string \<Rightarrow> string \<Rightarrow> config_error + 'a" where
  "parse_fail context what = Inl (ConfigParse (context @ what))"

definition expect_object :: "json_value \<Rightarrow> string \<Rightarrow> config_error + json_map" where
  "expect_object v context = (case v of Object m \<Rightarrow> Inr m | _ \<Rightarrow> parse_fail context '': expected JSON object'')"

definition expect_string :: "json_map \<Rightarrow> string \<Rightarrow> string \<Rightarrow> config_error + string" where
  "expect_string m key context =
     (case get_field m key of
        Some (String u) \<Rightarrow> Inr (bytes_of u)
      | _ \<Rightarrow> parse_fail context ('': missing string field '' @ key))"

definition optional_field :: "(json_value \<Rightarrow> config_error + 'a) \<Rightarrow> json_map \<Rightarrow> string \<Rightarrow> config_error + 'a option" where
  "optional_field f m key = (case get_field m key of None \<Rightarrow> Inr None | Some v \<Rightarrow> and_then (f v) (\<lambda>x. Inr (Some x)))"

definition field_must :: "string \<Rightarrow> string \<Rightarrow> string \<Rightarrow> config_error + 'a" where
  "field_must context key what = parse_fail context ('': field '' @ key @ what)"

definition optional_string :: "json_map \<Rightarrow> string \<Rightarrow> string \<Rightarrow> config_error + string option" where
  "optional_string m key context =
     optional_field (\<lambda>v. case v of String u \<Rightarrow> Inr (bytes_of u) | _ \<Rightarrow> field_must context key '' must be a string'') m key"

definition optional_bool :: "json_map \<Rightarrow> string \<Rightarrow> string \<Rightarrow> config_error + bool option" where
  "optional_bool m key context =
     optional_field (\<lambda>v. case v of Bool b \<Rightarrow> Inr b | _ \<Rightarrow> field_must context key '' must be a boolean'') m key"

definition optional_number :: "string \<Rightarrow> nat \<Rightarrow> json_map \<Rightarrow> string \<Rightarrow> string \<Rightarrow> config_error + nat option" where
  "optional_number what bits m key context =
     optional_field (\<lambda>v. case v of
         Number n \<Rightarrow> if 0 \<le> sint n \<and> sint n < 2 ^ bits then Inr (nat (sint n))
                     else field_must context key '' is out of range''
       | _ \<Rightarrow> field_must context key what) m key"

definition optional_u16 :: "json_map \<Rightarrow> string \<Rightarrow> string \<Rightarrow> config_error + u16 option" where
  "optional_u16 m key context =
     map_sum id (map_option of_nat) (optional_number '' must be an integer'' 16 m key context)"

definition optional_u32 :: "json_map \<Rightarrow> string \<Rightarrow> string \<Rightarrow> config_error + u32 option" where
  "optional_u32 m key context =
     map_sum id (map_option of_nat) (optional_number '' must be a non-negative integer'' 32 m key context)"

definition optional_u64 :: "json_map \<Rightarrow> string \<Rightarrow> string \<Rightarrow> config_error + u64 option" where
  "optional_u64 m key context =
     map_sum id (map_option of_nat) (optional_number '' must be a non-negative integer'' 64 m key context)"

definition bool_entry :: "string \<Rightarrow> uchars \<times> json_value \<Rightarrow> config_error + string \<times> bool" where
  "bool_entry context = (\<lambda>(key, v). case v of
     Bool b \<Rightarrow> Inr (bytes_of key, b)
   | _ \<Rightarrow> field_must context (bytes_of key) '' must be a boolean'')"

definition parse_bool_map :: "json_value \<Rightarrow> string \<Rightarrow> config_error + (string, bool) btree" where
  "parse_bool_map v context =
     and_then (expect_object v context) (\<lambda>m. map_sum id bt_of_list (try_map (bool_entry context) m))"

definition optional_string_array :: "json_map \<Rightarrow> string \<Rightarrow> string \<Rightarrow> config_error + string list option" where
  "optional_string_array m key context =
     optional_field (\<lambda>v. case v of
         Array vs \<Rightarrow> try_map (\<lambda>v. case v of String u \<Rightarrow> Inr (bytes_of u)
                                        | _ \<Rightarrow> field_must context key '' must contain only strings'') vs
       | _ \<Rightarrow> field_must context key '' must be an array'') m key"

definition optional_string_map :: "json_map \<Rightarrow> string \<Rightarrow> string \<Rightarrow> config_error + (string, string) btree option" where
  "optional_string_map m key context =
     optional_field (\<lambda>v. case v of
         Object entries \<Rightarrow> map_sum id bt_of_list
           (try_map (\<lambda>(k, v). case v of String u \<Rightarrow> Inr (bytes_of k, bytes_of u)
                                      | _ \<Rightarrow> field_must context key '' must contain only string values'') entries)
       | _ \<Rightarrow> field_must context key '' must be an object'') m key"

section \<open>Settings\<close>

definition parse_optional_model :: "json_map \<Rightarrow> string option" where
  "parse_optional_model m = (case get_field m ''model'' of Some (String u) \<Rightarrow> Some (bytes_of u) | _ \<Rightarrow> None)"

definition parse_optional_aliases :: "json_map \<Rightarrow> config_error + (string, string) btree" where
  "parse_optional_aliases m = map_sum id (unwrap_or []) (optional_string_map m ''aliases'' ''merged settings'')"

definition string_list :: "json_map \<Rightarrow> string \<Rightarrow> string \<Rightarrow> config_error + string list" where
  "string_list m key context = map_sum id (unwrap_or []) (optional_string_array m key context)"

definition parse_optional_hooks_config_object :: "json_map \<Rightarrow> string \<Rightarrow> config_error + hook_config" where
  "parse_optional_hooks_config_object m context =
     (case get_field m ''hooks'' of
        None \<Rightarrow> Inr \<lparr>hc_pre_tool_use = [], hc_post_tool_use = [], hc_post_tool_use_failure = []\<rparr>
      | Some v \<Rightarrow>
          and_then (expect_object v context) (\<lambda>hooks.
          and_then (string_list hooks ''PreToolUse'' context) (\<lambda>pre.
          and_then (string_list hooks ''PostToolUse'' context) (\<lambda>post.
          and_then (string_list hooks ''PostToolUseFailure'' context) (\<lambda>failure.
            Inr \<lparr>hc_pre_tool_use = pre, hc_post_tool_use = post, hc_post_tool_use_failure = failure\<rparr>)))))"

definition parse_optional_hooks_config :: "json_map \<Rightarrow> config_error + hook_config" where
  "parse_optional_hooks_config m = parse_optional_hooks_config_object m ''merged settings.hooks''"

definition validate_optional_hooks_config :: "json_map \<Rightarrow> path \<Rightarrow> config_error + unit" where
  "validate_optional_hooks_config m p =
     and_then (parse_optional_hooks_config_object m (utf8_lossy (show_path p) @ '': hooks'')) (\<lambda>_. Inr ())"

definition parse_optional_permission_rules :: "json_map \<Rightarrow> config_error + rule_config" where
  "parse_optional_permission_rules m =
     (case get_field m ''permissions'' of
        Some (Object permissions) \<Rightarrow>
          (let context = ''merged settings.permissions'' in
           and_then (string_list permissions ''allow'' context) (\<lambda>allow.
           and_then (string_list permissions ''deny'' context) (\<lambda>deny.
           and_then (string_list permissions ''ask'' context) (\<lambda>ask.
             Inr \<lparr>rc_allow = allow, rc_deny = deny, rc_ask = ask\<rparr>))))
      | _ \<Rightarrow> Inr \<lparr>rc_allow = [], rc_deny = [], rc_ask = []\<rparr>)"

text \<open>An absent value keeps what is there.\<close>

definition enabled_plugins :: "json_map \<Rightarrow> string \<Rightarrow> string \<Rightarrow> (string, bool) btree \<Rightarrow> config_error + (string, bool) btree" where
  "enabled_plugins m key context old = (case get_field m key of None \<Rightarrow> Inr old | Some v \<Rightarrow> parse_bool_map v context)"

definition parse_optional_plugin_config :: "json_map \<Rightarrow> config_error + plugin_config" where
  "parse_optional_plugin_config m =
     and_then (enabled_plugins m ''enabledPlugins'' ''merged settings.enabledPlugins'' []) (\<lambda>enabled.
       case get_field m ''plugins'' of
         None \<Rightarrow> Inr (plugin_config_default\<lparr>pl_enabled_plugins := enabled\<rparr>)
       | Some v \<Rightarrow>
           (let context = ''merged settings.plugins'' in
            and_then (expect_object v context) (\<lambda>plugins.
            and_then (enabled_plugins plugins ''enabled'' ''merged settings.plugins.enabled'' enabled) (\<lambda>enabled.
            and_then (string_list plugins ''externalDirectories'' context) (\<lambda>directories.
            and_then (optional_string plugins ''installRoot'' context) (\<lambda>install_root.
            and_then (optional_string plugins ''registryPath'' context) (\<lambda>registry_path.
            and_then (optional_string plugins ''bundledRoot'' context) (\<lambda>bundled_root.
            and_then (optional_u32 plugins ''maxOutputTokens'' context) (\<lambda>max_tokens.
              Inr \<lparr>pl_enabled_plugins = enabled, pl_external_directories = directories, pl_install_root = install_root,
                pl_registry_path = registry_path, pl_bundled_root = bundled_root,
                pl_max_output_tokens = max_tokens\<rparr>)))))))))"

definition parse_permission_mode_label :: "string \<Rightarrow> string \<Rightarrow> config_error + resolved_permission_mode" where
  "parse_permission_mode_label mode context =
     (if mode \<in> {''default'', ''plan'', ''read-only''} then Inr ReadOnlyMode
      else if mode \<in> {''acceptEdits'', ''auto'', ''workspace-write''} then Inr WorkspaceWriteMode
      else if mode \<in> {''dontAsk'', ''danger-full-access''} then Inr DangerFullAccessMode
      else parse_fail context ('': unsupported permission mode '' @ mode))"

definition string_at :: "json_map \<Rightarrow> string \<Rightarrow> string option" where
  "string_at m key = (case get_field m key of Some (String u) \<Rightarrow> Some (bytes_of u) | _ \<Rightarrow> None)"

definition default_mode :: "json_map \<Rightarrow> string option" where
  "default_mode m =
     (case get_field m ''permissions'' of Some (Object permissions) \<Rightarrow> string_at permissions ''defaultMode'' | _ \<Rightarrow> None)"

definition parse_optional_permission_mode :: "json_map \<Rightarrow> config_error + resolved_permission_mode option" where
  "parse_optional_permission_mode m =
     (case string_at m ''permissionMode'' of
        Some mode \<Rightarrow> map_sum id Some (parse_permission_mode_label mode ''merged settings.permissionMode'')
      | None \<Rightarrow>
          (case default_mode m of
             Some mode \<Rightarrow> map_sum id Some (parse_permission_mode_label mode ''merged settings.permissions.defaultMode'')
           | None \<Rightarrow> Inr None))"

definition parse_filesystem_mode_label :: "string \<Rightarrow> config_error + isolation_mode" where
  "parse_filesystem_mode_label v =
     (if v = ''off'' then Inr IsolationOff
      else if v = ''workspace-only'' then Inr WorkspaceOnly
      else if v = ''allow-list'' then Inr AllowList
      else parse_fail ''merged settings.sandbox.filesystemMode'' ('': unsupported filesystem mode '' @ v))"

definition parse_optional_sandbox_config :: "json_map \<Rightarrow> config_error + sandbox_config" where
  "parse_optional_sandbox_config m =
     (case get_field m ''sandbox'' of
        None \<Rightarrow> Inr sandbox_config_default
      | Some v \<Rightarrow>
          (let context = ''merged settings.sandbox'' in
           and_then (expect_object v context) (\<lambda>sandbox.
           and_then (optional_string sandbox ''filesystemMode'' context) (\<lambda>label.
           and_then (case label of None \<Rightarrow> Inr None
                                 | Some l \<Rightarrow> map_sum id Some (parse_filesystem_mode_label l)) (\<lambda>mode.
           and_then (optional_bool sandbox ''enabled'' context) (\<lambda>enabled.
           and_then (optional_bool sandbox ''namespaceRestrictions'' context) (\<lambda>namespace.
           and_then (optional_bool sandbox ''networkIsolation'' context) (\<lambda>network.
           and_then (string_list sandbox ''allowedMounts'' context) (\<lambda>mounts.
             Inr \<lparr>sc_enabled = enabled, sc_namespace_restrictions = namespace, sc_network_isolation = network,
               sc_filesystem_mode = mode, sc_allowed_mounts = mounts\<rparr>)))))))))"

definition parse_optional_provider_fallbacks :: "json_map \<Rightarrow> config_error + fallback_config" where
  "parse_optional_provider_fallbacks m =
     (case get_field m ''providerFallbacks'' of
        None \<Rightarrow> Inr \<lparr>fc_primary = None, fc_fallbacks = []\<rparr>
      | Some v \<Rightarrow>
          (let context = ''merged settings.providerFallbacks'' in
           and_then (expect_object v context) (\<lambda>entry.
           and_then (optional_string entry ''primary'' context) (\<lambda>primary.
           and_then (string_list entry ''fallbacks'' context) (\<lambda>fallbacks.
             Inr \<lparr>fc_primary = primary, fc_fallbacks = fallbacks\<rparr>)))))"

definition parse_optional_trusted_roots :: "json_map \<Rightarrow> config_error + string list" where
  "parse_optional_trusted_roots m = string_list m ''trustedRoots'' ''merged settings.trustedRoots''"

definition parse_optional_oauth_config :: "json_map \<Rightarrow> string \<Rightarrow> config_error + oauth_config option" where
  "parse_optional_oauth_config m context =
     (case get_field m ''oauth'' of
        None \<Rightarrow> Inr None
      | Some v \<Rightarrow>
          and_then (expect_object v context) (\<lambda>oauth.
          and_then (expect_string oauth ''clientId'' context) (\<lambda>client_id.
          and_then (expect_string oauth ''authorizeUrl'' context) (\<lambda>authorize_url.
          and_then (expect_string oauth ''tokenUrl'' context) (\<lambda>token_url.
          and_then (optional_u16 oauth ''callbackPort'' context) (\<lambda>callback_port.
          and_then (optional_string oauth ''manualRedirectUrl'' context) (\<lambda>redirect.
          and_then (string_list oauth ''scopes'' context) (\<lambda>scopes.
            Inr (Some \<lparr>oc_client_id = client_id, oc_authorize_url = authorize_url, oc_token_url = token_url,
              oc_callback_port = callback_port, oc_manual_redirect_url = redirect, oc_scopes = scopes\<rparr>)))))))))"

section \<open>MCP servers\<close>

definition infer_mcp_server_type :: "json_map \<Rightarrow> string" where
  "infer_mcp_server_type m = (if get_field m ''url'' \<noteq> None then ''http'' else ''stdio'')"

definition parse_optional_mcp_oauth_config :: "json_map \<Rightarrow> string \<Rightarrow> config_error + mcp_oauth_config option" where
  "parse_optional_mcp_oauth_config m context =
     (case get_field m ''oauth'' of
        None \<Rightarrow> Inr None
      | Some v \<Rightarrow>
          and_then (expect_object v (context @ ''.oauth'')) (\<lambda>oauth.
          and_then (optional_string oauth ''clientId'' context) (\<lambda>client_id.
          and_then (optional_u16 oauth ''callbackPort'' context) (\<lambda>port.
          and_then (optional_string oauth ''authServerMetadataUrl'' context) (\<lambda>url.
          and_then (optional_bool oauth ''xaa'' context) (\<lambda>xaa.
            Inr (Some \<lparr>mo_client_id = client_id, mo_callback_port = port, mo_metadata_url = url, mo_xaa = xaa\<rparr>)))))))"

definition parse_headers :: "json_map \<Rightarrow> string \<Rightarrow> config_error + (string, string) btree" where
  "parse_headers m context = map_sum id (unwrap_or []) (optional_string_map m ''headers'' context)"

definition parse_mcp_remote_server_config :: "json_map \<Rightarrow> string \<Rightarrow> config_error + mcp_remote_config" where
  "parse_mcp_remote_server_config m context =
     and_then (expect_string m ''url'' context) (\<lambda>url.
     and_then (parse_headers m context) (\<lambda>headers.
     and_then (optional_string m ''headersHelper'' context) (\<lambda>helper.
     and_then (parse_optional_mcp_oauth_config m context) (\<lambda>oauth.
       Inr \<lparr>mr_url = url, mr_headers = headers, mr_headers_helper = helper, mr_oauth = oauth\<rparr>))))"

definition parse_mcp_server_config :: "uchars \<Rightarrow> json_value \<Rightarrow> string \<Rightarrow> config_error + claw_mcp_server" where
  "parse_mcp_server_config server_name v context =
     and_then (expect_object v context) (\<lambda>m.
     and_then (optional_string m ''type'' context) (\<lambda>given.
       let server_type = unwrap_or (infer_mcp_server_type m) given in
       if server_type = ''stdio'' then
         and_then (expect_string m ''command'' context) (\<lambda>command.
         and_then (string_list m ''args'' context) (\<lambda>args.
         and_then (optional_string_map m ''env'' context) (\<lambda>env.
         and_then (optional_u64 m ''toolCallTimeoutMs'' context) (\<lambda>timeout.
           Inr (StdioServer \<lparr>ms_command = command, ms_args = args, ms_env = unwrap_or [] env,
             ms_tool_call_timeout_ms = timeout\<rparr>)))))
       else if server_type = ''sse'' then map_sum id SseServer (parse_mcp_remote_server_config m context)
       else if server_type = ''http'' then map_sum id HttpServer (parse_mcp_remote_server_config m context)
       else if server_type = ''ws'' then
         and_then (expect_string m ''url'' context) (\<lambda>url.
         and_then (parse_headers m context) (\<lambda>headers.
         and_then (optional_string m ''headersHelper'' context) (\<lambda>helper.
           Inr (WsServer \<lparr>mw_url = url, mw_headers = headers, mw_headers_helper = helper\<rparr>))))
       else if server_type = ''sdk'' then map_sum id SdkServer (expect_string m ''name'' context)
       else if server_type = ''claudeai-proxy'' then
         and_then (expect_string m ''url'' context) (\<lambda>url.
         and_then (expect_string m ''id'' context) (\<lambda>i. Inr (ManagedProxyServer url i)))
       else parse_fail context ('': unsupported MCP server type for '' @ bytes_of server_name @ '': '' @ server_type)))"

fun insert_servers ::
  "config_source \<Rightarrow> string \<Rightarrow> json_map \<Rightarrow> (string, scoped_mcp_server) btree \<Rightarrow> config_error + (string, scoped_mcp_server) btree" where
  "insert_servers source path_display [] target = Inr target"
| "insert_servers source path_display ((name, v) # servers) target =
     and_then (parse_mcp_server_config name v (path_display @ '': mcpServers.'' @ bytes_of name)) (\<lambda>parsed.
       insert_servers source path_display servers
         (bt_insert (bytes_of name) \<lparr>sm_scope = source, sm_config = parsed\<rparr> target))"

definition merge_mcp_servers ::
  "(string, scoped_mcp_server) btree \<Rightarrow> config_source \<Rightarrow> json_map \<Rightarrow> path \<Rightarrow> config_error + (string, scoped_mcp_server) btree" where
  "merge_mcp_servers target source root p =
     (case get_field root ''mcpServers'' of
        None \<Rightarrow> Inr target
      | Some v \<Rightarrow>
          and_then (expect_object v (utf8_lossy (show_path p) @ '': mcpServers'')) (\<lambda>servers.
            insert_servers source (utf8_lossy (show_path p)) servers target))"

section \<open>Merging\<close>

text \<open>Objects are merged entry by entry, every other value is replaced. A value is merged into one
  that may be absent, so the recursion is on the incoming value.\<close>

fun merge_value :: "json_value option \<Rightarrow> json_value \<Rightarrow> json_value"
and deep_merge_objects :: "json_map \<Rightarrow> json_map \<Rightarrow> json_map" where
  "merge_value target (Object incoming) =
     (case target of Some (Object existing) \<Rightarrow> Object (deep_merge_objects existing incoming) | _ \<Rightarrow> Object incoming)"
| "merge_value target v = v"
| "deep_merge_objects target [] = target"
| "deep_merge_objects target ((key, v) # source) =
     deep_merge_objects (bt_insert key (merge_value (bt_get target key) v) target) source"

section \<open>Loading\<close>

record config_loader =
  ld_cwd :: path
  ld_config_home :: path

text \<open>The variables of the environment as \<open>default_config_home\<close> reads them.\<close>

definition default_config_home :: "string option \<Rightarrow> string option \<Rightarrow> path" where
  "default_config_home claw_config_home home =
     (case claw_config_home of
        Some p \<Rightarrow> parse_path p
      | None \<Rightarrow> (case home of Some h \<Rightarrow> path_join (parse_path h) [Name ''.claw''] | None \<Rightarrow> [Name ''.claw'']))"

definition default_for :: "string option \<Rightarrow> string option \<Rightarrow> path \<Rightarrow> config_loader" where
  "default_for claw_config_home home cwd = \<lparr>ld_cwd = cwd, ld_config_home = default_config_home claw_config_home home\<rparr>"

definition discover :: "config_loader \<Rightarrow> config_entry list" where
  "discover loader =
     [\<lparr>en_source = UserSource,
       en_path = (case path_parent (ld_config_home loader) of
          None \<Rightarrow> [Name ''.claw.json''] | Some parent \<Rightarrow> path_join parent [Name ''.claw.json''])\<rparr>,
      \<lparr>en_source = UserSource, en_path = path_join (ld_config_home loader) [Name ''settings.json'']\<rparr>,
      \<lparr>en_source = ProjectSource, en_path = path_join (ld_cwd loader) [Name ''.claw.json'']\<rparr>,
      \<lparr>en_source = ProjectSource, en_path = path_join (ld_cwd loader) [Name ''.claw'', Name ''settings.json'']\<rparr>,
      \<lparr>en_source = LocalSource, en_path = path_join (ld_cwd loader) [Name ''.claw'', Name ''settings.local.json'']\<rparr>]"

text \<open>A parsed file is its object and its text.\<close>

definition parse_settings :: "path \<Rightarrow> string \<Rightarrow> config_error + (json_map \<times> uchars) option" where
  "parse_settings p contents =
     (let legacy = file_name p = Some ''.claw.json'';
          path_display = utf8_lossy (show_path p)
      in if trim contents = [] then Inr (Some ([], chars_of contents))
         else case json_parse (chars_of contents) of
                Inl e \<Rightarrow> if legacy then Inr None
                         else parse_fail path_display ('': '' @ (case e of JsonError text \<Rightarrow> bytes_of text | OutOfFuel \<Rightarrow> []))
              | Inr (Object m) \<Rightarrow> Inr (Some (m, chars_of contents))
              | Inr _ \<Rightarrow> if legacy then Inr None
                         else parse_fail path_display '': top-level settings value must be a JSON object'')"

definition read_optional_json_object :: "path \<Rightarrow> fs \<Rightarrow> (config_error + (json_map \<times> uchars) option) \<times> fs" where
  "read_optional_json_object p s =
     (case fs_read_to_string p s of
        (Inr contents, s1) \<Rightarrow> (parse_settings p contents, s1)
      | (Inl NotFound, s1) \<Rightarrow> (Inr None, s1)
      | (Inl e, s1) \<Rightarrow> (Inl (ConfigIo e), s1))"

record load_state =
  lo_merged :: json_map
  lo_entries :: "config_entry list"
  lo_servers :: "(string, scoped_mcp_server) btree"
  lo_warnings :: "config_diagnostic list"

text \<open>One file: its check, its servers, its place in the merge.\<close>

definition load_file :: "config_entry \<Rightarrow> json_map \<Rightarrow> uchars \<Rightarrow> load_state \<Rightarrow> config_error + load_state" where
  "load_file entry object source st =
     (let validation = validate_config_file object source (en_path entry) in
      case vr_errors validation of
        first_error # _ \<Rightarrow> Inl (ConfigParse (show_diagnostic first_error))
      | [] \<Rightarrow>
          and_then (validate_optional_hooks_config object (en_path entry)) (\<lambda>_.
          and_then (merge_mcp_servers (lo_servers st) (en_source entry) object (en_path entry)) (\<lambda>servers.
            Inr \<lparr>lo_merged = deep_merge_objects (lo_merged st) object, lo_entries = lo_entries st @ [entry],
              lo_servers = servers, lo_warnings = lo_warnings st @ vr_warnings validation\<rparr>)))"

fun load_entries :: "config_entry list \<Rightarrow> load_state \<Rightarrow> fs \<Rightarrow> (config_error + load_state) \<times> fs" where
  "load_entries [] st s = (Inr st, s)"
| "load_entries (entry # entries) st s =
     (case check_unsupported_format (en_path entry) of
        Inl e \<Rightarrow> (Inl (ConfigParse e), s)
      | Inr _ \<Rightarrow>
          (case read_optional_json_object (en_path entry) s of
             (Inl e, s1) \<Rightarrow> (Inl e, s1)
           | (Inr None, s1) \<Rightarrow> load_entries entries st s1
           | (Inr (Some (object, source)), s1) \<Rightarrow>
               (case load_file entry object source st of
                  Inl e \<Rightarrow> (Inl e, s1)
                | Inr st' \<Rightarrow> load_entries entries st' s1)))"

definition parse_features :: "json_map \<Rightarrow> (string, scoped_mcp_server) btree \<Rightarrow> config_error + feature_config" where
  "parse_features m servers =
     and_then (parse_optional_hooks_config m) (\<lambda>hooks.
     and_then (parse_optional_plugin_config m) (\<lambda>plugins.
     and_then (parse_optional_oauth_config m ''merged settings.oauth'') (\<lambda>oauth.
     and_then (parse_optional_aliases m) (\<lambda>aliases.
     and_then (parse_optional_permission_mode m) (\<lambda>mode.
     and_then (parse_optional_permission_rules m) (\<lambda>rules.
     and_then (parse_optional_sandbox_config m) (\<lambda>sandbox.
     and_then (parse_optional_provider_fallbacks m) (\<lambda>fallbacks.
     and_then (parse_optional_trusted_roots m) (\<lambda>roots.
       Inr \<lparr>fe_hooks = hooks, fe_plugins = plugins, fe_mcp = servers, fe_oauth = oauth, fe_model = parse_optional_model m,
         fe_aliases = aliases, fe_permission_mode = mode, fe_permission_rules = rules, fe_sandbox = sandbox,
         fe_provider_fallbacks = fallbacks, fe_trusted_roots = roots\<rparr>)))))))))"

definition load_config :: "config_loader \<Rightarrow> fs \<Rightarrow> (config_error + runtime_config) \<times> fs" where
  "load_config loader s =
     (case load_entries (discover loader) \<lparr>lo_merged = [], lo_entries = [], lo_servers = [], lo_warnings = []\<rparr> s of
        (Inl e, s1) \<Rightarrow> (Inl e, s1)
      | (Inr st, s1) \<Rightarrow>
          (and_then (parse_features (lo_merged st) (lo_servers st)) (\<lambda>features.
             Inr \<lparr>rc_merged = lo_merged st, rc_loaded_entries = lo_entries st, rc_feature_config = features,
               rc_warnings = lo_warnings st\<rparr>), s1))"

section \<open>Changes\<close>

definition push_unique :: "string list \<Rightarrow> string \<Rightarrow> string list" where
  "push_unique target v = (if v \<in> set target then target else target @ [v])"

definition extend_unique :: "string list \<Rightarrow> string list \<Rightarrow> string list" where
  "extend_unique target vs = foldl push_unique target vs"

definition hooks_merged :: "hook_config \<Rightarrow> hook_config \<Rightarrow> hook_config" where
  "hooks_merged c other =
     \<lparr>hc_pre_tool_use = extend_unique (hc_pre_tool_use c) (hc_pre_tool_use other),
      hc_post_tool_use = extend_unique (hc_post_tool_use c) (hc_post_tool_use other),
      hc_post_tool_use_failure = extend_unique (hc_post_tool_use_failure c) (hc_post_tool_use_failure other)\<rparr>"

definition set_plugin_state :: "string \<Rightarrow> bool \<Rightarrow> plugin_config \<Rightarrow> plugin_config" where
  "set_plugin_state plugin_id enabled c = c\<lparr>pl_enabled_plugins := bt_insert plugin_id enabled (pl_enabled_plugins c)\<rparr>"

definition state_for :: "plugin_config \<Rightarrow> string \<Rightarrow> bool \<Rightarrow> bool" where
  "state_for c plugin_id default_enabled = unwrap_or default_enabled (bt_get (pl_enabled_plugins c) plugin_id)"

end
