(* ===== verification/RefConfigCorrect.thy ===== *)
theory RefConfigCorrect
  imports RefConfig RefJsonCorrect
begin

text \<open>
  The configuration of the reference runtime: what a merge of files keeps of each, and that the
  merge of files that pass the check passes it.
\<close>

section \<open>Merging\<close>

lemma get_deep_merge:
  "bt_ok source \<Longrightarrow> bt_get (deep_merge_objects target source) key
    = (case bt_get source key of None \<Rightarrow> bt_get target key | Some v \<Rightarrow> Some (merge_value (bt_get target key) v))"
proof (induction source arbitrary: target)
  case (Cons kv source)
  obtain k v where kv: "kv = (k, v)" by fastforce
  have "bt_get source k = None"
    using Cons.prems by (auto simp: kv bt_ok_Cons bt_get_def map_of_eq_None_iff)
  then show ?case
    using Cons by (auto simp: kv bt_ok_Cons bt_get_insert bt_get_def [of "(k, v) # source"] bt_get_def [of source, symmetric] split: option.splits)
qed simp

lemma merge_value_leaf: "\<nexists>m. v = Object m \<Longrightarrow> merge_value target v = v"
  by (cases v) auto

fun value_at :: "uchars list \<Rightarrow> json_value option \<Rightarrow> json_value option" where
  "value_at [] v = v"
| "value_at (k # ks) v = (case v of Some (Object m) \<Rightarrow> value_at ks (bt_get m k) | _ \<Rightarrow> None)"

lemma value_at_None [simp]: "value_at ks None = None"
  by (cases ks) simp_all

text \<open>What a file says about a setting: nothing when the way to it ends in a missing entry, and a value
  that is no object settles everything below it.\<close>

fun settles :: "uchars list \<Rightarrow> json_value option \<Rightarrow> bool" where
  "settles ks None \<longleftrightarrow> False"
| "settles [] (Some v) \<longleftrightarrow> True"
| "settles (k # ks) (Some v) \<longleftrightarrow> (case v of Object m \<Rightarrow> settles ks (bt_get m k) | _ \<Rightarrow> True)"

lemma value_settles: "value_at ks v = Some x \<Longrightarrow> settles ks v"
  by (induction ks v rule: settles.induct) (auto split: json_value.splits)

definition is_leaf :: "json_value \<Rightarrow> bool" where
  "is_leaf v \<longleftrightarrow> (\<forall>m. v \<noteq> Object m)"

lemma json_ok_get: "json_ok (Object m) \<Longrightarrow> bt_get m k = Some v \<Longrightarrow> json_ok v"
  by (auto simp: bt_get_def list_all_iff dest!: map_of_SomeD)

lemma merged_value_at:
  assumes "json_ok s" and "is_leaf v"
  shows "value_at ks (Some (merge_value t s)) = Some v \<longleftrightarrow>
    (if settles ks (Some s) then value_at ks (Some s) = Some v else value_at ks t = Some v)"
  using assms
proof (induction ks arbitrary: t s)
  case Nil
  then show ?case by (cases s) (auto simp: is_leaf_def merge_value_leaf split: option.splits json_value.splits)
next
  case (Cons k ks)
  show ?case
  proof (cases "\<exists>m. s = Object m")
    case False
    then show ?thesis by (cases s) (simp_all add: merge_value_leaf)
  next
    case True
    then obtain m where s: "s = Object m" ..
    then have ok: "bt_ok m" using Cons.prems by simp
    show ?thesis
    proof (cases "bt_get m k")
      case None
      then show ?thesis
        by (cases t) (auto simp: s get_deep_merge [OF ok] split: json_value.splits)
    next
      case (Some w)
      then have "json_ok w" using json_ok_get Cons.prems(1) s by blast
      then show ?thesis
        using Cons.IH [of w] Cons.prems(2) Some value_settles [of ks "Some w" v]
        by (cases t) (auto simp: s get_deep_merge [OF ok] split: json_value.splits)
    qed
  qed
qed

text \<open>The value a list of files gives to a setting: that of the last file that settles it.\<close>

fun last_settled :: "uchars list \<Rightarrow> json_map list \<Rightarrow> json_value option" where
  "last_settled ks [] = None"
| "last_settled ks (m # ms) =
     (if list_ex (\<lambda>m. settles ks (Some (Object m))) ms then last_settled ks ms
      else if settles ks (Some (Object m)) then value_at ks (Some (Object m)) else None)"


lemma merged_files:
  assumes "list_all (\<lambda>m. json_ok (Object m)) ms" and "is_leaf v" and "ks \<noteq> []"
  shows "value_at ks (Some (Object (foldl deep_merge_objects t ms))) = Some v \<longleftrightarrow>
    (if list_ex (\<lambda>m. settles ks (Some (Object m))) ms then last_settled ks ms = Some v
     else value_at ks (Some (Object t)) = Some v)"
  using assms(1)
proof (induction ms arbitrary: t)
  case (Cons m ms)
  have "value_at ks (Some (Object (deep_merge_objects t m))) = Some v \<longleftrightarrow>
      (if settles ks (Some (Object m)) then value_at ks (Some (Object m)) = Some v else value_at ks (Some (Object t)) = Some v)"
    using merged_value_at [of "Object m" v ks "Some (Object t)"] Cons.prems assms(2) by simp
  then show ?case using Cons by auto
qed simp

section \<open>Loading\<close>

text \<open>The objects of the files that are there, in the order of their precedence.\<close>

fun read_objects :: "config_entry list \<Rightarrow> fs \<Rightarrow> json_map list \<times> fs" where
  "read_objects [] s = ([], s)"
| "read_objects (entry # entries) s =
     (case read_optional_json_object (en_path entry) s of
        (Inr (Some (m, _)), s1) \<Rightarrow> (let (ms, s2) = read_objects entries s1 in (m # ms, s2))
      | (_, s1) \<Rightarrow> read_objects entries s1)"

definition passes :: "json_map \<Rightarrow> bool" where
  "passes m \<longleftrightarrow> (\<forall>source p. validation_is_ok (validate_config_file m source p))"

lemma passes_iff: "passes m \<longleftrightarrow> validation_is_ok (validate_config_file m source p)"
  by (simp add: passes_def validation_passes)


lemma json_parse_ok: "json_parse u = Inr v \<Longrightarrow> json_ok v"
  by (auto simp: json_parse_def and_then_Inr simp del: parse_value.simps split: if_splits dest: parsed_ok(1))

lemma parse_settings_ok: "parse_settings p contents = Inr (Some (m, source)) \<Longrightarrow> json_ok (Object m)"
  by (auto simp: parse_settings_def parse_fail_def Let_def simp del: json_ok.simps
      split: if_splits sum.splits json_value.splits dest: json_parse_ok) (simp_all add: bt_ok_Nil)

lemma read_object_ok: "read_optional_json_object p s = (Inr (Some (m, source)), s') \<Longrightarrow> json_ok (Object m)"
  using parse_settings_ok by (auto simp: read_optional_json_object_def split: prod.splits sum.splits io_error.splits)

lemma load_file_step:
  assumes "load_file entry m source st = Inr st'"
  shows "passes m \<and> lo_merged st' = deep_merge_objects (lo_merged st) m"
  using assms
  by (auto simp: load_file_def Let_def and_then_Inr passes_iff [of m source "en_path entry"] validation_is_ok_def split: list.splits)

lemma load_entries_reads:
  "load_entries entries st s = (Inr st', s') \<Longrightarrow>
   lo_merged st' = foldl deep_merge_objects (lo_merged st) (fst (read_objects entries s))
   \<and> list_all (\<lambda>m. json_ok (Object m) \<and> passes m) (fst (read_objects entries s))"
proof (induction entries arbitrary: st s)
  case (Cons entry entries)
  obtain r s1 where read: "read_optional_json_object (en_path entry) s = (r, s1)" by fastforce
  consider e where "r = Inl e" | "r = Inr None" | m source where "r = Inr (Some (m, source))"
    by (cases r) (auto simp: not_None_eq, metis prod.exhaust option.exhaust)
  then show ?case
  proof cases
    case (3 m source)
    then obtain st1 where st1: "load_file entry m source st = Inr st1" "load_entries entries st1 s1 = (Inr st', s')"
      using Cons.prems read by (auto split: sum.splits)
    then show ?thesis
      using Cons.IH [OF st1(2)] load_file_step [OF st1(1)] read_object_ok read 3 by (auto split: prod.splits)
  qed (use Cons read in \<open>auto split: sum.splits\<close>)
qed simp

lemma load_config_reads:
  assumes "load_config loader s = (Inr rc, s')"
  shows "rc_merged rc = foldl deep_merge_objects [] (fst (read_objects (discover loader) s))
    \<and> list_all (\<lambda>m. json_ok (Object m) \<and> passes m) (fst (read_objects (discover loader) s))"
  using assms load_entries_reads
  by (fastforce simp: load_config_def and_then_Inr split: prod.splits sum.splits)

text \<open>
  C32: In a loaded configuration a setting that is no object has the value of the last file, in the
  order of precedence, that settles it, by giving it or by giving something above it that is no
  object; and it is there only when that file gives it.
\<close>

theorem last_file_wins:
  assumes "load_config loader s = (Inr rc, s')" and "is_leaf v" and "ks \<noteq> []"
  shows "value_at ks (Some (Object (rc_merged rc))) = Some v
    \<longleftrightarrow> last_settled ks (fst (read_objects (discover loader) s)) = Some v"
proof -
  let ?ms = "fst (read_objects (discover loader) s)"
  have "list_all (\<lambda>m. json_ok (Object m)) ?ms" using load_config_reads [OF assms(1)] by (simp add: list_all_iff)
  moreover have "last_settled ks ms = None" if "\<not> list_ex (\<lambda>m. settles ks (Some (Object m))) ms" for ms
    using that by (induction ms) auto
  moreover have "value_at ks (Some (Object [])) = None" using assms(3) by (cases ks) (simp_all add: bt_get_def)
  ultimately show ?thesis
    using merged_files [OF _ assms(2,3), of ?ms "[]"] load_config_reads [OF assms(1)] by auto
qed

section \<open>Well-formed settings\<close>

lemma check_key_object: "check_key known key (Object x) = check_key known key (Object y)"
proof -
  have "field_matches kind (Object x) = field_matches kind (Object y)" for kind
    by (cases kind) (simp_all add: is_string_value_def)
  then show ?thesis by (simp add: check_key_def split: option.split)
qed

lemma check_key_merged: "check_key known key v = None \<Longrightarrow> check_key known key (merge_value t v) = None"
proof (cases v)
  case (Object incoming)
  have "\<exists>m. merge_value t (Object incoming) = Object m" by (simp split: option.split json_value.split)
  then obtain m where "merge_value t v = Object m" using Object by blast
  then show "check_key known key v = None \<Longrightarrow> ?thesis" using check_key_object Object by metis
qed (simp_all add: merge_value_leaf)

lemma keys_merged:
  "\<forall>(key, v) \<in> set t. check_key known key v = None \<Longrightarrow> \<forall>(key, v) \<in> set m. check_key known key v = None \<Longrightarrow>
   \<forall>(key, v) \<in> set (deep_merge_objects t m). check_key known key v = None"
proof (induction m arbitrary: t)
  case (Cons kv m)
  obtain k v where kv: "kv = (k, v)" by fastforce
  have sub: "y \<in> set (bt_insert k x t) \<Longrightarrow> y = (k, x) \<or> y \<in> set t" for x y
    by (induction k x t rule: bt_insert.induct) (auto split: if_splits)
  let ?t = "bt_insert k (merge_value (bt_get t k) v) t"
  have new: "check_key known k (merge_value (bt_get t k) v) = None"
    using Cons.prems(2) by (intro check_key_merged) (simp add: kv)
  have "case y of (key, v) \<Rightarrow> check_key known key v = None" if "y \<in> set ?t" for y
    using sub [OF that]
  proof
    assume "y \<in> set t"
    then show ?thesis using Cons.prems(1) by (rule bspec [rotated])
  qed (simp add: new)
  then have "\<forall>y \<in> set ?t. case y of (key, v) \<Rightarrow> check_key known key v = None" by (rule ballI)
  moreover have "\<forall>y \<in> set m. case y of (key, v) \<Rightarrow> check_key known key v = None"
    using Cons.prems(2) by simp
  ultimately have "\<forall>y \<in> set (deep_merge_objects ?t m). case y of (key, v) \<Rightarrow> check_key known key v = None"
    by (rule Cons.IH)
  then show ?case by (simp only: kv deep_merge_objects.simps)
qed simp

lemma passes_merged:
  assumes "passes t" and "passes m" and "bt_ok m"
  shows "passes (deep_merge_objects t m)"
proof -
  let ?all = "\<lambda>known m. \<forall>(key, v) \<in> set m. check_key known key v = None"
  have t: "?all top_level_fields t" "\<And>name known inner. (name, known) \<in> set nested_fields \<Longrightarrow>
      bt_get t (uni name) = Some (Object inner) \<Longrightarrow> ?all known inner"
    and m: "?all top_level_fields m" "\<And>name known inner. (name, known) \<in> set nested_fields \<Longrightarrow>
      bt_get m (uni name) = Some (Object inner) \<Longrightarrow> ?all known inner"
    using assms(1,2) unfolding passes_def validation_passes by blast+
  have "?all known inner" if "(name, known) \<in> set nested_fields"
      and at: "bt_get (deep_merge_objects t m) (uni name) = Some (Object inner)" for name known inner
  proof (cases "bt_get m (uni name)")
    case None
    then show ?thesis using t(2) that by (simp add: get_deep_merge [OF assms(3)])
  next
    case (Some w)
    then have w: "merge_value (bt_get t (uni name)) w = Object inner" using at by (simp add: get_deep_merge [OF assms(3)])
    then obtain incoming where inc: "w = Object incoming" by (cases w) auto
    consider existing where "bt_get t (uni name) = Some (Object existing)" "inner = deep_merge_objects existing incoming"
      | "inner = incoming"
      using w inc by (auto split: option.splits json_value.splits)
    then show ?thesis
      using keys_merged t(2) [OF that(1)] m(2) [OF that(1)] Some inc by cases blast+
  qed
  then show ?thesis
    using keys_merged [OF t(1) m(1)] unfolding passes_def validation_passes by blast
qed

text \<open>
  C33: A configuration loads only from files that pass the check, and then the merged settings pass it
  too: every key at the top and in the checked objects is known and has its type, however the files
  combine.
\<close>

theorem loaded_settings_pass:
  assumes "load_config loader s = (Inr rc, s')"
  shows "passes (rc_merged rc) \<and> list_all passes (fst (read_objects (discover loader) s))"
proof -
  have "passes (foldl deep_merge_objects t ms)" if "passes t" "list_all (\<lambda>m. json_ok (Object m) \<and> passes m) ms" for t ms
    using that by (induction ms arbitrary: t) (simp_all add: passes_merged)
  moreover have "passes []" by (auto simp: passes_def validation_passes)
  ultimately show ?thesis using load_config_reads [OF assms] by (auto simp: list_all_iff)
qed

section \<open>Samples\<close>

definition quoted :: "string \<Rightarrow> string" where
  "quoted s = [CHR 0x22] @ s @ [CHR 0x22]"

definition sample_loader :: config_loader where
  "sample_loader = \<lparr>ld_cwd = [RootDir, Name ''p''], ld_config_home = [RootDir, Name ''h'']\<rparr>"

definition sample_settings :: fs where
  "sample_settings = \<lparr>fs_nodes = [([''h''], DirNode), ([''p''], DirNode),
     ([''h'', ''settings.json''], FileNode (''{'' @ quoted ''model'' @ '':'' @ quoted ''a'' @ ''}'')),
     ([''p'', ''.claw.json''], FileNode (''{'' @ quoted ''model'' @ '':'' @ quoted ''b'' @ ''}''))],
     fs_cwd = [''p''], fs_faults = []\<rparr>"

lemma sample_loads: "\<exists>rc s'. load_config sample_loader sample_settings = (Inr rc, s')"
proof -
  have "\<not> isl (fst (load_config sample_loader sample_settings))" by code_simp
  then show ?thesis by (cases "load_config sample_loader sample_settings"; cases "fst (load_config sample_loader sample_settings)") auto
qed

theorem last_file_wins_witness:
  "\<exists>rc s'. load_config sample_loader sample_settings = (Inr rc, s')
     \<and> value_at [uni ''model''] (Some (Object (rc_merged rc))) = Some (String (uni ''b''))"
proof -
  obtain rc s' where load: "load_config sample_loader sample_settings = (Inr rc, s')" using sample_loads by blast
  have "last_settled [uni ''model''] (fst (read_objects (discover sample_loader) sample_settings)) = Some (String (uni ''b''))"
    by code_simp
  then show ?thesis using last_file_wins [OF load, of "String (uni ''b'')" "[uni ''model'']"] load by (simp add: is_leaf_def)
qed

theorem loaded_settings_pass_witness:
  "\<exists>rc s'. load_config sample_loader sample_settings = (Inr rc, s') \<and> passes (rc_merged rc)"
  using sample_loads loaded_settings_pass by blast

text \<open>The name that is deprecated wins over its replacement even when the replacement is set in a file of
  higher precedence.\<close>

lemma deprecated_mode_wins:
  "parse_optional_permission_mode (deep_merge_objects [(uni ''permissionMode'', String (uni ''dontAsk''))]
     [(uni ''permissions'', Object [(uni ''defaultMode'', String (uni ''plan''))])]) = Inr (Some DangerFullAccessMode)"
  by code_simp

text \<open>Lists are replaced: a file in the project drops the rules by which the user denies tools.\<close>

lemma deny_rules_dropped:
  "map_sum id rc_deny (parse_optional_permission_rules (deep_merge_objects
     [(uni ''permissions'', Object [(uni ''deny'', Array [String (uni ''bash'')])])]
     [(uni ''permissions'', Object [(uni ''deny'', Array [])])])) = Inr []"
  by code_simp

end
