(* ===== verification/RefSessionControl.thy ===== *)
theory RefSessionControl
  imports RefSessionFile
begin

text \<open>
  The managed sessions of \<open>claw-rust/crates/runtime/src/session_control.rs\<close>: one directory of session
  files for each workspace, named by a hash of the workspace's canonical path, references to sessions,
  the list of sessions, and the check that a loaded session belongs to the workspace. The times of last
  modification are a parameter.
\<close>

section \<open>Data\<close>

text \<open>The workspace root is the text of its path, as in a session; the directory its components.\<close>

record session_store =
  ss_sessions_root :: path
  ss_workspace_root :: string

record session_handle =
  sh_id :: string
  sh_path :: path

record managed_summary =
  mss_id :: string
  mss_path :: path
  mss_updated_at_ms :: u64
  mss_modified_epoch_millis :: nat
  mss_message_count :: nat
  mss_parent_session_id :: "string option"
  mss_branch_name :: "string option"

record loaded_session =
  ls_handle :: session_handle
  ls_session :: claw_session

record forked_session =
  fk_parent_session_id :: string
  fk_handle :: session_handle
  fk_session :: claw_session
  fk_branch_name :: "string option"

datatype control_error =
    ControlIo io_error
  | ControlSession session_error
  | ControlFormat string
  | WorkspaceMismatch string string

fun show_control_error :: "control_error \<Rightarrow> string" where
  "show_control_error (ControlIo e) = show_io_error e"
| "show_control_error (ControlSession e) = show_session_error e"
| "show_control_error (ControlFormat e) = e"
| "show_control_error (WorkspaceMismatch expected actual) =
     ''session workspace mismatch: expected '' @ utf8_lossy expected @ '', found '' @ utf8_lossy actual"

text \<open>\<open>?\<close> on a call of the file system and on one of the session module.\<close>

definition control_fs ::
  "(fs \<Rightarrow> (io_error + 'a) \<times> fs) \<Rightarrow> session_world \<Rightarrow> (control_error + 'a) \<times> session_world" where
  "control_fs f w = (case on_files f w of (r, w1) \<Rightarrow> (map_err ControlIo r, w1))"

definition control_session ::
  "(session_world \<Rightarrow> (session_error + 'a) \<times> session_world) \<Rightarrow> session_world \<Rightarrow> (control_error + 'a) \<times> session_world" where
  "control_session f w = (case f w of (r, w1) \<Rightarrow> (map_err ControlSession r, w1))"

section \<open>The store\<close>

definition workspace_fingerprint :: "string \<Rightarrow> string" where
  "workspace_fingerprint workspace_root = hex16 (fnv_hash (utf8_lossy workspace_root))"

text \<open>\<open>fs::canonicalize(p).unwrap_or_else(..)\<close> on the text of a path.\<close>

definition canonical_text :: "string \<Rightarrow> fs \<Rightarrow> string \<times> fs" where
  "canonical_text t s =
     (case fs_canonicalize (parse_path t) s of
        (Inl _, s1) \<Rightarrow> (t, s1)
      | (Inr l, s1) \<Rightarrow> (show_path (path_of_loc l), s1))"

definition from_cwd :: "string \<Rightarrow> session_world \<Rightarrow> (control_error + session_store) \<times> session_world" where
  "from_cwd cwd w =
     (let (canonical_cwd, w1) = on_files (canonical_text cwd) w;
          sessions_root = path_join (path_join (path_join (parse_path canonical_cwd) [Name ''.claw'']) [Name ''sessions''])
            [Name (workspace_fingerprint canonical_cwd)]
      in try_step (control_fs (fs_create_dir_all sessions_root)) (\<lambda>_.
           done_with \<lparr>ss_sessions_root = sessions_root, ss_workspace_root = canonical_cwd\<rparr>) w1)"

definition from_data_dir ::
  "path \<Rightarrow> string \<Rightarrow> session_world \<Rightarrow> (control_error + session_store) \<times> session_world" where
  "from_data_dir data_dir workspace_root w =
     (let (canonical_workspace, w1) = on_files (canonical_text workspace_root) w;
          sessions_root = path_join (path_join data_dir [Name ''sessions'']) [Name (workspace_fingerprint canonical_workspace)]
      in try_step (control_fs (fs_create_dir_all sessions_root)) (\<lambda>_.
           done_with \<lparr>ss_sessions_root = sessions_root, ss_workspace_root = canonical_workspace\<rparr>) w1)"

definition primary_session_extension :: string where
  "primary_session_extension = ''jsonl''"

definition legacy_session_extension :: string where
  "legacy_session_extension = ''json''"

definition latest_session_reference :: string where
  "latest_session_reference = ''latest''"

text \<open>The file of an id under a directory; the id may hold separators.\<close>

definition session_file :: "path \<Rightarrow> string \<Rightarrow> string \<Rightarrow> path" where
  "session_file root i extension = path_join root (parse_path (i @ ''.'' @ extension))"

definition create_handle :: "session_store \<Rightarrow> string \<Rightarrow> session_handle" where
  "create_handle st i = \<lparr>sh_id = i, sh_path = session_file (ss_sessions_root st) i primary_session_extension\<rparr>"

definition is_managed_session_file :: "path \<Rightarrow> bool" where
  "is_managed_session_file p \<longleftrightarrow>
     (case path_extension p of
        None \<Rightarrow> False
      | Some extension \<Rightarrow> extension = primary_session_extension \<or> extension = legacy_session_extension)"

definition is_session_reference_alias :: "string \<Rightarrow> bool" where
  "is_session_reference_alias reference \<longleftrightarrow>
     list_ex (\<lambda>alias. to_ascii_lowercase reference = alias) [latest_session_reference, ''last'', ''recent'']"

definition session_id_from_path :: "path \<Rightarrow> string option" where
  "session_id_from_path p =
     Option.bind (file_name p) (\<lambda>name.
       if \<not> valid_utf8 name then None
       else case strip_suffix name (''.'' @ primary_session_extension) of
              Some stem \<Rightarrow> Some stem
            | None \<Rightarrow> strip_suffix name (''.'' @ legacy_session_extension))"

definition legacy_sessions_root :: "session_store \<Rightarrow> path option" where
  "legacy_sessions_root st =
     (case path_parent (ss_sessions_root st) of
        None \<Rightarrow> None
      | Some parent \<Rightarrow> if file_name parent = Some ''sessions'' then Some parent else None)"

section \<open>Messages\<close>

definition fingerprint_dir :: "path \<Rightarrow> string" where
  "fingerprint_dir sessions_root =
     (case file_name sessions_root of None \<Rightarrow> ''<unknown>'' | Some n \<Rightarrow> if valid_utf8 n then n else ''<unknown>'')"

definition format_missing_session_reference :: "string \<Rightarrow> path \<Rightarrow> string" where
  "format_missing_session_reference reference sessions_root =
     ''session not found: '' @ reference @ nl @ ''Hint: managed sessions live in .claw/sessions/''
     @ fingerprint_dir sessions_root @ ''/ (workspace-specific partition).'' @ nl
     @ ''Try `'' @ latest_session_reference @ ''` for the most recent session or `/session list` in the REPL.''"

definition format_no_managed_sessions :: "path \<Rightarrow> string" where
  "format_no_managed_sessions sessions_root =
     ''no managed sessions found in .claw/sessions/'' @ fingerprint_dir sessions_root @ ''/'' @ nl
     @ ''Start `claw` to create a session, then rerun with `--resume '' @ latest_session_reference @ ''`.'' @ nl
     @ ''Note: claw partitions sessions per workspace fingerprint; sessions from other CWDs are invisible.''"

definition format_legacy_session_missing_workspace_root :: "path \<Rightarrow> string \<Rightarrow> string" where
  "format_legacy_session_missing_workspace_root session_path workspace_root =
     ''legacy session is missing workspace binding: '' @ utf8_lossy (show_path session_path) @ nl
     @ ''Open it from its original workspace or re-save it from '' @ utf8_lossy workspace_root @ ''.''"

section \<open>Whose session it is\<close>

definition canonicalize_for_compare :: "path \<Rightarrow> session_world \<Rightarrow> path \<times> session_world" where
  "canonicalize_for_compare p = on_files (canonical_or p)"

definition workspace_roots_match :: "string \<Rightarrow> string \<Rightarrow> session_world \<Rightarrow> bool \<times> session_world" where
  "workspace_roots_match l r w =
     (let (left, w1) = canonicalize_for_compare (parse_path l) w;
          (right, w2) = canonicalize_for_compare (parse_path r) w1
      in (left = right, w2))"

definition path_is_within_workspace :: "path \<Rightarrow> string \<Rightarrow> session_world \<Rightarrow> bool \<times> session_world" where
  "path_is_within_workspace p workspace_root w =
     (let (inner, w1) = canonicalize_for_compare p w;
          (outer, w2) = canonicalize_for_compare (parse_path workspace_root) w1
      in (path_starts_with inner outer, w2))"

definition validate_loaded_session ::
  "session_store \<Rightarrow> path \<Rightarrow> claw_session \<Rightarrow> session_world \<Rightarrow> (control_error + unit) \<times> session_world" where
  "validate_loaded_session st session_path s w =
     (case cs_workspace_root s of
        None \<Rightarrow>
          (let (within, w1) = path_is_within_workspace session_path (ss_workspace_root st) w
           in if within then (Inr (), w1)
              else (Inl (ControlFormat (format_legacy_session_missing_workspace_root session_path (ss_workspace_root st))), w1))
      | Some actual \<Rightarrow>
          (let (same, w1) = workspace_roots_match actual (ss_workspace_root st) w
           in if same then (Inr (), w1) else (Inl (WorkspaceMismatch (ss_workspace_root st) actual), w1)))"

section \<open>The list of sessions\<close>

text \<open>\<open>DirEntry::metadata\<close> does not follow a link; of it only the time of modification is used.\<close>

definition entry_metadata :: "path \<Rightarrow> fs \<Rightarrow> (io_error + unit) \<times> fs" where
  "entry_metadata p s =
     guarded s (\<lambda>s. (and_then (entry_loc s p) (\<lambda>l. if node_at (fs_nodes s) l = None then Inl NotFound else Inr ()), s))"

definition managed_summary_of :: "path \<Rightarrow> nat \<Rightarrow> claw_session \<Rightarrow> managed_summary" where
  "managed_summary_of p modified_epoch_millis s =
     \<lparr>mss_id = cs_session_id s, mss_path = p, mss_updated_at_ms = cs_updated_at_ms s,
      mss_modified_epoch_millis = modified_epoch_millis, mss_message_count = length (cs_messages s),
      mss_parent_session_id = map_option sf_parent_session_id (cs_fork s),
      mss_branch_name = Option.bind (cs_fork s) sf_branch_name\<rparr>"

definition unreadable_summary :: "path \<Rightarrow> nat \<Rightarrow> managed_summary" where
  "unreadable_summary p modified_epoch_millis =
     \<lparr>mss_id = (case file_stem p of None \<Rightarrow> ''unknown'' | Some n \<Rightarrow> if valid_utf8 n then n else ''unknown''),
      mss_path = p, mss_updated_at_ms = 0, mss_modified_epoch_millis = modified_epoch_millis, mss_message_count = 0,
      mss_parent_session_id = None, mss_branch_name = None\<rparr>"

definition summarize_managed ::
  "session_store \<Rightarrow> path \<Rightarrow> nat \<Rightarrow> session_world \<Rightarrow> managed_summary list \<times> session_world" where
  "summarize_managed st p modified_epoch_millis w =
     (case load_from_path p w of
        (Inl _, w1) \<Rightarrow> ([unreadable_summary p modified_epoch_millis], w1)
      | (Inr s, w1) \<Rightarrow>
          (case validate_loaded_session st p s w1 of
             (Inl _, w2) \<Rightarrow> ([], w2)
           | (Inr _, w2) \<Rightarrow> ([managed_summary_of p modified_epoch_millis s], w2)))"

text \<open>The loop over the entries of a directory, with the summaries found so far.\<close>

fun collect_entries ::
  "(fs \<Rightarrow> path \<Rightarrow> nat) \<Rightarrow> session_store \<Rightarrow> path \<Rightarrow> string list \<Rightarrow> managed_summary list \<Rightarrow> session_world
    \<Rightarrow> (control_error + managed_summary list) \<times> session_world" where
  "collect_entries modified st directory [] sessions w = (Inr sessions, w)"
| "collect_entries modified st directory (n # ns) sessions w =
     try_step (control_fs (fs_dir_entry n)) (\<lambda>n w.
       let p = path_join directory [Name n]
       in if \<not> is_managed_session_file p then collect_entries modified st directory ns sessions w
          else try_step (control_fs (entry_metadata p)) (\<lambda>_ w.
            let (found, w1) = summarize_managed st p (modified (sw_fs w) p) w
            in collect_entries modified st directory ns (sessions @ found) w1) w) w"

definition collect_sessions_from_dir ::
  "(fs \<Rightarrow> path \<Rightarrow> nat) \<Rightarrow> session_store \<Rightarrow> path \<Rightarrow> managed_summary list \<Rightarrow> session_world
    \<Rightarrow> (control_error + managed_summary list) \<times> session_world" where
  "collect_sessions_from_dir modified st directory sessions w =
     (case on_files (fs_read_dir directory) w of
        (Inl NotFound, w1) \<Rightarrow> (Inr sessions, w1)
      | (Inl e, w1) \<Rightarrow> (Inl (ControlIo e), w1)
      | (Inr names, w1) \<Rightarrow> collect_entries modified st directory names sessions w1)"

text \<open>The order of \<open>sort_by\<close>: the later times first, then the greater id.\<close>

definition listed_before :: "managed_summary \<Rightarrow> managed_summary \<Rightarrow> bool" where
  "listed_before l r \<longleftrightarrow>
     mss_updated_at_ms l > mss_updated_at_ms r \<or> mss_updated_at_ms l = mss_updated_at_ms r \<and>
       (mss_modified_epoch_millis l > mss_modified_epoch_millis r \<or>
        mss_modified_epoch_millis l = mss_modified_epoch_millis r \<and> mss_id l > mss_id r)"

fun place_summary :: "managed_summary \<Rightarrow> managed_summary list \<Rightarrow> managed_summary list" where
  "place_summary s [] = [s]"
| "place_summary s (t # ts) = (if listed_before t s then t # place_summary s ts else s # t # ts)"

text \<open>A stable sort.\<close>

definition sort_managed_sessions :: "managed_summary list \<Rightarrow> managed_summary list" where
  "sort_managed_sessions sessions = foldr place_summary sessions []"

definition list_sessions ::
  "(fs \<Rightarrow> path \<Rightarrow> nat) \<Rightarrow> session_store \<Rightarrow> session_world \<Rightarrow> (control_error + managed_summary list) \<times> session_world" where
  "list_sessions modified st =
     try_step (collect_sessions_from_dir modified st (ss_sessions_root st) []) (\<lambda>sessions.
     try_step (case legacy_sessions_root st of
         None \<Rightarrow> done_with sessions
       | Some legacy_root \<Rightarrow> collect_sessions_from_dir modified st legacy_root sessions) (\<lambda>sessions.
       done_with (sort_managed_sessions sessions)))"

definition latest_session ::
  "(fs \<Rightarrow> path \<Rightarrow> nat) \<Rightarrow> session_store \<Rightarrow> session_world \<Rightarrow> (control_error + managed_summary) \<times> session_world" where
  "latest_session modified st =
     try_step (list_sessions modified st) (\<lambda>sessions w.
       case sessions of
         [] \<Rightarrow> (Inl (ControlFormat (format_no_managed_sessions (ss_sessions_root st))), w)
       | s # _ \<Rightarrow> (Inr s, w))"

section \<open>References\<close>

text \<open>The two extensions tried in a directory, the first that exists.\<close>

definition first_existing :: "path \<Rightarrow> path \<Rightarrow> session_world \<Rightarrow> path option \<times> session_world" where
  "first_existing p q w =
     (let (present, w1) = on_files (fs_exists p) w
      in if present then (Some p, w1)
         else let (present, w2) = on_files (fs_exists q) w1 in (if present then Some q else None, w2))"

definition resolve_managed_path ::
  "session_store \<Rightarrow> string \<Rightarrow> session_world \<Rightarrow> (control_error + path) \<times> session_world" where
  "resolve_managed_path st session_id w =
     (let candidates = (\<lambda>root. first_existing (session_file root session_id primary_session_extension)
            (session_file root session_id legacy_session_extension));
          missing = Inl (ControlFormat (format_missing_session_reference session_id (ss_sessions_root st)))
      in case candidates (ss_sessions_root st) w of
           (Some p, w1) \<Rightarrow> (Inr p, w1)
         | (None, w1) \<Rightarrow>
             (case legacy_sessions_root st of
                None \<Rightarrow> (missing, w1)
              | Some legacy_root \<Rightarrow>
                  (case candidates legacy_root w1 of
                     (None, w2) \<Rightarrow> (missing, w2)
                   | (Some p, w2) \<Rightarrow>
                       try_step (control_session (load_from_path p)) (\<lambda>s.
                       try_step (validate_loaded_session st p s) (\<lambda>_. done_with p)) w2)))"

definition resolve_reference ::
  "(fs \<Rightarrow> path \<Rightarrow> nat) \<Rightarrow> session_store \<Rightarrow> string \<Rightarrow> session_world
    \<Rightarrow> (control_error + session_handle) \<times> session_world" where
  "resolve_reference modified st reference w =
     (if is_session_reference_alias reference then
        try_step (latest_session modified st) (\<lambda>latest. done_with \<lparr>sh_id = mss_id latest, sh_path = mss_path latest\<rparr>) w
      else
        (let direct = parse_path reference;
             candidate = (if is_absolute direct then direct else path_join (parse_path (ss_workspace_root st)) direct);
             looks_like_path = (path_extension direct \<noteq> None \<or> length direct > 1);
             (present, w1) = on_files (fs_exists candidate) w
         in try_step
              (if present then done_with candidate
               else if looks_like_path
               then (\<lambda>w. (Inl (ControlFormat (format_missing_session_reference reference (ss_sessions_root st))), w))
               else resolve_managed_path st reference)
              (\<lambda>p. done_with \<lparr>sh_id = unwrap_or reference (session_id_from_path p), sh_path = p\<rparr>) w1))"

section \<open>Loading and forking\<close>

definition load_session ::
  "(fs \<Rightarrow> path \<Rightarrow> nat) \<Rightarrow> session_store \<Rightarrow> string \<Rightarrow> session_world
    \<Rightarrow> (control_error + loaded_session) \<times> session_world" where
  "load_session modified st reference =
     try_step (resolve_reference modified st reference) (\<lambda>handle.
     try_step (control_session (load_from_path (sh_path handle))) (\<lambda>s.
     try_step (validate_loaded_session st (sh_path handle) s) (\<lambda>_.
       done_with \<lparr>ls_handle = \<lparr>sh_id = cs_session_id s, sh_path = sh_path handle\<rparr>, ls_session = s\<rparr>)))"

definition store_fork_session ::
  "(fs \<Rightarrow> path \<Rightarrow> nat) \<Rightarrow> session_store \<Rightarrow> claw_session \<Rightarrow> string option \<Rightarrow> session_world
    \<Rightarrow> (control_error + forked_session) \<times> session_world" where
  "store_fork_session modified st s branch_name w =
     (let (copied, w1) = session_forked branch_name s w;
          forked = with_workspace_root (ss_workspace_root st) copied;
          handle = create_handle st (cs_session_id forked);
          branch = Option.bind (cs_fork forked) sf_branch_name;
          forked = with_persistence_path (sh_path handle) forked
      in try_step (control_session (save_to_path modified (sh_path handle) forked)) (\<lambda>_.
           done_with \<lparr>fk_parent_session_id = cs_session_id s, fk_handle = handle, fk_session = forked, fk_branch_name = branch\<rparr>) w1)"

section \<open>The functions for a directory\<close>

definition managed_sessions_dir_for where
  "managed_sessions_dir_for base = try_step (from_cwd base) (\<lambda>st. done_with (ss_sessions_root st))"

definition create_managed_session_handle_for where
  "create_managed_session_handle_for base i = try_step (from_cwd base) (\<lambda>st. done_with (create_handle st i))"

definition resolve_session_reference_for where
  "resolve_session_reference_for modified base reference =
     try_step (from_cwd base) (\<lambda>st. resolve_reference modified st reference)"

definition resolve_managed_session_path_for where
  "resolve_managed_session_path_for base i = try_step (from_cwd base) (\<lambda>st. resolve_managed_path st i)"

definition list_managed_sessions_for where
  "list_managed_sessions_for modified base = try_step (from_cwd base) (list_sessions modified)"

definition latest_managed_session_for where
  "latest_managed_session_for modified base = try_step (from_cwd base) (latest_session modified)"

definition load_managed_session_for where
  "load_managed_session_for modified base reference = try_step (from_cwd base) (\<lambda>st. load_session modified st reference)"

definition fork_managed_session_for where
  "fork_managed_session_for modified base s branch_name =
     try_step (from_cwd base) (\<lambda>st. store_fork_session modified st s branch_name)"

section \<open>The functions for the current directory\<close>

definition in_current_dir where
  "in_current_dir f = try_step (control_fs fs_current_dir) (\<lambda>p. f (show_path p))"

definition managed_sessions_dir where
  "managed_sessions_dir = in_current_dir managed_sessions_dir_for"

definition create_managed_session_handle where
  "create_managed_session_handle i = in_current_dir (\<lambda>base. create_managed_session_handle_for base i)"

definition resolve_session_reference where
  "resolve_session_reference modified reference =
     in_current_dir (\<lambda>base. resolve_session_reference_for modified base reference)"

definition resolve_managed_session_path where
  "resolve_managed_session_path i = in_current_dir (\<lambda>base. resolve_managed_session_path_for base i)"

definition list_managed_sessions where
  "list_managed_sessions modified = in_current_dir (list_managed_sessions_for modified)"

definition latest_managed_session where
  "latest_managed_session modified = in_current_dir (latest_managed_session_for modified)"

definition load_managed_session where
  "load_managed_session modified reference = in_current_dir (\<lambda>base. load_managed_session_for modified base reference)"

definition fork_managed_session where
  "fork_managed_session modified s branch_name =
     in_current_dir (\<lambda>base. fork_managed_session_for modified base s branch_name)"

end
