(* ===== verification/RefSessionControlCorrect.thy ===== *)
theory RefSessionControlCorrect
  imports RefSessionControl "HOL-Library.Multiset" "HOL-Library.Product_Lexorder"
begin

text \<open>
  Whose sessions are loaded and listed, in which order, and which id a file stands for. The statements
  on ownership assume that no call of the file system fails; then listing and loading change no file.
\<close>

section \<open>Steps that only read\<close>

definition calm :: "(session_world \<Rightarrow> 'a \<times> session_world) \<Rightarrow> bool" where
  "calm f \<longleftrightarrow> (\<forall>w. fs_faults (sw_fs w) = [] \<longrightarrow> sw_fs (snd (f w)) = sw_fs w)"

lemma calmD: "calm f \<Longrightarrow> fs_faults (sw_fs w) = [] \<Longrightarrow> f w = (r, w') \<Longrightarrow> sw_fs w' = sw_fs w"
  unfolding calm_def by (metis snd_conv)

lemma calm_try_step: "calm f \<Longrightarrow> (\<And>x. calm (k x)) \<Longrightarrow> calm (try_step f k)"
  unfolding calm_def try_step_def by (auto split: prod.split sum.split)

lemma calm_done: "calm (done_with x)"
  by (simp add: calm_def done_with_def)

lemma calm_fs: "(\<And>s. fs_faults s = [] \<Longrightarrow> snd (f s) = s) \<Longrightarrow> calm (on_files f)"
  by (simp add: calm_def on_files_def case_prod_unfold)

lemma calm_control_fs: "calm (on_files f) \<Longrightarrow> calm (control_fs f)"
  by (simp add: calm_def control_fs_def case_prod_unfold)

lemma calm_control_session: "calm f \<Longrightarrow> calm (control_session f)"
  by (simp add: calm_def control_session_def case_prod_unfold)

lemma reads_calmly:
  "calm (on_files (fs_canonicalize p))" "calm (on_files (fs_exists p))" "calm (on_files (fs_read_dir p))"
  "calm (on_files (fs_read_to_string p))" "calm (on_files (entry_metadata p))" "calm (on_files (fs_dir_entry n))"
  "calm (on_files (canonical_or p))" "calm (on_files (canonical_text t))"
  by (rule calm_fs, simp add: guarded_no_fault fs_canonicalize_def fs_exists_def fs_metadata_len_def fs_read_dir_def
      fs_read_to_string_def entry_metadata_def fs_dir_entry_def canonical_or_def canonical_text_def split: sum.split)+

lemma generate_keeps [simp]: "sw_fs (snd (generate_session_id w)) = sw_fs w"
  by (simp add: generate_session_id_def current_time_millis_def fetch_counter_def Let_def)

lemma session_from_json_keeps: "sw_fs (snd (session_from_json v w)) = sw_fs w"
  by (simp add: session_from_json_def Let_def case_prod_unfold current_time_millis_def split: sum.split option.split)

lemma session_from_jsonl_keeps: "sw_fs (snd (session_from_jsonl t w)) = sw_fs w"
  by (simp add: session_from_jsonl_def Let_def case_prod_unfold current_time_millis_def split: sum.split option.split)

lemma calm_load: "calm (load_from_path p)"
proof -
  have parts: "calm (session_from_jsonl t)" "calm (session_from_json v)" for t v
    by (simp_all add: calm_def session_from_json_keeps session_from_jsonl_keeps)
  have as_step: "load_from_path p = try_step (\<lambda>w. case on_files (fs_read_to_string p) w of (r, w1) \<Rightarrow> (map_err SessionIo r, w1)) k"
    if "load_from_path p = try_fs (fs_read_to_string p) k" for k
    unfolding that by (auto simp: fun_eq_iff try_fs_def try_step_def split: prod.split sum.split)
  have read: "calm (\<lambda>w. case on_files (fs_read_to_string p) w of (r, w1) \<Rightarrow> (map_err SessionIo r, w1))"
    using reads_calmly(4) [of p] by (simp add: calm_def case_prod_unfold)
  show ?thesis
    by (subst as_step [OF load_from_path_def], rule calm_try_step [OF read])
      (auto simp: Let_def split: option.split intro!: calm_try_step calm_done parts)
qed

lemma calm_canonicalize: "calm (canonicalize_for_compare p)"
  unfolding canonicalize_for_compare_def by (rule reads_calmly)

lemma calm_validate: "calm (validate_loaded_session st p s)"
  using calm_canonicalize
  by (simp add: calm_def validate_loaded_session_def workspace_roots_match_def path_is_within_workspace_def Let_def
      case_prod_unfold split: option.split)

section \<open>Ownership\<close>

definition canonical :: "fs \<Rightarrow> path \<Rightarrow> path" where
  "canonical s p = (case locate False s p of Inl _ \<Rightarrow> p | Inr l \<Rightarrow> path_of_loc l)"

text \<open>The session names the workspace, or it names none and its file lies within.\<close>

definition belongs :: "fs \<Rightarrow> session_store \<Rightarrow> path \<Rightarrow> claw_session \<Rightarrow> bool" where
  "belongs f st p s \<longleftrightarrow>
     (let here = canonical f (parse_path (ss_workspace_root st))
      in case cs_workspace_root s of
           Some root \<Rightarrow> canonical f (parse_path root) = here
         | None \<Rightarrow> path_starts_with (canonical f p) here)"

lemma canonicalize_value:
  "fs_faults (sw_fs w) = [] \<Longrightarrow> canonicalize_for_compare p w = (canonical (sw_fs w) p, w)"
  by (auto simp: canonicalize_for_compare_def canonical_or_def on_files_def fs_canonicalize_def guarded_no_fault
      canonical_def split: sum.split)

lemma validate_belongs:
  "fs_faults (sw_fs w) = [] \<Longrightarrow> validate_loaded_session st p s w = (r, w') \<Longrightarrow> r = Inr () \<longleftrightarrow> belongs (sw_fs w) st p s"
  by (auto simp: validate_loaded_session_def workspace_roots_match_def path_is_within_workspace_def
      canonicalize_value belongs_def Let_def split: option.splits if_splits)

section \<open>What is listed\<close>

text \<open>What loading a file gives while the files are these.\<close>

definition loads :: "fs \<Rightarrow> path \<Rightarrow> session_error + claw_session \<Rightarrow> bool" where
  "loads f p r \<longleftrightarrow> (\<exists>w. sw_fs w = f \<and> fst (load_from_path p w) = r)"

text \<open>A listed entry is a session of the workspace, or a file that cannot be read as a session.\<close>

definition honest :: "fs \<Rightarrow> session_store \<Rightarrow> managed_summary \<Rightarrow> bool" where
  "honest f st s \<longleftrightarrow>
     (\<exists>c. loads f (mss_path s) (Inr c) \<and> belongs f st (mss_path s) c
        \<and> s = managed_summary_of (mss_path s) (mss_modified_epoch_millis s) c)
     \<or> (\<exists>e. loads f (mss_path s) (Inl e)) \<and> s = unreadable_summary (mss_path s) (mss_modified_epoch_millis s)"

lemma summarize_managed_honest:
  assumes "fs_faults (sw_fs w) = []" and "summarize_managed st p m w = (found, w')"
  shows "sw_fs w' = sw_fs w \<and> (\<forall>s \<in> set found. honest (sw_fs w) st s \<and> mss_path s = p)"
proof -
  obtain r w1 where load: "load_from_path p w = (r, w1)" by fastforce
  have same: "sw_fs w1 = sw_fs w" using calmD [OF calm_load assms(1) load] .
  have this_loads: "loads (sw_fs w) p r" unfolding loads_def using load by (metis fst_conv)
  show ?thesis
  proof (cases r)
    case (Inl e)
    then show ?thesis
      using assms(2) load same this_loads
      by (auto simp: summarize_managed_def honest_def unreadable_summary_def)
  next
    case (Inr c)
    obtain v w2 where validate: "validate_loaded_session st p c w1 = (v, w2)" by fastforce
    have "sw_fs w2 = sw_fs w" "v = Inr () \<longleftrightarrow> belongs (sw_fs w) st p c"
      using calmD [OF calm_validate _ validate] validate_belongs [OF _ validate] same assms(1) by auto
    then show ?thesis
      using assms(2) load Inr validate this_loads
      by (auto simp: summarize_managed_def honest_def managed_summary_of_def split: sum.splits)
  qed
qed

lemma collect_entries_honest:
  "collect_entries modified st directory ns acc w = (r, w') \<Longrightarrow> fs_faults (sw_fs w) = [] \<Longrightarrow>
   sw_fs w' = sw_fs w \<and> (\<forall>ss. r = Inr ss \<longrightarrow> (\<exists>new. ss = acc @ new \<and> (\<forall>s \<in> set new. honest (sw_fs w) st s)))"
proof (induction ns arbitrary: acc w)
  case Nil
  then show ?case by auto
next
  case (Cons n ns)
  let ?p = "path_join directory [Name n]"
  have entry: "control_fs (fs_dir_entry n) w = (Inr n, w)"
    using Cons.prems(2) by (simp add: control_fs_def on_files_def fs_dir_entry_def guarded_no_fault)
  show ?case
  proof (cases "is_managed_session_file ?p")
    case False
    then show ?thesis using Cons entry by (simp add: try_step_def)
  next
    case True
    obtain m w1 where meta: "control_fs (entry_metadata ?p) w = (m, w1)" by fastforce
    have w1: "sw_fs w1 = sw_fs w"
      using calmD [OF calm_control_fs [OF reads_calmly(5)] Cons.prems(2) meta] .
    show ?thesis
    proof (cases m)
      case (Inl e)
      then show ?thesis using Cons.prems(1) entry True meta w1 by (auto simp: try_step_def)
    next
      case (Inr u)
      obtain found w2 where s: "summarize_managed st ?p (modified (sw_fs w1) ?p) w1 = (found, w2)" by fastforce
      have found: "sw_fs w2 = sw_fs w" "\<forall>s \<in> set found. honest (sw_fs w) st s"
        using summarize_managed_honest [OF _ s] w1 Cons.prems(2) by auto
      have "collect_entries modified st directory ns (acc @ found) w2 = (r, w')"
        using Cons.prems(1) entry True meta Inr s by (simp add: try_step_def)
      then show ?thesis
        using Cons.IH found Cons.prems(2) by fastforce
    qed
  qed
qed

lemma collect_dir_honest:
  assumes "collect_sessions_from_dir modified st directory acc w = (r, w')" and "fs_faults (sw_fs w) = []"
  shows "sw_fs w' = sw_fs w \<and> (\<forall>ss. r = Inr ss \<longrightarrow> (\<exists>new. ss = acc @ new \<and> (\<forall>s \<in> set new. honest (sw_fs w) st s)))"
proof -
  obtain d w1 where dir: "on_files (fs_read_dir directory) w = (d, w1)" by fastforce
  have w1: "sw_fs w1 = sw_fs w" using calmD [OF reads_calmly(3) assms(2) dir] .
  show ?thesis
  proof (cases d)
    case (Inl e)
    then show ?thesis
      using assms(1) dir w1 by (cases e) (auto simp: collect_sessions_from_dir_def)
  next
    case (Inr names)
    then show ?thesis
      using assms dir w1 collect_entries_honest [of modified st directory names acc w1 r w']
      by (simp add: collect_sessions_from_dir_def)
  qed
qed

section \<open>The order\<close>

lemma listed_before_asym: "listed_before s t \<Longrightarrow> \<not> listed_before t s"
  by (auto simp: listed_before_def)

definition list_key :: "managed_summary \<Rightarrow> u64 \<times> nat \<times> string" where
  "list_key s = (mss_updated_at_ms s, mss_modified_epoch_millis s, mss_id s)"

lemma not_before: "\<not> listed_before l r \<longleftrightarrow> list_key l \<le> list_key r"
  unfolding listed_before_def list_key_def by auto

lemma not_before_trans: "\<not> listed_before t s \<Longrightarrow> \<not> listed_before u t \<Longrightarrow> \<not> listed_before u s"
  unfolding not_before by (rule order_trans)

lemma set_place [simp]: "set (place_summary s ts) = insert s (set ts)"
  by (induction ts) auto

lemma place_sorted:
  "sorted_wrt (\<lambda>l r. \<not> listed_before r l) ts \<Longrightarrow> sorted_wrt (\<lambda>l r. \<not> listed_before r l) (place_summary s ts)"
proof (induction ts)
  case (Cons t ts)
  show ?case
  proof (cases "listed_before t s")
    case True
    then show ?thesis using Cons listed_before_asym [OF True] by simp
  next
    case False
    have "\<not> listed_before u s" if "u \<in> set ts" for u
      using not_before_trans [OF False] Cons.prems that by simp
    then show ?thesis using False Cons.prems by simp
  qed
qed simp

lemma mset_place: "mset (place_summary s ts) = add_mset s (mset ts)"
  by (induction ts) auto

lemma sort_sessions:
  "mset (sort_managed_sessions ss) = mset ss \<and> sorted_wrt (\<lambda>l r. \<not> listed_before r l) (sort_managed_sessions ss)"
  unfolding sort_managed_sessions_def by (induction ss) (auto simp: mset_place place_sorted)

lemma set_sort_sessions [simp]: "set (sort_managed_sessions ss) = set ss"
  using sort_sessions mset_eq_setD by blast

text \<open>
  The list of sessions is in order, the latest first and equal times by the greater id, and each
  entry stands for a file that holds a session of this workspace or cannot be read as a session; listing
  changes no file.
\<close>

theorem listed_sessions_belong:
  assumes "list_sessions modified st w = (Inr ss, w')" and "fs_faults (sw_fs w) = []"
  shows "sw_fs w' = sw_fs w \<and> sorted_wrt (\<lambda>l r. \<not> listed_before r l) ss \<and> (\<forall>s \<in> set ss. honest (sw_fs w) st s)"
proof -
  obtain own w1 where own: "collect_sessions_from_dir modified st (ss_sessions_root st) [] w = (Inr own, w1)"
    using assms(1) by (auto simp: list_sessions_def try_step_def split: prod.splits sum.splits)
  have w1: "sw_fs w1 = sw_fs w" "\<forall>s \<in> set own. honest (sw_fs w) st s"
    using collect_dir_honest [OF own assms(2)] by auto
  obtain found w2 where found: "(case legacy_sessions_root st of None \<Rightarrow> done_with own
      | Some root \<Rightarrow> collect_sessions_from_dir modified st root own) w1 = (Inr found, w2)"
      "ss = sort_managed_sessions found" "w' = w2"
    using assms(1) own by (auto simp: list_sessions_def try_step_def done_with_def split: prod.splits sum.splits)
  have "sw_fs w2 = sw_fs w \<and> (\<forall>s \<in> set found. honest (sw_fs w) st s)"
  proof (cases "legacy_sessions_root st")
    case None
    then show ?thesis using found w1 by (simp add: done_with_def)
  next
    case (Some root)
    then have "collect_sessions_from_dir modified st root own w1 = (Inr found, w2)" using found by simp
    from collect_dir_honest [OF this] show ?thesis using w1 assms(2) by auto
  qed
  then show ?thesis using found sort_sessions by simp
qed

text \<open>An empty file loads as a new session, which names no workspace.\<close>

definition control_world :: session_world where
  "control_world = \<lparr>sw_fs = \<lparr>fs_nodes = [([''x.json''], FileNode [])], fs_cwd = [], fs_faults = []\<rparr>, sw_clock = [],
     sw_last_timestamp_ms = 0, sw_id_counter = 0\<rparr>"

definition control_store :: session_store where
  "control_store = \<lparr>ss_sessions_root = [RootDir], ss_workspace_root = ''/''\<rparr>"

theorem listed_sessions_belong_witness:
  "\<exists>ss w'. list_sessions (\<lambda>_ _. 0) control_store control_world = (Inr ss, w') \<and> ss \<noteq> []
    \<and> (\<forall>s \<in> set ss. honest (sw_fs control_world) control_store s)"
proof -
  have run: "case list_sessions (\<lambda>_ _. 0) control_store control_world of (r, w') \<Rightarrow> \<not> isl r \<and> projr r \<noteq> []"
    by code_simp
  then obtain ss w' where "list_sessions (\<lambda>_ _. 0) control_store control_world = (Inr ss, w')" "ss \<noteq> []"
    by (auto split: prod.splits) (metis sum.collapse(2))
  then show ?thesis
    using listed_sessions_belong [of "\<lambda>_ _. 0" control_store control_world ss w'] by (auto simp: control_world_def)
qed

section \<open>What is loaded\<close>

lemma calm_collect: "calm (collect_sessions_from_dir modified st directory acc)"
  unfolding calm_def using collect_dir_honest by (metis prod.collapse)

lemma calm_list: "calm (list_sessions modified st)"
  unfolding list_sessions_def by (intro calm_try_step calm_collect calm_done) (auto split: option.split simp: calm_collect calm_done)

lemma calm_error: "calm (\<lambda>w. (Inl e, w))"
  by (simp add: calm_def)

lemma calm_latest: "calm (latest_session modified st)"
  unfolding latest_session_def
  by (intro calm_try_step calm_list) (auto simp: calm_def split: list.split)

lemma calm_first: "calm (first_existing p q)"
  using reads_calmly(2) by (simp add: calm_def first_existing_def Let_def case_prod_unfold)

lemma calm_managed: "calm (resolve_managed_path st i)"
proof -
  have legacy: "calm (try_step (control_session (load_from_path p)) (\<lambda>s. try_step (validate_loaded_session st p s) (\<lambda>_. done_with p)))" for p
    by (intro calm_try_step calm_control_session calm_load calm_validate calm_done)
  have here: "calm (\<lambda>w. case first_existing p q w of (None, w1) \<Rightarrow> none w1 | (Some x, w1) \<Rightarrow> some x w1)"
    if "calm none" "\<And>x. calm (some x)" for p q none some
    using calm_first that unfolding calm_def by (auto split: prod.split option.split) (metis snd_conv)+
  have missing: "calm (\<lambda>w. (Inl e :: control_error + path, w))" for e
    by (rule calm_error)
  show ?thesis
    unfolding resolve_managed_path_def Let_def
    by (cases "legacy_sessions_root st") (simp_all add: here legacy missing calm_error calm_done [unfolded done_with_def])
qed

lemma calm_resolve: "calm (resolve_reference modified st reference)"
proof (cases "is_session_reference_alias reference")
  case True
  have "calm (try_step (latest_session modified st) (\<lambda>l. done_with \<lparr>sh_id = mss_id l, sh_path = mss_path l\<rparr>))"
    by (intro calm_try_step calm_latest calm_done)
  then show ?thesis using True by (simp add: calm_def resolve_reference_def)
next
  case False
  let ?e = "(\<lambda>w. (Inl (ControlFormat (format_missing_session_reference reference (ss_sessions_root st))), w))
    :: session_world \<Rightarrow> (control_error + path) \<times> session_world"
  define p where "p = (if is_absolute (parse_path reference) then parse_path reference
      else path_join (parse_path (ss_workspace_root st)) (parse_path reference))"
  define step where "step present = try_step (if present then done_with p
      else if path_extension (parse_path reference) \<noteq> None \<or> length (parse_path reference) > 1 then ?e
      else resolve_managed_path st reference)
      (\<lambda>p. done_with \<lparr>sh_id = unwrap_or reference (session_id_from_path p), sh_path = p\<rparr>)" for present
  have calm: "calm (step present)" for present
    unfolding step_def by (intro calm_try_step calm_done) (auto intro: calm_done calm_error calm_managed)
  have split: "resolve_reference modified st reference w
      = step (fst (on_files (fs_exists p) w)) (snd (on_files (fs_exists p) w))" for w
    using False by (simp only: resolve_reference_def Let_def case_prod_unfold step_def p_def if_False)
  show ?thesis
    using calm reads_calmly(2) [of p] unfolding calm_def split by simp
qed

lemma calm_load_session: "calm (load_session modified st reference)"
  unfolding load_session_def
  by (intro calm_try_step calm_resolve calm_control_session calm_load calm_validate calm_done)

text \<open>
  The comparison falls back to the path as written when it cannot be made canonical, and so it fails open: a
  link in the workspace to a session file outside is refused, but accepted when the third call to the
  file system, the one that resolves the link, fails.
\<close>

definition linked_world :: "io_error option list \<Rightarrow> session_world" where
  "linked_world faults = \<lparr>sw_fs = \<lparr>fs_nodes = [([''o.json''], FileNode []), ([''w''], DirNode), ([''w'', ''x.json''], LinkNode [RootDir, Name ''o.json''])],
     fs_cwd = [], fs_faults = faults\<rparr>, sw_clock = [], sw_last_timestamp_ms = 0, sw_id_counter = 0\<rparr>"

lemma comparison_fails_open:
  "isl (fst (load_session (\<lambda>_ _. 0) \<lparr>ss_sessions_root = [RootDir, Name ''w''], ss_workspace_root = ''/w''\<rparr> ''/w/x.json'' (linked_world [])))"
  "case load_session (\<lambda>_ _. 0) \<lparr>ss_sessions_root = [RootDir, Name ''w''], ss_workspace_root = ''/w''\<rparr> ''/w/x.json''
      (linked_world [None, None, Some (OtherIo ''Permission denied (os error 13)'')]) of
     (Inl e, w) \<Rightarrow> False
   | (Inr found, w) \<Rightarrow> \<not> belongs (sw_fs w) \<lparr>ss_sessions_root = [RootDir, Name ''w''], ss_workspace_root = ''/w''\<rparr>
       (sh_path (ls_handle found)) (ls_session found)"
  by code_simp+

text \<open>
  C35: While no call to the file system fails, a session that is loaded by any reference, an alias, a path
  or an id, is what its file holds and belongs to the workspace: it names the workspace, or names none and
  its file lies within. Its handle carries the id the file gives, and loading changes no file.
\<close>

theorem loaded_session_belongs:
  assumes "load_session modified st reference w = (Inr found, w')" and "fs_faults (sw_fs w) = []"
  shows "sw_fs w' = sw_fs w \<and> loads (sw_fs w) (sh_path (ls_handle found)) (Inr (ls_session found))
    \<and> belongs (sw_fs w) st (sh_path (ls_handle found)) (ls_session found)
    \<and> sh_id (ls_handle found) = cs_session_id (ls_session found)"
proof -
  obtain handle w1 where res: "resolve_reference modified st reference w = (Inr handle, w1)"
    using assms(1) by (auto simp: load_session_def try_step_def split: prod.splits sum.splits)
  have w1: "sw_fs w1 = sw_fs w" using calmD [OF calm_resolve assms(2) res] .
  obtain c w2 where load: "load_from_path (sh_path handle) w1 = (Inr c, w2)"
    using assms(1) res
    by (auto simp: load_session_def try_step_def control_session_def split: prod.splits sum.splits)
  have w2: "sw_fs w2 = sw_fs w" using calmD [OF calm_load _ load] w1 assms(2) by simp
  obtain u w3 where valid: "validate_loaded_session st (sh_path handle) c w2 = (Inr u, w3)"
      "found = \<lparr>ls_handle = \<lparr>sh_id = cs_session_id c, sh_path = sh_path handle\<rparr>, ls_session = c\<rparr>"
    using assms(1) res load
    by (auto simp: load_session_def try_step_def control_session_def done_with_def split: prod.splits sum.splits)
  have "belongs (sw_fs w) st (sh_path handle) c"
    using validate_belongs [OF _ valid(1)] w2 assms(2) by simp
  moreover have "loads (sw_fs w) (sh_path handle) (Inr c)"
    unfolding loads_def using load w1 by (metis fst_conv)
  ultimately show ?thesis
    using valid(2) calmD [OF calm_load_session assms(2,1)] by simp
qed

theorem loaded_session_belongs_witness:
  "\<exists>found w'. load_session (\<lambda>_ _. 0) control_store ''/x.json'' control_world = (Inr found, w')
    \<and> belongs (sw_fs control_world) control_store (sh_path (ls_handle found)) (ls_session found)"
proof -
  have run: "case load_session (\<lambda>_ _. 0) control_store ''/x.json'' control_world of (r, w') \<Rightarrow> \<not> isl r"
    by code_simp
  then obtain found w' where "load_session (\<lambda>_ _. 0) control_store ''/x.json'' control_world = (Inr found, w')"
    by (auto split: prod.splits) (metis sum.collapse(2))
  then show ?thesis
    using loaded_session_belongs [of "\<lambda>_ _. 0" control_store "''/x.json''" control_world] by (auto simp: control_world_def)
qed

section \<open>Ids and files\<close>

lemma strip_suffix_Some: "strip_suffix s p = Some r \<longleftrightarrow> s = r @ p"
proof -
  have "rev s = rev p @ rev r \<longleftrightarrow> s = r @ p" by (metis rev_append rev_rev_ident)
  then show ?thesis by (auto simp: strip_suffix_def strip_prefix_Some intro!: exI [of _ "rev r"])
qed

text \<open>An id without separators is found again in the name of its file.\<close>

lemma handle_names_id:
  assumes "CHR ''/'' \<notin> set i" and "valid_utf8 (i @ ''.jsonl'')"
  shows "session_id_from_path (sh_path (create_handle st i)) = Some i"
proof -
  have parts: "split_on (CHR ''/'') [] (i @ ''.jsonl'') = [i @ ''.jsonl'']"
    using assms(1) split_on_done [of "CHR ''/''" "i @ ''.jsonl''" "[]"] by simp
  have name: "component_of (i @ ''.jsonl'') = Name (i @ ''.jsonl'')" "i @ ''.jsonl'' \<noteq> ''.''"
    by (cases i; simp add: component_of_def)+
  have "\<not> starts_with (i @ ''.jsonl'') ''/''" using assms(1) by (cases i) (auto simp: starts_with_iff)
  then have "parse_path (i @ ''.jsonl'') = [Name (i @ ''.jsonl'')]"
    using parts name by (simp add: parse_path_def)
  then have "file_name (sh_path (create_handle st i)) = Some (i @ ''.jsonl'')"
    by (simp add: create_handle_def session_file_def primary_session_extension_def path_join_def is_absolute_def file_name_def)
  then show ?thesis
    using assms(2) strip_suffix_Some [of "i @ ''.jsonl''" "''.jsonl''" i]
    by (simp add: session_id_from_path_def primary_session_extension_def)
qed

text \<open>A rotated file of a session has the extension of a session.\<close>

lemma rotated_file_is_listed: "is_managed_session_file [RootDir, Name ''s.rot-5.jsonl'']"
  by (simp add: is_managed_session_file_def path_extension_def file_name_def name_extension_def
      primary_session_extension_def Let_def)

end
