(* ===== verification/RefApiTypes.thy ===== *)
theory RefApiTypes
  imports ApiClient FileSys RefOauth
begin

text \<open>
  The types and errors of the reference API crate, \<open>claw-rust/crates/api/src/types.rs\<close> and
  \<open>error.rs\<close>. Requests, tools and input messages have the fields the port kept, so their records are
  those of \<open>ApiTypes\<close>; answers and events differ and are defined here.
\<close>

section \<open>Answers and events\<close>

record claw_usage =
  cu_input_tokens :: u32
  cu_cache_creation_input_tokens :: u32
  cu_cache_read_input_tokens :: u32
  cu_output_tokens :: u32

definition no_usage :: claw_usage where
  "no_usage = \<lparr>cu_input_tokens = 0, cu_cache_creation_input_tokens = 0, cu_cache_read_input_tokens = 0, cu_output_tokens = 0\<rparr>"

definition claw_total_tokens :: "claw_usage \<Rightarrow> u32" where
  "claw_total_tokens u =
     cu_input_tokens u + cu_output_tokens u + cu_cache_creation_input_tokens u + cu_cache_read_input_tokens u"

datatype claw_output =
    OutText string
  | OutToolUse string string json
  | OutThinking string "string option"
  | OutRedactedThinking json

record claw_response =
  mr_id :: string
  mr_kind :: string
  mr_role :: string
  mr_content :: "claw_output list"
  mr_model :: string
  mr_stop_reason :: "string option"
  mr_stop_sequence :: "string option"
  mr_usage :: claw_usage
  mr_request_id :: "string option"

datatype claw_delta =
    DeltaText string
  | DeltaInputJson string
  | DeltaThinking string
  | DeltaSignature string

text \<open>The two fields of a message delta stand before its usage.\<close>

datatype claw_event =
    EvMessageStart claw_response
  | EvMessageDelta "string option" "string option" claw_usage
  | EvBlockStart u32 claw_output
  | EvBlockDelta u32 claw_delta
  | EvBlockStop u32
  | EvMessageStop

section \<open>Errors\<close>

text \<open>An environment variable that is no Unicode carries its display text.\<close>

datatype claw_error =
    ClawMissingCredentials string "string list" "string option"
  | ClawContextWindow string u32 u32 u32 u32
  | ExpiredOAuthToken
  | AuthError string
  | InvalidApiKeyEnv string
  | ClawHttp http_error
  | ClawIo io_error
  | ClawJson string string string string
  | ClawApi u16 "string option" "string option" "string option" string bool "string option"
  | ClawRetriesExhausted u32 claw_error
  | ClawInvalidSseFrame string
  | ClawBackoffOverflow u32 duration
  | ClawBodySizeExceeded nat nat string

definition claw_missing_credentials :: "string \<Rightarrow> string list \<Rightarrow> claw_error" where
  "claw_missing_credentials provider env_vars = ClawMissingCredentials provider env_vars None"

definition claw_missing_credentials_with_hint :: "string \<Rightarrow> string list \<Rightarrow> string \<Rightarrow> claw_error" where
  "claw_missing_credentials_with_hint provider env_vars hint = ClawMissingCredentials provider env_vars (Some hint)"

definition claw_json_deserialize :: "string \<Rightarrow> string \<Rightarrow> string \<Rightarrow> string \<Rightarrow> claw_error" where
  "claw_json_deserialize provider model body source = ClawJson provider model (truncate_body_snippet body 200) source"

fun claw_retryable :: "claw_error \<Rightarrow> bool" where
  "claw_retryable (ClawHttp e) \<longleftrightarrow> he_connect e \<or> he_timeout e \<or> he_request e"
| "claw_retryable (ClawApi _ _ _ _ _ retryable _) \<longleftrightarrow> retryable"
| "claw_retryable (ClawRetriesExhausted _ last_error) \<longleftrightarrow> claw_retryable last_error"
| "claw_retryable _ \<longleftrightarrow> False"

fun claw_request_id :: "claw_error \<Rightarrow> string option" where
  "claw_request_id (ClawApi _ _ _ request_id _ _ _) = request_id"
| "claw_request_id (ClawRetriesExhausted _ last_error) = claw_request_id last_error"
| "claw_request_id _ = None"

definition generic_fatal_wrapper_markers :: "string list" where
  "generic_fatal_wrapper_markers =
     [''something went wrong while processing your request'',
      ''please try again, or use /new to start a fresh session'']"

definition looks_like_generic_fatal_wrapper :: "string \<Rightarrow> bool" where
  "looks_like_generic_fatal_wrapper t \<longleftrightarrow> list_ex (contains (to_ascii_lowercase t)) generic_fatal_wrapper_markers"

fun is_generic_fatal_wrapper :: "claw_error \<Rightarrow> bool" where
  "is_generic_fatal_wrapper (ClawApi _ _ message _ body _ _) \<longleftrightarrow>
     (case message of None \<Rightarrow> False | Some m \<Rightarrow> looks_like_generic_fatal_wrapper m) \<or> looks_like_generic_fatal_wrapper body"
| "is_generic_fatal_wrapper (ClawRetriesExhausted _ last_error) \<longleftrightarrow> is_generic_fatal_wrapper last_error"
| "is_generic_fatal_wrapper _ \<longleftrightarrow> False"

fun claw_context_window_failure :: "claw_error \<Rightarrow> bool" where
  "claw_context_window_failure (ClawContextWindow _ _ _ _ _) \<longleftrightarrow> True"
| "claw_context_window_failure (ClawApi status _ message _ body _ _) \<longleftrightarrow>
     (status = 400 \<or> status = 413 \<or> status = 422)
     \<and> ((case message of None \<Rightarrow> False | Some m \<Rightarrow> looks_like_context_window_error m)
        \<or> looks_like_context_window_error body)"
| "claw_context_window_failure (ClawRetriesExhausted _ last_error) \<longleftrightarrow> claw_context_window_failure last_error"
| "claw_context_window_failure _ \<longleftrightarrow> False"

fun claw_failure_class :: "claw_error \<Rightarrow> string" where
  "claw_failure_class (ClawRetriesExhausted n last_error) =
     (if claw_context_window_failure (ClawRetriesExhausted n last_error) then ''context_window''
      else if is_generic_fatal_wrapper (ClawRetriesExhausted n last_error) then ''provider_retry_exhausted''
      else claw_failure_class last_error)"
| "claw_failure_class (ClawMissingCredentials _ _ _) = ''provider_auth''"
| "claw_failure_class ExpiredOAuthToken = ''provider_auth''"
| "claw_failure_class (AuthError _) = ''provider_auth''"
| "claw_failure_class (ClawApi status ty message rid body r a) =
     (if status = 401 \<or> status = 403 then ''provider_auth''
      else if claw_context_window_failure (ClawApi status ty message rid body r a) then ''context_window''
      else if status = 429 then ''provider_rate_limit''
      else if is_generic_fatal_wrapper (ClawApi status ty message rid body r a) then ''provider_internal''
      else ''provider_error'')"
| "claw_failure_class (ClawContextWindow _ _ _ _ _) = ''context_window''"
| "claw_failure_class (ClawHttp _) = ''provider_transport''"
| "claw_failure_class (ClawInvalidSseFrame _) = ''provider_transport''"
| "claw_failure_class (ClawBackoffOverflow _ _) = ''provider_transport''"
| "claw_failure_class (InvalidApiKeyEnv _) = ''runtime_io''"
| "claw_failure_class (ClawIo _) = ''runtime_io''"
| "claw_failure_class (ClawJson _ _ _ _) = ''runtime_io''"
| "claw_failure_class (ClawBodySizeExceeded _ _ _) = ''request_size''"

text \<open>The text on Linux; what a status code is called is a parameter.\<close>

fun show_claw_error :: "(u16 \<Rightarrow> string) \<Rightarrow> claw_error \<Rightarrow> string" where
  "show_claw_error status_text (ClawMissingCredentials provider env_vars hint) =
     ''missing '' @ provider @ '' credentials; export '' @ join '' or '' env_vars
     @ '' before calling the '' @ provider @ '' API''
     @ (case hint of Some h \<Rightarrow> '' '' @ em_dash @ '' hint: '' @ h | None \<Rightarrow> [])"
| "show_claw_error status_text (ClawContextWindow model i r t w) =
     ''context_window_blocked for '' @ model @ '': estimated input '' @ show_u32 i
     @ '' + requested output '' @ show_u32 r @ '' = '' @ show_u32 t @ '' tokens exceeds the ''
     @ show_u32 w @ ''-token context window; compact the session or reduce request size before retrying''"
| "show_claw_error status_text ExpiredOAuthToken = ''saved OAuth token is expired and no refresh token is available''"
| "show_claw_error status_text (AuthError message) = ''auth error: '' @ message"
| "show_claw_error status_text (InvalidApiKeyEnv e) = ''failed to read credential environment variable: '' @ e"
| "show_claw_error status_text (ClawHttp e) = ''http error: '' @ he_text e"
| "show_claw_error status_text (ClawIo e) = ''io error: '' @ show_io_error e"
| "show_claw_error status_text (ClawJson provider model body_snippet source) =
     ''failed to parse '' @ provider @ '' response for model '' @ model @ '': '' @ source
     @ ''; first 200 chars of body: '' @ body_snippet"
| "show_claw_error status_text (ClawApi status error_type message request_id body _ _) =
     (case (error_type, message) of
        (Some t, Some m) \<Rightarrow>
          ''api returned '' @ status_text status @ '' ('' @ t @ '')'' @ trace_note request_id @ '': '' @ m
      | _ \<Rightarrow> ''api returned '' @ status_text status @ trace_note request_id @ '': '' @ body)"
| "show_claw_error status_text (ClawRetriesExhausted attempts last_error) =
     ''api failed after '' @ show_u32 attempts @ '' attempts: '' @ show_claw_error status_text last_error"
| "show_claw_error status_text (ClawInvalidSseFrame message) = ''invalid sse frame: '' @ message"
| "show_claw_error status_text (ClawBackoffOverflow n base_delay) =
     ''retry backoff overflowed on attempt '' @ show_u32 n @ '' with base delay ''
     @ duration_debug base_delay"
| "show_claw_error status_text (ClawBodySizeExceeded estimated_bytes max_bytes provider) =
     ''request body size ('' @ show_nat estimated_bytes @ '' bytes) exceeds '' @ provider @ '' limit (''
     @ show_nat max_bytes @ '' bytes); reduce prompt length or context before retrying''"

text \<open>Repeated, a rejected key whose body is a generic wrapper is no longer an authentication failure.\<close>

lemma auth_class_hidden:
  fixes body :: string
  defines "body \<equiv> ''Something went wrong while processing your request''"
  shows "claw_failure_class (ClawApi 401 None None None body True None) = ''provider_auth''"
    and "claw_failure_class (ClawRetriesExhausted n (ClawApi 401 None None None body True None)) = ''provider_retry_exhausted''"
  unfolding body_def by code_simp+

section \<open>The environment\<close>

text \<open>
  The fixed surroundings: the JSON codec, the process environment, what serde derives (among it the bytes
  of parts of a request), the text of a cost in dollars, whether an executor can be made, the network and the
  texts of third-party errors. The network keeps a state \<open>'n\<close> of its own.
\<close>

datatype request_part =
    PartRequest message_request
  | PartModel string
  | PartMessages "input_message list"
  | PartSystem "string option"
  | PartTools "tool_definition list option"
  | PartToolChoice "tool_choice option"

datatype body_kind = JsonBody json | FormBody "(string \<times> string) list"

record 'n api_env =
  ae_codec :: codec
  ae_vars :: "string \<Rightarrow> env_value"
  ae_not_unicode :: "string \<Rightarrow> string"
  ae_status_text :: "u16 \<Rightarrow> string"
  ae_chunk :: "string \<Rightarrow> string + chat_chunk"
  ae_completion :: "string \<Rightarrow> string + chat_response"
  ae_event :: "string \<Rightarrow> string + claw_event"
  ae_message :: "string \<Rightarrow> string + claw_response"
  ae_bytes :: "request_part \<Rightarrow> string option"
  ae_request_value :: "message_request \<Rightarrow> string + json"
  ae_envelope :: "string \<Rightarrow> (string option \<times> string option) option"
  ae_anthropic_envelope :: "string \<Rightarrow> (string \<times> string) option"
  ae_counted :: "string \<Rightarrow> string + u32"
  ae_token_set :: "string \<Rightarrow> string + oauth_token_set"
  ae_cost_text :: "claw_usage \<Rightarrow> string \<Rightarrow> string"
  ae_runtime_error :: "io_error option"
  ae_post :: "string \<Rightarrow> (string \<times> string) list \<Rightarrow> body_kind \<Rightarrow> 'n \<Rightarrow> (http_error + http_response) \<times> 'n"
  ae_chunks :: "http_response \<Rightarrow> (http_error + string) list"

text \<open>What changes: files, readings of the clock in nanoseconds since the epoch (none before it), the
  counters of the jitter, one for each kind of provider, the durations slept, and the network.\<close>

record 'n api_world =
  aw_fs :: fs
  aw_clock :: "nat option list"
  aw_jitter :: u64
  aw_anthropic_jitter :: u64
  aw_slept :: "duration list"
  aw_net :: 'n

definition read_clock :: "'n api_world \<Rightarrow> nat option \<times> 'n api_world" where
  "read_clock w = (case aw_clock w of [] \<Rightarrow> (None, w) | r # rs \<Rightarrow> (r, w\<lparr>aw_clock := rs\<rparr>))"

definition api_files :: "(fs \<Rightarrow> 'a \<times> fs) \<Rightarrow> 'n api_world \<Rightarrow> 'a \<times> 'n api_world" where
  "api_files f w = (case f (aw_fs w) of (x, s) \<Rightarrow> (x, w\<lparr>aw_fs := s\<rparr>))"

definition api_bind ::
  "('w \<Rightarrow> (claw_error + 'a) \<times> 'w) \<Rightarrow> ('a \<Rightarrow> 'w \<Rightarrow> (claw_error + 'b) \<times> 'w) \<Rightarrow> 'w \<Rightarrow> (claw_error + 'b) \<times> 'w" where
  "api_bind f k w = (case f w of (Inl e, w1) \<Rightarrow> (Inl e, w1) | (Inr x, w1) \<Rightarrow> k x w1)"

definition api_post ::
  "'n api_env \<Rightarrow> string \<Rightarrow> (string \<times> string) list \<Rightarrow> body_kind \<Rightarrow> 'n api_world
    \<Rightarrow> (claw_error + http_response) \<times> 'n api_world" where
  "api_post env url headers body w =
     (case ae_post env url headers body (aw_net w) of (r, n) \<Rightarrow> (map_err ClawHttp r, w\<lparr>aw_net := n\<rparr>))"

end
