(* ===== verification/RefProviders.thy ===== *)
theory RefProviders
  imports RefApiTypes
begin

text \<open>
  \<open>claw-rust/crates/api/src/providers/mod.rs\<close>: the table of models, the provider a model belongs to, the
  limits of a model and the check of a request against them, and the credentials found in the process
  environment or in a \<open>.env\<close> file of the current directory.
\<close>

section \<open>Models\<close>

datatype provider_kind = ProviderAnthropic | ProviderXai | ProviderOpenAi

record provider_metadata =
  pm_provider :: provider_kind
  pm_auth_env :: string
  pm_base_url_env :: string
  pm_default_base_url :: string

record token_limit =
  ml_max_output_tokens :: u32
  ml_context_window_tokens :: u32

definition default_xai_base_url :: string where
  "default_xai_base_url = ''https://api.x.ai/v1''"

definition default_openai_base_url :: string where
  "default_openai_base_url = ''https://api.openai.com/v1''"

definition default_dashscope_base_url :: string where
  "default_dashscope_base_url = ''https://dashscope.aliyuncs.com/compatible-mode/v1''"

definition default_anthropic_base_url :: string where
  "default_anthropic_base_url = ''https://api.anthropic.com''"

definition anthropic_metadata :: provider_metadata where
  "anthropic_metadata = \<lparr>pm_provider = ProviderAnthropic, pm_auth_env = ''ANTHROPIC_API_KEY'',
     pm_base_url_env = ''ANTHROPIC_BASE_URL'', pm_default_base_url = default_anthropic_base_url\<rparr>"

definition xai_metadata :: provider_metadata where
  "xai_metadata = \<lparr>pm_provider = ProviderXai, pm_auth_env = ''XAI_API_KEY'', pm_base_url_env = ''XAI_BASE_URL'',
     pm_default_base_url = default_xai_base_url\<rparr>"

definition openai_metadata :: provider_metadata where
  "openai_metadata = \<lparr>pm_provider = ProviderOpenAi, pm_auth_env = ''OPENAI_API_KEY'',
     pm_base_url_env = ''OPENAI_BASE_URL'', pm_default_base_url = default_openai_base_url\<rparr>"

definition dashscope_metadata :: provider_metadata where
  "dashscope_metadata = \<lparr>pm_provider = ProviderOpenAi, pm_auth_env = ''DASHSCOPE_API_KEY'',
     pm_base_url_env = ''DASHSCOPE_BASE_URL'', pm_default_base_url = default_dashscope_base_url\<rparr>"

definition model_registry :: "(string \<times> provider_metadata) list" where
  "model_registry =
     [(''opus'', anthropic_metadata), (''sonnet'', anthropic_metadata), (''haiku'', anthropic_metadata),
      (''grok'', xai_metadata), (''grok-3'', xai_metadata), (''grok-mini'', xai_metadata), (''grok-3-mini'', xai_metadata),
      (''grok-2'', xai_metadata), (''kimi'', dashscope_metadata)]"

definition alias_target :: "string \<Rightarrow> string \<Rightarrow> provider_kind \<Rightarrow> string" where
  "alias_target trimmed alias kind =
     (case kind of
        ProviderAnthropic \<Rightarrow>
          if alias = ''opus'' then ''claude-opus-4-6''
          else if alias = ''sonnet'' then ''claude-sonnet-4-6''
          else if alias = ''haiku'' then ''claude-haiku-4-5-20251213'' else trimmed
      | ProviderXai \<Rightarrow>
          if alias = ''grok'' \<or> alias = ''grok-3'' then ''grok-3''
          else if alias = ''grok-mini'' \<or> alias = ''grok-3-mini'' then ''grok-3-mini''
          else if alias = ''grok-2'' then ''grok-2'' else trimmed
      | ProviderOpenAi \<Rightarrow> if alias = ''kimi'' then ''kimi-k2.5'' else trimmed)"

definition resolve_model_alias :: "string \<Rightarrow> string" where
  "resolve_model_alias model =
     (let trimmed = trim model; lower = to_ascii_lowercase trimmed
      in case find (\<lambda>(alias, _). alias = lower) model_registry of
           None \<Rightarrow> trimmed
         | Some (alias, metadata) \<Rightarrow> alias_target trimmed alias (pm_provider metadata))"

definition metadata_for_model :: "string \<Rightarrow> provider_metadata option" where
  "metadata_for_model model =
     (let canonical = resolve_model_alias model
      in if starts_with canonical ''claude'' then Some anthropic_metadata
         else if starts_with canonical ''grok'' then Some xai_metadata
         else if starts_with canonical ''openai/'' \<or> starts_with canonical ''gpt-'' then Some openai_metadata
         else if starts_with canonical ''qwen/'' \<or> starts_with canonical ''qwen-'' then Some dashscope_metadata
         else if starts_with canonical ''kimi/'' \<or> starts_with canonical ''kimi-'' then Some dashscope_metadata
         else None)"

definition model_token_limit :: "string \<Rightarrow> token_limit option" where
  "model_token_limit model =
     (let canonical = resolve_model_alias model;
          limit = (\<lambda>out window. Some \<lparr>ml_max_output_tokens = out, ml_context_window_tokens = window\<rparr>)
      in if canonical = ''claude-opus-4-6'' then limit 32000 200000
         else if canonical = ''claude-sonnet-4-6'' \<or> canonical = ''claude-haiku-4-5-20251213'' then limit 64000 200000
         else if canonical = ''grok-3'' \<or> canonical = ''grok-3-mini'' then limit 64000 131072
         else if canonical = ''kimi-k2.5'' \<or> canonical = ''kimi-k1.5'' then limit 16384 256000
         else None)"

definition max_tokens_for_model :: "string \<Rightarrow> u32" where
  "max_tokens_for_model model =
     (case model_token_limit model of
        None \<Rightarrow> if contains (resolve_model_alias model) ''opus'' then 32000 else 64000
      | Some limit \<Rightarrow> ml_max_output_tokens limit)"

definition max_tokens_for_model_with_override :: "string \<Rightarrow> u32 option \<Rightarrow> u32" where
  "max_tokens_for_model_with_override model plugin_override = unwrap_or (max_tokens_for_model model) plugin_override"

section \<open>The size of a request\<close>

definition saturating_add_u32 :: "u32 \<Rightarrow> u32 \<Rightarrow> u32" where
  "saturating_add_u32 a b = (if unat a + unat b < 2 ^ 32 then a + b else - 1)"

text \<open>\<open>as u32\<close> keeps the low bits.\<close>

definition estimate_serialized_tokens :: "'n api_env \<Rightarrow> request_part \<Rightarrow> u32" where
  "estimate_serialized_tokens env part =
     (case ae_bytes env part of None \<Rightarrow> 0 | Some bytes \<Rightarrow> of_nat (length bytes div 4 + 1))"

definition estimate_message_request_input_tokens :: "'n api_env \<Rightarrow> message_request \<Rightarrow> u32" where
  "estimate_message_request_input_tokens env r =
     saturating_add_u32 (saturating_add_u32 (saturating_add_u32
       (estimate_serialized_tokens env (PartMessages (req_messages r)))
       (estimate_serialized_tokens env (PartSystem (req_system r))))
       (estimate_serialized_tokens env (PartTools (req_tools r))))
       (estimate_serialized_tokens env (PartToolChoice (req_tool_choice r)))"

definition window_check :: "message_request \<Rightarrow> u32 \<Rightarrow> token_limit \<Rightarrow> claw_error + unit" where
  "window_check r input_tokens limit =
     (let total = saturating_add_u32 input_tokens (req_max_tokens r)
      in if total > ml_context_window_tokens limit
         then Inl (ClawContextWindow (resolve_model_alias (req_model r)) input_tokens (req_max_tokens r) total
                (ml_context_window_tokens limit))
         else Inr ())"

definition preflight_message_request :: "'n api_env \<Rightarrow> message_request \<Rightarrow> claw_error + unit" where
  "preflight_message_request env r =
     (case model_token_limit (req_model r) of
        None \<Rightarrow> Inr ()
      | Some limit \<Rightarrow> window_check r (estimate_message_request_input_tokens env r) limit)"

section \<open>The file of variables\<close>

definition unquoted :: "string \<Rightarrow> string" where
  "unquoted v =
     (if (starts_with v [CHR 0x22] \<and> ends_with v [CHR 0x22] \<or> starts_with v [CHR 0x27] \<and> ends_with v [CHR 0x27])
         \<and> 2 \<le> length v
      then take (length v - 2) (drop 1 v) else v)"

text \<open>What a line gives.\<close>

definition dotenv_line :: "string \<Rightarrow> (string \<times> string) option" where
  "dotenv_line raw_line =
     (let line = trim raw_line
      in if line = [] \<or> starts_with line ''#'' then None
         else case split_at_char (CHR ''='') line of
                (_, None) \<Rightarrow> None
              | (raw_key, Some raw_value) \<Rightarrow>
                  (let trimmed_key = trim raw_key;
                       key = (case strip_prefix ''export '' trimmed_key of None \<Rightarrow> trimmed_key | Some k \<Rightarrow> trim k)
                   in if key = [] then None else Some (key, unquoted (trim raw_value))))"

definition parse_dotenv :: "string \<Rightarrow> (string, string) btree" where
  "parse_dotenv content =
     fold (\<lambda>line values. case dotenv_line line of None \<Rightarrow> values | Some (k, v) \<Rightarrow> bt_insert k v values)
       (str_lines content) []"

definition load_dotenv_file :: "path \<Rightarrow> fs \<Rightarrow> (string, string) btree option \<times> fs" where
  "load_dotenv_file p s =
     (case fs_read_to_string p s of (Inl _, s1) \<Rightarrow> (None, s1) | (Inr content, s1) \<Rightarrow> (Some (parse_dotenv content), s1))"

definition dotenv_value :: "string \<Rightarrow> fs \<Rightarrow> string option \<times> fs" where
  "dotenv_value key s =
     (case fs_current_dir s of
        (Inl _, s1) \<Rightarrow> (None, s1)
      | (Inr cwd, s1) \<Rightarrow>
          (case load_dotenv_file (path_join cwd [Name ''.env'']) s1 of
             (None, s2) \<Rightarrow> (None, s2)
           | (Some values, s2) \<Rightarrow>
               (case bt_get values key of None \<Rightarrow> (None, s2) | Some v \<Rightarrow> (if v = [] then None else Some v, s2))))"

section \<open>Credentials\<close>

definition claw_read_env :: "'n api_env \<Rightarrow> string \<Rightarrow> fs \<Rightarrow> (claw_error + string option) \<times> fs" where
  "claw_read_env env key s =
     (case ae_vars env key of
        NotUnicode \<Rightarrow> (Inl (InvalidApiKeyEnv (ae_not_unicode env key)), s)
      | NotPresent \<Rightarrow> (case dotenv_value key s of (v, s1) \<Rightarrow> (Inr v, s1))
      | EnvValue v \<Rightarrow> if v \<noteq> [] then (Inr (Some v), s) else (case dotenv_value key s of (v, s1) \<Rightarrow> (Inr v, s1)))"

definition has_api_key :: "'n api_env \<Rightarrow> string \<Rightarrow> fs \<Rightarrow> bool \<times> fs" where
  "has_api_key env key s = (case claw_read_env env key s of (Inr (Some _), s1) \<Rightarrow> (True, s1) | (_, s1) \<Rightarrow> (False, s1))"

definition env_or_dotenv_present :: "'n api_env \<Rightarrow> string \<Rightarrow> fs \<Rightarrow> bool \<times> fs" where
  "env_or_dotenv_present env key s =
     (case ae_vars env key of
        NotUnicode \<Rightarrow> (False, s)
      | NotPresent \<Rightarrow> (case dotenv_value key s of (v, s1) \<Rightarrow> (case v of None \<Rightarrow> False | Some x \<Rightarrow> x \<noteq> [], s1))
      | EnvValue v \<Rightarrow>
          if v \<noteq> [] then (True, s) else (case dotenv_value key s of (v, s1) \<Rightarrow> (case v of None \<Rightarrow> False | Some x \<Rightarrow> x \<noteq> [], s1)))"

definition foreign_provider_env_vars :: "(string \<times> string \<times> string) list" where
  "foreign_provider_env_vars =
     [(''OPENAI_API_KEY'', ''OpenAI-compat'',
       ''prefix your model name with `openai/` (e.g. `--model openai/gpt-4.1-mini`) so prefix routing selects the OpenAI-compatible provider, and set `OPENAI_BASE_URL` if you are pointing at OpenRouter/Ollama/a local server''),
      (''XAI_API_KEY'', ''xAI'',
       ''use an xAI model alias (e.g. `--model grok` or `--model grok-mini`) so the prefix router selects the xAI backend''),
      (''DASHSCOPE_API_KEY'', ''Alibaba DashScope'',
       ''prefix your model name with `qwen/` or `qwen-` (e.g. `--model qwen-plus`) so prefix routing selects the DashScope backend'')]"

fun credentials_hint :: "'n api_env \<Rightarrow> (string \<times> string \<times> string) list \<Rightarrow> fs \<Rightarrow> string option \<times> fs" where
  "credentials_hint env [] s = (None, s)"
| "credentials_hint env ((env_var, provider_label, fix_hint) # rest) s =
     (case env_or_dotenv_present env env_var s of
        (True, s1) \<Rightarrow> (Some (''I see '' @ env_var @ '' is set '' @ em_dash @ '' if you meant to use the '' @ provider_label
            @ '' provider, '' @ fix_hint @ ''.''), s1)
      | (False, s1) \<Rightarrow> credentials_hint env rest s1)"

definition anthropic_missing_credentials_hint :: "'n api_env \<Rightarrow> fs \<Rightarrow> string option \<times> fs" where
  "anthropic_missing_credentials_hint env = credentials_hint env foreign_provider_env_vars"

definition anthropic_missing_credentials :: "'n api_env \<Rightarrow> fs \<Rightarrow> claw_error \<times> fs" where
  "anthropic_missing_credentials env s =
     (let env_vars = [''ANTHROPIC_AUTH_TOKEN'', ''ANTHROPIC_API_KEY'']
      in case anthropic_missing_credentials_hint env s of
           (Some hint, s1) \<Rightarrow> (claw_missing_credentials_with_hint ''Anthropic'' env_vars hint, s1)
         | (None, s1) \<Rightarrow> (claw_missing_credentials ''Anthropic'' env_vars, s1))"

text \<open>\<open>anthropic::has_auth_from_env_or_saved\<close>.\<close>

definition has_auth_from_env_or_saved :: "'n api_env \<Rightarrow> fs \<Rightarrow> (claw_error + bool) \<times> fs" where
  "has_auth_from_env_or_saved env s =
     io_bind (claw_read_env env ''ANTHROPIC_API_KEY'' s) (\<lambda>api_key s1.
       if api_key \<noteq> None then (Inr True, s1)
       else io_bind (claw_read_env env ''ANTHROPIC_AUTH_TOKEN'' s1) (\<lambda>auth_token s2. (Inr (auth_token \<noteq> None), s2)))"

text \<open>The order in which a model without a known prefix is given to a provider.\<close>

definition detect_provider_kind :: "'n api_env \<Rightarrow> string \<Rightarrow> fs \<Rightarrow> provider_kind \<times> fs" where
  "detect_provider_kind env model s =
     (case metadata_for_model model of
        Some metadata \<Rightarrow> (pm_provider metadata, s)
      | None \<Rightarrow>
          (let base_url = (ae_vars env ''OPENAI_BASE_URL'' \<noteq> NotPresent);
               (configured, s1) = (if base_url then has_api_key env ''OPENAI_API_KEY'' s else (False, s))
           in if configured then (ProviderOpenAi, s1)
              else case has_auth_from_env_or_saved env s1 of
                (Inr True, s2) \<Rightarrow> (ProviderAnthropic, s2)
              | (_, s2) \<Rightarrow>
                  (case has_api_key env ''OPENAI_API_KEY'' s2 of
                     (True, s3) \<Rightarrow> (ProviderOpenAi, s3)
                   | (False, s3) \<Rightarrow>
                       (case has_api_key env ''XAI_API_KEY'' s3 of
                          (True, s4) \<Rightarrow> (ProviderXai, s4)
                        | (False, s4) \<Rightarrow> (if base_url then ProviderOpenAi else ProviderAnthropic, s4)))))"

end
