(* ===== verification/RefOpenAi.thy ===== *)
theory RefOpenAi
  imports RefProviders
begin

text \<open>
  \<open>claw-rust/crates/api/src/providers/openai_compat.rs\<close>: the client of providers that speak the chat
  format of OpenAI. Requests are translated and checked against the provider's size limit, sent with
  retries, and answers come back whole or as a stream whose chunks a state machine turns into events.
  The chunks and the state of a tool call have the fields the port kept, so their records are those of
  \<open>StreamState\<close>; a panic, the sum of two durations past the largest one, is \<^term>\<open>None\<close>.
\<close>

section \<open>Providers\<close>

record openai_config =
  oc_provider_name :: string
  oc_api_key_env :: string
  oc_base_url_env :: string
  oc_default_base_url :: string
  oc_max_request_body_bytes :: nat

definition config_xai :: openai_config where
  "config_xai = \<lparr>oc_provider_name = ''xAI'', oc_api_key_env = ''XAI_API_KEY'', oc_base_url_env = ''XAI_BASE_URL'',
     oc_default_base_url = default_xai_base_url, oc_max_request_body_bytes = 52428800\<rparr>"

definition config_openai :: openai_config where
  "config_openai = \<lparr>oc_provider_name = ''OpenAI'', oc_api_key_env = ''OPENAI_API_KEY'', oc_base_url_env = ''OPENAI_BASE_URL'',
     oc_default_base_url = default_openai_base_url, oc_max_request_body_bytes = 104857600\<rparr>"

definition config_dashscope :: openai_config where
  "config_dashscope = \<lparr>oc_provider_name = ''DashScope'', oc_api_key_env = ''DASHSCOPE_API_KEY'',
     oc_base_url_env = ''DASHSCOPE_BASE_URL'', oc_default_base_url = default_dashscope_base_url,
     oc_max_request_body_bytes = 6291456\<rparr>"

definition credential_env_vars :: "openai_config \<Rightarrow> string list" where
  "credential_env_vars config =
     (if oc_provider_name config = ''xAI'' then [''XAI_API_KEY'']
      else if oc_provider_name config = ''OpenAI'' then [''OPENAI_API_KEY'']
      else if oc_provider_name config = ''DashScope'' then [''DASHSCOPE_API_KEY''] else [])"

record openai_client =
  op_api_key :: string
  op_config :: openai_config
  op_base_url :: string
  op_max_retries :: u32
  op_initial_backoff :: duration
  op_max_backoff :: duration

definition openai_read_base_url :: "'n api_env \<Rightarrow> openai_config \<Rightarrow> string" where
  "openai_read_base_url env config =
     (case ae_vars env (oc_base_url_env config) of EnvValue v \<Rightarrow> v | _ \<Rightarrow> oc_default_base_url config)"

definition openai_client_new :: "'n api_env \<Rightarrow> string \<Rightarrow> openai_config \<Rightarrow> openai_client" where
  "openai_client_new env api_key config = \<lparr>op_api_key = api_key, op_config = config,
     op_base_url = openai_read_base_url env config, op_max_retries = 8, op_initial_backoff = 10 ^ 9,
     op_max_backoff = 128 * 10 ^ 9\<rparr>"

definition openai_from_env :: "'n api_env \<Rightarrow> openai_config \<Rightarrow> fs \<Rightarrow> (claw_error + openai_client) \<times> fs" where
  "openai_from_env env config s =
     io_bind (claw_read_env env (oc_api_key_env config) s) (\<lambda>api_key s1.
       (case api_key of
          None \<Rightarrow> Inl (claw_missing_credentials (oc_provider_name config) (credential_env_vars config))
        | Some k \<Rightarrow> Inr (openai_client_new env k config), s1))"

definition openai_with_base_url :: "string \<Rightarrow> openai_client \<Rightarrow> openai_client" where
  "openai_with_base_url url c = c\<lparr>op_base_url := url\<rparr>"

definition openai_with_retry_policy :: "u32 \<Rightarrow> duration \<Rightarrow> duration \<Rightarrow> openai_client \<Rightarrow> openai_client" where
  "openai_with_retry_policy max_retries initial_backoff max_backoff c =
     c\<lparr>op_max_retries := max_retries, op_initial_backoff := initial_backoff, op_max_backoff := max_backoff\<rparr>"

section \<open>Names of models\<close>

text \<open>\<open>rsplit('/').next()\<close>.\<close>

definition last_segment :: "string \<Rightarrow> string" where
  "last_segment s = last (split_on (CHR ''/'') [] s)"

definition is_reasoning_model :: "string \<Rightarrow> bool" where
  "is_reasoning_model model \<longleftrightarrow>
     (let canonical = last_segment (to_ascii_lowercase model)
      in starts_with canonical ''o1'' \<or> starts_with canonical ''o3'' \<or> starts_with canonical ''o4''
         \<or> canonical = ''grok-3-mini'' \<or> starts_with canonical ''qwen-qwq'' \<or> starts_with canonical ''qwq''
         \<or> contains canonical ''thinking'')"

definition strip_routing_prefix :: "string \<Rightarrow> string" where
  "strip_routing_prefix model =
     (case split_at_char (CHR ''/'') model of
        (_, None) \<Rightarrow> model
      | (prefix, Some rest) \<Rightarrow>
          if prefix \<in> {''openai'', ''xai'', ''grok'', ''qwen'', ''kimi''} then rest else model)"

definition model_rejects_is_error_field :: "string \<Rightarrow> bool" where
  "model_rejects_is_error_field model \<longleftrightarrow> starts_with (last_segment (to_ascii_lowercase model)) ''kimi''"

section \<open>Requests\<close>

fun claw_flatten_from :: "codec \<Rightarrow> nat \<Rightarrow> tool_result_content list \<Rightarrow> string" where
  "claw_flatten_from cd i [] = []"
| "claw_flatten_from cd i (b # bs) =
     (if i > 0 then nl else [])
     @ (case b of TRText t \<Rightarrow> t | TRJson v \<Rightarrow> to_text cd v) @ claw_flatten_from cd (Suc i) bs"

definition claw_flatten_tool_result :: "codec \<Rightarrow> tool_result_content list \<Rightarrow> string" where
  "claw_flatten_tool_result cd content = claw_flatten_from cd 0 content"

text \<open>The loop over the blocks of an assistant's message.\<close>

fun claw_assistant_parts :: "codec \<Rightarrow> input_block list \<Rightarrow> string \<Rightarrow> json list \<Rightarrow> string \<times> json list" where
  "claw_assistant_parts cd [] t calls = (t, calls)"
| "claw_assistant_parts cd (b # bs) t calls =
     (case b of
        IText v \<Rightarrow> claw_assistant_parts cd bs (t @ v) calls
      | IToolUse i n input \<Rightarrow>
          claw_assistant_parts cd bs t (calls @ [jobj [(''id'', JStr i), (''type'', JStr ''function''),
            (''function'', jobj [(''name'', JStr n), (''arguments'', JStr (to_text cd input))])]])
      | IToolResult _ _ _ \<Rightarrow> claw_assistant_parts cd bs t calls)"

definition claw_user_part :: "codec \<Rightarrow> bool \<Rightarrow> input_block \<Rightarrow> json option" where
  "claw_user_part cd supports_is_error b =
     (case b of
        IText t \<Rightarrow> Some (jobj [(''role'', JStr ''user''), (''content'', JStr t)])
      | IToolResult tid content is_error \<Rightarrow>
          (let msg = jobj [(''role'', JStr ''tool''), (''tool_call_id'', JStr tid),
                 (''content'', JStr (claw_flatten_tool_result cd content))]
           in Some (if supports_is_error then json_set ''is_error'' (JBool is_error) msg else msg))
      | IToolUse _ _ _ \<Rightarrow> None)"

definition claw_translate_message :: "codec \<Rightarrow> input_message \<Rightarrow> string \<Rightarrow> json list" where
  "claw_translate_message cd message model =
     (if msg_role message = ''assistant'' then
        (let (t, tool_calls) = claw_assistant_parts cd (msg_content message) [] []
         in if t = [] \<and> tool_calls = [] then []
            else
              (let msg = jobj [(''role'', JStr ''assistant''), (''content'', if t \<noteq> [] then JStr t else JNull)]
               in [if tool_calls \<noteq> [] then json_set ''tool_calls'' (JArr tool_calls) msg else msg]))
      else List.map_filter (claw_user_part cd (\<not> model_rejects_is_error_field model)) (msg_content message))"

text \<open>Whether the loop drops the message at an index.\<close>

definition claw_dropped :: "json list \<Rightarrow> nat \<Rightarrow> bool" where
  "claw_dropped messages i =
     (let msg = messages ! i
      in if get_str msg ''role'' \<noteq> Some ''tool'' then False
         else
           (let tool_call_id = unwrap_or [] (get_str msg ''tool_call_id'');
                prev = find (\<lambda>m. get_str m ''role'' \<noteq> Some ''tool'') (rev (take i messages));
                preceding_role = unwrap_or [] (Option.bind prev (\<lambda>m. get_str m ''role''))
            in if preceding_role \<noteq> ''assistant'' then False
               else \<not> (case Option.bind prev (\<lambda>m. get_array m ''tool_calls'') of
                     None \<Rightarrow> False
                   | Some tool_calls \<Rightarrow> list_ex (\<lambda>tc. get_str tc ''id'' = Some tool_call_id) tool_calls)))"

definition claw_sanitize_pairing :: "json list \<Rightarrow> json list" where
  "claw_sanitize_pairing messages =
     (let drop_indices = filter (claw_dropped messages) [0..<length messages]
      in if drop_indices = [] then messages
         else map snd (filter (\<lambda>(i, _). i \<notin> set drop_indices) (enumerate 0 messages)))"

text \<open>The schema of a tool: every object gets properties and refuses others.\<close>

definition or_insert :: "string \<Rightarrow> json \<Rightarrow> (string, json) btree \<Rightarrow> (string, json) btree" where
  "or_insert k v m = (if bt_get m k = None then bt_insert k v m else m)"

lemma bt_insert_members: "x \<in> set (bt_insert k v m) \<Longrightarrow> x = (k, v) \<or> x \<in> set m"
  by (induction k v m rule: bt_insert.induct) (auto split: if_splits)

lemma or_insert_members: "x \<in> set (or_insert k v m) \<Longrightarrow> x = (k, v) \<or> x \<in> set m"
  by (auto simp: or_insert_def dest: bt_insert_members split: if_splits)

lemma size_member: "(k, v) \<in> set m \<Longrightarrow> size (v :: json) < size (JObj m)"
  by (induction m) (auto simp: less_Suc_eq_le)

definition with_defaults :: "(string, json) btree \<Rightarrow> (string, json) btree" where
  "with_defaults m =
     (if Option.bind (bt_get m ''type'') as_str = Some ''object''
      then or_insert ''additionalProperties'' (JBool False) (or_insert ''properties'' (JObj []) m) else m)"

lemma items_smaller: "(''items'', v) \<in> set (with_defaults m) \<Longrightarrow> size v < size (JObj m)"
  using size_member [of "''items''" v m] by (auto simp: with_defaults_def dest!: or_insert_members split: if_splits)

lemma property_smaller:
  assumes "(''properties'', JObj ps) \<in> set (with_defaults m)" and "(n, p) \<in> set ps"
  shows "size p < size (JObj m)"
proof -
  have "(''properties'', JObj ps) \<in> set m"
    using assms by (auto simp: with_defaults_def dest!: or_insert_members split: if_splits)
  then show ?thesis using size_member [OF assms(2)] size_member by fastforce
qed

function normalize_object_schema :: "json \<Rightarrow> json" where
  "normalize_object_schema schema =
     (case schema of
        JObj m \<Rightarrow>
          JObj (map (\<lambda>(k, v).
            (k, if k = ''properties''
                then (case v of JObj ps \<Rightarrow> JObj (map (\<lambda>(n, p). (n, normalize_object_schema p)) ps) | _ \<Rightarrow> v)
                else if k = ''items'' then normalize_object_schema v else v)) (with_defaults m))
      | _ \<Rightarrow> schema)"
  by pat_completeness auto

termination normalize_object_schema
  by (relation "measure size") (auto dest: items_smaller property_smaller)

declare normalize_object_schema.simps [simp del]

definition claw_tool_definition :: "tool_definition \<Rightarrow> json" where
  "claw_tool_definition tool =
     jobj [(''type'', JStr ''function''),
           (''function'', jobj [(''name'', JStr (td_name tool)), (''description'', jopt JStr (td_description tool)),
                                (''parameters'', normalize_object_schema (td_schema tool))])]"

fun claw_tool_choice :: "tool_choice \<Rightarrow> json" where
  "claw_tool_choice ChoiceAuto = JStr ''auto''"
| "claw_tool_choice ChoiceAny = JStr ''required''"
| "claw_tool_choice (ChoiceTool name) =
     jobj [(''type'', JStr ''function''), (''function'', jobj [(''name'', JStr name)])]"

definition should_request_stream_usage :: "openai_config \<Rightarrow> bool" where
  "should_request_stream_usage config \<longleftrightarrow> oc_provider_name config = ''OpenAI''"

definition claw_chat_messages :: "codec \<Rightarrow> message_request \<Rightarrow> json list" where
  "claw_chat_messages cd r =
     (case req_system r of
        None \<Rightarrow> []
      | Some system \<Rightarrow>
          if system = [] then [] else [jobj [(''role'', JStr ''system''), (''content'', JStr system)]])
     @ concat (map (\<lambda>m. claw_translate_message cd m (strip_routing_prefix (req_model r))) (req_messages r))"

definition claw_build_request :: "codec \<Rightarrow> message_request \<Rightarrow> openai_config \<Rightarrow> json" where
  "claw_build_request cd r config =
     (let wire_model = strip_routing_prefix (req_model r);
          messages = claw_sanitize_pairing (claw_chat_messages cd r);
          max_tokens_key = (if starts_with wire_model ''gpt-5'' then ''max_completion_tokens'' else ''max_tokens'');
          p0 = jobj [(''model'', JStr wire_model), (max_tokens_key, ju32 (req_max_tokens r)),
                     (''messages'', JArr messages), (''stream'', JBool (req_stream r))];
          p1 = (if req_stream r \<and> should_request_stream_usage config
                then json_set ''stream_options'' (jobj [(''include_usage'', JBool True)]) p0 else p0);
          p2 = set_opt ''tools'' (\<lambda>tools. JArr (map claw_tool_definition tools)) (req_tools r) p1;
          p3 = set_opt ''tool_choice'' claw_tool_choice (req_tool_choice r) p2;
          p4 = (if is_reasoning_model (req_model r) then p3
                else set_opt ''presence_penalty'' jf64 (req_presence_penalty r)
                  (set_opt ''frequency_penalty'' jf64 (req_frequency_penalty r)
                  (set_opt ''top_p'' jf64 (req_top_p r)
                  (set_opt ''temperature'' jf64 (req_temperature r) p3))));
          p5 = (case req_stop r of
                  None \<Rightarrow> p4
                | Some stop \<Rightarrow> if stop \<noteq> [] then json_set ''stop'' (JArr (map JStr stop)) p4 else p4)
      in set_opt ''reasoning_effort'' JStr (req_reasoning_effort r) p5)"

definition estimate_request_body_size :: "codec \<Rightarrow> message_request \<Rightarrow> openai_config \<Rightarrow> nat" where
  "estimate_request_body_size cd r config = length (to_text cd (claw_build_request cd r config))"

definition claw_check_body_size :: "codec \<Rightarrow> message_request \<Rightarrow> openai_config \<Rightarrow> claw_error + unit" where
  "claw_check_body_size cd r config =
     (let estimated_bytes = estimate_request_body_size cd r config; max_bytes = oc_max_request_body_bytes config
      in if estimated_bytes > max_bytes
         then Inl (ClawBodySizeExceeded estimated_bytes max_bytes (oc_provider_name config)) else Inr ())"

section \<open>Schemas\<close>

text \<open>
  What the schema that is sent is to the one that was given. At each object the properties are there, empty
  if there were none, and other properties are refused unless the given schema settles that itself; the
  schemas of the properties and the items are so made in turn, and nothing else is changed.
\<close>

definition object_typed :: "(string, json) btree \<Rightarrow> bool" where
  "object_typed m \<longleftrightarrow> Option.bind (map_of m ''type'') as_str = Some ''object''"

fun strict_schema :: "nat \<Rightarrow> json \<Rightarrow> json \<Rightarrow> bool" where
  "strict_schema 0 given schema \<longleftrightarrow> True"
| "strict_schema (Suc depth) (JObj m) schema \<longleftrightarrow>
     (case schema of
        JObj m' \<Rightarrow>
          map_of m' ''additionalProperties'' =
            (case map_of m ''additionalProperties'' of
               None \<Rightarrow> if object_typed m then Some (JBool False) else None
             | Some v \<Rightarrow> Some v)
          \<and> (case map_of m ''properties'' of
               None \<Rightarrow> map_of m' ''properties'' = (if object_typed m then Some (JObj []) else None)
             | Some (JObj ps) \<Rightarrow>
                 (case map_of m' ''properties'' of
                    Some (JObj ps') \<Rightarrow> list_all2 (\<lambda>(n, p) (n', p'). n = n' \<and> strict_schema depth p p') ps ps'
                  | _ \<Rightarrow> False)
             | Some v \<Rightarrow> map_of m' ''properties'' = Some v)
          \<and> rel_option (strict_schema depth) (map_of m ''items'') (map_of m' ''items'')
          \<and> (\<forall>k. k \<notin> {''additionalProperties'', ''properties'', ''items''} \<longrightarrow> map_of m' k = map_of m k)
      | _ \<Rightarrow> False)"
| "strict_schema (Suc depth) given schema \<longleftrightarrow> schema = given"

definition recurse_member :: "string \<Rightarrow> json \<Rightarrow> json" where
  "recurse_member k v =
     (if k = ''properties''
      then (case v of JObj ps \<Rightarrow> JObj (map (\<lambda>(n, p). (n, normalize_object_schema p)) ps) | _ \<Rightarrow> v)
      else if k = ''items'' then normalize_object_schema v else v)"

lemma normalize_object: "normalize_object_schema (JObj m) = JObj (map (\<lambda>(k, v). (k, recurse_member k v)) (with_defaults m))"
  by (subst normalize_object_schema.simps) (simp add: recurse_member_def cong: map_cong)

lemma normalize_other: "(\<And>m. s \<noteq> JObj m) \<Longrightarrow> normalize_object_schema s = s"
  by (subst normalize_object_schema.simps) (auto split: json.split)

lemma map_of_values: "map_of (map (\<lambda>(k, v). (k, f k v)) m) k = map_option (f k) (map_of m k)"
  by (induction m) auto

lemma or_insert_get: "map_of (or_insert k v m) k' = (if k' = k \<and> map_of m k = None then Some v else map_of m k')"
  using bt.get_ins [of k v m k'] by (auto simp: or_insert_def bt_get_def)

lemma with_defaults_type: "map_of (with_defaults m) ''type'' = map_of m ''type''"
  by (simp add: with_defaults_def or_insert_get)

lemma with_defaults_keys:
  "Option.bind (map_of m ''type'') as_str = Some ''object'' \<Longrightarrow>
   map_of (with_defaults m) ''properties'' \<noteq> None \<and> map_of (with_defaults m) ''additionalProperties'' \<noteq> None"
  by (simp add: with_defaults_def or_insert_get bt_get_def)

lemma with_defaults_get:
  "map_of (with_defaults m) k = (case map_of m k of
     Some v \<Rightarrow> Some v
   | None \<Rightarrow> if object_typed m \<and> k = ''properties'' then Some (JObj [])
       else if object_typed m \<and> k = ''additionalProperties'' then Some (JBool False) else None)"
  by (auto simp: with_defaults_def object_typed_def or_insert_get bt_get_def split: option.split)

lemma with_defaults_noop:
  "Option.bind (map_of m ''type'') as_str \<noteq> Some ''object''
    \<or> map_of m ''properties'' \<noteq> None \<and> map_of m ''additionalProperties'' \<noteq> None \<Longrightarrow> with_defaults m = m"
  by (auto simp: with_defaults_def or_insert_def bt_get_def)

lemma defaults_of_recursed:
  "with_defaults (map (\<lambda>(k, v). (k, recurse_member k v)) (with_defaults m)) = map (\<lambda>(k, v). (k, recurse_member k v)) (with_defaults m)"
proof (rule with_defaults_noop, cases "Option.bind (map_of m ''type'') as_str = Some ''object''")
  case True
  show "Option.bind (map_of (map (\<lambda>(k, v). (k, recurse_member k v)) (with_defaults m)) ''type'') as_str \<noteq> Some ''object''
    \<or> map_of (map (\<lambda>(k, v). (k, recurse_member k v)) (with_defaults m)) ''properties'' \<noteq> None
      \<and> map_of (map (\<lambda>(k, v). (k, recurse_member k v)) (with_defaults m)) ''additionalProperties'' \<noteq> None"
    using with_defaults_keys [OF True] by (simp add: map_of_values)
next
  case False
  have "map_option (recurse_member ''type'') x = x" for x by (cases x) (simp_all add: recurse_member_def)
  then show "Option.bind (map_of (map (\<lambda>(k, v). (k, recurse_member k v)) (with_defaults m)) ''type'') as_str \<noteq> Some ''object''
    \<or> map_of (map (\<lambda>(k, v). (k, recurse_member k v)) (with_defaults m)) ''properties'' \<noteq> None
      \<and> map_of (map (\<lambda>(k, v). (k, recurse_member k v)) (with_defaults m)) ''additionalProperties'' \<noteq> None"
    using False with_defaults_type [of m] by (simp add: map_of_values)
qed

lemma strict_properties:
  "(\<And>p. strict_schema depth p (normalize_object_schema p)) \<Longrightarrow>
   case recurse_member ''properties'' (JObj ps) of
     JObj ps' \<Rightarrow> list_all2 (\<lambda>(n, p) (n', p'). n = n' \<and> strict_schema depth p p') ps ps'
   | _ \<Rightarrow> False"
  by (auto simp: recurse_member_def list_all2_conv_all_nth split: prod.split)

lemma strict_normalized: "strict_schema depth s (normalize_object_schema s)"
proof (induction depth arbitrary: s)
  case 0
  show ?case by simp
next
  case (Suc depth)
  show ?case
  proof (cases s)
    case (JObj m)
    define m' where "m' = map (\<lambda>(k, v). (k, recurse_member k v)) (with_defaults m)"
    have get: "map_of m' k = map_option (recurse_member k) (map_of (with_defaults m) k)" for k
      unfolding m'_def by (rule map_of_values)
    have "map_of m' ''additionalProperties'' = (case map_of m ''additionalProperties'' of
        None \<Rightarrow> if object_typed m then Some (JBool False) else None | Some v \<Rightarrow> Some v)"
      by (simp add: get with_defaults_get recurse_member_def split: option.split)
    moreover have "case map_of m ''properties'' of
        None \<Rightarrow> map_of m' ''properties'' = (if object_typed m then Some (JObj []) else None)
      | Some (JObj ps) \<Rightarrow>
          (case map_of m' ''properties'' of
             Some (JObj ps') \<Rightarrow> list_all2 (\<lambda>(n, p) (n', p'). n = n' \<and> strict_schema depth p p') ps ps'
           | _ \<Rightarrow> False)
      | Some v \<Rightarrow> map_of m' ''properties'' = Some v"
      using strict_properties [OF Suc.IH]
      by (auto simp: get with_defaults_get recurse_member_def split: option.split json.split)
    moreover have "rel_option (strict_schema depth) (map_of m ''items'') (map_of m' ''items'')"
      using Suc.IH by (cases "map_of m ''items''") (simp_all add: get with_defaults_get recurse_member_def)
    moreover have "\<forall>k. k \<notin> {''additionalProperties'', ''properties'', ''items''} \<longrightarrow> map_of m' k = map_of m k"
      by (auto simp: get with_defaults_get recurse_member_def split: option.split)
    ultimately show ?thesis
      unfolding JObj normalize_object m'_def [symmetric] strict_schema.simps json.case by (intro conjI)
  qed (simp_all add: normalize_other)
qed

lemma normalize_again: "normalize_object_schema (normalize_object_schema s) = normalize_object_schema s"
proof (induction "size s" arbitrary: s rule: less_induct)
  case less
  show ?case
  proof (cases s)
    case (JObj m)
    have member: "recurse_member k (recurse_member k v) = recurse_member k v" if "(k, v) \<in> set (with_defaults m)" for k v
    proof -
      have "k = ''items'' \<Longrightarrow> size v < size s" "\<And>ps n p. k = ''properties'' \<Longrightarrow> v = JObj ps \<Longrightarrow> (n, p) \<in> set ps \<Longrightarrow> size p < size s"
        using that JObj items_smaller property_smaller by blast+
      then show ?thesis using less by (auto simp: recurse_member_def split: json.split)
    qed
    show ?thesis
      unfolding JObj normalize_object defaults_of_recursed using member by auto
  qed (simp_all add: normalize_other)
qed

text \<open>
  C37: The schema a tool is sent with refuses other properties at every object that properties and items
  reach, unless the tool's own schema says there what becomes of them, which is kept, a true one too; it
  has properties there, it is in nothing else different from the tool's schema, and normalising it again
  changes nothing.
\<close>

theorem tool_schema_strict:
  "\<exists>f parameters. json_get (claw_tool_definition tool) ''function'' = Some f
     \<and> json_get f ''parameters'' = Some parameters \<and> strict_schema depth (td_schema tool) parameters
     \<and> normalize_object_schema parameters = parameters"
  by (simp add: claw_tool_definition_def strict_normalized normalize_again)

end
