(* ===== verification/RefOpenAiClient.thy ===== *)
theory RefOpenAiClient
  imports RefOpenAi
begin

text \<open>
  The answers of \<open>claw-rust/crates/api/src/providers/openai_compat.rs\<close>: retries, whole answers, and the
  stream with its state machine.
\<close>

section \<open>Retries\<close>

text \<open>Both clients back off alike: \<open>backoff_for_attempt\<close> on the two delays of a client, and the jitter drawn from
  the clock and the client's own counter.\<close>

definition claw_backoff :: "duration \<Rightarrow> duration \<Rightarrow> u32 \<Rightarrow> claw_error + duration" where
  "claw_backoff initial_backoff max_backoff n =
     (case checked_shl_u32 1 (saturating_sub_u32 n 1) of
        None \<Rightarrow> Inl (ClawBackoffOverflow n initial_backoff)
      | Some multiplier \<Rightarrow>
          Inr (case duration_checked_mul initial_backoff multiplier of
                 None \<Rightarrow> max_backoff
               | Some delay \<Rightarrow> min delay max_backoff))"

definition jitter_amount :: "duration \<Rightarrow> nat option \<Rightarrow> u64 \<Rightarrow> duration" where
  "jitter_amount base reading tick =
     (let base_nanos = u64_saturating base;
          raw_nanos = (case reading of None \<Rightarrow> 0 | Some n \<Rightarrow> u64_saturating n);
          mixed = mix_bits (raw_nanos + tick + 0x9E3779B97F4A7C15)
      in unat (mixed mod saturating_add_u64 base_nanos 1))"

definition claw_jitter :: "duration \<Rightarrow> 'n api_world \<Rightarrow> duration \<times> 'n api_world" where
  "claw_jitter base w =
     (if u64_saturating base = 0 then (0, w)
      else
        (let (reading, w1) = read_clock w; tick = aw_jitter w1
         in (jitter_amount base reading tick, w1\<lparr>aw_jitter := tick + 1\<rparr>)))"

definition claw_delayed ::
  "(duration \<Rightarrow> 'n api_world \<Rightarrow> duration \<times> 'n api_world) \<Rightarrow> claw_error + duration \<Rightarrow> 'n api_world
    \<Rightarrow> (claw_error + duration) option \<times> 'n api_world" where
  "claw_delayed draw delay w =
     (case delay of
        Inl e \<Rightarrow> (Some (Inl e), w)
      | Inr base \<Rightarrow>
          (let (jitter, w1) = draw base w
           in (if base + jitter \<le> duration_max then Some (Inr (base + jitter)) else None, w1)))"

definition claw_jittered_backoff ::
  "openai_client \<Rightarrow> u32 \<Rightarrow> 'n api_world \<Rightarrow> (claw_error + duration) option \<times> 'n api_world" where
  "claw_jittered_backoff c n w = claw_delayed claw_jitter (claw_backoff (op_initial_backoff c) (op_max_backoff c) n) w"

definition claw_chat_endpoint :: "string \<Rightarrow> string" where
  "claw_chat_endpoint base_url =
     (let trimmed = trim_end_matches (CHR ''/'') base_url
      in if ends_with trimmed ''/chat/completions'' then trimmed else trimmed @ ''/chat/completions'')"

definition claw_suggested_action :: "u16 \<Rightarrow> string option" where
  "claw_suggested_action status =
     (if status = 401 then Some ''Check API key is set correctly and has not expired''
      else if status = 403 then Some ''Verify API key has required permissions for this operation''
      else if status = 413 then Some ''Reduce prompt size or context window before retrying''
      else if status = 429 then Some ''Wait a moment before retrying; consider reducing request rate''
      else if status = 500 then Some ''Provider server error - retry after a brief wait''
      else if 502 \<le> status \<and> status \<le> 504 then Some ''Provider gateway error - retry after a brief wait''
      else None)"

definition claw_retryable_status :: "u16 \<Rightarrow> bool" where
  "claw_retryable_status s \<longleftrightarrow> s \<in> {408, 409, 429, 500, 502, 503, 504}"

definition claw_expect_success :: "'n api_env \<Rightarrow> http_response \<Rightarrow> claw_error + http_response" where
  "claw_expect_success env response =
     (let status = hr_status response
      in if status_success status then Inr response
         else
           (let request_id = request_id_from_headers (hr_headers response);
                body = (case hr_body response of Inl _ \<Rightarrow> [] | Inr b \<Rightarrow> b);
                parsed_error = ae_envelope env body
            in Inl (ClawApi status (Option.bind parsed_error fst) (Option.bind parsed_error snd) request_id body
                 (claw_retryable_status status) (claw_suggested_action status))))"

definition openai_send_raw ::
  "'n api_env \<Rightarrow> openai_client \<Rightarrow> message_request \<Rightarrow> 'n api_world \<Rightarrow> (claw_error + http_response) \<times> 'n api_world" where
  "openai_send_raw env c r w =
     (case claw_check_body_size (ae_codec env) r (op_config c) of
        Inl e \<Rightarrow> (Inl e, w)
      | Inr _ \<Rightarrow>
          api_post env (claw_chat_endpoint (op_base_url c))
            [(''content-type'', ''application/json''), (''authorization'', ''Bearer '' @ op_api_key c)]
            (JsonBody (claw_build_request (ae_codec env) r (op_config c))) w)"

definition openai_attempt ::
  "'n api_env \<Rightarrow> openai_client \<Rightarrow> message_request \<Rightarrow> 'n api_world \<Rightarrow> (claw_error + http_response) \<times> 'n api_world" where
  "openai_attempt env c r w =
     (case openai_send_raw env c r w of
        (Inl e, w1) \<Rightarrow> (Inl e, w1)
      | (Inr response, w1) \<Rightarrow> (claw_expect_success env response, w1))"

definition api_sleep :: "duration \<Rightarrow> 'n api_world \<Rightarrow> 'n api_world" where
  "api_sleep d w = w\<lparr>aw_slept := aw_slept w @ [d]\<rparr>"

lemma claw_backoff_attempt: "claw_backoff i m a = Inr d \<Longrightarrow> a = 0 \<or> unat a \<le> 32"
  using backoff_Inr_attempt [of "\<lparr>sc_api_key = [], sc_base_url = [], sc_max_retries = 0, sc_initial_backoff = 0, sc_max_backoff = 0\<rparr>" a]
  by (auto simp: claw_backoff_def backoff_def split: option.splits)

lemma claw_delayed_attempt: "claw_delayed draw (claw_backoff i m a) w = (Some (Inr d), w') \<Longrightarrow> a = 0 \<or> unat a \<le> 32"
  using claw_backoff_attempt [of i m a] by (auto simp: claw_delayed_def split: sum.splits)

text \<open>The attempts are counted in 32 bits.\<close>

function openai_retry_from ::
  "'n api_env \<Rightarrow> openai_client \<Rightarrow> message_request \<Rightarrow> u32 \<Rightarrow> 'n api_world
    \<Rightarrow> (claw_error + http_response) option \<times> 'n api_world" where
  "openai_retry_from env c r attempts w =
     (let n = attempts + 1
      in case openai_attempt env c r w of
           (Inr response, w1) \<Rightarrow> (Some (Inr response), w1)
         | (Inl e, w1) \<Rightarrow>
             if \<not> (claw_retryable e \<and> n \<le> op_max_retries c + 1) then (Some (Inl e), w1)
             else if n > op_max_retries c then (Some (Inl (ClawRetriesExhausted n e)), w1)
             else (case claw_jittered_backoff c n w1 of
                     (None, w2) \<Rightarrow> (None, w2)
                   | (Some (Inl e'), w2) \<Rightarrow> (Some (Inl e'), w2)
                   | (Some (Inr delay), w2) \<Rightarrow> openai_retry_from env c r n (api_sleep delay w2)))"
  by pat_completeness auto
termination
proof (relation "measure (\<lambda>(env, c, r, attempts, w). if attempts = - 1 then 34 else 33 - unat attempts)", goal_cases)
  case 1
  show ?case by simp
next
  case (2 env c r attempts w n p w1 e q w2 res delay)
  then have "n = 0 \<or> unat n \<le> 32" by (metis claw_jittered_backoff_def claw_delayed_attempt)
  then show ?case using retry_measure [of attempts] 2(1) by simp
qed

declare openai_retry_from.simps [simp del]

definition openai_send_with_retry where
  "openai_send_with_retry env c r w = openai_retry_from env c r 0 w"

section \<open>Whole answers\<close>

definition claw_finish_reason :: "string \<Rightarrow> string" where
  "claw_finish_reason v = (if v = ''stop'' then ''end_turn'' else if v = ''tool_calls'' then ''tool_use'' else v)"

definition claw_tool_arguments :: "codec \<Rightarrow> string \<Rightarrow> json" where
  "claw_tool_arguments cd arguments = (case from_text cd arguments of Inl _ \<Rightarrow> jobj [(''raw'', JStr arguments)] | Inr v \<Rightarrow> v)"

text \<open>\<open>OpenAiUsage\<close> counts the prompt and the completion only.\<close>

definition usage_of_counts :: "usage \<Rightarrow> claw_usage" where
  "usage_of_counts u = \<lparr>cu_input_tokens = prompt_tokens u, cu_cache_creation_input_tokens = 0,
     cu_cache_read_input_tokens = 0, cu_output_tokens = completion_tokens u\<rparr>"

definition claw_normalize_response :: "codec \<Rightarrow> string \<Rightarrow> chat_response \<Rightarrow> claw_error + claw_response" where
  "claw_normalize_response cd model response =
     (case cr_choices response of
        [] \<Rightarrow> Inl (ClawInvalidSseFrame ''chat completion response missing choices'')
      | (message, finish_reason) # _ \<Rightarrow>
          Inr \<lparr>mr_id = cr_id response, mr_kind = ''message'', mr_role = cm_role message,
            mr_content = (case cm_content message of None \<Rightarrow> [] | Some t \<Rightarrow> if t = [] then [] else [OutText t])
              @ map (\<lambda>(i, name, arguments). OutToolUse i name (claw_tool_arguments cd arguments)) (cm_tool_calls message),
            mr_model = (if cr_model response = [] then model else cr_model response),
            mr_stop_reason = map_option claw_finish_reason finish_reason, mr_stop_sequence = None,
            mr_usage = (case cr_usage response of None \<Rightarrow> no_usage | Some u \<Rightarrow> usage_of_counts u),
            mr_request_id = None\<rparr>)"

text \<open>An error object in a body or an event; \<open>as u16\<close> keeps the low bits, and codes below 100 or above
  999 are no status.\<close>

definition claw_embedded_error :: "string \<Rightarrow> string option \<Rightarrow> string \<Rightarrow> json \<Rightarrow> claw_error" where
  "claw_embedded_error default_message request_id body err_obj =
     (let code = unwrap_or 400 (map_option ucast (get_u64 err_obj ''code'')) :: u16;
          status = (if 100 \<le> code \<and> code \<le> 999 then code else 400)
      in ClawApi status (get_str err_obj ''type'') (Some (unwrap_or default_message (get_str err_obj ''message'')))
           request_id body False (claw_suggested_action status))"

definition error_of_body :: "codec \<Rightarrow> string \<Rightarrow> json option" where
  "error_of_body cd body = (case from_text cd body of Inl _ \<Rightarrow> None | Inr raw \<Rightarrow> json_get raw ''error'')"

definition openai_read_answer ::
  "'n api_env \<Rightarrow> openai_client \<Rightarrow> message_request \<Rightarrow> http_response \<Rightarrow> claw_error + claw_response" where
  "openai_read_answer env c r response =
     (let request_id = request_id_from_headers (hr_headers response)
      in case hr_body response of
           Inl e \<Rightarrow> Inl (ClawHttp e)
         | Inr body \<Rightarrow>
             (case error_of_body (ae_codec env) body of
                Some err_obj \<Rightarrow> Inl (claw_embedded_error ''provider returned an error'' request_id body err_obj)
              | None \<Rightarrow>
                  (case ae_completion env body of
                     Inl e \<Rightarrow> Inl (claw_json_deserialize (oc_provider_name (op_config c)) (req_model r) body e)
                   | Inr payload \<Rightarrow>
                       map_sum id (\<lambda>normalized.
                           if mr_request_id normalized = None then normalized\<lparr>mr_request_id := request_id\<rparr> else normalized)
                         (claw_normalize_response (ae_codec env) (req_model r) payload))))"

definition openai_send_message ::
  "'n api_env \<Rightarrow> openai_client \<Rightarrow> message_request \<Rightarrow> 'n api_world
    \<Rightarrow> (claw_error + claw_response) option \<times> 'n api_world" where
  "openai_send_message env c request w =
     (let r = request\<lparr>req_stream := False\<rparr>
      in case preflight_message_request env r of
           Inl e \<Rightarrow> (Some (Inl e), w)
         | Inr _ \<Rightarrow>
             (case openai_send_with_retry env c r w of
                (None, w1) \<Rightarrow> (None, w1)
              | (Some (Inl e), w1) \<Rightarrow> (Some (Inl e), w1)
              | (Some (Inr response), w1) \<Rightarrow> (Some (openai_read_answer env c r response), w1)))"

section \<open>The state machine of a stream\<close>

record claw_stream_state =
  cs_model_name :: string
  cs_message_started :: bool
  cs_text_started :: bool
  cs_text_finished :: bool
  cs_finished :: bool
  cs_stop_reason :: "string option"
  cs_usage :: "claw_usage option"
  cs_tool_calls :: "(u32, tool_call_state) btree"

definition claw_stream_new :: "string \<Rightarrow> claw_stream_state" where
  "claw_stream_new model = \<lparr>cs_model_name = model, cs_message_started = False, cs_text_started = False,
     cs_text_finished = False, cs_finished = False, cs_stop_reason = None, cs_usage = None, cs_tool_calls = []\<rparr>"

definition claw_apply :: "delta_tool_call \<Rightarrow> tool_call_state \<Rightarrow> tool_call_state" where
  "claw_apply tc s =
     (let s1 = s\<lparr>tcs_index := dtc_index tc\<rparr>;
          s2 = (case dtc_id tc of None \<Rightarrow> s1 | Some i \<Rightarrow> s1\<lparr>tcs_id := Some i\<rparr>);
          s3 = (case dtc_name tc of None \<Rightarrow> s2 | Some n \<Rightarrow> s2\<lparr>tcs_name := Some n\<rparr>)
      in case dtc_arguments tc of None \<Rightarrow> s3 | Some arguments \<Rightarrow> s3\<lparr>tcs_arguments := tcs_arguments s3 @ arguments\<rparr>)"

definition claw_block_index :: "tool_call_state \<Rightarrow> u32" where
  "claw_block_index s = tcs_index s + 1"

definition claw_start_event :: "tool_call_state \<Rightarrow> claw_event option" where
  "claw_start_event s =
     (case tcs_name s of
        None \<Rightarrow> None
      | Some name \<Rightarrow>
          Some (EvBlockStart (claw_block_index s)
            (OutToolUse (case tcs_id s of Some i \<Rightarrow> i | None \<Rightarrow> ''tool_call_'' @ show_u32 (tcs_index s)) name (jobj []))))"

definition claw_delta_event :: "tool_call_state \<Rightarrow> claw_event option \<times> tool_call_state" where
  "claw_delta_event s =
     (if tcs_emitted_len s \<ge> length (tcs_arguments s) then (None, s)
      else (Some (EvBlockDelta (claw_block_index s) (DeltaInputJson (drop (tcs_emitted_len s) (tcs_arguments s)))),
            s\<lparr>tcs_emitted_len := length (tcs_arguments s)\<rparr>))"

definition option_list :: "'a option \<Rightarrow> 'a list" where
  "option_list x = (case x of None \<Rightarrow> [] | Some y \<Rightarrow> [y])"

text \<open>The body of the loop over the tool calls of a choice, on the entry of the call.\<close>

definition claw_ingest_call :: "string option \<Rightarrow> delta_tool_call \<Rightarrow> tool_call_state \<Rightarrow> tool_call_state \<times> claw_event list" where
  "claw_ingest_call finish_reason tc entry =
     (let s = claw_apply tc entry; block = claw_block_index s;
          rest = (\<lambda>s. let (delta, s1) = claw_delta_event s
              in if finish_reason = Some ''tool_calls'' \<and> \<not> tcs_stopped s1
                 then (s1\<lparr>tcs_stopped := True\<rparr>, option_list delta @ [EvBlockStop block])
                 else (s1, option_list delta))
      in if tcs_started s then rest s
         else case claw_start_event s of
                None \<Rightarrow> (s, [])
              | Some start \<Rightarrow> (case rest (s\<lparr>tcs_started := True\<rparr>) of (s1, events) \<Rightarrow> (s1, start # events)))"

fun claw_ingest_calls ::
  "string option \<Rightarrow> delta_tool_call list \<Rightarrow> (u32, tool_call_state) btree
    \<Rightarrow> (u32, tool_call_state) btree \<times> claw_event list" where
  "claw_ingest_calls finish_reason [] m = (m, [])"
| "claw_ingest_calls finish_reason (tc # tcs) m =
     (let (s, events) = claw_ingest_call finish_reason tc (unwrap_or default_tool_call (bt_get m (dtc_index tc)));
          (m', more) = claw_ingest_calls finish_reason tcs (bt_insert (dtc_index tc) s m)
      in (m', events @ more))"

text \<open>A loop over \<open>tool_calls.values_mut()\<close>.\<close>

fun each_call :: "(tool_call_state \<Rightarrow> tool_call_state \<times> claw_event list) \<Rightarrow> (u32, tool_call_state) btree
    \<Rightarrow> (u32, tool_call_state) btree \<times> claw_event list" where
  "each_call f [] = ([], [])"
| "each_call f ((k, s) # m) =
     (let (s', events) = f s; (m', more) = each_call f m in ((k, s') # m', events @ more))"

definition stop_started :: "tool_call_state \<Rightarrow> tool_call_state \<times> claw_event list" where
  "stop_started s =
     (if tcs_started s \<and> \<not> tcs_stopped s then (s\<lparr>tcs_stopped := True\<rparr>, [EvBlockStop (claw_block_index s)]) else (s, []))"

definition claw_ingest_choice :: "claw_stream_state \<Rightarrow> chunk_choice \<Rightarrow> claw_stream_state \<times> claw_event list" where
  "claw_ingest_choice st choice =
     (let (st1, events1) = (case cc_content choice of
            None \<Rightarrow> (st, [])
          | Some content \<Rightarrow>
              if content = [] then (st, [])
              else (st\<lparr>cs_text_started := True\<rparr>,
                (if cs_text_started st then [] else [EvBlockStart 0 (OutText [])]) @ [EvBlockDelta 0 (DeltaText content)]));
          (m2, events2) = claw_ingest_calls (cc_finish_reason choice) (cc_tool_calls choice) (cs_tool_calls st1);
          st2 = st1\<lparr>cs_tool_calls := m2\<rparr>
      in case cc_finish_reason choice of
           None \<Rightarrow> (st2, events1 @ events2)
         | Some finish_reason \<Rightarrow>
             (let st3 = st2\<lparr>cs_stop_reason := Some (claw_finish_reason finish_reason)\<rparr>
              in if finish_reason = ''tool_calls''
                 then (let (m4, events4) = each_call stop_started (cs_tool_calls st3)
                       in (st3\<lparr>cs_tool_calls := m4\<rparr>, events1 @ events2 @ events4))
                 else (st3, events1 @ events2)))"

fun claw_ingest_choices :: "chunk_choice list \<Rightarrow> claw_stream_state \<Rightarrow> claw_stream_state \<times> claw_event list" where
  "claw_ingest_choices [] st = (st, [])"
| "claw_ingest_choices (choice # choices) st =
     (let (st1, events) = claw_ingest_choice st choice; (st2, more) = claw_ingest_choices choices st1
      in (st2, events @ more))"

definition claw_ingest_chunk :: "claw_stream_state \<Rightarrow> chat_chunk \<Rightarrow> claw_stream_state \<times> claw_event list" where
  "claw_ingest_chunk st chunk =
     (let start = (if cs_message_started st then []
            else [EvMessageStart \<lparr>mr_id = ck_id chunk, mr_kind = ''message'', mr_role = ''assistant'', mr_content = [],
              mr_model = unwrap_or (cs_model_name st) (ck_model chunk), mr_stop_reason = None, mr_stop_sequence = None,
              mr_usage = no_usage, mr_request_id = None\<rparr>]);
          st1 = st\<lparr>cs_message_started := True\<rparr>;
          st2 = (case ck_usage chunk of None \<Rightarrow> st1 | Some u \<Rightarrow> st1\<lparr>cs_usage := Some (usage_of_counts u)\<rparr>);
          (st3, events) = claw_ingest_choices (ck_choices chunk) st2
      in (st3, start @ events))"

definition claw_finish_call :: "tool_call_state \<Rightarrow> tool_call_state \<times> claw_event list" where
  "claw_finish_call s =
     (let (s1, events) = (if tcs_started s then (s, [])
            else case claw_start_event s of
              None \<Rightarrow> (s, [])
            | Some start \<Rightarrow>
                (case claw_delta_event (s\<lparr>tcs_started := True\<rparr>) of (delta, s1) \<Rightarrow> (s1, start # option_list delta)));
          (s2, more) = stop_started s1
      in (s2, events @ more))"

definition claw_stream_finish :: "claw_stream_state \<Rightarrow> claw_stream_state \<times> claw_event list" where
  "claw_stream_finish st =
     (if cs_finished st then (st, [])
      else
        (let st1 = st\<lparr>cs_finished := True\<rparr>;
             (st2, events1) = (if cs_text_started st1 \<and> \<not> cs_text_finished st1
               then (st1\<lparr>cs_text_finished := True\<rparr>, [EvBlockStop 0]) else (st1, []));
             (m, events2) = each_call claw_finish_call (cs_tool_calls st2);
             events3 = (if cs_message_started st2
               then [EvMessageDelta (Some (unwrap_or ''end_turn'' (cs_stop_reason st2))) None (unwrap_or no_usage (cs_usage st2)),
                     EvMessageStop] else [])
         in (st2\<lparr>cs_tool_calls := m\<rparr>, events1 @ events2 @ events3)))"

section \<open>Reading a stream\<close>

definition claw_next_frame :: "string \<Rightarrow> (string \<times> string) option" where
  "claw_next_frame buffer =
     (case (case find_sub lf2 buffer of
              Some position \<Rightarrow> Some (position, 2)
            | None \<Rightarrow> (case find_sub crlf2 buffer of Some position \<Rightarrow> Some (position, 4) | None \<Rightarrow> None)) of
        None \<Rightarrow> None
      | Some (position, separator_len) \<Rightarrow>
          (let frame = take (position + separator_len) buffer; frame_len = length frame - separator_len
           in Some (utf8_lossy (take frame_len frame), drop (position + separator_len) buffer)))"

definition claw_parse_chunk :: "'n api_env \<Rightarrow> string \<Rightarrow> string \<Rightarrow> string \<Rightarrow> claw_error + chat_chunk option" where
  "claw_parse_chunk env provider model frame =
     (let trimmed = trim frame
      in if trimmed = [] then Inr None
         else
           (let lines = data_lines (str_lines trimmed)
            in if lines = [] then Inr None
               else
                 (let payload = join nl lines
                  in if payload = ''[DONE]'' then Inr None
                     else case error_of_body (ae_codec env) payload of
                       Some err_obj \<Rightarrow> Inl (claw_embedded_error ''provider returned an error in stream'' None payload err_obj)
                     | None \<Rightarrow>
                         (case ae_chunk env payload of
                            Inl e \<Rightarrow> Inl (claw_json_deserialize provider model payload e)
                          | Inr chunk \<Rightarrow> Inr (Some chunk)))))"

lemma claw_next_frame_eq: "claw_next_frame = next_frame"
  by (rule ext) (auto simp: claw_next_frame_def next_frame_def frame_separator_def split: option.splits)

function claw_push_loop ::
  "(string \<Rightarrow> claw_error + 'p option) \<Rightarrow> string \<Rightarrow> 'p list \<Rightarrow> (claw_error + 'p list) \<times> string" where
  "claw_push_loop parse buffer events =
     (case claw_next_frame buffer of
        None \<Rightarrow> (Inr events, buffer)
      | Some (frame, rest) \<Rightarrow>
          (case parse frame of
             Inl e \<Rightarrow> (Inl e, rest)
           | Inr None \<Rightarrow> claw_push_loop parse rest events
           | Inr (Some event) \<Rightarrow> claw_push_loop parse rest (events @ [event])))"
  by pat_completeness auto
termination
  by (relation "measure (\<lambda>(f, b, es). length b)") (auto simp: claw_next_frame_eq dest: next_frame_shorter)

declare claw_push_loop.simps [simp del]

record openai_stream =
  os_request_id :: "string option"
  os_provider :: string
  os_model :: string
  os_body :: "(http_error + string) list"
  os_buffer :: string
  os_pending :: "claw_event list"
  os_done :: bool
  os_state :: claw_stream_state

definition openai_feed :: "'n api_env \<Rightarrow> openai_stream \<Rightarrow> string \<Rightarrow> (claw_error + chat_chunk list) \<times> string" where
  "openai_feed env s chunk = claw_push_loop (claw_parse_chunk env (os_provider s) (os_model s)) (os_buffer s @ chunk) []"

fun claw_ingest_chunks :: "chat_chunk list \<Rightarrow> claw_stream_state \<Rightarrow> claw_stream_state \<times> claw_event list" where
  "claw_ingest_chunks [] st = (st, [])"
| "claw_ingest_chunks (chunk # chunks) st =
     (let (st1, events) = claw_ingest_chunk st chunk; (st2, more) = claw_ingest_chunks chunks st1
      in (st2, events @ more))"

definition openai_stream_message ::
  "'n api_env \<Rightarrow> openai_client \<Rightarrow> message_request \<Rightarrow> 'n api_world
    \<Rightarrow> (claw_error + openai_stream) option \<times> 'n api_world" where
  "openai_stream_message env c request w =
     (case preflight_message_request env request of
        Inl e \<Rightarrow> (Some (Inl e), w)
      | Inr _ \<Rightarrow>
          (case openai_send_with_retry env c (with_streaming request) w of
             (None, w1) \<Rightarrow> (None, w1)
           | (Some (Inl e), w1) \<Rightarrow> (Some (Inl e), w1)
           | (Some (Inr response), w1) \<Rightarrow>
               (Some (Inr \<lparr>os_request_id = request_id_from_headers (hr_headers response),
                  os_provider = oc_provider_name (op_config c), os_model = req_model request,
                  os_body = ae_chunks env response, os_buffer = [], os_pending = [], os_done = False,
                  os_state = claw_stream_new (req_model request)\<rparr>), w1)))"

function openai_next_event :: "'n api_env \<Rightarrow> openai_stream \<Rightarrow> (claw_error + claw_event option) \<times> openai_stream" where
  "openai_next_event env s =
     (case os_pending s of
        event # pending \<Rightarrow> (Inr (Some event), s\<lparr>os_pending := pending\<rparr>)
      | [] \<Rightarrow>
          if os_done s then
            (case claw_stream_finish (os_state s) of
               (st, []) \<Rightarrow> (Inr None, s\<lparr>os_state := st\<rparr>)
             | (st, event # pending) \<Rightarrow> (Inr (Some event), s\<lparr>os_state := st, os_pending := pending\<rparr>))
          else
            (case os_body s of
               [] \<Rightarrow> openai_next_event env (s\<lparr>os_done := True\<rparr>)
             | Inl e # rest \<Rightarrow> (Inl (ClawHttp e), s\<lparr>os_body := rest\<rparr>)
             | Inr chunk # rest \<Rightarrow>
                 (case openai_feed env s chunk of
                    (Inl e, buffer) \<Rightarrow> (Inl e, s\<lparr>os_body := rest, os_buffer := buffer\<rparr>)
                  | (Inr parsed, buffer) \<Rightarrow>
                      (case claw_ingest_chunks parsed (os_state s) of
                         (st, events) \<Rightarrow>
                           openai_next_event env
                             (s\<lparr>os_body := rest, os_buffer := buffer, os_state := st, os_pending := events\<rparr>)))))"
  by pat_completeness auto
termination
  by (relation "measure (\<lambda>(env, s). length (os_body s) + (if os_done s then 0 else 1))") auto

declare openai_next_event.simps [simp del]

end
