(* ===== verification/RefOpenAiCorrect.thy ===== *)
theory RefOpenAiCorrect
  imports RefOpenAiClient StreamCorrect
begin

text \<open>
  The stream machine of the reference and the one the port was cut from it send the same events: so what
  is proved of the port's streams in \<open>StreamCorrect\<close> holds for the reference's.
\<close>

section \<open>The port's events as the reference's\<close>

fun output_of_port :: "output_block \<Rightarrow> claw_output" where
  "output_of_port (OText t) = OutText t"
| "output_of_port (OToolUse i n v) = OutToolUse i n v"

fun delta_of_port :: "block_delta \<Rightarrow> claw_delta" where
  "delta_of_port (TextDelta t) = DeltaText t"
| "delta_of_port (InputJsonDelta t) = DeltaInputJson t"

definition response_of_port :: "message_response \<Rightarrow> claw_response" where
  "response_of_port r = \<lparr>mr_id = resp_id r, mr_kind = resp_kind r, mr_role = resp_role r,
     mr_content = map output_of_port (resp_content r), mr_model = resp_model r, mr_stop_reason = resp_stop_reason r,
     mr_stop_sequence = resp_stop_sequence r, mr_usage = usage_of_counts (resp_usage r),
     mr_request_id = resp_request_id r\<rparr>"

fun event_of_port :: "stream_event \<Rightarrow> claw_event" where
  "event_of_port (MessageStart r) = EvMessageStart (response_of_port r)"
| "event_of_port (MessageDelta a b u) = EvMessageDelta a b (usage_of_counts u)"
| "event_of_port (ContentBlockStart k b) = EvBlockStart k (output_of_port b)"
| "event_of_port (ContentBlockDelta k d) = EvBlockDelta k (delta_of_port d)"
| "event_of_port (ContentBlockStop k) = EvBlockStop k"
| "event_of_port MessageStop = EvMessageStop"

definition state_of_port :: "stream_state \<Rightarrow> claw_stream_state" where
  "state_of_port st = \<lparr>cs_model_name = ss_model st, cs_message_started = ss_message_started st,
     cs_text_started = ss_text_started st, cs_text_finished = ss_text_finished st, cs_finished = ss_finished st,
     cs_stop_reason = ss_stop_reason st, cs_usage = map_option usage_of_counts (ss_usage st),
     cs_tool_calls = ss_tool_calls st\<rparr>"

abbreviation events_of_port :: "'s \<times> stream_event list \<Rightarrow> 's \<times> claw_event list" where
  "events_of_port r \<equiv> map_prod id (map event_of_port) r"

section \<open>Step by step\<close>

lemma no_usage_counts: "usage_of_counts default_usage = no_usage"
  by (simp add: usage_of_counts_def default_usage_def no_usage_def)

lemma finish_reason_same: "claw_finish_reason = normalize_finish_reason"
  by (simp add: fun_eq_iff claw_finish_reason_def normalize_finish_reason_def)

lemma apply_same: "claw_apply tc s = apply_delta tc s"
  by (simp add: claw_apply_def apply_delta_def Let_def unwrap_or_def split: option.split)

lemma start_same: "claw_start_event s = map_option event_of_port (start_event s)"
  by (simp add: claw_start_event_def start_event_def fallback_id_def claw_block_index_def block_index_def show_u32_def
      unwrap_or_def split: option.split)

lemma delta_same: "(snd (claw_delta_event s), option_list (fst (claw_delta_event s))) = events_of_port (delta_event s)"
  by (simp add: claw_delta_event_def delta_event_def option_list_def claw_block_index_def block_index_def)

lemma stop_same: "stop_started s = events_of_port (stop_if (tcs_started s) s)"
  by (simp add: stop_started_def stop_if_def claw_block_index_def block_index_def)

lemma each_same: "(\<And>s. f s = events_of_port (g s)) \<Longrightarrow> each_call f m = events_of_port (sweep g m)"
  by (induction m) (auto simp: map_prod_def split: prod.split)

lemma block_same: "claw_block_index s = block_index s"
  by (simp add: claw_block_index_def block_index_def)

lemma block_of_delta: "block_index (snd (claw_delta_event s)) = block_index s"
  by (simp add: claw_delta_event_def block_index_def)

lemma block_of_start [simp]: "block_index (s\<lparr>tcs_started := b\<rparr>) = block_index s"
  by (simp add: block_index_def)

definition port_step :: "bool \<Rightarrow> tool_call_state \<Rightarrow> tool_call_state \<times> stream_event list" where
  "port_step c s = (let (s1, d) = delta_event s; (s2, e) = stop_if c s1 in (s2, d @ e))"

definition claw_step :: "bool \<Rightarrow> u32 \<Rightarrow> tool_call_state \<Rightarrow> tool_call_state \<times> claw_event list" where
  "claw_step c block s =
     (let (delta, s1) = claw_delta_event s
      in if c \<and> \<not> tcs_stopped s1 then (s1\<lparr>tcs_stopped := True\<rparr>, option_list delta @ [EvBlockStop block])
         else (s1, option_list delta))"

lemma step_same: "block = block_index s \<Longrightarrow> claw_step c block s = events_of_port (port_step c s)"
  by (simp add: claw_step_def port_step_def claw_delta_event_def delta_event_def stop_if_def option_list_def
      block_index_def claw_block_index_def)

lemma claw_call_steps:
  "claw_ingest_call fr tc entry =
     (let s = claw_apply tc entry; rest = claw_step (fr = Some ''tool_calls'') (claw_block_index s)
      in if tcs_started s then rest s
         else case claw_start_event s of
                None \<Rightarrow> (s, [])
              | Some start \<Rightarrow> (case rest (s\<lparr>tcs_started := True\<rparr>) of (s1, events) \<Rightarrow> (s1, start # events)))"
  unfolding claw_ingest_call_def claw_step_def Let_def by simp

lemma port_call_steps:
  "ingest_tool_call fr m tc =
     (let s = apply_delta tc (unwrap_or default_tool_call (bt_get m (dtc_index tc)));
          put = (\<lambda>s'. bt_insert (dtc_index tc) s' m); rest = port_step (fr = Some ''tool_calls'')
      in if tcs_started s then (case rest s of (s1, events) \<Rightarrow> (put s1, events))
         else case start_event s of
                None \<Rightarrow> (put s, [])
              | Some start \<Rightarrow> (case rest (s\<lparr>tcs_started := True\<rparr>) of (s1, events) \<Rightarrow> (put s1, start # events)))"
  by (simp add: ingest_tool_call_def port_step_def Let_def split: option.split prod.split)

lemma call_same:
  "(case claw_ingest_call fr tc (unwrap_or default_tool_call (bt_get m (dtc_index tc))) of
      (s, events) \<Rightarrow> (bt_insert (dtc_index tc) s m, events)) = events_of_port (ingest_tool_call fr m tc)"
  by (simp add: claw_call_steps port_call_steps Let_def apply_same start_same block_same step_same
      split: option.split prod.split)

lemma calls_same: "claw_ingest_calls fr tcs m = events_of_port (run_emit (ingest_tool_call fr) m tcs)"
proof (induction tcs arbitrary: m)
  case (Cons tc tcs)
  show ?case
    using call_same [where fr = fr and tc = tc and m = m] by (simp add: Cons.IH map_prod_def split: prod.splits)
qed simp

section \<open>Chunk by chunk\<close>

lemma finish_call_same: "claw_finish_call s = events_of_port (finish_tool_call s)"
  by (simp add: claw_finish_call_def finish_tool_call_def start_same stop_same claw_delta_event_def delta_event_def
      option_list_def block_same split: option.split prod.split)

abbreviation stream_of_port :: "stream_state \<times> stream_event list \<Rightarrow> claw_stream_state \<times> claw_event list" where
  "stream_of_port r \<equiv> map_prod state_of_port (map event_of_port) r"

lemma choice_same: "claw_ingest_choice (state_of_port st) choice = stream_of_port (ingest_choice st choice)"
  by (simp add: claw_ingest_choice_def ingest_choice_def ingest_text_def ingest_finish_reason_def state_of_port_def
      calls_same finish_reason_same each_same [OF stop_same] Let_def split: option.split prod.split)

lemma choices_same: "claw_ingest_choices cs (state_of_port st) = stream_of_port (run_emit ingest_choice st cs)"
  by (induction cs arbitrary: st) (simp_all add: choice_same split: prod.split)

lemma chunk_same: "claw_ingest_chunk (state_of_port st) chunk = stream_of_port (ingest_chunk st chunk)"
proof -
  define st1 where "st1 = (let st0 = st\<lparr>ss_message_started := True\<rparr>
    in case ck_usage chunk of Some u \<Rightarrow> st0\<lparr>ss_usage := Some u\<rparr> | None \<Rightarrow> st0)"
  have "ingest_chunk st chunk = (case run_emit ingest_choice st1 (ck_choices chunk) of
      (st2, es) \<Rightarrow> (st2, (if ss_message_started st then [] else [start_message st chunk]) @ es))"
    by (simp add: ingest_chunk_def st1_def Let_def)
  moreover have "claw_ingest_chunk (state_of_port st) chunk =
    (case claw_ingest_choices (ck_choices chunk) (state_of_port st1) of
      (st2, es) \<Rightarrow> (st2, map event_of_port (if ss_message_started st then [] else [start_message st chunk]) @ es))"
    by (cases "ck_usage chunk") (simp_all add: claw_ingest_chunk_def st1_def state_of_port_def start_message_def
        response_of_port_def no_usage_counts Let_def)
  ultimately show ?thesis by (simp add: choices_same split: prod.split)
qed

lemma chunks_same: "claw_ingest_chunks chunks (state_of_port st) = stream_of_port (run_emit ingest_chunk st chunks)"
  by (induction chunks arbitrary: st) (simp_all add: chunk_same split: prod.split)

lemma finish_same: "claw_stream_finish (state_of_port st) = stream_of_port (stream_finish st)"
proof (cases "ss_finished st")
  case False
  have u: "unwrap_or no_usage (map_option usage_of_counts x) = usage_of_counts (unwrap_or default_usage x)" for x
    by (cases x) (simp_all add: unwrap_or_def no_usage_counts)
  show ?thesis
    using False by (simp add: claw_stream_finish_def stream_finish_def state_of_port_def each_same [OF finish_call_same]
        u Let_def split: prod.split)
qed (simp add: claw_stream_finish_def stream_finish_def state_of_port_def)

definition claw_stream_events :: "string \<Rightarrow> chat_chunk list \<Rightarrow> claw_event list" where
  "claw_stream_events model chunks =
     (case claw_ingest_chunks chunks (claw_stream_new model) of (st, events) \<Rightarrow> events @ snd (claw_stream_finish st))"

lemma stream_same: "claw_stream_events model chunks = map event_of_port (stream_events model chunks)"
proof -
  have "claw_stream_new model = state_of_port (stream_new model)"
    by (simp add: claw_stream_new_def stream_new_def state_of_port_def)
  then show ?thesis
    by (simp add: claw_stream_events_def stream_events_def chunks_same finish_same split: prod.split)
qed

section \<open>What the reference promises\<close>

fun claw_event_block :: "claw_event \<Rightarrow> u32 option" where
  "claw_event_block (EvBlockStart k b) = Some k"
| "claw_event_block (EvBlockDelta k d) = Some k"
| "claw_event_block (EvBlockStop k) = Some k"
| "claw_event_block e = None"

text \<open>How far a block has come: not opened, open, closed; any other order is refused.\<close>

definition claw_phase_step :: "u32 \<Rightarrow> phase \<Rightarrow> claw_event \<Rightarrow> phase option" where
  "claw_phase_step k p e =
     (if claw_event_block e \<noteq> Some k then Some p
      else case e of
        EvBlockStart _ _ \<Rightarrow> (if p = Absent then Some Opened else None)
      | EvBlockDelta _ _ \<Rightarrow> (if p = Absent then None else Some p)
      | EvBlockStop _ \<Rightarrow> (if p = Opened then Some Closed else None)
      | _ \<Rightarrow> Some p)"

definition claw_block_phase :: "u32 \<Rightarrow> claw_event list \<Rightarrow> phase option" where
  "claw_block_phase k es = fold (\<lambda>e p. Option.bind p (\<lambda>p. claw_phase_step k p e)) es (Some Absent)"

lemma phase_step_same: "claw_phase_step k p (event_of_port e) = phase_step k p e"
  by (cases e) (simp_all add: claw_phase_step_def phase_step_def)

lemma block_phase_same: "claw_block_phase k (map event_of_port es) = block_phase k es"
  by (simp add: claw_block_phase_def block_phase_def phase_run_def fold_map comp_def phase_step_same foldl_conv_fold)

lemma pairing_same: "claw_sanitize_pairing = sanitize_tool_message_pairing"
proof
  fix messages
  have "claw_dropped messages = orphaned messages"
    by (rule ext) (simp add: claw_dropped_def orphaned_def role_of_def [abs_def] preceding_def paired_with_def Let_def
        split: option.split)
  then show "claw_sanitize_pairing messages = sanitize_tool_message_pairing messages"
    by (simp add: claw_sanitize_pairing_def sanitize_tool_message_pairing_def case_prod_unfold Let_def)
qed

text \<open>
  C36: The reference and the port cut from it stream alike: whatever chunks a provider sends, the events
  of the reference's state machine, its last ones included, are the port's, one for one.
\<close>

theorem reference_stream_agrees:
  "claw_stream_events model chunks = map event_of_port (stream_events model chunks)"
  by (rule stream_same)

text \<open>
  So what holds of the port's blocks holds of the reference's: with no index at the end of 32 bits, every
  block that is opened is opened once and closed once, and nothing is sent on it before it is opened.
\<close>

theorem reference_blocks_closed:
  assumes "no_wrap (tool_deltas chunks)"
  shows "claw_block_phase k (claw_stream_events model chunks)
    = Some (if (if k = 0 then stream_text chunks \<noteq> [] else tool_identity (k - 1) (tool_deltas chunks) \<noteq> None)
            then Closed else Absent)"
  using blocks_of_stream [OF assms] by (simp add: stream_same block_phase_same)

end
