(* ===== verification/RefPromptCache.thy ===== *)
theory RefPromptCache
  imports RefApiTypes
begin

text \<open>
  \<open>claw-rust/crates/api/src/prompt_cache.rs\<close>: answers kept on disk by a hash of their request, the
  statistics of the cache, and the detection of prompts the provider no longer reads from its cache. What
  serde writes and reads for the three kinds of file is a parameter; the mutex is uncontended.
\<close>

section \<open>Data\<close>

record cache_config =
  pc_session_id :: string
  pc_completion_ttl :: duration
  pc_prompt_ttl :: duration
  pc_cache_break_min_drop :: u32

definition cache_config_new :: "string \<Rightarrow> cache_config" where
  "cache_config_new session_id = \<lparr>pc_session_id = session_id, pc_completion_ttl = 30 * 10 ^ 9,
     pc_prompt_ttl = 5 * 60 * 10 ^ 9, pc_cache_break_min_drop = 2000\<rparr>"

record cache_paths =
  pp_root :: path
  pp_session_dir :: path
  pp_completion_dir :: path
  pp_session_state_path :: path
  pp_stats_path :: path

record cache_stats =
  cst_tracked_requests :: u64
  cst_completion_cache_hits :: u64
  cst_completion_cache_misses :: u64
  cst_completion_cache_writes :: u64
  cst_expected_invalidations :: u64
  cst_unexpected_cache_breaks :: u64
  cst_total_cache_creation_input_tokens :: u64
  cst_total_cache_read_input_tokens :: u64
  cst_last_cache_creation_input_tokens :: "u32 option"
  cst_last_cache_read_input_tokens :: "u32 option"
  cst_last_request_hash :: "string option"
  cst_last_completion_cache_key :: "string option"
  cst_last_break_reason :: "string option"
  cst_last_cache_source :: "string option"

definition stats_default :: cache_stats where
  "stats_default = \<lparr>cst_tracked_requests = 0, cst_completion_cache_hits = 0, cst_completion_cache_misses = 0,
     cst_completion_cache_writes = 0, cst_expected_invalidations = 0, cst_unexpected_cache_breaks = 0,
     cst_total_cache_creation_input_tokens = 0, cst_total_cache_read_input_tokens = 0,
     cst_last_cache_creation_input_tokens = None, cst_last_cache_read_input_tokens = None,
     cst_last_request_hash = None, cst_last_completion_cache_key = None, cst_last_break_reason = None,
     cst_last_cache_source = None\<rparr>"

record cache_break_event =
  cb_unexpected :: bool
  cb_reason :: string
  cb_previous_cache_read_input_tokens :: u32
  cb_current_cache_read_input_tokens :: u32
  cb_token_drop :: u32

record cache_record =
  cr_cache_break :: "cache_break_event option"
  cr_stats :: cache_stats

record cache_entry =
  en_cached_at_unix_secs :: u64
  en_fingerprint_version :: u32
  en_response :: claw_response

record tracked_prompt =
  tp_observed_at_unix_secs :: u64
  tp_fingerprint_version :: u32
  tp_model_hash :: u64
  tp_system_hash :: u64
  tp_tools_hash :: u64
  tp_messages_hash :: u64
  tp_cache_read_input_tokens :: u32

record prompt_cache =
  ca_config :: cache_config
  ca_paths :: cache_paths
  ca_stats :: cache_stats
  ca_previous :: "tracked_prompt option"

text \<open>What serde writes for a value, when it can, and reads from a text.\<close>

record 'v file_codec =
  fc_write :: "'v \<Rightarrow> string option"
  fc_read :: "string \<Rightarrow> 'v option"

record cache_codecs =
  co_stats :: "cache_stats file_codec"
  co_state :: "tracked_prompt file_codec"
  co_entry :: "cache_entry file_codec"

section \<open>Names\<close>

definition sanitize_path_segment :: "string \<Rightarrow> string" where
  "sanitize_path_segment v =
     (let alnum = (\<lambda>c. let n = of_char c :: nat in 48 \<le> n \<and> n \<le> 57 \<or> 65 \<le> n \<and> n \<le> 90 \<or> 97 \<le> n \<and> n \<le> 122);
          sanitized = map (\<lambda>ch. case ch of [c] \<Rightarrow> if alnum c then c else CHR ''-'' | _ \<Rightarrow> CHR ''-'') (str_chars v)
      in if length sanitized \<le> 80 then sanitized
         else (let suffix = ''-'' @ show_hex (unat (fnv_hash v)) in take (80 - length suffix) sanitized @ suffix))"

text \<open>The two variables of the environment as raw texts, and the directory for temporary files.\<close>

definition base_cache_root :: "string option \<Rightarrow> string option \<Rightarrow> path \<Rightarrow> path" where
  "base_cache_root config_home home temp_dir =
     (case config_home of
        Some p \<Rightarrow> path_join (path_join (parse_path p) [Name ''cache'']) [Name ''prompt-cache'']
      | None \<Rightarrow>
          (case home of
             Some p \<Rightarrow> path_join (path_join (path_join (parse_path p) [Name ''.claude'']) [Name ''cache'']) [Name ''prompt-cache'']
           | None \<Rightarrow> path_join temp_dir [Name ''claude-prompt-cache'']))"

definition cache_paths_for :: "path \<Rightarrow> string \<Rightarrow> cache_paths" where
  "cache_paths_for root session_id =
     (let session_dir = path_join root (parse_path (sanitize_path_segment session_id))
      in \<lparr>pp_root = root, pp_session_dir = session_dir, pp_completion_dir = path_join session_dir [Name ''completions''],
          pp_session_state_path = path_join session_dir [Name ''session-state.json''],
          pp_stats_path = path_join session_dir [Name ''stats.json'']\<rparr>)"

definition completion_entry_path :: "cache_paths \<Rightarrow> string \<Rightarrow> path" where
  "completion_entry_path paths request_hash = path_join (pp_completion_dir paths) [Name (request_hash @ ''.json'')]"

section \<open>Hashes\<close>

definition current_fingerprint_version :: u32 where
  "current_fingerprint_version = 1"

definition hash_serializable :: "'n api_env \<Rightarrow> request_part \<Rightarrow> u64" where
  "hash_serializable env part = fnv_hash (unwrap_or [] (ae_bytes env part))"

definition request_hash_hex :: "'n api_env \<Rightarrow> message_request \<Rightarrow> string" where
  "request_hash_hex env r = ''v1-'' @ hex16 (hash_serializable env (PartRequest r))"

definition now_unix_secs :: "'n api_world \<Rightarrow> u64 \<times> 'n api_world" where
  "now_unix_secs w =
     (case read_clock w of (r, w1) \<Rightarrow> (case r of None \<Rightarrow> 0 | Some n \<Rightarrow> of_nat (n div 10 ^ 9), w1))"

definition tracked_from_usage ::
  "'n api_env \<Rightarrow> message_request \<Rightarrow> claw_usage \<Rightarrow> 'n api_world \<Rightarrow> tracked_prompt \<times> 'n api_world" where
  "tracked_from_usage env r u w =
     (case now_unix_secs w of (now, w1) \<Rightarrow>
        (\<lparr>tp_observed_at_unix_secs = now, tp_fingerprint_version = current_fingerprint_version,
          tp_model_hash = hash_serializable env (PartModel (req_model r)),
          tp_system_hash = hash_serializable env (PartSystem (req_system r)),
          tp_tools_hash = hash_serializable env (PartTools (req_tools r)),
          tp_messages_hash = hash_serializable env (PartMessages (req_messages r)),
          tp_cache_read_input_tokens = cu_cache_read_input_tokens u\<rparr>, w1))"

section \<open>Breaks of the cache\<close>

definition saturating_sub_u64 :: "u64 \<Rightarrow> u64 \<Rightarrow> u64" where
  "saturating_sub_u64 a b = (if b \<le> a then a - b else 0)"

definition changed_parts :: "tracked_prompt \<Rightarrow> tracked_prompt \<Rightarrow> string list" where
  "changed_parts previous current =
     (if tp_model_hash previous \<noteq> tp_model_hash current then [''model changed''] else [])
     @ (if tp_system_hash previous \<noteq> tp_system_hash current then [''system prompt changed''] else [])
     @ (if tp_tools_hash previous \<noteq> tp_tools_hash current then [''tool definitions changed''] else [])
     @ (if tp_messages_hash previous \<noteq> tp_messages_hash current then [''message payload changed''] else [])"

definition detect_cache_break :: "cache_config \<Rightarrow> tracked_prompt option \<Rightarrow> tracked_prompt \<Rightarrow> cache_break_event option" where
  "detect_cache_break config previous current =
     Option.bind previous (\<lambda>previous.
       let token_drop = saturating_sub_u32 (tp_cache_read_input_tokens previous) (tp_cache_read_input_tokens current);
           event = (\<lambda>unexpected reason. Some \<lparr>cb_unexpected = unexpected, cb_reason = reason,
              cb_previous_cache_read_input_tokens = tp_cache_read_input_tokens previous,
              cb_current_cache_read_input_tokens = tp_cache_read_input_tokens current, cb_token_drop = token_drop\<rparr>)
       in if tp_fingerprint_version previous \<noteq> tp_fingerprint_version current then
            event False (''fingerprint version changed (v'' @ show_u32 (tp_fingerprint_version previous) @ '' -> v''
              @ show_u32 (tp_fingerprint_version current) @ '')'')
          else if token_drop < pc_cache_break_min_drop config then None
          else
            (let reasons = changed_parts previous current;
                 elapsed = saturating_sub_u64 (tp_observed_at_unix_secs current) (tp_observed_at_unix_secs previous)
             in if reasons \<noteq> [] then event False (join '', '' reasons)
                else if unat elapsed > pc_prompt_ttl config div 10 ^ 9 then
                  event False (''possible prompt cache TTL expiry after '' @ show_nat (unat elapsed) @ ''s'')
                else event True ''cache read tokens dropped while prompt fingerprint remained stable''))"

definition apply_usage_to_stats :: "claw_usage \<Rightarrow> string \<Rightarrow> string \<Rightarrow> cache_stats \<Rightarrow> cache_stats" where
  "apply_usage_to_stats u request_hash source stats =
     stats\<lparr>cst_total_cache_creation_input_tokens :=
         cst_total_cache_creation_input_tokens stats + ucast (cu_cache_creation_input_tokens u),
       cst_total_cache_read_input_tokens := cst_total_cache_read_input_tokens stats + ucast (cu_cache_read_input_tokens u),
       cst_last_cache_creation_input_tokens := Some (cu_cache_creation_input_tokens u),
       cst_last_cache_read_input_tokens := Some (cu_cache_read_input_tokens u),
       cst_last_request_hash := Some request_hash, cst_last_cache_source := Some source\<rparr>"

section \<open>Files\<close>

text \<open>Callers ignore the results.\<close>

definition write_json :: "'v file_codec \<Rightarrow> path \<Rightarrow> 'v \<Rightarrow> fs \<Rightarrow> fs" where
  "write_json c p v s = (case fc_write c v of None \<Rightarrow> s | Some bytes \<Rightarrow> snd (fs_write p bytes s))"

definition read_json :: "'v file_codec \<Rightarrow> path \<Rightarrow> fs \<Rightarrow> 'v option \<times> fs" where
  "read_json c p s = (case fs_read p s of (Inl _, s1) \<Rightarrow> (None, s1) | (Inr bytes, s1) \<Rightarrow> (fc_read c bytes, s1))"

definition ensure_cache_dirs :: "cache_paths \<Rightarrow> fs \<Rightarrow> fs" where
  "ensure_cache_dirs paths s = snd (fs_create_dir_all (pp_completion_dir paths) s)"

definition persist_state :: "cache_codecs \<Rightarrow> prompt_cache \<Rightarrow> fs \<Rightarrow> fs" where
  "persist_state co c s =
     (let s1 = write_json (co_stats co) (pp_stats_path (ca_paths c)) (ca_stats c) (ensure_cache_dirs (ca_paths c) s)
      in case ca_previous c of
           None \<Rightarrow> s1
         | Some previous \<Rightarrow> write_json (co_state co) (pp_session_state_path (ca_paths c)) previous s1)"

definition write_completion_entry ::
  "cache_codecs \<Rightarrow> cache_paths \<Rightarrow> string \<Rightarrow> claw_response \<Rightarrow> 'n api_world \<Rightarrow> 'n api_world" where
  "write_completion_entry co paths request_hash response w =
     (let w1 = w\<lparr>aw_fs := ensure_cache_dirs paths (aw_fs w)\<rparr>; (now, w2) = now_unix_secs w1;
          entry = \<lparr>en_cached_at_unix_secs = now, en_fingerprint_version = current_fingerprint_version,
            en_response = response\<rparr>
      in w2\<lparr>aw_fs := write_json (co_entry co) (completion_entry_path paths request_hash) entry (aw_fs w2)\<rparr>)"

definition cache_with_config :: "cache_codecs \<Rightarrow> path \<Rightarrow> cache_config \<Rightarrow> fs \<Rightarrow> prompt_cache \<times> fs" where
  "cache_with_config co root config s =
     (let paths = cache_paths_for root (pc_session_id config);
          (stats, s1) = read_json (co_stats co) (pp_stats_path paths) s;
          (previous, s2) = read_json (co_state co) (pp_session_state_path paths) s1
      in (\<lparr>ca_config = config, ca_paths = paths, ca_stats = unwrap_or stats_default stats, ca_previous = previous\<rparr>, s2))"

section \<open>Operations\<close>

definition persisted :: "cache_codecs \<Rightarrow> prompt_cache \<Rightarrow> 'n api_world \<Rightarrow> prompt_cache \<times> 'n api_world" where
  "persisted co c w = (c, w\<lparr>aw_fs := persist_state co c (aw_fs w)\<rparr>)"

definition count_miss :: "string \<Rightarrow> prompt_cache \<Rightarrow> prompt_cache" where
  "count_miss request_hash c =
     c\<lparr>ca_stats := (ca_stats c)\<lparr>cst_completion_cache_misses := cst_completion_cache_misses (ca_stats c) + 1,
         cst_last_completion_cache_key := Some request_hash\<rparr>\<rparr>"

text \<open>A stale entry is removed.\<close>

definition stale_miss ::
  "cache_codecs \<Rightarrow> string \<Rightarrow> prompt_cache \<Rightarrow> 'n api_world \<Rightarrow> prompt_cache \<times> 'n api_world" where
  "stale_miss co request_hash c w =
     persisted co (count_miss request_hash c)
       (w\<lparr>aw_fs := snd (fs_remove_file (completion_entry_path (ca_paths c) request_hash) (aw_fs w))\<rparr>)"

definition lookup_completion ::
  "'n api_env \<Rightarrow> cache_codecs \<Rightarrow> message_request \<Rightarrow> prompt_cache \<Rightarrow> 'n api_world
    \<Rightarrow> claw_response option \<times> prompt_cache \<times> 'n api_world" where
  "lookup_completion env co r c w =
     (let request_hash = request_hash_hex env r
      in case api_files (read_json (co_entry co) (completion_entry_path (ca_paths c) request_hash)) w of
           (None, w1) \<Rightarrow> (None, persisted co (count_miss request_hash c) w1)
         | (Some entry, w1) \<Rightarrow>
             if en_fingerprint_version entry \<noteq> current_fingerprint_version
             then (None, stale_miss co request_hash c w1)
             else
               (let (now, w2) = now_unix_secs w1;
                    age = saturating_sub_u64 now (en_cached_at_unix_secs entry)
                in if unat age \<ge> pc_completion_ttl (ca_config c) div 10 ^ 9
                   then (None, stale_miss co request_hash c w2)
                   else
                     (let stats = apply_usage_to_stats (mr_usage (en_response entry)) request_hash ''completion-cache''
                            ((ca_stats c)\<lparr>cst_last_completion_cache_key := Some request_hash,
                               cst_completion_cache_hits := cst_completion_cache_hits (ca_stats c) + 1\<rparr>);
                          (previous, w3) = tracked_from_usage env r (mr_usage (en_response entry)) w2
                      in (Some (en_response entry), persisted co (c\<lparr>ca_stats := stats, ca_previous := Some previous\<rparr>) w3))))"

definition count_break :: "cache_break_event option \<Rightarrow> cache_stats \<Rightarrow> cache_stats" where
  "count_break event stats =
     (case event of
        None \<Rightarrow> stats
      | Some event \<Rightarrow>
          (if cb_unexpected event
           then stats\<lparr>cst_unexpected_cache_breaks := cst_unexpected_cache_breaks stats + 1\<rparr>
           else stats\<lparr>cst_expected_invalidations := cst_expected_invalidations stats + 1\<rparr>)
            \<lparr>cst_last_break_reason := Some (cb_reason event)\<rparr>)"

definition record_usage_internal ::
  "'n api_env \<Rightarrow> cache_codecs \<Rightarrow> message_request \<Rightarrow> claw_usage \<Rightarrow> claw_response option \<Rightarrow> prompt_cache \<Rightarrow> 'n api_world
    \<Rightarrow> cache_record \<times> prompt_cache \<times> 'n api_world" where
  "record_usage_internal env co r u response c w =
     (let request_hash = request_hash_hex env r;
          (current, w1) = tracked_from_usage env r u w;
          cache_break = detect_cache_break (ca_config c) (ca_previous c) current;
          stats = count_break cache_break (apply_usage_to_stats u request_hash ''api-response''
            ((ca_stats c)\<lparr>cst_tracked_requests := cst_tracked_requests (ca_stats c) + 1\<rparr>));
          (stats, w2) = (case response of
              None \<Rightarrow> (stats, w1)
            | Some response \<Rightarrow>
                (stats\<lparr>cst_completion_cache_writes := cst_completion_cache_writes stats + 1\<rparr>,
                 write_completion_entry co (ca_paths c) request_hash response w1));
          (c', w3) = persisted co (c\<lparr>ca_stats := stats, ca_previous := Some current\<rparr>) w2
      in (\<lparr>cr_cache_break = cache_break, cr_stats = stats\<rparr>, c', w3))"

definition record_response where
  "record_response env co r response = record_usage_internal env co r (mr_usage response) (Some response)"

definition record_usage where
  "record_usage env co r u = record_usage_internal env co r u None"

end
