(* ===== verification/RefTelemetry.thy ===== *)
theory RefTelemetry
  imports Json FileSys
begin

text \<open>
  \<open>claw-rust/crates/telemetry/src/lib.rs\<close>: the identity of the client, the profile of its requests, the
  events, the two sinks and the tracer of a session. A tracer keeps the list of events its sink was
  given; the file sink writes their lines. Readings of the clock are milliseconds since the epoch.
\<close>

section \<open>Identity and profile\<close>

record claw_identity =
  cid_app_name :: string
  cid_app_version :: string
  cid_runtime :: string

definition claw_identity_new :: "string \<Rightarrow> string \<Rightarrow> claw_identity" where
  "claw_identity_new app_name app_version =
     \<lparr>cid_app_name = app_name, cid_app_version = app_version, cid_runtime = ''rust''\<rparr>"

definition claw_with_runtime :: "string \<Rightarrow> claw_identity \<Rightarrow> claw_identity" where
  "claw_with_runtime r i = i\<lparr>cid_runtime := r\<rparr>"

definition claw_user_agent :: "claw_identity \<Rightarrow> string" where
  "claw_user_agent i = cid_app_name i @ ''/'' @ cid_app_version i"

text \<open>The version of the package is set when it is built.\<close>

definition claw_identity_default :: "string \<Rightarrow> claw_identity" where
  "claw_identity_default version = claw_identity_new ''claude-code'' version"

record request_profile =
  rp_anthropic_version :: string
  rp_identity :: claw_identity
  rp_betas :: "string list"
  rp_extra_body :: "(string, json) btree"

definition profile_new :: "claw_identity \<Rightarrow> request_profile" where
  "profile_new i = \<lparr>rp_anthropic_version = ''2023-06-01'', rp_identity = i,
     rp_betas = [''claude-code-20250219'', ''prompt-caching-scope-2026-01-05''], rp_extra_body = []\<rparr>"

definition with_beta :: "string \<Rightarrow> request_profile \<Rightarrow> request_profile" where
  "with_beta beta p = (if beta \<in> set (rp_betas p) then p else p\<lparr>rp_betas := rp_betas p @ [beta]\<rparr>)"

definition with_extra_body :: "string \<Rightarrow> json \<Rightarrow> request_profile \<Rightarrow> request_profile" where
  "with_extra_body k v p = p\<lparr>rp_extra_body := bt_insert k v (rp_extra_body p)\<rparr>"

definition header_pairs :: "request_profile \<Rightarrow> (string \<times> string) list" where
  "header_pairs p =
     [(''anthropic-version'', rp_anthropic_version p), (''user-agent'', claw_user_agent (rp_identity p))]
     @ (if rp_betas p = [] then [] else [(''anthropic-beta'', join '','' (rp_betas p))])"

text \<open>Entries inserted one by one into an object; the value of the request is given, or its error.\<close>

definition insert_all :: "(string, json) btree \<Rightarrow> (string, json) btree \<Rightarrow> (string, json) btree" where
  "insert_all entries m = fold (\<lambda>(k, v) m. bt_insert k v m) entries m"

definition render_json_body :: "request_profile \<Rightarrow> string + json \<Rightarrow> string + json" where
  "render_json_body p value =
     and_then value (\<lambda>body.
       case as_object body of
         None \<Rightarrow> Inl ''request body must serialize to a JSON object''
       | Some m \<Rightarrow>
           (let m = insert_all (rp_extra_body p) m
            in Inr (JObj (if rp_betas p = [] then m else bt_insert ''betas'' (JArr (map JStr (rp_betas p))) m))))"

section \<open>Events\<close>

record analytics_event =
  an_namespace :: string
  an_action :: string
  an_properties :: "(string, json) btree"

definition analytics_new :: "string \<Rightarrow> string \<Rightarrow> analytics_event" where
  "analytics_new namespace action = \<lparr>an_namespace = namespace, an_action = action, an_properties = []\<rparr>"

definition with_property :: "string \<Rightarrow> json \<Rightarrow> analytics_event \<Rightarrow> analytics_event" where
  "with_property k v e = e\<lparr>an_properties := bt_insert k v (an_properties e)\<rparr>"

record session_trace =
  st_session_id :: string
  st_sequence :: u64
  st_name :: string
  st_timestamp_ms :: u64
  st_attributes :: "(string, json) btree"

text \<open>Session, attempt, method and path come first in the three events of a request.\<close>

datatype claw_telemetry =
    HttpRequestStarted string u32 string string "(string, json) btree"
  | HttpRequestSucceeded string u32 string string u16 "string option" "(string, json) btree"
  | HttpRequestFailed string u32 string string string bool "(string, json) btree"
  | Analytics analytics_event
  | SessionTrace session_trace

section \<open>The file sink\<close>

text \<open>\<open>OpenOptions::new().create(true).append(true).open\<close>.\<close>

definition fs_open_or_create :: "path \<Rightarrow> fs \<Rightarrow> (io_error + loc) \<times> fs" where
  "fs_open_or_create p s =
     guarded s (\<lambda>s.
       case locate True s p of
         Inl e \<Rightarrow> (Inl e, s)
       | Inr l \<Rightarrow>
           (case node_at (fs_nodes s) l of
              Some (FileNode _) \<Rightarrow> (Inr l, s)
            | None \<Rightarrow> (Inr l, s\<lparr>fs_nodes := put_node l (FileNode []) (fs_nodes s)\<rparr>)
            | _ \<Rightarrow> (Inl IsADirectory, s)))"

definition jsonl_sink_new :: "path \<Rightarrow> fs \<Rightarrow> (io_error + loc) \<times> fs" where
  "jsonl_sink_new p s =
     io_bind (case path_parent p of None \<Rightarrow> (Inr (), s) | Some parent \<Rightarrow> fs_create_dir_all parent s)
       (\<lambda>_. fs_open_or_create p)"

text \<open>An event that cannot be written as JSON and a failing write are ignored.\<close>

definition jsonl_sink_record :: "(claw_telemetry \<Rightarrow> string option) \<Rightarrow> loc \<Rightarrow> claw_telemetry \<Rightarrow> fs \<Rightarrow> fs" where
  "jsonl_sink_record to_string l e s =
     (case to_string e of
        None \<Rightarrow> s
      | Some line \<Rightarrow> snd (io_bind (fs_append l line s) (\<lambda>_. fs_append l nl)))"

section \<open>The tracer\<close>

record claw_tracer =
  ct_session_id :: string
  ct_sequence :: u64
  ct_events :: "claw_telemetry list"

definition claw_tracer_new :: "string \<Rightarrow> claw_tracer" where
  "claw_tracer_new session_id = \<lparr>ct_session_id = session_id, ct_sequence = 0, ct_events = []\<rparr>"

definition sink_record :: "claw_telemetry \<Rightarrow> claw_tracer \<Rightarrow> claw_tracer" where
  "sink_record e t = t\<lparr>ct_events := ct_events t @ [e]\<rparr>"

definition millis_of :: "nat option \<Rightarrow> u64" where
  "millis_of now = (case now of None \<Rightarrow> 0 | Some n \<Rightarrow> if n < 2 ^ 64 then of_nat n else - 1)"

definition tracer_record :: "nat option \<Rightarrow> string \<Rightarrow> (string, json) btree \<Rightarrow> claw_tracer \<Rightarrow> claw_tracer" where
  "tracer_record now name attributes t =
     sink_record (SessionTrace \<lparr>st_session_id = ct_session_id t, st_sequence = ct_sequence t, st_name = name,
         st_timestamp_ms = millis_of now, st_attributes = attributes\<rparr>)
       (t\<lparr>ct_sequence := ct_sequence t + 1\<rparr>)"

definition merge_trace_fields ::
  "string \<Rightarrow> string \<Rightarrow> u32 \<Rightarrow> (string, json) btree \<Rightarrow> (string, json) btree" where
  "merge_trace_fields http_method path n attributes =
     bt_insert ''attempt'' (ju32 n) (bt_insert ''path'' (JStr path) (bt_insert ''method'' (JStr http_method) attributes))"

definition record_http_request_started ::
  "nat option \<Rightarrow> u32 \<Rightarrow> string \<Rightarrow> string \<Rightarrow> (string, json) btree \<Rightarrow> claw_tracer \<Rightarrow> claw_tracer" where
  "record_http_request_started now n http_method path attributes t =
     tracer_record now ''http_request_started'' (merge_trace_fields http_method path n attributes)
       (sink_record (HttpRequestStarted (ct_session_id t) n http_method path attributes) t)"

definition record_http_request_succeeded ::
  "nat option \<Rightarrow> u32 \<Rightarrow> string \<Rightarrow> string \<Rightarrow> u16 \<Rightarrow> string option \<Rightarrow> (string, json) btree \<Rightarrow> claw_tracer \<Rightarrow> claw_tracer" where
  "record_http_request_succeeded now n http_method path status request_id attributes t =
     (let trace = bt_insert ''status'' (JNum (PosInt (ucast status))) (merge_trace_fields http_method path n attributes);
          trace = (case request_id of None \<Rightarrow> trace | Some i \<Rightarrow> bt_insert ''request_id'' (JStr i) trace)
      in tracer_record now ''http_request_succeeded'' trace
           (sink_record (HttpRequestSucceeded (ct_session_id t) n http_method path status request_id attributes) t))"

definition record_http_request_failed ::
  "nat option \<Rightarrow> u32 \<Rightarrow> string \<Rightarrow> string \<Rightarrow> string \<Rightarrow> bool \<Rightarrow> (string, json) btree \<Rightarrow> claw_tracer \<Rightarrow> claw_tracer" where
  "record_http_request_failed now n http_method path error retryable attributes t =
     (let trace = bt_insert ''retryable'' (JBool retryable)
            (bt_insert ''error'' (JStr error) (merge_trace_fields http_method path n attributes))
      in tracer_record now ''http_request_failed'' trace
           (sink_record (HttpRequestFailed (ct_session_id t) n http_method path error retryable attributes) t))"

definition record_analytics :: "nat option \<Rightarrow> analytics_event \<Rightarrow> claw_tracer \<Rightarrow> claw_tracer" where
  "record_analytics now e t =
     tracer_record now ''analytics''
       (bt_insert ''action'' (JStr (an_action e)) (bt_insert ''namespace'' (JStr (an_namespace e)) (an_properties e)))
       (sink_record (Analytics e) t)"

section \<open>Properties\<close>

fun trace_sequence :: "claw_telemetry \<Rightarrow> u64 option" where
  "trace_sequence (SessionTrace r) = Some (st_sequence r)"
| "trace_sequence _ = None"

text \<open>The sequence numbers in the sink count up from zero, and the next one is how many there are.\<close>

definition sequenced :: "claw_tracer \<Rightarrow> bool" where
  "sequenced t \<longleftrightarrow>
     (let ns = List.map_filter trace_sequence (ct_events t)
      in ns = map of_nat [0..<length ns] \<and> ct_sequence t = of_nat (length ns))"

lemma sequenced_new: "sequenced (claw_tracer_new i)"
  by (simp add: sequenced_def claw_tracer_new_def)

lemma sequenced_sink: "trace_sequence e = None \<Longrightarrow> sequenced t \<Longrightarrow> sequenced (sink_record e t)"
  by (simp add: sequenced_def sink_record_def map_filter_def Let_def)

lemma sequenced_record: "sequenced t \<Longrightarrow> sequenced (tracer_record now name attributes t)"
proof -
  assume seq: "sequenced t"
  define ns where "ns = List.map_filter trace_sequence (ct_events t)"
  have split: "List.map_filter trace_sequence (ct_events (tracer_record now name attributes t)) = ns @ [ct_sequence t]"
    by (simp add: tracer_record_def sink_record_def map_filter_def ns_def)
  have "ns = map of_nat [0..<length ns]" "ct_sequence t = of_nat (length ns)"
    using seq unfolding sequenced_def Let_def ns_def by blast+
  then show ?thesis
    unfolding sequenced_def Let_def split by (simp add: tracer_record_def sink_record_def)
qed

text \<open>Every operation keeps the numbers in step.\<close>

lemma sequenced_steps:
  assumes "sequenced t"
  shows "sequenced (record_http_request_started now n m p a t)"
    and "sequenced (record_http_request_succeeded now n m p status rid a t)"
    and "sequenced (record_http_request_failed now n m p e r a t)"
    and "sequenced (record_analytics now ev t)"
  using assms
  by (simp_all add: record_http_request_started_def record_http_request_succeeded_def record_http_request_failed_def
      record_analytics_def Let_def sequenced_record sequenced_sink)

text \<open>A body sent keeps the extra parameters that do not name the betas.\<close>

lemma insert_all_get: "bt_get (insert_all entries m) k = (case map_of (rev entries) k of None \<Rightarrow> bt_get m k | Some v \<Rightarrow> Some v)"
proof (induction entries arbitrary: m)
  case (Cons kv entries)
  then show ?case
    by (cases kv) (simp add: insert_all_def bt.get_ins map_add_def split: option.split)
qed (simp add: insert_all_def)

lemma rendered_body:
  assumes "value = Inr v" and "as_object v = Some m"
  shows "\<exists>body. render_json_body p value = Inr body \<and> json_get body k =
    (if k = ''betas'' \<and> rp_betas p \<noteq> [] then Some (JArr (map JStr (rp_betas p)))
     else case map_of (rev (rp_extra_body p)) k of None \<Rightarrow> bt_get m k | Some x \<Rightarrow> Some x)"
  using assms by (simp add: render_json_body_def insert_all_get bt.get_ins Let_def)

end
