(* ===== verification/RefAnthropic.thy ===== *)
theory RefAnthropic
  imports RefOpenAiClient RefPromptCache RefTelemetry
begin

text \<open>
  \<open>claw-rust/crates/api/src/providers/anthropic.rs\<close>, requests and whole answers: credentials, the client with
  its request profile, prompt cache and tracer, the check of a request before it is sent, and the retries.
  What the client and its streams share behind a mutex is a state of its own beside the world.
\<close>

section \<open>Credentials\<close>

datatype auth_source =
    AuthNone
  | AuthApiKey string
  | AuthBearer string
  | AuthBoth string string

fun auth_api_key :: "auth_source \<Rightarrow> string option" where
  "auth_api_key (AuthApiKey k) = Some k"
| "auth_api_key (AuthBoth k t) = Some k"
| "auth_api_key _ = None"

fun auth_bearer :: "auth_source \<Rightarrow> string option" where
  "auth_bearer (AuthBearer t) = Some t"
| "auth_bearer (AuthBoth k t) = Some t"
| "auth_bearer _ = None"

definition masked_authorization_header :: "auth_source \<Rightarrow> string" where
  "masked_authorization_header a = (if auth_bearer a \<noteq> None then ''Bearer [REDACTED]'' else ''<absent>'')"

text \<open>The headers \<open>apply\<close> adds.\<close>

definition auth_headers :: "auth_source \<Rightarrow> (string \<times> string) list" where
  "auth_headers a =
     (case auth_api_key a of None \<Rightarrow> [] | Some k \<Rightarrow> [(''x-api-key'', k)])
     @ (case auth_bearer a of None \<Rightarrow> [] | Some t \<Rightarrow> [(''authorization'', ''Bearer '' @ t)])"

definition auth_from_env :: "'n api_env \<Rightarrow> fs \<Rightarrow> (claw_error + auth_source) \<times> fs" where
  "auth_from_env env s =
     io_bind (claw_read_env env ''ANTHROPIC_API_KEY'' s) (\<lambda>api_key s1.
     io_bind (claw_read_env env ''ANTHROPIC_AUTH_TOKEN'' s1) (\<lambda>auth_token s2.
       case (api_key, auth_token) of
         (Some k, Some t) \<Rightarrow> (Inr (AuthBoth k t), s2)
       | (Some k, None) \<Rightarrow> (Inr (AuthApiKey k), s2)
       | (None, Some t) \<Rightarrow> (Inr (AuthBearer t), s2)
       | (None, None) \<Rightarrow> (case anthropic_missing_credentials env s2 of (e, s3) \<Rightarrow> (Inl e, s3))))"

definition auth_from_env_or_saved :: "'n api_env \<Rightarrow> fs \<Rightarrow> (claw_error + auth_source) \<times> fs" where
  "auth_from_env_or_saved env s =
     io_bind (claw_read_env env ''ANTHROPIC_API_KEY'' s) (\<lambda>api_key s1.
       case api_key of
         Some k \<Rightarrow>
           io_bind (claw_read_env env ''ANTHROPIC_AUTH_TOKEN'' s1) (\<lambda>auth_token s2.
             (Inr (case auth_token of Some t \<Rightarrow> AuthBoth k t | None \<Rightarrow> AuthApiKey k), s2))
       | None \<Rightarrow>
           io_bind (claw_read_env env ''ANTHROPIC_AUTH_TOKEN'' s1) (\<lambda>auth_token s2.
             case auth_token of
               Some t \<Rightarrow> (Inr (AuthBearer t), s2)
             | None \<Rightarrow> (case anthropic_missing_credentials env s2 of (e, s3) \<Rightarrow> (Inl e, s3))))"

text \<open>The loader of the configuration is not called.\<close>

definition resolve_startup_auth_source :: "'n api_env \<Rightarrow> fs \<Rightarrow> (claw_error + auth_source) \<times> fs" where
  "resolve_startup_auth_source env s =
     io_bind (claw_read_env env ''ANTHROPIC_API_KEY'' s) (\<lambda>api_key s1.
       case api_key of
         Some k \<Rightarrow>
           io_bind (claw_read_env env ''ANTHROPIC_AUTH_TOKEN'' s1) (\<lambda>auth_token s2.
             case auth_token of Some t \<Rightarrow> (Inr (AuthBoth k t), s2) | None \<Rightarrow> (Inr (AuthApiKey k), s2))
       | None \<Rightarrow>
           io_bind (claw_read_env env ''ANTHROPIC_AUTH_TOKEN'' s1) (\<lambda>auth_token s2.
             case auth_token of
               Some t \<Rightarrow> (Inr (AuthBearer t), s2)
             | None \<Rightarrow> (case anthropic_missing_credentials env s2 of (e, s3) \<Rightarrow> (Inl e, s3))))"

definition anthropic_read_base_url :: "'n api_env \<Rightarrow> string" where
  "anthropic_read_base_url env = (case ae_vars env ''ANTHROPIC_BASE_URL'' of EnvValue v \<Rightarrow> v | _ \<Rightarrow> default_anthropic_base_url)"

section \<open>The client\<close>

record anthropic_client =
  an_auth :: auth_source
  an_base_url :: string
  an_max_retries :: u32
  an_initial_backoff :: duration
  an_max_backoff :: duration
  an_profile :: request_profile

text \<open>The tracer, the prompt cache and the last record, shared by the client and its streams.\<close>

record 'n anthropic_state =
  as_tracer :: "claw_tracer option"
  as_cache :: "prompt_cache option"
  as_last_record :: "cache_record option"
  as_world :: "'n api_world"

definition anthropic_from_auth :: "string \<Rightarrow> auth_source \<Rightarrow> anthropic_client" where
  "anthropic_from_auth version auth = \<lparr>an_auth = auth, an_base_url = default_anthropic_base_url, an_max_retries = 8,
     an_initial_backoff = 10 ^ 9, an_max_backoff = 128 * 10 ^ 9, an_profile = profile_new (claw_identity_default version)\<rparr>"

definition anthropic_new :: "string \<Rightarrow> string \<Rightarrow> anthropic_client" where
  "anthropic_new version api_key = \<lparr>an_auth = AuthApiKey api_key, an_base_url = default_anthropic_base_url, an_max_retries = 8,
     an_initial_backoff = 10 ^ 9, an_max_backoff = 128 * 10 ^ 9, an_profile = profile_new (claw_identity_default version)\<rparr>"

text \<open>A new client has no tracer, no cache and no record.\<close>

definition fresh_shared :: "'n api_world \<Rightarrow> 'n anthropic_state" where
  "fresh_shared w = \<lparr>as_tracer = None, as_cache = None, as_last_record = None, as_world = w\<rparr>"

definition anthropic_from_env :: "'n api_env \<Rightarrow> string \<Rightarrow> fs \<Rightarrow> (claw_error + anthropic_client) \<times> fs" where
  "anthropic_from_env env version s =
     io_bind (auth_from_env_or_saved env s) (\<lambda>auth s1.
       (Inr ((anthropic_from_auth version auth)\<lparr>an_base_url := anthropic_read_base_url env\<rparr>), s1))"

definition with_auth_token :: "string option \<Rightarrow> anthropic_client \<Rightarrow> anthropic_client" where
  "with_auth_token auth_token c =
     (let token = Option.bind auth_token (\<lambda>t. if t = [] then None else Some t)
      in c\<lparr>an_auth := (case (auth_api_key (an_auth c), token) of
            (Some k, Some t) \<Rightarrow> AuthBoth k t
          | (Some k, None) \<Rightarrow> AuthApiKey k
          | (None, Some t) \<Rightarrow> AuthBearer t
          | (None, None) \<Rightarrow> AuthNone)\<rparr>)"

definition anthropic_with_retry_policy :: "u32 \<Rightarrow> duration \<Rightarrow> duration \<Rightarrow> anthropic_client \<Rightarrow> anthropic_client" where
  "anthropic_with_retry_policy max_retries initial_backoff max_backoff c =
     c\<lparr>an_max_retries := max_retries, an_initial_backoff := initial_backoff, an_max_backoff := max_backoff\<rparr>"

definition anthropic_with_identity :: "claw_identity \<Rightarrow> anthropic_client \<Rightarrow> anthropic_client" where
  "anthropic_with_identity i c = c\<lparr>an_profile := (an_profile c)\<lparr>rp_identity := i\<rparr>\<rparr>"

definition anthropic_with_beta :: "string \<Rightarrow> anthropic_client \<Rightarrow> anthropic_client" where
  "anthropic_with_beta beta c = c\<lparr>an_profile := with_beta beta (an_profile c)\<rparr>"

definition anthropic_with_extra_body :: "string \<Rightarrow> json \<Rightarrow> anthropic_client \<Rightarrow> anthropic_client" where
  "anthropic_with_extra_body k v c = c\<lparr>an_profile := with_extra_body k v (an_profile c)\<rparr>"

definition take_last_record :: "'n anthropic_state \<Rightarrow> cache_record option \<times> 'n anthropic_state" where
  "take_last_record st = (as_last_record st, st\<lparr>as_last_record := None\<rparr>)"

text \<open>Every operation of the tracer reads the clock once, in milliseconds.\<close>

definition traced :: "(nat option \<Rightarrow> claw_tracer \<Rightarrow> claw_tracer) \<Rightarrow> 'n anthropic_state \<Rightarrow> 'n anthropic_state" where
  "traced f st =
     (case as_tracer st of
        None \<Rightarrow> st
      | Some t \<Rightarrow>
          (case read_clock (as_world st) of
             (reading, w) \<Rightarrow> st\<lparr>as_tracer := Some (f (map_option (\<lambda>n. n div 10 ^ 6) reading) t), as_world := w\<rparr>))"

section \<open>Sending\<close>

definition strip_unsupported_beta_body_fields :: "json \<Rightarrow> json" where
  "strip_unsupported_beta_body_fields body =
     (case body of
        JObj m \<Rightarrow>
          (let m1 = bt_remove ''presence_penalty'' (bt_remove ''frequency_penalty'' (bt_remove ''betas'' m))
           in JObj (case bt_get m1 ''stop'' of
                None \<Rightarrow> m1
              | Some stop_val \<Rightarrow>
                  (let m2 = bt_remove ''stop'' m1
                   in case as_array stop_val of
                        None \<Rightarrow> m2
                      | Some a \<Rightarrow> if a = [] then m2 else bt_insert ''stop_sequences'' stop_val m2)))
      | _ \<Rightarrow> body)"

definition anthropic_headers :: "anthropic_client \<Rightarrow> (string \<times> string) list" where
  "anthropic_headers c = (''content-type'', ''application/json'') # auth_headers (an_auth c) @ header_pairs (an_profile c)"

definition anthropic_body :: "'n api_env \<Rightarrow> anthropic_client \<Rightarrow> message_request \<Rightarrow> claw_error + json" where
  "anthropic_body env c r =
     (case render_json_body (an_profile c) (ae_request_value env r) of
        Inl e \<Rightarrow> Inl (ClawJson ''unknown'' ''unknown'' [] e)
      | Inr body \<Rightarrow> Inr (strip_unsupported_beta_body_fields body))"

definition anthropic_post ::
  "'n api_env \<Rightarrow> anthropic_client \<Rightarrow> string \<Rightarrow> message_request \<Rightarrow> 'n api_world
    \<Rightarrow> (claw_error + http_response) \<times> 'n api_world" where
  "anthropic_post env c endpoint r w =
     (case anthropic_body env c r of
        Inl e \<Rightarrow> (Inl e, w)
      | Inr body \<Rightarrow> api_post env (trim_end_matches (CHR ''/'') (an_base_url c) @ endpoint) (anthropic_headers c) (JsonBody body) w)"

definition anthropic_send_raw where
  "anthropic_send_raw env c r w = anthropic_post env c ''/v1/messages'' r w"

definition anthropic_retryable_status :: "u16 \<Rightarrow> bool" where
  "anthropic_retryable_status s \<longleftrightarrow> s \<in> {408, 409, 429, 500, 502, 503, 504}"

definition anthropic_expect_success :: "'n api_env \<Rightarrow> http_response \<Rightarrow> claw_error + http_response" where
  "anthropic_expect_success env response =
     (let status = hr_status response
      in if status_success status then Inr response
         else
           (let request_id = request_id_from_headers (hr_headers response);
                body = (case hr_body response of Inl _ \<Rightarrow> [] | Inr b \<Rightarrow> b);
                parsed_error = ae_anthropic_envelope env body
            in Inl (ClawApi status (map_option fst parsed_error) (map_option snd parsed_error) request_id body
                 (anthropic_retryable_status status) None)))"

definition sk_ant_bearer_hint :: string where
  "sk_ant_bearer_hint = ''sk-ant-* keys go in ANTHROPIC_API_KEY (x-api-key header), not ANTHROPIC_AUTH_TOKEN (Bearer header). Move your key to ANTHROPIC_API_KEY.''"

fun enrich_bearer_auth_error :: "claw_error \<Rightarrow> auth_source \<Rightarrow> claw_error" where
  "enrich_bearer_auth_error (ClawApi status error_type message request_id body retryable suggested_action) auth =
     (let same = ClawApi status error_type message request_id body retryable suggested_action
      in if status \<noteq> 401 then same
         else case auth_bearer auth of
           None \<Rightarrow> same
         | Some bearer_token \<Rightarrow>
             if \<not> starts_with bearer_token ''sk-ant-'' then same
             else if auth_api_key auth \<noteq> None then same
             else ClawApi status error_type
               (Some (case message of
                  Some existing \<Rightarrow> existing @ '' '' @ em_dash @ '' hint: '' @ sk_ant_bearer_hint
                | None \<Rightarrow> ''hint: '' @ sk_ant_bearer_hint)) request_id body retryable suggested_action)"
| "enrich_bearer_auth_error e auth = e"

definition count_tokens ::
  "'n api_env \<Rightarrow> anthropic_client \<Rightarrow> message_request \<Rightarrow> 'n api_world \<Rightarrow> (claw_error + u32) \<times> 'n api_world" where
  "count_tokens env c r =
     api_bind (anthropic_post env c ''/v1/messages/count_tokens'' r) (\<lambda>response w.
       (case anthropic_expect_success env response of
          Inl e \<Rightarrow> Inl e
        | Inr response \<Rightarrow>
            (case hr_body response of
               Inl e \<Rightarrow> Inl (ClawHttp e)
             | Inr body \<Rightarrow> map_err (claw_json_deserialize ''Anthropic count_tokens'' (req_model r) body) (ae_counted env body)), w))"

text \<open>The estimate first; then the provider's own count, which is passed over when it fails.\<close>

definition anthropic_preflight ::
  "'n api_env \<Rightarrow> anthropic_client \<Rightarrow> message_request \<Rightarrow> 'n api_world \<Rightarrow> (claw_error + unit) \<times> 'n api_world" where
  "anthropic_preflight env c r w =
     (case preflight_message_request env r of
        Inl e \<Rightarrow> (Inl e, w)
      | Inr _ \<Rightarrow>
          (case model_token_limit (req_model r) of
             None \<Rightarrow> (Inr (), w)
           | Some limit \<Rightarrow>
               (case count_tokens env c r w of
                  (Inl _, w1) \<Rightarrow> (Inr (), w1)
                | (Inr counted_input_tokens, w1) \<Rightarrow> (window_check r counted_input_tokens limit, w1))))"

definition record_request_failure :: "'n api_env \<Rightarrow> u32 \<Rightarrow> claw_error \<Rightarrow> 'n anthropic_state \<Rightarrow> 'n anthropic_state" where
  "record_request_failure env n e =
     traced (\<lambda>now. record_http_request_failed now n ''POST'' ''/v1/messages''
       (show_claw_error (ae_status_text env) e) (claw_retryable e) [])"

definition anthropic_jitter :: "duration \<Rightarrow> 'n api_world \<Rightarrow> duration \<times> 'n api_world" where
  "anthropic_jitter base w =
     (if u64_saturating base = 0 then (0, w)
      else
        (let (reading, w1) = read_clock w; tick = aw_anthropic_jitter w1
         in (jitter_amount base reading tick, w1\<lparr>aw_anthropic_jitter := tick + 1\<rparr>)))"

definition anthropic_jittered_backoff ::
  "anthropic_client \<Rightarrow> u32 \<Rightarrow> 'n api_world \<Rightarrow> (claw_error + duration) option \<times> 'n api_world" where
  "anthropic_jittered_backoff c n w = claw_delayed anthropic_jitter (claw_backoff (an_initial_backoff c) (an_max_backoff c) n) w"

text \<open>One attempt, to the error the loop has in hand: with it, whether the answer was read, as only then is the error enriched.\<close>

definition anthropic_attempt ::
  "'n api_env \<Rightarrow> anthropic_client \<Rightarrow> message_request \<Rightarrow> u32 \<Rightarrow> 'n anthropic_state
    \<Rightarrow> (claw_error \<times> bool + http_response) \<times> 'n anthropic_state" where
  "anthropic_attempt env c r n st =
     (let st1 = traced (\<lambda>now. record_http_request_started now n ''POST'' ''/v1/messages'' []) st
      in case anthropic_send_raw env c r (as_world st1) of
           (Inl e, w) \<Rightarrow> (Inl (e, False), st1\<lparr>as_world := w\<rparr>)
         | (Inr response, w) \<Rightarrow>
             (case anthropic_expect_success env response of
                Inl e \<Rightarrow> (Inl (e, True), st1\<lparr>as_world := w\<rparr>)
              | Inr response \<Rightarrow> (Inr response, st1\<lparr>as_world := w\<rparr>)))"

function anthropic_retry_from ::
  "'n api_env \<Rightarrow> anthropic_client \<Rightarrow> message_request \<Rightarrow> u32 \<Rightarrow> 'n anthropic_state
    \<Rightarrow> (claw_error + http_response) option \<times> 'n anthropic_state" where
  "anthropic_retry_from env c r attempts st =
     (let n = attempts + 1
      in case anthropic_attempt env c r n st of
           (Inr response, st1) \<Rightarrow>
             (Some (Inr response),
              traced (\<lambda>now. record_http_request_succeeded now n ''POST'' ''/v1/messages'' (hr_status response)
                (request_id_from_headers (hr_headers response)) []) st1)
         | (Inl (e, answered), st1) \<Rightarrow>
             if \<not> (claw_retryable e \<and> n \<le> an_max_retries c + 1) then
               (let e = (if answered then enrich_bearer_auth_error e (an_auth c) else e)
                in (Some (Inl e), record_request_failure env n e st1))
             else
               (let st2 = record_request_failure env n e st1
                in if n > an_max_retries c then (Some (Inl (ClawRetriesExhausted n e)), st2)
                   else (case anthropic_jittered_backoff c n (as_world st2) of
                           (None, w) \<Rightarrow> (None, st2\<lparr>as_world := w\<rparr>)
                         | (Some (Inl e'), w) \<Rightarrow> (Some (Inl e'), st2\<lparr>as_world := w\<rparr>)
                         | (Some (Inr delay), w) \<Rightarrow> anthropic_retry_from env c r n (st2\<lparr>as_world := api_sleep delay w\<rparr>))))"
  by pat_completeness auto
termination
proof (relation "measure (\<lambda>(env, c, r, attempts, st). if attempts = - 1 then 34 else 33 - unat attempts)", goal_cases)
  case 1
  show ?case by simp
next
  case (2 env c r attempts st n p q e b st1 st2 x w res delay)
  then have "n = 0 \<or> unat n \<le> 32" by (metis anthropic_jittered_backoff_def claw_delayed_attempt)
  then show ?case using retry_measure [of attempts] 2(1) by simp
qed

declare anthropic_retry_from.simps [simp del]

definition anthropic_send_with_retry where
  "anthropic_send_with_retry env c r st = anthropic_retry_from env c r 0 st"

section \<open>Whole answers\<close>

definition anthropic_read_answer :: "'n api_env \<Rightarrow> message_request \<Rightarrow> http_response \<Rightarrow> claw_error + claw_response" where
  "anthropic_read_answer env r response =
     (let request_id = request_id_from_headers (hr_headers response)
      in case hr_body response of
           Inl e \<Rightarrow> Inl (ClawHttp e)
         | Inr body \<Rightarrow>
             (case ae_message env body of
                Inl e \<Rightarrow> Inl (claw_json_deserialize ''Anthropic'' (req_model r) body e)
              | Inr answer \<Rightarrow> Inr (if mr_request_id answer = None then answer\<lparr>mr_request_id := request_id\<rparr> else answer)))"

definition usage_event :: "'n api_env \<Rightarrow> claw_response \<Rightarrow> analytics_event" where
  "usage_event env answer =
     with_property ''estimated_cost_usd'' (JStr (ae_cost_text env (mr_usage answer) (mr_model answer)))
       (with_property ''total_tokens'' (ju32 (claw_total_tokens (mr_usage answer)))
         (with_property ''request_id'' (jopt JStr (mr_request_id answer)) (analytics_new ''api'' ''message_usage'')))"

definition keep_record ::
  "(prompt_cache \<Rightarrow> 'n api_world \<Rightarrow> cache_record \<times> prompt_cache \<times> 'n api_world) \<Rightarrow> 'n anthropic_state \<Rightarrow> 'n anthropic_state" where
  "keep_record f st =
     (case as_cache st of
        None \<Rightarrow> st
      | Some cache \<Rightarrow>
          (case f cache (as_world st) of
             (kept, cache', w) \<Rightarrow> st\<lparr>as_cache := Some cache', as_last_record := Some kept, as_world := w\<rparr>))"

definition cached_answer ::
  "'n api_env \<Rightarrow> cache_codecs \<Rightarrow> message_request \<Rightarrow> 'n anthropic_state \<Rightarrow> claw_response option \<times> 'n anthropic_state" where
  "cached_answer env co r st =
     (case as_cache st of
        None \<Rightarrow> (None, st)
      | Some cache \<Rightarrow>
          (case lookup_completion env co r cache (as_world st) of
             (hit, cache', w) \<Rightarrow> (hit, st\<lparr>as_cache := Some cache', as_world := w\<rparr>)))"

definition anthropic_send_message ::
  "'n api_env \<Rightarrow> cache_codecs \<Rightarrow> anthropic_client \<Rightarrow> message_request \<Rightarrow> 'n anthropic_state
    \<Rightarrow> (claw_error + claw_response) option \<times> 'n anthropic_state" where
  "anthropic_send_message env co c request st =
     (let r = request\<lparr>req_stream := False\<rparr>
      in case cached_answer env co r st of
           (Some answer, st1) \<Rightarrow> (Some (Inr answer), st1)
         | (None, st1) \<Rightarrow>
             (case anthropic_preflight env c r (as_world st1) of
                (Inl e, w) \<Rightarrow> (Some (Inl e), st1\<lparr>as_world := w\<rparr>)
              | (Inr _, w) \<Rightarrow>
                  (case anthropic_send_with_retry env c r (st1\<lparr>as_world := w\<rparr>) of
                     (None, st2) \<Rightarrow> (None, st2)
                   | (Some (Inl e), st2) \<Rightarrow> (Some (Inl e), st2)
                   | (Some (Inr response), st2) \<Rightarrow>
                       (case anthropic_read_answer env r response of
                          Inl e \<Rightarrow> (Some (Inl e), st2)
                        | Inr answer \<Rightarrow>
                            (Some (Inr answer),
                             traced (\<lambda>now. record_analytics now (usage_event env answer))
                               (keep_record (record_response env co r answer) st2))))))"

end
