(* ===== verification/RefApiClients.thy ===== *)
theory RefApiClients
  imports RefAnthropic
begin

text \<open>
  The rest of the reference API crate: the parser of event streams (\<open>sse.rs\<close>), the streams and the sign-in of
  \<open>providers/anthropic.rs\<close>, the client of any provider (\<open>client.rs\<close>) and the proxies (\<open>http_client.rs\<close>).
\<close>

section \<open>The parser of event streams\<close>

record claw_sse_parser =
  sp_buffer :: string
  sp_provider :: "string option"
  sp_model :: "string option"

definition claw_parser_new :: claw_sse_parser where
  "claw_parser_new = \<lparr>sp_buffer = [], sp_provider = None, sp_model = None\<rparr>"

definition with_context :: "string \<Rightarrow> string \<Rightarrow> claw_sse_parser \<Rightarrow> claw_sse_parser" where
  "with_context provider model p = p\<lparr>sp_provider := Some provider, sp_model := Some model\<rparr>"

text \<open>The last \<open>event:\<close> line names the event.\<close>

fun event_name_of :: "string list \<Rightarrow> string option \<Rightarrow> string option" where
  "event_name_of [] name = name"
| "event_name_of (line # ls) name =
     (if starts_with line '':'' then event_name_of ls name
      else case strip_prefix ''event:'' line of
             Some n \<Rightarrow> event_name_of ls (Some (trim n))
           | None \<Rightarrow> event_name_of ls name)"

definition parse_frame_with_provider :: "'n api_env \<Rightarrow> string \<Rightarrow> string \<Rightarrow> string \<Rightarrow> claw_error + claw_event option" where
  "parse_frame_with_provider env frame provider model =
     (let trimmed = trim frame
      in if trimmed = [] then Inr None
         else
           (let lines = data_lines (str_lines trimmed)
            in if event_name_of (str_lines trimmed) None = Some ''ping'' then Inr None
               else if lines = [] then Inr None
               else
                 (let payload = join nl lines
                  in if payload = ''[DONE]'' then Inr None
                     else case ae_event env payload of
                            Inl e \<Rightarrow> Inl (claw_json_deserialize provider model payload e)
                          | Inr event \<Rightarrow> Inr (Some event))))"

definition claw_parse_frame :: "'n api_env \<Rightarrow> string \<Rightarrow> claw_error + claw_event option" where
  "claw_parse_frame env frame = parse_frame_with_provider env frame ''unknown'' ''unknown''"

definition parse_frame_with_context :: "'n api_env \<Rightarrow> claw_sse_parser \<Rightarrow> string \<Rightarrow> claw_error + claw_event option" where
  "parse_frame_with_context env p frame =
     parse_frame_with_provider env frame (unwrap_or ''unknown'' (sp_provider p)) (unwrap_or ''unknown'' (sp_model p))"

text \<open>The parser cuts frames as the one of \<open>openai_compat.rs\<close> does.\<close>

definition claw_sse_push :: "'n api_env \<Rightarrow> claw_sse_parser \<Rightarrow> string \<Rightarrow> (claw_error + claw_event list) \<times> claw_sse_parser" where
  "claw_sse_push env p chunk =
     (case claw_push_loop (parse_frame_with_context env p) (sp_buffer p @ chunk) [] of
        (r, buffer) \<Rightarrow> (r, p\<lparr>sp_buffer := buffer\<rparr>))"

definition claw_sse_finish :: "'n api_env \<Rightarrow> claw_sse_parser \<Rightarrow> (claw_error + claw_event list) \<times> claw_sse_parser" where
  "claw_sse_finish env p =
     (if sp_buffer p = [] then (Inr [], p)
      else
        (map_sum id (\<lambda>event. case event of None \<Rightarrow> [] | Some e \<Rightarrow> [e])
           (parse_frame_with_context env p (utf8_lossy (sp_buffer p))),
         p\<lparr>sp_buffer := []\<rparr>))"

section \<open>Streams of Anthropic\<close>

record anthropic_stream =
  ms_request_id :: "string option"
  ms_body :: "(http_error + string) list"
  ms_parser :: claw_sse_parser
  ms_pending :: "claw_event list"
  ms_done :: bool
  ms_request :: message_request
  ms_latest_usage :: "claw_usage option"
  ms_usage_recorded :: bool

definition anthropic_stream_message ::
  "'n api_env \<Rightarrow> anthropic_client \<Rightarrow> message_request \<Rightarrow> 'n anthropic_state
    \<Rightarrow> (claw_error + anthropic_stream) option \<times> 'n anthropic_state" where
  "anthropic_stream_message env c request st =
     (case anthropic_preflight env c request (as_world st) of
        (Inl e, w) \<Rightarrow> (Some (Inl e), st\<lparr>as_world := w\<rparr>)
      | (Inr _, w) \<Rightarrow>
          (case anthropic_send_with_retry env c (with_streaming request) (st\<lparr>as_world := w\<rparr>) of
             (None, st1) \<Rightarrow> (None, st1)
           | (Some (Inl e), st1) \<Rightarrow> (Some (Inl e), st1)
           | (Some (Inr response), st1) \<Rightarrow>
               (Some (Inr \<lparr>ms_request_id = request_id_from_headers (hr_headers response), ms_body = ae_chunks env response,
                  ms_parser = with_context ''Anthropic'' (req_model request) claw_parser_new, ms_pending = [],
                  ms_done = False, ms_request = request, ms_latest_usage = None, ms_usage_recorded = False\<rparr>), st1)))"

definition observe_event ::
  "'n api_env \<Rightarrow> cache_codecs \<Rightarrow> claw_event \<Rightarrow> anthropic_stream \<Rightarrow> 'n anthropic_state
    \<Rightarrow> anthropic_stream \<times> 'n anthropic_state" where
  "observe_event env co event s st =
     (case event of
        EvMessageDelta _ _ u \<Rightarrow> (s\<lparr>ms_latest_usage := Some u\<rparr>, st)
      | EvMessageStop \<Rightarrow>
          if ms_usage_recorded s then (s, st)
          else (s\<lparr>ms_usage_recorded := True\<rparr>,
                case ms_latest_usage s of
                  None \<Rightarrow> st
                | Some u \<Rightarrow> keep_record (RefPromptCache.record_usage env co (ms_request s) u) st)
      | _ \<Rightarrow> (s, st))"

function anthropic_next_event ::
  "'n api_env \<Rightarrow> cache_codecs \<Rightarrow> anthropic_stream \<Rightarrow> 'n anthropic_state
    \<Rightarrow> (claw_error + claw_event option) \<times> anthropic_stream \<times> 'n anthropic_state" where
  "anthropic_next_event env co s st =
     (case ms_pending s of
        event # pending \<Rightarrow> (Inr (Some event), observe_event env co event (s\<lparr>ms_pending := pending\<rparr>) st)
      | [] \<Rightarrow>
          if ms_done s then
            (case claw_sse_finish env (ms_parser s) of
               (Inl e, p) \<Rightarrow> (Inl e, s\<lparr>ms_parser := p\<rparr>, st)
             | (Inr [], p) \<Rightarrow> (Inr None, s\<lparr>ms_parser := p\<rparr>, st)
             | (Inr (event # rest), p) \<Rightarrow> (Inr (Some event), s\<lparr>ms_parser := p, ms_pending := rest\<rparr>, st))
          else
            (case ms_body s of
               [] \<Rightarrow> anthropic_next_event env co (s\<lparr>ms_done := True\<rparr>) st
             | Inl e # rest \<Rightarrow> (Inl (ClawHttp e), s\<lparr>ms_body := rest\<rparr>, st)
             | Inr chunk # rest \<Rightarrow>
                 (case claw_sse_push env (ms_parser s) chunk of
                    (Inl e, p) \<Rightarrow> (Inl e, s\<lparr>ms_body := rest, ms_parser := p\<rparr>, st)
                  | (Inr events, p) \<Rightarrow>
                      anthropic_next_event env co (s\<lparr>ms_body := rest, ms_parser := p, ms_pending := events\<rparr>) st)))"
  by pat_completeness auto
termination
  by (relation "measure (\<lambda>(env, co, s, st). length (ms_body s) + (if ms_done s then 0 else 1))") auto

declare anthropic_next_event.simps [simp del]

section \<open>Sign-in\<close>

definition token_post ::
  "'n api_env \<Rightarrow> string \<Rightarrow> oauth_config \<Rightarrow> (string, string) btree \<Rightarrow> 'n api_world
    \<Rightarrow> (claw_error + oauth_token_set) \<times> 'n api_world" where
  "token_post env label config params =
     api_bind (api_post env (oc_token_url config) [(''content-type'', ''application/x-www-form-urlencoded'')] (FormBody params))
       (\<lambda>response w.
         (case anthropic_expect_success env response of
            Inl e \<Rightarrow> Inl e
          | Inr response \<Rightarrow>
              (case hr_body response of
                 Inl e \<Rightarrow> Inl (ClawHttp e)
               | Inr body \<Rightarrow> map_err (claw_json_deserialize label ''n/a'' body) (ae_token_set env body)), w))"

definition exchange_oauth_code where
  "exchange_oauth_code env config request = token_post env ''Anthropic OAuth (exchange)'' config (exchange_form_params request)"

definition refresh_oauth_token where
  "refresh_oauth_token env config request = token_post env ''Anthropic OAuth (refresh)'' config (refresh_form_params request)"

definition now_unix_timestamp :: "'n api_world \<Rightarrow> u64 \<times> 'n api_world" where
  "now_unix_timestamp w = (case read_clock w of (r, w1) \<Rightarrow> (case r of None \<Rightarrow> 0 | Some n \<Rightarrow> of_nat (n div 10 ^ 9), w1))"

text \<open>The clock is read only when there is a time of expiry.\<close>

definition oauth_token_is_expired :: "oauth_token_set \<Rightarrow> 'n api_world \<Rightarrow> bool \<times> 'n api_world" where
  "oauth_token_is_expired t w =
     (case ot_expires_at t of
        None \<Rightarrow> (False, w)
      | Some expires_at \<Rightarrow> (case now_unix_timestamp w of (now, w1) \<Rightarrow> (expires_at \<le> now, w1)))"

definition claw_io :: "(fs \<Rightarrow> (io_error + 'a) \<times> fs) \<Rightarrow> 'n api_world \<Rightarrow> (claw_error + 'a) \<times> 'n api_world" where
  "claw_io f w = (case api_files f w of (r, w1) \<Rightarrow> (map_err ClawIo r, w1))"

text \<open>The second codec prints prettily; a stored value of another shape has a text from serde.\<close>

definition resolve_saved_oauth_token_set ::
  "'n api_env \<Rightarrow> codec \<Rightarrow> home_env \<Rightarrow> oauth_config \<Rightarrow> oauth_token_set \<Rightarrow> 'n api_world
    \<Rightarrow> (claw_error + oauth_token_set) \<times> 'n api_world" where
  "resolve_saved_oauth_token_set env pretty home config token_set w =
     (case oauth_token_is_expired token_set w of
        (False, w1) \<Rightarrow> (Inr token_set, w1)
      | (True, w1) \<Rightarrow>
          (case ot_refresh_token token_set of
             None \<Rightarrow> (Inl ExpiredOAuthToken, w1)
           | Some refresh_token \<Rightarrow>
               (case ae_runtime_error env of
                  Some e \<Rightarrow> (Inl (ClawIo e), w1)
                | None \<Rightarrow>
                    api_bind (refresh_oauth_token env config
                        (refresh_from_config config refresh_token (Some (ot_scopes token_set))))
                      (\<lambda>refreshed.
                        let resolved = \<lparr>ot_access_token = ot_access_token refreshed,
                              ot_refresh_token = (case ot_refresh_token refreshed of Some t \<Rightarrow> Some t | None \<Rightarrow> ot_refresh_token token_set),
                              ot_expires_at = ot_expires_at refreshed, ot_scopes = ot_scopes refreshed\<rparr>
                        in api_bind (claw_io (save_oauth_credentials pretty resolved home)) (\<lambda>_ w3. (Inr resolved, w3))) w1)))"

definition resolve_saved_oauth_token ::
  "'n api_env \<Rightarrow> codec \<Rightarrow> (json \<Rightarrow> string) \<Rightarrow> home_env \<Rightarrow> oauth_config \<Rightarrow> 'n api_world
    \<Rightarrow> (claw_error + oauth_token_set option) \<times> 'n api_world" where
  "resolve_saved_oauth_token env pretty wrong home config =
     api_bind (claw_io (load_oauth_credentials (ae_codec env) wrong home)) (\<lambda>token_set.
       case token_set of
         None \<Rightarrow> (\<lambda>w. (Inr None, w))
       | Some t \<Rightarrow> api_bind (resolve_saved_oauth_token_set env pretty home config t) (\<lambda>t w. (Inr (Some t), w)))"

section \<open>The client of any provider\<close>

datatype provider_client =
    ClientAnthropic anthropic_client
  | ClientXai openai_client
  | ClientOpenAi openai_client

datatype provider_stream = StreamAnthropic anthropic_stream | StreamOpenAi openai_stream

definition from_model_with_anthropic_auth ::
  "'n api_env \<Rightarrow> string \<Rightarrow> string \<Rightarrow> auth_source option \<Rightarrow> fs \<Rightarrow> (claw_error + provider_client) \<times> fs" where
  "from_model_with_anthropic_auth env version model anthropic_auth s =
     (let resolved_model = resolve_model_alias model
      in case detect_provider_kind env resolved_model s of
           (ProviderAnthropic, s1) \<Rightarrow>
             (case anthropic_auth of
                Some auth \<Rightarrow> (Inr (ClientAnthropic (anthropic_from_auth version auth)), s1)
              | None \<Rightarrow> io_bind (anthropic_from_env env version s1) (\<lambda>c s2. (Inr (ClientAnthropic c), s2)))
         | (ProviderXai, s1) \<Rightarrow> io_bind (openai_from_env env config_xai s1) (\<lambda>c s2. (Inr (ClientXai c), s2))
         | (ProviderOpenAi, s1) \<Rightarrow>
             (let config = (case metadata_for_model resolved_model of
                  None \<Rightarrow> config_openai
                | Some meta \<Rightarrow> if pm_auth_env meta = ''DASHSCOPE_API_KEY'' then config_dashscope else config_openai)
              in io_bind (openai_from_env env config s1) (\<lambda>c s2. (Inr (ClientOpenAi c), s2))))"

definition from_model where
  "from_model env version model = from_model_with_anthropic_auth env version model None"

fun provider_kind_of :: "provider_client \<Rightarrow> provider_kind" where
  "provider_kind_of (ClientAnthropic _) = ProviderAnthropic"
| "provider_kind_of (ClientXai _) = ProviderXai"
| "provider_kind_of (ClientOpenAi _) = ProviderOpenAi"

fun client_with_prompt_cache :: "prompt_cache \<Rightarrow> provider_client \<Rightarrow> 'n anthropic_state \<Rightarrow> 'n anthropic_state" where
  "client_with_prompt_cache cache (ClientAnthropic _) st = st\<lparr>as_cache := Some cache\<rparr>"
| "client_with_prompt_cache cache _ st = st"

fun client_cache_stats :: "provider_client \<Rightarrow> 'n anthropic_state \<Rightarrow> cache_stats option" where
  "client_cache_stats (ClientAnthropic _) st = map_option ca_stats (as_cache st)"
| "client_cache_stats _ st = None"

fun client_take_last_record :: "provider_client \<Rightarrow> 'n anthropic_state \<Rightarrow> cache_record option \<times> 'n anthropic_state" where
  "client_take_last_record (ClientAnthropic _) st = take_last_record st"
| "client_take_last_record _ st = (None, st)"

definition on_world :: "('n api_world \<Rightarrow> 'a \<times> 'n api_world) \<Rightarrow> 'n anthropic_state \<Rightarrow> 'a \<times> 'n anthropic_state" where
  "on_world f st = (case f (as_world st) of (x, w) \<Rightarrow> (x, st\<lparr>as_world := w\<rparr>))"

fun client_send_message ::
  "'n api_env \<Rightarrow> cache_codecs \<Rightarrow> provider_client \<Rightarrow> message_request \<Rightarrow> 'n anthropic_state
    \<Rightarrow> (claw_error + claw_response) option \<times> 'n anthropic_state" where
  "client_send_message env co (ClientAnthropic c) r st = anthropic_send_message env co c r st"
| "client_send_message env co (ClientXai c) r st = on_world (openai_send_message env c r) st"
| "client_send_message env co (ClientOpenAi c) r st = on_world (openai_send_message env c r) st"

fun client_stream_message ::
  "'n api_env \<Rightarrow> provider_client \<Rightarrow> message_request \<Rightarrow> 'n anthropic_state
    \<Rightarrow> (claw_error + provider_stream) option \<times> 'n anthropic_state" where
  "client_stream_message env (ClientAnthropic c) r st =
     map_prod (map_option (map_sum id StreamAnthropic)) id (anthropic_stream_message env c r st)"
| "client_stream_message env (ClientXai c) r st =
     map_prod (map_option (map_sum id StreamOpenAi)) id (on_world (openai_stream_message env c r) st)"
| "client_stream_message env (ClientOpenAi c) r st =
     map_prod (map_option (map_sum id StreamOpenAi)) id (on_world (openai_stream_message env c r) st)"

fun client_next_event ::
  "'n api_env \<Rightarrow> cache_codecs \<Rightarrow> provider_stream \<Rightarrow> 'n anthropic_state
    \<Rightarrow> (claw_error + claw_event option) \<times> provider_stream \<times> 'n anthropic_state" where
  "client_next_event env co (StreamAnthropic s) st =
     (case anthropic_next_event env co s st of (r, s1, st1) \<Rightarrow> (r, StreamAnthropic s1, st1))"
| "client_next_event env co (StreamOpenAi s) st =
     (case openai_next_event env s of (r, s1) \<Rightarrow> (r, StreamOpenAi s1, st))"

fun stream_request_id :: "provider_stream \<Rightarrow> string option" where
  "stream_request_id (StreamAnthropic s) = ms_request_id s"
| "stream_request_id (StreamOpenAi s) = os_request_id s"

section \<open>Proxies\<close>

record proxy_config =
  px_http_proxy :: "string option"
  px_https_proxy :: "string option"
  px_no_proxy :: "string option"
  px_proxy_url :: "string option"

fun first_non_empty :: "(string \<Rightarrow> string option) \<Rightarrow> string list \<Rightarrow> string option" where
  "first_non_empty lookup [] = None"
| "first_non_empty lookup (key # keys) =
     (case lookup key of
        None \<Rightarrow> first_non_empty lookup keys
      | Some v \<Rightarrow> if v = [] then first_non_empty lookup keys else Some v)"

definition proxy_from_lookup :: "(string \<Rightarrow> string option) \<Rightarrow> proxy_config" where
  "proxy_from_lookup lookup =
     \<lparr>px_http_proxy = first_non_empty lookup [''HTTP_PROXY'', ''http_proxy''],
      px_https_proxy = first_non_empty lookup [''HTTPS_PROXY'', ''https_proxy''],
      px_no_proxy = first_non_empty lookup [''NO_PROXY'', ''no_proxy''], px_proxy_url = None\<rparr>"

definition proxy_from_env :: "'n api_env \<Rightarrow> proxy_config" where
  "proxy_from_env env = proxy_from_lookup (\<lambda>key. case ae_vars env key of EnvValue v \<Rightarrow> Some v | _ \<Rightarrow> None)"

definition proxy_from_url :: "string \<Rightarrow> proxy_config" where
  "proxy_from_url url = \<lparr>px_http_proxy = None, px_https_proxy = None, px_no_proxy = None, px_proxy_url = Some url\<rparr>"

definition proxy_is_empty :: "proxy_config \<Rightarrow> bool" where
  "proxy_is_empty p \<longleftrightarrow> px_proxy_url p = None \<and> px_http_proxy p = None \<and> px_https_proxy p = None"

text \<open>The proxies of the client, the one of \<open>https\<close> first; reqwest decides which urls and filters it takes.\<close>

record http_proxy =
  hp_https :: bool
  hp_url :: string
  hp_filter :: "string option"

definition build_http_client_with ::
  "(string \<Rightarrow> http_error option) \<Rightarrow> (string \<Rightarrow> string option) \<Rightarrow> (http_proxy list \<Rightarrow> http_error option)
    \<Rightarrow> proxy_config \<Rightarrow> claw_error + http_proxy list" where
  "build_http_client_with refused no_proxy_from_string build_error config =
     (let no_proxy = Option.bind (px_no_proxy config) no_proxy_from_string;
          (http_proxy_url, https_url) = (case px_proxy_url config of
              Some unified \<Rightarrow> (Some unified, Some unified)
            | None \<Rightarrow> (px_http_proxy config, px_https_proxy config));
          add = (\<lambda>https url proxies. case url of
              None \<Rightarrow> Inr proxies
            | Some u \<Rightarrow>
                (case refused u of
                   Some e \<Rightarrow> Inl (ClawHttp e)
                 | None \<Rightarrow> Inr (proxies @ [\<lparr>hp_https = https, hp_url = u, hp_filter = no_proxy\<rparr>])))
      in and_then (add True https_url []) (\<lambda>proxies.
         and_then (add False http_proxy_url proxies) (\<lambda>proxies.
           case build_error proxies of Some e \<Rightarrow> Inl (ClawHttp e) | None \<Rightarrow> Inr proxies)))"

definition build_http_client_or_default ::
  "(string \<Rightarrow> http_error option) \<Rightarrow> (string \<Rightarrow> string option) \<Rightarrow> (http_proxy list \<Rightarrow> http_error option)
    \<Rightarrow> 'n api_env \<Rightarrow> http_proxy list" where
  "build_http_client_or_default refused no_proxy_from_string build_error env =
     (case build_http_client_with refused no_proxy_from_string build_error (proxy_from_env env) of
        Inl _ \<Rightarrow> []
      | Inr proxies \<Rightarrow> proxies)"

end
