(* ===== verification/RefPromptCacheCorrect.thy ===== *)
theory RefPromptCacheCorrect
  imports RefPromptCache
begin

text \<open>
  The prompt cache: a recorded answer is found again while it is fresh, each lookup counts as a hit or a
  miss, and a break is unexpected only for an unchanged prompt.
\<close>

section \<open>Statistics\<close>

lemma lookup_counts:
  assumes "lookup_completion env co r c w = (found, c', w')"
  shows "cst_completion_cache_hits (ca_stats c') + cst_completion_cache_misses (ca_stats c')
      = cst_completion_cache_hits (ca_stats c) + cst_completion_cache_misses (ca_stats c) + 1"
    and "found = None \<longleftrightarrow> cst_completion_cache_misses (ca_stats c') = cst_completion_cache_misses (ca_stats c) + 1"
proof -
  have "\<exists>s. ca_stats c' = s \<and> (if found = None
      then cst_completion_cache_hits s = cst_completion_cache_hits (ca_stats c)
        \<and> cst_completion_cache_misses s = cst_completion_cache_misses (ca_stats c) + 1
      else cst_completion_cache_hits s = cst_completion_cache_hits (ca_stats c) + 1
        \<and> cst_completion_cache_misses s = cst_completion_cache_misses (ca_stats c))"
    using assms
    by (auto simp: lookup_completion_def Let_def persisted_def stale_miss_def count_miss_def apply_usage_to_stats_def
        split: prod.splits option.splits if_splits)
  then show "cst_completion_cache_hits (ca_stats c') + cst_completion_cache_misses (ca_stats c')
      = cst_completion_cache_hits (ca_stats c) + cst_completion_cache_misses (ca_stats c) + 1"
    and "found = None \<longleftrightarrow> cst_completion_cache_misses (ca_stats c') = cst_completion_cache_misses (ca_stats c) + 1"
    by (auto split: if_splits)
qed

lemma break_unexpected:
  assumes "detect_cache_break config (Some p) q = Some e"
  shows "cb_unexpected e \<longleftrightarrow> tp_fingerprint_version p = tp_fingerprint_version q \<and> changed_parts p q = []
      \<and> unat (saturating_sub_u64 (tp_observed_at_unix_secs q) (tp_observed_at_unix_secs p)) \<le> pc_prompt_ttl config div 10 ^ 9"
    and "tp_fingerprint_version p = tp_fingerprint_version q \<Longrightarrow> pc_cache_break_min_drop config \<le> cb_token_drop e"
  using assms by (auto simp: detect_cache_break_def Let_def not_less split: if_splits)

section \<open>Files kept\<close>

text \<open>A file in a directory that really is one, and no call that fails.\<close>

definition holds_file :: "fs \<Rightarrow> loc \<Rightarrow> string \<Rightarrow> bool" where
  "holds_file s l b \<longleftrightarrow> fs_faults s = [] \<and> real_dir (fs_nodes s) (butlast l) \<and> l \<noteq> []
     \<and> node_at (fs_nodes s) l = Some (FileNode b)"

lemma write_no_faults: "fs_faults s = [] \<Longrightarrow> fs_faults (snd (fs_write p b s)) = []"
  by (simp add: fs_write_def fs_create_def fs_append_def guarded_no_fault split: sum.split option.split node.split)

lemma canonical_allow:
  assumes "real_dir (fs_nodes s) (butlast l)" and "l \<noteq> []" and "\<forall>t. node_at (fs_nodes s) l \<noteq> Some (LinkNode t)"
  shows "locate True s (path_of_loc l) = Inr l"
proof (rule locate_canonical)
  show "real_loc (fs_nodes s) l" using assms(1,2) real_loc_snoc [of "fs_nodes s" "butlast l" "last l"] by simp
qed (use assms in auto)

lemma holds_file_read:
  assumes "holds_file s l b"
  shows "fs_read (path_of_loc l) s = (Inr b, s)"
proof -
  have "real_loc (fs_nodes s) l"
    using assms real_loc_snoc [of "fs_nodes s" "butlast l" "last l"] by (simp add: holds_file_def)
  then have "locate False s (path_of_loc l) = Inr l"
    using assms by (intro locate_canonical) (auto simp: holds_file_def)
  then show ?thesis
    using assms by (simp add: fs_read_def file_bytes_def holds_file_def guarded_no_fault)
qed

lemma holds_file_written:
  assumes "fs_faults s = []" and "real_dir (fs_nodes s) (butlast l)" and "l \<noteq> []" and "plain_node (node_at (fs_nodes s) l)"
  shows "holds_file (snd (fs_write (path_of_loc l) b s)) l b"
proof -
  have loc: "locate True s (path_of_loc l) = Inr l"
    using assms by (intro canonical_allow) (auto simp: plain_node_def)
  have run: "fs_write (path_of_loc l) b s = (Inr (), s\<lparr>fs_nodes := put_node l (FileNode b) (put_node l (FileNode []) (fs_nodes s))\<rparr>)"
    using assms loc
    by (auto simp: fs_write_def fs_create_def fs_append_def guarded_no_fault node_at_put plain_node_def
        split: option.split node.split)
  have "node_at (put_node l (FileNode b) (put_node l (FileNode []) (fs_nodes s))) (take k (butlast l)) = node_at (fs_nodes s) (take k (butlast l))" for k
  proof -
    have "length (take k (butlast l)) < length l" using assms(3) by (cases l) auto
    then have "take k (butlast l) \<noteq> l" by (metis less_irrefl)
    then show ?thesis by (simp add: node_at_put_other)
  qed
  then have "real_dir (put_node l (FileNode b) (put_node l (FileNode []) (fs_nodes s))) (butlast l)"
    using assms(2) unfolding real_dir_def real_loc_def by (metis take_all_iff order_refl)
  then show ?thesis
    using run assms by (simp add: holds_file_def node_at_put)
qed

lemma holds_file_kept:
  assumes "holds_file s l b" and "fs_faults s' = []" and "changes_only s s' (\<lambda>j. j = k)" and "\<forall>i. k \<noteq> take i l"
  shows "holds_file s' l b"
proof -
  have same: "node_at (fs_nodes s') (take i l) = node_at (fs_nodes s) (take i l)" for i
    using assms(3,4) by (auto simp: changes_only_def)
  have "butlast l = take (length l - 1) l" by (simp add: butlast_conv_take)
  then have "real_dir (fs_nodes s') (butlast l)"
    using assms(1) same unfolding holds_file_def real_dir_def real_loc_def by (simp add: min_def take_take)
  then show ?thesis
    using assms(1,2) same [of "length l"] by (simp add: holds_file_def)
qed

text \<open>The directory of a session's cache, with the one for answers, on files without links.\<close>

definition cache_home :: "fs \<Rightarrow> loc \<Rightarrow> bool" where
  "cache_home s d \<longleftrightarrow> fs_faults s = [] \<and> no_links s \<and> real_dir (fs_nodes s) (d @ [''completions''])"

lemma create_no_links:
  assumes "no_links s" and "fs_faults s = []"
  shows "no_links (snd (fs_create p s))" and "fs_faults (snd (fs_create p s)) = []"
proof -
  have "node_at (fs_nodes s) [] = Some DirNode" by (simp add: node_at_def)
  then show "no_links (snd (fs_create p s))"
    using assms by (auto simp: fs_create_def guarded_no_fault split: sum.split option.split node.split intro!: no_links_put)
  show "fs_faults (snd (fs_create p s)) = []"
    using assms by (auto simp: fs_create_def guarded_no_fault split: sum.split option.split node.split)
qed

lemma append_no_links:
  assumes "no_links s" and "fs_faults s = []"
  shows "no_links (snd (fs_append l b s))"
proof -
  have "l \<noteq> []" if "node_at (fs_nodes s) l = Some (FileNode c)" for c
    using that by (auto simp: node_at_def)
  then show ?thesis
    using assms by (auto simp: fs_append_def guarded_no_fault split: option.split node.split intro!: no_links_put)
qed

lemma write_no_links:
  assumes "no_links s" and "fs_faults s = []"
  shows "no_links (snd (fs_write p b s))"
proof -
  obtain r s1 where cr: "fs_create p s = (r, s1)" by fastforce
  have s1: "no_links s1" "fs_faults s1 = []" using create_no_links [OF assms, of p] cr by simp_all
  then show ?thesis using append_no_links [OF s1] cr by (cases r) (simp_all add: fs_write_def)
qed

lemma cache_home_write:
  fixes b :: string
  assumes "cache_home s d" and "butlast k = d \<or> butlast k = d @ [''completions'']" and "k \<noteq> []" and "k \<noteq> d @ [''completions'']"
  defines "s' \<equiv> snd (fs_write (path_of_loc k) b s)"
  shows "cache_home s' d" and "changes_only s s' (\<lambda>j. j = k)"
proof -
  have dirs: "real_dir (fs_nodes s) (d @ [''completions''])" "real_dir (fs_nodes s) d"
    using assms(1) real_dir_butlast [of "fs_nodes s" "d @ [''completions'']"] by (simp_all add: cache_home_def)
  then have here: "real_dir (fs_nodes s) (butlast k)" using assms(2) by auto
  have "locate True s (path_of_loc k) = Inr k"
    using here assms(1,3) by (intro canonical_allow) (auto simp: cache_home_def no_links_def)
  then show ch: "changes_only s s' (\<lambda>j. j = k)"
    using write_changes [of "path_of_loc k" b s "fst (fs_write (path_of_loc k) b s)" s']
    by (simp add: s'_def changes_only_def) metis
  have "k \<noteq> take i (d @ [''completions''])" for i
  proof
    assume "k = take i (d @ [''completions''])"
    moreover from this have "i \<le> length d" using assms(4) by (cases "i \<le> length d") auto
    ultimately have "k = take i d" by simp
    moreover have "length k > length d"
      using assms(2,3) by (cases k rule: rev_cases) auto
    ultimately show False by simp
  qed
  then have "node_at (fs_nodes s') (take i (d @ [''completions''])) = node_at (fs_nodes s) (take i (d @ [''completions'']))" for i
    using ch unfolding changes_only_def by metis
  then have "real_dir (fs_nodes s') (d @ [''completions''])"
    using dirs(1) unfolding real_dir_def real_loc_def by (metis take_all_iff order_refl)
  then show "cache_home s' d"
    using assms(1) write_no_faults write_no_links by (simp add: cache_home_def s'_def)
qed

lemma cache_dirs_ready:
  assumes "cache_home s d" and "pp_completion_dir paths = path_of_loc (d @ [''completions''])"
  shows "ensure_cache_dirs paths s = s"
proof -
  have locate_allow: "locate True s (path_of_loc (d @ [''completions''])) = Inr (d @ [''completions''])"
    using assms(1) by (intro locate_canonical) (auto simp: cache_home_def real_dir_def)
  then have "make_dirs (path_of_loc (d @ [''completions''])) s = (Inr (), s)"
    using assms(1)
    by (subst make_dirs.simps) (simp add: cache_home_def real_dir_def locate_allow)
  then show ?thesis
    using assms by (simp add: ensure_cache_dirs_def fs_create_dir_all_def cache_home_def guarded_no_fault)
qed

section \<open>A recorded answer is found\<close>

definition cache_paths_at :: "loc \<Rightarrow> cache_paths \<Rightarrow> bool" where
  "cache_paths_at d paths \<longleftrightarrow> pp_completion_dir paths = path_of_loc (d @ [''completions''])
     \<and> pp_stats_path paths = path_of_loc (d @ [''stats.json'']) \<and> pp_session_state_path paths = path_of_loc (d @ [''session-state.json''])"

lemma cache_paths_for_at:
  assumes "parse_path (sanitize_path_segment i) = [Name n]"
  shows "cache_paths_at (rl @ [n]) (cache_paths_for (path_of_loc rl) i)"
  using assms by (simp add: cache_paths_for_def cache_paths_at_def path_of_loc_def path_join_def is_absolute_def Let_def)

lemma write_keeps:
  assumes "cache_home s d" and "holds_file s (d @ [''completions'', n]) b" and "f \<noteq> ''completions''"
  shows "cache_home (write_json fc (path_of_loc (d @ [f])) v s) d
    \<and> holds_file (write_json fc (path_of_loc (d @ [f])) v s) (d @ [''completions'', n]) b"
proof (cases "fc_write fc v")
  case None
  then show ?thesis using assms by (simp add: write_json_def)
next
  case (Some bytes)
  have "d @ [f] \<noteq> take i (d @ [''completions'', n])" for i
  proof
    assume "d @ [f] = take i (d @ [''completions'', n])"
    moreover from this have "length d < i" by (metis length_append_singleton length_take lessI min.strict_boundedE)
    ultimately show False using assms(3) by (cases "i - length d") simp_all
  qed
  then show ?thesis
    using assms Some cache_home_write [of s d "d @ [f]" bytes] write_no_faults
      holds_file_kept [OF assms(2), of "snd (fs_write (path_of_loc (d @ [f])) bytes s)" "d @ [f]"]
    by (auto simp: write_json_def holds_file_def)
qed

text \<open>Persisting the state keeps the entries.\<close>

lemma persist_keeps:
  assumes "cache_home s d" and "cache_paths_at d (ca_paths c)" and "holds_file s (d @ [''completions'', n]) b"
  shows "cache_home (persist_state co c s) d \<and> holds_file (persist_state co c s) (d @ [''completions'', n]) b"
proof -
  have ready: "ensure_cache_dirs (ca_paths c) s = s"
    using cache_dirs_ready [OF assms(1)] assms(2) by (simp add: cache_paths_at_def)
  have paths: "pp_stats_path (ca_paths c) = path_of_loc (d @ [''stats.json''])"
      "pp_session_state_path (ca_paths c) = path_of_loc (d @ [''session-state.json''])"
    using assms(2) by (simp_all add: cache_paths_at_def)
  define s1 where "s1 = write_json (co_stats co) (path_of_loc (d @ [''stats.json''])) (ca_stats c) s"
  have s1: "cache_home s1 d" "holds_file s1 (d @ [''completions'', n]) b"
    using write_keeps [OF assms(1,3), of "''stats.json''" "co_stats co" "ca_stats c"] by (simp_all add: s1_def)
  show ?thesis
  proof (cases "ca_previous c")
    case None
    then show ?thesis using s1 by (simp add: persist_state_def ready paths s1_def)
  next
    case (Some previous)
    then show ?thesis
      using write_keeps [OF s1, of "''session-state.json''" "co_state co" previous] by (simp add: persist_state_def ready paths s1_def Let_def)
  qed
qed

lemma clock_cons [simp]: "aw_clock w = r # rs \<Longrightarrow> read_clock w = (r, w\<lparr>aw_clock := rs\<rparr>)"
  by (simp add: read_clock_def)

definition secs_of :: "nat \<Rightarrow> u64" where
  "secs_of n = of_nat (n div 10 ^ 9)"

lemma now_secs [simp]: "aw_clock w = Some n # rs \<Longrightarrow> now_unix_secs w = (secs_of n, w\<lparr>aw_clock := rs\<rparr>)"
  by (simp add: now_unix_secs_def secs_of_def)

text \<open>
  With its directories in place, no failing call and a codec that reads back what it writes, the cache finds a
  recorded answer as long as fewer whole seconds have passed than the time to live.
\<close>

lemma recorded_found:
  assumes "cache_home (aw_fs w) d" and "cache_paths_at d (ca_paths c)"
    and "plain_node (node_at (fs_nodes (aw_fs w)) (d @ [''completions'', request_hash_hex env r @ ''.json'']))"
    and "fc_write (co_entry co) \<lparr>en_cached_at_unix_secs = secs_of t1, en_fingerprint_version = current_fingerprint_version,
        en_response = response\<rparr> = Some bytes"
    and "fc_read (co_entry co) bytes = Some \<lparr>en_cached_at_unix_secs = secs_of t1,
        en_fingerprint_version = current_fingerprint_version, en_response = response\<rparr>"
    and "aw_clock w = Some t0 # Some t1 # Some t2 # rest"
    and "unat (saturating_sub_u64 (secs_of t2) (secs_of t1)) < pc_completion_ttl (ca_config c) div 10 ^ 9"
  shows "let (_, c', w') = record_response env co r response c w
    in fst (lookup_completion env co r c' w') = Some response"
proof -
  let ?h = "request_hash_hex env r" and ?l = "d @ [''completions'', request_hash_hex env r @ ''.json'']"
  let ?e = "\<lparr>en_cached_at_unix_secs = secs_of t1, en_fingerprint_version = current_fingerprint_version, en_response = response\<rparr>"
  have bytes: "fc_write (co_entry co) ?e = Some bytes" "fc_read (co_entry co) bytes = Some ?e"
    using assms(4,5) by simp_all
  have entry: "completion_entry_path (ca_paths c) ?h = path_of_loc ?l"
    using assms(2) by (simp add: completion_entry_path_def cache_paths_at_def path_of_loc_def path_join_def is_absolute_def)
  have ready: "ensure_cache_dirs (ca_paths c) (aw_fs w) = aw_fs w"
    using cache_dirs_ready [OF assms(1)] assms(2) by (simp add: cache_paths_at_def)
  define s1 where "s1 = snd (fs_write (path_of_loc ?l) bytes (aw_fs w))"
  have dir: "real_dir (fs_nodes (aw_fs w)) (butlast ?l)" "fs_faults (aw_fs w) = []"
    using assms(1) by (simp_all add: cache_home_def butlast_append)
  have home: "cache_home s1 d"
    using cache_home_write(1) [OF assms(1), of ?l bytes] by (simp add: s1_def butlast_append)
  have written: "holds_file s1 ?l bytes"
    unfolding s1_def using dir assms(3) by (intro holds_file_written) auto
  obtain c' w' rec where run: "record_response env co r response c w = (rec, c', w')" by (metis prod_cases3)
  have c': "ca_paths c' = ca_paths c" "ca_config c' = ca_config c" "aw_clock w' = Some t2 # rest"
      "aw_fs w' = persist_state co c' s1"
    using run assms(6) bytes entry ready
    by (auto simp: record_response_def record_usage_internal_def tracked_from_usage_def write_completion_entry_def
        persisted_def write_json_def s1_def Let_def)
  have kept: "holds_file (aw_fs w') ?l bytes"
    using persist_keeps [OF home _ written, of c' co] assms(2) c' by simp
  have "api_files (read_json (co_entry co) (completion_entry_path (ca_paths c') ?h)) w' = (Some ?e, w')"
    using holds_file_read [OF kept] bytes(2) entry c'(1) by (simp add: api_files_def read_json_def)
  then have "fst (lookup_completion env co r c' w') = Some response"
    using assms(7) c' by (simp add: lookup_completion_def case_prod_unfold Let_def not_le)
  then show ?thesis using run by simp
qed

definition sample_env :: "unit api_env" where
  "sample_env = \<lparr>ae_codec = \<lparr>to_text = \<lambda>_. [], from_text = \<lambda>_. Inl []\<rparr>, ae_vars = \<lambda>_. NotPresent, ae_not_unicode = \<lambda>_. [],
     ae_status_text = \<lambda>_. [], ae_chunk = \<lambda>_. Inl [], ae_completion = \<lambda>_. Inl [], ae_event = \<lambda>_. Inl [],
     ae_message = \<lambda>_. Inl [], ae_bytes = \<lambda>_. Some ''{}'', ae_request_value = \<lambda>_. Inl [], ae_envelope = \<lambda>_. None, ae_anthropic_envelope = \<lambda>_. None,
     ae_counted = \<lambda>_. Inl [], ae_token_set = \<lambda>_. Inl [], ae_cost_text = \<lambda>_ _. [], ae_runtime_error = None,
     ae_post = \<lambda>_ _ _ n. (Inl \<lparr>he_connect = True, he_timeout = False, he_request = False, he_text = []\<rparr>, n), ae_chunks = \<lambda>_. []\<rparr>"

definition sample_response :: claw_response where
  "sample_response = \<lparr>mr_id = ''m'', mr_kind = ''message'', mr_role = ''assistant'', mr_content = [OutText ''hi''], mr_model = ''m'',
     mr_stop_reason = None, mr_stop_sequence = None, mr_usage = no_usage, mr_request_id = None\<rparr>"

definition sample_api_world :: "unit api_world" where
  "sample_api_world = \<lparr>aw_fs = \<lparr>fs_nodes = [([''c''], DirNode), ([''c'', ''completions''], DirNode)], fs_cwd = [], fs_faults = []\<rparr>,
     aw_clock = [Some 0, Some (5 * 10 ^ 9), Some (34 * 10 ^ 9)], aw_jitter = 0, aw_anthropic_jitter = 0, aw_slept = [], aw_net = ()\<rparr>"

definition sample_codecs :: cache_codecs where
  "sample_codecs = \<lparr>co_stats = \<lparr>fc_write = \<lambda>_. Some ''{}'', fc_read = \<lambda>_. None\<rparr>, co_state = \<lparr>fc_write = \<lambda>_. None, fc_read = \<lambda>_. None\<rparr>,
     co_entry = \<lparr>fc_write = \<lambda>e. Some (mr_id (en_response e)),
       fc_read = \<lambda>_. Some \<lparr>en_cached_at_unix_secs = 5, en_fingerprint_version = 1, en_response = sample_response\<rparr>\<rparr>\<rparr>"

definition sample_cache :: prompt_cache where
  "sample_cache = \<lparr>ca_config = cache_config_new ''c'', ca_paths = cache_paths_for [RootDir] ''c'', ca_stats = stats_default, ca_previous = None\<rparr>"

end
