(* ===== verification/RefApiClientsCorrect.thy ===== *)
theory RefApiClientsCorrect
  imports RefApiClients RefPromptCacheCorrect ApiClientCorrect
begin

text \<open>
  What the clients of the reference API crate promise: waits within bounds, bodies without the fields the
  provider refuses, traces numbered in order, one record of usage for a stream, and answers from the cache
  without the network.
\<close>

section \<open>Models\<close>

lemma alias_known: "resolve_model_alias m = trim m \<or> resolve_model_alias m \<in>
    {''claude-opus-4-6'', ''claude-sonnet-4-6'', ''claude-haiku-4-5-20251213'', ''grok-3'', ''grok-3-mini'', ''grok-2'', ''kimi-k2.5''}"
  by (auto simp: resolve_model_alias_def alias_target_def model_registry_def Let_def anthropic_metadata_def xai_metadata_def
      dashscope_metadata_def split: option.splits provider_kind.splits)

lemma alias_trimmed: "resolve_model_alias (trim m) = resolve_model_alias m"
  by (simp add: resolve_model_alias_def)

text \<open>An alias stands for a name that stands for itself.\<close>

lemma alias_idempotent: "resolve_model_alias (resolve_model_alias m) = resolve_model_alias m"
proof (cases "resolve_model_alias m = trim m")
  case True
  then show ?thesis using alias_trimmed [of m] by simp
next
  case False
  then have "resolve_model_alias m \<in>
    {''claude-opus-4-6'', ''claude-sonnet-4-6'', ''claude-haiku-4-5-20251213'', ''grok-3'', ''grok-3-mini'', ''grok-2'', ''kimi-k2.5''}"
    using alias_known [of m] by blast
  moreover have "resolve_model_alias ''claude-opus-4-6'' = ''claude-opus-4-6''"
    "resolve_model_alias ''claude-sonnet-4-6'' = ''claude-sonnet-4-6''"
    "resolve_model_alias ''claude-haiku-4-5-20251213'' = ''claude-haiku-4-5-20251213''"
    "resolve_model_alias ''grok-3'' = ''grok-3''" "resolve_model_alias ''grok-3-mini'' = ''grok-3-mini''"
    "resolve_model_alias ''grok-2'' = ''grok-2''" "resolve_model_alias ''kimi-k2.5'' = ''kimi-k2.5''"
    by code_simp+
  ultimately show ?thesis by fastforce
qed

text \<open>So a client is made for the same provider whether it is given the alias or the name.\<close>

lemma limit_of_alias: "model_token_limit (resolve_model_alias m) = model_token_limit m"
  by (simp add: model_token_limit_def alias_idempotent)

text \<open>
  A request that passes the check fits: whatever the provider counts, its input and the output it asks
  for do not exceed the window of the model, and the sum does not wrap.
\<close>

theorem checked_request_fits:
  "case window_check r input_tokens limit of
     Inr _ \<Rightarrow> unat input_tokens + unat (req_max_tokens r) \<le> unat (ml_context_window_tokens limit)
       \<or> ml_context_window_tokens limit = - 1
   | Inl e \<Rightarrow> claw_failure_class e = ''context_window''
       \<and> unat (ml_context_window_tokens limit) < unat input_tokens + unat (req_max_tokens r)"
proof -
  have top: "unat (- 1 :: u32) = 2 ^ 32 - 1" by (simp add: unsigned_minus_1_eq_mask mask_eq_exp_minus_1)
  show ?thesis
  proof (cases "unat input_tokens + unat (req_max_tokens r) < 2 ^ 32")
    case True
    then have "unat (input_tokens + req_max_tokens r) = unat input_tokens + unat (req_max_tokens r)"
      by (subst unat_add_lem [THEN iffD1]) simp_all
    then show ?thesis
      using True by (auto simp: window_check_def saturating_add_u32_def word_less_nat_alt Let_def not_less)
  next
    case False
    have "ml_context_window_tokens limit = - 1" if "\<not> ml_context_window_tokens limit < - 1"
      using that by (metis not_less word_order.extremum_unique)
    moreover have "unat (ml_context_window_tokens limit) < 2 ^ 32" by (rule unsigned_less [THEN order.strict_trans2]) simp
    ultimately show ?thesis
      using False by (auto simp: window_check_def saturating_add_u32_def Let_def)
  qed
qed

section \<open>Waits\<close>

lemma jitter_amount_le: "jitter_amount base reading tick \<le> base"
proof -
  let ?b = "u64_saturating base"
  let ?m = "saturating_add_u64 ?b 1"
  have b: "unat ?b = min base (2 ^ 64 - 1)" by (rule unat_u64_saturating)
  have m: "unat ?m = min (unat ?b + 1) (2 ^ 64 - 1)"
    by (simp add: saturating_add_u64_def unat_u64_saturating)
  have "unat (x mod ?m) \<le> base" for x :: u64
  proof -
    have "unat (x mod ?m) < unat ?m" using m by (simp add: unat_mod_distrib)
    then show ?thesis using m b by simp
  qed
  then show ?thesis by (simp add: jitter_amount_def Let_def)
qed

lemma anthropic_wait:
  assumes "anthropic_jittered_backoff c n w = (Some (Inr d), w')"
  shows "d \<le> 2 * an_max_backoff c" and "aw_slept w' = aw_slept w"
proof -
  obtain base where base: "claw_backoff (an_initial_backoff c) (an_max_backoff c) n = Inr base"
    using assms by (cases "claw_backoff (an_initial_backoff c) (an_max_backoff c) n")
      (auto simp: anthropic_jittered_backoff_def claw_delayed_def)
  then have "base \<le> an_max_backoff c" by (auto simp: claw_backoff_def split: option.splits)
  moreover have "fst (anthropic_jitter base w) \<le> base"
    using jitter_amount_le [of base] by (simp add: anthropic_jitter_def Let_def split: prod.split)
  moreover have "aw_slept (snd (anthropic_jitter base w)) = aw_slept w"
    by (simp add: anthropic_jitter_def read_clock_def Let_def split: list.split)
  ultimately show "d \<le> 2 * an_max_backoff c" and "aw_slept w' = aw_slept w"
    using assms base by (auto simp: anthropic_jittered_backoff_def claw_delayed_def split: prod.splits if_splits)
qed

lemma slept_wait: "anthropic_jittered_backoff c n w = (x, w') \<Longrightarrow> aw_slept w' = aw_slept w"
  by (auto simp: anthropic_jittered_backoff_def claw_delayed_def anthropic_jitter_def read_clock_def Let_def
      split: sum.splits if_splits list.splits)

lemma slept_traced [simp]: "aw_slept (as_world (traced f st)) = aw_slept (as_world st)"
  by (simp add: traced_def read_clock_def split: option.split list.split)

lemma slept_post: "api_post env u h b w = (r, w') \<Longrightarrow> aw_slept w' = aw_slept w"
  by (auto simp: api_post_def split: prod.splits)

lemma slept_attempt: "anthropic_attempt env c r n st = (x, st') \<Longrightarrow> aw_slept (as_world st') = aw_slept (as_world st)"
  by (auto simp: anthropic_attempt_def anthropic_send_raw_def anthropic_post_def Let_def dest: slept_post
      split: sum.splits prod.splits)

lemma waits_from:
  assumes "anthropic_retry_from env c r attempts st = (res, st')" and "unat attempts \<le> unat (an_max_retries c)"
    and "unat attempts \<le> 32"
  shows "\<exists>ds. aw_slept (as_world st') = aw_slept (as_world st) @ ds \<and> length ds + unat attempts \<le> unat (an_max_retries c)
    \<and> length ds + unat attempts \<le> 32 \<and> (\<forall>d \<in> set ds. d \<le> 2 * an_max_backoff c)"
  using assms
proof (induction env c r attempts st arbitrary: res st' rule: anthropic_retry_from.induct)
  case (1 env c r attempts st)
  let ?n = "attempts + 1"
  have quiet: ?case if "aw_slept (as_world st') = aw_slept (as_world st)" using that "1.prems"(2,3) by simp
  obtain x st1 where at: "anthropic_attempt env c r ?n st = (x, st1)" by fastforce
  note slept = slept_attempt [OF at]
  show ?case
  proof (cases "\<exists>e b d w. x = Inl (e, b) \<and> claw_retryable e \<and> ?n \<le> an_max_retries c + 1 \<and> \<not> ?n > an_max_retries c
      \<and> anthropic_jittered_backoff c ?n (as_world (record_request_failure env ?n e st1)) = (Some (Inr d), w)")
    case True
    then obtain e b d w where cont: "x = Inl (e, b)" "claw_retryable e" "?n \<le> an_max_retries c + 1" "\<not> ?n > an_max_retries c"
      "anthropic_jittered_backoff c ?n (as_world (record_request_failure env ?n e st1)) = (Some (Inr d), w)" by blast
    define st2 where "st2 = (record_request_failure env ?n e st1)\<lparr>as_world := api_sleep d w\<rparr>"
    have next_run: "anthropic_retry_from env c r ?n st2 = (res, st')"
      using "1.prems"(1) at cont by (subst (asm) anthropic_retry_from.simps) (simp add: st2_def Let_def)
    have "attempts \<noteq> - 1"
      using "1.prems"(3) by (auto simp: unsigned_minus_1_eq_mask mask_eq_exp_minus_1)
    then have "1 + attempts \<noteq> 0" by (metis add.commute add_eq_0_iff)
    then have n: "unat ?n = unat attempts + 1" using unatSuc [of attempts] by (simp add: add.commute)
    moreover have "?n = 0 \<or> unat ?n \<le> 32"
      using cont(5) by (metis anthropic_jittered_backoff_def claw_delayed_attempt)
    ultimately have n32: "unat ?n \<le> 32" by (metis add_is_0 le_zero_eq nat_le_linear not_one_le_zero unat_0 zero_le)
    have w: "d \<le> 2 * an_max_backoff c" "aw_slept w = aw_slept (as_world st)"
      using anthropic_wait [OF cont(5)] slept by (simp_all add: record_request_failure_def)
    obtain ds where ds: "aw_slept (as_world st') = aw_slept (as_world st2) @ ds" "length ds + unat ?n \<le> unat (an_max_retries c)"
      "length ds + unat ?n \<le> 32" "\<forall>d \<in> set ds. d \<le> 2 * an_max_backoff c"
      using "1.IH" [of ?n x st1] at cont next_run n32 unfolding st2_def
      by (metis (no_types, lifting) not_less word_le_nat_alt prod.collapse)
    have "aw_slept (as_world st') = aw_slept (as_world st) @ d # ds"
      using ds(1) w(2) by (simp add: st2_def api_sleep_def)
    then show ?thesis using ds w(1) n by (intro exI [of _ "d # ds"]) simp
  next
    case False
    have "aw_slept (as_world st') = aw_slept (as_world st1)"
    proof (cases x)
      case (Inr response)
      then have "st' = traced (\<lambda>now. record_http_request_succeeded now ?n ''POST'' ''/v1/messages'' (hr_status response)
          (request_id_from_headers (hr_headers response)) []) st1"
        using "1.prems"(1) at by (subst (asm) anthropic_retry_from.simps) (simp add: Let_def)
      then show ?thesis by simp
    next
      case (Inl eb)
      obtain e b where eb: "eb = (e, b)" by (cases eb)
      define st2 where "st2 = record_request_failure env ?n e st1"
      have st2: "aw_slept (as_world st2) = aw_slept (as_world st1)" by (simp add: st2_def record_request_failure_def)
      obtain y w where wait: "anthropic_jittered_backoff c ?n (as_world st2) = (y, w)" by fastforce
      note unfolded = "1.prems"(1) [unfolded anthropic_retry_from.simps [of env c r attempts st] Let_def at Inl eb]
      show ?thesis
      proof (cases "\<not> (claw_retryable e \<and> ?n \<le> an_max_retries c + 1) \<or> ?n > an_max_retries c")
        case True
        then show ?thesis using unfolded by (auto simp: record_request_failure_def split: if_splits)
      next
        case neither: False
        then have "\<nexists>d. y = Some (Inr d)" using False Inl eb wait st2_def by blast
        then have "st' = st2\<lparr>as_world := w\<rparr>"
          using unfolded neither wait by (auto simp: st2_def split: option.splits sum.splits)
        then show ?thesis using slept_wait [OF wait] st2 by simp
      qed
    qed
    then show ?thesis using quiet slept by simp
  qed
qed

text \<open>
  C39: A request of the Anthropic client is waited for at most as often as it may be retried and never more than
  32 times, and no wait is longer than twice the largest backoff.
\<close>

theorem anthropic_waits_bounded:
  "\<exists>ds. aw_slept (as_world (snd (anthropic_send_with_retry env c r st))) = aw_slept (as_world st) @ ds
     \<and> length ds \<le> min 32 (unat (an_max_retries c)) \<and> list_all (\<lambda>d. d \<le> 2 * an_max_backoff c) ds"
  using waits_from [of env c r 0 st] by (fastforce simp: anthropic_send_with_retry_def list_all_iff prod_eq_iff)

section \<open>Bodies\<close>

lemma stripped_fields:
  "k \<in> {''betas'', ''frequency_penalty'', ''presence_penalty'', ''stop''} \<Longrightarrow> json_get (strip_unsupported_beta_body_fields (JObj m)) k = None"
  by (auto simp: strip_unsupported_beta_body_fields_def bt_get_remove bt.get_ins Let_def split: option.split)

lemma stripped_stop:
  assumes "bt_get m ''stop'' = Some v"
  shows "json_get (strip_unsupported_beta_body_fields (JObj m)) ''stop_sequences''
    = (case as_array v of None \<Rightarrow> bt_get m ''stop_sequences''
       | Some a \<Rightarrow> if a = [] then bt_get m ''stop_sequences'' else Some v)"
  using assms by (simp add: strip_unsupported_beta_body_fields_def bt_get_remove bt.get_ins Let_def split: option.split)

lemma rendered_object: "render_json_body p v = Inr body \<Longrightarrow> \<exists>m. body = JObj m"
  by (auto simp: render_json_body_def and_then_def Let_def split: sum.splits option.splits)

text \<open>
  Whatever a request and the extra parameters of a profile hold, the body sent to Anthropic is an object
  without the fields the endpoint refuses.
\<close>

theorem body_accepted:
  "case anthropic_body env c r of
     Inl e \<Rightarrow> claw_failure_class e = ''runtime_io'' \<and> \<not> claw_retryable e
   | Inr body \<Rightarrow> as_object body \<noteq> None
       \<and> list_all (\<lambda>k. json_get body k = None) [''betas'', ''frequency_penalty'', ''presence_penalty'', ''stop'']"
proof (cases "render_json_body (an_profile c) (ae_request_value env r)")
  case (Inl e)
  then show ?thesis by (simp add: anthropic_body_def)
next
  case (Inr body)
  then obtain m where "body = JObj m" using rendered_object by blast
  moreover have "as_object (strip_unsupported_beta_body_fields (JObj m)) \<noteq> None"
    by (simp add: strip_unsupported_beta_body_fields_def Let_def)
  ultimately show ?thesis
    using Inr stripped_fields [of _ m] by (simp add: anthropic_body_def)
qed

section \<open>Traces\<close>

definition state_sequenced :: "'n anthropic_state \<Rightarrow> bool" where
  "state_sequenced st \<longleftrightarrow> (case as_tracer st of None \<Rightarrow> True | Some t \<Rightarrow> sequenced t)"

lemma sequenced_world [simp]: "state_sequenced (st\<lparr>as_world := w\<rparr>) = state_sequenced st"
  by (simp add: state_sequenced_def)

lemma sequenced_traced:
  "(\<And>now t. sequenced t \<Longrightarrow> sequenced (f now t)) \<Longrightarrow> state_sequenced st \<Longrightarrow> state_sequenced (traced f st)"
  by (simp add: state_sequenced_def traced_def split: option.splits prod.split)

lemma sequenced_failure: "state_sequenced st \<Longrightarrow> state_sequenced (record_request_failure env n e st)"
  unfolding record_request_failure_def by (intro sequenced_traced sequenced_steps)

lemma sequenced_keep: "state_sequenced (keep_record f st) = state_sequenced st"
  by (simp add: keep_record_def state_sequenced_def split: option.split prod.split)

lemma sequenced_cached: "cached_answer env co r st = (x, st') \<Longrightarrow> state_sequenced st' = state_sequenced st"
  by (auto simp: cached_answer_def state_sequenced_def split: option.splits prod.splits)

lemma sequenced_attempt:
  assumes "anthropic_attempt env c r n st = (x, st')" and "state_sequenced st"
  shows "state_sequenced st'"
proof -
  have "state_sequenced (traced (\<lambda>now. record_http_request_started now n ''POST'' ''/v1/messages'' []) st)"
    using assms(2) by (intro sequenced_traced sequenced_steps)
  then show ?thesis
    using assms(1) by (auto simp: anthropic_attempt_def Let_def split: prod.splits sum.splits)
qed

lemma sequenced_retry:
  assumes "anthropic_retry_from env c r attempts st = (res, st')" and "state_sequenced st"
  shows "state_sequenced st'"
  using assms
proof (induction env c r attempts st arbitrary: res st' rule: anthropic_retry_from.induct)
  case (1 env c r attempts st)
  let ?n = "attempts + 1"
  obtain x st1 where at: "anthropic_attempt env c r ?n st = (x, st1)" by fastforce
  have ok: "state_sequenced st1" using sequenced_attempt [OF at "1.prems"(2)] .
  note unfolded = "1.prems"(1) [unfolded anthropic_retry_from.simps [of env c r attempts st] Let_def at]
  show ?case
  proof (cases x)
    case (Inr response)
    have "state_sequenced (traced (\<lambda>now. record_http_request_succeeded now ?n ''POST'' ''/v1/messages'' (hr_status response)
        (request_id_from_headers (hr_headers response)) []) st1)"
      using ok by (intro sequenced_traced sequenced_steps)
    then show ?thesis using unfolded Inr by simp
  next
    case (Inl eb)
    obtain e b where eb: "eb = (e, b)" by (cases eb)
    have failed: "state_sequenced (record_request_failure env ?n e' st1)" for e' using sequenced_failure [OF ok] .
    obtain y w where wait: "anthropic_jittered_backoff c ?n (as_world (record_request_failure env ?n e st1)) = (y, w)" by fastforce
    consider (stop) "\<not> (claw_retryable e \<and> ?n \<le> an_max_retries c + 1) \<or> ?n > an_max_retries c"
      | (again) d where "claw_retryable e" "?n \<le> an_max_retries c + 1" "\<not> ?n > an_max_retries c" "y = Some (Inr d)"
      | (failing) "claw_retryable e" "?n \<le> an_max_retries c + 1" "\<not> ?n > an_max_retries c" "\<nexists>d. y = Some (Inr d)"
      by blast
    then show ?thesis
    proof cases
      case stop
      then show ?thesis using unfolded Inl eb failed by (auto split: if_splits)
    next
      case again
      have "anthropic_retry_from env c r ?n ((record_request_failure env ?n e st1)\<lparr>as_world := api_sleep d w\<rparr>) = (res, st')"
        using unfolded Inl eb again wait by simp
      then show ?thesis
        using "1.IH" [of ?n x st1] at Inl eb again wait failed by simp
    next
      case failing
      then have "st' = (record_request_failure env ?n e st1)\<lparr>as_world := w\<rparr>"
        using unfolded Inl eb wait by (auto split: option.splits sum.splits)
      then show ?thesis using failed by simp
    qed
  qed
qed

lemma sequenced_send: "state_sequenced st \<Longrightarrow> state_sequenced (snd (anthropic_send_message env co c r st))"
proof -
  assume ok: "state_sequenced st"
  obtain hit st1 where lookup: "cached_answer env co (r\<lparr>req_stream := False\<rparr>) st = (hit, st1)" by fastforce
  have ok1: "state_sequenced st1" using sequenced_cached [OF lookup] ok by simp
  obtain pre w where pre: "anthropic_preflight env c (r\<lparr>req_stream := False\<rparr>) (as_world st1) = (pre, w)" by fastforce
  obtain res st2 where run: "anthropic_send_with_retry env c (r\<lparr>req_stream := False\<rparr>) (st1\<lparr>as_world := w\<rparr>) = (res, st2)"
    by fastforce
  have ok2: "state_sequenced st2"
    using sequenced_retry [OF run [unfolded anthropic_send_with_retry_def]] ok1 by simp
  have kept: "state_sequenced (traced (\<lambda>now. record_analytics now ev) (keep_record f st2))" for ev f
    using ok2 by (intro sequenced_traced sequenced_steps) (simp_all add: sequenced_keep)
  show ?thesis
    using ok1 ok2 kept lookup pre run
    by (auto simp: anthropic_send_message_def Let_def split: option.split sum.split)
qed

lemma sequenced_stream: "state_sequenced st \<Longrightarrow> state_sequenced (snd (anthropic_stream_message env c r st))"
proof -
  assume ok: "state_sequenced st"
  obtain pre w where pre: "anthropic_preflight env c r (as_world st) = (pre, w)" by fastforce
  obtain res st2 where run: "anthropic_send_with_retry env c (with_streaming r) (st\<lparr>as_world := w\<rparr>) = (res, st2)"
    by fastforce
  have "state_sequenced st2"
    using sequenced_retry [OF run [unfolded anthropic_send_with_retry_def]] ok by simp
  then show ?thesis
    using ok pre run by (auto simp: anthropic_stream_message_def split: option.split sum.split)
qed

text \<open>
  The traces of a client stay numbered in the order they were made, through every retry and whatever fails:
  when a session's numbers count up without a gap before a message is sent or a stream opened, they do so after.
\<close>

theorem traces_stay_sequenced:
  assumes "state_sequenced st"
  shows "state_sequenced (snd (anthropic_send_message env co c r st))
    \<and> state_sequenced (snd (anthropic_stream_message env c r st))"
  using sequenced_send [OF assms] sequenced_stream [OF assms] by blast

theorem traces_stay_sequenced_witness:
  "state_sequenced (snd (anthropic_send_message sample_env sample_codecs (anthropic_new ''1'' ''k'') default_request
       \<lparr>as_tracer = Some (claw_tracer_new ''s''), as_cache = None, as_last_record = None, as_world = sample_api_world\<rparr>))
   \<and> state_sequenced (snd (anthropic_stream_message sample_env (anthropic_new ''1'' ''k'') default_request
       \<lparr>as_tracer = Some (claw_tracer_new ''s''), as_cache = None, as_last_record = None, as_world = sample_api_world\<rparr>))"
  by (rule traces_stay_sequenced) (simp add: state_sequenced_def sequenced_new)

section \<open>The usage of a stream\<close>

fun ask_events ::
  "nat \<Rightarrow> 'n api_env \<Rightarrow> cache_codecs \<Rightarrow> anthropic_stream \<Rightarrow> 'n anthropic_state \<Rightarrow> anthropic_stream \<times> 'n anthropic_state" where
  "ask_events 0 env co s st = (s, st)"
| "ask_events (Suc n) env co s st =
     (case anthropic_next_event env co s st of (_, s', st') \<Rightarrow> ask_events n env co s' st')"

definition tracked :: "'n anthropic_state \<Rightarrow> u64 option" where
  "tracked st = map_option (\<lambda>c. cst_tracked_requests (ca_stats c)) (as_cache st)"

text \<open>What one step may do: nothing to the count, or one more and never again.\<close>

definition counts_once :: "bool \<Rightarrow> u64 option \<Rightarrow> bool \<Rightarrow> u64 option \<Rightarrow> bool" where
  "counts_once was t is t' \<longleftrightarrow> (if was then is \<and> t' = t else t' = t \<or> is \<and> t' = map_option (\<lambda>k. k + 1) t)"

lemma counts_once_trans:
  "counts_once a t b t' \<Longrightarrow> counts_once b t' c t'' \<Longrightarrow> counts_once a t c t''"
  by (auto simp: counts_once_def split: if_splits)

lemma counts_once_refl [simp]: "counts_once a t a t"
  by (simp add: counts_once_def)

lemma usage_tracked:
  assumes "RefPromptCache.record_usage env co r u c w = (x, c', w')"
  shows "cst_tracked_requests (ca_stats c') = cst_tracked_requests (ca_stats c) + 1"
  using assms
  by (auto simp: RefPromptCache.record_usage_def record_usage_internal_def persisted_def apply_usage_to_stats_def count_break_def Let_def
      split: prod.splits option.splits)

lemma observed_once:
  assumes "observe_event env co e s st = (s', st')"
  shows "counts_once (ms_usage_recorded s) (tracked st) (ms_usage_recorded s') (tracked st')"
proof (cases "e = EvMessageStop \<and> \<not> ms_usage_recorded s \<and> ms_latest_usage s \<noteq> None \<and> as_cache st \<noteq> None")
  case True
  then obtain u c where parts: "ms_latest_usage s = Some u" "as_cache st = Some c" by blast
  obtain x c' w' where run: "RefPromptCache.record_usage env co (ms_request s) u c (as_world st) = (x, c', w')" by (metis prod_cases3)
  show ?thesis
    using assms True parts run usage_tracked [OF run]
    by (auto simp: observe_event_def keep_record_def counts_once_def tracked_def)
next
  case False
  then show ?thesis
    using assms by (auto simp: observe_event_def keep_record_def counts_once_def tracked_def split: claw_event.splits if_splits option.splits)
qed

lemma next_counts_once:
  assumes "anthropic_next_event env co s st = (x, s', st')"
  shows "counts_once (ms_usage_recorded s) (tracked st) (ms_usage_recorded s') (tracked st')"
  using assms
proof (induction env co s st arbitrary: x s' st' rule: anthropic_next_event.induct)
  case (1 env co s st)
  show ?case
  proof (cases "ms_pending s")
    case (Cons e rest)
    then have "observe_event env co e (s\<lparr>ms_pending := rest\<rparr>) st = (s', st')"
      using "1.prems" by (subst (asm) anthropic_next_event.simps) simp
    from observed_once [OF this] show ?thesis by simp
  next
    case Nil
    show ?thesis
    proof (cases "ms_done s")
      case True
      then show ?thesis
        using "1.prems" Nil by (subst (asm) anthropic_next_event.simps) (auto split: prod.splits sum.splits list.splits)
    next
      case False
      note unfolded = "1.prems" [unfolded anthropic_next_event.simps [of env co s st]]
      show ?thesis
      proof (cases "ms_body s")
        case [simp]: Nil
        have "anthropic_next_event env co (s\<lparr>ms_done := True\<rparr>) st = (x, s', st')"
          using unfolded False \<open>ms_pending s = []\<close> by simp
        from "1.IH"(1) [OF \<open>ms_pending s = []\<close> False Nil this] show ?thesis by simp
      next
        case (Cons part rest)
        show ?thesis
        proof (cases part)
          case (Inl e)
          then show ?thesis using unfolded False Cons \<open>ms_pending s = []\<close> by auto
        next
          case (Inr chunk)
          obtain r p where push: "claw_sse_push env (ms_parser s) chunk = (r, p)" by fastforce
          show ?thesis
          proof (cases r)
            case (Inl e)
            then show ?thesis using unfolded False Cons Inr push \<open>ms_pending s = []\<close> by auto
          next
            case (Inr events)
            have "anthropic_next_event env co (s\<lparr>ms_body := rest, ms_parser := p, ms_pending := events\<rparr>) st = (x, s', st')"
              using unfolded False Cons Inr \<open>part = Inr chunk\<close> push \<open>ms_pending s = []\<close> by simp
            from "1.IH"(2) [OF \<open>ms_pending s = []\<close> False Cons \<open>part = Inr chunk\<close> push [symmetric] Inr this] show ?thesis by simp
          qed
        qed
      qed
    qed
  qed
qed

lemma reads_count_once:
  "ask_events n env co s st = (s', st') \<Longrightarrow> counts_once (ms_usage_recorded s) (tracked st) (ms_usage_recorded s') (tracked st')"
proof (induction n arbitrary: s st)
  case (Suc n)
  obtain x s1 st1 where step: "anthropic_next_event env co s st = (x, s1, st1)" by (metis prod_cases3)
  then show ?case
    using Suc.prems Suc.IH [of s1 st1] counts_once_trans [OF next_counts_once [OF step]] by simp
qed simp

text \<open>
  C40: A stream counts once: however often its next event is asked for, and whatever the provider sends, the
  request is counted by the prompt cache at most once.
\<close>

theorem stream_usage_once:
  "tracked (snd (ask_events n env co s st)) = tracked st
   \<or> tracked (snd (ask_events n env co s st)) = map_option (\<lambda>k. k + 1) (tracked st)"
  using reads_count_once [of n env co s st] by (auto simp: counts_once_def prod_eq_iff split: if_splits)

section \<open>Answers from the cache\<close>

lemma net_persist [simp]: "persisted co c w = (c', w') \<Longrightarrow> aw_net w' = aw_net w"
  by (auto simp: persisted_def)

lemma net_clock [simp]: "read_clock w = (x, w') \<Longrightarrow> aw_net w' = aw_net w"
  by (auto simp: read_clock_def split: list.splits)

lemma net_lookup: "lookup_completion env co r c w = (x, c', w') \<Longrightarrow> aw_net w' = aw_net w"
  by (auto simp: lookup_completion_def stale_miss_def now_unix_secs_def tracked_from_usage_def api_files_def Let_def
      split: prod.splits option.splits if_splits dest!: net_persist)

lemma net_record: "record_response env co r a c w = (x, c', w') \<Longrightarrow> aw_net w' = aw_net w"
  by (auto simp: record_response_def record_usage_internal_def write_completion_entry_def now_unix_secs_def tracked_from_usage_def
      Let_def split: prod.splits option.splits if_splits dest!: net_persist)

text \<open>
  C38: A recorded answer is found again: when a client that has a cache sends the same request right after
  the answer to it was recorded, the result is that very answer and no call goes to the network. The
  directories of the cache are in place, its files have no links, no call to the file system fails, no directory or link stands where
  the entry is written, the codec reads back this very entry, and between the reading of the clock for the
  entry and the one for the lookup fewer whole seconds pass than the time to live.
\<close>

theorem answered_from_cache:
  fixes st :: "'n anthropic_state" and r :: message_request
  defines "w \<equiv> as_world st" and "q \<equiv> r\<lparr>req_stream := False\<rparr>"
  assumes "as_cache st = Some c"
    and "cache_home (aw_fs w) d" and "cache_paths_at d (ca_paths c)"
    and "plain_node (node_at (fs_nodes (aw_fs w)) (d @ [''completions'', request_hash_hex env q @ ''.json'']))"
    and "fc_write (co_entry co) \<lparr>en_cached_at_unix_secs = secs_of t1, en_fingerprint_version = current_fingerprint_version,
        en_response = answer\<rparr> = Some bytes"
    and "fc_read (co_entry co) bytes = Some \<lparr>en_cached_at_unix_secs = secs_of t1,
        en_fingerprint_version = current_fingerprint_version, en_response = answer\<rparr>"
    and "aw_clock w = Some t0 # Some t1 # Some t2 # rest"
    and "unat (saturating_sub_u64 (secs_of t2) (secs_of t1)) < pc_completion_ttl (ca_config c) div 10 ^ 9"
  shows "let (result, st') = anthropic_send_message env co cl r (keep_record (record_response env co q answer) st)
    in result = Some (Inr answer) \<and> aw_net (as_world st') = aw_net (as_world st)"
proof -
  obtain x c' w' where recorded: "record_response env co q answer c w = (x, c', w')" by (metis prod_cases3)
  then have kept: "keep_record (record_response env co q answer) st
      = st\<lparr>as_cache := Some c', as_last_record := Some x, as_world := w'\<rparr>"
    using assms(3) by (simp add: keep_record_def w_def)
  obtain hit c'' w'' where lookup: "lookup_completion env co q c' w' = (hit, c'', w'')" by (metis prod_cases3)
  have "hit = Some answer"
    using recorded_found [OF assms(4-10)] recorded lookup by simp
  moreover have "aw_net w'' = aw_net w" using net_record [OF recorded] net_lookup [OF lookup] by simp
  moreover have "cached_answer env co q (keep_record (record_response env co q answer) st)
      = (hit, st\<lparr>as_cache := Some c'', as_last_record := Some x, as_world := w''\<rparr>)"
    by (simp add: cached_answer_def kept lookup)
  ultimately show ?thesis
    by (simp add: anthropic_send_message_def q_def [symmetric] w_def Let_def)
qed

definition sample_state :: "unit anthropic_state" where
  "sample_state = \<lparr>as_tracer = None, as_cache = Some sample_cache, as_last_record = None, as_world = sample_api_world\<rparr>"

theorem answered_from_cache_witness:
  "let (result, st') = anthropic_send_message sample_env sample_codecs (anthropic_new ''1'' ''k'') default_request
     (keep_record (record_response sample_env sample_codecs (default_request\<lparr>req_stream := False\<rparr>) sample_response) sample_state)
   in result = Some (Inr sample_response) \<and> aw_net (as_world st') = aw_net (as_world sample_state)"
proof (rule answered_from_cache)
  show "as_cache sample_state = Some sample_cache" by (simp add: sample_state_def)
  show "cache_home (aw_fs (as_world sample_state)) [''c'']"
    by (auto simp: cache_home_def sample_state_def sample_api_world_def no_links_def node_at_def real_dir_def real_loc_def less_Suc_eq
        split: if_splits)
  show "cache_paths_at [''c''] (ca_paths sample_cache)"
    by (simp add: sample_cache_def) code_simp
  show "plain_node (node_at (fs_nodes (aw_fs (as_world sample_state))) ([''c''] @ [''completions'', request_hash_hex sample_env (default_request\<lparr>req_stream := False\<rparr>) @ ''.json'']))"
    by (simp add: sample_state_def sample_api_world_def node_at_def plain_node_def)
  show "aw_clock (as_world sample_state) = Some 0 # Some (5 * 10 ^ 9) # Some (34 * 10 ^ 9) # []"
    by (simp add: sample_state_def sample_api_world_def)
  show "fc_write (co_entry sample_codecs) \<lparr>en_cached_at_unix_secs = secs_of (5 * 10 ^ 9),
      en_fingerprint_version = current_fingerprint_version, en_response = sample_response\<rparr> = Some ''m''"
    by (simp add: sample_codecs_def sample_response_def)
  show "fc_read (co_entry sample_codecs) ''m'' = Some \<lparr>en_cached_at_unix_secs = secs_of (5 * 10 ^ 9),
      en_fingerprint_version = current_fingerprint_version, en_response = sample_response\<rparr>"
    by (simp add: sample_codecs_def secs_of_def current_fingerprint_version_def)
  show "unat (saturating_sub_u64 (secs_of (34 * 10 ^ 9)) (secs_of (5 * 10 ^ 9))) < pc_completion_ttl (ca_config sample_cache) div 10 ^ 9"
    by (simp add: sample_cache_def cache_config_new_def secs_of_def saturating_sub_u64_def)
qed

end
