(* ===== verification/RefLaneEvents.thy ===== *)
theory RefLaneEvents
  imports Json
begin

text \<open>
  \<open>claw-rust/crates/runtime/src/lane_events.rs\<close>: the events of a lane of work with their metadata, the
  reconciliation of a burst of events into one outcome, and the two ways repeated events are dropped.
  The clock is an argument, in milliseconds; the hasher of the standard library and the JSON printer are
  parameters. The values serde derives for the structs sent as data are written out.
\<close>

section \<open>Names\<close>

datatype lane_name =
    LnStarted | LnReady | LnPromptMisdelivery | LnBlocked | LnRed | LnGreen | LnCommitCreated | LnPrOpened | LnMergeReady
  | LnFinished | LnFailed | LnReconciled | LnMerged | LnSuperseded | LnClosed | LnBranchStaleAgainstMain
  | LnBranchWorkspaceMismatch | LnShipPrepared | LnShipCommitsSelected | LnShipMerged | LnShipPushedMain

datatype lane_status =
    LsRunning | LsReady | LsBlocked | LsRed | LsGreen | LsCompleted | LsFailed | LsReconciled | LsMerged | LsSuperseded
  | LsClosed

datatype lane_failure =
    LfPromptDelivery | LfTrustGate | LfBranchDivergence | LfCompile | LfTest | LfPluginStartup | LfMcpStartup
  | LfMcpHandshake | LfGatewayRouting | LfToolRuntime | LfWorkspaceMismatch | LfInfra

datatype event_provenance = LiveLane | SyntheticTest | Healthcheck | Replay | Transport

text \<open>What \<open>{:?}\<close> prints.\<close>

fun debug_lane_name :: "lane_name \<Rightarrow> string" where
  "debug_lane_name LnStarted = ''Started''"
| "debug_lane_name LnReady = ''Ready''"
| "debug_lane_name LnPromptMisdelivery = ''PromptMisdelivery''"
| "debug_lane_name LnBlocked = ''Blocked''"
| "debug_lane_name LnRed = ''Red''"
| "debug_lane_name LnGreen = ''Green''"
| "debug_lane_name LnCommitCreated = ''CommitCreated''"
| "debug_lane_name LnPrOpened = ''PrOpened''"
| "debug_lane_name LnMergeReady = ''MergeReady''"
| "debug_lane_name LnFinished = ''Finished''"
| "debug_lane_name LnFailed = ''Failed''"
| "debug_lane_name LnReconciled = ''Reconciled''"
| "debug_lane_name LnMerged = ''Merged''"
| "debug_lane_name LnSuperseded = ''Superseded''"
| "debug_lane_name LnClosed = ''Closed''"
| "debug_lane_name LnBranchStaleAgainstMain = ''BranchStaleAgainstMain''"
| "debug_lane_name LnBranchWorkspaceMismatch = ''BranchWorkspaceMismatch''"
| "debug_lane_name LnShipPrepared = ''ShipPrepared''"
| "debug_lane_name LnShipCommitsSelected = ''ShipCommitsSelected''"
| "debug_lane_name LnShipMerged = ''ShipMerged''"
| "debug_lane_name LnShipPushedMain = ''ShipPushedMain''"

fun debug_lane_status :: "lane_status \<Rightarrow> string" where
  "debug_lane_status LsRunning = ''Running''"
| "debug_lane_status LsReady = ''Ready''"
| "debug_lane_status LsBlocked = ''Blocked''"
| "debug_lane_status LsRed = ''Red''"
| "debug_lane_status LsGreen = ''Green''"
| "debug_lane_status LsCompleted = ''Completed''"
| "debug_lane_status LsFailed = ''Failed''"
| "debug_lane_status LsReconciled = ''Reconciled''"
| "debug_lane_status LsMerged = ''Merged''"
| "debug_lane_status LsSuperseded = ''Superseded''"
| "debug_lane_status LsClosed = ''Closed''"

section \<open>Metadata\<close>

record session_identity =
  si_title :: string
  si_workspace :: string
  si_purpose :: string
  si_placeholder_reason :: "string option"

definition session_identity_new :: "string \<Rightarrow> string \<Rightarrow> string \<Rightarrow> session_identity" where
  "session_identity_new title workspace purpose =
     \<lparr>si_title = title, si_workspace = workspace, si_purpose = purpose, si_placeholder_reason = None\<rparr>"

definition identity_with_placeholder :: "string \<Rightarrow> string \<Rightarrow> string \<Rightarrow> string \<Rightarrow> session_identity" where
  "identity_with_placeholder title workspace purpose reason =
     \<lparr>si_title = title, si_workspace = workspace, si_purpose = purpose, si_placeholder_reason = Some reason\<rparr>"

definition reconcile_enriched ::
  "string option \<Rightarrow> string option \<Rightarrow> string option \<Rightarrow> session_identity \<Rightarrow> session_identity" where
  "reconcile_enriched title workspace purpose i =
     (let has_new_data = title \<noteq> None \<or> workspace \<noteq> None \<or> purpose \<noteq> None
      in \<lparr>si_title = unwrap_or (si_title i) title, si_workspace = unwrap_or (si_workspace i) workspace,
          si_purpose = unwrap_or (si_purpose i) purpose,
          si_placeholder_reason = (if has_new_data then None else si_placeholder_reason i)\<rparr>)"

datatype watcher_action = WatchAct | WatchObserve | WatchIgnore

record lane_ownership =
  lo_owner :: string
  lo_workflow_scope :: string
  lo_watcher_action :: watcher_action

datatype confidence_level = HighConfidence | MediumConfidence | LowConfidence | UnknownConfidence

record event_metadata =
  em_seq :: u64
  em_provenance :: event_provenance
  em_session_identity :: "session_identity option"
  em_ownership :: "lane_ownership option"
  em_nudge_id :: "string option"
  em_event_fingerprint :: "string option"
  em_timestamp_ms :: u64
  em_environment_label :: "string option"
  em_emitter_identity :: "string option"
  em_confidence_level :: "confidence_level option"

text \<open>\<open>as u64\<close> keeps the low bits; before the epoch the reading is zero.\<close>

definition metadata_new :: "nat option \<Rightarrow> u64 \<Rightarrow> event_provenance \<Rightarrow> event_metadata" where
  "metadata_new now seq provenance = \<lparr>em_seq = seq, em_provenance = provenance, em_session_identity = None,
     em_ownership = None, em_nudge_id = None, em_event_fingerprint = None, em_timestamp_ms = of_nat (unwrap_or 0 now),
     em_environment_label = None, em_emitter_identity = None, em_confidence_level = None\<rparr>"

definition metadata_with_identity :: "session_identity \<Rightarrow> event_metadata \<Rightarrow> event_metadata" where
  "metadata_with_identity i m = m\<lparr>em_session_identity := Some i\<rparr>"

definition metadata_with_ownership :: "lane_ownership \<Rightarrow> event_metadata \<Rightarrow> event_metadata" where
  "metadata_with_ownership o' m = m\<lparr>em_ownership := Some o'\<rparr>"

definition metadata_with_nudge :: "string \<Rightarrow> event_metadata \<Rightarrow> event_metadata" where
  "metadata_with_nudge n m = m\<lparr>em_nudge_id := Some n\<rparr>"

definition metadata_with_fingerprint :: "string \<Rightarrow> event_metadata \<Rightarrow> event_metadata" where
  "metadata_with_fingerprint f m = m\<lparr>em_event_fingerprint := Some f\<rparr>"

definition metadata_with_environment :: "string \<Rightarrow> event_metadata \<Rightarrow> event_metadata" where
  "metadata_with_environment l m = m\<lparr>em_environment_label := Some l\<rparr>"

definition metadata_with_emitter :: "string \<Rightarrow> event_metadata \<Rightarrow> event_metadata" where
  "metadata_with_emitter e m = m\<lparr>em_emitter_identity := Some e\<rparr>"

definition metadata_with_confidence :: "confidence_level \<Rightarrow> event_metadata \<Rightarrow> event_metadata" where
  "metadata_with_confidence c m = m\<lparr>em_confidence_level := Some c\<rparr>"

section \<open>Events\<close>

record lane_event =
  le_event :: lane_name
  le_status :: lane_status
  le_emitted_at :: string
  le_failure_class :: "lane_failure option"
  le_detail :: "string option"
  le_data :: "json option"
  le_metadata :: event_metadata

definition compute_event_fingerprint ::
  "(string list \<Rightarrow> u64) \<Rightarrow> (json \<Rightarrow> string) \<Rightarrow> lane_name \<Rightarrow> lane_status \<Rightarrow> json option \<Rightarrow> string" where
  "compute_event_fingerprint hasher to_string event status data =
     hex16 (hasher ([debug_lane_name event, debug_lane_status status]
       @ (case data of None \<Rightarrow> [] | Some d \<Rightarrow> [to_string d])))"

text \<open>The builder has the fields of the event it builds.\<close>

definition builder_new ::
  "nat option \<Rightarrow> lane_name \<Rightarrow> lane_status \<Rightarrow> string \<Rightarrow> u64 \<Rightarrow> event_provenance \<Rightarrow> lane_event" where
  "builder_new now event status emitted_at seq provenance =
     \<lparr>le_event = event, le_status = status, le_emitted_at = emitted_at, le_failure_class = None, le_detail = None,
      le_data = None, le_metadata = metadata_new now seq provenance\<rparr>"

definition builder_metadata :: "(event_metadata \<Rightarrow> event_metadata) \<Rightarrow> lane_event \<Rightarrow> lane_event" where
  "builder_metadata f b = b\<lparr>le_metadata := f (le_metadata b)\<rparr>"

definition build_terminal :: "(string list \<Rightarrow> u64) \<Rightarrow> (json \<Rightarrow> string) \<Rightarrow> lane_event \<Rightarrow> lane_event" where
  "build_terminal hasher to_string b =
     builder_metadata (metadata_with_fingerprint
       (compute_event_fingerprint hasher to_string (le_event b) (le_status b) (le_data b))) b"

definition lane_event_new :: "nat option \<Rightarrow> lane_name \<Rightarrow> lane_status \<Rightarrow> string \<Rightarrow> lane_event" where
  "lane_event_new now event status emitted_at =
     \<lparr>le_event = event, le_status = status, le_emitted_at = emitted_at, le_failure_class = None, le_detail = None,
      le_data = None, le_metadata = metadata_new now 0 LiveLane\<rparr>"

definition event_with_failure_class :: "lane_failure \<Rightarrow> lane_event \<Rightarrow> lane_event" where
  "event_with_failure_class f e = e\<lparr>le_failure_class := Some f\<rparr>"

definition event_with_detail :: "string \<Rightarrow> lane_event \<Rightarrow> lane_event" where
  "event_with_detail d e = e\<lparr>le_detail := Some d\<rparr>"

definition event_with_optional_detail :: "string option \<Rightarrow> lane_event \<Rightarrow> lane_event" where
  "event_with_optional_detail d e = e\<lparr>le_detail := d\<rparr>"

definition event_with_data :: "json \<Rightarrow> lane_event \<Rightarrow> lane_event" where
  "event_with_data d e = e\<lparr>le_data := Some d\<rparr>"

datatype blocked_subphase =
    BlockedTrustPrompt string
  | BlockedPromptDelivery u32
  | BlockedPluginInit string
  | BlockedMcpHandshake string u32
  | BlockedBranchFreshness u32
  | BlockedTestHang u32 "string option"
  | BlockedReportPending u32

record event_blocker =
  bl_failure_class :: lane_failure
  bl_detail :: string
  bl_subphase :: "blocked_subphase option"

record commit_provenance =
  cp_commit :: string
  cp_branch :: string
  cp_worktree :: "string option"
  cp_canonical_commit :: "string option"
  cp_superseded_by :: "string option"
  cp_lineage :: "string list"

datatype merge_method = DirectPush | FastForward | MergeCommit | SquashMerge | RebaseMerge

record ship_provenance =
  sh_source_branch :: string
  sh_base_commit :: string
  sh_commit_count :: u32
  sh_commit_range :: string
  sh_merge_method :: merge_method
  sh_actor :: string
  sh_pr_number :: "u32 option"

definition opt_entry :: "string \<Rightarrow> ('a \<Rightarrow> json) \<Rightarrow> 'a option \<Rightarrow> (string \<times> json) list" where
  "opt_entry k f v = (case v of None \<Rightarrow> [] | Some x \<Rightarrow> [(k, f x)])"

fun subphase_value :: "blocked_subphase \<Rightarrow> json" where
  "subphase_value (BlockedTrustPrompt r) = jobj [(''blocked.trust_prompt'', jobj [(''gate_repo'', JStr r)])]"
| "subphase_value (BlockedPromptDelivery n) = jobj [(''blocked.prompt_delivery'', jobj [(''attempt'', ju32 n)])]"
| "subphase_value (BlockedPluginInit p) = jobj [(''blocked.plugin_init'', jobj [(''plugin_name'', JStr p)])]"
| "subphase_value (BlockedMcpHandshake s n) =
     jobj [(''blocked.mcp_handshake'', jobj [(''server_name'', JStr s), (''attempt'', ju32 n)])]"
| "subphase_value (BlockedBranchFreshness n) = jobj [(''blocked.branch_freshness'', jobj [(''behind_main'', ju32 n)])]"
| "subphase_value (BlockedTestHang n t) =
     jobj [(''blocked.test_hang'', jobj [(''elapsed_secs'', ju32 n), (''test_name'', jopt JStr t)])]"
| "subphase_value (BlockedReportPending n) = jobj [(''blocked.report_pending'', jobj [(''since_secs'', ju32 n)])]"

definition commit_value :: "commit_provenance \<Rightarrow> json" where
  "commit_value p = jobj ([(''commit'', JStr (cp_commit p)), (''branch'', JStr (cp_branch p))]
     @ opt_entry ''worktree'' JStr (cp_worktree p) @ opt_entry ''canonicalCommit'' JStr (cp_canonical_commit p)
     @ opt_entry ''supersededBy'' JStr (cp_superseded_by p)
     @ (if cp_lineage p = [] then [] else [(''lineage'', JArr (map JStr (cp_lineage p)))]))"

fun merge_method_value :: "merge_method \<Rightarrow> json" where
  "merge_method_value DirectPush = JStr ''direct_push''"
| "merge_method_value FastForward = JStr ''fast_forward''"
| "merge_method_value MergeCommit = JStr ''merge_commit''"
| "merge_method_value SquashMerge = JStr ''squash_merge''"
| "merge_method_value RebaseMerge = JStr ''rebase_merge''"

definition ship_value :: "ship_provenance \<Rightarrow> json" where
  "ship_value p = jobj ([(''source_branch'', JStr (sh_source_branch p)), (''base_commit'', JStr (sh_base_commit p)),
     (''commit_count'', ju32 (sh_commit_count p)), (''commit_range'', JStr (sh_commit_range p)),
     (''merge_method'', merge_method_value (sh_merge_method p)), (''actor'', JStr (sh_actor p))]
     @ opt_entry ''pr_number'' ju32 (sh_pr_number p))"

definition event_started where
  "event_started now emitted_at = lane_event_new now LnStarted LsRunning emitted_at"

definition event_finished where
  "event_finished now emitted_at detail =
     event_with_optional_detail detail (lane_event_new now LnFinished LsCompleted emitted_at)"

definition event_commit_created where
  "event_commit_created now emitted_at detail provenance =
     event_with_data (commit_value provenance)
       (event_with_optional_detail detail (lane_event_new now LnCommitCreated LsCompleted emitted_at))"

definition event_superseded where
  "event_superseded now emitted_at detail provenance =
     event_with_data (commit_value provenance)
       (event_with_optional_detail detail (lane_event_new now LnSuperseded LsSuperseded emitted_at))"

definition with_blocker :: "event_blocker \<Rightarrow> lane_event \<Rightarrow> lane_event" where
  "with_blocker b e =
     (let e1 = event_with_detail (bl_detail b) (event_with_failure_class (bl_failure_class b) e)
      in case bl_subphase b of None \<Rightarrow> e1 | Some s \<Rightarrow> event_with_data (subphase_value s) e1)"

definition event_blocked where
  "event_blocked now emitted_at blocker = with_blocker blocker (lane_event_new now LnBlocked LsBlocked emitted_at)"

definition event_failed where
  "event_failed now emitted_at blocker = with_blocker blocker (lane_event_new now LnFailed LsFailed emitted_at)"

definition event_ship_prepared where
  "event_ship_prepared now emitted_at p = event_with_data (ship_value p) (lane_event_new now LnShipPrepared LsReady emitted_at)"

definition event_ship_commits_selected :: "nat option \<Rightarrow> string \<Rightarrow> u32 \<Rightarrow> string \<Rightarrow> lane_event" where
  "event_ship_commits_selected now emitted_at commit_count commit_range =
     event_with_detail (show_nat (unat commit_count) @ '' commits: '' @ commit_range)
       (lane_event_new now LnShipCommitsSelected LsReady emitted_at)"

definition event_ship_merged where
  "event_ship_merged now emitted_at p = event_with_data (ship_value p) (lane_event_new now LnShipMerged LsCompleted emitted_at)"

definition event_ship_pushed_main where
  "event_ship_pushed_main now emitted_at p =
     event_with_data (ship_value p) (lane_event_new now LnShipPushedMain LsCompleted emitted_at)"

section \<open>Reconciliation\<close>

definition is_terminal_event :: "lane_name \<Rightarrow> bool" where
  "is_terminal_event n \<longleftrightarrow> n \<in> {LnFinished, LnFailed, LnSuperseded, LnClosed, LnMerged}"

datatype event_terminality = TerminalOutcome | AdvisoryNote | UncertainOutcome

definition classify_event_terminality :: "lane_name \<Rightarrow> event_terminality" where
  "classify_event_terminality n =
     (if n \<in> {LnFinished, LnFailed, LnMerged, LnSuperseded, LnClosed} then TerminalOutcome
      else if n = LnReconciled then UncertainOutcome else AdvisoryNote)"

definition events_materially_differ :: "lane_event \<Rightarrow> lane_event \<Rightarrow> bool" where
  "events_materially_differ a b \<longleftrightarrow>
     le_event a \<noteq> le_event b \<or> le_status a \<noteq> le_status b \<or> le_failure_class a \<noteq> le_failure_class b \<or> le_data a \<noteq> le_data b"

definition same_fingerprint :: "lane_event \<Rightarrow> lane_event \<Rightarrow> bool" where
  "same_fingerprint a b =
     (case (em_event_fingerprint (le_metadata a), em_event_fingerprint (le_metadata b)) of
        (Some f, Some g) \<Rightarrow> f = g
      | _ \<Rightarrow> False)"

text \<open>The loop's variables: the last terminal event, whether doubt came after one, and the other events.\<close>

definition reconcile_step ::
  "lane_event \<Rightarrow> lane_event option \<times> bool \<times> lane_event list \<Rightarrow> lane_event option \<times> bool \<times> lane_event list" where
  "reconcile_step event st =
     (case st of (last_terminal, uncertain, reconciled) \<Rightarrow>
        (case classify_event_terminality (le_event event) of
           TerminalOutcome \<Rightarrow>
             (case last_terminal of
                None \<Rightarrow> (Some event, uncertain, reconciled)
              | Some terminal \<Rightarrow>
                  if same_fingerprint event terminal then st
                  else if events_materially_differ terminal event then (Some event, uncertain, reconciled)
                  else st)
         | UncertainOutcome \<Rightarrow> (last_terminal, uncertain \<or> last_terminal \<noteq> None, reconciled @ [event])
         | AdvisoryNote \<Rightarrow> (last_terminal, uncertain, reconciled @ [event])))"

definition doubted :: "lane_event \<Rightarrow> lane_event" where
  "doubted t = t\<lparr>le_event := LnReconciled, le_status := LsReconciled,
     le_detail := Some ''Session terminal state uncertain: transport died after terminal event''\<rparr>"

definition reconcile_terminal_events :: "lane_event list \<Rightarrow> (lane_event \<times> lane_event list) option" where
  "reconcile_terminal_events events =
     (if events = [] then None
      else
        (case fold reconcile_step (sort_key (\<lambda>e. em_seq (le_metadata e)) events) (None, False, []) of
           (last_terminal, uncertain, reconciled) \<Rightarrow>
             map_option (\<lambda>t. (if uncertain then doubted t else t, reconciled)) last_terminal))"

section \<open>Filters\<close>

definition filter_by_provenance :: "lane_event list \<Rightarrow> event_provenance \<Rightarrow> lane_event list" where
  "filter_by_provenance events p = filter (\<lambda>e. em_provenance (le_metadata e) = p) events"

definition filter_by_environment :: "lane_event list \<Rightarrow> string \<Rightarrow> lane_event list" where
  "filter_by_environment events environment =
     filter (\<lambda>e. em_environment_label (le_metadata e) = Some environment) events"

fun confidence_order :: "confidence_level \<Rightarrow> nat" where
  "confidence_order HighConfidence = 3"
| "confidence_order MediumConfidence = 2"
| "confidence_order LowConfidence = 1"
| "confidence_order UnknownConfidence = 0"

definition filter_by_confidence :: "lane_event list \<Rightarrow> confidence_level \<Rightarrow> lane_event list" where
  "filter_by_confidence events min_confidence =
     filter (\<lambda>e. case em_confidence_level (le_metadata e) of
        None \<Rightarrow> False | Some c \<Rightarrow> confidence_order c \<ge> confidence_order min_confidence) events"

definition is_test_event :: "lane_event \<Rightarrow> bool" where
  "is_test_event e \<longleftrightarrow> em_provenance (le_metadata e) \<in> {SyntheticTest, Healthcheck, Replay}"

definition is_live_lane_event :: "lane_event \<Rightarrow> bool" where
  "is_live_lane_event e \<longleftrightarrow> em_provenance (le_metadata e) = LiveLane"

section \<open>Nudges and roadmap items\<close>

record nudge_tracking =
  nt_nudge_id :: string
  nt_delivered_at :: string
  nt_acknowledged :: bool
  nt_acknowledged_at :: "string option"
  nt_is_retry :: bool
  nt_original_nudge_id :: "string option"

definition nudge_new :: "string \<Rightarrow> string \<Rightarrow> nudge_tracking" where
  "nudge_new nudge_id delivered_at = \<lparr>nt_nudge_id = nudge_id, nt_delivered_at = delivered_at, nt_acknowledged = False,
     nt_acknowledged_at = None, nt_is_retry = False, nt_original_nudge_id = None\<rparr>"

definition nudge_retry :: "string \<Rightarrow> string \<Rightarrow> string \<Rightarrow> nudge_tracking" where
  "nudge_retry nudge_id delivered_at original = \<lparr>nt_nudge_id = nudge_id, nt_delivered_at = delivered_at,
     nt_acknowledged = False, nt_acknowledged_at = None, nt_is_retry = True, nt_original_nudge_id = Some original\<rparr>"

definition nudge_acknowledge :: "string \<Rightarrow> nudge_tracking \<Rightarrow> nudge_tracking" where
  "nudge_acknowledge at n = n\<lparr>nt_acknowledged := True, nt_acknowledged_at := Some at\<rparr>"

datatype nudge_classification = NewNudge | RetryNudge | StaleDuplicate

fun nudge_seen :: "string \<Rightarrow> nudge_tracking list \<Rightarrow> nudge_classification" where
  "nudge_seen nudge_id [] = NewNudge"
| "nudge_seen nudge_id (t # ts) =
     (if nt_nudge_id t = nudge_id then (if nt_acknowledged t then StaleDuplicate else RetryNudge)
      else if nt_original_nudge_id t = Some nudge_id then StaleDuplicate
      else nudge_seen nudge_id ts)"

definition classify_nudge :: "string \<Rightarrow> nudge_tracking list \<Rightarrow> string list \<Rightarrow> nudge_classification" where
  "classify_nudge nudge_id existing_tracking acknowledged_nudge_ids =
     (if nudge_id \<in> set acknowledged_nudge_ids then StaleDuplicate else nudge_seen nudge_id existing_tracking)"

record roadmap_id =
  ri_id :: string
  ri_filed_at :: string
  ri_is_new_filing :: bool
  ri_supersedes :: "string option"

definition new_filing :: "string \<Rightarrow> string \<Rightarrow> roadmap_id" where
  "new_filing i filed_at = \<lparr>ri_id = i, ri_filed_at = filed_at, ri_is_new_filing = True, ri_supersedes = None\<rparr>"

definition filing_update :: "string \<Rightarrow> string \<Rightarrow> roadmap_id" where
  "filing_update i filed_at = \<lparr>ri_id = i, ri_filed_at = filed_at, ri_is_new_filing = False, ri_supersedes = None\<rparr>"

definition filing_supersedes :: "string \<Rightarrow> string \<Rightarrow> string \<Rightarrow> roadmap_id" where
  "filing_supersedes i filed_at previous =
     \<lparr>ri_id = i, ri_filed_at = filed_at, ri_is_new_filing = True, ri_supersedes = Some previous\<rparr>"

datatype roadmap_state = RoadmapFiled | RoadmapAcknowledged | RoadmapInProgress | RoadmapBlocked | RoadmapDone | RoadmapSuperseded

record roadmap_lifecycle =
  rl_state :: roadmap_state
  rl_state_changed_at :: string
  rl_filed_at :: string
  rl_lineage :: "string list"

definition lifecycle_new_filed :: "string \<Rightarrow> roadmap_lifecycle" where
  "lifecycle_new_filed filed_at =
     \<lparr>rl_state = RoadmapFiled, rl_state_changed_at = filed_at, rl_filed_at = filed_at, rl_lineage = []\<rparr>"

definition lifecycle_transition :: "roadmap_state \<Rightarrow> string \<Rightarrow> roadmap_lifecycle \<Rightarrow> roadmap_lifecycle" where
  "lifecycle_transition new_state at l = l\<lparr>rl_state := new_state, rl_state_changed_at := at\<rparr>"

definition lifecycle_superseded_by :: "string \<Rightarrow> string \<Rightarrow> roadmap_lifecycle \<Rightarrow> roadmap_lifecycle" where
  "lifecycle_superseded_by new_item_id at l =
     l\<lparr>rl_lineage := rl_lineage l @ [new_item_id], rl_state := RoadmapSuperseded, rl_state_changed_at := at\<rparr>"

definition lifecycle_is_terminal :: "roadmap_lifecycle \<Rightarrow> bool" where
  "lifecycle_is_terminal l \<longleftrightarrow> rl_state l \<in> {RoadmapDone, RoadmapSuperseded}"

definition lifecycle_is_active :: "roadmap_lifecycle \<Rightarrow> bool" where
  "lifecycle_is_active l \<longleftrightarrow> \<not> lifecycle_is_terminal l"

section \<open>Repeated events\<close>

fun dedupe_from :: "string set \<Rightarrow> lane_event list \<Rightarrow> lane_event list" where
  "dedupe_from seen [] = []"
| "dedupe_from seen (e # es) =
     (if is_terminal_event (le_event e) then
        (case em_event_fingerprint (le_metadata e) of
           None \<Rightarrow> e # dedupe_from seen es
         | Some fp \<Rightarrow> if fp \<in> seen then dedupe_from seen es else e # dedupe_from (insert fp seen) es)
      else e # dedupe_from seen es)"

definition dedupe_terminal_events :: "lane_event list \<Rightarrow> lane_event list" where
  "dedupe_terminal_events events = dedupe_from {} events"

definition commit_key :: "json \<Rightarrow> string option" where
  "commit_key data =
     Option.bind (case json_get data ''canonicalCommit'' of Some v \<Rightarrow> Some v | None \<Rightarrow> json_get data ''commit'') as_str"

definition commit_superseded :: "json \<Rightarrow> bool" where
  "commit_superseded data \<longleftrightarrow> get_str data ''supersededBy'' \<noteq> None"

text \<open>The body of the loop, on the flags and the latest index of each key.\<close>

definition commit_step ::
  "nat \<times> lane_event \<Rightarrow> bool list \<times> (string, nat) btree \<Rightarrow> bool list \<times> (string, nat) btree" where
  "commit_step entry st =
     (case entry of (index, event) \<Rightarrow> (case st of (keep, latest) \<Rightarrow>
        if le_event event \<noteq> LnCommitCreated then st
        else case le_data event of
          None \<Rightarrow> st
        | Some data \<Rightarrow>
            if commit_superseded data then (keep[index := False], latest)
            else case commit_key data of
              None \<Rightarrow> st
            | Some key \<Rightarrow>
                ((case bt_get latest key of None \<Rightarrow> keep | Some previous \<Rightarrow> keep[previous := False]),
                 bt_insert key index latest)))"

definition dedupe_superseded_commit_events :: "lane_event list \<Rightarrow> lane_event list" where
  "dedupe_superseded_commit_events events =
     (case fold commit_step (enumerate 0 events) (replicate (length events) True, []) of
        (keep, _) \<Rightarrow> map fst (filter snd (zip events keep)))"

section \<open>What reconciliation promises\<close>

definition outcome_of :: "lane_event \<Rightarrow> lane_name \<times> lane_status \<times> lane_failure option \<times> json option" where
  "outcome_of e = (le_event e, le_status e, le_failure_class e, le_data e)"

lemma differ_iff: "events_materially_differ a b \<longleftrightarrow> outcome_of a \<noteq> outcome_of b"
  by (auto simp: events_materially_differ_def outcome_of_def)

abbreviation terminal :: "lane_event \<Rightarrow> bool" where
  "terminal e \<equiv> is_terminal_event (le_event e)"

lemma classify_terminal: "classify_event_terminality n = TerminalOutcome \<longleftrightarrow> is_terminal_event n"
  and classify_uncertain: "classify_event_terminality n = UncertainOutcome \<longleftrightarrow> n = LnReconciled"
  by (auto simp: classify_event_terminality_def is_terminal_event_def)

definition in_order :: "lane_event list \<Rightarrow> lane_event list" where
  "in_order events = sort_key (\<lambda>e. em_seq (le_metadata e)) events"

text \<open>Doubt: a reconciled event after the first terminal one.\<close>

definition doubt_after :: "lane_event list \<Rightarrow> bool" where
  "doubt_after es \<longleftrightarrow> list_ex (\<lambda>e. le_event e = LnReconciled) (dropWhile (\<lambda>e. \<not> terminal e) es)"

text \<open>Events whose fingerprints tell their outcomes apart.\<close>

definition honest :: "lane_event list \<Rightarrow> bool" where
  "honest es \<longleftrightarrow> (\<forall>a \<in> set es. \<forall>b \<in> set es. same_fingerprint a b \<longrightarrow> outcome_of a = outcome_of b)"

definition reconcile_inv :: "lane_event list \<Rightarrow> lane_event option \<times> bool \<times> lane_event list \<Rightarrow> bool" where
  "reconcile_inv es st \<longleftrightarrow> (case st of (last_terminal, uncertain, others) \<Rightarrow>
     others = filter (\<lambda>e. \<not> terminal e) es \<and> uncertain = doubt_after es
     \<and> (case last_terminal of
          None \<Rightarrow> filter terminal es = []
        | Some t \<Rightarrow> t \<in> set es \<and> terminal t \<and> (honest es \<longrightarrow> outcome_of t = outcome_of (last (filter terminal es)))))"

lemma doubt_snoc:
  "doubt_after (es @ [e]) \<longleftrightarrow> doubt_after es \<or> filter terminal es \<noteq> [] \<and> le_event e = LnReconciled"
proof (cases "filter terminal es = []")
  case True
  then have "\<forall>x \<in> set es. \<not> terminal x" by (simp add: filter_empty_conv)
  moreover have "\<not> is_terminal_event LnReconciled" by (simp add: is_terminal_event_def)
  ultimately show ?thesis using True
    by (auto simp: doubt_after_def dropWhile_append dropWhile_eq_Nil_conv [THEN iffD2])
next
  case False
  then obtain x where "x \<in> set es" "terminal x" by (auto simp: filter_empty_conv)
  then show ?thesis using False by (auto simp: doubt_after_def dropWhile_append1 [of x])
qed

lemma step_quiet:
  "\<not> terminal e \<Longrightarrow> reconcile_step e (t, u, others) = (t, u \<or> t \<noteq> None \<and> le_event e = LnReconciled, others @ [e])"
  by (auto simp: reconcile_step_def classify_event_terminality_def is_terminal_event_def)

lemma step_terminal:
  "terminal e \<Longrightarrow> reconcile_step e (t, u, others) =
     (if t \<noteq> None \<and> (same_fingerprint e (the t) \<or> outcome_of (the t) = outcome_of e) then t else Some e, u, others)"
  by (auto simp: reconcile_step_def classify_event_terminality_def is_terminal_event_def differ_iff split: option.split)

lemma honest_snoc: "honest (es @ [e]) \<Longrightarrow> honest es"
  by (simp add: honest_def)

lemma reconcile_inv_step:
  assumes "reconcile_inv es st"
  shows "reconcile_inv (es @ [e]) (reconcile_step e st)"
proof -
  obtain t u others where st: "st = (t, u, others)" by (cases st)
  have inv: "others = filter (\<lambda>e. \<not> terminal e) es" "u = doubt_after es"
    using assms by (simp_all add: reconcile_inv_def st)
  have some: "t = None \<longleftrightarrow> filter terminal es = []"
    using assms by (auto simp: reconcile_inv_def st filter_empty_conv split: option.splits)
  have last: "t = Some a \<Longrightarrow> a \<in> set es \<and> terminal a \<and> (honest es \<longrightarrow> outcome_of a = outcome_of (last (filter terminal es)))" for a
    using assms by (simp add: reconcile_inv_def st)
  show ?thesis
  proof (cases "terminal e")
    case False
    have "reconcile_step e st = (t, doubt_after (es @ [e]), filter (\<lambda>e. \<not> terminal e) (es @ [e]))"
      using False some inv by (simp add: st step_quiet doubt_snoc)
    then show ?thesis
      using False some last honest_snoc [of es e] by (cases t) (auto simp: reconcile_inv_def)
  next
    case True
    then have "le_event e \<noteq> LnReconciled" by (auto simp: is_terminal_event_def)
    then have doubt: "doubt_after (es @ [e]) = u" using inv by (simp add: doubt_snoc)
    have others: "others = filter (\<lambda>e. \<not> terminal e) (es @ [e])" using inv True by simp
    show ?thesis
    proof (cases "t \<noteq> None \<and> (same_fingerprint e (the t) \<or> outcome_of (the t) = outcome_of e)")
      case stays: True
      then obtain a where a: "t = Some a" by auto
      have "honest (es @ [e]) \<Longrightarrow> outcome_of a = outcome_of e"
        using stays last [OF a] a by (fastforce simp: honest_def)
      then show ?thesis
        using stays a last [OF a] True doubt others by (simp add: reconcile_inv_def st step_terminal)
    next
      case False
      then have "reconcile_step e st = (Some e, u, others)" using True by (auto simp: st step_terminal)
      then show ?thesis using True doubt others by (simp add: reconcile_inv_def)
    qed
  qed
qed

lemma reconcile_fold: "reconcile_inv es (fold reconcile_step es (None, False, []))"
proof (induction es rule: rev_induct)
  case Nil
  then show ?case by (simp add: reconcile_inv_def doubt_after_def)
next
  case (snoc e es)
  then show ?case using reconcile_inv_step by simp
qed

lemma reconcile_in_order:
  "reconcile_terminal_events events =
     (case fold reconcile_step (in_order events) (None, False, []) of
        (t, u, others) \<Rightarrow> map_option (\<lambda>t. (if u then doubted t else t, others)) t)"
  by (simp add: reconcile_terminal_events_def in_order_def)

text \<open>
  A burst of events has an outcome exactly when one of them is terminal. The other events come back in the
  order of their numbers; the outcome is one of the terminal events, marked as doubted exactly when a reconciled
  event follows the first of them, and, where equal fingerprints mean equal outcomes, it agrees with the terminal
  event of the highest number in name, status, failure class and data.
\<close>

theorem burst_reconciled:
  assumes "honest events"
  shows "case reconcile_terminal_events events of
      None \<Rightarrow> filter terminal events = []
    | Some (outcome, others) \<Rightarrow> others = filter (\<lambda>e. \<not> terminal e) (in_order events)
        \<and> (\<exists>t. t \<in> set events \<and> terminal t \<and> outcome = (if doubt_after (in_order events) then doubted t else t)
            \<and> outcome_of t = outcome_of (last (filter terminal (in_order events))))"
proof -
  obtain t u others where run: "fold reconcile_step (in_order events) (None, False, []) = (t, u, others)" by (metis prod_cases3)
  have inv: "reconcile_inv (in_order events) (t, u, others)" using reconcile_fold [of "in_order events"] run by simp
  have same: "set (in_order events) = set events" by (simp add: in_order_def)
  then have "honest (in_order events)" using assms by (simp add: honest_def)
  moreover have "filter terminal (in_order events) = [] \<longleftrightarrow> filter terminal events = []"
    using same by (simp add: filter_empty_conv)
  ultimately show ?thesis
    using inv same by (cases t) (auto simp: reconcile_in_order run reconcile_inv_def)
qed

text \<open>The fingerprint leaves the failure class out, so the later of two failures can be dropped.\<close>

lemma fingerprint_blind:
  "le_event a = le_event b \<Longrightarrow> le_status a = le_status b \<Longrightarrow> le_data a = le_data b \<Longrightarrow>
    same_fingerprint (build_terminal hasher to_string a) (build_terminal hasher to_string b)"
  by (simp add: same_fingerprint_def build_terminal_def builder_metadata_def metadata_with_fingerprint_def)

definition sample_lane_event :: "u64 \<Rightarrow> lane_name \<Rightarrow> lane_status \<Rightarrow> lane_event" where
  "sample_lane_event seq n status =
     builder_metadata (metadata_with_fingerprint (debug_lane_name n)) (builder_new None n status [] seq LiveLane)"

theorem burst_reconciled_witness:
  "let events = [sample_lane_event 3 LnReconciled LsReconciled, sample_lane_event 2 LnFinished LsCompleted,
       sample_lane_event 1 LnFailed LsFailed]
   in case reconcile_terminal_events events of
        None \<Rightarrow> filter terminal events = []
      | Some (outcome, others) \<Rightarrow> others = filter (\<lambda>e. \<not> terminal e) (in_order events)
          \<and> (\<exists>t. t \<in> set events \<and> terminal t \<and> outcome = (if doubt_after (in_order events) then doubted t else t)
              \<and> outcome_of t = outcome_of (last (filter terminal (in_order events))))"
  unfolding Let_def
proof (rule burst_reconciled)
  show "honest [sample_lane_event 3 LnReconciled LsReconciled, sample_lane_event 2 LnFinished LsCompleted,
       sample_lane_event 1 LnFailed LsFailed]"
    by (simp add: honest_def sample_lane_event_def builder_metadata_def metadata_with_fingerprint_def builder_new_def
        same_fingerprint_def)
qed

section \<open>What dropping repeated events keeps\<close>

lemma dedupe_keeps_others: "filter (\<lambda>e. \<not> terminal e) (dedupe_from seen es) = filter (\<lambda>e. \<not> terminal e) es"
  by (induction seen es rule: dedupe_from.induct) (simp_all split: option.split)

definition fingerprints :: "lane_event list \<Rightarrow> string list" where
  "fingerprints es = List.map_filter (\<lambda>e. em_event_fingerprint (le_metadata e)) (filter terminal es)"

lemma fingerprints_simps [simp]:
  "fingerprints [] = []"
  "fingerprints (e # es) = (if terminal e then (case em_event_fingerprint (le_metadata e) of None \<Rightarrow> [] | Some f \<Rightarrow> [f]) else [])
     @ fingerprints es"
  by (simp_all add: fingerprints_def map_filter_simps split: option.split)

definition key_of :: "lane_event \<Rightarrow> string option" where
  "key_of e = (if terminal e then em_event_fingerprint (le_metadata e) else None)"

lemma dedupe_key:
  "dedupe_from seen (e # es) = (case key_of e of None \<Rightarrow> e # dedupe_from seen es
     | Some fp \<Rightarrow> if fp \<in> seen then dedupe_from seen es else e # dedupe_from (insert fp seen) es)"
  "fingerprints (e # es) = (case key_of e of None \<Rightarrow> [] | Some f \<Rightarrow> [f]) @ fingerprints es"
  by (simp_all add: key_of_def)

lemma dedupe_set: "set (fingerprints (dedupe_from seen es)) = set (fingerprints es) - seen"
proof (induction es arbitrary: seen)
  case (Cons e es)
  show ?case
  proof (cases "key_of e")
    case None
    then show ?thesis unfolding dedupe_key using Cons.IH [of seen] by (simp add: dedupe_key del: dedupe_from.simps fingerprints_simps)
  next
    case (Some f)
    have "set (fingerprints (dedupe_from (insert f seen) es)) = set (fingerprints es) - insert f seen" by (rule Cons.IH)
    then show ?thesis using Cons.IH [of seen] Some
      by (cases "f \<in> seen") (auto simp: dedupe_key simp del: dedupe_from.simps fingerprints_simps)
  qed
qed simp

lemma dedupe_distinct: "distinct (fingerprints (dedupe_from seen es))"
proof (induction es arbitrary: seen)
  case (Cons e es)
  show ?case
  proof (cases "em_event_fingerprint (le_metadata e)")
    case (Some f)
    show ?thesis using Cons.IH [of seen] Cons.IH [of "insert f seen"] Some by (simp add: dedupe_set)
  qed (use Cons.IH [of seen] in simp)
qed simp

lemma dedupe_again: "distinct (fingerprints es) \<Longrightarrow> set (fingerprints es) \<inter> seen = {} \<Longrightarrow> dedupe_from seen es = es"
proof (induction es arbitrary: seen)
  case (Cons e es)
  then show ?case
    using Cons.IH [of seen] Cons.IH [of "insert (the (em_event_fingerprint (le_metadata e))) seen"]
    by (cases "terminal e"; cases "em_event_fingerprint (le_metadata e)") auto
qed simp

text \<open>No fingerprint of a terminal event is lost or left twice, and a second pass drops nothing.\<close>

lemma terminal_events_deduped:
  "distinct (fingerprints (dedupe_terminal_events es))"
  "set (fingerprints (dedupe_terminal_events es)) = set (fingerprints es)"
  "dedupe_terminal_events (dedupe_terminal_events es) = dedupe_terminal_events es"
  using dedupe_distinct [of "{}" es] dedupe_set [of "{}" es] dedupe_again [of "dedupe_from {} es" "{}"] by (simp_all add: dedupe_terminal_events_def)

definition commit_data :: "lane_event \<Rightarrow> json option" where
  "commit_data e = (if le_event e = LnCommitCreated then le_data e else None)"

definition superseded_commit :: "lane_event \<Rightarrow> bool" where
  "superseded_commit e \<longleftrightarrow> (case commit_data e of None \<Rightarrow> False | Some d \<Rightarrow> commit_superseded d)"

definition live_key :: "lane_event \<Rightarrow> string option" where
  "live_key e = (if superseded_commit e then None else Option.bind (commit_data e) commit_key)"

text \<open>What is kept: an event that is not superseded and whose commit no later live event names.\<close>

definition commit_kept :: "lane_event list \<Rightarrow> nat \<Rightarrow> bool" where
  "commit_kept es i \<longleftrightarrow> \<not> superseded_commit (es ! i)
     \<and> (live_key (es ! i) = None \<or> live_key (es ! i) \<notin> set (map live_key (drop (Suc i) es)))"

lemma commit_step_key:
  "commit_step (i, e) (keep, latest) =
     (if superseded_commit e then (keep[i := False], latest)
      else case live_key e of
        None \<Rightarrow> (keep, latest)
      | Some k \<Rightarrow> ((case bt_get latest k of None \<Rightarrow> keep | Some p \<Rightarrow> keep[p := False]), bt_insert k i latest))"
  by (auto simp: commit_step_def superseded_commit_def live_key_def commit_data_def split: option.split)

lemma kept_snoc:
  "i < length es \<Longrightarrow> commit_kept (es @ [e]) i \<longleftrightarrow>
     commit_kept es i \<and> (live_key (es ! i) = None \<or> live_key (es ! i) \<noteq> live_key e)"
  by (auto simp: commit_kept_def nth_append)

lemma kept_last: "commit_kept (es @ [e]) (length es) \<longleftrightarrow> \<not> superseded_commit e"
  by (simp add: commit_kept_def)

fun latest_at :: "lane_event list \<Rightarrow> string \<Rightarrow> nat option \<Rightarrow> bool" where
  "latest_at es k None \<longleftrightarrow> (\<forall>x \<in> set es. live_key x \<noteq> Some k)"
| "latest_at es k (Some p) \<longleftrightarrow>
     p < length es \<and> live_key (es ! p) = Some k \<and> (\<forall>x \<in> set (drop (Suc p) es). live_key x \<noteq> Some k)"

definition latest_ok :: "lane_event list \<Rightarrow> (string, nat) btree \<Rightarrow> bool" where
  "latest_ok es latest \<longleftrightarrow> (\<forall>k. latest_at es k (bt_get latest k))"

lemma latest_at_other: "latest_at es k x \<Longrightarrow> live_key e \<noteq> Some k \<Longrightarrow> latest_at (es @ [e]) k x"
  by (cases x) (auto simp: nth_append)

definition flags_ok :: "nat \<Rightarrow> lane_event list \<Rightarrow> bool list \<times> (string, nat) btree \<Rightarrow> bool" where
  "flags_ok n es st \<longleftrightarrow> (case st of (keep, latest) \<Rightarrow>
     length keep = n \<and> (\<forall>i < n. keep ! i = (i < length es \<longrightarrow> commit_kept es i)) \<and> latest_ok es latest)"

lemma latest_other: "latest_ok es latest \<Longrightarrow> live_key e = None \<Longrightarrow> latest_ok (es @ [e]) latest"
  using latest_at_other by (simp add: latest_ok_def)

lemma latest_insert: "latest_ok es latest \<Longrightarrow> live_key e = Some k \<Longrightarrow> latest_ok (es @ [e]) (bt_insert k (length es) latest)"
  using latest_at_other by (simp add: latest_ok_def bt.get_ins)

lemma flags_step:
  assumes "flags_ok n es st" and "length es < n"
  shows "flags_ok n (es @ [e]) (commit_step (length es, e) st)"
proof -
  obtain keep latest where st: "st = (keep, latest)" by (cases st)
  have len: "length keep = n" and keep: "\<And>i. i < n \<Longrightarrow> keep ! i = (i < length es \<longrightarrow> commit_kept es i)" and latest: "latest_ok es latest"
    using assms(1) by (simp_all add: flags_ok_def st)
  have rest: "\<not> i < length (es @ [e]) \<Longrightarrow> i < n \<Longrightarrow> keep ! i" for i using keep [of i] by simp
  show ?thesis
  proof (cases "live_key e")
    case None
    have "(if superseded_commit e then keep[length es := False] else keep) ! i = (i < length (es @ [e]) \<longrightarrow> commit_kept (es @ [e]) i)" if "i < n" for i
      using keep [OF that] len that None by (cases "i < length es"; cases "i = length es") (auto simp: kept_snoc kept_last nth_list_update)
    then show ?thesis
      using len latest_other [OF latest None] None by (cases "superseded_commit e") (simp_all add: flags_ok_def st commit_step_key)
  next
    case (Some k)
    then have live: "\<not> superseded_commit e" by (auto simp: live_key_def split: if_splits)
    define keep' where "keep' = (case bt_get latest k of None \<Rightarrow> keep | Some p \<Rightarrow> keep[p := False])"
    have found: "latest_at es k (bt_get latest k)" using latest by (simp add: latest_ok_def)
    have "keep' ! i = (i < length (es @ [e]) \<longrightarrow> commit_kept (es @ [e]) i)" if i: "i < n" for i
    proof (cases "i < length es")
      case True
      show ?thesis
      proof (cases "bt_get latest k")
        case None
        then have "live_key (es ! i) \<noteq> Some k" using found True by simp
        then show ?thesis using keep [OF i] True Some None by (simp add: keep'_def kept_snoc)
      next
        case (Some p)
        then have p: "p < length es" "live_key (es ! p) = Some k" "\<forall>x \<in> set (drop (Suc p) es). live_key x \<noteq> Some k"
          using found by simp_all
        show ?thesis
        proof (cases "i = p")
          case True
          then show ?thesis using Some p i len \<open>live_key e = Some k\<close> by (simp add: keep'_def kept_snoc nth_list_update)
        next
          case False
          have "commit_kept es i \<Longrightarrow> live_key (es ! i) \<noteq> Some k"
          proof
            assume kept: "commit_kept es i" and key: "live_key (es ! i) = Some k"
            show False
            proof (cases "i < p")
              case True
              then have "es ! p \<in> set (drop (Suc i) es)"
                using p(1) by (auto simp: in_set_conv_nth intro!: exI [of _ "p - Suc i"])
              then show False using kept key p(2) by (force simp: commit_kept_def)
            next
              case False
              then have "es ! i \<in> set (drop (Suc p) es)"
                using \<open>i \<noteq> p\<close> \<open>i < length es\<close> by (auto simp: in_set_conv_nth intro!: exI [of _ "i - Suc p"])
              then show False using key p(3) by force
            qed
          qed
          then show ?thesis
            using keep [OF i] True Some False \<open>live_key e = Some k\<close> by (auto simp: keep'_def kept_snoc)
        qed
      qed
    next
      case False
      have "keep' ! i = keep ! i"
        using found False by (auto simp: keep'_def split: option.splits)
      then show ?thesis using keep [OF i] rest [OF _ i] False live by (cases "i = length es") (auto simp: kept_last)
    qed
    moreover have "length keep' = n" using len by (simp add: keep'_def split: option.split)
    ultimately show ?thesis
      using latest_insert [OF latest Some] live Some by (simp add: flags_ok_def st commit_step_key keep'_def)
  qed
qed

lemma flags_fold: "length es \<le> n \<Longrightarrow> flags_ok n es (fold commit_step (enumerate 0 es) (replicate n True, []))"
proof (induction es rule: rev_induct)
  case Nil
  then show ?case by (simp add: flags_ok_def latest_ok_def)
next
  case (snoc e es)
  then show ?case using flags_step [of n es _ e] by (simp add: enumerate_append_eq)
qed

lemma kept_pairs:
  "length keep = length es \<Longrightarrow> map fst (filter snd (zip es keep)) = map ((!) es) (filter ((!) keep) [0..<length es])"
proof (induction es arbitrary: keep rule: rev_induct)
  case (snoc e es)
  then obtain b bs where keep: "keep = bs @ [b]" "length bs = length es" by (cases keep rule: rev_cases) auto
  have flags: "filter ((!) (bs @ [b])) [0..<length (es @ [e])] = filter ((!) bs) [0..<length es] @ (if b then [length es] else [])"
    using keep(2) by (auto simp: nth_append intro!: filter_cong)
  have items: "map ((!) (es @ [e])) (filter ((!) bs) [0..<length es]) = map ((!) es) (filter ((!) bs) [0..<length es])"
    by (intro map_cong) (auto simp: nth_append)
  have "map fst (filter snd (zip (es @ [e]) keep)) = map ((!) es) (filter ((!) bs) [0..<length es]) @ (if b then [e] else [])"
    using snoc.IH [of bs] keep by simp
  then show ?case unfolding keep(1) flags map_append items by simp
qed simp

text \<open>
  Of the events of a lane exactly these are kept, in their order: all that tell of no commit, and of the commit
  events that are not marked as superseded the last of each commit, with those that name none.
\<close>

theorem commits_deduped:
  "dedupe_superseded_commit_events events = map ((!) events) (filter (commit_kept events) [0..<length events])"
proof -
  obtain keep latest where run: "fold commit_step (enumerate 0 events) (replicate (length events) True, []) = (keep, latest)"
    by fastforce
  have ok: "length keep = length events" "\<And>i. i < length events \<Longrightarrow> keep ! i = commit_kept events i"
    using flags_fold [of events "length events"] by (simp_all add: run flags_ok_def)
  have "filter ((!) keep) [0..<length events] = filter (commit_kept events) [0..<length events]"
    using ok(2) by (intro filter_cong) auto
  then show ?thesis
    using kept_pairs [OF ok(1)] by (simp add: dedupe_superseded_commit_events_def run)
qed

end
