(* ===== verification/Spec2Isabelle.thy ===== *)
theory Spec2Isabelle
  imports StreamCorrect SseCorrect TurnStreams ApiClientCorrect Telemetry Plugins Commands Usage
    SessionStore Config Tools RefJsonCorrect RefTasks RefLanes RefBash RefWorkerCorrect RefRecovery
    RefLifecycle RefSummary RefSessionCorrect RefCompactCorrect RefConversationCorrect RefHooksCorrect RefSse RefTrust
    RefFilesCorrect RefConfigCorrect RefSessionControlCorrect RefOpenAiCorrect RefApiClientsCorrect RefLaneEvents
begin

text \<open>
  \<^bold>\<open>Solarcido: a verification development of its Rust code.\<close>

  The repository holds a coding agent. Its product is a TypeScript command line; beside it stand a Rust
  port, \<open>src/crates/\<close>, and the Rust program the port was cut from, \<open>src/claw-rust/\<close>. This library
  models the Rust code: nearly all of the port, and the parts of the reference that carry logic of
  their own. Every definition is written from the source it is mapped to; a theory below
  names its file.

  \<^bold>\<open>The program.\<close> A turn of the port starts in \<open>ConversationRuntime\<close>: the user's text joins the session,
  the session becomes a chat request, the API client sends it with retries, and the answer comes
  back whole or as a stream of server-sent events. Tool calls in the answer pass the permission
  policy and, where it asks, a prompter; the tools read, search, edit and run; each result joins the
  session, and the loop goes on until an answer calls no tool or the iterations are used up. The
  session store, the configuration, the MCP manager, telemetry, plugins and slash commands surround
  this loop. The reference runtime has the same shape and adds registries of tasks, teams and cron
  jobs, a state machine for workers in terminals, recovery recipes, a policy engine for lanes of
  work, checks of shell commands, and sessions kept as append-only logs.

  \<^bold>\<open>Theories of the port.\<close>
  \<^item> \<open>Prelude\<close>, \<open>BTree\<close>, \<open>Machines\<close>, \<open>Json\<close>, \<open>Utf8\<close>, \<open>FileSys\<close>, \<open>TextEdit\<close>: the standard library as far as
    the code uses it (strings as UTF-8 bytes, ordered maps, JSON values, lossy decoding, paths and a
    file system with symbolic links and injected faults), and the locales for machines and maps.
  \<^item> \<open>Sse\<close>, \<open>SseCorrect\<close>: \<open>api/src/sse.rs\<close>; the frames a body yields do not depend on its chunks.
  \<^item> \<open>ApiTypes\<close>, \<open>StreamState\<close>, \<open>StreamSpec\<close>, \<open>StreamCorrect\<close>: \<open>api/src/types.rs\<close> and the stream state
    machine of \<open>api/src/client.rs\<close>, against a specification per tool call.
  \<^item> \<open>ChatRequest\<close>, \<open>ApiError\<close>, \<open>ApiClient\<close>, \<open>ApiClientCorrect\<close>: requests and their sanitiser, errors,
    retries with backoff, and reading a stream, of \<open>client.rs\<close> and \<open>error.rs\<close>.
  \<^item> \<open>Permissions\<close>, \<open>Conversation\<close>, \<open>ConversationCorrect\<close>, \<open>TurnStreams\<close>: \<open>runtime/src/lib.rs\<close>, both turn
    loops; the session stays a transcript, and streamed and whole turns agree.
  \<^item> \<open>Tools\<close>: \<open>tools/src/lib.rs\<close>; what a tool may change. \<open>SessionStore\<close>, \<open>Config\<close>, \<open>Mcp\<close>, \<open>Usage\<close>:
    \<open>runtime/src/session.rs\<close>, \<open>config.rs\<close>, \<open>mcp.rs\<close> with \<open>mcp_tool_adapter.rs\<close>, \<open>usage.rs\<close>.
    \<open>Telemetry\<close>, \<open>Plugins\<close>, \<open>Commands\<close>: the crates of these names.

  \<^bold>\<open>Theories of the reference runtime\<close> (\<open>claw-rust/crates/runtime/src/\<close>).
  \<^item> \<open>RefJson\<close>, \<open>RefJsonCorrect\<close>, \<open>RefUtf8\<close>: \<open>json.rs\<close>; values come back from their rendering, and the
    parser ends on every text.
  \<^item> \<open>Registry\<close>, \<open>RefTasks\<close>: \<open>task_packet.rs\<close>, \<open>task_registry.rs\<close>, \<open>team_cron_registry.rs\<close>.
  \<^item> \<open>RefLanes\<close>: \<open>green_contract.rs\<close>, \<open>branch_lock.rs\<close>, \<open>policy_engine.rs\<close>, \<open>stale_branch.rs\<close>, \<open>stale_base.rs\<close>
    and \<open>tools/src/lane_completion.rs\<close>.
  \<^item> \<open>RefPermissions\<close>: \<open>permissions.rs\<close>, \<open>permission_enforcer.rs\<close>. \<open>RefBash\<close>: \<open>bash_validation.rs\<close>.
  \<^item> \<open>RefScreen\<close>, \<open>RefWorker\<close>, \<open>RefWorkerCorrect\<close>: \<open>worker_boot.rs\<close>. \<open>RefRecovery\<close>: \<open>recovery_recipes.rs\<close>.
  \<^item> \<open>RefLifecycle\<close>: \<open>mcp_lifecycle_hardened.rs\<close>, \<open>plugin_lifecycle.rs\<close>. \<open>RefSummary\<close>:
    \<open>summary_compression.rs\<close>.
  \<^item> \<open>RefSession\<close>, \<open>RefSessionFile\<close>, \<open>RefSessionCorrect\<close>: \<open>session.rs\<close>; a session and its file.
  \<^item> \<open>RefCompact\<close>, \<open>RefCompactCorrect\<close>: \<open>compact.rs\<close>; compaction keeps tool calls with their results.
  \<^item> \<open>RefHooks\<close>, \<open>RefHooksCorrect\<close>: \<open>hooks.rs\<close>; the result of an event's hooks from their outcomes.
  \<^item> \<open>RefUsage\<close>, \<open>RefConversation\<close>, \<open>RefConversationCorrect\<close>: \<open>usage.rs\<close>, \<open>conversation.rs\<close>; a turn leaves a
    transcript, and tools that a rule denies never run.
  \<^item> \<open>RefSse\<close>: \<open>sse.rs\<close>; written events are read back in any chunks. \<open>RefTrust\<close>: \<open>trust_resolver.rs\<close>, over
    the file system. \<open>RefOauth\<close>: \<open>oauth.rs\<close>; encodings that lose nothing, and the credentials file.
  \<^item> \<open>RefFiles\<close>, \<open>RefFilesCorrect\<close>: \<open>file_ops.rs\<close>; what the workspace functions may touch, and brace patterns.
    \<open>RefSandbox\<close>: \<open>sandbox.rs\<close>. \<open>RefConfigCheck\<close>, \<open>RefConfig\<close>, \<open>RefConfigCorrect\<close>: \<open>config_validate.rs\<close> and
    \<open>config.rs\<close>; which file settles a setting, and that merged settings keep the schema.
  \<^item> \<open>RefSessionControl\<close>, \<open>RefSessionControlCorrect\<close>: \<open>session_control.rs\<close>; whose sessions are listed and loaded.
    \<open>RefLaneEvents\<close>: \<open>lane_events.rs\<close>; the outcome of a burst of events, and which repeated events are dropped.

  \<^bold>\<open>Theories of the reference API crate\<close> (\<open>claw-rust/crates/api/src/\<close>, \<open>telemetry/src/\<close>).
  \<^item> \<open>RefTelemetry\<close>, \<open>RefApiTypes\<close>, \<open>RefProviders\<close>, \<open>RefPromptCache\<close>, \<open>RefPromptCacheCorrect\<close>: \<open>telemetry/src/lib.rs\<close>,
    \<open>types.rs\<close> and \<open>error.rs\<close>, \<open>providers/mod.rs\<close>, \<open>prompt_cache.rs\<close>.
  \<^item> \<open>RefOpenAi\<close>, \<open>RefOpenAiClient\<close>, \<open>RefOpenAiCorrect\<close>: \<open>providers/openai_compat.rs\<close>; its streams send the events of
    the port's, and the schemas it sends are strict.
  \<^item> \<open>RefAnthropic\<close>, \<open>RefApiClients\<close>, \<open>RefApiClientsCorrect\<close>: \<open>providers/anthropic.rs\<close>, \<open>sse.rs\<close>, \<open>client.rs\<close>,
    \<open>http_client.rs\<close>; bounded waits, numbered traces, bodies the provider accepts, and answers from the cache.

  \<^bold>\<open>How code became definitions.\<close> A struct is a record, an enum a datatype, and a method a function
  named as in the source, its receiver an argument and its new value part of the result. A \<open>String\<close>
  is the list of its UTF-8 bytes (\<open>json.rs\<close> alone works on scalar values); \<open>u32\<close>, \<open>u64\<close> and \<open>i64\<close> are
  words that wrap as in the release profile, \<open>usize\<close> is a natural number. \<open>Result\<close> is a sum with the
  error on the left; a panic or an endless recursion is a value of its own where one can happen
  (\<open>RefBash\<close>, \<open>RefCompact\<close>). \<open>BTreeMap\<close> is its sorted list of entries. Time is a list of clock
  readings in the world, or an argument; mutexes and atomics have one thread. What is not under the
  repository's control is a parameter: the HTTP client, serde's derived codecs, the model, the
  prompter, the shell, git, glob, regular expressions and file times. A theorem that needs something
  of a parameter says so in a hypothesis, and its witness instantiates it.

  \<^bold>\<open>Interfaces.\<close> A locale states what a client relies on: \<open>ordered_map\<close> (\<open>BTree\<close>), \<open>emitting_machine\<close> and
  \<open>folding_machine\<close> (\<open>Machines\<close>), \<open>id_registry\<close> (\<open>Registry\<close>), and others in the theories of their
  clients; each is interpreted on the model's own definitions.

  \<^bold>\<open>Fuel and bounds.\<close> The JSON parser of \<open>RefJson\<close> has twice the length of the text plus two, which
  \<open>json_parse_total\<close> proves enough. A path walk follows at most 40 links, as the kernel does. The
  read-only check of \<open>RefBash\<close> takes one call more than the command has bytes; \<open>read_only_fuel\<close>
  proves that more changes nothing. The retry loop needs no fuel: at most 33 attempts are made.

  \<^bold>\<open>Not modelled.\<close> The terminal front ends (\<open>solarcido-cli\<close>, \<open>rusty-claude-cli\<close>), the mock service and the
  compatibility harness read and write but decide little. The processes of \<open>mcp_stdio.rs\<close>, \<open>bash.rs\<close>
  and the sandbox belong to the operating system. The reference's tools, commands
  and plugins are large and mostly glue; the port's versions of them are modelled. Floating-point
  cost estimates are left out.
\<close>

end
